(* ===== verification/Prelude.thy ===== *)
theory Prelude
  imports Main "HOL-Library.Char_ord" "HOL-Library.List_Lexorder" "HOL-Library.Sublist"
begin

text \<open>
  Generic facts the components share: the collections of rewrite rules, strictly sorted
  lists under a key, the lexicographic order of byte strings, and separators inside a
  concatenated key.
\<close>

named_theorems policy_defs \<open>definitions a proof about an operation unfolds\<close>
named_theorems eval_simps \<open>equations that evaluate the model on concrete inputs\<close>

text \<open>A Go string is a sequence of bytes; \<open>length\<close> is its length in bytes.\<close>

type_synonym bytes = string

subsection \<open>Lists strictly sorted by a key\<close>

definition strictly_sorted_by :: "('a \<Rightarrow> 'k::linorder) \<Rightarrow> 'a list \<Rightarrow> bool" where
  "strictly_sorted_by key xs \<longleftrightarrow> sorted_wrt (\<lambda>a b. key a < key b) xs"

lemma strictly_sorted_by_Nil [simp]: "strictly_sorted_by key []"
  by (simp add: strictly_sorted_by_def)

lemma strictly_sorted_by_Cons [simp]:
  "strictly_sorted_by key (x # xs) \<longleftrightarrow> (\<forall>y\<in>set xs. key x < key y) \<and> strictly_sorted_by key xs"
  by (simp add: strictly_sorted_by_def)

lemma strictly_sorted_by_filter [intro]:
  "strictly_sorted_by key xs \<Longrightarrow> strictly_sorted_by key (filter P xs)"
  by (simp add: strictly_sorted_by_def sorted_wrt_filter)

lemma strictly_sorted_by_distinct:
  "strictly_sorted_by key xs \<Longrightarrow> distinct (map key xs)"
  by (induction xs) auto

lemma strictly_sorted_by_key_inj:
  "strictly_sorted_by key xs \<Longrightarrow> x \<in> set xs \<Longrightarrow> y \<in> set xs \<Longrightarrow> key x = key y \<Longrightarrow> x = y"
  using strictly_sorted_by_distinct [of key xs] by (auto simp: distinct_map inj_on_def)

lemma strictly_sorted_by_sort_key:
  assumes "distinct (map key xs)"
  shows "strictly_sorted_by key (sort_key key xs)"
proof -
  have "distinct (map key (sort_key key xs))"
    using assms by (simp add: distinct_map)
  then have "sorted_wrt (<) (map key (sort_key key xs))"
    by (simp add: strict_sorted_iff)
  then show ?thesis
    by (simp add: strictly_sorted_by_def sorted_wrt_map)
qed

lemma sort_key_strictly_sorted [simp]:
  "strictly_sorted_by key xs \<Longrightarrow> sort_key key xs = xs"
proof (induction xs)
  case (Cons x xs)
  then show ?case
    by (cases xs) (auto simp: insort_is_Cons less_imp_le)
qed simp

lemma filter_sort_key: "filter P (sort_key key xs) = sort_key key (filter P xs)"
  by (rule filter_sort)

lemma strictly_sorted_by_map:
  "(\<And>x. x \<in> set xs \<Longrightarrow> key (h x) = key x) \<Longrightarrow> strictly_sorted_by key (map h xs) = strictly_sorted_by key xs"
  by (induction xs) auto

lemma strictly_sorted_unique:
  "strictly_sorted_by key xs \<Longrightarrow> strictly_sorted_by key ys \<Longrightarrow> set xs = set ys \<Longrightarrow> xs = ys"
proof (induction xs arbitrary: ys)
  case Nil
  then show ?case by simp
next
  case (Cons x xs)
  then obtain y ys' where ys: "ys = y # ys'" by (cases ys) auto
  have "x = y"
  proof (rule ccontr)
    assume "x \<noteq> y"
    then have "x \<in> set ys'" "y \<in> set xs" using Cons.prems(3) ys by auto
    then show False using Cons.prems(1,2) ys by fastforce
  qed
  moreover have "x \<notin> set xs" "y \<notin> set ys'" using Cons.prems(1,2) ys by auto
  ultimately have "set xs = set ys'" using Cons.prems(3) ys by auto
  then show ?case using Cons ys \<open>x = y\<close> by simp
qed

text \<open>A run over consecutive elements that only ever compares with the previous key.\<close>

fun ascending_from :: "'k::linorder \<Rightarrow> 'k list \<Rightarrow> bool" where
  "ascending_from l [] = True"
| "ascending_from l (k # ks) = (l < k \<and> ascending_from k ks)"

lemma ascending_from_iff:
  "ascending_from l ks \<longleftrightarrow> (\<forall>k\<in>set ks. l < k) \<and> sorted_wrt (<) ks"
  by (induction ks arbitrary: l) (auto intro: less_trans)

subsection \<open>Separators\<close>

lemma append_sep_inj:
  assumes "xs @ c # ys = xs' @ c # ys'" and "c \<notin> set xs" and "c \<notin> set xs'"
  shows "xs = xs' \<and> ys = ys'"
  using assms
proof (induction xs arbitrary: xs')
  case Nil
  then show ?case by (cases xs') auto
next
  case (Cons x xs)
  then show ?case by (cases xs') auto
qed

subsection \<open>Lexicographic order of strings of one length\<close>

lemma lex_append_less:
  fixes a b :: "'a::linorder list"
  assumes "length a = length b"
  shows "a @ x < b @ y \<longleftrightarrow> a < b \<or> (a = b \<and> x < y)"
  using assms
proof (induction a arbitrary: b)
  case Nil
  then show ?case by simp
next
  case (Cons c a)
  then show ?case by (cases b) (auto simp: Cons_less_Cons)
qed

end
