(* ===== verification/Go_Strings.thy ===== *)
theory Go_Strings
  imports Prelude
begin

text \<open>
  What the policy uses of Go's strings: UTF-8 validity and runes, the bounded text check
  of every stored or queried name, the action grammar, trimming and cutting, decimal and
  hexadecimal text. Models \<open>boundedDecisionString\<close>, \<open>validWhy\<close>, \<open>ValidActionName\<close>,
  \<open>actionPart\<close>, \<open>ValidDecisionQuery\<close> of decision_policy.go, \<open>validAnswerID\<close> of
  operator_allow.go, and the text checks of permission_definition.go.
\<close>

subsection \<open>Bytes and runes\<close>

definition code :: "char \<Rightarrow> nat" where
  "code c = of_char c"

lemma code_char [simp]: "code (char_of n) = n mod 256"
  by (simp add: code_def)

lemma code_inj [simp]: "code c = code d \<longleftrightarrow> c = d"
  by (simp add: code_def)

lemma code_less_256: "code c < 256"
  using nat_of_char_less_256 by (simp add: code_def)

definition isCont :: "char \<Rightarrow> bool" where
  "isCont c \<longleftrightarrow> 128 \<le> code c \<and> code c < 192"

text \<open>The first rune of a string and the rest: \<open>None\<close> where Go's UTF-8 validity fails
  (overlong forms, surrogates, values above U+10FFFF, truncated or stray bytes).\<close>

definition nextRune :: "bytes \<Rightarrow> (nat \<times> bytes) option" where
  "nextRune s = (case s of
     [] \<Rightarrow> None
   | c # cs \<Rightarrow>
      (let b = code c in
       if b < 128 then Some (b, cs)
       else if 194 \<le> b \<and> b < 224 then
         (case cs of d # ds \<Rightarrow>
            if isCont d then Some ((b - 192) * 64 + (code d - 128), ds) else None
          | _ \<Rightarrow> None)
       else if 224 \<le> b \<and> b < 240 then
         (case cs of d # e # es \<Rightarrow>
            if (if b = 224 then 160 else 128) \<le> code d \<and> code d < (if b = 237 then 160 else 192) \<and> isCont e
            then Some ((b - 224) * 4096 + (code d - 128) * 64 + (code e - 128), es) else None
          | _ \<Rightarrow> None)
       else if 240 \<le> b \<and> b < 245 then
         (case cs of d # e # g # gs \<Rightarrow>
            if (if b = 240 then 144 else 128) \<le> code d \<and> code d < (if b = 244 then 144 else 192) \<and> isCont e \<and> isCont g
            then Some ((b - 240) * 262144 + (code d - 128) * 4096 + (code e - 128) * 64 + (code g - 128), gs) else None
          | _ \<Rightarrow> None)
       else None))"

lemma nextRune_shorter: "nextRune s = Some (r, t) \<Longrightarrow> length t < length s"
  by (auto simp: nextRune_def Let_def split: list.splits if_splits)

text \<open>Every byte a rune of more than one byte covers is at least 128.\<close>

lemma nextRune_bytes:
  assumes "nextRune s = Some (r, t)"
  shows "(\<exists>c. s = c # t \<and> code c = r \<and> r < 128) \<or>
         (\<exists>us. s = us @ t \<and> (\<forall>c\<in>set us. 128 \<le> code c))"
proof (cases s)
  case Nil
  with assms show ?thesis by (simp add: nextRune_def)
next
  case (Cons c cs)
  show ?thesis
  proof (cases "code c < 128")
    case True
    with assms Cons show ?thesis by (auto simp: nextRune_def)
  next
    case False
    have "\<exists>us. cs = us @ t \<and> (\<forall>c\<in>set us. 128 \<le> code c)"
      using assms Cons False
      by (auto simp: nextRune_def Let_def isCont_def split: list.splits if_splits)
    then obtain us where "cs = us @ t" "\<forall>c\<in>set us. 128 \<le> code c" by blast
    then show ?thesis using Cons False by (auto intro!: exI [of _ "c # us"])
  qed
qed

function runes :: "bytes \<Rightarrow> nat list option" where
  "runes s = (if s = [] then Some []
     else case nextRune s of
       None \<Rightarrow> None
     | Some (r, t) \<Rightarrow> map_option ((#) r) (runes t))"
  by pat_completeness auto
termination
  by (relation "measure length") (auto dest: nextRune_shorter)

declare runes.simps [simp del]

lemma runes_Nil [simp, eval_simps]: "runes [] = Some []"
  by (simp add: runes.simps)

lemma runes_Cons_ascii [eval_simps]:
  "code c < 128 \<Longrightarrow> runes (c # cs) = map_option ((#) (code c)) (runes cs)"
  by (subst runes.simps) (simp add: nextRune_def)

lemma runes_ascii: "list_all (\<lambda>c. code c < 128) s \<Longrightarrow> runes s = Some (map code s)"
  by (induction s) (auto simp: runes_Cons_ascii)

definition validUTF8 :: "bytes \<Rightarrow> bool" where
  "validUTF8 s \<longleftrightarrow> runes s \<noteq> None"

text \<open>\<open>unicode.IsControl\<close>: category Cc.\<close>

definition isControl :: "nat \<Rightarrow> bool" where
  "isControl r \<longleftrightarrow> r < 32 \<or> (127 \<le> r \<and> r < 160)"

lemma runes_low_byte:
  "runes s = Some rs \<Longrightarrow> c \<in> set s \<Longrightarrow> code c < 128 \<Longrightarrow> code c \<in> set rs"
proof (induction s arbitrary: rs rule: runes.induct)
  case (1 s)
  from "1.prems" have ne: "s \<noteq> []" by auto
  with "1.prems"(1) obtain r t rs' where n: "nextRune s = Some (r, t)"
    and rt: "runes t = Some rs'" and rs: "rs = r # rs'"
    by (subst (asm) runes.simps) (auto split: option.splits)
  note IH = "1.IH" [OF ne n refl rt]
  from nextRune_bytes [OF n] show ?case
  proof (elim disjE exE conjE)
    fix d assume "s = d # t" "code d = r" "r < 128"
    with "1.prems" IH rs show ?thesis by auto
  next
    fix us assume "s = us @ t" "\<forall>c\<in>set us. 128 \<le> code c"
    with "1.prems" IH rs show ?thesis by fastforce
  qed
qed

subsection \<open>Bounded text\<close>

definition boundedDecisionString :: "bytes \<Rightarrow> nat \<Rightarrow> bool" where
  "boundedDecisionString v m \<longleftrightarrow>
     length v > 0 \<and> length v \<le> m \<and>
     (case runes v of None \<Rightarrow> False | Some rs \<Rightarrow> list_all (\<lambda>r. \<not> isControl r) rs)"

definition MaxRuleWhy :: nat where "MaxRuleWhy = 256"

definition validWhy :: "bytes \<Rightarrow> bool" where
  "validWhy v \<longleftrightarrow> v = [] \<or> boundedDecisionString v MaxRuleWhy"

definition ValidDecisionQuery :: "bytes \<Rightarrow> bytes \<Rightarrow> bool" where
  "ValidDecisionQuery action resource \<longleftrightarrow>
     boundedDecisionString action 128 \<and> boundedDecisionString resource 1024"

definition NUL :: char where "NUL = char_of (0::nat)"

lemma code_NUL [simp]: "code NUL = 0"
  by (simp add: NUL_def code_def)

lemma bounded_no_control_byte:
  "boundedDecisionString v m \<Longrightarrow> c \<in> set v \<Longrightarrow> 32 \<le> code c \<and> code c \<noteq> 127"
proof (rule ccontr)
  assume b: "boundedDecisionString v m" and c: "c \<in> set v"
    and bad: "\<not> (32 \<le> code c \<and> code c \<noteq> 127)"
  from b obtain rs where rs: "runes v = Some rs" and nc: "list_all (\<lambda>r. \<not> isControl r) rs"
    by (auto simp: boundedDecisionString_def split: option.splits)
  from runes_low_byte [OF rs c] bad have "code c \<in> set rs" by force
  with nc bad show False by (auto simp: list_all_iff isControl_def)
qed

lemma bounded_no_NUL [simp]: "boundedDecisionString v m \<Longrightarrow> NUL \<notin> set v"
  using bounded_no_control_byte [of v m NUL] by auto

lemma bounded_validUTF8: "boundedDecisionString v m \<Longrightarrow> validUTF8 v"
  by (auto simp: boundedDecisionString_def validUTF8_def split: option.splits)

lemma bounded_nonempty: "boundedDecisionString v m \<Longrightarrow> v \<noteq> []"
  by (auto simp: boundedDecisionString_def)

lemma bounded_mono: "boundedDecisionString v m \<Longrightarrow> m \<le> n \<Longrightarrow> boundedDecisionString v n"
  by (auto simp: boundedDecisionString_def)

definition printable :: "bytes \<Rightarrow> bool" where
  "printable s \<longleftrightarrow> list_all (\<lambda>c. 32 \<le> code c \<and> code c < 127) s"

lemma printable_runes: "printable s \<Longrightarrow> runes s = Some (map code s)"
  by (rule runes_ascii) (auto simp: printable_def list_all_iff)

lemma printable_bounded [eval_simps]:
  "printable s \<Longrightarrow> boundedDecisionString s m \<longleftrightarrow> s \<noteq> [] \<and> length s \<le> m"
  by (auto simp: printable_runes boundedDecisionString_def)
     (auto simp: printable_def isControl_def list_all_iff)

lemma printable_validUTF8: "printable s \<Longrightarrow> validUTF8 s"
  by (simp add: printable_runes validUTF8_def)

lemma printable_append [simp]: "printable (a @ b) \<longleftrightarrow> printable a \<and> printable b"
  by (simp add: printable_def)

lemma printable_Nil [simp]: "printable []"
  by (simp add: printable_def)

lemma printable_Cons [simp]: "printable (c # s) \<longleftrightarrow> 32 \<le> code c \<and> code c < 127 \<and> printable s"
  by (simp add: printable_def)

subsection \<open>Action names\<close>

text \<open>\<open>strings.Cut\<close> at one separator byte: before, after, found.\<close>

fun cutAt :: "char \<Rightarrow> bytes \<Rightarrow> bytes \<times> bytes \<times> bool" where
  "cutAt c [] = ([], [], False)"
| "cutAt c (x # xs) =
     (if x = c then ([], xs, True)
      else (case cutAt c xs of (a, b, ok) \<Rightarrow> (x # a, b, ok)))"

lemma cutAt_found: "cutAt c s = (a, b, True) \<Longrightarrow> s = a @ c # b \<and> c \<notin> set a"
  by (induction s arbitrary: a) (auto split: if_splits prod.splits)

definition lowerDigit :: "char \<Rightarrow> bool" where
  "lowerDigit c \<longleftrightarrow> (97 \<le> code c \<and> code c \<le> 122) \<or> (48 \<le> code c \<and> code c \<le> 57)"

definition actionChar :: "char \<Rightarrow> bool" where
  "actionChar c \<longleftrightarrow> lowerDigit c \<or> c \<in> {CHR ''.'', CHR ''_'', CHR ''-''}"

definition actionPart :: "bytes \<Rightarrow> nat \<Rightarrow> bool" where
  "actionPart s m \<longleftrightarrow>
     (case s of [] \<Rightarrow> False
      | c # cs \<Rightarrow> length s \<le> m \<and> lowerDigit c \<and> list_all actionChar cs)"

definition ValidActionName :: "bytes \<Rightarrow> bool" where
  "ValidActionName action =
     (case cutAt (CHR ''/'') action of (owner, name, ok) \<Rightarrow>
        ok \<and> actionPart owner 64 \<and> actionPart name 63)"

lemma code_slash [simp]: "code (CHR ''/'') = 47"
  by (simp add: code_def)

lemma code_punctuation [simp]:
  "code (CHR ''.'') = 46" "code (CHR ''_'') = 95" "code (CHR ''-'') = 45"
  by (simp_all add: code_def)

lemma actionChar_printable: "actionChar c \<Longrightarrow> 32 \<le> code c \<and> code c < 127"
  by (auto simp: actionChar_def lowerDigit_def)

lemma actionPart_printable: "actionPart s m \<Longrightarrow> printable s \<and> s \<noteq> [] \<and> length s \<le> m"
  by (cases s) (auto simp: actionPart_def printable_def list_all_iff lowerDigit_def dest!: actionChar_printable)

text \<open>A registrable action name is one of the bounded strings a rule may name.\<close>

lemma ValidActionName_bounded:
  assumes "ValidActionName a"
  shows "boundedDecisionString a 128"
proof -
  obtain owner name where c: "cutAt (CHR ''/'') a = (owner, name, True)"
    and p: "actionPart owner 64" "actionPart name 63"
    using assms by (auto simp: ValidActionName_def split: prod.splits)
  from cutAt_found [OF c] have a: "a = owner @ CHR ''/'' # name" by simp
  from actionPart_printable [OF p(1)] actionPart_printable [OF p(2)]
  show ?thesis by (simp add: printable_bounded a)
qed

subsection \<open>Answer identities\<close>

definition hexLower :: "char \<Rightarrow> bool" where
  "hexLower c \<longleftrightarrow> (48 \<le> code c \<and> code c \<le> 57) \<or> (97 \<le> code c \<and> code c \<le> 102)"

definition validAnswerID :: "bytes \<Rightarrow> bool" where
  "validAnswerID i \<longleftrightarrow> length i = 32 \<and> list_all hexLower i"

lemma validAnswerID_bounded: "validAnswerID i \<Longrightarrow> boundedDecisionString i 128"
proof -
  assume v: "validAnswerID i"
  then have "printable i" by (auto simp: validAnswerID_def printable_def hexLower_def list_all_iff)
  with v show ?thesis by (cases i) (simp_all add: printable_bounded validAnswerID_def)
qed

subsection \<open>Decimal and hexadecimal text\<close>

definition digit :: "nat \<Rightarrow> char" where
  "digit n = char_of (48 + n)"

definition hexDigit :: "nat \<Rightarrow> char" where
  "hexDigit n = (if n < 10 then char_of (48 + n) else char_of (87 + n))"

lemma code_digit [simp]: "n < 10 \<Longrightarrow> code (digit n) = 48 + n"
  by (simp add: digit_def)

lemma digit_inj [simp]: "m < 10 \<Longrightarrow> n < 10 \<Longrightarrow> digit m = digit n \<longleftrightarrow> m = n"
  by (metis code_digit add_left_cancel)

lemma code_hexDigit: "n < 16 \<Longrightarrow> code (hexDigit n) = (if n < 10 then 48 + n else 87 + n)"
  by (simp add: hexDigit_def)

definition hexEncode :: "bytes \<Rightarrow> bytes" where
  "hexEncode s = concat (map (\<lambda>c. [hexDigit (code c div 16), hexDigit (code c mod 16)]) s)"

lemma length_hexEncode [simp]: "length (hexEncode s) = 2 * length s"
  by (induction s) (simp_all add: hexEncode_def)

lemma printable_hexEncode [simp]: "printable (hexEncode s)"
proof (induction s)
  case (Cons c s)
  have "code c div 16 < 16" using code_less_256 [of c] by auto
  moreover have "code c mod 16 < 16" by simp
  ultimately show ?case using Cons by (auto simp: hexEncode_def code_hexDigit)
qed (simp add: hexEncode_def)

function itoa :: "nat \<Rightarrow> bytes" where
  "itoa n = (if n < 10 then [digit n] else itoa (n div 10) @ [digit (n mod 10)])"
  by pat_completeness auto
termination by (relation "measure id") auto

declare itoa.simps [simp del]

definition isDigit :: "char \<Rightarrow> bool" where
  "isDigit c \<longleftrightarrow> 48 \<le> code c \<and> code c \<le> 57"

definition digitsValue :: "bytes \<Rightarrow> nat" where
  "digitsValue s = foldl (\<lambda>n c. 10 * n + (code c - 48)) 0 s"

definition allDigits :: "bytes \<Rightarrow> bool" where
  "allDigits s \<longleftrightarrow> s \<noteq> [] \<and> list_all isDigit s"

lemma isDigit_digit [simp]: "n < 10 \<Longrightarrow> isDigit (digit n)"
  by (simp add: isDigit_def)

lemma digitsValue_snoc: "digitsValue (s @ [c]) = 10 * digitsValue s + (code c - 48)"
  by (simp add: digitsValue_def)

lemma itoa_digits: "allDigits (itoa n) \<and> digitsValue (itoa n) = n"
proof (induction n rule: itoa.induct)
  case (1 n)
  show ?case
  proof (cases "n < 10")
    case True
    then show ?thesis by (subst (1 2) itoa.simps) (simp add: allDigits_def digitsValue_def)
  next
    case False
    with 1 have "allDigits (itoa (n div 10))" "digitsValue (itoa (n div 10)) = n div 10" by auto
    then show ?thesis using False
      by (subst (1 2) itoa.simps) (simp add: allDigits_def digitsValue_snoc)
  qed
qed

text \<open>\<open>strconv.ParseUint\<close> in base 10 with a bound on the value.\<close>

definition parseUint :: "bytes \<Rightarrow> nat \<Rightarrow> nat option" where
  "parseUint s bound = (if allDigits s \<and> digitsValue s < bound then Some (digitsValue s) else None)"

text \<open>\<open>strconv.Atoi\<close> on a 64-bit platform: an optional sign, then digits, in range.\<close>

definition atoi :: "bytes \<Rightarrow> int option" where
  "atoi s =
     (let (neg, ds) = (case s of c # cs \<Rightarrow>
            (if c = CHR ''-'' then (True, cs) else if c = CHR ''+'' then (False, cs) else (False, s))
          | [] \<Rightarrow> (False, []))
      in if \<not> allDigits ds then None
         else let n = int (digitsValue ds); v = (if neg then - n else n)
              in if - (2 ^ 63) \<le> v \<and> v < 2 ^ 63 then Some v else None)"

lemma atoi_digits:
  assumes "allDigits s" and "digitsValue s < 2 ^ 63"
  shows "atoi s = Some (int (digitsValue s))"
proof -
  from assms(1) obtain c cs where s: "s = c # cs" "isDigit c" by (cases s) (auto simp: allDigits_def)
  then have "c \<noteq> CHR ''-''" "c \<noteq> CHR ''+''" by (auto simp: isDigit_def code_def)
  with assms s show ?thesis by (simp add: atoi_def Let_def)
qed

lemma atoi_itoa: "n < 2 ^ 63 \<Longrightarrow> atoi (itoa n) = Some (int n)"
  using itoa_digits [of n] by (simp add: atoi_digits)

subsection \<open>Trimming\<close>

text \<open>\<open>unicode.IsSpace\<close>.\<close>

definition isSpace :: "nat \<Rightarrow> bool" where
  "isSpace r \<longleftrightarrow> (9 \<le> r \<and> r \<le> 13) \<or> r = 32 \<or> r = 133 \<or> r = 160 \<or> r = 5760 \<or>
     (8192 \<le> r \<and> r \<le> 8202) \<or> r = 8232 \<or> r = 8233 \<or> r = 8239 \<or> r = 8287 \<or> r = 12288"

function trimLeft :: "bytes \<Rightarrow> bytes" where
  "trimLeft s = (case nextRune s of
       Some (r, t) \<Rightarrow> if isSpace r then trimLeft t else s
     | None \<Rightarrow> s)"
  by pat_completeness auto
termination by (relation "measure length") (auto dest: nextRune_shorter)

declare trimLeft.simps [simp del]

text \<open>The length of a trailing space rune; a space rune has at most three bytes.\<close>

definition trailingSpace :: "bytes \<Rightarrow> nat option" where
  "trailingSpace s = find (\<lambda>k. k \<le> length s \<and>
      (case nextRune (drop (length s - k) s) of
         Some (r, []) \<Rightarrow> isSpace r
       | _ \<Rightarrow> False)) [1, 2, 3]"

lemma trailingSpace_bounds: "trailingSpace s = Some k \<Longrightarrow> 0 < k \<and> k \<le> length s"
  by (auto simp: trailingSpace_def split: if_splits)

function trimRight :: "bytes \<Rightarrow> bytes" where
  "trimRight s = (case trailingSpace s of
       None \<Rightarrow> s
     | Some k \<Rightarrow> trimRight (take (length s - k) s))"
  by pat_completeness auto
termination by (relation "measure length") (auto dest: trailingSpace_bounds)

declare trimRight.simps [simp del]

definition trimSpace :: "bytes \<Rightarrow> bytes" where
  "trimSpace s = trimRight (trimLeft s)"

end
