(* ===== verification/Json_Text.thy ===== *)
theory Json_Text
  imports Go_Strings
begin

text \<open>
  \<open>encoding/json\<close> as the state file and the digests use it: objects with their fields in
  declaration order, arrays, strings with Go's escapes (HTML escapes included), booleans
  and null, and \<open>encoding/base64\<close> for byte slices. The state holds no number. Writing is
  \<open>jprint\<close>. Reading is \<open>junmarshal\<close>, which accepts at least every text that \<open>jprint\<close>
  writes; \<open>decodeDecision\<close> compares with the canonical text afterwards, as the code does,
  so a looser reader would accept the same files.
\<close>

datatype json = JNull | JBool bool | JStr bytes | JArr "json list" | JObj "(bytes \<times> json) list"

abbreviation quote :: char where "quote \<equiv> CHR 0x22"
abbreviation backslash :: char where "backslash \<equiv> CHR 0x5C"

subsection \<open>Strings\<close>

definition unicodeEscape :: "nat \<Rightarrow> bytes" where
  "unicodeEscape r = [backslash, CHR ''u'', hexDigit (r div 4096 mod 16), hexDigit (r div 256 mod 16),
     hexDigit (r div 16 mod 16), hexDigit (r mod 16)]"

definition escapeRune :: "nat \<Rightarrow> bytes \<Rightarrow> bytes" where
  "escapeRune r raw =
     (if r = 34 then [backslash, quote]
      else if r = 92 then [backslash, backslash]
      else if r = 8 then [backslash, CHR ''b'']
      else if r = 12 then [backslash, CHR ''f'']
      else if r = 10 then [backslash, CHR ''n'']
      else if r = 13 then [backslash, CHR ''r'']
      else if r = 9 then [backslash, CHR ''t'']
      else if r < 32 \<or> r = 60 \<or> r = 62 \<or> r = 38 \<or> r = 8232 \<or> r = 8233 then unicodeEscape r
      else raw)"

function escapeString :: "bytes \<Rightarrow> bytes" where
  "escapeString s = (if s = [] then []
     else case nextRune s of
       None \<Rightarrow> unicodeEscape 65533 @ escapeString (tl s)
     | Some (r, t) \<Rightarrow> escapeRune r (take (length s - length t) s) @ escapeString t)"
  by pat_completeness auto
termination by (relation "measure length") (auto dest: nextRune_shorter)

declare escapeString.simps [simp del]

definition hexValue :: "char \<Rightarrow> nat option" where
  "hexValue c = (let n = code c in
     if 48 \<le> n \<and> n \<le> 57 then Some (n - 48)
     else if 97 \<le> n \<and> n \<le> 102 then Some (n - 87)
     else if 65 \<le> n \<and> n \<le> 70 then Some (n - 55) else None)"

definition hex4 :: "char \<Rightarrow> char \<Rightarrow> char \<Rightarrow> char \<Rightarrow> nat option" where
  "hex4 a b c d = (case (hexValue a, hexValue b, hexValue c, hexValue d) of
     (Some w, Some x, Some y, Some z) \<Rightarrow> Some (((w * 16 + x) * 16 + y) * 16 + z) | _ \<Rightarrow> None)"

text \<open>The UTF-8 bytes of a rune of the basic plane.\<close>

definition utf8 :: "nat \<Rightarrow> bytes" where
  "utf8 r = (if r < 128 then [char_of r]
     else if r < 2048 then [char_of (192 + r div 64), char_of (128 + r mod 64)]
     else [char_of (224 + r div 4096), char_of (128 + r div 64 mod 64), char_of (128 + r mod 64)])"

definition simpleEscape :: "char \<Rightarrow> char option" where
  "simpleEscape e = map_of [(quote, quote), (backslash, backslash), (CHR ''/'', CHR ''/''),
     (CHR ''b'', CHR 0x08), (CHR ''f'', CHR 0x0C), (CHR ''n'', CHR 0x0A), (CHR ''r'', CHR 0x0D),
     (CHR ''t'', CHR 0x09)] e"

definition prepend :: "bytes \<Rightarrow> (bytes \<times> bytes) option \<Rightarrow> (bytes \<times> bytes) option" where
  "prepend p = map_option (\<lambda>(t, r). (p @ t, r))"

fun readString :: "bytes \<Rightarrow> (bytes \<times> bytes) option" where
  "readString [] = None"
| "readString (c # s) =
     (if c = quote then Some ([], s)
      else if c = backslash then
        (case s of
           [] \<Rightarrow> None
         | e # s1 \<Rightarrow>
             if e = CHR ''u'' then
               (case s1 of
                  h1 # h2 # h3 # h4 # s2 \<Rightarrow>
                    (case hex4 h1 h2 h3 h4 of None \<Rightarrow> None | Some r \<Rightarrow> prepend (utf8 r) (readString s2))
                | _ \<Rightarrow> None)
             else (case simpleEscape e of None \<Rightarrow> None | Some x \<Rightarrow> prepend [x] (readString s1)))
      else prepend [c] (readString s))"

declare readString.simps [simp del]

lemma prepend_Some [simp]: "prepend p (Some (t, r)) = Some (p @ t, r)"
  by (simp add: prepend_def)

lemma readString_raw:
  "\<forall>c\<in>set us. 128 \<le> code c \<Longrightarrow> readString (us @ x) = prepend us (readString x)"
proof (induction us)
  case Nil
  then show ?case by (cases "readString x") (auto simp: prepend_def)
next
  case (Cons c us)
  then have "c \<noteq> quote" "c \<noteq> backslash" by (auto simp: code_def)
  with Cons show ?case by (cases "readString x") (auto simp: readString.simps prepend_def)
qed

lemma hexValue_hexDigit [simp]: "n < 16 \<Longrightarrow> hexValue (hexDigit n) = Some n"
  by (simp add: hexValue_def code_hexDigit Let_def)

lemma four_digits:
  fixes r :: nat
  assumes "r < 65536"
  shows "((r div 4096 mod 16 * 16 + r div 256 mod 16) * 16 + r div 16 mod 16) * 16 + r mod 16 = r"
proof -
  define a b c where "a = r div 16" and "b = a div 16" and "c = b div 16"
  have q: "r div 256 = b" "r div 4096 = c"
    by (simp_all add: a_def b_def c_def flip: div_mult2_eq)
  have "r div 4096 < 16" using assms by (simp add: div_less_iff_less_mult)
  then have "c mod 16 = c" by (simp add: q)
  moreover have "16 * c + b mod 16 = b" "16 * b + a mod 16 = a" "16 * a + r mod 16 = r"
    unfolding c_def b_def a_def by (simp_all only: mult_div_mod_eq)
  ultimately show ?thesis unfolding q a_def [symmetric] by (simp add: mult.commute)
qed

lemma hex4_digits:
  "r < 65536 \<Longrightarrow> hex4 (hexDigit (r div 4096 mod 16)) (hexDigit (r div 256 mod 16))
     (hexDigit (r div 16 mod 16)) (hexDigit (r mod 16)) = Some r"
  by (simp only: hex4_def hexValue_hexDigit mod_less_divisor prod.case option.case four_digits zero_less_numeral)

lemma readString_unicode:
  assumes "r < 65536"
  shows "readString (unicodeEscape r @ x) = prepend (utf8 r) (readString x)"
  by (simp add: unicodeEscape_def readString.simps hex4_digits [OF assms] code_def del: mod_less)

text \<open>The two separators above ASCII that Go escapes have one encoding each.\<close>

lemma separator_digits:
  fixes x y z :: nat
  assumes "x * 4096 + y * 64 + z = 8192 + k" and "y < 64" and "z < 64" and "k < 64"
  shows "x = 2 \<and> y = 0 \<and> z = k"
proof -
  have "x = 2" using assms by linarith
  moreover from this have "y = 0" using assms by linarith
  ultimately show ?thesis using assms by linarith
qed

lemma separator_bytes:
  fixes b d e k :: nat
  assumes "(b - 224) * 4096 + (d - 128) * 64 + (e - 128) = 8192 + k" and "224 \<le> b"
    and "128 \<le> d" "d < 192" and "128 \<le> e" "e < 192" and "k < 64"
  shows "b = 226 \<and> d = 128 \<and> e = 128 + k"
proof -
  have "d - 128 < 64" "e - 128 < 64" using assms by linarith+
  then show ?thesis using separator_digits [OF assms(1)] assms by linarith
qed

lemma char_code: "code c = n \<Longrightarrow> c = char_of n"
  by (metis code_def char_of_char)

lemma nextRune_separator:
  assumes n: "nextRune s = Some (8192 + k, t)" and k: "k = 40 \<or> k = 41"
  shows "s = utf8 (8192 + k) @ t"
proof -
  have k64: "k < 64" using k by auto
  obtain b cs where s: "s = b # cs" using n by (cases s) (auto simp: nextRune_def)
  have "\<not> code b < 128"
  proof
    assume "code b < 128"
    with n have "code b = 8192 + k" by (simp add: s nextRune_def)
    with \<open>code b < 128\<close> show False by simp
  qed
  moreover have "\<not> (194 \<le> code b \<and> code b < 224)"
  proof
    assume r: "194 \<le> code b \<and> code b < 224"
    with n obtain d where "isCont d" "(code b - 192) * 64 + (code d - 128) = 8192 + k"
      by (auto simp: s nextRune_def Let_def split: list.splits if_splits)
    with r show False by (auto simp: isCont_def)
  qed
  moreover have "\<not> (240 \<le> code b \<and> code b < 245)"
  proof
    assume r: "240 \<le> code b \<and> code b < 245"
    then have "\<not> code b < 128" "\<not> (194 \<le> code b \<and> code b < 224)" "\<not> (224 \<le> code b \<and> code b < 240)"
      by auto
    with n r obtain d e g where v: "(code b - 240) * 262144 + (code d - 128) * 4096 + (code e - 128) * 64 + (code g - 128) = 8192 + k"
      and d: "(if code b = 240 then 144 else 128) \<le> code d"
      by (auto simp: s nextRune_def Let_def split: list.splits if_splits)
    have "65536 \<le> (code b - 240) * 262144 + (code d - 128) * 4096"
      using r d by (cases "code b = 240") auto
    with v k64 show False by linarith
  qed
  ultimately have "224 \<le> code b \<and> code b < 240"
    using n by (auto simp: s nextRune_def Let_def split: if_splits)
  with n obtain d e where cs: "cs = d # e # t" and "(code b - 224) * 4096 + (code d - 128) * 64 + (code e - 128) = 8192 + k"
    "224 \<le> code b" "128 \<le> code d" "code d < 192" "128 \<le> code e" "code e < 192"
    by (auto simp: s nextRune_def Let_def isCont_def split: list.splits if_splits)
  with separator_bytes [OF _ _ _ _ _ _ k64] have "code b = 226 \<and> code d = 128 \<and> code e = 128 + k" by blast
  then have "b = char_of (226::nat)" "d = char_of (128::nat)" "e = char_of (128 + k)" by (auto dest: char_code)
  then show ?thesis using k cs by (auto simp: s utf8_def)
qed

lemma control_chars:
  "char_of (8::nat) = CHR 0x08" "char_of (9::nat) = CHR 0x09" "char_of (10::nat) = CHR 0x0A"
  "char_of (12::nat) = CHR 0x0C" "char_of (13::nat) = CHR 0x0D"
  by (rule char_code [symmetric], simp add: code_def)+

lemma readString_rune:
  assumes n: "nextRune s = Some (r, t)"
  shows "readString (escapeRune r (take (length s - length t) s) @ x) =
     prepend (take (length s - length t) s) (readString x)"
proof (cases "r = 8232 \<or> r = 8233")
  case True
  then obtain k where k: "r = 8192 + k" "k = 40 \<or> k = 41" by auto
  with nextRune_separator [of s k t] n have "s = utf8 r @ t" by simp
  then have "take (length s - length t) s = utf8 r" by simp
  moreover have "escapeRune r raw = unicodeEscape r" for raw using True by (auto simp: escapeRune_def)
  moreover have "r < 65536" using True by auto
  ultimately show ?thesis by (simp add: readString_unicode)
next
  case False
  note nosep = this
  from nextRune_bytes [OF n] show ?thesis
  proof (elim disjE exE conjE)
    fix c assume c: "s = c # t" "code c = r" "r < 128"
    then have raw: "take (length s - length t) s = [c]" by (cases "length t") (simp_all add: Suc_diff_le)
    from c have ch: "c = char_of r" by (simp add: char_code)
    show ?thesis
    proof (cases "r < 32 \<or> r = 60 \<or> r = 62 \<or> r = 38")
      case True
      then show ?thesis unfolding raw escapeRune_def using ch c nosep
        by (auto simp: readString.simps simpleEscape_def code_def utf8_def readString_unicode control_chars)
    next
      case False
      have q: "code quote = 34" "code backslash = 92" by (simp_all add: code_def)
      then have "c = quote \<longleftrightarrow> r = 34" "c = backslash \<longleftrightarrow> r = 92" using c(2) by (auto simp flip: code_inj)
      with False nosep show ?thesis unfolding raw escapeRune_def
        by (auto simp: readString.simps simpleEscape_def)
    qed
  next
    fix us assume us: "s = us @ t" "\<forall>c\<in>set us. 128 \<le> code c"
    then have raw: "take (length s - length t) s = us" by simp
    have "128 \<le> r"
    proof (rule ccontr)
      assume "\<not> 128 \<le> r"
      obtain b cs where s: "s = b # cs" using n by (cases s) (auto simp: nextRune_def)
      have "us \<noteq> []" using nextRune_shorter [OF n] us(1) by auto
      then have "128 \<le> code b" using us s by (cases us) auto
      then have "128 \<le> r" using n
        by (auto simp: s nextRune_def Let_def isCont_def split: list.splits if_splits)
      with \<open>\<not> 128 \<le> r\<close> show False by simp
    qed
    then have "escapeRune r us = us" using nosep by (simp add: escapeRune_def)
    then show ?thesis by (simp add: raw readString_raw [OF us(2)])
  qed
qed

lemma readString_escape:
  "validUTF8 s \<Longrightarrow> readString (escapeString s @ quote # x) = Some (s, x)"
proof (induction s rule: escapeString.induct)
  case (1 s)
  show ?case
  proof (cases "s = []")
    case True
    then show ?thesis by (simp add: escapeString.simps readString.simps)
  next
    case False
    with 1(3) obtain r t where n: "nextRune s = Some (r, t)"
      by (cases "nextRune s") (auto simp: validUTF8_def runes.simps [of s])
    with 1(3) False have "validUTF8 t" by (auto simp: validUTF8_def runes.simps [of s])
    with 1(2) [OF False n refl] have IH: "readString (escapeString t @ quote # x) = Some (t, x)" .
    have "take (length s - length t) s @ t = s"
      using nextRune_bytes [OF n] by (auto simp: Suc_diff_le)
    then show ?thesis using n False by (simp add: escapeString.simps [of s] readString_rune IH)
  qed
qed

subsection \<open>Values\<close>

definition printString :: "bytes \<Rightarrow> bytes" where
  "printString s = quote # escapeString s @ [quote]"

fun commaSep :: "bytes list \<Rightarrow> bytes" where
  "commaSep [] = []"
| "commaSep [x] = x"
| "commaSep (x # y # zs) = x @ CHR '','' # commaSep (y # zs)"

fun jprint :: "json \<Rightarrow> bytes" where
  "jprint JNull = ''null''"
| "jprint (JBool b) = (if b then ''true'' else ''false'')"
| "jprint (JStr s) = printString s"
| "jprint (JArr vs) = CHR ''['' # commaSep (map jprint vs) @ '']''"
| "jprint (JObj ms) = CHR ''{'' # commaSep (map (\<lambda>(k, v). printString k @ CHR '':'' # jprint v) ms) @ ''}''"

fun stripPrefix :: "bytes \<Rightarrow> bytes \<Rightarrow> bytes option" where
  "stripPrefix [] s = Some s"
| "stripPrefix (c # p) [] = None"
| "stripPrefix (c # p) (d # s) = (if c = d then stripPrefix p s else None)"

text \<open>A value, then the rest. The number bounds the nesting and the width; the length of the
  text is enough.\<close>

fun readValue :: "nat \<Rightarrow> bytes \<Rightarrow> (json \<times> bytes) option"
  and readItems :: "nat \<Rightarrow> bytes \<Rightarrow> (json list \<times> bytes) option"
  and readMembers :: "nat \<Rightarrow> bytes \<Rightarrow> ((bytes \<times> json) list \<times> bytes) option" where
  "readValue 0 s = None"
| "readValue (Suc n) s = (case s of
     [] \<Rightarrow> None
   | c # r \<Rightarrow>
      if c = quote then map_option (\<lambda>(t, x). (JStr t, x)) (readString r)
      else if c = CHR ''['' then
        (case r of [] \<Rightarrow> None
         | d # x \<Rightarrow> if d = CHR '']'' then Some (JArr [], x) else map_option (\<lambda>(vs, y). (JArr vs, y)) (readItems n r))
      else if c = CHR ''{'' then
        (case r of [] \<Rightarrow> None
         | d # x \<Rightarrow> if d = CHR ''}'' then Some (JObj [], x) else map_option (\<lambda>(ms, y). (JObj ms, y)) (readMembers n r))
      else case stripPrefix ''null'' s of Some x \<Rightarrow> Some (JNull, x)
      | None \<Rightarrow> (case stripPrefix ''true'' s of Some x \<Rightarrow> Some (JBool True, x)
      | None \<Rightarrow> map_option (\<lambda>x. (JBool False, x)) (stripPrefix ''false'' s)))"
| "readItems 0 s = None"
| "readItems (Suc n) s = (case readValue n s of
     None \<Rightarrow> None
   | Some (v, []) \<Rightarrow> None
   | Some (v, c # r) \<Rightarrow>
       if c = CHR '']'' then Some ([v], r)
       else if c = CHR '','' then map_option (\<lambda>(vs, y). (v # vs, y)) (readItems n r)
       else None)"
| "readMembers 0 s = None"
| "readMembers (Suc n) s = (case s of
     [] \<Rightarrow> None
   | q # s1 \<Rightarrow> if q \<noteq> quote then None
     else (case readString s1 of
       None \<Rightarrow> None
     | Some (k, []) \<Rightarrow> None
     | Some (k, col # s2) \<Rightarrow> if col \<noteq> CHR '':'' then None
       else (case readValue n s2 of
         None \<Rightarrow> None
       | Some (v, []) \<Rightarrow> None
       | Some (v, c # r) \<Rightarrow>
           if c = CHR ''}'' then Some ([(k, v)], r)
           else if c = CHR '','' then map_option (\<lambda>(ms, y). ((k, v) # ms, y)) (readMembers n r)
           else None)))"

definition junmarshal :: "bytes \<Rightarrow> json option" where
  "junmarshal s = (case readValue (length s) s of Some (v, []) \<Rightarrow> Some v | _ \<Rightarrow> None)"

text \<open>Every string of a value is valid UTF-8, so Go writes it without replacement.\<close>

fun jvalid :: "json \<Rightarrow> bool" where
  "jvalid (JStr s) = validUTF8 s"
| "jvalid (JArr vs) = list_all jvalid vs"
| "jvalid (JObj ms) = list_all (\<lambda>(k, v). validUTF8 k \<and> jvalid v) ms"
| "jvalid _ = True"

lemma commaSep_Cons: "commaSep (x # xs) = (if xs = [] then x else x @ CHR '','' # commaSep xs)"
  by (cases xs) simp_all

lemma jprint_head: "\<exists>c r. jprint v = c # r \<and> c \<noteq> CHR '']'' \<and> c \<noteq> CHR ''}''"
  by (cases v) (auto simp: printString_def)

abbreviation printMember :: "bytes \<times> json \<Rightarrow> bytes" where
  "printMember \<equiv> \<lambda>(k, v). printString k @ CHR '':'' # jprint v"

lemma commaSep_head:
  assumes "xs \<noteq> []" and "\<And>x. x \<in> set xs \<Longrightarrow> \<exists>c r. x = c # r \<and> P c"
  shows "\<exists>c r. commaSep xs = c # r \<and> P c"
proof -
  obtain x ys where xs: "xs = x # ys" using assms(1) by (cases xs) auto
  with assms(2) [of x] obtain c r where "x = c # r" "P c" by auto
  then show ?thesis by (auto simp: xs commaSep_Cons)
qed

lemma printMember_head: "x \<in> set (map printMember ms) \<Longrightarrow> \<exists>c r. x = c # r \<and> c \<noteq> CHR ''}''"
  by (auto simp: printString_def)

lemma jprint_length_pos: "0 < length (jprint v)"
  using jprint_head [of v] by auto

lemma read_print:
  "(\<forall>v x. jvalid v \<longrightarrow> length (jprint v) \<le> n \<longrightarrow> readValue n (jprint v @ x) = Some (v, x)) \<and>
   (\<forall>vs x. vs \<noteq> [] \<longrightarrow> list_all jvalid vs \<longrightarrow> length (commaSep (map jprint vs)) < n \<longrightarrow>
     readItems n (commaSep (map jprint vs) @ CHR '']'' # x) = Some (vs, x)) \<and>
   (\<forall>ms x. ms \<noteq> [] \<longrightarrow> list_all (\<lambda>(k, v). validUTF8 k \<and> jvalid v) ms \<longrightarrow>
     length (commaSep (map printMember ms)) < n \<longrightarrow>
     readMembers n (commaSep (map printMember ms) @ CHR ''}'' # x) = Some (ms, x))"
proof (induction n)
  case 0
  show ?case using jprint_length_pos by auto
next
  case (Suc n)
  then have V: "jvalid v \<Longrightarrow> length (jprint v) \<le> n \<Longrightarrow> readValue n (jprint v @ x) = Some (v, x)"
    and I: "vs \<noteq> [] \<Longrightarrow> list_all jvalid vs \<Longrightarrow> length (commaSep (map jprint vs)) < n \<Longrightarrow>
       readItems n (commaSep (map jprint vs) @ CHR '']'' # x) = Some (vs, x)"
    and M: "ms \<noteq> [] \<Longrightarrow> list_all (\<lambda>(k, v). validUTF8 k \<and> jvalid v) ms \<Longrightarrow>
       length (commaSep (map printMember ms)) < n \<Longrightarrow>
       readMembers n (commaSep (map printMember ms) @ CHR ''}'' # x) = Some (ms, x)" for v vs ms x
    by blast+
  have "readValue (Suc n) (jprint v @ x) = Some (v, x)" if v: "jvalid v" "length (jprint v) \<le> Suc n" for v x
  proof (cases v)
    case (JStr s)
    with v show ?thesis by (simp add: printString_def readString_escape)
  next
    case (JArr vs)
    show ?thesis
    proof (cases "vs = []")
      case False
      then obtain c r where h: "commaSep (map jprint vs) = c # r" "c \<noteq> CHR '']''"
        using commaSep_head [of "map jprint vs" "\<lambda>c. c \<noteq> CHR '']''"] jprint_head by force
      have "readItems n (commaSep (map jprint vs) @ CHR '']'' # x) = Some (vs, x)"
        using I [OF False] v JArr by simp
      with h show ?thesis by (simp add: JArr)
    qed (simp add: JArr)
  next
    case (JObj ms)
    show ?thesis
    proof (cases "ms = []")
      case False
      then obtain c r where h: "commaSep (map printMember ms) = c # r" "c \<noteq> CHR ''}''"
        using commaSep_head [of "map printMember ms" "\<lambda>c. c \<noteq> CHR ''}''"] printMember_head False by auto
      have "readMembers n (commaSep (map printMember ms) @ CHR ''}'' # x) = Some (ms, x)"
        using M [OF False] v JObj by simp
      with h show ?thesis by (simp add: JObj)
    qed (simp add: JObj)
  qed auto
  moreover have "readItems (Suc n) (commaSep (map jprint vs) @ CHR '']'' # x) = Some (vs, x)"
    if "vs \<noteq> []" "list_all jvalid vs" "length (commaSep (map jprint vs)) < Suc n" for vs x
  proof -
    note prems = that
    obtain v ws where vs: "vs = v # ws" using prems(1) by (cases vs) auto
    with prems show ?thesis
      by (cases "ws = []") (auto simp: commaSep_Cons V I)
  qed
  moreover have "readMembers (Suc n) (commaSep (map printMember ms) @ CHR ''}'' # x) = Some (ms, x)"
    if "ms \<noteq> []" "list_all (\<lambda>(k, v). validUTF8 k \<and> jvalid v) ms" "length (commaSep (map printMember ms)) < Suc n" for ms x
  proof -
    note prems = that
    obtain k v ws where ms: "ms = (k, v) # ws" using prems(1) by (cases ms) auto
    with prems show ?thesis
      by (cases "ws = []") (auto simp: commaSep_Cons printString_def readString_escape V M [simplified printString_def, simplified])
  qed
  ultimately show ?case by blast
qed

theorem junmarshal_jprint: "jvalid v \<Longrightarrow> junmarshal (jprint v) = Some v"
proof -
  assume "jvalid v"
  then have "readValue (length (jprint v)) (jprint v @ []) = Some (v, [])"
    using read_print [of "length (jprint v)"] by blast
  then show ?thesis by (simp add: junmarshal_def)
qed

lemma jprint_inj: "jvalid v \<Longrightarrow> jvalid w \<Longrightarrow> jprint v = jprint w \<Longrightarrow> v = w"
  by (metis junmarshal_jprint option.inject)

subsection \<open>Base 64\<close>

definition base64Char :: "nat \<Rightarrow> char" where
  "base64Char n = (if n < 26 then char_of (65 + n) else if n < 52 then char_of (71 + n)
     else if n < 62 then char_of (n - 4) else if n = 62 then CHR ''+'' else CHR ''/'')"

definition base64Value :: "char \<Rightarrow> nat option" where
  "base64Value c = (let n = code c in
     if 65 \<le> n \<and> n \<le> 90 then Some (n - 65) else if 97 \<le> n \<and> n \<le> 122 then Some (n - 71)
     else if 48 \<le> n \<and> n \<le> 57 then Some (n + 4) else if n = 43 then Some 62 else if n = 47 then Some 63 else None)"

fun base64 :: "bytes \<Rightarrow> bytes" where
  "base64 [] = []"
| "base64 [a] = [base64Char (code a div 4), base64Char (code a mod 4 * 16), CHR ''='', CHR ''='']"
| "base64 [a, b] = [base64Char (code a div 4), base64Char (code a mod 4 * 16 + code b div 16),
     base64Char (code b mod 16 * 4), CHR ''='']"
| "base64 (a # b # c # s) = base64Char (code a div 4) # base64Char (code a mod 4 * 16 + code b div 16) #
     base64Char (code b mod 16 * 4 + code c div 64) # base64Char (code c mod 64) # base64 s"

fun unbase64 :: "bytes \<Rightarrow> bytes option" where
  "unbase64 [] = Some []"
| "unbase64 (w # x # y # z # s) =
     (case (base64Value w, base64Value x) of
        (Some w', Some x') \<Rightarrow>
          if z = CHR ''='' then
            (if s \<noteq> [] then None
             else if y = CHR ''='' then Some [char_of (w' * 4 + x' div 16)]
             else map_option (\<lambda>y'. [char_of (w' * 4 + x' div 16), char_of (x' mod 16 * 16 + y' div 4)]) (base64Value y))
          else (case (base64Value y, base64Value z) of
            (Some y', Some z') \<Rightarrow> map_option (\<lambda>r. char_of (w' * 4 + x' div 16) # char_of (x' mod 16 * 16 + y' div 4) #
               char_of (y' mod 4 * 64 + z') # r) (unbase64 s)
          | _ \<Rightarrow> None)
      | _ \<Rightarrow> None)"
| "unbase64 _ = None"

lemma base64Value_Char [simp]: "n < 64 \<Longrightarrow> base64Value (base64Char n) = Some n"
  by (auto simp: base64Value_def base64Char_def Let_def) (simp_all add: code_def)

lemma base64Char_not_pad [simp]: "n < 64 \<Longrightarrow> base64Char n \<noteq> CHR ''=''"
proof
  assume "n < 64" "base64Char n = CHR ''=''"
  with base64Value_Char [of n] show False by (simp add: base64Value_def code_def)
qed

lemma sextets [simp]:
  fixes a b c :: char
  shows "code a div 4 < 64" "code a mod 4 * 16 < 64" "code a mod 4 * 16 + code b div 16 < 64"
    "code b mod 16 * 4 < 64" "code b mod 16 * 4 + code c div 64 < 64"
proof -
  have "code a < 256" "code b < 256" "code c < 256" by (rule code_less_256)+
  then have "code a div 4 < 64" "code b div 16 < 16" "code c div 64 < 4" by (auto simp: div_less_iff_less_mult)
  moreover have "code a mod 4 < 4" "code b mod 16 < 16" by simp_all
  ultimately show "code a div 4 < 64" "code a mod 4 * 16 < 64" "code a mod 4 * 16 + code b div 16 < 64"
    "code b mod 16 * 4 < 64" "code b mod 16 * 4 + code c div 64 < 64" by linarith+
qed

lemma octets:
  "char_of (code a) = a" "code b div 16 div 16 = 0" "code b div 16 mod 16 = code b div 16"
  "code c div 64 div 4 = 0" "code c div 64 mod 4 = code c div 64"
proof -
  have "code b div 16 < 16" "code c div 64 < 4"
    using code_less_256 [of b] code_less_256 [of c] by (auto simp: div_less_iff_less_mult)
  then show "char_of (code a) = a" "code b div 16 div 16 = 0" "code b div 16 mod 16 = code b div 16"
    "code c div 64 div 4 = 0" "code c div 64 mod 4 = code c div 64"
    by (simp_all add: code_def)
qed

lemma unbase64_base64: "unbase64 (base64 s) = Some s"
  by (induction s rule: base64.induct) (simp_all add: octets)

lemma printable_base64 [simp]: "printable (base64 s)"
proof -
  have p: "n < 64 \<Longrightarrow> 32 \<le> code (base64Char n) \<and> code (base64Char n) < 127" for n
    by (auto simp: base64Char_def code_def)
  have e: "code (CHR ''='') = 61" by (simp add: code_def)
  show ?thesis by (induction s rule: base64.induct) (auto simp: p e)
qed

subsection \<open>Printed length\<close>

text \<open>A bound on the printed length: a byte prints as at most six.\<close>

fun jweight :: "json \<Rightarrow> nat" where
  "jweight JNull = 4"
| "jweight (JBool b) = 5"
| "jweight (JStr s) = 6 * length s + 2"
| "jweight (JArr vs) = 2 + sum_list (map (\<lambda>v. jweight v + 1) vs)"
| "jweight (JObj ms) = 2 + sum_list (map (\<lambda>(k, v). 6 * length k + jweight v + 4) ms)"

lemma length_escapeString: "length (escapeString s) \<le> 6 * length s"
proof (induction s rule: escapeString.induct)
  case (1 s)
  show ?case
  proof (cases "s = []")
    case True
    then show ?thesis by (simp add: escapeString.simps)
  next
    case False
    show ?thesis
    proof (cases "nextRune s")
      case None
      have "escapeString s = unicodeEscape 65533 @ escapeString (tl s)"
        using False None by (subst escapeString.simps) simp
      with 1(1) [OF False None] False show ?thesis by (cases s) (simp_all add: unicodeEscape_def)
    next
      case (Some rt)
      obtain r t where rt: "nextRune s = Some (r, t)" using Some by (cases rt) simp
      have sh: "length t < length s" using nextRune_shorter [OF rt] .
      have e: "length (escapeRune r raw) \<le> max 6 (length raw)" for raw
        by (simp add: escapeRune_def unicodeEscape_def le_max_iff_disj)
      have "length (escapeString t) \<le> 6 * length t" using 1(2) [OF False rt refl] .
      moreover have "length (escapeRune r (take (length s - length t) s)) \<le> 6 * (length s - length t)"
        using e [of "take (length s - length t) s"] sh by simp
      ultimately show ?thesis using False rt sh by (simp add: escapeString.simps [of s])
    qed
  qed
qed

lemma length_printString: "length (printString s) \<le> 6 * length s + 2"
  using length_escapeString [of s] by (simp add: printString_def)

lemma length_commaSep: "length (commaSep xs) \<le> sum_list (map (\<lambda>x. length x + 1) xs)"
  by (induction xs rule: commaSep.induct) auto

lemma length_jprint: "length (jprint j) \<le> jweight j"
proof (induction j)
  case (JArr vs)
  have "length (commaSep (map jprint vs)) \<le> sum_list (map (\<lambda>v. jweight v + 1) vs)"
    using length_commaSep [of "map jprint vs"] sum_list_mono [of vs "\<lambda>v. length (jprint v) + 1" "\<lambda>v. jweight v + 1"] JArr
    by (simp add: o_def)
  then show ?case by simp
next
  case (JObj ms)
  let ?f = "\<lambda>(k, v). printString k @ CHR '':'' # jprint v"
  have "sum_list (map (\<lambda>m. length (?f m) + 1) ms) \<le> sum_list (map (\<lambda>(k, v). 6 * length k + jweight v + 4) ms)"
  proof (rule sum_list_mono)
    fix m assume m: "m \<in> set ms"
    obtain k v where kv: "m = (k, v)" by fastforce
    with JObj [of m v] m have "length (jprint v) \<le> jweight v" by simp
    then show "length (?f m) + 1 \<le> (case m of (k, v) \<Rightarrow> 6 * length k + jweight v + 4)"
      using length_printString [of k] by (simp add: kv)
  qed
  then show ?case using length_commaSep [of "map ?f ms"] by (simp add: o_def)
qed (use length_printString in simp_all)

end
