(* ===== verification/Wire.thy ===== *)
theory Wire
  imports Go_Strings
begin

text \<open>
  The wire vocabulary of \<open>abstraction/rights/api/rec.go\<close>: the closed enumerations with
  their exact wire words, and the records the policy, the host and the client exchange.
  An enumeration's zero value is no member and never leaves an operation, so the datatypes
  have the members only. A byte slice \<open>Target\<close> is an option, since the code distinguishes
  nil (no target) from a target; every other slice is a list, nil and empty alike.
\<close>

subsection \<open>Enumerations\<close>

datatype DecisionOutcome =
    DecisionOutcomePermitted
  | DecisionOutcomeDenied
  | DecisionOutcomeNotGranted
  | DecisionOutcomeUnknownAction
  | DecisionOutcomeInvalid
  | DecisionOutcomeForbidden
  | DecisionOutcomeUnavailable

fun WireName_DecisionOutcome :: "DecisionOutcome \<Rightarrow> bytes" where
  "WireName_DecisionOutcome DecisionOutcomePermitted = ''permitted''"
| "WireName_DecisionOutcome DecisionOutcomeDenied = ''denied''"
| "WireName_DecisionOutcome DecisionOutcomeNotGranted = ''not_granted''"
| "WireName_DecisionOutcome DecisionOutcomeUnknownAction = ''unknown_action''"
| "WireName_DecisionOutcome DecisionOutcomeInvalid = ''invalid''"
| "WireName_DecisionOutcome DecisionOutcomeForbidden = ''forbidden''"
| "WireName_DecisionOutcome DecisionOutcomeUnavailable = ''unavailable''"

definition ParseDecisionOutcome :: "bytes \<Rightarrow> DecisionOutcome option" where
  "ParseDecisionOutcome word =
    (if word = ''permitted'' then Some DecisionOutcomePermitted
     else if word = ''denied'' then Some DecisionOutcomeDenied
     else if word = ''not_granted'' then Some DecisionOutcomeNotGranted
     else if word = ''unknown_action'' then Some DecisionOutcomeUnknownAction
     else if word = ''invalid'' then Some DecisionOutcomeInvalid
     else if word = ''forbidden'' then Some DecisionOutcomeForbidden
     else if word = ''unavailable'' then Some DecisionOutcomeUnavailable
     else None)"

lemma ParseDecisionOutcome_WireName [simp]: "ParseDecisionOutcome (WireName_DecisionOutcome v) = Some v"
  by (cases v) (simp_all add: ParseDecisionOutcome_def)

lemma printable_DecisionOutcome [simp]: "printable (WireName_DecisionOutcome v)"
  by (cases v) (simp_all add: code_def)

datatype PolicyPageOutcome =
    PolicyPageOutcomePage
  | PolicyPageOutcomeGap
  | PolicyPageOutcomeInvalid
  | PolicyPageOutcomeForbidden
  | PolicyPageOutcomeUnavailable

fun WireName_PolicyPageOutcome :: "PolicyPageOutcome \<Rightarrow> bytes" where
  "WireName_PolicyPageOutcome PolicyPageOutcomePage = ''page''"
| "WireName_PolicyPageOutcome PolicyPageOutcomeGap = ''gap''"
| "WireName_PolicyPageOutcome PolicyPageOutcomeInvalid = ''invalid''"
| "WireName_PolicyPageOutcome PolicyPageOutcomeForbidden = ''forbidden''"
| "WireName_PolicyPageOutcome PolicyPageOutcomeUnavailable = ''unavailable''"

definition ParsePolicyPageOutcome :: "bytes \<Rightarrow> PolicyPageOutcome option" where
  "ParsePolicyPageOutcome word =
    (if word = ''page'' then Some PolicyPageOutcomePage
     else if word = ''gap'' then Some PolicyPageOutcomeGap
     else if word = ''invalid'' then Some PolicyPageOutcomeInvalid
     else if word = ''forbidden'' then Some PolicyPageOutcomeForbidden
     else if word = ''unavailable'' then Some PolicyPageOutcomeUnavailable
     else None)"

lemma ParsePolicyPageOutcome_WireName [simp]: "ParsePolicyPageOutcome (WireName_PolicyPageOutcome v) = Some v"
  by (cases v) (simp_all add: ParsePolicyPageOutcome_def)

lemma printable_PolicyPageOutcome [simp]: "printable (WireName_PolicyPageOutcome v)"
  by (cases v) (simp_all add: code_def)

datatype PolicyEditOutcome =
    PolicyEditOutcomeApplied
  | PolicyEditOutcomeConflict
  | PolicyEditOutcomeInvalid
  | PolicyEditOutcomeForbidden
  | PolicyEditOutcomeUnavailable

fun WireName_PolicyEditOutcome :: "PolicyEditOutcome \<Rightarrow> bytes" where
  "WireName_PolicyEditOutcome PolicyEditOutcomeApplied = ''applied''"
| "WireName_PolicyEditOutcome PolicyEditOutcomeConflict = ''conflict''"
| "WireName_PolicyEditOutcome PolicyEditOutcomeInvalid = ''invalid''"
| "WireName_PolicyEditOutcome PolicyEditOutcomeForbidden = ''forbidden''"
| "WireName_PolicyEditOutcome PolicyEditOutcomeUnavailable = ''unavailable''"

definition ParsePolicyEditOutcome :: "bytes \<Rightarrow> PolicyEditOutcome option" where
  "ParsePolicyEditOutcome word =
    (if word = ''applied'' then Some PolicyEditOutcomeApplied
     else if word = ''conflict'' then Some PolicyEditOutcomeConflict
     else if word = ''invalid'' then Some PolicyEditOutcomeInvalid
     else if word = ''forbidden'' then Some PolicyEditOutcomeForbidden
     else if word = ''unavailable'' then Some PolicyEditOutcomeUnavailable
     else None)"

lemma ParsePolicyEditOutcome_WireName [simp]: "ParsePolicyEditOutcome (WireName_PolicyEditOutcome v) = Some v"
  by (cases v) (simp_all add: ParsePolicyEditOutcome_def)

lemma printable_PolicyEditOutcome [simp]: "printable (WireName_PolicyEditOutcome v)"
  by (cases v) (simp_all add: code_def)

datatype RuleReadOutcome =
    RuleReadOutcomeFound
  | RuleReadOutcomeExpired
  | RuleReadOutcomeUnknown
  | RuleReadOutcomeInvalid
  | RuleReadOutcomeForbidden
  | RuleReadOutcomeUnavailable

fun WireName_RuleReadOutcome :: "RuleReadOutcome \<Rightarrow> bytes" where
  "WireName_RuleReadOutcome RuleReadOutcomeFound = ''found''"
| "WireName_RuleReadOutcome RuleReadOutcomeExpired = ''expired''"
| "WireName_RuleReadOutcome RuleReadOutcomeUnknown = ''unknown''"
| "WireName_RuleReadOutcome RuleReadOutcomeInvalid = ''invalid''"
| "WireName_RuleReadOutcome RuleReadOutcomeForbidden = ''forbidden''"
| "WireName_RuleReadOutcome RuleReadOutcomeUnavailable = ''unavailable''"

definition ParseRuleReadOutcome :: "bytes \<Rightarrow> RuleReadOutcome option" where
  "ParseRuleReadOutcome word =
    (if word = ''found'' then Some RuleReadOutcomeFound
     else if word = ''expired'' then Some RuleReadOutcomeExpired
     else if word = ''unknown'' then Some RuleReadOutcomeUnknown
     else if word = ''invalid'' then Some RuleReadOutcomeInvalid
     else if word = ''forbidden'' then Some RuleReadOutcomeForbidden
     else if word = ''unavailable'' then Some RuleReadOutcomeUnavailable
     else None)"

lemma ParseRuleReadOutcome_WireName [simp]: "ParseRuleReadOutcome (WireName_RuleReadOutcome v) = Some v"
  by (cases v) (simp_all add: ParseRuleReadOutcome_def)

lemma printable_RuleReadOutcome [simp]: "printable (WireName_RuleReadOutcome v)"
  by (cases v) (simp_all add: code_def)

datatype PermissionFirstUse =
    PermissionFirstUseNone
  | PermissionFirstUseExact
  | PermissionFirstUseConsumingPaired

fun WireName_PermissionFirstUse :: "PermissionFirstUse \<Rightarrow> bytes" where
  "WireName_PermissionFirstUse PermissionFirstUseNone = ''none''"
| "WireName_PermissionFirstUse PermissionFirstUseExact = ''exact''"
| "WireName_PermissionFirstUse PermissionFirstUseConsumingPaired = ''consuming_paired''"

definition ParsePermissionFirstUse :: "bytes \<Rightarrow> PermissionFirstUse option" where
  "ParsePermissionFirstUse word =
    (if word = ''none'' then Some PermissionFirstUseNone
     else if word = ''exact'' then Some PermissionFirstUseExact
     else if word = ''consuming_paired'' then Some PermissionFirstUseConsumingPaired
     else None)"

lemma ParsePermissionFirstUse_WireName [simp]: "ParsePermissionFirstUse (WireName_PermissionFirstUse v) = Some v"
  by (cases v) (simp_all add: ParsePermissionFirstUse_def)

lemma printable_PermissionFirstUse [simp]: "printable (WireName_PermissionFirstUse v)"
  by (cases v) (simp_all add: code_def)

datatype ActionEditOutcome =
    ActionEditOutcomeApplied
  | ActionEditOutcomeConflict
  | ActionEditOutcomeUnknown
  | ActionEditOutcomeInvalid
  | ActionEditOutcomeExhausted
  | ActionEditOutcomeForbidden
  | ActionEditOutcomeUnavailable

fun WireName_ActionEditOutcome :: "ActionEditOutcome \<Rightarrow> bytes" where
  "WireName_ActionEditOutcome ActionEditOutcomeApplied = ''applied''"
| "WireName_ActionEditOutcome ActionEditOutcomeConflict = ''conflict''"
| "WireName_ActionEditOutcome ActionEditOutcomeUnknown = ''unknown''"
| "WireName_ActionEditOutcome ActionEditOutcomeInvalid = ''invalid''"
| "WireName_ActionEditOutcome ActionEditOutcomeExhausted = ''exhausted''"
| "WireName_ActionEditOutcome ActionEditOutcomeForbidden = ''forbidden''"
| "WireName_ActionEditOutcome ActionEditOutcomeUnavailable = ''unavailable''"

definition ParseActionEditOutcome :: "bytes \<Rightarrow> ActionEditOutcome option" where
  "ParseActionEditOutcome word =
    (if word = ''applied'' then Some ActionEditOutcomeApplied
     else if word = ''conflict'' then Some ActionEditOutcomeConflict
     else if word = ''unknown'' then Some ActionEditOutcomeUnknown
     else if word = ''invalid'' then Some ActionEditOutcomeInvalid
     else if word = ''exhausted'' then Some ActionEditOutcomeExhausted
     else if word = ''forbidden'' then Some ActionEditOutcomeForbidden
     else if word = ''unavailable'' then Some ActionEditOutcomeUnavailable
     else None)"

lemma ParseActionEditOutcome_WireName [simp]: "ParseActionEditOutcome (WireName_ActionEditOutcome v) = Some v"
  by (cases v) (simp_all add: ParseActionEditOutcome_def)

lemma printable_ActionEditOutcome [simp]: "printable (WireName_ActionEditOutcome v)"
  by (cases v) (simp_all add: code_def)

datatype DecisionSource =
    DecisionSourceNone
  | DecisionSourceOwnRule
  | DecisionSourceTypedBlock
  | DecisionSourceAccountDefault
  | DecisionSourceDefaultExcluded

fun WireName_DecisionSource :: "DecisionSource \<Rightarrow> bytes" where
  "WireName_DecisionSource DecisionSourceNone = ''none''"
| "WireName_DecisionSource DecisionSourceOwnRule = ''own_rule''"
| "WireName_DecisionSource DecisionSourceTypedBlock = ''typed_block''"
| "WireName_DecisionSource DecisionSourceAccountDefault = ''account_default''"
| "WireName_DecisionSource DecisionSourceDefaultExcluded = ''default_excluded''"

definition ParseDecisionSource :: "bytes \<Rightarrow> DecisionSource option" where
  "ParseDecisionSource word =
    (if word = ''none'' then Some DecisionSourceNone
     else if word = ''own_rule'' then Some DecisionSourceOwnRule
     else if word = ''typed_block'' then Some DecisionSourceTypedBlock
     else if word = ''account_default'' then Some DecisionSourceAccountDefault
     else if word = ''default_excluded'' then Some DecisionSourceDefaultExcluded
     else None)"

lemma ParseDecisionSource_WireName [simp]: "ParseDecisionSource (WireName_DecisionSource v) = Some v"
  by (cases v) (simp_all add: ParseDecisionSource_def)

lemma printable_DecisionSource [simp]: "printable (WireName_DecisionSource v)"
  by (cases v) (simp_all add: code_def)

datatype ResourceSelectorKind =
    ResourceSelectorKindOne
  | ResourceSelectorKindAll

fun WireName_ResourceSelectorKind :: "ResourceSelectorKind \<Rightarrow> bytes" where
  "WireName_ResourceSelectorKind ResourceSelectorKindOne = ''one''"
| "WireName_ResourceSelectorKind ResourceSelectorKindAll = ''all''"

definition ParseResourceSelectorKind :: "bytes \<Rightarrow> ResourceSelectorKind option" where
  "ParseResourceSelectorKind word =
    (if word = ''one'' then Some ResourceSelectorKindOne
     else if word = ''all'' then Some ResourceSelectorKindAll
     else None)"

lemma ParseResourceSelectorKind_WireName [simp]: "ParseResourceSelectorKind (WireName_ResourceSelectorKind v) = Some v"
  by (cases v) (simp_all add: ParseResourceSelectorKind_def)

lemma printable_ResourceSelectorKind [simp]: "printable (WireName_ResourceSelectorKind v)"
  by (cases v) (simp_all add: code_def)

datatype BatchCheckOutcome =
    BatchCheckOutcomeChecked
  | BatchCheckOutcomeConflict
  | BatchCheckOutcomeInvalid
  | BatchCheckOutcomeForbidden
  | BatchCheckOutcomeUnavailable

fun WireName_BatchCheckOutcome :: "BatchCheckOutcome \<Rightarrow> bytes" where
  "WireName_BatchCheckOutcome BatchCheckOutcomeChecked = ''checked''"
| "WireName_BatchCheckOutcome BatchCheckOutcomeConflict = ''conflict''"
| "WireName_BatchCheckOutcome BatchCheckOutcomeInvalid = ''invalid''"
| "WireName_BatchCheckOutcome BatchCheckOutcomeForbidden = ''forbidden''"
| "WireName_BatchCheckOutcome BatchCheckOutcomeUnavailable = ''unavailable''"

definition ParseBatchCheckOutcome :: "bytes \<Rightarrow> BatchCheckOutcome option" where
  "ParseBatchCheckOutcome word =
    (if word = ''checked'' then Some BatchCheckOutcomeChecked
     else if word = ''conflict'' then Some BatchCheckOutcomeConflict
     else if word = ''invalid'' then Some BatchCheckOutcomeInvalid
     else if word = ''forbidden'' then Some BatchCheckOutcomeForbidden
     else if word = ''unavailable'' then Some BatchCheckOutcomeUnavailable
     else None)"

lemma ParseBatchCheckOutcome_WireName [simp]: "ParseBatchCheckOutcome (WireName_BatchCheckOutcome v) = Some v"
  by (cases v) (simp_all add: ParseBatchCheckOutcome_def)

lemma printable_BatchCheckOutcome [simp]: "printable (WireName_BatchCheckOutcome v)"
  by (cases v) (simp_all add: code_def)

text \<open>Selector kinds are compared by their numeric tags: one, then all.\<close>

instantiation ResourceSelectorKind :: linorder
begin

definition less_eq_ResourceSelectorKind :: "ResourceSelectorKind \<Rightarrow> ResourceSelectorKind \<Rightarrow> bool" where
  "less_eq_ResourceSelectorKind a b \<longleftrightarrow> a = ResourceSelectorKindOne \<or> b = ResourceSelectorKindAll"

definition less_ResourceSelectorKind :: "ResourceSelectorKind \<Rightarrow> ResourceSelectorKind \<Rightarrow> bool" where
  "less_ResourceSelectorKind a b \<longleftrightarrow> a = ResourceSelectorKindOne \<and> b = ResourceSelectorKindAll"

instance
  by standard (auto simp: less_eq_ResourceSelectorKind_def less_ResourceSelectorKind_def intro: ResourceSelectorKind.exhaust)

end

subsection \<open>Slices whose nil-ness shows\<close>

type_synonym 'a slice = "'a list option"

definition elems :: "'a slice \<Rightarrow> 'a list" where
  "elems s = (case s of None \<Rightarrow> [] | Some xs \<Rightarrow> xs)"

text \<open>A slice after \<open>append\<close>, \<open>DeleteFunc\<close> or a sort: nil stays nil while it is empty.\<close>

definition reslice :: "'a slice \<Rightarrow> 'a list \<Rightarrow> 'a slice" where
  "reslice old xs = (if old = None \<and> xs = [] then None else Some xs)"

text \<open>\<open>if len(s) == 0 { s = nil }\<close>, and a fresh slice grown by \<open>append\<close>.\<close>

definition nilIfEmpty :: "'a list \<Rightarrow> 'a slice" where
  "nilIfEmpty xs = (if xs = [] then None else Some xs)"

lemma elems_simps [simp]: "elems None = []" "elems (Some xs) = xs"
  "elems (reslice old xs) = xs" "elems (nilIfEmpty xs) = xs"
  by (simp_all add: elems_def reslice_def nilIfEmpty_def)

lemma elems_reslice_eq: "elems s = xs \<Longrightarrow> reslice s xs = s"
  by (cases s) (auto simp: reslice_def)

subsection \<open>Records\<close>

record subject =
  account :: bytes
  program :: bytes

record Decision =
  d_outcome :: DecisionOutcome
  d_policyRevision :: bytes

record PolicyRule =
  pr_subject :: subject
  pr_action :: bytes
  pr_resource :: bytes
  pr_permit :: bool

record PolicyPage =
  pp_outcome :: PolicyPageOutcome
  pp_revision :: bytes
  pp_catalog :: "bytes list"
  pp_rules :: "PolicyRule list"
  pp_next :: bytes
  pp_complete :: bool

record PolicyEdit =
  pe_outcome :: PolicyEditOutcome
  pe_revision :: bytes
  pe_current :: "PolicyRule option"

record RuleRecord =
  rr_rule :: PolicyRule
  rr_setBy :: subject
  rr_setAt :: bytes
  rr_why :: bytes
  rr_expires :: bytes

record RuleRead =
  rd_outcome :: RuleReadOutcome
  rd_revision :: bytes
  rd_record :: "RuleRecord option"

record CatalogEntry =
  ce_action :: bytes
  ce_registeredBy :: subject
  ce_registeredAt :: bytes

record ActionDescription =
  ad_action :: bytes
  ad_featureApp :: subject
  ad_appLabel :: bytes
  ad_description :: bytes
  ad_declaredRisk :: bytes

record PermissionDefinition =
  pd_action :: bytes
  pd_ownerContract :: bytes
  pd_operations :: "bytes list"
  pd_resourceProfile :: bytes
  pd_resourceType :: bytes
  pd_enforcedBy :: "bytes list"
  pd_disclosure :: bytes
  pd_lifecycle :: bytes
  pd_firstUse :: PermissionFirstUse
  pd_served :: bool

record DescribedAction =
  da_action :: bytes
  da_choices :: "bytes list"
  da_description :: "ActionDescription option"
  da_publishedBy :: "subject option"
  da_publishedAt :: bytes

record ActionEdit =
  ae_outcome :: ActionEditOutcome
  ae_revision :: bytes
  ae_current :: "CatalogEntry option"

record DescriptionEdit =
  de_outcome :: ActionEditOutcome
  de_revision :: bytes
  de_current :: "DescribedAction option"

record DescriptionPage =
  dp_outcome :: PolicyPageOutcome
  dp_revision :: bytes
  dp_actions :: "DescribedAction list"
  dp_next :: bytes
  dp_complete :: bool

record PublicDefault =
  pub_name :: bytes
  pub_action :: bytes
  pub_resource :: bytes
  pub_everyResource :: bool
  pub_on :: bool
  pub_setBy :: "subject option"
  pub_setAt :: bytes

record DefaultPage =
  dfp_outcome :: PolicyPageOutcome
  dfp_revision :: bytes
  dfp_defaults :: "PublicDefault list"

record DefaultEdit =
  dfe_outcome :: PolicyEditOutcome
  dfe_revision :: bytes
  dfe_current :: "PublicDefault option"

record DecisionExplanation =
  x_outcome :: DecisionOutcome
  x_policyRevision :: bytes
  x_source :: "DecisionSource option"
  x_defaultName :: bytes

record PermissionKey =
  k_action :: bytes
  k_resourceProfile :: bytes

record ResourceSelector =
  s_kind :: ResourceSelectorKind
  s_target :: "bytes option"

record PermissionSelection =
  ps_permission :: PermissionKey
  ps_selector :: ResourceSelector

record ConcreteResource =
  cr_permission :: PermissionKey
  cr_target :: "bytes option"

record CheckBatchRequest =
  cb_expectedRevision :: bytes
  cb_collectionAdmission :: "PermissionKey option"
  cb_resources :: "ConcreteResource list"

record BatchDecision =
  bd_outcome :: BatchCheckOutcome
  bd_revision :: bytes
  bd_collectionOutcome :: "DecisionOutcome option"
  bd_outcomes :: "DecisionOutcome list"

record SelectorPermissionDefinition =
  sd_definition :: PermissionDefinition
  sd_label :: bytes
  sd_supportedSelectors :: "ResourceSelectorKind list"
  sd_firstUseSelectors :: "ResourceSelectorKind list"
  sd_collection :: bytes
  sd_allEffect :: bytes
  sd_requestType :: bytes

record PermissionBundleDefinition =
  b_bundleRef :: bytes
  b_ownerContract :: bytes
  b_label :: bytes
  b_targetType :: bytes
  b_supportedSelectors :: "ResourceSelectorKind list"
  b_members :: "PermissionKey list"
  b_disclosure :: bytes
  b_definitionDigest :: bytes

record BundleExpansion =
  be_bundleRef :: bytes
  be_definitionDigest :: bytes
  be_selector :: ResourceSelector
  be_selections :: "PermissionSelection list"

record PermissionEffect =
  ef_subject :: subject
  ef_selections :: "PermissionSelection list"
  ef_bundle :: "BundleExpansion option"

record SelectorRule =
  sr_subject :: subject
  sr_selection :: PermissionSelection
  sr_permit :: bool

record BundleOrigin =
  bo_id :: bytes
  bo_expansion :: BundleExpansion

record SelectorRuleRecord =
  srr_rule :: SelectorRule
  srr_setBy :: subject
  srr_setAt :: bytes
  srr_why :: bytes
  srr_expires :: bytes
  srr_bundleOrigin :: "BundleOrigin option"

record SelectorRuleRead =
  srd_outcome :: RuleReadOutcome
  srd_revision :: bytes
  srd_record :: "SelectorRuleRecord option"

record SelectorEdit =
  se_outcome :: PolicyEditOutcome
  se_revision :: bytes
  se_current :: "SelectorRuleRecord list"
  se_bundleOrigin :: "BundleOrigin option"

record LegacyOperationRequest =
  lo_legacyAction :: bytes
  lo_legacyResource :: bytes
  lo_concreteOperation :: "ConcreteResource option"

end
