(* ===== verification/Wire_Text.thy ===== *)
theory Wire_Text
  imports Json_Text Wire
begin

text \<open>
  The canonical wire text of \<open>rec.go\<close> as far as a decision depends on it: the batch request
  whose encoded length \<open>checkBatchInput\<close> bounds, with the generated encoder's primitives
  \<open>escByte\<close>, \<open>esc\<close>, \<open>pad\<close>, \<open>encList\<close>. \<open>encodeBinary\<close> is standard base 64.
\<close>

definition newline :: char where "newline = CHR 0x0A"

definition escByte :: "char \<Rightarrow> bytes" where
  "escByte c =
     (if c = quote then [backslash, quote]
      else if c = backslash then [backslash, backslash]
      else if c = CHR 0x08 then [backslash, CHR ''b'']
      else if c = CHR 0x0C then [backslash, CHR ''f'']
      else if c = CHR 0x0A then [backslash, CHR ''n'']
      else if c = CHR 0x0D then [backslash, CHR ''r'']
      else if c = CHR 0x09 then [backslash, CHR ''t'']
      else if code c < 32 then [backslash, CHR ''u'', CHR ''0'', CHR ''0'', hexDigit (code c div 16), hexDigit (code c mod 16)]
      else [c])"

definition esc :: "bytes \<Rightarrow> bytes" where
  "esc s = quote # concat (map escByte s) @ [quote]"

definition wirePad :: "nat \<Rightarrow> bytes" where
  "wirePad depth = replicate (depth * 2) (CHR '' '')"

text \<open>One member of an object: a line of its own, the quoted name, the value.\<close>

definition encMember :: "nat \<Rightarrow> bytes \<Rightarrow> bytes \<Rightarrow> bytes" where
  "encMember depth name value = newline # wirePad (depth + 1) @ esc name @ '': '' @ value"

definition encObject :: "nat \<Rightarrow> bytes list \<Rightarrow> bytes" where
  "encObject depth members = CHR ''{'' # commaSep members @ newline # wirePad depth @ ''}''"

definition encList :: "('a \<Rightarrow> nat \<Rightarrow> bytes) \<Rightarrow> 'a list \<Rightarrow> nat \<Rightarrow> bytes" where
  "encList enc v depth =
     (if v = [] then ''[]''
      else ''['' @ commaSep (map (\<lambda>x. newline # wirePad (depth + 1) @ enc x (depth + 1)) v) @ newline # wirePad depth @ '']'')"

definition encPermissionKey :: "PermissionKey \<Rightarrow> nat \<Rightarrow> bytes" where
  "encPermissionKey v depth = encObject depth
     [encMember depth ''action'' (esc (k_action v)),
      encMember depth ''resource_profile'' (esc (k_resourceProfile v))]"

definition encConcreteResource :: "ConcreteResource \<Rightarrow> nat \<Rightarrow> bytes" where
  "encConcreteResource v depth = encObject depth
     [encMember depth ''permission'' (encPermissionKey (cr_permission v) (depth + 1)),
      encMember depth ''target'' (esc (base64 (elems (cr_target v))))]"

definition encCheckBatchRequest :: "CheckBatchRequest \<Rightarrow> nat \<Rightarrow> bytes" where
  "encCheckBatchRequest v depth = encObject depth
     ((if cb_expectedRevision v \<noteq> [] then [encMember depth ''expected_revision'' (esc (cb_expectedRevision v))] else []) @
      (case cb_collectionAdmission v of None \<Rightarrow> []
       | Some k \<Rightarrow> [encMember depth ''collection_admission'' (encPermissionKey k (depth + 1))]) @
      [encMember depth ''resources'' (encList encConcreteResource (cb_resources v) (depth + 1))])"

definition EncodeCheckBatchRequest :: "CheckBatchRequest \<Rightarrow> bytes" where
  "EncodeCheckBatchRequest v = encCheckBatchRequest v 0 @ [newline]"

end
