(* ===== verification/Page_Text.thy ===== *)
theory Page_Text
  imports Wire_Text
begin

text \<open>
  The canonical wire text of the pages and reads whose encoded length the host bounds
  (authorization/selector.go, client/selectors.go), with the generated encoders of \<open>rec.go\<close>
  member by member. The generated \<open>Encode\<close> functions also decode what they wrote and panic when
  that is refused; the definitions here are their value when they return.
\<close>

subsection \<open>Pages\<close>

record PermissionDefinitionPage =
  pdp_outcome :: PolicyPageOutcome
  pdp_revision :: bytes
  pdp_definitions :: "SelectorPermissionDefinition list"
  pdp_next :: bytes
  pdp_complete :: bool

record PermissionBundlePage =
  pbp_outcome :: PolicyPageOutcome
  pbp_revision :: bytes
  pbp_bundles :: "PermissionBundleDefinition list"
  pbp_next :: bytes
  pbp_complete :: bool

record SelectorRulePage =
  srp_outcome :: PolicyPageOutcome
  srp_revision :: bytes
  srp_records :: "SelectorRuleRecord list"
  srp_next :: bytes
  srp_complete :: bool

subsection \<open>Values\<close>

definition encBool :: "bool \<Rightarrow> bytes" where
  "encBool b = (if b then ''true'' else ''false'')"

definition strs :: "bytes list \<Rightarrow> nat \<Rightarrow> bytes" where
  "strs v depth =
     (if v = [] then ''[]''
      else ''['' @ commaSep (map (\<lambda>s. newline # wirePad (depth + 1) @ esc s) v) @ newline # wirePad depth @ '']'')"

definition enumStrs :: "('a \<Rightarrow> bytes) \<Rightarrow> 'a list \<Rightarrow> nat \<Rightarrow> bytes" where
  "enumStrs word v depth =
     (if v = [] then ''[]''
      else ''['' @ commaSep (map (\<lambda>item. newline # wirePad (depth + 1) @ esc (word item)) v) @ newline # wirePad depth @ '']'')"

subsection \<open>Records\<close>

definition encSubject :: "subject \<Rightarrow> nat \<Rightarrow> bytes" where
  "encSubject v depth = encObject depth
     [encMember depth ''account'' (esc (account v)),
      encMember depth ''program'' (esc (program v))]"

definition encResourceSelector :: "ResourceSelector \<Rightarrow> nat \<Rightarrow> bytes" where
  "encResourceSelector v depth = encObject depth
     ([encMember depth ''kind'' (esc (WireName_ResourceSelectorKind (s_kind v)))] @
     (case s_target v of None \<Rightarrow> []
       | Some x \<Rightarrow> [encMember depth ''target'' (esc (base64 x))]))"

definition encPermissionSelection :: "PermissionSelection \<Rightarrow> nat \<Rightarrow> bytes" where
  "encPermissionSelection v depth = encObject depth
     [encMember depth ''permission'' (encPermissionKey (ps_permission v) (depth + 1)),
      encMember depth ''selector'' (encResourceSelector (ps_selector v) (depth + 1))]"

definition encBundleExpansion :: "BundleExpansion \<Rightarrow> nat \<Rightarrow> bytes" where
  "encBundleExpansion v depth = encObject depth
     [encMember depth ''bundle_ref'' (esc (be_bundleRef v)),
      encMember depth ''definition_digest'' (esc (be_definitionDigest v)),
      encMember depth ''selector'' (encResourceSelector (be_selector v) (depth + 1)),
      encMember depth ''selections'' (encList encPermissionSelection (be_selections v) (depth + 1))]"

definition encBundleOrigin :: "BundleOrigin \<Rightarrow> nat \<Rightarrow> bytes" where
  "encBundleOrigin v depth = encObject depth
     [encMember depth ''id'' (esc (bo_id v)),
      encMember depth ''expansion'' (encBundleExpansion (bo_expansion v) (depth + 1))]"

definition encSelectorRule :: "SelectorRule \<Rightarrow> nat \<Rightarrow> bytes" where
  "encSelectorRule v depth = encObject depth
     [encMember depth ''subject'' (encSubject (sr_subject v) (depth + 1)),
      encMember depth ''selection'' (encPermissionSelection (sr_selection v) (depth + 1)),
      encMember depth ''permit'' (encBool (sr_permit v))]"

definition encSelectorRuleRecord :: "SelectorRuleRecord \<Rightarrow> nat \<Rightarrow> bytes" where
  "encSelectorRuleRecord v depth = encObject depth
     ([encMember depth ''rule'' (encSelectorRule (srr_rule v) (depth + 1)),
      encMember depth ''set_by'' (encSubject (srr_setBy v) (depth + 1)),
      encMember depth ''set_at'' (esc (srr_setAt v)),
      encMember depth ''why'' (esc (srr_why v)),
      encMember depth ''expires'' (esc (srr_expires v))] @
     (case srr_bundleOrigin v of None \<Rightarrow> []
       | Some x \<Rightarrow> [encMember depth ''bundle_origin'' (encBundleOrigin x (depth + 1))]))"

definition encSelectorRuleRead :: "SelectorRuleRead \<Rightarrow> nat \<Rightarrow> bytes" where
  "encSelectorRuleRead v depth = encObject depth
     ([encMember depth ''outcome'' (esc (WireName_RuleReadOutcome (srd_outcome v))),
      encMember depth ''revision'' (esc (srd_revision v))] @
     (case srd_record v of None \<Rightarrow> []
       | Some x \<Rightarrow> [encMember depth ''record'' (encSelectorRuleRecord x (depth + 1))]))"

definition EncodeSelectorRuleRead :: "SelectorRuleRead \<Rightarrow> bytes" where
  "EncodeSelectorRuleRead v = encSelectorRuleRead v 0 @ [newline]"

definition encSelectorRulePage :: "SelectorRulePage \<Rightarrow> nat \<Rightarrow> bytes" where
  "encSelectorRulePage v depth = encObject depth
     [encMember depth ''outcome'' (esc (WireName_PolicyPageOutcome (srp_outcome v))),
      encMember depth ''revision'' (esc (srp_revision v)),
      encMember depth ''records'' (encList encSelectorRuleRecord (srp_records v) (depth + 1)),
      encMember depth ''next'' (esc (srp_next v)),
      encMember depth ''complete'' (encBool (srp_complete v))]"

definition EncodeSelectorRulePage :: "SelectorRulePage \<Rightarrow> bytes" where
  "EncodeSelectorRulePage v = encSelectorRulePage v 0 @ [newline]"

definition encPermissionDefinition :: "PermissionDefinition \<Rightarrow> nat \<Rightarrow> bytes" where
  "encPermissionDefinition v depth = encObject depth
     [encMember depth ''action'' (esc (pd_action v)),
      encMember depth ''owner_contract'' (esc (pd_ownerContract v)),
      encMember depth ''operations'' (strs (pd_operations v) (depth + 1)),
      encMember depth ''resource_profile'' (esc (pd_resourceProfile v)),
      encMember depth ''resource_type'' (esc (pd_resourceType v)),
      encMember depth ''enforced_by'' (strs (pd_enforcedBy v) (depth + 1)),
      encMember depth ''disclosure'' (esc (pd_disclosure v)),
      encMember depth ''lifecycle'' (esc (pd_lifecycle v)),
      encMember depth ''first_use'' (esc (WireName_PermissionFirstUse (pd_firstUse v))),
      encMember depth ''served'' (encBool (pd_served v))]"

definition encSelectorPermissionDefinition :: "SelectorPermissionDefinition \<Rightarrow> nat \<Rightarrow> bytes" where
  "encSelectorPermissionDefinition v depth = encObject depth
     [encMember depth ''definition'' (encPermissionDefinition (sd_definition v) (depth + 1)),
      encMember depth ''label'' (esc (sd_label v)),
      encMember depth ''supported_selectors'' (enumStrs WireName_ResourceSelectorKind (sd_supportedSelectors v) (depth + 1)),
      encMember depth ''first_use_selectors'' (enumStrs WireName_ResourceSelectorKind (sd_firstUseSelectors v) (depth + 1)),
      encMember depth ''collection'' (esc (sd_collection v)),
      encMember depth ''all_effect'' (esc (sd_allEffect v)),
      encMember depth ''request_type'' (esc (sd_requestType v))]"

definition encPermissionDefinitionPage :: "PermissionDefinitionPage \<Rightarrow> nat \<Rightarrow> bytes" where
  "encPermissionDefinitionPage v depth = encObject depth
     [encMember depth ''outcome'' (esc (WireName_PolicyPageOutcome (pdp_outcome v))),
      encMember depth ''revision'' (esc (pdp_revision v)),
      encMember depth ''definitions'' (encList encSelectorPermissionDefinition (pdp_definitions v) (depth + 1)),
      encMember depth ''next'' (esc (pdp_next v)),
      encMember depth ''complete'' (encBool (pdp_complete v))]"

definition EncodePermissionDefinitionPage :: "PermissionDefinitionPage \<Rightarrow> bytes" where
  "EncodePermissionDefinitionPage v = encPermissionDefinitionPage v 0 @ [newline]"

definition encPermissionBundleDefinition :: "PermissionBundleDefinition \<Rightarrow> nat \<Rightarrow> bytes" where
  "encPermissionBundleDefinition v depth = encObject depth
     [encMember depth ''bundle_ref'' (esc (b_bundleRef v)),
      encMember depth ''owner_contract'' (esc (b_ownerContract v)),
      encMember depth ''label'' (esc (b_label v)),
      encMember depth ''target_type'' (esc (b_targetType v)),
      encMember depth ''supported_selectors'' (enumStrs WireName_ResourceSelectorKind (b_supportedSelectors v) (depth + 1)),
      encMember depth ''members'' (encList encPermissionKey (b_members v) (depth + 1)),
      encMember depth ''disclosure'' (esc (b_disclosure v)),
      encMember depth ''definition_digest'' (esc (b_definitionDigest v))]"

definition encPermissionBundlePage :: "PermissionBundlePage \<Rightarrow> nat \<Rightarrow> bytes" where
  "encPermissionBundlePage v depth = encObject depth
     [encMember depth ''outcome'' (esc (WireName_PolicyPageOutcome (pbp_outcome v))),
      encMember depth ''revision'' (esc (pbp_revision v)),
      encMember depth ''bundles'' (encList encPermissionBundleDefinition (pbp_bundles v) (depth + 1)),
      encMember depth ''next'' (esc (pbp_next v)),
      encMember depth ''complete'' (encBool (pbp_complete v))]"

definition EncodePermissionBundlePage :: "PermissionBundlePage \<Rightarrow> bytes" where
  "EncodePermissionBundlePage v = encPermissionBundlePage v 0 @ [newline]"

end
