(* ===== verification/Reader.thy ===== *)
theory Reader
  imports Page_Text
begin

text \<open>
  The generated reader of \<open>rec.go\<close>: the primitives every decoder uses, and the three loops --
  members of an object, elements of a list, values that are only skipped. The reader's position is
  kept as the bytes still to read, so its offset is the length of the buffer less theirs.
  \<open>Unfinished\<close> is no refusal of the code: it marks a loop that ran out of fuel, and the facts of
  \<open>Codecs\<close> show it never does.
\<close>

subsection \<open>The reader\<close>

datatype refusal = Refusal bytes nat | Unfinished

definition depthLimit :: nat where "depthLimit = 64"

record reader =
  rd_buf :: bytes
  rd_rest :: bytes
  rd_depth :: nat
  rd_limit :: nat

type_synonym 'a reading = "reader \<Rightarrow> refusal + 'a \<times> reader"

definition reader_depthLimit :: "reader \<Rightarrow> nat" where
  "reader_depthLimit r = (if 0 < rd_limit r \<and> rd_limit r < depthLimit then rd_limit r else depthLimit)"

definition rd_pos :: "reader \<Rightarrow> nat" where
  "rd_pos r = length (rd_buf r) - length (rd_rest r)"

definition refuse :: "reader \<Rightarrow> bytes \<Rightarrow> refusal" where
  "refuse r word = Refusal word (rd_pos r)"

definition at1 :: "reader \<Rightarrow> char" where
  "at1 r = (case rd_rest r of [] \<Rightarrow> NUL | c # cs \<Rightarrow> c)"

definition advance :: "nat \<Rightarrow> reader \<Rightarrow> reader" where
  "advance n r = r\<lparr>rd_rest := drop n (rd_rest r)\<rparr>"

definition isWs :: "char \<Rightarrow> bool" where
  "isWs c \<longleftrightarrow> c \<in> {CHR '' '', CHR 0x09, CHR 0x0A, CHR 0x0D}"

definition ws :: "reader \<Rightarrow> reader" where
  "ws r = r\<lparr>rd_rest := dropWhile isWs (rd_rest r)\<rparr>"

definition enter :: "reader \<Rightarrow> refusal + reader" where
  "enter r =
     (let r1 = r\<lparr>rd_depth := rd_depth r + 1\<rparr> in
      if rd_depth r1 > reader_depthLimit r1 then Inl (refuse r1 ''depth_exceeded'') else Inr r1)"

definition leave :: "reader \<Rightarrow> reader" where
  "leave r = r\<lparr>rd_depth := rd_depth r - 1\<rparr>"

subsection \<open>Strings\<close>

definition nibble :: "char \<Rightarrow> nat option" where
  "nibble c =
     (if CHR ''0'' \<le> c \<and> c \<le> CHR ''9'' then Some (code c - 48)
      else if CHR ''a'' \<le> c \<and> c \<le> CHR ''f'' then Some (code c - 87)
      else if CHR ''A'' \<le> c \<and> c \<le> CHR ''F'' then Some (code c - 55)
      else None)"

definition reader_hex4 :: "nat reading" where
  "reader_hex4 r = (case rd_rest r of
     a # b # c # d # cs \<Rightarrow>
       (case those (map nibble [a, b, c, d]) of
          Some ds \<Rightarrow> Inr (foldl (\<lambda>u n. u * 16 + n) 0 ds, advance 4 r)
        | None \<Rightarrow> Inl (refuse r ''bad_string''))
   | _ \<Rightarrow> Inl (refuse r ''bad_string''))"

definition appendRune :: "nat \<Rightarrow> bytes" where
  "appendRune cp =
     (if cp < 128 then [char_of cp]
      else if cp < 2048 then [char_of (192 + cp div 64), char_of (128 + cp mod 64)]
      else if cp < 65536 then [char_of (224 + cp div 4096), char_of (128 + cp div 64 mod 64), char_of (128 + cp mod 64)]
      else [char_of (240 + cp div 262144), char_of (128 + cp div 4096 mod 64), char_of (128 + cp div 64 mod 64),
        char_of (128 + cp mod 64)])"

text \<open>\<open>escape\<close> with what it appends to the string read so far: one byte, or the code point of one
  or, for a surrogate pair, two \<open>\u\<close> escapes.\<close>

definition shortEscape :: "char \<Rightarrow> char option" where
  "shortEscape c =
     (if c = quote \<or> c = backslash \<or> c = CHR ''/'' then Some c
      else if c = CHR ''b'' then Some (CHR 0x08)
      else if c = CHR ''f'' then Some (CHR 0x0C)
      else if c = CHR ''n'' then Some (CHR 0x0A)
      else if c = CHR ''r'' then Some (CHR 0x0D)
      else if c = CHR ''t'' then Some (CHR 0x09)
      else None)"

definition unicodeEscaped :: "bytes reading" where
  "unicodeEscaped r = (case reader_hex4 r of
     Inl e \<Rightarrow> Inl e
   | Inr (u, r2) \<Rightarrow>
      if 0xDC00 \<le> u \<and> u \<le> 0xDFFF then Inl (refuse r2 ''bad_string'')
      else if 0xD800 \<le> u \<and> u \<le> 0xDBFF then
        (if take 2 (rd_rest r2) \<noteq> [backslash, CHR ''u''] then Inl (refuse r2 ''bad_string'')
         else case reader_hex4 (advance 2 r2) of
           Inl e \<Rightarrow> Inl e
         | Inr (lo, r3) \<Rightarrow>
            if lo < 0xDC00 \<or> lo > 0xDFFF then Inl (refuse r3 ''bad_string'')
            else Inr (appendRune (0x10000 + (u - 0xD800) * 1024 + (lo - 0xDC00)), r3))
      else Inr (appendRune u, r2))"

definition reader_escape :: "bytes reading" where
  "reader_escape r = (case rd_rest (advance 1 r) of
     [] \<Rightarrow> Inl (refuse (advance 1 r) ''malformed'')
   | c # cs \<Rightarrow> (case shortEscape c of
       Some d \<Rightarrow> Inr ([d], advance 2 r)
     | None \<Rightarrow> if c = CHR ''u'' then unicodeEscaped (advance 2 r) else Inl (refuse (advance 2 r) ''bad_string'')))"

lemma advance_rest [simp]: "rd_rest (advance n r) = drop n (rd_rest r)"
  by (simp add: advance_def)

lemma advance_advance [simp]: "advance m (advance n r) = advance (n + m) r"
  by (simp add: advance_def add.commute)

lemma reader_hex4_rest: "reader_hex4 r = Inr (u, r1) \<Longrightarrow> r1 = advance 4 r"
  by (auto simp: reader_hex4_def split: list.split_asm option.split_asm)

lemma unicodeEscaped_rest: "unicodeEscaped r = Inr (out, r1) \<Longrightarrow> \<exists>n. r1 = advance n r"
  by (auto simp: unicodeEscaped_def split: if_split_asm sum.split_asm prod.split_asm dest!: reader_hex4_rest)

lemma reader_escape_rest: "reader_escape r = Inr (out, r1) \<Longrightarrow> rd_rest r \<noteq> [] \<and> (\<exists>n. r1 = advance (2 + n) r)"
  by (auto simp: reader_escape_def numeral_2_eq_2 split: list.split_asm option.split_asm if_split_asm dest!: unicodeEscaped_rest)

text \<open>The generated \<open>validUTF8\<close>: lead byte, continuation bytes, and the code point's bounds.\<close>

definition sequence :: "nat \<Rightarrow> nat \<Rightarrow> bytes \<Rightarrow> nat option" where
  "sequence n cp cs =
     (if length cs < n \<or> \<not> list_all (\<lambda>c. code c div 64 = 2) (take n cs) then None
      else Some (foldl (\<lambda>u c. u * 64 + code c mod 64) cp (take n cs)))"

function wireUTF8 :: "bytes \<Rightarrow> bool" where
  "wireUTF8 s = (case s of
     [] \<Rightarrow> True
   | c # cs \<Rightarrow>
      if code c < 128 then wireUTF8 cs
      else
        let n = (if code c div 32 = 6 then 2 else if code c div 16 = 14 then 3 else if code c div 8 = 30 then 4 else 0);
            cp = (if n = 2 then code c mod 32 else if n = 3 then code c mod 16 else code c mod 8);
            lowest = (if n = 2 then 0x80 else if n = 3 then 0x800 else 0x10000)
        in if n = 0 then False
           else (case sequence (n - 1) cp cs of
             None \<Rightarrow> False
           | Some u \<Rightarrow> if u < lowest \<or> u > 0x10FFFF \<or> (0xD800 \<le> u \<and> u \<le> 0xDFFF) then False
               else wireUTF8 (drop (n - 1) cs)))"
  by pat_completeness auto
termination
  by (relation "measure length") auto

declare wireUTF8.simps [simp del]

function strLoop :: "bytes \<Rightarrow> bytes reading" where
  "strLoop out r = (case rd_rest r of
     [] \<Rightarrow> Inl (refuse r ''malformed'')
   | c # cs \<Rightarrow>
      if c = quote then
        (if wireUTF8 out then Inr (out, advance 1 r) else Inl (refuse (advance 1 r) ''bad_string''))
      else if code c < 32 then Inl (refuse r ''bad_string'')
      else if c = backslash then
        (case reader_escape r of Inl e \<Rightarrow> Inl e | Inr (bs, r1) \<Rightarrow> strLoop (out @ bs) r1)
      else strLoop (out @ [c]) (advance 1 r))"
  by pat_completeness auto
termination
  by (relation "measure (\<lambda>(out, r). length (rd_rest r))") (auto dest!: reader_escape_rest)

declare strLoop.simps [simp del]

definition reader_str :: "bytes reading" where
  "reader_str r = (if at1 r \<noteq> quote then Inl (refuse r ''wrong_type'') else strLoop [] (advance 1 r))"

subsection \<open>Numbers and literals\<close>

text \<open>How the encoders write an integer.\<close>

definition num :: "int \<Rightarrow> bytes" where
  "num n = (if n < 0 then CHR ''-'' # itoa (nat (- n)) else itoa (nat n))"

function intDigits :: "nat \<Rightarrow> nat reading" where
  "intDigits u r =
     (if \<not> isDigit (at1 r) then Inr (u, r)
      else if u > 922337203685477580 then Inl (refuse r ''number_spelling'')
      else intDigits (u * 10 + (code (at1 r) - 48)) (advance 1 r))"
  by pat_completeness auto
termination
  by (relation "measure (\<lambda>(u, r). length (rd_rest r))") (auto simp: at1_def isDigit_def split: list.splits)

declare intDigits.simps [simp del]

definition reader_integer :: "int \<Rightarrow> int \<Rightarrow> int reading" where
  "reader_integer least greatest r =
     (if at1 r \<noteq> CHR ''-'' \<and> \<not> isDigit (at1 r) then Inl (refuse r ''wrong_type'')
      else
        let neg = (at1 r = CHR ''-''); r1 = (if neg then advance 1 r else r) in
        if \<not> isDigit (at1 r1) then Inl (refuse r1 ''malformed'')
        else case (if at1 r1 = CHR ''0'' then Inr (0, advance 1 r1) else intDigits 0 r1) of
          Inl e \<Rightarrow> Inl e
        | Inr (u, r2) \<Rightarrow>
           if at1 r2 \<in> {CHR ''.'', CHR ''e'', CHR ''E''} \<or> isDigit (at1 r2) then Inl (refuse r2 ''number_spelling'')
           else if neg \<and> u = 0 then Inl (refuse r2 ''number_spelling'')
           else if \<not> (neg \<and> u = 2 ^ 63) \<and> u > 2 ^ 63 - 1 then Inl (refuse r2 ''number_spelling'')
           else let n = (if neg then - int u else int u) in
             if n < least \<or> n > greatest then Inl (refuse r2 ''number_spelling'') else Inr (n, r2))"

definition reader_int64 :: "int reading" where
  "reader_int64 = reader_integer (- 9223372036854775808) 9223372036854775807"

definition reader_int32 :: "int reading" where
  "reader_int32 = reader_integer (- 2147483648) 2147483647"

definition reader_literal :: "bytes \<Rightarrow> 'a \<Rightarrow> 'a reading" where
  "reader_literal word v r =
     (if take (length word) (rd_rest r) \<noteq> word then Inl (refuse r ''malformed'') else Inr (v, advance (length word) r))"

definition reader_boolean :: "bool reading" where
  "reader_boolean r =
     (if at1 r = CHR ''t'' then reader_literal ''true'' True r
      else if at1 r = CHR ''f'' then reader_literal ''false'' False r
      else Inl (refuse r ''wrong_type''))"

text \<open>\<open>binary\<close>: base 64 text, refused unless it is spelled as \<open>encodeBinary\<close> spells it.\<close>

definition reader_binary :: "bytes reading" where
  "reader_binary r = (case reader_str r of
     Inl e \<Rightarrow> Inl e
   | Inr (t, r1) \<Rightarrow> (case unbase64 t of
       None \<Rightarrow> Inl (refuse r1 ''bad_binary'')
     | Some out \<Rightarrow> if base64 out \<noteq> t then Inl (refuse r1 ''bad_binary'') else Inr (out, r1)))"

subsection \<open>Loops\<close>

text \<open>Every loop of the reader has one shape: white space, a step, white space, and on a comma again.
  A round consumes its comma at least, so the bytes still to read bound the rounds.\<close>

fun loop :: "nat \<Rightarrow> ('s \<Rightarrow> 's reading) \<Rightarrow> 's \<Rightarrow> 's reading" where
  "loop 0 step s r = Inl Unfinished"
| "loop (Suc n) step s r = (case step s (ws r) of
     Inl e \<Rightarrow> Inl e
   | Inr (s1, r1) \<Rightarrow>
      if at1 (ws r1) \<noteq> CHR '','' then Inr (s1, ws r1) else loop n step s1 (advance 1 (ws r1)))"

definition container :: "char \<Rightarrow> char \<Rightarrow> ('s \<Rightarrow> 's reading) \<Rightarrow> 's \<Rightarrow> 's reading" where
  "container opener shut step s r =
     (if at1 r \<noteq> opener then Inl (refuse r ''wrong_type'')
      else case enter r of
        Inl e \<Rightarrow> Inl e
      | Inr r1 \<Rightarrow>
         let r2 = ws (advance 1 r1) in
         case (if at1 r2 = shut then Inr (s, r2) else loop (Suc (length (rd_rest r2))) step s r2) of
           Inl e \<Rightarrow> Inl e
         | Inr (s1, r3) \<Rightarrow>
            if at1 r3 \<noteq> shut then Inl (refuse r3 ''malformed'') else Inr (s1, leave (advance 1 r3)))"

definition decodeList :: "'a reading \<Rightarrow> 'a list reading" where
  "decodeList elem = container (CHR ''['') (CHR '']'')
     (\<lambda>xs r. case elem r of Inl e \<Rightarrow> Inl e | Inr (x, r1) \<Rightarrow> Inr (xs @ [x], r1)) []"

definition reader_strList :: "bytes list reading" where
  "reader_strList = decodeList reader_str"

text \<open>A member's name, its colon and the white space around it.\<close>

definition memberName :: "bytes reading" where
  "memberName r =
     (if at1 r \<noteq> quote then Inl (refuse r ''malformed'')
      else case reader_str r of
        Inl e \<Rightarrow> Inl e
      | Inr (key, r1) \<Rightarrow>
         if at1 (ws r1) \<noteq> CHR '':'' then Inl (refuse (ws r1) ''malformed'') else Inr (key, ws (advance 1 (ws r1))))"

type_synonym 'v fields = "(bytes \<times> ('v \<Rightarrow> 'v reading)) list"

definition memberStep :: "'v fields \<Rightarrow> 'v \<times> bytes list \<Rightarrow> ('v \<times> bytes list) reading" where
  "memberStep fl s r = (case memberName r of
     Inl e \<Rightarrow> Inl e
   | Inr (key, r1) \<Rightarrow> (case map_of fl key of
       None \<Rightarrow> Inl (refuse r1 ''unknown_field'')
     | Some read \<Rightarrow>
         if key \<in> set (snd s) then Inl (refuse r1 ''duplicate_field'')
         else case read (fst s) r1 of Inl e \<Rightarrow> Inl e | Inr (v, r2) \<Rightarrow> Inr ((v, key # snd s), r2)))"

text \<open>The loop of every generated \<open>decodeX\<close>: the members in any order, none twice, none unknown,
  all the required ones. The code's closing \<open>Known\<close> checks hold of every parsed enumeration.\<close>

definition decodeRecord :: "'v fields \<Rightarrow> bytes list \<Rightarrow> 'v \<Rightarrow> 'v reading" where
  "decodeRecord fl required v r = (case container (CHR ''{'') (CHR ''}'') (memberStep fl) (v, []) r of
     Inl e \<Rightarrow> Inl e
   | Inr ((v1, seen), r1) \<Rightarrow>
      if \<not> set required \<subseteq> set seen then Inl (refuse r1 ''missing_field'') else Inr (v1, r1))"

text \<open>One member: a reading and where its value goes; an enumeration is read as its word.\<close>

definition into :: "'a reading \<Rightarrow> ('a \<Rightarrow> 'v \<Rightarrow> 'v) \<Rightarrow> 'v \<Rightarrow> 'v reading" where
  "into read put v r = (case read r of Inl e \<Rightarrow> Inl e | Inr (x, r1) \<Rightarrow> Inr (put x v, r1))"

definition reader_word :: "(bytes \<Rightarrow> 'a option) \<Rightarrow> 'a reading" where
  "reader_word parse r = (case reader_str r of
     Inl e \<Rightarrow> Inl e
   | Inr (x, r1) \<Rightarrow> (case parse x of None \<Rightarrow> Inl (refuse r1 ''bad_enum'') | Some w \<Rightarrow> Inr (w, r1)))"

definition reader_words :: "(bytes \<Rightarrow> 'a option) \<Rightarrow> 'a list reading" where
  "reader_words parse r = (case reader_strList r of
     Inl e \<Rightarrow> Inl e
   | Inr (xs, r1) \<Rightarrow> (case those (map parse xs) of None \<Rightarrow> Inl (refuse r1 ''bad_enum'') | Some vs \<Rightarrow> Inr (vs, r1)))"

subsection \<open>Values that are carried\<close>

definition someDigits :: "unit reading" where
  "someDigits r =
     (let r1 = r\<lparr>rd_rest := dropWhile isDigit (rd_rest r)\<rparr> in
      if isDigit (at1 r) then Inr ((), r1) else Inl (refuse r1 ''number_spelling''))"

definition skipExponent :: "unit reading" where
  "skipExponent r =
     (if at1 r \<noteq> CHR ''e'' \<and> at1 r \<noteq> CHR ''E'' then Inr ((), r)
      else let r1 = advance 1 r in
        someDigits (if at1 r1 = CHR ''+'' \<or> at1 r1 = CHR ''-'' then advance 1 r1 else r1))"

definition skipNumber :: "unit reading" where
  "skipNumber r =
     (let r1 = (if at1 r = CHR ''-'' then advance 1 r else r) in
      if \<not> isDigit (at1 r1) then Inl (refuse r1 ''number_spelling'')
      else let r2 = (if at1 r1 = CHR ''0'' then advance 1 r1 else r1\<lparr>rd_rest := dropWhile isDigit (rd_rest r1)\<rparr>) in
        if at1 r2 \<noteq> CHR ''.'' then skipExponent r2
        else case someDigits (advance 1 r2) of Inl e \<Rightarrow> Inl e | Inr (u, r3) \<Rightarrow> skipExponent r3)"

definition skipString :: "unit reading" where
  "skipString r = (case reader_str r of Inl e \<Rightarrow> Inl e | Inr (s, r1) \<Rightarrow> Inr ((), r1))"

definition skipElement :: "unit reading \<Rightarrow> bytes list \<Rightarrow> bytes list reading" where
  "skipElement val seen r = (case val r of Inl e \<Rightarrow> Inl e | Inr (u, r1) \<Rightarrow> Inr (seen, r1))"

definition skipMember :: "unit reading \<Rightarrow> bytes list \<Rightarrow> bytes list reading" where
  "skipMember val seen r =
     (if at1 r \<noteq> quote then Inl (refuse r ''malformed'')
      else case reader_str r of
        Inl e \<Rightarrow> Inl e
      | Inr (key, r1) \<Rightarrow>
         if key \<in> set seen then Inl (refuse r1 ''duplicate_key'')
         else if at1 (ws r1) \<noteq> CHR '':'' then Inl (refuse (ws r1) ''malformed'')
         else case val (ws (advance 1 (ws r1))) of Inl e \<Rightarrow> Inl e | Inr (u, r2) \<Rightarrow> Inr (key # seen, r2))"

definition skipContainer :: "unit reading \<Rightarrow> unit reading" where
  "skipContainer val r =
     (case (if at1 r = CHR ''['' then container (CHR ''['') (CHR '']'') (skipElement val) [] r
            else container (CHR ''{'') (CHR ''}'') (skipMember val) [] r) of
        Inl e \<Rightarrow> Inl e
      | Inr (seen, r1) \<Rightarrow> Inr ((), r1))"

text \<open>\<open>skipValue\<close> and \<open>skipContainer\<close> call each other; the depth limit bounds their nesting.\<close>

fun skipNested :: "nat \<Rightarrow> unit reading" where
  "skipNested 0 r = Inl Unfinished"
| "skipNested (Suc n) r =
     (let c = at1 r in
      if c = quote then skipString r
      else if c = CHR ''{'' \<or> c = CHR ''['' then skipContainer (skipNested n) r
      else if c = CHR ''t'' then reader_literal ''true'' () r
      else if c = CHR ''f'' then reader_literal ''false'' () r
      else if c = CHR ''n'' then reader_literal ''null'' () r
      else if c = CHR ''-'' \<or> isDigit c then skipNumber r
      else Inl (refuse r ''malformed''))"

definition skipValue :: "unit reading" where
  "skipValue = skipNested (depthLimit + 1)"

definition reader_rawValue :: "bytes reading" where
  "reader_rawValue r = (case skipValue r of
     Inl e \<Rightarrow> Inl e
   | Inr (u, r1) \<Rightarrow> Inr (take (length (rd_rest r) - length (rd_rest r1)) (rd_rest r), r1))"

subsection \<open>Whole messages\<close>

definition newReader :: "bytes \<Rightarrow> nat \<Rightarrow> nat \<Rightarrow> reader" where
  "newReader buf depth limit = \<lparr>rd_buf = buf, rd_rest = buf, rd_depth = depth, rd_limit = limit\<rparr>"

definition decodeAt :: "'a reading \<Rightarrow> bytes \<Rightarrow> int \<Rightarrow> int \<Rightarrow> refusal + 'a \<times> nat" where
  "decodeAt dec buf depth limit =
     (if depth < 0 \<or> limit < 1 then Inl (Refusal ''depth_exceeded'' 0)
      else case dec (ws (newReader buf (nat depth) (nat limit))) of
        Inl e \<Rightarrow> Inl e
      | Inr (v, r) \<Rightarrow> Inr (v, rd_pos r))"

text \<open>A whole buffer is one value: at its end nothing but white space may be left.\<close>

definition decodeWhole :: "'a reading \<Rightarrow> bytes \<Rightarrow> nat \<Rightarrow> refusal + 'a" where
  "decodeWhole dec buf depth = (case dec (ws (newReader buf depth 0)) of
     Inl e \<Rightarrow> Inl e
   | Inr (v, r) \<Rightarrow> if rd_rest (ws r) \<noteq> [] then Inl (refuse (ws r) ''trailing_bytes'') else Inr v)"

definition decodeAll :: "'a reading \<Rightarrow> bytes \<Rightarrow> refusal + 'a" where
  "decodeAll dec buf = (case decodeAt dec buf 0 (int depthLimit) of
     Inl e \<Rightarrow> Inl e
   | Inr (v, n) \<Rightarrow>
      let rest1 = dropWhile isWs (drop n buf) in
      if rest1 \<noteq> [] then Inl (Refusal ''trailing_bytes'' (length buf - length rest1)) else Inr v)"

text \<open>\<open>EncodeXAt\<close>: a value the decoder would refuse is a panic with that refusal.\<close>

definition encodeAt :: "('a \<Rightarrow> nat \<Rightarrow> bytes) \<Rightarrow> 'a reading \<Rightarrow> 'a \<Rightarrow> int \<Rightarrow> refusal + bytes" where
  "encodeAt enc dec v depth =
     (if depth < 0 \<or> depth \<ge> int depthLimit then Inl (Refusal ''depth_exceeded'' 0)
      else let out = enc v (nat depth) in
        case decodeAt dec out depth (int depthLimit) of Inl e \<Rightarrow> Inl e | Inr d \<Rightarrow> Inr out)"

end
