(* ===== verification/Codecs.thy ===== *)
theory Codecs
  imports Reader
begin

text \<open>
  What the generated reader promises, once for all message types: every reading comes to an end
  and only moves forward (\<open>tame\<close>).
\<close>

subsection \<open>Readings come to an end\<close>

definition within :: "reader \<Rightarrow> refusal + 'a \<times> reader \<Rightarrow> bool" where
  "within r result \<longleftrightarrow> result \<noteq> Inl Unfinished \<and> (\<forall>v r1. result = Inr (v, r1) \<longrightarrow> (\<exists>n. r1 = advance n r))"

definition tame :: "'a reading \<Rightarrow> bool" where
  "tame dec \<longleftrightarrow> (\<forall>r. within r (dec r))"

lemma tameI: "(\<And>r. within r (dec r)) \<Longrightarrow> tame dec"
  by (simp add: tame_def)

lemma tameD: "tame dec \<Longrightarrow> within r (dec r)"
  by (simp add: tame_def)

lemma advance_0 [simp]: "advance 0 r = r"
  by (simp add: advance_def)

lemma advance_fields [simp]:
  "rd_depth (advance n r) = rd_depth r" "reader_depthLimit (advance n r) = reader_depthLimit r"
  "rd_buf (advance n r) = rd_buf r"
  by (simp_all add: advance_def reader_depthLimit_def)

lemma dropWhile_advance: "\<exists>n. r\<lparr>rd_rest := dropWhile P (rd_rest r)\<rparr> = advance n r"
  by (metis advance_def dropWhile_eq_drop)

lemma ws_advance: "\<exists>n. ws r = advance n r"
  unfolding ws_def by (rule dropWhile_advance)

lemma deeper_limit [simp]: "reader_depthLimit (r\<lparr>rd_depth := d\<rparr>) = reader_depthLimit r"
  by (simp add: reader_depthLimit_def)

lemma ws_fields [simp]:
  "rd_depth (ws r) = rd_depth r" "reader_depthLimit (ws r) = reader_depthLimit r"
  using ws_advance [of r] by auto

lemma within_refuse [intro, simp]: "within r (Inl (refuse r1 w))"
  by (simp add: within_def refuse_def)

lemma within_value [intro, simp]: "within r (Inr (v, advance n r))" "within r (Inr (v, r))" "within r (Inr (v, ws r))"
  using ws_advance [of r] advance_0 [of r] by (auto simp: within_def intro: exI [of _ 0] simp del: advance_0)

lemma within_advance: "within (advance n r) result \<Longrightarrow> within r result"
  by (auto simp: within_def)

lemma within_ws: "within (ws r) result \<Longrightarrow> within r result"
  using ws_advance [of r] within_advance by metis

lemma within_case:
  assumes "within r result" and "\<And>x n. result = Inr (x, advance n r) \<Longrightarrow> within (advance n r) (f x (advance n r))"
  shows "within r (case result of Inl e \<Rightarrow> Inl e | Inr (x, r1) \<Rightarrow> f x r1)"
proof (cases result)
  case (Inr xr)
  with assms(1) obtain x n where "result = Inr (x, advance n r)" by (cases xr) (auto simp: within_def)
  with assms(2) [OF this] show ?thesis by (auto intro: within_advance)
qed (use assms(1) in \<open>auto simp: within_def\<close>)

lemma within_if: "(c \<Longrightarrow> within r a) \<Longrightarrow> (\<not> c \<Longrightarrow> within r b) \<Longrightarrow> within r (if c then a else b)"
  by simp

lemmas within_intros = within_refuse within_value within_case within_if within_advance [of "Suc 0"]

lemma tame_hex4: "tame reader_hex4"
  by (rule tameI) (auto simp: reader_hex4_def split: list.split option.split)

lemma tame_unicode: "tame unicodeEscaped"
  unfolding unicodeEscaped_def
  by (rule tameI) (intro within_case within_if within_refuse within_value tameD [OF tame_hex4]
      within_advance [of 2] | assumption)+

lemma tame_escape: "tame reader_escape"
  by (rule tameI) (auto simp: reader_escape_def intro: within_advance tameD [OF tame_unicode] split: list.split option.split)

lemma tame_strLoop: "within r (strLoop out r)"
proof (induction out r rule: strLoop.induct)
  case (1 out r)
  show ?case
  proof (cases "rd_rest r")
    case (Cons c cs)
    note IH = 1 [OF Cons]
    show ?thesis
    proof (cases "c = quote \<or> code c < 32")
      case False
      then show ?thesis
        using IH(1,2) tameD [OF tame_escape, of r]
        by (subst strLoop.simps) (auto simp: Cons intro: within_case within_advance)
    qed (subst strLoop.simps; auto simp: Cons)
  qed (simp add: strLoop.simps)
qed

lemma tame_str [simp]: "tame reader_str"
  by (rule tameI) (auto simp: reader_str_def intro: within_advance tame_strLoop)

lemma tame_intDigits: "within r (intDigits u r)"
  by (induction u r rule: intDigits.induct) (subst intDigits.simps, auto intro: within_advance)

lemma within_first: "within (if c then advance 1 r else r) result \<Longrightarrow> within r result"
  by (auto split: if_split_asm intro: within_advance)

lemma tame_integer [simp]: "tame (reader_integer a b)"
proof (rule tameI)
  fix r
  have d: "within q (if at1 q = CHR ''0'' then Inr (0, advance 1 q) else intDigits 0 q)" for q :: reader
    by (simp add: tame_intDigits)
  show "within r (reader_integer a b r)"
    unfolding reader_integer_def Let_def
    by (rule within_if [OF within_refuse], rule within_first [of "at1 r = CHR ''-''"], rule within_if [OF within_refuse],
        rule within_case [OF d], intro within_if within_refuse within_value)
qed

lemma tame_int64 [simp]: "tame reader_int64" and tame_int32 [simp]: "tame reader_int32"
  by (simp_all add: reader_int64_def reader_int32_def)

lemma tame_literal [simp]: "tame (reader_literal w v)"
  by (rule tameI) (simp add: reader_literal_def)

lemma tame_boolean [simp]: "tame reader_boolean"
  by (rule tameI) (simp add: reader_boolean_def tameD)

lemma tame_binary [simp]: "tame reader_binary"
  unfolding reader_binary_def
  by (rule tameI, rule within_case [OF tameD]) (auto split: option.split)

subsection \<open>Loops come to an end\<close>

text \<open>A round leaves fewer bytes than it found, so one round more than there are bytes is enough.\<close>

lemma at1_rest: "at1 r = c \<Longrightarrow> code c \<noteq> 0 \<Longrightarrow> rd_rest r \<noteq> []"
  by (auto simp: at1_def)

declare loop.simps [simp del]

lemma loop_within:
  "(\<And>s m. within (advance m r) (step s (advance m r))) \<Longrightarrow> length (rd_rest r) < n \<Longrightarrow> within r (loop n step s r)"
proof (induction n arbitrary: s r)
  case (Suc n)
  obtain w where w: "ws r = advance w r" using ws_advance by blast
  have "within (ws r) (loop (Suc n) step s r)"
    unfolding loop.simps
  proof (rule within_case)
    show "within (ws r) (step s (ws r))" using Suc.prems(1) by (simp add: w)
  next
    fix s1 m
    let ?q = "advance m (ws r)"
    obtain v where v: "ws ?q = advance v ?q" using ws_advance by blast
    have "within (advance 1 (ws ?q)) (loop n step s1 (advance 1 (ws ?q)))" if "at1 (ws ?q) = CHR '',''"
    proof (rule Suc.IH)
      show "within (advance k (advance 1 (ws ?q))) (step s2 (advance k (advance 1 (ws ?q))))" for s2 k
        using Suc.prems(1) [where m = "w + m + v + 1 + k"] unfolding v unfolding w by (simp add: add.assoc)
      have "rd_rest (ws ?q) \<noteq> []" using at1_rest [OF that] by (simp add: code_def)
      then show "length (rd_rest (advance 1 (ws ?q))) < n" using Suc.prems(2) unfolding v unfolding w by simp
    qed
    then show "within ?q (if at1 (ws ?q) \<noteq> CHR '','' then Inr (s1, ws ?q) else loop n step s1 (advance 1 (ws ?q)))"
      by (intro within_if within_value within_ws [of ?q] within_advance [of 1 "ws ?q"]) simp_all
  qed
  then show ?case by (rule within_ws)
qed simp

definition tame_at :: "nat \<Rightarrow> 'a reading \<Rightarrow> bool" where
  "tame_at k dec \<longleftrightarrow> (\<forall>r. reader_depthLimit r < k + rd_depth r \<longrightarrow> within r (dec r))"

lemma reader_depthLimit_bound: "reader_depthLimit r \<le> 64"
  by (simp add: reader_depthLimit_def depthLimit_def)

lemma tame_at_tame: "tame_at 65 dec \<Longrightarrow> tame dec"
proof (rule tameI)
  fix r
  assume "tame_at 65 dec"
  then show "within r (dec r)" using reader_depthLimit_bound [of r] by (simp add: tame_at_def)
qed

lemma tame_tame_at: "tame dec \<Longrightarrow> tame_at k dec"
  by (simp add: tame_def tame_at_def)

text \<open>Inside a container the depth is one more, and it is left again at the end.\<close>

lemma enter_advance: "enter r = Inr r1 \<Longrightarrow> r1 = r\<lparr>rd_depth := rd_depth r + 1\<rparr> \<and> rd_depth r < reader_depthLimit r"
  by (auto simp: enter_def Let_def reader_depthLimit_def split: if_splits)

lemma leave_advance: "leave (advance n (r\<lparr>rd_depth := rd_depth r + 1\<rparr>)) = advance n r"
  by (simp add: leave_def advance_def)

lemma container_within:
  fixes step :: "'s \<Rightarrow> 's reading"
  assumes "\<And>s. tame_at k (step s)"
  shows "tame_at (Suc k) (container opener shut step s)"
  unfolding tame_at_def
proof (intro allI impI)
  fix r
  assume lim: "reader_depthLimit r < Suc k + rd_depth r"
  show "within r (container opener shut step s r)"
  proof (cases "at1 r = opener")
    case True
    show ?thesis
    proof (cases "enter r")
      case (Inr r1)
      let ?q = "ws (advance 1 r1)" and ?deeper = "r\<lparr>rd_depth := rd_depth r + 1\<rparr>"
      have r1: "r1 = ?deeper" using enter_advance [OF Inr] by simp
      obtain w where w: "?q = advance w ?deeper" using ws_advance [of "advance 1 ?deeper"] by (auto simp: r1)
      define body where "body = (if at1 ?q = shut then Inr (s, ?q) else loop (Suc (length (rd_rest ?q))) step s ?q)"
      have step: "within (advance m ?q) (step s1 (advance m ?q))" for s1 m
        using assms [of s1, unfolded tame_at_def, rule_format, of "advance (w + m) ?deeper"] lim unfolding w by simp
      have body: "within ?q body"
        unfolding body_def by (intro within_if within_value loop_within step) simp
      have whole: "container opener shut step s r = (case body of Inl e \<Rightarrow> Inl e | Inr (s1, r3) \<Rightarrow>
          if at1 r3 \<noteq> shut then Inl (refuse r3 ''malformed'') else Inr (s1, leave (advance 1 r3)))"
        unfolding container_def Let_def body_def using True Inr by simp
      have left: "\<exists>n. leave (advance 1 (advance m ?q)) = advance n r" for m
        using leave_advance [of "w + m + 1" r] unfolding w by (auto simp: add.assoc)
      from body show ?thesis
        unfolding whole using left by (cases body) (force simp: within_def refuse_def split: if_splits)+
    qed (auto simp: container_def True enter_def Let_def split: if_splits)
  qed (simp add: container_def)
qed

lemma tame_container:
  assumes "\<And>s. tame (step s)"
  shows "tame (container opener shut step s)"
  by (rule tame_at_tame) (use container_within [of 64 step] assms in \<open>simp add: tame_tame_at\<close>)

lemma within_step: "tame dec \<Longrightarrow> (\<And>x q. within q (f x q)) \<Longrightarrow>
    within r (case dec r of Inl e \<Rightarrow> Inl e | Inr (x, r1) \<Rightarrow> f x r1)"
  by (rule within_case [OF tameD])

lemma tame_decodeList [simp]: "tame elem \<Longrightarrow> tame (decodeList elem)"
  unfolding decodeList_def by (rule tame_container, rule tameI, erule within_step, rule within_value)

lemma tame_strList [simp]: "tame reader_strList"
  by (simp add: reader_strList_def)

lemma tame_into [simp]: "tame dec \<Longrightarrow> tame (into dec put v)"
  unfolding into_def by (rule tameI, erule within_step, rule within_value)

lemma tame_word [simp]: "tame (reader_word parse)"
  unfolding reader_word_def by (rule tameI, rule within_step) (auto split: option.split)

lemma tame_words [simp]: "tame (reader_words parse)"
  unfolding reader_words_def by (rule tameI, rule within_step) (auto split: option.split)

lemma tame_memberName [simp]: "tame memberName"
proof (rule tameI)
  fix r
  have after: "within q (if at1 (ws q) \<noteq> CHR '':'' then Inl (refuse (ws q) ''malformed'') else Inr (key, ws (advance 1 (ws q))))"
    for key and q :: reader
    by (intro within_if within_refuse, rule within_ws, rule within_advance [of 1], rule within_value)
  show "within r (memberName r)"
    unfolding memberName_def by (intro within_if within_refuse within_step [OF tame_str] after)
qed

lemma tame_memberStep:
  assumes "list_all (\<lambda>(k, read). \<forall>v. tame (read v)) fl"
  shows "tame (memberStep fl s)"
proof (rule tameI)
  fix r
  show "within r (memberStep fl s r)"
    unfolding memberStep_def
  proof (rule within_step [OF tame_memberName])
    fix key q
    show "within q (case map_of fl key of None \<Rightarrow> Inl (refuse q ''unknown_field'')
       | Some read \<Rightarrow> if key \<in> set (snd s) then Inl (refuse q ''duplicate_field'')
           else case read (fst s) q of Inl e \<Rightarrow> Inl e | Inr (v, r2) \<Rightarrow> Inr ((v, key # snd s), r2))"
    proof (cases "map_of fl key")
      case (Some read)
      then have "tame (read (fst s))" using assms by (auto simp: list_all_iff dest!: map_of_SomeD)
      then have "within q (case read (fst s) q of Inl e \<Rightarrow> Inl e | Inr (v, r2) \<Rightarrow> Inr ((v, key # snd s), r2))"
        by (rule within_step) (rule within_value)
      then show ?thesis by (simp add: Some)
    qed simp
  qed
qed

lemma tame_decodeRecord:
  assumes "list_all (\<lambda>(k, read). \<forall>v. tame (read v)) fl"
  shows "tame (decodeRecord fl required v)"
proof (rule tameI)
  fix r
  have "within q (case sn of (v1, seen) \<Rightarrow> if \<not> set required \<subseteq> set seen then Inl (refuse q ''missing_field'') else Inr (v1, q))"
    for sn :: "'a \<times> bytes list" and q
    by (cases sn) simp
  then have "within r (case container (CHR ''{'') (CHR ''}'') (memberStep fl) (v, []) r of
     Inl e \<Rightarrow> Inl e
   | Inr (sn, r1) \<Rightarrow> (case sn of (v1, seen) \<Rightarrow> if \<not> set required \<subseteq> set seen then Inl (refuse r1 ''missing_field'') else Inr (v1, r1)))"
    by (rule within_step [OF tame_container [OF tame_memberStep [OF assms]]])
  then show "within r (decodeRecord fl required v r)"
    unfolding decodeRecord_def by (simp split: prod.split_asm sum.split_asm prod.split sum.split cong: sum.case_cong)
qed

lemma tame_someDigits [simp]: "tame someDigits"
proof (rule tameI)
  fix r
  obtain n where n: "r\<lparr>rd_rest := dropWhile isDigit (rd_rest r)\<rparr> = advance n r" using dropWhile_advance by blast
  show "within r (someDigits r)" unfolding someDigits_def n by (simp add: Let_def)
qed

lemma tame_skipExponent [simp]: "tame skipExponent"
  unfolding skipExponent_def Let_def
  by (rule tameI, rule within_if, rule within_value, rule within_advance [of 1], rule within_first, rule tameD, rule tame_someDigits)

lemma tame_skipNumber [simp]: "tame skipNumber"
proof (rule tameI)
  fix r
  have digits: "within q (f (if c then advance 1 q else q\<lparr>rd_rest := dropWhile isDigit (rd_rest q)\<rparr>))"
    if "\<And>p. within p (f p)" for q :: reader and c and f :: "reader \<Rightarrow> refusal + unit \<times> reader"
    using dropWhile_advance [of isDigit q] that within_advance by (cases c) (auto, metis)
  show "within r (skipNumber r)"
    unfolding skipNumber_def Let_def
    by (rule within_first [of "at1 r = CHR ''-''"], rule within_if [OF within_refuse], rule digits, rule within_if,
        rule tameD [OF tame_skipExponent], rule within_advance [of 1], rule within_step [OF tame_someDigits], rule tameD [OF tame_skipExponent])
qed

lemma tame_skipString [simp]: "tame skipString"
  unfolding skipString_def by (rule tameI, rule within_step, simp_all)

lemma within_at: "tame_at k dec \<Longrightarrow> reader_depthLimit r < k + rd_depth r \<Longrightarrow> (\<And>x n. within (advance n r) (f x (advance n r))) \<Longrightarrow>
    within r (case dec r of Inl e \<Rightarrow> Inl e | Inr (x, r1) \<Rightarrow> f x r1)"
  by (rule within_case) (auto simp: tame_at_def)

lemma skipElement_at: "tame_at k val \<Longrightarrow> tame_at k (skipElement val seen)"
  unfolding tame_at_def [of k "skipElement val seen"] skipElement_def by (blast intro: within_at within_value)

lemma skipMember_at:
  assumes "tame_at k val"
  shows "tame_at k (skipMember val seen)"
  unfolding tame_at_def
proof (intro allI impI)
  fix r
  assume lim: "reader_depthLimit r < k + rd_depth r"
  have inner: "within q (case val (ws (advance 1 (ws q))) of Inl e \<Rightarrow> Inl e | Inr (u, r2) \<Rightarrow> Inr (key # seen, r2))"
    if "reader_depthLimit q < k + rd_depth q" for key q
    by (rule within_ws, rule within_advance [of 1], rule within_ws, rule within_at [OF assms]) (simp_all add: that)
  show "within r (skipMember val seen r)"
    unfolding skipMember_def
    by (rule within_if [OF within_refuse], rule within_case [OF tameD [OF tame_str]])
       (intro within_if within_refuse inner, simp add: lim)
qed

lemma skipContainer_at: "tame_at k val \<Longrightarrow> tame_at (Suc k) (skipContainer val)"
proof -
  assume val: "tame_at k val"
  note els = container_within [OF skipElement_at [OF val], unfolded tame_at_def, rule_format]
  note mems = container_within [OF skipMember_at [OF val], unfolded tame_at_def, rule_format]
  show ?thesis
    unfolding tame_at_def skipContainer_def
    by (intro allI impI, rule within_case) (auto simp del: add_Suc intro: els mems)
qed

text \<open>At the depth limit no container is entered, so one level of fuel is enough there.\<close>

lemma container_at_limit: "tame_at 1 (container opener shut step s)"
  by (auto simp: tame_at_def container_def enter_def)

lemma skipNested_at: "tame_at (Suc n) (skipNested (Suc n))"
proof (induction n)
  case 0
  have "tame_at 1 (skipContainer val)" for val
    unfolding tame_at_def skipContainer_def
    by (intro allI impI within_case within_if container_at_limit [unfolded tame_at_def, rule_format] within_value) simp_all
  then show ?case unfolding tame_at_def by (auto simp: Let_def intro: tameD)
next
  case (Suc n)
  have "within r (skipNested (Suc (Suc n)) r)" if "reader_depthLimit r < Suc (Suc n) + rd_depth r" for r
    using skipContainer_at [OF Suc, unfolded tame_at_def] that unfolding skipNested.simps(2) [of "Suc n"]
    by (auto simp: Let_def simp del: skipNested.simps intro: tameD)
  then show ?case by (simp add: tame_at_def del: skipNested.simps)
qed

lemma tame_skipValue [simp]: "tame skipValue"
  using skipNested_at [of 64] by (simp add: skipValue_def depthLimit_def tame_at_tame del: skipNested.simps)

lemma tame_rawValue [simp]: "tame reader_rawValue"
  unfolding reader_rawValue_def by (rule tameI, rule within_step) simp_all

end
