(* ===== verification/Round_Trips.thy ===== *)
theory Round_Trips
  imports Codecs
begin

text \<open>
  That the generated reader reads back what the generated encoders write: strings with their
  escapes, numbers, words, binary text, lists, and records member by member; and that a written
  value can be skipped, which is how a frame carries it. A reading is told the nesting its text
  needs, since the depth limit refuses more.
\<close>

subsection \<open>What a text is read as\<close>

definition delimited :: "bytes \<Rightarrow> bool" where
  "delimited tail \<longleftrightarrow> (case tail of [] \<Rightarrow> True | c # cs \<Rightarrow> c \<in> {CHR '','', newline, CHR '']'', CHR ''}''})"

definition solid :: "bytes \<Rightarrow> bool" where
  "solid t \<longleftrightarrow> (case t of [] \<Rightarrow> False | c # cs \<Rightarrow> \<not> isWs c \<and> c \<noteq> CHR '']'' \<and> c \<noteq> CHR ''}'')"

definition reads :: "nat \<Rightarrow> 'a reading \<Rightarrow> bytes \<Rightarrow> 'a \<Rightarrow> bool" where
  "reads h dec t v \<longleftrightarrow> solid t \<and>
     (\<forall>r tail. rd_rest r = t @ tail \<longrightarrow> delimited tail \<longrightarrow> rd_depth r + h \<le> reader_depthLimit r \<longrightarrow>
        dec r = Inr (v, advance (length t) r))"

lemma readsI:
  assumes "solid t"
    and "\<And>r tail. rd_rest r = t @ tail \<Longrightarrow> delimited tail \<Longrightarrow> rd_depth r + h \<le> reader_depthLimit r \<Longrightarrow>
      dec r = Inr (v, advance (length t) r)"
  shows "reads h dec t v"
  using assms by (simp add: reads_def)

lemma readsD:
  assumes "reads h dec t v" and "rd_rest r = t @ tail" and "delimited tail" and "rd_depth r + h \<le> reader_depthLimit r"
  shows "dec r = Inr (v, advance (length t) r)"
  using assms by (simp add: reads_def)

lemma reads_solid: "reads h dec t v \<Longrightarrow> solid t"
  by (simp add: reads_def)

lemma reads_deeper: "reads h dec t v \<Longrightarrow> h \<le> k \<Longrightarrow> reads k dec t v"
  by (auto simp: reads_def)

lemma delimited_simps [simp]:
  "delimited []" "delimited (CHR '','' # t)" "delimited (newline # t)" "delimited (CHR '']'' # t)" "delimited (CHR ''}'' # t)"
  by (simp_all add: delimited_def)

lemma at1_append [simp]: "rd_rest r = c # t \<Longrightarrow> at1 r = c"
  by (simp add: at1_def)

lemma ws_solid: "rd_rest r = t @ tail \<Longrightarrow> solid t \<Longrightarrow> ws r = r"
  by (cases t) (auto simp: ws_def solid_def)

subsection \<open>UTF-8\<close>

text \<open>The reader's own check accepts exactly the strings Go's library calls valid.\<close>

lemma mod_of_div: "x div d = q \<Longrightarrow> (x::nat) mod d = x - d * q" by (metis minus_mult_div_eq_mod)
lemma lead_two: "192 \<le> x \<Longrightarrow> x < 224 \<Longrightarrow> (x::nat) div 32 = 6" by linarith
lemma lead_three: "224 \<le> x \<Longrightarrow> x < 240 \<Longrightarrow> (x::nat) div 16 = 14 \<and> x div 32 = 7" by (rule conjI; linarith)
lemma lead_four: "240 \<le> x \<Longrightarrow> x < 248 \<Longrightarrow> (x::nat) div 8 = 30 \<and> x div 32 = 7 \<and> x div 16 = 15" by (intro conjI; linarith)
lemma lead_none: "248 \<le> x \<Longrightarrow> x < 256 \<Longrightarrow> (x::nat) div 8 = 31 \<and> x div 32 = 7 \<and> x div 16 = 15" by (intro conjI; linarith)
lemma lead_cont: "128 \<le> x \<Longrightarrow> x < 192 \<Longrightarrow> (x::nat) div 32 \<noteq> 6 \<and> x div 16 \<noteq> 14 \<and> x div 8 \<noteq> 30" by (intro conjI; linarith)
lemma two_bytes: "192 \<le> c \<Longrightarrow> c < 224 \<Longrightarrow> 128 \<le> d \<Longrightarrow> d < (192::nat) \<Longrightarrow>
  (\<not> ((c - 192) * 64 + (d - 128) < 128 \<or> (c - 192) * 64 + (d - 128) > 0x10FFFF \<or>
    (0xD800 \<le> (c - 192) * 64 + (d - 128) \<and> (c - 192) * 64 + (d - 128) \<le> 0xDFFF))) = (194 \<le> c)"
  by linarith
lemma three_bytes: "224 \<le> c \<Longrightarrow> c < 240 \<Longrightarrow> 128 \<le> d \<Longrightarrow> d < (192::nat) \<Longrightarrow> 128 \<le> e \<Longrightarrow> e < (192::nat) \<Longrightarrow>
  u = ((c - 224) * 64 + (d - 128)) * 64 + (e - 128) \<Longrightarrow>
  (\<not> (u < 0x800 \<or> u > 0x10FFFF \<or> (0xD800 \<le> u \<and> u \<le> 0xDFFF))) =
  ((if c = 224 then 160 else 128) \<le> d \<and> d < (if c = 237 then 160 else 192))"
  by (cases "c = 224"; cases "c = 237"; simp; linarith)
lemma four_bytes: "240 \<le> c \<Longrightarrow> c < 248 \<Longrightarrow> 128 \<le> d \<Longrightarrow> d < (192::nat) \<Longrightarrow> 128 \<le> e \<Longrightarrow> e < (192::nat) \<Longrightarrow> 128 \<le> g \<Longrightarrow> g < (192::nat) \<Longrightarrow>
  u = (((c - 240) * 64 + (d - 128)) * 64 + (e - 128)) * 64 + (g - 128) \<Longrightarrow>
  (\<not> (u < 0x10000 \<or> u > 0x10FFFF \<or> (0xD800 \<le> u \<and> u \<le> 0xDFFF))) =
  (c < 245 \<and> (if c = 240 then 144 else 128) \<le> d \<and> d < (if c = 244 then 144 else 192))"
  by (cases "c = 240"; cases "c = 244"; simp; linarith)
lemma sequence_1: "sequence 1 u cs = (case cs of d # ds \<Rightarrow> if isCont d then Some (u * 64 + (code d - 128)) else None | [] \<Rightarrow> None)"
  and sequence_2: "sequence 2 u cs = (case cs of d # e # ds \<Rightarrow>
    if isCont d \<and> isCont e then Some ((u * 64 + (code d - 128)) * 64 + (code e - 128)) else None | _ \<Rightarrow> None)"
  and sequence_3: "sequence 3 u cs = (case cs of d # e # g # ds \<Rightarrow>
    if isCont d \<and> isCont e \<and> isCont g
    then Some (((u * 64 + (code d - 128)) * 64 + (code e - 128)) * 64 + (code g - 128)) else None | _ \<Rightarrow> None)"
proof -
  have cont: "code d div 64 = 2 \<longleftrightarrow> isCont d" for d unfolding isCont_def by linarith
  have m: "code d mod 64 = code d - 128" if "isCont d" for d using mod_of_div [of "code d" 64 2] that cont by simp
  show "sequence 1 u cs = (case cs of d # ds \<Rightarrow> if isCont d then Some (u * 64 + (code d - 128)) else None | [] \<Rightarrow> None)"
    by (auto simp: sequence_def cont m split: list.split)
  show "sequence 2 u cs = (case cs of d # e # ds \<Rightarrow>
    if isCont d \<and> isCont e then Some ((u * 64 + (code d - 128)) * 64 + (code e - 128)) else None | _ \<Rightarrow> None)"
    by (auto simp: sequence_def cont cont [unfolded numeral_2_eq_2] m numeral_2_eq_2 split: list.split)
  show "sequence 3 u cs = (case cs of d # e # g # ds \<Rightarrow>
    if isCont d \<and> isCont e \<and> isCont g
    then Some (((u * 64 + (code d - 128)) * 64 + (code e - 128)) * 64 + (code g - 128)) else None | _ \<Rightarrow> None)"
    by (auto simp: sequence_def cont cont [unfolded numeral_2_eq_2] m numeral_3_eq_3 split: list.split)
qed

lemma wireUTF8_step:
  "wireUTF8 s = (s = [] \<or> (case nextRune s of None \<Rightarrow> False | Some (r, t) \<Rightarrow> wireUTF8 t))"
proof (cases s)
  case (Cons c cs)
  have c: "code c < 256" by (rule code_less_256)
  consider "code c < 128" | "128 \<le> code c" "code c < 192" | "192 \<le> code c" "code c < 224"
    | "224 \<le> code c" "code c < 240" | "240 \<le> code c" "code c < 248" | "248 \<le> code c" by linarith
  then show ?thesis
  proof cases
    case 1
    then show ?thesis by (subst wireUTF8.simps) (simp add: Cons nextRune_def)
  next
    case 2
    then show ?thesis using lead_cont [OF 2] by (subst wireUTF8.simps) (simp add: Cons nextRune_def Let_def)
  next
    case 3
    show ?thesis
      using 3 lead_two [OF 3] mod_of_div [OF lead_two [OF 3]] two_bytes [OF 3]
      by (subst wireUTF8.simps) (auto simp: Cons nextRune_def Let_def sequence_1 [simplified] isCont_def split: list.split)
  next
    case 4
    show ?thesis
    proof (cases "length cs < 2")
      case True
      then have "sequence 2 u cs = None" for u by (simp add: sequence_def)
      moreover have "nextRune s = None" using 4 True by (auto simp: Cons nextRune_def Let_def split: list.split)
      ultimately show ?thesis using 4 lead_three [OF 4] by (subst wireUTF8.simps) (simp add: Cons Let_def)
    next
      case False
      then obtain d e ds where ds: "cs = d # e # ds"
        by (cases cs rule: list.exhaust; cases "tl cs") auto
      define u where "u = ((code c - 224) * 64 + (code d - 128)) * 64 + (code e - 128)"
      have m: "code c mod 16 = code c - 224" using mod_of_div [of "code c" 16 14] lead_three [OF 4] by simp
      have seq: "sequence 2 (code c - 224) cs = (if isCont d \<and> isCont e then Some u else None)"
        by (simp add: sequence_2 ds u_def)
      define ok where "ok \<longleftrightarrow> (if code c = 224 then 160 else 128) \<le> code d \<and> code d < (if code c = 237 then 160 else 192)"
      have w: "wireUTF8 s = (isCont d \<and> isCont e \<and>
          \<not> (u < 0x800 \<or> u > 0x10FFFF \<or> (0xD800 \<le> u \<and> u \<le> 0xDFFF)) \<and> wireUTF8 ds)"
        using 4 lead_three [OF 4]
        by (subst wireUTF8.simps) (auto simp: Cons Let_def seq m, simp_all add: ds)
      have n: "nextRune s = (if ok \<and> isCont e
        then Some ((code c - 224) * 4096 + (code d - 128) * 64 + (code e - 128), ds) else None)"
        using 4 by (simp add: Cons ds nextRune_def Let_def ok_def)
      have d: "ok \<Longrightarrow> isCont d" by (auto simp: ok_def isCont_def split: if_splits)
      have "(\<not> (u < 0x800 \<or> u > 0x10FFFF \<or> (0xD800 \<le> u \<and> u \<le> 0xDFFF))) = ok" if "isCont d" "isCont e"
        unfolding ok_def by (rule three_bytes [OF 4 _ _ _ _ u_def]) (use that in \<open>simp_all add: isCont_def\<close>)
      then show ?thesis unfolding w n using d by (cases "isCont d"; cases "isCont e") (auto simp: Cons)
    qed
  next
    case 6
    then show ?thesis using lead_none [OF 6 c] by (subst wireUTF8.simps) (simp add: Cons nextRune_def Let_def)
  next
    case 5
    show ?thesis
    proof (cases "length cs < 3")
      case True
      then have "sequence 3 u cs = None" for u by (simp add: sequence_def)
      moreover have "nextRune s = None" using 5 True by (auto simp: Cons nextRune_def Let_def split: list.split)
      ultimately show ?thesis using 5 lead_four [OF 5] by (subst wireUTF8.simps) (simp add: Cons Let_def)
    next
      case False
      then obtain d e g ds where ds: "cs = d # e # g # ds"
        by (cases cs rule: list.exhaust; cases "tl cs"; cases "tl (tl cs)") auto
      define u where "u = (((code c - 240) * 64 + (code d - 128)) * 64 + (code e - 128)) * 64 + (code g - 128)"
      have m: "code c mod 8 = code c - 240" using mod_of_div [of "code c" 8 30] lead_four [OF 5] by simp
      have seq: "sequence 3 (code c - 240) cs = (if isCont d \<and> isCont e \<and> isCont g then Some u else None)"
        by (simp add: sequence_3 ds u_def)
      define ok where "ok \<longleftrightarrow> code c < 245 \<and> (if code c = 240 then 144 else 128) \<le> code d \<and> code d < (if code c = 244 then 144 else 192)"
      have w: "wireUTF8 s = (isCont d \<and> isCont e \<and> isCont g \<and>
          \<not> (u < 0x10000 \<or> u > 0x10FFFF \<or> (0xD800 \<le> u \<and> u \<le> 0xDFFF)) \<and> wireUTF8 ds)"
        using 5 lead_four [OF 5]
        by (subst wireUTF8.simps) (auto simp: Cons Let_def seq m, simp_all add: ds)
      have n: "nextRune s = (if ok \<and> isCont e \<and> isCont g
        then Some ((code c - 240) * 262144 + (code d - 128) * 4096 + (code e - 128) * 64 + (code g - 128), ds) else None)"
        using 5 by (simp add: Cons ds nextRune_def Let_def ok_def)
      have d: "ok \<Longrightarrow> isCont d" by (auto simp: ok_def isCont_def split: if_splits)
      have "(\<not> (u < 0x10000 \<or> u > 0x10FFFF \<or> (0xD800 \<le> u \<and> u \<le> 0xDFFF))) = ok"
        if "isCont d" "isCont e" "isCont g"
        unfolding ok_def by (rule four_bytes [OF 5 _ _ _ _ _ _ u_def]) (use that in \<open>simp_all add: isCont_def\<close>)
      then show ?thesis unfolding w n using d by (cases "isCont d"; cases "isCont e"; cases "isCont g") (auto simp: Cons)
    qed
  qed
qed (subst wireUTF8.simps; simp)

lemma wireUTF8_valid: "wireUTF8 s = validUTF8 s"
proof (induction s rule: length_induct)
  case (1 s)
  then show ?case
    by (subst wireUTF8_step, unfold validUTF8_def, subst runes.simps)
       (auto split: option.split dest: nextRune_shorter)
qed

subsection \<open>Strings\<close>

lemma nibble_hexDigit: "n < 16 \<Longrightarrow> nibble (hexDigit n) = Some n"
  by (cases "n < 10") (auto simp: nibble_def hexDigit_def less_eq_char_def code_def)

lemma strLoop_plain: "code c \<ge> 32 \<Longrightarrow> c \<noteq> quote \<Longrightarrow> c \<noteq> backslash \<Longrightarrow> rd_rest r = c # t \<Longrightarrow>
    strLoop out r = strLoop (out @ [c]) (advance 1 r)"
  by (subst strLoop.simps) simp

lemma strLoop_short: "shortEscape c = Some d \<Longrightarrow> rd_rest r = backslash # c # t \<Longrightarrow>
    strLoop out r = strLoop (out @ [d]) (advance 2 r)"
  by (subst strLoop.simps) (simp add: reader_escape_def code_def)

lemma strLoop_hex:
  assumes "code c < 32" and "rd_rest r = backslash # CHR ''u'' # CHR ''0'' # CHR ''0'' # hexDigit (code c div 16) # hexDigit (code c mod 16) # t"
  shows "strLoop out r = strLoop (out @ [c]) (advance 6 r)"
proof -
  have n: "nibble (hexDigit (code c div 16)) = Some (code c div 16)" "nibble (hexDigit (code c mod 16)) = Some (code c mod 16)"
    using assms(1) by (simp_all add: nibble_hexDigit)
  have z: "nibble (CHR ''0'') = Some 0" by (simp add: nibble_def less_eq_char_def code_def)
  have c: "char_of (code c) = c" by (simp add: code_def)
  have "reader_hex4 (advance 2 r) = Inr (code c, advance 6 r)"
    using assms(2) by (simp add: reader_hex4_def n z)
  then have "reader_escape r = Inr ([c], advance 6 r)"
    using assms by (simp add: reader_escape_def shortEscape_def unicodeEscaped_def appendRune_def c)
  then show ?thesis
    using assms(2) by (subst strLoop.simps) (simp add: code_def)
qed

lemma strLoop_escByte:
  assumes "rd_rest r = escByte c @ t"
  shows "strLoop out r = strLoop (out @ [c]) (advance (length (escByte c)) r)"
proof -
  have "c = quote \<or> c = backslash \<or> c \<in> {CHR 0x08, CHR 0x0C, CHR 0x0A, CHR 0x0D, CHR 0x09} \<or>
    (code c < 32 \<and> escByte c = [backslash, CHR ''u'', CHR ''0'', CHR ''0'', hexDigit (code c div 16), hexDigit (code c mod 16)]) \<or>
    (code c \<ge> 32 \<and> c \<noteq> quote \<and> c \<noteq> backslash \<and> escByte c = [c])"
    unfolding escByte_def by simp
  then consider (q) "c = quote" | (b) "c = backslash" | (e) "c \<in> {CHR 0x08, CHR 0x0C, CHR 0x0A, CHR 0x0D, CHR 0x09}"
    | (h) "code c < 32" "escByte c = [backslash, CHR ''u'', CHR ''0'', CHR ''0'', hexDigit (code c div 16), hexDigit (code c mod 16)]"
    | (p) "code c \<ge> 32" "c \<noteq> quote" "c \<noteq> backslash" "escByte c = [c]" by blast
  then show ?thesis
  proof cases
    case q
    then show ?thesis using assms strLoop_short [of quote quote r t out] by (simp add: escByte_def shortEscape_def numeral_2_eq_2)
  next
    case b
    then show ?thesis using assms strLoop_short [of backslash backslash r t out] by (simp add: escByte_def shortEscape_def numeral_2_eq_2)
  next
    case e
    then have "\<exists>d. escByte c = [backslash, d] \<and> shortEscape d = Some c" by (auto simp: escByte_def shortEscape_def)
    then show ?thesis using assms strLoop_short [of _ c r t out] by (auto simp: numeral_2_eq_2)
  next
    case h
    have l: "length (escByte c) = 6" by (simp add: h(2))
    show ?thesis unfolding l by (rule strLoop_hex [OF h(1)]) (simp add: assms h(2))
  next
    case p
    then show ?thesis using assms strLoop_plain [of c r t out] by simp
  qed
qed

lemma strLoop_esc:
  "rd_rest r = concat (map escByte s) @ quote # t \<Longrightarrow> validUTF8 (out @ s) \<Longrightarrow>
   strLoop out r = Inr (out @ s, advance (Suc (length (concat (map escByte s)))) r)"
proof (induction s arbitrary: out r)
  case Nil
  then show ?case by (subst strLoop.simps) (simp add: wireUTF8_valid)
next
  case (Cons c s)
  from Cons.prems(1) have "rd_rest r = escByte c @ concat (map escByte s) @ quote # t" by simp
  from strLoop_escByte [OF this] Cons.IH [of "advance (length (escByte c)) r" "out @ [c]"] Cons.prems
  show ?case by simp
qed

lemma isWs_chars [simp]:
  "\<not> isWs quote" "\<not> isWs (CHR ''{'')" "\<not> isWs (CHR ''['')" "\<not> isWs (CHR ''}'')" "\<not> isWs (CHR '']'')" "\<not> isWs (CHR '','')"
  "\<not> isWs (CHR '':'')" "isWs newline" "isWs (CHR '' '')" "\<not> isWs (CHR ''t'')" "\<not> isWs (CHR ''f'')" "\<not> isWs (CHR ''-'')"
  by (simp_all add: isWs_def newline_def)

lemma reads_str [simp, intro]: "validUTF8 s \<Longrightarrow> reads h reader_str (esc s) s"
  by (rule readsI) (auto simp: solid_def esc_def reader_str_def strLoop_esc [of _ s _ "[]"])

lemma reads_after_str:
  assumes "validUTF8 s" and "\<And>r. f (Inr (s, r) :: refusal + bytes \<times> reader) = Inr (v, r)"
  shows "reads h (\<lambda>r. f (reader_str r)) (esc s) v"
  using reads_str [OF assms(1), of h] assms(2) by (auto simp: reads_def)

lemma reads_word: "printable (name v) \<Longrightarrow> parse (name v) = Some v \<Longrightarrow> reads h (reader_word parse) (esc (name v)) v"
  unfolding reader_word_def
  by (rule reads_after_str [where f = "\<lambda>x. case x of Inl e \<Rightarrow> Inl e | Inr (x, r1) \<Rightarrow> _ x r1"]) (auto dest: printable_validUTF8)

lemma reads_binary: "reads h reader_binary (esc (base64 b)) b"
  unfolding reader_binary_def
  by (rule reads_after_str [where f = "\<lambda>x. case x of Inl e \<Rightarrow> Inl e | Inr (x, r1) \<Rightarrow> _ x r1"])
     (simp_all add: printable_validUTF8 [OF printable_base64] unbase64_base64)

subsection \<open>Numbers and literals\<close>

lemma NUL_eq: "NUL = c \<longleftrightarrow> code c = 0"
  by (metis code_NUL code_inj)

lemma delimited_at1:
  assumes "delimited tail" and "rd_rest q = tail"
  shows "\<not> isDigit (at1 q)" "at1 q \<noteq> CHR ''.''" "at1 q \<noteq> CHR ''e''" "at1 q \<noteq> CHR ''E''"
proof -
  have n: "\<not> isDigit NUL" "NUL \<noteq> CHR ''.''" "NUL \<noteq> CHR ''e''" "NUL \<noteq> CHR ''E''"
    by (simp add: isDigit_def) (simp_all add: NUL_eq code_def)
  then show "\<not> isDigit (at1 q)" "at1 q \<noteq> CHR ''.''" "at1 q \<noteq> CHR ''e''" "at1 q \<noteq> CHR ''E''"
    using assms by (auto simp: delimited_def at1_def isDigit_def newline_def code_def split: list.splits)
qed

lemma foldl_digits_mono: "(u::nat) \<le> foldl (\<lambda>n c. 10 * n + (code c - 48)) u s"
proof (induction s arbitrary: u)
  case (Cons c s)
  have "u \<le> 10 * u + (code c - 48)" by simp
  also have "\<dots> \<le> foldl (\<lambda>n c. 10 * n + (code c - 48)) (10 * u + (code c - 48)) s" by (rule Cons)
  finally show ?case by simp
qed simp

lemma intDigits_run:
  "list_all isDigit s \<Longrightarrow> rd_rest r = s @ tail \<Longrightarrow> delimited tail \<Longrightarrow>
   foldl (\<lambda>n c. 10 * n + (code c - 48)) u s \<le> 2 ^ 63 \<Longrightarrow>
   intDigits u r = Inr (foldl (\<lambda>n c. 10 * n + (code c - 48)) u s, advance (length s) r)"
proof (induction s arbitrary: u r)
  case Nil
  then show ?case using delimited_at1(1) [of tail r] by (subst intDigits.simps) simp
next
  case (Cons c s)
  have at: "at1 r = c" using Cons.prems(2) by simp
  have "10 * u + (code c - 48) \<le> 2 ^ 63"
    using foldl_digits_mono [of "10 * u + (code c - 48)" s] Cons.prems(4) by simp
  then have u: "u \<le> 922337203685477580" by simp
  show ?case
    using Cons.IH [of "advance 1 r" "10 * u + (code c - 48)"] Cons.prems u
    by (subst intDigits.simps) (simp add: at mult.commute)
qed

lemma itoa_lead: "0 < n \<Longrightarrow> \<exists>c s. itoa n = c # s \<and> c \<noteq> CHR ''0'' \<and> isDigit c"
proof (induction n rule: itoa.induct)
  case (1 n)
  show ?case
  proof (cases "n < 10")
    case True
    moreover have "code (digit n) = 48 + n" using True by simp
    then have "digit n \<noteq> CHR ''0''" using 1 by (auto simp: code_def)
    ultimately show ?thesis by (simp add: itoa.simps)
  next
    case False
    then have "0 < n div 10" by linarith
    with False obtain c s where "itoa (n div 10) = c # s" "c \<noteq> CHR ''0''" "isDigit c" using 1 by auto
    with False show ?thesis by (subst itoa.simps) simp
  qed
qed

lemma itoa_0: "itoa 0 = ''0''"
  by (simp add: itoa.simps flip: code_inj) (simp add: code_def)

lemma itoa_all: "list_all isDigit (itoa n)" "itoa n \<noteq> []" "foldl (\<lambda>n c. 10 * n + (code c - 48)) 0 (itoa n) = n"
  using itoa_digits [of n] by (simp_all add: allDigits_def digitsValue_def)

lemma dropWhile_digits: "list_all isDigit s \<Longrightarrow> rd_rest r = s @ tail \<Longrightarrow> delimited tail \<Longrightarrow>
    r\<lparr>rd_rest := dropWhile isDigit (rd_rest r)\<rparr> = advance (length s) r"
proof -
  assume "list_all isDigit s" "rd_rest r = s @ tail" "delimited tail"
  moreover from \<open>delimited tail\<close> have "dropWhile isDigit tail = tail"
    by (cases tail) (auto simp: delimited_def isDigit_def newline_def code_def)
  ultimately show ?thesis by (simp add: advance_def dropWhile_append2 list_all_iff)
qed

text \<open>Unsigned digits, as \<open>integer\<close> and \<open>skipNumber\<close> walk them.\<close>

lemma digits_read:
  assumes "rd_rest r = itoa n @ tail" and "delimited tail" and "n \<le> 2 ^ 63"
  shows "isDigit (at1 r)"
    and "(if at1 r = CHR ''0'' then Inr (0, advance 1 r) else intDigits 0 r) = Inr (n, advance (length (itoa n)) r)"
    and "(if at1 r = CHR ''0'' then advance 1 r else r\<lparr>rd_rest := dropWhile isDigit (rd_rest r)\<rparr>) = advance (length (itoa n)) r"
proof -
  have "isDigit (at1 r) \<and> (at1 r = CHR ''0'' \<longrightarrow> n = 0)"
    using itoa_lead [of n] itoa_0 assms(1) by (cases "n = 0") (auto simp: isDigit_def code_def)
  then show "isDigit (at1 r)"
    and "(if at1 r = CHR ''0'' then Inr (0, advance 1 r) else intDigits 0 r) = Inr (n, advance (length (itoa n)) r)"
    and "(if at1 r = CHR ''0'' then advance 1 r else r\<lparr>rd_rest := dropWhile isDigit (rd_rest r)\<rparr>) = advance (length (itoa n)) r"
    using intDigits_run [OF itoa_all(1) assms(1,2), of 0] dropWhile_digits [OF itoa_all(1) assms(1,2)] assms(3)
    by (auto simp: itoa_all(3) itoa_0)
qed

lemma num_solid: "solid (num n)"
  using itoa_lead [of "nat n"] itoa_0
  by (cases "0 < n") (auto simp: num_def solid_def isDigit_def isWs_def code_def split: list.split)

lemma reads_integer:
  fixes n :: int
  assumes "least \<le> n" and "n \<le> greatest" and "- (2 ^ 63) \<le> n" and "n < 2 ^ 63"
  shows "reads h (reader_integer least greatest) (num n) n"
proof (rule readsI [OF num_solid])
  fix r :: reader and tail
  assume r: "rd_rest r = num n @ tail" and tail: "delimited tail"
  show "reader_integer least greatest r = Inr (n, advance (length (num n)) r)"
  proof (cases "n < 0")
    case True
    then have q: "rd_rest (advance 1 r) = itoa (nat (- n)) @ tail" "at1 r = CHR ''-''" using r by (simp_all add: num_def)
    have b: "nat (- n) \<le> 2 ^ 63" using assms(3) by simp
    then have lim: "nat (- n) = 9223372036854775808 \<or> \<not> 9223372036854775807 < nat (- n)" by simp linarith
    note d = digits_read [OF q(1) tail b]
    have z: "rd_rest (advance (length (itoa (nat (- n)))) (advance 1 r)) = tail" using r True by (simp add: num_def)
    show ?thesis
      unfolding reader_integer_def Let_def
      by (simp only: q(2) d(1,2) simp_thms if_True if_False sum.case prod.case)
         (use True assms delimited_at1 [OF tail z] lim in \<open>simp add: num_def\<close>)
  next
    case False
    then have q: "rd_rest r = itoa (nat n) @ tail" using r by (simp add: num_def)
    have b: "nat n \<le> 2 ^ 63" using assms(4) by simp
    note d = digits_read [OF q tail b]
    have m: "at1 r \<noteq> CHR ''-''" using d(1) by (auto simp: isDigit_def code_def)
    have z: "rd_rest (advance (length (itoa (nat n))) r) = tail" using q by simp
    show ?thesis
      unfolding reader_integer_def Let_def
      by (simp only: m d(1,2) simp_thms if_True if_False sum.case prod.case)
         (use False assms delimited_at1 [OF tail z] in \<open>simp add: num_def\<close>)
  qed
qed

lemma reads_int64: "- (2 ^ 63) \<le> n \<Longrightarrow> n < 2 ^ 63 \<Longrightarrow> reads h reader_int64 (num n) n"
  unfolding reader_int64_def by (rule reads_integer) simp_all

lemma reads_int32: "- (2 ^ 31) \<le> n \<Longrightarrow> n < 2 ^ 31 \<Longrightarrow> reads h reader_int32 (num n) n"
  unfolding reader_int32_def by (rule reads_integer) simp_all

lemma reads_skipNumber: "- (2 ^ 63) \<le> n \<Longrightarrow> n < 2 ^ 63 \<Longrightarrow> reads h skipNumber (num n) ()"
proof (rule readsI [OF num_solid])
  fix r :: reader and tail
  assume n: "- (2 ^ 63) \<le> n" "n < 2 ^ 63" and r: "rd_rest r = num n @ tail" and tail: "delimited tail"
  let ?q = "if at1 r = CHR ''-'' then advance 1 r else r"
  have q: "rd_rest ?q = itoa (nat \<bar>n\<bar>) @ tail" "advance (length (itoa (nat \<bar>n\<bar>))) ?q = advance (length (num n)) r"
  proof -
    have "at1 r = CHR ''-'' \<longleftrightarrow> n < 0"
      using r itoa_lead [of "nat n"] itoa_0 by (cases "n = 0"; cases "n < 0") (auto simp: num_def isDigit_def code_def)
    then show "rd_rest ?q = itoa (nat \<bar>n\<bar>) @ tail" "advance (length (itoa (nat \<bar>n\<bar>))) ?q = advance (length (num n)) r"
      using r by (auto simp: num_def)
  qed
  have "nat \<bar>n\<bar> \<le> 2 ^ 63" using n by simp
  note d = digits_read [OF q(1) tail this]
  have "rd_rest (advance (length (num n)) r) = tail" using r by simp
  from delimited_at1 [OF tail this] show "skipNumber r = Inr ((), advance (length (num n)) r)"
    unfolding skipNumber_def Let_def using d(1) by (simp add: d(3) q(2) skipExponent_def)
qed

lemma reads_bool: "reads h reader_boolean (encBool b) b"
  by (rule readsI) (auto simp: encBool_def solid_def reader_boolean_def reader_literal_def)

subsection \<open>Containers\<close>

text \<open>The texts of a container's elements take the loop's state from one value to another.\<close>

fun stepsTo :: "nat \<Rightarrow> ('s \<Rightarrow> 's reading) \<Rightarrow> 's \<Rightarrow> bytes list \<Rightarrow> 's \<Rightarrow> bool" where
  "stepsTo h step s [] s2 = (s = s2)"
| "stepsTo h step s (t # ts) s2 = (\<exists>s1. reads h (step s) t s1 \<and> stepsTo h step s1 ts s2)"

definition lines1 :: "nat \<Rightarrow> bytes list \<Rightarrow> bytes" where
  "lines1 d ts = commaSep (map (\<lambda>t. newline # wirePad d @ t) ts)"

lemma ws_pad:
  assumes "rd_rest r = newline # wirePad d @ u" and "case u of [] \<Rightarrow> True | c # cs \<Rightarrow> \<not> isWs c"
  shows "ws r = advance (Suc (2 * d)) r"
proof -
  have "dropWhile isWs (wirePad d @ u) = u"
    using assms(2) by (subst dropWhile_append2) (auto simp: wirePad_def split: list.splits)
  then show ?thesis using assms(1) by (simp add: ws_def advance_def wirePad_def mult.commute)
qed

lemma ws_solid_line: "rd_rest r = newline # wirePad d @ t @ tail \<Longrightarrow> solid t \<Longrightarrow> ws r = advance (Suc (2 * d)) r"
  by (rule ws_pad) (auto simp: solid_def split: list.splits)

lemma wirePad_length [simp]: "length (wirePad d) = 2 * d"
  by (simp add: wirePad_def)

lemma ws_ws [simp]: "ws (ws r) = ws r"
  by (simp add: ws_def)

lemma loop_ws: "loop (Suc n) step s (ws r) = loop (Suc n) step s r"
  by (simp add: loop.simps)

lemma loop_reads:
  assumes "shut = CHR '']'' \<or> shut = CHR ''}''"
  shows "stepsTo h step s ts s2 \<Longrightarrow> ts \<noteq> [] \<Longrightarrow> rd_rest r = lines1 d ts @ newline # wirePad e @ shut # tail \<Longrightarrow>
    rd_depth r + h \<le> reader_depthLimit r \<Longrightarrow> length ts \<le> n \<Longrightarrow>
    loop n step s r = Inr (s2, advance (length (lines1 d ts) + Suc (2 * e)) r)"
proof (induction ts arbitrary: s r n)
  case (Cons t ts)
  from Cons.prems(1) obtain s1 where s1: "reads h (step s) t s1" and rest: "stepsTo h step s1 ts s2" by auto
  obtain m where n: "n = Suc m" using Cons.prems(5) by (cases n) auto
  let ?after = "if ts = [] then newline # wirePad e @ shut # tail else CHR '','' # lines1 d ts @ newline # wirePad e @ shut # tail"
  have whole: "rd_rest r = newline # wirePad d @ t @ ?after"
    using Cons.prems(3) by (cases ts) (auto simp: lines1_def)
  have ws: "ws r = advance (Suc (2 * d)) r" by (rule ws_solid_line [OF whole reads_solid [OF s1]])
  have step: "step s (ws r) = Inr (s1, advance (Suc (2 * d) + length t) r)"
    using readsD [OF s1, of "ws r" ?after] whole Cons.prems(4) by (simp add: ws)
  have at: "rd_rest (advance (Suc (2 * d) + length t) r) = ?after" by (simp add: whole)
  show ?case
  proof (cases ts)
    case Nil
    have "ws (advance (Suc (2 * d) + length t) r) = advance (Suc (2 * d) + length t + Suc (2 * e)) r"
      using at assms by (subst ws_pad [of _ e "shut # tail"]) (auto simp: Nil)
    moreover have "at1 (advance (Suc (2 * d) + length t + Suc (2 * e)) r) = shut"
      by (rule at1_append [of _ _ tail]) (use whole Nil in simp)
    ultimately show ?thesis using rest assms Nil by (auto simp: n loop.simps step lines1_def add.assoc)
  next
    case (Cons u us)
    have comma: "at1 (advance (Suc (2 * d) + length t) r) = CHR '',''"
      by (rule at1_append) (use at Cons in simp)
    have "ws (advance (Suc (2 * d) + length t) r) = advance (Suc (2 * d) + length t) r"
      using at Cons by (simp add: ws_def advance_def)
    moreover have "loop m step s1 (advance (Suc (2 * d) + length t + 1) r) =
        Inr (s2, advance (length (lines1 d ts) + Suc (2 * e)) (advance (Suc (2 * d) + length t + 1) r))"
      by (rule Cons.IH [OF rest]) (use Cons Cons.prems whole n in auto)
    ultimately show ?thesis
      using comma Cons by (simp add: n loop.simps step lines1_def add.assoc)
  qed
qed simp

subsection \<open>Objects and lists\<close>

lemma length_lines1: "length ts \<le> length (lines1 d ts)"
proof (induction ts)
  case (Cons t ts)
  then show ?case by (cases ts) (auto simp: lines1_def)
qed simp

definition bracket :: "char \<Rightarrow> char \<Rightarrow> nat \<Rightarrow> nat \<Rightarrow> bytes list \<Rightarrow> bytes" where
  "bracket opener shut d e ts = (if ts = [] then [opener, shut] else opener # lines1 d ts @ newline # wirePad e @ [shut])"

definition brackets :: "char \<Rightarrow> char \<Rightarrow> bool" where
  "brackets opener shut \<longleftrightarrow> opener = CHR ''['' \<and> shut = CHR '']'' \<or> opener = CHR ''{'' \<and> shut = CHR ''}''"

lemma bracket_solid: "brackets opener shut \<Longrightarrow> solid (bracket opener shut d e ts)"
  by (auto simp: brackets_def bracket_def solid_def)

lemma container_reads:
  assumes "brackets opener shut" and "stepsTo h step s ts s2"
  shows "reads (Suc h) (container opener shut step s) (bracket opener shut d e ts) s2"
proof (rule readsI [OF bracket_solid [OF assms(1)]])
  fix r :: reader and tail
  assume r: "rd_rest r = bracket opener shut d e ts @ tail" and tail: "delimited tail"
    and depth: "rd_depth r + Suc h \<le> reader_depthLimit r"
  let ?deeper = "r\<lparr>rd_depth := rd_depth r + 1\<rparr>"
  have shut: "shut = CHR '']'' \<or> shut = CHR ''}''" "\<not> isWs shut" using assms(1) by (auto simp: brackets_def)
  have at: "at1 r = opener" using r by (auto simp: bracket_def at1_def split: if_splits)
  have enter: "enter r = Inr ?deeper" using depth by (simp add: enter_def Let_def)
  show "container opener shut step s r = Inr (s2, advance (length (bracket opener shut d e ts)) r)"
  proof (cases ts)
    case Nil
    with r shut have "ws (advance 1 ?deeper) = advance 1 ?deeper" "at1 (advance 1 ?deeper) = shut"
      by (simp_all add: bracket_def ws_def advance_def at1_def)
    then show ?thesis
      using at enter assms(2) Nil leave_advance [of 2 r]
      unfolding container_def Let_def by (simp add: bracket_def numeral_2_eq_2)
  next
    case (Cons t us)
    obtain s1 where s1: "reads h (step s) t s1" using assms(2) Cons by auto
    let ?after = "if us = [] then newline # wirePad e @ shut # tail else CHR '','' # lines1 d us @ newline # wirePad e @ shut # tail"
    have body: "rd_rest (advance 1 ?deeper) = lines1 d ts @ newline # wirePad e @ shut # tail"
      using r Cons by (simp add: bracket_def)
    have first: "rd_rest (advance 1 ?deeper) = newline # wirePad d @ t @ ?after"
      using body Cons by (cases us) (auto simp: lines1_def)
    have ws: "ws (advance 1 ?deeper) = advance (Suc (2 * d)) (advance 1 ?deeper)"
      by (rule ws_solid_line [OF first reads_solid [OF s1]])
    then have rest: "rd_rest (ws (advance 1 ?deeper)) = t @ ?after"
      by (simp only:) (subst advance_rest, subst first, simp)
    have fuel: "length ts \<le> Suc (length (rd_rest (ws (advance 1 ?deeper))))"
      unfolding rest using length_lines1 [of us d] by (auto simp: Cons)
    have "at1 (ws (advance 1 ?deeper)) \<noteq> shut"
      using reads_solid [OF s1] rest shut by (cases t) (auto simp: solid_def at1_def)
    moreover have "loop (Suc (length (rd_rest (ws (advance 1 ?deeper))))) step s (ws (advance 1 ?deeper)) =
        Inr (s2, advance (length (lines1 d ts) + Suc (2 * e)) (advance 1 ?deeper))"
      unfolding loop_ws
      by (rule loop_reads [OF shut(1) assms(2) _ body _ fuel]) (use Cons depth in auto)
    moreover have "at1 (advance (length (lines1 d ts) + Suc (2 * e)) (advance 1 ?deeper)) = shut"
      by (rule at1_append [of _ _ tail]) (subst advance_rest, subst body, simp)
    moreover have "leave (advance 1 (advance (length (lines1 d ts) + Suc (2 * e)) (advance 1 ?deeper))) =
        advance (length (bracket opener shut d e ts)) r"
      using leave_advance [of "length (bracket opener shut d e ts)" r] by (simp add: bracket_def Cons add.assoc)
    ultimately show ?thesis
      using at unfolding container_def Let_def by (simp only: enter if_False sum.case prod.case simp_thms)
  qed
qed

definition codes :: "nat \<Rightarrow> 'a reading \<Rightarrow> bytes \<Rightarrow> 'a \<Rightarrow> bool" where
  "codes h dec t v \<longleftrightarrow> reads h dec t v \<and> (\<forall>n>h. reads h (skipNested n) t ())"

lemma codes_reads: "codes h dec t v \<Longrightarrow> reads h dec t v"
  by (simp add: codes_def)

lemma codes_skips: "codes h dec t v \<Longrightarrow> h < n \<Longrightarrow> reads h (skipNested n) t ()"
  by (simp add: codes_def)

lemma codes_deeper: "codes h dec t v \<Longrightarrow> h \<le> k \<Longrightarrow> codes k dec t v"
  by (auto simp: codes_def dest: reads_deeper) (meson le_less_trans reads_deeper)

text \<open>A value that begins like one of the literals is skipped as that literal is read.\<close>

lemma reads_if:
  assumes "reads h dec t v" and "\<And>r tail. rd_rest r = t @ tail \<Longrightarrow> rd_depth r + h \<le> reader_depthLimit r \<Longrightarrow> dec2 r = dec r"
  shows "reads h dec2 t v"
  using assms by (auto simp: reads_def)

lemma codes_str: "validUTF8 s \<Longrightarrow> codes h reader_str (esc s) s"
proof -
  assume s: "validUTF8 s"
  have "reads h skipString (esc s) ()"
    unfolding skipString_def
    by (rule reads_after_str [OF s, where f = "\<lambda>x. case x of Inl e \<Rightarrow> Inl e | Inr (x, r1) \<Rightarrow> _ x r1"]) simp
  then have "reads h (skipNested (Suc m)) (esc s) ()" for m
    by (rule reads_if) (auto simp: esc_def Let_def)
  then show ?thesis using s by (metis codes_def gr0_conv_Suc less_nat_zero_code not_gr_zero reads_str)
qed

lemma codes_of_str: "reads h dec (esc s) v \<Longrightarrow> validUTF8 s \<Longrightarrow> codes h dec (esc s) v"
  using codes_str [of s h] by (simp add: codes_def)

lemma codes_word: "printable (name v) \<Longrightarrow> parse (name v) = Some v \<Longrightarrow> codes h (reader_word parse) (esc (name v)) v"
  by (rule codes_of_str) (auto intro: reads_word printable_validUTF8)

lemma codes_binary: "codes h reader_binary (esc (base64 b)) b"
  by (rule codes_of_str) (auto intro: reads_binary printable_validUTF8 printable_base64)

subsection \<open>Members, records, lists\<close>

lemma codes_bool: "codes h reader_boolean (encBool b) b"
proof -
  have "reads h (reader_literal (encBool b) ()) (encBool b) ()"
    by (rule readsI) (auto simp: encBool_def solid_def reader_literal_def)
  then have "reads h (skipNested (Suc m)) (encBool b) ()" for m
    by (rule reads_if) (auto simp: encBool_def Let_def split: if_splits)
  then show ?thesis by (metis codes_def gr0_conv_Suc less_nat_zero_code not_gr_zero reads_bool)
qed

lemma num_starts: "\<exists>c s. num n = c # s \<and> (c = CHR ''-'' \<or> isDigit c)"
  using itoa_all(1,2) [of "nat n"] by (cases "itoa (nat n)") (auto simp: num_def)

lemma reads_num_skipped: "- (2 ^ 63) \<le> n \<Longrightarrow> n < 2 ^ 63 \<Longrightarrow> 0 < k \<Longrightarrow> reads h (skipNested k) (num n) ()"
proof -
  assume n: "- (2 ^ 63) \<le> n" "n < 2 ^ 63" "0 < k"
  obtain m where k: "k = Suc m" using n(3) by (cases k) auto
  obtain c s where c: "num n = c # s" "c = CHR ''-'' \<or> isDigit c" using num_starts by blast
  then have "c \<noteq> quote" "c \<noteq> CHR ''{''" "c \<noteq> CHR ''[''" "c \<noteq> CHR ''t''" "c \<noteq> CHR ''f''" "c \<noteq> CHR ''n''"
    by (auto simp: isDigit_def code_def)
  with c show ?thesis
    unfolding k by (intro reads_if [OF reads_skipNumber [OF n(1,2)]]) (auto simp: Let_def)
qed

lemma codes_int64: "- (2 ^ 63) \<le> n \<Longrightarrow> n < 2 ^ 63 \<Longrightarrow> codes h reader_int64 (num n) n"
  and codes_int32: "- (2 ^ 31) \<le> n \<Longrightarrow> n < 2 ^ 31 \<Longrightarrow> codes h reader_int32 (num n) n"
  by (auto simp: codes_def intro: reads_int64 reads_int32 reads_num_skipped)

lemma str_read:
  assumes "rd_rest r = esc s @ tail" and "validUTF8 s"
  shows "at1 r = quote" and "reader_str r = Inr (s, advance (length (esc s)) r)"
  using assms strLoop_esc [of "advance 1 r" s tail "[]"] by (simp_all add: esc_def reader_str_def)

definition memberText :: "bytes \<Rightarrow> bytes \<Rightarrow> bytes" where
  "memberText k t = esc k @ '': '' @ t"

lemma memberText_solid: "solid (memberText k t)"
  by (simp add: memberText_def esc_def solid_def)

text \<open>The colon, and the one space after it.\<close>

lemma colon_read:
  assumes "rd_rest q = '': '' @ t @ tail" and "solid t"
  shows "ws q = q" and "at1 q = CHR '':''" and "ws (advance 1 q) = advance 2 q"
  using assms by (auto simp: ws_def at1_def advance_def solid_def numeral_2_eq_2 split: list.splits)

lemma memberName_read:
  assumes "rd_rest r = memberText k t @ tail" and "validUTF8 k" and "solid t"
  shows "memberName r = Inr (k, advance (length (esc k) + 2) r)"
proof -
  have r: "rd_rest r = esc k @ '': '' @ t @ tail" using assms(1) by (simp add: memberText_def)
  have "rd_rest (advance (length (esc k)) r) = '': '' @ t @ tail" by (simp add: r)
  note c = colon_read [OF this assms(3)]
  have "ws (advance (length (esc k) + 1) r) = advance (length (esc k) + 2) r" using c(3) by (simp del: One_nat_def)
  then show ?thesis unfolding memberName_def by (simp add: str_read [OF r assms(2)] c(1,2) del: One_nat_def)
qed

lemma member_after:
  assumes "rd_rest r = memberText k t @ tail" and "reads h dec t v" and "delimited tail" and "rd_depth r + h \<le> reader_depthLimit r"
  shows "dec (advance (length (esc k) + 2) r) = Inr (v, advance (length (memberText k t)) r)"
  using readsD [OF assms(2), of "advance (length (esc k) + 2) r" tail] assms by (simp add: memberText_def)

lemma reads_member:
  assumes "map_of fl k = Some read" and "k \<notin> set seen" and "validUTF8 k" and "reads h (read v) t w"
  shows "reads h (memberStep fl (v, seen)) (memberText k t) (w, k # seen)"
proof (rule readsI [OF memberText_solid])
  fix r :: reader and tail
  assume r: "rd_rest r = memberText k t @ tail" "delimited tail" "rd_depth r + h \<le> reader_depthLimit r"
  show "memberStep fl (v, seen) r = Inr ((w, k # seen), advance (length (memberText k t)) r)"
    using memberName_read [OF r(1) assms(3) reads_solid [OF assms(4)]] member_after [OF r(1) assms(4) r(2,3)] assms(1,2)
    by (simp add: memberStep_def)
qed

lemma reads_skipMember:
  assumes "k \<notin> set seen" and "validUTF8 k" and "reads h val t ()"
  shows "reads h (skipMember val seen) (memberText k t) (k # seen)"
proof (rule readsI [OF memberText_solid])
  fix r :: reader and tail
  assume r: "rd_rest r = memberText k t @ tail" "delimited tail" "rd_depth r + h \<le> reader_depthLimit r"
  have s: "rd_rest r = esc k @ '': '' @ t @ tail" using r(1) by (simp add: memberText_def)
  have "rd_rest (advance (length (esc k)) r) = '': '' @ t @ tail" by (simp add: s)
  note c = colon_read [OF this reads_solid [OF assms(3)]]
  have "ws (advance (length (esc k) + 1) r) = advance (length (esc k) + 2) r" using c(3) by (simp del: One_nat_def)
  then show "skipMember val seen r = Inr (k # seen, advance (length (memberText k t)) r)"
    using member_after [OF r(1) assms(3) r(2,3)] assms(1)
    unfolding skipMember_def by (simp add: str_read [OF s assms(2)] c(1,2) del: One_nat_def)
qed

text \<open>The members an encoder writes fill the value the decoder started from.\<close>

fun fills :: "nat \<Rightarrow> 'v fields \<Rightarrow> 'v \<Rightarrow> bytes list \<Rightarrow> (bytes \<times> bytes) list \<Rightarrow> 'v \<Rightarrow> bool" where
  "fills h fl v seen [] w = (v = w)"
| "fills h fl v seen ((k, t) # ms) w =
     (\<exists>read v1. map_of fl k = Some read \<and> k \<notin> set seen \<and> validUTF8 k \<and> codes h (read v) t v1 \<and> fills h fl v1 (k # seen) ms w)"

lemma fills_stepsTo: "fills h fl v seen ms w \<Longrightarrow>
    stepsTo h (memberStep fl) (v, seen) (map (\<lambda>(k, t). memberText k t) ms) (w, rev (map fst ms) @ seen)"
proof (induction ms arbitrary: v seen)
  case (Cons m ms)
  obtain k t where m: "m = (k, t)" by (cases m)
  from Cons.prems obtain read v1 where o: "map_of fl k = Some read" "k \<notin> set seen" "validUTF8 k" "codes h (read v) t v1"
    "fills h fl v1 (k # seen) ms w" by (auto simp: m)
  have "reads h (memberStep fl (v, seen)) (memberText k t) (v1, k # seen)"
    by (rule reads_member [OF o(1-3) codes_reads [OF o(4)]])
  with Cons.IH [OF o(5)] show ?case by (auto simp: m)
qed simp

lemma fills_skips: "fills h fl v seen ms w \<Longrightarrow> h < n \<Longrightarrow>
    stepsTo h (skipMember (skipNested n)) seen (map (\<lambda>(k, t). memberText k t) ms) (rev (map fst ms) @ seen)"
proof (induction ms arbitrary: v seen)
  case (Cons m ms)
  obtain k t where m: "m = (k, t)" by (cases m)
  from Cons.prems obtain read v1 where o: "k \<notin> set seen" "validUTF8 k" "codes h (read v) t v1" "fills h fl v1 (k # seen) ms w"
    by (auto simp: m)
  have "reads h (skipMember (skipNested n) seen) (memberText k t) (k # seen)"
    by (rule reads_skipMember [OF o(1,2) codes_skips [OF o(3) Cons.prems(2)]])
  with Cons.IH [OF o(4) Cons.prems(2)] show ?case by (auto simp: m)
qed simp

lemma reads_after:
  assumes "reads h dec t v" and "\<And>r. f (Inr (v, r) :: refusal + 'a \<times> reader) = Inr (w, r)"
  shows "reads h (\<lambda>r. f (dec r)) t w"
  using assms by (auto simp: reads_def)

lemma skipContainer_reads:
  assumes "stepsTo h (skipMember val) [] ts seen"
  shows "reads (Suc h) (skipContainer val) (bracket (CHR ''{'') (CHR ''}'') d e ts) ()"
proof -
  have "reads (Suc h) (container (CHR ''{'') (CHR ''}'') (skipMember val) []) (bracket (CHR ''{'') (CHR ''}'') d e ts) seen"
    by (rule container_reads [OF _ assms]) (simp add: brackets_def)
  then have "reads (Suc h) (\<lambda>r. case container (CHR ''{'') (CHR ''}'') (skipMember val) [] r of
      Inl e \<Rightarrow> Inl e | Inr (seen, r1) \<Rightarrow> Inr ((), r1)) (bracket (CHR ''{'') (CHR ''}'') d e ts) ()"
    by (rule reads_after [where f = "\<lambda>x. case x of Inl e \<Rightarrow> Inl e | Inr (seen, r1) \<Rightarrow> Inr ((), r1)"]) simp
  then show ?thesis
    by (rule reads_if) (auto simp: skipContainer_def bracket_def split: if_splits)
qed

lemma encObject_bracket:
  "ms \<noteq> [] \<Longrightarrow> encObject d (map (\<lambda>(k, t). encMember d k t) ms) =
    bracket (CHR ''{'') (CHR ''}'') (d + 1) d (map (\<lambda>(k, t). memberText k t) ms)"
  by (simp add: encObject_def bracket_def lines1_def encMember_def memberText_def split_def comp_def)

lemma codes_bracket:
  assumes "fills h fl v [] ms w" and "set required \<subseteq> fst ` set ms"
  shows "codes (Suc h) (decodeRecord fl required v) (bracket (CHR ''{'') (CHR ''}'') d e (map (\<lambda>(k, t). memberText k t) ms)) w"
  unfolding codes_def
proof (intro conjI allI impI)
  let ?t = "bracket (CHR ''{'') (CHR ''}'') d e (map (\<lambda>(k, t). memberText k t) ms)"
  have "reads (Suc h) (container (CHR ''{'') (CHR ''}'') (memberStep fl) (v, [])) ?t (w, rev (map fst ms) @ [])"
    by (rule container_reads [OF _ fills_stepsTo [OF assms(1)]]) (simp add: brackets_def)
  then show "reads (Suc h) (decodeRecord fl required v) ?t w"
    unfolding decodeRecord_def
    by (rule reads_after [where f = "\<lambda>x. case x of Inl e \<Rightarrow> Inl e | Inr ((v1, seen), r1) \<Rightarrow>
        if \<not> set required \<subseteq> set seen then Inl (refuse r1 ''missing_field'') else Inr (v1, r1)"]) (use assms(2) in auto)
next
  fix n assume "Suc h < n"
  then obtain m where n: "n = Suc m" and m: "h < m" by (cases n) auto
  show "reads (Suc h) (skipNested n) (bracket (CHR ''{'') (CHR ''}'') d e (map (\<lambda>(k, t). memberText k t) ms)) ()"
    unfolding n by (rule reads_if [OF skipContainer_reads [OF fills_skips [OF assms(1) m]]]) (auto simp: bracket_def Let_def split: if_splits)
qed

lemma codes_record:
  "fills h fl v [] ms w \<Longrightarrow> set required \<subseteq> fst ` set ms \<Longrightarrow> ms \<noteq> [] \<Longrightarrow>
   codes (Suc h) (decodeRecord fl required v) (encObject d (map (\<lambda>(k, t). encMember d k t) ms)) w"
  by (simp add: codes_bracket encObject_bracket)

subsection \<open>Composing\<close>

lemma codes_list:
  assumes "\<forall>x\<in>set xs. codes h elem (enc x) x"
  shows "codes (Suc h) (decodeList elem) (bracket (CHR ''['') (CHR '']'') d e (map enc xs)) xs"
proof -
  let ?step = "\<lambda>xs r. case elem r of Inl e \<Rightarrow> Inl e | Inr (x, r1) \<Rightarrow> Inr (xs @ [x], r1)"
  let ?t = "bracket (CHR ''['') (CHR '']'') d e (map enc xs)"
  have one: "reads h (?step ys) (enc x) (ys @ [x])" if "x \<in> set xs" for x ys
    using reads_after [OF codes_reads [OF assms [rule_format, OF that]],
        of "\<lambda>x. case x of Inl e \<Rightarrow> Inl e | Inr (x, r1) \<Rightarrow> Inr (ys @ [x], r1)"] by simp
  have steps: "set us \<subseteq> set xs \<Longrightarrow> stepsTo h ?step ys (map enc us) (ys @ us)" for us ys
  proof (induction us arbitrary: ys)
    case (Cons u us)
    then show ?case using one [of u ys] Cons.IH [of "ys @ [u]"] by auto
  qed simp
  have "reads (Suc h) (decodeList elem) ?t xs"
    unfolding decodeList_def by (rule container_reads) (use steps [of xs "[]"] in \<open>simp_all add: brackets_def\<close>)
  moreover have "reads (Suc h) (skipNested n) ?t ()" if n: "Suc h < n" for n
  proof -
    obtain m where m: "n = Suc m" "h < m" using n by (cases n) auto
    have el: "reads h (skipElement (skipNested m) seen) (enc x) seen" if "x \<in> set xs" for x seen
      unfolding skipElement_def
      using reads_after [OF codes_skips [OF assms [rule_format, OF that] m(2)],
          of "\<lambda>x. case x of Inl e \<Rightarrow> Inl e | Inr (u, r1) \<Rightarrow> Inr (seen, r1)"] by simp
    have "set us \<subseteq> set xs \<Longrightarrow> stepsTo h (skipElement (skipNested m)) seen (map enc us) seen" for us seen
      by (induction us) (use el in auto)
    then have "reads (Suc h) (container (CHR ''['') (CHR '']'') (skipElement (skipNested m)) []) ?t []"
      by (intro container_reads) (simp_all add: brackets_def)
    from reads_after [OF this, of "\<lambda>x. case x of Inl e \<Rightarrow> Inl e | Inr (seen, r1) \<Rightarrow> Inr ((), r1)"]
    have "reads (Suc h) (\<lambda>r. case container (CHR ''['') (CHR '']'') (skipElement (skipNested m)) [] r of
        Inl e \<Rightarrow> Inl e | Inr (seen, r1) \<Rightarrow> Inr ((), r1)) ?t ()" by simp
    then show ?thesis
      unfolding m(1) by (rule reads_if) (auto simp: skipContainer_def bracket_def Let_def split: if_splits)
  qed
  ultimately show ?thesis by (simp add: codes_def)
qed

lemma encList_bracket: "encList enc xs d = bracket (CHR ''['') (CHR '']'') (d + 1) d (map (\<lambda>x. enc x (d + 1)) xs)"
  and strs_bracket: "strs ss d = bracket (CHR ''['') (CHR '']'') (d + 1) d (map esc ss)"
  and enumStrs_bracket: "enumStrs word vs d = bracket (CHR ''['') (CHR '']'') (d + 1) d (map esc (map word vs))"
  by (simp_all add: encList_def strs_def enumStrs_def bracket_def lines1_def comp_def)

lemma codes_strs: "list_all validUTF8 ss \<Longrightarrow> codes (Suc h) reader_strList (strs ss d) ss"
  unfolding strs_bracket reader_strList_def by (rule codes_list) (auto simp: list_all_iff intro: codes_str)

lemma codes_words:
  assumes "\<forall>v\<in>set vs. printable (name v) \<and> parse (name v) = Some v"
  shows "codes (Suc h) (reader_words parse) (enumStrs name vs d) vs"
proof -
  have "list_all validUTF8 (map name vs)" using assms by (auto simp: list_all_iff intro: printable_validUTF8)
  then have c: "codes (Suc h) reader_strList (enumStrs name vs d) (map name vs)"
    using codes_strs [of "map name vs" h d] by (simp add: strs_bracket enumStrs_bracket)
  have p: "those (map parse (map name vs)) = Some vs" using assms by (induction vs) auto
  have "reads (Suc h) (reader_words parse) (enumStrs name vs d) vs"
    unfolding reader_words_def
    by (rule reads_after [OF codes_reads [OF c], where f = "\<lambda>x. case x of Inl e \<Rightarrow> Inl e | Inr (x, r1) \<Rightarrow> _ x r1"]) (simp only: p sum.case prod.case option.case)
  with c show ?thesis by (simp add: codes_def)
qed

lemma codes_into: "codes h dec t x \<Longrightarrow> codes h (into dec put v) t (put x v)"
  unfolding codes_def into_def
  using reads_after [of h dec t x "\<lambda>y. case y of Inl e \<Rightarrow> Inl e | Inr (x, r1) \<Rightarrow> Inr (put x v, r1)"] by simp

lemma fills_member:
  assumes "map_of fl k = Some (into dec put)" and "k \<notin> set seen" and "printable k" and "codes n dec t x" and "n \<le> h"
    and "fills h fl (put x v) (k # seen) ms w"
  shows "fills h fl v seen ((k, t) # ms) w"
  using assms codes_into [OF codes_deeper [OF assms(4,5)], of put v] by (auto dest: printable_validUTF8)

lemma fills_fewer: "fills h fl v seen ms w \<Longrightarrow> set seen2 \<subseteq> set seen \<Longrightarrow> fills h fl v seen2 ms w"
proof (induction ms arbitrary: v seen seen2)
  case (Cons m ms)
  obtain k t where m: "m = (k, t)" by (cases m)
  from Cons.prems obtain read v1 where o: "map_of fl k = Some read" "k \<notin> set seen" "validUTF8 k" "codes h (read v) t v1"
    "fills h fl v1 (k # seen) ms w" by (auto simp: m)
  have "fills h fl v1 (k # seen2) ms w" by (rule Cons.IH [OF o(5)]) (use Cons.prems(2) in auto)
  with o Cons.prems(2) show ?case by (auto simp: m)
qed simp

text \<open>A member written on a condition: where it is absent the value has its initial content.\<close>

lemma fills_if:
  assumes "map_of fl k = Some (into dec put)" and "k \<notin> set seen" and "printable k" and "c \<Longrightarrow> codes n dec t x" and "n \<le> h"
    and "\<not> c \<Longrightarrow> put x v = v" and "fills h fl (put x v) (k # seen) ms w"
  shows "fills h fl v seen ((if c then [(k, t)] else []) @ ms) w"
proof (cases c)
  case True
  then show ?thesis using fills_member [OF assms(1-3) assms(4) assms(5,7)] by simp
next
  case False
  then show ?thesis using fills_fewer [OF assms(7), of seen] assms(6) by auto
qed

lemma fills_case:
  assumes "map_of fl k = Some (into dec (\<lambda>x. put (Some x)))" and "k \<notin> set seen" and "printable k"
    and "\<And>x. y = Some x \<Longrightarrow> codes n dec (t x) x" and "n \<le> h" and "put None v = v" and "fills h fl (put y v) (k # seen) ms w"
  shows "fills h fl v seen ((case y of None \<Rightarrow> [] | Some x \<Rightarrow> [(k, t x)]) @ ms) w"
proof (cases y)
  case None
  then show ?thesis using fills_fewer [OF assms(7), of seen] assms(6) by auto
next
  case (Some x)
  then show ?thesis using fills_member [OF assms(1-3) assms(4) assms(5)] assms(7) by simp
qed

subsection \<open>What is read is well-typed\<close>

definition yields :: "('a \<Rightarrow> bool) \<Rightarrow> 'a reading \<Rightarrow> bool" where
  "yields P dec \<longleftrightarrow> (\<forall>r v r1. dec r = Inr (v, r1) \<longrightarrow> P v)"

lemma yieldsD: "yields P dec \<Longrightarrow> dec r = Inr (v, r1) \<Longrightarrow> P v"
  unfolding yields_def by blast

lemma yieldsI: "(\<And>r v r1. dec r = Inr (v, r1) \<Longrightarrow> P v) \<Longrightarrow> yields P dec"
  by (simp add: yields_def)

lemma yields_strLoop: "strLoop out r = Inr (v, r1) \<Longrightarrow> validUTF8 v"
proof (induction out r rule: strLoop.induct)
  case (1 out r)
  from "1.prems" show ?case
    by (subst (asm) strLoop.simps)
       (auto simp: wireUTF8_valid split: list.split_asm if_split_asm sum.split_asm prod.split_asm dest: "1.IH")
qed

lemma yields_str: "yields validUTF8 reader_str"
  by (auto simp: yields_def reader_str_def split: if_split_asm dest: yields_strLoop)

lemma yields_integer: "yields (\<lambda>n. least \<le> n \<and> n \<le> greatest) (reader_integer least greatest)"
proof (rule yieldsI)
  fix r n r1
  assume "reader_integer least greatest r = Inr (n, r1)"
  then show "least \<le> n \<and> n \<le> greatest"
    unfolding reader_integer_def Let_def by (simp only: split: if_split_asm sum.split_asm prod.split_asm) (simp_all add: not_less)
qed

lemma yields_any [simp]: "yields (\<lambda>x. True) dec"
  by (simp add: yields_def)

lemma yields_into: "yields Q dec \<Longrightarrow> (\<And>x. Q x \<Longrightarrow> P (put x v)) \<Longrightarrow> yields P (into dec put v)"
  by (rule yieldsI) (auto simp: into_def split: sum.split_asm prod.split_asm dest: yieldsD)

lemma yields_loop: "(\<And>s. P s \<Longrightarrow> yields P (step s)) \<Longrightarrow> P s \<Longrightarrow> yields P (loop n step s)"
proof (induction n arbitrary: s)
  case (Suc n)
  show ?case
    unfolding yields_def
  proof (intro allI impI)
    fix r v r1
    assume run: "loop (Suc n) step s r = Inr (v, r1)"
    then obtain s1 r2 where s1: "step s (ws r) = Inr (s1, r2)"
      and more: "v = s1 \<or> loop n step s1 (advance 1 (ws r2)) = Inr (v, r1)"
      by (auto simp: loop.simps split: sum.split_asm prod.split_asm if_split_asm)
    have "P s1" using Suc.prems(1) [OF Suc.prems(2)] s1 by (auto simp: yields_def)
    with more Suc.IH [OF Suc.prems(1) this] show "P v" by (auto simp: yields_def)
  qed
qed (simp add: yields_def loop.simps)

lemma yields_container: "(\<And>s. P s \<Longrightarrow> yields P (step s)) \<Longrightarrow> P s \<Longrightarrow> yields P (container opener shut step s)"
proof (rule yieldsI)
  fix r v r1
  assume step: "\<And>s. P s \<Longrightarrow> yields P (step s)" and s: "P s" and run: "container opener shut step s r = Inr (v, r1)"
  from run obtain q r2 where "v = s \<or> loop (Suc (length (rd_rest q))) step s q = Inr (v, r2)"
    unfolding container_def Let_def by (force split: if_split_asm sum.split_asm prod.split_asm)
  with yieldsD [OF yields_loop [OF step s]] s show "P v" by auto
qed

lemma yields_list: "yields P elem \<Longrightarrow> yields (list_all P) (decodeList elem)"
  unfolding decodeList_def by (rule yields_container) (auto intro!: yieldsI split: sum.split_asm prod.split_asm, metis yieldsD)

lemma yields_memberStep:
  assumes "list_all (\<lambda>(k, read). \<forall>v. P v \<longrightarrow> yields P (read v)) fl" and "P (fst s)"
  shows "yields (\<lambda>s. P (fst s)) (memberStep fl s)"
  using assms by (auto simp: yields_def memberStep_def list_all_iff split: sum.split_asm prod.split_asm option.split_asm if_split_asm
      dest!: map_of_SomeD) blast

lemma yields_record:
  assumes "list_all (\<lambda>(k, read). \<forall>v. P v \<longrightarrow> yields P (read v)) fl" and "P v"
  shows "yields P (decodeRecord fl required v)"
proof -
  have "yields (\<lambda>s. P (fst s)) (container (CHR ''{'') (CHR ''}'') (memberStep fl) (v, []))"
    by (rule yields_container) (use yields_memberStep [OF assms(1)] assms(2) in auto)
  then show ?thesis
    by (intro yieldsI) (auto simp: decodeRecord_def split: sum.split_asm prod.split_asm if_split_asm dest: yieldsD)
qed

end
