(* ===== verification/Skipping.thy ===== *)
theory Skipping
  imports Codecs
begin

text \<open>
  Skipping agrees with reading: whatever any reading of the generated reader accepts,
  \<open>skipValue\<close> passes over, and ends at the same byte. A frame carries its arguments and its
  payload by skipping them, so an answer whose payload was read once is carried whole.
\<close>

subsection \<open>What skipping must do\<close>

definition deep :: "nat \<Rightarrow> reader \<Rightarrow> bool" where
  "deep n r \<longleftrightarrow> 0 < n \<and> reader_depthLimit r < n + rd_depth r"

definition skips :: "'a reading \<Rightarrow> bool" where
  "skips dec \<longleftrightarrow> (\<forall>r v r1 n. dec r = Inr (v, r1) \<longrightarrow> deep n r \<longrightarrow> skipNested n r = Inr ((), r1) \<and> (\<exists>m. r1 = advance m r))"

lemma skipsI:
  "(\<And>r v r1 n. dec r = Inr (v, r1) \<Longrightarrow> deep (Suc n) r \<Longrightarrow> skipNested (Suc n) r = Inr ((), r1) \<and> (\<exists>m. r1 = advance m r)) \<Longrightarrow> skips dec"
  unfolding skips_def deep_def by (metis gr0_implies_Suc)

lemma skipsD: "skips dec \<Longrightarrow> dec r = Inr (v, r1) \<Longrightarrow> deep n r \<Longrightarrow> skipNested n r = Inr ((), r1) \<and> (\<exists>m. r1 = advance m r)"
  unfolding skips_def by blast

lemma skips_map: "skips dec \<Longrightarrow> (\<And>r v r1. dec2 r = Inr (v, r1) \<Longrightarrow> \<exists>u. dec r = Inr (u, r1)) \<Longrightarrow> skips dec2"
  unfolding skips_def by meson

lemma tame_forward: "tame dec \<Longrightarrow> dec r = Inr (v, r1) \<Longrightarrow> \<exists>m. r1 = advance m r"
  using tameD [of dec r] by (auto simp: within_def)

lemma deep_advance [simp]: "deep n (advance m r) = deep n r" "deep n (ws r) = deep n r"
  by (simp_all add: deep_def)

lemma at1_NUL: "at1 (advance n r) \<noteq> NUL \<Longrightarrow> at1 (advance n r) = rd_rest r ! n"
  by (cases "drop n (rd_rest r)") (auto simp: at1_def, metis hd_drop_conv_nth list.sel(1) drop_Nil drop_all le_less_linear list.distinct(1))

subsection \<open>Strings, numbers, literals\<close>

lemma str_at: "reader_str r = Inr (s, r1) \<Longrightarrow> at1 r = quote"
  by (simp add: reader_str_def split: if_split_asm)

lemma skips_str: "skips reader_str"
proof (rule skipsI)
  fix r v r1 n
  assume run: "reader_str r = Inr (v, r1)"
  then show "skipNested (Suc n) r = Inr ((), r1) \<and> (\<exists>m. r1 = advance m r)"
    using tame_forward [OF tame_str run] by (simp add: str_at [OF run] Let_def skipString_def)
qed

lemma skips_word: "skips (reader_word parse)" and skips_binary: "skips reader_binary"
  by (rule skips_map [OF skips_str]; auto simp: reader_word_def reader_binary_def split: sum.split_asm prod.split_asm option.split_asm if_split_asm)+

lemma literal_skip: "reader_literal w v r = Inr (x, r1) \<Longrightarrow> reader_literal w () r = Inr ((), r1) \<and> (\<exists>m. r1 = advance m r)"
  by (auto simp: reader_literal_def split: if_split_asm)

lemma skips_boolean: "skips reader_boolean"
  by (rule skipsI) (auto simp: reader_boolean_def Let_def isDigit_def code_def split: if_split_asm dest: literal_skip)

lemma intDigits_end: "intDigits u r = Inr (v, r1) \<Longrightarrow> r1 = r\<lparr>rd_rest := dropWhile isDigit (rd_rest r)\<rparr>"
proof (induction u r rule: intDigits.induct)
  case (1 u r)
  show ?case
  proof (cases "isDigit (at1 r)")
    case True
    then have big: "\<not> 922337203685477580 < u" and run: "intDigits (u * 10 + (code (at1 r) - 48)) (advance 1 r) = Inr (v, r1)"
      using "1.prems" by (simp_all add: intDigits.simps [of u r] split: if_split_asm)
    obtain c cs where r: "rd_rest r = c # cs" using True by (cases "rd_rest r") (auto simp: at1_def isDigit_def)
    have "r1 = (advance 1 r)\<lparr>rd_rest := dropWhile isDigit (rd_rest (advance 1 r))\<rparr>"
      using "1.IH" True big run by simp
    then show ?thesis using True by (simp add: r at1_def advance_def)
  next
    case False
    then have "dropWhile isDigit (rd_rest r) = rd_rest r" by (cases "rd_rest r") (auto simp: at1_def)
    then show ?thesis using "1.prems" False by (simp add: intDigits.simps [of u r])
  qed
qed

lemma integer_skip:
  assumes "reader_integer a b r = Inr (v, r1)"
  shows "skipNumber r = Inr ((), r1) \<and> (at1 r = CHR ''-'' \<or> isDigit (at1 r))"
proof -
  define q where "q = (if at1 r = CHR ''-'' then advance 1 r else r)"
  define q2 where "q2 = (if at1 q = CHR ''0'' then Inr (0, advance 1 q) else intDigits 0 q)"
  have first: "at1 r = CHR ''-'' \<or> isDigit (at1 r)" and digit: "isDigit (at1 q)"
    using assms unfolding reader_integer_def Let_def q_def [symmetric] by (auto split: if_split_asm)
  have "\<exists>u. q2 = Inr (u, r1) \<and> at1 r1 \<noteq> CHR ''.'' \<and> at1 r1 \<noteq> CHR ''e'' \<and> at1 r1 \<noteq> CHR ''E''"
    using assms first digit unfolding reader_integer_def Let_def q_def [symmetric] q2_def [symmetric]
    by (cases q2) (auto split: if_split_asm prod.split_asm)
  then obtain u where u: "q2 = Inr (u, r1)" and stop: "at1 r1 \<noteq> CHR ''.''" "at1 r1 \<noteq> CHR ''e''" "at1 r1 \<noteq> CHR ''E''" by blast
  have "(if at1 q = CHR ''0'' then advance 1 q else q\<lparr>rd_rest := dropWhile isDigit (rd_rest q)\<rparr>) = r1"
    using u unfolding q2_def by (auto split: if_split_asm dest: intDigits_end)
  then show ?thesis using digit stop first
    unfolding skipNumber_def Let_def q_def [symmetric] by (simp add: skipExponent_def)
qed

lemma number_head: "c = CHR ''-'' \<or> isDigit c \<Longrightarrow>
    c \<noteq> quote \<and> c \<noteq> CHR ''{'' \<and> c \<noteq> CHR ''['' \<and> c \<noteq> CHR ''t'' \<and> c \<noteq> CHR ''f'' \<and> c \<noteq> CHR ''n''"
  by (auto simp: isDigit_def code_def)

lemma skips_integer: "skips (reader_integer a b)"
proof (rule skipsI)
  fix r v r1 n
  assume run: "reader_integer a b r = Inr (v, r1)"
  from integer_skip [OF run] number_head [of "at1 r"] tame_forward [OF tame_integer run]
  show "skipNested (Suc n) r = Inr ((), r1) \<and> (\<exists>m. r1 = advance m r)" by (auto simp: Let_def)
qed

lemma skips_int64: "skips reader_int64" and skips_int32: "skips reader_int32"
  by (simp_all add: reader_int64_def reader_int32_def skips_integer)

subsection \<open>Containers\<close>

text \<open>A step that is matched by a skipping step is matched round by round.\<close>

definition matched :: "nat \<Rightarrow> ('s \<Rightarrow> 't \<Rightarrow> bool) \<Rightarrow> ('s \<Rightarrow> 's reading) \<Rightarrow> ('t \<Rightarrow> 't reading) \<Rightarrow> bool" where
  "matched n R step skip \<longleftrightarrow> (\<forall>s t r s1 r1. R s t \<longrightarrow> deep n r \<longrightarrow> step s r = Inr (s1, r1) \<longrightarrow>
     (\<exists>t1. skip t r = Inr (t1, r1) \<and> R s1 t1) \<and> (\<exists>m. r1 = advance m r))"

lemma matchedI:
  "(\<And>s t r s1 r1. R s t \<Longrightarrow> deep n r \<Longrightarrow> step s r = Inr (s1, r1) \<Longrightarrow>
     (\<exists>t1. skip t r = Inr (t1, r1) \<and> R s1 t1) \<and> (\<exists>m. r1 = advance m r)) \<Longrightarrow> matched n R step skip"
  unfolding matched_def by blast

lemma matchedD:
  assumes "matched n R step skip" and "R s t" and "deep n r" and "step s r = Inr (s1, r1)"
  obtains t1 m where "skip t r = Inr (t1, r1)" and "R s1 t1" and "r1 = advance m r"
  using assms unfolding matched_def by blast

lemma loop_matched:
  assumes step: "matched n R step skip"
  shows "R s t \<Longrightarrow> deep n r \<Longrightarrow> loop k step s r = Inr (s1, r1) \<Longrightarrow>
    (\<exists>t1. loop k skip t r = Inr (t1, r1) \<and> R s1 t1) \<and> (\<exists>m. r1 = advance m r)"
proof (induction k arbitrary: s t r)
  case (Suc k)
  from Suc.prems(3) obtain s2 r2 where s2: "step s (ws r) = Inr (s2, r2)"
    and more: "(if at1 (ws r2) \<noteq> CHR '','' then Inr (s2, ws r2) else loop k step s2 (advance 1 (ws r2))) = Inr (s1, r1)"
    by (auto simp: loop.simps split: sum.split_asm prod.split_asm)
  have "deep n (ws r)" using Suc.prems(2) by simp
  from matchedD [OF step Suc.prems(1) this s2] obtain t2 m
    where t2: "skip t (ws r) = Inr (t2, r2)" "R s2 t2" "r2 = advance m (ws r)" .
  have d: "deep n (advance 1 (ws r2))" using Suc.prems(2) by (simp add: t2(3))
  obtain a where a: "ws r2 = advance a r" using ws_advance [of r] ws_advance [of r2] t2(3) by auto
  show ?case
  proof (cases "at1 (ws r2) = CHR '',''")
    case True
    with more Suc.IH [OF t2(2) d, of ] a show ?thesis by (auto simp: loop.simps t2(1))
  next
    case False
    with more t2(1,2) show ?thesis by (auto simp: loop.simps a)
  qed
qed (simp add: loop.simps)

text \<open>What a container's success means: opened, entered, read to the end, shut.\<close>

definition body :: "char \<Rightarrow> ('s \<Rightarrow> 's reading) \<Rightarrow> 's \<Rightarrow> 's reading" where
  "body shut step s q = (if at1 q = shut then Inr (s, q) else loop (Suc (length (rd_rest q))) step s q)"

lemma container_success:
  "container opener shut step s r = Inr (s1, r1) \<longleftrightarrow>
     at1 r = opener \<and> (\<exists>r0 r2. enter r = Inr r0 \<and> body shut step s (ws (advance 1 r0)) = Inr (s1, r2) \<and> at1 r2 = shut \<and>
       r1 = leave (advance 1 r2))"
  unfolding container_def Let_def body_def [symmetric]
  by (cases "enter r"; cases "at1 r = opener") (auto split: sum.split prod.split)

lemma body_matched:
  assumes "matched n R step skip" and "R s t" and "deep n q" and "body shut step s q = Inr (s1, r1)"
  shows "(\<exists>t1. body shut skip t q = Inr (t1, r1) \<and> R s1 t1) \<and> (\<exists>m. r1 = advance m q)"
proof (cases "at1 q = shut")
  case True
  with assms(2,4) show ?thesis by (auto simp: body_def intro: exI [of _ 0])
next
  case False
  with loop_matched [OF assms(1-3)] assms(4) show ?thesis by (simp add: body_def)
qed

lemma container_matched:
  assumes step: "matched n R step skip" and s: "R s t" and deep: "deep (Suc n) r"
    and run: "container opener shut step s r = Inr (s1, r1)"
  shows "(\<exists>t1. container opener shut skip t r = Inr (t1, r1) \<and> R s1 t1) \<and> (\<exists>m. r1 = advance m r) \<and> at1 r = opener"
proof -
  from run obtain r0 r2 where o: "at1 r = opener" "enter r = Inr r0" "body shut step s (ws (advance 1 r0)) = Inr (s1, r2)"
    "at1 r2 = shut" "r1 = leave (advance 1 r2)" unfolding container_success by blast
  have r0: "r0 = r\<lparr>rd_depth := rd_depth r + 1\<rparr>" and room: "rd_depth r < reader_depthLimit r"
    using enter_advance [OF o(2)] by auto
  have "deep n (ws (advance 1 r0))" using deep room by (auto simp: r0 deep_def)
  from body_matched [OF step s this o(3)] obtain t1 m
    where t1: "body shut skip t (ws (advance 1 r0)) = Inr (t1, r2)" "R s1 t1" and m: "r2 = advance m (ws (advance 1 r0))" by blast
  obtain w where "ws (advance 1 r0) = advance w r0" using ws_advance [of "advance 1 r0"] by auto
  then have "r1 = advance (w + m + 1) r" using leave_advance [of "w + m + 1" r] o(5) m by (simp add: r0 add.assoc)
  then show ?thesis unfolding container_success using o t1 by blast
qed

text \<open>Elements and members.\<close>

lemma element_matched:
  assumes "skips elem"
  shows "matched n (\<lambda>xs seen. True) (\<lambda>xs r. case elem r of Inl e \<Rightarrow> Inl e | Inr (x, r1) \<Rightarrow> Inr (xs @ [x], r1)) (skipElement (skipNested n))"
  by (rule matchedI) (auto simp: skipElement_def split: sum.split_asm prod.split_asm dest: skipsD [OF assms])

lemma skipElement_matched:
  assumes "skips val"
  shows "matched n (\<lambda>a b. True) (skipElement val) (skipElement (skipNested n))"
  by (rule matchedI) (auto simp: skipElement_def split: sum.split_asm prod.split_asm dest: skipsD [OF assms])

lemma memberName_success:
  assumes "memberName r = Inr (key, r1)"
  shows "\<exists>q. at1 r = quote \<and> reader_str r = Inr (key, q) \<and> at1 (ws q) = CHR '':'' \<and> r1 = ws (advance 1 (ws q)) \<and> (\<exists>m. r1 = advance m r)"
  using assms tame_forward [OF tame_memberName assms]
  by (auto simp: memberName_def split: if_split_asm sum.split_asm prod.split_asm)

lemma member_matched:
  assumes "list_all (\<lambda>(k, read). \<forall>v. skips (read v)) fl"
  shows "matched n (\<lambda>s seen. seen = snd s) (memberStep fl) (skipMember (skipNested n))"
proof (rule matchedI)
  fix s t r s1 r1
  assume t: "t = snd s" and deep: "deep n r" and run: "memberStep fl s r = Inr (s1, r1)"
  from run obtain key r2 read v where n: "memberName r = Inr (key, r2)" and read: "map_of fl key = Some read"
    and new: "key \<notin> set (snd s)" and v: "read (fst s) r2 = Inr (v, r1)" "s1 = (v, key # snd s)"
    by (auto simp: memberStep_def split: sum.split_asm prod.split_asm option.split_asm if_split_asm)
  from memberName_success [OF n] obtain q m where q: "at1 r = quote" "reader_str r = Inr (key, q)" "at1 (ws q) = CHR '':''"
    "r2 = ws (advance 1 (ws q))" and m: "r2 = advance m r" by blast
  have "skips (read (fst s))" using assms map_of_SomeD [OF read] by (auto simp: list_all_iff)
  from skipsD [OF this v(1)] deep have "skipNested n r2 = Inr ((), r1)" "\<exists>k. r1 = advance k r" by (auto simp: m)
  then show "(\<exists>t1. skipMember (skipNested n) t r = Inr (t1, r1) \<and> t1 = snd s1) \<and> (\<exists>m. r1 = advance m r)"
    using q new t v(2) by (auto simp: skipMember_def)
qed

lemma skipMember_matched:
  assumes "skips val"
  shows "matched n (=) (skipMember val) (skipMember (skipNested n))"
proof (rule matchedI)
  fix s t r s1 r1
  assume t: "s = t" and deep: "deep n r" and run: "skipMember val s r = Inr (s1, r1)"
  from run obtain key q u where q: "at1 r = quote" "reader_str r = Inr (key, q)" "key \<notin> set s" "at1 (ws q) = CHR '':''"
    and v: "val (ws (advance 1 (ws q))) = Inr (u, r1)" "s1 = key # s"
    by (auto simp: skipMember_def split: sum.split_asm prod.split_asm if_split_asm)
  have "memberName r = Inr (key, ws (advance 1 (ws q)))" using q by (simp add: memberName_def)
  from memberName_success [OF this] obtain m where m: "ws (advance 1 (ws q)) = advance m r" by blast
  have "deep n (ws (advance 1 (ws q)))" unfolding m using deep by simp
  from skipsD [OF assms v(1) this] obtain k where "skipNested n (ws (advance 1 (ws q))) = Inr ((), r1)" "r1 = advance (m + k) r"
    unfolding m by auto
  then show "(\<exists>t1. skipMember (skipNested n) t r = Inr (t1, r1) \<and> s1 = t1) \<and> (\<exists>m. r1 = advance m r)"
    using q t v(2) by (auto simp: skipMember_def)
qed

lemma skips_bracketed:
  assumes "opener = CHR ''['' \<and> shut = CHR '']'' \<and> skip = (\<lambda>n. skipElement (skipNested n)) \<or>
      opener = CHR ''{'' \<and> shut = CHR ''}'' \<and> skip = (\<lambda>n. skipMember (skipNested n))"
    and "\<And>n. matched n R step (skip n)" and "R s []" and "\<And>r v r1. dec r = Inr (v, r1) \<Longrightarrow> \<exists>s1. container opener shut step s r = Inr (s1, r1)"
  shows "skips dec"
proof (rule skipsI)
  fix r v r1 n
  assume "dec r = Inr (v, r1)" and deep: "deep (Suc n) r"
  then obtain s1 where "container opener shut step s r = Inr (s1, r1)" using assms(4) by blast
  from container_matched [OF assms(2,3) deep this] obtain t1
    where t1: "container opener shut (skip n) [] r = Inr (t1, r1)" "\<exists>m. r1 = advance m r" "at1 r = opener" by blast
  then have "skipContainer (skipNested n) r = Inr ((), r1)"
    using assms(1) by (auto simp: skipContainer_def)
  moreover have "at1 r \<noteq> quote" "at1 r = CHR ''{'' \<or> at1 r = CHR ''[''" using assms(1) t1(3) by auto
  ultimately show "skipNested (Suc n) r = Inr ((), r1) \<and> (\<exists>m. r1 = advance m r)" using t1(2) by (auto simp: Let_def)
qed

lemmas skips_square = skips_bracketed [OF disjI1 [OF conjI [OF refl conjI [OF refl refl]]]]
  and skips_curly = skips_bracketed [OF disjI2 [OF conjI [OF refl conjI [OF refl refl]]]]

lemma skips_list: "skips elem \<Longrightarrow> skips (decodeList elem)"
  unfolding decodeList_def by (rule skips_square [OF element_matched]) auto

lemma skips_strList: "skips reader_strList" and skips_words: "skips (reader_words parse)"
proof -
  show s: "skips reader_strList" unfolding reader_strList_def by (rule skips_list [OF skips_str])
  show "skips (reader_words parse)"
    by (rule skips_map [OF s]) (auto simp: reader_words_def split: sum.split_asm prod.split_asm option.split_asm)
qed

lemma skips_into: "skips dec \<Longrightarrow> skips (into dec put v)"
  by (rule skips_map) (auto simp: into_def split: sum.split_asm prod.split_asm)

lemma skips_record:
  assumes "list_all (\<lambda>(k, read). \<forall>v. skips (read v)) fl"
  shows "skips (decodeRecord fl required v)"
  by (rule skips_curly [OF member_matched [OF assms], where s = "(v, [])"])
     (auto simp: decodeRecord_def split: sum.split_asm prod.split_asm if_split_asm)

subsection \<open>Skipping itself\<close>

lemma skips_skipContainer:
  assumes "skips val"
  shows "skips (skipContainer val)"
proof -
  let ?list = "container (CHR ''['') (CHR '']'') (skipElement val) []" and ?curly = "container (CHR ''{'') (CHR ''}'') (skipMember val) []"
  have list: "skips ?list" by (rule skips_square [OF skipElement_matched [OF assms]]) auto
  have obj: "skips ?curly" by (rule skips_curly [OF skipMember_matched [OF assms]]) auto
  have "(\<exists>u. ?list r = Inr (u, r1)) \<or> (\<exists>u. ?curly r = Inr (u, r1))" if "skipContainer val r = Inr (v, r1)" for r v r1
    using that by (auto simp: skipContainer_def split: if_split_asm sum.split_asm prod.split_asm)
  with list obj show ?thesis unfolding skips_def by meson
qed

lemma skips_skipNested: "skips (skipNested k)"
proof (induction k)
  case (Suc k)
  show ?case
  proof (rule skipsI)
    fix r v r1 n
    assume run: "skipNested (Suc k) r = Inr (v, r1)" and deep: "deep (Suc n) r"
    show "skipNested (Suc n) r = Inr ((), r1) \<and> (\<exists>m. r1 = advance m r)"
    proof (cases "at1 r = CHR ''{'' \<or> at1 r = CHR ''[''")
      case True
      then have "skipContainer (skipNested k) r = Inr (v, r1)" using run by (auto simp: Let_def)
      from skipsD [OF skips_skipContainer [OF Suc] this deep] show ?thesis .
    next
      case False
      then have "skipNested (Suc n) r = skipNested (Suc k) r" by (simp add: Let_def)
      then have "skipNested (Suc n) r = Inr ((), r1)" using run by (simp del: skipNested.simps)
      moreover have "\<exists>m. r1 = advance m r"
        using run False unfolding skipNested.simps Let_def
        by (simp split: if_split_asm; elim tame_forward [rotated]; simp)
      ultimately show ?thesis by blast
    qed
  qed
qed (simp add: skips_def)

lemma skips_raw: "skips reader_rawValue"
  by (rule skips_map [OF skips_skipNested [of "depthLimit + 1"]])
     (auto simp: reader_rawValue_def skipValue_def split: sum.split_asm prod.split_asm)

text \<open>So what was read is carried: the bytes of the value, as they stand.\<close>

lemma rawValue_read:
  assumes "skips dec" and "dec r = Inr (v, r1)"
  shows "reader_rawValue r = Inr (take (length (rd_rest r) - length (rd_rest r1)) (rd_rest r), r1)"
proof -
  have "deep (depthLimit + 1) r" using reader_depthLimit_bound [of r] by (simp add: deep_def depthLimit_def)
  from skipsD [OF assms this] show ?thesis by (simp add: reader_rawValue_def skipValue_def)
qed

end
