(* ===== verification/Refusals.thy ===== *)
theory Refusals
  imports Codecs
begin

text \<open>
  The words the generated reader refuses with: those of the list \<open>refusals\<close> of \<open>rec.go\<close>, which ranks
  them. Every reading refuses with one of them, so every refusal has a rank and can be sent.
\<close>

subsection \<open>The list\<close>

definition refusals :: "bytes list" where
  "refusals = [''malformed'', ''bad_string'', ''number_spelling'', ''wrong_type'', ''depth_exceeded'', ''duplicate_key'',
     ''duplicate_field'', ''unknown_field'', ''missing_field'', ''bad_enum'', ''bad_binary'', ''trailing_bytes'']"

definition refusalRank :: "bytes \<Rightarrow> int" where
  "refusalRank word = (case List.find (\<lambda>i. refusals ! i = word) [0..<length refusals] of None \<Rightarrow> - 1 | Some i \<Rightarrow> int i)"

lemma refusalRank_known: "word \<in> set refusals \<Longrightarrow> 0 \<le> refusalRank word \<and> refusals ! nat (refusalRank word) = word"
  by (auto simp: refusalRank_def in_set_conv_nth find_Some_iff find_None_iff split: option.splits)

subsection \<open>Readings refuse with words of the list\<close>

definition worded :: "refusal \<Rightarrow> bool" where
  "worded e \<longleftrightarrow> (case e of Refusal word n \<Rightarrow> word \<in> set refusals | Unfinished \<Rightarrow> True)"

definition told :: "refusal + 'a \<Rightarrow> bool" where
  "told result \<longleftrightarrow> (\<forall>e. result = Inl e \<longrightarrow> worded e)"

definition speaks :: "'a reading \<Rightarrow> bool" where
  "speaks dec \<longleftrightarrow> (\<forall>r. told (dec r))"

lemma speaksI: "(\<And>r. told (dec r)) \<Longrightarrow> speaks dec"
  by (simp add: speaks_def)

lemma speaksD: "speaks dec \<Longrightarrow> told (dec r)"
  by (simp add: speaks_def)

lemma told_refuse: "told (Inl (refuse r ''malformed''))" "told (Inl (refuse r ''bad_string''))" "told (Inl (refuse r ''number_spelling''))"
  "told (Inl (refuse r ''wrong_type''))" "told (Inl (refuse r ''depth_exceeded''))" "told (Inl (refuse r ''duplicate_key''))"
  "told (Inl (refuse r ''duplicate_field''))" "told (Inl (refuse r ''unknown_field''))" "told (Inl (refuse r ''missing_field''))"
  "told (Inl (refuse r ''bad_enum''))" "told (Inl (refuse r ''bad_binary''))" "told (Inl (refuse r ''trailing_bytes''))"
  by (simp_all add: told_def worded_def refuse_def refusals_def)

lemma told_value: "told (Inr x)"
  by (simp add: told_def)

lemma told_unfinished: "told (Inl Unfinished)"
  by (simp add: told_def worded_def)

lemma told_if: "(c \<Longrightarrow> told a) \<Longrightarrow> (\<not> c \<Longrightarrow> told b) \<Longrightarrow> told (if c then a else b)"
  by simp

lemma told_case: "told result \<Longrightarrow> (\<And>x r. told (f x r)) \<Longrightarrow> told (case result of Inl e \<Rightarrow> Inl e | Inr (x, r) \<Rightarrow> f x r)"
  by (cases result) (auto simp: told_def)

lemma told_reader: "(\<And>e. result = Inl e \<Longrightarrow> worded e) \<Longrightarrow> (\<And>r. told (f r)) \<Longrightarrow> told (case result of Inl e \<Rightarrow> Inl e | Inr r \<Rightarrow> f r)"
  by (cases result) (auto simp: told_def)

lemma told_option: "told a \<Longrightarrow> (\<And>x. told (f x)) \<Longrightarrow> told (case y of None \<Rightarrow> a | Some x \<Rightarrow> f x)"
  by (cases y) auto

lemma told_prod: "(\<And>x y. told (f x y)) \<Longrightarrow> told (case p of (x, y) \<Rightarrow> f x y)"
  by (cases p) auto

lemmas told_intros = told_refuse told_value told_unfinished told_if told_case told_option

lemma speaks_hex4: "speaks reader_hex4"
  by (rule speaksI) (auto simp: reader_hex4_def intro: told_intros split: list.split option.split)

lemma speaks_unicode: "speaks unicodeEscaped"
  unfolding unicodeEscaped_def by (intro speaksI told_intros speaksD [OF speaks_hex4])

lemma speaks_escape: "speaks reader_escape"
  unfolding reader_escape_def
  by (rule speaksI, split list.split) (intro conjI allI impI told_intros speaksD [OF speaks_unicode])

lemma told_strLoop: "told (strLoop out r)"
proof (induction out r rule: strLoop.induct)
  case (1 out r)
  show ?case
  proof (cases "rd_rest r")
    case (Cons c cs)
    show ?thesis
    proof (cases "c = quote \<or> code c < 32 \<or> c \<noteq> backslash")
      case True
      then show ?thesis using "1.IH"(2) [OF Cons] by (auto simp: strLoop.simps [of out r] Cons intro: told_intros)
    next
      case False
      show ?thesis
      proof (cases "reader_escape r")
        case (Inl e)
        then show ?thesis using False speaksD [OF speaks_escape, of r] by (auto simp: strLoop.simps [of out r] Cons intro: told_intros)
      next
        case (Inr p)
        obtain bs r1 where p: "p = (bs, r1)" by (cases p)
        have "told (strLoop (out @ bs) r1)" using "1.IH"(1) [OF Cons _ _ _ Inr p [symmetric]] False by blast
        then show ?thesis using False Inr p by (auto simp: strLoop.simps [of out r] Cons intro: told_intros)
      qed
    qed
  qed (simp add: strLoop.simps [of out r] told_intros)
qed

lemma speaks_str: "speaks reader_str"
  unfolding reader_str_def by (intro speaksI told_intros told_strLoop)

lemma told_intDigits: "told (intDigits u r)"
  by (induction u r rule: intDigits.induct) (subst intDigits.simps, intro told_intros, auto)

lemma speaks_integer: "speaks (reader_integer a b)"
  unfolding reader_integer_def Let_def by (intro speaksI told_intros told_intDigits)

lemma speaks_int64: "speaks reader_int64" and speaks_int32: "speaks reader_int32"
  by (simp_all add: reader_int64_def reader_int32_def speaks_integer)

lemma speaks_literal: "speaks (reader_literal w v)"
  unfolding reader_literal_def by (intro speaksI told_intros)

lemma speaks_boolean: "speaks reader_boolean"
  unfolding reader_boolean_def by (intro speaksI told_intros speaksD [OF speaks_literal])

lemma speaks_binary: "speaks reader_binary"
  unfolding reader_binary_def by (intro speaksI told_intros speaksD [OF speaks_str])

lemma told_loop: "(\<And>s. speaks (step s)) \<Longrightarrow> told (loop n step s r)"
proof (induction n arbitrary: s r)
  case (Suc n)
  have "told (loop n step s1 r1)" for s1 r1 by (rule Suc.IH [OF Suc.prems])
  then show ?case unfolding loop.simps by (intro told_intros speaksD [OF Suc.prems])
qed (simp add: loop.simps told_unfinished)

lemma told_enter: "enter r = Inl e \<Longrightarrow> worded e"
  by (auto simp: enter_def Let_def worded_def refuse_def refusals_def split: if_split_asm)

lemma speaks_container: "(\<And>s. speaks (step s)) \<Longrightarrow> speaks (container opener shut step s)"
  unfolding container_def Let_def
  by (rule speaksI, rule told_if, rule told_refuse, rule told_reader, erule told_enter, rule told_case)
     (intro told_if told_value told_loop told_refuse; simp)+

lemma speaks_list: "speaks elem \<Longrightarrow> speaks (decodeList elem)"
  unfolding decodeList_def by (rule speaks_container, rule speaksI, rule told_case, erule speaksD, rule told_value)

lemma speaks_strList: "speaks reader_strList"
  unfolding reader_strList_def by (rule speaks_list [OF speaks_str])

lemma speaks_into: "speaks dec \<Longrightarrow> speaks (into dec put v)"
  unfolding into_def by (rule speaksI, rule told_case, erule speaksD, rule told_value)

lemma speaks_word: "speaks (reader_word parse)" and speaks_words: "speaks (reader_words parse2)"
  unfolding reader_word_def reader_words_def
  by (intro speaksI told_intros speaksD [OF speaks_str] speaksD [OF speaks_strList])+

lemma speaks_memberName: "speaks memberName"
  unfolding memberName_def by (intro speaksI told_intros speaksD [OF speaks_str])

lemma speaks_record:
  assumes "list_all (\<lambda>(k, read). \<forall>v. speaks (read v)) fl"
  shows "speaks (decodeRecord fl required v)"
proof -
  have read: "told (read v q)" if "map_of fl key = Some read" for key read v q
    using assms map_of_SomeD [OF that] by (auto simp: list_all_iff speaks_def)
  have "told (case map_of fl key of None \<Rightarrow> Inl (refuse q ''unknown_field'')
     | Some read \<Rightarrow> if key \<in> set (snd s) then Inl (refuse q ''duplicate_field'')
         else case read (fst s) q of Inl e \<Rightarrow> Inl e | Inr (v, r2) \<Rightarrow> Inr ((v, key # snd s), r2))" for key s q
    by (cases "map_of fl key") (auto intro!: told_intros read)
  then have "speaks (memberStep fl s)" for s
    unfolding memberStep_def by (intro speaksI told_case speaksD [OF speaks_memberName])
  from speaks_container [of "memberStep fl", OF this] show ?thesis
    unfolding decodeRecord_def
    by (intro speaksI) (auto simp: speaks_def told_def worded_def refuse_def refusals_def split: sum.split_asm prod.split_asm if_split_asm)
qed

lemma speaks_someDigits: "speaks someDigits"
  unfolding someDigits_def Let_def by (intro speaksI told_intros)

lemma speaks_skipExponent: "speaks skipExponent"
  unfolding skipExponent_def Let_def by (intro speaksI told_intros speaksD [OF speaks_someDigits])

lemma speaks_skipNumber: "speaks skipNumber"
  unfolding skipNumber_def Let_def by (intro speaksI told_intros speaksD [OF speaks_someDigits] speaksD [OF speaks_skipExponent])

lemma speaks_skipContainer:
  assumes "speaks val"
  shows "speaks (skipContainer val)"
proof -
  have "speaks (skipElement val seen)" "speaks (skipMember val seen)" for seen
    unfolding skipElement_def skipMember_def by (intro speaksI told_intros speaksD [OF assms] speaksD [OF speaks_str])+
  note each = speaksD [OF speaks_container [OF this(1)]] speaksD [OF speaks_container [OF this(2)]]
  show ?thesis unfolding skipContainer_def by (intro speaksI told_case told_value told_if each)
qed

lemma speaks_skipNested: "speaks (skipNested n)"
proof (induction n)
  case (Suc n)
  have "speaks skipString" unfolding skipString_def by (intro speaksI told_intros speaksD [OF speaks_str])
  note each = speaksD [OF this] speaksD [OF speaks_skipContainer [OF Suc]] speaksD [OF speaks_literal] speaksD [OF speaks_skipNumber]
  show ?case unfolding speaks_def skipNested.simps Let_def by (intro allI told_if each told_refuse)
qed (simp add: speaks_def told_unfinished)

lemma speaks_raw: "speaks reader_rawValue"
  unfolding reader_rawValue_def skipValue_def by (intro speaksI told_intros speaksD [OF speaks_skipNested])

lemma told_whole: "speaks dec \<Longrightarrow> told (decodeWhole dec buf depth)"
  unfolding decodeWhole_def by (rule told_case, erule speaksD) (intro told_if told_refuse told_value)

end
