(* ===== verification/Message_Codec.thy ===== *)
theory Message_Codec
  imports Round_Trips Skipping Refusals
begin

text \<open>
  The contract of one generated message type -- what its encoder writes its decoder reads, its
  decoder ends, yields only values the encoder can write again, refuses with known words, and agrees with skipping -- and the
  rules that establish it for a record from its table of members, one rule per kind of member.
\<close>

named_theorems wire \<open>the rules that establish a codec, and the facts every codec adds to them\<close>

declare tame_str [wire] tame_int64 [wire] tame_int32 [wire] tame_boolean [wire] tame_binary [wire]
  tame_word [wire] tame_words [wire] tame_strList [wire] tame_rawValue [wire]
declare skips_str [wire] skips_int64 [wire] skips_int32 [wire] skips_boolean [wire] skips_binary [wire]
  skips_word [wire] skips_words [wire] skips_strList [wire] skips_raw [wire]
declare speaks_str [wire] speaks_int64 [wire] speaks_int32 [wire] speaks_boolean [wire] speaks_binary [wire]
  speaks_word [wire] speaks_words [wire] speaks_strList [wire] speaks_raw [wire]

subsection \<open>Members in the order of the table\<close>

text \<open>The encoder writes the members of the table in its order, some of them on a condition; the
  required ones it always writes.\<close>

definition follows :: "nat \<Rightarrow> nat \<Rightarrow> 'v fields \<Rightarrow> bytes list \<Rightarrow> 'v \<Rightarrow> bytes list \<Rightarrow> 'v \<Rightarrow> bool" where
  "follows h d fl required v ts w \<longleftrightarrow> (\<exists>ms. ts = map (\<lambda>(k, t). encMember d k t) ms \<and> set required \<subseteq> fst ` set ms \<and>
     fst ` set ms \<subseteq> fst ` set fl \<and> fills h fl v [] ms w)"

lemma fills_table: "fills h fl v seen ms w \<Longrightarrow> k \<notin> fst ` set ms \<Longrightarrow> fills h ((k, read) # fl) v (k # seen) ms w"
proof (induction ms arbitrary: v seen)
  case (Cons m ms)
  obtain k1 t where m: "m = (k1, t)" by (cases m)
  from Cons.prems obtain read1 v1 where o: "map_of fl k1 = Some read1" "k1 \<notin> set seen" "validUTF8 k1" "codes h (read1 v) t v1"
    "fills h fl v1 (k1 # seen) ms w" by (auto simp: m)
  have "fills h ((k, read) # fl) v1 (k # k1 # seen) ms w" by (rule Cons.IH [OF o(5)]) (use Cons.prems(2) in auto)
  then have "fills h ((k, read) # fl) v1 (k1 # k # seen) ms w" by (rule fills_fewer) auto
  with o Cons.prems(2) show ?case by (auto simp: m)
qed simp

lemma follows_end: "v = w \<Longrightarrow> follows h d [] [] v [] w"
  by (simp add: follows_def)

lemma follows_member:
  assumes "codes n dec t x" and "n \<le> h" and "printable k" and "k \<notin> fst ` set fl" and "follows h d fl required (put x v) ts w"
  shows "follows h d ((k, into dec put) # fl) (k # required) v (encMember d k t # ts) w"
proof -
  from assms(5) obtain ms where ms: "ts = map (\<lambda>(k, t). encMember d k t) ms" "set required \<subseteq> fst ` set ms"
    "fst ` set ms \<subseteq> fst ` set fl" "fills h fl (put x v) [] ms w" by (auto simp: follows_def)
  then have "k \<notin> fst ` set ms" using assms(4) by auto
  from fills_table [OF ms(4) this, of "into dec put"]
  have "fills h ((k, into dec put) # fl) v [] ((k, t) # ms) w"
    by (intro fills_member [OF _ _ assms(3,1,2)]) simp_all
  then show ?thesis unfolding follows_def by (intro exI [of _ "(k, t) # ms"]) (use ms in auto)
qed

lemma follows_absent:
  assumes "k \<notin> fst ` set fl" and "follows h d fl required v ts w"
  shows "follows h d ((k, read) # fl) required v ts w"
proof -
  from assms(2) obtain ms where ms: "ts = map (\<lambda>(k, t). encMember d k t) ms" "set required \<subseteq> fst ` set ms"
    "fst ` set ms \<subseteq> fst ` set fl" "fills h fl v [] ms w" by (auto simp: follows_def)
  then have "k \<notin> fst ` set ms" using assms(1) by auto
  from fills_fewer [OF fills_table [OF ms(4) this, of read], of "[]"]
  show ?thesis unfolding follows_def by (intro exI [of _ ms]) (use ms in auto)
qed

lemma follows_fewer: "follows h d fl (k # required) v ts w \<Longrightarrow> follows h d fl required v ts w"
  by (auto simp: follows_def)

lemma follows_if:
  assumes "c \<Longrightarrow> codes n dec t x" and "n \<le> h" and "printable k" and "k \<notin> fst ` set fl" and "\<not> c \<Longrightarrow> put x v = v"
    and "follows h d fl required (put x v) ts w"
  shows "follows h d ((k, into dec put) # fl) required v ((if c then [encMember d k t] else []) @ ts) w"
proof (cases c)
  case True
  then show ?thesis using follows_fewer [OF follows_member [OF assms(1) assms(2-4), of d required put v ts w]] assms(6) by simp
next
  case False
  then show ?thesis using follows_absent [OF assms(4), of h d required v ts w] assms(5,6) by simp
qed

lemma follows_case:
  assumes "\<And>x. y = Some x \<Longrightarrow> codes n dec (t x) x" and "n \<le> h" and "printable k" and "k \<notin> fst ` set fl" and "put None v = v"
    and "follows h d fl required (put y v) ts w"
  shows "follows h d ((k, into dec (\<lambda>x. put (Some x))) # fl) required v
    ((case y of None \<Rightarrow> [] | Some x \<Rightarrow> [encMember d k (t x)]) @ ts) w"
proof (cases y)
  case None
  then show ?thesis using follows_absent [OF assms(4), of h d required v ts w] assms(5,6) by simp
next
  case (Some x)
  then show ?thesis
    using follows_fewer [OF follows_member [OF assms(1) assms(2-4), of x d required "\<lambda>x. put (Some x)"]] assms(6) by simp
qed

lemmas follows_if_last = follows_if [where ts = "[]", simplified append_Nil2]
  and follows_case_last = follows_case [where ts = "[]", simplified append_Nil2]

lemmas follows_intros = follows_end follows_member follows_if follows_case follows_if_last follows_case_last

lemma codes_object:
  assumes "follows h d fl required v ts w" and "ts \<noteq> []"
  shows "codes (Suc h) (decodeRecord fl required v) (encObject d ts) w"
  using assms codes_record [of h fl v _ w required d] by (auto simp: follows_def)

subsection \<open>The kinds of member\<close>

lemma wire_values [wire]:
  "validUTF8 s \<Longrightarrow> codes 0 reader_str (esc s) s"
  "codes 0 reader_boolean (encBool b) b"
  "- (2 ^ 63) \<le> n \<and> n < 2 ^ 63 \<Longrightarrow> codes 0 reader_int64 (num n) n"
  "- (2 ^ 31) \<le> n \<and> n < 2 ^ 31 \<Longrightarrow> codes 0 reader_int32 (num n) n"
  "codes 0 reader_binary (esc (base64 x)) x"
  "list_all validUTF8 ss \<Longrightarrow> codes 1 reader_strList (strs ss d) ss"
  using codes_strs [of ss 0 d] by (simp_all add: codes_str codes_bool codes_int64 codes_int32 codes_binary)

lemma yields_words [wire]: "yields (\<lambda>x. True) (reader_word parse)" "yields (\<lambda>x. True) (reader_words parse2)"
  "yields (\<lambda>x. True) reader_boolean" "yields (\<lambda>x. True) reader_binary"
  by simp_all

lemma yields_numbers [wire]: "yields (\<lambda>n. - (2 ^ 63) \<le> n \<and> n < 2 ^ 63) reader_int64"
  "yields (\<lambda>n. - (2 ^ 31) \<le> n \<and> n < 2 ^ 31) reader_int32"
  by (auto simp: reader_int64_def reader_int32_def intro!: yieldsI dest!: yieldsD [OF yields_integer])

declare yields_str [wire]

lemma yields_strList [wire]: "yields (list_all validUTF8) reader_strList"
  unfolding reader_strList_def by (rule yields_list [OF yields_str])

text \<open>A table of members, each of its own kind.\<close>

definition keeps :: "('v \<Rightarrow> bool) \<Rightarrow> 'v fields \<Rightarrow> bool" where
  "keeps P fl \<longleftrightarrow> list_all (\<lambda>(k, read). \<forall>v. P v \<longrightarrow> yields P (read v)) fl"

lemma keeps_nil: "keeps P []"
  and keeps_field: "yields Q dec \<Longrightarrow> (\<And>x v. Q x \<Longrightarrow> P v \<Longrightarrow> P (put x v)) \<Longrightarrow> keeps P fl \<Longrightarrow> keeps P ((k, into dec put) # fl)"
  by (auto simp: keeps_def intro: yields_into)

lemma yields_object: "keeps P fl \<Longrightarrow> P v \<Longrightarrow> yields P (decodeRecord fl required v)"
  unfolding keeps_def by (rule yields_record)

definition tableOf :: "('v reading \<Rightarrow> bool) \<Rightarrow> 'v fields \<Rightarrow> bool" where
  "tableOf P fl \<longleftrightarrow> list_all (\<lambda>(k, read). \<forall>v. P (read v)) fl"

lemma table_ends: "tableOf tame []" "tame dec \<Longrightarrow> tableOf tame fl \<Longrightarrow> tableOf tame ((k, into dec put) # fl)"
  and table_skips: "tableOf skips []" "skips dec \<Longrightarrow> tableOf skips fl \<Longrightarrow> tableOf skips ((k, into dec put) # fl)"
  and table_speaks: "tableOf speaks []" "speaks dec \<Longrightarrow> tableOf speaks fl \<Longrightarrow> tableOf speaks ((k, into dec put) # fl)"
  by (auto simp: tableOf_def intro: tame_into skips_into speaks_into)

lemma ends_object: "tableOf tame fl \<Longrightarrow> tame (decodeRecord fl required v)"
  and skips_object: "tableOf skips fl \<Longrightarrow> skips (decodeRecord fl required v)"
  and speaks_object: "tableOf speaks fl \<Longrightarrow> speaks (decodeRecord fl required v)"
  unfolding tableOf_def by (auto intro: tame_decodeRecord skips_record speaks_record)


text \<open>A whole buffer that an encoder wrote.\<close>

lemma decodeWhole_codes:
  assumes "codes h dec t v" and "depth + h \<le> 64"
  shows "decodeWhole dec t depth = Inr v"
proof -
  let ?r = "newReader t depth 0"
  have r: "rd_rest ?r = t @ []" "rd_depth ?r = depth" "reader_depthLimit ?r = 64"
    by (simp_all add: newReader_def reader_depthLimit_def depthLimit_def)
  have reads: "reads h dec t v" by (rule codes_reads [OF assms(1)])
  then show ?thesis
    using readsD [OF reads r(1)] ws_solid [OF r(1) reads_solid [OF reads]] r assms(2) by (simp add: decodeWhole_def ws_def)
qed

subsection \<open>Message types\<close>

text \<open>The contract of one generated message type. Its facts join the collections on interpretation,
  where the types that contain it use them.\<close>

locale codec =
  fixes dec :: "'a reading"
    and enc :: "'a \<Rightarrow> nat \<Rightarrow> bytes"
    and valid :: "'a \<Rightarrow> bool"
    and h :: nat
  assumes writes: "valid v \<Longrightarrow> codes h dec (enc v d) v"
    and ends: "tame dec"
    and types: "yields valid dec"
    and skipped: "skips dec"
    and speaking: "speaks dec"
begin

declare writes [wire] ends [wire] types [wire] skipped [wire] speaking [wire]

lemma ends_list [wire]: "tame (decodeList dec)"
  by (simp add: ends)

lemma types_list [wire]: "yields (list_all valid) (decodeList dec)"
  by (rule yields_list [OF types])

lemma skipped_list [wire]: "skips (decodeList dec)"
  by (rule skips_list [OF skipped])

lemma speaking_list [wire]: "speaks (decodeList dec)"
  by (rule speaks_list [OF speaking])

lemma codes_list_of [wire]: "list_all valid vs \<Longrightarrow> codes (Suc h) (decodeList dec) (encList enc vs d) vs"
  unfolding encList_bracket by (rule codes_list) (auto simp: list_all_iff writes)

lemma decodeWhole_enc: "valid v \<Longrightarrow> depth + h \<le> 64 \<Longrightarrow> decodeWhole dec (enc v d) depth = Inr v"
  by (rule decodeWhole_codes [OF writes])

lemma decodeAt_enc:
  assumes "valid v" and "0 \<le> depth" and "nat depth + h \<le> 64" and "delimited tail"
  shows "decodeAt dec (enc v d @ tail) depth 64 = Inr (v, length (enc v d))"
proof -
  let ?r = "newReader (enc v d @ tail) (nat depth) 64"
  have r: "rd_rest ?r = enc v d @ tail" "rd_depth ?r = nat depth" "reader_depthLimit ?r = 64" "rd_buf ?r = enc v d @ tail"
    by (simp_all add: newReader_def reader_depthLimit_def depthLimit_def)
  have reads: "reads h dec (enc v d) v" by (rule codes_reads [OF writes [OF assms(1)]])
  show ?thesis
    using readsD [OF reads r(1) assms(4)] ws_solid [OF r(1) reads_solid [OF reads]] r assms(2,3)
    by (simp add: decodeAt_def rd_pos_def)
qed

lemma encodeAt_enc:
  assumes "valid v" and "0 \<le> depth" and "depth < 64" and "nat depth + h \<le> 64"
  shows "encodeAt enc dec v depth = Inr (enc v (nat depth))"
  using decodeAt_enc [OF assms(1,2,4), of "[]" "nat depth"] assms(2,3) by (simp add: encodeAt_def depthLimit_def)

lemma decodeAll_encode:
  assumes "valid v" and "h \<le> 64"
  shows "decodeAll dec (enc v 0 @ [newline]) = Inr v"
  using decodeAt_enc [OF assms(1), of 0 "[newline]" 0] assms(2) by (simp add: decodeAll_def depthLimit_def)

lemma decodeWhole_valid: "decodeWhole dec buf depth = Inr v \<Longrightarrow> valid v"
  using types by (auto simp: decodeWhole_def yields_def split: sum.split_asm prod.split_asm if_split_asm)

lemma decodeAll_valid: "decodeAll dec buf = Inr v \<Longrightarrow> valid v"
  using types by (auto simp: decodeAll_def decodeAt_def Let_def yields_def split: sum.split_asm prod.split_asm if_split_asm)

lemma decodeAll_told: "told (decodeAll dec buf)"
proof -
  have "told (decodeAt dec buf 0 (int depthLimit))"
    unfolding decodeAt_def using speaksD [OF speaking] by (auto simp: told_def depthLimit_def split: sum.split_asm prod.split_asm if_split_asm)
  then show ?thesis
    by (auto simp: decodeAll_def told_def Let_def worded_def refusals_def split: sum.split_asm prod.split_asm if_split_asm)
qed

lemma decodeAll_ends: "decodeAll dec buf \<noteq> Inl Unfinished"
  using tameD [OF ends] by (auto simp: decodeAll_def decodeAt_def Let_def within_def split: sum.split prod.split)

lemma decodeWhole_ends: "decodeWhole dec buf depth \<noteq> Inl Unfinished"
  using tameD [OF ends] by (auto simp: decodeWhole_def within_def refuse_def split: sum.split prod.split)

end

subsection \<open>Establishing the contract\<close>

text \<open>A record's codec from its table.\<close>

lemma codec_record:
  assumes "dec = decodeRecord fl required v0" and "\<And>v d. enc v d = encObject d (ts v d)"
    and "0 < h" and "\<And>v d. ts v d \<noteq> []"
    and "\<And>v d. valid v \<Longrightarrow> follows (h - 1) d fl required v0 (ts v d) v"
    and "keeps valid fl" and "valid v0" and "tableOf tame fl" and "tableOf skips fl" and "tableOf speaks fl"
  shows "codec dec enc valid h"
  using assms codes_object [OF assms(5)] yields_object [OF assms(6,7)] ends_object [OF assms(8)] skips_object [OF assms(9)] speaks_object [OF assms(10)]
  by unfold_locales simp_all

declare follows_intros [wire] keeps_nil [wire] keeps_field [wire] table_ends [wire] table_skips [wire] table_speaks [wire]

text \<open>An object all of whose members are optional is written as \<open>{}\<close> when it has none.\<close>

definition encOpenObject :: "nat \<Rightarrow> bytes list \<Rightarrow> bytes" where
  "encOpenObject depth members = (if members = [] then ''{}'' else encObject depth members)"

lemma codes_open_object:
  assumes "follows h d fl [] v ts w"
  shows "codes (Suc h) (decodeRecord fl [] v) (encOpenObject d ts) w"
proof (cases "ts = []")
  case True
  with assms have "fills h fl v [] [] w" by (auto simp: follows_def)
  from codes_bracket [OF this, of "[]" d d] show ?thesis by (simp add: encOpenObject_def True bracket_def)
next
  case False
  with codes_object [OF assms] show ?thesis by (simp add: encOpenObject_def)
qed

lemma codec_open_record:
  assumes "dec = decodeRecord fl [] v0" and "\<And>v d. enc v d = encOpenObject d (ts v d)" and "0 < h"
    and "\<And>v d. valid v \<Longrightarrow> follows (h - 1) d fl [] v0 (ts v d) v"
    and "keeps valid fl" and "valid v0" and "tableOf tame fl" and "tableOf skips fl" and "tableOf speaks fl"
  shows "codec dec enc valid h"
  using assms codes_open_object [OF assms(4)] yields_object [OF assms(5,6)] ends_object [OF assms(7)] skips_object [OF assms(8)] speaks_object [OF assms(9)]
  by unfold_locales simp_all

lemma validUTF8_none: "validUTF8 []"
  by (simp add: validUTF8_def)

end
