(* ===== verification/Exact_Messages.thy ===== *)
theory Exact_Messages
  imports Message_Codec
begin

text \<open>
  The messages of the exact policy (\<open>rec.go\<close>, \<open>Subject\<close> to \<open>DecisionExplanation\<close>): the encoder and the
  decoder of each, and which values are well-typed on the wire. Each is a \<open>codec\<close>; its last
  argument is the nesting its text needs. \<open>zero_X\<close> is the value a decoder starts from.
\<close>

subsection \<open>Words\<close>

lemma word_codes [wire]:
  "codes 0 (reader_word ParseDecisionOutcome) (esc (WireName_DecisionOutcome v0)) v0"
  "codes 0 (reader_word ParsePolicyPageOutcome) (esc (WireName_PolicyPageOutcome v1)) v1"
  "codes 0 (reader_word ParsePolicyEditOutcome) (esc (WireName_PolicyEditOutcome v2)) v2"
  "codes 0 (reader_word ParseRuleReadOutcome) (esc (WireName_RuleReadOutcome v3)) v3"
  "codes 0 (reader_word ParsePermissionFirstUse) (esc (WireName_PermissionFirstUse v4)) v4"
  "codes 0 (reader_word ParseActionEditOutcome) (esc (WireName_ActionEditOutcome v5)) v5"
  "codes 0 (reader_word ParseDecisionSource) (esc (WireName_DecisionSource v6)) v6"
  "codes 0 (reader_word ParseResourceSelectorKind) (esc (WireName_ResourceSelectorKind v7)) v7"
  "codes 0 (reader_word ParseBatchCheckOutcome) (esc (WireName_BatchCheckOutcome v8)) v8"
  by (rule codes_word; simp)+

lemma words_codes [wire]:
  "codes 1 (reader_words ParseDecisionOutcome) (enumStrs WireName_DecisionOutcome vs0 d) vs0"
  "codes 1 (reader_words ParseResourceSelectorKind) (enumStrs WireName_ResourceSelectorKind vs1 d) vs1"
  unfolding One_nat_def by (rule codes_words; simp)+

subsection \<open>Subject\<close>

abbreviation zero_Subject :: subject where
  "zero_Subject \<equiv> \<lparr>account = [], program = []\<rparr>"

definition decodeSubject :: "subject reading" where
  "decodeSubject = decodeRecord
     [(''account'', into reader_str (\<lambda>x v. v\<lparr>account := x\<rparr>)),
      (''program'', into reader_str (\<lambda>x v. v\<lparr>program := x\<rparr>))]
     [''account'', ''program'']
     zero_Subject"

definition typed_Subject :: "subject \<Rightarrow> bool" where
  "typed_Subject v \<longleftrightarrow> validUTF8 (account v) \<and> validUTF8 (program v)"

lemma typed_zero_Subject [simp]: "typed_Subject zero_Subject"
  by (simp add: typed_Subject_def validUTF8_none)

interpretation Subject_wire: codec decodeSubject encSubject typed_Subject 1
  by (rule codec_record [OF decodeSubject_def encSubject_def [unfolded append.simps]])
     (rule wire | (simp add: typed_Subject_def code_def validUTF8_none; fail))+

definition DecodeSubjectAt :: "bytes \<Rightarrow> int \<Rightarrow> int \<Rightarrow> refusal + subject \<times> nat" where
  "DecodeSubjectAt = decodeAt decodeSubject"

definition EncodeSubjectAt :: "subject \<Rightarrow> int \<Rightarrow> refusal + bytes" where
  "EncodeSubjectAt = encodeAt encSubject decodeSubject"

definition DecodeSubject :: "bytes \<Rightarrow> refusal + subject" where
  "DecodeSubject = decodeAll decodeSubject"

subsection \<open>Decision\<close>

definition encDecision :: "Decision \<Rightarrow> nat \<Rightarrow> bytes" where
  "encDecision v depth = encObject depth
     ([encMember depth ''outcome'' (esc (WireName_DecisionOutcome (d_outcome v)))] @
      (if d_policyRevision v \<noteq> [] then [encMember depth ''policy_revision'' (esc (d_policyRevision v))] else []))"

abbreviation zero_Decision :: Decision where
  "zero_Decision \<equiv> \<lparr>d_outcome = DecisionOutcomePermitted, d_policyRevision = []\<rparr>"

definition reader_decodeDecision :: "Decision reading" where
  "reader_decodeDecision = decodeRecord
     [(''outcome'', into (reader_word ParseDecisionOutcome) (\<lambda>x v. v\<lparr>d_outcome := x\<rparr>)),
      (''policy_revision'', into reader_str (\<lambda>x v. v\<lparr>d_policyRevision := x\<rparr>))]
     [''outcome'']
     zero_Decision"

definition typed_Decision :: "Decision \<Rightarrow> bool" where
  "typed_Decision v \<longleftrightarrow> validUTF8 (d_policyRevision v)"

lemma typed_zero_Decision [simp]: "typed_Decision zero_Decision"
  by (simp add: typed_Decision_def validUTF8_none)

interpretation Decision_wire: codec reader_decodeDecision encDecision typed_Decision 1
  by (rule codec_record [OF reader_decodeDecision_def encDecision_def [unfolded append.simps]])
     (rule wire | (simp add: typed_Decision_def code_def validUTF8_none; fail))+

definition DecodeDecisionAt :: "bytes \<Rightarrow> int \<Rightarrow> int \<Rightarrow> refusal + Decision \<times> nat" where
  "DecodeDecisionAt = decodeAt reader_decodeDecision"

definition EncodeDecisionAt :: "Decision \<Rightarrow> int \<Rightarrow> refusal + bytes" where
  "EncodeDecisionAt = encodeAt encDecision reader_decodeDecision"

definition DecodeDecision :: "bytes \<Rightarrow> refusal + Decision" where
  "DecodeDecision = decodeAll reader_decodeDecision"

subsection \<open>PolicyRule\<close>

definition encPolicyRule :: "PolicyRule \<Rightarrow> nat \<Rightarrow> bytes" where
  "encPolicyRule v depth = encObject depth
     [encMember depth ''subject'' (encSubject (pr_subject v) (depth + 1)),
      encMember depth ''action'' (esc (pr_action v)),
      encMember depth ''resource'' (esc (pr_resource v)),
      encMember depth ''permit'' (encBool (pr_permit v))]"

abbreviation zero_PolicyRule :: PolicyRule where
  "zero_PolicyRule \<equiv> \<lparr>pr_subject = zero_Subject, pr_action = [], pr_resource = [], pr_permit = False\<rparr>"

definition decodePolicyRule :: "PolicyRule reading" where
  "decodePolicyRule = decodeRecord
     [(''subject'', into decodeSubject (\<lambda>x v. v\<lparr>pr_subject := x\<rparr>)),
      (''action'', into reader_str (\<lambda>x v. v\<lparr>pr_action := x\<rparr>)),
      (''resource'', into reader_str (\<lambda>x v. v\<lparr>pr_resource := x\<rparr>)),
      (''permit'', into reader_boolean (\<lambda>x v. v\<lparr>pr_permit := x\<rparr>))]
     [''subject'', ''action'', ''resource'', ''permit'']
     zero_PolicyRule"

definition typed_PolicyRule :: "PolicyRule \<Rightarrow> bool" where
  "typed_PolicyRule v \<longleftrightarrow> typed_Subject (pr_subject v) \<and> validUTF8 (pr_action v) \<and> validUTF8 (pr_resource v)"

lemma typed_zero_PolicyRule [simp]: "typed_PolicyRule zero_PolicyRule"
  by (simp add: typed_PolicyRule_def validUTF8_none)

interpretation PolicyRule_wire: codec decodePolicyRule encPolicyRule typed_PolicyRule 2
  by (rule codec_record [OF decodePolicyRule_def encPolicyRule_def [unfolded append.simps]])
     (rule wire | (simp add: typed_PolicyRule_def code_def validUTF8_none; fail))+

definition DecodePolicyRuleAt :: "bytes \<Rightarrow> int \<Rightarrow> int \<Rightarrow> refusal + PolicyRule \<times> nat" where
  "DecodePolicyRuleAt = decodeAt decodePolicyRule"

definition EncodePolicyRuleAt :: "PolicyRule \<Rightarrow> int \<Rightarrow> refusal + bytes" where
  "EncodePolicyRuleAt = encodeAt encPolicyRule decodePolicyRule"

definition DecodePolicyRule :: "bytes \<Rightarrow> refusal + PolicyRule" where
  "DecodePolicyRule = decodeAll decodePolicyRule"

subsection \<open>PolicyPage\<close>

definition encPolicyPage :: "PolicyPage \<Rightarrow> nat \<Rightarrow> bytes" where
  "encPolicyPage v depth = encObject depth
     [encMember depth ''outcome'' (esc (WireName_PolicyPageOutcome (pp_outcome v))),
      encMember depth ''revision'' (esc (pp_revision v)),
      encMember depth ''catalog'' (strs (pp_catalog v) (depth + 1)),
      encMember depth ''rules'' (encList encPolicyRule (pp_rules v) (depth + 1)),
      encMember depth ''next'' (esc (pp_next v)),
      encMember depth ''complete'' (encBool (pp_complete v))]"

abbreviation zero_PolicyPage :: PolicyPage where
  "zero_PolicyPage \<equiv> \<lparr>pp_outcome = PolicyPageOutcomePage, pp_revision = [], pp_catalog = [], pp_rules = [], pp_next = [], pp_complete = False\<rparr>"

definition decodePolicyPage :: "PolicyPage reading" where
  "decodePolicyPage = decodeRecord
     [(''outcome'', into (reader_word ParsePolicyPageOutcome) (\<lambda>x v. v\<lparr>pp_outcome := x\<rparr>)),
      (''revision'', into reader_str (\<lambda>x v. v\<lparr>pp_revision := x\<rparr>)),
      (''catalog'', into reader_strList (\<lambda>x v. v\<lparr>pp_catalog := x\<rparr>)),
      (''rules'', into (decodeList decodePolicyRule) (\<lambda>x v. v\<lparr>pp_rules := x\<rparr>)),
      (''next'', into reader_str (\<lambda>x v. v\<lparr>pp_next := x\<rparr>)),
      (''complete'', into reader_boolean (\<lambda>x v. v\<lparr>pp_complete := x\<rparr>))]
     [''outcome'', ''revision'', ''catalog'', ''rules'', ''next'', ''complete'']
     zero_PolicyPage"

definition typed_PolicyPage :: "PolicyPage \<Rightarrow> bool" where
  "typed_PolicyPage v \<longleftrightarrow> validUTF8 (pp_revision v) \<and> list_all validUTF8 (pp_catalog v) \<and> list_all typed_PolicyRule (pp_rules v) \<and> validUTF8 (pp_next v)"

lemma typed_zero_PolicyPage [simp]: "typed_PolicyPage zero_PolicyPage"
  by (simp add: typed_PolicyPage_def validUTF8_none)

interpretation PolicyPage_wire: codec decodePolicyPage encPolicyPage typed_PolicyPage 4
  by (rule codec_record [OF decodePolicyPage_def encPolicyPage_def [unfolded append.simps]])
     (rule wire | (simp add: typed_PolicyPage_def code_def validUTF8_none; fail))+

definition DecodePolicyPageAt :: "bytes \<Rightarrow> int \<Rightarrow> int \<Rightarrow> refusal + PolicyPage \<times> nat" where
  "DecodePolicyPageAt = decodeAt decodePolicyPage"

definition EncodePolicyPageAt :: "PolicyPage \<Rightarrow> int \<Rightarrow> refusal + bytes" where
  "EncodePolicyPageAt = encodeAt encPolicyPage decodePolicyPage"

definition DecodePolicyPage :: "bytes \<Rightarrow> refusal + PolicyPage" where
  "DecodePolicyPage = decodeAll decodePolicyPage"

subsection \<open>PolicyEdit\<close>

definition encPolicyEdit :: "PolicyEdit \<Rightarrow> nat \<Rightarrow> bytes" where
  "encPolicyEdit v depth = encObject depth
     ([encMember depth ''outcome'' (esc (WireName_PolicyEditOutcome (pe_outcome v))),
      encMember depth ''revision'' (esc (pe_revision v))] @
      (case pe_current v of None \<Rightarrow> [] | Some x \<Rightarrow> [encMember depth ''current'' (encPolicyRule x (depth + 1))]))"

abbreviation zero_PolicyEdit :: PolicyEdit where
  "zero_PolicyEdit \<equiv> \<lparr>pe_outcome = PolicyEditOutcomeApplied, pe_revision = [], pe_current = None\<rparr>"

definition decodePolicyEdit :: "PolicyEdit reading" where
  "decodePolicyEdit = decodeRecord
     [(''outcome'', into (reader_word ParsePolicyEditOutcome) (\<lambda>x v. v\<lparr>pe_outcome := x\<rparr>)),
      (''revision'', into reader_str (\<lambda>x v. v\<lparr>pe_revision := x\<rparr>)),
      (''current'', into decodePolicyRule (\<lambda>x v. v\<lparr>pe_current := Some x\<rparr>))]
     [''outcome'', ''revision'']
     zero_PolicyEdit"

definition typed_PolicyEdit :: "PolicyEdit \<Rightarrow> bool" where
  "typed_PolicyEdit v \<longleftrightarrow> validUTF8 (pe_revision v) \<and> pred_option typed_PolicyRule (pe_current v)"

lemma typed_zero_PolicyEdit [simp]: "typed_PolicyEdit zero_PolicyEdit"
  by (simp add: typed_PolicyEdit_def validUTF8_none)

interpretation PolicyEdit_wire: codec decodePolicyEdit encPolicyEdit typed_PolicyEdit 3
  by (rule codec_record [OF decodePolicyEdit_def encPolicyEdit_def [unfolded append.simps]])
     (rule wire | (simp add: typed_PolicyEdit_def code_def validUTF8_none; fail))+

definition DecodePolicyEditAt :: "bytes \<Rightarrow> int \<Rightarrow> int \<Rightarrow> refusal + PolicyEdit \<times> nat" where
  "DecodePolicyEditAt = decodeAt decodePolicyEdit"

definition EncodePolicyEditAt :: "PolicyEdit \<Rightarrow> int \<Rightarrow> refusal + bytes" where
  "EncodePolicyEditAt = encodeAt encPolicyEdit decodePolicyEdit"

definition DecodePolicyEdit :: "bytes \<Rightarrow> refusal + PolicyEdit" where
  "DecodePolicyEdit = decodeAll decodePolicyEdit"

subsection \<open>RuleRecord\<close>

definition encRuleRecord :: "RuleRecord \<Rightarrow> nat \<Rightarrow> bytes" where
  "encRuleRecord v depth = encObject depth
     [encMember depth ''rule'' (encPolicyRule (rr_rule v) (depth + 1)),
      encMember depth ''set_by'' (encSubject (rr_setBy v) (depth + 1)),
      encMember depth ''set_at'' (esc (rr_setAt v)),
      encMember depth ''why'' (esc (rr_why v)),
      encMember depth ''expires'' (esc (rr_expires v))]"

abbreviation zero_RuleRecord :: RuleRecord where
  "zero_RuleRecord \<equiv> \<lparr>rr_rule = zero_PolicyRule, rr_setBy = zero_Subject, rr_setAt = [], rr_why = [], rr_expires = []\<rparr>"

definition decodeRuleRecord :: "RuleRecord reading" where
  "decodeRuleRecord = decodeRecord
     [(''rule'', into decodePolicyRule (\<lambda>x v. v\<lparr>rr_rule := x\<rparr>)),
      (''set_by'', into decodeSubject (\<lambda>x v. v\<lparr>rr_setBy := x\<rparr>)),
      (''set_at'', into reader_str (\<lambda>x v. v\<lparr>rr_setAt := x\<rparr>)),
      (''why'', into reader_str (\<lambda>x v. v\<lparr>rr_why := x\<rparr>)),
      (''expires'', into reader_str (\<lambda>x v. v\<lparr>rr_expires := x\<rparr>))]
     [''rule'', ''set_by'', ''set_at'', ''why'', ''expires'']
     zero_RuleRecord"

definition typed_RuleRecord :: "RuleRecord \<Rightarrow> bool" where
  "typed_RuleRecord v \<longleftrightarrow> typed_PolicyRule (rr_rule v) \<and> typed_Subject (rr_setBy v) \<and> validUTF8 (rr_setAt v) \<and> validUTF8 (rr_why v) \<and> validUTF8 (rr_expires v)"

interpretation RuleRecord_wire: codec decodeRuleRecord encRuleRecord typed_RuleRecord 3
  by (rule codec_record [OF decodeRuleRecord_def encRuleRecord_def [unfolded append.simps]])
     (rule wire | (simp add: typed_RuleRecord_def code_def validUTF8_none; fail))+

definition DecodeRuleRecordAt :: "bytes \<Rightarrow> int \<Rightarrow> int \<Rightarrow> refusal + RuleRecord \<times> nat" where
  "DecodeRuleRecordAt = decodeAt decodeRuleRecord"

definition EncodeRuleRecordAt :: "RuleRecord \<Rightarrow> int \<Rightarrow> refusal + bytes" where
  "EncodeRuleRecordAt = encodeAt encRuleRecord decodeRuleRecord"

definition DecodeRuleRecord :: "bytes \<Rightarrow> refusal + RuleRecord" where
  "DecodeRuleRecord = decodeAll decodeRuleRecord"

subsection \<open>RuleRead\<close>

definition encRuleRead :: "RuleRead \<Rightarrow> nat \<Rightarrow> bytes" where
  "encRuleRead v depth = encObject depth
     ([encMember depth ''outcome'' (esc (WireName_RuleReadOutcome (rd_outcome v))),
      encMember depth ''revision'' (esc (rd_revision v))] @
      (case rd_record v of None \<Rightarrow> [] | Some x \<Rightarrow> [encMember depth ''record'' (encRuleRecord x (depth + 1))]))"

abbreviation zero_RuleRead :: RuleRead where
  "zero_RuleRead \<equiv> \<lparr>rd_outcome = RuleReadOutcomeFound, rd_revision = [], rd_record = None\<rparr>"

definition decodeRuleRead :: "RuleRead reading" where
  "decodeRuleRead = decodeRecord
     [(''outcome'', into (reader_word ParseRuleReadOutcome) (\<lambda>x v. v\<lparr>rd_outcome := x\<rparr>)),
      (''revision'', into reader_str (\<lambda>x v. v\<lparr>rd_revision := x\<rparr>)),
      (''record'', into decodeRuleRecord (\<lambda>x v. v\<lparr>rd_record := Some x\<rparr>))]
     [''outcome'', ''revision'']
     zero_RuleRead"

definition typed_RuleRead :: "RuleRead \<Rightarrow> bool" where
  "typed_RuleRead v \<longleftrightarrow> validUTF8 (rd_revision v) \<and> pred_option typed_RuleRecord (rd_record v)"

lemma typed_zero_RuleRead [simp]: "typed_RuleRead zero_RuleRead"
  by (simp add: typed_RuleRead_def validUTF8_none)

interpretation RuleRead_wire: codec decodeRuleRead encRuleRead typed_RuleRead 4
  by (rule codec_record [OF decodeRuleRead_def encRuleRead_def [unfolded append.simps]])
     (rule wire | (simp add: typed_RuleRead_def code_def validUTF8_none; fail))+

definition DecodeRuleReadAt :: "bytes \<Rightarrow> int \<Rightarrow> int \<Rightarrow> refusal + RuleRead \<times> nat" where
  "DecodeRuleReadAt = decodeAt decodeRuleRead"

definition EncodeRuleReadAt :: "RuleRead \<Rightarrow> int \<Rightarrow> refusal + bytes" where
  "EncodeRuleReadAt = encodeAt encRuleRead decodeRuleRead"

definition DecodeRuleRead :: "bytes \<Rightarrow> refusal + RuleRead" where
  "DecodeRuleRead = decodeAll decodeRuleRead"

subsection \<open>CatalogEntry\<close>

definition encCatalogEntry :: "CatalogEntry \<Rightarrow> nat \<Rightarrow> bytes" where
  "encCatalogEntry v depth = encObject depth
     [encMember depth ''action'' (esc (ce_action v)),
      encMember depth ''registered_by'' (encSubject (ce_registeredBy v) (depth + 1)),
      encMember depth ''registered_at'' (esc (ce_registeredAt v))]"

abbreviation zero_CatalogEntry :: CatalogEntry where
  "zero_CatalogEntry \<equiv> \<lparr>ce_action = [], ce_registeredBy = zero_Subject, ce_registeredAt = []\<rparr>"

definition decodeCatalogEntry :: "CatalogEntry reading" where
  "decodeCatalogEntry = decodeRecord
     [(''action'', into reader_str (\<lambda>x v. v\<lparr>ce_action := x\<rparr>)),
      (''registered_by'', into decodeSubject (\<lambda>x v. v\<lparr>ce_registeredBy := x\<rparr>)),
      (''registered_at'', into reader_str (\<lambda>x v. v\<lparr>ce_registeredAt := x\<rparr>))]
     [''action'', ''registered_by'', ''registered_at'']
     zero_CatalogEntry"

definition typed_CatalogEntry :: "CatalogEntry \<Rightarrow> bool" where
  "typed_CatalogEntry v \<longleftrightarrow> validUTF8 (ce_action v) \<and> typed_Subject (ce_registeredBy v) \<and> validUTF8 (ce_registeredAt v)"

interpretation CatalogEntry_wire: codec decodeCatalogEntry encCatalogEntry typed_CatalogEntry 2
  by (rule codec_record [OF decodeCatalogEntry_def encCatalogEntry_def [unfolded append.simps]])
     (rule wire | (simp add: typed_CatalogEntry_def code_def validUTF8_none; fail))+

definition DecodeCatalogEntryAt :: "bytes \<Rightarrow> int \<Rightarrow> int \<Rightarrow> refusal + CatalogEntry \<times> nat" where
  "DecodeCatalogEntryAt = decodeAt decodeCatalogEntry"

definition EncodeCatalogEntryAt :: "CatalogEntry \<Rightarrow> int \<Rightarrow> refusal + bytes" where
  "EncodeCatalogEntryAt = encodeAt encCatalogEntry decodeCatalogEntry"

definition DecodeCatalogEntry :: "bytes \<Rightarrow> refusal + CatalogEntry" where
  "DecodeCatalogEntry = decodeAll decodeCatalogEntry"

subsection \<open>ActionDescription\<close>

definition encActionDescription :: "ActionDescription \<Rightarrow> nat \<Rightarrow> bytes" where
  "encActionDescription v depth = encObject depth
     [encMember depth ''action'' (esc (ad_action v)),
      encMember depth ''feature_app'' (encSubject (ad_featureApp v) (depth + 1)),
      encMember depth ''app_label'' (esc (ad_appLabel v)),
      encMember depth ''description'' (esc (ad_description v)),
      encMember depth ''declared_risk'' (esc (ad_declaredRisk v))]"

abbreviation zero_ActionDescription :: ActionDescription where
  "zero_ActionDescription \<equiv> \<lparr>ad_action = [], ad_featureApp = zero_Subject, ad_appLabel = [], ad_description = [], ad_declaredRisk = []\<rparr>"

definition decodeActionDescription :: "ActionDescription reading" where
  "decodeActionDescription = decodeRecord
     [(''action'', into reader_str (\<lambda>x v. v\<lparr>ad_action := x\<rparr>)),
      (''feature_app'', into decodeSubject (\<lambda>x v. v\<lparr>ad_featureApp := x\<rparr>)),
      (''app_label'', into reader_str (\<lambda>x v. v\<lparr>ad_appLabel := x\<rparr>)),
      (''description'', into reader_str (\<lambda>x v. v\<lparr>ad_description := x\<rparr>)),
      (''declared_risk'', into reader_str (\<lambda>x v. v\<lparr>ad_declaredRisk := x\<rparr>))]
     [''action'', ''feature_app'', ''app_label'', ''description'', ''declared_risk'']
     zero_ActionDescription"

definition typed_ActionDescription :: "ActionDescription \<Rightarrow> bool" where
  "typed_ActionDescription v \<longleftrightarrow> validUTF8 (ad_action v) \<and> typed_Subject (ad_featureApp v) \<and> validUTF8 (ad_appLabel v) \<and> validUTF8 (ad_description v) \<and> validUTF8 (ad_declaredRisk v)"

lemma typed_zero_ActionDescription [simp]: "typed_ActionDescription zero_ActionDescription"
  by (simp add: typed_ActionDescription_def validUTF8_none)

interpretation ActionDescription_wire: codec decodeActionDescription encActionDescription typed_ActionDescription 2
  by (rule codec_record [OF decodeActionDescription_def encActionDescription_def [unfolded append.simps]])
     (rule wire | (simp add: typed_ActionDescription_def code_def validUTF8_none; fail))+

definition DecodeActionDescriptionAt :: "bytes \<Rightarrow> int \<Rightarrow> int \<Rightarrow> refusal + ActionDescription \<times> nat" where
  "DecodeActionDescriptionAt = decodeAt decodeActionDescription"

definition EncodeActionDescriptionAt :: "ActionDescription \<Rightarrow> int \<Rightarrow> refusal + bytes" where
  "EncodeActionDescriptionAt = encodeAt encActionDescription decodeActionDescription"

definition DecodeActionDescription :: "bytes \<Rightarrow> refusal + ActionDescription" where
  "DecodeActionDescription = decodeAll decodeActionDescription"

subsection \<open>PermissionDefinition\<close>

abbreviation zero_PermissionDefinition :: PermissionDefinition where
  "zero_PermissionDefinition \<equiv> \<lparr>pd_action = [], pd_ownerContract = [], pd_operations = [], pd_resourceProfile = [], pd_resourceType = [], pd_enforcedBy = [], pd_disclosure = [], pd_lifecycle = [], pd_firstUse = PermissionFirstUseNone, pd_served = False\<rparr>"

definition decodePermissionDefinition :: "PermissionDefinition reading" where
  "decodePermissionDefinition = decodeRecord
     [(''action'', into reader_str (\<lambda>x v. v\<lparr>pd_action := x\<rparr>)),
      (''owner_contract'', into reader_str (\<lambda>x v. v\<lparr>pd_ownerContract := x\<rparr>)),
      (''operations'', into reader_strList (\<lambda>x v. v\<lparr>pd_operations := x\<rparr>)),
      (''resource_profile'', into reader_str (\<lambda>x v. v\<lparr>pd_resourceProfile := x\<rparr>)),
      (''resource_type'', into reader_str (\<lambda>x v. v\<lparr>pd_resourceType := x\<rparr>)),
      (''enforced_by'', into reader_strList (\<lambda>x v. v\<lparr>pd_enforcedBy := x\<rparr>)),
      (''disclosure'', into reader_str (\<lambda>x v. v\<lparr>pd_disclosure := x\<rparr>)),
      (''lifecycle'', into reader_str (\<lambda>x v. v\<lparr>pd_lifecycle := x\<rparr>)),
      (''first_use'', into (reader_word ParsePermissionFirstUse) (\<lambda>x v. v\<lparr>pd_firstUse := x\<rparr>)),
      (''served'', into reader_boolean (\<lambda>x v. v\<lparr>pd_served := x\<rparr>))]
     [''action'', ''owner_contract'', ''operations'', ''resource_profile'', ''resource_type'', ''enforced_by'', ''disclosure'', ''lifecycle'', ''first_use'', ''served'']
     zero_PermissionDefinition"

definition typed_PermissionDefinition :: "PermissionDefinition \<Rightarrow> bool" where
  "typed_PermissionDefinition v \<longleftrightarrow> validUTF8 (pd_action v) \<and> validUTF8 (pd_ownerContract v) \<and> list_all validUTF8 (pd_operations v) \<and> validUTF8 (pd_resourceProfile v) \<and> validUTF8 (pd_resourceType v) \<and> list_all validUTF8 (pd_enforcedBy v) \<and> validUTF8 (pd_disclosure v) \<and> validUTF8 (pd_lifecycle v)"

lemma typed_zero_PermissionDefinition [simp]: "typed_PermissionDefinition zero_PermissionDefinition"
  by (simp add: typed_PermissionDefinition_def validUTF8_none)

interpretation PermissionDefinition_wire: codec decodePermissionDefinition encPermissionDefinition typed_PermissionDefinition 2
  by (rule codec_record [OF decodePermissionDefinition_def encPermissionDefinition_def [unfolded append.simps]])
     (rule wire | (simp add: typed_PermissionDefinition_def code_def validUTF8_none; fail))+

definition DecodePermissionDefinitionAt :: "bytes \<Rightarrow> int \<Rightarrow> int \<Rightarrow> refusal + PermissionDefinition \<times> nat" where
  "DecodePermissionDefinitionAt = decodeAt decodePermissionDefinition"

definition EncodePermissionDefinitionAt :: "PermissionDefinition \<Rightarrow> int \<Rightarrow> refusal + bytes" where
  "EncodePermissionDefinitionAt = encodeAt encPermissionDefinition decodePermissionDefinition"

definition DecodePermissionDefinition :: "bytes \<Rightarrow> refusal + PermissionDefinition" where
  "DecodePermissionDefinition = decodeAll decodePermissionDefinition"

subsection \<open>DescribedAction\<close>

definition encDescribedAction :: "DescribedAction \<Rightarrow> nat \<Rightarrow> bytes" where
  "encDescribedAction v depth = encObject depth
     ([encMember depth ''action'' (esc (da_action v)),
      encMember depth ''choices'' (strs (da_choices v) (depth + 1))] @
      (case da_description v of None \<Rightarrow> [] | Some x \<Rightarrow> [encMember depth ''description'' (encActionDescription x (depth + 1))]) @
      (case da_publishedBy v of None \<Rightarrow> [] | Some x \<Rightarrow> [encMember depth ''published_by'' (encSubject x (depth + 1))]) @
      (if da_publishedAt v \<noteq> [] then [encMember depth ''published_at'' (esc (da_publishedAt v))] else []))"

abbreviation zero_DescribedAction :: DescribedAction where
  "zero_DescribedAction \<equiv> \<lparr>da_action = [], da_choices = [], da_description = None, da_publishedBy = None, da_publishedAt = []\<rparr>"

definition decodeDescribedAction :: "DescribedAction reading" where
  "decodeDescribedAction = decodeRecord
     [(''action'', into reader_str (\<lambda>x v. v\<lparr>da_action := x\<rparr>)),
      (''choices'', into reader_strList (\<lambda>x v. v\<lparr>da_choices := x\<rparr>)),
      (''description'', into decodeActionDescription (\<lambda>x v. v\<lparr>da_description := Some x\<rparr>)),
      (''published_by'', into decodeSubject (\<lambda>x v. v\<lparr>da_publishedBy := Some x\<rparr>)),
      (''published_at'', into reader_str (\<lambda>x v. v\<lparr>da_publishedAt := x\<rparr>))]
     [''action'', ''choices'']
     zero_DescribedAction"

definition typed_DescribedAction :: "DescribedAction \<Rightarrow> bool" where
  "typed_DescribedAction v \<longleftrightarrow> validUTF8 (da_action v) \<and> list_all validUTF8 (da_choices v) \<and> pred_option typed_ActionDescription (da_description v) \<and> pred_option typed_Subject (da_publishedBy v) \<and> validUTF8 (da_publishedAt v)"

interpretation DescribedAction_wire: codec decodeDescribedAction encDescribedAction typed_DescribedAction 3
  by (rule codec_record [OF decodeDescribedAction_def encDescribedAction_def [unfolded append.simps]])
     (rule wire | (simp add: typed_DescribedAction_def code_def validUTF8_none; fail))+

definition DecodeDescribedActionAt :: "bytes \<Rightarrow> int \<Rightarrow> int \<Rightarrow> refusal + DescribedAction \<times> nat" where
  "DecodeDescribedActionAt = decodeAt decodeDescribedAction"

definition EncodeDescribedActionAt :: "DescribedAction \<Rightarrow> int \<Rightarrow> refusal + bytes" where
  "EncodeDescribedActionAt = encodeAt encDescribedAction decodeDescribedAction"

definition DecodeDescribedAction :: "bytes \<Rightarrow> refusal + DescribedAction" where
  "DecodeDescribedAction = decodeAll decodeDescribedAction"

subsection \<open>ActionEdit\<close>

definition encActionEdit :: "ActionEdit \<Rightarrow> nat \<Rightarrow> bytes" where
  "encActionEdit v depth = encObject depth
     ([encMember depth ''outcome'' (esc (WireName_ActionEditOutcome (ae_outcome v))),
      encMember depth ''revision'' (esc (ae_revision v))] @
      (case ae_current v of None \<Rightarrow> [] | Some x \<Rightarrow> [encMember depth ''current'' (encCatalogEntry x (depth + 1))]))"

abbreviation zero_ActionEdit :: ActionEdit where
  "zero_ActionEdit \<equiv> \<lparr>ae_outcome = ActionEditOutcomeApplied, ae_revision = [], ae_current = None\<rparr>"

definition decodeActionEdit :: "ActionEdit reading" where
  "decodeActionEdit = decodeRecord
     [(''outcome'', into (reader_word ParseActionEditOutcome) (\<lambda>x v. v\<lparr>ae_outcome := x\<rparr>)),
      (''revision'', into reader_str (\<lambda>x v. v\<lparr>ae_revision := x\<rparr>)),
      (''current'', into decodeCatalogEntry (\<lambda>x v. v\<lparr>ae_current := Some x\<rparr>))]
     [''outcome'', ''revision'']
     zero_ActionEdit"

definition typed_ActionEdit :: "ActionEdit \<Rightarrow> bool" where
  "typed_ActionEdit v \<longleftrightarrow> validUTF8 (ae_revision v) \<and> pred_option typed_CatalogEntry (ae_current v)"

lemma typed_zero_ActionEdit [simp]: "typed_ActionEdit zero_ActionEdit"
  by (simp add: typed_ActionEdit_def validUTF8_none)

interpretation ActionEdit_wire: codec decodeActionEdit encActionEdit typed_ActionEdit 3
  by (rule codec_record [OF decodeActionEdit_def encActionEdit_def [unfolded append.simps]])
     (rule wire | (simp add: typed_ActionEdit_def code_def validUTF8_none; fail))+

definition DecodeActionEditAt :: "bytes \<Rightarrow> int \<Rightarrow> int \<Rightarrow> refusal + ActionEdit \<times> nat" where
  "DecodeActionEditAt = decodeAt decodeActionEdit"

definition EncodeActionEditAt :: "ActionEdit \<Rightarrow> int \<Rightarrow> refusal + bytes" where
  "EncodeActionEditAt = encodeAt encActionEdit decodeActionEdit"

definition DecodeActionEdit :: "bytes \<Rightarrow> refusal + ActionEdit" where
  "DecodeActionEdit = decodeAll decodeActionEdit"

subsection \<open>DescriptionEdit\<close>

definition encDescriptionEdit :: "DescriptionEdit \<Rightarrow> nat \<Rightarrow> bytes" where
  "encDescriptionEdit v depth = encObject depth
     ([encMember depth ''outcome'' (esc (WireName_ActionEditOutcome (de_outcome v))),
      encMember depth ''revision'' (esc (de_revision v))] @
      (case de_current v of None \<Rightarrow> [] | Some x \<Rightarrow> [encMember depth ''current'' (encDescribedAction x (depth + 1))]))"

abbreviation zero_DescriptionEdit :: DescriptionEdit where
  "zero_DescriptionEdit \<equiv> \<lparr>de_outcome = ActionEditOutcomeApplied, de_revision = [], de_current = None\<rparr>"

definition decodeDescriptionEdit :: "DescriptionEdit reading" where
  "decodeDescriptionEdit = decodeRecord
     [(''outcome'', into (reader_word ParseActionEditOutcome) (\<lambda>x v. v\<lparr>de_outcome := x\<rparr>)),
      (''revision'', into reader_str (\<lambda>x v. v\<lparr>de_revision := x\<rparr>)),
      (''current'', into decodeDescribedAction (\<lambda>x v. v\<lparr>de_current := Some x\<rparr>))]
     [''outcome'', ''revision'']
     zero_DescriptionEdit"

definition typed_DescriptionEdit :: "DescriptionEdit \<Rightarrow> bool" where
  "typed_DescriptionEdit v \<longleftrightarrow> validUTF8 (de_revision v) \<and> pred_option typed_DescribedAction (de_current v)"

lemma typed_zero_DescriptionEdit [simp]: "typed_DescriptionEdit zero_DescriptionEdit"
  by (simp add: typed_DescriptionEdit_def validUTF8_none)

interpretation DescriptionEdit_wire: codec decodeDescriptionEdit encDescriptionEdit typed_DescriptionEdit 4
  by (rule codec_record [OF decodeDescriptionEdit_def encDescriptionEdit_def [unfolded append.simps]])
     (rule wire | (simp add: typed_DescriptionEdit_def code_def validUTF8_none; fail))+

definition DecodeDescriptionEditAt :: "bytes \<Rightarrow> int \<Rightarrow> int \<Rightarrow> refusal + DescriptionEdit \<times> nat" where
  "DecodeDescriptionEditAt = decodeAt decodeDescriptionEdit"

definition EncodeDescriptionEditAt :: "DescriptionEdit \<Rightarrow> int \<Rightarrow> refusal + bytes" where
  "EncodeDescriptionEditAt = encodeAt encDescriptionEdit decodeDescriptionEdit"

definition DecodeDescriptionEdit :: "bytes \<Rightarrow> refusal + DescriptionEdit" where
  "DecodeDescriptionEdit = decodeAll decodeDescriptionEdit"

subsection \<open>DescriptionPage\<close>

definition encDescriptionPage :: "DescriptionPage \<Rightarrow> nat \<Rightarrow> bytes" where
  "encDescriptionPage v depth = encObject depth
     [encMember depth ''outcome'' (esc (WireName_PolicyPageOutcome (dp_outcome v))),
      encMember depth ''revision'' (esc (dp_revision v)),
      encMember depth ''actions'' (encList encDescribedAction (dp_actions v) (depth + 1)),
      encMember depth ''next'' (esc (dp_next v)),
      encMember depth ''complete'' (encBool (dp_complete v))]"

abbreviation zero_DescriptionPage :: DescriptionPage where
  "zero_DescriptionPage \<equiv> \<lparr>dp_outcome = PolicyPageOutcomePage, dp_revision = [], dp_actions = [], dp_next = [], dp_complete = False\<rparr>"

definition decodeDescriptionPage :: "DescriptionPage reading" where
  "decodeDescriptionPage = decodeRecord
     [(''outcome'', into (reader_word ParsePolicyPageOutcome) (\<lambda>x v. v\<lparr>dp_outcome := x\<rparr>)),
      (''revision'', into reader_str (\<lambda>x v. v\<lparr>dp_revision := x\<rparr>)),
      (''actions'', into (decodeList decodeDescribedAction) (\<lambda>x v. v\<lparr>dp_actions := x\<rparr>)),
      (''next'', into reader_str (\<lambda>x v. v\<lparr>dp_next := x\<rparr>)),
      (''complete'', into reader_boolean (\<lambda>x v. v\<lparr>dp_complete := x\<rparr>))]
     [''outcome'', ''revision'', ''actions'', ''next'', ''complete'']
     zero_DescriptionPage"

definition typed_DescriptionPage :: "DescriptionPage \<Rightarrow> bool" where
  "typed_DescriptionPage v \<longleftrightarrow> validUTF8 (dp_revision v) \<and> list_all typed_DescribedAction (dp_actions v) \<and> validUTF8 (dp_next v)"

lemma typed_zero_DescriptionPage [simp]: "typed_DescriptionPage zero_DescriptionPage"
  by (simp add: typed_DescriptionPage_def validUTF8_none)

interpretation DescriptionPage_wire: codec decodeDescriptionPage encDescriptionPage typed_DescriptionPage 5
  by (rule codec_record [OF decodeDescriptionPage_def encDescriptionPage_def [unfolded append.simps]])
     (rule wire | (simp add: typed_DescriptionPage_def code_def validUTF8_none; fail))+

definition DecodeDescriptionPageAt :: "bytes \<Rightarrow> int \<Rightarrow> int \<Rightarrow> refusal + DescriptionPage \<times> nat" where
  "DecodeDescriptionPageAt = decodeAt decodeDescriptionPage"

definition EncodeDescriptionPageAt :: "DescriptionPage \<Rightarrow> int \<Rightarrow> refusal + bytes" where
  "EncodeDescriptionPageAt = encodeAt encDescriptionPage decodeDescriptionPage"

definition DecodeDescriptionPage :: "bytes \<Rightarrow> refusal + DescriptionPage" where
  "DecodeDescriptionPage = decodeAll decodeDescriptionPage"

subsection \<open>AccountDefault\<close>

definition encAccountDefault :: "PublicDefault \<Rightarrow> nat \<Rightarrow> bytes" where
  "encAccountDefault v depth = encObject depth
     ([encMember depth ''name'' (esc (pub_name v)),
      encMember depth ''action'' (esc (pub_action v)),
      encMember depth ''resource'' (esc (pub_resource v)),
      encMember depth ''every_resource'' (encBool (pub_everyResource v)),
      encMember depth ''on'' (encBool (pub_on v))] @
      (case pub_setBy v of None \<Rightarrow> [] | Some x \<Rightarrow> [encMember depth ''set_by'' (encSubject x (depth + 1))]) @
      (if pub_setAt v \<noteq> [] then [encMember depth ''set_at'' (esc (pub_setAt v))] else []))"

abbreviation zero_AccountDefault :: PublicDefault where
  "zero_AccountDefault \<equiv> \<lparr>pub_name = [], pub_action = [], pub_resource = [], pub_everyResource = False, pub_on = False, pub_setBy = None, pub_setAt = []\<rparr>"

definition decodeAccountDefault :: "PublicDefault reading" where
  "decodeAccountDefault = decodeRecord
     [(''name'', into reader_str (\<lambda>x v. v\<lparr>pub_name := x\<rparr>)),
      (''action'', into reader_str (\<lambda>x v. v\<lparr>pub_action := x\<rparr>)),
      (''resource'', into reader_str (\<lambda>x v. v\<lparr>pub_resource := x\<rparr>)),
      (''every_resource'', into reader_boolean (\<lambda>x v. v\<lparr>pub_everyResource := x\<rparr>)),
      (''on'', into reader_boolean (\<lambda>x v. v\<lparr>pub_on := x\<rparr>)),
      (''set_by'', into decodeSubject (\<lambda>x v. v\<lparr>pub_setBy := Some x\<rparr>)),
      (''set_at'', into reader_str (\<lambda>x v. v\<lparr>pub_setAt := x\<rparr>))]
     [''name'', ''action'', ''resource'', ''every_resource'', ''on'']
     zero_AccountDefault"

definition typed_AccountDefault :: "PublicDefault \<Rightarrow> bool" where
  "typed_AccountDefault v \<longleftrightarrow> validUTF8 (pub_name v) \<and> validUTF8 (pub_action v) \<and> validUTF8 (pub_resource v) \<and> pred_option typed_Subject (pub_setBy v) \<and> validUTF8 (pub_setAt v)"

interpretation AccountDefault_wire: codec decodeAccountDefault encAccountDefault typed_AccountDefault 2
  by (rule codec_record [OF decodeAccountDefault_def encAccountDefault_def [unfolded append.simps]])
     (rule wire | (simp add: typed_AccountDefault_def code_def validUTF8_none; fail))+

definition DecodeAccountDefaultAt :: "bytes \<Rightarrow> int \<Rightarrow> int \<Rightarrow> refusal + PublicDefault \<times> nat" where
  "DecodeAccountDefaultAt = decodeAt decodeAccountDefault"

definition EncodeAccountDefaultAt :: "PublicDefault \<Rightarrow> int \<Rightarrow> refusal + bytes" where
  "EncodeAccountDefaultAt = encodeAt encAccountDefault decodeAccountDefault"

definition DecodeAccountDefault :: "bytes \<Rightarrow> refusal + PublicDefault" where
  "DecodeAccountDefault = decodeAll decodeAccountDefault"

subsection \<open>DefaultPage\<close>

definition encDefaultPage :: "DefaultPage \<Rightarrow> nat \<Rightarrow> bytes" where
  "encDefaultPage v depth = encObject depth
     [encMember depth ''outcome'' (esc (WireName_PolicyPageOutcome (dfp_outcome v))),
      encMember depth ''revision'' (esc (dfp_revision v)),
      encMember depth ''defaults'' (encList encAccountDefault (dfp_defaults v) (depth + 1))]"

abbreviation zero_DefaultPage :: DefaultPage where
  "zero_DefaultPage \<equiv> \<lparr>dfp_outcome = PolicyPageOutcomePage, dfp_revision = [], dfp_defaults = []\<rparr>"

definition decodeDefaultPage :: "DefaultPage reading" where
  "decodeDefaultPage = decodeRecord
     [(''outcome'', into (reader_word ParsePolicyPageOutcome) (\<lambda>x v. v\<lparr>dfp_outcome := x\<rparr>)),
      (''revision'', into reader_str (\<lambda>x v. v\<lparr>dfp_revision := x\<rparr>)),
      (''defaults'', into (decodeList decodeAccountDefault) (\<lambda>x v. v\<lparr>dfp_defaults := x\<rparr>))]
     [''outcome'', ''revision'', ''defaults'']
     zero_DefaultPage"

definition typed_DefaultPage :: "DefaultPage \<Rightarrow> bool" where
  "typed_DefaultPage v \<longleftrightarrow> validUTF8 (dfp_revision v) \<and> list_all typed_AccountDefault (dfp_defaults v)"

lemma typed_zero_DefaultPage [simp]: "typed_DefaultPage zero_DefaultPage"
  by (simp add: typed_DefaultPage_def validUTF8_none)

interpretation DefaultPage_wire: codec decodeDefaultPage encDefaultPage typed_DefaultPage 4
  by (rule codec_record [OF decodeDefaultPage_def encDefaultPage_def [unfolded append.simps]])
     (rule wire | (simp add: typed_DefaultPage_def code_def validUTF8_none; fail))+

definition DecodeDefaultPageAt :: "bytes \<Rightarrow> int \<Rightarrow> int \<Rightarrow> refusal + DefaultPage \<times> nat" where
  "DecodeDefaultPageAt = decodeAt decodeDefaultPage"

definition EncodeDefaultPageAt :: "DefaultPage \<Rightarrow> int \<Rightarrow> refusal + bytes" where
  "EncodeDefaultPageAt = encodeAt encDefaultPage decodeDefaultPage"

definition DecodeDefaultPage :: "bytes \<Rightarrow> refusal + DefaultPage" where
  "DecodeDefaultPage = decodeAll decodeDefaultPage"

subsection \<open>DefaultEdit\<close>

definition encDefaultEdit :: "DefaultEdit \<Rightarrow> nat \<Rightarrow> bytes" where
  "encDefaultEdit v depth = encObject depth
     ([encMember depth ''outcome'' (esc (WireName_PolicyEditOutcome (dfe_outcome v))),
      encMember depth ''revision'' (esc (dfe_revision v))] @
      (case dfe_current v of None \<Rightarrow> [] | Some x \<Rightarrow> [encMember depth ''current'' (encAccountDefault x (depth + 1))]))"

abbreviation zero_DefaultEdit :: DefaultEdit where
  "zero_DefaultEdit \<equiv> \<lparr>dfe_outcome = PolicyEditOutcomeApplied, dfe_revision = [], dfe_current = None\<rparr>"

definition decodeDefaultEdit :: "DefaultEdit reading" where
  "decodeDefaultEdit = decodeRecord
     [(''outcome'', into (reader_word ParsePolicyEditOutcome) (\<lambda>x v. v\<lparr>dfe_outcome := x\<rparr>)),
      (''revision'', into reader_str (\<lambda>x v. v\<lparr>dfe_revision := x\<rparr>)),
      (''current'', into decodeAccountDefault (\<lambda>x v. v\<lparr>dfe_current := Some x\<rparr>))]
     [''outcome'', ''revision'']
     zero_DefaultEdit"

definition typed_DefaultEdit :: "DefaultEdit \<Rightarrow> bool" where
  "typed_DefaultEdit v \<longleftrightarrow> validUTF8 (dfe_revision v) \<and> pred_option typed_AccountDefault (dfe_current v)"

lemma typed_zero_DefaultEdit [simp]: "typed_DefaultEdit zero_DefaultEdit"
  by (simp add: typed_DefaultEdit_def validUTF8_none)

interpretation DefaultEdit_wire: codec decodeDefaultEdit encDefaultEdit typed_DefaultEdit 3
  by (rule codec_record [OF decodeDefaultEdit_def encDefaultEdit_def [unfolded append.simps]])
     (rule wire | (simp add: typed_DefaultEdit_def code_def validUTF8_none; fail))+

definition DecodeDefaultEditAt :: "bytes \<Rightarrow> int \<Rightarrow> int \<Rightarrow> refusal + DefaultEdit \<times> nat" where
  "DecodeDefaultEditAt = decodeAt decodeDefaultEdit"

definition EncodeDefaultEditAt :: "DefaultEdit \<Rightarrow> int \<Rightarrow> refusal + bytes" where
  "EncodeDefaultEditAt = encodeAt encDefaultEdit decodeDefaultEdit"

definition DecodeDefaultEdit :: "bytes \<Rightarrow> refusal + DefaultEdit" where
  "DecodeDefaultEdit = decodeAll decodeDefaultEdit"

subsection \<open>DecisionExplanation\<close>

definition encDecisionExplanation :: "DecisionExplanation \<Rightarrow> nat \<Rightarrow> bytes" where
  "encDecisionExplanation v depth = encObject depth
     ([encMember depth ''outcome'' (esc (WireName_DecisionOutcome (x_outcome v)))] @
      (if x_policyRevision v \<noteq> [] then [encMember depth ''policy_revision'' (esc (x_policyRevision v))] else []) @
      (case x_source v of None \<Rightarrow> [] | Some x \<Rightarrow> [encMember depth ''source'' (esc (WireName_DecisionSource x))]) @
      (if x_defaultName v \<noteq> [] then [encMember depth ''default_name'' (esc (x_defaultName v))] else []))"

abbreviation zero_DecisionExplanation :: DecisionExplanation where
  "zero_DecisionExplanation \<equiv> \<lparr>x_outcome = DecisionOutcomePermitted, x_policyRevision = [], x_source = None, x_defaultName = []\<rparr>"

definition decodeDecisionExplanation :: "DecisionExplanation reading" where
  "decodeDecisionExplanation = decodeRecord
     [(''outcome'', into (reader_word ParseDecisionOutcome) (\<lambda>x v. v\<lparr>x_outcome := x\<rparr>)),
      (''policy_revision'', into reader_str (\<lambda>x v. v\<lparr>x_policyRevision := x\<rparr>)),
      (''source'', into (reader_word ParseDecisionSource) (\<lambda>x v. v\<lparr>x_source := Some x\<rparr>)),
      (''default_name'', into reader_str (\<lambda>x v. v\<lparr>x_defaultName := x\<rparr>))]
     [''outcome'']
     zero_DecisionExplanation"

definition typed_DecisionExplanation :: "DecisionExplanation \<Rightarrow> bool" where
  "typed_DecisionExplanation v \<longleftrightarrow> validUTF8 (x_policyRevision v) \<and> validUTF8 (x_defaultName v)"

lemma typed_zero_DecisionExplanation [simp]: "typed_DecisionExplanation zero_DecisionExplanation"
  by (simp add: typed_DecisionExplanation_def validUTF8_none)

interpretation DecisionExplanation_wire: codec decodeDecisionExplanation encDecisionExplanation typed_DecisionExplanation 1
  by (rule codec_record [OF decodeDecisionExplanation_def encDecisionExplanation_def [unfolded append.simps]])
     (rule wire | (simp add: typed_DecisionExplanation_def code_def validUTF8_none; fail))+

definition DecodeDecisionExplanationAt :: "bytes \<Rightarrow> int \<Rightarrow> int \<Rightarrow> refusal + DecisionExplanation \<times> nat" where
  "DecodeDecisionExplanationAt = decodeAt decodeDecisionExplanation"

definition EncodeDecisionExplanationAt :: "DecisionExplanation \<Rightarrow> int \<Rightarrow> refusal + bytes" where
  "EncodeDecisionExplanationAt = encodeAt encDecisionExplanation decodeDecisionExplanation"

definition DecodeDecisionExplanation :: "bytes \<Rightarrow> refusal + DecisionExplanation" where
  "DecodeDecisionExplanation = decodeAll decodeDecisionExplanation"

end
