(* ===== verification/Selector_Messages.thy ===== *)
theory Selector_Messages
  imports Exact_Messages
begin

text \<open>
  The messages of the typed policy (\<open>rec.go\<close>, \<open>PermissionKey\<close> to \<open>LegacyOperationRequest\<close>), as in
  \<open>Exact_Messages\<close>. A concrete resource always carries a target: its decoder requires one.
\<close>

subsection \<open>PermissionKey\<close>

abbreviation zero_PermissionKey :: PermissionKey where
  "zero_PermissionKey \<equiv> \<lparr>k_action = [], k_resourceProfile = []\<rparr>"

definition decodePermissionKey :: "PermissionKey reading" where
  "decodePermissionKey = decodeRecord
     [(''action'', into reader_str (\<lambda>x v. v\<lparr>k_action := x\<rparr>)),
      (''resource_profile'', into reader_str (\<lambda>x v. v\<lparr>k_resourceProfile := x\<rparr>))]
     [''action'', ''resource_profile'']
     zero_PermissionKey"

definition typed_PermissionKey :: "PermissionKey \<Rightarrow> bool" where
  "typed_PermissionKey v \<longleftrightarrow> validUTF8 (k_action v) \<and> validUTF8 (k_resourceProfile v)"

lemma typed_zero_PermissionKey [simp]: "typed_PermissionKey zero_PermissionKey"
  by (simp add: typed_PermissionKey_def validUTF8_none)

interpretation PermissionKey_wire: codec decodePermissionKey encPermissionKey typed_PermissionKey 1
  by (rule codec_record [OF decodePermissionKey_def encPermissionKey_def [unfolded append.simps]])
     (rule wire | (simp add: typed_PermissionKey_def code_def validUTF8_none; fail))+

definition DecodePermissionKeyAt :: "bytes \<Rightarrow> int \<Rightarrow> int \<Rightarrow> refusal + PermissionKey \<times> nat" where
  "DecodePermissionKeyAt = decodeAt decodePermissionKey"

definition EncodePermissionKeyAt :: "PermissionKey \<Rightarrow> int \<Rightarrow> refusal + bytes" where
  "EncodePermissionKeyAt = encodeAt encPermissionKey decodePermissionKey"

definition DecodePermissionKey :: "bytes \<Rightarrow> refusal + PermissionKey" where
  "DecodePermissionKey = decodeAll decodePermissionKey"

subsection \<open>ResourceSelector\<close>

abbreviation zero_ResourceSelector :: ResourceSelector where
  "zero_ResourceSelector \<equiv> \<lparr>s_kind = ResourceSelectorKindOne, s_target = None\<rparr>"

definition decodeResourceSelector :: "ResourceSelector reading" where
  "decodeResourceSelector = decodeRecord
     [(''kind'', into (reader_word ParseResourceSelectorKind) (\<lambda>x v. v\<lparr>s_kind := x\<rparr>)),
      (''target'', into reader_binary (\<lambda>x v. v\<lparr>s_target := Some x\<rparr>))]
     [''kind'']
     zero_ResourceSelector"

definition typed_ResourceSelector :: "ResourceSelector \<Rightarrow> bool" where
  "typed_ResourceSelector v \<longleftrightarrow> True"

lemma typed_zero_ResourceSelector [simp]: "typed_ResourceSelector zero_ResourceSelector"
  by (simp add: typed_ResourceSelector_def validUTF8_none)

interpretation ResourceSelector_wire: codec decodeResourceSelector encResourceSelector typed_ResourceSelector 1
  by (rule codec_record [OF decodeResourceSelector_def encResourceSelector_def [unfolded append.simps]])
     (rule wire | (simp add: typed_ResourceSelector_def code_def validUTF8_none; fail))+

definition DecodeResourceSelectorAt :: "bytes \<Rightarrow> int \<Rightarrow> int \<Rightarrow> refusal + ResourceSelector \<times> nat" where
  "DecodeResourceSelectorAt = decodeAt decodeResourceSelector"

definition EncodeResourceSelectorAt :: "ResourceSelector \<Rightarrow> int \<Rightarrow> refusal + bytes" where
  "EncodeResourceSelectorAt = encodeAt encResourceSelector decodeResourceSelector"

definition DecodeResourceSelector :: "bytes \<Rightarrow> refusal + ResourceSelector" where
  "DecodeResourceSelector = decodeAll decodeResourceSelector"

subsection \<open>PermissionSelection\<close>

abbreviation zero_PermissionSelection :: PermissionSelection where
  "zero_PermissionSelection \<equiv> \<lparr>ps_permission = zero_PermissionKey, ps_selector = zero_ResourceSelector\<rparr>"

definition decodePermissionSelection :: "PermissionSelection reading" where
  "decodePermissionSelection = decodeRecord
     [(''permission'', into decodePermissionKey (\<lambda>x v. v\<lparr>ps_permission := x\<rparr>)),
      (''selector'', into decodeResourceSelector (\<lambda>x v. v\<lparr>ps_selector := x\<rparr>))]
     [''permission'', ''selector'']
     zero_PermissionSelection"

definition typed_PermissionSelection :: "PermissionSelection \<Rightarrow> bool" where
  "typed_PermissionSelection v \<longleftrightarrow> typed_PermissionKey (ps_permission v) \<and> typed_ResourceSelector (ps_selector v)"

lemma typed_zero_PermissionSelection [simp]: "typed_PermissionSelection zero_PermissionSelection"
  by (simp add: typed_PermissionSelection_def validUTF8_none)

interpretation PermissionSelection_wire: codec decodePermissionSelection encPermissionSelection typed_PermissionSelection 2
  by (rule codec_record [OF decodePermissionSelection_def encPermissionSelection_def [unfolded append.simps]])
     (rule wire | (simp add: typed_PermissionSelection_def code_def validUTF8_none; fail))+

definition DecodePermissionSelectionAt :: "bytes \<Rightarrow> int \<Rightarrow> int \<Rightarrow> refusal + PermissionSelection \<times> nat" where
  "DecodePermissionSelectionAt = decodeAt decodePermissionSelection"

definition EncodePermissionSelectionAt :: "PermissionSelection \<Rightarrow> int \<Rightarrow> refusal + bytes" where
  "EncodePermissionSelectionAt = encodeAt encPermissionSelection decodePermissionSelection"

definition DecodePermissionSelection :: "bytes \<Rightarrow> refusal + PermissionSelection" where
  "DecodePermissionSelection = decodeAll decodePermissionSelection"

subsection \<open>ConcreteResource\<close>

abbreviation zero_ConcreteResource :: ConcreteResource where
  "zero_ConcreteResource \<equiv> \<lparr>cr_permission = zero_PermissionKey, cr_target = None\<rparr>"

definition decodeConcreteResource :: "ConcreteResource reading" where
  "decodeConcreteResource = decodeRecord
     [(''permission'', into decodePermissionKey (\<lambda>x v. v\<lparr>cr_permission := x\<rparr>)),
      (''target'', into reader_binary (\<lambda>x v. v\<lparr>cr_target := Some x\<rparr>))]
     [''permission'', ''target'']
     zero_ConcreteResource"

definition typed_ConcreteResource :: "ConcreteResource \<Rightarrow> bool" where
  "typed_ConcreteResource v \<longleftrightarrow> typed_PermissionKey (cr_permission v) \<and> cr_target v \<noteq> None"

lemma yields_ConcreteResource: "yields typed_ConcreteResource decodeConcreteResource"
proof -
  let ?fl = "[(''permission'', into decodePermissionKey (\<lambda>x v. v\<lparr>cr_permission := x\<rparr>)),
      (''target'', into reader_binary (\<lambda>x v. v\<lparr>cr_target := Some x\<rparr>))] :: ConcreteResource fields"
  let ?P = "\<lambda>s :: ConcreteResource \<times> bytes list. typed_PermissionKey (cr_permission (fst s)) \<and> (''target'' \<in> set (snd s) \<longrightarrow> cr_target (fst s) \<noteq> None)"
  have key: "typed_PermissionKey k" if "decodePermissionKey r = Inr (k, r1)" for r k r1
    by (rule yieldsD [OF PermissionKey_wire.types that])
  have step: "yields ?P (memberStep ?fl s)" if "?P s" for s
    using that by (auto intro!: yieldsI dest!: key
      simp: memberStep_def into_def split: sum.split_asm prod.split_asm option.split_asm if_split_asm)
  have "yields ?P (container (CHR ''{'') (CHR ''}'') (memberStep ?fl) (zero_ConcreteResource, []))"
    by (rule yields_container [OF step]) simp_all
  then show ?thesis
    unfolding decodeConcreteResource_def
    by (intro yieldsI) (auto simp: decodeRecord_def typed_ConcreteResource_def split: sum.split_asm prod.split_asm if_split_asm dest: yieldsD)
qed

interpretation ConcreteResource_wire: codec decodeConcreteResource encConcreteResource typed_ConcreteResource 2
proof
  show "typed_ConcreteResource v \<Longrightarrow> codes 2 decodeConcreteResource (encConcreteResource v d) v" for v d
    unfolding decodeConcreteResource_def encConcreteResource_def numeral_2_eq_2 One_nat_def
    by (rule codes_object wire | (auto simp: typed_ConcreteResource_def code_def; fail))+
  show "tame decodeConcreteResource" and "skips decodeConcreteResource" and "speaks decodeConcreteResource"
    unfolding decodeConcreteResource_def by (rule ends_object skips_object speaks_object wire)+
qed (rule yields_ConcreteResource)

definition DecodeConcreteResourceAt :: "bytes \<Rightarrow> int \<Rightarrow> int \<Rightarrow> refusal + ConcreteResource \<times> nat" where
  "DecodeConcreteResourceAt = decodeAt decodeConcreteResource"

definition EncodeConcreteResourceAt :: "ConcreteResource \<Rightarrow> int \<Rightarrow> refusal + bytes" where
  "EncodeConcreteResourceAt = encodeAt encConcreteResource decodeConcreteResource"

definition DecodeConcreteResource :: "bytes \<Rightarrow> refusal + ConcreteResource" where
  "DecodeConcreteResource = decodeAll decodeConcreteResource"

subsection \<open>CheckBatchRequest\<close>

abbreviation zero_CheckBatchRequest :: CheckBatchRequest where
  "zero_CheckBatchRequest \<equiv> \<lparr>cb_expectedRevision = [], cb_collectionAdmission = None, cb_resources = []\<rparr>"

definition decodeCheckBatchRequest :: "CheckBatchRequest reading" where
  "decodeCheckBatchRequest = decodeRecord
     [(''expected_revision'', into reader_str (\<lambda>x v. v\<lparr>cb_expectedRevision := x\<rparr>)),
      (''collection_admission'', into decodePermissionKey (\<lambda>x v. v\<lparr>cb_collectionAdmission := Some x\<rparr>)),
      (''resources'', into (decodeList decodeConcreteResource) (\<lambda>x v. v\<lparr>cb_resources := x\<rparr>))]
     [''resources'']
     zero_CheckBatchRequest"

definition typed_CheckBatchRequest :: "CheckBatchRequest \<Rightarrow> bool" where
  "typed_CheckBatchRequest v \<longleftrightarrow> validUTF8 (cb_expectedRevision v) \<and> pred_option typed_PermissionKey (cb_collectionAdmission v) \<and> list_all typed_ConcreteResource (cb_resources v)"

lemma typed_zero_CheckBatchRequest [simp]: "typed_CheckBatchRequest zero_CheckBatchRequest"
  by (simp add: typed_CheckBatchRequest_def validUTF8_none)

interpretation CheckBatchRequest_wire: codec decodeCheckBatchRequest encCheckBatchRequest typed_CheckBatchRequest 4
  by (rule codec_record [OF decodeCheckBatchRequest_def encCheckBatchRequest_def [unfolded append.simps]])
     (rule wire | (simp add: typed_CheckBatchRequest_def code_def validUTF8_none; fail))+

definition DecodeCheckBatchRequestAt :: "bytes \<Rightarrow> int \<Rightarrow> int \<Rightarrow> refusal + CheckBatchRequest \<times> nat" where
  "DecodeCheckBatchRequestAt = decodeAt decodeCheckBatchRequest"

definition EncodeCheckBatchRequestAt :: "CheckBatchRequest \<Rightarrow> int \<Rightarrow> refusal + bytes" where
  "EncodeCheckBatchRequestAt = encodeAt encCheckBatchRequest decodeCheckBatchRequest"

definition DecodeCheckBatchRequest :: "bytes \<Rightarrow> refusal + CheckBatchRequest" where
  "DecodeCheckBatchRequest = decodeAll decodeCheckBatchRequest"

subsection \<open>BatchDecision\<close>

definition encBatchDecision :: "BatchDecision \<Rightarrow> nat \<Rightarrow> bytes" where
  "encBatchDecision v depth = encObject depth
     ([encMember depth ''outcome'' (esc (WireName_BatchCheckOutcome (bd_outcome v))),
      encMember depth ''revision'' (esc (bd_revision v))] @
      (case bd_collectionOutcome v of None \<Rightarrow> [] | Some x \<Rightarrow> [encMember depth ''collection_outcome'' (esc (WireName_DecisionOutcome x))]) @
      [encMember depth ''outcomes'' (enumStrs WireName_DecisionOutcome (bd_outcomes v) (depth + 1))])"

abbreviation zero_BatchDecision :: BatchDecision where
  "zero_BatchDecision \<equiv> \<lparr>bd_outcome = BatchCheckOutcomeChecked, bd_revision = [], bd_collectionOutcome = None, bd_outcomes = []\<rparr>"

definition decodeBatchDecision :: "BatchDecision reading" where
  "decodeBatchDecision = decodeRecord
     [(''outcome'', into (reader_word ParseBatchCheckOutcome) (\<lambda>x v. v\<lparr>bd_outcome := x\<rparr>)),
      (''revision'', into reader_str (\<lambda>x v. v\<lparr>bd_revision := x\<rparr>)),
      (''collection_outcome'', into (reader_word ParseDecisionOutcome) (\<lambda>x v. v\<lparr>bd_collectionOutcome := Some x\<rparr>)),
      (''outcomes'', into (reader_words ParseDecisionOutcome) (\<lambda>x v. v\<lparr>bd_outcomes := x\<rparr>))]
     [''outcome'', ''revision'', ''outcomes'']
     zero_BatchDecision"

definition typed_BatchDecision :: "BatchDecision \<Rightarrow> bool" where
  "typed_BatchDecision v \<longleftrightarrow> validUTF8 (bd_revision v)"

lemma typed_zero_BatchDecision [simp]: "typed_BatchDecision zero_BatchDecision"
  by (simp add: typed_BatchDecision_def validUTF8_none)

interpretation BatchDecision_wire: codec decodeBatchDecision encBatchDecision typed_BatchDecision 2
  by (rule codec_record [OF decodeBatchDecision_def encBatchDecision_def [unfolded append.simps]])
     (rule wire | (simp add: typed_BatchDecision_def code_def validUTF8_none; fail))+

definition DecodeBatchDecisionAt :: "bytes \<Rightarrow> int \<Rightarrow> int \<Rightarrow> refusal + BatchDecision \<times> nat" where
  "DecodeBatchDecisionAt = decodeAt decodeBatchDecision"

definition EncodeBatchDecisionAt :: "BatchDecision \<Rightarrow> int \<Rightarrow> refusal + bytes" where
  "EncodeBatchDecisionAt = encodeAt encBatchDecision decodeBatchDecision"

definition DecodeBatchDecision :: "bytes \<Rightarrow> refusal + BatchDecision" where
  "DecodeBatchDecision = decodeAll decodeBatchDecision"

subsection \<open>SelectorPermissionDefinition\<close>

abbreviation zero_SelectorPermissionDefinition :: SelectorPermissionDefinition where
  "zero_SelectorPermissionDefinition \<equiv> \<lparr>sd_definition = zero_PermissionDefinition, sd_label = [], sd_supportedSelectors = [], sd_firstUseSelectors = [], sd_collection = [], sd_allEffect = [], sd_requestType = []\<rparr>"

definition decodeSelectorPermissionDefinition :: "SelectorPermissionDefinition reading" where
  "decodeSelectorPermissionDefinition = decodeRecord
     [(''definition'', into decodePermissionDefinition (\<lambda>x v. v\<lparr>sd_definition := x\<rparr>)),
      (''label'', into reader_str (\<lambda>x v. v\<lparr>sd_label := x\<rparr>)),
      (''supported_selectors'', into (reader_words ParseResourceSelectorKind) (\<lambda>x v. v\<lparr>sd_supportedSelectors := x\<rparr>)),
      (''first_use_selectors'', into (reader_words ParseResourceSelectorKind) (\<lambda>x v. v\<lparr>sd_firstUseSelectors := x\<rparr>)),
      (''collection'', into reader_str (\<lambda>x v. v\<lparr>sd_collection := x\<rparr>)),
      (''all_effect'', into reader_str (\<lambda>x v. v\<lparr>sd_allEffect := x\<rparr>)),
      (''request_type'', into reader_str (\<lambda>x v. v\<lparr>sd_requestType := x\<rparr>))]
     [''definition'', ''label'', ''supported_selectors'', ''first_use_selectors'', ''collection'', ''all_effect'', ''request_type'']
     zero_SelectorPermissionDefinition"

definition typed_SelectorPermissionDefinition :: "SelectorPermissionDefinition \<Rightarrow> bool" where
  "typed_SelectorPermissionDefinition v \<longleftrightarrow> typed_PermissionDefinition (sd_definition v) \<and> validUTF8 (sd_label v) \<and> validUTF8 (sd_collection v) \<and> validUTF8 (sd_allEffect v) \<and> validUTF8 (sd_requestType v)"

interpretation SelectorPermissionDefinition_wire: codec decodeSelectorPermissionDefinition encSelectorPermissionDefinition typed_SelectorPermissionDefinition 3
  by (rule codec_record [OF decodeSelectorPermissionDefinition_def encSelectorPermissionDefinition_def [unfolded append.simps]])
     (rule wire | (simp add: typed_SelectorPermissionDefinition_def code_def validUTF8_none; fail))+

definition DecodeSelectorPermissionDefinitionAt :: "bytes \<Rightarrow> int \<Rightarrow> int \<Rightarrow> refusal + SelectorPermissionDefinition \<times> nat" where
  "DecodeSelectorPermissionDefinitionAt = decodeAt decodeSelectorPermissionDefinition"

definition EncodeSelectorPermissionDefinitionAt :: "SelectorPermissionDefinition \<Rightarrow> int \<Rightarrow> refusal + bytes" where
  "EncodeSelectorPermissionDefinitionAt = encodeAt encSelectorPermissionDefinition decodeSelectorPermissionDefinition"

definition DecodeSelectorPermissionDefinition :: "bytes \<Rightarrow> refusal + SelectorPermissionDefinition" where
  "DecodeSelectorPermissionDefinition = decodeAll decodeSelectorPermissionDefinition"

subsection \<open>PermissionDefinitionPage\<close>

abbreviation zero_PermissionDefinitionPage :: PermissionDefinitionPage where
  "zero_PermissionDefinitionPage \<equiv> \<lparr>pdp_outcome = PolicyPageOutcomePage, pdp_revision = [], pdp_definitions = [], pdp_next = [], pdp_complete = False\<rparr>"

definition decodePermissionDefinitionPage :: "PermissionDefinitionPage reading" where
  "decodePermissionDefinitionPage = decodeRecord
     [(''outcome'', into (reader_word ParsePolicyPageOutcome) (\<lambda>x v. v\<lparr>pdp_outcome := x\<rparr>)),
      (''revision'', into reader_str (\<lambda>x v. v\<lparr>pdp_revision := x\<rparr>)),
      (''definitions'', into (decodeList decodeSelectorPermissionDefinition) (\<lambda>x v. v\<lparr>pdp_definitions := x\<rparr>)),
      (''next'', into reader_str (\<lambda>x v. v\<lparr>pdp_next := x\<rparr>)),
      (''complete'', into reader_boolean (\<lambda>x v. v\<lparr>pdp_complete := x\<rparr>))]
     [''outcome'', ''revision'', ''definitions'', ''next'', ''complete'']
     zero_PermissionDefinitionPage"

definition typed_PermissionDefinitionPage :: "PermissionDefinitionPage \<Rightarrow> bool" where
  "typed_PermissionDefinitionPage v \<longleftrightarrow> validUTF8 (pdp_revision v) \<and> list_all typed_SelectorPermissionDefinition (pdp_definitions v) \<and> validUTF8 (pdp_next v)"

lemma typed_zero_PermissionDefinitionPage [simp]: "typed_PermissionDefinitionPage zero_PermissionDefinitionPage"
  by (simp add: typed_PermissionDefinitionPage_def validUTF8_none)

interpretation PermissionDefinitionPage_wire: codec decodePermissionDefinitionPage encPermissionDefinitionPage typed_PermissionDefinitionPage 5
  by (rule codec_record [OF decodePermissionDefinitionPage_def encPermissionDefinitionPage_def [unfolded append.simps]])
     (rule wire | (simp add: typed_PermissionDefinitionPage_def code_def validUTF8_none; fail))+

definition DecodePermissionDefinitionPageAt :: "bytes \<Rightarrow> int \<Rightarrow> int \<Rightarrow> refusal + PermissionDefinitionPage \<times> nat" where
  "DecodePermissionDefinitionPageAt = decodeAt decodePermissionDefinitionPage"

definition EncodePermissionDefinitionPageAt :: "PermissionDefinitionPage \<Rightarrow> int \<Rightarrow> refusal + bytes" where
  "EncodePermissionDefinitionPageAt = encodeAt encPermissionDefinitionPage decodePermissionDefinitionPage"

definition DecodePermissionDefinitionPage :: "bytes \<Rightarrow> refusal + PermissionDefinitionPage" where
  "DecodePermissionDefinitionPage = decodeAll decodePermissionDefinitionPage"

subsection \<open>PermissionBundleDefinition\<close>

abbreviation zero_PermissionBundleDefinition :: PermissionBundleDefinition where
  "zero_PermissionBundleDefinition \<equiv> \<lparr>b_bundleRef = [], b_ownerContract = [], b_label = [], b_targetType = [], b_supportedSelectors = [], b_members = [], b_disclosure = [], b_definitionDigest = []\<rparr>"

definition decodePermissionBundleDefinition :: "PermissionBundleDefinition reading" where
  "decodePermissionBundleDefinition = decodeRecord
     [(''bundle_ref'', into reader_str (\<lambda>x v. v\<lparr>b_bundleRef := x\<rparr>)),
      (''owner_contract'', into reader_str (\<lambda>x v. v\<lparr>b_ownerContract := x\<rparr>)),
      (''label'', into reader_str (\<lambda>x v. v\<lparr>b_label := x\<rparr>)),
      (''target_type'', into reader_str (\<lambda>x v. v\<lparr>b_targetType := x\<rparr>)),
      (''supported_selectors'', into (reader_words ParseResourceSelectorKind) (\<lambda>x v. v\<lparr>b_supportedSelectors := x\<rparr>)),
      (''members'', into (decodeList decodePermissionKey) (\<lambda>x v. v\<lparr>b_members := x\<rparr>)),
      (''disclosure'', into reader_str (\<lambda>x v. v\<lparr>b_disclosure := x\<rparr>)),
      (''definition_digest'', into reader_str (\<lambda>x v. v\<lparr>b_definitionDigest := x\<rparr>))]
     [''bundle_ref'', ''owner_contract'', ''label'', ''target_type'', ''supported_selectors'', ''members'', ''disclosure'', ''definition_digest'']
     zero_PermissionBundleDefinition"

definition typed_PermissionBundleDefinition :: "PermissionBundleDefinition \<Rightarrow> bool" where
  "typed_PermissionBundleDefinition v \<longleftrightarrow> validUTF8 (b_bundleRef v) \<and> validUTF8 (b_ownerContract v) \<and> validUTF8 (b_label v) \<and> validUTF8 (b_targetType v) \<and> list_all typed_PermissionKey (b_members v) \<and> validUTF8 (b_disclosure v) \<and> validUTF8 (b_definitionDigest v)"

interpretation PermissionBundleDefinition_wire: codec decodePermissionBundleDefinition encPermissionBundleDefinition typed_PermissionBundleDefinition 3
  by (rule codec_record [OF decodePermissionBundleDefinition_def encPermissionBundleDefinition_def [unfolded append.simps]])
     (rule wire | (simp add: typed_PermissionBundleDefinition_def code_def validUTF8_none; fail))+

definition DecodePermissionBundleDefinitionAt :: "bytes \<Rightarrow> int \<Rightarrow> int \<Rightarrow> refusal + PermissionBundleDefinition \<times> nat" where
  "DecodePermissionBundleDefinitionAt = decodeAt decodePermissionBundleDefinition"

definition EncodePermissionBundleDefinitionAt :: "PermissionBundleDefinition \<Rightarrow> int \<Rightarrow> refusal + bytes" where
  "EncodePermissionBundleDefinitionAt = encodeAt encPermissionBundleDefinition decodePermissionBundleDefinition"

definition DecodePermissionBundleDefinition :: "bytes \<Rightarrow> refusal + PermissionBundleDefinition" where
  "DecodePermissionBundleDefinition = decodeAll decodePermissionBundleDefinition"

subsection \<open>PermissionBundlePage\<close>

abbreviation zero_PermissionBundlePage :: PermissionBundlePage where
  "zero_PermissionBundlePage \<equiv> \<lparr>pbp_outcome = PolicyPageOutcomePage, pbp_revision = [], pbp_bundles = [], pbp_next = [], pbp_complete = False\<rparr>"

definition decodePermissionBundlePage :: "PermissionBundlePage reading" where
  "decodePermissionBundlePage = decodeRecord
     [(''outcome'', into (reader_word ParsePolicyPageOutcome) (\<lambda>x v. v\<lparr>pbp_outcome := x\<rparr>)),
      (''revision'', into reader_str (\<lambda>x v. v\<lparr>pbp_revision := x\<rparr>)),
      (''bundles'', into (decodeList decodePermissionBundleDefinition) (\<lambda>x v. v\<lparr>pbp_bundles := x\<rparr>)),
      (''next'', into reader_str (\<lambda>x v. v\<lparr>pbp_next := x\<rparr>)),
      (''complete'', into reader_boolean (\<lambda>x v. v\<lparr>pbp_complete := x\<rparr>))]
     [''outcome'', ''revision'', ''bundles'', ''next'', ''complete'']
     zero_PermissionBundlePage"

definition typed_PermissionBundlePage :: "PermissionBundlePage \<Rightarrow> bool" where
  "typed_PermissionBundlePage v \<longleftrightarrow> validUTF8 (pbp_revision v) \<and> list_all typed_PermissionBundleDefinition (pbp_bundles v) \<and> validUTF8 (pbp_next v)"

lemma typed_zero_PermissionBundlePage [simp]: "typed_PermissionBundlePage zero_PermissionBundlePage"
  by (simp add: typed_PermissionBundlePage_def validUTF8_none)

interpretation PermissionBundlePage_wire: codec decodePermissionBundlePage encPermissionBundlePage typed_PermissionBundlePage 5
  by (rule codec_record [OF decodePermissionBundlePage_def encPermissionBundlePage_def [unfolded append.simps]])
     (rule wire | (simp add: typed_PermissionBundlePage_def code_def validUTF8_none; fail))+

definition DecodePermissionBundlePageAt :: "bytes \<Rightarrow> int \<Rightarrow> int \<Rightarrow> refusal + PermissionBundlePage \<times> nat" where
  "DecodePermissionBundlePageAt = decodeAt decodePermissionBundlePage"

definition EncodePermissionBundlePageAt :: "PermissionBundlePage \<Rightarrow> int \<Rightarrow> refusal + bytes" where
  "EncodePermissionBundlePageAt = encodeAt encPermissionBundlePage decodePermissionBundlePage"

definition DecodePermissionBundlePage :: "bytes \<Rightarrow> refusal + PermissionBundlePage" where
  "DecodePermissionBundlePage = decodeAll decodePermissionBundlePage"

subsection \<open>BundleExpansion\<close>

abbreviation zero_BundleExpansion :: BundleExpansion where
  "zero_BundleExpansion \<equiv> \<lparr>be_bundleRef = [], be_definitionDigest = [], be_selector = zero_ResourceSelector, be_selections = []\<rparr>"

definition decodeBundleExpansion :: "BundleExpansion reading" where
  "decodeBundleExpansion = decodeRecord
     [(''bundle_ref'', into reader_str (\<lambda>x v. v\<lparr>be_bundleRef := x\<rparr>)),
      (''definition_digest'', into reader_str (\<lambda>x v. v\<lparr>be_definitionDigest := x\<rparr>)),
      (''selector'', into decodeResourceSelector (\<lambda>x v. v\<lparr>be_selector := x\<rparr>)),
      (''selections'', into (decodeList decodePermissionSelection) (\<lambda>x v. v\<lparr>be_selections := x\<rparr>))]
     [''bundle_ref'', ''definition_digest'', ''selector'', ''selections'']
     zero_BundleExpansion"

definition typed_BundleExpansion :: "BundleExpansion \<Rightarrow> bool" where
  "typed_BundleExpansion v \<longleftrightarrow> validUTF8 (be_bundleRef v) \<and> validUTF8 (be_definitionDigest v) \<and> typed_ResourceSelector (be_selector v) \<and> list_all typed_PermissionSelection (be_selections v)"

lemma typed_zero_BundleExpansion [simp]: "typed_BundleExpansion zero_BundleExpansion"
  by (simp add: typed_BundleExpansion_def validUTF8_none)

interpretation BundleExpansion_wire: codec decodeBundleExpansion encBundleExpansion typed_BundleExpansion 4
  by (rule codec_record [OF decodeBundleExpansion_def encBundleExpansion_def [unfolded append.simps]])
     (rule wire | (simp add: typed_BundleExpansion_def code_def validUTF8_none; fail))+

definition DecodeBundleExpansionAt :: "bytes \<Rightarrow> int \<Rightarrow> int \<Rightarrow> refusal + BundleExpansion \<times> nat" where
  "DecodeBundleExpansionAt = decodeAt decodeBundleExpansion"

definition EncodeBundleExpansionAt :: "BundleExpansion \<Rightarrow> int \<Rightarrow> refusal + bytes" where
  "EncodeBundleExpansionAt = encodeAt encBundleExpansion decodeBundleExpansion"

definition DecodeBundleExpansion :: "bytes \<Rightarrow> refusal + BundleExpansion" where
  "DecodeBundleExpansion = decodeAll decodeBundleExpansion"

subsection \<open>PermissionEffect\<close>

definition encPermissionEffect :: "PermissionEffect \<Rightarrow> nat \<Rightarrow> bytes" where
  "encPermissionEffect v depth = encObject depth
     ([encMember depth ''subject'' (encSubject (ef_subject v) (depth + 1)),
      encMember depth ''selections'' (encList encPermissionSelection (ef_selections v) (depth + 1))] @
      (case ef_bundle v of None \<Rightarrow> [] | Some x \<Rightarrow> [encMember depth ''bundle'' (encBundleExpansion x (depth + 1))]))"

abbreviation zero_PermissionEffect :: PermissionEffect where
  "zero_PermissionEffect \<equiv> \<lparr>ef_subject = zero_Subject, ef_selections = [], ef_bundle = None\<rparr>"

definition decodePermissionEffect :: "PermissionEffect reading" where
  "decodePermissionEffect = decodeRecord
     [(''subject'', into decodeSubject (\<lambda>x v. v\<lparr>ef_subject := x\<rparr>)),
      (''selections'', into (decodeList decodePermissionSelection) (\<lambda>x v. v\<lparr>ef_selections := x\<rparr>)),
      (''bundle'', into decodeBundleExpansion (\<lambda>x v. v\<lparr>ef_bundle := Some x\<rparr>))]
     [''subject'', ''selections'']
     zero_PermissionEffect"

definition typed_PermissionEffect :: "PermissionEffect \<Rightarrow> bool" where
  "typed_PermissionEffect v \<longleftrightarrow> typed_Subject (ef_subject v) \<and> list_all typed_PermissionSelection (ef_selections v) \<and> pred_option typed_BundleExpansion (ef_bundle v)"

interpretation PermissionEffect_wire: codec decodePermissionEffect encPermissionEffect typed_PermissionEffect 5
  by (rule codec_record [OF decodePermissionEffect_def encPermissionEffect_def [unfolded append.simps]])
     (rule wire | (simp add: typed_PermissionEffect_def code_def validUTF8_none; fail))+

definition DecodePermissionEffectAt :: "bytes \<Rightarrow> int \<Rightarrow> int \<Rightarrow> refusal + PermissionEffect \<times> nat" where
  "DecodePermissionEffectAt = decodeAt decodePermissionEffect"

definition EncodePermissionEffectAt :: "PermissionEffect \<Rightarrow> int \<Rightarrow> refusal + bytes" where
  "EncodePermissionEffectAt = encodeAt encPermissionEffect decodePermissionEffect"

definition DecodePermissionEffect :: "bytes \<Rightarrow> refusal + PermissionEffect" where
  "DecodePermissionEffect = decodeAll decodePermissionEffect"

subsection \<open>SelectorRule\<close>

abbreviation zero_SelectorRule :: SelectorRule where
  "zero_SelectorRule \<equiv> \<lparr>sr_subject = zero_Subject, sr_selection = zero_PermissionSelection, sr_permit = False\<rparr>"

definition decodeSelectorRule :: "SelectorRule reading" where
  "decodeSelectorRule = decodeRecord
     [(''subject'', into decodeSubject (\<lambda>x v. v\<lparr>sr_subject := x\<rparr>)),
      (''selection'', into decodePermissionSelection (\<lambda>x v. v\<lparr>sr_selection := x\<rparr>)),
      (''permit'', into reader_boolean (\<lambda>x v. v\<lparr>sr_permit := x\<rparr>))]
     [''subject'', ''selection'', ''permit'']
     zero_SelectorRule"

definition typed_SelectorRule :: "SelectorRule \<Rightarrow> bool" where
  "typed_SelectorRule v \<longleftrightarrow> typed_Subject (sr_subject v) \<and> typed_PermissionSelection (sr_selection v)"

lemma typed_zero_SelectorRule [simp]: "typed_SelectorRule zero_SelectorRule"
  by (simp add: typed_SelectorRule_def validUTF8_none)

interpretation SelectorRule_wire: codec decodeSelectorRule encSelectorRule typed_SelectorRule 3
  by (rule codec_record [OF decodeSelectorRule_def encSelectorRule_def [unfolded append.simps]])
     (rule wire | (simp add: typed_SelectorRule_def code_def validUTF8_none; fail))+

definition DecodeSelectorRuleAt :: "bytes \<Rightarrow> int \<Rightarrow> int \<Rightarrow> refusal + SelectorRule \<times> nat" where
  "DecodeSelectorRuleAt = decodeAt decodeSelectorRule"

definition EncodeSelectorRuleAt :: "SelectorRule \<Rightarrow> int \<Rightarrow> refusal + bytes" where
  "EncodeSelectorRuleAt = encodeAt encSelectorRule decodeSelectorRule"

definition DecodeSelectorRule :: "bytes \<Rightarrow> refusal + SelectorRule" where
  "DecodeSelectorRule = decodeAll decodeSelectorRule"

subsection \<open>BundleOrigin\<close>

abbreviation zero_BundleOrigin :: BundleOrigin where
  "zero_BundleOrigin \<equiv> \<lparr>bo_id = [], bo_expansion = zero_BundleExpansion\<rparr>"

definition decodeBundleOrigin :: "BundleOrigin reading" where
  "decodeBundleOrigin = decodeRecord
     [(''id'', into reader_str (\<lambda>x v. v\<lparr>bo_id := x\<rparr>)),
      (''expansion'', into decodeBundleExpansion (\<lambda>x v. v\<lparr>bo_expansion := x\<rparr>))]
     [''id'', ''expansion'']
     zero_BundleOrigin"

definition typed_BundleOrigin :: "BundleOrigin \<Rightarrow> bool" where
  "typed_BundleOrigin v \<longleftrightarrow> validUTF8 (bo_id v) \<and> typed_BundleExpansion (bo_expansion v)"

interpretation BundleOrigin_wire: codec decodeBundleOrigin encBundleOrigin typed_BundleOrigin 5
  by (rule codec_record [OF decodeBundleOrigin_def encBundleOrigin_def [unfolded append.simps]])
     (rule wire | (simp add: typed_BundleOrigin_def code_def validUTF8_none; fail))+

definition DecodeBundleOriginAt :: "bytes \<Rightarrow> int \<Rightarrow> int \<Rightarrow> refusal + BundleOrigin \<times> nat" where
  "DecodeBundleOriginAt = decodeAt decodeBundleOrigin"

definition EncodeBundleOriginAt :: "BundleOrigin \<Rightarrow> int \<Rightarrow> refusal + bytes" where
  "EncodeBundleOriginAt = encodeAt encBundleOrigin decodeBundleOrigin"

definition DecodeBundleOrigin :: "bytes \<Rightarrow> refusal + BundleOrigin" where
  "DecodeBundleOrigin = decodeAll decodeBundleOrigin"

subsection \<open>SelectorRuleRecord\<close>

abbreviation zero_SelectorRuleRecord :: SelectorRuleRecord where
  "zero_SelectorRuleRecord \<equiv> \<lparr>srr_rule = zero_SelectorRule, srr_setBy = zero_Subject, srr_setAt = [], srr_why = [], srr_expires = [], srr_bundleOrigin = None\<rparr>"

definition decodeSelectorRuleRecord :: "SelectorRuleRecord reading" where
  "decodeSelectorRuleRecord = decodeRecord
     [(''rule'', into decodeSelectorRule (\<lambda>x v. v\<lparr>srr_rule := x\<rparr>)),
      (''set_by'', into decodeSubject (\<lambda>x v. v\<lparr>srr_setBy := x\<rparr>)),
      (''set_at'', into reader_str (\<lambda>x v. v\<lparr>srr_setAt := x\<rparr>)),
      (''why'', into reader_str (\<lambda>x v. v\<lparr>srr_why := x\<rparr>)),
      (''expires'', into reader_str (\<lambda>x v. v\<lparr>srr_expires := x\<rparr>)),
      (''bundle_origin'', into decodeBundleOrigin (\<lambda>x v. v\<lparr>srr_bundleOrigin := Some x\<rparr>))]
     [''rule'', ''set_by'', ''set_at'', ''why'', ''expires'']
     zero_SelectorRuleRecord"

definition typed_SelectorRuleRecord :: "SelectorRuleRecord \<Rightarrow> bool" where
  "typed_SelectorRuleRecord v \<longleftrightarrow> typed_SelectorRule (srr_rule v) \<and> typed_Subject (srr_setBy v) \<and> validUTF8 (srr_setAt v) \<and> validUTF8 (srr_why v) \<and> validUTF8 (srr_expires v) \<and> pred_option typed_BundleOrigin (srr_bundleOrigin v)"

interpretation SelectorRuleRecord_wire: codec decodeSelectorRuleRecord encSelectorRuleRecord typed_SelectorRuleRecord 6
  by (rule codec_record [OF decodeSelectorRuleRecord_def encSelectorRuleRecord_def [unfolded append.simps]])
     (rule wire | (simp add: typed_SelectorRuleRecord_def code_def validUTF8_none; fail))+

definition DecodeSelectorRuleRecordAt :: "bytes \<Rightarrow> int \<Rightarrow> int \<Rightarrow> refusal + SelectorRuleRecord \<times> nat" where
  "DecodeSelectorRuleRecordAt = decodeAt decodeSelectorRuleRecord"

definition EncodeSelectorRuleRecordAt :: "SelectorRuleRecord \<Rightarrow> int \<Rightarrow> refusal + bytes" where
  "EncodeSelectorRuleRecordAt = encodeAt encSelectorRuleRecord decodeSelectorRuleRecord"

definition DecodeSelectorRuleRecord :: "bytes \<Rightarrow> refusal + SelectorRuleRecord" where
  "DecodeSelectorRuleRecord = decodeAll decodeSelectorRuleRecord"

subsection \<open>SelectorRulePage\<close>

abbreviation zero_SelectorRulePage :: SelectorRulePage where
  "zero_SelectorRulePage \<equiv> \<lparr>srp_outcome = PolicyPageOutcomePage, srp_revision = [], srp_records = [], srp_next = [], srp_complete = False\<rparr>"

definition decodeSelectorRulePage :: "SelectorRulePage reading" where
  "decodeSelectorRulePage = decodeRecord
     [(''outcome'', into (reader_word ParsePolicyPageOutcome) (\<lambda>x v. v\<lparr>srp_outcome := x\<rparr>)),
      (''revision'', into reader_str (\<lambda>x v. v\<lparr>srp_revision := x\<rparr>)),
      (''records'', into (decodeList decodeSelectorRuleRecord) (\<lambda>x v. v\<lparr>srp_records := x\<rparr>)),
      (''next'', into reader_str (\<lambda>x v. v\<lparr>srp_next := x\<rparr>)),
      (''complete'', into reader_boolean (\<lambda>x v. v\<lparr>srp_complete := x\<rparr>))]
     [''outcome'', ''revision'', ''records'', ''next'', ''complete'']
     zero_SelectorRulePage"

definition typed_SelectorRulePage :: "SelectorRulePage \<Rightarrow> bool" where
  "typed_SelectorRulePage v \<longleftrightarrow> validUTF8 (srp_revision v) \<and> list_all typed_SelectorRuleRecord (srp_records v) \<and> validUTF8 (srp_next v)"

lemma typed_zero_SelectorRulePage [simp]: "typed_SelectorRulePage zero_SelectorRulePage"
  by (simp add: typed_SelectorRulePage_def validUTF8_none)

interpretation SelectorRulePage_wire: codec decodeSelectorRulePage encSelectorRulePage typed_SelectorRulePage 8
  by (rule codec_record [OF decodeSelectorRulePage_def encSelectorRulePage_def [unfolded append.simps]])
     (rule wire | (simp add: typed_SelectorRulePage_def code_def validUTF8_none; fail))+

definition DecodeSelectorRulePageAt :: "bytes \<Rightarrow> int \<Rightarrow> int \<Rightarrow> refusal + SelectorRulePage \<times> nat" where
  "DecodeSelectorRulePageAt = decodeAt decodeSelectorRulePage"

definition EncodeSelectorRulePageAt :: "SelectorRulePage \<Rightarrow> int \<Rightarrow> refusal + bytes" where
  "EncodeSelectorRulePageAt = encodeAt encSelectorRulePage decodeSelectorRulePage"

definition DecodeSelectorRulePage :: "bytes \<Rightarrow> refusal + SelectorRulePage" where
  "DecodeSelectorRulePage = decodeAll decodeSelectorRulePage"

subsection \<open>SelectorRuleRead\<close>

abbreviation zero_SelectorRuleRead :: SelectorRuleRead where
  "zero_SelectorRuleRead \<equiv> \<lparr>srd_outcome = RuleReadOutcomeFound, srd_revision = [], srd_record = None\<rparr>"

definition decodeSelectorRuleRead :: "SelectorRuleRead reading" where
  "decodeSelectorRuleRead = decodeRecord
     [(''outcome'', into (reader_word ParseRuleReadOutcome) (\<lambda>x v. v\<lparr>srd_outcome := x\<rparr>)),
      (''revision'', into reader_str (\<lambda>x v. v\<lparr>srd_revision := x\<rparr>)),
      (''record'', into decodeSelectorRuleRecord (\<lambda>x v. v\<lparr>srd_record := Some x\<rparr>))]
     [''outcome'', ''revision'']
     zero_SelectorRuleRead"

definition typed_SelectorRuleRead :: "SelectorRuleRead \<Rightarrow> bool" where
  "typed_SelectorRuleRead v \<longleftrightarrow> validUTF8 (srd_revision v) \<and> pred_option typed_SelectorRuleRecord (srd_record v)"

lemma typed_zero_SelectorRuleRead [simp]: "typed_SelectorRuleRead zero_SelectorRuleRead"
  by (simp add: typed_SelectorRuleRead_def validUTF8_none)

interpretation SelectorRuleRead_wire: codec decodeSelectorRuleRead encSelectorRuleRead typed_SelectorRuleRead 7
  by (rule codec_record [OF decodeSelectorRuleRead_def encSelectorRuleRead_def [unfolded append.simps]])
     (rule wire | (simp add: typed_SelectorRuleRead_def code_def validUTF8_none; fail))+

definition DecodeSelectorRuleReadAt :: "bytes \<Rightarrow> int \<Rightarrow> int \<Rightarrow> refusal + SelectorRuleRead \<times> nat" where
  "DecodeSelectorRuleReadAt = decodeAt decodeSelectorRuleRead"

definition EncodeSelectorRuleReadAt :: "SelectorRuleRead \<Rightarrow> int \<Rightarrow> refusal + bytes" where
  "EncodeSelectorRuleReadAt = encodeAt encSelectorRuleRead decodeSelectorRuleRead"

definition DecodeSelectorRuleRead :: "bytes \<Rightarrow> refusal + SelectorRuleRead" where
  "DecodeSelectorRuleRead = decodeAll decodeSelectorRuleRead"

subsection \<open>SelectorEdit\<close>

definition encSelectorEdit :: "SelectorEdit \<Rightarrow> nat \<Rightarrow> bytes" where
  "encSelectorEdit v depth = encObject depth
     ([encMember depth ''outcome'' (esc (WireName_PolicyEditOutcome (se_outcome v))),
      encMember depth ''revision'' (esc (se_revision v)),
      encMember depth ''current'' (encList encSelectorRuleRecord (se_current v) (depth + 1))] @
      (case se_bundleOrigin v of None \<Rightarrow> [] | Some x \<Rightarrow> [encMember depth ''bundle_origin'' (encBundleOrigin x (depth + 1))]))"

abbreviation zero_SelectorEdit :: SelectorEdit where
  "zero_SelectorEdit \<equiv> \<lparr>se_outcome = PolicyEditOutcomeApplied, se_revision = [], se_current = [], se_bundleOrigin = None\<rparr>"

definition decodeSelectorEdit :: "SelectorEdit reading" where
  "decodeSelectorEdit = decodeRecord
     [(''outcome'', into (reader_word ParsePolicyEditOutcome) (\<lambda>x v. v\<lparr>se_outcome := x\<rparr>)),
      (''revision'', into reader_str (\<lambda>x v. v\<lparr>se_revision := x\<rparr>)),
      (''current'', into (decodeList decodeSelectorRuleRecord) (\<lambda>x v. v\<lparr>se_current := x\<rparr>)),
      (''bundle_origin'', into decodeBundleOrigin (\<lambda>x v. v\<lparr>se_bundleOrigin := Some x\<rparr>))]
     [''outcome'', ''revision'', ''current'']
     zero_SelectorEdit"

definition typed_SelectorEdit :: "SelectorEdit \<Rightarrow> bool" where
  "typed_SelectorEdit v \<longleftrightarrow> validUTF8 (se_revision v) \<and> list_all typed_SelectorRuleRecord (se_current v) \<and> pred_option typed_BundleOrigin (se_bundleOrigin v)"

lemma typed_zero_SelectorEdit [simp]: "typed_SelectorEdit zero_SelectorEdit"
  by (simp add: typed_SelectorEdit_def validUTF8_none)

interpretation SelectorEdit_wire: codec decodeSelectorEdit encSelectorEdit typed_SelectorEdit 8
  by (rule codec_record [OF decodeSelectorEdit_def encSelectorEdit_def [unfolded append.simps]])
     (rule wire | (simp add: typed_SelectorEdit_def code_def validUTF8_none; fail))+

definition DecodeSelectorEditAt :: "bytes \<Rightarrow> int \<Rightarrow> int \<Rightarrow> refusal + SelectorEdit \<times> nat" where
  "DecodeSelectorEditAt = decodeAt decodeSelectorEdit"

definition EncodeSelectorEditAt :: "SelectorEdit \<Rightarrow> int \<Rightarrow> refusal + bytes" where
  "EncodeSelectorEditAt = encodeAt encSelectorEdit decodeSelectorEdit"

definition DecodeSelectorEdit :: "bytes \<Rightarrow> refusal + SelectorEdit" where
  "DecodeSelectorEdit = decodeAll decodeSelectorEdit"

subsection \<open>LegacyOperationRequest\<close>

definition encLegacyOperationRequest :: "LegacyOperationRequest \<Rightarrow> nat \<Rightarrow> bytes" where
  "encLegacyOperationRequest v depth = encObject depth
     ([encMember depth ''legacy_action'' (esc (lo_legacyAction v)),
      encMember depth ''legacy_resource'' (esc (lo_legacyResource v))] @
      (case lo_concreteOperation v of None \<Rightarrow> [] | Some x \<Rightarrow> [encMember depth ''concrete_operation'' (encConcreteResource x (depth + 1))]))"

abbreviation zero_LegacyOperationRequest :: LegacyOperationRequest where
  "zero_LegacyOperationRequest \<equiv> \<lparr>lo_legacyAction = [], lo_legacyResource = [], lo_concreteOperation = None\<rparr>"

definition decodeLegacyOperationRequest :: "LegacyOperationRequest reading" where
  "decodeLegacyOperationRequest = decodeRecord
     [(''legacy_action'', into reader_str (\<lambda>x v. v\<lparr>lo_legacyAction := x\<rparr>)),
      (''legacy_resource'', into reader_str (\<lambda>x v. v\<lparr>lo_legacyResource := x\<rparr>)),
      (''concrete_operation'', into decodeConcreteResource (\<lambda>x v. v\<lparr>lo_concreteOperation := Some x\<rparr>))]
     [''legacy_action'', ''legacy_resource'']
     zero_LegacyOperationRequest"

definition typed_LegacyOperationRequest :: "LegacyOperationRequest \<Rightarrow> bool" where
  "typed_LegacyOperationRequest v \<longleftrightarrow> validUTF8 (lo_legacyAction v) \<and> validUTF8 (lo_legacyResource v) \<and> pred_option typed_ConcreteResource (lo_concreteOperation v)"

lemma typed_zero_LegacyOperationRequest [simp]: "typed_LegacyOperationRequest zero_LegacyOperationRequest"
  by (simp add: typed_LegacyOperationRequest_def validUTF8_none)

interpretation LegacyOperationRequest_wire: codec decodeLegacyOperationRequest encLegacyOperationRequest typed_LegacyOperationRequest 3
  by (rule codec_record [OF decodeLegacyOperationRequest_def encLegacyOperationRequest_def [unfolded append.simps]])
     (rule wire | (simp add: typed_LegacyOperationRequest_def code_def validUTF8_none; fail))+

definition DecodeLegacyOperationRequestAt :: "bytes \<Rightarrow> int \<Rightarrow> int \<Rightarrow> refusal + LegacyOperationRequest \<times> nat" where
  "DecodeLegacyOperationRequestAt = decodeAt decodeLegacyOperationRequest"

definition EncodeLegacyOperationRequestAt :: "LegacyOperationRequest \<Rightarrow> int \<Rightarrow> refusal + bytes" where
  "EncodeLegacyOperationRequestAt = encodeAt encLegacyOperationRequest decodeLegacyOperationRequest"

definition DecodeLegacyOperationRequest :: "bytes \<Rightarrow> refusal + LegacyOperationRequest" where
  "DecodeLegacyOperationRequest = decodeAll decodeLegacyOperationRequest"

end
