(* ===== verification/Call_Messages.thy ===== *)
theory Call_Messages
  imports Selector_Messages
begin

text \<open>
  The arguments and the result of every method of the four services (\<open>rec.go\<close>, \<open>oa...Arguments\<close> and
  \<open>oa...Result\<close>), as in \<open>Exact_Messages\<close>. The arguments of \<open>ListDefaults\<close> have no member, and its
  decoder refuses any.
\<close>

subsection \<open>oaAuthorizationListActionDescriptionsArguments\<close>

record oaAuthorizationListActionDescriptionsArguments =
  ListActionDescriptions_cursor :: bytes
  ListActionDescriptions_limit :: int

definition encOAAuthorizationListActionDescriptionsArguments :: "oaAuthorizationListActionDescriptionsArguments \<Rightarrow> nat \<Rightarrow> bytes" where
  "encOAAuthorizationListActionDescriptionsArguments v depth = encObject depth
     [encMember depth ''cursor'' (esc (ListActionDescriptions_cursor v)),
      encMember depth ''limit'' (num (ListActionDescriptions_limit v))]"

abbreviation zero_OAAuthorizationListActionDescriptionsArguments :: oaAuthorizationListActionDescriptionsArguments where
  "zero_OAAuthorizationListActionDescriptionsArguments \<equiv> \<lparr>ListActionDescriptions_cursor = [], ListActionDescriptions_limit = 0\<rparr>"

definition decodeOAAuthorizationListActionDescriptionsArguments :: "oaAuthorizationListActionDescriptionsArguments reading" where
  "decodeOAAuthorizationListActionDescriptionsArguments = decodeRecord
     [(''cursor'', into reader_str (\<lambda>x v. v\<lparr>ListActionDescriptions_cursor := x\<rparr>)),
      (''limit'', into reader_int64 (\<lambda>x v. v\<lparr>ListActionDescriptions_limit := x\<rparr>))]
     [''cursor'', ''limit'']
     zero_OAAuthorizationListActionDescriptionsArguments"

definition typed_OAAuthorizationListActionDescriptionsArguments :: "oaAuthorizationListActionDescriptionsArguments \<Rightarrow> bool" where
  "typed_OAAuthorizationListActionDescriptionsArguments v \<longleftrightarrow> validUTF8 (ListActionDescriptions_cursor v) \<and> - (2 ^ 63) \<le> ListActionDescriptions_limit v \<and> ListActionDescriptions_limit v < 2 ^ 63"

interpretation OAAuthorizationListActionDescriptionsArguments_wire: codec decodeOAAuthorizationListActionDescriptionsArguments encOAAuthorizationListActionDescriptionsArguments typed_OAAuthorizationListActionDescriptionsArguments 1
  by (rule codec_record [OF decodeOAAuthorizationListActionDescriptionsArguments_def encOAAuthorizationListActionDescriptionsArguments_def [unfolded append.simps]])
     (rule wire | (simp add: typed_OAAuthorizationListActionDescriptionsArguments_def code_def validUTF8_none; fail))+

subsection \<open>oaAuthorizationDecideArguments\<close>

record oaAuthorizationDecideArguments =
  Decide_action :: bytes
  Decide_resource :: bytes

definition encOAAuthorizationDecideArguments :: "oaAuthorizationDecideArguments \<Rightarrow> nat \<Rightarrow> bytes" where
  "encOAAuthorizationDecideArguments v depth = encObject depth
     [encMember depth ''action'' (esc (Decide_action v)),
      encMember depth ''resource'' (esc (Decide_resource v))]"

abbreviation zero_OAAuthorizationDecideArguments :: oaAuthorizationDecideArguments where
  "zero_OAAuthorizationDecideArguments \<equiv> \<lparr>Decide_action = [], Decide_resource = []\<rparr>"

definition decodeOAAuthorizationDecideArguments :: "oaAuthorizationDecideArguments reading" where
  "decodeOAAuthorizationDecideArguments = decodeRecord
     [(''action'', into reader_str (\<lambda>x v. v\<lparr>Decide_action := x\<rparr>)),
      (''resource'', into reader_str (\<lambda>x v. v\<lparr>Decide_resource := x\<rparr>))]
     [''action'', ''resource'']
     zero_OAAuthorizationDecideArguments"

definition typed_OAAuthorizationDecideArguments :: "oaAuthorizationDecideArguments \<Rightarrow> bool" where
  "typed_OAAuthorizationDecideArguments v \<longleftrightarrow> validUTF8 (Decide_action v) \<and> validUTF8 (Decide_resource v)"

interpretation OAAuthorizationDecideArguments_wire: codec decodeOAAuthorizationDecideArguments encOAAuthorizationDecideArguments typed_OAAuthorizationDecideArguments 1
  by (rule codec_record [OF decodeOAAuthorizationDecideArguments_def encOAAuthorizationDecideArguments_def [unfolded append.simps]])
     (rule wire | (simp add: typed_OAAuthorizationDecideArguments_def code_def validUTF8_none; fail))+

subsection \<open>oaAuthorizationDecideForArguments\<close>

record oaAuthorizationDecideForArguments =
  DecideFor_subject :: subject
  DecideFor_action :: bytes
  DecideFor_resource :: bytes

definition encOAAuthorizationDecideForArguments :: "oaAuthorizationDecideForArguments \<Rightarrow> nat \<Rightarrow> bytes" where
  "encOAAuthorizationDecideForArguments v depth = encObject depth
     [encMember depth ''subject'' (encSubject (DecideFor_subject v) (depth + 1)),
      encMember depth ''action'' (esc (DecideFor_action v)),
      encMember depth ''resource'' (esc (DecideFor_resource v))]"

abbreviation zero_OAAuthorizationDecideForArguments :: oaAuthorizationDecideForArguments where
  "zero_OAAuthorizationDecideForArguments \<equiv> \<lparr>DecideFor_subject = zero_Subject, DecideFor_action = [], DecideFor_resource = []\<rparr>"

definition decodeOAAuthorizationDecideForArguments :: "oaAuthorizationDecideForArguments reading" where
  "decodeOAAuthorizationDecideForArguments = decodeRecord
     [(''subject'', into decodeSubject (\<lambda>x v. v\<lparr>DecideFor_subject := x\<rparr>)),
      (''action'', into reader_str (\<lambda>x v. v\<lparr>DecideFor_action := x\<rparr>)),
      (''resource'', into reader_str (\<lambda>x v. v\<lparr>DecideFor_resource := x\<rparr>))]
     [''subject'', ''action'', ''resource'']
     zero_OAAuthorizationDecideForArguments"

definition typed_OAAuthorizationDecideForArguments :: "oaAuthorizationDecideForArguments \<Rightarrow> bool" where
  "typed_OAAuthorizationDecideForArguments v \<longleftrightarrow> typed_Subject (DecideFor_subject v) \<and> validUTF8 (DecideFor_action v) \<and> validUTF8 (DecideFor_resource v)"

interpretation OAAuthorizationDecideForArguments_wire: codec decodeOAAuthorizationDecideForArguments encOAAuthorizationDecideForArguments typed_OAAuthorizationDecideForArguments 2
  by (rule codec_record [OF decodeOAAuthorizationDecideForArguments_def encOAAuthorizationDecideForArguments_def [unfolded append.simps]])
     (rule wire | (simp add: typed_OAAuthorizationDecideForArguments_def code_def validUTF8_none; fail))+

subsection \<open>oaAuthorizationOperatorRegisterDescribedActionArguments\<close>

record oaAuthorizationOperatorRegisterDescribedActionArguments =
  RegisterDescribedAction_expectedRevision :: bytes
  RegisterDescribedAction_description :: ActionDescription

definition encOAAuthorizationOperatorRegisterDescribedActionArguments :: "oaAuthorizationOperatorRegisterDescribedActionArguments \<Rightarrow> nat \<Rightarrow> bytes" where
  "encOAAuthorizationOperatorRegisterDescribedActionArguments v depth = encObject depth
     [encMember depth ''expected_revision'' (esc (RegisterDescribedAction_expectedRevision v)),
      encMember depth ''description'' (encActionDescription (RegisterDescribedAction_description v) (depth + 1))]"

abbreviation zero_OAAuthorizationOperatorRegisterDescribedActionArguments :: oaAuthorizationOperatorRegisterDescribedActionArguments where
  "zero_OAAuthorizationOperatorRegisterDescribedActionArguments \<equiv> \<lparr>RegisterDescribedAction_expectedRevision = [], RegisterDescribedAction_description = zero_ActionDescription\<rparr>"

definition decodeOAAuthorizationOperatorRegisterDescribedActionArguments :: "oaAuthorizationOperatorRegisterDescribedActionArguments reading" where
  "decodeOAAuthorizationOperatorRegisterDescribedActionArguments = decodeRecord
     [(''expected_revision'', into reader_str (\<lambda>x v. v\<lparr>RegisterDescribedAction_expectedRevision := x\<rparr>)),
      (''description'', into decodeActionDescription (\<lambda>x v. v\<lparr>RegisterDescribedAction_description := x\<rparr>))]
     [''expected_revision'', ''description'']
     zero_OAAuthorizationOperatorRegisterDescribedActionArguments"

definition typed_OAAuthorizationOperatorRegisterDescribedActionArguments :: "oaAuthorizationOperatorRegisterDescribedActionArguments \<Rightarrow> bool" where
  "typed_OAAuthorizationOperatorRegisterDescribedActionArguments v \<longleftrightarrow> validUTF8 (RegisterDescribedAction_expectedRevision v) \<and> typed_ActionDescription (RegisterDescribedAction_description v)"

interpretation OAAuthorizationOperatorRegisterDescribedActionArguments_wire: codec decodeOAAuthorizationOperatorRegisterDescribedActionArguments encOAAuthorizationOperatorRegisterDescribedActionArguments typed_OAAuthorizationOperatorRegisterDescribedActionArguments 3
  by (rule codec_record [OF decodeOAAuthorizationOperatorRegisterDescribedActionArguments_def encOAAuthorizationOperatorRegisterDescribedActionArguments_def [unfolded append.simps]])
     (rule wire | (simp add: typed_OAAuthorizationOperatorRegisterDescribedActionArguments_def code_def validUTF8_none; fail))+

subsection \<open>oaAuthorizationOperatorApplyFirstUseAllowArguments\<close>

record oaAuthorizationOperatorApplyFirstUseAllowArguments =
  ApplyFirstUseAllow_expectedRevision :: bytes
  ApplyFirstUseAllow_questionID :: bytes

definition encOAAuthorizationOperatorApplyFirstUseAllowArguments :: "oaAuthorizationOperatorApplyFirstUseAllowArguments \<Rightarrow> nat \<Rightarrow> bytes" where
  "encOAAuthorizationOperatorApplyFirstUseAllowArguments v depth = encObject depth
     [encMember depth ''expected_revision'' (esc (ApplyFirstUseAllow_expectedRevision v)),
      encMember depth ''question_id'' (esc (ApplyFirstUseAllow_questionID v))]"

abbreviation zero_OAAuthorizationOperatorApplyFirstUseAllowArguments :: oaAuthorizationOperatorApplyFirstUseAllowArguments where
  "zero_OAAuthorizationOperatorApplyFirstUseAllowArguments \<equiv> \<lparr>ApplyFirstUseAllow_expectedRevision = [], ApplyFirstUseAllow_questionID = []\<rparr>"

definition decodeOAAuthorizationOperatorApplyFirstUseAllowArguments :: "oaAuthorizationOperatorApplyFirstUseAllowArguments reading" where
  "decodeOAAuthorizationOperatorApplyFirstUseAllowArguments = decodeRecord
     [(''expected_revision'', into reader_str (\<lambda>x v. v\<lparr>ApplyFirstUseAllow_expectedRevision := x\<rparr>)),
      (''question_id'', into reader_str (\<lambda>x v. v\<lparr>ApplyFirstUseAllow_questionID := x\<rparr>))]
     [''expected_revision'', ''question_id'']
     zero_OAAuthorizationOperatorApplyFirstUseAllowArguments"

definition typed_OAAuthorizationOperatorApplyFirstUseAllowArguments :: "oaAuthorizationOperatorApplyFirstUseAllowArguments \<Rightarrow> bool" where
  "typed_OAAuthorizationOperatorApplyFirstUseAllowArguments v \<longleftrightarrow> validUTF8 (ApplyFirstUseAllow_expectedRevision v) \<and> validUTF8 (ApplyFirstUseAllow_questionID v)"

interpretation OAAuthorizationOperatorApplyFirstUseAllowArguments_wire: codec decodeOAAuthorizationOperatorApplyFirstUseAllowArguments encOAAuthorizationOperatorApplyFirstUseAllowArguments typed_OAAuthorizationOperatorApplyFirstUseAllowArguments 1
  by (rule codec_record [OF decodeOAAuthorizationOperatorApplyFirstUseAllowArguments_def encOAAuthorizationOperatorApplyFirstUseAllowArguments_def [unfolded append.simps]])
     (rule wire | (simp add: typed_OAAuthorizationOperatorApplyFirstUseAllowArguments_def code_def validUTF8_none; fail))+

subsection \<open>oaAuthorizationOperatorListPolicyArguments\<close>

record oaAuthorizationOperatorListPolicyArguments =
  ListPolicy_cursor :: bytes
  ListPolicy_limit :: int

definition encOAAuthorizationOperatorListPolicyArguments :: "oaAuthorizationOperatorListPolicyArguments \<Rightarrow> nat \<Rightarrow> bytes" where
  "encOAAuthorizationOperatorListPolicyArguments v depth = encObject depth
     [encMember depth ''cursor'' (esc (ListPolicy_cursor v)),
      encMember depth ''limit'' (num (ListPolicy_limit v))]"

abbreviation zero_OAAuthorizationOperatorListPolicyArguments :: oaAuthorizationOperatorListPolicyArguments where
  "zero_OAAuthorizationOperatorListPolicyArguments \<equiv> \<lparr>ListPolicy_cursor = [], ListPolicy_limit = 0\<rparr>"

definition decodeOAAuthorizationOperatorListPolicyArguments :: "oaAuthorizationOperatorListPolicyArguments reading" where
  "decodeOAAuthorizationOperatorListPolicyArguments = decodeRecord
     [(''cursor'', into reader_str (\<lambda>x v. v\<lparr>ListPolicy_cursor := x\<rparr>)),
      (''limit'', into reader_int64 (\<lambda>x v. v\<lparr>ListPolicy_limit := x\<rparr>))]
     [''cursor'', ''limit'']
     zero_OAAuthorizationOperatorListPolicyArguments"

definition typed_OAAuthorizationOperatorListPolicyArguments :: "oaAuthorizationOperatorListPolicyArguments \<Rightarrow> bool" where
  "typed_OAAuthorizationOperatorListPolicyArguments v \<longleftrightarrow> validUTF8 (ListPolicy_cursor v) \<and> - (2 ^ 63) \<le> ListPolicy_limit v \<and> ListPolicy_limit v < 2 ^ 63"

interpretation OAAuthorizationOperatorListPolicyArguments_wire: codec decodeOAAuthorizationOperatorListPolicyArguments encOAAuthorizationOperatorListPolicyArguments typed_OAAuthorizationOperatorListPolicyArguments 1
  by (rule codec_record [OF decodeOAAuthorizationOperatorListPolicyArguments_def encOAAuthorizationOperatorListPolicyArguments_def [unfolded append.simps]])
     (rule wire | (simp add: typed_OAAuthorizationOperatorListPolicyArguments_def code_def validUTF8_none; fail))+

subsection \<open>oaAuthorizationOperatorSetRuleArguments\<close>

record oaAuthorizationOperatorSetRuleArguments =
  SetRule_expectedRevision :: bytes
  SetRule_rule :: PolicyRule

definition encOAAuthorizationOperatorSetRuleArguments :: "oaAuthorizationOperatorSetRuleArguments \<Rightarrow> nat \<Rightarrow> bytes" where
  "encOAAuthorizationOperatorSetRuleArguments v depth = encObject depth
     [encMember depth ''expected_revision'' (esc (SetRule_expectedRevision v)),
      encMember depth ''rule'' (encPolicyRule (SetRule_rule v) (depth + 1))]"

abbreviation zero_OAAuthorizationOperatorSetRuleArguments :: oaAuthorizationOperatorSetRuleArguments where
  "zero_OAAuthorizationOperatorSetRuleArguments \<equiv> \<lparr>SetRule_expectedRevision = [], SetRule_rule = zero_PolicyRule\<rparr>"

definition decodeOAAuthorizationOperatorSetRuleArguments :: "oaAuthorizationOperatorSetRuleArguments reading" where
  "decodeOAAuthorizationOperatorSetRuleArguments = decodeRecord
     [(''expected_revision'', into reader_str (\<lambda>x v. v\<lparr>SetRule_expectedRevision := x\<rparr>)),
      (''rule'', into decodePolicyRule (\<lambda>x v. v\<lparr>SetRule_rule := x\<rparr>))]
     [''expected_revision'', ''rule'']
     zero_OAAuthorizationOperatorSetRuleArguments"

definition typed_OAAuthorizationOperatorSetRuleArguments :: "oaAuthorizationOperatorSetRuleArguments \<Rightarrow> bool" where
  "typed_OAAuthorizationOperatorSetRuleArguments v \<longleftrightarrow> validUTF8 (SetRule_expectedRevision v) \<and> typed_PolicyRule (SetRule_rule v)"

interpretation OAAuthorizationOperatorSetRuleArguments_wire: codec decodeOAAuthorizationOperatorSetRuleArguments encOAAuthorizationOperatorSetRuleArguments typed_OAAuthorizationOperatorSetRuleArguments 3
  by (rule codec_record [OF decodeOAAuthorizationOperatorSetRuleArguments_def encOAAuthorizationOperatorSetRuleArguments_def [unfolded append.simps]])
     (rule wire | (simp add: typed_OAAuthorizationOperatorSetRuleArguments_def code_def validUTF8_none; fail))+

subsection \<open>oaAuthorizationOperatorRevokeRuleArguments\<close>

record oaAuthorizationOperatorRevokeRuleArguments =
  RevokeRule_expectedRevision :: bytes
  RevokeRule_subject :: subject
  RevokeRule_action :: bytes
  RevokeRule_resource :: bytes

definition encOAAuthorizationOperatorRevokeRuleArguments :: "oaAuthorizationOperatorRevokeRuleArguments \<Rightarrow> nat \<Rightarrow> bytes" where
  "encOAAuthorizationOperatorRevokeRuleArguments v depth = encObject depth
     [encMember depth ''expected_revision'' (esc (RevokeRule_expectedRevision v)),
      encMember depth ''subject'' (encSubject (RevokeRule_subject v) (depth + 1)),
      encMember depth ''action'' (esc (RevokeRule_action v)),
      encMember depth ''resource'' (esc (RevokeRule_resource v))]"

abbreviation zero_OAAuthorizationOperatorRevokeRuleArguments :: oaAuthorizationOperatorRevokeRuleArguments where
  "zero_OAAuthorizationOperatorRevokeRuleArguments \<equiv> \<lparr>RevokeRule_expectedRevision = [], RevokeRule_subject = zero_Subject, RevokeRule_action = [], RevokeRule_resource = []\<rparr>"

definition decodeOAAuthorizationOperatorRevokeRuleArguments :: "oaAuthorizationOperatorRevokeRuleArguments reading" where
  "decodeOAAuthorizationOperatorRevokeRuleArguments = decodeRecord
     [(''expected_revision'', into reader_str (\<lambda>x v. v\<lparr>RevokeRule_expectedRevision := x\<rparr>)),
      (''subject'', into decodeSubject (\<lambda>x v. v\<lparr>RevokeRule_subject := x\<rparr>)),
      (''action'', into reader_str (\<lambda>x v. v\<lparr>RevokeRule_action := x\<rparr>)),
      (''resource'', into reader_str (\<lambda>x v. v\<lparr>RevokeRule_resource := x\<rparr>))]
     [''expected_revision'', ''subject'', ''action'', ''resource'']
     zero_OAAuthorizationOperatorRevokeRuleArguments"

definition typed_OAAuthorizationOperatorRevokeRuleArguments :: "oaAuthorizationOperatorRevokeRuleArguments \<Rightarrow> bool" where
  "typed_OAAuthorizationOperatorRevokeRuleArguments v \<longleftrightarrow> validUTF8 (RevokeRule_expectedRevision v) \<and> typed_Subject (RevokeRule_subject v) \<and> validUTF8 (RevokeRule_action v) \<and> validUTF8 (RevokeRule_resource v)"

interpretation OAAuthorizationOperatorRevokeRuleArguments_wire: codec decodeOAAuthorizationOperatorRevokeRuleArguments encOAAuthorizationOperatorRevokeRuleArguments typed_OAAuthorizationOperatorRevokeRuleArguments 2
  by (rule codec_record [OF decodeOAAuthorizationOperatorRevokeRuleArguments_def encOAAuthorizationOperatorRevokeRuleArguments_def [unfolded append.simps]])
     (rule wire | (simp add: typed_OAAuthorizationOperatorRevokeRuleArguments_def code_def validUTF8_none; fail))+

subsection \<open>oaAuthorizationOperatorStopAnswererArguments\<close>

record oaAuthorizationOperatorStopAnswererArguments =
  StopAnswerer_expectedRevision :: bytes
  StopAnswerer_answerer :: subject
  StopAnswerer_alsoRevokeGrants :: bool

definition encOAAuthorizationOperatorStopAnswererArguments :: "oaAuthorizationOperatorStopAnswererArguments \<Rightarrow> nat \<Rightarrow> bytes" where
  "encOAAuthorizationOperatorStopAnswererArguments v depth = encObject depth
     [encMember depth ''expected_revision'' (esc (StopAnswerer_expectedRevision v)),
      encMember depth ''answerer'' (encSubject (StopAnswerer_answerer v) (depth + 1)),
      encMember depth ''also_revoke_grants'' (encBool (StopAnswerer_alsoRevokeGrants v))]"

abbreviation zero_OAAuthorizationOperatorStopAnswererArguments :: oaAuthorizationOperatorStopAnswererArguments where
  "zero_OAAuthorizationOperatorStopAnswererArguments \<equiv> \<lparr>StopAnswerer_expectedRevision = [], StopAnswerer_answerer = zero_Subject, StopAnswerer_alsoRevokeGrants = False\<rparr>"

definition decodeOAAuthorizationOperatorStopAnswererArguments :: "oaAuthorizationOperatorStopAnswererArguments reading" where
  "decodeOAAuthorizationOperatorStopAnswererArguments = decodeRecord
     [(''expected_revision'', into reader_str (\<lambda>x v. v\<lparr>StopAnswerer_expectedRevision := x\<rparr>)),
      (''answerer'', into decodeSubject (\<lambda>x v. v\<lparr>StopAnswerer_answerer := x\<rparr>)),
      (''also_revoke_grants'', into reader_boolean (\<lambda>x v. v\<lparr>StopAnswerer_alsoRevokeGrants := x\<rparr>))]
     [''expected_revision'', ''answerer'', ''also_revoke_grants'']
     zero_OAAuthorizationOperatorStopAnswererArguments"

definition typed_OAAuthorizationOperatorStopAnswererArguments :: "oaAuthorizationOperatorStopAnswererArguments \<Rightarrow> bool" where
  "typed_OAAuthorizationOperatorStopAnswererArguments v \<longleftrightarrow> validUTF8 (StopAnswerer_expectedRevision v) \<and> typed_Subject (StopAnswerer_answerer v)"

interpretation OAAuthorizationOperatorStopAnswererArguments_wire: codec decodeOAAuthorizationOperatorStopAnswererArguments encOAAuthorizationOperatorStopAnswererArguments typed_OAAuthorizationOperatorStopAnswererArguments 2
  by (rule codec_record [OF decodeOAAuthorizationOperatorStopAnswererArguments_def encOAAuthorizationOperatorStopAnswererArguments_def [unfolded append.simps]])
     (rule wire | (simp add: typed_OAAuthorizationOperatorStopAnswererArguments_def code_def validUTF8_none; fail))+

subsection \<open>oaAuthorizationOperatorRevokeAnswerPermitsArguments\<close>

record oaAuthorizationOperatorRevokeAnswerPermitsArguments =
  RevokeAnswerPermits_expectedRevision :: bytes
  RevokeAnswerPermits_answerer :: subject
  RevokeAnswerPermits_target :: subject
  RevokeAnswerPermits_actions :: "bytes list"
  RevokeAnswerPermits_resource :: bytes
  RevokeAnswerPermits_questionID :: bytes

definition encOAAuthorizationOperatorRevokeAnswerPermitsArguments :: "oaAuthorizationOperatorRevokeAnswerPermitsArguments \<Rightarrow> nat \<Rightarrow> bytes" where
  "encOAAuthorizationOperatorRevokeAnswerPermitsArguments v depth = encObject depth
     [encMember depth ''expected_revision'' (esc (RevokeAnswerPermits_expectedRevision v)),
      encMember depth ''answerer'' (encSubject (RevokeAnswerPermits_answerer v) (depth + 1)),
      encMember depth ''target'' (encSubject (RevokeAnswerPermits_target v) (depth + 1)),
      encMember depth ''actions'' (strs (RevokeAnswerPermits_actions v) (depth + 1)),
      encMember depth ''resource'' (esc (RevokeAnswerPermits_resource v)),
      encMember depth ''question_id'' (esc (RevokeAnswerPermits_questionID v))]"

abbreviation zero_OAAuthorizationOperatorRevokeAnswerPermitsArguments :: oaAuthorizationOperatorRevokeAnswerPermitsArguments where
  "zero_OAAuthorizationOperatorRevokeAnswerPermitsArguments \<equiv> \<lparr>RevokeAnswerPermits_expectedRevision = [], RevokeAnswerPermits_answerer = zero_Subject, RevokeAnswerPermits_target = zero_Subject, RevokeAnswerPermits_actions = [], RevokeAnswerPermits_resource = [], RevokeAnswerPermits_questionID = []\<rparr>"

definition decodeOAAuthorizationOperatorRevokeAnswerPermitsArguments :: "oaAuthorizationOperatorRevokeAnswerPermitsArguments reading" where
  "decodeOAAuthorizationOperatorRevokeAnswerPermitsArguments = decodeRecord
     [(''expected_revision'', into reader_str (\<lambda>x v. v\<lparr>RevokeAnswerPermits_expectedRevision := x\<rparr>)),
      (''answerer'', into decodeSubject (\<lambda>x v. v\<lparr>RevokeAnswerPermits_answerer := x\<rparr>)),
      (''target'', into decodeSubject (\<lambda>x v. v\<lparr>RevokeAnswerPermits_target := x\<rparr>)),
      (''actions'', into reader_strList (\<lambda>x v. v\<lparr>RevokeAnswerPermits_actions := x\<rparr>)),
      (''resource'', into reader_str (\<lambda>x v. v\<lparr>RevokeAnswerPermits_resource := x\<rparr>)),
      (''question_id'', into reader_str (\<lambda>x v. v\<lparr>RevokeAnswerPermits_questionID := x\<rparr>))]
     [''expected_revision'', ''answerer'', ''target'', ''actions'', ''resource'', ''question_id'']
     zero_OAAuthorizationOperatorRevokeAnswerPermitsArguments"

definition typed_OAAuthorizationOperatorRevokeAnswerPermitsArguments :: "oaAuthorizationOperatorRevokeAnswerPermitsArguments \<Rightarrow> bool" where
  "typed_OAAuthorizationOperatorRevokeAnswerPermitsArguments v \<longleftrightarrow> validUTF8 (RevokeAnswerPermits_expectedRevision v) \<and> typed_Subject (RevokeAnswerPermits_answerer v) \<and> typed_Subject (RevokeAnswerPermits_target v) \<and> list_all validUTF8 (RevokeAnswerPermits_actions v) \<and> validUTF8 (RevokeAnswerPermits_resource v) \<and> validUTF8 (RevokeAnswerPermits_questionID v)"

interpretation OAAuthorizationOperatorRevokeAnswerPermitsArguments_wire: codec decodeOAAuthorizationOperatorRevokeAnswerPermitsArguments encOAAuthorizationOperatorRevokeAnswerPermitsArguments typed_OAAuthorizationOperatorRevokeAnswerPermitsArguments 2
  by (rule codec_record [OF decodeOAAuthorizationOperatorRevokeAnswerPermitsArguments_def encOAAuthorizationOperatorRevokeAnswerPermitsArguments_def [unfolded append.simps]])
     (rule wire | (simp add: typed_OAAuthorizationOperatorRevokeAnswerPermitsArguments_def code_def validUTF8_none; fail))+

subsection \<open>oaAuthorizationOperatorSetRuleForArguments\<close>

record oaAuthorizationOperatorSetRuleForArguments =
  SetRuleFor_expectedRevision :: bytes
  SetRuleFor_rule :: PolicyRule
  SetRuleFor_ttlMs :: int
  SetRuleFor_why :: bytes

definition encOAAuthorizationOperatorSetRuleForArguments :: "oaAuthorizationOperatorSetRuleForArguments \<Rightarrow> nat \<Rightarrow> bytes" where
  "encOAAuthorizationOperatorSetRuleForArguments v depth = encObject depth
     [encMember depth ''expected_revision'' (esc (SetRuleFor_expectedRevision v)),
      encMember depth ''rule'' (encPolicyRule (SetRuleFor_rule v) (depth + 1)),
      encMember depth ''ttl_ms'' (num (SetRuleFor_ttlMs v)),
      encMember depth ''why'' (esc (SetRuleFor_why v))]"

abbreviation zero_OAAuthorizationOperatorSetRuleForArguments :: oaAuthorizationOperatorSetRuleForArguments where
  "zero_OAAuthorizationOperatorSetRuleForArguments \<equiv> \<lparr>SetRuleFor_expectedRevision = [], SetRuleFor_rule = zero_PolicyRule, SetRuleFor_ttlMs = 0, SetRuleFor_why = []\<rparr>"

definition decodeOAAuthorizationOperatorSetRuleForArguments :: "oaAuthorizationOperatorSetRuleForArguments reading" where
  "decodeOAAuthorizationOperatorSetRuleForArguments = decodeRecord
     [(''expected_revision'', into reader_str (\<lambda>x v. v\<lparr>SetRuleFor_expectedRevision := x\<rparr>)),
      (''rule'', into decodePolicyRule (\<lambda>x v. v\<lparr>SetRuleFor_rule := x\<rparr>)),
      (''ttl_ms'', into reader_int64 (\<lambda>x v. v\<lparr>SetRuleFor_ttlMs := x\<rparr>)),
      (''why'', into reader_str (\<lambda>x v. v\<lparr>SetRuleFor_why := x\<rparr>))]
     [''expected_revision'', ''rule'', ''ttl_ms'', ''why'']
     zero_OAAuthorizationOperatorSetRuleForArguments"

definition typed_OAAuthorizationOperatorSetRuleForArguments :: "oaAuthorizationOperatorSetRuleForArguments \<Rightarrow> bool" where
  "typed_OAAuthorizationOperatorSetRuleForArguments v \<longleftrightarrow> validUTF8 (SetRuleFor_expectedRevision v) \<and> typed_PolicyRule (SetRuleFor_rule v) \<and> - (2 ^ 63) \<le> SetRuleFor_ttlMs v \<and> SetRuleFor_ttlMs v < 2 ^ 63 \<and> validUTF8 (SetRuleFor_why v)"

interpretation OAAuthorizationOperatorSetRuleForArguments_wire: codec decodeOAAuthorizationOperatorSetRuleForArguments encOAAuthorizationOperatorSetRuleForArguments typed_OAAuthorizationOperatorSetRuleForArguments 3
  by (rule codec_record [OF decodeOAAuthorizationOperatorSetRuleForArguments_def encOAAuthorizationOperatorSetRuleForArguments_def [unfolded append.simps]])
     (rule wire | (simp add: typed_OAAuthorizationOperatorSetRuleForArguments_def code_def validUTF8_none; fail))+

subsection \<open>oaAuthorizationOperatorSetRulesForArguments\<close>

record oaAuthorizationOperatorSetRulesForArguments =
  SetRulesFor_expectedRevision :: bytes
  SetRulesFor_rules :: "PolicyRule list"
  SetRulesFor_ttlMs :: int
  SetRulesFor_why :: bytes

definition encOAAuthorizationOperatorSetRulesForArguments :: "oaAuthorizationOperatorSetRulesForArguments \<Rightarrow> nat \<Rightarrow> bytes" where
  "encOAAuthorizationOperatorSetRulesForArguments v depth = encObject depth
     [encMember depth ''expected_revision'' (esc (SetRulesFor_expectedRevision v)),
      encMember depth ''rules'' (encList encPolicyRule (SetRulesFor_rules v) (depth + 1)),
      encMember depth ''ttl_ms'' (num (SetRulesFor_ttlMs v)),
      encMember depth ''why'' (esc (SetRulesFor_why v))]"

abbreviation zero_OAAuthorizationOperatorSetRulesForArguments :: oaAuthorizationOperatorSetRulesForArguments where
  "zero_OAAuthorizationOperatorSetRulesForArguments \<equiv> \<lparr>SetRulesFor_expectedRevision = [], SetRulesFor_rules = [], SetRulesFor_ttlMs = 0, SetRulesFor_why = []\<rparr>"

definition decodeOAAuthorizationOperatorSetRulesForArguments :: "oaAuthorizationOperatorSetRulesForArguments reading" where
  "decodeOAAuthorizationOperatorSetRulesForArguments = decodeRecord
     [(''expected_revision'', into reader_str (\<lambda>x v. v\<lparr>SetRulesFor_expectedRevision := x\<rparr>)),
      (''rules'', into (decodeList decodePolicyRule) (\<lambda>x v. v\<lparr>SetRulesFor_rules := x\<rparr>)),
      (''ttl_ms'', into reader_int64 (\<lambda>x v. v\<lparr>SetRulesFor_ttlMs := x\<rparr>)),
      (''why'', into reader_str (\<lambda>x v. v\<lparr>SetRulesFor_why := x\<rparr>))]
     [''expected_revision'', ''rules'', ''ttl_ms'', ''why'']
     zero_OAAuthorizationOperatorSetRulesForArguments"

definition typed_OAAuthorizationOperatorSetRulesForArguments :: "oaAuthorizationOperatorSetRulesForArguments \<Rightarrow> bool" where
  "typed_OAAuthorizationOperatorSetRulesForArguments v \<longleftrightarrow> validUTF8 (SetRulesFor_expectedRevision v) \<and> list_all typed_PolicyRule (SetRulesFor_rules v) \<and> - (2 ^ 63) \<le> SetRulesFor_ttlMs v \<and> SetRulesFor_ttlMs v < 2 ^ 63 \<and> validUTF8 (SetRulesFor_why v)"

interpretation OAAuthorizationOperatorSetRulesForArguments_wire: codec decodeOAAuthorizationOperatorSetRulesForArguments encOAAuthorizationOperatorSetRulesForArguments typed_OAAuthorizationOperatorSetRulesForArguments 4
  by (rule codec_record [OF decodeOAAuthorizationOperatorSetRulesForArguments_def encOAAuthorizationOperatorSetRulesForArguments_def [unfolded append.simps]])
     (rule wire | (simp add: typed_OAAuthorizationOperatorSetRulesForArguments_def code_def validUTF8_none; fail))+

subsection \<open>oaAuthorizationOperatorReadRuleArguments\<close>

record oaAuthorizationOperatorReadRuleArguments =
  ReadRule_subject :: subject
  ReadRule_action :: bytes
  ReadRule_resource :: bytes

definition encOAAuthorizationOperatorReadRuleArguments :: "oaAuthorizationOperatorReadRuleArguments \<Rightarrow> nat \<Rightarrow> bytes" where
  "encOAAuthorizationOperatorReadRuleArguments v depth = encObject depth
     [encMember depth ''subject'' (encSubject (ReadRule_subject v) (depth + 1)),
      encMember depth ''action'' (esc (ReadRule_action v)),
      encMember depth ''resource'' (esc (ReadRule_resource v))]"

abbreviation zero_OAAuthorizationOperatorReadRuleArguments :: oaAuthorizationOperatorReadRuleArguments where
  "zero_OAAuthorizationOperatorReadRuleArguments \<equiv> \<lparr>ReadRule_subject = zero_Subject, ReadRule_action = [], ReadRule_resource = []\<rparr>"

definition decodeOAAuthorizationOperatorReadRuleArguments :: "oaAuthorizationOperatorReadRuleArguments reading" where
  "decodeOAAuthorizationOperatorReadRuleArguments = decodeRecord
     [(''subject'', into decodeSubject (\<lambda>x v. v\<lparr>ReadRule_subject := x\<rparr>)),
      (''action'', into reader_str (\<lambda>x v. v\<lparr>ReadRule_action := x\<rparr>)),
      (''resource'', into reader_str (\<lambda>x v. v\<lparr>ReadRule_resource := x\<rparr>))]
     [''subject'', ''action'', ''resource'']
     zero_OAAuthorizationOperatorReadRuleArguments"

definition typed_OAAuthorizationOperatorReadRuleArguments :: "oaAuthorizationOperatorReadRuleArguments \<Rightarrow> bool" where
  "typed_OAAuthorizationOperatorReadRuleArguments v \<longleftrightarrow> typed_Subject (ReadRule_subject v) \<and> validUTF8 (ReadRule_action v) \<and> validUTF8 (ReadRule_resource v)"

interpretation OAAuthorizationOperatorReadRuleArguments_wire: codec decodeOAAuthorizationOperatorReadRuleArguments encOAAuthorizationOperatorReadRuleArguments typed_OAAuthorizationOperatorReadRuleArguments 2
  by (rule codec_record [OF decodeOAAuthorizationOperatorReadRuleArguments_def encOAAuthorizationOperatorReadRuleArguments_def [unfolded append.simps]])
     (rule wire | (simp add: typed_OAAuthorizationOperatorReadRuleArguments_def code_def validUTF8_none; fail))+

subsection \<open>oaAuthorizationOperatorRegisterActionArguments\<close>

record oaAuthorizationOperatorRegisterActionArguments =
  RegisterAction_expectedRevision :: bytes
  RegisterAction_action :: bytes

definition encOAAuthorizationOperatorRegisterActionArguments :: "oaAuthorizationOperatorRegisterActionArguments \<Rightarrow> nat \<Rightarrow> bytes" where
  "encOAAuthorizationOperatorRegisterActionArguments v depth = encObject depth
     [encMember depth ''expected_revision'' (esc (RegisterAction_expectedRevision v)),
      encMember depth ''action'' (esc (RegisterAction_action v))]"

abbreviation zero_OAAuthorizationOperatorRegisterActionArguments :: oaAuthorizationOperatorRegisterActionArguments where
  "zero_OAAuthorizationOperatorRegisterActionArguments \<equiv> \<lparr>RegisterAction_expectedRevision = [], RegisterAction_action = []\<rparr>"

definition decodeOAAuthorizationOperatorRegisterActionArguments :: "oaAuthorizationOperatorRegisterActionArguments reading" where
  "decodeOAAuthorizationOperatorRegisterActionArguments = decodeRecord
     [(''expected_revision'', into reader_str (\<lambda>x v. v\<lparr>RegisterAction_expectedRevision := x\<rparr>)),
      (''action'', into reader_str (\<lambda>x v. v\<lparr>RegisterAction_action := x\<rparr>))]
     [''expected_revision'', ''action'']
     zero_OAAuthorizationOperatorRegisterActionArguments"

definition typed_OAAuthorizationOperatorRegisterActionArguments :: "oaAuthorizationOperatorRegisterActionArguments \<Rightarrow> bool" where
  "typed_OAAuthorizationOperatorRegisterActionArguments v \<longleftrightarrow> validUTF8 (RegisterAction_expectedRevision v) \<and> validUTF8 (RegisterAction_action v)"

interpretation OAAuthorizationOperatorRegisterActionArguments_wire: codec decodeOAAuthorizationOperatorRegisterActionArguments encOAAuthorizationOperatorRegisterActionArguments typed_OAAuthorizationOperatorRegisterActionArguments 1
  by (rule codec_record [OF decodeOAAuthorizationOperatorRegisterActionArguments_def encOAAuthorizationOperatorRegisterActionArguments_def [unfolded append.simps]])
     (rule wire | (simp add: typed_OAAuthorizationOperatorRegisterActionArguments_def code_def validUTF8_none; fail))+

subsection \<open>oaAuthorizationOperatorRetireActionArguments\<close>

record oaAuthorizationOperatorRetireActionArguments =
  RetireAction_expectedRevision :: bytes
  RetireAction_action :: bytes

definition encOAAuthorizationOperatorRetireActionArguments :: "oaAuthorizationOperatorRetireActionArguments \<Rightarrow> nat \<Rightarrow> bytes" where
  "encOAAuthorizationOperatorRetireActionArguments v depth = encObject depth
     [encMember depth ''expected_revision'' (esc (RetireAction_expectedRevision v)),
      encMember depth ''action'' (esc (RetireAction_action v))]"

abbreviation zero_OAAuthorizationOperatorRetireActionArguments :: oaAuthorizationOperatorRetireActionArguments where
  "zero_OAAuthorizationOperatorRetireActionArguments \<equiv> \<lparr>RetireAction_expectedRevision = [], RetireAction_action = []\<rparr>"

definition decodeOAAuthorizationOperatorRetireActionArguments :: "oaAuthorizationOperatorRetireActionArguments reading" where
  "decodeOAAuthorizationOperatorRetireActionArguments = decodeRecord
     [(''expected_revision'', into reader_str (\<lambda>x v. v\<lparr>RetireAction_expectedRevision := x\<rparr>)),
      (''action'', into reader_str (\<lambda>x v. v\<lparr>RetireAction_action := x\<rparr>))]
     [''expected_revision'', ''action'']
     zero_OAAuthorizationOperatorRetireActionArguments"

definition typed_OAAuthorizationOperatorRetireActionArguments :: "oaAuthorizationOperatorRetireActionArguments \<Rightarrow> bool" where
  "typed_OAAuthorizationOperatorRetireActionArguments v \<longleftrightarrow> validUTF8 (RetireAction_expectedRevision v) \<and> validUTF8 (RetireAction_action v)"

interpretation OAAuthorizationOperatorRetireActionArguments_wire: codec decodeOAAuthorizationOperatorRetireActionArguments encOAAuthorizationOperatorRetireActionArguments typed_OAAuthorizationOperatorRetireActionArguments 1
  by (rule codec_record [OF decodeOAAuthorizationOperatorRetireActionArguments_def encOAAuthorizationOperatorRetireActionArguments_def [unfolded append.simps]])
     (rule wire | (simp add: typed_OAAuthorizationOperatorRetireActionArguments_def code_def validUTF8_none; fail))+

subsection \<open>oaAuthorizationOperatorExplainForArguments\<close>

record oaAuthorizationOperatorExplainForArguments =
  ExplainFor_subject :: subject
  ExplainFor_action :: bytes
  ExplainFor_resource :: bytes

definition encOAAuthorizationOperatorExplainForArguments :: "oaAuthorizationOperatorExplainForArguments \<Rightarrow> nat \<Rightarrow> bytes" where
  "encOAAuthorizationOperatorExplainForArguments v depth = encObject depth
     [encMember depth ''subject'' (encSubject (ExplainFor_subject v) (depth + 1)),
      encMember depth ''action'' (esc (ExplainFor_action v)),
      encMember depth ''resource'' (esc (ExplainFor_resource v))]"

abbreviation zero_OAAuthorizationOperatorExplainForArguments :: oaAuthorizationOperatorExplainForArguments where
  "zero_OAAuthorizationOperatorExplainForArguments \<equiv> \<lparr>ExplainFor_subject = zero_Subject, ExplainFor_action = [], ExplainFor_resource = []\<rparr>"

definition decodeOAAuthorizationOperatorExplainForArguments :: "oaAuthorizationOperatorExplainForArguments reading" where
  "decodeOAAuthorizationOperatorExplainForArguments = decodeRecord
     [(''subject'', into decodeSubject (\<lambda>x v. v\<lparr>ExplainFor_subject := x\<rparr>)),
      (''action'', into reader_str (\<lambda>x v. v\<lparr>ExplainFor_action := x\<rparr>)),
      (''resource'', into reader_str (\<lambda>x v. v\<lparr>ExplainFor_resource := x\<rparr>))]
     [''subject'', ''action'', ''resource'']
     zero_OAAuthorizationOperatorExplainForArguments"

definition typed_OAAuthorizationOperatorExplainForArguments :: "oaAuthorizationOperatorExplainForArguments \<Rightarrow> bool" where
  "typed_OAAuthorizationOperatorExplainForArguments v \<longleftrightarrow> typed_Subject (ExplainFor_subject v) \<and> validUTF8 (ExplainFor_action v) \<and> validUTF8 (ExplainFor_resource v)"

interpretation OAAuthorizationOperatorExplainForArguments_wire: codec decodeOAAuthorizationOperatorExplainForArguments encOAAuthorizationOperatorExplainForArguments typed_OAAuthorizationOperatorExplainForArguments 2
  by (rule codec_record [OF decodeOAAuthorizationOperatorExplainForArguments_def encOAAuthorizationOperatorExplainForArguments_def [unfolded append.simps]])
     (rule wire | (simp add: typed_OAAuthorizationOperatorExplainForArguments_def code_def validUTF8_none; fail))+

subsection \<open>oaAuthorizationOperatorListDefaultsArguments\<close>

type_synonym oaAuthorizationOperatorListDefaultsArguments = unit

definition encOAAuthorizationOperatorListDefaultsArguments :: "oaAuthorizationOperatorListDefaultsArguments \<Rightarrow> nat \<Rightarrow> bytes" where
  "encOAAuthorizationOperatorListDefaultsArguments v depth = ''{}''"

definition noMember :: "unit \<Rightarrow> unit reading" where
  "noMember v r =
     (if at1 r \<noteq> quote then Inl (refuse r ''malformed'')
      else case reader_str r of
        Inl e \<Rightarrow> Inl e
      | Inr (key, r1) \<Rightarrow>
         if at1 (ws r1) \<noteq> CHR '':'' then Inl (refuse (ws r1) ''malformed'') else Inl (refuse (ws r1) ''unknown_field''))"

definition decodeOAAuthorizationOperatorListDefaultsArguments :: "oaAuthorizationOperatorListDefaultsArguments reading" where
  "decodeOAAuthorizationOperatorListDefaultsArguments = container (CHR ''{'') (CHR ''}'') noMember ()"

definition typed_OAAuthorizationOperatorListDefaultsArguments :: "oaAuthorizationOperatorListDefaultsArguments \<Rightarrow> bool" where
  "typed_OAAuthorizationOperatorListDefaultsArguments v \<longleftrightarrow> True"

lemma noMember_refuses: "noMember v r \<noteq> Inr x"
  by (auto simp: noMember_def split: sum.split)

lemma speaks_noMember: "speaks (noMember v)"
  unfolding noMember_def by (intro speaksI told_if told_refuse told_case speaksD [OF speaks_str])

lemma tame_noMember: "tame (noMember v)"
  unfolding noMember_def by (intro tameI within_if within_refuse within_step [OF tame_str])

interpretation OAAuthorizationOperatorListDefaultsArguments_wire:
  codec decodeOAAuthorizationOperatorListDefaultsArguments encOAAuthorizationOperatorListDefaultsArguments
    typed_OAAuthorizationOperatorListDefaultsArguments 1
proof
  fix v :: unit and d
  have "reads 1 (container (CHR ''{'') (CHR ''}'') noMember ()) (bracket (CHR ''{'') (CHR ''}'') d d []) ()"
    unfolding One_nat_def by (rule container_reads) (simp_all add: brackets_def)
  moreover have "codes 1 (decodeRecord [] [] ()) (bracket (CHR ''{'') (CHR ''}'') d d []) ()"
    using codes_bracket [of 0 "[] :: unit fields" "()" "[]" "()" "[]" d d] by simp
  ultimately show "codes 1 decodeOAAuthorizationOperatorListDefaultsArguments (encOAAuthorizationOperatorListDefaultsArguments v d) v"
    by (simp add: codes_def decodeOAAuthorizationOperatorListDefaultsArguments_def encOAAuthorizationOperatorListDefaultsArguments_def
        bracket_def)
next
  show "tame decodeOAAuthorizationOperatorListDefaultsArguments"
    unfolding decodeOAAuthorizationOperatorListDefaultsArguments_def by (rule tame_container) (rule tame_noMember)
  show "speaks decodeOAAuthorizationOperatorListDefaultsArguments"
    unfolding decodeOAAuthorizationOperatorListDefaultsArguments_def
    by (rule speaks_container) (rule speaks_noMember)
  show "yields typed_OAAuthorizationOperatorListDefaultsArguments decodeOAAuthorizationOperatorListDefaultsArguments"
    by (rule yieldsI) (simp add: typed_OAAuthorizationOperatorListDefaultsArguments_def)
  show "skips decodeOAAuthorizationOperatorListDefaultsArguments"
    unfolding decodeOAAuthorizationOperatorListDefaultsArguments_def
    by (rule skips_curly [where R = "\<lambda>s t. True" and step = noMember and s = "()"]) (auto intro!: matchedI simp: noMember_refuses)
qed

subsection \<open>oaAuthorizationOperatorSetDefaultArguments\<close>

record oaAuthorizationOperatorSetDefaultArguments =
  SetDefault_expectedRevision :: bytes
  SetDefault_name :: bytes
  SetDefault_on :: bool

definition encOAAuthorizationOperatorSetDefaultArguments :: "oaAuthorizationOperatorSetDefaultArguments \<Rightarrow> nat \<Rightarrow> bytes" where
  "encOAAuthorizationOperatorSetDefaultArguments v depth = encObject depth
     [encMember depth ''expected_revision'' (esc (SetDefault_expectedRevision v)),
      encMember depth ''name'' (esc (SetDefault_name v)),
      encMember depth ''on'' (encBool (SetDefault_on v))]"

abbreviation zero_OAAuthorizationOperatorSetDefaultArguments :: oaAuthorizationOperatorSetDefaultArguments where
  "zero_OAAuthorizationOperatorSetDefaultArguments \<equiv> \<lparr>SetDefault_expectedRevision = [], SetDefault_name = [], SetDefault_on = False\<rparr>"

definition decodeOAAuthorizationOperatorSetDefaultArguments :: "oaAuthorizationOperatorSetDefaultArguments reading" where
  "decodeOAAuthorizationOperatorSetDefaultArguments = decodeRecord
     [(''expected_revision'', into reader_str (\<lambda>x v. v\<lparr>SetDefault_expectedRevision := x\<rparr>)),
      (''name'', into reader_str (\<lambda>x v. v\<lparr>SetDefault_name := x\<rparr>)),
      (''on'', into reader_boolean (\<lambda>x v. v\<lparr>SetDefault_on := x\<rparr>))]
     [''expected_revision'', ''name'', ''on'']
     zero_OAAuthorizationOperatorSetDefaultArguments"

definition typed_OAAuthorizationOperatorSetDefaultArguments :: "oaAuthorizationOperatorSetDefaultArguments \<Rightarrow> bool" where
  "typed_OAAuthorizationOperatorSetDefaultArguments v \<longleftrightarrow> validUTF8 (SetDefault_expectedRevision v) \<and> validUTF8 (SetDefault_name v)"

interpretation OAAuthorizationOperatorSetDefaultArguments_wire: codec decodeOAAuthorizationOperatorSetDefaultArguments encOAAuthorizationOperatorSetDefaultArguments typed_OAAuthorizationOperatorSetDefaultArguments 1
  by (rule codec_record [OF decodeOAAuthorizationOperatorSetDefaultArguments_def encOAAuthorizationOperatorSetDefaultArguments_def [unfolded append.simps]])
     (rule wire | (simp add: typed_OAAuthorizationOperatorSetDefaultArguments_def code_def validUTF8_none; fail))+

subsection \<open>oaSelectorAuthorizationListPermissionDefinitionsArguments\<close>

record oaSelectorAuthorizationListPermissionDefinitionsArguments =
  ListPermissionDefinitions_cursor :: bytes
  ListPermissionDefinitions_limit :: int

definition encOASelectorAuthorizationListPermissionDefinitionsArguments :: "oaSelectorAuthorizationListPermissionDefinitionsArguments \<Rightarrow> nat \<Rightarrow> bytes" where
  "encOASelectorAuthorizationListPermissionDefinitionsArguments v depth = encObject depth
     [encMember depth ''cursor'' (esc (ListPermissionDefinitions_cursor v)),
      encMember depth ''limit'' (num (ListPermissionDefinitions_limit v))]"

abbreviation zero_OASelectorAuthorizationListPermissionDefinitionsArguments :: oaSelectorAuthorizationListPermissionDefinitionsArguments where
  "zero_OASelectorAuthorizationListPermissionDefinitionsArguments \<equiv> \<lparr>ListPermissionDefinitions_cursor = [], ListPermissionDefinitions_limit = 0\<rparr>"

definition decodeOASelectorAuthorizationListPermissionDefinitionsArguments :: "oaSelectorAuthorizationListPermissionDefinitionsArguments reading" where
  "decodeOASelectorAuthorizationListPermissionDefinitionsArguments = decodeRecord
     [(''cursor'', into reader_str (\<lambda>x v. v\<lparr>ListPermissionDefinitions_cursor := x\<rparr>)),
      (''limit'', into reader_int64 (\<lambda>x v. v\<lparr>ListPermissionDefinitions_limit := x\<rparr>))]
     [''cursor'', ''limit'']
     zero_OASelectorAuthorizationListPermissionDefinitionsArguments"

definition typed_OASelectorAuthorizationListPermissionDefinitionsArguments :: "oaSelectorAuthorizationListPermissionDefinitionsArguments \<Rightarrow> bool" where
  "typed_OASelectorAuthorizationListPermissionDefinitionsArguments v \<longleftrightarrow> validUTF8 (ListPermissionDefinitions_cursor v) \<and> - (2 ^ 63) \<le> ListPermissionDefinitions_limit v \<and> ListPermissionDefinitions_limit v < 2 ^ 63"

interpretation OASelectorAuthorizationListPermissionDefinitionsArguments_wire: codec decodeOASelectorAuthorizationListPermissionDefinitionsArguments encOASelectorAuthorizationListPermissionDefinitionsArguments typed_OASelectorAuthorizationListPermissionDefinitionsArguments 1
  by (rule codec_record [OF decodeOASelectorAuthorizationListPermissionDefinitionsArguments_def encOASelectorAuthorizationListPermissionDefinitionsArguments_def [unfolded append.simps]])
     (rule wire | (simp add: typed_OASelectorAuthorizationListPermissionDefinitionsArguments_def code_def validUTF8_none; fail))+

subsection \<open>oaSelectorAuthorizationListPermissionBundlesArguments\<close>

record oaSelectorAuthorizationListPermissionBundlesArguments =
  ListPermissionBundles_cursor :: bytes
  ListPermissionBundles_limit :: int

definition encOASelectorAuthorizationListPermissionBundlesArguments :: "oaSelectorAuthorizationListPermissionBundlesArguments \<Rightarrow> nat \<Rightarrow> bytes" where
  "encOASelectorAuthorizationListPermissionBundlesArguments v depth = encObject depth
     [encMember depth ''cursor'' (esc (ListPermissionBundles_cursor v)),
      encMember depth ''limit'' (num (ListPermissionBundles_limit v))]"

abbreviation zero_OASelectorAuthorizationListPermissionBundlesArguments :: oaSelectorAuthorizationListPermissionBundlesArguments where
  "zero_OASelectorAuthorizationListPermissionBundlesArguments \<equiv> \<lparr>ListPermissionBundles_cursor = [], ListPermissionBundles_limit = 0\<rparr>"

definition decodeOASelectorAuthorizationListPermissionBundlesArguments :: "oaSelectorAuthorizationListPermissionBundlesArguments reading" where
  "decodeOASelectorAuthorizationListPermissionBundlesArguments = decodeRecord
     [(''cursor'', into reader_str (\<lambda>x v. v\<lparr>ListPermissionBundles_cursor := x\<rparr>)),
      (''limit'', into reader_int64 (\<lambda>x v. v\<lparr>ListPermissionBundles_limit := x\<rparr>))]
     [''cursor'', ''limit'']
     zero_OASelectorAuthorizationListPermissionBundlesArguments"

definition typed_OASelectorAuthorizationListPermissionBundlesArguments :: "oaSelectorAuthorizationListPermissionBundlesArguments \<Rightarrow> bool" where
  "typed_OASelectorAuthorizationListPermissionBundlesArguments v \<longleftrightarrow> validUTF8 (ListPermissionBundles_cursor v) \<and> - (2 ^ 63) \<le> ListPermissionBundles_limit v \<and> ListPermissionBundles_limit v < 2 ^ 63"

interpretation OASelectorAuthorizationListPermissionBundlesArguments_wire: codec decodeOASelectorAuthorizationListPermissionBundlesArguments encOASelectorAuthorizationListPermissionBundlesArguments typed_OASelectorAuthorizationListPermissionBundlesArguments 1
  by (rule codec_record [OF decodeOASelectorAuthorizationListPermissionBundlesArguments_def encOASelectorAuthorizationListPermissionBundlesArguments_def [unfolded append.simps]])
     (rule wire | (simp add: typed_OASelectorAuthorizationListPermissionBundlesArguments_def code_def validUTF8_none; fail))+

subsection \<open>oaSelectorAuthorizationCheckBatchArguments\<close>

record oaSelectorAuthorizationCheckBatchArguments =
  CheckBatch_request :: CheckBatchRequest

definition encOASelectorAuthorizationCheckBatchArguments :: "oaSelectorAuthorizationCheckBatchArguments \<Rightarrow> nat \<Rightarrow> bytes" where
  "encOASelectorAuthorizationCheckBatchArguments v depth = encObject depth
     [encMember depth ''request'' (encCheckBatchRequest (CheckBatch_request v) (depth + 1))]"

abbreviation zero_OASelectorAuthorizationCheckBatchArguments :: oaSelectorAuthorizationCheckBatchArguments where
  "zero_OASelectorAuthorizationCheckBatchArguments \<equiv> \<lparr>CheckBatch_request = zero_CheckBatchRequest\<rparr>"

definition decodeOASelectorAuthorizationCheckBatchArguments :: "oaSelectorAuthorizationCheckBatchArguments reading" where
  "decodeOASelectorAuthorizationCheckBatchArguments = decodeRecord
     [(''request'', into decodeCheckBatchRequest (\<lambda>x v. v\<lparr>CheckBatch_request := x\<rparr>))]
     [''request'']
     zero_OASelectorAuthorizationCheckBatchArguments"

definition typed_OASelectorAuthorizationCheckBatchArguments :: "oaSelectorAuthorizationCheckBatchArguments \<Rightarrow> bool" where
  "typed_OASelectorAuthorizationCheckBatchArguments v \<longleftrightarrow> typed_CheckBatchRequest (CheckBatch_request v)"

interpretation OASelectorAuthorizationCheckBatchArguments_wire: codec decodeOASelectorAuthorizationCheckBatchArguments encOASelectorAuthorizationCheckBatchArguments typed_OASelectorAuthorizationCheckBatchArguments 5
  by (rule codec_record [OF decodeOASelectorAuthorizationCheckBatchArguments_def encOASelectorAuthorizationCheckBatchArguments_def [unfolded append.simps]])
     (rule wire | (simp add: typed_OASelectorAuthorizationCheckBatchArguments_def code_def validUTF8_none; fail))+

subsection \<open>oaSelectorAuthorizationCheckBatchForArguments\<close>

record oaSelectorAuthorizationCheckBatchForArguments =
  CheckBatchFor_subject :: subject
  CheckBatchFor_request :: CheckBatchRequest

definition encOASelectorAuthorizationCheckBatchForArguments :: "oaSelectorAuthorizationCheckBatchForArguments \<Rightarrow> nat \<Rightarrow> bytes" where
  "encOASelectorAuthorizationCheckBatchForArguments v depth = encObject depth
     [encMember depth ''subject'' (encSubject (CheckBatchFor_subject v) (depth + 1)),
      encMember depth ''request'' (encCheckBatchRequest (CheckBatchFor_request v) (depth + 1))]"

abbreviation zero_OASelectorAuthorizationCheckBatchForArguments :: oaSelectorAuthorizationCheckBatchForArguments where
  "zero_OASelectorAuthorizationCheckBatchForArguments \<equiv> \<lparr>CheckBatchFor_subject = zero_Subject, CheckBatchFor_request = zero_CheckBatchRequest\<rparr>"

definition decodeOASelectorAuthorizationCheckBatchForArguments :: "oaSelectorAuthorizationCheckBatchForArguments reading" where
  "decodeOASelectorAuthorizationCheckBatchForArguments = decodeRecord
     [(''subject'', into decodeSubject (\<lambda>x v. v\<lparr>CheckBatchFor_subject := x\<rparr>)),
      (''request'', into decodeCheckBatchRequest (\<lambda>x v. v\<lparr>CheckBatchFor_request := x\<rparr>))]
     [''subject'', ''request'']
     zero_OASelectorAuthorizationCheckBatchForArguments"

definition typed_OASelectorAuthorizationCheckBatchForArguments :: "oaSelectorAuthorizationCheckBatchForArguments \<Rightarrow> bool" where
  "typed_OASelectorAuthorizationCheckBatchForArguments v \<longleftrightarrow> typed_Subject (CheckBatchFor_subject v) \<and> typed_CheckBatchRequest (CheckBatchFor_request v)"

interpretation OASelectorAuthorizationCheckBatchForArguments_wire: codec decodeOASelectorAuthorizationCheckBatchForArguments encOASelectorAuthorizationCheckBatchForArguments typed_OASelectorAuthorizationCheckBatchForArguments 5
  by (rule codec_record [OF decodeOASelectorAuthorizationCheckBatchForArguments_def encOASelectorAuthorizationCheckBatchForArguments_def [unfolded append.simps]])
     (rule wire | (simp add: typed_OASelectorAuthorizationCheckBatchForArguments_def code_def validUTF8_none; fail))+

subsection \<open>oaSelectorAuthorizationCheckLegacyOperationForArguments\<close>

record oaSelectorAuthorizationCheckLegacyOperationForArguments =
  CheckLegacyOperationFor_subject :: subject
  CheckLegacyOperationFor_request :: LegacyOperationRequest

definition encOASelectorAuthorizationCheckLegacyOperationForArguments :: "oaSelectorAuthorizationCheckLegacyOperationForArguments \<Rightarrow> nat \<Rightarrow> bytes" where
  "encOASelectorAuthorizationCheckLegacyOperationForArguments v depth = encObject depth
     [encMember depth ''subject'' (encSubject (CheckLegacyOperationFor_subject v) (depth + 1)),
      encMember depth ''request'' (encLegacyOperationRequest (CheckLegacyOperationFor_request v) (depth + 1))]"

abbreviation zero_OASelectorAuthorizationCheckLegacyOperationForArguments :: oaSelectorAuthorizationCheckLegacyOperationForArguments where
  "zero_OASelectorAuthorizationCheckLegacyOperationForArguments \<equiv> \<lparr>CheckLegacyOperationFor_subject = zero_Subject, CheckLegacyOperationFor_request = zero_LegacyOperationRequest\<rparr>"

definition decodeOASelectorAuthorizationCheckLegacyOperationForArguments :: "oaSelectorAuthorizationCheckLegacyOperationForArguments reading" where
  "decodeOASelectorAuthorizationCheckLegacyOperationForArguments = decodeRecord
     [(''subject'', into decodeSubject (\<lambda>x v. v\<lparr>CheckLegacyOperationFor_subject := x\<rparr>)),
      (''request'', into decodeLegacyOperationRequest (\<lambda>x v. v\<lparr>CheckLegacyOperationFor_request := x\<rparr>))]
     [''subject'', ''request'']
     zero_OASelectorAuthorizationCheckLegacyOperationForArguments"

definition typed_OASelectorAuthorizationCheckLegacyOperationForArguments :: "oaSelectorAuthorizationCheckLegacyOperationForArguments \<Rightarrow> bool" where
  "typed_OASelectorAuthorizationCheckLegacyOperationForArguments v \<longleftrightarrow> typed_Subject (CheckLegacyOperationFor_subject v) \<and> typed_LegacyOperationRequest (CheckLegacyOperationFor_request v)"

interpretation OASelectorAuthorizationCheckLegacyOperationForArguments_wire: codec decodeOASelectorAuthorizationCheckLegacyOperationForArguments encOASelectorAuthorizationCheckLegacyOperationForArguments typed_OASelectorAuthorizationCheckLegacyOperationForArguments 4
  by (rule codec_record [OF decodeOASelectorAuthorizationCheckLegacyOperationForArguments_def encOASelectorAuthorizationCheckLegacyOperationForArguments_def [unfolded append.simps]])
     (rule wire | (simp add: typed_OASelectorAuthorizationCheckLegacyOperationForArguments_def code_def validUTF8_none; fail))+

subsection \<open>oaSelectorAuthorizationOperatorListSelectorRulesArguments\<close>

record oaSelectorAuthorizationOperatorListSelectorRulesArguments =
  ListSelectorRules_cursor :: bytes
  ListSelectorRules_limit :: int

definition encOASelectorAuthorizationOperatorListSelectorRulesArguments :: "oaSelectorAuthorizationOperatorListSelectorRulesArguments \<Rightarrow> nat \<Rightarrow> bytes" where
  "encOASelectorAuthorizationOperatorListSelectorRulesArguments v depth = encObject depth
     [encMember depth ''cursor'' (esc (ListSelectorRules_cursor v)),
      encMember depth ''limit'' (num (ListSelectorRules_limit v))]"

abbreviation zero_OASelectorAuthorizationOperatorListSelectorRulesArguments :: oaSelectorAuthorizationOperatorListSelectorRulesArguments where
  "zero_OASelectorAuthorizationOperatorListSelectorRulesArguments \<equiv> \<lparr>ListSelectorRules_cursor = [], ListSelectorRules_limit = 0\<rparr>"

definition decodeOASelectorAuthorizationOperatorListSelectorRulesArguments :: "oaSelectorAuthorizationOperatorListSelectorRulesArguments reading" where
  "decodeOASelectorAuthorizationOperatorListSelectorRulesArguments = decodeRecord
     [(''cursor'', into reader_str (\<lambda>x v. v\<lparr>ListSelectorRules_cursor := x\<rparr>)),
      (''limit'', into reader_int64 (\<lambda>x v. v\<lparr>ListSelectorRules_limit := x\<rparr>))]
     [''cursor'', ''limit'']
     zero_OASelectorAuthorizationOperatorListSelectorRulesArguments"

definition typed_OASelectorAuthorizationOperatorListSelectorRulesArguments :: "oaSelectorAuthorizationOperatorListSelectorRulesArguments \<Rightarrow> bool" where
  "typed_OASelectorAuthorizationOperatorListSelectorRulesArguments v \<longleftrightarrow> validUTF8 (ListSelectorRules_cursor v) \<and> - (2 ^ 63) \<le> ListSelectorRules_limit v \<and> ListSelectorRules_limit v < 2 ^ 63"

interpretation OASelectorAuthorizationOperatorListSelectorRulesArguments_wire: codec decodeOASelectorAuthorizationOperatorListSelectorRulesArguments encOASelectorAuthorizationOperatorListSelectorRulesArguments typed_OASelectorAuthorizationOperatorListSelectorRulesArguments 1
  by (rule codec_record [OF decodeOASelectorAuthorizationOperatorListSelectorRulesArguments_def encOASelectorAuthorizationOperatorListSelectorRulesArguments_def [unfolded append.simps]])
     (rule wire | (simp add: typed_OASelectorAuthorizationOperatorListSelectorRulesArguments_def code_def validUTF8_none; fail))+

subsection \<open>oaSelectorAuthorizationOperatorReadSelectorRuleArguments\<close>

record oaSelectorAuthorizationOperatorReadSelectorRuleArguments =
  ReadSelectorRule_subject :: subject
  ReadSelectorRule_selection :: PermissionSelection

definition encOASelectorAuthorizationOperatorReadSelectorRuleArguments :: "oaSelectorAuthorizationOperatorReadSelectorRuleArguments \<Rightarrow> nat \<Rightarrow> bytes" where
  "encOASelectorAuthorizationOperatorReadSelectorRuleArguments v depth = encObject depth
     [encMember depth ''subject'' (encSubject (ReadSelectorRule_subject v) (depth + 1)),
      encMember depth ''selection'' (encPermissionSelection (ReadSelectorRule_selection v) (depth + 1))]"

abbreviation zero_OASelectorAuthorizationOperatorReadSelectorRuleArguments :: oaSelectorAuthorizationOperatorReadSelectorRuleArguments where
  "zero_OASelectorAuthorizationOperatorReadSelectorRuleArguments \<equiv> \<lparr>ReadSelectorRule_subject = zero_Subject, ReadSelectorRule_selection = zero_PermissionSelection\<rparr>"

definition decodeOASelectorAuthorizationOperatorReadSelectorRuleArguments :: "oaSelectorAuthorizationOperatorReadSelectorRuleArguments reading" where
  "decodeOASelectorAuthorizationOperatorReadSelectorRuleArguments = decodeRecord
     [(''subject'', into decodeSubject (\<lambda>x v. v\<lparr>ReadSelectorRule_subject := x\<rparr>)),
      (''selection'', into decodePermissionSelection (\<lambda>x v. v\<lparr>ReadSelectorRule_selection := x\<rparr>))]
     [''subject'', ''selection'']
     zero_OASelectorAuthorizationOperatorReadSelectorRuleArguments"

definition typed_OASelectorAuthorizationOperatorReadSelectorRuleArguments :: "oaSelectorAuthorizationOperatorReadSelectorRuleArguments \<Rightarrow> bool" where
  "typed_OASelectorAuthorizationOperatorReadSelectorRuleArguments v \<longleftrightarrow> typed_Subject (ReadSelectorRule_subject v) \<and> typed_PermissionSelection (ReadSelectorRule_selection v)"

interpretation OASelectorAuthorizationOperatorReadSelectorRuleArguments_wire: codec decodeOASelectorAuthorizationOperatorReadSelectorRuleArguments encOASelectorAuthorizationOperatorReadSelectorRuleArguments typed_OASelectorAuthorizationOperatorReadSelectorRuleArguments 3
  by (rule codec_record [OF decodeOASelectorAuthorizationOperatorReadSelectorRuleArguments_def encOASelectorAuthorizationOperatorReadSelectorRuleArguments_def [unfolded append.simps]])
     (rule wire | (simp add: typed_OASelectorAuthorizationOperatorReadSelectorRuleArguments_def code_def validUTF8_none; fail))+

subsection \<open>oaSelectorAuthorizationOperatorSetSelectorRuleArguments\<close>

record oaSelectorAuthorizationOperatorSetSelectorRuleArguments =
  SetSelectorRule_expectedRevision :: bytes
  SetSelectorRule_rule :: SelectorRule
  SetSelectorRule_ttlMs :: int
  SetSelectorRule_why :: bytes

definition encOASelectorAuthorizationOperatorSetSelectorRuleArguments :: "oaSelectorAuthorizationOperatorSetSelectorRuleArguments \<Rightarrow> nat \<Rightarrow> bytes" where
  "encOASelectorAuthorizationOperatorSetSelectorRuleArguments v depth = encObject depth
     [encMember depth ''expected_revision'' (esc (SetSelectorRule_expectedRevision v)),
      encMember depth ''rule'' (encSelectorRule (SetSelectorRule_rule v) (depth + 1)),
      encMember depth ''ttl_ms'' (num (SetSelectorRule_ttlMs v)),
      encMember depth ''why'' (esc (SetSelectorRule_why v))]"

abbreviation zero_OASelectorAuthorizationOperatorSetSelectorRuleArguments :: oaSelectorAuthorizationOperatorSetSelectorRuleArguments where
  "zero_OASelectorAuthorizationOperatorSetSelectorRuleArguments \<equiv> \<lparr>SetSelectorRule_expectedRevision = [], SetSelectorRule_rule = zero_SelectorRule, SetSelectorRule_ttlMs = 0, SetSelectorRule_why = []\<rparr>"

definition decodeOASelectorAuthorizationOperatorSetSelectorRuleArguments :: "oaSelectorAuthorizationOperatorSetSelectorRuleArguments reading" where
  "decodeOASelectorAuthorizationOperatorSetSelectorRuleArguments = decodeRecord
     [(''expected_revision'', into reader_str (\<lambda>x v. v\<lparr>SetSelectorRule_expectedRevision := x\<rparr>)),
      (''rule'', into decodeSelectorRule (\<lambda>x v. v\<lparr>SetSelectorRule_rule := x\<rparr>)),
      (''ttl_ms'', into reader_int64 (\<lambda>x v. v\<lparr>SetSelectorRule_ttlMs := x\<rparr>)),
      (''why'', into reader_str (\<lambda>x v. v\<lparr>SetSelectorRule_why := x\<rparr>))]
     [''expected_revision'', ''rule'', ''ttl_ms'', ''why'']
     zero_OASelectorAuthorizationOperatorSetSelectorRuleArguments"

definition typed_OASelectorAuthorizationOperatorSetSelectorRuleArguments :: "oaSelectorAuthorizationOperatorSetSelectorRuleArguments \<Rightarrow> bool" where
  "typed_OASelectorAuthorizationOperatorSetSelectorRuleArguments v \<longleftrightarrow> validUTF8 (SetSelectorRule_expectedRevision v) \<and> typed_SelectorRule (SetSelectorRule_rule v) \<and> - (2 ^ 63) \<le> SetSelectorRule_ttlMs v \<and> SetSelectorRule_ttlMs v < 2 ^ 63 \<and> validUTF8 (SetSelectorRule_why v)"

interpretation OASelectorAuthorizationOperatorSetSelectorRuleArguments_wire: codec decodeOASelectorAuthorizationOperatorSetSelectorRuleArguments encOASelectorAuthorizationOperatorSetSelectorRuleArguments typed_OASelectorAuthorizationOperatorSetSelectorRuleArguments 4
  by (rule codec_record [OF decodeOASelectorAuthorizationOperatorSetSelectorRuleArguments_def encOASelectorAuthorizationOperatorSetSelectorRuleArguments_def [unfolded append.simps]])
     (rule wire | (simp add: typed_OASelectorAuthorizationOperatorSetSelectorRuleArguments_def code_def validUTF8_none; fail))+

subsection \<open>oaSelectorAuthorizationOperatorRemoveSelectorRuleArguments\<close>

record oaSelectorAuthorizationOperatorRemoveSelectorRuleArguments =
  RemoveSelectorRule_expectedRevision :: bytes
  RemoveSelectorRule_subject :: subject
  RemoveSelectorRule_selection :: PermissionSelection

definition encOASelectorAuthorizationOperatorRemoveSelectorRuleArguments :: "oaSelectorAuthorizationOperatorRemoveSelectorRuleArguments \<Rightarrow> nat \<Rightarrow> bytes" where
  "encOASelectorAuthorizationOperatorRemoveSelectorRuleArguments v depth = encObject depth
     [encMember depth ''expected_revision'' (esc (RemoveSelectorRule_expectedRevision v)),
      encMember depth ''subject'' (encSubject (RemoveSelectorRule_subject v) (depth + 1)),
      encMember depth ''selection'' (encPermissionSelection (RemoveSelectorRule_selection v) (depth + 1))]"

abbreviation zero_OASelectorAuthorizationOperatorRemoveSelectorRuleArguments :: oaSelectorAuthorizationOperatorRemoveSelectorRuleArguments where
  "zero_OASelectorAuthorizationOperatorRemoveSelectorRuleArguments \<equiv> \<lparr>RemoveSelectorRule_expectedRevision = [], RemoveSelectorRule_subject = zero_Subject, RemoveSelectorRule_selection = zero_PermissionSelection\<rparr>"

definition decodeOASelectorAuthorizationOperatorRemoveSelectorRuleArguments :: "oaSelectorAuthorizationOperatorRemoveSelectorRuleArguments reading" where
  "decodeOASelectorAuthorizationOperatorRemoveSelectorRuleArguments = decodeRecord
     [(''expected_revision'', into reader_str (\<lambda>x v. v\<lparr>RemoveSelectorRule_expectedRevision := x\<rparr>)),
      (''subject'', into decodeSubject (\<lambda>x v. v\<lparr>RemoveSelectorRule_subject := x\<rparr>)),
      (''selection'', into decodePermissionSelection (\<lambda>x v. v\<lparr>RemoveSelectorRule_selection := x\<rparr>))]
     [''expected_revision'', ''subject'', ''selection'']
     zero_OASelectorAuthorizationOperatorRemoveSelectorRuleArguments"

definition typed_OASelectorAuthorizationOperatorRemoveSelectorRuleArguments :: "oaSelectorAuthorizationOperatorRemoveSelectorRuleArguments \<Rightarrow> bool" where
  "typed_OASelectorAuthorizationOperatorRemoveSelectorRuleArguments v \<longleftrightarrow> validUTF8 (RemoveSelectorRule_expectedRevision v) \<and> typed_Subject (RemoveSelectorRule_subject v) \<and> typed_PermissionSelection (RemoveSelectorRule_selection v)"

interpretation OASelectorAuthorizationOperatorRemoveSelectorRuleArguments_wire: codec decodeOASelectorAuthorizationOperatorRemoveSelectorRuleArguments encOASelectorAuthorizationOperatorRemoveSelectorRuleArguments typed_OASelectorAuthorizationOperatorRemoveSelectorRuleArguments 3
  by (rule codec_record [OF decodeOASelectorAuthorizationOperatorRemoveSelectorRuleArguments_def encOASelectorAuthorizationOperatorRemoveSelectorRuleArguments_def [unfolded append.simps]])
     (rule wire | (simp add: typed_OASelectorAuthorizationOperatorRemoveSelectorRuleArguments_def code_def validUTF8_none; fail))+

subsection \<open>oaSelectorAuthorizationOperatorApplyBundleArguments\<close>

record oaSelectorAuthorizationOperatorApplyBundleArguments =
  ApplyBundle_expectedRevision :: bytes
  ApplyBundle_subject :: subject
  ApplyBundle_bundleRef :: bytes
  ApplyBundle_selector :: ResourceSelector
  ApplyBundle_ttlMs :: int
  ApplyBundle_why :: bytes

definition encOASelectorAuthorizationOperatorApplyBundleArguments :: "oaSelectorAuthorizationOperatorApplyBundleArguments \<Rightarrow> nat \<Rightarrow> bytes" where
  "encOASelectorAuthorizationOperatorApplyBundleArguments v depth = encObject depth
     [encMember depth ''expected_revision'' (esc (ApplyBundle_expectedRevision v)),
      encMember depth ''subject'' (encSubject (ApplyBundle_subject v) (depth + 1)),
      encMember depth ''bundle_ref'' (esc (ApplyBundle_bundleRef v)),
      encMember depth ''selector'' (encResourceSelector (ApplyBundle_selector v) (depth + 1)),
      encMember depth ''ttl_ms'' (num (ApplyBundle_ttlMs v)),
      encMember depth ''why'' (esc (ApplyBundle_why v))]"

abbreviation zero_OASelectorAuthorizationOperatorApplyBundleArguments :: oaSelectorAuthorizationOperatorApplyBundleArguments where
  "zero_OASelectorAuthorizationOperatorApplyBundleArguments \<equiv> \<lparr>ApplyBundle_expectedRevision = [], ApplyBundle_subject = zero_Subject, ApplyBundle_bundleRef = [], ApplyBundle_selector = zero_ResourceSelector, ApplyBundle_ttlMs = 0, ApplyBundle_why = []\<rparr>"

definition decodeOASelectorAuthorizationOperatorApplyBundleArguments :: "oaSelectorAuthorizationOperatorApplyBundleArguments reading" where
  "decodeOASelectorAuthorizationOperatorApplyBundleArguments = decodeRecord
     [(''expected_revision'', into reader_str (\<lambda>x v. v\<lparr>ApplyBundle_expectedRevision := x\<rparr>)),
      (''subject'', into decodeSubject (\<lambda>x v. v\<lparr>ApplyBundle_subject := x\<rparr>)),
      (''bundle_ref'', into reader_str (\<lambda>x v. v\<lparr>ApplyBundle_bundleRef := x\<rparr>)),
      (''selector'', into decodeResourceSelector (\<lambda>x v. v\<lparr>ApplyBundle_selector := x\<rparr>)),
      (''ttl_ms'', into reader_int64 (\<lambda>x v. v\<lparr>ApplyBundle_ttlMs := x\<rparr>)),
      (''why'', into reader_str (\<lambda>x v. v\<lparr>ApplyBundle_why := x\<rparr>))]
     [''expected_revision'', ''subject'', ''bundle_ref'', ''selector'', ''ttl_ms'', ''why'']
     zero_OASelectorAuthorizationOperatorApplyBundleArguments"

definition typed_OASelectorAuthorizationOperatorApplyBundleArguments :: "oaSelectorAuthorizationOperatorApplyBundleArguments \<Rightarrow> bool" where
  "typed_OASelectorAuthorizationOperatorApplyBundleArguments v \<longleftrightarrow> validUTF8 (ApplyBundle_expectedRevision v) \<and> typed_Subject (ApplyBundle_subject v) \<and> validUTF8 (ApplyBundle_bundleRef v) \<and> typed_ResourceSelector (ApplyBundle_selector v) \<and> - (2 ^ 63) \<le> ApplyBundle_ttlMs v \<and> ApplyBundle_ttlMs v < 2 ^ 63 \<and> validUTF8 (ApplyBundle_why v)"

interpretation OASelectorAuthorizationOperatorApplyBundleArguments_wire: codec decodeOASelectorAuthorizationOperatorApplyBundleArguments encOASelectorAuthorizationOperatorApplyBundleArguments typed_OASelectorAuthorizationOperatorApplyBundleArguments 2
  by (rule codec_record [OF decodeOASelectorAuthorizationOperatorApplyBundleArguments_def encOASelectorAuthorizationOperatorApplyBundleArguments_def [unfolded append.simps]])
     (rule wire | (simp add: typed_OASelectorAuthorizationOperatorApplyBundleArguments_def code_def validUTF8_none; fail))+

subsection \<open>oaSelectorAuthorizationOperatorRemoveBundleArguments\<close>

record oaSelectorAuthorizationOperatorRemoveBundleArguments =
  RemoveBundle_expectedRevision :: bytes
  RemoveBundle_subject :: subject
  RemoveBundle_originID :: bytes

definition encOASelectorAuthorizationOperatorRemoveBundleArguments :: "oaSelectorAuthorizationOperatorRemoveBundleArguments \<Rightarrow> nat \<Rightarrow> bytes" where
  "encOASelectorAuthorizationOperatorRemoveBundleArguments v depth = encObject depth
     [encMember depth ''expected_revision'' (esc (RemoveBundle_expectedRevision v)),
      encMember depth ''subject'' (encSubject (RemoveBundle_subject v) (depth + 1)),
      encMember depth ''origin_id'' (esc (RemoveBundle_originID v))]"

abbreviation zero_OASelectorAuthorizationOperatorRemoveBundleArguments :: oaSelectorAuthorizationOperatorRemoveBundleArguments where
  "zero_OASelectorAuthorizationOperatorRemoveBundleArguments \<equiv> \<lparr>RemoveBundle_expectedRevision = [], RemoveBundle_subject = zero_Subject, RemoveBundle_originID = []\<rparr>"

definition decodeOASelectorAuthorizationOperatorRemoveBundleArguments :: "oaSelectorAuthorizationOperatorRemoveBundleArguments reading" where
  "decodeOASelectorAuthorizationOperatorRemoveBundleArguments = decodeRecord
     [(''expected_revision'', into reader_str (\<lambda>x v. v\<lparr>RemoveBundle_expectedRevision := x\<rparr>)),
      (''subject'', into decodeSubject (\<lambda>x v. v\<lparr>RemoveBundle_subject := x\<rparr>)),
      (''origin_id'', into reader_str (\<lambda>x v. v\<lparr>RemoveBundle_originID := x\<rparr>))]
     [''expected_revision'', ''subject'', ''origin_id'']
     zero_OASelectorAuthorizationOperatorRemoveBundleArguments"

definition typed_OASelectorAuthorizationOperatorRemoveBundleArguments :: "oaSelectorAuthorizationOperatorRemoveBundleArguments \<Rightarrow> bool" where
  "typed_OASelectorAuthorizationOperatorRemoveBundleArguments v \<longleftrightarrow> validUTF8 (RemoveBundle_expectedRevision v) \<and> typed_Subject (RemoveBundle_subject v) \<and> validUTF8 (RemoveBundle_originID v)"

interpretation OASelectorAuthorizationOperatorRemoveBundleArguments_wire: codec decodeOASelectorAuthorizationOperatorRemoveBundleArguments encOASelectorAuthorizationOperatorRemoveBundleArguments typed_OASelectorAuthorizationOperatorRemoveBundleArguments 2
  by (rule codec_record [OF decodeOASelectorAuthorizationOperatorRemoveBundleArguments_def encOASelectorAuthorizationOperatorRemoveBundleArguments_def [unfolded append.simps]])
     (rule wire | (simp add: typed_OASelectorAuthorizationOperatorRemoveBundleArguments_def code_def validUTF8_none; fail))+

subsection \<open>oaSelectorAuthorizationOperatorApplyPermissionAllowArguments\<close>

record oaSelectorAuthorizationOperatorApplyPermissionAllowArguments =
  ApplyPermissionAllow_expectedRevision :: bytes
  ApplyPermissionAllow_questionID :: bytes

definition encOASelectorAuthorizationOperatorApplyPermissionAllowArguments :: "oaSelectorAuthorizationOperatorApplyPermissionAllowArguments \<Rightarrow> nat \<Rightarrow> bytes" where
  "encOASelectorAuthorizationOperatorApplyPermissionAllowArguments v depth = encObject depth
     [encMember depth ''expected_revision'' (esc (ApplyPermissionAllow_expectedRevision v)),
      encMember depth ''question_id'' (esc (ApplyPermissionAllow_questionID v))]"

abbreviation zero_OASelectorAuthorizationOperatorApplyPermissionAllowArguments :: oaSelectorAuthorizationOperatorApplyPermissionAllowArguments where
  "zero_OASelectorAuthorizationOperatorApplyPermissionAllowArguments \<equiv> \<lparr>ApplyPermissionAllow_expectedRevision = [], ApplyPermissionAllow_questionID = []\<rparr>"

definition decodeOASelectorAuthorizationOperatorApplyPermissionAllowArguments :: "oaSelectorAuthorizationOperatorApplyPermissionAllowArguments reading" where
  "decodeOASelectorAuthorizationOperatorApplyPermissionAllowArguments = decodeRecord
     [(''expected_revision'', into reader_str (\<lambda>x v. v\<lparr>ApplyPermissionAllow_expectedRevision := x\<rparr>)),
      (''question_id'', into reader_str (\<lambda>x v. v\<lparr>ApplyPermissionAllow_questionID := x\<rparr>))]
     [''expected_revision'', ''question_id'']
     zero_OASelectorAuthorizationOperatorApplyPermissionAllowArguments"

definition typed_OASelectorAuthorizationOperatorApplyPermissionAllowArguments :: "oaSelectorAuthorizationOperatorApplyPermissionAllowArguments \<Rightarrow> bool" where
  "typed_OASelectorAuthorizationOperatorApplyPermissionAllowArguments v \<longleftrightarrow> validUTF8 (ApplyPermissionAllow_expectedRevision v) \<and> validUTF8 (ApplyPermissionAllow_questionID v)"

interpretation OASelectorAuthorizationOperatorApplyPermissionAllowArguments_wire: codec decodeOASelectorAuthorizationOperatorApplyPermissionAllowArguments encOASelectorAuthorizationOperatorApplyPermissionAllowArguments typed_OASelectorAuthorizationOperatorApplyPermissionAllowArguments 1
  by (rule codec_record [OF decodeOASelectorAuthorizationOperatorApplyPermissionAllowArguments_def encOASelectorAuthorizationOperatorApplyPermissionAllowArguments_def [unfolded append.simps]])
     (rule wire | (simp add: typed_OASelectorAuthorizationOperatorApplyPermissionAllowArguments_def code_def validUTF8_none; fail))+

subsection \<open>oaSelectorAuthorizationOperatorUndoPermissionEffectArguments\<close>

record oaSelectorAuthorizationOperatorUndoPermissionEffectArguments =
  UndoPermissionEffect_expectedRevision :: bytes
  UndoPermissionEffect_questionID :: bytes

definition encOASelectorAuthorizationOperatorUndoPermissionEffectArguments :: "oaSelectorAuthorizationOperatorUndoPermissionEffectArguments \<Rightarrow> nat \<Rightarrow> bytes" where
  "encOASelectorAuthorizationOperatorUndoPermissionEffectArguments v depth = encObject depth
     [encMember depth ''expected_revision'' (esc (UndoPermissionEffect_expectedRevision v)),
      encMember depth ''question_id'' (esc (UndoPermissionEffect_questionID v))]"

abbreviation zero_OASelectorAuthorizationOperatorUndoPermissionEffectArguments :: oaSelectorAuthorizationOperatorUndoPermissionEffectArguments where
  "zero_OASelectorAuthorizationOperatorUndoPermissionEffectArguments \<equiv> \<lparr>UndoPermissionEffect_expectedRevision = [], UndoPermissionEffect_questionID = []\<rparr>"

definition decodeOASelectorAuthorizationOperatorUndoPermissionEffectArguments :: "oaSelectorAuthorizationOperatorUndoPermissionEffectArguments reading" where
  "decodeOASelectorAuthorizationOperatorUndoPermissionEffectArguments = decodeRecord
     [(''expected_revision'', into reader_str (\<lambda>x v. v\<lparr>UndoPermissionEffect_expectedRevision := x\<rparr>)),
      (''question_id'', into reader_str (\<lambda>x v. v\<lparr>UndoPermissionEffect_questionID := x\<rparr>))]
     [''expected_revision'', ''question_id'']
     zero_OASelectorAuthorizationOperatorUndoPermissionEffectArguments"

definition typed_OASelectorAuthorizationOperatorUndoPermissionEffectArguments :: "oaSelectorAuthorizationOperatorUndoPermissionEffectArguments \<Rightarrow> bool" where
  "typed_OASelectorAuthorizationOperatorUndoPermissionEffectArguments v \<longleftrightarrow> validUTF8 (UndoPermissionEffect_expectedRevision v) \<and> validUTF8 (UndoPermissionEffect_questionID v)"

interpretation OASelectorAuthorizationOperatorUndoPermissionEffectArguments_wire: codec decodeOASelectorAuthorizationOperatorUndoPermissionEffectArguments encOASelectorAuthorizationOperatorUndoPermissionEffectArguments typed_OASelectorAuthorizationOperatorUndoPermissionEffectArguments 1
  by (rule codec_record [OF decodeOASelectorAuthorizationOperatorUndoPermissionEffectArguments_def encOASelectorAuthorizationOperatorUndoPermissionEffectArguments_def [unfolded append.simps]])
     (rule wire | (simp add: typed_OASelectorAuthorizationOperatorUndoPermissionEffectArguments_def code_def validUTF8_none; fail))+

subsection \<open>oaAuthorizationListActionDescriptionsResult\<close>

record oaAuthorizationListActionDescriptionsResult =
  ListActionDescriptions_value :: DescriptionPage

definition encOAAuthorizationListActionDescriptionsResult :: "oaAuthorizationListActionDescriptionsResult \<Rightarrow> nat \<Rightarrow> bytes" where
  "encOAAuthorizationListActionDescriptionsResult v depth = encObject depth
     [encMember depth ''value'' (encDescriptionPage (ListActionDescriptions_value v) (depth + 1))]"

abbreviation zero_OAAuthorizationListActionDescriptionsResult :: oaAuthorizationListActionDescriptionsResult where
  "zero_OAAuthorizationListActionDescriptionsResult \<equiv> \<lparr>ListActionDescriptions_value = zero_DescriptionPage\<rparr>"

definition decodeOAAuthorizationListActionDescriptionsResult :: "oaAuthorizationListActionDescriptionsResult reading" where
  "decodeOAAuthorizationListActionDescriptionsResult = decodeRecord
     [(''value'', into decodeDescriptionPage (\<lambda>x v. v\<lparr>ListActionDescriptions_value := x\<rparr>))]
     [''value'']
     zero_OAAuthorizationListActionDescriptionsResult"

definition typed_OAAuthorizationListActionDescriptionsResult :: "oaAuthorizationListActionDescriptionsResult \<Rightarrow> bool" where
  "typed_OAAuthorizationListActionDescriptionsResult v \<longleftrightarrow> typed_DescriptionPage (ListActionDescriptions_value v)"

interpretation OAAuthorizationListActionDescriptionsResult_wire: codec decodeOAAuthorizationListActionDescriptionsResult encOAAuthorizationListActionDescriptionsResult typed_OAAuthorizationListActionDescriptionsResult 6
  by (rule codec_record [OF decodeOAAuthorizationListActionDescriptionsResult_def encOAAuthorizationListActionDescriptionsResult_def [unfolded append.simps]])
     (rule wire | (simp add: typed_OAAuthorizationListActionDescriptionsResult_def code_def validUTF8_none; fail))+

subsection \<open>oaAuthorizationDecideResult\<close>

record oaAuthorizationDecideResult =
  Decide_value :: Decision

definition encOAAuthorizationDecideResult :: "oaAuthorizationDecideResult \<Rightarrow> nat \<Rightarrow> bytes" where
  "encOAAuthorizationDecideResult v depth = encObject depth
     [encMember depth ''value'' (encDecision (Decide_value v) (depth + 1))]"

abbreviation zero_OAAuthorizationDecideResult :: oaAuthorizationDecideResult where
  "zero_OAAuthorizationDecideResult \<equiv> \<lparr>Decide_value = zero_Decision\<rparr>"

definition decodeOAAuthorizationDecideResult :: "oaAuthorizationDecideResult reading" where
  "decodeOAAuthorizationDecideResult = decodeRecord
     [(''value'', into reader_decodeDecision (\<lambda>x v. v\<lparr>Decide_value := x\<rparr>))]
     [''value'']
     zero_OAAuthorizationDecideResult"

definition typed_OAAuthorizationDecideResult :: "oaAuthorizationDecideResult \<Rightarrow> bool" where
  "typed_OAAuthorizationDecideResult v \<longleftrightarrow> typed_Decision (Decide_value v)"

interpretation OAAuthorizationDecideResult_wire: codec decodeOAAuthorizationDecideResult encOAAuthorizationDecideResult typed_OAAuthorizationDecideResult 2
  by (rule codec_record [OF decodeOAAuthorizationDecideResult_def encOAAuthorizationDecideResult_def [unfolded append.simps]])
     (rule wire | (simp add: typed_OAAuthorizationDecideResult_def code_def validUTF8_none; fail))+

subsection \<open>oaAuthorizationDecideForResult\<close>

record oaAuthorizationDecideForResult =
  DecideFor_value :: Decision

definition encOAAuthorizationDecideForResult :: "oaAuthorizationDecideForResult \<Rightarrow> nat \<Rightarrow> bytes" where
  "encOAAuthorizationDecideForResult v depth = encObject depth
     [encMember depth ''value'' (encDecision (DecideFor_value v) (depth + 1))]"

abbreviation zero_OAAuthorizationDecideForResult :: oaAuthorizationDecideForResult where
  "zero_OAAuthorizationDecideForResult \<equiv> \<lparr>DecideFor_value = zero_Decision\<rparr>"

definition decodeOAAuthorizationDecideForResult :: "oaAuthorizationDecideForResult reading" where
  "decodeOAAuthorizationDecideForResult = decodeRecord
     [(''value'', into reader_decodeDecision (\<lambda>x v. v\<lparr>DecideFor_value := x\<rparr>))]
     [''value'']
     zero_OAAuthorizationDecideForResult"

definition typed_OAAuthorizationDecideForResult :: "oaAuthorizationDecideForResult \<Rightarrow> bool" where
  "typed_OAAuthorizationDecideForResult v \<longleftrightarrow> typed_Decision (DecideFor_value v)"

interpretation OAAuthorizationDecideForResult_wire: codec decodeOAAuthorizationDecideForResult encOAAuthorizationDecideForResult typed_OAAuthorizationDecideForResult 2
  by (rule codec_record [OF decodeOAAuthorizationDecideForResult_def encOAAuthorizationDecideForResult_def [unfolded append.simps]])
     (rule wire | (simp add: typed_OAAuthorizationDecideForResult_def code_def validUTF8_none; fail))+

subsection \<open>oaAuthorizationOperatorRegisterDescribedActionResult\<close>

record oaAuthorizationOperatorRegisterDescribedActionResult =
  RegisterDescribedAction_value :: DescriptionEdit

definition encOAAuthorizationOperatorRegisterDescribedActionResult :: "oaAuthorizationOperatorRegisterDescribedActionResult \<Rightarrow> nat \<Rightarrow> bytes" where
  "encOAAuthorizationOperatorRegisterDescribedActionResult v depth = encObject depth
     [encMember depth ''value'' (encDescriptionEdit (RegisterDescribedAction_value v) (depth + 1))]"

abbreviation zero_OAAuthorizationOperatorRegisterDescribedActionResult :: oaAuthorizationOperatorRegisterDescribedActionResult where
  "zero_OAAuthorizationOperatorRegisterDescribedActionResult \<equiv> \<lparr>RegisterDescribedAction_value = zero_DescriptionEdit\<rparr>"

definition decodeOAAuthorizationOperatorRegisterDescribedActionResult :: "oaAuthorizationOperatorRegisterDescribedActionResult reading" where
  "decodeOAAuthorizationOperatorRegisterDescribedActionResult = decodeRecord
     [(''value'', into decodeDescriptionEdit (\<lambda>x v. v\<lparr>RegisterDescribedAction_value := x\<rparr>))]
     [''value'']
     zero_OAAuthorizationOperatorRegisterDescribedActionResult"

definition typed_OAAuthorizationOperatorRegisterDescribedActionResult :: "oaAuthorizationOperatorRegisterDescribedActionResult \<Rightarrow> bool" where
  "typed_OAAuthorizationOperatorRegisterDescribedActionResult v \<longleftrightarrow> typed_DescriptionEdit (RegisterDescribedAction_value v)"

interpretation OAAuthorizationOperatorRegisterDescribedActionResult_wire: codec decodeOAAuthorizationOperatorRegisterDescribedActionResult encOAAuthorizationOperatorRegisterDescribedActionResult typed_OAAuthorizationOperatorRegisterDescribedActionResult 5
  by (rule codec_record [OF decodeOAAuthorizationOperatorRegisterDescribedActionResult_def encOAAuthorizationOperatorRegisterDescribedActionResult_def [unfolded append.simps]])
     (rule wire | (simp add: typed_OAAuthorizationOperatorRegisterDescribedActionResult_def code_def validUTF8_none; fail))+

subsection \<open>oaAuthorizationOperatorApplyFirstUseAllowResult\<close>

record oaAuthorizationOperatorApplyFirstUseAllowResult =
  ApplyFirstUseAllow_value :: PolicyEdit

definition encOAAuthorizationOperatorApplyFirstUseAllowResult :: "oaAuthorizationOperatorApplyFirstUseAllowResult \<Rightarrow> nat \<Rightarrow> bytes" where
  "encOAAuthorizationOperatorApplyFirstUseAllowResult v depth = encObject depth
     [encMember depth ''value'' (encPolicyEdit (ApplyFirstUseAllow_value v) (depth + 1))]"

abbreviation zero_OAAuthorizationOperatorApplyFirstUseAllowResult :: oaAuthorizationOperatorApplyFirstUseAllowResult where
  "zero_OAAuthorizationOperatorApplyFirstUseAllowResult \<equiv> \<lparr>ApplyFirstUseAllow_value = zero_PolicyEdit\<rparr>"

definition decodeOAAuthorizationOperatorApplyFirstUseAllowResult :: "oaAuthorizationOperatorApplyFirstUseAllowResult reading" where
  "decodeOAAuthorizationOperatorApplyFirstUseAllowResult = decodeRecord
     [(''value'', into decodePolicyEdit (\<lambda>x v. v\<lparr>ApplyFirstUseAllow_value := x\<rparr>))]
     [''value'']
     zero_OAAuthorizationOperatorApplyFirstUseAllowResult"

definition typed_OAAuthorizationOperatorApplyFirstUseAllowResult :: "oaAuthorizationOperatorApplyFirstUseAllowResult \<Rightarrow> bool" where
  "typed_OAAuthorizationOperatorApplyFirstUseAllowResult v \<longleftrightarrow> typed_PolicyEdit (ApplyFirstUseAllow_value v)"

interpretation OAAuthorizationOperatorApplyFirstUseAllowResult_wire: codec decodeOAAuthorizationOperatorApplyFirstUseAllowResult encOAAuthorizationOperatorApplyFirstUseAllowResult typed_OAAuthorizationOperatorApplyFirstUseAllowResult 4
  by (rule codec_record [OF decodeOAAuthorizationOperatorApplyFirstUseAllowResult_def encOAAuthorizationOperatorApplyFirstUseAllowResult_def [unfolded append.simps]])
     (rule wire | (simp add: typed_OAAuthorizationOperatorApplyFirstUseAllowResult_def code_def validUTF8_none; fail))+

subsection \<open>oaAuthorizationOperatorListPolicyResult\<close>

record oaAuthorizationOperatorListPolicyResult =
  ListPolicy_value :: PolicyPage

definition encOAAuthorizationOperatorListPolicyResult :: "oaAuthorizationOperatorListPolicyResult \<Rightarrow> nat \<Rightarrow> bytes" where
  "encOAAuthorizationOperatorListPolicyResult v depth = encObject depth
     [encMember depth ''value'' (encPolicyPage (ListPolicy_value v) (depth + 1))]"

abbreviation zero_OAAuthorizationOperatorListPolicyResult :: oaAuthorizationOperatorListPolicyResult where
  "zero_OAAuthorizationOperatorListPolicyResult \<equiv> \<lparr>ListPolicy_value = zero_PolicyPage\<rparr>"

definition decodeOAAuthorizationOperatorListPolicyResult :: "oaAuthorizationOperatorListPolicyResult reading" where
  "decodeOAAuthorizationOperatorListPolicyResult = decodeRecord
     [(''value'', into decodePolicyPage (\<lambda>x v. v\<lparr>ListPolicy_value := x\<rparr>))]
     [''value'']
     zero_OAAuthorizationOperatorListPolicyResult"

definition typed_OAAuthorizationOperatorListPolicyResult :: "oaAuthorizationOperatorListPolicyResult \<Rightarrow> bool" where
  "typed_OAAuthorizationOperatorListPolicyResult v \<longleftrightarrow> typed_PolicyPage (ListPolicy_value v)"

interpretation OAAuthorizationOperatorListPolicyResult_wire: codec decodeOAAuthorizationOperatorListPolicyResult encOAAuthorizationOperatorListPolicyResult typed_OAAuthorizationOperatorListPolicyResult 5
  by (rule codec_record [OF decodeOAAuthorizationOperatorListPolicyResult_def encOAAuthorizationOperatorListPolicyResult_def [unfolded append.simps]])
     (rule wire | (simp add: typed_OAAuthorizationOperatorListPolicyResult_def code_def validUTF8_none; fail))+

subsection \<open>oaAuthorizationOperatorSetRuleResult\<close>

record oaAuthorizationOperatorSetRuleResult =
  SetRule_value :: PolicyEdit

definition encOAAuthorizationOperatorSetRuleResult :: "oaAuthorizationOperatorSetRuleResult \<Rightarrow> nat \<Rightarrow> bytes" where
  "encOAAuthorizationOperatorSetRuleResult v depth = encObject depth
     [encMember depth ''value'' (encPolicyEdit (SetRule_value v) (depth + 1))]"

abbreviation zero_OAAuthorizationOperatorSetRuleResult :: oaAuthorizationOperatorSetRuleResult where
  "zero_OAAuthorizationOperatorSetRuleResult \<equiv> \<lparr>SetRule_value = zero_PolicyEdit\<rparr>"

definition decodeOAAuthorizationOperatorSetRuleResult :: "oaAuthorizationOperatorSetRuleResult reading" where
  "decodeOAAuthorizationOperatorSetRuleResult = decodeRecord
     [(''value'', into decodePolicyEdit (\<lambda>x v. v\<lparr>SetRule_value := x\<rparr>))]
     [''value'']
     zero_OAAuthorizationOperatorSetRuleResult"

definition typed_OAAuthorizationOperatorSetRuleResult :: "oaAuthorizationOperatorSetRuleResult \<Rightarrow> bool" where
  "typed_OAAuthorizationOperatorSetRuleResult v \<longleftrightarrow> typed_PolicyEdit (SetRule_value v)"

interpretation OAAuthorizationOperatorSetRuleResult_wire: codec decodeOAAuthorizationOperatorSetRuleResult encOAAuthorizationOperatorSetRuleResult typed_OAAuthorizationOperatorSetRuleResult 4
  by (rule codec_record [OF decodeOAAuthorizationOperatorSetRuleResult_def encOAAuthorizationOperatorSetRuleResult_def [unfolded append.simps]])
     (rule wire | (simp add: typed_OAAuthorizationOperatorSetRuleResult_def code_def validUTF8_none; fail))+

subsection \<open>oaAuthorizationOperatorRevokeRuleResult\<close>

record oaAuthorizationOperatorRevokeRuleResult =
  RevokeRule_value :: PolicyEdit

definition encOAAuthorizationOperatorRevokeRuleResult :: "oaAuthorizationOperatorRevokeRuleResult \<Rightarrow> nat \<Rightarrow> bytes" where
  "encOAAuthorizationOperatorRevokeRuleResult v depth = encObject depth
     [encMember depth ''value'' (encPolicyEdit (RevokeRule_value v) (depth + 1))]"

abbreviation zero_OAAuthorizationOperatorRevokeRuleResult :: oaAuthorizationOperatorRevokeRuleResult where
  "zero_OAAuthorizationOperatorRevokeRuleResult \<equiv> \<lparr>RevokeRule_value = zero_PolicyEdit\<rparr>"

definition decodeOAAuthorizationOperatorRevokeRuleResult :: "oaAuthorizationOperatorRevokeRuleResult reading" where
  "decodeOAAuthorizationOperatorRevokeRuleResult = decodeRecord
     [(''value'', into decodePolicyEdit (\<lambda>x v. v\<lparr>RevokeRule_value := x\<rparr>))]
     [''value'']
     zero_OAAuthorizationOperatorRevokeRuleResult"

definition typed_OAAuthorizationOperatorRevokeRuleResult :: "oaAuthorizationOperatorRevokeRuleResult \<Rightarrow> bool" where
  "typed_OAAuthorizationOperatorRevokeRuleResult v \<longleftrightarrow> typed_PolicyEdit (RevokeRule_value v)"

interpretation OAAuthorizationOperatorRevokeRuleResult_wire: codec decodeOAAuthorizationOperatorRevokeRuleResult encOAAuthorizationOperatorRevokeRuleResult typed_OAAuthorizationOperatorRevokeRuleResult 4
  by (rule codec_record [OF decodeOAAuthorizationOperatorRevokeRuleResult_def encOAAuthorizationOperatorRevokeRuleResult_def [unfolded append.simps]])
     (rule wire | (simp add: typed_OAAuthorizationOperatorRevokeRuleResult_def code_def validUTF8_none; fail))+

subsection \<open>oaAuthorizationOperatorStopAnswererResult\<close>

record oaAuthorizationOperatorStopAnswererResult =
  StopAnswerer_value :: PolicyEdit

definition encOAAuthorizationOperatorStopAnswererResult :: "oaAuthorizationOperatorStopAnswererResult \<Rightarrow> nat \<Rightarrow> bytes" where
  "encOAAuthorizationOperatorStopAnswererResult v depth = encObject depth
     [encMember depth ''value'' (encPolicyEdit (StopAnswerer_value v) (depth + 1))]"

abbreviation zero_OAAuthorizationOperatorStopAnswererResult :: oaAuthorizationOperatorStopAnswererResult where
  "zero_OAAuthorizationOperatorStopAnswererResult \<equiv> \<lparr>StopAnswerer_value = zero_PolicyEdit\<rparr>"

definition decodeOAAuthorizationOperatorStopAnswererResult :: "oaAuthorizationOperatorStopAnswererResult reading" where
  "decodeOAAuthorizationOperatorStopAnswererResult = decodeRecord
     [(''value'', into decodePolicyEdit (\<lambda>x v. v\<lparr>StopAnswerer_value := x\<rparr>))]
     [''value'']
     zero_OAAuthorizationOperatorStopAnswererResult"

definition typed_OAAuthorizationOperatorStopAnswererResult :: "oaAuthorizationOperatorStopAnswererResult \<Rightarrow> bool" where
  "typed_OAAuthorizationOperatorStopAnswererResult v \<longleftrightarrow> typed_PolicyEdit (StopAnswerer_value v)"

interpretation OAAuthorizationOperatorStopAnswererResult_wire: codec decodeOAAuthorizationOperatorStopAnswererResult encOAAuthorizationOperatorStopAnswererResult typed_OAAuthorizationOperatorStopAnswererResult 4
  by (rule codec_record [OF decodeOAAuthorizationOperatorStopAnswererResult_def encOAAuthorizationOperatorStopAnswererResult_def [unfolded append.simps]])
     (rule wire | (simp add: typed_OAAuthorizationOperatorStopAnswererResult_def code_def validUTF8_none; fail))+

subsection \<open>oaAuthorizationOperatorRevokeAnswerPermitsResult\<close>

record oaAuthorizationOperatorRevokeAnswerPermitsResult =
  RevokeAnswerPermits_value :: PolicyEdit

definition encOAAuthorizationOperatorRevokeAnswerPermitsResult :: "oaAuthorizationOperatorRevokeAnswerPermitsResult \<Rightarrow> nat \<Rightarrow> bytes" where
  "encOAAuthorizationOperatorRevokeAnswerPermitsResult v depth = encObject depth
     [encMember depth ''value'' (encPolicyEdit (RevokeAnswerPermits_value v) (depth + 1))]"

abbreviation zero_OAAuthorizationOperatorRevokeAnswerPermitsResult :: oaAuthorizationOperatorRevokeAnswerPermitsResult where
  "zero_OAAuthorizationOperatorRevokeAnswerPermitsResult \<equiv> \<lparr>RevokeAnswerPermits_value = zero_PolicyEdit\<rparr>"

definition decodeOAAuthorizationOperatorRevokeAnswerPermitsResult :: "oaAuthorizationOperatorRevokeAnswerPermitsResult reading" where
  "decodeOAAuthorizationOperatorRevokeAnswerPermitsResult = decodeRecord
     [(''value'', into decodePolicyEdit (\<lambda>x v. v\<lparr>RevokeAnswerPermits_value := x\<rparr>))]
     [''value'']
     zero_OAAuthorizationOperatorRevokeAnswerPermitsResult"

definition typed_OAAuthorizationOperatorRevokeAnswerPermitsResult :: "oaAuthorizationOperatorRevokeAnswerPermitsResult \<Rightarrow> bool" where
  "typed_OAAuthorizationOperatorRevokeAnswerPermitsResult v \<longleftrightarrow> typed_PolicyEdit (RevokeAnswerPermits_value v)"

interpretation OAAuthorizationOperatorRevokeAnswerPermitsResult_wire: codec decodeOAAuthorizationOperatorRevokeAnswerPermitsResult encOAAuthorizationOperatorRevokeAnswerPermitsResult typed_OAAuthorizationOperatorRevokeAnswerPermitsResult 4
  by (rule codec_record [OF decodeOAAuthorizationOperatorRevokeAnswerPermitsResult_def encOAAuthorizationOperatorRevokeAnswerPermitsResult_def [unfolded append.simps]])
     (rule wire | (simp add: typed_OAAuthorizationOperatorRevokeAnswerPermitsResult_def code_def validUTF8_none; fail))+

subsection \<open>oaAuthorizationOperatorSetRuleForResult\<close>

record oaAuthorizationOperatorSetRuleForResult =
  SetRuleFor_value :: PolicyEdit

definition encOAAuthorizationOperatorSetRuleForResult :: "oaAuthorizationOperatorSetRuleForResult \<Rightarrow> nat \<Rightarrow> bytes" where
  "encOAAuthorizationOperatorSetRuleForResult v depth = encObject depth
     [encMember depth ''value'' (encPolicyEdit (SetRuleFor_value v) (depth + 1))]"

abbreviation zero_OAAuthorizationOperatorSetRuleForResult :: oaAuthorizationOperatorSetRuleForResult where
  "zero_OAAuthorizationOperatorSetRuleForResult \<equiv> \<lparr>SetRuleFor_value = zero_PolicyEdit\<rparr>"

definition decodeOAAuthorizationOperatorSetRuleForResult :: "oaAuthorizationOperatorSetRuleForResult reading" where
  "decodeOAAuthorizationOperatorSetRuleForResult = decodeRecord
     [(''value'', into decodePolicyEdit (\<lambda>x v. v\<lparr>SetRuleFor_value := x\<rparr>))]
     [''value'']
     zero_OAAuthorizationOperatorSetRuleForResult"

definition typed_OAAuthorizationOperatorSetRuleForResult :: "oaAuthorizationOperatorSetRuleForResult \<Rightarrow> bool" where
  "typed_OAAuthorizationOperatorSetRuleForResult v \<longleftrightarrow> typed_PolicyEdit (SetRuleFor_value v)"

interpretation OAAuthorizationOperatorSetRuleForResult_wire: codec decodeOAAuthorizationOperatorSetRuleForResult encOAAuthorizationOperatorSetRuleForResult typed_OAAuthorizationOperatorSetRuleForResult 4
  by (rule codec_record [OF decodeOAAuthorizationOperatorSetRuleForResult_def encOAAuthorizationOperatorSetRuleForResult_def [unfolded append.simps]])
     (rule wire | (simp add: typed_OAAuthorizationOperatorSetRuleForResult_def code_def validUTF8_none; fail))+

subsection \<open>oaAuthorizationOperatorSetRulesForResult\<close>

record oaAuthorizationOperatorSetRulesForResult =
  SetRulesFor_value :: PolicyEdit

definition encOAAuthorizationOperatorSetRulesForResult :: "oaAuthorizationOperatorSetRulesForResult \<Rightarrow> nat \<Rightarrow> bytes" where
  "encOAAuthorizationOperatorSetRulesForResult v depth = encObject depth
     [encMember depth ''value'' (encPolicyEdit (SetRulesFor_value v) (depth + 1))]"

abbreviation zero_OAAuthorizationOperatorSetRulesForResult :: oaAuthorizationOperatorSetRulesForResult where
  "zero_OAAuthorizationOperatorSetRulesForResult \<equiv> \<lparr>SetRulesFor_value = zero_PolicyEdit\<rparr>"

definition decodeOAAuthorizationOperatorSetRulesForResult :: "oaAuthorizationOperatorSetRulesForResult reading" where
  "decodeOAAuthorizationOperatorSetRulesForResult = decodeRecord
     [(''value'', into decodePolicyEdit (\<lambda>x v. v\<lparr>SetRulesFor_value := x\<rparr>))]
     [''value'']
     zero_OAAuthorizationOperatorSetRulesForResult"

definition typed_OAAuthorizationOperatorSetRulesForResult :: "oaAuthorizationOperatorSetRulesForResult \<Rightarrow> bool" where
  "typed_OAAuthorizationOperatorSetRulesForResult v \<longleftrightarrow> typed_PolicyEdit (SetRulesFor_value v)"

interpretation OAAuthorizationOperatorSetRulesForResult_wire: codec decodeOAAuthorizationOperatorSetRulesForResult encOAAuthorizationOperatorSetRulesForResult typed_OAAuthorizationOperatorSetRulesForResult 4
  by (rule codec_record [OF decodeOAAuthorizationOperatorSetRulesForResult_def encOAAuthorizationOperatorSetRulesForResult_def [unfolded append.simps]])
     (rule wire | (simp add: typed_OAAuthorizationOperatorSetRulesForResult_def code_def validUTF8_none; fail))+

subsection \<open>oaAuthorizationOperatorReadRuleResult\<close>

record oaAuthorizationOperatorReadRuleResult =
  ReadRule_value :: RuleRead

definition encOAAuthorizationOperatorReadRuleResult :: "oaAuthorizationOperatorReadRuleResult \<Rightarrow> nat \<Rightarrow> bytes" where
  "encOAAuthorizationOperatorReadRuleResult v depth = encObject depth
     [encMember depth ''value'' (encRuleRead (ReadRule_value v) (depth + 1))]"

abbreviation zero_OAAuthorizationOperatorReadRuleResult :: oaAuthorizationOperatorReadRuleResult where
  "zero_OAAuthorizationOperatorReadRuleResult \<equiv> \<lparr>ReadRule_value = zero_RuleRead\<rparr>"

definition decodeOAAuthorizationOperatorReadRuleResult :: "oaAuthorizationOperatorReadRuleResult reading" where
  "decodeOAAuthorizationOperatorReadRuleResult = decodeRecord
     [(''value'', into decodeRuleRead (\<lambda>x v. v\<lparr>ReadRule_value := x\<rparr>))]
     [''value'']
     zero_OAAuthorizationOperatorReadRuleResult"

definition typed_OAAuthorizationOperatorReadRuleResult :: "oaAuthorizationOperatorReadRuleResult \<Rightarrow> bool" where
  "typed_OAAuthorizationOperatorReadRuleResult v \<longleftrightarrow> typed_RuleRead (ReadRule_value v)"

interpretation OAAuthorizationOperatorReadRuleResult_wire: codec decodeOAAuthorizationOperatorReadRuleResult encOAAuthorizationOperatorReadRuleResult typed_OAAuthorizationOperatorReadRuleResult 5
  by (rule codec_record [OF decodeOAAuthorizationOperatorReadRuleResult_def encOAAuthorizationOperatorReadRuleResult_def [unfolded append.simps]])
     (rule wire | (simp add: typed_OAAuthorizationOperatorReadRuleResult_def code_def validUTF8_none; fail))+

subsection \<open>oaAuthorizationOperatorRegisterActionResult\<close>

record oaAuthorizationOperatorRegisterActionResult =
  RegisterAction_value :: ActionEdit

definition encOAAuthorizationOperatorRegisterActionResult :: "oaAuthorizationOperatorRegisterActionResult \<Rightarrow> nat \<Rightarrow> bytes" where
  "encOAAuthorizationOperatorRegisterActionResult v depth = encObject depth
     [encMember depth ''value'' (encActionEdit (RegisterAction_value v) (depth + 1))]"

abbreviation zero_OAAuthorizationOperatorRegisterActionResult :: oaAuthorizationOperatorRegisterActionResult where
  "zero_OAAuthorizationOperatorRegisterActionResult \<equiv> \<lparr>RegisterAction_value = zero_ActionEdit\<rparr>"

definition decodeOAAuthorizationOperatorRegisterActionResult :: "oaAuthorizationOperatorRegisterActionResult reading" where
  "decodeOAAuthorizationOperatorRegisterActionResult = decodeRecord
     [(''value'', into decodeActionEdit (\<lambda>x v. v\<lparr>RegisterAction_value := x\<rparr>))]
     [''value'']
     zero_OAAuthorizationOperatorRegisterActionResult"

definition typed_OAAuthorizationOperatorRegisterActionResult :: "oaAuthorizationOperatorRegisterActionResult \<Rightarrow> bool" where
  "typed_OAAuthorizationOperatorRegisterActionResult v \<longleftrightarrow> typed_ActionEdit (RegisterAction_value v)"

interpretation OAAuthorizationOperatorRegisterActionResult_wire: codec decodeOAAuthorizationOperatorRegisterActionResult encOAAuthorizationOperatorRegisterActionResult typed_OAAuthorizationOperatorRegisterActionResult 4
  by (rule codec_record [OF decodeOAAuthorizationOperatorRegisterActionResult_def encOAAuthorizationOperatorRegisterActionResult_def [unfolded append.simps]])
     (rule wire | (simp add: typed_OAAuthorizationOperatorRegisterActionResult_def code_def validUTF8_none; fail))+

subsection \<open>oaAuthorizationOperatorRetireActionResult\<close>

record oaAuthorizationOperatorRetireActionResult =
  RetireAction_value :: ActionEdit

definition encOAAuthorizationOperatorRetireActionResult :: "oaAuthorizationOperatorRetireActionResult \<Rightarrow> nat \<Rightarrow> bytes" where
  "encOAAuthorizationOperatorRetireActionResult v depth = encObject depth
     [encMember depth ''value'' (encActionEdit (RetireAction_value v) (depth + 1))]"

abbreviation zero_OAAuthorizationOperatorRetireActionResult :: oaAuthorizationOperatorRetireActionResult where
  "zero_OAAuthorizationOperatorRetireActionResult \<equiv> \<lparr>RetireAction_value = zero_ActionEdit\<rparr>"

definition decodeOAAuthorizationOperatorRetireActionResult :: "oaAuthorizationOperatorRetireActionResult reading" where
  "decodeOAAuthorizationOperatorRetireActionResult = decodeRecord
     [(''value'', into decodeActionEdit (\<lambda>x v. v\<lparr>RetireAction_value := x\<rparr>))]
     [''value'']
     zero_OAAuthorizationOperatorRetireActionResult"

definition typed_OAAuthorizationOperatorRetireActionResult :: "oaAuthorizationOperatorRetireActionResult \<Rightarrow> bool" where
  "typed_OAAuthorizationOperatorRetireActionResult v \<longleftrightarrow> typed_ActionEdit (RetireAction_value v)"

interpretation OAAuthorizationOperatorRetireActionResult_wire: codec decodeOAAuthorizationOperatorRetireActionResult encOAAuthorizationOperatorRetireActionResult typed_OAAuthorizationOperatorRetireActionResult 4
  by (rule codec_record [OF decodeOAAuthorizationOperatorRetireActionResult_def encOAAuthorizationOperatorRetireActionResult_def [unfolded append.simps]])
     (rule wire | (simp add: typed_OAAuthorizationOperatorRetireActionResult_def code_def validUTF8_none; fail))+

subsection \<open>oaAuthorizationOperatorExplainForResult\<close>

record oaAuthorizationOperatorExplainForResult =
  ExplainFor_value :: DecisionExplanation

definition encOAAuthorizationOperatorExplainForResult :: "oaAuthorizationOperatorExplainForResult \<Rightarrow> nat \<Rightarrow> bytes" where
  "encOAAuthorizationOperatorExplainForResult v depth = encObject depth
     [encMember depth ''value'' (encDecisionExplanation (ExplainFor_value v) (depth + 1))]"

abbreviation zero_OAAuthorizationOperatorExplainForResult :: oaAuthorizationOperatorExplainForResult where
  "zero_OAAuthorizationOperatorExplainForResult \<equiv> \<lparr>ExplainFor_value = zero_DecisionExplanation\<rparr>"

definition decodeOAAuthorizationOperatorExplainForResult :: "oaAuthorizationOperatorExplainForResult reading" where
  "decodeOAAuthorizationOperatorExplainForResult = decodeRecord
     [(''value'', into decodeDecisionExplanation (\<lambda>x v. v\<lparr>ExplainFor_value := x\<rparr>))]
     [''value'']
     zero_OAAuthorizationOperatorExplainForResult"

definition typed_OAAuthorizationOperatorExplainForResult :: "oaAuthorizationOperatorExplainForResult \<Rightarrow> bool" where
  "typed_OAAuthorizationOperatorExplainForResult v \<longleftrightarrow> typed_DecisionExplanation (ExplainFor_value v)"

interpretation OAAuthorizationOperatorExplainForResult_wire: codec decodeOAAuthorizationOperatorExplainForResult encOAAuthorizationOperatorExplainForResult typed_OAAuthorizationOperatorExplainForResult 2
  by (rule codec_record [OF decodeOAAuthorizationOperatorExplainForResult_def encOAAuthorizationOperatorExplainForResult_def [unfolded append.simps]])
     (rule wire | (simp add: typed_OAAuthorizationOperatorExplainForResult_def code_def validUTF8_none; fail))+

subsection \<open>oaAuthorizationOperatorListDefaultsResult\<close>

record oaAuthorizationOperatorListDefaultsResult =
  ListDefaults_value :: DefaultPage

definition encOAAuthorizationOperatorListDefaultsResult :: "oaAuthorizationOperatorListDefaultsResult \<Rightarrow> nat \<Rightarrow> bytes" where
  "encOAAuthorizationOperatorListDefaultsResult v depth = encObject depth
     [encMember depth ''value'' (encDefaultPage (ListDefaults_value v) (depth + 1))]"

abbreviation zero_OAAuthorizationOperatorListDefaultsResult :: oaAuthorizationOperatorListDefaultsResult where
  "zero_OAAuthorizationOperatorListDefaultsResult \<equiv> \<lparr>ListDefaults_value = zero_DefaultPage\<rparr>"

definition decodeOAAuthorizationOperatorListDefaultsResult :: "oaAuthorizationOperatorListDefaultsResult reading" where
  "decodeOAAuthorizationOperatorListDefaultsResult = decodeRecord
     [(''value'', into decodeDefaultPage (\<lambda>x v. v\<lparr>ListDefaults_value := x\<rparr>))]
     [''value'']
     zero_OAAuthorizationOperatorListDefaultsResult"

definition typed_OAAuthorizationOperatorListDefaultsResult :: "oaAuthorizationOperatorListDefaultsResult \<Rightarrow> bool" where
  "typed_OAAuthorizationOperatorListDefaultsResult v \<longleftrightarrow> typed_DefaultPage (ListDefaults_value v)"

interpretation OAAuthorizationOperatorListDefaultsResult_wire: codec decodeOAAuthorizationOperatorListDefaultsResult encOAAuthorizationOperatorListDefaultsResult typed_OAAuthorizationOperatorListDefaultsResult 5
  by (rule codec_record [OF decodeOAAuthorizationOperatorListDefaultsResult_def encOAAuthorizationOperatorListDefaultsResult_def [unfolded append.simps]])
     (rule wire | (simp add: typed_OAAuthorizationOperatorListDefaultsResult_def code_def validUTF8_none; fail))+

subsection \<open>oaAuthorizationOperatorSetDefaultResult\<close>

record oaAuthorizationOperatorSetDefaultResult =
  SetDefault_value :: DefaultEdit

definition encOAAuthorizationOperatorSetDefaultResult :: "oaAuthorizationOperatorSetDefaultResult \<Rightarrow> nat \<Rightarrow> bytes" where
  "encOAAuthorizationOperatorSetDefaultResult v depth = encObject depth
     [encMember depth ''value'' (encDefaultEdit (SetDefault_value v) (depth + 1))]"

abbreviation zero_OAAuthorizationOperatorSetDefaultResult :: oaAuthorizationOperatorSetDefaultResult where
  "zero_OAAuthorizationOperatorSetDefaultResult \<equiv> \<lparr>SetDefault_value = zero_DefaultEdit\<rparr>"

definition decodeOAAuthorizationOperatorSetDefaultResult :: "oaAuthorizationOperatorSetDefaultResult reading" where
  "decodeOAAuthorizationOperatorSetDefaultResult = decodeRecord
     [(''value'', into decodeDefaultEdit (\<lambda>x v. v\<lparr>SetDefault_value := x\<rparr>))]
     [''value'']
     zero_OAAuthorizationOperatorSetDefaultResult"

definition typed_OAAuthorizationOperatorSetDefaultResult :: "oaAuthorizationOperatorSetDefaultResult \<Rightarrow> bool" where
  "typed_OAAuthorizationOperatorSetDefaultResult v \<longleftrightarrow> typed_DefaultEdit (SetDefault_value v)"

interpretation OAAuthorizationOperatorSetDefaultResult_wire: codec decodeOAAuthorizationOperatorSetDefaultResult encOAAuthorizationOperatorSetDefaultResult typed_OAAuthorizationOperatorSetDefaultResult 4
  by (rule codec_record [OF decodeOAAuthorizationOperatorSetDefaultResult_def encOAAuthorizationOperatorSetDefaultResult_def [unfolded append.simps]])
     (rule wire | (simp add: typed_OAAuthorizationOperatorSetDefaultResult_def code_def validUTF8_none; fail))+

subsection \<open>oaSelectorAuthorizationListPermissionDefinitionsResult\<close>

record oaSelectorAuthorizationListPermissionDefinitionsResult =
  ListPermissionDefinitions_value :: PermissionDefinitionPage

definition encOASelectorAuthorizationListPermissionDefinitionsResult :: "oaSelectorAuthorizationListPermissionDefinitionsResult \<Rightarrow> nat \<Rightarrow> bytes" where
  "encOASelectorAuthorizationListPermissionDefinitionsResult v depth = encObject depth
     [encMember depth ''value'' (encPermissionDefinitionPage (ListPermissionDefinitions_value v) (depth + 1))]"

abbreviation zero_OASelectorAuthorizationListPermissionDefinitionsResult :: oaSelectorAuthorizationListPermissionDefinitionsResult where
  "zero_OASelectorAuthorizationListPermissionDefinitionsResult \<equiv> \<lparr>ListPermissionDefinitions_value = zero_PermissionDefinitionPage\<rparr>"

definition decodeOASelectorAuthorizationListPermissionDefinitionsResult :: "oaSelectorAuthorizationListPermissionDefinitionsResult reading" where
  "decodeOASelectorAuthorizationListPermissionDefinitionsResult = decodeRecord
     [(''value'', into decodePermissionDefinitionPage (\<lambda>x v. v\<lparr>ListPermissionDefinitions_value := x\<rparr>))]
     [''value'']
     zero_OASelectorAuthorizationListPermissionDefinitionsResult"

definition typed_OASelectorAuthorizationListPermissionDefinitionsResult :: "oaSelectorAuthorizationListPermissionDefinitionsResult \<Rightarrow> bool" where
  "typed_OASelectorAuthorizationListPermissionDefinitionsResult v \<longleftrightarrow> typed_PermissionDefinitionPage (ListPermissionDefinitions_value v)"

interpretation OASelectorAuthorizationListPermissionDefinitionsResult_wire: codec decodeOASelectorAuthorizationListPermissionDefinitionsResult encOASelectorAuthorizationListPermissionDefinitionsResult typed_OASelectorAuthorizationListPermissionDefinitionsResult 6
  by (rule codec_record [OF decodeOASelectorAuthorizationListPermissionDefinitionsResult_def encOASelectorAuthorizationListPermissionDefinitionsResult_def [unfolded append.simps]])
     (rule wire | (simp add: typed_OASelectorAuthorizationListPermissionDefinitionsResult_def code_def validUTF8_none; fail))+

subsection \<open>oaSelectorAuthorizationListPermissionBundlesResult\<close>

record oaSelectorAuthorizationListPermissionBundlesResult =
  ListPermissionBundles_value :: PermissionBundlePage

definition encOASelectorAuthorizationListPermissionBundlesResult :: "oaSelectorAuthorizationListPermissionBundlesResult \<Rightarrow> nat \<Rightarrow> bytes" where
  "encOASelectorAuthorizationListPermissionBundlesResult v depth = encObject depth
     [encMember depth ''value'' (encPermissionBundlePage (ListPermissionBundles_value v) (depth + 1))]"

abbreviation zero_OASelectorAuthorizationListPermissionBundlesResult :: oaSelectorAuthorizationListPermissionBundlesResult where
  "zero_OASelectorAuthorizationListPermissionBundlesResult \<equiv> \<lparr>ListPermissionBundles_value = zero_PermissionBundlePage\<rparr>"

definition decodeOASelectorAuthorizationListPermissionBundlesResult :: "oaSelectorAuthorizationListPermissionBundlesResult reading" where
  "decodeOASelectorAuthorizationListPermissionBundlesResult = decodeRecord
     [(''value'', into decodePermissionBundlePage (\<lambda>x v. v\<lparr>ListPermissionBundles_value := x\<rparr>))]
     [''value'']
     zero_OASelectorAuthorizationListPermissionBundlesResult"

definition typed_OASelectorAuthorizationListPermissionBundlesResult :: "oaSelectorAuthorizationListPermissionBundlesResult \<Rightarrow> bool" where
  "typed_OASelectorAuthorizationListPermissionBundlesResult v \<longleftrightarrow> typed_PermissionBundlePage (ListPermissionBundles_value v)"

interpretation OASelectorAuthorizationListPermissionBundlesResult_wire: codec decodeOASelectorAuthorizationListPermissionBundlesResult encOASelectorAuthorizationListPermissionBundlesResult typed_OASelectorAuthorizationListPermissionBundlesResult 6
  by (rule codec_record [OF decodeOASelectorAuthorizationListPermissionBundlesResult_def encOASelectorAuthorizationListPermissionBundlesResult_def [unfolded append.simps]])
     (rule wire | (simp add: typed_OASelectorAuthorizationListPermissionBundlesResult_def code_def validUTF8_none; fail))+

subsection \<open>oaSelectorAuthorizationCheckBatchResult\<close>

record oaSelectorAuthorizationCheckBatchResult =
  CheckBatch_value :: BatchDecision

definition encOASelectorAuthorizationCheckBatchResult :: "oaSelectorAuthorizationCheckBatchResult \<Rightarrow> nat \<Rightarrow> bytes" where
  "encOASelectorAuthorizationCheckBatchResult v depth = encObject depth
     [encMember depth ''value'' (encBatchDecision (CheckBatch_value v) (depth + 1))]"

abbreviation zero_OASelectorAuthorizationCheckBatchResult :: oaSelectorAuthorizationCheckBatchResult where
  "zero_OASelectorAuthorizationCheckBatchResult \<equiv> \<lparr>CheckBatch_value = zero_BatchDecision\<rparr>"

definition decodeOASelectorAuthorizationCheckBatchResult :: "oaSelectorAuthorizationCheckBatchResult reading" where
  "decodeOASelectorAuthorizationCheckBatchResult = decodeRecord
     [(''value'', into decodeBatchDecision (\<lambda>x v. v\<lparr>CheckBatch_value := x\<rparr>))]
     [''value'']
     zero_OASelectorAuthorizationCheckBatchResult"

definition typed_OASelectorAuthorizationCheckBatchResult :: "oaSelectorAuthorizationCheckBatchResult \<Rightarrow> bool" where
  "typed_OASelectorAuthorizationCheckBatchResult v \<longleftrightarrow> typed_BatchDecision (CheckBatch_value v)"

interpretation OASelectorAuthorizationCheckBatchResult_wire: codec decodeOASelectorAuthorizationCheckBatchResult encOASelectorAuthorizationCheckBatchResult typed_OASelectorAuthorizationCheckBatchResult 3
  by (rule codec_record [OF decodeOASelectorAuthorizationCheckBatchResult_def encOASelectorAuthorizationCheckBatchResult_def [unfolded append.simps]])
     (rule wire | (simp add: typed_OASelectorAuthorizationCheckBatchResult_def code_def validUTF8_none; fail))+

subsection \<open>oaSelectorAuthorizationCheckBatchForResult\<close>

record oaSelectorAuthorizationCheckBatchForResult =
  CheckBatchFor_value :: BatchDecision

definition encOASelectorAuthorizationCheckBatchForResult :: "oaSelectorAuthorizationCheckBatchForResult \<Rightarrow> nat \<Rightarrow> bytes" where
  "encOASelectorAuthorizationCheckBatchForResult v depth = encObject depth
     [encMember depth ''value'' (encBatchDecision (CheckBatchFor_value v) (depth + 1))]"

abbreviation zero_OASelectorAuthorizationCheckBatchForResult :: oaSelectorAuthorizationCheckBatchForResult where
  "zero_OASelectorAuthorizationCheckBatchForResult \<equiv> \<lparr>CheckBatchFor_value = zero_BatchDecision\<rparr>"

definition decodeOASelectorAuthorizationCheckBatchForResult :: "oaSelectorAuthorizationCheckBatchForResult reading" where
  "decodeOASelectorAuthorizationCheckBatchForResult = decodeRecord
     [(''value'', into decodeBatchDecision (\<lambda>x v. v\<lparr>CheckBatchFor_value := x\<rparr>))]
     [''value'']
     zero_OASelectorAuthorizationCheckBatchForResult"

definition typed_OASelectorAuthorizationCheckBatchForResult :: "oaSelectorAuthorizationCheckBatchForResult \<Rightarrow> bool" where
  "typed_OASelectorAuthorizationCheckBatchForResult v \<longleftrightarrow> typed_BatchDecision (CheckBatchFor_value v)"

interpretation OASelectorAuthorizationCheckBatchForResult_wire: codec decodeOASelectorAuthorizationCheckBatchForResult encOASelectorAuthorizationCheckBatchForResult typed_OASelectorAuthorizationCheckBatchForResult 3
  by (rule codec_record [OF decodeOASelectorAuthorizationCheckBatchForResult_def encOASelectorAuthorizationCheckBatchForResult_def [unfolded append.simps]])
     (rule wire | (simp add: typed_OASelectorAuthorizationCheckBatchForResult_def code_def validUTF8_none; fail))+

subsection \<open>oaSelectorAuthorizationCheckLegacyOperationForResult\<close>

record oaSelectorAuthorizationCheckLegacyOperationForResult =
  CheckLegacyOperationFor_value :: Decision

definition encOASelectorAuthorizationCheckLegacyOperationForResult :: "oaSelectorAuthorizationCheckLegacyOperationForResult \<Rightarrow> nat \<Rightarrow> bytes" where
  "encOASelectorAuthorizationCheckLegacyOperationForResult v depth = encObject depth
     [encMember depth ''value'' (encDecision (CheckLegacyOperationFor_value v) (depth + 1))]"

abbreviation zero_OASelectorAuthorizationCheckLegacyOperationForResult :: oaSelectorAuthorizationCheckLegacyOperationForResult where
  "zero_OASelectorAuthorizationCheckLegacyOperationForResult \<equiv> \<lparr>CheckLegacyOperationFor_value = zero_Decision\<rparr>"

definition decodeOASelectorAuthorizationCheckLegacyOperationForResult :: "oaSelectorAuthorizationCheckLegacyOperationForResult reading" where
  "decodeOASelectorAuthorizationCheckLegacyOperationForResult = decodeRecord
     [(''value'', into reader_decodeDecision (\<lambda>x v. v\<lparr>CheckLegacyOperationFor_value := x\<rparr>))]
     [''value'']
     zero_OASelectorAuthorizationCheckLegacyOperationForResult"

definition typed_OASelectorAuthorizationCheckLegacyOperationForResult :: "oaSelectorAuthorizationCheckLegacyOperationForResult \<Rightarrow> bool" where
  "typed_OASelectorAuthorizationCheckLegacyOperationForResult v \<longleftrightarrow> typed_Decision (CheckLegacyOperationFor_value v)"

interpretation OASelectorAuthorizationCheckLegacyOperationForResult_wire: codec decodeOASelectorAuthorizationCheckLegacyOperationForResult encOASelectorAuthorizationCheckLegacyOperationForResult typed_OASelectorAuthorizationCheckLegacyOperationForResult 2
  by (rule codec_record [OF decodeOASelectorAuthorizationCheckLegacyOperationForResult_def encOASelectorAuthorizationCheckLegacyOperationForResult_def [unfolded append.simps]])
     (rule wire | (simp add: typed_OASelectorAuthorizationCheckLegacyOperationForResult_def code_def validUTF8_none; fail))+

subsection \<open>oaSelectorAuthorizationOperatorListSelectorRulesResult\<close>

record oaSelectorAuthorizationOperatorListSelectorRulesResult =
  ListSelectorRules_value :: SelectorRulePage

definition encOASelectorAuthorizationOperatorListSelectorRulesResult :: "oaSelectorAuthorizationOperatorListSelectorRulesResult \<Rightarrow> nat \<Rightarrow> bytes" where
  "encOASelectorAuthorizationOperatorListSelectorRulesResult v depth = encObject depth
     [encMember depth ''value'' (encSelectorRulePage (ListSelectorRules_value v) (depth + 1))]"

abbreviation zero_OASelectorAuthorizationOperatorListSelectorRulesResult :: oaSelectorAuthorizationOperatorListSelectorRulesResult where
  "zero_OASelectorAuthorizationOperatorListSelectorRulesResult \<equiv> \<lparr>ListSelectorRules_value = zero_SelectorRulePage\<rparr>"

definition decodeOASelectorAuthorizationOperatorListSelectorRulesResult :: "oaSelectorAuthorizationOperatorListSelectorRulesResult reading" where
  "decodeOASelectorAuthorizationOperatorListSelectorRulesResult = decodeRecord
     [(''value'', into decodeSelectorRulePage (\<lambda>x v. v\<lparr>ListSelectorRules_value := x\<rparr>))]
     [''value'']
     zero_OASelectorAuthorizationOperatorListSelectorRulesResult"

definition typed_OASelectorAuthorizationOperatorListSelectorRulesResult :: "oaSelectorAuthorizationOperatorListSelectorRulesResult \<Rightarrow> bool" where
  "typed_OASelectorAuthorizationOperatorListSelectorRulesResult v \<longleftrightarrow> typed_SelectorRulePage (ListSelectorRules_value v)"

interpretation OASelectorAuthorizationOperatorListSelectorRulesResult_wire: codec decodeOASelectorAuthorizationOperatorListSelectorRulesResult encOASelectorAuthorizationOperatorListSelectorRulesResult typed_OASelectorAuthorizationOperatorListSelectorRulesResult 9
  by (rule codec_record [OF decodeOASelectorAuthorizationOperatorListSelectorRulesResult_def encOASelectorAuthorizationOperatorListSelectorRulesResult_def [unfolded append.simps]])
     (rule wire | (simp add: typed_OASelectorAuthorizationOperatorListSelectorRulesResult_def code_def validUTF8_none; fail))+

subsection \<open>oaSelectorAuthorizationOperatorReadSelectorRuleResult\<close>

record oaSelectorAuthorizationOperatorReadSelectorRuleResult =
  ReadSelectorRule_value :: SelectorRuleRead

definition encOASelectorAuthorizationOperatorReadSelectorRuleResult :: "oaSelectorAuthorizationOperatorReadSelectorRuleResult \<Rightarrow> nat \<Rightarrow> bytes" where
  "encOASelectorAuthorizationOperatorReadSelectorRuleResult v depth = encObject depth
     [encMember depth ''value'' (encSelectorRuleRead (ReadSelectorRule_value v) (depth + 1))]"

abbreviation zero_OASelectorAuthorizationOperatorReadSelectorRuleResult :: oaSelectorAuthorizationOperatorReadSelectorRuleResult where
  "zero_OASelectorAuthorizationOperatorReadSelectorRuleResult \<equiv> \<lparr>ReadSelectorRule_value = zero_SelectorRuleRead\<rparr>"

definition decodeOASelectorAuthorizationOperatorReadSelectorRuleResult :: "oaSelectorAuthorizationOperatorReadSelectorRuleResult reading" where
  "decodeOASelectorAuthorizationOperatorReadSelectorRuleResult = decodeRecord
     [(''value'', into decodeSelectorRuleRead (\<lambda>x v. v\<lparr>ReadSelectorRule_value := x\<rparr>))]
     [''value'']
     zero_OASelectorAuthorizationOperatorReadSelectorRuleResult"

definition typed_OASelectorAuthorizationOperatorReadSelectorRuleResult :: "oaSelectorAuthorizationOperatorReadSelectorRuleResult \<Rightarrow> bool" where
  "typed_OASelectorAuthorizationOperatorReadSelectorRuleResult v \<longleftrightarrow> typed_SelectorRuleRead (ReadSelectorRule_value v)"

interpretation OASelectorAuthorizationOperatorReadSelectorRuleResult_wire: codec decodeOASelectorAuthorizationOperatorReadSelectorRuleResult encOASelectorAuthorizationOperatorReadSelectorRuleResult typed_OASelectorAuthorizationOperatorReadSelectorRuleResult 8
  by (rule codec_record [OF decodeOASelectorAuthorizationOperatorReadSelectorRuleResult_def encOASelectorAuthorizationOperatorReadSelectorRuleResult_def [unfolded append.simps]])
     (rule wire | (simp add: typed_OASelectorAuthorizationOperatorReadSelectorRuleResult_def code_def validUTF8_none; fail))+

subsection \<open>oaSelectorAuthorizationOperatorSetSelectorRuleResult\<close>

record oaSelectorAuthorizationOperatorSetSelectorRuleResult =
  SetSelectorRule_value :: SelectorEdit

definition encOASelectorAuthorizationOperatorSetSelectorRuleResult :: "oaSelectorAuthorizationOperatorSetSelectorRuleResult \<Rightarrow> nat \<Rightarrow> bytes" where
  "encOASelectorAuthorizationOperatorSetSelectorRuleResult v depth = encObject depth
     [encMember depth ''value'' (encSelectorEdit (SetSelectorRule_value v) (depth + 1))]"

abbreviation zero_OASelectorAuthorizationOperatorSetSelectorRuleResult :: oaSelectorAuthorizationOperatorSetSelectorRuleResult where
  "zero_OASelectorAuthorizationOperatorSetSelectorRuleResult \<equiv> \<lparr>SetSelectorRule_value = zero_SelectorEdit\<rparr>"

definition decodeOASelectorAuthorizationOperatorSetSelectorRuleResult :: "oaSelectorAuthorizationOperatorSetSelectorRuleResult reading" where
  "decodeOASelectorAuthorizationOperatorSetSelectorRuleResult = decodeRecord
     [(''value'', into decodeSelectorEdit (\<lambda>x v. v\<lparr>SetSelectorRule_value := x\<rparr>))]
     [''value'']
     zero_OASelectorAuthorizationOperatorSetSelectorRuleResult"

definition typed_OASelectorAuthorizationOperatorSetSelectorRuleResult :: "oaSelectorAuthorizationOperatorSetSelectorRuleResult \<Rightarrow> bool" where
  "typed_OASelectorAuthorizationOperatorSetSelectorRuleResult v \<longleftrightarrow> typed_SelectorEdit (SetSelectorRule_value v)"

interpretation OASelectorAuthorizationOperatorSetSelectorRuleResult_wire: codec decodeOASelectorAuthorizationOperatorSetSelectorRuleResult encOASelectorAuthorizationOperatorSetSelectorRuleResult typed_OASelectorAuthorizationOperatorSetSelectorRuleResult 9
  by (rule codec_record [OF decodeOASelectorAuthorizationOperatorSetSelectorRuleResult_def encOASelectorAuthorizationOperatorSetSelectorRuleResult_def [unfolded append.simps]])
     (rule wire | (simp add: typed_OASelectorAuthorizationOperatorSetSelectorRuleResult_def code_def validUTF8_none; fail))+

subsection \<open>oaSelectorAuthorizationOperatorRemoveSelectorRuleResult\<close>

record oaSelectorAuthorizationOperatorRemoveSelectorRuleResult =
  RemoveSelectorRule_value :: SelectorEdit

definition encOASelectorAuthorizationOperatorRemoveSelectorRuleResult :: "oaSelectorAuthorizationOperatorRemoveSelectorRuleResult \<Rightarrow> nat \<Rightarrow> bytes" where
  "encOASelectorAuthorizationOperatorRemoveSelectorRuleResult v depth = encObject depth
     [encMember depth ''value'' (encSelectorEdit (RemoveSelectorRule_value v) (depth + 1))]"

abbreviation zero_OASelectorAuthorizationOperatorRemoveSelectorRuleResult :: oaSelectorAuthorizationOperatorRemoveSelectorRuleResult where
  "zero_OASelectorAuthorizationOperatorRemoveSelectorRuleResult \<equiv> \<lparr>RemoveSelectorRule_value = zero_SelectorEdit\<rparr>"

definition decodeOASelectorAuthorizationOperatorRemoveSelectorRuleResult :: "oaSelectorAuthorizationOperatorRemoveSelectorRuleResult reading" where
  "decodeOASelectorAuthorizationOperatorRemoveSelectorRuleResult = decodeRecord
     [(''value'', into decodeSelectorEdit (\<lambda>x v. v\<lparr>RemoveSelectorRule_value := x\<rparr>))]
     [''value'']
     zero_OASelectorAuthorizationOperatorRemoveSelectorRuleResult"

definition typed_OASelectorAuthorizationOperatorRemoveSelectorRuleResult :: "oaSelectorAuthorizationOperatorRemoveSelectorRuleResult \<Rightarrow> bool" where
  "typed_OASelectorAuthorizationOperatorRemoveSelectorRuleResult v \<longleftrightarrow> typed_SelectorEdit (RemoveSelectorRule_value v)"

interpretation OASelectorAuthorizationOperatorRemoveSelectorRuleResult_wire: codec decodeOASelectorAuthorizationOperatorRemoveSelectorRuleResult encOASelectorAuthorizationOperatorRemoveSelectorRuleResult typed_OASelectorAuthorizationOperatorRemoveSelectorRuleResult 9
  by (rule codec_record [OF decodeOASelectorAuthorizationOperatorRemoveSelectorRuleResult_def encOASelectorAuthorizationOperatorRemoveSelectorRuleResult_def [unfolded append.simps]])
     (rule wire | (simp add: typed_OASelectorAuthorizationOperatorRemoveSelectorRuleResult_def code_def validUTF8_none; fail))+

subsection \<open>oaSelectorAuthorizationOperatorApplyBundleResult\<close>

record oaSelectorAuthorizationOperatorApplyBundleResult =
  ApplyBundle_value :: SelectorEdit

definition encOASelectorAuthorizationOperatorApplyBundleResult :: "oaSelectorAuthorizationOperatorApplyBundleResult \<Rightarrow> nat \<Rightarrow> bytes" where
  "encOASelectorAuthorizationOperatorApplyBundleResult v depth = encObject depth
     [encMember depth ''value'' (encSelectorEdit (ApplyBundle_value v) (depth + 1))]"

abbreviation zero_OASelectorAuthorizationOperatorApplyBundleResult :: oaSelectorAuthorizationOperatorApplyBundleResult where
  "zero_OASelectorAuthorizationOperatorApplyBundleResult \<equiv> \<lparr>ApplyBundle_value = zero_SelectorEdit\<rparr>"

definition decodeOASelectorAuthorizationOperatorApplyBundleResult :: "oaSelectorAuthorizationOperatorApplyBundleResult reading" where
  "decodeOASelectorAuthorizationOperatorApplyBundleResult = decodeRecord
     [(''value'', into decodeSelectorEdit (\<lambda>x v. v\<lparr>ApplyBundle_value := x\<rparr>))]
     [''value'']
     zero_OASelectorAuthorizationOperatorApplyBundleResult"

definition typed_OASelectorAuthorizationOperatorApplyBundleResult :: "oaSelectorAuthorizationOperatorApplyBundleResult \<Rightarrow> bool" where
  "typed_OASelectorAuthorizationOperatorApplyBundleResult v \<longleftrightarrow> typed_SelectorEdit (ApplyBundle_value v)"

interpretation OASelectorAuthorizationOperatorApplyBundleResult_wire: codec decodeOASelectorAuthorizationOperatorApplyBundleResult encOASelectorAuthorizationOperatorApplyBundleResult typed_OASelectorAuthorizationOperatorApplyBundleResult 9
  by (rule codec_record [OF decodeOASelectorAuthorizationOperatorApplyBundleResult_def encOASelectorAuthorizationOperatorApplyBundleResult_def [unfolded append.simps]])
     (rule wire | (simp add: typed_OASelectorAuthorizationOperatorApplyBundleResult_def code_def validUTF8_none; fail))+

subsection \<open>oaSelectorAuthorizationOperatorRemoveBundleResult\<close>

record oaSelectorAuthorizationOperatorRemoveBundleResult =
  RemoveBundle_value :: SelectorEdit

definition encOASelectorAuthorizationOperatorRemoveBundleResult :: "oaSelectorAuthorizationOperatorRemoveBundleResult \<Rightarrow> nat \<Rightarrow> bytes" where
  "encOASelectorAuthorizationOperatorRemoveBundleResult v depth = encObject depth
     [encMember depth ''value'' (encSelectorEdit (RemoveBundle_value v) (depth + 1))]"

abbreviation zero_OASelectorAuthorizationOperatorRemoveBundleResult :: oaSelectorAuthorizationOperatorRemoveBundleResult where
  "zero_OASelectorAuthorizationOperatorRemoveBundleResult \<equiv> \<lparr>RemoveBundle_value = zero_SelectorEdit\<rparr>"

definition decodeOASelectorAuthorizationOperatorRemoveBundleResult :: "oaSelectorAuthorizationOperatorRemoveBundleResult reading" where
  "decodeOASelectorAuthorizationOperatorRemoveBundleResult = decodeRecord
     [(''value'', into decodeSelectorEdit (\<lambda>x v. v\<lparr>RemoveBundle_value := x\<rparr>))]
     [''value'']
     zero_OASelectorAuthorizationOperatorRemoveBundleResult"

definition typed_OASelectorAuthorizationOperatorRemoveBundleResult :: "oaSelectorAuthorizationOperatorRemoveBundleResult \<Rightarrow> bool" where
  "typed_OASelectorAuthorizationOperatorRemoveBundleResult v \<longleftrightarrow> typed_SelectorEdit (RemoveBundle_value v)"

interpretation OASelectorAuthorizationOperatorRemoveBundleResult_wire: codec decodeOASelectorAuthorizationOperatorRemoveBundleResult encOASelectorAuthorizationOperatorRemoveBundleResult typed_OASelectorAuthorizationOperatorRemoveBundleResult 9
  by (rule codec_record [OF decodeOASelectorAuthorizationOperatorRemoveBundleResult_def encOASelectorAuthorizationOperatorRemoveBundleResult_def [unfolded append.simps]])
     (rule wire | (simp add: typed_OASelectorAuthorizationOperatorRemoveBundleResult_def code_def validUTF8_none; fail))+

subsection \<open>oaSelectorAuthorizationOperatorApplyPermissionAllowResult\<close>

record oaSelectorAuthorizationOperatorApplyPermissionAllowResult =
  ApplyPermissionAllow_value :: SelectorEdit

definition encOASelectorAuthorizationOperatorApplyPermissionAllowResult :: "oaSelectorAuthorizationOperatorApplyPermissionAllowResult \<Rightarrow> nat \<Rightarrow> bytes" where
  "encOASelectorAuthorizationOperatorApplyPermissionAllowResult v depth = encObject depth
     [encMember depth ''value'' (encSelectorEdit (ApplyPermissionAllow_value v) (depth + 1))]"

abbreviation zero_OASelectorAuthorizationOperatorApplyPermissionAllowResult :: oaSelectorAuthorizationOperatorApplyPermissionAllowResult where
  "zero_OASelectorAuthorizationOperatorApplyPermissionAllowResult \<equiv> \<lparr>ApplyPermissionAllow_value = zero_SelectorEdit\<rparr>"

definition decodeOASelectorAuthorizationOperatorApplyPermissionAllowResult :: "oaSelectorAuthorizationOperatorApplyPermissionAllowResult reading" where
  "decodeOASelectorAuthorizationOperatorApplyPermissionAllowResult = decodeRecord
     [(''value'', into decodeSelectorEdit (\<lambda>x v. v\<lparr>ApplyPermissionAllow_value := x\<rparr>))]
     [''value'']
     zero_OASelectorAuthorizationOperatorApplyPermissionAllowResult"

definition typed_OASelectorAuthorizationOperatorApplyPermissionAllowResult :: "oaSelectorAuthorizationOperatorApplyPermissionAllowResult \<Rightarrow> bool" where
  "typed_OASelectorAuthorizationOperatorApplyPermissionAllowResult v \<longleftrightarrow> typed_SelectorEdit (ApplyPermissionAllow_value v)"

interpretation OASelectorAuthorizationOperatorApplyPermissionAllowResult_wire: codec decodeOASelectorAuthorizationOperatorApplyPermissionAllowResult encOASelectorAuthorizationOperatorApplyPermissionAllowResult typed_OASelectorAuthorizationOperatorApplyPermissionAllowResult 9
  by (rule codec_record [OF decodeOASelectorAuthorizationOperatorApplyPermissionAllowResult_def encOASelectorAuthorizationOperatorApplyPermissionAllowResult_def [unfolded append.simps]])
     (rule wire | (simp add: typed_OASelectorAuthorizationOperatorApplyPermissionAllowResult_def code_def validUTF8_none; fail))+

subsection \<open>oaSelectorAuthorizationOperatorUndoPermissionEffectResult\<close>

record oaSelectorAuthorizationOperatorUndoPermissionEffectResult =
  UndoPermissionEffect_value :: SelectorEdit

definition encOASelectorAuthorizationOperatorUndoPermissionEffectResult :: "oaSelectorAuthorizationOperatorUndoPermissionEffectResult \<Rightarrow> nat \<Rightarrow> bytes" where
  "encOASelectorAuthorizationOperatorUndoPermissionEffectResult v depth = encObject depth
     [encMember depth ''value'' (encSelectorEdit (UndoPermissionEffect_value v) (depth + 1))]"

abbreviation zero_OASelectorAuthorizationOperatorUndoPermissionEffectResult :: oaSelectorAuthorizationOperatorUndoPermissionEffectResult where
  "zero_OASelectorAuthorizationOperatorUndoPermissionEffectResult \<equiv> \<lparr>UndoPermissionEffect_value = zero_SelectorEdit\<rparr>"

definition decodeOASelectorAuthorizationOperatorUndoPermissionEffectResult :: "oaSelectorAuthorizationOperatorUndoPermissionEffectResult reading" where
  "decodeOASelectorAuthorizationOperatorUndoPermissionEffectResult = decodeRecord
     [(''value'', into decodeSelectorEdit (\<lambda>x v. v\<lparr>UndoPermissionEffect_value := x\<rparr>))]
     [''value'']
     zero_OASelectorAuthorizationOperatorUndoPermissionEffectResult"

definition typed_OASelectorAuthorizationOperatorUndoPermissionEffectResult :: "oaSelectorAuthorizationOperatorUndoPermissionEffectResult \<Rightarrow> bool" where
  "typed_OASelectorAuthorizationOperatorUndoPermissionEffectResult v \<longleftrightarrow> typed_SelectorEdit (UndoPermissionEffect_value v)"

interpretation OASelectorAuthorizationOperatorUndoPermissionEffectResult_wire: codec decodeOASelectorAuthorizationOperatorUndoPermissionEffectResult encOASelectorAuthorizationOperatorUndoPermissionEffectResult typed_OASelectorAuthorizationOperatorUndoPermissionEffectResult 9
  by (rule codec_record [OF decodeOASelectorAuthorizationOperatorUndoPermissionEffectResult_def encOASelectorAuthorizationOperatorUndoPermissionEffectResult_def [unfolded append.simps]])
     (rule wire | (simp add: typed_OASelectorAuthorizationOperatorUndoPermissionEffectResult_def code_def validUTF8_none; fail))+

end
