(* ===== verification/Carried.thy ===== *)
theory Carried
  imports Message_Codec
begin

text \<open>
  Skipping depends only on the bytes it passes over. A value accepted at the end of one buffer is
  accepted with other bytes after it and with as much room below the depth limit; so an object that
  was read from its own buffer is carried whole in a frame.
\<close>

subsection \<open>The same bytes and then others\<close>

definition like :: "bytes \<Rightarrow> reader \<Rightarrow> reader \<Rightarrow> bool" where
  "like tail r q \<longleftrightarrow> rd_rest q = rd_rest r @ tail \<and> rd_depth q + reader_depthLimit r \<le> rd_depth r + reader_depthLimit q"

definition stretches :: "'a reading \<Rightarrow> bool" where
  "stretches dec \<longleftrightarrow> (\<forall>tail r q v r1. dec r = Inr (v, r1) \<longrightarrow> rd_rest r1 \<noteq> [] \<longrightarrow> like tail r q \<longrightarrow>
     (\<exists>q1. dec q = Inr (v, q1) \<and> like tail r1 q1))"

definition closed :: "'a reading \<Rightarrow> bool" where
  "closed dec \<longleftrightarrow> (\<forall>tail r q v r1. dec r = Inr (v, r1) \<longrightarrow> like tail r q \<longrightarrow> (\<exists>q1. dec q = Inr (v, q1) \<and> like tail r1 q1))"

lemma closedI: "(\<And>tail r q v r1. dec r = Inr (v, r1) \<Longrightarrow> like tail r q \<Longrightarrow> \<exists>q1. dec q = Inr (v, q1) \<and> like tail r1 q1) \<Longrightarrow> closed dec"
  by (simp add: closed_def)

lemma closedD: "closed dec \<Longrightarrow> dec r = Inr (v, r1) \<Longrightarrow> like tail r q \<Longrightarrow> \<exists>q1. dec q = Inr (v, q1) \<and> like tail r1 q1"
  unfolding closed_def by blast

lemma stretchesI:
  "(\<And>tail r q v r1. dec r = Inr (v, r1) \<Longrightarrow> rd_rest r1 \<noteq> [] \<Longrightarrow> like tail r q \<Longrightarrow> \<exists>q1. dec q = Inr (v, q1) \<and> like tail r1 q1) \<Longrightarrow>
   stretches dec"
  by (simp add: stretches_def)

lemma stretchesD:
  "stretches dec \<Longrightarrow> dec r = Inr (v, r1) \<Longrightarrow> rd_rest r1 \<noteq> [] \<Longrightarrow> like tail r q \<Longrightarrow> \<exists>q1. dec q = Inr (v, q1) \<and> like tail r1 q1"
  unfolding stretches_def by blast

lemma closed_stretches: "closed dec \<Longrightarrow> stretches dec"
  unfolding closed_def stretches_def by blast

lemma like_rest: "like tail r q \<Longrightarrow> rd_rest q = rd_rest r @ tail"
  by (simp add: like_def)

lemma like_at1: "like tail r q \<Longrightarrow> rd_rest r \<noteq> [] \<Longrightarrow> at1 q = at1 r"
  by (cases "rd_rest r") (auto simp: like_def at1_def)

lemma like_advance: "like tail r q \<Longrightarrow> n \<le> length (rd_rest r) \<Longrightarrow> like tail (advance n r) (advance n q)"
  by (simp add: like_def)

lemma like_drop:
  assumes "like tail r q" and "dropWhile P (rd_rest r) \<noteq> []"
  shows "like tail (r\<lparr>rd_rest := dropWhile P (rd_rest r)\<rparr>) (q\<lparr>rd_rest := dropWhile P (rd_rest q)\<rparr>)"
proof -
  have "dropWhile P (rd_rest r @ tail) = dropWhile P (rd_rest r) @ tail" using assms(2) by (induction "rd_rest r") (auto split: if_splits)
  moreover have "reader_depthLimit (x\<lparr>rd_rest := bs\<rparr>) = reader_depthLimit x" for x :: reader and bs
    by (simp add: reader_depthLimit_def)
  ultimately show ?thesis using assms(1) by (simp add: like_def)
qed

lemma like_ws: "like tail r q \<Longrightarrow> rd_rest (ws r) \<noteq> [] \<Longrightarrow> like tail (ws r) (ws q)"
  unfolding ws_def by (rule like_drop) simp_all

lemma ws_rest: "rd_rest (ws r) \<noteq> [] \<Longrightarrow> rd_rest r \<noteq> []"
  by (auto simp: ws_def)

subsection \<open>Strings\<close>

lemma closed_hex4: "closed reader_hex4"
proof (rule closedI)
  fix tail r q v r1
  assume "reader_hex4 r = Inr (v, r1)" and q: "like tail r q"
  then obtain a b c d cs ds where r: "rd_rest r = a # b # c # d # cs" "those (map nibble [a, b, c, d]) = Some ds"
    "v = foldl (\<lambda>u n. u * 16 + n) 0 ds" "r1 = advance 4 r"
    by (auto simp: reader_hex4_def split: list.split_asm option.split_asm)
  with like_advance [OF q, of 4] like_rest [OF q] show "\<exists>q1. reader_hex4 q = Inr (v, q1) \<and> like tail r1 q1"
    by (auto simp: reader_hex4_def)
qed

lemma take2_advance: "take 2 (rd_rest r) = [a, b] \<Longrightarrow> 2 \<le> length (rd_rest r)"
  by (metis length_Cons length_take list.size(3) min.cobounded1 numeral_2_eq_2)

lemma closed_unicode: "closed unicodeEscaped"
proof (rule closedI)
  fix tail r q v r1
  assume run: "unicodeEscaped r = Inr (v, r1)" and q: "like tail r q"
  from run obtain u r2 where u: "reader_hex4 r = Inr (u, r2)" by (auto simp: unicodeEscaped_def split: sum.split_asm prod.split_asm)
  from closedD [OF closed_hex4 u q] obtain q2 where q2: "reader_hex4 q = Inr (u, q2)" "like tail r2 q2" by blast
  show "\<exists>q1. unicodeEscaped q = Inr (v, q1) \<and> like tail r1 q1"
  proof (cases "0xD800 \<le> u \<and> u \<le> 0xDBFF")
    case True
    with run u have two: "take 2 (rd_rest r2) = [backslash, CHR ''u'']" by (auto simp: unicodeEscaped_def split: if_split_asm)
    from True run u two obtain lo r3 where lo: "reader_hex4 (advance 2 r2) = Inr (lo, r3)"
      by (auto simp: unicodeEscaped_def split: sum.split_asm prod.split_asm)
    have "like tail (advance 2 r2) (advance 2 q2)" by (rule like_advance [OF q2(2) take2_advance [OF two]])
    from closedD [OF closed_hex4 lo this] obtain q3 where q3: "reader_hex4 (advance 2 q2) = Inr (lo, q3)" "like tail r3 q3" by blast
    have "take 2 (rd_rest q2) = [backslash, CHR ''u'']"
      using two take2_advance [OF two] like_rest [OF q2(2)] by simp
    then show ?thesis using True run u q2 lo q3 two by (auto simp: unicodeEscaped_def split: if_split_asm)
  next
    case False
    with run u q2 show ?thesis by (auto simp: unicodeEscaped_def split: if_split_asm)
  qed
qed

lemma closed_escape: "closed reader_escape"
proof (rule closedI)
  fix tail r q v r1
  assume run: "reader_escape r = Inr (v, r1)" and q: "like tail r q"
  from run obtain a c cs where r: "rd_rest r = a # c # cs"
    by (cases "rd_rest r") (auto simp: reader_escape_def split: list.split_asm)
  have two: "like tail (advance 2 r) (advance 2 q)" by (rule like_advance [OF q]) (simp add: r)
  have "rd_rest q = a # c # cs @ tail" using like_rest [OF q] by (simp add: r)
  then show "\<exists>q1. reader_escape q = Inr (v, q1) \<and> like tail r1 q1"
    using run r two by (auto simp: reader_escape_def split: option.split_asm if_split_asm dest: closedD [OF closed_unicode _ two])
qed

lemma closed_strLoop: "strLoop out r = Inr (v, r1) \<Longrightarrow> like tail r q \<Longrightarrow> \<exists>q1. strLoop out q = Inr (v, q1) \<and> like tail r1 q1"
proof (induction out r arbitrary: q rule: strLoop.induct)
  case (1 out r)
  from "1.prems"(1) obtain c cs where r: "rd_rest r = c # cs" by (cases "rd_rest r") (auto simp: strLoop.simps [of out r])
  then have q: "rd_rest q = c # cs @ tail" using like_rest [OF "1.prems"(2)] by simp
  have one: "like tail (advance 1 r) (advance 1 q)" by (rule like_advance [OF "1.prems"(2)]) (simp add: r)
  consider "c = quote" | "c = backslash" "c \<noteq> quote" | "c \<noteq> quote" "c \<noteq> backslash" by blast
  then show ?case
  proof cases
    case 1
    then show ?thesis using "1.prems"(1) one by (auto simp: strLoop.simps [of out r] strLoop.simps [of out q] r q split: if_split_asm)
  next
    case 2
    then have "\<not> code c < 32" using "1.prems"(1) by (auto simp: strLoop.simps [of out r] r)
    with 2 "1.prems"(1) obtain bs r2 where e: "reader_escape r = Inr (bs, r2)" and more: "strLoop (out @ bs) r2 = Inr (v, r1)"
      by (auto simp: strLoop.simps [of out r] r split: sum.split_asm prod.split_asm)
    from closedD [OF closed_escape e "1.prems"(2)] obtain q2 where q2: "reader_escape q = Inr (bs, q2)" "like tail r2 q2" by blast
    from "1.IH"(1) [OF r 2(2) \<open>\<not> code c < 32\<close> 2(1) e _ more q2(2)] q2(1) 2 \<open>\<not> code c < 32\<close> show ?thesis
      by (auto simp: strLoop.simps [of out q] q)
  next
    case 3
    then have small: "\<not> code c < 32" using "1.prems"(1) by (auto simp: strLoop.simps [of out r] r)
    with 3 "1.prems"(1) have more: "strLoop (out @ [c]) (advance 1 r) = Inr (v, r1)" by (simp add: strLoop.simps [of out r] r)
    from "1.IH"(2) [OF r 3(1) small 3(2) more one] 3 small show ?thesis by (simp add: strLoop.simps [of out q] q)
  qed
qed

lemma closed_str: "closed reader_str"
proof (rule closedI)
  fix tail r q v r1
  assume run: "reader_str r = Inr (v, r1)" and q: "like tail r q"
  have r: "rd_rest r \<noteq> []" "at1 r = quote" using str_at [OF run] at1_rest [OF str_at [OF run]] by (auto simp: code_def)
  have "like tail (advance 1 r) (advance 1 q)" by (rule like_advance [OF q]) (use r in \<open>cases "rd_rest r"; simp\<close>)
  then show "\<exists>q1. reader_str q = Inr (v, q1) \<and> like tail r1 q1"
    using run like_at1 [OF q r(1)] r(2) by (auto simp: reader_str_def intro: closed_strLoop)
qed

subsection \<open>Numbers and literals\<close>

lemma closed_skipString: "closed skipString"
  by (rule closedI) (auto simp: skipString_def split: sum.split_asm prod.split_asm dest: closedD [OF closed_str])

lemma closed_literal: "closed (reader_literal w v)"
proof (rule closedI)
  fix tail r q x r1
  assume run: "reader_literal w v r = Inr (x, r1)" and q: "like tail r q"
  then have w: "take (length w) (rd_rest r) = w" by (simp add: reader_literal_def split: if_split_asm)
  then have n: "length w \<le> length (rd_rest r)" by (metis length_take min.cobounded1)
  then have "take (length w) (rd_rest q) = w" using w like_rest [OF q] by simp
  then show "\<exists>q1. reader_literal w v q = Inr (x, q1) \<and> like tail r1 q1"
    using run w like_advance [OF q n] by (auto simp: reader_literal_def)
qed

lemma forward_rest: "tame dec \<Longrightarrow> dec r = Inr (v, r1) \<Longrightarrow> rd_rest r1 \<noteq> [] \<Longrightarrow> rd_rest r \<noteq> []"
  using tame_forward [of dec r v r1] by auto

lemma stretches_someDigits: "stretches someDigits"
proof (rule stretchesI)
  fix tail r q v r1
  assume run: "someDigits r = Inr (v, r1)" "rd_rest r1 \<noteq> []" and q: "like tail r q"
  then have r1: "r1 = r\<lparr>rd_rest := dropWhile isDigit (rd_rest r)\<rparr>" "isDigit (at1 r)"
    by (auto simp: someDigits_def Let_def split: if_split_asm)
  have "rd_rest r \<noteq> []" using run(2) by (auto simp: r1(1))
  then show "\<exists>q1. someDigits q = Inr (v, q1) \<and> like tail r1 q1"
    using like_drop [OF q, of isDigit] run(2) like_at1 [OF q] r1 by (auto simp: someDigits_def Let_def)
qed

lemma like_first: "like tail r q \<Longrightarrow> rd_rest r \<noteq> [] \<Longrightarrow> like tail (if P (at1 r) then advance 1 r else r) (if P (at1 q) then advance 1 q else q)"
  using like_at1 [of tail r q] by (cases "rd_rest r") (auto intro: like_advance)

lemma stretches_skipExponent: "stretches skipExponent"
proof (rule stretchesI)
  fix tail r q v r1
  assume run: "skipExponent r = Inr (v, r1)" "rd_rest r1 \<noteq> []" and q: "like tail r q"
  let ?E = "\<lambda>c. c \<noteq> CHR ''e'' \<and> c \<noteq> CHR ''E''" and ?sign = "\<lambda>c. c = CHR ''+'' \<or> c = CHR ''-''"
  have r: "rd_rest r \<noteq> []" by (rule forward_rest [OF tame_skipExponent run])
  note same = like_at1 [OF q r]
  show "\<exists>q1. skipExponent q = Inr (v, q1) \<and> like tail r1 q1"
  proof (cases "?E (at1 r)")
    case False
    then have digits: "someDigits (if ?sign (at1 (advance 1 r)) then advance 1 (advance 1 r) else advance 1 r) = Inr (v, r1)"
      using run(1) by (auto simp: skipExponent_def Let_def)
    have one: "like tail (advance 1 r) (advance 1 q)" by (rule like_advance [OF q]) (use r in \<open>cases "rd_rest r"; simp\<close>)
    have "rd_rest (advance 1 r) \<noteq> []" using forward_rest [OF tame_someDigits digits run(2)] by (auto split: if_split_asm)
    from stretchesD [OF stretches_someDigits digits run(2) like_first [OF one this, of ?sign]] False same
    show ?thesis by (auto simp: skipExponent_def Let_def)
  qed (use run q same in \<open>auto simp: skipExponent_def\<close>)
qed

lemma stretches_skipNumber: "stretches skipNumber"
proof (rule stretchesI)
  fix tail r q v r1
  assume run: "skipNumber r = Inr (v, r1)" "rd_rest r1 \<noteq> []" and q: "like tail r q"
  have r: "rd_rest r \<noteq> []" by (rule forward_rest [OF tame_skipNumber run])
  define head where "head = (\<lambda>r :: reader. if at1 r = CHR ''-'' then advance 1 r else r)"
  define int where "int = (\<lambda>r :: reader. if at1 r = CHR ''0'' then advance 1 r else r\<lparr>rd_rest := dropWhile isDigit (rd_rest r)\<rparr>)"
  define fraction where "fraction = (\<lambda>r :: reader. if at1 r \<noteq> CHR ''.'' then skipExponent r
      else case someDigits (advance 1 r) of Inl e \<Rightarrow> Inl e | Inr (u, r3) \<Rightarrow> skipExponent r3)"
  have num: "skipNumber x = (if \<not> isDigit (at1 (head x)) then Inl (refuse (head x) ''number_spelling'') else fraction (int (head x)))" for x
    by (simp add: skipNumber_def Let_def head_def int_def fraction_def cong: if_cong)
  have fraction: "stretches fraction" and forward: "rd_rest y \<noteq> []" if "fraction y = Inr (u, y1)" "rd_rest y1 \<noteq> []" for y u y1
  proof -
    have rest: "rd_rest y \<noteq> []" if "fraction y = Inr (u, y1)" "rd_rest y1 \<noteq> []" for y u y1
      using that by (auto simp: fraction_def split: if_split_asm sum.split_asm prod.split_asm
          dest!: forward_rest [OF tame_skipExponent] forward_rest [OF tame_someDigits])
    then show "rd_rest y \<noteq> []" using that by blast
    show "stretches fraction"
    proof (rule stretchesI)
      fix tail r q v r1
      assume f: "fraction r = Inr (v, r1)" "rd_rest r1 \<noteq> []" and q: "like tail r q"
      note r = rest [OF f] and same = like_at1 [OF q rest [OF f]]
      have one: "like tail (advance 1 r) (advance 1 q)" by (rule like_advance [OF q]) (use r in \<open>cases "rd_rest r"; simp\<close>)
      show "\<exists>q1. fraction q = Inr (v, q1) \<and> like tail r1 q1"
      proof (cases "at1 r = CHR ''.''")
        case True
        with f(1) obtain w r3 where w: "someDigits (advance 1 r) = Inr (w, r3)" "skipExponent r3 = Inr (v, r1)"
          by (auto simp: fraction_def split: sum.split_asm prod.split_asm)
        from stretchesD [OF stretches_someDigits w(1) forward_rest [OF tame_skipExponent w(2) f(2)] one]
        obtain q3 where q3: "someDigits (advance 1 q) = Inr (w, q3)" "like tail r3 q3" by blast
        from stretchesD [OF stretches_skipExponent w(2) f(2) q3(2)] q3 True same show ?thesis by (auto simp: fraction_def)
      next
        case False
        with stretchesD [OF stretches_skipExponent _ f(2) q] f(1) same show ?thesis by (auto simp: fraction_def)
      qed
    qed
  qed
  have run': "isDigit (at1 (head r))" "fraction (int (head r)) = Inr (v, r1)" using run(1) by (auto simp: num split: if_split_asm)
  have i: "rd_rest (int (head r)) \<noteq> []" by (rule forward [OF run'(2) run(2)])
  then have h: "rd_rest (head r) \<noteq> []" by (auto simp: int_def split: if_split_asm)
  have qh: "like tail (head r) (head q)" unfolding head_def by (rule like_first [OF q r])
  have qi: "like tail (int (head r)) (int (head q))"
    using like_drop [OF qh, of isDigit] like_advance [OF qh, of 1] i h like_at1 [OF qh h]
    by (cases "rd_rest (head r)") (auto simp: int_def)
  from stretchesD [OF fraction [OF run'(2) run(2)] run'(2) run(2) qi] run'(1) like_at1 [OF qh h]
  show "\<exists>q1. skipNumber q = Inr (v, q1) \<and> like tail r1 q1" by (simp add: num)
qed

subsection \<open>Containers\<close>

lemma loop_more: "loop m step s r = Inr (v, r1) \<Longrightarrow> m \<le> n \<Longrightarrow> loop n step s r = Inr (v, r1)"
proof (induction m arbitrary: n s r)
  case (Suc m)
  then obtain k where n: "n = Suc k" "m \<le> k" by (cases n) auto
  with Suc show ?case by (auto simp: loop.simps split: sum.split_asm prod.split_asm if_split_asm)
qed (simp add: loop.simps)

text \<open>A step's success moves forward, whatever the step.\<close>

definition forward :: "'a reading \<Rightarrow> bool" where
  "forward dec \<longleftrightarrow> (\<forall>r v r1. dec r = Inr (v, r1) \<longrightarrow> (\<exists>m. r1 = advance m r))"

lemma forwardD: "forward dec \<Longrightarrow> dec r = Inr (v, r1) \<Longrightarrow> rd_rest r1 \<noteq> [] \<Longrightarrow> rd_rest r \<noteq> []"
  by (force simp: forward_def)

lemma tame_is_forward: "tame dec \<Longrightarrow> forward dec"
  by (auto simp: forward_def dest: tame_forward)

lemma loop_forward:
  assumes "\<And>s. forward (step s)"
  shows "loop n step s r = Inr (v, r1) \<Longrightarrow> \<exists>m. r1 = advance m r"
proof (induction n arbitrary: s r)
  case (Suc n)
  from Suc.prems obtain s2 r2 where s2: "step s (ws r) = Inr (s2, r2)"
    and more: "r1 = ws r2 \<or> loop n step s2 (advance 1 (ws r2)) = Inr (v, r1)"
    by (auto simp: loop.simps split: sum.split_asm prod.split_asm if_split_asm)
  obtain a where "r2 = advance a (ws r)" using assms [of s] s2 unfolding forward_def by blast
  then obtain b where b: "ws r2 = advance b r" using ws_advance [of r] ws_advance [of r2] by auto
  from more show ?case
  proof
    assume "loop n step s2 (advance 1 (ws r2)) = Inr (v, r1)"
    from Suc.IH [OF this] show ?thesis by (auto simp: b)
  qed (auto simp: b)
qed (simp add: loop.simps)

lemma loop_stretches:
  assumes "\<And>s. stretches (step s)" and "\<And>s. forward (step s)"
  shows "loop n step s r = Inr (v, r1) \<Longrightarrow> rd_rest r1 \<noteq> [] \<Longrightarrow> like tail r q \<Longrightarrow>
    \<exists>q1. loop n step s q = Inr (v, q1) \<and> like tail r1 q1"
proof (induction n arbitrary: s r q)
  case (Suc n)
  from Suc.prems(1) obtain s2 r2 where s2: "step s (ws r) = Inr (s2, r2)"
    and more: "(if at1 (ws r2) \<noteq> CHR '','' then Inr (s2, ws r2) else loop n step s2 (advance 1 (ws r2))) = Inr (v, r1)"
    by (auto simp: loop.simps split: sum.split_asm prod.split_asm)
  have w2: "rd_rest (ws r2) \<noteq> []"
    using more Suc.prems(2) at1_rest [of "ws r2" "CHR '',''"] by (auto simp: code_def split: if_split_asm)
  have w: "rd_rest (ws r) \<noteq> []" by (rule forwardD [OF assms(2) s2 ws_rest [OF w2]])
  from stretchesD [OF assms(1) s2 ws_rest [OF w2] like_ws [OF Suc.prems(3) w]]
  obtain q2 where q2: "step s (ws q) = Inr (s2, q2)" "like tail r2 q2" by blast
  note l2 = like_ws [OF q2(2) w2]
  show ?case
  proof (cases "at1 (ws r2) = CHR '',''")
    case True
    have "like tail (advance 1 (ws r2)) (advance 1 (ws q2))" by (rule like_advance [OF l2]) (use w2 in \<open>cases "rd_rest (ws r2)"; simp\<close>)
    from Suc.IH [OF _ Suc.prems(2) this] more True q2(1) like_at1 [OF l2 w2] show ?thesis by (auto simp: loop.simps)
  next
    case False
    with more q2(1) like_at1 [OF l2 w2] l2 show ?thesis by (auto simp: loop.simps)
  qed
qed (simp add: loop.simps)

lemma container_closed:
  assumes step: "\<And>s. stretches (step s)" "\<And>s. forward (step s)" and shut: "code shut \<noteq> 0" "code opener \<noteq> 0"
  shows "closed (container opener shut step s)"
proof (rule closedI)
  fix tail r q v r1
  assume run: "container opener shut step s r = Inr (v, r1)" and q: "like tail r q"
  from run obtain r0 r2 where o: "at1 r = opener" "enter r = Inr r0" "body shut step s (ws (advance 1 r0)) = Inr (v, r2)"
    "at1 r2 = shut" "r1 = leave (advance 1 r2)" unfolding container_success by blast
  have r: "rd_rest r \<noteq> []" by (rule at1_rest [OF o(1) shut(2)])
  have r0: "r0 = r\<lparr>rd_depth := rd_depth r + 1\<rparr>" and room: "rd_depth r < reader_depthLimit r" using enter_advance [OF o(2)] by auto
  have r2: "rd_rest r2 \<noteq> []" by (rule at1_rest [OF o(4) shut(1)])
  let ?q0 = "q\<lparr>rd_depth := rd_depth q + 1\<rparr>"
  have enter: "enter q = Inr ?q0" using q room by (auto simp: enter_def Let_def like_def)
  have "like tail r0 ?q0" using q by (simp add: r0 like_def)
  then have l: "like tail (advance 1 r0) (advance 1 ?q0)" by (rule like_advance) (use r in \<open>cases "rd_rest r"; simp add: r0\<close>)
  have ahead: "\<exists>m. r2 = advance m (ws (advance 1 r0))"
    using o(3) loop_forward [of step, OF step(2)] by (auto simp: body_def split: if_split_asm intro: exI [of _ 0])
  then have w: "rd_rest (ws (advance 1 r0)) \<noteq> []" using r2 by auto
  note lw = like_ws [OF l w]
  have "\<exists>q2. body shut step s (ws (advance 1 ?q0)) = Inr (v, q2) \<and> like tail r2 q2"
  proof (cases "at1 (ws (advance 1 r0)) = shut")
    case True
    with o(3) like_at1 [OF lw w] lw show ?thesis by (auto simp: body_def)
  next
    case False
    then have "loop (Suc (length (rd_rest (ws (advance 1 r0))))) step s (ws (advance 1 r0)) = Inr (v, r2)"
      using o(3) by (simp add: body_def)
    from loop_stretches [of step, OF step this r2 lw] obtain q2
      where q2: "loop (Suc (length (rd_rest (ws (advance 1 r0))))) step s (ws (advance 1 ?q0)) = Inr (v, q2)" "like tail r2 q2" by blast
    have "length (rd_rest (ws (advance 1 r0))) \<le> length (rd_rest (ws (advance 1 ?q0)))" using like_rest [OF lw] by simp
    with loop_more [OF q2(1)] False like_at1 [OF lw w] q2(2) show ?thesis by (auto simp: body_def)
  qed
  then obtain q2 where q2: "body shut step s (ws (advance 1 ?q0)) = Inr (v, q2)" "like tail r2 q2" by blast
  have q2_ahead: "\<exists>m. q2 = advance m (ws (advance 1 ?q0))"
    using q2(1) loop_forward [of step, OF step(2)] by (auto simp: body_def split: if_split_asm intro: exI [of _ 0])
  have depths: "rd_depth r2 = rd_depth r + 1" "rd_depth q2 = rd_depth q + 1" using ahead q2_ahead by (auto simp: r0)
  have "like tail (advance 1 r2) (advance 1 q2)" by (rule like_advance [OF q2(2)]) (use r2 in \<open>cases "rd_rest r2"; simp\<close>)
  then have "like tail r1 (leave (advance 1 q2))" using depths by (simp add: o(5) like_def leave_def)
  moreover have "container opener shut step s q = Inr (v, leave (advance 1 q2))"
    unfolding container_success using like_at1 [OF q r] like_at1 [OF q2(2) r2] o enter q2(1) by blast
  ultimately show "\<exists>q1. container opener shut step s q = Inr (v, q1) \<and> like tail r1 q1" by blast
qed

subsection \<open>Skipping\<close>

lemma container_forward:
  assumes "\<And>s. forward (step s)"
  shows "forward (container opener shut step s)"
  unfolding forward_def
proof (intro allI impI)
  fix r v r1
  assume "container opener shut step s r = Inr (v, r1)"
  then obtain r0 r2 where o: "enter r = Inr r0" "body shut step s (ws (advance 1 r0)) = Inr (v, r2)" "r1 = leave (advance 1 r2)"
    unfolding container_success by blast
  have r0: "r0 = r\<lparr>rd_depth := rd_depth r + 1\<rparr>" using enter_advance [OF o(1)] by auto
  have "\<exists>m. r2 = advance m (ws (advance 1 r0))"
    using o(2) loop_forward [of step, OF assms] by (auto simp: body_def split: if_split_asm intro: exI [of _ 0])
  then obtain m where m: "r2 = advance m (ws (advance 1 r0))" by blast
  obtain w where "ws (advance 1 r0) = advance w r0" using ws_advance [of "advance 1 r0"] by auto
  then have "r1 = advance (w + m + 1) r" using leave_advance [of "w + m + 1" r] o(3) m by (simp add: r0 add.assoc)
  then show "\<exists>m. r1 = advance m r" by blast
qed

lemma element_ok:
  assumes "stretches val" and "forward val"
  shows "stretches (skipElement val seen)" and "forward (skipElement val seen)"
proof -
  show "stretches (skipElement val seen)"
  proof (rule stretchesI)
    fix tail r q v r1
    assume run: "skipElement val seen r = Inr (v, r1)" "rd_rest r1 \<noteq> []" and q: "like tail r q"
    then obtain u where "val r = Inr (u, r1)" "v = seen" by (auto simp: skipElement_def split: sum.split_asm prod.split_asm)
    with stretchesD [OF assms(1) this(1) run(2) q] show "\<exists>q1. skipElement val seen q = Inr (v, q1) \<and> like tail r1 q1"
      by (auto simp: skipElement_def)
  qed
  show "forward (skipElement val seen)"
    using assms(2) by (auto simp: skipElement_def forward_def split: sum.split_asm prod.split_asm)
qed

lemma skipMember_success:
  "skipMember val seen r = Inr (seen1, r1) \<longleftrightarrow>
     (\<exists>key r2 u. at1 r = quote \<and> reader_str r = Inr (key, r2) \<and> key \<notin> set seen \<and> at1 (ws r2) = CHR '':'' \<and>
       val (ws (advance 1 (ws r2))) = Inr (u, r1) \<and> seen1 = key # seen)"
  by (auto simp: skipMember_def split: sum.split prod.split)

lemma member_forward: "forward val \<Longrightarrow> forward (skipMember val seen)"
  unfolding forward_def
proof (intro allI impI)
  fix r seen1 r1
  assume val: "\<forall>r v r1. val r = Inr (v, r1) \<longrightarrow> (\<exists>m. r1 = advance m r)" and "skipMember val seen r = Inr (seen1, r1)"
  then obtain key r2 u where k: "reader_str r = Inr (key, r2)" "val (ws (advance 1 (ws r2))) = Inr (u, r1)"
    unfolding skipMember_success by blast
  obtain a where "r2 = advance a r" using tame_forward [OF tame_str k(1)] by blast
  moreover obtain b where "ws r2 = advance b r2" using ws_advance by blast
  moreover obtain c where "ws (advance 1 (advance b r2)) = advance c (advance 1 (advance b r2))" using ws_advance by blast
  moreover obtain d where "r1 = advance d (ws (advance 1 (ws r2)))" using val k(2) by blast
  ultimately show "\<exists>m. r1 = advance m r" by simp blast
qed

lemma member_stretches:
  assumes "stretches val" and "forward val"
  shows "stretches (skipMember val seen)"
proof (rule stretchesI)
  fix tail r q seen1 r1
  assume run: "skipMember val seen r = Inr (seen1, r1)" and r1: "rd_rest r1 \<noteq> []" and q: "like tail r q"
  from run obtain key r2 u where k: "at1 r = quote" "reader_str r = Inr (key, r2)" "key \<notin> set seen" "at1 (ws r2) = CHR '':''"
    "val (ws (advance 1 (ws r2))) = Inr (u, r1)" "seen1 = key # seen" unfolding skipMember_success by blast
  from closedD [OF closed_str k(2) q] obtain q2 where q2: "reader_str q = Inr (key, q2)" "like tail r2 q2" by blast
  have w: "rd_rest (ws r2) \<noteq> []" by (rule at1_rest [OF k(4)]) (simp add: code_def)
  note l = like_ws [OF q2(2) w]
  have one: "like tail (advance 1 (ws r2)) (advance 1 (ws q2))" by (rule like_advance [OF l]) (use w in \<open>cases "rd_rest (ws r2)"; simp\<close>)
  have v: "rd_rest (ws (advance 1 (ws r2))) \<noteq> []" by (rule forwardD [OF assms(2) k(5) r1])
  from stretchesD [OF assms(1) k(5) r1 like_ws [OF one v]]
  obtain q1 where "val (ws (advance 1 (ws q2))) = Inr (u, q1)" "like tail r1 q1" by blast
  moreover have "at1 q = quote" using str_at [OF q2(1)] .
  ultimately show "\<exists>q1. skipMember val seen q = Inr (seen1, q1) \<and> like tail r1 q1"
    unfolding skipMember_success using k(3,4,6) q2(1) like_at1 [OF l w] by metis
qed

lemma skipContainer_success:
  "skipContainer val r = Inr (u, r1) \<longleftrightarrow>
     (if at1 r = CHR ''['' then \<exists>seen. container (CHR ''['') (CHR '']'') (skipElement val) [] r = Inr (seen, r1)
      else \<exists>seen. container (CHR ''{'') (CHR ''}'') (skipMember val) [] r = Inr (seen, r1))"
  by (auto simp: skipContainer_def split: sum.split prod.split)

lemma skipContainer_ok:
  assumes "stretches val" and "forward val"
  shows "closed (skipContainer val)" and "forward (skipContainer val)"
proof -
  note el = element_ok [OF assms] and mem = member_stretches [OF assms] member_forward [OF assms(2)]
  have c: "closed (container (CHR ''['') (CHR '']'') (skipElement val) [])" "closed (container (CHR ''{'') (CHR ''}'') (skipMember val) [])"
    by (rule container_closed; simp add: code_def el mem)+
  have f: "forward (container (CHR ''['') (CHR '']'') (skipElement val) [])" "forward (container (CHR ''{'') (CHR ''}'') (skipMember val) [])"
    by (rule container_forward; simp add: el mem)+
  show "forward (skipContainer val)"
    using f unfolding forward_def skipContainer_success by (metis (no_types, lifting))
  show "closed (skipContainer val)"
  proof (rule closedI)
    fix tail r q u r1
    assume run: "skipContainer val r = Inr (u, r1)" and q: "like tail r q"
    then have "at1 r = CHR ''['' \<or> at1 r = CHR ''{''" unfolding skipContainer_success container_success by (auto split: if_split_asm)
    then have r: "rd_rest r \<noteq> []" by (auto simp: code_def dest: at1_rest)
    show "\<exists>q1. skipContainer val q = Inr (u, q1) \<and> like tail r1 q1"
      using run closedD [OF c(1) _ q] closedD [OF c(2) _ q] like_at1 [OF q r] unfolding skipContainer_success
      by (auto split: if_split_asm)
  qed
qed

lemma skipNested_ok: "stretches (skipNested n) \<and> forward (skipNested n)"
proof (induction n)
  case (Suc n)
  note container = skipContainer_ok [OF conjunct1 [OF Suc] conjunct2 [OF Suc]]
  have forward: "forward (skipNested (Suc n))"
    using container(2) tame_is_forward [OF tame_skipString] tame_is_forward [OF tame_skipNumber]
    unfolding forward_def by (auto simp: Let_def dest: tame_forward [OF tame_literal])
  moreover have "stretches (skipNested (Suc n))"
  proof (rule stretchesI)
    fix tail r q u r1
    assume run: "skipNested (Suc n) r = Inr (u, r1)" "rd_rest r1 \<noteq> []" and q: "like tail r q"
    have same: "at1 q = at1 r" by (rule like_at1 [OF q forwardD [OF forward run]])
    show "\<exists>q1. skipNested (Suc n) q = Inr (u, q1) \<and> like tail r1 q1"
      using run(1) stretchesD [OF stretches_skipNumber _ run(2) q] closedD [OF closed_skipString _ q] closedD [OF closed_literal _ q]
        closedD [OF container(1) _ q] unfolding skipNested.simps Let_def same
      by (simp only: if_True if_False split: if_split_asm) auto
  qed
  ultimately show ?case by blast
qed (simp add: stretches_def forward_def)

text \<open>An object read to the end of its own buffer is carried whole at the same depth or above.\<close>

lemma object_carried:
  assumes "skips dec" and "dec r = Inr (v, r1)" and "rd_rest r = text" and "rd_rest r1 = []" and "at1 r = CHR ''{''" and "deep (Suc n) r"
    and "rd_rest q = text @ tail" and "rd_depth q + reader_depthLimit r \<le> rd_depth r + reader_depthLimit q"
  shows "skipNested (Suc n) q = Inr ((), advance (length text) q)"
proof -
  from skipsD [OF assms(1,2,6)] have skip: "skipNested (Suc n) r = Inr ((), r1)" by simp
  then have "skipContainer (skipNested n) r = Inr ((), r1)" using assms(5) by (simp add: Let_def)
  moreover have "like tail r q" using assms(3,7,8) by (simp add: like_def)
  ultimately obtain q1 where q1: "skipContainer (skipNested n) q = Inr ((), q1)" "like tail r1 q1"
    using closedD [OF skipContainer_ok(1) [OF conjunct1 [OF skipNested_ok] conjunct2 [OF skipNested_ok]]] by blast
  have r: "rd_rest r \<noteq> []" by (rule at1_rest [OF assms(5)]) (simp add: code_def)
  then have at: "at1 q = CHR ''{''" using assms(3,5,7) by (cases "rd_rest r") (auto simp: at1_def)
  then have whole: "skipNested (Suc n) q = Inr ((), q1)" using q1(1) by (simp add: Let_def)
  moreover obtain m where m: "q1 = advance m q" using whole skipNested_ok [of "Suc n"] unfolding forward_def by blast
  moreover have "drop m (text @ tail) = tail" using like_rest [OF q1(2)] m assms(4,7) by simp
  then have "drop m (text @ tail) = drop (length text) (text @ tail)" by simp
  then have "advance m q = advance (length text) q" using assms(7) by (simp add: advance_def)
  ultimately show ?thesis by simp
qed

text \<open>Such a payload is a raw value of a frame.\<close>

lemma reads_raw_of_skip:
  assumes "reads h skipValue t ()"
  shows "reads h reader_rawValue t t"
proof (rule readsI [OF reads_solid [OF assms]])
  fix r :: reader and tail
  assume r: "rd_rest r = t @ tail" "delimited tail" "rd_depth r + h \<le> reader_depthLimit r"
  from readsD [OF assms r] r(1) show "reader_rawValue r = Inr (t, advance (length t) r)" by (simp add: reader_rawValue_def)
qed

lemma codes_raw: "codes h dec t v \<Longrightarrow> h \<le> 64 \<Longrightarrow> codes h reader_rawValue t t"
  using reads_raw_of_skip [of h t] codes_skips [of h dec t v 65] unfolding codes_def skipValue_def depthLimit_def by auto

definition framed :: "bytes \<Rightarrow> bool" where
  "framed text \<longleftrightarrow> (\<exists>inside. text = CHR ''{'' # inside @ ''}'')"

lemma framed_object: "framed (encObject d ms)"
  by (simp add: framed_def encObject_def)

lemma framed_solid: "framed text \<Longrightarrow> solid text"
  by (auto simp: framed_def solid_def isWs_def)

lemma codes_carried:
  assumes "skips dec" and "decodeWhole dec text 1 = Inr v" and "framed text"
  shows "codes 63 reader_rawValue text text"
proof -
  let ?r = "newReader text 1 0"
  have r: "rd_rest ?r = text" "rd_depth ?r = 1" "reader_depthLimit ?r = 64"
    by (simp_all add: newReader_def reader_depthLimit_def depthLimit_def)
  obtain inside where t: "text = CHR ''{'' # inside @ ''}''" using assms(3) by (auto simp: framed_def)
  then have w: "ws ?r = ?r" and brace: "at1 ?r = CHR ''{''" by (auto simp: ws_def at1_def newReader_def isWs_def)
  from assms(2) [unfolded decodeWhole_def w] obtain r1 where r1: "dec ?r = Inr (v, r1)" "rd_rest (ws r1) = []"
    by (auto split: sum.split_asm prod.split_asm if_split_asm)
  have deep: "deep n ?r" if "63 < n" for n using that r by (simp add: deep_def)
  obtain m where m: "r1 = advance m ?r" using skipsD [OF assms(1) r1(1) deep [of 64]] by auto
  have "rd_rest r1 = []"
  proof (rule ccontr)
    assume some: "rd_rest r1 \<noteq> []"
    have "c \<in> set (drop m (xs @ [c]))" if "drop m (xs @ [c]) \<noteq> []" for xs and c :: char
      using that by (cases "m \<le> length xs") auto
    from this [where xs = "CHR ''{'' # inside" and c = "CHR ''}''"] some
    have "CHR ''}'' \<in> set (rd_rest r1)" by (simp add: m newReader_def t)
    moreover have "\<forall>c\<in>set (rd_rest r1). isWs c" using r1(2) by (simp add: ws_def dropWhile_eq_Nil_conv)
    ultimately have "isWs (CHR ''}'')" by blast
    then show False by (simp add: isWs_def)
  qed
  have skip: "reads 63 (skipNested n) text ()" if n: "63 < n" for n
  proof (rule readsI [OF framed_solid [OF assms(3)]])
    fix q :: reader and tail
    assume q: "rd_rest q = text @ tail" "rd_depth q + 63 \<le> reader_depthLimit q"
    obtain k where k: "n = Suc k" using n by (cases n) auto
    show "skipNested n q = Inr ((), advance (length text) q)"
      unfolding k
      by (rule object_carried [OF assms(1) r1(1) r(1) \<open>rd_rest r1 = []\<close> brace _ q(1)]) (use deep [OF n] k q(2) r in auto)
  qed
  then have "reads 63 reader_rawValue text text" using reads_raw_of_skip [of 63 "text"] by (simp add: skipValue_def depthLimit_def)
  with skip show ?thesis by (simp add: codes_def)
qed

end
