(* ===== verification/Subjects.thy ===== *)
theory Subjects
  imports Wire
begin

text \<open>
  Subjects of decision_policy.go: \<open>NormalizeDecisionSubject\<close>, \<open>writableSubject\<close>,
  \<open>validStoredSubject\<close>, and the errors the package and its host return. The identity package and the
  platform's path grammar are not part of the repository: they are one record of functions,
  \<open>identity\<close>, read as the file system stands while an operation runs. The one law a
  property may assume of it is that byte-equal names are one program.
\<close>

subsection \<open>Errors\<close>

datatype rights_error =
    ErrUnresolvedShortName bytes
  | ErrUnknownRight
  | ErrCatalogueFull
  | ErrMetaHolder
  | ErrMetaRuleExpiry
  | ErrNoMetaRule
  | ErrMetaTarget
  | ErrRuleDeadline
  | ErrDecisionStateMissing
  | ErrPermissionUnavailable
  | ErrMoved
  | NoWrite
  | ErrOperatorForbidden
  | ErrOther bytes

subsection \<open>The identity package\<close>

record identity =
  packagedProgramPrefix :: bytes
  isAbs :: "bytes \<Rightarrow> bool"
  validSubjectProgram :: "bytes \<Rightarrow> bool"
  normalizeSubjectProgram :: "bytes \<Rightarrow> bytes"
  unresolvedShortName :: "bytes \<Rightarrow> bool"
  hasShortNameComponent :: "bytes \<Rightarrow> bool"
  sameSubjectProgram :: "bytes \<Rightarrow> bytes \<Rightarrow> bool"
  sameNormalizedKeyed :: "bytes \<Rightarrow> bytes \<Rightarrow> bytes \<Rightarrow> bytes \<Rightarrow> bool"
  programKey :: "bytes \<Rightarrow> bytes"

text \<open>\<open>SameNormalizedSubjectProgramKeyed\<close>: "byte-equal names are one program".\<close>

definition byteEqualNames :: "identity \<Rightarrow> bool" where
  "byteEqualNames fs \<longleftrightarrow> (\<forall>p k l. sameNormalizedKeyed fs p p k l)"

lemma byteEqualNamesD [simp]: "byteEqualNames fs \<Longrightarrow> sameNormalizedKeyed fs p p k l"
  by (simp add: byteEqualNames_def)

text \<open>A file system on which programs are named by their absolute path alone.\<close>

definition plainIdentity :: identity where
  "plainIdentity = \<lparr>packagedProgramPrefix = ''package:'',
     isAbs = (\<lambda>p. case p of c # _ \<Rightarrow> c = CHR ''/'' | [] \<Rightarrow> False),
     validSubjectProgram = (\<lambda>p. case p of c # _ \<Rightarrow> c = CHR ''/'' | [] \<Rightarrow> False),
     normalizeSubjectProgram = (\<lambda>p. p),
     unresolvedShortName = (\<lambda>p. False),
     hasShortNameComponent = (\<lambda>p. False),
     sameSubjectProgram = (\<lambda>p q. p = q),
     sameNormalizedKeyed = (\<lambda>p q k l. p = q \<or> (k \<noteq> [] \<and> k = l)),
     programKey = (\<lambda>p. [])\<rparr>"

lemma plainIdentity_byteEqual: "byteEqualNames plainIdentity"
  by (simp add: byteEqualNames_def plainIdentity_def)

subsection \<open>Subjects\<close>

definition NormalizeDecisionSubject :: "identity \<Rightarrow> subject \<Rightarrow> rights_error + subject" where
  "NormalizeDecisionSubject fs s =
    (if prefix (packagedProgramPrefix fs) (program s) then
       (if \<not> boundedDecisionString (account s) 128 \<or> \<not> validSubjectProgram fs (program s)
        then Inl (ErrOther ''rights: invalid subject'')
        else Inr s)
     else if \<not> boundedDecisionString (account s) 128 \<or> \<not> boundedDecisionString (program s) 4096 \<or> \<not> isAbs fs (program s)
     then Inl (ErrOther ''rights: invalid subject'')
     else Inr (s\<lparr>program := normalizeSubjectProgram fs (program s)\<rparr>))"

definition writableSubject :: "identity \<Rightarrow> subject \<Rightarrow> rights_error + subject" where
  "writableSubject fs s = (case NormalizeDecisionSubject fs s of
     Inl e \<Rightarrow> Inl e
   | Inr n \<Rightarrow> if unresolvedShortName fs (program n) then Inl (ErrUnresolvedShortName (program n)) else Inr n)"

definition validStoredSubject :: "identity \<Rightarrow> subject \<Rightarrow> bool" where
  "validStoredSubject fs s \<longleftrightarrow>
     boundedDecisionString (account s) 128 \<and> boundedDecisionString (program s) 4096 \<and> validSubjectProgram fs (program s)"

lemma NormalizeDecisionSubject_account:
  "NormalizeDecisionSubject fs s = Inr n \<Longrightarrow> account n = account s \<and> boundedDecisionString (account n) 128"
  by (auto simp: NormalizeDecisionSubject_def split: if_splits)

lemma NormalizeDecisionSubject_not_short:
  "NormalizeDecisionSubject fs s = Inl e \<Longrightarrow> e = ErrOther ''rights: invalid subject''"
  by (auto simp: NormalizeDecisionSubject_def split: if_splits)

lemma writableSubject_Inr:
  "writableSubject fs s = Inr n \<longleftrightarrow>
     NormalizeDecisionSubject fs s = Inr n \<and> \<not> unresolvedShortName fs (program n)"
  by (auto simp: writableSubject_def split: sum.splits)

lemma plain_subject [eval_simps]:
  assumes "printable a" and "a \<noteq> []" and "length a \<le> 128"
    and "printable p" and "length p < 4096"
  shows "NormalizeDecisionSubject plainIdentity \<lparr>account = a, program = CHR ''/'' # p\<rparr> =
           Inr \<lparr>account = a, program = CHR ''/'' # p\<rparr>"
    and "writableSubject plainIdentity \<lparr>account = a, program = CHR ''/'' # p\<rparr> =
           Inr \<lparr>account = a, program = CHR ''/'' # p\<rparr>"
    and "validStoredSubject plainIdentity \<lparr>account = a, program = CHR ''/'' # p\<rparr>"
  using assms
  by (simp_all add: NormalizeDecisionSubject_def writableSubject_def validStoredSubject_def
      plainIdentity_def printable_bounded)

subsection \<open>Program keys\<close>

text \<open>
  A \<open>programKeys\<close> gives a program's file identity. \<open>keyOnce\<close> reads each program's identity
  once for one pass over the rules, so within a pass it is the file system's \<open>programKey\<close>.
\<close>

type_synonym programKeys = "bytes \<Rightarrow> bytes"

definition keyOnce :: "identity \<Rightarrow> programKeys" where
  "keyOnce fs = programKey fs"

definition sameProgram :: "identity \<Rightarrow> programKeys \<Rightarrow> subject \<Rightarrow> subject \<Rightarrow> bool" where
  "sameProgram fs key a b \<longleftrightarrow>
     account a = account b \<and> sameNormalizedKeyed fs (program a) (program b) (key (program a)) (key (program b))"

lemma sameProgram_refl [simp]: "byteEqualNames fs \<Longrightarrow> sameProgram fs key s s"
  by (simp add: sameProgram_def)

lemma sameProgram_account: "sameProgram fs key a b \<Longrightarrow> account a = account b"
  by (simp add: sameProgram_def)

lemma sameProgram_plain [simp]:
  "sameProgram plainIdentity (keyOnce plainIdentity) a b \<longleftrightarrow> a = b"
  by (cases a; cases b) (simp add: sameProgram_def keyOnce_def plainIdentity_def)

end
