(* ===== verification/Frames.thy ===== *)
theory Frames
  imports Call_Messages Carried Subjects
begin

text \<open>
  The frames of \<open>rec.go\<close>: the request and reply envelopes, and the operations every generated client
  and dispatcher is made of -- \<open>servicePayload\<close>, \<open>serviceResponse\<close>, \<open>serviceReply\<close>,
  \<open>DescribeEndpoint\<close>, \<open>ServeEndpoint\<close>. The arguments and the payload of a frame are carried as
  text. A handler is a step on a state of its own; it returns, fails, or panics, and the
  dispatcher recovers.
\<close>

subsection \<open>oaServiceFrame\<close>

record oaServiceFrame =
  frame_version :: int
  frame_service :: bytes
  frame_method :: bytes
  frame_arguments :: bytes

definition encOAServiceFrame :: "oaServiceFrame \<Rightarrow> nat \<Rightarrow> bytes" where
  "encOAServiceFrame v depth = encObject depth
     [encMember depth ''version'' (num (frame_version v)),
      encMember depth ''service'' (esc (frame_service v)),
      encMember depth ''method'' (esc (frame_method v)),
      encMember depth ''arguments'' (frame_arguments v)]"

abbreviation zero_OAServiceFrame :: oaServiceFrame where
  "zero_OAServiceFrame \<equiv> \<lparr>frame_version = 0, frame_service = [], frame_method = [], frame_arguments = []\<rparr>"

definition decodeOAServiceFrame :: "oaServiceFrame reading" where
  "decodeOAServiceFrame = decodeRecord
     [(''version'', into reader_int32 (\<lambda>x v. v\<lparr>frame_version := x\<rparr>)),
      (''service'', into reader_str (\<lambda>x v. v\<lparr>frame_service := x\<rparr>)),
      (''method'', into reader_str (\<lambda>x v. v\<lparr>frame_method := x\<rparr>)),
      (''arguments'', into reader_rawValue (\<lambda>x v. v\<lparr>frame_arguments := x\<rparr>))]
     [''version'', ''service'', ''method'', ''arguments'']
     zero_OAServiceFrame"

definition typed_OAServiceFrame :: "oaServiceFrame \<Rightarrow> bool" where
  "typed_OAServiceFrame v \<longleftrightarrow> - (2 ^ 31) \<le> frame_version v \<and> frame_version v < 2 ^ 31 \<and> validUTF8 (frame_service v) \<and> validUTF8 (frame_method v)"

subsection \<open>oaServiceReply\<close>

record oaServiceReply =
  reply_version :: int
  reply_service :: bytes
  reply_method :: bytes
  reply_ok :: bool
  reply_payload :: bytes

definition encOAServiceReply :: "oaServiceReply \<Rightarrow> nat \<Rightarrow> bytes" where
  "encOAServiceReply v depth = encObject depth
     [encMember depth ''version'' (num (reply_version v)),
      encMember depth ''service'' (esc (reply_service v)),
      encMember depth ''method'' (esc (reply_method v)),
      encMember depth ''ok'' (encBool (reply_ok v)),
      encMember depth ''payload'' (reply_payload v)]"

abbreviation zero_OAServiceReply :: oaServiceReply where
  "zero_OAServiceReply \<equiv> \<lparr>reply_version = 0, reply_service = [], reply_method = [], reply_ok = False, reply_payload = []\<rparr>"

definition decodeOAServiceReply :: "oaServiceReply reading" where
  "decodeOAServiceReply = decodeRecord
     [(''version'', into reader_int32 (\<lambda>x v. v\<lparr>reply_version := x\<rparr>)),
      (''service'', into reader_str (\<lambda>x v. v\<lparr>reply_service := x\<rparr>)),
      (''method'', into reader_str (\<lambda>x v. v\<lparr>reply_method := x\<rparr>)),
      (''ok'', into reader_boolean (\<lambda>x v. v\<lparr>reply_ok := x\<rparr>)),
      (''payload'', into reader_rawValue (\<lambda>x v. v\<lparr>reply_payload := x\<rparr>))]
     [''version'', ''service'', ''method'', ''ok'', ''payload'']
     zero_OAServiceReply"

definition typed_OAServiceReply :: "oaServiceReply \<Rightarrow> bool" where
  "typed_OAServiceReply v \<longleftrightarrow> - (2 ^ 31) \<le> reply_version v \<and> reply_version v < 2 ^ 31 \<and> validUTF8 (reply_service v) \<and> validUTF8 (reply_method v)"

subsection \<open>oaServiceError\<close>

record oaServiceError =
  error_code :: bytes
  error_message :: bytes

definition encOAServiceError :: "oaServiceError \<Rightarrow> nat \<Rightarrow> bytes" where
  "encOAServiceError v depth = encObject depth
     [encMember depth ''code'' (esc (error_code v)),
      encMember depth ''message'' (esc (error_message v))]"

abbreviation zero_OAServiceError :: oaServiceError where
  "zero_OAServiceError \<equiv> \<lparr>error_code = [], error_message = []\<rparr>"

definition decodeOAServiceError :: "oaServiceError reading" where
  "decodeOAServiceError = decodeRecord
     [(''code'', into reader_str (\<lambda>x v. v\<lparr>error_code := x\<rparr>)),
      (''message'', into reader_str (\<lambda>x v. v\<lparr>error_message := x\<rparr>))]
     [''code'', ''message'']
     zero_OAServiceError"

definition typed_OAServiceError :: "oaServiceError \<Rightarrow> bool" where
  "typed_OAServiceError v \<longleftrightarrow> validUTF8 (error_code v) \<and> validUTF8 (error_message v)"

interpretation OAServiceError_wire: codec decodeOAServiceError encOAServiceError typed_OAServiceError 1
  by (rule codec_record [OF decodeOAServiceError_def encOAServiceError_def [unfolded append.simps]])
     (rule wire | (simp add: typed_OAServiceError_def code_def validUTF8_none; fail))+

subsection \<open>Errors\<close>

text \<open>The errors a call ends with: a reply on the error channel, a dispatcher's word, a reader's
  refusal, anything else. \<open>errorText\<close> is their \<open>Error()\<close>.\<close>

datatype call_error = ServiceError bytes bytes | DispatchError bytes | RefusalError refusal | OtherError rights_error

definition ServiceErrorCodeHandlerError :: bytes where "ServiceErrorCodeHandlerError = ''handler_error''"
definition ServiceErrorCodeInvalidResult :: bytes where "ServiceErrorCodeInvalidResult = ''invalid_result''"

definition ServiceErrorCodeValues :: "bytes list" where
  "ServiceErrorCodeValues = [ServiceErrorCodeHandlerError, ServiceErrorCodeInvalidResult, ''unknown_version'', ''unknown_service'',
     ''unknown_method'', ''wrong_mode'']"

definition Known_ServiceErrorCode :: "bytes \<Rightarrow> bool" where
  "Known_ServiceErrorCode v \<longleftrightarrow> v \<in> set ServiceErrorCodeValues"

fun refusalText :: "refusal \<Rightarrow> bytes" where
  "refusalText (Refusal word offset) = ''refused: '' @ word @ '' at byte '' @ num (int offset)"
| "refusalText Unfinished = []"

definition serviceErrorText :: "bytes \<Rightarrow> bytes \<Rightarrow> bytes" where
  "serviceErrorText name message = (if message \<noteq> [] then message else name)"

text \<open>As the client's callers see it: an error of their own kind.\<close>

fun callError :: "call_error \<Rightarrow> rights_error" where
  "callError (ServiceError name message) = ErrOther (serviceErrorText name message)"
| "callError (DispatchError word) = ErrOther word"
| "callError (RefusalError e) = ErrOther (refusalText e)"
| "callError (OtherError e) = e"

subsection \<open>Envelopes\<close>

definition servicePayload :: "bytes \<Rightarrow> call_error + oaServiceFrame" where
  "servicePayload frame = (case decodeWhole decodeOAServiceFrame frame 0 of
     Inl e \<Rightarrow> Inl (RefusalError e)
   | Inr v \<Rightarrow> if frame_version v \<noteq> 1 then Inl (DispatchError ''unknown_version'') else Inr v)"

definition ServiceName :: "bytes \<Rightarrow> call_error + bytes" where
  "ServiceName frame = (case servicePayload frame of Inl e \<Rightarrow> Inl e | Inr v \<Rightarrow> Inr (frame_service v))"

definition serviceResponse :: "bytes \<Rightarrow> bytes \<Rightarrow> bytes \<Rightarrow> call_error + bytes" where
  "serviceResponse frame service method = (case decodeWhole decodeOAServiceReply frame 0 of
     Inl e \<Rightarrow> Inl (RefusalError e)
   | Inr v \<Rightarrow>
      if reply_version v \<noteq> 1 then Inl (DispatchError ''unknown_version'')
      else if reply_service v \<noteq> service \<or> reply_method v \<noteq> method then Inl (DispatchError ''mismatched_response'')
      else if \<not> reply_ok v then
        (case decodeWhole decodeOAServiceError (reply_payload v) 1 of
           Inl e \<Rightarrow> Inl (RefusalError e)
         | Inr e \<Rightarrow> if error_code e = [] then Inl (DispatchError ''invalid_error'')
             else Inl (ServiceError (error_code e) (error_message e)))
      else Inr (reply_payload v))"

definition replyError :: "call_error \<Rightarrow> oaServiceError" where
  "replyError err = (case err of
     ServiceError name message \<Rightarrow> \<lparr>error_code = if name \<noteq> [] then name else ServiceErrorCodeHandlerError, error_message = message\<rparr>
   | DispatchError word \<Rightarrow> \<lparr>error_code = word, error_message = []\<rparr>
   | RefusalError (Refusal word offset) \<Rightarrow> \<lparr>error_code = word, error_message = []\<rparr>
   | _ \<Rightarrow> \<lparr>error_code = ServiceErrorCodeHandlerError, error_message = ''handler failed''\<rparr>)"

definition serviceReply :: "oaServiceFrame \<Rightarrow> bytes \<Rightarrow> call_error option \<Rightarrow> call_error + bytes" where
  "serviceReply v payload err =
     (let reply = \<lparr>reply_version = 1, reply_service = frame_service v, reply_method = frame_method v, reply_ok = (err = None),
            reply_payload = (case err of None \<Rightarrow> payload | Some e \<Rightarrow> encOAServiceError (replyError e) 1)\<rparr>;
          frame = encOAServiceReply reply 0 in
      case decodeOAServiceReply (ws (newReader frame 0 0)) of Inl e \<Rightarrow> Inl (RefusalError e) | Inr r \<Rightarrow> Inr frame)"

subsection \<open>Handlers\<close>

datatype 'r handled = Returned 'r | Failed call_error | PanickedRefusal refusal | Panicked

type_synonym ('s, 'r) handler = "'s \<Rightarrow> 's \<times> 'r handled"

text \<open>\<open>invokeX\<close> with its deferred recovery: the payload and the error \<open>serviceReply\<close> is given.\<close>

definition invokeResult :: "('r \<Rightarrow> nat \<Rightarrow> bytes) \<Rightarrow> 'r reading \<Rightarrow> 'r handled \<Rightarrow> bytes \<times> call_error option" where
  "invokeResult enc dec outcome = (case outcome of
     Returned v \<Rightarrow> (let payload = enc v 1 in case decodeWhole dec payload 1 of
        Inl e \<Rightarrow> ([], Some (ServiceError ServiceErrorCodeInvalidResult []))
      | Inr w \<Rightarrow> (payload, None))
   | Failed e \<Rightarrow> ([], Some e)
   | PanickedRefusal e \<Rightarrow> ([], Some (ServiceError ServiceErrorCodeInvalidResult []))
   | Panicked \<Rightarrow> ([], Some (ServiceError ServiceErrorCodeHandlerError ''handler failed'')))"

definition invoke :: "('r \<Rightarrow> nat \<Rightarrow> bytes) \<Rightarrow> 'r reading \<Rightarrow> ('v \<Rightarrow> 'r) \<Rightarrow> ('s, 'v) handler \<Rightarrow> 's \<Rightarrow> 's \<times> bytes \<times> call_error option" where
  "invoke enc dec put handler s = (case handler s of (s1, outcome) \<Rightarrow> (s1, invokeResult enc dec (map_handled put outcome)))"

text \<open>One case of \<open>ExchangeFrame\<close>: the handler runs on arguments that were read, or not at all.\<close>

definition answerCall :: "'a reading \<Rightarrow> ('a \<Rightarrow> 's \<Rightarrow> 's \<times> bytes \<times> call_error option) \<Rightarrow> oaServiceFrame \<Rightarrow> 's \<Rightarrow> 's \<times> (call_error + bytes)" where
  "answerCall dec run v s = (case decodeWhole dec (frame_arguments v) 1 of
     Inl e \<Rightarrow> (s, serviceReply v [] (Some (RefusalError e)))
   | Inr args \<Rightarrow> (case run args s of (s1, payload, err) \<Rightarrow> (s1, serviceReply v payload err)))"

subsection \<open>Endpoints\<close>

definition EndpointContract :: bytes where "EndpointContract = ''abstraction.facade/endpoint@1''"

record described =
  ds_contract :: bytes
  ds_ready :: bool
  ds_why :: bytes
  ds_guarantees :: "bytes list"
  ds_capabilities :: "(bytes \<times> bytes) list"

text \<open>\<open>sortedKeys\<close>: insertion by \<open>byteLess\<close>.\<close>

fun insertKey :: "bytes \<Rightarrow> bytes list \<Rightarrow> bytes list" where
  "insertKey k [] = [k]"
| "insertKey k (x # xs) = (if k < x then k # x # xs else x # insertKey k xs)"

definition sortedKeys :: "(bytes \<times> bytes) list \<Rightarrow> bytes list" where
  "sortedKeys m = fold insertKey (map fst m) []"

definition describedText :: "described \<Rightarrow> bytes" where
  "describedText d =
     ''{'' @ esc ''contract'' @ '':'' @ esc (ds_contract d) @ '','' @ esc ''readiness'' @ '':'' @
       esc (if ds_ready d then ''ready'' else ''not_ready'') @ '','' @ esc ''why'' @ '':'' @ esc (if ds_ready d then [] else ds_why d) @
       '','' @ esc ''guarantees'' @ '':['' @ commaSep (map esc (ds_guarantees d)) @ ''],'' @ esc ''capabilities'' @ '':{'' @
       commaSep (map (\<lambda>k. esc k @ '':'' @ esc (the (map_of (ds_capabilities d) k))) (sortedKeys (ds_capabilities d))) @ ''}}''"

definition endpointText :: "bytes \<Rightarrow> bytes \<Rightarrow> described list \<Rightarrow> bytes" where
  "endpointText prog version services =
     ''{'' @ esc ''value'' @ '':{'' @ esc ''outcome'' @ '':'' @ esc ''described'' @ '','' @ esc ''program'' @ '':'' @ esc prog @ '','' @
       esc ''version'' @ '':'' @ esc version @ '','' @ esc ''services'' @ '':['' @ commaSep (map describedText services) @ '']}}''"

text \<open>Whether the arguments of a \<open>Describe\<close> frame are an object without members.\<close>

definition noArguments :: "bytes \<Rightarrow> bool" where
  "noArguments text = (case dropWhile isWs text of
     c # cs \<Rightarrow> c = CHR ''{'' \<and> (case dropWhile isWs cs of d # ds \<Rightarrow> d = CHR ''}'' \<and> dropWhile isWs ds = [] | [] \<Rightarrow> False)
   | [] \<Rightarrow> False)"

definition DescribeEndpoint :: "bytes \<Rightarrow> bytes \<Rightarrow> bytes \<Rightarrow> described list \<Rightarrow> call_error + bytes" where
  "DescribeEndpoint frame prog version services = (case servicePayload frame of
     Inl e \<Rightarrow> Inl e
   | Inr v \<Rightarrow>
      if frame_service v \<noteq> EndpointContract then serviceReply v [] (Some (DispatchError ''unknown_service''))
      else if frame_method v \<noteq> ''Describe'' then serviceReply v [] (Some (DispatchError ''unknown_method''))
      else if \<not> noArguments (frame_arguments v) then serviceReply v [] (Some (RefusalError (Refusal ''unknown_field'' 0)))
      else serviceReply v (endpointText prog version services) None)"

text \<open>A served service: its wire name, its description, and its exchange unless it takes one-way
  frames only.\<close>

record 's served =
  sv_contract :: bytes
  sv_described :: described
  sv_exchange :: "(bytes \<Rightarrow> 's \<Rightarrow> 's \<times> (call_error + bytes)) option"

fun routeFrame :: "'s served list \<Rightarrow> oaServiceFrame \<Rightarrow> bytes \<Rightarrow> 's \<Rightarrow> 's \<times> (call_error + bytes)" where
  "routeFrame [] v frame s = (s, serviceReply v [] (Some (DispatchError ''unknown_service'')))"
| "routeFrame (sv # svs) v frame s =
     (if sv_contract sv \<noteq> frame_service v then routeFrame svs v frame s
      else case sv_exchange sv of
        Some exchange \<Rightarrow> exchange frame s
      | None \<Rightarrow> (s, serviceReply v [] (Some (DispatchError ''wrong_mode''))))"

definition ServeEndpoint :: "bytes \<Rightarrow> bytes \<Rightarrow> 's served list \<Rightarrow> bytes \<Rightarrow> 's \<Rightarrow> 's \<times> (call_error + bytes)" where
  "ServeEndpoint prog version services frame s = (case servicePayload frame of
     Inl e \<Rightarrow> (s, Inl e)
   | Inr v \<Rightarrow>
      if frame_service v = EndpointContract then (s, DescribeEndpoint frame prog version (map sv_described services))
      else routeFrame services v frame s)"

subsection \<open>Dispatchers and clients\<close>

text \<open>A dispatcher holds its handler, with what its optional interfaces report.\<close>

record 'h dispatcher =
  Handler :: 'h
  Ready :: "(bool \<times> bytes) option"
  DescribeMetadata :: "(bytes list \<times> (bytes \<times> bytes) list) option"

definition describeService :: "bytes \<Rightarrow> 'h dispatcher \<Rightarrow> bytes \<times> bool \<times> bytes" where
  "describeService contract d = (case Ready d of
     Some (ready, why) \<Rightarrow> (contract, ready, if ready then [] else why)
   | None \<Rightarrow> (contract, True, []))"

definition describeServiceMetadata :: "'h dispatcher \<Rightarrow> bytes list \<times> (bytes \<times> bytes) list" where
  "describeServiceMetadata d = (case DescribeMetadata d of Some facts \<Rightarrow> facts | None \<Rightarrow> ([], []))"

definition describedBy :: "bytes \<times> bool \<times> bytes \<Rightarrow> bytes list \<times> (bytes \<times> bytes) list \<Rightarrow> described" where
  "describedBy svc facts = \<lparr>ds_contract = fst svc, ds_ready = fst (snd svc), ds_why = snd (snd svc),
     ds_guarantees = fst facts, ds_capabilities = snd facts\<rparr>"

text \<open>The part of every \<open>ExchangeFrame\<close> before its methods, with \<open>methods\<close> the cases of its switch.\<close>

definition exchangeFrame :: "bytes \<Rightarrow> described \<Rightarrow> (oaServiceFrame \<Rightarrow> 's \<Rightarrow> 's \<times> (call_error + bytes)) \<Rightarrow> bytes \<Rightarrow> 's \<Rightarrow>
    's \<times> (call_error + bytes)" where
  "exchangeFrame contract own methods frame s = (case servicePayload frame of
     Inl e \<Rightarrow> (s, Inl e)
   | Inr v \<Rightarrow>
      if frame_service v = EndpointContract then (s, DescribeEndpoint frame [] [] [own])
      else if frame_service v \<noteq> contract then (s, serviceReply v [] (Some (DispatchError ''unknown_service'')))
      else methods v s)"

definition unknownMethod :: "oaServiceFrame \<Rightarrow> 's \<Rightarrow> 's \<times> (call_error + bytes)" where
  "unknownMethod v s = (s, serviceReply v [] (Some (DispatchError ''unknown_method'')))"

text \<open>\<open>WriteFrame\<close>: every method is a request with a response.\<close>

definition writeFrame :: "bytes \<Rightarrow> bytes list \<Rightarrow> bytes \<Rightarrow> call_error option" where
  "writeFrame contract methods frame = (case servicePayload frame of
     Inl e \<Rightarrow> Some e
   | Inr v \<Rightarrow>
      if frame_service v \<noteq> contract then Some (DispatchError ''unknown_service'')
      else if frame_method v \<in> set methods then Some (DispatchError ''wrong_mode'') else Some (DispatchError ''unknown_method''))"

text \<open>A transport answers a frame, on its state.\<close>

type_synonym 's transport = "bytes \<Rightarrow> 's \<Rightarrow> 's \<times> (call_error + bytes)"

definition serviceCall :: "bytes \<Rightarrow> bytes \<Rightarrow> ('a \<Rightarrow> nat \<Rightarrow> bytes) \<Rightarrow> 'r reading \<Rightarrow> ('r \<Rightarrow> 'v) \<Rightarrow> 's transport \<Rightarrow> 'a \<Rightarrow> 's \<Rightarrow>
    's \<times> (call_error + 'v)" where
  "serviceCall service method enc dec get transport args s =
     (let v = \<lparr>frame_version = 1, frame_service = service, frame_method = method, frame_arguments = enc args 1\<rparr>;
          frame = encOAServiceFrame v 0 in
      case servicePayload frame of
        Inl e \<Rightarrow> (s, Inl e)
      | Inr checked \<Rightarrow> (case transport frame s of
          (s1, Inl e) \<Rightarrow> (s1, Inl e)
        | (s1, Inr response) \<Rightarrow> (case serviceResponse response service method of
            Inl e \<Rightarrow> (s1, Inl e)
          | Inr payload \<Rightarrow> (case decodeWhole dec payload 1 of
              Inl e \<Rightarrow> (s1, Inl (RefusalError e))
            | Inr r \<Rightarrow> (s1, Inr (get r))))))"

end
