(* ===== verification/Services.thy ===== *)
theory Services
  imports Frames
begin

text \<open>
  The four services of \<open>rec.go\<close>: the interface each handler implements, the dispatcher's method by
  method \<open>invokeX\<close>, its \<open>ExchangeFrame\<close> and \<open>WriteFrame\<close>, and the client's methods over a transport.
\<close>

subsection \<open>Authorization\<close>

record 's Authorization =
  Authorization_ListActionDescriptions :: "bytes \<Rightarrow> int \<Rightarrow> ('s, DescriptionPage) handler"
  Authorization_Decide :: "bytes \<Rightarrow> bytes \<Rightarrow> ('s, Decision) handler"
  Authorization_DecideFor :: "subject \<Rightarrow> bytes \<Rightarrow> bytes \<Rightarrow> ('s, Decision) handler"

definition AuthorizationContract :: bytes where
  "AuthorizationContract = ''abstraction.rights/authorization@1''"

definition invokeListActionDescriptions :: "'s Authorization dispatcher \<Rightarrow> oaAuthorizationListActionDescriptionsArguments \<Rightarrow> 's \<Rightarrow> 's \<times> bytes \<times> call_error option" where
  "invokeListActionDescriptions d args = invoke encOAAuthorizationListActionDescriptionsResult decodeOAAuthorizationListActionDescriptionsResult (\<lambda>v. \<lparr>ListActionDescriptions_value = v\<rparr>)
     (Authorization_ListActionDescriptions (Handler d) (ListActionDescriptions_cursor args) (ListActionDescriptions_limit args))"

definition invokeDecide :: "'s Authorization dispatcher \<Rightarrow> oaAuthorizationDecideArguments \<Rightarrow> 's \<Rightarrow> 's \<times> bytes \<times> call_error option" where
  "invokeDecide d args = invoke encOAAuthorizationDecideResult decodeOAAuthorizationDecideResult (\<lambda>v. \<lparr>Decide_value = v\<rparr>)
     (Authorization_Decide (Handler d) (Decide_action args) (Decide_resource args))"

definition invokeDecideFor :: "'s Authorization dispatcher \<Rightarrow> oaAuthorizationDecideForArguments \<Rightarrow> 's \<Rightarrow> 's \<times> bytes \<times> call_error option" where
  "invokeDecideFor d args = invoke encOAAuthorizationDecideForResult decodeOAAuthorizationDecideForResult (\<lambda>v. \<lparr>DecideFor_value = v\<rparr>)
     (Authorization_DecideFor (Handler d) (DecideFor_subject args) (DecideFor_action args) (DecideFor_resource args))"

definition AuthorizationDispatcher_DescribeService :: "'s Authorization dispatcher \<Rightarrow> bytes \<times> bool \<times> bytes" where
  "AuthorizationDispatcher_DescribeService d = describeService AuthorizationContract d"

definition AuthorizationDispatcher_DescribeServiceMetadata :: "'s Authorization dispatcher \<Rightarrow> bytes list \<times> (bytes \<times> bytes) list" where
  "AuthorizationDispatcher_DescribeServiceMetadata d = describeServiceMetadata d"

definition AuthorizationDispatcher_ExchangeFrame :: "'s Authorization dispatcher \<Rightarrow> 's transport" where
  "AuthorizationDispatcher_ExchangeFrame d = exchangeFrame AuthorizationContract
     (describedBy (AuthorizationDispatcher_DescribeService d) (AuthorizationDispatcher_DescribeServiceMetadata d))
     (\<lambda>v s.
        if frame_method v = ''ListActionDescriptions'' then answerCall decodeOAAuthorizationListActionDescriptionsArguments (invokeListActionDescriptions d) v s
        else if frame_method v = ''Decide'' then answerCall decodeOAAuthorizationDecideArguments (invokeDecide d) v s
        else if frame_method v = ''DecideFor'' then answerCall decodeOAAuthorizationDecideForArguments (invokeDecideFor d) v s
        else unknownMethod v s)"

definition AuthorizationDispatcher_WriteFrame :: "'s Authorization dispatcher \<Rightarrow> bytes \<Rightarrow> call_error option" where
  "AuthorizationDispatcher_WriteFrame d = writeFrame AuthorizationContract
     [''ListActionDescriptions'',
      ''Decide'',
      ''DecideFor'']"

definition serveAuthorization :: "'s Authorization dispatcher \<Rightarrow> 's served" where
  "serveAuthorization d = \<lparr>sv_contract = AuthorizationContract,
     sv_described = describedBy (AuthorizationDispatcher_DescribeService d) (AuthorizationDispatcher_DescribeServiceMetadata d),
     sv_exchange = Some (AuthorizationDispatcher_ExchangeFrame d)\<rparr>"

definition AuthorizationClient_ListActionDescriptions :: "'s transport \<Rightarrow> bytes \<Rightarrow> int \<Rightarrow> 's \<Rightarrow> 's \<times> (call_error + DescriptionPage)" where
  "AuthorizationClient_ListActionDescriptions transport cursor limit = serviceCall AuthorizationContract ''ListActionDescriptions'' encOAAuthorizationListActionDescriptionsArguments decodeOAAuthorizationListActionDescriptionsResult ListActionDescriptions_value transport
     \<lparr>ListActionDescriptions_cursor = cursor, ListActionDescriptions_limit = limit\<rparr>"

definition AuthorizationClient_Decide :: "'s transport \<Rightarrow> bytes \<Rightarrow> bytes \<Rightarrow> 's \<Rightarrow> 's \<times> (call_error + Decision)" where
  "AuthorizationClient_Decide transport action resource = serviceCall AuthorizationContract ''Decide'' encOAAuthorizationDecideArguments decodeOAAuthorizationDecideResult Decide_value transport
     \<lparr>Decide_action = action, Decide_resource = resource\<rparr>"

definition AuthorizationClient_DecideFor :: "'s transport \<Rightarrow> subject \<Rightarrow> bytes \<Rightarrow> bytes \<Rightarrow> 's \<Rightarrow> 's \<times> (call_error + Decision)" where
  "AuthorizationClient_DecideFor transport subj action resource = serviceCall AuthorizationContract ''DecideFor'' encOAAuthorizationDecideForArguments decodeOAAuthorizationDecideForResult DecideFor_value transport
     \<lparr>DecideFor_subject = subj, DecideFor_action = action, DecideFor_resource = resource\<rparr>"

subsection \<open>AuthorizationOperator\<close>

record 's AuthorizationOperator =
  AuthorizationOperator_RegisterDescribedAction :: "bytes \<Rightarrow> ActionDescription \<Rightarrow> ('s, DescriptionEdit) handler"
  AuthorizationOperator_ApplyFirstUseAllow :: "bytes \<Rightarrow> bytes \<Rightarrow> ('s, PolicyEdit) handler"
  AuthorizationOperator_ListPolicy :: "bytes \<Rightarrow> int \<Rightarrow> ('s, PolicyPage) handler"
  AuthorizationOperator_SetRule :: "bytes \<Rightarrow> PolicyRule \<Rightarrow> ('s, PolicyEdit) handler"
  AuthorizationOperator_RevokeRule :: "bytes \<Rightarrow> subject \<Rightarrow> bytes \<Rightarrow> bytes \<Rightarrow> ('s, PolicyEdit) handler"
  AuthorizationOperator_StopAnswerer :: "bytes \<Rightarrow> subject \<Rightarrow> bool \<Rightarrow> ('s, PolicyEdit) handler"
  AuthorizationOperator_RevokeAnswerPermits :: "bytes \<Rightarrow> subject \<Rightarrow> subject \<Rightarrow> bytes list \<Rightarrow> bytes \<Rightarrow> bytes \<Rightarrow> ('s, PolicyEdit) handler"
  AuthorizationOperator_SetRuleFor :: "bytes \<Rightarrow> PolicyRule \<Rightarrow> int \<Rightarrow> bytes \<Rightarrow> ('s, PolicyEdit) handler"
  AuthorizationOperator_SetRulesFor :: "bytes \<Rightarrow> PolicyRule list \<Rightarrow> int \<Rightarrow> bytes \<Rightarrow> ('s, PolicyEdit) handler"
  AuthorizationOperator_ReadRule :: "subject \<Rightarrow> bytes \<Rightarrow> bytes \<Rightarrow> ('s, RuleRead) handler"
  AuthorizationOperator_RegisterAction :: "bytes \<Rightarrow> bytes \<Rightarrow> ('s, ActionEdit) handler"
  AuthorizationOperator_RetireAction :: "bytes \<Rightarrow> bytes \<Rightarrow> ('s, ActionEdit) handler"
  AuthorizationOperator_ExplainFor :: "subject \<Rightarrow> bytes \<Rightarrow> bytes \<Rightarrow> ('s, DecisionExplanation) handler"
  AuthorizationOperator_ListDefaults :: "('s, DefaultPage) handler"
  AuthorizationOperator_SetDefault :: "bytes \<Rightarrow> bytes \<Rightarrow> bool \<Rightarrow> ('s, DefaultEdit) handler"

definition AuthorizationOperatorContract :: bytes where
  "AuthorizationOperatorContract = ''abstraction.rights/operator@1''"

definition invokeRegisterDescribedAction :: "'s AuthorizationOperator dispatcher \<Rightarrow> oaAuthorizationOperatorRegisterDescribedActionArguments \<Rightarrow> 's \<Rightarrow> 's \<times> bytes \<times> call_error option" where
  "invokeRegisterDescribedAction d args = invoke encOAAuthorizationOperatorRegisterDescribedActionResult decodeOAAuthorizationOperatorRegisterDescribedActionResult (\<lambda>v. \<lparr>RegisterDescribedAction_value = v\<rparr>)
     (AuthorizationOperator_RegisterDescribedAction (Handler d) (RegisterDescribedAction_expectedRevision args) (RegisterDescribedAction_description args))"

definition invokeApplyFirstUseAllow :: "'s AuthorizationOperator dispatcher \<Rightarrow> oaAuthorizationOperatorApplyFirstUseAllowArguments \<Rightarrow> 's \<Rightarrow> 's \<times> bytes \<times> call_error option" where
  "invokeApplyFirstUseAllow d args = invoke encOAAuthorizationOperatorApplyFirstUseAllowResult decodeOAAuthorizationOperatorApplyFirstUseAllowResult (\<lambda>v. \<lparr>ApplyFirstUseAllow_value = v\<rparr>)
     (AuthorizationOperator_ApplyFirstUseAllow (Handler d) (ApplyFirstUseAllow_expectedRevision args) (ApplyFirstUseAllow_questionID args))"

definition invokeListPolicy :: "'s AuthorizationOperator dispatcher \<Rightarrow> oaAuthorizationOperatorListPolicyArguments \<Rightarrow> 's \<Rightarrow> 's \<times> bytes \<times> call_error option" where
  "invokeListPolicy d args = invoke encOAAuthorizationOperatorListPolicyResult decodeOAAuthorizationOperatorListPolicyResult (\<lambda>v. \<lparr>ListPolicy_value = v\<rparr>)
     (AuthorizationOperator_ListPolicy (Handler d) (ListPolicy_cursor args) (ListPolicy_limit args))"

definition invokeSetRule :: "'s AuthorizationOperator dispatcher \<Rightarrow> oaAuthorizationOperatorSetRuleArguments \<Rightarrow> 's \<Rightarrow> 's \<times> bytes \<times> call_error option" where
  "invokeSetRule d args = invoke encOAAuthorizationOperatorSetRuleResult decodeOAAuthorizationOperatorSetRuleResult (\<lambda>v. \<lparr>SetRule_value = v\<rparr>)
     (AuthorizationOperator_SetRule (Handler d) (SetRule_expectedRevision args) (SetRule_rule args))"

definition invokeRevokeRule :: "'s AuthorizationOperator dispatcher \<Rightarrow> oaAuthorizationOperatorRevokeRuleArguments \<Rightarrow> 's \<Rightarrow> 's \<times> bytes \<times> call_error option" where
  "invokeRevokeRule d args = invoke encOAAuthorizationOperatorRevokeRuleResult decodeOAAuthorizationOperatorRevokeRuleResult (\<lambda>v. \<lparr>RevokeRule_value = v\<rparr>)
     (AuthorizationOperator_RevokeRule (Handler d) (RevokeRule_expectedRevision args) (RevokeRule_subject args) (RevokeRule_action args) (RevokeRule_resource args))"

definition invokeStopAnswerer :: "'s AuthorizationOperator dispatcher \<Rightarrow> oaAuthorizationOperatorStopAnswererArguments \<Rightarrow> 's \<Rightarrow> 's \<times> bytes \<times> call_error option" where
  "invokeStopAnswerer d args = invoke encOAAuthorizationOperatorStopAnswererResult decodeOAAuthorizationOperatorStopAnswererResult (\<lambda>v. \<lparr>StopAnswerer_value = v\<rparr>)
     (AuthorizationOperator_StopAnswerer (Handler d) (StopAnswerer_expectedRevision args) (StopAnswerer_answerer args) (StopAnswerer_alsoRevokeGrants args))"

definition invokeRevokeAnswerPermits :: "'s AuthorizationOperator dispatcher \<Rightarrow> oaAuthorizationOperatorRevokeAnswerPermitsArguments \<Rightarrow> 's \<Rightarrow> 's \<times> bytes \<times> call_error option" where
  "invokeRevokeAnswerPermits d args = invoke encOAAuthorizationOperatorRevokeAnswerPermitsResult decodeOAAuthorizationOperatorRevokeAnswerPermitsResult (\<lambda>v. \<lparr>RevokeAnswerPermits_value = v\<rparr>)
     (AuthorizationOperator_RevokeAnswerPermits (Handler d) (RevokeAnswerPermits_expectedRevision args) (RevokeAnswerPermits_answerer args) (RevokeAnswerPermits_target args) (RevokeAnswerPermits_actions args) (RevokeAnswerPermits_resource args) (RevokeAnswerPermits_questionID args))"

definition invokeSetRuleFor :: "'s AuthorizationOperator dispatcher \<Rightarrow> oaAuthorizationOperatorSetRuleForArguments \<Rightarrow> 's \<Rightarrow> 's \<times> bytes \<times> call_error option" where
  "invokeSetRuleFor d args = invoke encOAAuthorizationOperatorSetRuleForResult decodeOAAuthorizationOperatorSetRuleForResult (\<lambda>v. \<lparr>SetRuleFor_value = v\<rparr>)
     (AuthorizationOperator_SetRuleFor (Handler d) (SetRuleFor_expectedRevision args) (SetRuleFor_rule args) (SetRuleFor_ttlMs args) (SetRuleFor_why args))"

definition invokeSetRulesFor :: "'s AuthorizationOperator dispatcher \<Rightarrow> oaAuthorizationOperatorSetRulesForArguments \<Rightarrow> 's \<Rightarrow> 's \<times> bytes \<times> call_error option" where
  "invokeSetRulesFor d args = invoke encOAAuthorizationOperatorSetRulesForResult decodeOAAuthorizationOperatorSetRulesForResult (\<lambda>v. \<lparr>SetRulesFor_value = v\<rparr>)
     (AuthorizationOperator_SetRulesFor (Handler d) (SetRulesFor_expectedRevision args) (SetRulesFor_rules args) (SetRulesFor_ttlMs args) (SetRulesFor_why args))"

definition invokeReadRule :: "'s AuthorizationOperator dispatcher \<Rightarrow> oaAuthorizationOperatorReadRuleArguments \<Rightarrow> 's \<Rightarrow> 's \<times> bytes \<times> call_error option" where
  "invokeReadRule d args = invoke encOAAuthorizationOperatorReadRuleResult decodeOAAuthorizationOperatorReadRuleResult (\<lambda>v. \<lparr>ReadRule_value = v\<rparr>)
     (AuthorizationOperator_ReadRule (Handler d) (ReadRule_subject args) (ReadRule_action args) (ReadRule_resource args))"

definition invokeRegisterAction :: "'s AuthorizationOperator dispatcher \<Rightarrow> oaAuthorizationOperatorRegisterActionArguments \<Rightarrow> 's \<Rightarrow> 's \<times> bytes \<times> call_error option" where
  "invokeRegisterAction d args = invoke encOAAuthorizationOperatorRegisterActionResult decodeOAAuthorizationOperatorRegisterActionResult (\<lambda>v. \<lparr>RegisterAction_value = v\<rparr>)
     (AuthorizationOperator_RegisterAction (Handler d) (RegisterAction_expectedRevision args) (RegisterAction_action args))"

definition invokeRetireAction :: "'s AuthorizationOperator dispatcher \<Rightarrow> oaAuthorizationOperatorRetireActionArguments \<Rightarrow> 's \<Rightarrow> 's \<times> bytes \<times> call_error option" where
  "invokeRetireAction d args = invoke encOAAuthorizationOperatorRetireActionResult decodeOAAuthorizationOperatorRetireActionResult (\<lambda>v. \<lparr>RetireAction_value = v\<rparr>)
     (AuthorizationOperator_RetireAction (Handler d) (RetireAction_expectedRevision args) (RetireAction_action args))"

definition invokeExplainFor :: "'s AuthorizationOperator dispatcher \<Rightarrow> oaAuthorizationOperatorExplainForArguments \<Rightarrow> 's \<Rightarrow> 's \<times> bytes \<times> call_error option" where
  "invokeExplainFor d args = invoke encOAAuthorizationOperatorExplainForResult decodeOAAuthorizationOperatorExplainForResult (\<lambda>v. \<lparr>ExplainFor_value = v\<rparr>)
     (AuthorizationOperator_ExplainFor (Handler d) (ExplainFor_subject args) (ExplainFor_action args) (ExplainFor_resource args))"

definition invokeListDefaults :: "'s AuthorizationOperator dispatcher \<Rightarrow> oaAuthorizationOperatorListDefaultsArguments \<Rightarrow> 's \<Rightarrow> 's \<times> bytes \<times> call_error option" where
  "invokeListDefaults d args = invoke encOAAuthorizationOperatorListDefaultsResult decodeOAAuthorizationOperatorListDefaultsResult (\<lambda>v. \<lparr>ListDefaults_value = v\<rparr>)
     (AuthorizationOperator_ListDefaults (Handler d))"

definition invokeSetDefault :: "'s AuthorizationOperator dispatcher \<Rightarrow> oaAuthorizationOperatorSetDefaultArguments \<Rightarrow> 's \<Rightarrow> 's \<times> bytes \<times> call_error option" where
  "invokeSetDefault d args = invoke encOAAuthorizationOperatorSetDefaultResult decodeOAAuthorizationOperatorSetDefaultResult (\<lambda>v. \<lparr>SetDefault_value = v\<rparr>)
     (AuthorizationOperator_SetDefault (Handler d) (SetDefault_expectedRevision args) (SetDefault_name args) (SetDefault_on args))"

definition AuthorizationOperatorDispatcher_DescribeService :: "'s AuthorizationOperator dispatcher \<Rightarrow> bytes \<times> bool \<times> bytes" where
  "AuthorizationOperatorDispatcher_DescribeService d = describeService AuthorizationOperatorContract d"

definition AuthorizationOperatorDispatcher_DescribeServiceMetadata :: "'s AuthorizationOperator dispatcher \<Rightarrow> bytes list \<times> (bytes \<times> bytes) list" where
  "AuthorizationOperatorDispatcher_DescribeServiceMetadata d = describeServiceMetadata d"

definition AuthorizationOperatorDispatcher_ExchangeFrame :: "'s AuthorizationOperator dispatcher \<Rightarrow> 's transport" where
  "AuthorizationOperatorDispatcher_ExchangeFrame d = exchangeFrame AuthorizationOperatorContract
     (describedBy (AuthorizationOperatorDispatcher_DescribeService d) (AuthorizationOperatorDispatcher_DescribeServiceMetadata d))
     (\<lambda>v s.
        if frame_method v = ''RegisterDescribedAction'' then answerCall decodeOAAuthorizationOperatorRegisterDescribedActionArguments (invokeRegisterDescribedAction d) v s
        else if frame_method v = ''ApplyFirstUseAllow'' then answerCall decodeOAAuthorizationOperatorApplyFirstUseAllowArguments (invokeApplyFirstUseAllow d) v s
        else if frame_method v = ''ListPolicy'' then answerCall decodeOAAuthorizationOperatorListPolicyArguments (invokeListPolicy d) v s
        else if frame_method v = ''SetRule'' then answerCall decodeOAAuthorizationOperatorSetRuleArguments (invokeSetRule d) v s
        else if frame_method v = ''RevokeRule'' then answerCall decodeOAAuthorizationOperatorRevokeRuleArguments (invokeRevokeRule d) v s
        else if frame_method v = ''StopAnswerer'' then answerCall decodeOAAuthorizationOperatorStopAnswererArguments (invokeStopAnswerer d) v s
        else if frame_method v = ''RevokeAnswerPermits'' then answerCall decodeOAAuthorizationOperatorRevokeAnswerPermitsArguments (invokeRevokeAnswerPermits d) v s
        else if frame_method v = ''SetRuleFor'' then answerCall decodeOAAuthorizationOperatorSetRuleForArguments (invokeSetRuleFor d) v s
        else if frame_method v = ''SetRulesFor'' then answerCall decodeOAAuthorizationOperatorSetRulesForArguments (invokeSetRulesFor d) v s
        else if frame_method v = ''ReadRule'' then answerCall decodeOAAuthorizationOperatorReadRuleArguments (invokeReadRule d) v s
        else if frame_method v = ''RegisterAction'' then answerCall decodeOAAuthorizationOperatorRegisterActionArguments (invokeRegisterAction d) v s
        else if frame_method v = ''RetireAction'' then answerCall decodeOAAuthorizationOperatorRetireActionArguments (invokeRetireAction d) v s
        else if frame_method v = ''ExplainFor'' then answerCall decodeOAAuthorizationOperatorExplainForArguments (invokeExplainFor d) v s
        else if frame_method v = ''ListDefaults'' then answerCall decodeOAAuthorizationOperatorListDefaultsArguments (invokeListDefaults d) v s
        else if frame_method v = ''SetDefault'' then answerCall decodeOAAuthorizationOperatorSetDefaultArguments (invokeSetDefault d) v s
        else unknownMethod v s)"

definition AuthorizationOperatorDispatcher_WriteFrame :: "'s AuthorizationOperator dispatcher \<Rightarrow> bytes \<Rightarrow> call_error option" where
  "AuthorizationOperatorDispatcher_WriteFrame d = writeFrame AuthorizationOperatorContract
     [''RegisterDescribedAction'',
      ''ApplyFirstUseAllow'',
      ''ListPolicy'',
      ''SetRule'',
      ''RevokeRule'',
      ''StopAnswerer'',
      ''RevokeAnswerPermits'',
      ''SetRuleFor'',
      ''SetRulesFor'',
      ''ReadRule'',
      ''RegisterAction'',
      ''RetireAction'',
      ''ExplainFor'',
      ''ListDefaults'',
      ''SetDefault'']"

definition serveAuthorizationOperator :: "'s AuthorizationOperator dispatcher \<Rightarrow> 's served" where
  "serveAuthorizationOperator d = \<lparr>sv_contract = AuthorizationOperatorContract,
     sv_described = describedBy (AuthorizationOperatorDispatcher_DescribeService d) (AuthorizationOperatorDispatcher_DescribeServiceMetadata d),
     sv_exchange = Some (AuthorizationOperatorDispatcher_ExchangeFrame d)\<rparr>"

definition AuthorizationOperatorClient_RegisterDescribedAction :: "'s transport \<Rightarrow> bytes \<Rightarrow> ActionDescription \<Rightarrow> 's \<Rightarrow> 's \<times> (call_error + DescriptionEdit)" where
  "AuthorizationOperatorClient_RegisterDescribedAction transport expectedRevision description = serviceCall AuthorizationOperatorContract ''RegisterDescribedAction'' encOAAuthorizationOperatorRegisterDescribedActionArguments decodeOAAuthorizationOperatorRegisterDescribedActionResult RegisterDescribedAction_value transport
     \<lparr>RegisterDescribedAction_expectedRevision = expectedRevision, RegisterDescribedAction_description = description\<rparr>"

definition AuthorizationOperatorClient_ApplyFirstUseAllow :: "'s transport \<Rightarrow> bytes \<Rightarrow> bytes \<Rightarrow> 's \<Rightarrow> 's \<times> (call_error + PolicyEdit)" where
  "AuthorizationOperatorClient_ApplyFirstUseAllow transport expectedRevision questionID = serviceCall AuthorizationOperatorContract ''ApplyFirstUseAllow'' encOAAuthorizationOperatorApplyFirstUseAllowArguments decodeOAAuthorizationOperatorApplyFirstUseAllowResult ApplyFirstUseAllow_value transport
     \<lparr>ApplyFirstUseAllow_expectedRevision = expectedRevision, ApplyFirstUseAllow_questionID = questionID\<rparr>"

definition AuthorizationOperatorClient_ListPolicy :: "'s transport \<Rightarrow> bytes \<Rightarrow> int \<Rightarrow> 's \<Rightarrow> 's \<times> (call_error + PolicyPage)" where
  "AuthorizationOperatorClient_ListPolicy transport cursor limit = serviceCall AuthorizationOperatorContract ''ListPolicy'' encOAAuthorizationOperatorListPolicyArguments decodeOAAuthorizationOperatorListPolicyResult ListPolicy_value transport
     \<lparr>ListPolicy_cursor = cursor, ListPolicy_limit = limit\<rparr>"

definition AuthorizationOperatorClient_SetRule :: "'s transport \<Rightarrow> bytes \<Rightarrow> PolicyRule \<Rightarrow> 's \<Rightarrow> 's \<times> (call_error + PolicyEdit)" where
  "AuthorizationOperatorClient_SetRule transport expectedRevision rule1 = serviceCall AuthorizationOperatorContract ''SetRule'' encOAAuthorizationOperatorSetRuleArguments decodeOAAuthorizationOperatorSetRuleResult SetRule_value transport
     \<lparr>SetRule_expectedRevision = expectedRevision, SetRule_rule = rule1\<rparr>"

definition AuthorizationOperatorClient_RevokeRule :: "'s transport \<Rightarrow> bytes \<Rightarrow> subject \<Rightarrow> bytes \<Rightarrow> bytes \<Rightarrow> 's \<Rightarrow> 's \<times> (call_error + PolicyEdit)" where
  "AuthorizationOperatorClient_RevokeRule transport expectedRevision subj action resource = serviceCall AuthorizationOperatorContract ''RevokeRule'' encOAAuthorizationOperatorRevokeRuleArguments decodeOAAuthorizationOperatorRevokeRuleResult RevokeRule_value transport
     \<lparr>RevokeRule_expectedRevision = expectedRevision, RevokeRule_subject = subj, RevokeRule_action = action, RevokeRule_resource = resource\<rparr>"

definition AuthorizationOperatorClient_StopAnswerer :: "'s transport \<Rightarrow> bytes \<Rightarrow> subject \<Rightarrow> bool \<Rightarrow> 's \<Rightarrow> 's \<times> (call_error + PolicyEdit)" where
  "AuthorizationOperatorClient_StopAnswerer transport expectedRevision answerer alsoRevokeGrants = serviceCall AuthorizationOperatorContract ''StopAnswerer'' encOAAuthorizationOperatorStopAnswererArguments decodeOAAuthorizationOperatorStopAnswererResult StopAnswerer_value transport
     \<lparr>StopAnswerer_expectedRevision = expectedRevision, StopAnswerer_answerer = answerer, StopAnswerer_alsoRevokeGrants = alsoRevokeGrants\<rparr>"

definition AuthorizationOperatorClient_RevokeAnswerPermits :: "'s transport \<Rightarrow> bytes \<Rightarrow> subject \<Rightarrow> subject \<Rightarrow> bytes list \<Rightarrow> bytes \<Rightarrow> bytes \<Rightarrow> 's \<Rightarrow> 's \<times> (call_error + PolicyEdit)" where
  "AuthorizationOperatorClient_RevokeAnswerPermits transport expectedRevision answerer target acts resource questionID = serviceCall AuthorizationOperatorContract ''RevokeAnswerPermits'' encOAAuthorizationOperatorRevokeAnswerPermitsArguments decodeOAAuthorizationOperatorRevokeAnswerPermitsResult RevokeAnswerPermits_value transport
     \<lparr>RevokeAnswerPermits_expectedRevision = expectedRevision, RevokeAnswerPermits_answerer = answerer, RevokeAnswerPermits_target = target, RevokeAnswerPermits_actions = acts, RevokeAnswerPermits_resource = resource, RevokeAnswerPermits_questionID = questionID\<rparr>"

definition AuthorizationOperatorClient_SetRuleFor :: "'s transport \<Rightarrow> bytes \<Rightarrow> PolicyRule \<Rightarrow> int \<Rightarrow> bytes \<Rightarrow> 's \<Rightarrow> 's \<times> (call_error + PolicyEdit)" where
  "AuthorizationOperatorClient_SetRuleFor transport expectedRevision rule1 ttlMs why = serviceCall AuthorizationOperatorContract ''SetRuleFor'' encOAAuthorizationOperatorSetRuleForArguments decodeOAAuthorizationOperatorSetRuleForResult SetRuleFor_value transport
     \<lparr>SetRuleFor_expectedRevision = expectedRevision, SetRuleFor_rule = rule1, SetRuleFor_ttlMs = ttlMs, SetRuleFor_why = why\<rparr>"

definition AuthorizationOperatorClient_SetRulesFor :: "'s transport \<Rightarrow> bytes \<Rightarrow> PolicyRule list \<Rightarrow> int \<Rightarrow> bytes \<Rightarrow> 's \<Rightarrow> 's \<times> (call_error + PolicyEdit)" where
  "AuthorizationOperatorClient_SetRulesFor transport expectedRevision rules1 ttlMs why = serviceCall AuthorizationOperatorContract ''SetRulesFor'' encOAAuthorizationOperatorSetRulesForArguments decodeOAAuthorizationOperatorSetRulesForResult SetRulesFor_value transport
     \<lparr>SetRulesFor_expectedRevision = expectedRevision, SetRulesFor_rules = rules1, SetRulesFor_ttlMs = ttlMs, SetRulesFor_why = why\<rparr>"

definition AuthorizationOperatorClient_ReadRule :: "'s transport \<Rightarrow> subject \<Rightarrow> bytes \<Rightarrow> bytes \<Rightarrow> 's \<Rightarrow> 's \<times> (call_error + RuleRead)" where
  "AuthorizationOperatorClient_ReadRule transport subj action resource = serviceCall AuthorizationOperatorContract ''ReadRule'' encOAAuthorizationOperatorReadRuleArguments decodeOAAuthorizationOperatorReadRuleResult ReadRule_value transport
     \<lparr>ReadRule_subject = subj, ReadRule_action = action, ReadRule_resource = resource\<rparr>"

definition AuthorizationOperatorClient_RegisterAction :: "'s transport \<Rightarrow> bytes \<Rightarrow> bytes \<Rightarrow> 's \<Rightarrow> 's \<times> (call_error + ActionEdit)" where
  "AuthorizationOperatorClient_RegisterAction transport expectedRevision action = serviceCall AuthorizationOperatorContract ''RegisterAction'' encOAAuthorizationOperatorRegisterActionArguments decodeOAAuthorizationOperatorRegisterActionResult RegisterAction_value transport
     \<lparr>RegisterAction_expectedRevision = expectedRevision, RegisterAction_action = action\<rparr>"

definition AuthorizationOperatorClient_RetireAction :: "'s transport \<Rightarrow> bytes \<Rightarrow> bytes \<Rightarrow> 's \<Rightarrow> 's \<times> (call_error + ActionEdit)" where
  "AuthorizationOperatorClient_RetireAction transport expectedRevision action = serviceCall AuthorizationOperatorContract ''RetireAction'' encOAAuthorizationOperatorRetireActionArguments decodeOAAuthorizationOperatorRetireActionResult RetireAction_value transport
     \<lparr>RetireAction_expectedRevision = expectedRevision, RetireAction_action = action\<rparr>"

definition AuthorizationOperatorClient_ExplainFor :: "'s transport \<Rightarrow> subject \<Rightarrow> bytes \<Rightarrow> bytes \<Rightarrow> 's \<Rightarrow> 's \<times> (call_error + DecisionExplanation)" where
  "AuthorizationOperatorClient_ExplainFor transport subj action resource = serviceCall AuthorizationOperatorContract ''ExplainFor'' encOAAuthorizationOperatorExplainForArguments decodeOAAuthorizationOperatorExplainForResult ExplainFor_value transport
     \<lparr>ExplainFor_subject = subj, ExplainFor_action = action, ExplainFor_resource = resource\<rparr>"

definition AuthorizationOperatorClient_ListDefaults :: "'s transport \<Rightarrow> 's \<Rightarrow> 's \<times> (call_error + DefaultPage)" where
  "AuthorizationOperatorClient_ListDefaults transport = serviceCall AuthorizationOperatorContract ''ListDefaults'' encOAAuthorizationOperatorListDefaultsArguments decodeOAAuthorizationOperatorListDefaultsResult ListDefaults_value transport
     ()"

definition AuthorizationOperatorClient_SetDefault :: "'s transport \<Rightarrow> bytes \<Rightarrow> bytes \<Rightarrow> bool \<Rightarrow> 's \<Rightarrow> 's \<times> (call_error + DefaultEdit)" where
  "AuthorizationOperatorClient_SetDefault transport expectedRevision name on1 = serviceCall AuthorizationOperatorContract ''SetDefault'' encOAAuthorizationOperatorSetDefaultArguments decodeOAAuthorizationOperatorSetDefaultResult SetDefault_value transport
     \<lparr>SetDefault_expectedRevision = expectedRevision, SetDefault_name = name, SetDefault_on = on1\<rparr>"

subsection \<open>SelectorAuthorization\<close>

record 's SelectorAuthorization =
  SelectorAuthorization_ListPermissionDefinitions :: "bytes \<Rightarrow> int \<Rightarrow> ('s, PermissionDefinitionPage) handler"
  SelectorAuthorization_ListPermissionBundles :: "bytes \<Rightarrow> int \<Rightarrow> ('s, PermissionBundlePage) handler"
  SelectorAuthorization_CheckBatch :: "CheckBatchRequest \<Rightarrow> ('s, BatchDecision) handler"
  SelectorAuthorization_CheckBatchFor :: "subject \<Rightarrow> CheckBatchRequest \<Rightarrow> ('s, BatchDecision) handler"
  SelectorAuthorization_CheckLegacyOperationFor :: "subject \<Rightarrow> LegacyOperationRequest \<Rightarrow> ('s, Decision) handler"

definition SelectorAuthorizationContract :: bytes where
  "SelectorAuthorizationContract = ''abstraction.rights/authorization@2''"

definition invokeListPermissionDefinitions :: "'s SelectorAuthorization dispatcher \<Rightarrow> oaSelectorAuthorizationListPermissionDefinitionsArguments \<Rightarrow> 's \<Rightarrow> 's \<times> bytes \<times> call_error option" where
  "invokeListPermissionDefinitions d args = invoke encOASelectorAuthorizationListPermissionDefinitionsResult decodeOASelectorAuthorizationListPermissionDefinitionsResult (\<lambda>v. \<lparr>ListPermissionDefinitions_value = v\<rparr>)
     (SelectorAuthorization_ListPermissionDefinitions (Handler d) (ListPermissionDefinitions_cursor args) (ListPermissionDefinitions_limit args))"

definition invokeListPermissionBundles :: "'s SelectorAuthorization dispatcher \<Rightarrow> oaSelectorAuthorizationListPermissionBundlesArguments \<Rightarrow> 's \<Rightarrow> 's \<times> bytes \<times> call_error option" where
  "invokeListPermissionBundles d args = invoke encOASelectorAuthorizationListPermissionBundlesResult decodeOASelectorAuthorizationListPermissionBundlesResult (\<lambda>v. \<lparr>ListPermissionBundles_value = v\<rparr>)
     (SelectorAuthorization_ListPermissionBundles (Handler d) (ListPermissionBundles_cursor args) (ListPermissionBundles_limit args))"

definition invokeCheckBatch :: "'s SelectorAuthorization dispatcher \<Rightarrow> oaSelectorAuthorizationCheckBatchArguments \<Rightarrow> 's \<Rightarrow> 's \<times> bytes \<times> call_error option" where
  "invokeCheckBatch d args = invoke encOASelectorAuthorizationCheckBatchResult decodeOASelectorAuthorizationCheckBatchResult (\<lambda>v. \<lparr>CheckBatch_value = v\<rparr>)
     (SelectorAuthorization_CheckBatch (Handler d) (CheckBatch_request args))"

definition invokeCheckBatchFor :: "'s SelectorAuthorization dispatcher \<Rightarrow> oaSelectorAuthorizationCheckBatchForArguments \<Rightarrow> 's \<Rightarrow> 's \<times> bytes \<times> call_error option" where
  "invokeCheckBatchFor d args = invoke encOASelectorAuthorizationCheckBatchForResult decodeOASelectorAuthorizationCheckBatchForResult (\<lambda>v. \<lparr>CheckBatchFor_value = v\<rparr>)
     (SelectorAuthorization_CheckBatchFor (Handler d) (CheckBatchFor_subject args) (CheckBatchFor_request args))"

definition invokeCheckLegacyOperationFor :: "'s SelectorAuthorization dispatcher \<Rightarrow> oaSelectorAuthorizationCheckLegacyOperationForArguments \<Rightarrow> 's \<Rightarrow> 's \<times> bytes \<times> call_error option" where
  "invokeCheckLegacyOperationFor d args = invoke encOASelectorAuthorizationCheckLegacyOperationForResult decodeOASelectorAuthorizationCheckLegacyOperationForResult (\<lambda>v. \<lparr>CheckLegacyOperationFor_value = v\<rparr>)
     (SelectorAuthorization_CheckLegacyOperationFor (Handler d) (CheckLegacyOperationFor_subject args) (CheckLegacyOperationFor_request args))"

definition SelectorAuthorizationDispatcher_DescribeService :: "'s SelectorAuthorization dispatcher \<Rightarrow> bytes \<times> bool \<times> bytes" where
  "SelectorAuthorizationDispatcher_DescribeService d = describeService SelectorAuthorizationContract d"

definition SelectorAuthorizationDispatcher_DescribeServiceMetadata :: "'s SelectorAuthorization dispatcher \<Rightarrow> bytes list \<times> (bytes \<times> bytes) list" where
  "SelectorAuthorizationDispatcher_DescribeServiceMetadata d = describeServiceMetadata d"

definition SelectorAuthorizationDispatcher_ExchangeFrame :: "'s SelectorAuthorization dispatcher \<Rightarrow> 's transport" where
  "SelectorAuthorizationDispatcher_ExchangeFrame d = exchangeFrame SelectorAuthorizationContract
     (describedBy (SelectorAuthorizationDispatcher_DescribeService d) (SelectorAuthorizationDispatcher_DescribeServiceMetadata d))
     (\<lambda>v s.
        if frame_method v = ''ListPermissionDefinitions'' then answerCall decodeOASelectorAuthorizationListPermissionDefinitionsArguments (invokeListPermissionDefinitions d) v s
        else if frame_method v = ''ListPermissionBundles'' then answerCall decodeOASelectorAuthorizationListPermissionBundlesArguments (invokeListPermissionBundles d) v s
        else if frame_method v = ''CheckBatch'' then answerCall decodeOASelectorAuthorizationCheckBatchArguments (invokeCheckBatch d) v s
        else if frame_method v = ''CheckBatchFor'' then answerCall decodeOASelectorAuthorizationCheckBatchForArguments (invokeCheckBatchFor d) v s
        else if frame_method v = ''CheckLegacyOperationFor'' then answerCall decodeOASelectorAuthorizationCheckLegacyOperationForArguments (invokeCheckLegacyOperationFor d) v s
        else unknownMethod v s)"

definition SelectorAuthorizationDispatcher_WriteFrame :: "'s SelectorAuthorization dispatcher \<Rightarrow> bytes \<Rightarrow> call_error option" where
  "SelectorAuthorizationDispatcher_WriteFrame d = writeFrame SelectorAuthorizationContract
     [''ListPermissionDefinitions'',
      ''ListPermissionBundles'',
      ''CheckBatch'',
      ''CheckBatchFor'',
      ''CheckLegacyOperationFor'']"

definition serveSelectorAuthorization :: "'s SelectorAuthorization dispatcher \<Rightarrow> 's served" where
  "serveSelectorAuthorization d = \<lparr>sv_contract = SelectorAuthorizationContract,
     sv_described = describedBy (SelectorAuthorizationDispatcher_DescribeService d) (SelectorAuthorizationDispatcher_DescribeServiceMetadata d),
     sv_exchange = Some (SelectorAuthorizationDispatcher_ExchangeFrame d)\<rparr>"

definition SelectorAuthorizationClient_ListPermissionDefinitions :: "'s transport \<Rightarrow> bytes \<Rightarrow> int \<Rightarrow> 's \<Rightarrow> 's \<times> (call_error + PermissionDefinitionPage)" where
  "SelectorAuthorizationClient_ListPermissionDefinitions transport cursor limit = serviceCall SelectorAuthorizationContract ''ListPermissionDefinitions'' encOASelectorAuthorizationListPermissionDefinitionsArguments decodeOASelectorAuthorizationListPermissionDefinitionsResult ListPermissionDefinitions_value transport
     \<lparr>ListPermissionDefinitions_cursor = cursor, ListPermissionDefinitions_limit = limit\<rparr>"

definition SelectorAuthorizationClient_ListPermissionBundles :: "'s transport \<Rightarrow> bytes \<Rightarrow> int \<Rightarrow> 's \<Rightarrow> 's \<times> (call_error + PermissionBundlePage)" where
  "SelectorAuthorizationClient_ListPermissionBundles transport cursor limit = serviceCall SelectorAuthorizationContract ''ListPermissionBundles'' encOASelectorAuthorizationListPermissionBundlesArguments decodeOASelectorAuthorizationListPermissionBundlesResult ListPermissionBundles_value transport
     \<lparr>ListPermissionBundles_cursor = cursor, ListPermissionBundles_limit = limit\<rparr>"

definition SelectorAuthorizationClient_CheckBatch :: "'s transport \<Rightarrow> CheckBatchRequest \<Rightarrow> 's \<Rightarrow> 's \<times> (call_error + BatchDecision)" where
  "SelectorAuthorizationClient_CheckBatch transport req = serviceCall SelectorAuthorizationContract ''CheckBatch'' encOASelectorAuthorizationCheckBatchArguments decodeOASelectorAuthorizationCheckBatchResult CheckBatch_value transport
     \<lparr>CheckBatch_request = req\<rparr>"

definition SelectorAuthorizationClient_CheckBatchFor :: "'s transport \<Rightarrow> subject \<Rightarrow> CheckBatchRequest \<Rightarrow> 's \<Rightarrow> 's \<times> (call_error + BatchDecision)" where
  "SelectorAuthorizationClient_CheckBatchFor transport subj req = serviceCall SelectorAuthorizationContract ''CheckBatchFor'' encOASelectorAuthorizationCheckBatchForArguments decodeOASelectorAuthorizationCheckBatchForResult CheckBatchFor_value transport
     \<lparr>CheckBatchFor_subject = subj, CheckBatchFor_request = req\<rparr>"

definition SelectorAuthorizationClient_CheckLegacyOperationFor :: "'s transport \<Rightarrow> subject \<Rightarrow> LegacyOperationRequest \<Rightarrow> 's \<Rightarrow> 's \<times> (call_error + Decision)" where
  "SelectorAuthorizationClient_CheckLegacyOperationFor transport subj req = serviceCall SelectorAuthorizationContract ''CheckLegacyOperationFor'' encOASelectorAuthorizationCheckLegacyOperationForArguments decodeOASelectorAuthorizationCheckLegacyOperationForResult CheckLegacyOperationFor_value transport
     \<lparr>CheckLegacyOperationFor_subject = subj, CheckLegacyOperationFor_request = req\<rparr>"

subsection \<open>SelectorAuthorizationOperator\<close>

record 's SelectorAuthorizationOperator =
  SelectorAuthorizationOperator_ListSelectorRules :: "bytes \<Rightarrow> int \<Rightarrow> ('s, SelectorRulePage) handler"
  SelectorAuthorizationOperator_ReadSelectorRule :: "subject \<Rightarrow> PermissionSelection \<Rightarrow> ('s, SelectorRuleRead) handler"
  SelectorAuthorizationOperator_SetSelectorRule :: "bytes \<Rightarrow> SelectorRule \<Rightarrow> int \<Rightarrow> bytes \<Rightarrow> ('s, SelectorEdit) handler"
  SelectorAuthorizationOperator_RemoveSelectorRule :: "bytes \<Rightarrow> subject \<Rightarrow> PermissionSelection \<Rightarrow> ('s, SelectorEdit) handler"
  SelectorAuthorizationOperator_ApplyBundle :: "bytes \<Rightarrow> subject \<Rightarrow> bytes \<Rightarrow> ResourceSelector \<Rightarrow> int \<Rightarrow> bytes \<Rightarrow> ('s, SelectorEdit) handler"
  SelectorAuthorizationOperator_RemoveBundle :: "bytes \<Rightarrow> subject \<Rightarrow> bytes \<Rightarrow> ('s, SelectorEdit) handler"
  SelectorAuthorizationOperator_ApplyPermissionAllow :: "bytes \<Rightarrow> bytes \<Rightarrow> ('s, SelectorEdit) handler"
  SelectorAuthorizationOperator_UndoPermissionEffect :: "bytes \<Rightarrow> bytes \<Rightarrow> ('s, SelectorEdit) handler"

definition SelectorAuthorizationOperatorContract :: bytes where
  "SelectorAuthorizationOperatorContract = ''abstraction.rights/operator@2''"

definition invokeListSelectorRules :: "'s SelectorAuthorizationOperator dispatcher \<Rightarrow> oaSelectorAuthorizationOperatorListSelectorRulesArguments \<Rightarrow> 's \<Rightarrow> 's \<times> bytes \<times> call_error option" where
  "invokeListSelectorRules d args = invoke encOASelectorAuthorizationOperatorListSelectorRulesResult decodeOASelectorAuthorizationOperatorListSelectorRulesResult (\<lambda>v. \<lparr>ListSelectorRules_value = v\<rparr>)
     (SelectorAuthorizationOperator_ListSelectorRules (Handler d) (ListSelectorRules_cursor args) (ListSelectorRules_limit args))"

definition invokeReadSelectorRule :: "'s SelectorAuthorizationOperator dispatcher \<Rightarrow> oaSelectorAuthorizationOperatorReadSelectorRuleArguments \<Rightarrow> 's \<Rightarrow> 's \<times> bytes \<times> call_error option" where
  "invokeReadSelectorRule d args = invoke encOASelectorAuthorizationOperatorReadSelectorRuleResult decodeOASelectorAuthorizationOperatorReadSelectorRuleResult (\<lambda>v. \<lparr>ReadSelectorRule_value = v\<rparr>)
     (SelectorAuthorizationOperator_ReadSelectorRule (Handler d) (ReadSelectorRule_subject args) (ReadSelectorRule_selection args))"

definition invokeSetSelectorRule :: "'s SelectorAuthorizationOperator dispatcher \<Rightarrow> oaSelectorAuthorizationOperatorSetSelectorRuleArguments \<Rightarrow> 's \<Rightarrow> 's \<times> bytes \<times> call_error option" where
  "invokeSetSelectorRule d args = invoke encOASelectorAuthorizationOperatorSetSelectorRuleResult decodeOASelectorAuthorizationOperatorSetSelectorRuleResult (\<lambda>v. \<lparr>SetSelectorRule_value = v\<rparr>)
     (SelectorAuthorizationOperator_SetSelectorRule (Handler d) (SetSelectorRule_expectedRevision args) (SetSelectorRule_rule args) (SetSelectorRule_ttlMs args) (SetSelectorRule_why args))"

definition invokeRemoveSelectorRule :: "'s SelectorAuthorizationOperator dispatcher \<Rightarrow> oaSelectorAuthorizationOperatorRemoveSelectorRuleArguments \<Rightarrow> 's \<Rightarrow> 's \<times> bytes \<times> call_error option" where
  "invokeRemoveSelectorRule d args = invoke encOASelectorAuthorizationOperatorRemoveSelectorRuleResult decodeOASelectorAuthorizationOperatorRemoveSelectorRuleResult (\<lambda>v. \<lparr>RemoveSelectorRule_value = v\<rparr>)
     (SelectorAuthorizationOperator_RemoveSelectorRule (Handler d) (RemoveSelectorRule_expectedRevision args) (RemoveSelectorRule_subject args) (RemoveSelectorRule_selection args))"

definition invokeApplyBundle :: "'s SelectorAuthorizationOperator dispatcher \<Rightarrow> oaSelectorAuthorizationOperatorApplyBundleArguments \<Rightarrow> 's \<Rightarrow> 's \<times> bytes \<times> call_error option" where
  "invokeApplyBundle d args = invoke encOASelectorAuthorizationOperatorApplyBundleResult decodeOASelectorAuthorizationOperatorApplyBundleResult (\<lambda>v. \<lparr>ApplyBundle_value = v\<rparr>)
     (SelectorAuthorizationOperator_ApplyBundle (Handler d) (ApplyBundle_expectedRevision args) (ApplyBundle_subject args) (ApplyBundle_bundleRef args) (ApplyBundle_selector args) (ApplyBundle_ttlMs args) (ApplyBundle_why args))"

definition invokeRemoveBundle :: "'s SelectorAuthorizationOperator dispatcher \<Rightarrow> oaSelectorAuthorizationOperatorRemoveBundleArguments \<Rightarrow> 's \<Rightarrow> 's \<times> bytes \<times> call_error option" where
  "invokeRemoveBundle d args = invoke encOASelectorAuthorizationOperatorRemoveBundleResult decodeOASelectorAuthorizationOperatorRemoveBundleResult (\<lambda>v. \<lparr>RemoveBundle_value = v\<rparr>)
     (SelectorAuthorizationOperator_RemoveBundle (Handler d) (RemoveBundle_expectedRevision args) (RemoveBundle_subject args) (RemoveBundle_originID args))"

definition invokeApplyPermissionAllow :: "'s SelectorAuthorizationOperator dispatcher \<Rightarrow> oaSelectorAuthorizationOperatorApplyPermissionAllowArguments \<Rightarrow> 's \<Rightarrow> 's \<times> bytes \<times> call_error option" where
  "invokeApplyPermissionAllow d args = invoke encOASelectorAuthorizationOperatorApplyPermissionAllowResult decodeOASelectorAuthorizationOperatorApplyPermissionAllowResult (\<lambda>v. \<lparr>ApplyPermissionAllow_value = v\<rparr>)
     (SelectorAuthorizationOperator_ApplyPermissionAllow (Handler d) (ApplyPermissionAllow_expectedRevision args) (ApplyPermissionAllow_questionID args))"

definition invokeUndoPermissionEffect :: "'s SelectorAuthorizationOperator dispatcher \<Rightarrow> oaSelectorAuthorizationOperatorUndoPermissionEffectArguments \<Rightarrow> 's \<Rightarrow> 's \<times> bytes \<times> call_error option" where
  "invokeUndoPermissionEffect d args = invoke encOASelectorAuthorizationOperatorUndoPermissionEffectResult decodeOASelectorAuthorizationOperatorUndoPermissionEffectResult (\<lambda>v. \<lparr>UndoPermissionEffect_value = v\<rparr>)
     (SelectorAuthorizationOperator_UndoPermissionEffect (Handler d) (UndoPermissionEffect_expectedRevision args) (UndoPermissionEffect_questionID args))"

definition SelectorAuthorizationOperatorDispatcher_DescribeService :: "'s SelectorAuthorizationOperator dispatcher \<Rightarrow> bytes \<times> bool \<times> bytes" where
  "SelectorAuthorizationOperatorDispatcher_DescribeService d = describeService SelectorAuthorizationOperatorContract d"

definition SelectorAuthorizationOperatorDispatcher_DescribeServiceMetadata :: "'s SelectorAuthorizationOperator dispatcher \<Rightarrow> bytes list \<times> (bytes \<times> bytes) list" where
  "SelectorAuthorizationOperatorDispatcher_DescribeServiceMetadata d = describeServiceMetadata d"

definition SelectorAuthorizationOperatorDispatcher_ExchangeFrame :: "'s SelectorAuthorizationOperator dispatcher \<Rightarrow> 's transport" where
  "SelectorAuthorizationOperatorDispatcher_ExchangeFrame d = exchangeFrame SelectorAuthorizationOperatorContract
     (describedBy (SelectorAuthorizationOperatorDispatcher_DescribeService d) (SelectorAuthorizationOperatorDispatcher_DescribeServiceMetadata d))
     (\<lambda>v s.
        if frame_method v = ''ListSelectorRules'' then answerCall decodeOASelectorAuthorizationOperatorListSelectorRulesArguments (invokeListSelectorRules d) v s
        else if frame_method v = ''ReadSelectorRule'' then answerCall decodeOASelectorAuthorizationOperatorReadSelectorRuleArguments (invokeReadSelectorRule d) v s
        else if frame_method v = ''SetSelectorRule'' then answerCall decodeOASelectorAuthorizationOperatorSetSelectorRuleArguments (invokeSetSelectorRule d) v s
        else if frame_method v = ''RemoveSelectorRule'' then answerCall decodeOASelectorAuthorizationOperatorRemoveSelectorRuleArguments (invokeRemoveSelectorRule d) v s
        else if frame_method v = ''ApplyBundle'' then answerCall decodeOASelectorAuthorizationOperatorApplyBundleArguments (invokeApplyBundle d) v s
        else if frame_method v = ''RemoveBundle'' then answerCall decodeOASelectorAuthorizationOperatorRemoveBundleArguments (invokeRemoveBundle d) v s
        else if frame_method v = ''ApplyPermissionAllow'' then answerCall decodeOASelectorAuthorizationOperatorApplyPermissionAllowArguments (invokeApplyPermissionAllow d) v s
        else if frame_method v = ''UndoPermissionEffect'' then answerCall decodeOASelectorAuthorizationOperatorUndoPermissionEffectArguments (invokeUndoPermissionEffect d) v s
        else unknownMethod v s)"

definition SelectorAuthorizationOperatorDispatcher_WriteFrame :: "'s SelectorAuthorizationOperator dispatcher \<Rightarrow> bytes \<Rightarrow> call_error option" where
  "SelectorAuthorizationOperatorDispatcher_WriteFrame d = writeFrame SelectorAuthorizationOperatorContract
     [''ListSelectorRules'',
      ''ReadSelectorRule'',
      ''SetSelectorRule'',
      ''RemoveSelectorRule'',
      ''ApplyBundle'',
      ''RemoveBundle'',
      ''ApplyPermissionAllow'',
      ''UndoPermissionEffect'']"

definition serveSelectorAuthorizationOperator :: "'s SelectorAuthorizationOperator dispatcher \<Rightarrow> 's served" where
  "serveSelectorAuthorizationOperator d = \<lparr>sv_contract = SelectorAuthorizationOperatorContract,
     sv_described = describedBy (SelectorAuthorizationOperatorDispatcher_DescribeService d) (SelectorAuthorizationOperatorDispatcher_DescribeServiceMetadata d),
     sv_exchange = Some (SelectorAuthorizationOperatorDispatcher_ExchangeFrame d)\<rparr>"

definition SelectorAuthorizationOperatorClient_ListSelectorRules :: "'s transport \<Rightarrow> bytes \<Rightarrow> int \<Rightarrow> 's \<Rightarrow> 's \<times> (call_error + SelectorRulePage)" where
  "SelectorAuthorizationOperatorClient_ListSelectorRules transport cursor limit = serviceCall SelectorAuthorizationOperatorContract ''ListSelectorRules'' encOASelectorAuthorizationOperatorListSelectorRulesArguments decodeOASelectorAuthorizationOperatorListSelectorRulesResult ListSelectorRules_value transport
     \<lparr>ListSelectorRules_cursor = cursor, ListSelectorRules_limit = limit\<rparr>"

definition SelectorAuthorizationOperatorClient_ReadSelectorRule :: "'s transport \<Rightarrow> subject \<Rightarrow> PermissionSelection \<Rightarrow> 's \<Rightarrow> 's \<times> (call_error + SelectorRuleRead)" where
  "SelectorAuthorizationOperatorClient_ReadSelectorRule transport subj sel = serviceCall SelectorAuthorizationOperatorContract ''ReadSelectorRule'' encOASelectorAuthorizationOperatorReadSelectorRuleArguments decodeOASelectorAuthorizationOperatorReadSelectorRuleResult ReadSelectorRule_value transport
     \<lparr>ReadSelectorRule_subject = subj, ReadSelectorRule_selection = sel\<rparr>"

definition SelectorAuthorizationOperatorClient_SetSelectorRule :: "'s transport \<Rightarrow> bytes \<Rightarrow> SelectorRule \<Rightarrow> int \<Rightarrow> bytes \<Rightarrow> 's \<Rightarrow> 's \<times> (call_error + SelectorEdit)" where
  "SelectorAuthorizationOperatorClient_SetSelectorRule transport expectedRevision rule1 ttlMs why = serviceCall SelectorAuthorizationOperatorContract ''SetSelectorRule'' encOASelectorAuthorizationOperatorSetSelectorRuleArguments decodeOASelectorAuthorizationOperatorSetSelectorRuleResult SetSelectorRule_value transport
     \<lparr>SetSelectorRule_expectedRevision = expectedRevision, SetSelectorRule_rule = rule1, SetSelectorRule_ttlMs = ttlMs, SetSelectorRule_why = why\<rparr>"

definition SelectorAuthorizationOperatorClient_RemoveSelectorRule :: "'s transport \<Rightarrow> bytes \<Rightarrow> subject \<Rightarrow> PermissionSelection \<Rightarrow> 's \<Rightarrow> 's \<times> (call_error + SelectorEdit)" where
  "SelectorAuthorizationOperatorClient_RemoveSelectorRule transport expectedRevision subj sel = serviceCall SelectorAuthorizationOperatorContract ''RemoveSelectorRule'' encOASelectorAuthorizationOperatorRemoveSelectorRuleArguments decodeOASelectorAuthorizationOperatorRemoveSelectorRuleResult RemoveSelectorRule_value transport
     \<lparr>RemoveSelectorRule_expectedRevision = expectedRevision, RemoveSelectorRule_subject = subj, RemoveSelectorRule_selection = sel\<rparr>"

definition SelectorAuthorizationOperatorClient_ApplyBundle :: "'s transport \<Rightarrow> bytes \<Rightarrow> subject \<Rightarrow> bytes \<Rightarrow> ResourceSelector \<Rightarrow> int \<Rightarrow> bytes \<Rightarrow> 's \<Rightarrow> 's \<times> (call_error + SelectorEdit)" where
  "SelectorAuthorizationOperatorClient_ApplyBundle transport expectedRevision subj bundleRef sel ttlMs why = serviceCall SelectorAuthorizationOperatorContract ''ApplyBundle'' encOASelectorAuthorizationOperatorApplyBundleArguments decodeOASelectorAuthorizationOperatorApplyBundleResult ApplyBundle_value transport
     \<lparr>ApplyBundle_expectedRevision = expectedRevision, ApplyBundle_subject = subj, ApplyBundle_bundleRef = bundleRef, ApplyBundle_selector = sel, ApplyBundle_ttlMs = ttlMs, ApplyBundle_why = why\<rparr>"

definition SelectorAuthorizationOperatorClient_RemoveBundle :: "'s transport \<Rightarrow> bytes \<Rightarrow> subject \<Rightarrow> bytes \<Rightarrow> 's \<Rightarrow> 's \<times> (call_error + SelectorEdit)" where
  "SelectorAuthorizationOperatorClient_RemoveBundle transport expectedRevision subj originID = serviceCall SelectorAuthorizationOperatorContract ''RemoveBundle'' encOASelectorAuthorizationOperatorRemoveBundleArguments decodeOASelectorAuthorizationOperatorRemoveBundleResult RemoveBundle_value transport
     \<lparr>RemoveBundle_expectedRevision = expectedRevision, RemoveBundle_subject = subj, RemoveBundle_originID = originID\<rparr>"

definition SelectorAuthorizationOperatorClient_ApplyPermissionAllow :: "'s transport \<Rightarrow> bytes \<Rightarrow> bytes \<Rightarrow> 's \<Rightarrow> 's \<times> (call_error + SelectorEdit)" where
  "SelectorAuthorizationOperatorClient_ApplyPermissionAllow transport expectedRevision questionID = serviceCall SelectorAuthorizationOperatorContract ''ApplyPermissionAllow'' encOASelectorAuthorizationOperatorApplyPermissionAllowArguments decodeOASelectorAuthorizationOperatorApplyPermissionAllowResult ApplyPermissionAllow_value transport
     \<lparr>ApplyPermissionAllow_expectedRevision = expectedRevision, ApplyPermissionAllow_questionID = questionID\<rparr>"

definition SelectorAuthorizationOperatorClient_UndoPermissionEffect :: "'s transport \<Rightarrow> bytes \<Rightarrow> bytes \<Rightarrow> 's \<Rightarrow> 's \<times> (call_error + SelectorEdit)" where
  "SelectorAuthorizationOperatorClient_UndoPermissionEffect transport expectedRevision questionID = serviceCall SelectorAuthorizationOperatorContract ''UndoPermissionEffect'' encOASelectorAuthorizationOperatorUndoPermissionEffectArguments decodeOASelectorAuthorizationOperatorUndoPermissionEffectResult UndoPermissionEffect_value transport
     \<lparr>UndoPermissionEffect_expectedRevision = expectedRevision, UndoPermissionEffect_questionID = questionID\<rparr>"

end
