(* ===== verification/Frame_Facts.thy ===== *)
theory Frame_Facts
  imports Services
begin

text \<open>
  What the frames guarantee. A request frame a client writes is read back; every reply is written,
  read back and belongs to its request; and \<open>remote\<close>, the contract of one method of a service: its
  client, over the dispatcher, gets exactly what the handler ends with.
\<close>

subsection \<open>Envelopes\<close>

lemma codes_OAServiceFrame:
  assumes "typed_OAServiceFrame v" and "codes h reader_rawValue (frame_arguments v) (frame_arguments v)"
  shows "codes (Suc h) decodeOAServiceFrame (encOAServiceFrame v d) v"
  unfolding decodeOAServiceFrame_def encOAServiceFrame_def
  by (rule codes_object assms(2) wire | (use assms(1) in \<open>simp add: typed_OAServiceFrame_def code_def\<close>; fail))+

lemma codes_OAServiceReply:
  assumes "typed_OAServiceReply v" and "codes h reader_rawValue (reply_payload v) (reply_payload v)"
  shows "codes (Suc h) decodeOAServiceReply (encOAServiceReply v d) v"
  unfolding decodeOAServiceReply_def encOAServiceReply_def
  by (rule codes_object assms(2) wire | (use assms(1) in \<open>simp add: typed_OAServiceReply_def code_def\<close>; fail))+

lemma types_OAServiceFrame: "yields typed_OAServiceFrame decodeOAServiceFrame"
  and ends_OAServiceFrame: "tame decodeOAServiceFrame"
  and ends_OAServiceReply: "tame decodeOAServiceReply"
proof -
  have raw: "yields (\<lambda>x. True) reader_rawValue" by simp
  show "yields typed_OAServiceFrame decodeOAServiceFrame"
    unfolding decodeOAServiceFrame_def
    by (rule yields_object raw wire | (simp add: typed_OAServiceFrame_def validUTF8_none; fail))+
  show "tame decodeOAServiceFrame" and "tame decodeOAServiceReply"
    unfolding decodeOAServiceFrame_def decodeOAServiceReply_def by (rule ends_object wire)+
qed

lemma decodeWhole_types: "yields P dec \<Longrightarrow> decodeWhole dec buf depth = Inr v \<Longrightarrow> P v"
  by (auto simp: decodeWhole_def split: sum.split_asm prod.split_asm if_split_asm dest: yieldsD)

lemma decodeWhole_total: "tame dec \<Longrightarrow> decodeWhole dec buf depth \<noteq> Inl Unfinished"
  using tameD [of dec] by (auto simp: decodeWhole_def within_def refuse_def split: sum.split prod.split)

lemma servicePayload_typed: "servicePayload frame = Inr v \<Longrightarrow> typed_OAServiceFrame v \<and> frame_version v = 1"
  by (auto simp: servicePayload_def split: sum.split_asm if_split_asm dest: decodeWhole_types [OF types_OAServiceFrame])

subsection \<open>Replies\<close>

definition replyOf :: "oaServiceFrame \<Rightarrow> bytes \<Rightarrow> call_error option \<Rightarrow> oaServiceReply" where
  "replyOf v payload err = \<lparr>reply_version = 1, reply_service = frame_service v, reply_method = frame_method v, reply_ok = (err = None),
     reply_payload = (case err of None \<Rightarrow> payload | Some e \<Rightarrow> encOAServiceError (replyError e) 1)\<rparr>"

text \<open>A payload that can be carried, or an error whose texts are UTF-8.\<close>

definition sendable :: "bytes \<Rightarrow> call_error option \<Rightarrow> bool" where
  "sendable payload err \<longleftrightarrow> (case err of None \<Rightarrow> codes 63 reader_rawValue payload payload | Some e \<Rightarrow> typed_OAServiceError (replyError e))"

lemma payload_carried: "sendable payload err \<Longrightarrow> codes 63 reader_rawValue (reply_payload (replyOf v payload err)) (reply_payload (replyOf v payload err))"
  using codes_deeper [OF codes_raw [OF OAServiceError_wire.writes], of _ 63] by (auto simp: sendable_def replyOf_def split: option.splits)

lemma reply_codes:
  assumes "typed_OAServiceFrame v" and "sendable payload err"
  shows "codes 64 decodeOAServiceReply (encOAServiceReply (replyOf v payload err) 0) (replyOf v payload err)"
  using codes_OAServiceReply [OF _ payload_carried [OF assms(2)], of v 0] assms(1)
  by (simp add: typed_OAServiceReply_def typed_OAServiceFrame_def replyOf_def numeral_eq_Suc)

lemma serviceReply_sent:
  assumes "typed_OAServiceFrame v" and "sendable payload err"
  shows "serviceReply v payload err = Inr (encOAServiceReply (replyOf v payload err) 0)"
proof -
  let ?t = "encOAServiceReply (replyOf v payload err) 0"
  have "decodeWhole decodeOAServiceReply ?t 0 = Inr (replyOf v payload err)"
    by (rule decodeWhole_codes [OF reply_codes [OF assms]]) simp
  then show ?thesis
    unfolding serviceReply_def Let_def replyOf_def [symmetric] decodeWhole_def
    by (auto split: sum.split_asm prod.split_asm)
qed

lemma serviceResponse_reply:
  assumes "typed_OAServiceFrame v" and "sendable payload err"
  shows "serviceResponse (encOAServiceReply (replyOf v payload err) 0) (frame_service v) (frame_method v) =
    (case err of None \<Rightarrow> Inr payload
     | Some e \<Rightarrow> if error_code (replyError e) = [] then Inl (DispatchError ''invalid_error'')
         else Inl (ServiceError (error_code (replyError e)) (error_message (replyError e))))"
proof -
  have "decodeWhole decodeOAServiceReply (encOAServiceReply (replyOf v payload err) 0) 0 = Inr (replyOf v payload err)"
    by (rule decodeWhole_codes [OF reply_codes [OF assms]]) simp
  moreover have "decodeWhole decodeOAServiceError (encOAServiceError (replyError e) 1) 1 = Inr (replyError e)" if "err = Some e" for e
    by (rule OAServiceError_wire.decodeWhole_enc) (use assms(2) that in \<open>simp_all add: sendable_def\<close>)
  ultimately show ?thesis by (auto simp: serviceResponse_def replyOf_def split: option.split)
qed

text \<open>What \<open>invokeX\<close> gives \<open>serviceReply\<close> can be sent, whatever the handler did, as long as the texts of
  its own errors are UTF-8.\<close>

definition legible :: "'r handled \<Rightarrow> bool" where
  "legible outcome \<longleftrightarrow> (\<forall>e. outcome = Failed e \<longrightarrow> typed_OAServiceError (replyError e))"

lemma fixed_errors: "typed_OAServiceError (replyError (ServiceError ServiceErrorCodeInvalidResult []))"
  "typed_OAServiceError (replyError (ServiceError ServiceErrorCodeHandlerError ''handler failed''))"
  by (simp_all add: typed_OAServiceError_def replyError_def ServiceErrorCodeInvalidResult_def ServiceErrorCodeHandlerError_def
      printable_validUTF8 code_def)

lemma invokeResult_sendable:
  assumes "skips dec" and "\<And>v. framed (enc v 1)" and "legible outcome"
  shows "case invokeResult enc dec outcome of (payload, err) \<Rightarrow> sendable payload err"
  using assms(3) fixed_errors codes_carried [OF assms(1) _ assms(2)]
  by (auto simp: invokeResult_def sendable_def legible_def Let_def split: handled.split sum.split)

text \<open>The refusals a reader speaks are words.\<close>

lemma refusals_printable: "word \<in> set refusals \<Longrightarrow> printable word"
  by (auto simp: refusals_def code_def)

lemma dispatch_sendable: "printable word \<Longrightarrow> sendable [] (Some (DispatchError word))"
  by (simp add: sendable_def replyError_def typed_OAServiceError_def printable_validUTF8 validUTF8_none)

lemma refusal_sendable: "worded e \<Longrightarrow> sendable [] (Some (RefusalError e))"
  by (cases e) (auto simp: sendable_def replyError_def typed_OAServiceError_def worded_def validUTF8_none ServiceErrorCodeHandlerError_def
      printable_validUTF8 code_def dest: refusals_printable)

subsection \<open>Answers\<close>

text \<open>A request is answered when it gets a reply that belongs to it.\<close>

definition answered :: "oaServiceFrame \<Rightarrow> call_error + bytes \<Rightarrow> bool" where
  "answered v result \<longleftrightarrow> (\<exists>reply r. result = Inr reply \<and> decodeWhole decodeOAServiceReply reply 0 = Inr r \<and>
     reply_version r = 1 \<and> reply_service r = frame_service v \<and> reply_method r = frame_method v)"

lemma serviceReply_answers:
  assumes "typed_OAServiceFrame v" and "sendable payload err"
  shows "answered v (serviceReply v payload err)"
  using serviceReply_sent [OF assms] decodeWhole_codes [OF reply_codes [OF assms], of 0]
  by (simp add: answered_def replyOf_def)

definition sound :: "('a \<Rightarrow> 's \<Rightarrow> 's \<times> bytes \<times> call_error option) \<Rightarrow> bool" where
  "sound run \<longleftrightarrow> (\<forall>args s. case run args s of (s1, payload, err) \<Rightarrow> sendable payload err)"

definition legibleHandler :: "('s, 'r) handler \<Rightarrow> bool" where
  "legibleHandler handler \<longleftrightarrow> (\<forall>s. legible (snd (handler s)))"

lemma legible_map: "legible outcome \<Longrightarrow> legible (map_handled f outcome)"
  by (cases outcome) (auto simp: legible_def)

lemma invoke_sound:
  assumes "skips dec" and "\<And>v. framed (enc v 1)" and "\<And>args. legibleHandler (handler args)"
  shows "sound (\<lambda>args. invoke enc dec put (handler args))"
  unfolding sound_def
proof (intro allI)
  fix args s
  obtain s1 outcome where h: "handler args s = (s1, outcome)" by fastforce
  then have "legible outcome" using assms(3) [of args] unfolding legibleHandler_def by (metis snd_conv)
  then have "legible (map_handled put outcome)" by (rule legible_map)
  from invokeResult_sendable [where enc = enc, OF assms(1,2) this]
  show "case invoke enc dec put (handler args) s of (s1, payload, err) \<Rightarrow> sendable payload err"
    by (simp add: invoke_def h split: prod.split_asm prod.split)
qed

lemma answerCall_answers:
  assumes "typed_OAServiceFrame v" and "speaks dec" and "sound run"
  shows "answered v (snd (answerCall dec run v s))"
proof (cases "decodeWhole dec (frame_arguments v) 1")
  case (Inl e)
  then have "worded e" using told_whole [OF assms(2), of "frame_arguments v" 1] by (simp add: told_def)
  then show ?thesis using Inl by (simp add: answerCall_def serviceReply_answers [OF assms(1) refusal_sendable])
next
  case (Inr args)
  obtain s1 payload err where run: "run args s = (s1, payload, err)" by (cases "run args s") auto
  then have "sendable payload err" using assms(3) unfolding sound_def by (metis (mono_tags, lifting) case_prod_conv)
  then show ?thesis using Inr run serviceReply_answers [OF assms(1)] by (simp add: answerCall_def)
qed

lemma unknownMethod_answers: "typed_OAServiceFrame v \<Longrightarrow> answered v (snd (unknownMethod v s))"
  unfolding unknownMethod_def by (simp add: serviceReply_answers [OF _ dispatch_sendable] code_def)

lemma exchangeFrame_answers:
  assumes "servicePayload frame = Inr v" and "frame_service v \<noteq> EndpointContract"
    and "typed_OAServiceFrame v \<Longrightarrow> answered v (snd (methods v s))"
  shows "answered v (snd (exchangeFrame contract own methods frame s))"
  using assms servicePayload_typed [OF assms(1)]
  by (simp add: exchangeFrame_def serviceReply_answers [OF _ dispatch_sendable] code_def)

lemma routeFrame_answers:
  assumes "typed_OAServiceFrame v" and "\<forall>sv\<in>set svs. \<forall>exchange s. sv_exchange sv = Some exchange \<longrightarrow> answered v (snd (exchange frame s))"
  shows "answered v (snd (routeFrame svs v frame s))"
  using assms(2)
  by (induction svs) (auto simp: serviceReply_answers [OF assms(1) dispatch_sendable] code_def split: option.split)

subsection \<open>A method called over frames\<close>

text \<open>What the client is told of the handler's end.\<close>

definition toldClient :: "'v handled \<Rightarrow> call_error + 'v" where
  "toldClient outcome = (case outcome of
     Returned v \<Rightarrow> Inr v
   | Failed e \<Rightarrow> Inl (if error_code (replyError e) = [] then DispatchError ''invalid_error''
       else ServiceError (error_code (replyError e)) (error_message (replyError e)))
   | PanickedRefusal e \<Rightarrow> Inl (ServiceError ServiceErrorCodeInvalidResult [])
   | Panicked \<Rightarrow> Inl (ServiceError ServiceErrorCodeHandlerError ''handler failed''))"

locale remote =
  arg: codec decA encA typedA hA + res: codec decR encR typedR hR
  for decA :: "'a reading" and encA typedA hA and decR :: "'r reading" and encR typedR hR +
  fixes service :: bytes and meth :: bytes
    and put :: "'v \<Rightarrow> 'r" and get :: "'r \<Rightarrow> 'v"
    and exchange :: "'d \<Rightarrow> 's transport"
    and handler :: "'d \<Rightarrow> 'a \<Rightarrow> ('s, 'v) handler"
  assumes got: "get (put x) = x"
    and shallow: "hA \<le> 62" "hR \<le> 62"
    and named: "printable service" "printable meth"
    and boxed: "framed (encR r 1)"
    and dispatch: "servicePayload frame = Inr v \<Longrightarrow> frame_service v = service \<Longrightarrow> frame_method v = meth \<Longrightarrow>
      exchange d frame s = answerCall decA (\<lambda>args. invoke encR decR put (handler d args)) v s"
begin

definition calling :: "'a \<Rightarrow> oaServiceFrame" where
  "calling args = \<lparr>frame_version = 1, frame_service = service, frame_method = meth, frame_arguments = encA args 1\<rparr>"

lemma typed_calling: "typed_OAServiceFrame (calling args)"
  by (simp add: typed_OAServiceFrame_def calling_def named printable_validUTF8)

lemma request_read:
  assumes "typedA args"
  shows "servicePayload (encOAServiceFrame (calling args) 0) = Inr (calling args)"
proof -
  have "codes hA reader_rawValue (encA args 1) (encA args 1)"
    by (rule codes_raw [OF arg.writes [OF assms]]) (use shallow in simp)
  then have "codes (Suc hA) decodeOAServiceFrame (encOAServiceFrame (calling args) 0) (calling args)"
    by (intro codes_OAServiceFrame typed_calling) (simp add: calling_def)
  then have "decodeWhole decodeOAServiceFrame (encOAServiceFrame (calling args) 0) 0 = Inr (calling args)"
    by (rule decodeWhole_codes) (use shallow in simp)
  then show ?thesis by (simp add: servicePayload_def calling_def)
qed

lemma arguments_read: "typedA args \<Longrightarrow> decodeWhole decA (frame_arguments (calling args)) 1 = Inr args"
  unfolding calling_def using arg.decodeWhole_enc [of args 1] shallow by simp

text \<open>The client gets exactly what the handler ends with.\<close>

lemma client_told:
  assumes "typedA args" and "handler d args s = (s1, outcome)" and "legible outcome"
    and "\<And>v. outcome = Returned v \<Longrightarrow> typedR (put v)"
  shows "serviceCall service meth encA decR get (exchange d) args s = (s1, toldClient outcome)"
proof -
  let ?v = "calling args"
  obtain payload err where inv: "invokeResult encR decR (map_handled put outcome) = (payload, err)" by fastforce
  have sendable: "sendable payload err"
    using invokeResult_sendable [where enc = encR, OF res.skipped boxed legible_map [OF assms(3), of put]] inv by simp
  have ran: "exchange d (encOAServiceFrame ?v 0) s = (s1, serviceReply ?v payload err)"
    using dispatch [OF request_read [OF assms(1)]] arguments_read [OF assms(1)] assms(2) inv
    by (simp add: answerCall_def invoke_def calling_def)
  have response: "serviceResponse (encOAServiceReply (replyOf ?v payload err) 0) service meth =
    (case err of None \<Rightarrow> Inr payload
     | Some e \<Rightarrow> if error_code (replyError e) = [] then Inl (DispatchError ''invalid_error'')
         else Inl (ServiceError (error_code (replyError e)) (error_message (replyError e))))"
    using serviceResponse_reply [OF typed_calling sendable, of args] by (simp add: calling_def)
  have run: "serviceCall service meth encA decR get (exchange d) args s =
    (case serviceResponse (encOAServiceReply (replyOf ?v payload err) 0) service meth of
       Inl e \<Rightarrow> (s1, Inl e)
     | Inr payload \<Rightarrow> (case decodeWhole decR payload 1 of Inl e \<Rightarrow> (s1, Inl (RefusalError e)) | Inr r \<Rightarrow> (s1, Inr (get r))))"
    unfolding serviceCall_def Let_def calling_def [symmetric] request_read [OF assms(1)]
    by (simp add: ran serviceReply_sent [OF typed_calling sendable])
  show ?thesis
  proof (cases outcome)
    case (Returned v)
    then have t: "typedR (put v)" using assms(4) by blast
    have "decodeWhole decR (encR (put v) 1) 1 = Inr (put v)" by (rule res.decodeWhole_enc [OF t]) (use shallow in simp)
    with Returned inv show ?thesis unfolding run response by (auto simp: invokeResult_def toldClient_def got)
  next
    case (Failed e)
    with inv show ?thesis unfolding run response by (auto simp: invokeResult_def toldClient_def)
  next
    case (PanickedRefusal e)
    with inv show ?thesis unfolding run response
      by (auto simp: invokeResult_def toldClient_def replyError_def ServiceErrorCodeInvalidResult_def)
  next
    case Panicked
    with inv show ?thesis unfolding run response
      by (auto simp: invokeResult_def toldClient_def replyError_def ServiceErrorCodeHandlerError_def)
  qed
qed

text \<open>It is the same over any transport that answers this service's frames as the dispatcher does.\<close>

lemma client_over:
  assumes "typedA args"
    and "\<And>frame v s. servicePayload frame = Inr v \<Longrightarrow> frame_service v = service \<Longrightarrow> transport frame s = exchange d frame s"
  shows "serviceCall service meth encA decR get transport args s = serviceCall service meth encA decR get (exchange d) args s"
proof -
  have same: "transport (encOAServiceFrame (calling args) 0) s = exchange d (encOAServiceFrame (calling args) 0) s"
    by (rule assms(2) [OF request_read [OF assms(1)]]) (simp add: calling_def)
  show ?thesis unfolding serviceCall_def Let_def calling_def [symmetric] same by (rule refl)
qed

end

end
