(* ===== verification/Remote_Methods.thy ===== *)
theory Remote_Methods
  imports Frame_Facts
begin

text \<open>
  Every method of the four services is \<open>remote\<close>, and every dispatcher answers every frame of its
  service, whatever its handler returns and however it panics.
\<close>

subsection \<open>Authorization\<close>

text \<open>The errors the handler returns have texts in UTF-8.\<close>

definition legibleAuthorization :: "'s Authorization \<Rightarrow> bool" where
  "legibleAuthorization h \<longleftrightarrow>
     (\<forall>x0 x1. legibleHandler (Authorization_ListActionDescriptions h x0 x1)) \<and>
     (\<forall>x0 x1. legibleHandler (Authorization_Decide h x0 x1)) \<and>
     (\<forall>x0 x1 x2. legibleHandler (Authorization_DecideFor h x0 x1 x2))"

interpretation ListActionDescriptions_call: remote decodeOAAuthorizationListActionDescriptionsArguments encOAAuthorizationListActionDescriptionsArguments typed_OAAuthorizationListActionDescriptionsArguments 1 decodeOAAuthorizationListActionDescriptionsResult encOAAuthorizationListActionDescriptionsResult typed_OAAuthorizationListActionDescriptionsResult 6
  AuthorizationContract "''ListActionDescriptions''" "\<lambda>v. \<lparr>ListActionDescriptions_value = v\<rparr>" ListActionDescriptions_value AuthorizationDispatcher_ExchangeFrame
  "\<lambda>d args. Authorization_ListActionDescriptions (Handler d) (ListActionDescriptions_cursor args) (ListActionDescriptions_limit args)"
  by unfold_locales (simp_all add: AuthorizationDispatcher_ExchangeFrame_def exchangeFrame_def AuthorizationContract_def EndpointContract_def
      invokeListActionDescriptions_def [abs_def] encOAAuthorizationListActionDescriptionsResult_def framed_object code_def)

lemma sound_ListActionDescriptions: "legibleAuthorization (Handler d) \<Longrightarrow> sound (invokeListActionDescriptions d)"
  unfolding invokeListActionDescriptions_def [abs_def]
  by (rule invoke_sound [OF OAAuthorizationListActionDescriptionsResult_wire.skipped]) (simp_all add: legibleAuthorization_def encOAAuthorizationListActionDescriptionsResult_def framed_object)

interpretation Decide_call: remote decodeOAAuthorizationDecideArguments encOAAuthorizationDecideArguments typed_OAAuthorizationDecideArguments 1 decodeOAAuthorizationDecideResult encOAAuthorizationDecideResult typed_OAAuthorizationDecideResult 2
  AuthorizationContract "''Decide''" "\<lambda>v. \<lparr>Decide_value = v\<rparr>" Decide_value AuthorizationDispatcher_ExchangeFrame
  "\<lambda>d args. Authorization_Decide (Handler d) (Decide_action args) (Decide_resource args)"
  by unfold_locales (simp_all add: AuthorizationDispatcher_ExchangeFrame_def exchangeFrame_def AuthorizationContract_def EndpointContract_def
      invokeDecide_def [abs_def] encOAAuthorizationDecideResult_def framed_object code_def)

lemma sound_Decide: "legibleAuthorization (Handler d) \<Longrightarrow> sound (invokeDecide d)"
  unfolding invokeDecide_def [abs_def]
  by (rule invoke_sound [OF OAAuthorizationDecideResult_wire.skipped]) (simp_all add: legibleAuthorization_def encOAAuthorizationDecideResult_def framed_object)

interpretation DecideFor_call: remote decodeOAAuthorizationDecideForArguments encOAAuthorizationDecideForArguments typed_OAAuthorizationDecideForArguments 2 decodeOAAuthorizationDecideForResult encOAAuthorizationDecideForResult typed_OAAuthorizationDecideForResult 2
  AuthorizationContract "''DecideFor''" "\<lambda>v. \<lparr>DecideFor_value = v\<rparr>" DecideFor_value AuthorizationDispatcher_ExchangeFrame
  "\<lambda>d args. Authorization_DecideFor (Handler d) (DecideFor_subject args) (DecideFor_action args) (DecideFor_resource args)"
  by unfold_locales (simp_all add: AuthorizationDispatcher_ExchangeFrame_def exchangeFrame_def AuthorizationContract_def EndpointContract_def
      invokeDecideFor_def [abs_def] encOAAuthorizationDecideForResult_def framed_object code_def)

lemma sound_DecideFor: "legibleAuthorization (Handler d) \<Longrightarrow> sound (invokeDecideFor d)"
  unfolding invokeDecideFor_def [abs_def]
  by (rule invoke_sound [OF OAAuthorizationDecideForResult_wire.skipped]) (simp_all add: legibleAuthorization_def encOAAuthorizationDecideForResult_def framed_object)

lemma AuthorizationDispatcher_answers:
  assumes "servicePayload frame = Inr v" and "frame_service v \<noteq> EndpointContract" and "legibleAuthorization (Handler d)"
  shows "answered v (snd (AuthorizationDispatcher_ExchangeFrame d frame s))"
  unfolding AuthorizationDispatcher_ExchangeFrame_def
  by (rule exchangeFrame_answers [OF assms(1,2)])
     (simp add: unknownMethod_answers assms(3)
       answerCall_answers [OF _ OAAuthorizationListActionDescriptionsArguments_wire.speaking sound_ListActionDescriptions]
       answerCall_answers [OF _ OAAuthorizationDecideArguments_wire.speaking sound_Decide]
       answerCall_answers [OF _ OAAuthorizationDecideForArguments_wire.speaking sound_DecideFor])

subsection \<open>AuthorizationOperator\<close>

text \<open>The errors the handler returns have texts in UTF-8.\<close>

definition legibleAuthorizationOperator :: "'s AuthorizationOperator \<Rightarrow> bool" where
  "legibleAuthorizationOperator h \<longleftrightarrow>
     (\<forall>x0 x1. legibleHandler (AuthorizationOperator_RegisterDescribedAction h x0 x1)) \<and>
     (\<forall>x0 x1. legibleHandler (AuthorizationOperator_ApplyFirstUseAllow h x0 x1)) \<and>
     (\<forall>x0 x1. legibleHandler (AuthorizationOperator_ListPolicy h x0 x1)) \<and>
     (\<forall>x0 x1. legibleHandler (AuthorizationOperator_SetRule h x0 x1)) \<and>
     (\<forall>x0 x1 x2 x3. legibleHandler (AuthorizationOperator_RevokeRule h x0 x1 x2 x3)) \<and>
     (\<forall>x0 x1 x2. legibleHandler (AuthorizationOperator_StopAnswerer h x0 x1 x2)) \<and>
     (\<forall>x0 x1 x2 x3 x4 x5. legibleHandler (AuthorizationOperator_RevokeAnswerPermits h x0 x1 x2 x3 x4 x5)) \<and>
     (\<forall>x0 x1 x2 x3. legibleHandler (AuthorizationOperator_SetRuleFor h x0 x1 x2 x3)) \<and>
     (\<forall>x0 x1 x2 x3. legibleHandler (AuthorizationOperator_SetRulesFor h x0 x1 x2 x3)) \<and>
     (\<forall>x0 x1 x2. legibleHandler (AuthorizationOperator_ReadRule h x0 x1 x2)) \<and>
     (\<forall>x0 x1. legibleHandler (AuthorizationOperator_RegisterAction h x0 x1)) \<and>
     (\<forall>x0 x1. legibleHandler (AuthorizationOperator_RetireAction h x0 x1)) \<and>
     (\<forall>x0 x1 x2. legibleHandler (AuthorizationOperator_ExplainFor h x0 x1 x2)) \<and>
     legibleHandler (AuthorizationOperator_ListDefaults h) \<and>
     (\<forall>x0 x1 x2. legibleHandler (AuthorizationOperator_SetDefault h x0 x1 x2))"

interpretation RegisterDescribedAction_call: remote decodeOAAuthorizationOperatorRegisterDescribedActionArguments encOAAuthorizationOperatorRegisterDescribedActionArguments typed_OAAuthorizationOperatorRegisterDescribedActionArguments 3 decodeOAAuthorizationOperatorRegisterDescribedActionResult encOAAuthorizationOperatorRegisterDescribedActionResult typed_OAAuthorizationOperatorRegisterDescribedActionResult 5
  AuthorizationOperatorContract "''RegisterDescribedAction''" "\<lambda>v. \<lparr>RegisterDescribedAction_value = v\<rparr>" RegisterDescribedAction_value AuthorizationOperatorDispatcher_ExchangeFrame
  "\<lambda>d args. AuthorizationOperator_RegisterDescribedAction (Handler d) (RegisterDescribedAction_expectedRevision args) (RegisterDescribedAction_description args)"
  by unfold_locales (simp_all add: AuthorizationOperatorDispatcher_ExchangeFrame_def exchangeFrame_def AuthorizationOperatorContract_def EndpointContract_def
      invokeRegisterDescribedAction_def [abs_def] encOAAuthorizationOperatorRegisterDescribedActionResult_def framed_object code_def)

lemma sound_RegisterDescribedAction: "legibleAuthorizationOperator (Handler d) \<Longrightarrow> sound (invokeRegisterDescribedAction d)"
  unfolding invokeRegisterDescribedAction_def [abs_def]
  by (rule invoke_sound [OF OAAuthorizationOperatorRegisterDescribedActionResult_wire.skipped]) (simp_all add: legibleAuthorizationOperator_def encOAAuthorizationOperatorRegisterDescribedActionResult_def framed_object)

interpretation ApplyFirstUseAllow_call: remote decodeOAAuthorizationOperatorApplyFirstUseAllowArguments encOAAuthorizationOperatorApplyFirstUseAllowArguments typed_OAAuthorizationOperatorApplyFirstUseAllowArguments 1 decodeOAAuthorizationOperatorApplyFirstUseAllowResult encOAAuthorizationOperatorApplyFirstUseAllowResult typed_OAAuthorizationOperatorApplyFirstUseAllowResult 4
  AuthorizationOperatorContract "''ApplyFirstUseAllow''" "\<lambda>v. \<lparr>ApplyFirstUseAllow_value = v\<rparr>" ApplyFirstUseAllow_value AuthorizationOperatorDispatcher_ExchangeFrame
  "\<lambda>d args. AuthorizationOperator_ApplyFirstUseAllow (Handler d) (ApplyFirstUseAllow_expectedRevision args) (ApplyFirstUseAllow_questionID args)"
  by unfold_locales (simp_all add: AuthorizationOperatorDispatcher_ExchangeFrame_def exchangeFrame_def AuthorizationOperatorContract_def EndpointContract_def
      invokeApplyFirstUseAllow_def [abs_def] encOAAuthorizationOperatorApplyFirstUseAllowResult_def framed_object code_def)

lemma sound_ApplyFirstUseAllow: "legibleAuthorizationOperator (Handler d) \<Longrightarrow> sound (invokeApplyFirstUseAllow d)"
  unfolding invokeApplyFirstUseAllow_def [abs_def]
  by (rule invoke_sound [OF OAAuthorizationOperatorApplyFirstUseAllowResult_wire.skipped]) (simp_all add: legibleAuthorizationOperator_def encOAAuthorizationOperatorApplyFirstUseAllowResult_def framed_object)

interpretation ListPolicy_call: remote decodeOAAuthorizationOperatorListPolicyArguments encOAAuthorizationOperatorListPolicyArguments typed_OAAuthorizationOperatorListPolicyArguments 1 decodeOAAuthorizationOperatorListPolicyResult encOAAuthorizationOperatorListPolicyResult typed_OAAuthorizationOperatorListPolicyResult 5
  AuthorizationOperatorContract "''ListPolicy''" "\<lambda>v. \<lparr>ListPolicy_value = v\<rparr>" ListPolicy_value AuthorizationOperatorDispatcher_ExchangeFrame
  "\<lambda>d args. AuthorizationOperator_ListPolicy (Handler d) (ListPolicy_cursor args) (ListPolicy_limit args)"
  by unfold_locales (simp_all add: AuthorizationOperatorDispatcher_ExchangeFrame_def exchangeFrame_def AuthorizationOperatorContract_def EndpointContract_def
      invokeListPolicy_def [abs_def] encOAAuthorizationOperatorListPolicyResult_def framed_object code_def)

lemma sound_ListPolicy: "legibleAuthorizationOperator (Handler d) \<Longrightarrow> sound (invokeListPolicy d)"
  unfolding invokeListPolicy_def [abs_def]
  by (rule invoke_sound [OF OAAuthorizationOperatorListPolicyResult_wire.skipped]) (simp_all add: legibleAuthorizationOperator_def encOAAuthorizationOperatorListPolicyResult_def framed_object)

interpretation SetRule_call: remote decodeOAAuthorizationOperatorSetRuleArguments encOAAuthorizationOperatorSetRuleArguments typed_OAAuthorizationOperatorSetRuleArguments 3 decodeOAAuthorizationOperatorSetRuleResult encOAAuthorizationOperatorSetRuleResult typed_OAAuthorizationOperatorSetRuleResult 4
  AuthorizationOperatorContract "''SetRule''" "\<lambda>v. \<lparr>SetRule_value = v\<rparr>" SetRule_value AuthorizationOperatorDispatcher_ExchangeFrame
  "\<lambda>d args. AuthorizationOperator_SetRule (Handler d) (SetRule_expectedRevision args) (SetRule_rule args)"
  by unfold_locales (simp_all add: AuthorizationOperatorDispatcher_ExchangeFrame_def exchangeFrame_def AuthorizationOperatorContract_def EndpointContract_def
      invokeSetRule_def [abs_def] encOAAuthorizationOperatorSetRuleResult_def framed_object code_def)

lemma sound_SetRule: "legibleAuthorizationOperator (Handler d) \<Longrightarrow> sound (invokeSetRule d)"
  unfolding invokeSetRule_def [abs_def]
  by (rule invoke_sound [OF OAAuthorizationOperatorSetRuleResult_wire.skipped]) (simp_all add: legibleAuthorizationOperator_def encOAAuthorizationOperatorSetRuleResult_def framed_object)

interpretation RevokeRule_call: remote decodeOAAuthorizationOperatorRevokeRuleArguments encOAAuthorizationOperatorRevokeRuleArguments typed_OAAuthorizationOperatorRevokeRuleArguments 2 decodeOAAuthorizationOperatorRevokeRuleResult encOAAuthorizationOperatorRevokeRuleResult typed_OAAuthorizationOperatorRevokeRuleResult 4
  AuthorizationOperatorContract "''RevokeRule''" "\<lambda>v. \<lparr>RevokeRule_value = v\<rparr>" RevokeRule_value AuthorizationOperatorDispatcher_ExchangeFrame
  "\<lambda>d args. AuthorizationOperator_RevokeRule (Handler d) (RevokeRule_expectedRevision args) (RevokeRule_subject args) (RevokeRule_action args) (RevokeRule_resource args)"
  by unfold_locales (simp_all add: AuthorizationOperatorDispatcher_ExchangeFrame_def exchangeFrame_def AuthorizationOperatorContract_def EndpointContract_def
      invokeRevokeRule_def [abs_def] encOAAuthorizationOperatorRevokeRuleResult_def framed_object code_def)

lemma sound_RevokeRule: "legibleAuthorizationOperator (Handler d) \<Longrightarrow> sound (invokeRevokeRule d)"
  unfolding invokeRevokeRule_def [abs_def]
  by (rule invoke_sound [OF OAAuthorizationOperatorRevokeRuleResult_wire.skipped]) (simp_all add: legibleAuthorizationOperator_def encOAAuthorizationOperatorRevokeRuleResult_def framed_object)

interpretation StopAnswerer_call: remote decodeOAAuthorizationOperatorStopAnswererArguments encOAAuthorizationOperatorStopAnswererArguments typed_OAAuthorizationOperatorStopAnswererArguments 2 decodeOAAuthorizationOperatorStopAnswererResult encOAAuthorizationOperatorStopAnswererResult typed_OAAuthorizationOperatorStopAnswererResult 4
  AuthorizationOperatorContract "''StopAnswerer''" "\<lambda>v. \<lparr>StopAnswerer_value = v\<rparr>" StopAnswerer_value AuthorizationOperatorDispatcher_ExchangeFrame
  "\<lambda>d args. AuthorizationOperator_StopAnswerer (Handler d) (StopAnswerer_expectedRevision args) (StopAnswerer_answerer args) (StopAnswerer_alsoRevokeGrants args)"
  by unfold_locales (simp_all add: AuthorizationOperatorDispatcher_ExchangeFrame_def exchangeFrame_def AuthorizationOperatorContract_def EndpointContract_def
      invokeStopAnswerer_def [abs_def] encOAAuthorizationOperatorStopAnswererResult_def framed_object code_def)

lemma sound_StopAnswerer: "legibleAuthorizationOperator (Handler d) \<Longrightarrow> sound (invokeStopAnswerer d)"
  unfolding invokeStopAnswerer_def [abs_def]
  by (rule invoke_sound [OF OAAuthorizationOperatorStopAnswererResult_wire.skipped]) (simp_all add: legibleAuthorizationOperator_def encOAAuthorizationOperatorStopAnswererResult_def framed_object)

interpretation RevokeAnswerPermits_call: remote decodeOAAuthorizationOperatorRevokeAnswerPermitsArguments encOAAuthorizationOperatorRevokeAnswerPermitsArguments typed_OAAuthorizationOperatorRevokeAnswerPermitsArguments 2 decodeOAAuthorizationOperatorRevokeAnswerPermitsResult encOAAuthorizationOperatorRevokeAnswerPermitsResult typed_OAAuthorizationOperatorRevokeAnswerPermitsResult 4
  AuthorizationOperatorContract "''RevokeAnswerPermits''" "\<lambda>v. \<lparr>RevokeAnswerPermits_value = v\<rparr>" RevokeAnswerPermits_value AuthorizationOperatorDispatcher_ExchangeFrame
  "\<lambda>d args. AuthorizationOperator_RevokeAnswerPermits (Handler d) (RevokeAnswerPermits_expectedRevision args) (RevokeAnswerPermits_answerer args) (RevokeAnswerPermits_target args) (RevokeAnswerPermits_actions args) (RevokeAnswerPermits_resource args) (RevokeAnswerPermits_questionID args)"
  by unfold_locales (simp_all add: AuthorizationOperatorDispatcher_ExchangeFrame_def exchangeFrame_def AuthorizationOperatorContract_def EndpointContract_def
      invokeRevokeAnswerPermits_def [abs_def] encOAAuthorizationOperatorRevokeAnswerPermitsResult_def framed_object code_def)

lemma sound_RevokeAnswerPermits: "legibleAuthorizationOperator (Handler d) \<Longrightarrow> sound (invokeRevokeAnswerPermits d)"
  unfolding invokeRevokeAnswerPermits_def [abs_def]
  by (rule invoke_sound [OF OAAuthorizationOperatorRevokeAnswerPermitsResult_wire.skipped]) (simp_all add: legibleAuthorizationOperator_def encOAAuthorizationOperatorRevokeAnswerPermitsResult_def framed_object)

interpretation SetRuleFor_call: remote decodeOAAuthorizationOperatorSetRuleForArguments encOAAuthorizationOperatorSetRuleForArguments typed_OAAuthorizationOperatorSetRuleForArguments 3 decodeOAAuthorizationOperatorSetRuleForResult encOAAuthorizationOperatorSetRuleForResult typed_OAAuthorizationOperatorSetRuleForResult 4
  AuthorizationOperatorContract "''SetRuleFor''" "\<lambda>v. \<lparr>SetRuleFor_value = v\<rparr>" SetRuleFor_value AuthorizationOperatorDispatcher_ExchangeFrame
  "\<lambda>d args. AuthorizationOperator_SetRuleFor (Handler d) (SetRuleFor_expectedRevision args) (SetRuleFor_rule args) (SetRuleFor_ttlMs args) (SetRuleFor_why args)"
  by unfold_locales (simp_all add: AuthorizationOperatorDispatcher_ExchangeFrame_def exchangeFrame_def AuthorizationOperatorContract_def EndpointContract_def
      invokeSetRuleFor_def [abs_def] encOAAuthorizationOperatorSetRuleForResult_def framed_object code_def)

lemma sound_SetRuleFor: "legibleAuthorizationOperator (Handler d) \<Longrightarrow> sound (invokeSetRuleFor d)"
  unfolding invokeSetRuleFor_def [abs_def]
  by (rule invoke_sound [OF OAAuthorizationOperatorSetRuleForResult_wire.skipped]) (simp_all add: legibleAuthorizationOperator_def encOAAuthorizationOperatorSetRuleForResult_def framed_object)

interpretation SetRulesFor_call: remote decodeOAAuthorizationOperatorSetRulesForArguments encOAAuthorizationOperatorSetRulesForArguments typed_OAAuthorizationOperatorSetRulesForArguments 4 decodeOAAuthorizationOperatorSetRulesForResult encOAAuthorizationOperatorSetRulesForResult typed_OAAuthorizationOperatorSetRulesForResult 4
  AuthorizationOperatorContract "''SetRulesFor''" "\<lambda>v. \<lparr>SetRulesFor_value = v\<rparr>" SetRulesFor_value AuthorizationOperatorDispatcher_ExchangeFrame
  "\<lambda>d args. AuthorizationOperator_SetRulesFor (Handler d) (SetRulesFor_expectedRevision args) (SetRulesFor_rules args) (SetRulesFor_ttlMs args) (SetRulesFor_why args)"
  by unfold_locales (simp_all add: AuthorizationOperatorDispatcher_ExchangeFrame_def exchangeFrame_def AuthorizationOperatorContract_def EndpointContract_def
      invokeSetRulesFor_def [abs_def] encOAAuthorizationOperatorSetRulesForResult_def framed_object code_def)

lemma sound_SetRulesFor: "legibleAuthorizationOperator (Handler d) \<Longrightarrow> sound (invokeSetRulesFor d)"
  unfolding invokeSetRulesFor_def [abs_def]
  by (rule invoke_sound [OF OAAuthorizationOperatorSetRulesForResult_wire.skipped]) (simp_all add: legibleAuthorizationOperator_def encOAAuthorizationOperatorSetRulesForResult_def framed_object)

interpretation ReadRule_call: remote decodeOAAuthorizationOperatorReadRuleArguments encOAAuthorizationOperatorReadRuleArguments typed_OAAuthorizationOperatorReadRuleArguments 2 decodeOAAuthorizationOperatorReadRuleResult encOAAuthorizationOperatorReadRuleResult typed_OAAuthorizationOperatorReadRuleResult 5
  AuthorizationOperatorContract "''ReadRule''" "\<lambda>v. \<lparr>ReadRule_value = v\<rparr>" ReadRule_value AuthorizationOperatorDispatcher_ExchangeFrame
  "\<lambda>d args. AuthorizationOperator_ReadRule (Handler d) (ReadRule_subject args) (ReadRule_action args) (ReadRule_resource args)"
  by unfold_locales (simp_all add: AuthorizationOperatorDispatcher_ExchangeFrame_def exchangeFrame_def AuthorizationOperatorContract_def EndpointContract_def
      invokeReadRule_def [abs_def] encOAAuthorizationOperatorReadRuleResult_def framed_object code_def)

lemma sound_ReadRule: "legibleAuthorizationOperator (Handler d) \<Longrightarrow> sound (invokeReadRule d)"
  unfolding invokeReadRule_def [abs_def]
  by (rule invoke_sound [OF OAAuthorizationOperatorReadRuleResult_wire.skipped]) (simp_all add: legibleAuthorizationOperator_def encOAAuthorizationOperatorReadRuleResult_def framed_object)

interpretation RegisterAction_call: remote decodeOAAuthorizationOperatorRegisterActionArguments encOAAuthorizationOperatorRegisterActionArguments typed_OAAuthorizationOperatorRegisterActionArguments 1 decodeOAAuthorizationOperatorRegisterActionResult encOAAuthorizationOperatorRegisterActionResult typed_OAAuthorizationOperatorRegisterActionResult 4
  AuthorizationOperatorContract "''RegisterAction''" "\<lambda>v. \<lparr>RegisterAction_value = v\<rparr>" RegisterAction_value AuthorizationOperatorDispatcher_ExchangeFrame
  "\<lambda>d args. AuthorizationOperator_RegisterAction (Handler d) (RegisterAction_expectedRevision args) (RegisterAction_action args)"
  by unfold_locales (simp_all add: AuthorizationOperatorDispatcher_ExchangeFrame_def exchangeFrame_def AuthorizationOperatorContract_def EndpointContract_def
      invokeRegisterAction_def [abs_def] encOAAuthorizationOperatorRegisterActionResult_def framed_object code_def)

lemma sound_RegisterAction: "legibleAuthorizationOperator (Handler d) \<Longrightarrow> sound (invokeRegisterAction d)"
  unfolding invokeRegisterAction_def [abs_def]
  by (rule invoke_sound [OF OAAuthorizationOperatorRegisterActionResult_wire.skipped]) (simp_all add: legibleAuthorizationOperator_def encOAAuthorizationOperatorRegisterActionResult_def framed_object)

interpretation RetireAction_call: remote decodeOAAuthorizationOperatorRetireActionArguments encOAAuthorizationOperatorRetireActionArguments typed_OAAuthorizationOperatorRetireActionArguments 1 decodeOAAuthorizationOperatorRetireActionResult encOAAuthorizationOperatorRetireActionResult typed_OAAuthorizationOperatorRetireActionResult 4
  AuthorizationOperatorContract "''RetireAction''" "\<lambda>v. \<lparr>RetireAction_value = v\<rparr>" RetireAction_value AuthorizationOperatorDispatcher_ExchangeFrame
  "\<lambda>d args. AuthorizationOperator_RetireAction (Handler d) (RetireAction_expectedRevision args) (RetireAction_action args)"
  by unfold_locales (simp_all add: AuthorizationOperatorDispatcher_ExchangeFrame_def exchangeFrame_def AuthorizationOperatorContract_def EndpointContract_def
      invokeRetireAction_def [abs_def] encOAAuthorizationOperatorRetireActionResult_def framed_object code_def)

lemma sound_RetireAction: "legibleAuthorizationOperator (Handler d) \<Longrightarrow> sound (invokeRetireAction d)"
  unfolding invokeRetireAction_def [abs_def]
  by (rule invoke_sound [OF OAAuthorizationOperatorRetireActionResult_wire.skipped]) (simp_all add: legibleAuthorizationOperator_def encOAAuthorizationOperatorRetireActionResult_def framed_object)

interpretation ExplainFor_call: remote decodeOAAuthorizationOperatorExplainForArguments encOAAuthorizationOperatorExplainForArguments typed_OAAuthorizationOperatorExplainForArguments 2 decodeOAAuthorizationOperatorExplainForResult encOAAuthorizationOperatorExplainForResult typed_OAAuthorizationOperatorExplainForResult 2
  AuthorizationOperatorContract "''ExplainFor''" "\<lambda>v. \<lparr>ExplainFor_value = v\<rparr>" ExplainFor_value AuthorizationOperatorDispatcher_ExchangeFrame
  "\<lambda>d args. AuthorizationOperator_ExplainFor (Handler d) (ExplainFor_subject args) (ExplainFor_action args) (ExplainFor_resource args)"
  by unfold_locales (simp_all add: AuthorizationOperatorDispatcher_ExchangeFrame_def exchangeFrame_def AuthorizationOperatorContract_def EndpointContract_def
      invokeExplainFor_def [abs_def] encOAAuthorizationOperatorExplainForResult_def framed_object code_def)

lemma sound_ExplainFor: "legibleAuthorizationOperator (Handler d) \<Longrightarrow> sound (invokeExplainFor d)"
  unfolding invokeExplainFor_def [abs_def]
  by (rule invoke_sound [OF OAAuthorizationOperatorExplainForResult_wire.skipped]) (simp_all add: legibleAuthorizationOperator_def encOAAuthorizationOperatorExplainForResult_def framed_object)

interpretation ListDefaults_call: remote decodeOAAuthorizationOperatorListDefaultsArguments encOAAuthorizationOperatorListDefaultsArguments typed_OAAuthorizationOperatorListDefaultsArguments 1 decodeOAAuthorizationOperatorListDefaultsResult encOAAuthorizationOperatorListDefaultsResult typed_OAAuthorizationOperatorListDefaultsResult 5
  AuthorizationOperatorContract "''ListDefaults''" "\<lambda>v. \<lparr>ListDefaults_value = v\<rparr>" ListDefaults_value AuthorizationOperatorDispatcher_ExchangeFrame
  "\<lambda>d args. AuthorizationOperator_ListDefaults (Handler d)"
  by unfold_locales (simp_all add: AuthorizationOperatorDispatcher_ExchangeFrame_def exchangeFrame_def AuthorizationOperatorContract_def EndpointContract_def
      invokeListDefaults_def [abs_def] encOAAuthorizationOperatorListDefaultsResult_def framed_object code_def)

lemma sound_ListDefaults: "legibleAuthorizationOperator (Handler d) \<Longrightarrow> sound (invokeListDefaults d)"
  unfolding invokeListDefaults_def [abs_def]
  by (rule invoke_sound [OF OAAuthorizationOperatorListDefaultsResult_wire.skipped]) (simp_all add: legibleAuthorizationOperator_def encOAAuthorizationOperatorListDefaultsResult_def framed_object)

interpretation SetDefault_call: remote decodeOAAuthorizationOperatorSetDefaultArguments encOAAuthorizationOperatorSetDefaultArguments typed_OAAuthorizationOperatorSetDefaultArguments 1 decodeOAAuthorizationOperatorSetDefaultResult encOAAuthorizationOperatorSetDefaultResult typed_OAAuthorizationOperatorSetDefaultResult 4
  AuthorizationOperatorContract "''SetDefault''" "\<lambda>v. \<lparr>SetDefault_value = v\<rparr>" SetDefault_value AuthorizationOperatorDispatcher_ExchangeFrame
  "\<lambda>d args. AuthorizationOperator_SetDefault (Handler d) (SetDefault_expectedRevision args) (SetDefault_name args) (SetDefault_on args)"
  by unfold_locales (simp_all add: AuthorizationOperatorDispatcher_ExchangeFrame_def exchangeFrame_def AuthorizationOperatorContract_def EndpointContract_def
      invokeSetDefault_def [abs_def] encOAAuthorizationOperatorSetDefaultResult_def framed_object code_def)

lemma sound_SetDefault: "legibleAuthorizationOperator (Handler d) \<Longrightarrow> sound (invokeSetDefault d)"
  unfolding invokeSetDefault_def [abs_def]
  by (rule invoke_sound [OF OAAuthorizationOperatorSetDefaultResult_wire.skipped]) (simp_all add: legibleAuthorizationOperator_def encOAAuthorizationOperatorSetDefaultResult_def framed_object)

lemma AuthorizationOperatorDispatcher_answers:
  assumes "servicePayload frame = Inr v" and "frame_service v \<noteq> EndpointContract" and "legibleAuthorizationOperator (Handler d)"
  shows "answered v (snd (AuthorizationOperatorDispatcher_ExchangeFrame d frame s))"
  unfolding AuthorizationOperatorDispatcher_ExchangeFrame_def
  by (rule exchangeFrame_answers [OF assms(1,2)])
     (simp add: unknownMethod_answers assms(3)
       answerCall_answers [OF _ OAAuthorizationOperatorRegisterDescribedActionArguments_wire.speaking sound_RegisterDescribedAction]
       answerCall_answers [OF _ OAAuthorizationOperatorApplyFirstUseAllowArguments_wire.speaking sound_ApplyFirstUseAllow]
       answerCall_answers [OF _ OAAuthorizationOperatorListPolicyArguments_wire.speaking sound_ListPolicy]
       answerCall_answers [OF _ OAAuthorizationOperatorSetRuleArguments_wire.speaking sound_SetRule]
       answerCall_answers [OF _ OAAuthorizationOperatorRevokeRuleArguments_wire.speaking sound_RevokeRule]
       answerCall_answers [OF _ OAAuthorizationOperatorStopAnswererArguments_wire.speaking sound_StopAnswerer]
       answerCall_answers [OF _ OAAuthorizationOperatorRevokeAnswerPermitsArguments_wire.speaking sound_RevokeAnswerPermits]
       answerCall_answers [OF _ OAAuthorizationOperatorSetRuleForArguments_wire.speaking sound_SetRuleFor]
       answerCall_answers [OF _ OAAuthorizationOperatorSetRulesForArguments_wire.speaking sound_SetRulesFor]
       answerCall_answers [OF _ OAAuthorizationOperatorReadRuleArguments_wire.speaking sound_ReadRule]
       answerCall_answers [OF _ OAAuthorizationOperatorRegisterActionArguments_wire.speaking sound_RegisterAction]
       answerCall_answers [OF _ OAAuthorizationOperatorRetireActionArguments_wire.speaking sound_RetireAction]
       answerCall_answers [OF _ OAAuthorizationOperatorExplainForArguments_wire.speaking sound_ExplainFor]
       answerCall_answers [OF _ OAAuthorizationOperatorListDefaultsArguments_wire.speaking sound_ListDefaults]
       answerCall_answers [OF _ OAAuthorizationOperatorSetDefaultArguments_wire.speaking sound_SetDefault])

subsection \<open>SelectorAuthorization\<close>

text \<open>The errors the handler returns have texts in UTF-8.\<close>

definition legibleSelectorAuthorization :: "'s SelectorAuthorization \<Rightarrow> bool" where
  "legibleSelectorAuthorization h \<longleftrightarrow>
     (\<forall>x0 x1. legibleHandler (SelectorAuthorization_ListPermissionDefinitions h x0 x1)) \<and>
     (\<forall>x0 x1. legibleHandler (SelectorAuthorization_ListPermissionBundles h x0 x1)) \<and>
     (\<forall>x0. legibleHandler (SelectorAuthorization_CheckBatch h x0)) \<and>
     (\<forall>x0 x1. legibleHandler (SelectorAuthorization_CheckBatchFor h x0 x1)) \<and>
     (\<forall>x0 x1. legibleHandler (SelectorAuthorization_CheckLegacyOperationFor h x0 x1))"

interpretation ListPermissionDefinitions_call: remote decodeOASelectorAuthorizationListPermissionDefinitionsArguments encOASelectorAuthorizationListPermissionDefinitionsArguments typed_OASelectorAuthorizationListPermissionDefinitionsArguments 1 decodeOASelectorAuthorizationListPermissionDefinitionsResult encOASelectorAuthorizationListPermissionDefinitionsResult typed_OASelectorAuthorizationListPermissionDefinitionsResult 6
  SelectorAuthorizationContract "''ListPermissionDefinitions''" "\<lambda>v. \<lparr>ListPermissionDefinitions_value = v\<rparr>" ListPermissionDefinitions_value SelectorAuthorizationDispatcher_ExchangeFrame
  "\<lambda>d args. SelectorAuthorization_ListPermissionDefinitions (Handler d) (ListPermissionDefinitions_cursor args) (ListPermissionDefinitions_limit args)"
  by unfold_locales (simp_all add: SelectorAuthorizationDispatcher_ExchangeFrame_def exchangeFrame_def SelectorAuthorizationContract_def EndpointContract_def
      invokeListPermissionDefinitions_def [abs_def] encOASelectorAuthorizationListPermissionDefinitionsResult_def framed_object code_def)

lemma sound_ListPermissionDefinitions: "legibleSelectorAuthorization (Handler d) \<Longrightarrow> sound (invokeListPermissionDefinitions d)"
  unfolding invokeListPermissionDefinitions_def [abs_def]
  by (rule invoke_sound [OF OASelectorAuthorizationListPermissionDefinitionsResult_wire.skipped]) (simp_all add: legibleSelectorAuthorization_def encOASelectorAuthorizationListPermissionDefinitionsResult_def framed_object)

interpretation ListPermissionBundles_call: remote decodeOASelectorAuthorizationListPermissionBundlesArguments encOASelectorAuthorizationListPermissionBundlesArguments typed_OASelectorAuthorizationListPermissionBundlesArguments 1 decodeOASelectorAuthorizationListPermissionBundlesResult encOASelectorAuthorizationListPermissionBundlesResult typed_OASelectorAuthorizationListPermissionBundlesResult 6
  SelectorAuthorizationContract "''ListPermissionBundles''" "\<lambda>v. \<lparr>ListPermissionBundles_value = v\<rparr>" ListPermissionBundles_value SelectorAuthorizationDispatcher_ExchangeFrame
  "\<lambda>d args. SelectorAuthorization_ListPermissionBundles (Handler d) (ListPermissionBundles_cursor args) (ListPermissionBundles_limit args)"
  by unfold_locales (simp_all add: SelectorAuthorizationDispatcher_ExchangeFrame_def exchangeFrame_def SelectorAuthorizationContract_def EndpointContract_def
      invokeListPermissionBundles_def [abs_def] encOASelectorAuthorizationListPermissionBundlesResult_def framed_object code_def)

lemma sound_ListPermissionBundles: "legibleSelectorAuthorization (Handler d) \<Longrightarrow> sound (invokeListPermissionBundles d)"
  unfolding invokeListPermissionBundles_def [abs_def]
  by (rule invoke_sound [OF OASelectorAuthorizationListPermissionBundlesResult_wire.skipped]) (simp_all add: legibleSelectorAuthorization_def encOASelectorAuthorizationListPermissionBundlesResult_def framed_object)

interpretation CheckBatch_call: remote decodeOASelectorAuthorizationCheckBatchArguments encOASelectorAuthorizationCheckBatchArguments typed_OASelectorAuthorizationCheckBatchArguments 5 decodeOASelectorAuthorizationCheckBatchResult encOASelectorAuthorizationCheckBatchResult typed_OASelectorAuthorizationCheckBatchResult 3
  SelectorAuthorizationContract "''CheckBatch''" "\<lambda>v. \<lparr>CheckBatch_value = v\<rparr>" CheckBatch_value SelectorAuthorizationDispatcher_ExchangeFrame
  "\<lambda>d args. SelectorAuthorization_CheckBatch (Handler d) (CheckBatch_request args)"
  by unfold_locales (simp_all add: SelectorAuthorizationDispatcher_ExchangeFrame_def exchangeFrame_def SelectorAuthorizationContract_def EndpointContract_def
      invokeCheckBatch_def [abs_def] encOASelectorAuthorizationCheckBatchResult_def framed_object code_def)

lemma sound_CheckBatch: "legibleSelectorAuthorization (Handler d) \<Longrightarrow> sound (invokeCheckBatch d)"
  unfolding invokeCheckBatch_def [abs_def]
  by (rule invoke_sound [OF OASelectorAuthorizationCheckBatchResult_wire.skipped]) (simp_all add: legibleSelectorAuthorization_def encOASelectorAuthorizationCheckBatchResult_def framed_object)

interpretation CheckBatchFor_call: remote decodeOASelectorAuthorizationCheckBatchForArguments encOASelectorAuthorizationCheckBatchForArguments typed_OASelectorAuthorizationCheckBatchForArguments 5 decodeOASelectorAuthorizationCheckBatchForResult encOASelectorAuthorizationCheckBatchForResult typed_OASelectorAuthorizationCheckBatchForResult 3
  SelectorAuthorizationContract "''CheckBatchFor''" "\<lambda>v. \<lparr>CheckBatchFor_value = v\<rparr>" CheckBatchFor_value SelectorAuthorizationDispatcher_ExchangeFrame
  "\<lambda>d args. SelectorAuthorization_CheckBatchFor (Handler d) (CheckBatchFor_subject args) (CheckBatchFor_request args)"
  by unfold_locales (simp_all add: SelectorAuthorizationDispatcher_ExchangeFrame_def exchangeFrame_def SelectorAuthorizationContract_def EndpointContract_def
      invokeCheckBatchFor_def [abs_def] encOASelectorAuthorizationCheckBatchForResult_def framed_object code_def)

lemma sound_CheckBatchFor: "legibleSelectorAuthorization (Handler d) \<Longrightarrow> sound (invokeCheckBatchFor d)"
  unfolding invokeCheckBatchFor_def [abs_def]
  by (rule invoke_sound [OF OASelectorAuthorizationCheckBatchForResult_wire.skipped]) (simp_all add: legibleSelectorAuthorization_def encOASelectorAuthorizationCheckBatchForResult_def framed_object)

interpretation CheckLegacyOperationFor_call: remote decodeOASelectorAuthorizationCheckLegacyOperationForArguments encOASelectorAuthorizationCheckLegacyOperationForArguments typed_OASelectorAuthorizationCheckLegacyOperationForArguments 4 decodeOASelectorAuthorizationCheckLegacyOperationForResult encOASelectorAuthorizationCheckLegacyOperationForResult typed_OASelectorAuthorizationCheckLegacyOperationForResult 2
  SelectorAuthorizationContract "''CheckLegacyOperationFor''" "\<lambda>v. \<lparr>CheckLegacyOperationFor_value = v\<rparr>" CheckLegacyOperationFor_value SelectorAuthorizationDispatcher_ExchangeFrame
  "\<lambda>d args. SelectorAuthorization_CheckLegacyOperationFor (Handler d) (CheckLegacyOperationFor_subject args) (CheckLegacyOperationFor_request args)"
  by unfold_locales (simp_all add: SelectorAuthorizationDispatcher_ExchangeFrame_def exchangeFrame_def SelectorAuthorizationContract_def EndpointContract_def
      invokeCheckLegacyOperationFor_def [abs_def] encOASelectorAuthorizationCheckLegacyOperationForResult_def framed_object code_def)

lemma sound_CheckLegacyOperationFor: "legibleSelectorAuthorization (Handler d) \<Longrightarrow> sound (invokeCheckLegacyOperationFor d)"
  unfolding invokeCheckLegacyOperationFor_def [abs_def]
  by (rule invoke_sound [OF OASelectorAuthorizationCheckLegacyOperationForResult_wire.skipped]) (simp_all add: legibleSelectorAuthorization_def encOASelectorAuthorizationCheckLegacyOperationForResult_def framed_object)

lemma SelectorAuthorizationDispatcher_answers:
  assumes "servicePayload frame = Inr v" and "frame_service v \<noteq> EndpointContract" and "legibleSelectorAuthorization (Handler d)"
  shows "answered v (snd (SelectorAuthorizationDispatcher_ExchangeFrame d frame s))"
  unfolding SelectorAuthorizationDispatcher_ExchangeFrame_def
  by (rule exchangeFrame_answers [OF assms(1,2)])
     (simp add: unknownMethod_answers assms(3)
       answerCall_answers [OF _ OASelectorAuthorizationListPermissionDefinitionsArguments_wire.speaking sound_ListPermissionDefinitions]
       answerCall_answers [OF _ OASelectorAuthorizationListPermissionBundlesArguments_wire.speaking sound_ListPermissionBundles]
       answerCall_answers [OF _ OASelectorAuthorizationCheckBatchArguments_wire.speaking sound_CheckBatch]
       answerCall_answers [OF _ OASelectorAuthorizationCheckBatchForArguments_wire.speaking sound_CheckBatchFor]
       answerCall_answers [OF _ OASelectorAuthorizationCheckLegacyOperationForArguments_wire.speaking sound_CheckLegacyOperationFor])

subsection \<open>SelectorAuthorizationOperator\<close>

text \<open>The errors the handler returns have texts in UTF-8.\<close>

definition legibleSelectorAuthorizationOperator :: "'s SelectorAuthorizationOperator \<Rightarrow> bool" where
  "legibleSelectorAuthorizationOperator h \<longleftrightarrow>
     (\<forall>x0 x1. legibleHandler (SelectorAuthorizationOperator_ListSelectorRules h x0 x1)) \<and>
     (\<forall>x0 x1. legibleHandler (SelectorAuthorizationOperator_ReadSelectorRule h x0 x1)) \<and>
     (\<forall>x0 x1 x2 x3. legibleHandler (SelectorAuthorizationOperator_SetSelectorRule h x0 x1 x2 x3)) \<and>
     (\<forall>x0 x1 x2. legibleHandler (SelectorAuthorizationOperator_RemoveSelectorRule h x0 x1 x2)) \<and>
     (\<forall>x0 x1 x2 x3 x4 x5. legibleHandler (SelectorAuthorizationOperator_ApplyBundle h x0 x1 x2 x3 x4 x5)) \<and>
     (\<forall>x0 x1 x2. legibleHandler (SelectorAuthorizationOperator_RemoveBundle h x0 x1 x2)) \<and>
     (\<forall>x0 x1. legibleHandler (SelectorAuthorizationOperator_ApplyPermissionAllow h x0 x1)) \<and>
     (\<forall>x0 x1. legibleHandler (SelectorAuthorizationOperator_UndoPermissionEffect h x0 x1))"

interpretation ListSelectorRules_call: remote decodeOASelectorAuthorizationOperatorListSelectorRulesArguments encOASelectorAuthorizationOperatorListSelectorRulesArguments typed_OASelectorAuthorizationOperatorListSelectorRulesArguments 1 decodeOASelectorAuthorizationOperatorListSelectorRulesResult encOASelectorAuthorizationOperatorListSelectorRulesResult typed_OASelectorAuthorizationOperatorListSelectorRulesResult 9
  SelectorAuthorizationOperatorContract "''ListSelectorRules''" "\<lambda>v. \<lparr>ListSelectorRules_value = v\<rparr>" ListSelectorRules_value SelectorAuthorizationOperatorDispatcher_ExchangeFrame
  "\<lambda>d args. SelectorAuthorizationOperator_ListSelectorRules (Handler d) (ListSelectorRules_cursor args) (ListSelectorRules_limit args)"
  by unfold_locales (simp_all add: SelectorAuthorizationOperatorDispatcher_ExchangeFrame_def exchangeFrame_def SelectorAuthorizationOperatorContract_def EndpointContract_def
      invokeListSelectorRules_def [abs_def] encOASelectorAuthorizationOperatorListSelectorRulesResult_def framed_object code_def)

lemma sound_ListSelectorRules: "legibleSelectorAuthorizationOperator (Handler d) \<Longrightarrow> sound (invokeListSelectorRules d)"
  unfolding invokeListSelectorRules_def [abs_def]
  by (rule invoke_sound [OF OASelectorAuthorizationOperatorListSelectorRulesResult_wire.skipped]) (simp_all add: legibleSelectorAuthorizationOperator_def encOASelectorAuthorizationOperatorListSelectorRulesResult_def framed_object)

interpretation ReadSelectorRule_call: remote decodeOASelectorAuthorizationOperatorReadSelectorRuleArguments encOASelectorAuthorizationOperatorReadSelectorRuleArguments typed_OASelectorAuthorizationOperatorReadSelectorRuleArguments 3 decodeOASelectorAuthorizationOperatorReadSelectorRuleResult encOASelectorAuthorizationOperatorReadSelectorRuleResult typed_OASelectorAuthorizationOperatorReadSelectorRuleResult 8
  SelectorAuthorizationOperatorContract "''ReadSelectorRule''" "\<lambda>v. \<lparr>ReadSelectorRule_value = v\<rparr>" ReadSelectorRule_value SelectorAuthorizationOperatorDispatcher_ExchangeFrame
  "\<lambda>d args. SelectorAuthorizationOperator_ReadSelectorRule (Handler d) (ReadSelectorRule_subject args) (ReadSelectorRule_selection args)"
  by unfold_locales (simp_all add: SelectorAuthorizationOperatorDispatcher_ExchangeFrame_def exchangeFrame_def SelectorAuthorizationOperatorContract_def EndpointContract_def
      invokeReadSelectorRule_def [abs_def] encOASelectorAuthorizationOperatorReadSelectorRuleResult_def framed_object code_def)

lemma sound_ReadSelectorRule: "legibleSelectorAuthorizationOperator (Handler d) \<Longrightarrow> sound (invokeReadSelectorRule d)"
  unfolding invokeReadSelectorRule_def [abs_def]
  by (rule invoke_sound [OF OASelectorAuthorizationOperatorReadSelectorRuleResult_wire.skipped]) (simp_all add: legibleSelectorAuthorizationOperator_def encOASelectorAuthorizationOperatorReadSelectorRuleResult_def framed_object)

interpretation SetSelectorRule_call: remote decodeOASelectorAuthorizationOperatorSetSelectorRuleArguments encOASelectorAuthorizationOperatorSetSelectorRuleArguments typed_OASelectorAuthorizationOperatorSetSelectorRuleArguments 4 decodeOASelectorAuthorizationOperatorSetSelectorRuleResult encOASelectorAuthorizationOperatorSetSelectorRuleResult typed_OASelectorAuthorizationOperatorSetSelectorRuleResult 9
  SelectorAuthorizationOperatorContract "''SetSelectorRule''" "\<lambda>v. \<lparr>SetSelectorRule_value = v\<rparr>" SetSelectorRule_value SelectorAuthorizationOperatorDispatcher_ExchangeFrame
  "\<lambda>d args. SelectorAuthorizationOperator_SetSelectorRule (Handler d) (SetSelectorRule_expectedRevision args) (SetSelectorRule_rule args) (SetSelectorRule_ttlMs args) (SetSelectorRule_why args)"
  by unfold_locales (simp_all add: SelectorAuthorizationOperatorDispatcher_ExchangeFrame_def exchangeFrame_def SelectorAuthorizationOperatorContract_def EndpointContract_def
      invokeSetSelectorRule_def [abs_def] encOASelectorAuthorizationOperatorSetSelectorRuleResult_def framed_object code_def)

lemma sound_SetSelectorRule: "legibleSelectorAuthorizationOperator (Handler d) \<Longrightarrow> sound (invokeSetSelectorRule d)"
  unfolding invokeSetSelectorRule_def [abs_def]
  by (rule invoke_sound [OF OASelectorAuthorizationOperatorSetSelectorRuleResult_wire.skipped]) (simp_all add: legibleSelectorAuthorizationOperator_def encOASelectorAuthorizationOperatorSetSelectorRuleResult_def framed_object)

interpretation RemoveSelectorRule_call: remote decodeOASelectorAuthorizationOperatorRemoveSelectorRuleArguments encOASelectorAuthorizationOperatorRemoveSelectorRuleArguments typed_OASelectorAuthorizationOperatorRemoveSelectorRuleArguments 3 decodeOASelectorAuthorizationOperatorRemoveSelectorRuleResult encOASelectorAuthorizationOperatorRemoveSelectorRuleResult typed_OASelectorAuthorizationOperatorRemoveSelectorRuleResult 9
  SelectorAuthorizationOperatorContract "''RemoveSelectorRule''" "\<lambda>v. \<lparr>RemoveSelectorRule_value = v\<rparr>" RemoveSelectorRule_value SelectorAuthorizationOperatorDispatcher_ExchangeFrame
  "\<lambda>d args. SelectorAuthorizationOperator_RemoveSelectorRule (Handler d) (RemoveSelectorRule_expectedRevision args) (RemoveSelectorRule_subject args) (RemoveSelectorRule_selection args)"
  by unfold_locales (simp_all add: SelectorAuthorizationOperatorDispatcher_ExchangeFrame_def exchangeFrame_def SelectorAuthorizationOperatorContract_def EndpointContract_def
      invokeRemoveSelectorRule_def [abs_def] encOASelectorAuthorizationOperatorRemoveSelectorRuleResult_def framed_object code_def)

lemma sound_RemoveSelectorRule: "legibleSelectorAuthorizationOperator (Handler d) \<Longrightarrow> sound (invokeRemoveSelectorRule d)"
  unfolding invokeRemoveSelectorRule_def [abs_def]
  by (rule invoke_sound [OF OASelectorAuthorizationOperatorRemoveSelectorRuleResult_wire.skipped]) (simp_all add: legibleSelectorAuthorizationOperator_def encOASelectorAuthorizationOperatorRemoveSelectorRuleResult_def framed_object)

interpretation ApplyBundle_call: remote decodeOASelectorAuthorizationOperatorApplyBundleArguments encOASelectorAuthorizationOperatorApplyBundleArguments typed_OASelectorAuthorizationOperatorApplyBundleArguments 2 decodeOASelectorAuthorizationOperatorApplyBundleResult encOASelectorAuthorizationOperatorApplyBundleResult typed_OASelectorAuthorizationOperatorApplyBundleResult 9
  SelectorAuthorizationOperatorContract "''ApplyBundle''" "\<lambda>v. \<lparr>ApplyBundle_value = v\<rparr>" ApplyBundle_value SelectorAuthorizationOperatorDispatcher_ExchangeFrame
  "\<lambda>d args. SelectorAuthorizationOperator_ApplyBundle (Handler d) (ApplyBundle_expectedRevision args) (ApplyBundle_subject args) (ApplyBundle_bundleRef args) (ApplyBundle_selector args) (ApplyBundle_ttlMs args) (ApplyBundle_why args)"
  by unfold_locales (simp_all add: SelectorAuthorizationOperatorDispatcher_ExchangeFrame_def exchangeFrame_def SelectorAuthorizationOperatorContract_def EndpointContract_def
      invokeApplyBundle_def [abs_def] encOASelectorAuthorizationOperatorApplyBundleResult_def framed_object code_def)

lemma sound_ApplyBundle: "legibleSelectorAuthorizationOperator (Handler d) \<Longrightarrow> sound (invokeApplyBundle d)"
  unfolding invokeApplyBundle_def [abs_def]
  by (rule invoke_sound [OF OASelectorAuthorizationOperatorApplyBundleResult_wire.skipped]) (simp_all add: legibleSelectorAuthorizationOperator_def encOASelectorAuthorizationOperatorApplyBundleResult_def framed_object)

interpretation RemoveBundle_call: remote decodeOASelectorAuthorizationOperatorRemoveBundleArguments encOASelectorAuthorizationOperatorRemoveBundleArguments typed_OASelectorAuthorizationOperatorRemoveBundleArguments 2 decodeOASelectorAuthorizationOperatorRemoveBundleResult encOASelectorAuthorizationOperatorRemoveBundleResult typed_OASelectorAuthorizationOperatorRemoveBundleResult 9
  SelectorAuthorizationOperatorContract "''RemoveBundle''" "\<lambda>v. \<lparr>RemoveBundle_value = v\<rparr>" RemoveBundle_value SelectorAuthorizationOperatorDispatcher_ExchangeFrame
  "\<lambda>d args. SelectorAuthorizationOperator_RemoveBundle (Handler d) (RemoveBundle_expectedRevision args) (RemoveBundle_subject args) (RemoveBundle_originID args)"
  by unfold_locales (simp_all add: SelectorAuthorizationOperatorDispatcher_ExchangeFrame_def exchangeFrame_def SelectorAuthorizationOperatorContract_def EndpointContract_def
      invokeRemoveBundle_def [abs_def] encOASelectorAuthorizationOperatorRemoveBundleResult_def framed_object code_def)

lemma sound_RemoveBundle: "legibleSelectorAuthorizationOperator (Handler d) \<Longrightarrow> sound (invokeRemoveBundle d)"
  unfolding invokeRemoveBundle_def [abs_def]
  by (rule invoke_sound [OF OASelectorAuthorizationOperatorRemoveBundleResult_wire.skipped]) (simp_all add: legibleSelectorAuthorizationOperator_def encOASelectorAuthorizationOperatorRemoveBundleResult_def framed_object)

interpretation ApplyPermissionAllow_call: remote decodeOASelectorAuthorizationOperatorApplyPermissionAllowArguments encOASelectorAuthorizationOperatorApplyPermissionAllowArguments typed_OASelectorAuthorizationOperatorApplyPermissionAllowArguments 1 decodeOASelectorAuthorizationOperatorApplyPermissionAllowResult encOASelectorAuthorizationOperatorApplyPermissionAllowResult typed_OASelectorAuthorizationOperatorApplyPermissionAllowResult 9
  SelectorAuthorizationOperatorContract "''ApplyPermissionAllow''" "\<lambda>v. \<lparr>ApplyPermissionAllow_value = v\<rparr>" ApplyPermissionAllow_value SelectorAuthorizationOperatorDispatcher_ExchangeFrame
  "\<lambda>d args. SelectorAuthorizationOperator_ApplyPermissionAllow (Handler d) (ApplyPermissionAllow_expectedRevision args) (ApplyPermissionAllow_questionID args)"
  by unfold_locales (simp_all add: SelectorAuthorizationOperatorDispatcher_ExchangeFrame_def exchangeFrame_def SelectorAuthorizationOperatorContract_def EndpointContract_def
      invokeApplyPermissionAllow_def [abs_def] encOASelectorAuthorizationOperatorApplyPermissionAllowResult_def framed_object code_def)

lemma sound_ApplyPermissionAllow: "legibleSelectorAuthorizationOperator (Handler d) \<Longrightarrow> sound (invokeApplyPermissionAllow d)"
  unfolding invokeApplyPermissionAllow_def [abs_def]
  by (rule invoke_sound [OF OASelectorAuthorizationOperatorApplyPermissionAllowResult_wire.skipped]) (simp_all add: legibleSelectorAuthorizationOperator_def encOASelectorAuthorizationOperatorApplyPermissionAllowResult_def framed_object)

interpretation UndoPermissionEffect_call: remote decodeOASelectorAuthorizationOperatorUndoPermissionEffectArguments encOASelectorAuthorizationOperatorUndoPermissionEffectArguments typed_OASelectorAuthorizationOperatorUndoPermissionEffectArguments 1 decodeOASelectorAuthorizationOperatorUndoPermissionEffectResult encOASelectorAuthorizationOperatorUndoPermissionEffectResult typed_OASelectorAuthorizationOperatorUndoPermissionEffectResult 9
  SelectorAuthorizationOperatorContract "''UndoPermissionEffect''" "\<lambda>v. \<lparr>UndoPermissionEffect_value = v\<rparr>" UndoPermissionEffect_value SelectorAuthorizationOperatorDispatcher_ExchangeFrame
  "\<lambda>d args. SelectorAuthorizationOperator_UndoPermissionEffect (Handler d) (UndoPermissionEffect_expectedRevision args) (UndoPermissionEffect_questionID args)"
  by unfold_locales (simp_all add: SelectorAuthorizationOperatorDispatcher_ExchangeFrame_def exchangeFrame_def SelectorAuthorizationOperatorContract_def EndpointContract_def
      invokeUndoPermissionEffect_def [abs_def] encOASelectorAuthorizationOperatorUndoPermissionEffectResult_def framed_object code_def)

lemma sound_UndoPermissionEffect: "legibleSelectorAuthorizationOperator (Handler d) \<Longrightarrow> sound (invokeUndoPermissionEffect d)"
  unfolding invokeUndoPermissionEffect_def [abs_def]
  by (rule invoke_sound [OF OASelectorAuthorizationOperatorUndoPermissionEffectResult_wire.skipped]) (simp_all add: legibleSelectorAuthorizationOperator_def encOASelectorAuthorizationOperatorUndoPermissionEffectResult_def framed_object)

lemma SelectorAuthorizationOperatorDispatcher_answers:
  assumes "servicePayload frame = Inr v" and "frame_service v \<noteq> EndpointContract" and "legibleSelectorAuthorizationOperator (Handler d)"
  shows "answered v (snd (SelectorAuthorizationOperatorDispatcher_ExchangeFrame d frame s))"
  unfolding SelectorAuthorizationOperatorDispatcher_ExchangeFrame_def
  by (rule exchangeFrame_answers [OF assms(1,2)])
     (simp add: unknownMethod_answers assms(3)
       answerCall_answers [OF _ OASelectorAuthorizationOperatorListSelectorRulesArguments_wire.speaking sound_ListSelectorRules]
       answerCall_answers [OF _ OASelectorAuthorizationOperatorReadSelectorRuleArguments_wire.speaking sound_ReadSelectorRule]
       answerCall_answers [OF _ OASelectorAuthorizationOperatorSetSelectorRuleArguments_wire.speaking sound_SetSelectorRule]
       answerCall_answers [OF _ OASelectorAuthorizationOperatorRemoveSelectorRuleArguments_wire.speaking sound_RemoveSelectorRule]
       answerCall_answers [OF _ OASelectorAuthorizationOperatorApplyBundleArguments_wire.speaking sound_ApplyBundle]
       answerCall_answers [OF _ OASelectorAuthorizationOperatorRemoveBundleArguments_wire.speaking sound_RemoveBundle]
       answerCall_answers [OF _ OASelectorAuthorizationOperatorApplyPermissionAllowArguments_wire.speaking sound_ApplyPermissionAllow]
       answerCall_answers [OF _ OASelectorAuthorizationOperatorUndoPermissionEffectArguments_wire.speaking sound_UndoPermissionEffect])

end
