(* ===== verification/Stamps.thy ===== *)
theory Stamps
  imports Go_Strings "HOL-Library.Monad_Syntax"
begin

text \<open>
  The service time stamps of decision_policy.go: \<open>StampFormat\<close>, \<open>stamp\<close>, \<open>validStamp\<close>,
  and the reading of a stamp that \<open>expired\<close> makes. An instant is a number of nanoseconds
  since 0000-01-01T00:00:00Z in the proleptic Gregorian calendar, which is how Go's
  \<open>time\<close> package counts; instants before year 0 are outside the model.
\<close>

type_synonym instant = nat

definition Millisecond :: nat where "Millisecond = 1000000"
definition dayMs :: nat where "dayMs = 86400000"

subsection \<open>The calendar\<close>

definition leap :: "nat \<Rightarrow> bool" where
  "leap y \<longleftrightarrow> 4 dvd y \<and> (\<not> 100 dvd y \<or> 400 dvd y)"

definition yearDays :: "nat \<Rightarrow> nat" where
  "yearDays y = (if leap y then 366 else 365)"

definition monthDays :: "nat \<Rightarrow> nat \<Rightarrow> nat" where
  "monthDays y m = (if m = 2 then (if leap y then 29 else 28)
     else if m = 4 \<or> m = 6 \<or> m = 9 \<or> m = 11 then 30 else 31)"

text \<open>Days from 0000-01-01 to the first of January of a year.\<close>

definition yearStart :: "nat \<Rightarrow> nat" where
  "yearStart y = 365 * y + (y + 3) div 4 + (y + 399) div 400 - (y + 99) div 100"

text \<open>Days from the first of January to the first of a month.\<close>

fun monthStart :: "nat \<Rightarrow> nat \<Rightarrow> nat" where
  "monthStart y 0 = 0"
| "monthStart y (Suc 0) = 0"
| "monthStart y (Suc (Suc m)) = monthStart y (Suc m) + monthDays y (Suc m)"

function splitYear :: "nat \<Rightarrow> nat \<Rightarrow> nat \<times> nat" where
  "splitYear y d = (if d < yearDays y then (y, d) else splitYear (Suc y) (d - yearDays y))"
  by pat_completeness auto
termination by (relation "measure snd") (auto simp: yearDays_def split: if_splits)

declare splitYear.simps [simp del]

function splitMonth :: "nat \<Rightarrow> nat \<Rightarrow> nat \<Rightarrow> nat \<times> nat" where
  "splitMonth y m d =
     (if m \<ge> 12 \<or> d < monthDays y m then (m, d) else splitMonth y (Suc m) (d - monthDays y m))"
  by pat_completeness auto
termination by (relation "measure (\<lambda>(y, m, d). 12 - m)") auto

declare splitMonth.simps [simp del]

text \<open>Year and day of the year of a day number; 146097 days are 400 years.\<close>

definition civil :: "nat \<Rightarrow> nat \<times> nat" where
  "civil d = splitYear (400 * (d div 146097)) (d mod 146097)"

lemma ceil_step:
  fixes k y :: nat
  assumes "0 < k"
  shows "(y + k) div k = (y + (k - 1)) div k + (if k dvd y then 1 else 0)"
proof -
  obtain n where k: "k = Suc n" using assms by (cases k) auto
  have "Suc (y + n) mod Suc n = y mod Suc n"
    by (metis add_Suc_right mod_add_self2)
  then show ?thesis unfolding k by (simp add: div_Suc dvd_eq_mod_eq_0)
qed

lemma leap_count:
  "(Q \<Longrightarrow> P) \<Longrightarrow> (R \<Longrightarrow> Q) \<Longrightarrow>
   (if P \<and> (\<not> Q \<or> R) then 366 else 365) =
     365 + (if P then 1 else 0) + (if R then 1 else 0) - (if Q then 1 else (0::nat)) \<and>
   (if Q then 1 else 0) \<le> (if P then 1 else (0::nat))"
  by (cases P; cases Q; cases R) simp_all

lemma yearStart_Suc: "yearStart (Suc y) = yearStart y + yearDays y"
proof -
  define A B C where "A = (y + 3) div 4" and "B = (y + 99) div 100" and "C = (y + 399) div 400"
  define a b c :: nat where "a = (if 4 dvd y then 1 else 0)" and "b = (if 100 dvd y then 1 else 0)"
    and "c = (if 400 dvd y then 1 else 0)"
  have s: "(Suc y + 3) div 4 = A + a" "(Suc y + 99) div 100 = B + b" "(Suc y + 399) div 400 = C + c"
    using ceil_step [of 4 y] ceil_step [of 100 y] ceil_step [of 400 y]
    by (simp_all add: A_def B_def C_def a_def b_def c_def)
  have d: "100 dvd y \<Longrightarrow> 4 dvd y" "400 dvd y \<Longrightarrow> 100 dvd y"
    using dvd_trans [of 4 100 y] dvd_trans [of 100 400 y] by simp_all
  have days: "yearDays y = 365 + a + c - b" "b \<le> a"
    using leap_count [OF d] unfolding yearDays_def leap_def a_def b_def c_def by blast+
  moreover have "B \<le> 365 * y + A + C"
  proof -
    have "100 * B \<le> y + 99" by (simp add: B_def)
    moreover have "y + 3 < 4 * A + 4" by (simp add: A_def)
    ultimately show ?thesis by linarith
  qed
  moreover have "yearStart (Suc y) = 365 * Suc y + (A + a) + (C + c) - (B + b)"
    unfolding yearStart_def s ..
  moreover have "yearStart y = 365 * y + A + C - B"
    by (simp add: yearStart_def A_def B_def C_def)
  ultimately show ?thesis using days by (simp only: mult_Suc_right)
qed

lemma yearStart_0 [simp]: "yearStart 0 = 0"
  by (simp add: yearStart_def)

lemma yearDays_pos [simp]: "0 < yearDays y"
  by (simp add: yearDays_def)

lemma yearStart_mono: "y \<le> z \<Longrightarrow> yearStart y \<le> yearStart z"
  by (rule lift_Suc_mono_le) (simp_all add: yearStart_Suc)

lemma yearStart_le_next: "y < z \<Longrightarrow> yearStart y + yearDays y \<le> yearStart z"
  using yearStart_mono [of "Suc y" z] by (simp add: yearStart_Suc)

lemma splitYear_spec:
  "splitYear y d = (z, e) \<Longrightarrow> yearStart z + e = yearStart y + d \<and> e < yearDays z"
proof (induction y d rule: splitYear.induct)
  case (1 y d)
  then show ?case
    by (cases "d < yearDays y")
       (auto simp: splitYear.simps [of y d] yearStart_Suc split: if_splits)
qed

lemma yearStart_400: "yearStart (400 * q) = 146097 * q"
proof -
  have "(400 * q + 3) div 4 = 100 * q" "(400 * q + 99) div 100 = 4 * q" "(400 * q + 399) div 400 = q"
    by linarith+
  then show ?thesis by (simp add: yearStart_def)
qed

lemma civil_spec: "civil d = (y, e) \<Longrightarrow> yearStart y + e = d \<and> e < yearDays y"
  using splitYear_spec [of "400 * (d div 146097)" "d mod 146097" y e]
  by (simp add: civil_def yearStart_400)

text \<open>A day number has one year and one day of the year.\<close>

lemma civil_unique:
  assumes "yearStart y + e = yearStart z + g" and "e < yearDays y" and "g < yearDays z"
  shows "y = z \<and> e = g"
proof -
  have "\<not> y < z" using yearStart_le_next [of y z] assms by linarith
  moreover have "\<not> z < y" using yearStart_le_next [of z y] assms by linarith
  ultimately have "y = z" by linarith
  with assms(1) show ?thesis by simp
qed

lemma monthStart_Suc: "1 \<le> m \<Longrightarrow> monthStart y (Suc m) = monthStart y m + monthDays y m"
  by (cases m) auto

lemma monthStart_13: "monthStart y 13 = yearDays y"
  by (simp add: eval_nat_numeral monthDays_def yearDays_def)

lemma monthDays_bounds: "28 \<le> monthDays y m \<and> monthDays y m \<le> 31"
  by (simp add: monthDays_def)

lemma monthStart_le_next: "1 \<le> m \<Longrightarrow> m < n \<Longrightarrow> monthStart y m + monthDays y m \<le> monthStart y n"
proof (induction n)
  case (Suc n)
  then show ?case
    by (cases "m = n") (auto simp: monthStart_Suc)
qed simp

lemma splitMonth_spec:
  "splitMonth y m d = (n, e) \<Longrightarrow> 1 \<le> m \<Longrightarrow> m \<le> 12 \<Longrightarrow> monthStart y m + d < yearDays y \<Longrightarrow>
   monthStart y n + e = monthStart y m + d \<and> e < monthDays y n \<and> 1 \<le> n \<and> n \<le> 12"
proof (induction y m d rule: splitMonth.induct)
  case (1 y m d)
  show ?case
  proof (cases "m \<ge> 12 \<or> d < monthDays y m")
    case True
    have "m = 12 \<Longrightarrow> d < monthDays y m"
      using 1(5) monthStart_Suc [of 12 y] monthStart_13 [of y] by simp
    with True 1 show ?thesis by (auto simp: splitMonth.simps [of y m d])
  next
    case False
    with 1 show ?thesis by (auto simp: splitMonth.simps [of y m d] monthStart_Suc)
  qed
qed

lemma month_unique:
  assumes "monthStart y m + e = monthStart y n + g" and "e < monthDays y m" and "g < monthDays y n"
    and "1 \<le> m" and "1 \<le> n"
  shows "m = n \<and> e = g"
proof -
  have "\<not> m < n" using monthStart_le_next [of m n y] assms by linarith
  moreover have "\<not> n < m" using monthStart_le_next [of n m y] assms by linarith
  ultimately have "m = n" by linarith
  with assms(1) show ?thesis by simp
qed

subsection \<open>Writing and reading a stamp\<close>

fun pad :: "nat \<Rightarrow> nat \<Rightarrow> bytes" where
  "pad 0 n = []"
| "pad (Suc k) n = pad k (n div 10) @ [digit (n mod 10)]"

definition yearText :: "nat \<Rightarrow> bytes" where
  "yearText y = (if y < 10000 then pad 4 y else itoa y)"

definition stamp :: "instant \<Rightarrow> bytes" where
  "stamp t =
     (let ms = t div Millisecond; r = ms mod dayMs in
      case civil (ms div dayMs) of (y, e) \<Rightarrow>
      case splitMonth y 1 e of (m, d) \<Rightarrow>
        yearText y @ CHR ''-'' # pad 2 m @ CHR ''-'' # pad 2 (d + 1) @ CHR ''T'' #
        pad 2 (r div 3600000) @ CHR '':'' # pad 2 (r div 60000 mod 60) @ CHR '':'' #
        pad 2 (r div 1000 mod 60) @ CHR ''.'' # pad 3 (r mod 1000) @ ''Z'')"

definition instantOf :: "nat \<Rightarrow> nat \<Rightarrow> nat \<Rightarrow> nat \<Rightarrow> nat \<Rightarrow> nat \<Rightarrow> nat \<Rightarrow> instant" where
  "instantOf y m d h mi s ms =
     ((yearStart y + monthStart y m + (d - 1)) * dayMs + h * 3600000 + mi * 60000 + s * 1000 + ms) * Millisecond"

text \<open>
  \<open>time.Parse\<close> on \<open>StampFormat\<close>: the hour may have one digit, the fraction may follow a
  comma and carry a sign, as Go's parser allows; \<open>validStamp\<close> refuses those spellings by
  formatting the result again.
\<close>

definition literal :: "char \<Rightarrow> bytes \<Rightarrow> bytes option" where
  "literal c s = (case s of x # xs \<Rightarrow> (if x = c then Some xs else None) | [] \<Rightarrow> None)"

definition getnum :: "bool \<Rightarrow> bytes \<Rightarrow> (nat \<times> bytes) option" where
  "getnum fixed s = (case s of
     [] \<Rightarrow> None
   | c # cs \<Rightarrow> if \<not> isDigit c then None
       else (case cs of
         [] \<Rightarrow> if fixed then None else Some (code c - 48, cs)
       | d # ds \<Rightarrow> if isDigit d then Some (10 * (code c - 48) + (code d - 48), ds)
           else if fixed then None else Some (code c - 48, cs)))"

definition getYear :: "bytes \<Rightarrow> (nat \<times> bytes) option" where
  "getYear s = (if length (take 4 s) = 4 \<and> allDigits (take 4 s)
     then Some (digitsValue (take 4 s), drop 4 s) else None)"

definition getFraction :: "bytes \<Rightarrow> (nat \<times> bytes) option" where
  "getFraction s = (case s of
     [] \<Rightarrow> None
   | c # cs \<Rightarrow> if c \<in> {CHR ''.'', CHR '',''} \<and> 3 \<le> length cs
       then (case atoi (take 3 cs) of
           Some v \<Rightarrow> if 0 \<le> v then Some (nat v, drop 3 cs) else None
         | None \<Rightarrow> None)
       else None)"

definition parseStamp :: "bytes \<Rightarrow> instant option" where
  "parseStamp s = do {
     (y, s) \<leftarrow> getYear s;
     s \<leftarrow> literal (CHR ''-'') s;
     (m, s) \<leftarrow> getnum True s;
     _ \<leftarrow> (if m = 0 \<or> 12 < m then None else Some ());
     s \<leftarrow> literal (CHR ''-'') s;
     (d, s) \<leftarrow> getnum True s;
     s \<leftarrow> literal (CHR ''T'') s;
     (h, s) \<leftarrow> getnum False s;
     _ \<leftarrow> (if 24 \<le> h then None else Some ());
     s \<leftarrow> literal (CHR '':'') s;
     (mi, s) \<leftarrow> getnum True s;
     _ \<leftarrow> (if 60 \<le> mi then None else Some ());
     s \<leftarrow> literal (CHR '':'') s;
     (sec, s) \<leftarrow> getnum True s;
     _ \<leftarrow> (if 60 \<le> sec then None else Some ());
     (ms, s) \<leftarrow> getFraction s;
     s \<leftarrow> literal (CHR ''Z'') s;
     _ \<leftarrow> (if s = [] \<and> 1 \<le> d \<and> d \<le> monthDays y m then Some () else None);
     Some (instantOf y m d h mi sec ms)
   }"

definition validStamp :: "bytes \<Rightarrow> bool" where
  "validStamp s \<longleftrightarrow> (case parseStamp s of None \<Rightarrow> False | Some t \<Rightarrow> stamp t = s)"

text \<open>\<open>expired\<close> of a rule, on the rule's expiry text.\<close>

definition stampExpired :: "bytes \<Rightarrow> instant \<Rightarrow> bool" where
  "stampExpired expires now \<longleftrightarrow>
     expires \<noteq> [] \<and> (case parseStamp expires of None \<Rightarrow> True | Some t \<Rightarrow> \<not> now < t)"

lemma length_pad [simp]: "length (pad k n) = k"
  by (induction k arbitrary: n) auto

lemma allDigits_pad: "list_all isDigit (pad k n)"
  by (induction k arbitrary: n) auto

lemma digitsValue_pad: "n < 10 ^ k \<Longrightarrow> digitsValue (pad k n) = n"
proof (induction k arbitrary: n)
  case 0
  then show ?case by (simp add: digitsValue_def)
next
  case (Suc k)
  then have "n div 10 < 10 ^ k" by auto
  with Suc.IH show ?case by (simp add: digitsValue_snoc)
qed

lemma pad_less:
  "m < 10 ^ k \<Longrightarrow> n < 10 ^ k \<Longrightarrow> m < n \<Longrightarrow> pad k m < pad k n"
proof (induction k arbitrary: m n)
  case (Suc k)
  have b: "m div 10 < 10 ^ k" "n div 10 < 10 ^ k" using Suc.prems by auto
  show ?case
  proof (cases "m div 10 < n div 10")
    case True
    with Suc.IH b show ?thesis by (simp add: lex_append_less)
  next
    case False
    with Suc.prems have e: "m div 10 = n div 10" "m mod 10 < n mod 10"
      by (metis div_le_mono less_imp_le_nat linorder_neqE_nat not_le)
         (metis False Suc.prems(3) div_le_mono div_mult_mod_eq le_neq_implies_less less_imp_le_nat nat_add_left_cancel_less)
    moreover have "digit (m mod 10) < digit (n mod 10)"
      using e(2) by (simp add: digit_def less_char_def)
    ultimately show ?thesis by (simp add: lex_append_less)
  qed
qed simp

subsection \<open>A stamp reads back as its instant, in milliseconds\<close>

lemma literal_Cons [simp]: "literal c (c # s) = Some s"
  by (simp add: literal_def)

lemma pad_2: "pad 2 n = [digit (n div 10 mod 10), digit (n mod 10)]"
  by (simp add: numeral_2_eq_2)

lemma getnum_pad [simp]:
  assumes "n < 100"
  shows "getnum f (pad 2 n @ s) = Some (n, s)"
proof -
  have "n div 10 < 10" using assms by auto
  moreover have "10 * (n div 10) + n mod 10 = n" by simp
  ultimately show ?thesis by (simp add: getnum_def pad_2)
qed

lemma getYear_pad [simp]: "y < 10000 \<Longrightarrow> getYear (pad 4 y @ s) = Some (y, s)"
proof -
  assume y: "y < 10000"
  have "pad 4 y \<noteq> []" by (metis length_pad list.size(3) zero_neq_numeral)
  then have "allDigits (pad 4 y)" by (simp add: allDigits_def allDigits_pad)
  moreover have "digitsValue (pad 4 y) = y" using y digitsValue_pad [of y 4] by simp
  ultimately show ?thesis by (simp add: getYear_def)
qed

lemma getFraction_pad [simp]: "n < 1000 \<Longrightarrow> getFraction (CHR ''.'' # pad 3 n @ s) = Some (n, s)"
proof -
  assume n: "n < 1000"
  have "pad 3 n \<noteq> []" by (metis length_pad list.size(3) zero_neq_numeral)
  then have "allDigits (pad 3 n)" by (simp add: allDigits_def allDigits_pad)
  moreover have "digitsValue (pad 3 n) = n" using n digitsValue_pad [of n 3] by simp
  ultimately have "atoi (pad 3 n) = Some (int n)" using n by (simp add: atoi_digits)
  then show ?thesis by (simp add: getFraction_def)
qed

lemma mixed_radix:
  fixes a b c d e g r :: nat
  assumes "60 * a + b = c" and "60 * c + d = e" and "1000 * e + g = r"
  shows "a * 3600000 + b * 60000 + d * 1000 + g = r"
  using assms by linarith

text \<open>The fields of a stamp and their ranges.\<close>

lemma stamp_fields:
  obtains y m d h mi s ms where
    "stamp t = yearText y @ CHR ''-'' # pad 2 m @ CHR ''-'' # pad 2 (d + 1) @ CHR ''T'' # pad 2 h @
       CHR '':'' # pad 2 mi @ CHR '':'' # pad 2 s @ CHR ''.'' # pad 3 ms @ ''Z''"
    and "1 \<le> m" "m \<le> 12" "d < monthDays y m" "h < 24" "mi < 60" "s < 60" "ms < 1000"
    and "yearStart y + monthStart y m + d = t div Millisecond div dayMs"
    and "monthStart y m + d < yearDays y"
    and "h * 3600000 + mi * 60000 + s * 1000 + ms = t div Millisecond mod dayMs"
proof -
  define T r where "T = t div Millisecond" and "r = T mod dayMs"
  obtain y e where c: "civil (T div dayMs) = (y, e)" by fastforce
  obtain m d where sm: "splitMonth y 1 e = (m, d)" by fastforce
  have ye: "yearStart y + e = T div dayMs" "e < yearDays y" using civil_spec [OF c] by auto
  have md: "monthStart y m + d = e" "d < monthDays y m" "1 \<le> m" "m \<le> 12"
    using splitMonth_spec [OF sm] ye by auto
  have rb: "r < 86400000" by (simp add: r_def dayMs_def)
  have q: "r div 3600000 = r div 60000 div 60" "r div 60000 = r div 1000 div 60"
    by (simp_all flip: div_mult2_eq)
  have "r div 3600000 * 3600000 + r div 60000 mod 60 * 60000 + r div 1000 mod 60 * 1000 + r mod 1000 = r"
  proof -
    have "60 * (r div 60000 div 60) + r div 60000 mod 60 = r div 60000"
      "60 * (r div 1000 div 60) + r div 1000 mod 60 = r div 1000"
      "1000 * (r div 1000) + r mod 1000 = r"
      by (simp_all only: mult_div_mod_eq)
    then show ?thesis unfolding q by (rule mixed_radix)
  qed
  note tod = this
  have st: "stamp t = yearText y @ CHR ''-'' # pad 2 m @ CHR ''-'' # pad 2 (d + 1) @ CHR ''T'' #
      pad 2 (r div 3600000) @ CHR '':'' # pad 2 (r div 60000 mod 60) @ CHR '':'' #
      pad 2 (r div 1000 mod 60) @ CHR ''.'' # pad 3 (r mod 1000) @ ''Z''"
    unfolding stamp_def Let_def T_def [symmetric] r_def [symmetric] c
      prod.case sm ..
  have h: "r div 3600000 < 24" using rb by (simp add: div_less_iff_less_mult)
  show ?thesis
  proof (rule that [OF st md(3,4,2) h])
    show "r div 60000 mod 60 < 60" "r div 1000 mod 60 < 60" "r mod 1000 < 1000" by simp_all
    show "yearStart y + monthStart y m + d = t div Millisecond div dayMs"
      using ye(1) md(1) by (simp add: T_def)
    show "monthStart y m + d < yearDays y" using ye(2) md(1) by simp
    show "r div 3600000 * 3600000 + r div 60000 mod 60 * 60000 + r div 1000 mod 60 * 1000 + r mod 1000 =
        t div Millisecond mod dayMs"
      using tod by (simp only: r_def T_def)
  qed
qed


text \<open>The instants whose stamp has a four-digit year: before the year 10000.\<close>

definition fourDigitYear :: "instant \<Rightarrow> bool" where
  "fourDigitYear t \<longleftrightarrow> t < 315569520000000000000"

lemma yearStart_10000: "yearStart 10000 = 3652425"
  by (simp add: yearStart_def)

lemma fourDigitYear_year:
  assumes "fourDigitYear t" and "yearStart y + n = t div Millisecond div dayMs"
  shows "y < 10000"
proof (rule ccontr)
  assume "\<not> y < 10000"
  then have "3652425 \<le> t div Millisecond div dayMs"
    using yearStart_mono [of 10000 y] assms(2) by (simp add: yearStart_10000)
  then have "315569520000000000000 \<le> t"
    by (simp add: Millisecond_def dayMs_def less_eq_div_iff_mult_less_eq)
  with assms(1) show False by (simp add: fourDigitYear_def)
qed

theorem parse_stamp:
  assumes "fourDigitYear t"
  shows "parseStamp (stamp t) = Some (t div Millisecond * Millisecond)"
proof -
  obtain y m d h mi s ms where st: "stamp t = yearText y @ CHR ''-'' # pad 2 m @ CHR ''-'' # pad 2 (d + 1) @
       CHR ''T'' # pad 2 h @ CHR '':'' # pad 2 mi @ CHR '':'' # pad 2 s @ CHR ''.'' # pad 3 ms @ ''Z''"
    and r: "1 \<le> m" "m \<le> 12" "d < monthDays y m" "h < 24" "mi < 60" "s < 60" "ms < 1000"
    and day: "yearStart y + monthStart y m + d = t div Millisecond div dayMs"
    and tod: "h * 3600000 + mi * 60000 + s * 1000 + ms = t div Millisecond mod dayMs"
    by (rule stamp_fields)
  from fourDigitYear_year [OF assms, of y "monthStart y m + d"] day have y: "y < 10000"
    by (simp add: add.assoc)
  have "parseStamp (stamp t) = Some (instantOf y m (d + 1) h mi s ms)"
    unfolding parseStamp_def st yearText_def using y r monthDays_bounds [of y m] by (simp add: Let_def)
  also have "instantOf y m (d + 1) h mi s ms = t div Millisecond * Millisecond"
  proof -
    have "instantOf y m (d + 1) h mi s ms =
        (t div Millisecond div dayMs * dayMs + t div Millisecond mod dayMs) * Millisecond"
      unfolding instantOf_def day [symmetric] tod [symmetric] by (simp add: add.assoc)
    then show ?thesis by (simp only: div_mult_mod_eq)
  qed
  finally show ?thesis .
qed

lemma stamp_floor:
  "fourDigitYear t \<Longrightarrow> stamp (t div Millisecond * Millisecond) = stamp t"
  by (simp add: stamp_def Millisecond_def)

lemma validStamp_stamp: "fourDigitYear t \<Longrightarrow> validStamp (stamp t)"
  by (simp add: validStamp_def parse_stamp stamp_floor)

text \<open>A stamp has not passed until the service clock reaches its millisecond.\<close>

lemma stampExpired_stamp:
  "fourDigitYear t \<Longrightarrow> stampExpired (stamp t) now \<longleftrightarrow> t div Millisecond * Millisecond \<le> now"
proof -
  assume f: "fourDigitYear t"
  have "stamp t \<noteq> []" by (auto simp: stamp_def Let_def split: prod.splits)
  then show ?thesis by (simp add: stampExpired_def parse_stamp f not_less)
qed

lemma validStamp_nonempty: "validStamp s \<Longrightarrow> s \<noteq> []"
  by (auto simp: validStamp_def parseStamp_def getYear_def)

subsection \<open>Stamps order as their instants\<close>

lemma length_stamp: "fourDigitYear t \<Longrightarrow> length (stamp t) = 24"
proof -
  assume f: "fourDigitYear t"
  obtain y m d h mi s ms where st: "stamp t = yearText y @ CHR ''-'' # pad 2 m @ CHR ''-'' # pad 2 (d + 1) @
       CHR ''T'' # pad 2 h @ CHR '':'' # pad 2 mi @ CHR '':'' # pad 2 s @ CHR ''.'' # pad 3 ms @ ''Z''"
    and day: "yearStart y + monthStart y m + d = t div Millisecond div dayMs"
    by (rule stamp_fields)
  from fourDigitYear_year [OF f, of y "monthStart y m + d"] day have "y < 10000" by (simp add: add.assoc)
  then show ?thesis by (simp add: st yearText_def)
qed

lemma less_append_same [simp]: "a @ x < a @ y \<longleftrightarrow> x < (y :: string)"
  by (induction a) auto

lemma pad_append_less: "a < b \<Longrightarrow> b < 10 ^ k \<Longrightarrow> pad k a @ x < pad k b @ y"
  using pad_less [of a k b] by (simp add: lex_append_less)

text \<open>Of two instants the later millisecond has the greater stamp, so comparing stamps as
  strings compares the times.\<close>

lemma stamp_less:
  assumes "fourDigitYear u" and "t div Millisecond < u div Millisecond"
  shows "stamp t < stamp u"
proof -
  obtain y m d h mi s ms where st: "stamp t = yearText y @ CHR ''-'' # pad 2 m @ CHR ''-'' # pad 2 (d + 1) @
       CHR ''T'' # pad 2 h @ CHR '':'' # pad 2 mi @ CHR '':'' # pad 2 s @ CHR ''.'' # pad 3 ms @ ''Z''"
    and r: "1 \<le> m" "m \<le> 12" "d < monthDays y m" "h < 24" "mi < 60" "s < 60" "ms < 1000"
    and day: "yearStart y + monthStart y m + d = t div Millisecond div dayMs"
    and in_year: "monthStart y m + d < yearDays y"
    and tod: "h * 3600000 + mi * 60000 + s * 1000 + ms = t div Millisecond mod dayMs"
    by (rule stamp_fields)
  obtain y' m' d' h' mi' s' ms' where st': "stamp u = yearText y' @ CHR ''-'' # pad 2 m' @ CHR ''-'' # pad 2 (d' + 1) @
       CHR ''T'' # pad 2 h' @ CHR '':'' # pad 2 mi' @ CHR '':'' # pad 2 s' @ CHR ''.'' # pad 3 ms' @ ''Z''"
    and r': "1 \<le> m'" "m' \<le> 12" "d' < monthDays y' m'" "h' < 24" "mi' < 60" "s' < 60" "ms' < 1000"
    and day': "yearStart y' + monthStart y' m' + d' = u div Millisecond div dayMs"
    and in_year': "monthStart y' m' + d' < yearDays y'"
    and tod': "h' * 3600000 + mi' * 60000 + s' * 1000 + ms' = u div Millisecond mod dayMs"
    by (rule stamp_fields)
  have dle: "t div Millisecond div dayMs \<le> u div Millisecond div dayMs"
    using assms(2) by (simp add: div_le_mono)
  have y: "y \<le> y'"
  proof (rule ccontr)
    assume "\<not> y \<le> y'"
    then have "yearStart y' + yearDays y' \<le> yearStart y" using yearStart_mono [of "Suc y'" y] by (simp add: yearStart_Suc)
    with dle day day' in_year' show False by simp
  qed
  have y4: "y' < 10000" using fourDigitYear_year [OF assms(1), of y' "monthStart y' m' + d'"] day' by (simp add: add.assoc)
  show ?thesis
  proof (cases "y < y'")
    case True
    then show ?thesis using y4 by (simp add: st st' yearText_def pad_append_less)
  next
    case False
    with y have yy: "y' = y" by simp
    have m: "m \<le> m'"
    proof (rule ccontr)
      assume "\<not> m \<le> m'"
      then have "monthStart y m' + monthDays y m' \<le> monthStart y m" using r'(1) monthStart_le_next [of m' m y] by simp
      with dle day day' r'(3) show False by (simp add: yy)
    qed
    have b2: "m' < 10 ^ 2" "d' + 1 < 10 ^ 2" "h' < 10 ^ 2" "mi' < 10 ^ 2" "s' < 10 ^ 2" "ms' < 10 ^ 3"
      using r' monthDays_bounds [of y' m'] by simp_all
    show ?thesis
    proof (cases "m < m'")
      case True
      then show ?thesis using y4 b2 by (simp add: st st' yearText_def pad_append_less yy)
    next
      case False
      with m have mm: "m' = m" by simp
      show ?thesis
      proof (cases "d < d'")
        case True
        then show ?thesis using y4 b2 by (simp add: st st' yearText_def pad_append_less yy mm)
      next
        case False
        with dle day day' have dd: "d' = d" by (simp add: yy mm)
        then have "t div Millisecond div dayMs = u div Millisecond div dayMs" using day day' by (simp add: yy mm)
        with assms(2) have "t div Millisecond mod dayMs < u div Millisecond mod dayMs"
          by (metis div_mult_mod_eq nat_add_left_cancel_less)
        then have less: "h * 3600000 + mi * 60000 + s * 1000 + ms < h' * 3600000 + mi' * 60000 + s' * 1000 + ms'"
          unfolding tod tod' .
        have "h \<le> h'" using less r r' by linarith
        consider "h < h'" | "h' = h" "mi < mi'" | "h' = h" "mi' = mi" "s < s'" | "h' = h" "mi' = mi" "s' = s" "ms < ms'"
          using less r r' by linarith
        then show ?thesis
          using y4 b2 by cases (simp_all add: st st' yearText_def pad_append_less yy mm dd)
      qed
    qed
  qed
qed

end
