(* ===== verification/Selection.thy ===== *)
theory Selection
  imports Prelude "HOL-Library.Multiset"
begin

text \<open>
  The interface of every scan that keeps the best candidate seen so far: a candidate test
  and a strict preference that is a weak order. The client's lemmas say what such a scan
  returns, and that a different order of the list can only change it among equals.
  \<open>decidingRule\<close> and \<open>mergeRules\<close> provide it.
\<close>

definition keepBetter :: "('a \<Rightarrow> bool) \<Rightarrow> ('a \<Rightarrow> 'a \<Rightarrow> bool) \<Rightarrow> 'a option \<Rightarrow> 'a \<Rightarrow> 'a option" where
  "keepBetter cand better best x =
     (if \<not> cand x then best
      else case best of None \<Rightarrow> Some x | Some b \<Rightarrow> if better x b then Some x else Some b)"

definition bestOf :: "('a \<Rightarrow> bool) \<Rightarrow> ('a \<Rightarrow> 'a \<Rightarrow> bool) \<Rightarrow> 'a list \<Rightarrow> 'a option" where
  "bestOf cand better xs = foldl (keepBetter cand better) None xs"

locale preference =
  fixes cand :: "'a \<Rightarrow> bool"
    and better :: "'a \<Rightarrow> 'a \<Rightarrow> bool"
  assumes better_irrefl: "\<not> better a a"
    and better_trans: "better a b \<Longrightarrow> better b c \<Longrightarrow> better a c"
    and worse_trans: "\<not> better a b \<Longrightarrow> \<not> better b c \<Longrightarrow> \<not> better a c"
begin

definition equal_rank :: "'a \<Rightarrow> 'a \<Rightarrow> bool" where
  "equal_rank a b \<longleftrightarrow> \<not> better a b \<and> \<not> better b a"

lemma better_asym: "better a b \<Longrightarrow> \<not> better b a"
  using better_trans better_irrefl by blast

lemma scan_keeps:
  "foldl (keepBetter cand better) (Some b) xs = Some r \<Longrightarrow>
   (r = b \<or> (r \<in> set xs \<and> cand r)) \<and> \<not> better b r \<and> (\<forall>y\<in>set xs. cand y \<longrightarrow> \<not> better y r)"
proof (induction xs arbitrary: b)
  case Nil
  then show ?case by (simp add: better_irrefl)
next
  case (Cons x xs)
  show ?case
  proof (cases "cand x \<and> better x b")
    case True
    then have "keepBetter cand better (Some b) x = Some x" by (simp add: keepBetter_def)
    with Cons.IH [of x] Cons.prems have IH: "(r = x \<or> (r \<in> set xs \<and> cand r)) \<and> \<not> better x r \<and>
        (\<forall>y\<in>set xs. cand y \<longrightarrow> \<not> better y r)" by simp
    with True better_asym worse_trans [of b x r] show ?thesis by auto
  next
    case False
    then have "keepBetter cand better (Some b) x = Some b" by (auto simp: keepBetter_def)
    with Cons.IH [of b] Cons.prems have IH: "(r = b \<or> (r \<in> set xs \<and> cand r)) \<and> \<not> better b r \<and>
        (\<forall>y\<in>set xs. cand y \<longrightarrow> \<not> better y r)" by simp
    with False worse_trans [of x b r] show ?thesis by auto
  qed
qed

lemma scan_Some: "\<exists>r. foldl (keepBetter cand better) (Some b) xs = Some r"
  by (induction xs arbitrary: b) (auto simp: keepBetter_def)

lemma bestOf_split:
  assumes "bestOf cand better xs = Some r"
  shows "r \<in> set xs \<and> cand r \<and> (\<forall>y\<in>set xs. cand y \<longrightarrow> \<not> better y r)"
  using assms
proof (induction xs)
  case Nil
  then show ?case by (simp add: bestOf_def)
next
  case (Cons x xs)
  show ?case
  proof (cases "cand x")
    case True
    then have "foldl (keepBetter cand better) (Some x) xs = Some r"
      using Cons.prems by (simp add: bestOf_def keepBetter_def)
    from scan_keeps [OF this] True show ?thesis by auto
  next
    case False
    with Cons show ?thesis by (auto simp: bestOf_def keepBetter_def)
  qed
qed

lemma best_in: "bestOf cand better xs = Some r \<Longrightarrow> r \<in> set xs"
  using bestOf_split by blast

lemma best_cand: "bestOf cand better xs = Some r \<Longrightarrow> cand r"
  using bestOf_split by blast

lemma best_unbeaten: "bestOf cand better xs = Some r \<Longrightarrow> y \<in> set xs \<Longrightarrow> cand y \<Longrightarrow> \<not> better y r"
  using bestOf_split by blast

lemma best_None: "bestOf cand better xs = None \<longleftrightarrow> (\<forall>x\<in>set xs. \<not> cand x)"
proof (induction xs)
  case Nil
  then show ?case by (simp add: bestOf_def)
next
  case (Cons x xs)
  then show ?case
    using scan_Some [of x xs] by (cases "cand x") (auto simp: bestOf_def keepBetter_def)
qed

text \<open>One candidate leaves no choice.\<close>

lemma best_single:
  assumes "x \<in> set xs" and "cand x" and "\<And>y. y \<in> set xs \<Longrightarrow> cand y \<Longrightarrow> y = x"
  shows "bestOf cand better xs = Some x"
  using assms best_None [of xs] bestOf_split [of xs] by (cases "bestOf cand better xs") blast+

text \<open>Only candidates matter, and the order of the list matters among equals only.\<close>

lemma best_filter:
  assumes "\<And>x. x \<in> set xs \<Longrightarrow> cand x \<Longrightarrow> P x"
  shows "bestOf cand better (filter P xs) = bestOf cand better xs"
proof -
  have "foldl (keepBetter cand better) b (filter P xs) = foldl (keepBetter cand better) b xs" for b
    using assms by (induction xs arbitrary: b) (auto simp: keepBetter_def)
  then show ?thesis by (simp add: bestOf_def)
qed

lemma best_order:
  assumes "set xs = set ys" and "bestOf cand better xs = Some a" and "bestOf cand better ys = Some b"
  shows "equal_rank a b"
  using bestOf_split [OF assms(2)] bestOf_split [OF assms(3)] assms(1) by (auto simp: equal_rank_def)

end

end
