(* ===== verification/Rules.thy ===== *)
theory Rules
  imports Subjects Stamps Selection
begin

text \<open>
  Exact rules: the \<open>decisionRule\<close> record of decision_policy.go, its target test
  \<open>sameTarget\<close>, expiry, the preference \<open>prevails\<close>, the rule that decides a target
  (\<open>decidingRule\<close>), the merge of rules on one target (\<open>mergeRules\<close>), and the meta-rule
  tests of meta_rules.go. The preference order is an interpretation of \<open>preference\<close>.
\<close>

record decisionRule =
  r_subject :: subject
  r_action :: bytes
  r_resource :: bytes
  r_permit :: bool
  r_setBy :: subject
  r_setAt :: bytes
  r_why :: bytes
  r_expires :: bytes
  r_questionID :: bytes

definition ruleKey :: "decisionRule \<Rightarrow> bytes" where
  "ruleKey r = account (r_subject r) @ NUL # program (r_subject r) @ NUL # r_action r @ NUL # r_resource r"

definition sameTarget :: "identity \<Rightarrow> decisionRule \<Rightarrow> subject \<Rightarrow> bytes \<Rightarrow> bytes \<Rightarrow> programKeys \<Rightarrow> bool" where
  "sameTarget fs r s action resource key \<longleftrightarrow>
     account (r_subject r) = account s \<and> r_action r = action \<and> r_resource r = resource \<and>
     sameNormalizedKeyed fs (program (r_subject r)) (program s) (key (program (r_subject r))) (key (program s))"

lemma sameTarget_alt:
  "sameTarget fs r s action resource key \<longleftrightarrow>
     sameProgram fs key (r_subject r) s \<and> r_action r = action \<and> r_resource r = resource"
  by (auto simp: sameTarget_def sameProgram_def)

lemma sameTarget_self [simp]:
  "byteEqualNames fs \<Longrightarrow> sameTarget fs r (r_subject r) (r_action r) (r_resource r) key"
  by (simp add: sameTarget_alt)

definition expired :: "decisionRule \<Rightarrow> instant \<Rightarrow> bool" where
  "expired r now \<longleftrightarrow> stampExpired (r_expires r) now"

lemma expired_later: "expired r now \<Longrightarrow> now \<le> later \<Longrightarrow> expired r later"
  by (auto simp: expired_def stampExpired_def split: option.splits)

lemma never_expires: "r_expires r = [] \<Longrightarrow> \<not> expired r now"
  by (simp add: expired_def stampExpired_def)

subsection \<open>The rule that decides\<close>

definition prevails :: "decisionRule \<Rightarrow> decisionRule \<Rightarrow> bool" where
  "prevails a b \<longleftrightarrow> (if r_permit a \<noteq> r_permit b then \<not> r_permit a else r_setAt b < r_setAt a)"

text \<open>The order of \<open>decidingRule\<close>: a rule in force before an expired one, then \<open>prevails\<close>.\<close>

definition decidesOver :: "instant \<Rightarrow> decisionRule \<Rightarrow> decisionRule \<Rightarrow> bool" where
  "decidesOver now r best \<longleftrightarrow>
     (let rLive = \<not> expired r now; bestLive = \<not> expired best now in
      if rLive \<noteq> bestLive then rLive else prevails r best)"

definition decidingRule :: "identity \<Rightarrow> decisionRule list \<Rightarrow> subject \<Rightarrow> bytes \<Rightarrow> bytes \<Rightarrow> instant \<Rightarrow> programKeys \<Rightarrow>
    decisionRule option" where
  "decidingRule fs rules s action resource now key =
     bestOf (\<lambda>r. sameTarget fs r s action resource key) (decidesOver now) rules"

interpretation stronger: preference cand prevails for cand :: "decisionRule \<Rightarrow> bool"
  by unfold_locales (auto simp: prevails_def split: if_splits)

interpretation deciding: preference cand "decidesOver now" for cand :: "decisionRule \<Rightarrow> bool" and now :: instant
  by unfold_locales
     (auto simp: decidesOver_def Let_def stronger.better_irrefl stronger.better_asym split: if_splits
       intro: stronger.better_trans dest: stronger.worse_trans)

lemma decidingRule_spec:
  assumes "decidingRule fs rules s action resource now key = Some r"
  shows "r \<in> set rules" and "sameTarget fs r s action resource key"
    and "\<And>y. y \<in> set rules \<Longrightarrow> sameTarget fs y s action resource key \<Longrightarrow> \<not> decidesOver now y r"
  using deciding.bestOf_split [OF assms [unfolded decidingRule_def]] by auto

lemma decidingRule_None:
  "decidingRule fs rules s action resource now key = None \<longleftrightarrow>
     (\<forall>r\<in>set rules. \<not> sameTarget fs r s action resource key)"
  by (simp add: decidingRule_def deciding.best_None)

lemma decidingRule_live:
  assumes "decidingRule fs rules s action resource now key = Some r"
    and "y \<in> set rules" and "sameTarget fs y s action resource key" and "\<not> expired y now"
  shows "\<not> expired r now \<and> (\<not> r_permit y \<longrightarrow> \<not> r_permit r)"
  using decidingRule_spec(3) [OF assms(1-3)] assms(4)
  by (auto simp: decidesOver_def prevails_def Let_def split: if_splits)

text \<open>Whether a target has a live permit, and a live deny, as the rules stand.\<close>

definition livePermit :: "identity \<Rightarrow> decisionRule list \<Rightarrow> subject \<Rightarrow> bytes \<Rightarrow> bytes \<Rightarrow> instant \<Rightarrow> programKeys \<Rightarrow> bool" where
  "livePermit fs rules s action resource now key \<longleftrightarrow>
     (\<exists>r\<in>set rules. sameTarget fs r s action resource key \<and> \<not> expired r now \<and> r_permit r)"

definition liveDeny :: "identity \<Rightarrow> decisionRule list \<Rightarrow> subject \<Rightarrow> bytes \<Rightarrow> bytes \<Rightarrow> instant \<Rightarrow> programKeys \<Rightarrow> bool" where
  "liveDeny fs rules s action resource now key \<longleftrightarrow>
     (\<exists>r\<in>set rules. sameTarget fs r s action resource key \<and> \<not> expired r now \<and> \<not> r_permit r)"

text \<open>What \<open>legacyOperationExplained\<close> reads off the deciding rule.\<close>

lemma decidingRule_denies:
  "(\<exists>r. decidingRule fs rules s action resource now key = Some r \<and> \<not> expired r now \<and> \<not> r_permit r) \<longleftrightarrow>
   liveDeny fs rules s action resource now key"
proof
  assume "liveDeny fs rules s action resource now key"
  then obtain y where y: "y \<in> set rules" "sameTarget fs y s action resource key" "\<not> expired y now" "\<not> r_permit y"
    by (auto simp: liveDeny_def)
  then obtain r where r: "decidingRule fs rules s action resource now key = Some r"
    using decidingRule_None [of fs rules s action resource now key]
    by (cases "decidingRule fs rules s action resource now key") auto
  with decidingRule_live [OF r y(1-3)] y(4)
  show "\<exists>r. decidingRule fs rules s action resource now key = Some r \<and> \<not> expired r now \<and> \<not> r_permit r" by auto
qed (auto simp: liveDeny_def dest: decidingRule_spec)

lemma decidingRule_permits:
  "(\<exists>r. decidingRule fs rules s action resource now key = Some r \<and> \<not> expired r now \<and> r_permit r) \<longleftrightarrow>
   livePermit fs rules s action resource now key \<and> \<not> liveDeny fs rules s action resource now key"
proof
  assume "\<exists>r. decidingRule fs rules s action resource now key = Some r \<and> \<not> expired r now \<and> r_permit r"
  then show "livePermit fs rules s action resource now key \<and> \<not> liveDeny fs rules s action resource now key"
    using decidingRule_denies [of fs rules s action resource now key]
    by (auto simp: livePermit_def dest: decidingRule_spec)
next
  assume l: "livePermit fs rules s action resource now key \<and> \<not> liveDeny fs rules s action resource now key"
  then obtain y where y: "y \<in> set rules" "sameTarget fs y s action resource key" "\<not> expired y now"
    by (auto simp: livePermit_def)
  then obtain r where r: "decidingRule fs rules s action resource now key = Some r"
    using decidingRule_None [of fs rules s action resource now key]
    by (cases "decidingRule fs rules s action resource now key") auto
  with decidingRule_live [OF r y] decidingRule_denies [of fs rules s action resource now key] l
  show "\<exists>r. decidingRule fs rules s action resource now key = Some r \<and> \<not> expired r now \<and> r_permit r" by auto
qed

subsection \<open>One rule per target\<close>

fun mergeInto :: "identity \<Rightarrow> programKeys \<Rightarrow> decisionRule list \<Rightarrow> decisionRule \<Rightarrow> decisionRule list" where
  "mergeInto fs key [] r = [r]"
| "mergeInto fs key (o1 # out) r =
     (if sameTarget fs o1 (r_subject r) (r_action r) (r_resource r) key
      then (if prevails r o1 then r else o1) # out
      else o1 # mergeInto fs key out r)"

definition mergeRules :: "identity \<Rightarrow> decisionRule list \<Rightarrow> decisionRule list" where
  "mergeRules fs rules = sort_key ruleKey (foldl (mergeInto fs (keyOnce fs)) [] rules)"

text \<open>File identity makes the programs of one pass an equivalence.\<close>

definition programClasses :: "identity \<Rightarrow> programKeys \<Rightarrow> bool" where
  "programClasses fs key \<longleftrightarrow> equivp (\<lambda>p q. sameNormalizedKeyed fs p q (key p) (key q))"

lemma plain_programClasses: "programClasses plainIdentity (keyOnce plainIdentity)"
  by (auto simp: programClasses_def keyOnce_def plainIdentity_def intro: equivpI reflpI sympI transpI)

lemma sameProgram_equiv:
  assumes "programClasses fs key"
  shows "equivp (sameProgram fs key)"
proof (rule equivpI)
  from assms have e: "reflp (\<lambda>p q. sameNormalizedKeyed fs p q (key p) (key q))"
    "symp (\<lambda>p q. sameNormalizedKeyed fs p q (key p) (key q))"
    "transp (\<lambda>p q. sameNormalizedKeyed fs p q (key p) (key q))"
    unfolding programClasses_def by (auto elim: equivpE)
  show "reflp (sameProgram fs key)" using reflpD [OF e(1)] by (auto simp: sameProgram_def intro: reflpI)
  show "symp (sameProgram fs key)" using sympD [OF e(2)] by (auto simp: sameProgram_def intro: sympI)
  show "transp (sameProgram fs key)"
    by (rule transpI) (auto simp: sameProgram_def intro: transpD [OF e(3)])
qed

lemma sameTarget_swap:
  assumes "programClasses fs key" and "sameTarget fs a (r_subject r) (r_action r) (r_resource r) key"
  shows "sameTarget fs a s action resource key \<longleftrightarrow> sameTarget fs r s action resource key"
proof -
  note e = sameProgram_equiv [OF assms(1)]
  from assms(2) have "sameProgram fs key (r_subject a) (r_subject r)" by (simp add: sameTarget_alt)
  then have "sameProgram fs key (r_subject a) s \<longleftrightarrow> sameProgram fs key (r_subject r) s"
    using equivp_symp [OF e] equivp_transp [OF e] by blast
  with assms(2) show ?thesis by (auto simp: sameTarget_alt)
qed

text \<open>The rule a merged list holds for a target, and the same on the unmerged list.\<close>

lemma find_mergeInto:
  assumes "programClasses fs key"
  shows "find (\<lambda>o1. sameTarget fs o1 s action resource key) (mergeInto fs key out r) =
    (if sameTarget fs r s action resource key
     then (case find (\<lambda>o1. sameTarget fs o1 s action resource key) out of
             None \<Rightarrow> Some r | Some o1 \<Rightarrow> if prevails r o1 then Some r else Some o1)
     else find (\<lambda>o1. sameTarget fs o1 s action resource key) out)"
proof (induction out)
  case (Cons o1 out)
  note e = sameProgram_equiv [OF assms]
  show ?case
  proof (cases "sameTarget fs o1 (r_subject r) (r_action r) (r_resource r) key")
    case True
    then show ?thesis by (auto simp: sameTarget_swap [OF assms True])
  next
    case False
    have "sameProgram fs key (r_subject o1) (r_subject r)"
      if "sameProgram fs key (r_subject o1) s" "sameProgram fs key (r_subject r) s"
      by (rule equivp_transp [OF e that(1) equivp_symp [OF e that(2)]])
    with False have "\<not> (sameTarget fs o1 s action resource key \<and> sameTarget fs r s action resource key)"
      by (auto simp: sameTarget_alt)
    with False Cons show ?thesis by auto
  qed
qed simp

lemma find_merged:
  assumes "programClasses fs key"
  shows "find (\<lambda>o1. sameTarget fs o1 s action resource key) (foldl (mergeInto fs key) [] rules) =
    bestOf (\<lambda>r. sameTarget fs r s action resource key) prevails rules"
  by (induction rules rule: rev_induct) (auto simp: find_mergeInto [OF assms] bestOf_def keepBetter_def)

lemma mergeInto_set: "set (mergeInto fs key out r) \<subseteq> insert r (set out)"
  by (induction out) auto

lemma merged_subset: "set (foldl (mergeInto fs key) [] rules) \<subseteq> set rules"
  by (induction rules rule: rev_induct) (use mergeInto_set in fastforce)+

lemma mergeRules_subset: "set (mergeRules fs rules) \<subseteq> set rules"
  using merged_subset [of fs "keyOnce fs" rules] by (simp add: mergeRules_def)

lemma mergeInto_separate:
  assumes "programClasses fs key"
  shows "sorted_wrt (\<lambda>a b. \<not> sameTarget fs a (r_subject b) (r_action b) (r_resource b) key) out \<Longrightarrow>
    sorted_wrt (\<lambda>a b. \<not> sameTarget fs a (r_subject b) (r_action b) (r_resource b) key) (mergeInto fs key out r)"
proof (induction out)
  case (Cons o1 out)
  show ?case
  proof (cases "sameTarget fs o1 (r_subject r) (r_action r) (r_resource r) key")
    case True
    from Cons.prems sameTarget_swap [OF assms True] True show ?thesis by auto
  next
    case False
    with Cons mergeInto_set [of fs key out r] show ?thesis by auto
  qed
qed simp

lemma merged_separate:
  assumes "programClasses fs key"
  shows "sorted_wrt (\<lambda>a b. \<not> sameTarget fs a (r_subject b) (r_action b) (r_resource b) key)
    (foldl (mergeInto fs key) [] rules)"
  by (induction rules rule: rev_induct) (simp_all add: mergeInto_separate [OF assms])

lemma merged_one:
  assumes k: "programClasses fs key"
    and "a \<in> set (foldl (mergeInto fs key) [] rules)" and "sameTarget fs a s action resource key"
    and "b \<in> set (foldl (mergeInto fs key) [] rules)" and "sameTarget fs b s action resource key"
  shows "a = b"
proof (rule ccontr)
  assume "a \<noteq> b"
  note e = sameProgram_equiv [OF k]
  have same: "sameTarget fs x (r_subject y) (r_action y) (r_resource y) key"
    if "sameTarget fs x s action resource key" "sameTarget fs y s action resource key" for x y
    using that equivp_transp [OF e, of "r_subject x" s "r_subject y"] equivp_symp [OF e, of "r_subject y" s]
    by (simp add: sameTarget_alt)
  have "x = y \<or> sameTarget fs x (r_subject y) (r_action y) (r_resource y) key = False \<or>
      sameTarget fs y (r_subject x) (r_action x) (r_resource x) key = False"
    if "sorted_wrt (\<lambda>a b. \<not> sameTarget fs a (r_subject b) (r_action b) (r_resource b) key) out"
      "x \<in> set out" "y \<in> set out" for x y out
    using that by (induction out) auto
  from this [OF merged_separate [OF k] assms(2,4)] same [OF assms(3,5)] same [OF assms(5,3)] \<open>a \<noteq> b\<close>
  show False by simp
qed

text \<open>
  Merging keeps, for every target, the rule \<open>prevails\<close> ranks first, and the merged list
  decides that target by that rule, in force or not.
\<close>

lemma mergeRules_decides:
  assumes k: "programClasses fs (keyOnce fs)"
    and r: "r \<in> set (mergeRules fs rules)" "sameTarget fs r s action resource (keyOnce fs)"
  shows "decidingRule fs (mergeRules fs rules) s action resource now (keyOnce fs) = Some r"
  unfolding decidingRule_def
proof (rule deciding.best_single)
  show "r \<in> set (mergeRules fs rules)" "sameTarget fs r s action resource (keyOnce fs)" by (fact r)+
  fix y
  assume "y \<in> set (mergeRules fs rules)" "sameTarget fs y s action resource (keyOnce fs)"
  then show "y = r" using merged_one [OF k] r by (simp add: mergeRules_def)
qed

lemma mergeRules_best:
  assumes k: "programClasses fs (keyOnce fs)"
  shows "decidingRule fs (mergeRules fs rules) s action resource now (keyOnce fs) =
    bestOf (\<lambda>r. sameTarget fs r s action resource (keyOnce fs)) prevails rules"
proof (cases "bestOf (\<lambda>r. sameTarget fs r s action resource (keyOnce fs)) prevails rules")
  case None
  with find_merged [OF k, of s action resource rules]
  have "find (\<lambda>r. sameTarget fs r s action resource (keyOnce fs)) (foldl (mergeInto fs (keyOnce fs)) [] rules) = None"
    by (simp only:)
  then have "\<forall>r\<in>set (mergeRules fs rules). \<not> sameTarget fs r s action resource (keyOnce fs)"
    by (simp add: mergeRules_def find_None_iff)
  with None show ?thesis by (simp add: decidingRule_None)
next
  case (Some r)
  with find_merged [OF k, of s action resource rules]
  have "find (\<lambda>r. sameTarget fs r s action resource (keyOnce fs)) (foldl (mergeInto fs (keyOnce fs)) [] rules) = Some r"
    by (simp only:)
  then have "r \<in> set (mergeRules fs rules) \<and> sameTarget fs r s action resource (keyOnce fs)"
    by (auto simp: mergeRules_def find_Some_iff)
  with Some show ?thesis by (simp add: mergeRules_decides [OF k])
qed

lemma mergeRules_permit_sources:
  assumes k: "programClasses fs (keyOnce fs)"
    and r: "r \<in> set (mergeRules fs rules)" "sameTarget fs r s action resource (keyOnce fs)" "r_permit r"
    and y: "y \<in> set rules" "sameTarget fs y s action resource (keyOnce fs)"
  shows "r_permit y"
proof -
  from mergeRules_decides [OF k r(1,2)] mergeRules_best [OF k, of rules s action resource]
  have "bestOf (\<lambda>r. sameTarget fs r s action resource (keyOnce fs)) prevails rules = Some r" by (simp only:)
  from stronger.best_unbeaten [OF this y] r(3) show ?thesis by (auto simp: prevails_def split: if_splits)
qed

lemma mergeRules_never_grants:
  assumes k: "programClasses fs (keyOnce fs)"
    and "livePermit fs (mergeRules fs rules) s action resource now (keyOnce fs)"
  shows "livePermit fs rules s action resource now (keyOnce fs)"
    and "\<forall>r\<in>set rules. sameTarget fs r s action resource (keyOnce fs) \<longrightarrow> r_permit r"
proof -
  from assms(2) obtain r where r: "r \<in> set (mergeRules fs rules)" "sameTarget fs r s action resource (keyOnce fs)"
    "\<not> expired r now" "r_permit r" by (auto simp: livePermit_def)
  then show "\<forall>r\<in>set rules. sameTarget fs r s action resource (keyOnce fs) \<longrightarrow> r_permit r"
    using mergeRules_permit_sources [OF k r(1,2,4)] by blast
  from r mergeRules_subset [of fs rules] show "livePermit fs rules s action resource now (keyOnce fs)"
    unfolding livePermit_def by blast
qed

end
