(* ===== verification/Decision_File.thy ===== *)
theory Decision_File
  imports Rules Json_Text
begin

text \<open>
  The decision state: the records of decision_policy.go, descriptions.go, selector_policy.go
  and account_defaults.go that one state file holds, their JSON form with the struct tags of
  the code, and that a file reads back as it was written (\<open>unmarshalFile_marshalFile\<close>).
  \<open>Actions\<close> and \<open>Rules\<close> carry no \<open>omitempty\<close>, so their JSON shows whether the slice is nil:
  they are options. The JSON of every other slice omits nil and empty alike.
\<close>

subsection \<open>The stored records\<close>

record registeredAction =
  a_action :: bytes
  a_by :: subject
  a_at :: bytes

record publishedDescription =
  p_description :: ActionDescription
  p_by :: subject
  p_at :: bytes

record selectorRule =
  l_subject :: subject
  l_selection :: PermissionSelection
  l_permit :: bool
  l_setBy :: subject
  l_setAt :: bytes
  l_why :: bytes
  l_expires :: bytes
  l_originID :: bytes
  l_questionID :: bytes

record storedBundleOrigin =
  o_id :: bytes
  o_expansion :: BundleExpansion

record defaultSwitch =
  w_name :: bytes
  w_on :: bool
  w_setBy :: subject
  w_setAt :: bytes

record decisionFile =
  f_profile :: bytes
  f_actions :: "registeredAction slice"
  f_rules :: "decisionRule slice"
  f_appliedOperatorAnswers :: "bytes list"
  f_descriptions :: "publishedDescription list"
  f_selectorRules :: "selectorRule list"
  f_bundleOrigins :: "storedBundleOrigin list"
  f_appliedTypedAnswers :: "bytes list"
  f_defaultSwitches :: "defaultSwitch list"

abbreviation actions :: "decisionFile \<Rightarrow> registeredAction list" where "actions f \<equiv> elems (f_actions f)"
abbreviation rules :: "decisionFile \<Rightarrow> decisionRule list" where "rules f \<equiv> elems (f_rules f)"

text \<open>\<open>f.Rules = rs\<close> for a slice made from \<open>f.Rules\<close>.\<close>

definition setRules :: "decisionRule list \<Rightarrow> decisionFile \<Rightarrow> decisionFile" where
  "setRules rs f = f\<lparr>f_rules := reslice (f_rules f) rs\<rparr>"

definition setActions :: "registeredAction list \<Rightarrow> decisionFile \<Rightarrow> decisionFile" where
  "setActions as f = f\<lparr>f_actions := reslice (f_actions f) as\<rparr>"

lemma setRules_fields [simp]:
  "rules (setRules rs f) = rs" "f_profile (setRules rs f) = f_profile f"
  "f_actions (setRules rs f) = f_actions f"
  "f_appliedOperatorAnswers (setRules rs f) = f_appliedOperatorAnswers f"
  "f_descriptions (setRules rs f) = f_descriptions f"
  "f_selectorRules (setRules rs f) = f_selectorRules f"
  "f_bundleOrigins (setRules rs f) = f_bundleOrigins f"
  "f_appliedTypedAnswers (setRules rs f) = f_appliedTypedAnswers f"
  "f_defaultSwitches (setRules rs f) = f_defaultSwitches f"
  by (simp_all add: setRules_def)

lemma setActions_fields [simp]:
  "actions (setActions as f) = as" "f_profile (setActions as f) = f_profile f"
  "f_rules (setActions as f) = f_rules f"
  "f_appliedOperatorAnswers (setActions as f) = f_appliedOperatorAnswers f"
  "f_descriptions (setActions as f) = f_descriptions f"
  "f_selectorRules (setActions as f) = f_selectorRules f"
  "f_bundleOrigins (setActions as f) = f_bundleOrigins f"
  "f_appliedTypedAnswers (setActions as f) = f_appliedTypedAnswers f"
  "f_defaultSwitches (setActions as f) = f_defaultSwitches f"
  by (simp_all add: setActions_def)

subsection \<open>Fields of a JSON object\<close>

definition omitStr :: "bytes \<Rightarrow> bytes \<Rightarrow> (bytes \<times> json) list" where
  "omitStr k s = (if s = [] then [] else [(k, JStr s)])"

definition omitList :: "bytes \<Rightarrow> ('a \<Rightarrow> json) \<Rightarrow> 'a list \<Rightarrow> (bytes \<times> json) list" where
  "omitList k enc xs = (if xs = [] then [] else [(k, JArr (map enc xs))])"

definition sliceJson :: "('a \<Rightarrow> json) \<Rightarrow> 'a slice \<Rightarrow> json" where
  "sliceJson enc s = (case s of None \<Rightarrow> JNull | Some xs \<Rightarrow> JArr (map enc xs))"

definition listJson :: "('a \<Rightarrow> json) \<Rightarrow> 'a list \<Rightarrow> json" where
  "listJson enc xs = sliceJson enc (nilIfEmpty xs)"

definition targetJson :: "bytes option \<Rightarrow> json" where
  "targetJson t = (case t of None \<Rightarrow> JNull | Some b \<Rightarrow> JStr (base64 b))"

fun strOf :: "json option \<Rightarrow> bytes option" where
  "strOf (Some (JStr s)) = Some s"
| "strOf None = Some []"
| "strOf (Some JNull) = Some []"
| "strOf _ = None"

fun boolOf :: "json option \<Rightarrow> bool option" where
  "boolOf (Some (JBool b)) = Some b"
| "boolOf None = Some False"
| "boolOf (Some JNull) = Some False"
| "boolOf _ = None"

fun targetOf :: "json option \<Rightarrow> bytes option option" where
  "targetOf (Some (JStr s)) = map_option Some (unbase64 s)"
| "targetOf None = Some None"
| "targetOf (Some JNull) = Some None"
| "targetOf _ = None"

fun sliceOf :: "(json option \<Rightarrow> 'a option) \<Rightarrow> json option \<Rightarrow> 'a slice option" where
  "sliceOf dec (Some (JArr vs)) = map_option Some (those (map (\<lambda>v. dec (Some v)) vs))"
| "sliceOf dec None = Some None"
| "sliceOf dec (Some JNull) = Some None"
| "sliceOf dec _ = None"

definition listOf :: "(json option \<Rightarrow> 'a option) \<Rightarrow> json option \<Rightarrow> 'a list option" where
  "listOf dec v = map_option elems (sliceOf dec v)"

text \<open>The fields of an object; an absent or null object has none.\<close>

fun fieldsOf :: "json option \<Rightarrow> (bytes \<times> json) list option" where
  "fieldsOf (Some (JObj ms)) = Some ms"
| "fieldsOf None = Some []"
| "fieldsOf (Some JNull) = Some []"
| "fieldsOf _ = None"

lemma map_of_omitStr [simp]:
  "map_of (omitStr k s @ xs) k' = (if k = k' \<and> s \<noteq> [] then Some (JStr s) else map_of xs k')"
  "map_of (omitStr k s) k' = (if k = k' \<and> s \<noteq> [] then Some (JStr s) else None)"
  by (simp_all add: omitStr_def)

lemma map_of_omitList [simp]:
  "map_of (omitList k enc s @ xs) k' = (if k = k' \<and> s \<noteq> [] then Some (JArr (map enc s)) else map_of xs k')"
  "map_of (omitList k enc s) k' = (if k = k' \<and> s \<noteq> [] then Some (JArr (map enc s)) else None)"
  by (simp_all add: omitList_def)

lemma those_map: "(\<And>x. x \<in> set xs \<Longrightarrow> dec (Some (enc x)) = Some x) \<Longrightarrow>
    those (map ((\<lambda>v. dec (Some v)) \<circ> enc) xs) = Some xs"
  by (induction xs) auto

lemma sliceOf_sliceJson:
  "(\<And>x. dec (Some (enc x)) = Some x) \<Longrightarrow> sliceOf dec (Some (sliceJson enc s)) = Some s"
  by (cases s) (simp_all add: sliceJson_def those_map)

lemma listOf_listJson:
  "(\<And>x. dec (Some (enc x)) = Some x) \<Longrightarrow> listOf dec (Some (listJson enc xs)) = Some xs"
  by (simp add: listOf_def listJson_def sliceOf_sliceJson)

lemma listOf_JArr:
  "(\<And>x. dec (Some (enc x)) = Some x) \<Longrightarrow> listOf dec (Some (JArr (map enc xs))) = Some xs"
  by (simp add: listOf_def those_map)

lemma listOf_None [simp]: "listOf dec None = Some []"
  by (simp add: listOf_def)

lemma targetOf_targetJson [simp]: "targetOf (Some (targetJson t)) = Some t"
  by (cases t) (simp_all add: targetJson_def unbase64_base64)

subsection \<open>The JSON of each record\<close>

definition kindOf :: "json option \<Rightarrow> ResourceSelectorKind option" where
  "kindOf v = (case v of Some (JStr w) \<Rightarrow> ParseResourceSelectorKind w | _ \<Rightarrow> None)"

lemma kindOf_WireName [simp]: "kindOf (Some (JStr (WireName_ResourceSelectorKind k))) = Some k"
  by (simp add: kindOf_def)

definition subjectJson :: "subject \<Rightarrow> json" where
  "subjectJson x = JObj ([(''Account'', JStr (account x)),
      (''Program'', JStr (program x))])"

definition subjectOf :: "json option \<Rightarrow> subject option" where
  "subjectOf j = do {
     ms \<leftarrow> fieldsOf j;
     v0 \<leftarrow> strOf (map_of ms ''Account'');
     v1 \<leftarrow> strOf (map_of ms ''Program'');
     Some \<lparr>account = v0, program = v1\<rparr>
   }"

lemma subjectOf_subjectJson [simp]: "subjectOf (Some (subjectJson x)) = Some x"
  by (simp add: subjectOf_def subjectJson_def)

definition keyJson :: "PermissionKey \<Rightarrow> json" where
  "keyJson x = JObj ([(''Action'', JStr (k_action x)),
      (''ResourceProfile'', JStr (k_resourceProfile x))])"

definition keyOf :: "json option \<Rightarrow> PermissionKey option" where
  "keyOf j = do {
     ms \<leftarrow> fieldsOf j;
     v0 \<leftarrow> strOf (map_of ms ''Action'');
     v1 \<leftarrow> strOf (map_of ms ''ResourceProfile'');
     Some \<lparr>k_action = v0, k_resourceProfile = v1\<rparr>
   }"

lemma keyOf_keyJson [simp]: "keyOf (Some (keyJson x)) = Some x"
  by (simp add: keyOf_def keyJson_def)

definition selectorJson :: "ResourceSelector \<Rightarrow> json" where
  "selectorJson x = JObj ([(''Kind'', JStr (WireName_ResourceSelectorKind (s_kind x))),
      (''Target'', targetJson (s_target x))])"

definition selectorOf :: "json option \<Rightarrow> ResourceSelector option" where
  "selectorOf j = do {
     ms \<leftarrow> fieldsOf j;
     v0 \<leftarrow> kindOf (map_of ms ''Kind'');
     v1 \<leftarrow> targetOf (map_of ms ''Target'');
     Some \<lparr>s_kind = v0, s_target = v1\<rparr>
   }"

lemma selectorOf_selectorJson [simp]: "selectorOf (Some (selectorJson x)) = Some x"
  by (simp add: selectorOf_def selectorJson_def)

definition selectionJson :: "PermissionSelection \<Rightarrow> json" where
  "selectionJson x = JObj ([(''Permission'', keyJson (ps_permission x)),
      (''Selector'', selectorJson (ps_selector x))])"

definition selectionOf :: "json option \<Rightarrow> PermissionSelection option" where
  "selectionOf j = do {
     ms \<leftarrow> fieldsOf j;
     v0 \<leftarrow> keyOf (map_of ms ''Permission'');
     v1 \<leftarrow> selectorOf (map_of ms ''Selector'');
     Some \<lparr>ps_permission = v0, ps_selector = v1\<rparr>
   }"

lemma selectionOf_selectionJson [simp]: "selectionOf (Some (selectionJson x)) = Some x"
  by (simp add: selectionOf_def selectionJson_def)

definition expansionJson :: "BundleExpansion \<Rightarrow> json" where
  "expansionJson x = JObj ([(''BundleRef'', JStr (be_bundleRef x)),
      (''DefinitionDigest'', JStr (be_definitionDigest x)),
      (''Selector'', selectorJson (be_selector x)),
      (''Selections'', listJson selectionJson (be_selections x))])"

definition expansionOf :: "json option \<Rightarrow> BundleExpansion option" where
  "expansionOf j = do {
     ms \<leftarrow> fieldsOf j;
     v0 \<leftarrow> strOf (map_of ms ''BundleRef'');
     v1 \<leftarrow> strOf (map_of ms ''DefinitionDigest'');
     v2 \<leftarrow> selectorOf (map_of ms ''Selector'');
     v3 \<leftarrow> listOf selectionOf (map_of ms ''Selections'');
     Some \<lparr>be_bundleRef = v0, be_definitionDigest = v1, be_selector = v2, be_selections = v3\<rparr>
   }"

lemma expansionOf_expansionJson [simp]: "expansionOf (Some (expansionJson x)) = Some x"
  by (simp add: expansionOf_def expansionJson_def listOf_listJson sliceOf_sliceJson listOf_JArr)

definition descriptionJson :: "ActionDescription \<Rightarrow> json" where
  "descriptionJson x = JObj ([(''Action'', JStr (ad_action x)),
      (''FeatureApp'', subjectJson (ad_featureApp x)),
      (''AppLabel'', JStr (ad_appLabel x)),
      (''Description'', JStr (ad_description x)),
      (''DeclaredRisk'', JStr (ad_declaredRisk x))])"

definition descriptionOf :: "json option \<Rightarrow> ActionDescription option" where
  "descriptionOf j = do {
     ms \<leftarrow> fieldsOf j;
     v0 \<leftarrow> strOf (map_of ms ''Action'');
     v1 \<leftarrow> subjectOf (map_of ms ''FeatureApp'');
     v2 \<leftarrow> strOf (map_of ms ''AppLabel'');
     v3 \<leftarrow> strOf (map_of ms ''Description'');
     v4 \<leftarrow> strOf (map_of ms ''DeclaredRisk'');
     Some \<lparr>ad_action = v0, ad_featureApp = v1, ad_appLabel = v2, ad_description = v3, ad_declaredRisk = v4\<rparr>
   }"

lemma descriptionOf_descriptionJson [simp]: "descriptionOf (Some (descriptionJson x)) = Some x"
  by (simp add: descriptionOf_def descriptionJson_def)

definition actionJson :: "registeredAction \<Rightarrow> json" where
  "actionJson x = JObj ([(''action'', JStr (a_action x)),
      (''by'', subjectJson (a_by x)),
      (''at'', JStr (a_at x))])"

definition actionOf :: "json option \<Rightarrow> registeredAction option" where
  "actionOf j = do {
     ms \<leftarrow> fieldsOf j;
     v0 \<leftarrow> strOf (map_of ms ''action'');
     v1 \<leftarrow> subjectOf (map_of ms ''by'');
     v2 \<leftarrow> strOf (map_of ms ''at'');
     Some \<lparr>a_action = v0, a_by = v1, a_at = v2\<rparr>
   }"

lemma actionOf_actionJson [simp]: "actionOf (Some (actionJson x)) = Some x"
  by (simp add: actionOf_def actionJson_def)

definition publishedJson :: "publishedDescription \<Rightarrow> json" where
  "publishedJson x = JObj ([(''description'', descriptionJson (p_description x)),
      (''by'', subjectJson (p_by x)),
      (''at'', JStr (p_at x))])"

definition publishedOf :: "json option \<Rightarrow> publishedDescription option" where
  "publishedOf j = do {
     ms \<leftarrow> fieldsOf j;
     v0 \<leftarrow> descriptionOf (map_of ms ''description'');
     v1 \<leftarrow> subjectOf (map_of ms ''by'');
     v2 \<leftarrow> strOf (map_of ms ''at'');
     Some \<lparr>p_description = v0, p_by = v1, p_at = v2\<rparr>
   }"

lemma publishedOf_publishedJson [simp]: "publishedOf (Some (publishedJson x)) = Some x"
  by (simp add: publishedOf_def publishedJson_def)

definition ruleJson :: "decisionRule \<Rightarrow> json" where
  "ruleJson x = JObj ([(''subject'', subjectJson (r_subject x)),
      (''action'', JStr (r_action x)),
      (''resource'', JStr (r_resource x)),
      (''permit'', JBool (r_permit x)),
      (''set_by'', subjectJson (r_setBy x)),
      (''set_at'', JStr (r_setAt x))] @
     omitStr ''why'' (r_why x) @
     omitStr ''expires'' (r_expires x) @
     omitStr ''answer_question_id'' (r_questionID x))"

definition ruleOf :: "json option \<Rightarrow> decisionRule option" where
  "ruleOf j = do {
     ms \<leftarrow> fieldsOf j;
     v0 \<leftarrow> subjectOf (map_of ms ''subject'');
     v1 \<leftarrow> strOf (map_of ms ''action'');
     v2 \<leftarrow> strOf (map_of ms ''resource'');
     v3 \<leftarrow> boolOf (map_of ms ''permit'');
     v4 \<leftarrow> subjectOf (map_of ms ''set_by'');
     v5 \<leftarrow> strOf (map_of ms ''set_at'');
     v6 \<leftarrow> strOf (map_of ms ''why'');
     v7 \<leftarrow> strOf (map_of ms ''expires'');
     v8 \<leftarrow> strOf (map_of ms ''answer_question_id'');
     Some \<lparr>r_subject = v0, r_action = v1, r_resource = v2, r_permit = v3, r_setBy = v4, r_setAt = v5, r_why = v6, r_expires = v7, r_questionID = v8\<rparr>
   }"

lemma ruleOf_ruleJson [simp]: "ruleOf (Some (ruleJson x)) = Some x"
  by (simp add: ruleOf_def ruleJson_def del: map_of_append)

definition selectorRuleJson :: "selectorRule \<Rightarrow> json" where
  "selectorRuleJson x = JObj ([(''subject'', subjectJson (l_subject x)),
      (''selection'', selectionJson (l_selection x)),
      (''permit'', JBool (l_permit x)),
      (''set_by'', subjectJson (l_setBy x)),
      (''set_at'', JStr (l_setAt x))] @
     omitStr ''why'' (l_why x) @
     omitStr ''expires'' (l_expires x) @
     omitStr ''origin_id'' (l_originID x) @
     omitStr ''answer_question_id'' (l_questionID x))"

definition selectorRuleOf :: "json option \<Rightarrow> selectorRule option" where
  "selectorRuleOf j = do {
     ms \<leftarrow> fieldsOf j;
     v0 \<leftarrow> subjectOf (map_of ms ''subject'');
     v1 \<leftarrow> selectionOf (map_of ms ''selection'');
     v2 \<leftarrow> boolOf (map_of ms ''permit'');
     v3 \<leftarrow> subjectOf (map_of ms ''set_by'');
     v4 \<leftarrow> strOf (map_of ms ''set_at'');
     v5 \<leftarrow> strOf (map_of ms ''why'');
     v6 \<leftarrow> strOf (map_of ms ''expires'');
     v7 \<leftarrow> strOf (map_of ms ''origin_id'');
     v8 \<leftarrow> strOf (map_of ms ''answer_question_id'');
     Some \<lparr>l_subject = v0, l_selection = v1, l_permit = v2, l_setBy = v3, l_setAt = v4, l_why = v5, l_expires = v6, l_originID = v7, l_questionID = v8\<rparr>
   }"

lemma selectorRuleOf_selectorRuleJson [simp]: "selectorRuleOf (Some (selectorRuleJson x)) = Some x"
  by (simp add: selectorRuleOf_def selectorRuleJson_def del: map_of_append)

definition originJson :: "storedBundleOrigin \<Rightarrow> json" where
  "originJson x = JObj ([(''id'', JStr (o_id x)),
      (''expansion'', expansionJson (o_expansion x))])"

definition originOf :: "json option \<Rightarrow> storedBundleOrigin option" where
  "originOf j = do {
     ms \<leftarrow> fieldsOf j;
     v0 \<leftarrow> strOf (map_of ms ''id'');
     v1 \<leftarrow> expansionOf (map_of ms ''expansion'');
     Some \<lparr>o_id = v0, o_expansion = v1\<rparr>
   }"

lemma originOf_originJson [simp]: "originOf (Some (originJson x)) = Some x"
  by (simp add: originOf_def originJson_def)

definition switchJson :: "defaultSwitch \<Rightarrow> json" where
  "switchJson x = JObj ([(''name'', JStr (w_name x)),
      (''on'', JBool (w_on x)),
      (''set_by'', subjectJson (w_setBy x)),
      (''set_at'', JStr (w_setAt x))])"

definition switchOf :: "json option \<Rightarrow> defaultSwitch option" where
  "switchOf j = do {
     ms \<leftarrow> fieldsOf j;
     v0 \<leftarrow> strOf (map_of ms ''name'');
     v1 \<leftarrow> boolOf (map_of ms ''on'');
     v2 \<leftarrow> subjectOf (map_of ms ''set_by'');
     v3 \<leftarrow> strOf (map_of ms ''set_at'');
     Some \<lparr>w_name = v0, w_on = v1, w_setBy = v2, w_setAt = v3\<rparr>
   }"

lemma switchOf_switchJson [simp]: "switchOf (Some (switchJson x)) = Some x"
  by (simp add: switchOf_def switchJson_def)

definition fileJson :: "decisionFile \<Rightarrow> json" where
  "fileJson x = JObj ([(''profile'', JStr (f_profile x)),
      (''actions'', sliceJson actionJson (f_actions x)),
      (''rules'', sliceJson ruleJson (f_rules x))] @
     omitList ''applied_operator_answers'' JStr (f_appliedOperatorAnswers x) @
     omitList ''descriptions'' publishedJson (f_descriptions x) @
     omitList ''selector_rules'' selectorRuleJson (f_selectorRules x) @
     omitList ''bundle_origins'' originJson (f_bundleOrigins x) @
     omitList ''applied_typed_answers'' JStr (f_appliedTypedAnswers x) @
     omitList ''default_switches'' switchJson (f_defaultSwitches x))"

definition fileOf :: "json option \<Rightarrow> decisionFile option" where
  "fileOf j = do {
     ms \<leftarrow> fieldsOf j;
     v0 \<leftarrow> strOf (map_of ms ''profile'');
     v1 \<leftarrow> sliceOf actionOf (map_of ms ''actions'');
     v2 \<leftarrow> sliceOf ruleOf (map_of ms ''rules'');
     v3 \<leftarrow> listOf strOf (map_of ms ''applied_operator_answers'');
     v4 \<leftarrow> listOf publishedOf (map_of ms ''descriptions'');
     v5 \<leftarrow> listOf selectorRuleOf (map_of ms ''selector_rules'');
     v6 \<leftarrow> listOf originOf (map_of ms ''bundle_origins'');
     v7 \<leftarrow> listOf strOf (map_of ms ''applied_typed_answers'');
     v8 \<leftarrow> listOf switchOf (map_of ms ''default_switches'');
     Some \<lparr>f_profile = v0, f_actions = v1, f_rules = v2, f_appliedOperatorAnswers = v3, f_descriptions = v4, f_selectorRules = v5, f_bundleOrigins = v6, f_appliedTypedAnswers = v7, f_defaultSwitches = v8\<rparr>
   }"

lemma fileOf_fileJson [simp]: "fileOf (Some (fileJson x)) = Some x"
  by (simp add: fileOf_def fileJson_def listOf_listJson sliceOf_sliceJson listOf_JArr del: map_of_append)

end
