(* ===== verification/Sha256.thy ===== *)
theory Sha256
  imports Go_Strings "HOL-Library.Word"
begin

text \<open>
  \<open>crypto/sha256\<close> (FIPS 180-4) over byte strings, as the policy's revision, the defaults
  digest, the bundle digests and the bundle origin identities use it. A digest is 32 bytes;
  its hexadecimal text is 64 printable bytes, which is all the properties need of it.
\<close>

unbundle bit_operations_syntax

type_synonym word32 = "32 word"

definition roundK :: "word32 list" where
  "roundK =
    [0x428A2F98, 0x71374491, 0xB5C0FBCF, 0xE9B5DBA5,
     0x3956C25B, 0x59F111F1, 0x923F82A4, 0xAB1C5ED5,
     0xD807AA98, 0x12835B01, 0x243185BE, 0x550C7DC3,
     0x72BE5D74, 0x80DEB1FE, 0x9BDC06A7, 0xC19BF174,
     0xE49B69C1, 0xEFBE4786, 0x0FC19DC6, 0x240CA1CC,
     0x2DE92C6F, 0x4A7484AA, 0x5CB0A9DC, 0x76F988DA,
     0x983E5152, 0xA831C66D, 0xB00327C8, 0xBF597FC7,
     0xC6E00BF3, 0xD5A79147, 0x06CA6351, 0x14292967,
     0x27B70A85, 0x2E1B2138, 0x4D2C6DFC, 0x53380D13,
     0x650A7354, 0x766A0ABB, 0x81C2C92E, 0x92722C85,
     0xA2BFE8A1, 0xA81A664B, 0xC24B8B70, 0xC76C51A3,
     0xD192E819, 0xD6990624, 0xF40E3585, 0x106AA070,
     0x19A4C116, 0x1E376C08, 0x2748774C, 0x34B0BCB5,
     0x391C0CB3, 0x4ED8AA4A, 0x5B9CCA4F, 0x682E6FF3,
     0x748F82EE, 0x78A5636F, 0x84C87814, 0x8CC70208,
     0x90BEFFFA, 0xA4506CEB, 0xBEF9A3F7, 0xC67178F2]"

definition initialHash :: "word32 list" where
  "initialHash =
    [0x6A09E667, 0xBB67AE85, 0x3C6EF372, 0xA54FF53A,
     0x510E527F, 0x9B05688C, 0x1F83D9AB, 0x5BE0CD19]"

definition shr :: "nat \<Rightarrow> word32 \<Rightarrow> word32" where
  "shr n w = drop_bit n w"

definition rotr :: "nat \<Rightarrow> word32 \<Rightarrow> word32" where
  "rotr n w = word_rotr n w"

definition smallSigma0 :: "word32 \<Rightarrow> word32" where
  "smallSigma0 x = rotr 7 x XOR rotr 18 x XOR shr 3 x"

definition smallSigma1 :: "word32 \<Rightarrow> word32" where
  "smallSigma1 x = rotr 17 x XOR rotr 19 x XOR shr 10 x"

definition bigSigma0 :: "word32 \<Rightarrow> word32" where
  "bigSigma0 x = rotr 2 x XOR rotr 13 x XOR rotr 22 x"

definition bigSigma1 :: "word32 \<Rightarrow> word32" where
  "bigSigma1 x = rotr 6 x XOR rotr 11 x XOR rotr 25 x"

definition chooseBits :: "word32 \<Rightarrow> word32 \<Rightarrow> word32 \<Rightarrow> word32" where
  "chooseBits x y z = (x AND y) XOR (NOT x AND z)"

definition majorityBits :: "word32 \<Rightarrow> word32 \<Rightarrow> word32 \<Rightarrow> word32" where
  "majorityBits x y z = (x AND y) XOR (x AND z) XOR (y AND z)"

text \<open>The message schedule, kept latest word first.\<close>

primrec schedule :: "nat \<Rightarrow> word32 list \<Rightarrow> word32 list" where
  "schedule 0 ws = rev ws"
| "schedule (Suc n) ws =
     schedule n ((smallSigma1 (ws ! 1) + ws ! 6 + smallSigma0 (ws ! 14) + ws ! 15) # ws)"

fun sha_round :: "word32 list \<Rightarrow> word32 \<times> word32 \<Rightarrow> word32 list" where
  "sha_round [a, b, c, d, e, f, g, h] (k, w) =
     (let t1 = h + bigSigma1 e + chooseBits e f g + k + w;
          t2 = bigSigma0 a + majorityBits a b c
      in [t1 + t2, a, b, c, d + t1, e, f, g])"
| "sha_round s _ = s"

definition compress :: "word32 list \<Rightarrow> word32 list \<Rightarrow> word32 list" where
  "compress hs block =
     map2 (+) hs (foldl sha_round hs (zip roundK (schedule 48 (rev block))))"

fun beWords :: "bytes \<Rightarrow> word32 list" where
  "beWords (a # b # c # d # s) =
     of_nat (code a * 16777216 + code b * 65536 + code c * 256 + code d) # beWords s"
| "beWords _ = []"

function blocks :: "word32 list \<Rightarrow> word32 list list" where
  "blocks ws = (if ws = [] then [] else take 16 ws # blocks (drop 16 ws))"
  by pat_completeness auto
termination by (relation "measure length") auto

declare blocks.simps [simp del]

definition beBytes :: "nat \<Rightarrow> nat \<Rightarrow> bytes" where
  "beBytes k n = map (\<lambda>i. char_of (n div 256 ^ i)) (rev [0..<k])"

lemma length_beBytes [simp]: "length (beBytes k n) = k"
  by (simp add: beBytes_def)

definition padMessage :: "bytes \<Rightarrow> bytes" where
  "padMessage s = s @ char_of (128::nat) # replicate ((119 - length s mod 64) mod 64) (char_of (0::nat)) @
     beBytes 8 (8 * length s)"

definition sha256 :: "bytes \<Rightarrow> bytes" where
  "sha256 s = concat (map (\<lambda>w. beBytes 4 (unat w)) (foldl compress initialHash (blocks (beWords (padMessage s)))))"

definition sha256Hex :: "bytes \<Rightarrow> bytes" where
  "sha256Hex s = hexEncode (sha256 s)"

lemma length_sha_round [simp]: "length (sha_round s kw) = length s"
  by (induction s kw rule: sha_round.induct) (auto simp: Let_def)

lemma length_compress: "length (compress hs b) = length hs"
proof -
  have "length (foldl sha_round hs ks) = length hs" for ks
    by (induction ks arbitrary: hs) auto
  then show ?thesis by (simp add: compress_def)
qed

text \<open>The padded message is a whole number of 64-byte blocks.\<close>

lemma padMessage_whole: "length (padMessage s) mod 64 = 0"
proof -
  define r where "r = length s mod 64"
  obtain q where q: "length s = 64 * q + r" unfolding r_def by (metis mult_div_mod_eq)
  have r: "r < 64" by (simp add: r_def)
  have "length (padMessage s) = 64 * q + (r + 9 + (119 - r) mod 64)"
    unfolding padMessage_def r_def [symmetric] by (simp add: q)
  moreover have "(r + 9 + (119 - r) mod 64) mod 64 = 0"
  proof (cases "r \<le> 55")
    case True
    then have "(119 - r) mod 64 = 55 - r" using mod_add_self2 [of "55 - r" 64] by (simp add: le_diff_conv)
    then show ?thesis using True by simp
  next
    case False
    with r show ?thesis by simp
  qed
  ultimately show ?thesis by simp
qed

lemma length_sha256 [simp]: "length (sha256 s) = 32"
proof -
  have "length (foldl compress hs bs) = length hs" for hs bs
    by (induction bs arbitrary: hs) (auto simp: length_compress)
  then have "length (foldl compress initialHash (blocks (beWords (padMessage s)))) = 8"
    by (simp add: initialHash_def)
  then show ?thesis by (simp add: sha256_def length_concat comp_def sum_list_triv)
qed

lemma length_sha256Hex [simp]: "length (sha256Hex s) = 64"
  by (simp add: sha256Hex_def)

lemma printable_sha256Hex [simp]: "printable (sha256Hex s)"
  by (simp add: sha256Hex_def)

end
