(* ===== verification/Definitions.thy ===== *)
theory Definitions
  imports Decision_File Sha256
begin

text \<open>
  The permission catalogue of permission_definition.go and selector_definition.go: the
  trusted definitions, the compiled resource profiles, the typed selector rows, the bundles
  and the legacy equivalences, and the checks and preparations that read them. A Go map is
  an association list with one entry per key. The clone helpers of the code keep callers
  from sharing slices; here values are not shared, so they are the identity.
\<close>

definition LegacyExactResourceProfile :: bytes where
  "LegacyExactResourceProfile = ''abstraction.rights/legacy-exact-string@1''"

definition MaxBatchResources :: nat where "MaxBatchResources = 256"
definition MaxTargetBytes :: nat where "MaxTargetBytes = 16384"
definition MaxPermissionEffect :: nat where "MaxPermissionEffect = 64"
definition MaxPermissionDefinitions :: nat where "MaxPermissionDefinitions = 256"
definition MaxPermissionBundles :: nat where "MaxPermissionBundles = 64"
definition MaxSelectorFrameBytes :: nat where "MaxSelectorFrameBytes = 1048576"

subsection \<open>The data\<close>

record resourceProfile =
  rp_prepare :: "(bytes \<Rightarrow> rights_error + bytes) option"
  rp_validate :: "(bytes \<Rightarrow> bool) option"
  rp_equal :: "(bytes \<Rightarrow> bytes \<Rightarrow> bool) option"
  rp_describe :: "(bytes \<Rightarrow> rights_error + bytes) option"
  rp_allowAll :: bool

text \<open>\<open>Concrete\<close> answers \<open>None\<close> for "not ok", \<open>Some None\<close> for a nil target.\<close>

record legacyEquivalence =
  e_action :: bytes
  e_resource :: bytes
  e_permission :: PermissionKey
  e_mode :: bytes
  e_concrete :: "(bytes \<Rightarrow> bytes option option) option"

record selectorCatalog =
  sc_definitions :: "(PermissionKey \<times> SelectorPermissionDefinition) list"
  sc_profiles :: "(bytes \<times> resourceProfile) list"
  sc_bundles :: "(bytes \<times> PermissionBundleDefinition) list"
  sc_equivalents :: "legacyEquivalence list"
  sc_digest :: bytes

record definitionCatalog =
  c_definitions :: "(bytes \<times> PermissionDefinition) list"
  c_profiles :: "(bytes \<times> (bytes \<Rightarrow> bool)) list"
  c_selectors :: "selectorCatalog option"

subsection \<open>Text and keys\<close>

definition definitionText :: "bytes \<Rightarrow> nat \<Rightarrow> bool" where
  "definitionText v m \<longleftrightarrow> v \<noteq> [] \<and> length v \<le> m \<and>
     (case runes v of None \<Rightarrow> False | Some rs \<Rightarrow> list_all (\<lambda>r. \<not> isControl r) rs)"

lemma definitionText_bounded: "definitionText v m = boundedDecisionString v m"
  by (simp add: definitionText_def boundedDecisionString_def)

definition definitionTexts :: "bytes list \<Rightarrow> nat \<Rightarrow> bool" where
  "definitionTexts values m \<longleftrightarrow>
     values \<noteq> [] \<and> length values \<le> 64 \<and> list_all (\<lambda>v. definitionText v m) values \<and> distinct values"

definition definitionProfile :: "bytes \<Rightarrow> bool" where
  "definitionProfile v =
     (case cutAt (CHR ''@'') v of (name, version, ok) \<Rightarrow>
        ok \<and> definitionText v 128 \<and> ValidActionName name \<and>
        (case parseUint version (2 ^ 32) of None \<Rightarrow> False | Some n \<Rightarrow> n > 0 \<and> itoa n = version))"

lemma definitionProfile_bounded: "definitionProfile v \<Longrightarrow> boundedDecisionString v 128"
  by (auto simp: definitionProfile_def definitionText_bounded split: prod.splits)

definition keyOf_definition :: "PermissionDefinition \<Rightarrow> PermissionKey" where
  "keyOf_definition d = \<lparr>k_action = pd_action d, k_resourceProfile = pd_resourceProfile d\<rparr>"

definition permissionKeyString :: "PermissionKey \<Rightarrow> bytes" where
  "permissionKeyString k = k_action k @ NUL # k_resourceProfile k"

definition validPermissionKey :: "PermissionKey \<Rightarrow> bool" where
  "validPermissionKey k \<longleftrightarrow> ValidActionName (k_action k) \<and> definitionProfile (k_resourceProfile k)"

lemma permissionKeyString_inj:
  assumes "NUL \<notin> set (k_action a)" and "NUL \<notin> set (k_action b)"
  shows "permissionKeyString a = permissionKeyString b \<longleftrightarrow> a = b"
  using append_sep_inj [OF _ assms, of "k_resourceProfile a" "k_resourceProfile b"]
  by (cases a; cases b) (auto simp: permissionKeyString_def)

definition validKinds :: "ResourceSelectorKind list \<Rightarrow> bool \<Rightarrow> bool" where
  "validKinds ks mayBeEmpty \<longleftrightarrow> length ks \<le> 2 \<and> (mayBeEmpty \<or> ks \<noteq> []) \<and> sorted_wrt (<) ks"

subsection \<open>The legacy catalogue\<close>

text \<open>One definition row of \<open>NewDefinitionCatalog\<close>.\<close>

definition validDefinition :: "(bytes \<times> (bytes \<Rightarrow> bool)) list \<Rightarrow> PermissionDefinition \<Rightarrow> bool" where
  "validDefinition profiles m \<longleftrightarrow>
     ValidActionName (pd_action m) \<and> definitionText (pd_ownerContract m) 128 \<and>
     definitionTexts (pd_operations m) 256 \<and> map_of profiles (pd_resourceProfile m) \<noteq> None \<and>
     definitionText (pd_resourceType m) 128 \<and> definitionText (pd_disclosure m) 2048 \<and>
     definitionText (pd_lifecycle m) 2048 \<and>
     (pd_served m \<longrightarrow> definitionTexts (pd_enforcedBy m) 128) \<and>
     (\<not> pd_served m \<longrightarrow> pd_enforcedBy m = [] \<and> pd_firstUse m = PermissionFirstUseNone)"

fun addDefinitions :: "(bytes \<times> (bytes \<Rightarrow> bool)) list \<Rightarrow> PermissionDefinition list \<Rightarrow>
    (bytes \<times> PermissionDefinition) list \<Rightarrow> rights_error + (bytes \<times> PermissionDefinition) list" where
  "addDefinitions profiles [] acc = Inr acc"
| "addDefinitions profiles (m # ms) acc =
     (if \<not> validDefinition profiles m then Inl (ErrOther ''rights: invalid compiled permission definition'')
      else if map_of acc (pd_action m) \<noteq> None then Inl (ErrOther ''rights: duplicate permission definition'')
      else addDefinitions profiles ms (acc @ [(pd_action m, m)]))"

definition NewDefinitionCatalog :: "PermissionDefinition list \<Rightarrow> (bytes \<times> (bytes \<Rightarrow> bool) option) list \<Rightarrow>
    rights_error + definitionCatalog" where
  "NewDefinitionCatalog definitions profiles =
     (if list_ex (\<lambda>(name, validate). \<not> definitionProfile name \<or> validate = None) profiles
      then Inl (ErrOther ''rights: invalid compiled resource profile'')
      else let bound = map (\<lambda>(name, validate). (name, the validate)) profiles in
        case addDefinitions bound definitions [] of
          Inl e \<Rightarrow> Inl e
        | Inr ds \<Rightarrow> Inr \<lparr>c_definitions = ds, c_profiles = bound, c_selectors = None\<rparr>)"

definition Lookup :: "definitionCatalog option \<Rightarrow> bytes \<Rightarrow> PermissionDefinition option" where
  "Lookup c action = (case c of None \<Rightarrow> None | Some d \<Rightarrow> map_of (c_definitions d) action)"

definition Definitions :: "definitionCatalog option \<Rightarrow> PermissionDefinition list" where
  "Definitions c = (case c of None \<Rightarrow> [] | Some d \<Rightarrow> sort_key pd_action (map snd (c_definitions d)))"

definition ValidResource :: "definitionCatalog option \<Rightarrow> bytes \<Rightarrow> bytes \<Rightarrow> bool" where
  "ValidResource c action resource = (case c of
     None \<Rightarrow> False
   | Some d \<Rightarrow> ValidDecisionQuery action resource \<and>
      (case map_of (c_definitions d) action of
         None \<Rightarrow> False
       | Some m \<Rightarrow> (case map_of (c_profiles d) (pd_resourceProfile m) of None \<Rightarrow> False | Some v \<Rightarrow> v resource)))"

definition FirstUse :: "definitionCatalog option \<Rightarrow> bytes \<Rightarrow> bytes \<Rightarrow> PermissionFirstUse" where
  "FirstUse c action resource =
     (if \<not> ValidResource c action resource then PermissionFirstUseNone
      else case Lookup c action of
        None \<Rightarrow> PermissionFirstUseNone
      | Some m \<Rightarrow> if \<not> pd_served m then PermissionFirstUseNone else pd_firstUse m)"

subsection \<open>Building the typed catalogue\<close>

definition kindsJson :: "ResourceSelectorKind list \<Rightarrow> json" where
  "kindsJson ks = JArr (map (\<lambda>k. JStr (WireName_ResourceSelectorKind k)) ks)"

definition definitionJson :: "PermissionDefinition \<Rightarrow> json" where
  "definitionJson d = JObj [(''Action'', JStr (pd_action d)), (''OwnerContract'', JStr (pd_ownerContract d)),
     (''Operations'', listJson JStr (pd_operations d)), (''ResourceProfile'', JStr (pd_resourceProfile d)),
     (''ResourceType'', JStr (pd_resourceType d)), (''EnforcedBy'', listJson JStr (pd_enforcedBy d)),
     (''Disclosure'', JStr (pd_disclosure d)), (''Lifecycle'', JStr (pd_lifecycle d)),
     (''FirstUse'', JStr (WireName_PermissionFirstUse (pd_firstUse d))), (''Served'', JBool (pd_served d))]"

definition selectorDefinitionJson :: "SelectorPermissionDefinition \<Rightarrow> json" where
  "selectorDefinitionJson d = JObj [(''Definition'', definitionJson (sd_definition d)), (''Label'', JStr (sd_label d)),
     (''SupportedSelectors'', kindsJson (sd_supportedSelectors d)), (''FirstUseSelectors'', kindsJson (sd_firstUseSelectors d)),
     (''Collection'', JStr (sd_collection d)), (''AllEffect'', JStr (sd_allEffect d)), (''RequestType'', JStr (sd_requestType d))]"

definition bundleJson :: "PermissionBundleDefinition \<Rightarrow> json" where
  "bundleJson b = JObj [(''BundleRef'', JStr (b_bundleRef b)), (''OwnerContract'', JStr (b_ownerContract b)),
     (''Label'', JStr (b_label b)), (''TargetType'', JStr (b_targetType b)),
     (''SupportedSelectors'', kindsJson (b_supportedSelectors b)), (''Members'', listJson keyJson (b_members b)),
     (''Disclosure'', JStr (b_disclosure b)), (''DefinitionDigest'', JStr (b_definitionDigest b))]"

definition linkJson :: "legacyEquivalence \<Rightarrow> json" where
  "linkJson e = JObj [(''Action'', JStr (e_action e)), (''Resource'', JStr (e_resource e)),
     (''Mode'', JStr (e_mode e)), (''Permission'', keyJson (e_permission e))]"

definition digestOf :: "json \<Rightarrow> bytes" where
  "digestOf j = ''sha256:'' @ sha256Hex (jprint j)"

lemma digestOf_bounded [simp]: "boundedDecisionString (digestOf j) 128"
  by (simp add: digestOf_def printable_bounded code_def)

text \<open>A legacy definition as a typed row with no selectors.\<close>

definition legacyRow :: "PermissionDefinition \<Rightarrow> SelectorPermissionDefinition" where
  "legacyRow d = \<lparr>sd_definition = d, sd_label = pd_action d, sd_supportedSelectors = [], sd_firstUseSelectors = [],
     sd_collection = pd_lifecycle d, sd_allEffect = [], sd_requestType = pd_resourceType d\<rparr>"

definition profileValidate :: "(bytes \<times> resourceProfile) list \<Rightarrow> bytes \<Rightarrow> (bytes \<Rightarrow> bool) option" where
  "profileValidate profiles p = (case map_of profiles p of None \<Rightarrow> None | Some r \<Rightarrow> rp_validate r)"

definition profileAllowAll :: "(bytes \<times> resourceProfile) list \<Rightarrow> bytes \<Rightarrow> bool" where
  "profileAllowAll profiles p = (case map_of profiles p of None \<Rightarrow> False | Some r \<Rightarrow> rp_allowAll r)"

text \<open>One typed row: the error it is refused with, if any.\<close>

definition refuseSelectorRow :: "(bytes \<times> resourceProfile) list \<Rightarrow>
    (PermissionKey \<times> SelectorPermissionDefinition) list \<Rightarrow> SelectorPermissionDefinition \<Rightarrow> rights_error option" where
  "refuseSelectorRow profiles acc d =
     (let m = sd_definition d; k = keyOf_definition m; all = (ResourceSelectorKindAll \<in> set (sd_supportedSelectors d)) in
      if \<not> validPermissionKey k \<or> profileValidate profiles (k_resourceProfile k) = None \<or>
         \<not> definitionText (sd_label d) 128 \<or> \<not> definitionText (sd_requestType d) 128 \<or>
         \<not> definitionText (sd_collection d) 2048 \<or> \<not> validKinds (sd_supportedSelectors d) (\<not> pd_served m) \<or>
         \<not> validKinds (sd_firstUseSelectors d) True \<or> \<not> definitionText (pd_ownerContract m) 128 \<or>
         \<not> definitionTexts (pd_operations m) 256 \<or> \<not> definitionText (pd_resourceType m) 128 \<or>
         \<not> definitionText (pd_disclosure m) 2048 \<or> \<not> definitionText (pd_lifecycle m) 2048
      then Some (ErrOther ''rights: invalid selector definition'')
      else if map_of acc k \<noteq> None then Some (ErrOther ''rights: duplicate action/profile definition'')
      else if (pd_served m \<and> \<not> definitionTexts (pd_enforcedBy m) 128) \<or>
         (\<not> pd_served m \<and> (pd_enforcedBy m \<noteq> [] \<or> sd_firstUseSelectors d \<noteq> [] \<or> sd_supportedSelectors d \<noteq> []))
      then Some (ErrOther ''rights: invalid served selectors'')
      else if (all \<and> \<not> definitionText (sd_allEffect d) 2048) \<or> (\<not> all \<and> sd_allEffect d \<noteq> [])
      then Some (ErrOther ''rights: invalid all effect'')
      else if \<not> list_all (\<lambda>k. k \<in> set (sd_supportedSelectors d)) (sd_firstUseSelectors d)
      then Some (ErrOther ''rights: unsupported first use selector'')
      else None)"

fun addSelectorRows :: "(bytes \<times> resourceProfile) list \<Rightarrow> SelectorPermissionDefinition list \<Rightarrow>
    (PermissionKey \<times> SelectorPermissionDefinition) list \<Rightarrow>
    rights_error + (PermissionKey \<times> SelectorPermissionDefinition) list" where
  "addSelectorRows profiles [] acc = Inr acc"
| "addSelectorRows profiles (d # ds) acc = (case refuseSelectorRow profiles acc d of
     Some e \<Rightarrow> Inl e
   | None \<Rightarrow> addSelectorRows profiles ds (acc @ [(keyOf_definition (sd_definition d), d)]))"

text \<open>The members of a bundle, from the \<open>i\<close>-th on, after the previous member.\<close>

fun refuseMembers :: "(PermissionKey \<times> SelectorPermissionDefinition) list \<Rightarrow> (bytes \<times> resourceProfile) list \<Rightarrow>
    PermissionBundleDefinition \<Rightarrow> (PermissionKey \<times> bytes) option \<Rightarrow> PermissionKey list \<Rightarrow> rights_error option" where
  "refuseMembers rows profiles b prev [] = None"
| "refuseMembers rows profiles b prev (k # ks) = (case map_of rows k of
     None \<Rightarrow> Some (ErrOther ''rights: unserved/incompatible bundle member'')
   | Some d \<Rightarrow>
      if pd_resourceType (sd_definition d) \<noteq> b_targetType b
      then Some (ErrOther ''rights: unserved/incompatible bundle member'')
      else if (case prev of None \<Rightarrow> False | Some (p, _) \<Rightarrow> permissionKeyString k \<le> permissionKeyString p)
      then Some (ErrOther ''rights: unsorted/duplicate bundle member'')
      else (let collection = (case prev of None \<Rightarrow> sd_collection d | Some (_, c) \<Rightarrow> c) in
        if sd_collection d \<noteq> collection then Some (ErrOther ''rights: mismatched bundle collection'')
        else if ResourceSelectorKindAll \<in> set (b_supportedSelectors b) \<and> \<not> profileAllowAll profiles (k_resourceProfile k)
        then Some (ErrOther ''rights: unsupported bundle selector'')
        else refuseMembers rows profiles b (Some (k, collection)) ks))"

fun addBundles :: "(PermissionKey \<times> SelectorPermissionDefinition) list \<Rightarrow> (bytes \<times> resourceProfile) list \<Rightarrow>
    PermissionBundleDefinition list \<Rightarrow> (bytes \<times> PermissionBundleDefinition) list \<Rightarrow>
    rights_error + (bytes \<times> PermissionBundleDefinition) list" where
  "addBundles rows profiles [] acc = Inr acc"
| "addBundles rows profiles (b # bs) acc =
     (if \<not> definitionProfile (b_bundleRef b) \<or> \<not> definitionText (b_ownerContract b) 128 \<or>
         \<not> definitionText (b_label b) 128 \<or> \<not> definitionText (b_targetType b) 128 \<or>
         \<not> definitionText (b_disclosure b) 2048 \<or> \<not> validKinds (b_supportedSelectors b) False \<or>
         b_members b = [] \<or> length (b_members b) > MaxPermissionEffect
      then Inl (ErrOther ''rights: invalid bundle'')
      else if map_of acc (b_bundleRef b) \<noteq> None then Inl (ErrOther ''rights: duplicate bundle'')
      else case refuseMembers rows profiles b None (b_members b) of
        Some e \<Rightarrow> Inl e
      | None \<Rightarrow>
         let plain = b\<lparr>b_definitionDigest := []\<rparr>;
             stored = plain\<lparr>b_definitionDigest := digestOf (bundleJson plain)\<rparr>
         in addBundles rows profiles bs (acc @ [(b_bundleRef b, stored)]))"

fun addLinks :: "(PermissionKey \<times> SelectorPermissionDefinition) list \<Rightarrow> legacyEquivalence list \<Rightarrow>
    legacyEquivalence list \<Rightarrow> rights_error + legacyEquivalence list" where
  "addLinks rows [] acc = Inr acc"
| "addLinks rows (e # es) acc =
     (if \<not> ValidActionName (e_action e) \<or> \<not> definitionText (e_mode e) 128 \<or> \<not> validPermissionKey (e_permission e) \<or>
         (e_resource e \<noteq> [] \<and> \<not> boundedDecisionString (e_resource e) 1024) \<or> (e_resource e = [] \<and> e_concrete e = None)
      then Inl (ErrOther ''rights: invalid legacy equivalence'')
      else if map_of rows (e_permission e) = None then Inl (ErrOther ''rights: unknown equivalent permission'')
      else addLinks rows es (acc @ [e]))"

definition linkKey :: "legacyEquivalence \<Rightarrow> bytes" where
  "linkKey e = e_action e @ NUL # e_resource e @ NUL # permissionKeyString (e_permission e) @ NUL # e_mode e"

subsection \<open>Reading the typed catalogue\<close>

definition SelectorDefinition :: "definitionCatalog option \<Rightarrow> PermissionKey \<Rightarrow> SelectorPermissionDefinition option" where
  "SelectorDefinition c k = (case c of
     None \<Rightarrow> None
   | Some d \<Rightarrow> (case c_selectors d of None \<Rightarrow> None | Some sc \<Rightarrow> map_of (sc_definitions sc) k))"

definition SelectorDefinitions :: "definitionCatalog option \<Rightarrow> SelectorPermissionDefinition list" where
  "SelectorDefinitions c = (case c of
     None \<Rightarrow> []
   | Some d \<Rightarrow> (case c_selectors d of
       None \<Rightarrow> []
     | Some sc \<Rightarrow> sort_key (\<lambda>d. permissionKeyString (keyOf_definition (sd_definition d))) (map snd (sc_definitions sc))))"

text \<open>A bundle as published: the selector kinds every member currently serves.\<close>

definition servedKinds :: "definitionCatalog option \<Rightarrow> PermissionBundleDefinition \<Rightarrow> PermissionBundleDefinition" where
  "servedKinds c b = b\<lparr>b_supportedSelectors := filter (\<lambda>kind. list_all (\<lambda>k.
      case SelectorDefinition c k of
        None \<Rightarrow> False
      | Some d \<Rightarrow> pd_served (sd_definition d) \<and> kind \<in> set (sd_supportedSelectors d)) (b_members b)) (b_supportedSelectors b)\<rparr>"

definition PermissionBundles :: "definitionCatalog option \<Rightarrow> PermissionBundleDefinition list" where
  "PermissionBundles c = (case c of
     None \<Rightarrow> []
   | Some d \<Rightarrow> (case c_selectors d of
       None \<Rightarrow> []
     | Some sc \<Rightarrow> sort_key b_bundleRef (map (\<lambda>(_, b). servedKinds c b) (sc_bundles sc))))"

definition WithSelectors :: "definitionCatalog option \<Rightarrow> SelectorPermissionDefinition list \<Rightarrow>
    (bytes \<times> resourceProfile) list \<Rightarrow> PermissionBundleDefinition list \<Rightarrow> legacyEquivalence list \<Rightarrow>
    rights_error + definitionCatalog" where
  "WithSelectors c defs profiles bundles equivalents = (case c of
     None \<Rightarrow> Inl (ErrOther ''rights: selector catalogue bound'')
   | Some d \<Rightarrow>
      if length (c_definitions d) + length defs > MaxPermissionDefinitions \<or> length bundles > MaxPermissionBundles
      then Inl (ErrOther ''rights: selector catalogue bound'')
      else if list_ex (\<lambda>(p, b). \<not> definitionProfile p \<or> rp_prepare b = None \<or> rp_validate b = None \<or> rp_equal b = None) profiles
      then Inl (ErrOther ''rights: invalid typed profile binding'')
      else case addSelectorRows profiles defs (map (\<lambda>m. (keyOf_definition m, legacyRow m)) (Definitions c)) of
        Inl e \<Rightarrow> Inl e
      | Inr rows \<Rightarrow> (case addBundles rows profiles bundles [] of
          Inl e \<Rightarrow> Inl e
        | Inr bs \<Rightarrow> (case addLinks rows equivalents [] of
            Inl e \<Rightarrow> Inl e
          | Inr links \<Rightarrow>
             let sorted = sort_key linkKey links;
                 sc = \<lparr>sc_definitions = rows, sc_profiles = profiles, sc_bundles = bs, sc_equivalents = sorted, sc_digest = []\<rparr>;
                 out = d\<lparr>c_selectors := Some sc\<rparr>;
                 digest = digestOf (JObj [
                   (''Definitions'', JArr (map selectorDefinitionJson (SelectorDefinitions (Some out)))),
                   (''Bundles'', JArr (map bundleJson (PermissionBundles (Some out)))),
                   (''Links'', JArr (map linkJson sorted))])
             in Inr (out\<lparr>c_selectors := Some (sc\<lparr>sc_digest := digest\<rparr>)\<rparr>))))"

definition DefinitionDigest :: "definitionCatalog option \<Rightarrow> bytes" where
  "DefinitionDigest c = (case c of
     None \<Rightarrow> []
   | Some d \<Rightarrow> (case c_selectors d of None \<Rightarrow> [] | Some sc \<Rightarrow> sc_digest sc))"

definition HasSelectors :: "definitionCatalog option \<Rightarrow> bool" where
  "HasSelectors c = (case c of None \<Rightarrow> False | Some d \<Rightarrow> c_selectors d \<noteq> None)"

definition PermissionBundle :: "definitionCatalog option \<Rightarrow> bytes \<Rightarrow> PermissionBundleDefinition option" where
  "PermissionBundle c ref = (case c of
     None \<Rightarrow> None
   | Some d \<Rightarrow> (case c_selectors d of None \<Rightarrow> None | Some sc \<Rightarrow> map_of (sc_bundles sc) ref))"

text \<open>The bound profile of a permission.\<close>

definition profileOf :: "definitionCatalog option \<Rightarrow> PermissionKey \<Rightarrow> resourceProfile option" where
  "profileOf c k = (case c of
     None \<Rightarrow> None
   | Some d \<Rightarrow> (case c_selectors d of None \<Rightarrow> None | Some sc \<Rightarrow> map_of (sc_profiles sc) (k_resourceProfile k)))"

definition ValidStoredSelection :: "definitionCatalog option \<Rightarrow> PermissionSelection \<Rightarrow> bool" where
  "ValidStoredSelection c s =
     (case SelectorDefinition c (ps_permission s) of
        None \<Rightarrow> False
      | Some _ \<Rightarrow> (case profileOf c (ps_permission s) of
          None \<Rightarrow> False
        | Some profile \<Rightarrow>
           let target = s_target (ps_selector s) in
           if s_kind (ps_selector s) = ResourceSelectorKindAll
           then target = None \<and> rp_allowAll profile
           else elems target \<noteq> [] \<and> length (elems target) \<le> MaxTargetBytes \<and>
             (case rp_validate profile of None \<Rightarrow> False | Some v \<Rightarrow> v (elems target))))"

definition ValidSelection :: "definitionCatalog option \<Rightarrow> PermissionSelection \<Rightarrow> bool" where
  "ValidSelection c s =
     (case SelectorDefinition c (ps_permission s) of
        None \<Rightarrow> False
      | Some d \<Rightarrow> if \<not> pd_served (sd_definition d) \<or> s_kind (ps_selector s) \<notin> set (sd_supportedSelectors d)
          then False else ValidStoredSelection c s)"

text \<open>A selection that is valid now is one a stored rule may keep.\<close>

lemma ValidSelection_stored: "ValidSelection c s \<Longrightarrow> ValidStoredSelection c s"
  by (auto simp: ValidSelection_def split: option.splits if_splits)

definition PrepareSelection :: "definitionCatalog option \<Rightarrow> PermissionSelection \<Rightarrow> rights_error + PermissionSelection" where
  "PrepareSelection c s =
     (case SelectorDefinition c (ps_permission s) of
        None \<Rightarrow> Inl (ErrOther ''rights: unsupported selection'')
      | Some d \<Rightarrow>
         if \<not> pd_served (sd_definition d) \<or> s_kind (ps_selector s) \<notin> set (sd_supportedSelectors d)
         then Inl ErrPermissionUnavailable
         else
           let prepared = (if s_kind (ps_selector s) = ResourceSelectorKindOne
             then (let target = elems (s_target (ps_selector s)) in
               if target = [] \<or> length target > MaxTargetBytes then Inl (ErrOther ''rights: invalid target bound'')
               else case Option.bind (profileOf c (ps_permission s)) rp_prepare of
                 None \<Rightarrow> Inl (ErrOther ''nil Prepare'')
               | Some prepare \<Rightarrow> (case prepare target of
                   Inl e \<Rightarrow> Inl e
                 | Inr t \<Rightarrow> Inr (s\<lparr>ps_selector := (ps_selector s)\<lparr>s_target := Some t\<rparr>\<rparr>)))
             else Inr s) in
           case prepared of
             Inl e \<Rightarrow> Inl e
           | Inr s' \<Rightarrow> if \<not> ValidSelection c s' then Inl (ErrOther ''rights: invalid canonical selection'') else Inr s')"

lemma PrepareSelection_valid:
  "PrepareSelection c s = Inr s' \<Longrightarrow> ValidSelection c s' \<and> ps_permission s' = ps_permission s \<and>
     s_kind (ps_selector s') = s_kind (ps_selector s)"
  by (auto simp: PrepareSelection_def Let_def split: option.splits if_splits sum.splits)

definition oneSelection :: "PermissionKey \<Rightarrow> bytes option \<Rightarrow> PermissionSelection" where
  "oneSelection k target = \<lparr>ps_permission = k, ps_selector = \<lparr>s_kind = ResourceSelectorKindOne, s_target = target\<rparr>\<rparr>"

definition allSelection :: "PermissionKey \<Rightarrow> PermissionSelection" where
  "allSelection k = \<lparr>ps_permission = k, ps_selector = \<lparr>s_kind = ResourceSelectorKindAll, s_target = None\<rparr>\<rparr>"

definition ValidConcrete :: "definitionCatalog option \<Rightarrow> ConcreteResource \<Rightarrow> bool" where
  "ValidConcrete c r = ValidSelection c (oneSelection (cr_permission r) (cr_target r))"

text \<open>\<open>sameTarget\<close> of the catalogue: the owning profile's equality.\<close>

definition sameConcrete :: "definitionCatalog option \<Rightarrow> PermissionKey \<Rightarrow> bytes option \<Rightarrow> bytes option \<Rightarrow> bool" where
  "sameConcrete c k a b =
     (case Option.bind (profileOf c k) rp_equal of None \<Rightarrow> False | Some eq \<Rightarrow> eq (elems a) (elems b))"

subsection \<open>Bundles and effects\<close>

definition sameBytes :: "bytes option \<Rightarrow> bytes option \<Rightarrow> bool" where
  "sameBytes a b \<longleftrightarrow> elems a = elems b"

fun prepareMembers :: "definitionCatalog option \<Rightarrow> ResourceSelector \<Rightarrow> PermissionKey list \<Rightarrow> BundleExpansion \<Rightarrow>
    rights_error + BundleExpansion" where
  "prepareMembers c s [] x = Inr x"
| "prepareMembers c s (k # ks) x =
     (case PrepareSelection c \<lparr>ps_permission = k, ps_selector = s\<rparr> of
        Inl e \<Rightarrow> Inl e
      | Inr v \<Rightarrow>
         if be_selections x \<noteq> [] \<and> \<not> sameBytes (s_target (ps_selector v)) (s_target (be_selector x))
         then Inl (ErrOther ''rights: bundle canonical targets differ'')
         else prepareMembers c s ks (x\<lparr>be_selector := ps_selector v, be_selections := be_selections x @ [v]\<rparr>))"

definition PrepareBundle :: "definitionCatalog option \<Rightarrow> bytes \<Rightarrow> ResourceSelector \<Rightarrow> rights_error + BundleExpansion" where
  "PrepareBundle c ref s =
     (if \<not> HasSelectors c then Inl (ErrOther ''rights: selector catalogue unavailable'')
      else case PermissionBundle c ref of
        None \<Rightarrow> Inl (ErrOther ''rights: unsupported bundle'')
      | Some b \<Rightarrow> if s_kind s \<notin> set (b_supportedSelectors b) then Inl (ErrOther ''rights: unsupported bundle'')
          else prepareMembers c s (b_members b)
            \<lparr>be_bundleRef = ref, be_definitionDigest = b_definitionDigest b, be_selector = s, be_selections = []\<rparr>)"

text \<open>Consecutive selections ascend strictly by permission key.\<close>

definition ascendingSelections :: "PermissionSelection list \<Rightarrow> bool" where
  "ascendingSelections ss \<longleftrightarrow> strictly_sorted_by (\<lambda>s. permissionKeyString (ps_permission s)) ss"

definition ValidateExpansion :: "definitionCatalog option \<Rightarrow> BundleExpansion \<Rightarrow> bool" where
  "ValidateExpansion c x \<longleftrightarrow>
     HasSelectors c \<and> be_selections x \<noteq> [] \<and> length (be_selections x) \<le> MaxPermissionEffect \<and>
     definitionProfile (be_bundleRef x) \<and> boundedDecisionString (be_definitionDigest x) 128 \<and>
     list_all (\<lambda>s. ValidStoredSelection c s \<and> s_kind (ps_selector s) = s_kind (be_selector x) \<and>
       sameBytes (s_target (ps_selector s)) (s_target (be_selector x))) (be_selections x) \<and>
     ascendingSelections (be_selections x)"

definition ValidStoredPermissionEffect :: "identity \<Rightarrow> definitionCatalog option \<Rightarrow> PermissionEffect \<Rightarrow> bool" where
  "ValidStoredPermissionEffect fs c effect \<longleftrightarrow>
     validStoredSubject fs (ef_subject effect) \<and> ef_selections effect \<noteq> [] \<and>
     length (ef_selections effect) \<le> MaxPermissionEffect \<and>
     list_all (ValidStoredSelection c) (ef_selections effect) \<and> ascendingSelections (ef_selections effect) \<and>
     (case ef_bundle effect of
        None \<Rightarrow> True
      | Some x \<Rightarrow> ValidateExpansion c x \<and>
         (case PermissionBundle c (be_bundleRef x) of
            None \<Rightarrow> False
          | Some b \<Rightarrow> b_definitionDigest b = be_definitionDigest x \<and> length (b_members b) = length (be_selections x) \<and>
             length (ef_selections effect) = length (be_selections x) \<and>
             list_all2 (\<lambda>k s. k = ps_permission s) (b_members b) (be_selections x) \<and>
             list_all2 (\<lambda>e s. permissionKeyString (ps_permission e) = permissionKeyString (ps_permission s) \<and>
               s_kind (ps_selector e) = s_kind (ps_selector s) \<and>
               sameBytes (s_target (ps_selector e)) (s_target (ps_selector s))) (ef_selections effect) (be_selections x)))"

definition ValidPermissionEffect :: "identity \<Rightarrow> definitionCatalog option \<Rightarrow> PermissionEffect \<Rightarrow> bool" where
  "ValidPermissionEffect fs c effect \<longleftrightarrow>
     ValidStoredPermissionEffect fs c effect \<and> list_all (ValidSelection c) (ef_selections effect)"

fun prepareAll :: "definitionCatalog option \<Rightarrow> PermissionSelection list \<Rightarrow> rights_error + PermissionSelection list" where
  "prepareAll c [] = Inr []"
| "prepareAll c (v # vs) = (case PrepareSelection c v of
     Inl e \<Rightarrow> Inl e
   | Inr p \<Rightarrow> (case prepareAll c vs of Inl e \<Rightarrow> Inl e | Inr ps \<Rightarrow> Inr (p # ps)))"

definition PreparePermissionEffect :: "identity \<Rightarrow> definitionCatalog option \<Rightarrow> subject \<Rightarrow> PermissionSelection list \<Rightarrow>
    bytes \<Rightarrow> ResourceSelector option \<Rightarrow> rights_error + PermissionEffect" where
  "PreparePermissionEffect fs c subject selections bundleRef selector =
     (case writableSubject fs subject of
        Inl e \<Rightarrow> Inl e
      | Inr s \<Rightarrow>
         let prepared =
           (if bundleRef \<noteq> [] then
              (case selector of
                 None \<Rightarrow> Inl (ErrOther ''rights: conflicting effect forms'')
               | Some sel \<Rightarrow> if selections \<noteq> [] then Inl (ErrOther ''rights: conflicting effect forms'')
                   else (case PrepareBundle c bundleRef sel of
                     Inl e \<Rightarrow> Inl e
                   | Inr x \<Rightarrow> Inr \<lparr>ef_subject = s, ef_selections = be_selections x, ef_bundle = Some x\<rparr>))
            else if selector \<noteq> None \<or> selections = [] \<or> length selections > MaxPermissionEffect
            then Inl (ErrOther ''rights: effect bound'')
            else (case prepareAll c selections of
              Inl e \<Rightarrow> Inl e
            | Inr ps \<Rightarrow> Inr \<lparr>ef_subject = s,
                ef_selections = sort_key (\<lambda>v. permissionKeyString (ps_permission v)) ps, ef_bundle = None\<rparr>)) in
         case prepared of
           Inl e \<Rightarrow> Inl e
         | Inr out \<Rightarrow> if \<not> ValidPermissionEffect fs c out then Inl (ErrOther ''rights: invalid effect'') else Inr out)"

definition DescribeSelection :: "definitionCatalog option \<Rightarrow> PermissionSelection \<Rightarrow> rights_error + bytes" where
  "DescribeSelection c s =
     (if \<not> ValidSelection c s then Inl (ErrOther ''rights: invalid target explanation'')
      else case SelectorDefinition c (ps_permission s) of
        None \<Rightarrow> Inl (ErrOther ''rights: invalid target explanation'')
      | Some d \<Rightarrow>
         if s_kind (ps_selector s) = ResourceSelectorKindAll then Inr (sd_allEffect d)
         else case Option.bind (profileOf c (ps_permission s)) rp_describe of
           None \<Rightarrow> Inl (ErrOther ''rights: owning target explanation unavailable'')
         | Some describe \<Rightarrow> (case describe (elems (s_target (ps_selector s))) of
             Inl e \<Rightarrow> Inl (ErrOther ''rights: invalid owning target explanation'')
           | Inr label \<Rightarrow> if \<not> definitionText label 4096 then Inl (ErrOther ''rights: invalid owning target explanation'')
               else Inr label))"

text \<open>What a prepared effect is: valid, for the canonical subject, and no broader than asked.\<close>

lemma PreparePermissionEffect_valid:
  assumes "PreparePermissionEffect fs c subject selections ref selector = Inr out"
  shows "ValidPermissionEffect fs c out" and "writableSubject fs subject = Inr (ef_subject out)"
  using assms
  by (auto simp: PreparePermissionEffect_def Let_def split: sum.splits option.splits if_splits)

end
