(* ===== verification/Decision_State.thy ===== *)
theory Decision_State
  imports Definitions
begin

text \<open>
  The policy's configuration and the reading of its state: \<open>DecisionPolicy\<close>'s configured
  fields, the catalogue, the revision, \<open>decodeDecision\<close> with every check it makes,
  \<open>validateSelectorState\<close>, \<open>canonicalizeStored\<close> and the pruning helpers
  (decision_policy.go, operator_policy.go, selector_policy.go, account_defaults.go,
  descriptions.go, operator_allow.go).
\<close>

subsection \<open>Configuration\<close>

definition DecisionProfile :: bytes where "DecisionProfile = ''rights-decisions@7''"
definition typedDecisionProfile :: bytes where "typedDecisionProfile = ''rights-decisions@6''"
definition describedDecisionProfile :: bytes where "describedDecisionProfile = ''rights-decisions@5''"
definition completedAnswerDecisionProfile :: bytes where "completedAnswerDecisionProfile = ''rights-decisions@4''"
definition answerIdentityDecisionProfile :: bytes where "answerIdentityDecisionProfile = ''rights-decisions@3''"
definition previousDecisionProfile :: bytes where "previousDecisionProfile = ''rights-decisions@2''"

definition MaxDecisionBytes :: nat where "MaxDecisionBytes = 4194304"
definition MaxDecisionRules :: nat where "MaxDecisionRules = 4096"
definition MaxDecisionActions :: nat where "MaxDecisionActions = 64"
definition MaxAppliedOperatorAnswers :: nat where "MaxAppliedOperatorAnswers = 4096"
definition MaxAccountDefaults :: nat where "MaxAccountDefaults = 32"

text \<open>Durations are nanoseconds.\<close>

type_synonym duration = int

definition MaxRuleTTL :: duration where "MaxRuleTTL = 31536000000000000"
definition MetaRuleLapse :: duration where "MetaRuleLapse = 2592000000000000"

definition profileVersion :: "bytes \<Rightarrow> nat" where
  "profileVersion profile =
     (if profile = DecisionProfile then 7 else if profile = typedDecisionProfile then 6
      else if profile = describedDecisionProfile then 5 else if profile = completedAnswerDecisionProfile then 4
      else if profile = answerIdentityDecisionProfile then 3 else if profile = previousDecisionProfile then 2 else 0)"

record accountDefault =
  df_name :: bytes
  df_action :: bytes
  df_resource :: bytes
  df_everyResource :: bool

text \<open>\<open>files\<close> is the identity package on the file system as an operation finds it, and
  \<open>storedReadings\<close> what the policy's \<open>storedKeys\<close> answers meanwhile for a revision and a
  program (theory Store says what it can answer); \<open>metaHolder\<close> tells whether the host's
  function refuses a subject.\<close>

record policy =
  seed :: "bytes list"
  native :: subject
  catalog :: "definitionCatalog option"
  stateRequired :: bool
  metaHolder :: "(subject \<Rightarrow> bool) option"
  configuredDefaults :: "accountDefault list"
  defaultAccount :: bytes
  defaultExcluded :: "(subject \<Rightarrow> bool) option"
  files :: identity
  storedReadings :: "bytes \<Rightarrow> bytes \<Rightarrow> bytes"

definition catalogue :: "policy \<Rightarrow> decisionFile \<Rightarrow> bytes list" where
  "catalogue p f = sort (foldl (\<lambda>all a. if a_action a \<in> set all then all else all @ [a_action a]) (seed p) (actions f))"

lemma set_catalogue: "set (catalogue p f) = set (seed p) \<union> a_action ` set (actions f)"
proof -
  have "set (foldl (\<lambda>all a. if a_action a \<in> set all then all else all @ [a_action a]) s as) = set s \<union> a_action ` set as" for s as
    by (induction as arbitrary: s) auto
  then show ?thesis by (simp add: catalogue_def)
qed

lemma distinct_catalogue: "distinct (seed p) \<Longrightarrow> distinct (catalogue p f)"
proof -
  assume d: "distinct (seed p)"
  have "distinct s \<Longrightarrow> distinct (foldl (\<lambda>all a. if a_action a \<in> set all then all else all @ [a_action a]) s as)" for s as
    by (induction as arbitrary: s) auto
  with d show ?thesis by (simp add: catalogue_def)
qed

subsection \<open>The revision\<close>

definition defaultsDigest :: "policy \<Rightarrow> bytes" where
  "defaultsDigest p =
     (if configuredDefaults p = [] then []
      else sha256Hex (jprint (JObj [(''Account'', JStr (defaultAccount p)),
        (''Defaults'', JArr (map (\<lambda>d. JObj [(''Name'', JStr (df_name d)), (''Action'', JStr (df_action d)),
           (''Resource'', JStr (df_resource d)), (''EveryResource'', JBool (df_everyResource d))]) (configuredDefaults p)))])))"

definition revision :: "policy \<Rightarrow> decisionFile \<Rightarrow> bytes" where
  "revision p f = ''sha256:'' @ sha256Hex (jprint (JObj ([(''seed'', listJson JStr (seed p)), (''file'', fileJson f)] @
     omitStr ''definitions'' (DefinitionDigest (catalog p)) @ omitStr ''defaults'' (defaultsDigest p))))"

lemma revision_bounded [simp]: "boundedDecisionString (revision p f) 128"
  by (simp add: revision_def printable_bounded code_def)

subsection \<open>Canonical spellings\<close>

definition fixSubject :: "identity \<Rightarrow> bool \<Rightarrow> subject \<Rightarrow> subject" where
  "fixSubject fs all s =
     (if \<not> all \<and> \<not> hasShortNameComponent fs (program s) then s
      else case NormalizeDecisionSubject fs s of Inr n \<Rightarrow> n | Inl e \<Rightarrow> s)"

definition fixAction :: "identity \<Rightarrow> bool \<Rightarrow> registeredAction \<Rightarrow> registeredAction" where
  "fixAction fs all a = a\<lparr>a_by := fixSubject fs all (a_by a)\<rparr>"

definition fixDescription :: "identity \<Rightarrow> bool \<Rightarrow> publishedDescription \<Rightarrow> publishedDescription" where
  "fixDescription fs all d = d\<lparr>p_description := (p_description d)\<lparr>ad_featureApp := fixSubject fs all (ad_featureApp (p_description d))\<rparr>,
     p_by := fixSubject fs all (p_by d)\<rparr>"

definition fixRule :: "identity \<Rightarrow> bool \<Rightarrow> decisionRule \<Rightarrow> decisionRule" where
  "fixRule fs all r = r\<lparr>r_subject := fixSubject fs all (r_subject r), r_setBy := fixSubject fs all (r_setBy r)\<rparr>"

text \<open>The state in canonical spelling, and whether anything changed.\<close>

definition canonicalizeStored :: "identity \<Rightarrow> decisionFile \<Rightarrow> bool \<Rightarrow> decisionFile \<times> bool" where
  "canonicalizeStored fs f all =
     (let fixed = f\<lparr>f_actions := map_option (map (fixAction fs all)) (f_actions f),
            f_descriptions := map (fixDescription fs all) (f_descriptions f),
            f_rules := map_option (map (fixRule fs all)) (f_rules f)\<rparr>;
          changed = (fixed \<noteq> f) in
      if changed \<or> all then
        (let merged = mergeRules fs (rules fixed) in
         (fixed\<lparr>f_rules := nilIfEmpty merged\<rparr>, changed \<or> length merged \<noteq> length (rules fixed)))
      else (fixed, changed))"

text \<open>A stored spelling needs no change when it is already the canonical one.\<close>

definition spelled :: "identity \<Rightarrow> bool \<Rightarrow> subject \<Rightarrow> bool" where
  "spelled fs all s \<longleftrightarrow> fixSubject fs all s = s"

definition spelledFile :: "identity \<Rightarrow> bool \<Rightarrow> decisionFile \<Rightarrow> bool" where
  "spelledFile fs all f \<longleftrightarrow>
     (\<forall>a\<in>set (actions f). spelled fs all (a_by a)) \<and>
     (\<forall>d\<in>set (f_descriptions f). spelled fs all (ad_featureApp (p_description d)) \<and> spelled fs all (p_by d)) \<and>
     (\<forall>r\<in>set (rules f). spelled fs all (r_subject r) \<and> spelled fs all (r_setBy r))"

lemma spelled_no_alias: "\<not> hasShortNameComponent fs (program s) \<Longrightarrow> spelled fs False s"
  by (simp add: spelled_def fixSubject_def)

lemma canonicalizeStored_spelled:
  assumes "spelledFile fs False f"
  shows "canonicalizeStored fs f False = (f, False)"
proof -
  have "map_option (map (fixAction fs False)) (f_actions f) = f_actions f"
    using assms by (cases "f_actions f") (auto simp: spelledFile_def spelled_def fixAction_def intro!: map_idI)
  moreover have "map (fixDescription fs False) (f_descriptions f) = f_descriptions f"
    using assms by (auto simp: spelledFile_def spelled_def fixDescription_def intro!: map_idI)
  moreover have "map_option (map (fixRule fs False)) (f_rules f) = f_rules f"
    using assms by (cases "f_rules f") (auto simp: spelledFile_def spelled_def fixRule_def intro!: map_idI)
  ultimately show ?thesis by (simp add: canonicalizeStored_def)
qed

subsection \<open>Validation\<close>

definition descriptionText :: "bytes \<Rightarrow> nat \<Rightarrow> bool" where
  "descriptionText s m \<longleftrightarrow> boundedDecisionString s m \<and> trimSpace s = s"

definition validStoredDescription :: "identity \<Rightarrow> ActionDescription \<Rightarrow> bool" where
  "validStoredDescription fs d \<longleftrightarrow>
     ValidActionName (ad_action d) \<and> validStoredSubject fs (ad_featureApp d) \<and>
     descriptionText (ad_appLabel d) 128 \<and> descriptionText (ad_description d) 512 \<and> descriptionText (ad_declaredRisk d) 32"

definition validDefaultName :: "bytes \<Rightarrow> bool" where
  "validDefaultName name = actionPart name 64"

definition validDefaultSwitches :: "identity \<Rightarrow> defaultSwitch list \<Rightarrow> bool" where
  "validDefaultSwitches fs switches \<longleftrightarrow>
     length switches \<le> MaxAccountDefaults \<and>
     (\<forall>s\<in>set switches. validDefaultName (w_name s) \<and> validStoredSubject fs (w_setBy s) \<and> validStamp (w_setAt s)) \<and>
     strictly_sorted_by w_name switches"

definition MetaAnswerAction :: bytes where "MetaAnswerAction = ''abstraction.asks/question.answer''"
definition MetaScopeApps :: bytes where "MetaScopeApps = ''apps''"

definition IsMetaRule :: "bytes \<Rightarrow> bytes \<Rightarrow> bool" where
  "IsMetaRule action resource \<longleftrightarrow> action = MetaAnswerAction \<and> resource = MetaScopeApps"

definition validRegisteredAction :: "policy \<Rightarrow> registeredAction \<Rightarrow> bool" where
  "validRegisteredAction p a \<longleftrightarrow>
     validStoredSubject (files p) (a_by a) \<and> ValidActionName (a_action a) \<and> validStamp (a_at a)"

definition validPublished :: "policy \<Rightarrow> decisionFile \<Rightarrow> publishedDescription \<Rightarrow> bool" where
  "validPublished p f d \<longleftrightarrow>
     validStoredDescription (files p) (p_description d) \<and> validStoredSubject (files p) (p_by d) \<and>
     validStamp (p_at d) \<and> ad_action (p_description d) \<in> set (catalogue p f)"

definition validRule :: "policy \<Rightarrow> decisionFile \<Rightarrow> decisionRule \<Rightarrow> bool" where
  "validRule p f r \<longleftrightarrow>
     validStoredSubject (files p) (r_subject r) \<and> validStoredSubject (files p) (r_setBy r) \<and>
     ValidDecisionQuery (r_action r) (r_resource r) \<and> r_action r \<in> set (catalogue p f) \<and>
     validStamp (r_setAt r) \<and> validWhy (r_why r) \<and> (r_expires r \<noteq> [] \<longrightarrow> validStamp (r_expires r)) \<and>
     (r_questionID r \<noteq> [] \<longrightarrow> boundedDecisionString (r_questionID r) 128 \<and> r_permit r \<and>
        \<not> IsMetaRule (r_action r) (r_resource r) \<and> f_profile f \<noteq> previousDecisionProfile)"

definition publishedAction :: "publishedDescription \<Rightarrow> bytes" where
  "publishedAction d = ad_action (p_description d)"

definition selectorRuleKey :: "selectorRule \<Rightarrow> bytes" where
  "selectorRuleKey r = account (l_subject r) @ NUL # program (l_subject r) @ NUL #
     permissionKeyString (ps_permission (l_selection r)) @ NUL #
     WireName_ResourceSelectorKind (s_kind (ps_selector (l_selection r))) @ NUL #
     elems (s_target (ps_selector (l_selection r)))"

definition validSelectorRule :: "policy \<Rightarrow> decisionFile \<Rightarrow> selectorRule \<Rightarrow> bool" where
  "validSelectorRule p f r \<longleftrightarrow>
     validStoredSubject (files p) (l_subject r) \<and> validStoredSubject (files p) (l_setBy r) \<and>
     validStamp (l_setAt r) \<and> validWhy (l_why r) \<and> (l_expires r \<noteq> [] \<longrightarrow> validStamp (l_expires r)) \<and>
     k_action (ps_permission (l_selection r)) \<in> set (catalogue p f) \<and> catalog p \<noteq> None \<and>
     ValidStoredSelection (catalog p) (l_selection r) \<and>
     (l_originID r \<noteq> [] \<longrightarrow> l_permit r \<and> l_originID r \<in> o_id ` set (f_bundleOrigins f)) \<and>
     (l_questionID r \<noteq> [] \<longrightarrow> l_permit r \<and> validAnswerID (l_questionID r))"

definition validateSelectorState :: "policy \<Rightarrow> decisionFile \<Rightarrow> rights_error option" where
  "validateSelectorState p f =
     (if length (rules f) + length (f_selectorRules f) > MaxDecisionRules \<or>
         length (f_bundleOrigins f) > MaxDecisionRules \<or>
         length (f_appliedOperatorAnswers f) + length (f_appliedTypedAnswers f) > MaxAppliedOperatorAnswers
      then Some (ErrOther ''rights: combined state bound'')
      else if profileVersion (f_profile f) < 6 \<and>
         (f_selectorRules f \<noteq> [] \<or> f_bundleOrigins f \<noteq> [] \<or> f_appliedTypedAnswers f \<noteq> [])
      then Some (ErrOther ''rights: typed state in legacy profile'')
      else if \<not> (list_all validAnswerID (f_appliedTypedAnswers f) \<and> strictly_sorted_by id (f_appliedTypedAnswers f))
      then Some (ErrOther ''rights: invalid typed completion'')
      else if \<not> (list_all (\<lambda>o1. boundedDecisionString (o_id o1) 128 \<and> catalog p \<noteq> None \<and>
                   ValidateExpansion (catalog p) (o_expansion o1)) (f_bundleOrigins f) \<and>
                 strictly_sorted_by o_id (f_bundleOrigins f))
      then Some (ErrOther ''rights: invalid bundle origin'')
      else if \<not> (list_all (validSelectorRule p f) (f_selectorRules f) \<and>
                 strictly_sorted_by selectorRuleKey (f_selectorRules f))
      then Some (ErrOther ''rights: invalid selector state'')
      else None)"

definition marshalFile :: "decisionFile \<Rightarrow> bytes" where
  "marshalFile f = jprint (fileJson f)"

definition unmarshalFile :: "bytes \<Rightarrow> decisionFile option" where
  "unmarshalFile data = Option.bind (junmarshal data) (\<lambda>j. fileOf (Some j))"

definition emptyState :: decisionFile where
  "emptyState = \<lparr>f_profile = DecisionProfile, f_actions = None, f_rules = None, f_appliedOperatorAnswers = [],
     f_descriptions = [], f_selectorRules = [], f_bundleOrigins = [], f_appliedTypedAnswers = [], f_defaultSwitches = []\<rparr>"

text \<open>The checks of \<open>decodeDecision\<close> before the canonical comparison.\<close>

definition refuseState :: "policy \<Rightarrow> decisionFile \<Rightarrow> rights_error option" where
  "refuseState p f =
     (let version = profileVersion (f_profile f) in
      if version < 2 \<or> length (rules f) > MaxDecisionRules \<or> length (actions f) > MaxDecisionActions \<or>
         length (f_appliedOperatorAnswers f) > MaxAppliedOperatorAnswers \<or>
         (version < 4 \<and> f_appliedOperatorAnswers f \<noteq> []) \<or> length (f_descriptions f) > MaxDecisionActions \<or>
         (version < 5 \<and> f_descriptions f \<noteq> []) \<or> (version < 7 \<and> f_defaultSwitches f \<noteq> [])
      then Some (ErrOther ''rights: incompatible decision state'')
      else if \<not> validDefaultSwitches (files p) (f_defaultSwitches f)
      then Some (ErrOther ''rights: invalid/duplicate default switch'')
      else if \<not> (list_all validAnswerID (f_appliedOperatorAnswers f) \<and> strictly_sorted_by id (f_appliedOperatorAnswers f))
      then Some (ErrOther ''rights: invalid/duplicate applied operator answer'')
      else if \<not> (list_all (validRegisteredAction p) (actions f) \<and> strictly_sorted_by a_action (actions f))
      then Some (ErrOther ''rights: invalid/duplicate registered action'')
      else if length (catalogue p f) > MaxDecisionActions
      then Some (ErrOther ''rights: catalogue exceeds its bound'')
      else if \<not> (list_all (validPublished p f) (f_descriptions f) \<and> strictly_sorted_by publishedAction (f_descriptions f))
      then Some (ErrOther ''rights: invalid/duplicate action description'')
      else if \<not> (list_all (validRule p f) (rules f) \<and> strictly_sorted_by ruleKey (rules f))
      then Some (ErrOther ''rights: invalid/duplicate rule'')
      else None)"

definition decodeDecision :: "policy \<Rightarrow> bytes option \<Rightarrow> rights_error + decisionFile" where
  "decodeDecision p content = (case content of
     None \<Rightarrow> Inr emptyState
   | Some data \<Rightarrow>
      (case unmarshalFile data of
         None \<Rightarrow> Inl (ErrOther ''rights: malformed decision state'')
       | Some f \<Rightarrow>
          (case refuseState p f of
             Some e \<Rightarrow> Inl e
           | None \<Rightarrow>
              if data \<noteq> marshalFile f then Inl (ErrOther ''rights: noncanonical decision state'')
              else (case validateSelectorState p f of
                 Some e \<Rightarrow> Inl e
               | None \<Rightarrow> Inr (fst (canonicalizeStored (files p) f False))))))"

end
