(* ===== verification/State_Text.thy ===== *)
theory State_Text
  imports Decision_State
begin

text \<open>
  The text of a state: every state that passes the checks of \<open>decodeDecision\<close> and
  \<open>validateSelectorState\<close> holds valid UTF-8 only, so it is read back from its text as it was
  written. \<open>wellFormed\<close> names those checks; it is the invariant of the stored state.
\<close>

definition wellFormed :: "policy \<Rightarrow> decisionFile \<Rightarrow> bool" where
  "wellFormed p f \<longleftrightarrow> refuseState p f = None \<and> validateSelectorState p f = None"

subsection \<open>Valid text\<close>

lemma validUTF8_Nil [simp]: "validUTF8 []"
  by (simp add: validUTF8_def)

lemma printable_pad [simp]: "printable (pad k n)"
proof -
  have "list_all isDigit (pad k n)" by (rule allDigits_pad)
  then show ?thesis by (auto simp: printable_def isDigit_def list_all_iff)
qed

lemma printable_itoa [simp]: "printable (itoa n)"
proof -
  have "list_all isDigit (itoa n)" using itoa_digits [of n] by (simp add: allDigits_def)
  then show ?thesis by (auto simp: printable_def isDigit_def list_all_iff)
qed

lemma printable_stamp: "printable (stamp t)"
  by (auto simp: stamp_def yearText_def Let_def code_def split: prod.splits)

lemma validStamp_UTF8: "validStamp s \<Longrightarrow> validUTF8 s"
  using printable_stamp by (auto simp: validStamp_def split: option.splits intro: printable_validUTF8)

lemma validAnswerID_UTF8: "validAnswerID s \<Longrightarrow> validUTF8 s"
  by (rule bounded_validUTF8 [OF validAnswerID_bounded])

lemma actionPart_UTF8: "actionPart s m \<Longrightarrow> validUTF8 s"
  using actionPart_printable by (blast intro: printable_validUTF8)

lemma ValidActionName_UTF8: "ValidActionName a \<Longrightarrow> validUTF8 a"
  by (rule bounded_validUTF8 [OF ValidActionName_bounded])

lemma validWhy_UTF8: "validWhy s \<Longrightarrow> validUTF8 s"
  by (auto simp: validWhy_def intro: bounded_validUTF8)

lemma profile_UTF8: "profileVersion s \<noteq> 0 \<Longrightarrow> validUTF8 s"
  by (rule printable_validUTF8)
     (auto simp: profileVersion_def DecisionProfile_def typedDecisionProfile_def describedDecisionProfile_def
       completedAnswerDecisionProfile_def answerIdentityDecisionProfile_def previousDecisionProfile_def code_def
       split: if_splits)

lemma key_names:
  "validUTF8 ''Account''" "validUTF8 ''Program''" "validUTF8 ''Action''" "validUTF8 ''ResourceProfile''"
  "validUTF8 ''Kind''" "validUTF8 ''Target''" "validUTF8 ''Permission''" "validUTF8 ''Selector''"
  "validUTF8 ''BundleRef''" "validUTF8 ''DefinitionDigest''" "validUTF8 ''Selections''" "validUTF8 ''FeatureApp''"
  "validUTF8 ''AppLabel''" "validUTF8 ''Description''" "validUTF8 ''DeclaredRisk''" "validUTF8 ''action''"
  "validUTF8 ''by''" "validUTF8 ''at''" "validUTF8 ''description''" "validUTF8 ''subject''" "validUTF8 ''resource''"
  "validUTF8 ''permit''" "validUTF8 ''set_by''" "validUTF8 ''set_at''" "validUTF8 ''why''" "validUTF8 ''expires''"
  "validUTF8 ''answer_question_id''" "validUTF8 ''selection''" "validUTF8 ''origin_id''" "validUTF8 ''id''"
  "validUTF8 ''expansion''" "validUTF8 ''name''" "validUTF8 ''on''" "validUTF8 ''profile''" "validUTF8 ''actions''"
  "validUTF8 ''rules''" "validUTF8 ''applied_operator_answers''" "validUTF8 ''descriptions''"
  "validUTF8 ''selector_rules''" "validUTF8 ''bundle_origins''" "validUTF8 ''applied_typed_answers''"
  "validUTF8 ''default_switches''"
  by (rule printable_validUTF8, simp add: code_def)+

subsection \<open>Valid JSON\<close>

lemma jvalid_omitStr: "validUTF8 k \<Longrightarrow> validUTF8 s \<Longrightarrow> list_all (\<lambda>(k, v). validUTF8 k \<and> jvalid v) (omitStr k s)"
  by (simp add: omitStr_def)

lemma jvalid_omitList:
  "validUTF8 k \<Longrightarrow> \<forall>x\<in>set xs. jvalid (enc x) \<Longrightarrow> list_all (\<lambda>(k, v). validUTF8 k \<and> jvalid v) (omitList k enc xs)"
  by (auto simp: omitList_def list_all_iff)

lemma jvalid_slice: "\<forall>x\<in>set (elems s). jvalid (enc x) \<Longrightarrow> jvalid (sliceJson enc s)"
  by (cases s) (auto simp: sliceJson_def list_all_iff)

lemma jvalid_list: "\<forall>x\<in>set xs. jvalid (enc x) \<Longrightarrow> jvalid (listJson enc xs)"
  by (simp add: listJson_def jvalid_slice)

lemma jvalid_target [simp]: "jvalid (targetJson t)"
  by (cases t) (simp_all add: targetJson_def printable_validUTF8)

lemma jvalid_subject: "validStoredSubject fs s \<Longrightarrow> jvalid (subjectJson s)"
  by (auto simp: subjectJson_def validStoredSubject_def key_names intro: bounded_validUTF8)

lemma jvalid_selector: "jvalid (selectorJson s)"
  by (simp add: selectorJson_def key_names printable_validUTF8)

lemma jvalid_selection:
  "validUTF8 (k_action (ps_permission s)) \<Longrightarrow> validUTF8 (k_resourceProfile (ps_permission s)) \<Longrightarrow> jvalid (selectionJson s)"
  by (simp add: selectionJson_def keyJson_def jvalid_selector key_names)

subsection \<open>What loading a policy establishes\<close>

text \<open>Every typed row of a trusted catalogue has a valid permission key.\<close>

definition trustedCatalog :: "definitionCatalog option \<Rightarrow> bool" where
  "trustedCatalog c \<longleftrightarrow> (case c of
     None \<Rightarrow> True
   | Some d \<Rightarrow> (case c_selectors d of
       None \<Rightarrow> True
     | Some sc \<Rightarrow> \<forall>k\<in>fst ` set (sc_definitions sc). validPermissionKey k))"

definition validSeed :: "bytes list \<Rightarrow> bool" where
  "validSeed s \<longleftrightarrow> s \<noteq> [] \<and> length s \<le> MaxDecisionActions \<and> sorted_wrt (<) s \<and> list_all (\<lambda>a. boundedDecisionString a 128) s"

definition configured :: "policy \<Rightarrow> bool" where
  "configured p \<longleftrightarrow> validSeed (seed p) \<and> trustedCatalog (catalog p)"

lemma SelectorDefinition_key:
  "trustedCatalog c \<Longrightarrow> SelectorDefinition c k = Some d \<Longrightarrow> validPermissionKey k"
  by (force simp: trustedCatalog_def SelectorDefinition_def split: option.splits dest: map_of_SomeD)

lemma ValidStoredSelection_key:
  "trustedCatalog c \<Longrightarrow> ValidStoredSelection c s \<Longrightarrow> validPermissionKey (ps_permission s)"
  by (auto simp: ValidStoredSelection_def split: option.splits intro: SelectorDefinition_key)

lemma jvalid_storedSelection:
  "trustedCatalog c \<Longrightarrow> ValidStoredSelection c s \<Longrightarrow> jvalid (selectionJson s)"
  using ValidStoredSelection_key [of c s]
  by (intro jvalid_selection) (auto simp: validPermissionKey_def intro: ValidActionName_UTF8 bounded_validUTF8 definitionProfile_bounded)

lemma jvalid_expansion:
  "trustedCatalog c \<Longrightarrow> ValidateExpansion c x \<Longrightarrow> jvalid (expansionJson x)"
  by (auto simp: expansionJson_def ValidateExpansion_def key_names jvalid_selector list_all_iff
      intro: bounded_validUTF8 definitionProfile_bounded jvalid_list jvalid_storedSelection)

text \<open>The rows \<open>addSelectorRows\<close> accepts have valid keys, and the legacy rows do.\<close>

lemma addSelectorRows_keys:
  "addSelectorRows profiles ds acc = Inr rows \<Longrightarrow> \<forall>k\<in>fst ` set acc. validPermissionKey k \<Longrightarrow>
   \<forall>k\<in>fst ` set rows. validPermissionKey k"
proof (induction ds arbitrary: acc)
  case (Cons d ds)
  from Cons.prems(1) have n: "refuseSelectorRow profiles acc d = None"
    "addSelectorRows profiles ds (acc @ [(keyOf_definition (sd_definition d), d)]) = Inr rows"
    by (simp_all split: option.split_asm)
  from n(1) have "validPermissionKey (keyOf_definition (sd_definition d))"
    unfolding refuseSelectorRow_def Let_def by (simp split: if_split_asm)
  with Cons.IH [OF n(2)] Cons.prems(2) show ?case by simp
qed simp

lemma addDefinitions_valid:
  "addDefinitions profiles ds acc = Inr out \<Longrightarrow> \<forall>m\<in>snd ` set acc. validDefinition profiles m \<Longrightarrow>
   \<forall>m\<in>snd ` set out. validDefinition profiles m"
proof (induction ds arbitrary: acc)
  case (Cons d ds)
  from Cons.prems(1) have n: "validDefinition profiles d"
    "addDefinitions profiles ds (acc @ [(pd_action d, d)]) = Inr out"
    by (simp_all split: if_split_asm)
  show ?case
    by (rule Cons.IH [OF n(2)]) (use n(1) Cons.prems(2) in \<open>simp only: set_append image_Un; simp\<close>)
qed simp

lemma NewDefinitionCatalog_Inr:
  assumes "NewDefinitionCatalog defs profiles = Inr c"
  shows "list_all (\<lambda>(name, validate). definitionProfile name \<and> validate \<noteq> None) profiles"
    and "c_profiles c = map (\<lambda>(name, validate). (name, the validate)) profiles"
    and "addDefinitions (c_profiles c) defs [] = Inr (c_definitions c)"
proof -
  let ?bound = "map (\<lambda>(name, validate). (name, the validate)) profiles"
  have ok: "\<not> list_ex (\<lambda>(name, validate). \<not> definitionProfile name \<or> validate = None) profiles"
  proof
    assume "list_ex (\<lambda>(name, validate). \<not> definitionProfile name \<or> validate = None) profiles"
    with assms show False unfolding NewDefinitionCatalog_def by (simp only: if_True sum.distinct)
  qed
  then show "list_all (\<lambda>(name, validate). definitionProfile name \<and> validate \<noteq> None) profiles"
    by (auto simp: list_all_iff list_ex_iff)
  from assms ok obtain ds where "addDefinitions ?bound defs [] = Inr ds"
    and "c = \<lparr>c_definitions = ds, c_profiles = ?bound, c_selectors = None\<rparr>"
    unfolding NewDefinitionCatalog_def Let_def by (cases "addDefinitions ?bound defs []") simp_all
  then show "c_profiles c = ?bound" "addDefinitions (c_profiles c) defs [] = Inr (c_definitions c)" by simp_all
qed

lemma WithSelectors_rows:
  assumes "WithSelectors (Some c) rows bindings bundles links = Inr out"
  shows "\<exists>sc. c_selectors out = Some sc \<and>
    addSelectorRows bindings rows (map (\<lambda>m. (keyOf_definition m, legacyRow m)) (Definitions (Some c))) = Inr (sc_definitions sc)"
  using assms unfolding WithSelectors_def Let_def by (auto split: if_split_asm sum.split_asm)

theorem WithSelectors_trusted:
  assumes new: "NewDefinitionCatalog defs profiles = Inr c"
    and typed: "WithSelectors (Some c) rows bindings bundles links = Inr out"
  shows "trustedCatalog (Some out)"
proof -
  have bp: "definitionProfile name" if "map_of (c_profiles c) name \<noteq> None" for name
  proof -
    from that obtain v where "(name, v) \<in> set (c_profiles c)" by (auto dest: map_of_SomeD)
    then obtain w where "(name, w) \<in> set profiles" by (auto simp: NewDefinitionCatalog_Inr(2) [OF new])
    then show ?thesis using NewDefinitionCatalog_Inr(1) [OF new] by (auto simp: list_all_iff)
  qed
  have legacy: "validPermissionKey (keyOf_definition m)" if "m \<in> set (Definitions (Some c))" for m
    using addDefinitions_valid [OF NewDefinitionCatalog_Inr(3) [OF new]] that bp
    by (auto simp: Definitions_def validDefinition_def validPermissionKey_def keyOf_definition_def)
  obtain sc where sc: "c_selectors out = Some sc"
    and rs: "addSelectorRows bindings rows (map (\<lambda>m. (keyOf_definition m, legacyRow m)) (Definitions (Some c))) = Inr (sc_definitions sc)"
    using WithSelectors_rows [OF typed] by blast
  have "\<forall>k\<in>fst ` set (sc_definitions sc). validPermissionKey k"
    by (rule addSelectorRows_keys [OF rs]) (use legacy in auto)
  with sc show ?thesis by (simp add: trustedCatalog_def)
qed

subsection \<open>A well-formed state reads back\<close>

lemma catalogue_UTF8:
  assumes "validSeed (seed p)" and "\<forall>a\<in>set (actions f). ValidActionName (a_action a)"
  shows "a \<in> set (catalogue p f) \<Longrightarrow> boundedDecisionString a 128"
  using assms by (auto simp: set_catalogue validSeed_def list_all_iff intro: ValidActionName_bounded)

lemma jvalid_action: "validRegisteredAction p a \<Longrightarrow> jvalid (actionJson a)"
  by (auto simp: actionJson_def validRegisteredAction_def key_names
      intro: jvalid_subject ValidActionName_UTF8 validStamp_UTF8)

lemma jvalid_published: "validPublished p f d \<Longrightarrow> jvalid (publishedJson d)"
  by (auto simp: publishedJson_def descriptionJson_def validPublished_def validStoredDescription_def descriptionText_def key_names
      intro: jvalid_subject ValidActionName_UTF8 validStamp_UTF8 bounded_validUTF8)

lemma optional_UTF8: "(s \<noteq> [] \<longrightarrow> P) \<Longrightarrow> (P \<Longrightarrow> validUTF8 s) \<Longrightarrow> validUTF8 s"
  by (cases "s = []") simp_all

lemma jvalid_rule:
  assumes v: "validRule p f r"
  shows "jvalid (ruleJson r)"
proof -
  have "validUTF8 (r_expires r)"
    by (rule optional_UTF8 [of _ "validStamp (r_expires r)"]) (use v in \<open>simp_all add: validRule_def validStamp_UTF8\<close>)
  moreover have "validUTF8 (r_questionID r)"
    by (rule optional_UTF8 [of _ "boundedDecisionString (r_questionID r) 128"])
       (use v in \<open>auto simp: validRule_def intro: bounded_validUTF8\<close>)
  moreover have "validUTF8 (r_why r)" "validUTF8 (r_setAt r)" "validUTF8 (r_action r)" "validUTF8 (r_resource r)"
    "jvalid (subjectJson (r_subject r))" "jvalid (subjectJson (r_setBy r))"
    using v by (auto simp: validRule_def ValidDecisionQuery_def
        intro: validWhy_UTF8 validStamp_UTF8 bounded_validUTF8 jvalid_subject)
  ultimately show ?thesis by (simp add: ruleJson_def key_names jvalid_omitStr)
qed

lemma jvalid_selectorRule:
  assumes t: "trustedCatalog (catalog p)" and os: "\<forall>o1\<in>set (f_bundleOrigins f). boundedDecisionString (o_id o1) 128"
    and v: "validSelectorRule p f r"
  shows "jvalid (selectorRuleJson r)"
proof -
  have "validUTF8 (l_expires r)"
    by (rule optional_UTF8 [of _ "validStamp (l_expires r)"]) (use v in \<open>simp_all add: validSelectorRule_def validStamp_UTF8\<close>)
  moreover have "validUTF8 (l_questionID r)"
    by (rule optional_UTF8 [of _ "validAnswerID (l_questionID r)"])
       (use v in \<open>simp_all add: validSelectorRule_def validAnswerID_UTF8\<close>)
  moreover have "validUTF8 (l_originID r)"
  proof (rule optional_UTF8 [of _ "l_originID r \<in> o_id ` set (f_bundleOrigins f)"])
    show "l_originID r \<noteq> [] \<longrightarrow> l_originID r \<in> o_id ` set (f_bundleOrigins f)"
      using v by (simp add: validSelectorRule_def)
    show "l_originID r \<in> o_id ` set (f_bundleOrigins f) \<Longrightarrow> validUTF8 (l_originID r)"
      using os bounded_validUTF8 by (metis imageE)
  qed
  moreover have "validUTF8 (l_why r)" "validUTF8 (l_setAt r)" "jvalid (selectionJson (l_selection r))"
    "jvalid (subjectJson (l_subject r))" "jvalid (subjectJson (l_setBy r))"
    using v by (auto simp: validSelectorRule_def
        intro: validWhy_UTF8 validStamp_UTF8 jvalid_subject jvalid_storedSelection [OF t])
  ultimately show ?thesis by (simp add: selectorRuleJson_def key_names jvalid_omitStr)
qed

lemma jvalid_origin: "trustedCatalog c \<Longrightarrow> boundedDecisionString (o_id o1) 128 \<Longrightarrow> ValidateExpansion c (o_expansion o1) \<Longrightarrow>
    jvalid (originJson o1)"
  by (auto simp: originJson_def key_names intro: bounded_validUTF8 jvalid_expansion)

lemma jvalid_switch: "validDefaultName (w_name s) \<Longrightarrow> validStoredSubject fs (w_setBy s) \<Longrightarrow> validStamp (w_setAt s) \<Longrightarrow>
    jvalid (switchJson s)"
  by (auto simp: switchJson_def validDefaultName_def key_names intro: actionPart_UTF8 jvalid_subject validStamp_UTF8)

lemma refuseState_None:
  assumes "refuseState p f = None"
  shows "2 \<le> profileVersion (f_profile f)" "length (rules f) \<le> MaxDecisionRules"
    "length (f_appliedOperatorAnswers f) \<le> MaxAppliedOperatorAnswers"
    "profileVersion (f_profile f) < 4 \<Longrightarrow> f_appliedOperatorAnswers f = []"
    "profileVersion (f_profile f) < 5 \<Longrightarrow> f_descriptions f = []"
    "profileVersion (f_profile f) < 7 \<Longrightarrow> f_defaultSwitches f = []"
    "validDefaultSwitches (files p) (f_defaultSwitches f)"
    "list_all validAnswerID (f_appliedOperatorAnswers f)" "strictly_sorted_by id (f_appliedOperatorAnswers f)"
    "list_all (validRegisteredAction p) (actions f)" "strictly_sorted_by a_action (actions f)"
    "length (actions f) \<le> MaxDecisionActions" "length (f_descriptions f) \<le> MaxDecisionActions"
    "length (catalogue p f) \<le> MaxDecisionActions"
    "list_all (validPublished p f) (f_descriptions f)" "strictly_sorted_by publishedAction (f_descriptions f)"
    "list_all (validRule p f) (rules f)" "strictly_sorted_by ruleKey (rules f)"
  using assms unfolding refuseState_def Let_def by (simp_all split: if_split_asm)

lemma validateSelectorState_None:
  assumes "validateSelectorState p f = None"
  shows "length (rules f) + length (f_selectorRules f) \<le> MaxDecisionRules"
    "length (f_bundleOrigins f) \<le> MaxDecisionRules"
    "length (f_appliedOperatorAnswers f) + length (f_appliedTypedAnswers f) \<le> MaxAppliedOperatorAnswers"
    "profileVersion (f_profile f) < 6 \<Longrightarrow> f_selectorRules f = [] \<and> f_bundleOrigins f = [] \<and> f_appliedTypedAnswers f = []"
    "list_all validAnswerID (f_appliedTypedAnswers f)" "strictly_sorted_by id (f_appliedTypedAnswers f)"
    "list_all (\<lambda>o1. boundedDecisionString (o_id o1) 128 \<and> catalog p \<noteq> None \<and>
       ValidateExpansion (catalog p) (o_expansion o1)) (f_bundleOrigins f)"
    "strictly_sorted_by o_id (f_bundleOrigins f)"
    "list_all (validSelectorRule p f) (f_selectorRules f)" "strictly_sorted_by selectorRuleKey (f_selectorRules f)"
  using assms unfolding validateSelectorState_def by (simp_all split: if_split_asm)

lemma jvalid_file:
  assumes c: "configured p" and w: "wellFormed p f"
  shows "jvalid (fileJson f)"
proof -
  from w have r: "refuseState p f = None" and v: "validateSelectorState p f = None"
    by (simp_all add: wellFormed_def)
  note R = refuseState_None [OF r] and V = validateSelectorState_None [OF v]
  have t: "trustedCatalog (catalog p)" using c by (simp add: configured_def)
  have os: "\<forall>o1\<in>set (f_bundleOrigins f). boundedDecisionString (o_id o1) 128"
    using V(7) by (simp add: list_all_iff)
  have "validUTF8 (f_profile f)" using R(1) by (intro profile_UTF8) simp
  moreover have "jvalid (sliceJson actionJson (f_actions f))"
    using R(10) jvalid_action [of p] by (intro jvalid_slice) (auto simp: list_all_iff)
  moreover have "jvalid (sliceJson ruleJson (f_rules f))"
    using R(17) jvalid_rule [of p f] by (intro jvalid_slice) (auto simp: list_all_iff)
  moreover have "\<forall>x\<in>set (f_appliedOperatorAnswers f). jvalid (JStr x)"
    using R(8) by (simp add: list_all_iff validAnswerID_UTF8)
  moreover have "\<forall>x\<in>set (f_descriptions f). jvalid (publishedJson x)"
    using R(15) jvalid_published [of p f] by (auto simp: list_all_iff)
  moreover have "\<forall>x\<in>set (f_selectorRules f). jvalid (selectorRuleJson x)"
    using V(9) jvalid_selectorRule [OF t os] by (auto simp: list_all_iff)
  moreover have "\<forall>x\<in>set (f_bundleOrigins f). jvalid (originJson x)"
    using V(7) jvalid_origin [OF t] by (auto simp: list_all_iff)
  moreover have "\<forall>x\<in>set (f_appliedTypedAnswers f). jvalid (JStr x)"
    using V(5) by (simp add: list_all_iff validAnswerID_UTF8)
  moreover have "\<forall>x\<in>set (f_defaultSwitches f). jvalid (switchJson x)"
    using R(7) jvalid_switch [of _ "files p"] by (auto simp: validDefaultSwitches_def)
  ultimately show ?thesis by (simp add: fileJson_def key_names jvalid_omitList)
qed

lemma unmarshalFile_marshalFile: "jvalid (fileJson f) \<Longrightarrow> unmarshalFile (marshalFile f) = Some f"
  by (simp add: unmarshalFile_def marshalFile_def junmarshal_jprint)

lemma decodeDecision_marshalFile:
  assumes "configured p" and "wellFormed p f"
  shows "decodeDecision p (Some (marshalFile f)) = Inr (fst (canonicalizeStored (files p) f False))"
  using assms(2) unmarshalFile_marshalFile [OF jvalid_file [OF assms]]
  by (simp add: decodeDecision_def wellFormed_def)

lemma decodeDecision_Some:
  assumes "decodeDecision p (Some data) = Inr f"
  shows "\<exists>g. wellFormed p g \<and> data = marshalFile g \<and> f = fst (canonicalizeStored (files p) g False)"
  using assms unfolding decodeDecision_def wellFormed_def
  by (auto split: option.split_asm if_split_asm)

text \<open>A state that is well-formed and in canonical spelling is what a read returns.\<close>

lemma decodeDecision_written:
  assumes "configured p" and "wellFormed p f" and "spelledFile (files p) False f"
  shows "decodeDecision p (Some (marshalFile f)) = Inr f"
  using decodeDecision_marshalFile [OF assms(1,2)] canonicalizeStored_spelled [OF assms(3)] by simp

lemma wellFormed_emptyState: "validSeed (seed p) \<Longrightarrow> wellFormed p emptyState"
  by (simp add: wellFormed_def refuseState_def validateSelectorState_def emptyState_def validSeed_def
      profileVersion_def validDefaultSwitches_def catalogue_def)

end
