(* ===== verification/Store.thy ===== *)
theory Store
  imports State_Text
begin

text \<open>
  The policy's state file as operations meet it: \<open>regular\<close>, the bounded read with the
  \<open>decodedState\<close> cache, the \<open>storedKeys\<close> cache, and \<open>change\<close>, one locked edit run again
  while a writer outside the lock moves the file (decision_policy.go). The file store
  (abstraction-cas) is not part of the repository: each run of an edit is one \<open>turn\<close>, which
  says what the authorization callback answers there, what the clock reads, and what becomes
  of the write. A turn that denies the file never runs the edit.
\<close>

subsection \<open>The file\<close>

datatype onDisk = Missing | NotRegular | LstatFails rights_error | Stored

definition regular :: "policy \<Rightarrow> onDisk \<Rightarrow> rights_error option" where
  "regular p disk = (case disk of
     Missing \<Rightarrow> if stateRequired p then Some ErrDecisionStateMissing else None
   | LstatFails e \<Rightarrow> Some e
   | NotRegular \<Rightarrow> Some (ErrOther ''rights: decision state must be regular'')
   | Stored \<Rightarrow> None)"

subsection \<open>The decoded state\<close>

text \<open>\<open>StoredKeyReuse\<close> is two seconds; an instant is in nanoseconds.\<close>

definition StoredKeyReuse :: nat where "StoredKeyReuse = 2000000000"

definition recent :: "instant \<Rightarrow> instant \<Rightarrow> bool" where
  "recent read now \<longleftrightarrow> int now - int read < int StoredKeyReuse"

record decodedState =
  dc_data :: "bytes option"
  dc_f :: decisionFile
  dc_revision :: bytes
  dc_digest :: bytes
  dc_read :: instant

definition decoded_get :: "decodedState \<Rightarrow> bytes option \<Rightarrow> bytes \<Rightarrow> instant \<Rightarrow> (decisionFile \<times> bytes) option" where
  "decoded_get c data digest now =
     (if data = None \<or> dc_data c = None \<or> dc_digest c \<noteq> digest \<or> \<not> recent (dc_read c) now \<or> dc_data c \<noteq> data
      then None else Some (dc_f c, dc_revision c))"

definition decoded_reset :: "decodedState \<Rightarrow> decodedState" where
  "decoded_reset c = c\<lparr>dc_data := None\<rparr>"

definition decoded_put :: "decodedState \<Rightarrow> bytes option \<Rightarrow> decisionFile \<Rightarrow> bytes \<Rightarrow> bytes \<Rightarrow> instant \<Rightarrow> decodedState" where
  "decoded_put c data f rvn digest now =
     (if data = None then c
      else \<lparr>dc_data = data, dc_f = f, dc_revision = rvn, dc_digest = digest, dc_read = now\<rparr>)"

text \<open>\<open>got\<close> is what the file store's bounded read returns.\<close>

definition readDecision :: "policy \<Rightarrow> onDisk \<Rightarrow> rights_error + bytes option \<Rightarrow> decodedState \<Rightarrow> instant \<Rightarrow>
    (rights_error + decisionFile \<times> bytes) \<times> decodedState" where
  "readDecision p disk got cache now =
     (case regular p disk of
        Some e \<Rightarrow> (Inl e, cache)
      | None \<Rightarrow> (case got of
          Inl e \<Rightarrow> (Inl e, cache)
        | Inr data \<Rightarrow> (let digest = DefinitionDigest (catalog p) in
            case decoded_get cache data digest now of
              Some hit \<Rightarrow> (Inr hit, cache)
            | None \<Rightarrow> (case decodeDecision p data of
                Inl e \<Rightarrow> (Inl e, cache)
              | Inr f \<Rightarrow> (Inr (f, revision p f), decoded_put cache data f (revision p f) digest now)))))"

text \<open>A cache is coherent with the configured policy when a hit is what decoding gives.\<close>

definition coherent :: "policy \<Rightarrow> decodedState \<Rightarrow> bool" where
  "coherent p c \<longleftrightarrow>
     (dc_data c \<noteq> None \<and> dc_digest c = DefinitionDigest (catalog p) \<longrightarrow>
        decodeDecision p (dc_data c) = Inr (dc_f c) \<and> dc_revision c = revision p (dc_f c))"

definition uncachedRead :: "policy \<Rightarrow> onDisk \<Rightarrow> rights_error + bytes option \<Rightarrow> rights_error + decisionFile \<times> bytes" where
  "uncachedRead p disk got =
     (case regular p disk of Some e \<Rightarrow> Inl e | None \<Rightarrow> (case got of Inl e \<Rightarrow> Inl e | Inr data \<Rightarrow>
        (case decodeDecision p data of Inl e \<Rightarrow> Inl e | Inr f \<Rightarrow> Inr (f, revision p f))))"

lemma decoded_get_hit: "decoded_get c data digest now = Some hit \<Longrightarrow>
    data \<noteq> None \<and> dc_data c = data \<and> dc_digest c = digest \<and> hit = (dc_f c, dc_revision c)"
  by (auto simp: decoded_get_def split: if_splits)

lemma readDecision_coherent:
  assumes "coherent p c"
  shows "fst (readDecision p disk got c now) = uncachedRead p disk got \<and> coherent p (snd (readDecision p disk got c now))"
  using assms decoded_get_hit
  by (auto simp: readDecision_def uncachedRead_def Let_def coherent_def decoded_put_def split: option.splits sum.splits)
     blast+

lemma reset_coherent: "coherent q (decoded_reset c)"
  by (simp add: coherent_def decoded_reset_def)

text \<open>\<open>ConfigureDefaults\<close> forgets the decoded state: its revision is another policy's.\<close>

definition ConfigureDefaults :: "policy \<Rightarrow> decodedState \<Rightarrow> bytes \<Rightarrow> accountDefault list \<Rightarrow> (subject \<Rightarrow> bool) option \<Rightarrow>
    rights_error + policy \<times> decodedState" where
  "ConfigureDefaults p cache acct ds excluded =
     (if length ds > MaxAccountDefaults \<or> (acct \<noteq> [] \<and> \<not> boundedDecisionString acct 128)
      then Inl (ErrOther ''rights: invalid account defaults'')
      else if \<not> (list_all (\<lambda>d. validDefaultName (df_name d) \<and>
                   (ValidActionName (df_action d) \<or> df_action d \<in> set (seed p)) \<and>
                   (df_everyResource d = (df_resource d = [])) \<and>
                   (df_everyResource d \<or> ValidDecisionQuery (df_action d) (df_resource d))) ds \<and>
                 distinct (map df_name ds))
      then Inl (ErrOther ''rights: invalid account default'')
      else Inr (p\<lparr>configuredDefaults := ds, defaultAccount := acct, defaultExcluded := excluded\<rparr>, decoded_reset cache))"

lemma ConfigureDefaults_coherent:
  "ConfigureDefaults p c acct ds excluded = Inr (q, c') \<Longrightarrow> coherent q c'"
  by (auto simp: ConfigureDefaults_def reset_coherent split: if_splits)

subsection \<open>Stored program keys\<close>

record storedKeys =
  sk_revision :: bytes
  sk_keys :: "(bytes \<rightharpoonup> bytes \<times> instant) option"

text \<open>The two locked sections of \<open>storedKeys.key\<close>; the program's key is read between them.\<close>

definition storedKeys_lookup :: "storedKeys \<Rightarrow> bytes \<Rightarrow> bytes \<Rightarrow> instant \<Rightarrow> bytes option \<times> storedKeys" where
  "storedKeys_lookup c rvn prog now =
     (let c1 = (if sk_revision c \<noteq> rvn \<or> sk_keys c = None then \<lparr>sk_revision = rvn, sk_keys = Some Map.empty\<rparr> else c) in
      case the (sk_keys c1) prog of
        Some (key, read) \<Rightarrow> (if recent read now then (Some key, c1) else (None, c1))
      | None \<Rightarrow> (None, c1))"

definition storedKeys_store :: "storedKeys \<Rightarrow> bytes \<Rightarrow> bytes \<Rightarrow> bytes \<Rightarrow> instant \<Rightarrow> storedKeys" where
  "storedKeys_store c rvn prog key now =
     (if sk_revision c = rvn then c\<lparr>sk_keys := map_option (\<lambda>m. m(prog \<mapsto> (key, now))) (sk_keys c)\<rparr> else c)"

definition storedKeys_key :: "(bytes \<Rightarrow> bytes) \<Rightarrow> storedKeys \<Rightarrow> bytes \<Rightarrow> bytes \<Rightarrow> instant \<Rightarrow> bytes \<times> storedKeys" where
  "storedKeys_key reading c rvn prog now =
     (case storedKeys_lookup c rvn prog now of
        (Some key, c1) \<Rightarrow> (key, c1)
      | (None, c1) \<Rightarrow> (reading prog, storedKeys_store c1 rvn prog (reading prog) now))"

text \<open>\<open>world t\<close> gives the file identities at instant \<open>t\<close>; every entry was read in its revision.\<close>

definition truthful :: "(instant \<Rightarrow> bytes \<Rightarrow> bytes) \<Rightarrow> storedKeys \<Rightarrow> bool" where
  "truthful world c \<longleftrightarrow>
     (case sk_keys c of None \<Rightarrow> True | Some m \<Rightarrow> \<forall>prog key t. m prog = Some (key, t) \<longrightarrow> key = world t prog)"

lemma storedKeys_key_truthful:
  assumes t: "truthful world c" and k: "storedKeys_key (world now) c rvn prog now = (key, c')"
  shows "truthful world c' \<and> (\<exists>read. recent read now \<and> key = world read prog)"
proof -
  obtain hit c1 where l: "storedKeys_lookup c rvn prog now = (hit, c1)" by fastforce
  have c1: "truthful world c1" "sk_keys c1 \<noteq> None"
    using l t by (auto simp: storedKeys_lookup_def Let_def truthful_def split: option.splits if_splits)
  have now: "recent now now" by (simp add: recent_def StoredKeyReuse_def)
  show ?thesis
  proof (cases hit)
    case (Some v)
    with l obtain m read where "sk_keys c1 = Some m" "m prog = Some (v, read)" "recent read now"
      using c1(2) by (auto simp: storedKeys_lookup_def Let_def split: option.splits if_splits)
    with c1(1) have "v = world read prog \<and> recent read now" by (auto simp: truthful_def)
    moreover have "key = v" "c' = c1" using k l Some by (simp_all add: storedKeys_key_def)
    ultimately show ?thesis using c1(1) by blast
  next
    case None
    then have "key = world now prog" and c': "c' = storedKeys_store c1 rvn prog (world now prog) now"
      using k l by (auto simp: storedKeys_key_def)
    moreover have "truthful world c'"
      using c1 by (auto simp: c' truthful_def storedKeys_store_def split: option.splits if_splits)
    ultimately show ?thesis using now by blast
  qed
qed

subsection \<open>One locked change\<close>

text \<open>What the file store does with a write: the write lands, a writer outside the lock has
  moved the file to other content, or the store fails after the edit or before it.\<close>

datatype fate = Settles | Moves "bytes option" | Fails rights_error | Denied rights_error

record turn =
  t_authorize :: "rights_error option"
  t_now :: instant
  t_fate :: fate

text \<open>An edit's result, and its error, or what it writes: \<open>Inr None\<close> is Go's \<open>nil, nil\<close>.\<close>

type_synonym 'r edit = "turn \<Rightarrow> bytes option \<Rightarrow> 'r \<times> (rights_error + bytes option)"

definition checkedChange :: "policy \<Rightarrow> 'r edit \<Rightarrow> 'r edit" where
  "checkedChange p edit t content = (case edit t content of
     (r, Inl e) \<Rightarrow> (r, Inl e)
   | (r, Inr None) \<Rightarrow> (r, Inr None)
   | (r, Inr (Some next)) \<Rightarrow>
      if length next > MaxDecisionBytes then (r, Inl (ErrOther ''rights: state byte bound''))
      else (case decodeDecision p (Some next) of
        Inl e \<Rightarrow> (r, Inl e)
      | Inr _ \<Rightarrow> (r, Inr (Some next))))"

text \<open>\<open>cas.ChangeLimit\<close>: the result, the error, and the content afterwards.\<close>

definition ChangeLimit :: "'r edit \<Rightarrow> turn \<Rightarrow> 'r \<Rightarrow> bytes option \<Rightarrow> 'r \<times> rights_error option \<times> bytes option" where
  "ChangeLimit edit t r content = (case t_fate t of
     Denied e \<Rightarrow> (r, Some e, content)
   | fate \<Rightarrow> (case edit t content of
       (r', Inl e) \<Rightarrow> (r', Some e, content)
     | (r', Inr None) \<Rightarrow> (r', None, content)
     | (r', Inr (Some next)) \<Rightarrow> (case fate of
         Moves other \<Rightarrow> (r', Some ErrMoved, other)
       | Fails e \<Rightarrow> (r', Some e, content)
       | _ \<Rightarrow> (r', None, Some next))))"

definition decisionChangeAttempts :: nat where "decisionChangeAttempts = 4"

fun changeLoop :: "nat \<Rightarrow> 'r edit \<Rightarrow> (nat \<Rightarrow> turn) \<Rightarrow> nat \<Rightarrow> 'r \<Rightarrow> bytes option \<Rightarrow> rights_error option \<Rightarrow>
    'r \<times> rights_error option \<times> bytes option" where
  "changeLoop 0 edit turns i r content err = (r, err, content)"
| "changeLoop (Suc n) edit turns i r content err =
     (case ChangeLimit edit (turns i) r content of
        (r', err', content') \<Rightarrow>
          if err' \<noteq> Some ErrMoved then (r', err', content')
          else changeLoop n edit turns (Suc i) r' content' err')"

definition change :: "policy \<Rightarrow> 'r edit \<Rightarrow> (nat \<Rightarrow> turn) \<Rightarrow> 'r \<Rightarrow> bytes option \<Rightarrow> 'r \<times> rights_error option \<times> bytes option" where
  "change p edit turns r content =
     changeLoop decisionChangeAttempts (checkedChange p edit) turns 0 r content None"

text \<open>\<open>changeContext\<close> differs in bounding the lock wait only: a turn may be denied.\<close>

definition changeContext :: "policy \<Rightarrow> 'r edit \<Rightarrow> (nat \<Rightarrow> turn) \<Rightarrow> 'r \<Rightarrow> bytes option \<Rightarrow> 'r \<times> rights_error option \<times> bytes option" where
  "changeContext p edit turns r content =
     changeLoop decisionChangeAttempts (checkedChange p edit) turns 0 r content None"

text \<open>The functions \<open>OnChange\<close> added, in order, and the calls \<open>committed\<close> makes.\<close>

definition OnChange :: "nat list \<Rightarrow> nat option \<Rightarrow> nat list" where
  "OnChange registered changed = (case changed of None \<Rightarrow> registered | Some entry \<Rightarrow> registered @ [entry])"

definition removeOnChange :: "nat list \<Rightarrow> nat \<Rightarrow> nat list" where
  "removeOnChange registered entry = filter (\<lambda>e. e \<noteq> entry) registered"

definition committed :: "nat list \<Rightarrow> rights_error option \<Rightarrow> nat list" where
  "committed registered err = (case err of None \<Rightarrow> registered | Some _ \<Rightarrow> [])"

text \<open>A content an operation can find: the first, or what a writer outside the lock left.\<close>

definition found :: "(nat \<Rightarrow> turn) \<Rightarrow> bytes option \<Rightarrow> bytes option \<Rightarrow> bool" where
  "found turns content c \<longleftrightarrow> c = content \<or> (\<exists>j<decisionChangeAttempts. t_fate (turns j) = Moves c)"

text \<open>The run that ends a change without an error: what it found and what it left.\<close>

definition endedBy :: "'r edit \<Rightarrow> turn \<Rightarrow> bytes option \<Rightarrow> 'r \<Rightarrow> bytes option \<Rightarrow> bool" where
  "endedBy edit t c r after \<longleftrightarrow> fst (edit t c) = r \<and>
     (snd (edit t c) = Inr None \<and> after = c \<or> snd (edit t c) = Inr after \<and> after \<noteq> None \<and> t_fate t = Settles)"

lemma ChangeLimit_ended:
  "ChangeLimit edit t r content = (r', None, after) \<Longrightarrow> endedBy edit t content r' after"
  by (auto simp: ChangeLimit_def endedBy_def split: fate.splits prod.splits sum.splits option.splits)

lemma ChangeLimit_failed:
  "ChangeLimit edit t r content = (r', Some e, after) \<Longrightarrow> after = content \<or> t_fate t = Moves after"
  by (auto simp: ChangeLimit_def split: fate.splits prod.splits sum.splits option.splits)

lemma changeLoop_ended:
  assumes "changeLoop n edit turns i r content err = (r', None, after)" and "0 < n \<or> err \<noteq> None"
  shows "\<exists>k c. i \<le> k \<and> k < i + n \<and> (c = content \<or> (\<exists>j. i \<le> j \<and> j < k \<and> t_fate (turns j) = Moves c)) \<and>
    endedBy edit (turns k) c r' after"
  using assms
proof (induction n arbitrary: i r content err)
  case 0
  then show ?case by simp
next
  case (Suc n)
  obtain r1 e1 c1 where s: "ChangeLimit edit (turns i) r content = (r1, e1, c1)" by (metis prod_cases3)
  show ?case
  proof (cases "e1 = Some ErrMoved")
    case False
    then have "r1 = r'" "e1 = None" "c1 = after" using Suc.prems(1) s by simp_all
    with ChangeLimit_ended [of edit "turns i" r content r' after] s show ?thesis by auto
  next
    case True
    then have "changeLoop n edit turns (Suc i) r1 c1 e1 = (r', None, after)" using Suc.prems(1) s by simp
    from Suc.IH [OF this] True obtain k c where k: "Suc i \<le> k" "k < Suc i + n" "endedBy edit (turns k) c r' after"
      and c: "c = c1 \<or> (\<exists>j. Suc i \<le> j \<and> j < k \<and> t_fate (turns j) = Moves c)" by auto
    from ChangeLimit_failed [of edit "turns i" r content r1 ErrMoved c1] s True
    have "c1 = content \<or> t_fate (turns i) = Moves c1" by simp
    with c have "c = content \<or> (\<exists>j. i \<le> j \<and> j < k \<and> t_fate (turns j) = Moves c)"
      using k(1) by (metis Suc_le_lessD less_imp_le_nat order_refl)
    with k show ?thesis by (metis Suc_leD add_Suc_right add_Suc)
  qed
qed

lemma changeLoop_failed:
  assumes "changeLoop n edit turns i r content err = (r', Some e, after)"
  shows "after = content \<or> (\<exists>j. i \<le> j \<and> j < i + n \<and> t_fate (turns j) = Moves after)"
  using assms
proof (induction n arbitrary: i r content err)
  case 0
  then show ?case by simp
next
  case (Suc n)
  obtain r1 e1 c1 where s: "ChangeLimit edit (turns i) r content = (r1, e1, c1)" by (metis prod_cases3)
  show ?case
  proof (cases "e1 = Some ErrMoved")
    case False
    then have "e1 = Some e" "c1 = after" using Suc.prems s by simp_all
    with ChangeLimit_failed [of edit "turns i" r content r1 e after] s show ?thesis by auto
  next
    case True
    then have "changeLoop n edit turns (Suc i) r1 c1 e1 = (r', Some e, after)" using Suc.prems s by simp
    from Suc.IH [OF this] ChangeLimit_failed [of edit "turns i" r content r1 ErrMoved c1] s True
    show ?thesis by (metis add_Suc add_Suc_right le_eq_less_or_eq less_add_Suc1 Suc_le_eq)
  qed
qed

lemma change_ended:
  assumes "change p edit turns r content = (r', None, after)"
  shows "\<exists>k<decisionChangeAttempts. \<exists>c. found turns content c \<and> endedBy (checkedChange p edit) (turns k) c r' after"
proof -
  have "0 < decisionChangeAttempts" by (simp add: decisionChangeAttempts_def)
  with changeLoop_ended [OF assms [unfolded change_def]] show ?thesis
    unfolding found_def by (auto intro: less_trans)
qed

lemma change_failed:
  "change p edit turns r content = (r', Some e, after) \<Longrightarrow> found turns content after"
  unfolding change_def found_def by (auto dest!: changeLoop_failed)

lemma change_found_or_written:
  assumes "change p edit turns r content = (r', err, after)" and "\<not> found turns content after"
  shows "err = None \<and> (\<exists>k<decisionChangeAttempts. \<exists>c. found turns content c \<and> fst (edit (turns k) c) = r' \<and>
    snd (edit (turns k) c) = Inr after \<and> (\<exists>next f. after = Some next \<and> length next \<le> MaxDecisionBytes \<and>
      decodeDecision p (Some next) = Inr f))"
proof (cases err)
  case (Some e)
  with assms show ?thesis using change_failed [of p edit turns r content r' e after] by simp
next
  case None
  from change_ended [OF assms(1) [unfolded None]] obtain k c where k: "k < decisionChangeAttempts" "found turns content c"
    "endedBy (checkedChange p edit) (turns k) c r' after" by blast
  with assms(2) have "fst (checkedChange p edit (turns k) c) = r'" "snd (checkedChange p edit (turns k) c) = Inr after"
    "after \<noteq> None" by (auto simp: endedBy_def)
  then have "fst (edit (turns k) c) = r' \<and> snd (edit (turns k) c) = Inr after \<and>
      (\<exists>next f. after = Some next \<and> length next \<le> MaxDecisionBytes \<and> decodeDecision p (Some next) = Inr f)"
    by (auto simp: checkedChange_def split: prod.splits sum.splits option.splits if_splits)
  with k None show ?thesis by blast
qed

subsection \<open>The contract of a conditional edit\<close>

text \<open>
  What every operator edit promises of one run: it writes only when the authorization
  callback accepted inside the lock, the state decoded, and the state was one the caller
  admits (for a conditional edit, the state at the expected revision). The client is
  \<open>change\<close>: a file that changed was authorised and admitted on the content found there.
\<close>

locale guarded_edit =
  fixes p :: policy
    and edit :: "'r edit"
    and admit :: "turn \<Rightarrow> decisionFile \<Rightarrow> bool"
  assumes writes_guarded:
    "snd (edit t c) = Inr (Some next) \<Longrightarrow>
       t_authorize t = None \<and> (\<exists>f. decodeDecision p c = Inr f \<and> admit t f)"
begin

lemma change_guarded:
  assumes "change p edit turns r content = (r', err, after)" and "\<not> found turns content after"
  shows "\<exists>k<decisionChangeAttempts. \<exists>c f next.
    err = None \<and> found turns content c \<and> t_authorize (turns k) = None \<and> decodeDecision p c = Inr f \<and>
    admit (turns k) f \<and> edit (turns k) c = (r', Inr (Some next)) \<and> after = Some next \<and>
    (\<exists>g. decodeDecision p (Some next) = Inr g)"
proof -
  from change_found_or_written [OF assms] obtain k c nxt g where
    k: "k < decisionChangeAttempts" "found turns content c" "edit (turns k) c = (r', Inr (Some nxt))"
    and e: "err = None" "after = Some nxt" "decodeDecision p (Some nxt) = Inr g"
    by (metis prod.collapse)
  from writes_guarded [of "turns k" c nxt] k(3) obtain f where
    "t_authorize (turns k) = None" "decodeDecision p c = Inr f" "admit (turns k) f" by auto
  with k e show ?thesis by blast
qed

lemma refused_keeps:
  assumes "change p edit turns r content = (r', err, after)"
    and "\<And>k. k < decisionChangeAttempts \<Longrightarrow> t_authorize (turns k) \<noteq> None"
  shows "found turns content after"
  using change_guarded [OF assms(1)] assms(2) by blast

lemma stale_keeps:
  assumes "change p edit turns r content = (r', err, after)"
    and "\<And>k c f. found turns content c \<Longrightarrow> decodeDecision p c = Inr f \<Longrightarrow> \<not> admit (turns k) f"
  shows "found turns content after"
  using change_guarded [OF assms(1)] assms(2) by blast

end

subsection \<open>Loading\<close>

text \<open>\<open>canonicalizeState\<close>: the whole file in canonical spelling, once, when the policy loads.\<close>

definition canonicalizeState_edit :: "policy \<Rightarrow> unit edit" where
  "canonicalizeState_edit p t content = (case content of
     None \<Rightarrow> ((), Inr None)
   | Some data \<Rightarrow> (case decodeDecision p content of
       Inl e \<Rightarrow> ((), Inl e)
     | Inr f0 \<Rightarrow>
        (let f = fst (canonicalizeStored (files p) f0 True) in
         if marshalFile f = data then ((), Inr (Some data))
         else let next = marshalFile (f\<lparr>f_profile := DecisionProfile\<rparr>) in ((), Inr (Some next)))))"

definition canonicalizeState :: "policy \<Rightarrow> (nat \<Rightarrow> turn) \<Rightarrow> bytes option \<Rightarrow> rights_error option \<times> bytes option" where
  "canonicalizeState p turns content = snd (change p (canonicalizeState_edit p) turns () content)"

text \<open>\<open>serviceSubject\<close>: \<open>os\<close> is the account and the executable the operating system reports.\<close>

definition serviceSubject :: "identity \<Rightarrow> rights_error + subject \<Rightarrow> rights_error + subject" where
  "serviceSubject fs os = (case os of Inl e \<Rightarrow> Inl e | Inr s \<Rightarrow> NormalizeDecisionSubject fs s)"

definition newPolicy :: "identity \<Rightarrow> (bytes \<Rightarrow> bytes \<Rightarrow> bytes) \<Rightarrow> rights_error + subject \<Rightarrow> bytes list \<Rightarrow>
    definitionCatalog option \<Rightarrow> rights_error + policy" where
  "newPolicy fs readings os seeds definitions =
     (if seeds = [] \<or> length seeds > MaxDecisionActions then Inl (ErrOther ''rights: seed catalogue needs 1..64 actions'')
      else let sorted = sort seeds in
        if \<not> (list_all (\<lambda>a. boundedDecisionString a 128) sorted \<and> distinct sorted)
        then Inl (ErrOther ''rights: invalid/duplicate catalogue action'')
        else case serviceSubject fs os of
          Inl e \<Rightarrow> Inl e
        | Inr s \<Rightarrow> Inr \<lparr>seed = sorted, native = s, catalog = definitions, stateRequired = False, metaHolder = None,
            configuredDefaults = [], defaultAccount = [], defaultExcluded = None, files = fs, storedReadings = readings\<rparr>)"

text \<open>The policy, whether the load failed, and the file afterwards.\<close>

definition LoadDecisionPolicyWithDefinitions :: "identity \<Rightarrow> (bytes \<Rightarrow> bytes \<Rightarrow> bytes) \<Rightarrow> rights_error + subject \<Rightarrow>
    bytes list \<Rightarrow> definitionCatalog option \<Rightarrow> onDisk \<Rightarrow> rights_error + bytes option \<Rightarrow> (nat \<Rightarrow> turn) \<Rightarrow> bytes option \<Rightarrow>
    rights_error + policy \<times> rights_error option \<times> bytes option" where
  "LoadDecisionPolicyWithDefinitions fs readings os seeds definitions disk got turns content =
     (case newPolicy fs readings os seeds definitions of
        Inl e \<Rightarrow> Inl e
      | Inr p \<Rightarrow> (case uncachedRead p disk got of
          Inl e \<Rightarrow> Inr (p, Some e, content)
        | Inr _ \<Rightarrow> Inr (p, canonicalizeState p turns content)))"

lemma newPolicy_configured:
  assumes "newPolicy fs readings os seeds definitions = Inr p" and "trustedCatalog definitions"
  shows "configured p"
proof -
  have "sort seeds = [] \<longleftrightarrow> seeds = []" by (metis length_0_conv length_sort)
  with assms show ?thesis
    by (auto simp: newPolicy_def Let_def configured_def validSeed_def strict_sorted_iff split: if_splits sum.splits)
qed

end
