(* ===== verification/Rule_Edits.thy ===== *)
theory Rule_Edits
  imports Store
begin

text \<open>
  What one exact-rule edit does to a decoded state: the meta-rule helpers of meta_rules.go,
  the pruning of decision_policy.go and selector_policy.go, \<open>addAction\<close>, and
  \<open>applyDecisionRule\<close>. Its lemmas say which rules an edit leaves, which one it writes, and
  when it changes nothing.
\<close>

subsection \<open>Meta-rules\<close>

definition setByHolder :: "identity \<Rightarrow> decisionRule \<Rightarrow> subject \<Rightarrow> programKeys \<Rightarrow> bool" where
  "setByHolder fs r holder key \<longleftrightarrow>
     account (r_setBy r) = account holder \<and>
     sameNormalizedKeyed fs (program (r_setBy r)) (program holder) (key (program (r_setBy r))) (key (program holder))"

definition liveMeta :: "identity \<Rightarrow> decisionRule list \<Rightarrow> subject \<Rightarrow> instant \<Rightarrow> programKeys \<Rightarrow> decisionRule option" where
  "liveMeta fs rs holder now key =
     (case decidingRule fs rs holder MetaAnswerAction MetaScopeApps now key of
        None \<Rightarrow> None
      | Some r \<Rightarrow> if \<not> r_permit r \<or> expired r now then None else Some r)"

definition refuseHolder :: "policy \<Rightarrow> subject \<Rightarrow> bytes \<Rightarrow> bytes \<Rightarrow> bool option \<Rightarrow> rights_error option" where
  "refuseHolder p s action resource permit =
     (if permit \<noteq> Some True \<or> \<not> IsMetaRule action resource then None
      else if account s = account (native p) \<and> sameSubjectProgram (files p) (program s) (program (native p))
      then Some ErrMetaHolder
      else case metaHolder p of
        None \<Rightarrow> None
      | Some refuses \<Rightarrow> if refuses s then Some ErrMetaHolder else None)"

definition cascadeMeta :: "identity \<Rightarrow> decisionFile \<Rightarrow> decisionRule \<Rightarrow> decisionRule option \<Rightarrow> programKeys \<Rightarrow> decisionFile" where
  "cascadeMeta fs f old next key = (case next of
     None \<Rightarrow> f
   | Some n \<Rightarrow>
      if \<not> r_permit n then f
      else if r_expires n = r_expires old \<or> r_expires old = [] then f
      else setRules (map (\<lambda>r. if r_permit r \<and> r_expires r = r_expires old \<and> \<not> IsMetaRule (r_action r) (r_resource r) \<and>
             setByHolder fs r (r_subject old) key then r\<lparr>r_expires := r_expires n\<rparr> else r) (rules f)) f)"

definition validMetaEdit :: "bytes \<Rightarrow> bytes \<Rightarrow> bool option \<Rightarrow> duration \<Rightarrow> rights_error option" where
  "validMetaEdit action resource permit ttl =
     (if permit = Some True \<and> IsMetaRule action resource \<and> (ttl \<le> 0 \<or> ttl > MetaRuleLapse)
      then Some ErrMetaRuleExpiry else None)"

subsection \<open>Pruning\<close>

definition selectorExpired :: "selectorRule \<Rightarrow> instant \<Rightarrow> bool" where
  "selectorExpired r now \<longleftrightarrow> stampExpired (l_expires r) now"

definition pruneOrigins :: "decisionFile \<Rightarrow> decisionFile" where
  "pruneOrigins f =
     f\<lparr>f_bundleOrigins := filter (\<lambda>o1. o_id o1 \<in> l_originID ` set (filter (\<lambda>r. l_originID r \<noteq> []) (f_selectorRules f)))
        (f_bundleOrigins f)\<rparr>"

definition pruneSelectorState :: "decisionFile \<Rightarrow> instant \<Rightarrow> decisionFile" where
  "pruneSelectorState f now =
     pruneOrigins (f\<lparr>f_selectorRules := filter (\<lambda>r. \<not> selectorExpired r now) (f_selectorRules f)\<rparr>)"

definition pruneExpired :: "decisionFile \<Rightarrow> instant \<Rightarrow> decisionFile" where
  "pruneExpired f now =
     pruneSelectorState (f\<lparr>f_rules := nilIfEmpty (filter (\<lambda>r. \<not> expired r now) (rules f))\<rparr>) now"

definition pruneKeep :: "decisionFile \<Rightarrow> bytes \<Rightarrow> instant \<Rightarrow> decisionFile" where
  "pruneKeep f key now =
     pruneSelectorState (setRules (filter (\<lambda>r. \<not> (ruleKey r \<noteq> key \<and> expired r now)) (rules f)) f) now"

lemma prune_fields [simp]:
  "rules (pruneExpired f now) = filter (\<lambda>r. \<not> expired r now) (rules f)"
  "rules (pruneKeep f key now) = filter (\<lambda>r. ruleKey r = key \<or> \<not> expired r now) (rules f)"
  "rules (pruneSelectorState f now) = rules f"
  "rules (pruneOrigins f) = rules f"
  "f_actions (pruneExpired f now) = f_actions f" "f_actions (pruneKeep f key now) = f_actions f"
  "f_actions (pruneSelectorState f now) = f_actions f" "f_actions (pruneOrigins f) = f_actions f"
  "f_profile (pruneExpired f now) = f_profile f" "f_profile (pruneKeep f key now) = f_profile f"
  "f_appliedOperatorAnswers (pruneExpired f now) = f_appliedOperatorAnswers f"
  "f_appliedOperatorAnswers (pruneKeep f key now) = f_appliedOperatorAnswers f"
  "f_descriptions (pruneExpired f now) = f_descriptions f" "f_descriptions (pruneKeep f key now) = f_descriptions f"
  "f_appliedTypedAnswers (pruneExpired f now) = f_appliedTypedAnswers f"
  "f_appliedTypedAnswers (pruneKeep f key now) = f_appliedTypedAnswers f"
  "f_defaultSwitches (pruneExpired f now) = f_defaultSwitches f"
  "f_defaultSwitches (pruneKeep f key now) = f_defaultSwitches f"
  "f_selectorRules (pruneExpired f now) = filter (\<lambda>r. \<not> selectorExpired r now) (f_selectorRules f)"
  "f_selectorRules (pruneKeep f key now) = filter (\<lambda>r. \<not> selectorExpired r now) (f_selectorRules f)"
  by (simp_all add: pruneExpired_def pruneKeep_def pruneSelectorState_def pruneOrigins_def)

subsection \<open>One edit\<close>

record ruleChange =
  ch_permit :: "bool option"
  ch_by :: subject
  ch_at :: instant
  ch_ttl :: duration
  ch_why :: bytes
  ch_exact :: bool
  ch_missing :: "rights_error option"
  ch_questionID :: bytes

definition addDuration :: "instant \<Rightarrow> duration \<Rightarrow> instant" where
  "addDuration t d = nat (int t + d)"

definition writtenRule :: "subject \<Rightarrow> bytes \<Rightarrow> bytes \<Rightarrow> bool \<Rightarrow> ruleChange \<Rightarrow> decisionRule" where
  "writtenRule s action resource permit ch =
     \<lparr>r_subject = s, r_action = action, r_resource = resource, r_permit = permit, r_setBy = ch_by ch,
      r_setAt = stamp (ch_at ch), r_why = ch_why ch,
      r_expires = (if ch_ttl ch > 0 then stamp (addDuration (ch_at ch) (ch_ttl ch)) else []),
      r_questionID = ch_questionID ch\<rparr>"

definition targetKey :: "subject \<Rightarrow> bytes \<Rightarrow> bytes \<Rightarrow> bytes" where
  "targetKey s action resource = account s @ NUL # program s @ NUL # action @ NUL # resource"

definition finishEdit :: "identity \<Rightarrow> decisionFile \<Rightarrow> decisionRule option \<Rightarrow> decisionRule \<Rightarrow> bytes \<Rightarrow> instant \<Rightarrow> decisionFile" where
  "finishEdit fs f oldMeta r key now =
     (let f1 = (case oldMeta of None \<Rightarrow> f | Some old \<Rightarrow> cascadeMeta fs f old (Some r) (keyOnce fs));
          f2 = pruneKeep f1 key now
      in setRules (sort_key ruleKey (rules f2)) f2)"

definition applyDecisionRule :: "identity \<Rightarrow> decisionFile \<Rightarrow> subject \<Rightarrow> bytes \<Rightarrow> bytes \<Rightarrow> ruleChange \<Rightarrow>
    rights_error + decisionFile \<times> bool" where
  "applyDecisionRule fs f s action resource ch =
     (let key = targetKey s action resource; programs = keyOnce fs;
          same = (\<lambda>r. sameTarget fs r s action resource programs);
          matches = filter (\<lambda>i. same (rules f ! i)) [0..<length (rules f)];
          others = filter (\<lambda>r. \<not> same r) (rules f);
          metaError = (if IsMetaRule action resource then validMetaEdit action resource (ch_permit ch) (ch_ttl ch) else None);
          oldMeta = (if IsMetaRule action resource then liveMeta fs (rules f) s (ch_at ch) programs else None)
      in case metaError of
        Some e \<Rightarrow> Inl e
      | None \<Rightarrow> (case ch_permit ch of
          None \<Rightarrow>
            if matches = [] then (case ch_missing ch of Some e \<Rightarrow> Inl e | None \<Rightarrow> Inr (f, False))
            else let f1 = setRules others f;
                     f2 = (case oldMeta of None \<Rightarrow> f1 | Some old \<Rightarrow> cascadeMeta fs f1 old None programs)
                 in Inr (pruneExpired f2 (ch_at ch), True)
        | Some permit \<Rightarrow>
            let r = writtenRule s action resource permit ch in
            if length matches = 1 then
              let old = rules f ! hd matches;
                  same1 = (r_permit old = r_permit r \<and> \<not> expired old (ch_at ch) \<and>
                    (ch_exact ch \<longrightarrow> r_why old = r_why r \<and> r_expires old = r_expires r))
              in if same1 then Inr (f, False)
                 else Inr (finishEdit fs (setRules ((rules f)[hd matches := r]) f) oldMeta r key (ch_at ch), True)
            else
              let f1 = pruneExpired (setRules others f) (ch_at ch) in
              if length (rules f1) + length (f_selectorRules f1) \<ge> MaxDecisionRules
              then Inl (ErrOther ''rights: rule capacity reached'')
              else Inr (finishEdit fs (setRules (rules f1 @ [r]) f1) oldMeta r key (ch_at ch), True)))"

definition addAction :: "decisionFile \<Rightarrow> registeredAction \<Rightarrow> decisionFile" where
  "addAction f entry = setActions (sort_key a_action (actions f @ [entry])) f"

subsection \<open>What an edit leaves\<close>

lemma setByHolder_alt: "setByHolder fs r holder key \<longleftrightarrow> sameProgram fs key (r_setBy r) holder"
  by (simp add: setByHolder_def sameProgram_def)

lemma writtenRule_fields [simp]:
  "r_subject (writtenRule s a res b ch) = s" "r_action (writtenRule s a res b ch) = a"
  "r_resource (writtenRule s a res b ch) = res" "r_permit (writtenRule s a res b ch) = b"
  "r_setBy (writtenRule s a res b ch) = ch_by ch" "r_setAt (writtenRule s a res b ch) = stamp (ch_at ch)"
  "r_why (writtenRule s a res b ch) = ch_why ch" "r_questionID (writtenRule s a res b ch) = ch_questionID ch"
  by (simp_all add: writtenRule_def)

lemma ruleKey_writtenRule [simp]: "ruleKey (writtenRule s a res b ch) = targetKey s a res"
  by (simp add: ruleKey_def targetKey_def)

lemma sameTarget_writtenRule [simp]: "byteEqualNames fs \<Longrightarrow> sameTarget fs (writtenRule s a res b ch) s a res key"
  by (simp add: sameTarget_alt)

text \<open>The rules on one target are one indexed position, when there is exactly one.\<close>

lemma single_match:
  assumes "length (filter (\<lambda>i. P (xs ! i)) [0..<length xs]) = 1"
  defines "k \<equiv> hd (filter (\<lambda>i. P (xs ! i)) [0..<length xs])"
  shows "k < length xs" and "P (xs ! k)" and "\<And>i. i < length xs \<Longrightarrow> P (xs ! i) \<Longrightarrow> i = k"
proof -
  obtain j where j: "filter (\<lambda>i. P (xs ! i)) [0..<length xs] = [j]"
    using assms(1) by (metis One_nat_def length_0_conv length_Suc_conv)
  then have k: "k = j" by (simp add: k_def)
  have s: "set (filter (\<lambda>i. P (xs ! i)) [0..<length xs]) = {j}" using j by simp
  then show "k < length xs" "P (xs ! k)" using k by auto
  show "i = k" if "i < length xs" "P (xs ! i)" for i
  proof -
    from that have "i \<in> set (filter (\<lambda>i. P (xs ! i)) [0..<length xs])" by simp
    with s k show ?thesis by simp
  qed
qed

lemma no_match: "filter (\<lambda>i. P (xs ! i)) [0..<length xs] = [] \<longleftrightarrow> (\<forall>x\<in>set xs. \<not> P x)"
  by (auto simp: filter_empty_conv all_set_conv_all_nth)

text \<open>The rules after an update at the only match: the new one, and every other one.\<close>

lemma set_update_single:
  assumes "length (filter (\<lambda>i. P (xs ! i)) [0..<length xs]) = 1"
  shows "set (xs[hd (filter (\<lambda>i. P (xs ! i)) [0..<length xs]) := r]) = insert r {x \<in> set xs. \<not> P x}"
proof -
  let ?k = "hd (filter (\<lambda>i. P (xs ! i)) [0..<length xs])"
  note m = single_match [OF assms]
  have "x \<in> set (xs[?k := r]) \<longleftrightarrow> x = r \<or> (x \<in> set xs \<and> \<not> P x)" for x
  proof
    assume "x \<in> set (xs[?k := r])"
    then obtain i where i: "i < length xs" "xs[?k := r] ! i = x" by (auto simp: in_set_conv_nth)
    then show "x = r \<or> (x \<in> set xs \<and> \<not> P x)" using m(3) [OF i(1)] by (cases "i = ?k") auto
  next
    assume "x = r \<or> (x \<in> set xs \<and> \<not> P x)"
    then show "x \<in> set (xs[?k := r])"
    proof
      assume "x = r"
      then show ?thesis using m(1) by (simp add: set_update_memI)
    next
      assume x: "x \<in> set xs \<and> \<not> P x"
      then obtain i where i: "i < length xs" "xs ! i = x" by (auto simp: in_set_conv_nth)
      with x m(2) have "i \<noteq> ?k" by auto
      with i have "xs[?k := r] ! i = x" by simp
      then show ?thesis using i(1) by (metis length_list_update nth_mem)
    qed
  qed
  then show ?thesis by blast
qed

text \<open>Renewal moves expiries only; it keeps every target and, except for the holder's own
  grants, every rule.\<close>

definition renewed :: "identity \<Rightarrow> decisionRule \<Rightarrow> decisionRule option \<Rightarrow> programKeys \<Rightarrow> decisionRule \<Rightarrow> decisionRule" where
  "renewed fs old next key r = (case next of None \<Rightarrow> r | Some n \<Rightarrow>
     if r_permit n \<and> r_expires n \<noteq> r_expires old \<and> r_expires old \<noteq> [] \<and> r_permit r \<and> r_expires r = r_expires old \<and>
        \<not> IsMetaRule (r_action r) (r_resource r) \<and> setByHolder fs r (r_subject old) key
     then r\<lparr>r_expires := r_expires n\<rparr> else r)"

lemma cascadeMeta_rules: "rules (cascadeMeta fs f old next key) = map (renewed fs old next key) (rules f)"
  by (auto simp: cascadeMeta_def renewed_def split: option.splits intro: map_idI [symmetric])

lemma renewed_fields [simp]:
  "r_subject (renewed fs old n key r) = r_subject r" "r_action (renewed fs old n key r) = r_action r"
  "r_resource (renewed fs old n key r) = r_resource r" "r_permit (renewed fs old n key r) = r_permit r"
  "r_setBy (renewed fs old n key r) = r_setBy r" "ruleKey (renewed fs old n key r) = ruleKey r"
  "r_setAt (renewed fs old n key r) = r_setAt r" "r_why (renewed fs old n key r) = r_why r"
  "r_questionID (renewed fs old n key r) = r_questionID r"
  "sameTarget fs' (renewed fs old n key r) s a res key' = sameTarget fs' r s a res key'"
  by (auto simp: renewed_def ruleKey_def sameTarget_def split: option.splits)

lemma renewed_meta [simp]: "IsMetaRule (r_action r) (r_resource r) \<Longrightarrow> renewed fs old n key r = r"
  by (auto simp: renewed_def split: option.splits)

lemma renewed_None [simp]: "renewed fs old None key r = r"
  by (simp add: renewed_def)

lemma cascadeMeta_fields [simp]:
  "f_actions (cascadeMeta fs f old n key) = f_actions f" "f_profile (cascadeMeta fs f old n key) = f_profile f"
  "f_appliedOperatorAnswers (cascadeMeta fs f old n key) = f_appliedOperatorAnswers f"
  "f_descriptions (cascadeMeta fs f old n key) = f_descriptions f"
  "f_selectorRules (cascadeMeta fs f old n key) = f_selectorRules f"
  "f_bundleOrigins (cascadeMeta fs f old n key) = f_bundleOrigins f"
  "f_appliedTypedAnswers (cascadeMeta fs f old n key) = f_appliedTypedAnswers f"
  "f_defaultSwitches (cascadeMeta fs f old n key) = f_defaultSwitches f"
  by (simp_all add: cascadeMeta_def split: option.splits)

text \<open>The enrollment an edit of a meta-rule target renews.\<close>

definition renewing :: "identity \<Rightarrow> decisionFile \<Rightarrow> subject \<Rightarrow> bytes \<Rightarrow> bytes \<Rightarrow> ruleChange \<Rightarrow> decisionRule \<Rightarrow> decisionRule \<Rightarrow> decisionRule" where
  "renewing fs f s action resource ch r x =
     (case (if IsMetaRule action resource then liveMeta fs (rules f) s (ch_at ch) (keyOnce fs) else None) of
        None \<Rightarrow> x | Some old \<Rightarrow> renewed fs old (Some r) (keyOnce fs) x)"

lemma renewing_fields [simp]:
  "sameTarget fs' (renewing fs f s a res ch r x) s' a' res' key = sameTarget fs' x s' a' res' key"
  "ruleKey (renewing fs f s a res ch r x) = ruleKey x" "r_permit (renewing fs f s a res ch r x) = r_permit x"
  "r_subject (renewing fs f s a res ch r x) = r_subject x" "r_action (renewing fs f s a res ch r x) = r_action x"
  "r_resource (renewing fs f s a res ch r x) = r_resource x" "r_setBy (renewing fs f s a res ch r x) = r_setBy x"
  by (simp_all add: renewing_def split: option.splits)

lemma renewing_plain [simp]: "\<not> IsMetaRule a res \<Longrightarrow> renewing fs f s a res ch r x = x"
  by (simp add: renewing_def)

lemma renewing_written [simp]: "renewing fs f s a res ch r (writtenRule s a res b ch) = writtenRule s a res b ch"
  by (auto simp: renewing_def split: option.splits)

lemma finishEdit_rules:
  "set (rules (finishEdit fs f oldMeta r key now)) =
     {x \<in> (case oldMeta of None \<Rightarrow> \<lambda>x. x | Some old \<Rightarrow> renewed fs old (Some r) (keyOnce fs)) ` set (rules f).
        ruleKey x = key \<or> \<not> expired x now}"
  by (auto simp: finishEdit_def Let_def cascadeMeta_rules split: option.splits)

lemma applyDecisionRule_set:
  assumes a: "applyDecisionRule fs f s action resource ch = Inr (g, True)" and b: "ch_permit ch = Some b"
  shows "\<exists>keep. (\<forall>y. keep y \<longrightarrow> y \<in> set (rules f) \<and> \<not> sameTarget fs y s action resource (keyOnce fs)) \<and>
    (\<forall>y\<in>set (rules f). \<not> sameTarget fs y s action resource (keyOnce fs) \<and> \<not> expired y (ch_at ch) \<longrightarrow> keep y) \<and>
    set (rules g) = {x \<in> renewing fs f s action resource ch (writtenRule s action resource b ch) `
        insert (writtenRule s action resource b ch) {y. keep y}.
      ruleKey x = targetKey s action resource \<or> \<not> expired x (ch_at ch)}"
proof -
  let ?same = "\<lambda>r. sameTarget fs r s action resource (keyOnce fs)"
  let ?m = "filter (\<lambda>i. ?same (rules f ! i)) [0..<length (rules f)]"
  let ?r = "writtenRule s action resource b ch"
  let ?old = "if IsMetaRule action resource then liveMeta fs (rules f) s (ch_at ch) (keyOnce fs) else None"
  have ren: "(case ?old of None \<Rightarrow> \<lambda>x. x | Some old \<Rightarrow> renewed fs old (Some ?r) (keyOnce fs)) =
      renewing fs f s action resource ch ?r"
    by (auto simp: renewing_def fun_eq_iff split: option.splits)
  have e: "(if IsMetaRule action resource then validMetaEdit action resource (ch_permit ch) (ch_ttl ch) else None) = None"
    using a unfolding applyDecisionRule_def Let_def by (cases "if IsMetaRule action resource then validMetaEdit action resource (ch_permit ch) (ch_ttl ch) else None") simp_all
  show ?thesis
  proof (cases "length ?m = 1")
    case True
    with a b e have g: "g = finishEdit fs (setRules ((rules f)[hd ?m := ?r]) f) ?old ?r (targetKey s action resource) (ch_at ch)"
      unfolding applyDecisionRule_def Let_def by (simp split: if_split_asm)
    have "set (rules (setRules ((rules f)[hd ?m := ?r]) f)) = insert ?r {y. y \<in> set (rules f) \<and> \<not> ?same y}"
      using set_update_single [where P = ?same, OF True] by simp
    then show ?thesis
      by (intro exI [of _ "\<lambda>y. y \<in> set (rules f) \<and> \<not> ?same y"]) (simp add: g finishEdit_rules ren)
  next
    case False
    let ?f1 = "pruneExpired (setRules (filter (\<lambda>r. \<not> ?same r) (rules f)) f) (ch_at ch)"
    from a b e False have g: "g = finishEdit fs (setRules (rules ?f1 @ [?r]) ?f1) ?old ?r (targetKey s action resource) (ch_at ch)"
      unfolding applyDecisionRule_def Let_def by (simp split: if_split_asm)
    have "set (rules (setRules (rules ?f1 @ [?r]) ?f1)) = insert ?r {y. y \<in> set (rules f) \<and> \<not> ?same y \<and> \<not> expired y (ch_at ch)}"
      by auto
    then show ?thesis
      by (intro exI [of _ "\<lambda>y. y \<in> set (rules f) \<and> \<not> ?same y \<and> \<not> expired y (ch_at ch)"]) (simp add: g finishEdit_rules ren)
  qed
qed

text \<open>A written rule is the one rule on its target, and decides it.\<close>

lemma apply_written:
  assumes i: "byteEqualNames fs" and a: "applyDecisionRule fs f s action resource ch = Inr (g, True)"
    and b: "ch_permit ch = Some b"
  shows "x \<in> set (rules g) \<and> sameTarget fs x s action resource (keyOnce fs) \<longleftrightarrow> x = writtenRule s action resource b ch"
proof -
  let ?r = "writtenRule s action resource b ch"
  obtain keep where k: "\<And>y. keep y \<Longrightarrow> y \<in> set (rules f) \<and> \<not> sameTarget fs y s action resource (keyOnce fs)"
    and g: "set (rules g) = {x \<in> renewing fs f s action resource ch ?r ` insert ?r {y. keep y}.
      ruleKey x = targetKey s action resource \<or> \<not> expired x (ch_at ch)}"
    using applyDecisionRule_set [OF a b] by blast
  show ?thesis
  proof
    assume x: "x \<in> set (rules g) \<and> sameTarget fs x s action resource (keyOnce fs)"
    then have "x \<in> renewing fs f s action resource ch ?r ` insert ?r {y. keep y}" unfolding g by blast
    then obtain y where y: "x = renewing fs f s action resource ch ?r y" "y = ?r \<or> keep y" by blast
    with x k [of y] have "y = ?r" by auto
    with y(1) show "x = ?r" by simp
  next
    assume x: "x = ?r"
    have "?r \<in> renewing fs f s action resource ch ?r ` insert ?r {y. keep y}" by force
    then show "x \<in> set (rules g) \<and> sameTarget fs x s action resource (keyOnce fs)" using g i x by simp
  qed
qed

lemma apply_decides:
  assumes "byteEqualNames fs" and "applyDecisionRule fs f s action resource ch = Inr (g, True)"
    and "ch_permit ch = Some b"
  shows "decidingRule fs (rules g) s action resource now (keyOnce fs) = Some (writtenRule s action resource b ch)"
  unfolding decidingRule_def using apply_written [OF assms]
  by (intro deciding.best_single) blast+

text \<open>An edit that changes nothing found the target as it asks.\<close>

lemma apply_unchanged:
  assumes a: "applyDecisionRule fs f s action resource ch = Inr (g, False)"
  shows "g = f" and "ch_permit ch = None \<Longrightarrow> \<forall>x\<in>set (rules f). \<not> sameTarget fs x s action resource (keyOnce fs)"
    and "ch_permit ch = Some b \<Longrightarrow> \<exists>old. decidingRule fs (rules f) s action resource now (keyOnce fs) = Some old \<and>
      r_permit old = b \<and> \<not> expired old (ch_at ch)"
proof -
  let ?same = "\<lambda>r. sameTarget fs r s action resource (keyOnce fs)"
  let ?m = "filter (\<lambda>i. ?same (rules f ! i)) [0..<length (rules f)]"
  have e: "(if IsMetaRule action resource then validMetaEdit action resource (ch_permit ch) (ch_ttl ch) else None) = None"
    using a unfolding applyDecisionRule_def Let_def by (cases "if IsMetaRule action resource then validMetaEdit action resource (ch_permit ch) (ch_ttl ch) else None") simp_all
  show "g = f"
    using a e unfolding applyDecisionRule_def Let_def by (cases "ch_permit ch") (simp_all split: if_split_asm option.split_asm)
  show "\<forall>x\<in>set (rules f). \<not> ?same x" if "ch_permit ch = None"
  proof -
    have "?m = []"
      using a e that unfolding applyDecisionRule_def Let_def by (simp split: if_split_asm option.split_asm)
    with no_match [of ?same "rules f"] show ?thesis by simp
  qed
  show "\<exists>old. decidingRule fs (rules f) s action resource now (keyOnce fs) = Some old \<and>
      r_permit old = b \<and> \<not> expired old (ch_at ch)" if "ch_permit ch = Some b"
  proof -
    from a e that have m: "length ?m = 1" and o1: "r_permit (rules f ! hd ?m) = b" "\<not> expired (rules f ! hd ?m) (ch_at ch)"
      unfolding applyDecisionRule_def Let_def by (simp_all split: if_split_asm)
    note sm = single_match [where P = ?same, OF m]
    have "decidingRule fs (rules f) s action resource now (keyOnce fs) = Some (rules f ! hd ?m)"
      unfolding decidingRule_def
    proof (rule deciding.best_single)
      show "rules f ! hd ?m \<in> set (rules f)" "?same (rules f ! hd ?m)" using sm(1,2) by auto
      fix y assume "y \<in> set (rules f)" "?same y"
      then show "y = rules f ! hd ?m" using sm(3) by (metis in_set_conv_nth)
    qed
    with o1 show ?thesis by blast
  qed
qed

text \<open>A revoke removes every rule on the target, and the expired ones; the others stay.\<close>

lemma apply_revoked:
  assumes a: "applyDecisionRule fs f s action resource ch = Inr (g, True)" and b: "ch_permit ch = None"
  shows "set (rules g) = {x \<in> set (rules f). \<not> sameTarget fs x s action resource (keyOnce fs) \<and> \<not> expired x (ch_at ch)}"
proof -
  have e: "validMetaEdit action resource None ttl = None" for ttl by (simp add: validMetaEdit_def)
  show ?thesis
    using a b unfolding applyDecisionRule_def Let_def
    by (auto simp: e cascadeMeta_rules map_idI split: if_split_asm option.split_asm)
qed

text \<open>An edit of an ordinary target touches no unexpired rule on another target.\<close>

lemma apply_frame:
  assumes i: "byteEqualNames fs" and a: "applyDecisionRule fs f s action resource ch = Inr (g, changed)"
    and m: "\<not> IsMetaRule action resource" and x: "\<not> sameTarget fs x s action resource (keyOnce fs)" "\<not> expired x (ch_at ch)"
  shows "x \<in> set (rules g) \<longleftrightarrow> x \<in> set (rules f)"
proof (cases changed)
  case False
  then show ?thesis using apply_unchanged(1) [of fs f s action resource ch g] a by auto
next
  case True
  with a have a: "applyDecisionRule fs f s action resource ch = Inr (g, True)" by simp
  show ?thesis
  proof (cases "ch_permit ch")
    case None
    with apply_revoked [OF a] x show ?thesis by auto
  next
    case (Some b)
    obtain keep where k: "\<And>y. keep y \<Longrightarrow> y \<in> set (rules f) \<and> \<not> sameTarget fs y s action resource (keyOnce fs)"
      "\<And>y. y \<in> set (rules f) \<Longrightarrow> \<not> sameTarget fs y s action resource (keyOnce fs) \<Longrightarrow> \<not> expired y (ch_at ch) \<Longrightarrow> keep y"
      and g: "set (rules g) = {x \<in> renewing fs f s action resource ch (writtenRule s action resource b ch) `
          insert (writtenRule s action resource b ch) {y. keep y}.
        ruleKey x = targetKey s action resource \<or> \<not> expired x (ch_at ch)}"
      using applyDecisionRule_set [OF a Some] by blast
    have "x \<noteq> writtenRule s action resource b ch" using x(1) i by auto
    then show ?thesis using k [of x] x m by (auto simp: g)
  qed
qed

end
