(* ===== verification/Decisions.thy ===== *)
theory Decisions
  imports Rule_Edits Wire_Text
begin

text \<open>
  Decisions: the account-wide defaults (account_defaults.go), typed selector rules and the
  legacy equivalences that carry blocks both ways (selector_policy.go), the legacy decision
  with its explanation, the batch check, consent admission, and the reads an operator makes
  (operator_policy.go, descriptions.go). \<open>snapshot\<close> is what one state read answers.
\<close>

type_synonym snapshot = "rights_error + decisionFile \<times> bytes"

subsection \<open>Account-wide defaults\<close>

fun switchOn_list :: "defaultSwitch list \<Rightarrow> bytes \<Rightarrow> bool" where
  "switchOn_list [] name = True"
| "switchOn_list (s # ss) name = (if w_name s = name then w_on s else switchOn_list ss name)"

definition switchOn :: "decisionFile \<Rightarrow> bytes \<Rightarrow> bool" where
  "switchOn f name = switchOn_list (f_defaultSwitches f) name"

datatype defaultVerdict = DefaultNone | DefaultPermits | DefaultExcludesProgram

text \<open>The first configured default that is switched on for the target.\<close>

definition coveringDefault :: "policy \<Rightarrow> decisionFile \<Rightarrow> bytes \<Rightarrow> bytes \<Rightarrow> accountDefault option" where
  "coveringDefault p f action resource =
     find (\<lambda>d. \<not> (df_action d \<noteq> action \<or> (\<not> df_everyResource d \<and> df_resource d \<noteq> resource) \<or> \<not> switchOn f (df_name d)))
       (configuredDefaults p)"

definition defaultFor :: "policy \<Rightarrow> decisionFile \<Rightarrow> subject \<Rightarrow> bytes \<Rightarrow> bytes \<Rightarrow> bytes \<times> defaultVerdict" where
  "defaultFor p f s action resource =
     (if defaultAccount p = [] \<or> account s \<noteq> defaultAccount p then ([], DefaultNone)
      else case coveringDefault p f action resource of
        None \<Rightarrow> ([], DefaultNone)
      | Some d \<Rightarrow>
         if (case defaultExcluded p of None \<Rightarrow> False | Some excluded \<Rightarrow> excluded s)
         then (df_name d, DefaultExcludesProgram)
         else (df_name d, DefaultPermits))"

definition publicDefault :: "decisionFile \<Rightarrow> accountDefault \<Rightarrow> PublicDefault" where
  "publicDefault f d = foldl (\<lambda>out s. if w_name s = df_name d
       then out\<lparr>pub_on := w_on s, pub_setBy := Some (w_setBy s), pub_setAt := w_setAt s\<rparr> else out)
     \<lparr>pub_name = df_name d, pub_action = df_action d, pub_resource = df_resource d,
      pub_everyResource = df_everyResource d, pub_on = True, pub_setBy = None, pub_setAt = []\<rparr> (f_defaultSwitches f)"

definition DefaultsSnapshot :: "policy \<Rightarrow> snapshot \<Rightarrow> rights_error + bytes \<times> PublicDefault list" where
  "DefaultsSnapshot p snap = (case snap of
     Inl e \<Rightarrow> Inl e
   | Inr (f, rvn) \<Rightarrow> Inr (rvn, sort_key pub_name (map (publicDefault f) (configuredDefaults p))))"

subsection \<open>Program keys of one decision\<close>

definition decisionKeys :: "policy \<Rightarrow> bytes \<Rightarrow> bytes \<Rightarrow> programKeys" where
  "decisionKeys p rvn caller prog =
     (if prog = caller then programKey (files p) caller else storedReadings p rvn prog)"

definition subjectRule :: "subject \<Rightarrow> decisionRule" where
  "subjectRule s = \<lparr>r_subject = s, r_action = [], r_resource = [], r_permit = False,
     r_setBy = \<lparr>account = [], program = []\<rparr>, r_setAt = [], r_why = [], r_expires = [], r_questionID = []\<rparr>"

text \<open>\<open>sameTarget(decisionRule{Subject: a}, b, "", "", keys)\<close>.\<close>

definition sameStoredSubject :: "policy \<Rightarrow> bytes \<Rightarrow> subject \<Rightarrow> subject \<Rightarrow> bool" where
  "sameStoredSubject p rvn a b = sameTarget (files p) (subjectRule a) b [] [] (decisionKeys p rvn (program b))"

definition sameSelectorSubject :: "policy \<Rightarrow> selectorRule \<Rightarrow> subject \<Rightarrow> bytes \<Rightarrow> bool" where
  "sameSelectorSubject p r s rvn = sameStoredSubject p rvn (l_subject r) s"

definition ruleKind :: "selectorRule \<Rightarrow> ResourceSelectorKind" where
  "ruleKind r = s_kind (ps_selector (l_selection r))"

definition ruleTarget :: "selectorRule \<Rightarrow> bytes option" where
  "ruleTarget r = s_target (ps_selector (l_selection r))"

definition rulePermission :: "selectorRule \<Rightarrow> PermissionKey" where
  "rulePermission r = ps_permission (l_selection r)"

definition sameSelector :: "policy \<Rightarrow> selectorRule \<Rightarrow> subject \<Rightarrow> PermissionSelection \<Rightarrow> bytes \<Rightarrow> bool \<Rightarrow> bool" where
  "sameSelector p r s selection rvn exact =
     (if rulePermission r \<noteq> ps_permission selection \<or> ruleKind r \<noteq> s_kind (ps_selector selection) \<or>
         \<not> sameSelectorSubject p r s rvn then False
      else if ruleKind r = ResourceSelectorKindAll then True
      else if exact then sameBytes (ruleTarget r) (s_target (ps_selector selection))
      else sameConcrete (catalog p) (ps_permission selection) (ruleTarget r) (s_target (ps_selector selection)))"

lemma sameStoredSubject_alt:
  "sameStoredSubject p rvn a b \<longleftrightarrow> sameProgram (files p) (decisionKeys p rvn (program b)) a b"
  by (simp add: sameStoredSubject_def sameTarget_alt subjectRule_def)

subsection \<open>Typed decisions and the legacy equivalences\<close>

definition equivalents :: "policy \<Rightarrow> legacyEquivalence list" where
  "equivalents p = (case catalog p of
     None \<Rightarrow> []
   | Some d \<Rightarrow> (case c_selectors d of None \<Rightarrow> [] | Some sc \<Rightarrow> sc_equivalents sc))"

text \<open>\<open>None\<close> is "not linked"; \<open>Some None\<close> the whole collection; else one target.\<close>

definition equivalenceProjection :: "legacyEquivalence \<Rightarrow> bytes \<Rightarrow> bytes option option" where
  "equivalenceProjection e resource =
     (if e_resource e \<noteq> [] then (if e_resource e = resource then Some None else None)
      else case e_concrete e of None \<Rightarrow> None | Some concrete \<Rightarrow> concrete resource)"

definition legacyBlockForTyped :: "policy \<Rightarrow> decisionFile \<Rightarrow> bytes \<Rightarrow> subject \<Rightarrow> PermissionKey \<Rightarrow> bytes option \<Rightarrow> bool \<Rightarrow> instant \<Rightarrow> bool" where
  "legacyBlockForTyped p f rvn s k target collection now =
     list_ex (\<lambda>e. e_permission e = k \<and>
       list_ex (\<lambda>r. \<not> (r_permit r \<or> r_action r \<noteq> e_action e \<or> expired r now \<or> \<not> sameStoredSubject p rvn (r_subject r) s) \<and>
         (case equivalenceProjection e (r_resource r) of
            None \<Rightarrow> False
          | Some mapped \<Rightarrow> mapped = None \<or> (\<not> collection \<and> sameConcrete (catalog p) k mapped target))) (rules f))
       (equivalents p)"

fun typedScan :: "(selectorRule \<Rightarrow> bool) \<Rightarrow> selectorRule list \<Rightarrow> bool \<Rightarrow> DecisionOutcome" where
  "typedScan matches [] permit = (if permit then DecisionOutcomePermitted else DecisionOutcomeNotGranted)"
| "typedScan matches (r # rs) permit =
     (if \<not> matches r then typedScan matches rs permit
      else if \<not> l_permit r then DecisionOutcomeDenied
      else typedScan matches rs True)"

definition typedMatches :: "policy \<Rightarrow> bytes \<Rightarrow> subject \<Rightarrow> PermissionKey \<Rightarrow> bytes option \<Rightarrow> bool \<Rightarrow> instant \<Rightarrow> selectorRule \<Rightarrow> bool" where
  "typedMatches p rvn s k target collection now r \<longleftrightarrow>
     \<not> (rulePermission r \<noteq> k \<or> selectorExpired r now \<or> \<not> sameSelectorSubject p r s rvn) \<and>
     (ruleKind r = ResourceSelectorKindAll \<or> (\<not> collection \<and> sameConcrete (catalog p) k (ruleTarget r) target))"

definition typedDecision :: "policy \<Rightarrow> decisionFile \<Rightarrow> bytes \<Rightarrow> subject \<Rightarrow> PermissionKey \<Rightarrow> bytes option \<Rightarrow> bool \<Rightarrow> instant \<Rightarrow>
    DecisionOutcome" where
  "typedDecision p f rvn s k target collection now =
     (if k_action k \<notin> set (catalogue p f) then DecisionOutcomeUnknownAction
      else if legacyBlockForTyped p f rvn s k target collection now then DecisionOutcomeDenied
      else typedScan (typedMatches p rvn s k target collection now) (f_selectorRules f) False)"

definition legacyOperationValid :: "policy \<Rightarrow> LegacyOperationRequest \<Rightarrow> bool" where
  "legacyOperationValid p req \<longleftrightarrow>
     ValidDecisionQuery (lo_legacyAction req) (lo_legacyResource req) \<and>
     (case lo_concreteOperation req of
        None \<Rightarrow> True
      | Some op \<Rightarrow> HasSelectors (catalog p) \<and> ValidConcrete (catalog p) op \<and>
         list_ex (\<lambda>e. e_action e = lo_legacyAction req \<and> e_permission e = cr_permission op \<and>
           (case equivalenceProjection e (lo_legacyResource req) of
              None \<Rightarrow> False
            | Some target \<Rightarrow> target = None \<or> sameConcrete (catalog p) (e_permission e) target (cr_target op))) (equivalents p))"

definition typedBlockForLegacy :: "policy \<Rightarrow> decisionFile \<Rightarrow> bytes \<Rightarrow> subject \<Rightarrow> LegacyOperationRequest \<Rightarrow> instant \<Rightarrow> bool" where
  "typedBlockForLegacy p f rvn s req now =
     list_ex (\<lambda>e. e_action e = lo_legacyAction req \<and>
       (case lo_concreteOperation req of None \<Rightarrow> True | Some op \<Rightarrow> e_permission e = cr_permission op) \<and>
       (case equivalenceProjection e (lo_legacyResource req) of
          None \<Rightarrow> False
        | Some projected \<Rightarrow>
           (let target = (case lo_concreteOperation req of None \<Rightarrow> projected | Some op \<Rightarrow> cr_target op) in
            list_ex (\<lambda>r. \<not> (l_permit r \<or> rulePermission r \<noteq> e_permission e \<or> selectorExpired r now \<or> \<not> sameSelectorSubject p r s rvn) \<and>
              (target = None \<or> ruleKind r = ResourceSelectorKindAll \<or> sameConcrete (catalog p) (e_permission e) (ruleTarget r) target))
              (f_selectorRules f)))) (equivalents p)"

definition consentBlockForSelection :: "policy \<Rightarrow> decisionFile \<Rightarrow> bytes \<Rightarrow> subject \<Rightarrow> PermissionSelection \<Rightarrow> instant \<Rightarrow> bool" where
  "consentBlockForSelection p f rvn s selection now =
     (let collection = (s_kind (ps_selector selection) = ResourceSelectorKindAll);
          k = ps_permission selection; target = s_target (ps_selector selection) in
      legacyBlockForTyped p f rvn s k target collection now \<or>
      list_ex (\<lambda>r. \<not> l_permit r \<and> rulePermission r = k \<and> \<not> selectorExpired r now \<and> sameSelectorSubject p r s rvn \<and>
        (collection \<or> ruleKind r = ResourceSelectorKindAll \<or> sameConcrete (catalog p) k (ruleTarget r) target)) (f_selectorRules f) \<or>
      (collection \<and> list_ex (\<lambda>link. e_permission link = k \<and>
        list_ex (\<lambda>r. \<not> r_permit r \<and> r_action r = e_action link \<and> \<not> expired r now \<and> sameStoredSubject p rvn (r_subject r) s \<and>
          equivalenceProjection link (r_resource r) \<noteq> None) (rules f)) (equivalents p)))"

subsection \<open>The legacy decision\<close>

definition explain :: "DecisionOutcome \<Rightarrow> bytes \<Rightarrow> DecisionSource \<Rightarrow> bytes \<Rightarrow> DecisionExplanation" where
  "explain outcome rvn source name =
     \<lparr>x_outcome = outcome, x_policyRevision = rvn, x_source = Some source, x_defaultName = name\<rparr>"

definition legacyOperationExplained :: "policy \<Rightarrow> decisionFile \<Rightarrow> bytes \<Rightarrow> subject \<Rightarrow> LegacyOperationRequest \<Rightarrow> instant \<Rightarrow>
    DecisionExplanation" where
  "legacyOperationExplained p f rvn s req now =
     (if lo_legacyAction req \<notin> set (catalogue p f) then explain DecisionOutcomeUnknownAction rvn DecisionSourceNone []
      else if typedBlockForLegacy p f rvn s req now then explain DecisionOutcomeDenied rvn DecisionSourceTypedBlock []
      else
        let live = (case decidingRule (files p) (rules f) s (lo_legacyAction req) (lo_legacyResource req) now
              (decisionKeys p rvn (program s)) of
            None \<Rightarrow> None | Some r \<Rightarrow> if expired r now then None else Some r) in
        case live of
          Some r \<Rightarrow> explain (if r_permit r then DecisionOutcomePermitted else DecisionOutcomeDenied) rvn DecisionSourceOwnRule []
        | None \<Rightarrow> (case defaultFor p f s (lo_legacyAction req) (lo_legacyResource req) of
            (name, DefaultPermits) \<Rightarrow> explain DecisionOutcomePermitted rvn DecisionSourceAccountDefault name
          | (name, DefaultExcludesProgram) \<Rightarrow> explain DecisionOutcomeNotGranted rvn DecisionSourceDefaultExcluded name
          | (name, DefaultNone) \<Rightarrow> explain DecisionOutcomeNotGranted rvn DecisionSourceNone []))"

definition decisionOf :: "DecisionExplanation \<Rightarrow> Decision" where
  "decisionOf e = \<lparr>d_outcome = x_outcome e, d_policyRevision = x_policyRevision e\<rparr>"

definition legacyOperationDecision :: "policy \<Rightarrow> decisionFile \<Rightarrow> bytes \<Rightarrow> subject \<Rightarrow> LegacyOperationRequest \<Rightarrow> instant \<Rightarrow> Decision" where
  "legacyOperationDecision p f rvn s req now = decisionOf (legacyOperationExplained p f rvn s req now)"

definition CheckLegacyOperation :: "policy \<Rightarrow> snapshot \<Rightarrow> instant \<Rightarrow> subject \<Rightarrow> LegacyOperationRequest \<Rightarrow> Decision" where
  "CheckLegacyOperation p snap now subj req = (case NormalizeDecisionSubject (files p) subj of
     Inl e \<Rightarrow> \<lparr>d_outcome = DecisionOutcomeInvalid, d_policyRevision = []\<rparr>
   | Inr s \<Rightarrow>
      if \<not> legacyOperationValid p req then \<lparr>d_outcome = DecisionOutcomeInvalid, d_policyRevision = []\<rparr>
      else case snap of
        Inl e \<Rightarrow> \<lparr>d_outcome = DecisionOutcomeUnavailable, d_policyRevision = []\<rparr>
      | Inr (f, rvn) \<Rightarrow> legacyOperationDecision p f rvn s req now)"

definition legacyRequest :: "bytes \<Rightarrow> bytes \<Rightarrow> LegacyOperationRequest" where
  "legacyRequest action resource =
     \<lparr>lo_legacyAction = action, lo_legacyResource = resource, lo_concreteOperation = None\<rparr>"

definition Decide :: "policy \<Rightarrow> snapshot \<Rightarrow> instant \<Rightarrow> subject \<Rightarrow> bytes \<Rightarrow> bytes \<Rightarrow> Decision" where
  "Decide p snap now subj action resource = CheckLegacyOperation p snap now subj (legacyRequest action resource)"

subsection \<open>Batches and consent\<close>

definition emptyBatch :: "BatchCheckOutcome \<Rightarrow> bytes \<Rightarrow> BatchDecision" where
  "emptyBatch out rvn = \<lparr>bd_outcome = out, bd_revision = rvn, bd_collectionOutcome = None, bd_outcomes = []\<rparr>"

definition checkBatchInput :: "policy \<Rightarrow> CheckBatchRequest \<Rightarrow> bool" where
  "checkBatchInput p req \<longleftrightarrow>
     HasSelectors (catalog p) \<and> length (cb_resources req) \<le> MaxBatchResources \<and>
     (cb_resources req \<noteq> [] \<or> cb_collectionAdmission req \<noteq> None) \<and>
     (cb_expectedRevision req \<noteq> [] \<longrightarrow> boundedDecisionString (cb_expectedRevision req) 128) \<and>
     (case cb_collectionAdmission req of None \<Rightarrow> True | Some k \<Rightarrow> ValidSelection (catalog p) (allSelection k)) \<and>
     list_all (ValidConcrete (catalog p)) (cb_resources req) \<and>
     length (EncodeCheckBatchRequest req) \<le> MaxSelectorFrameBytes"

text \<open>A stored selection whose receiver no longer serves it.\<close>

definition unserved :: "policy \<Rightarrow> PermissionSelection \<Rightarrow> bool" where
  "unserved p s \<longleftrightarrow> ValidStoredSelection (catalog p) s \<and> \<not> ValidSelection (catalog p) s"

definition CheckBatch :: "policy \<Rightarrow> snapshot \<Rightarrow> instant \<Rightarrow> subject \<Rightarrow> CheckBatchRequest \<Rightarrow> BatchDecision" where
  "CheckBatch p snap now subj req =
     (if \<not> HasSelectors (catalog p) then emptyBatch BatchCheckOutcomeUnavailable []
      else if list_ex (\<lambda>r. unserved p (oneSelection (cr_permission r) (cr_target r))) (cb_resources req)
      then emptyBatch BatchCheckOutcomeUnavailable []
      else if (case cb_collectionAdmission req of None \<Rightarrow> False | Some k \<Rightarrow> unserved p (allSelection k))
      then emptyBatch BatchCheckOutcomeUnavailable []
      else case NormalizeDecisionSubject (files p) subj of
        Inl e \<Rightarrow> emptyBatch BatchCheckOutcomeInvalid []
      | Inr s \<Rightarrow>
         if \<not> checkBatchInput p req then emptyBatch BatchCheckOutcomeInvalid []
         else case snap of
           Inl e \<Rightarrow> emptyBatch BatchCheckOutcomeUnavailable []
         | Inr (f, rvn) \<Rightarrow>
            if cb_expectedRevision req \<noteq> [] \<and> cb_expectedRevision req \<noteq> rvn then emptyBatch BatchCheckOutcomeConflict rvn
            else \<lparr>bd_outcome = BatchCheckOutcomeChecked, bd_revision = rvn,
              bd_collectionOutcome = map_option (\<lambda>k. typedDecision p f rvn s k None True now) (cb_collectionAdmission req),
              bd_outcomes = map (\<lambda>r. typedDecision p f rvn s (cr_permission r) (cr_target r) False now) (cb_resources req)\<rparr>)"

definition consentOutcome :: "policy \<Rightarrow> decisionFile \<Rightarrow> bytes \<Rightarrow> subject \<Rightarrow> instant \<Rightarrow> PermissionSelection \<Rightarrow> DecisionOutcome" where
  "consentOutcome p f rvn s now selection =
     (let collection = (s_kind (ps_selector selection) = ResourceSelectorKindAll);
          outcome = typedDecision p f rvn s (ps_permission selection) (s_target (ps_selector selection)) collection now in
      if consentBlockForSelection p f rvn s selection now then DecisionOutcomeDenied else outcome)"

definition CheckPermissionEffect :: "policy \<Rightarrow> snapshot \<Rightarrow> instant \<Rightarrow> PermissionEffect \<Rightarrow> bytes \<Rightarrow> BatchDecision" where
  "CheckPermissionEffect p snap now effect expected =
     (if catalog p = None \<or> \<not> ValidPermissionEffect (files p) (catalog p) effect \<or>
         (expected \<noteq> [] \<and> \<not> boundedDecisionString expected 128)
      then emptyBatch BatchCheckOutcomeInvalid []
      else case NormalizeDecisionSubject (files p) (ef_subject effect) of
        Inl e \<Rightarrow> emptyBatch BatchCheckOutcomeInvalid []
      | Inr s \<Rightarrow> (case snap of
          Inl e \<Rightarrow> emptyBatch BatchCheckOutcomeUnavailable []
        | Inr (f, rvn) \<Rightarrow>
           if expected \<noteq> [] \<and> expected \<noteq> rvn then emptyBatch BatchCheckOutcomeConflict rvn
           else \<lparr>bd_outcome = BatchCheckOutcomeChecked, bd_revision = rvn, bd_collectionOutcome = None,
             bd_outcomes = map (consentOutcome p f rvn s now) (ef_selections effect)\<rparr>))"

subsection \<open>Operator reads\<close>

definition publicRule :: "decisionRule \<Rightarrow> PolicyRule" where
  "publicRule r = \<lparr>pr_subject = r_subject r, pr_action = r_action r, pr_resource = r_resource r, pr_permit = r_permit r\<rparr>"

record policySnapshot =
  sn_revision :: bytes
  sn_catalog :: "bytes list"
  sn_rules :: "PolicyRule list"

definition OperatorSnapshot :: "policy \<Rightarrow> snapshot \<Rightarrow> rights_error + policySnapshot" where
  "OperatorSnapshot p snap = (case snap of
     Inl e \<Rightarrow> Inl e
   | Inr (f, rvn) \<Rightarrow> Inr \<lparr>sn_revision = rvn, sn_catalog = catalogue p f, sn_rules = map publicRule (rules f)\<rparr>)"

definition Catalogue :: "policy \<Rightarrow> snapshot \<Rightarrow> rights_error + bytes list" where
  "Catalogue p snap = (case snap of Inl e \<Rightarrow> Inl e | Inr (f, rvn) \<Rightarrow> Inr (catalogue p f))"

definition emptyRead :: "RuleReadOutcome \<Rightarrow> bytes \<Rightarrow> RuleRead" where
  "emptyRead out rvn = \<lparr>rd_outcome = out, rd_revision = rvn, rd_record = None\<rparr>"

definition ReadRule :: "policy \<Rightarrow> snapshot \<Rightarrow> instant \<Rightarrow> subject \<Rightarrow> bytes \<Rightarrow> bytes \<Rightarrow> RuleRead" where
  "ReadRule p snap now subj action resource = (case NormalizeDecisionSubject (files p) subj of
     Inl e \<Rightarrow> emptyRead RuleReadOutcomeInvalid []
   | Inr s \<Rightarrow>
      if \<not> ValidDecisionQuery action resource then emptyRead RuleReadOutcomeInvalid []
      else case snap of
        Inl e \<Rightarrow> emptyRead RuleReadOutcomeUnavailable []
      | Inr (f, rvn) \<Rightarrow>
         (case decidingRule (files p) (rules f) s action resource now (decisionKeys p rvn (program s)) of
            None \<Rightarrow> emptyRead RuleReadOutcomeUnknown rvn
          | Some r \<Rightarrow> \<lparr>rd_outcome = (if expired r now then RuleReadOutcomeExpired else RuleReadOutcomeFound), rd_revision = rvn,
              rd_record = Some \<lparr>rr_rule = publicRule r, rr_setBy = r_setBy r, rr_setAt = r_setAt r, rr_why = r_why r,
                rr_expires = r_expires r\<rparr>\<rparr>))"

definition refusedExplanation :: "DecisionOutcome \<Rightarrow> DecisionExplanation" where
  "refusedExplanation out = \<lparr>x_outcome = out, x_policyRevision = [], x_source = None, x_defaultName = []\<rparr>"

definition ExplainFor :: "policy \<Rightarrow> snapshot \<Rightarrow> instant \<Rightarrow> subject \<Rightarrow> bytes \<Rightarrow> bytes \<Rightarrow> DecisionExplanation" where
  "ExplainFor p snap now subj action resource = (case NormalizeDecisionSubject (files p) subj of
     Inl e \<Rightarrow> refusedExplanation DecisionOutcomeInvalid
   | Inr s \<Rightarrow>
      if \<not> ValidDecisionQuery action resource then refusedExplanation DecisionOutcomeInvalid
      else case snap of
        Inl e \<Rightarrow> refusedExplanation DecisionOutcomeUnavailable
      | Inr (f, rvn) \<Rightarrow> legacyOperationExplained p f rvn s (legacyRequest action resource) now)"

definition publicSelectorRecord :: "decisionFile \<Rightarrow> selectorRule \<Rightarrow> SelectorRuleRecord" where
  "publicSelectorRecord f r =
     \<lparr>srr_rule = \<lparr>sr_subject = l_subject r, sr_selection = l_selection r, sr_permit = l_permit r\<rparr>,
      srr_setBy = l_setBy r, srr_setAt = l_setAt r, srr_why = l_why r, srr_expires = l_expires r,
      srr_bundleOrigin = (if l_originID r = [] then None
        else map_option (\<lambda>o1. \<lparr>bo_id = o_id o1, bo_expansion = o_expansion o1\<rparr>)
          (find (\<lambda>o1. o_id o1 = l_originID r) (f_bundleOrigins f)))\<rparr>"

definition SelectorSnapshot :: "snapshot \<Rightarrow> rights_error + bytes \<times> SelectorRuleRecord list" where
  "SelectorSnapshot snap = (case snap of
     Inl e \<Rightarrow> Inl e | Inr (f, rvn) \<Rightarrow> Inr (rvn, map (publicSelectorRecord f) (f_selectorRules f)))"

definition ReadSelectorRule :: "policy \<Rightarrow> snapshot \<Rightarrow> instant \<Rightarrow> subject \<Rightarrow> PermissionSelection \<Rightarrow> SelectorRuleRead" where
  "ReadSelectorRule p snap now subj selection =
     (case NormalizeDecisionSubject (files p) subj of
        Inl e \<Rightarrow> \<lparr>srd_outcome = RuleReadOutcomeInvalid, srd_revision = [], srd_record = None\<rparr>
      | Inr s \<Rightarrow>
         if catalog p = None \<or> \<not> ValidStoredSelection (catalog p) selection
         then \<lparr>srd_outcome = RuleReadOutcomeInvalid, srd_revision = [], srd_record = None\<rparr>
         else case snap of
           Inl e \<Rightarrow> \<lparr>srd_outcome = RuleReadOutcomeUnavailable, srd_revision = [], srd_record = None\<rparr>
         | Inr (f, rvn) \<Rightarrow> (case find (\<lambda>r. sameSelector p r s selection rvn True) (f_selectorRules f) of
             None \<Rightarrow> \<lparr>srd_outcome = RuleReadOutcomeUnknown, srd_revision = rvn, srd_record = None\<rparr>
           | Some r \<Rightarrow> \<lparr>srd_outcome = (if selectorExpired r now then RuleReadOutcomeExpired else RuleReadOutcomeFound),
               srd_revision = rvn, srd_record = Some (publicSelectorRecord f r)\<rparr>))"

definition DefinitionSnapshot :: "policy \<Rightarrow> snapshot \<Rightarrow>
    rights_error + bytes \<times> SelectorPermissionDefinition list \<times> PermissionBundleDefinition list" where
  "DefinitionSnapshot p snap = (case snap of
     Inl e \<Rightarrow> Inl e
   | Inr (f, rvn) \<Rightarrow> if \<not> HasSelectors (catalog p) then Inl (ErrOther ''rights: selector catalogue unavailable'')
       else Inr (rvn, SelectorDefinitions (catalog p), PermissionBundles (catalog p)))"

definition describedAction :: "decisionFile \<Rightarrow> bytes \<Rightarrow> DescribedAction" where
  "describedAction f action =
     (let item = \<lparr>da_action = action, da_choices = [''allow'', ''block'', ''remove_rule''], da_description = None,
            da_publishedBy = None, da_publishedAt = []\<rparr> in
      case find (\<lambda>d. publishedAction d = action) (f_descriptions f) of
        None \<Rightarrow> item
      | Some d \<Rightarrow> item\<lparr>da_description := Some (p_description d), da_publishedBy := Some (p_by d), da_publishedAt := p_at d\<rparr>)"

definition DescriptionSnapshot :: "policy \<Rightarrow> snapshot \<Rightarrow> rights_error + bytes \<times> DescribedAction list" where
  "DescriptionSnapshot p snap = (case snap of
     Inl e \<Rightarrow> Inl e | Inr (f, rvn) \<Rightarrow> Inr (rvn, map (describedAction f) (catalogue p f)))"

end
