(* ===== verification/Samples.thy ===== *)
theory Samples
  imports Decisions
begin

text \<open>
  One concrete policy and state, small enough to evaluate, for the witnesses: a host that
  names programs by their absolute path, two catalogued actions, one account-wide default,
  one typed permission with a legacy equivalence to the action \<open>demo/read\<close>.
\<close>

definition sampleApp :: subject where "sampleApp = \<lparr>account = ''alice'', program = ''/app''\<rparr>"
definition sampleOther :: subject where "sampleOther = \<lparr>account = ''alice'', program = ''/other''\<rparr>"
definition sampleOperator :: subject where "sampleOperator = \<lparr>account = ''alice'', program = ''/panel''\<rparr>"

definition sampleKey :: PermissionKey where
  "sampleKey = \<lparr>k_action = ''demo/read'', k_resourceProfile = ''demo/item@1''\<rparr>"

definition sampleLink :: legacyEquivalence where
  "sampleLink = \<lparr>e_action = ''demo/read'', e_resource = ''all'', e_permission = sampleKey, e_mode = ''m'', e_concrete = None\<rparr>"

definition sampleProfile :: resourceProfile where
  "sampleProfile = \<lparr>rp_prepare = Some (\<lambda>t. Inr t), rp_validate = Some (\<lambda>t. t \<noteq> []), rp_equal = Some (\<lambda>a b. a = b),
     rp_describe = None, rp_allowAll = True\<rparr>"

definition sampleDefinition :: SelectorPermissionDefinition where
  "sampleDefinition = \<lparr>sd_definition = \<lparr>pd_action = ''demo/read'', pd_ownerContract = ''owner'', pd_operations = [''read''],
       pd_resourceProfile = ''demo/item@1'', pd_resourceType = ''item'', pd_enforcedBy = [''demo''], pd_disclosure = ''reads'',
       pd_lifecycle = ''always'', pd_firstUse = PermissionFirstUseNone, pd_served = True\<rparr>,
     sd_label = ''Read'', sd_supportedSelectors = [ResourceSelectorKindOne, ResourceSelectorKindAll],
     sd_firstUseSelectors = [], sd_collection = ''items'', sd_allEffect = ''Every item'', sd_requestType = ''read''\<rparr>"

definition sampleCatalog :: definitionCatalog where
  "sampleCatalog = \<lparr>c_definitions = [], c_profiles = [], c_selectors = Some
     \<lparr>sc_definitions = [(sampleKey, sampleDefinition)], sc_profiles = [(''demo/item@1'', sampleProfile)], sc_bundles = [],
      sc_equivalents = [sampleLink], sc_digest = ''digest''\<rparr>\<rparr>"

definition samplePolicy :: policy where
  "samplePolicy = \<lparr>seed = [MetaAnswerAction, ''demo/read''], native = \<lparr>account = ''alice'', program = ''/service''\<rparr>,
     catalog = Some sampleCatalog, stateRequired = False, metaHolder = None,
     configuredDefaults = [\<lparr>df_name = ''reads'', df_action = ''demo/read'', df_resource = ''free'', df_everyResource = False\<rparr>],
     defaultAccount = ''alice'', defaultExcluded = None, files = plainIdentity, storedReadings = (\<lambda>_ _. [])\<rparr>"

definition sampleRule :: "bytes \<Rightarrow> bool \<Rightarrow> decisionRule" where
  "sampleRule resource permit = \<lparr>r_subject = sampleApp, r_action = ''demo/read'', r_resource = resource, r_permit = permit,
     r_setBy = sampleOperator, r_setAt = ''2026-01-01T00:00:00.000Z'', r_why = [], r_expires = [], r_questionID = []\<rparr>"

definition sampleSelector :: "bool \<Rightarrow> selectorRule" where
  "sampleSelector permit = \<lparr>l_subject = sampleApp,
     l_selection = \<lparr>ps_permission = sampleKey, ps_selector = \<lparr>s_kind = ResourceSelectorKindAll, s_target = None\<rparr>\<rparr>,
     l_permit = permit, l_setBy = sampleOperator, l_setAt = ''2026-01-01T00:00:00.000Z'', l_why = [], l_expires = [],
     l_originID = [], l_questionID = []\<rparr>"

lemmas sample_defs = sampleApp_def sampleOther_def sampleOperator_def sampleKey_def sampleLink_def sampleProfile_def
  sampleDefinition_def sampleCatalog_def samplePolicy_def sampleRule_def sampleSelector_def

lemma sample_catalogue [simp]:
  "actions f = [] \<Longrightarrow> set (catalogue samplePolicy f) = {MetaAnswerAction, ''demo/read''}"
  by (simp add: set_catalogue samplePolicy_def)

lemma sample_policy_fields [simp]:
  "files samplePolicy = plainIdentity" "seed samplePolicy = [MetaAnswerAction, ''demo/read'']"
  "catalog samplePolicy = Some sampleCatalog" "equivalents samplePolicy = [sampleLink]"
  "stateRequired samplePolicy = False" "storedReadings samplePolicy = (\<lambda>_ _. [])" "metaHolder samplePolicy = None"
  "native samplePolicy = \<lparr>account = ''alice'', program = ''/service''\<rparr>"
  by (simp_all add: samplePolicy_def equivalents_def sampleCatalog_def)

lemma sample_subjects [simp]:
  "NormalizeDecisionSubject plainIdentity sampleApp = Inr sampleApp" "writableSubject plainIdentity sampleApp = Inr sampleApp"
  "validStoredSubject plainIdentity sampleApp"
  "NormalizeDecisionSubject plainIdentity sampleOther = Inr sampleOther" "writableSubject plainIdentity sampleOther = Inr sampleOther"
  "NormalizeDecisionSubject plainIdentity sampleOperator = Inr sampleOperator"
  "validStoredSubject plainIdentity sampleOperator"
  by (simp_all add: sample_defs plain_subject printable_def code_def)

end
