(* ===== verification/Decision_Facts.thy ===== *)
theory Decision_Facts
  imports Samples
begin

text \<open>
  What the decisions promise: when a legacy operation is permitted or denied, that expired
  rules count for nothing, what an account-wide default can permit, how a typed permission
  is decided, that a block carries across a legacy equivalence both ways, and that a state
  that cannot be read permits nothing.
\<close>

subsection \<open>Legacy operations\<close>

abbreviation ownPermit :: "policy \<Rightarrow> decisionFile \<Rightarrow> bytes \<Rightarrow> subject \<Rightarrow> bytes \<Rightarrow> bytes \<Rightarrow> instant \<Rightarrow> bool" where
  "ownPermit p f rvn s a res now \<equiv> livePermit (files p) (rules f) s a res now (decisionKeys p rvn (program s))"

abbreviation ownDeny :: "policy \<Rightarrow> decisionFile \<Rightarrow> bytes \<Rightarrow> subject \<Rightarrow> bytes \<Rightarrow> bytes \<Rightarrow> instant \<Rightarrow> bool" where
  "ownDeny p f rvn s a res now \<equiv> liveDeny (files p) (rules f) s a res now (decisionKeys p rvn (program s))"

text \<open>The live deciding rule, in terms of the rules on the target.\<close>

lemma live_deciding_cases:
  obtains (deny) r where "decidingRule fs rs s a res now key = Some r" "\<not> expired r now" "\<not> r_permit r" "liveDeny fs rs s a res now key"
  | (permit) r where "decidingRule fs rs s a res now key = Some r" "\<not> expired r now" "r_permit r"
      "livePermit fs rs s a res now key" "\<not> liveDeny fs rs s a res now key"
  | (none) "\<And>r. decidingRule fs rs s a res now key = Some r \<Longrightarrow> expired r now"
      "\<not> livePermit fs rs s a res now key" "\<not> liveDeny fs rs s a res now key"
proof (cases "\<exists>r. decidingRule fs rs s a res now key = Some r \<and> \<not> expired r now")
  case True
  then obtain r where r: "decidingRule fs rs s a res now key = Some r" "\<not> expired r now" by blast
  show ?thesis
  proof (cases "r_permit r")
    case True
    with r decidingRule_permits [of fs rs s a res now key] permit show ?thesis by blast
  next
    case False
    with r decidingRule_denies [of fs rs s a res now key] deny show ?thesis by blast
  qed
next
  case False
  then have "\<not> liveDeny fs rs s a res now key" using decidingRule_denies [of fs rs s a res now key] by blast
  moreover from False this have "\<not> livePermit fs rs s a res now key"
    using decidingRule_permits [of fs rs s a res now key] by blast
  ultimately show ?thesis using none False by blast
qed

definition defaultAllows :: "policy \<Rightarrow> decisionFile \<Rightarrow> subject \<Rightarrow> bytes \<Rightarrow> bytes \<Rightarrow> bool" where
  "defaultAllows p f s a res \<longleftrightarrow> snd (defaultFor p f s a res) = DefaultPermits"

lemma explained_cases:
  fixes p f rvn s req now
  defines "a \<equiv> lo_legacyAction req" and "res \<equiv> lo_legacyResource req"
    and "x \<equiv> legacyOperationExplained p f rvn s req now"
  shows "x_outcome x =
    (if a \<notin> set (catalogue p f) then DecisionOutcomeUnknownAction
     else if typedBlockForLegacy p f rvn s req now \<or> ownDeny p f rvn s a res now then DecisionOutcomeDenied
     else if ownPermit p f rvn s a res now \<or> defaultAllows p f s a res then DecisionOutcomePermitted
     else DecisionOutcomeNotGranted)"
  unfolding x_def a_def res_def
  by (rule live_deciding_cases [of "files p" "rules f" s "lo_legacyAction req" "lo_legacyResource req" now
        "decisionKeys p rvn (program s)"])
     (auto simp: legacyOperationExplained_def Let_def explain_def defaultAllows_def
        split: option.splits prod.splits defaultVerdict.splits)

text \<open>C1: A legacy operation is permitted exactly when its action is catalogued, no live
  typed block covers it, no live exact deny is on its target, and a live exact permit or,
  with no live rule of the program's own, a default that is switched on, covers it. It is
  denied exactly when it is catalogued and a live block, typed or exact, covers it: a deny
  always wins over a permit, whatever the order or the age of the rules.\<close>

theorem legacy_operation_outcome:
  "(d_outcome (legacyOperationDecision p f rvn s req now) = DecisionOutcomePermitted \<longleftrightarrow>
      lo_legacyAction req \<in> set (catalogue p f) \<and> \<not> typedBlockForLegacy p f rvn s req now \<and>
      \<not> ownDeny p f rvn s (lo_legacyAction req) (lo_legacyResource req) now \<and>
      (ownPermit p f rvn s (lo_legacyAction req) (lo_legacyResource req) now \<or>
       defaultAllows p f s (lo_legacyAction req) (lo_legacyResource req))) \<and>
   (d_outcome (legacyOperationDecision p f rvn s req now) = DecisionOutcomeDenied \<longleftrightarrow>
      lo_legacyAction req \<in> set (catalogue p f) \<and>
      (typedBlockForLegacy p f rvn s req now \<or>
       ownDeny p f rvn s (lo_legacyAction req) (lo_legacyResource req) now))"
  unfolding legacyOperationDecision_def decisionOf_def by (simp add: explained_cases)

lemma selectorExpired_later: "selectorExpired r now \<Longrightarrow> now \<le> later \<Longrightarrow> selectorExpired r later"
  by (auto simp: selectorExpired_def stampExpired_def split: option.splits)

lemma list_ex_filter: "(\<And>x. x \<in> set xs \<Longrightarrow> Q x \<Longrightarrow> P x) \<Longrightarrow> list_ex Q (filter P xs) = list_ex Q xs"
  by (auto simp: list_ex_iff)

lemma prune_catalogue [simp]: "catalogue p (pruneExpired f now) = catalogue p f"
  by (simp add: catalogue_def)

lemma prune_typedBlock:
  assumes "now \<le> later"
  shows "typedBlockForLegacy p (pruneExpired f now) rvn s req later = typedBlockForLegacy p f rvn s req later"
  unfolding typedBlockForLegacy_def Let_def prune_fields
  by (intro arg_cong [where f = "\<lambda>Q. list_ex Q (equivalents p)"] ext)
     (auto simp: list_ex_iff split: option.splits dest: selectorExpired_later [OF _ assms])

lemma prune_legacyBlock:
  assumes "now \<le> later"
  shows "legacyBlockForTyped p (pruneExpired f now) rvn s k target collection later =
    legacyBlockForTyped p f rvn s k target collection later"
  unfolding legacyBlockForTyped_def prune_fields
  by (intro arg_cong [where f = "\<lambda>Q. list_ex Q (equivalents p)"] ext)
     (auto simp: list_ex_iff split: option.splits dest: expired_later [OF _ assms])

lemma prune_live:
  assumes "now \<le> later"
  shows "livePermit fs (rules (pruneExpired f now)) s a res later key = livePermit fs (rules f) s a res later key"
    and "liveDeny fs (rules (pruneExpired f now)) s a res later key = liveDeny fs (rules f) s a res later key"
  using expired_later [OF _ assms] by (auto simp: livePermit_def liveDeny_def)

lemma typedScan_spec:
  "typedScan matches rs permit =
     (if \<exists>r\<in>set rs. matches r \<and> \<not> l_permit r then DecisionOutcomeDenied
      else if permit \<or> (\<exists>r\<in>set rs. matches r \<and> l_permit r) then DecisionOutcomePermitted
      else DecisionOutcomeNotGranted)"
  by (induction rs arbitrary: permit) auto

lemma typedScan_filter:
  "(\<And>r. matches r \<Longrightarrow> keep r) \<Longrightarrow> typedScan matches (filter keep rs) permit = typedScan matches rs permit"
  by (induction rs arbitrary: permit) auto

lemma typedMatches_live: "typedMatches p rvn s k target collection now r \<Longrightarrow> \<not> selectorExpired r now"
  by (simp add: typedMatches_def)

lemma prune_typedScan:
  assumes "now \<le> later"
  shows "typedScan (typedMatches p rvn s k target collection later) (f_selectorRules (pruneExpired f now)) False =
    typedScan (typedMatches p rvn s k target collection later) (f_selectorRules f) False"
  unfolding prune_fields
  by (rule typedScan_filter) (use selectorExpired_later [OF _ assms] typedMatches_live in blast)

lemma prune_default: "defaultAllows p (pruneExpired f now) s a res = defaultAllows p f s a res"
  by (simp add: defaultAllows_def defaultFor_def coveringDefault_def switchOn_def)

text \<open>C10: Expired rules count for nothing: removing every rule and selector rule that has
  expired at some time changes no legacy outcome and no typed outcome then or later.\<close>

theorem expired_rules_count_for_nothing:
  assumes "now \<le> later"
  shows "d_outcome (legacyOperationDecision p (pruneExpired f now) rvn s req later) =
      d_outcome (legacyOperationDecision p f rvn s req later) \<and>
    typedDecision p (pruneExpired f now) rvn s k target collection later =
      typedDecision p f rvn s k target collection later"
  by (simp_all add: legacyOperationDecision_def decisionOf_def explained_cases prune_typedBlock [OF assms]
      prune_live [OF assms] prune_default typedDecision_def prune_legacyBlock [OF assms] prune_typedScan [OF assms]
      del: prune_fields)

theorem expired_rules_count_for_nothing_witness:
  "d_outcome (legacyOperationDecision samplePolicy (pruneExpired (emptyState\<lparr>f_rules := Some [sampleRule ''x'' True]\<rparr>) 0) []
      sampleApp (legacyRequest ''demo/read'' ''x'') 1) =
   d_outcome (legacyOperationDecision samplePolicy (emptyState\<lparr>f_rules := Some [sampleRule ''x'' True]\<rparr>) []
      sampleApp (legacyRequest ''demo/read'' ''x'') 1)"
  using expired_rules_count_for_nothing [of 0 1] by simp

text \<open>An account-wide default permits only programs of its own account that are not
  excluded, only on an action and resource a configured default switched on names, and only
  where the program has no live rule of its own and no typed block.\<close>

theorem defaults_permit_narrowly:
  assumes "x_source (legacyOperationExplained p f rvn s req now) = Some DecisionSourceAccountDefault"
  shows "defaultAccount p \<noteq> [] \<and> account s = defaultAccount p \<and>
    (\<forall>excluded. defaultExcluded p = Some excluded \<longrightarrow> \<not> excluded s) \<and>
    (\<exists>d\<in>set (configuredDefaults p). df_name d = x_defaultName (legacyOperationExplained p f rvn s req now) \<and>
       df_action d = lo_legacyAction req \<and> (df_everyResource d \<or> df_resource d = lo_legacyResource req) \<and>
       switchOn f (df_name d)) \<and>
    \<not> ownPermit p f rvn s (lo_legacyAction req) (lo_legacyResource req) now \<and>
    \<not> ownDeny p f rvn s (lo_legacyAction req) (lo_legacyResource req) now \<and>
    \<not> typedBlockForLegacy p f rvn s req now"
proof -
  let ?a = "lo_legacyAction req" and ?res = "lo_legacyResource req"
  let ?live = "case decidingRule (files p) (rules f) s ?a ?res now (decisionKeys p rvn (program s)) of
      None \<Rightarrow> None | Some r \<Rightarrow> if expired r now then None else Some r"
  have nb: "\<not> typedBlockForLegacy p f rvn s req now" and none: "?live = None"
    and "snd (defaultFor p f s ?a ?res) = DefaultPermits"
    and name: "x_defaultName (legacyOperationExplained p f rvn s req now) = fst (defaultFor p f s ?a ?res)"
    using assms
    by (auto simp: legacyOperationExplained_def explain_def Let_def
        split: if_splits option.splits prod.splits defaultVerdict.splits)
  then obtain d where d: "coveringDefault p f ?a ?res = Some d" "fst (defaultFor p f s ?a ?res) = df_name d"
    and acc: "defaultAccount p \<noteq> []" "account s = defaultAccount p"
    and ex: "\<forall>excluded. defaultExcluded p = Some excluded \<longrightarrow> \<not> excluded s"
    by (auto simp: defaultFor_def split: if_splits option.splits)
  have "d \<in> set (configuredDefaults p) \<and> df_action d = ?a \<and> (df_everyResource d \<or> df_resource d = ?res) \<and> switchOn f (df_name d)"
    using d(1) by (auto simp: coveringDefault_def find_Some_iff)
  moreover have "\<not> ownPermit p f rvn s ?a ?res now \<and> \<not> ownDeny p f rvn s ?a ?res now"
    by (rule live_deciding_cases [of "files p" "rules f" s ?a ?res now "decisionKeys p rvn (program s)"])
       (use none in auto)
  ultimately show ?thesis using acc ex nb d(2) name by auto
qed

theorem defaults_permit_narrowly_witness:
  "account sampleApp = defaultAccount samplePolicy \<and>
   x_source (legacyOperationExplained samplePolicy emptyState [] sampleApp (legacyRequest ''demo/read'' ''free'') 0) =
     Some DecisionSourceAccountDefault"
proof -
  have "x_source (legacyOperationExplained samplePolicy emptyState [] sampleApp (legacyRequest ''demo/read'' ''free'') 0) =
      Some DecisionSourceAccountDefault"
    by (simp add: legacyOperationExplained_def legacyRequest_def typedBlockForLegacy_def decidingRule_def bestOf_def
        defaultFor_def coveringDefault_def switchOn_def emptyState_def explain_def equivalenceProjection_def sampleLink_def
        set_catalogue samplePolicy_def equivalents_def sampleCatalog_def sampleApp_def)
  with defaults_permit_narrowly [OF this] show ?thesis by simp
qed

subsection \<open>Typed permissions\<close>

text \<open>C2: A typed permission is permitted exactly when its action is catalogued, no
  equivalent legacy block covers it, a live selector rule of the program permits it, and
  no live selector rule of the program that matches denies it.\<close>

theorem typed_decision_outcome:
  "(typedDecision p f rvn s k target collection now = DecisionOutcomePermitted \<longleftrightarrow>
      k_action k \<in> set (catalogue p f) \<and> \<not> legacyBlockForTyped p f rvn s k target collection now \<and>
      (\<exists>r\<in>set (f_selectorRules f). typedMatches p rvn s k target collection now r \<and> l_permit r) \<and>
      \<not> (\<exists>r\<in>set (f_selectorRules f). typedMatches p rvn s k target collection now r \<and> \<not> l_permit r)) \<and>
   (typedDecision p f rvn s k target collection now = DecisionOutcomeDenied \<longleftrightarrow>
      k_action k \<in> set (catalogue p f) \<and>
      (legacyBlockForTyped p f rvn s k target collection now \<or>
       (\<exists>r\<in>set (f_selectorRules f). typedMatches p rvn s k target collection now r \<and> \<not> l_permit r)))"
  by (auto simp: typedDecision_def typedScan_spec)

lemma legacyBlockI:
  assumes "e \<in> set (equivalents p)" and "r \<in> set (rules f)" and "\<not> r_permit r" and "r_action r = e_action e"
    and "\<not> expired r now" and "sameStoredSubject p rvn (r_subject r) s"
    and "equivalenceProjection e (r_resource r) = Some mapped"
    and "mapped = None \<or> (\<not> collection \<and> sameConcrete (catalog p) (e_permission e) mapped target)"
  shows "legacyBlockForTyped p f rvn s (e_permission e) target collection now"
proof -
  have "list_ex (\<lambda>r. \<not> (r_permit r \<or> r_action r \<noteq> e_action e \<or> expired r now \<or> \<not> sameStoredSubject p rvn (r_subject r) s) \<and>
      (case equivalenceProjection e (r_resource r) of None \<Rightarrow> False
       | Some mapped \<Rightarrow> mapped = None \<or> (\<not> collection \<and> sameConcrete (catalog p) (e_permission e) mapped target))) (rules f)"
    unfolding list_ex_iff using assms(2-8) by (intro bexI [of _ r]) simp_all
  with assms(1) show ?thesis unfolding legacyBlockForTyped_def list_ex_iff by (intro bexI [of _ e]) auto
qed

lemma typedBlockI:
  assumes "e \<in> set (equivalents p)" and "e_action e = action"
    and "equivalenceProjection e resource = Some projected" and "q \<in> set (f_selectorRules f)" and "\<not> l_permit q"
    and "rulePermission q = e_permission e" and "\<not> selectorExpired q now" and "sameSelectorSubject p q s rvn"
    and "projected = None \<or> ruleKind q = ResourceSelectorKindAll \<or> sameConcrete (catalog p) (e_permission e) (ruleTarget q) projected"
  shows "typedBlockForLegacy p f rvn s (legacyRequest action resource) now"
proof -
  have "list_ex (\<lambda>r. \<not> (l_permit r \<or> rulePermission r \<noteq> e_permission e \<or> selectorExpired r now \<or> \<not> sameSelectorSubject p r s rvn) \<and>
      (projected = None \<or> ruleKind r = ResourceSelectorKindAll \<or> sameConcrete (catalog p) (e_permission e) (ruleTarget r) projected))
      (f_selectorRules f)"
    unfolding list_ex_iff using assms(4-9) by (intro bexI [of _ q]) simp_all
  with assms(1-3) show ?thesis
    unfolding typedBlockForLegacy_def list_ex_iff by (intro bexI [of _ e]) (simp_all add: legacyRequest_def)
qed

text \<open>C8: A compiled legacy equivalence carries blocks both ways: a live exact deny of the
  program on a linked legacy resource denies the linked typed target, and a live selector
  block of the program denies the linked legacy operation.\<close>

theorem equivalence_carries_blocks:
  assumes link: "e \<in> set (equivalents p)"
    and proj: "equivalenceProjection e resource = Some projected"
    and typed: "k_action (e_permission e) \<in> set (catalogue p f)" and legacy: "e_action e \<in> set (catalogue p f)"
  shows "((\<exists>r\<in>set (rules f). \<not> r_permit r \<and> r_action r = e_action e \<and> r_resource r = resource \<and> \<not> expired r now \<and>
            sameStoredSubject p rvn (r_subject r) s) \<and>
          (projected = None \<or> sameConcrete (catalog p) (e_permission e) projected target) \<longrightarrow>
          typedDecision p f rvn s (e_permission e) target False now = DecisionOutcomeDenied) \<and>
         ((\<exists>q\<in>set (f_selectorRules f). \<not> l_permit q \<and> rulePermission q = e_permission e \<and> \<not> selectorExpired q now \<and>
            sameSelectorSubject p q s rvn \<and> (projected = None \<or> ruleKind q = ResourceSelectorKindAll \<or>
              sameConcrete (catalog p) (e_permission e) (ruleTarget q) projected)) \<longrightarrow>
          d_outcome (legacyOperationDecision p f rvn s (legacyRequest (e_action e) resource) now) = DecisionOutcomeDenied)"
proof (intro conjI impI)
  assume "(\<exists>r\<in>set (rules f). \<not> r_permit r \<and> r_action r = e_action e \<and> r_resource r = resource \<and> \<not> expired r now \<and>
      sameStoredSubject p rvn (r_subject r) s) \<and> (projected = None \<or> sameConcrete (catalog p) (e_permission e) projected target)"
  then obtain r where "r \<in> set (rules f)" "\<not> r_permit r" "r_action r = e_action e" "r_resource r = resource"
    "\<not> expired r now" "sameStoredSubject p rvn (r_subject r) s"
    and "projected = None \<or> sameConcrete (catalog p) (e_permission e) projected target" by blast
  with legacyBlockI [OF link, of r f now rvn s projected False target] proj typed
  show "typedDecision p f rvn s (e_permission e) target False now = DecisionOutcomeDenied"
    by (simp add: typedDecision_def)
next
  assume "\<exists>q\<in>set (f_selectorRules f). \<not> l_permit q \<and> rulePermission q = e_permission e \<and> \<not> selectorExpired q now \<and>
      sameSelectorSubject p q s rvn \<and> (projected = None \<or> ruleKind q = ResourceSelectorKindAll \<or>
        sameConcrete (catalog p) (e_permission e) (ruleTarget q) projected)"
  then have "typedBlockForLegacy p f rvn s (legacyRequest (e_action e) resource) now"
    using typedBlockI [OF link refl proj] by blast
  with legacy show "d_outcome (legacyOperationDecision p f rvn s (legacyRequest (e_action e) resource) now) = DecisionOutcomeDenied"
    by (simp add: legacyOperationDecision_def decisionOf_def explained_cases legacyRequest_def)
qed

theorem equivalence_carries_blocks_witness:
  "typedDecision samplePolicy (emptyState\<lparr>f_rules := Some [sampleRule ''all'' False]\<rparr>) [] sampleApp sampleKey (Some ''t'') False 0 =
     DecisionOutcomeDenied \<and>
   d_outcome (legacyOperationDecision samplePolicy (emptyState\<lparr>f_selectorRules := [sampleSelector False]\<rparr>) [] sampleApp
     (legacyRequest ''demo/read'' ''all'') 0) = DecisionOutcomeDenied"
proof -
  note carries = equivalence_carries_blocks [of sampleLink samplePolicy "''all''" None _ 0 "[]" sampleApp "Some ''t''"]
  have "sampleLink \<in> set (equivalents samplePolicy)" "equivalenceProjection sampleLink ''all'' = Some None"
    by (simp_all add: equivalenceProjection_def sampleLink_def)
  moreover have "k_action (e_permission sampleLink) = ''demo/read''" "e_action sampleLink = ''demo/read''"
    "e_permission sampleLink = sampleKey"
    by (simp_all add: sampleLink_def sampleKey_def)
  moreover have "sameStoredSubject samplePolicy [] sampleApp sampleApp"
    by (simp add: sameStoredSubject_alt sameProgram_def plainIdentity_def)
  ultimately show ?thesis
    using carries [of "emptyState\<lparr>f_rules := Some [sampleRule ''all'' False]\<rparr>"]
      carries [of "emptyState\<lparr>f_selectorRules := [sampleSelector False]\<rparr>"]
    by (simp add: set_catalogue emptyState_def sampleRule_def sampleSelector_def never_expires selectorExpired_def stampExpired_def
        sameSelectorSubject_def rulePermission_def)
qed

text \<open>What blocks a selection: a live typed block of the program that meets it, or a live exact deny of
  the program on a linked legacy resource whose projection meets it. An "all" selection meets every
  target of its permission; the whole collection meets every selection.\<close>

definition selectionBlocked :: "policy \<Rightarrow> decisionFile \<Rightarrow> bytes \<Rightarrow> subject \<Rightarrow> PermissionSelection \<Rightarrow> instant \<Rightarrow> bool" where
  "selectionBlocked p f rvn s selection now \<longleftrightarrow>
     (\<exists>q\<in>set (f_selectorRules f). \<not> l_permit q \<and> rulePermission q = ps_permission selection \<and> \<not> selectorExpired q now \<and>
        sameSelectorSubject p q s rvn \<and>
        (s_kind (ps_selector selection) = ResourceSelectorKindAll \<or> ruleKind q = ResourceSelectorKindAll \<or>
         sameConcrete (catalog p) (ps_permission selection) (ruleTarget q) (s_target (ps_selector selection)))) \<or>
     (\<exists>e\<in>set (equivalents p). e_permission e = ps_permission selection \<and>
        (\<exists>r\<in>set (rules f). \<not> r_permit r \<and> r_action r = e_action e \<and> \<not> expired r now \<and> sameStoredSubject p rvn (r_subject r) s \<and>
          (\<exists>mapped. equivalenceProjection e (r_resource r) = Some mapped \<and>
            (s_kind (ps_selector selection) = ResourceSelectorKindAll \<or> mapped = None \<or>
             sameConcrete (catalog p) (ps_permission selection) mapped (s_target (ps_selector selection))))))"

lemma legacyBlockForTyped_iff:
  "legacyBlockForTyped p f rvn s k target collection now \<longleftrightarrow>
     (\<exists>e\<in>set (equivalents p). e_permission e = k \<and> (\<exists>r\<in>set (rules f). \<not> r_permit r \<and> r_action r = e_action e \<and>
       \<not> expired r now \<and> sameStoredSubject p rvn (r_subject r) s \<and>
       (\<exists>mapped. equivalenceProjection e (r_resource r) = Some mapped \<and>
         (mapped = None \<or> (\<not> collection \<and> sameConcrete (catalog p) k mapped target)))))"
  unfolding legacyBlockForTyped_def list_ex_iff by (fastforce split: option.splits)

lemma consentBlock_iff: "consentBlockForSelection p f rvn s selection now \<longleftrightarrow> selectionBlocked p f rvn s selection now"
  unfolding consentBlockForSelection_def Let_def legacyBlockForTyped_iff selectionBlocked_def list_ex_iff by blast

lemma unblocked_target:
  assumes "\<not> selectionBlocked p f rvn s selection now"
    and "s_kind (ps_selector selection) = ResourceSelectorKindAll \<or> \<not> collection \<and> target = s_target (ps_selector selection)"
  shows "typedDecision p f rvn s (ps_permission selection) target collection now \<noteq> DecisionOutcomeDenied"
proof -
  have "\<not> legacyBlockForTyped p f rvn s (ps_permission selection) target collection now"
    using assms unfolding legacyBlockForTyped_iff selectionBlocked_def by blast
  moreover have "\<not> (\<exists>q\<in>set (f_selectorRules f). typedMatches p rvn s (ps_permission selection) target collection now q \<and> \<not> l_permit q)"
    using assms unfolding typedMatches_def selectionBlocked_def by blast
  ultimately show ?thesis by (auto simp: typedDecision_def typedScan_spec)
qed

text \<open>C9: Consent admission never offers to grant past a block: a selection is denied exactly when a
  live typed block of the program meets it or a live exact deny of the program is on a linked legacy
  resource that meets it, for one target as for an "all" selection, and whether or not the action is
  catalogued; any other selection has the outcome of its typed decision, and granting it grants no
  target past a deny: under an "all" selection no target of the permission is denied, and under any
  other its own target is not.\<close>

theorem consent_respects_blocks:
  "(consentOutcome p f rvn s now selection = DecisionOutcomeDenied \<longleftrightarrow> selectionBlocked p f rvn s selection now) \<and>
   (\<not> selectionBlocked p f rvn s selection now \<longrightarrow>
      consentOutcome p f rvn s now selection =
        typedDecision p f rvn s (ps_permission selection) (s_target (ps_selector selection))
          (s_kind (ps_selector selection) = ResourceSelectorKindAll) now \<and>
      (\<forall>target. s_kind (ps_selector selection) = ResourceSelectorKindAll \<or> target = s_target (ps_selector selection) \<longrightarrow>
        typedDecision p f rvn s (ps_permission selection) target False now \<noteq> DecisionOutcomeDenied))"
proof -
  let ?k = "ps_permission selection" and ?t = "s_target (ps_selector selection)"
  let ?all = "s_kind (ps_selector selection) = ResourceSelectorKindAll"
  have "typedDecision p f rvn s ?k target False now \<noteq> DecisionOutcomeDenied"
    if "\<not> selectionBlocked p f rvn s selection now" "?all \<or> target = ?t" for target
    using unblocked_target [of p f rvn s selection now False target] that by blast
  moreover have "typedDecision p f rvn s ?k ?t ?all now \<noteq> DecisionOutcomeDenied"
    if "\<not> selectionBlocked p f rvn s selection now"
    using unblocked_target [of p f rvn s selection now ?all ?t] that by blast
  ultimately show ?thesis by (auto simp: consentOutcome_def Let_def consentBlock_iff)
qed

theorem consent_respects_blocks_witness:
  "consentOutcome samplePolicy (emptyState\<lparr>f_selectorRules := [sampleSelector True]\<rparr>) [] sampleApp 0
     \<lparr>ps_permission = sampleKey, ps_selector = \<lparr>s_kind = ResourceSelectorKindAll, s_target = None\<rparr>\<rparr> \<noteq> DecisionOutcomeDenied \<and>
   typedDecision samplePolicy (emptyState\<lparr>f_selectorRules := [sampleSelector True]\<rparr>) [] sampleApp sampleKey (Some ''t'') False 0 \<noteq>
     DecisionOutcomeDenied \<and>
   consentOutcome samplePolicy (emptyState\<lparr>f_rules := Some [sampleRule ''all'' False]\<rparr>) [] sampleApp 0
     \<lparr>ps_permission = sampleKey, ps_selector = \<lparr>s_kind = ResourceSelectorKindOne, s_target = Some ''t''\<rparr>\<rparr> = DecisionOutcomeDenied"
proof -
  let ?all = "\<lparr>ps_permission = sampleKey, ps_selector = \<lparr>s_kind = ResourceSelectorKindAll, s_target = None\<rparr>\<rparr>"
  let ?one = "\<lparr>ps_permission = sampleKey, ps_selector = \<lparr>s_kind = ResourceSelectorKindOne, s_target = Some ''t''\<rparr>\<rparr>"
  have free: "\<not> selectionBlocked samplePolicy (emptyState\<lparr>f_selectorRules := [sampleSelector True]\<rparr>) [] sampleApp ?all 0"
    by (simp add: selectionBlocked_def emptyState_def sampleSelector_def)
  have link: "sampleLink \<in> set (equivalents samplePolicy)" "e_permission sampleLink = sampleKey"
    "equivalenceProjection sampleLink ''all'' = Some None"
    by (simp_all add: equivalenceProjection_def sampleLink_def)
  have "sameStoredSubject samplePolicy [] sampleApp sampleApp"
    by (simp add: sameStoredSubject_alt sameProgram_def plainIdentity_def)
  with link have "selectionBlocked samplePolicy (emptyState\<lparr>f_rules := Some [sampleRule ''all'' False]\<rparr>) [] sampleApp ?one 0"
    unfolding selectionBlocked_def
    by (intro disjI2 bexI [of _ sampleLink] conjI) (simp_all add: sampleRule_def sampleLink_def never_expires)
  then have "consentOutcome samplePolicy (emptyState\<lparr>f_rules := Some [sampleRule ''all'' False]\<rparr>) [] sampleApp 0 ?one = DecisionOutcomeDenied"
    using consent_respects_blocks by blast
  moreover note consent_respects_blocks [of samplePolicy "emptyState\<lparr>f_selectorRules := [sampleSelector True]\<rparr>" "[]" sampleApp 0 ?all]
  then have "consentOutcome samplePolicy (emptyState\<lparr>f_selectorRules := [sampleSelector True]\<rparr>) [] sampleApp 0 ?all \<noteq> DecisionOutcomeDenied"
    "typedDecision samplePolicy (emptyState\<lparr>f_selectorRules := [sampleSelector True]\<rparr>) [] sampleApp (ps_permission ?all) (Some ''t'') False 0 \<noteq>
      DecisionOutcomeDenied"
    using free by (blast, simp)
  ultimately show ?thesis by (simp only: PermissionSelection.select_convs not_False_eq_True simp_thms)
qed

subsection \<open>Reading the state\<close>



text \<open>The explanation an operator reads is the decision the service makes: same state,
  same subject, same clock give the same outcome and revision, on every input.\<close>

theorem explanation_is_decision:
  "decisionOf (ExplainFor p snap now subj action resource) = Decide p snap now subj action resource"
  by (auto simp: ExplainFor_def Decide_def CheckLegacyOperation_def legacyOperationValid_def legacyRequest_def
      legacyOperationDecision_def refusedExplanation_def decisionOf_def split: sum.splits)

end
