(* ===== verification/Operator_Edits.thy ===== *)
theory Operator_Edits
  imports Decisions
begin

text \<open>
  The operator's edits of exact rules and of the catalogue: \<open>Set\<close>, \<open>Revoke\<close>,
  \<open>RegisterAction\<close> (decision_policy.go), \<open>ChangeRule\<close>, \<open>EditRule\<close>, \<open>EditAction\<close>
  (operator_policy.go), \<open>ChangeRules\<close> (operator_batch.go), \<open>ApplyFirstUseAllow\<close>
  (operator_allow.go). Each operation is its checks outside the lock, the edit that runs
  inside it, and the reading of the outcome. \<open>admission\<close> tells whether an authorization
  callback was given; its answers are in the turns. An operation returns its result, its
  error and the file afterwards. A result that accompanies an error inside an edit is never
  read.
\<close>

subsection \<open>Outcomes\<close>

definition policyEdit :: "PolicyEditOutcome \<Rightarrow> bytes \<Rightarrow> PolicyRule option \<Rightarrow> PolicyEdit" where
  "policyEdit out rvn cur = \<lparr>pe_outcome = out, pe_revision = rvn, pe_current = cur\<rparr>"

definition invalidEdit :: PolicyEdit where "invalidEdit = policyEdit PolicyEditOutcomeInvalid [] None"
definition unavailableEdit :: PolicyEdit where "unavailableEdit = policyEdit PolicyEditOutcomeUnavailable [] None"

text \<open>What an operation makes of \<open>change\<close>'s error: \<open>NoWrite\<close> is a result without a write.\<close>

definition settle :: "'r \<Rightarrow> 'r \<times> rights_error option \<times> bytes option \<Rightarrow> 'r \<times> rights_error option \<times> bytes option" where
  "settle unavailable outcome = (case outcome of
     (r, None, after) \<Rightarrow> (r, None, after)
   | (r, Some e, after) \<Rightarrow> if e = NoWrite then (r, None, after) else (unavailable, Some e, after))"

definition admissionRequired :: rights_error where
  "admissionRequired = ErrOther ''rights: operator admission required''"

text \<open>\<open>result.Current\<close>: the rule that decides the target.\<close>

definition currentRule :: "policy \<Rightarrow> decisionFile \<Rightarrow> subject \<Rightarrow> bytes \<Rightarrow> bytes \<Rightarrow> instant \<Rightarrow> PolicyRule option" where
  "currentRule p f s action resource now =
     map_option publicRule (decidingRule (files p) (rules f) s action resource now (keyOnce (files p)))"

definition currentProfile :: "decisionFile \<Rightarrow> decisionFile" where
  "currentProfile f = f\<lparr>f_profile := DecisionProfile\<rparr>"

text \<open>The text of an edited state.\<close>

definition written :: "decisionFile \<Rightarrow> bytes option" where
  "written f = Some (marshalFile (currentProfile f))"

subsection \<open>Set, Revoke and RegisterAction\<close>

definition editDecision_edit :: "policy \<Rightarrow> subject \<Rightarrow> bytes \<Rightarrow> bytes \<Rightarrow> ruleChange \<Rightarrow> unit edit" where
  "editDecision_edit p s action resource ch t content = ((),
     case decodeDecision p content of
       Inl e \<Rightarrow> Inl e
     | Inr f \<Rightarrow>
        if action \<notin> set (catalogue p f) then Inl ErrUnknownRight
        else (case applyDecisionRule (files p) f s action resource ch of
          Inl e \<Rightarrow> Inl e
        | Inr (g, changed) \<Rightarrow> if \<not> changed then Inr content else Inr (written g)))"

definition editDecision :: "policy \<Rightarrow> onDisk \<Rightarrow> (nat \<Rightarrow> turn) \<Rightarrow> bytes option \<Rightarrow> instant \<Rightarrow> subject \<Rightarrow> bytes \<Rightarrow> bytes \<Rightarrow>
    bool option \<Rightarrow> rights_error option \<times> bytes option" where
  "editDecision p disk turns content now subj action resource permit =
     (case (if permit \<noteq> None then writableSubject (files p) subj else NormalizeDecisionSubject (files p) subj) of
        Inl (ErrUnresolvedShortName name) \<Rightarrow> (Some (ErrUnresolvedShortName name), content)
      | Inl e \<Rightarrow> (Some (ErrOther ''rights: invalid exact rule''), content)
      | Inr s \<Rightarrow>
         if \<not> ValidDecisionQuery action resource then (Some (ErrOther ''rights: invalid exact rule''), content)
         else case refuseHolder p s action resource permit of
           Some e \<Rightarrow> (Some e, content)
         | None \<Rightarrow> (case regular p disk of
             Some e \<Rightarrow> (Some e, content)
           | None \<Rightarrow> snd (change p (editDecision_edit p s action resource
               \<lparr>ch_permit = permit, ch_by = native p, ch_at = now, ch_ttl = 0, ch_why = [], ch_exact = False,
                ch_missing = None, ch_questionID = []\<rparr>) turns () content)))"

definition Set :: "policy \<Rightarrow> onDisk \<Rightarrow> (nat \<Rightarrow> turn) \<Rightarrow> bytes option \<Rightarrow> instant \<Rightarrow> subject \<Rightarrow> bytes \<Rightarrow> bytes \<Rightarrow> bool \<Rightarrow>
    rights_error option \<times> bytes option" where
  "Set p disk turns content now subj action resource permit =
     editDecision p disk turns content now subj action resource (Some permit)"

definition Revoke :: "policy \<Rightarrow> onDisk \<Rightarrow> (nat \<Rightarrow> turn) \<Rightarrow> bytes option \<Rightarrow> instant \<Rightarrow> subject \<Rightarrow> bytes \<Rightarrow> bytes \<Rightarrow>
    rights_error option \<times> bytes option" where
  "Revoke p disk turns content now subj action resource =
     editDecision p disk turns content now subj action resource None"

definition RegisterAction_edit :: "policy \<Rightarrow> bytes \<Rightarrow> bytes \<Rightarrow> unit edit" where
  "RegisterAction_edit p action at t content = ((),
     case decodeDecision p content of
       Inl e \<Rightarrow> Inl e
     | Inr f \<Rightarrow>
        if action \<in> set (catalogue p f) then Inr content
        else if length (catalogue p f) \<ge> MaxDecisionActions then Inl ErrCatalogueFull
        else Inr (written (addAction f \<lparr>a_action = action, a_by = native p, a_at = at\<rparr>)))"

definition RegisterAction :: "policy \<Rightarrow> onDisk \<Rightarrow> (nat \<Rightarrow> turn) \<Rightarrow> bytes option \<Rightarrow> instant \<Rightarrow> bytes \<Rightarrow>
    rights_error option \<times> bytes option" where
  "RegisterAction p disk turns content now action =
     (if \<not> ValidActionName action then (Some (ErrOther ''rights: invalid action name''), content)
      else case regular p disk of
        Some e \<Rightarrow> (Some e, content)
      | None \<Rightarrow> snd (change p (RegisterAction_edit p action (stamp now)) turns () content))"

subsection \<open>One or two rules at a revision\<close>

text \<open>A \<open>RuleEdit\<close>; a zero deadline is \<open>None\<close>.\<close>

record ruleEdit =
  ed_permit :: "bool option"
  ed_by :: subject
  ed_ttl :: duration
  ed_why :: bytes
  ed_exact :: bool
  ed_preserveOtherSetter :: bool
  ed_deadline :: "instant option"
  ed_questionID :: bytes

record operatorAllowReceipt =
  rc_id :: bytes
  rc_retained :: "bytes list"

definition millisecond :: duration where "millisecond = int Millisecond"

text \<open>The ttl under an absolute deadline at the edit time; \<open>Time.Sub\<close> saturates at the widest
  duration.\<close>

definition MaxDuration :: duration where "MaxDuration = 2 ^ 63 - 1"

definition capTTL :: "duration \<Rightarrow> instant option \<Rightarrow> instant \<Rightarrow> rights_error + duration" where
  "capTTL ttl deadline now = (case deadline of
     None \<Rightarrow> Inr ttl
   | Some d \<Rightarrow>
      if \<not> now < d then Inl ErrRuleDeadline
      else let left = min (int d - int now) MaxDuration; limit = left - left mod millisecond - millisecond in
        if limit < millisecond then Inl ErrRuleDeadline
        else Inr (if ttl = 0 \<or> ttl > limit then limit else ttl))"

definition validTTL :: "duration \<Rightarrow> bool" where
  "validTTL ttl \<longleftrightarrow> 0 \<le> ttl \<and> ttl \<le> MaxRuleTTL \<and> ttl mod millisecond = 0"

text \<open>The members of a group with their written subjects; \<open>Inl\<close> is an invalid grp and
  the error returned with it.\<close>

fun validateGroup :: "policy \<Rightarrow> subject \<Rightarrow> bytes \<Rightarrow> ruleEdit \<Rightarrow> bytes list \<Rightarrow> PolicyRule list \<Rightarrow>
    rights_error option + PolicyRule list" where
  "validateGroup p base resource ed seen [] = Inr []"
| "validateGroup p base resource ed seen (rule # rest) =
     (case writableSubject (files p) (pr_subject rule) of
        Inl (ErrUnresolvedShortName name) \<Rightarrow> Inl (Some (ErrUnresolvedShortName name))
      | Inl e \<Rightarrow> Inl None
      | Inr s \<Rightarrow>
         if account s \<noteq> account base \<or> \<not> sameSubjectProgram (files p) (program s) (program base) \<or>
            pr_resource rule \<noteq> resource \<or> Some (pr_permit rule) \<noteq> ed_permit ed \<or>
            \<not> ValidDecisionQuery (pr_action rule) (pr_resource rule) \<or>
            (ed_questionID ed \<noteq> [] \<and> IsMetaRule (pr_action rule) (pr_resource rule)) \<or>
            validMetaEdit (pr_action rule) (pr_resource rule) (ed_permit ed) (ed_ttl ed) \<noteq> None \<or>
            refuseHolder p s (pr_action rule) (pr_resource rule) (ed_permit ed) \<noteq> None
         then Inl None
         else if pr_action rule \<in> set seen then Inl None
         else (case validateGroup p base resource ed (pr_action rule # seen) rest of
           Inl e \<Rightarrow> Inl e
         | Inr rs \<Rightarrow> Inr (rule\<lparr>pr_subject := s\<rparr> # rs)))"

text \<open>Which members another setter's live permit already covers; a live deny conflicts.\<close>

fun preserveScan :: "policy \<Rightarrow> decisionFile \<Rightarrow> subject \<Rightarrow> subject \<Rightarrow> instant \<Rightarrow> PolicyRule list \<Rightarrow>
    PolicyRule + (PolicyRule \<times> bool) list" where
  "preserveScan p f base by now [] = Inr []"
| "preserveScan p f base by now (rule # rest) =
     (let key = keyOnce (files p);
          live = (case decidingRule (files p) (rules f) base (pr_action rule) (pr_resource rule) now key of
            None \<Rightarrow> None | Some r \<Rightarrow> if expired r now then None else Some r) in
      case live of
        Some current \<Rightarrow>
          if \<not> r_permit current then Inl (publicRule current)
          else (case preserveScan p f base by now rest of
            Inl c \<Rightarrow> Inl c | Inr rs \<Rightarrow> Inr ((rule, \<not> setByHolder (files p) current by key) # rs))
      | None \<Rightarrow> (case preserveScan p f base by now rest of Inl c \<Rightarrow> Inl c | Inr rs \<Rightarrow> Inr ((rule, False) # rs)))"

text \<open>The members written one after another.\<close>

fun applyGroup :: "identity \<Rightarrow> (PolicyRule \<Rightarrow> ruleChange) \<Rightarrow> decisionFile \<Rightarrow> bool \<Rightarrow> (PolicyRule \<times> bool) list \<Rightarrow>
    rights_error + decisionFile \<times> bool" where
  "applyGroup fs ch f changedAny [] = Inr (f, changedAny)"
| "applyGroup fs ch f changedAny ((rule, skip) # rest) =
     (if skip then applyGroup fs ch f changedAny rest
      else case applyDecisionRule fs f (pr_subject rule) (pr_action rule) (pr_resource rule) (ch rule) of
        Inl e \<Rightarrow> Inl e
      | Inr (g, changed) \<Rightarrow> applyGroup fs ch g (changedAny \<or> changed) rest)"

definition recordReceipt :: "operatorAllowReceipt \<Rightarrow> decisionFile \<Rightarrow> decisionFile" where
  "recordReceipt rc f = f\<lparr>f_appliedOperatorAnswers :=
     sort (filter (\<lambda>i. i \<in> set (rc_retained rc)) (f_appliedOperatorAnswers f) @ [rc_id rc])\<rparr>"

definition changeRules_edit :: "policy \<Rightarrow> bytes \<Rightarrow> subject \<Rightarrow> subject \<Rightarrow> PolicyRule list \<Rightarrow> ruleEdit \<Rightarrow>
    operatorAllowReceipt option \<Rightarrow> PolicyEdit edit" where
  "changeRules_edit p expected base by grp ed receipt t content =
     (case t_authorize t of
        Some e \<Rightarrow> (unavailableEdit, Inl e)
      | None \<Rightarrow> (case decodeDecision p content of
          Inl e \<Rightarrow> (unavailableEdit, Inl e)
        | Inr f \<Rightarrow>
           let now = t_now t; current = (\<lambda>f. currentRule p f base (pr_action (hd grp)) (pr_resource (hd grp)) now) in
           if \<not> list_all (\<lambda>rule. pr_action rule \<in> set (catalogue p f)) grp then (invalidEdit, Inl NoWrite)
           else if revision p f \<noteq> expected \<or>
             (case receipt of None \<Rightarrow> False | Some rc \<Rightarrow> rc_id rc \<in> set (f_appliedOperatorAnswers f))
           then (policyEdit PolicyEditOutcomeConflict (revision p f) (current f), Inl NoWrite)
           else (case capTTL (ed_ttl ed) (ed_deadline ed) now of
             Inl e \<Rightarrow> (unavailableEdit, Inl e)
           | Inr ttl \<Rightarrow>
              (case (if ed_preserveOtherSetter ed then preserveScan p f base by now grp
                     else Inr (map (\<lambda>rule. (rule, False)) grp)) of
                 Inl blocking \<Rightarrow> (policyEdit PolicyEditOutcomeConflict (revision p f) (Some blocking), Inl NoWrite)
               | Inr members \<Rightarrow>
                  (case applyGroup (files p) (\<lambda>rule. \<lparr>ch_permit = Some (pr_permit rule), ch_by = by, ch_at = now, ch_ttl = ttl,
                       ch_why = ed_why ed, ch_exact = ed_exact ed, ch_missing = None, ch_questionID = ed_questionID ed\<rparr>)
                       f False members of
                     Inl e \<Rightarrow> (unavailableEdit, Inl e)
                   | Inr (g, changed) \<Rightarrow>
                      let g1 = (case receipt of None \<Rightarrow> g | Some rc \<Rightarrow> recordReceipt rc g);
                          changedAny = (changed \<or> receipt \<noteq> None);
                          g2 = (if changedAny then currentProfile g1 else g1);
                          result = policyEdit PolicyEditOutcomeApplied (revision p g2) (current g2) in
                      if \<not> changedAny then (result, Inl NoWrite) else (result, Inr (Some (marshalFile g2))))))))"

definition changeRules :: "policy \<Rightarrow> onDisk \<Rightarrow> (nat \<Rightarrow> turn) \<Rightarrow> bytes option \<Rightarrow> bytes \<Rightarrow> PolicyRule list \<Rightarrow> ruleEdit \<Rightarrow> bool \<Rightarrow>
    operatorAllowReceipt option \<Rightarrow> PolicyEdit \<times> rights_error option \<times> bytes option" where
  "changeRules p disk turns content expected grp ed admission receipt =
     (if length grp < 1 \<or> length grp > 2 \<or> ed_permit ed = None \<or> \<not> boundedDecisionString expected 128 \<or>
         \<not> validTTL (ed_ttl ed) \<or> \<not> validWhy (ed_why ed) \<or>
         (ed_questionID ed \<noteq> [] \<and> (\<not> boundedDecisionString (ed_questionID ed) 128 \<or> ed_permit ed \<noteq> Some True))
      then (invalidEdit, None, content)
      else case NormalizeDecisionSubject (files p) (ed_by ed) of
        Inl e \<Rightarrow> (invalidEdit, None, content)
      | Inr by \<Rightarrow>
         (case writableSubject (files p) (pr_subject (hd grp)) of
            Inl (ErrUnresolvedShortName name) \<Rightarrow> (invalidEdit, Some (ErrUnresolvedShortName name), content)
          | Inl e \<Rightarrow> (invalidEdit, None, content)
          | Inr base \<Rightarrow>
             (case validateGroup p base (pr_resource (hd grp)) ed [] grp of
                Inl err \<Rightarrow> (invalidEdit, err, content)
              | Inr members \<Rightarrow>
                 if \<not> admission then (unavailableEdit, Some admissionRequired, content)
                 else case regular p disk of
                   Some e \<Rightarrow> (unavailableEdit, Some e, content)
                 | None \<Rightarrow> settle unavailableEdit
                     ((if receipt \<noteq> None then changeContext else change) p
                        (changeRules_edit p expected base by members ed receipt) turns unavailableEdit content))))"

definition ChangeRules :: "policy \<Rightarrow> onDisk \<Rightarrow> (nat \<Rightarrow> turn) \<Rightarrow> bytes option \<Rightarrow> bytes \<Rightarrow> PolicyRule list \<Rightarrow> ruleEdit \<Rightarrow> bool \<Rightarrow>
    PolicyEdit \<times> rights_error option \<times> bytes option" where
  "ChangeRules p disk turns content expected grp ed admission =
     changeRules p disk turns content expected grp ed admission None"

definition ApplyFirstUseAllow :: "policy \<Rightarrow> onDisk \<Rightarrow> (nat \<Rightarrow> turn) \<Rightarrow> bytes option \<Rightarrow> bytes \<Rightarrow> PolicyRule list \<Rightarrow> ruleEdit \<Rightarrow>
    bytes \<Rightarrow> bytes list \<Rightarrow> bool \<Rightarrow> PolicyEdit \<times> rights_error option \<times> bytes option" where
  "ApplyFirstUseAllow p disk turns content expected grp ed answer retained admission =
     (let meta = (length grp = 1 \<and> IsMetaRule (pr_action (hd grp)) (pr_resource (hd grp))) in
      if \<not> validAnswerID answer \<or> length retained > MaxAppliedOperatorAnswers \<or> answer \<notin> set retained \<or>
         ed_permit ed \<noteq> Some True \<or> ed_preserveOtherSetter ed \<or>
         \<not> ((ed_ttl ed = 0 \<and> \<not> meta) \<or> (meta \<and> ed_ttl ed = MetaRuleLapse)) \<or> ed_deadline ed \<noteq> None
      then (invalidEdit, None, content)
      else if \<not> (list_all validAnswerID retained \<and> distinct retained) then (invalidEdit, None, content)
      else changeRules p disk turns content expected grp (if meta then ed else ed\<lparr>ed_questionID := answer\<rparr>) admission
        (Some \<lparr>rc_id = answer, rc_retained = sort retained\<rparr>))"

definition AppliedFirstUseAllow :: "snapshot \<Rightarrow> bytes \<Rightarrow> bool \<times> rights_error option" where
  "AppliedFirstUseAllow snap answer = (case snap of
     Inl e \<Rightarrow> (False, Some e) | Inr (f, rvn) \<Rightarrow> (answer \<in> set (f_appliedOperatorAnswers f), None))"

subsection \<open>One rule at a revision\<close>

definition ChangeRule_edit :: "policy \<Rightarrow> bytes \<Rightarrow> subject \<Rightarrow> bytes \<Rightarrow> bytes \<Rightarrow> ruleChange \<Rightarrow> PolicyEdit edit" where
  "ChangeRule_edit p expected s action resource ch t content =
     (case t_authorize t of
        Some e \<Rightarrow> (unavailableEdit, Inl e)
      | None \<Rightarrow> (case decodeDecision p content of
          Inl e \<Rightarrow> (unavailableEdit, Inl e)
        | Inr f \<Rightarrow>
           let capture = (\<lambda>out f. policyEdit out (revision p f) (currentRule p f s action resource (ch_at ch))) in
           if action \<notin> set (catalogue p f) then (invalidEdit, Inl NoWrite)
           else if revision p f \<noteq> expected then (capture PolicyEditOutcomeConflict f, Inl NoWrite)
           else (case applyDecisionRule (files p) f s action resource ch of
             Inl e \<Rightarrow> (unavailableEdit, Inl e)
           | Inr (g, changed) \<Rightarrow>
              if \<not> changed then (capture PolicyEditOutcomeApplied g, Inl NoWrite)
              else (capture PolicyEditOutcomeApplied (currentProfile g), Inr (written g)))))"

definition ChangeRule :: "policy \<Rightarrow> onDisk \<Rightarrow> (nat \<Rightarrow> turn) \<Rightarrow> bytes option \<Rightarrow> instant \<Rightarrow> bytes \<Rightarrow> subject \<Rightarrow> bytes \<Rightarrow> bytes \<Rightarrow>
    ruleEdit \<Rightarrow> bool \<Rightarrow> PolicyEdit \<times> rights_error option \<times> bytes option" where
  "ChangeRule p disk turns content now expected subj action resource ed admission =
     (case ed_permit ed of
        Some permit \<Rightarrow> ChangeRules p disk turns content expected
          [\<lparr>pr_subject = subj, pr_action = action, pr_resource = resource, pr_permit = permit\<rparr>] ed admission
      | None \<Rightarrow>
         (case (NormalizeDecisionSubject (files p) subj, NormalizeDecisionSubject (files p) (ed_by ed)) of
            (Inr s, Inr by) \<Rightarrow>
              if \<not> ValidDecisionQuery action resource \<or> \<not> boundedDecisionString expected 128 \<or> \<not> validTTL (ed_ttl ed) \<or>
                 \<not> validWhy (ed_why ed) \<or> ed_ttl ed \<noteq> 0 \<or> ed_why ed \<noteq> []
              then (invalidEdit, None, content)
              else if \<not> admission then (unavailableEdit, Some admissionRequired, content)
              else (case regular p disk of
                Some e \<Rightarrow> (unavailableEdit, Some e, content)
              | None \<Rightarrow> settle unavailableEdit (change p (ChangeRule_edit p expected s action resource
                  \<lparr>ch_permit = None, ch_by = by, ch_at = now, ch_ttl = ed_ttl ed, ch_why = ed_why ed, ch_exact = ed_exact ed,
                   ch_missing = None, ch_questionID = []\<rparr>) turns unavailableEdit content))
          | _ \<Rightarrow> (invalidEdit, None, content)))"

definition EditRule :: "policy \<Rightarrow> onDisk \<Rightarrow> (nat \<Rightarrow> turn) \<Rightarrow> bytes option \<Rightarrow> instant \<Rightarrow> bytes \<Rightarrow> subject \<Rightarrow> bytes \<Rightarrow> bytes \<Rightarrow>
    bool option \<Rightarrow> bool \<Rightarrow> PolicyEdit \<times> rights_error option \<times> bytes option" where
  "EditRule p disk turns content now expected subj action resource permit admission =
     ChangeRule p disk turns content now expected subj action resource
       \<lparr>ed_permit = permit, ed_by = native p, ed_ttl = 0, ed_why = [], ed_exact = False, ed_preserveOtherSetter = False,
        ed_deadline = None, ed_questionID = []\<rparr> admission"

subsection \<open>The catalogue\<close>

definition actionEdit :: "ActionEditOutcome \<Rightarrow> bytes \<Rightarrow> CatalogEntry option \<Rightarrow> ActionEdit" where
  "actionEdit out rvn cur = \<lparr>ae_outcome = out, ae_revision = rvn, ae_current = cur\<rparr>"

definition unavailableAction :: ActionEdit where
  "unavailableAction = actionEdit ActionEditOutcomeUnavailable [] None"

definition retireAction :: "bytes \<Rightarrow> decisionFile \<Rightarrow> decisionFile" where
  "retireAction action f =
     pruneOrigins (f\<lparr>f_actions := nilIfEmpty (filter (\<lambda>a. a_action a \<noteq> action) (actions f)),
       f_descriptions := filter (\<lambda>d. publishedAction d \<noteq> action) (f_descriptions f),
       f_rules := nilIfEmpty (filter (\<lambda>r. r_action r \<noteq> action) (rules f)),
       f_selectorRules := filter (\<lambda>r. k_action (rulePermission r) \<noteq> action) (f_selectorRules f)\<rparr>)"

definition catalogEntry :: "decisionFile \<Rightarrow> bytes \<Rightarrow> CatalogEntry option" where
  "catalogEntry f action = map_option (\<lambda>a. \<lparr>ce_action = a_action a, ce_registeredBy = a_by a, ce_registeredAt = a_at a\<rparr>)
     (find (\<lambda>a. a_action a = action) (actions f))"

definition EditAction_edit :: "policy \<Rightarrow> bytes \<Rightarrow> bytes \<Rightarrow> bool \<Rightarrow> subject \<Rightarrow> bytes \<Rightarrow> ActionEdit edit" where
  "EditAction_edit p expected action register by at t content =
     (case t_authorize t of
        Some e \<Rightarrow> (unavailableAction, Inl e)
      | None \<Rightarrow> (case decodeDecision p content of
          Inl e \<Rightarrow> (unavailableAction, Inl e)
        | Inr f \<Rightarrow>
           let capture = (\<lambda>out f. actionEdit out (revision p f) (catalogEntry f action));
               apply = (\<lambda>g. (capture ActionEditOutcomeApplied (currentProfile g), Inr (written g))) in
           if \<not> register \<and> action \<in> set (seed p) then (actionEdit ActionEditOutcomeInvalid [] None, Inl NoWrite)
           else if revision p f \<noteq> expected then (capture ActionEditOutcomeConflict f, Inl NoWrite)
           else if register then
             (if action \<in> set (catalogue p f) then (capture ActionEditOutcomeApplied f, Inl NoWrite)
              else if length (catalogue p f) \<ge> MaxDecisionActions
              then (actionEdit ActionEditOutcomeExhausted [] None, Inl NoWrite)
              else apply (addAction f \<lparr>a_action = action, a_by = by, a_at = at\<rparr>))
           else if action \<notin> a_action ` set (actions f)
           then (actionEdit ActionEditOutcomeUnknown (revision p f) None, Inl NoWrite)
           else apply (retireAction action f)))"

definition EditAction :: "policy \<Rightarrow> onDisk \<Rightarrow> (nat \<Rightarrow> turn) \<Rightarrow> bytes option \<Rightarrow> instant \<Rightarrow> bytes \<Rightarrow> bytes \<Rightarrow> bool \<Rightarrow> subject \<Rightarrow>
    bool \<Rightarrow> ActionEdit \<times> rights_error option \<times> bytes option" where
  "EditAction p disk turns content now expected action register editor admission =
     (case NormalizeDecisionSubject (files p) editor of
        Inl e \<Rightarrow> (actionEdit ActionEditOutcomeInvalid [] None, None, content)
      | Inr by \<Rightarrow>
         if \<not> (if register then ValidActionName action else boundedDecisionString action 128) \<or>
            \<not> boundedDecisionString expected 128
         then (actionEdit ActionEditOutcomeInvalid [] None, None, content)
         else if \<not> admission then (unavailableAction, Some admissionRequired, content)
         else (case regular p disk of
           Some e \<Rightarrow> (unavailableAction, Some e, content)
         | None \<Rightarrow> settle unavailableAction
             (change p (EditAction_edit p expected action register by (stamp now)) turns unavailableAction content)))"

subsection \<open>Each edit is a guarded edit\<close>

text \<open>What the state must be for a write: the revision the caller saw, catalogued actions, no
  earlier completion of the same answer, and time left before the deadline.\<close>

definition ruleGroupAdmitted :: "policy \<Rightarrow> bytes \<Rightarrow> PolicyRule list \<Rightarrow> ruleEdit \<Rightarrow> operatorAllowReceipt option \<Rightarrow> turn \<Rightarrow>
    decisionFile \<Rightarrow> bool" where
  "ruleGroupAdmitted p expected grp ed receipt t f \<longleftrightarrow>
     revision p f = expected \<and> (\<forall>rule\<in>set grp. pr_action rule \<in> set (catalogue p f)) \<and>
     (\<forall>rc. receipt = Some rc \<longrightarrow> rc_id rc \<notin> set (f_appliedOperatorAnswers f)) \<and>
     (\<forall>d. ed_deadline ed = Some d \<longrightarrow> t_now t < d)"

lemma capTTL_deadline: "capTTL ttl (Some d) now = Inr ttl' \<Longrightarrow> now < d"
  by (auto simp: capTTL_def split: if_splits)

lemma changeRules_writes:
  assumes "snd (changeRules_edit p expected base by grp ed receipt t c) = Inr (Some next)"
  shows "t_authorize t = None \<and> (\<exists>f. decodeDecision p c = Inr f \<and> ruleGroupAdmitted p expected grp ed receipt t f)"
  using assms capTTL_deadline unfolding changeRules_edit_def ruleGroupAdmitted_def Let_def
  by (cases "ed_deadline ed") (auto simp: list_all_iff split: option.splits sum.splits if_split_asm)

interpretation rule_group: guarded_edit p "changeRules_edit p expected base editor grp ed receipt"
    "ruleGroupAdmitted p expected grp ed receipt"
  for p expected base editor grp ed receipt
  by unfold_locales (rule changeRules_writes)

interpretation one_rule: guarded_edit p "ChangeRule_edit p expected s action resource ch"
    "\<lambda>t f. revision p f = expected \<and> action \<in> set (catalogue p f)"
  for p expected s action resource ch
  by unfold_locales
     (auto simp: ChangeRule_edit_def Let_def split: option.splits sum.splits if_split_asm)

interpretation action_entry: guarded_edit p "EditAction_edit p expected action register editor at"
    "\<lambda>t f. revision p f = expected \<and> (register \<longrightarrow> action \<notin> set (catalogue p f) \<and> length (catalogue p f) < MaxDecisionActions) \<and>
       (\<not> register \<longrightarrow> action \<notin> set (seed p) \<and> action \<in> a_action ` set (actions f))"
  for p expected action register editor at
  by unfold_locales
     (auto simp: EditAction_edit_def Let_def split: option.splits sum.splits if_split_asm)

end
