(* ===== verification/Answer_Edits.thy ===== *)
theory Answer_Edits
  imports Operator_Edits
begin

text \<open>
  The edits around answering authority and the catalogue's metadata: \<open>StopAnswerer\<close> and
  \<open>RevokeAnswerPermits\<close> (answer_edits.go), \<open>ChangeRulesUnderAnswer\<close> and its two wrappers
  (meta_rules.go), \<open>SetDefault\<close> (account_defaults.go), and \<open>PublishAction\<close>
  (descriptions.go). One clock reading stands for the readings of one run of an edit.
\<close>

subsection \<open>Stopping an answerer\<close>

definition stopped :: "identity \<Rightarrow> subject \<Rightarrow> bool \<Rightarrow> programKeys \<Rightarrow> decisionRule \<Rightarrow> bool" where
  "stopped fs answerer alsoRevokeGrants key r \<longleftrightarrow>
     (IsMetaRule (r_action r) (r_resource r) \<and> sameTarget fs r answerer MetaAnswerAction MetaScopeApps key) \<or>
     (alsoRevokeGrants \<and> r_permit r \<and> \<not> IsMetaRule (r_action r) (r_resource r) \<and> setByHolder fs r answerer key)"

definition dropRules :: "(decisionRule \<Rightarrow> bool) \<Rightarrow> decisionFile \<Rightarrow> decisionFile" where
  "dropRules P f = f\<lparr>f_rules := nilIfEmpty (filter (\<lambda>r. \<not> P r) (rules f))\<rparr>"

lemma dropRules_rules [simp]: "rules (dropRules P f) = filter (\<lambda>r. \<not> P r) (rules f)"
  by (simp add: dropRules_def)

definition StopAnswerer_edit :: "policy \<Rightarrow> bytes \<Rightarrow> subject \<Rightarrow> bool \<Rightarrow> PolicyEdit edit" where
  "StopAnswerer_edit p expected answerer alsoRevokeGrants t content =
     (case t_authorize t of
        Some e \<Rightarrow> (unavailableEdit, Inl e)
      | None \<Rightarrow> (case decodeDecision p content of
          Inl e \<Rightarrow> (unavailableEdit, Inl e)
        | Inr f \<Rightarrow>
           if revision p f \<noteq> expected then (policyEdit PolicyEditOutcomeConflict (revision p f) None, Inl NoWrite)
           else let g = dropRules (stopped (files p) answerer alsoRevokeGrants (keyOnce (files p))) f in
             if length (rules g) = length (rules f)
             then (policyEdit PolicyEditOutcomeApplied (revision p g) None, Inl NoWrite)
             else (policyEdit PolicyEditOutcomeApplied (revision p (currentProfile g)) None, Inr (written g))))"

definition StopAnswerer :: "policy \<Rightarrow> onDisk \<Rightarrow> (nat \<Rightarrow> turn) \<Rightarrow> bytes option \<Rightarrow> bytes \<Rightarrow> subject \<Rightarrow> bool \<Rightarrow> bool \<Rightarrow>
    PolicyEdit \<times> rights_error option \<times> bytes option" where
  "StopAnswerer p disk turns content expected answerer alsoRevokeGrants admission =
     (case NormalizeDecisionSubject (files p) answerer of
        Inl e \<Rightarrow> (invalidEdit, None, content)
      | Inr a \<Rightarrow>
         if \<not> boundedDecisionString expected 128 then (invalidEdit, None, content)
         else if \<not> admission then (unavailableEdit, Some admissionRequired, content)
         else (case regular p disk of
           Some e \<Rightarrow> (unavailableEdit, Some e, content)
         | None \<Rightarrow> settle unavailableEdit
             (change p (StopAnswerer_edit p expected a alsoRevokeGrants) turns unavailableEdit content)))"

subsection \<open>Revoking what one answer permitted\<close>

definition answerPermit :: "identity \<Rightarrow> subject \<Rightarrow> bytes \<Rightarrow> instant \<Rightarrow> programKeys \<Rightarrow> decisionRule \<Rightarrow> bool" where
  "answerPermit fs answerer questionID now key r \<longleftrightarrow>
     r_permit r \<and> \<not> expired r now \<and> r_questionID r = questionID \<and> setByHolder fs r answerer key"

text \<open>Where the answer's permits are; \<open>None\<close> when a target has two rules.\<close>

fun answerIndices :: "identity \<Rightarrow> decisionRule list \<Rightarrow> subject \<Rightarrow> subject \<Rightarrow> bytes \<Rightarrow> bytes \<Rightarrow> instant \<Rightarrow> programKeys \<Rightarrow>
    bytes list \<Rightarrow> nat list option" where
  "answerIndices fs rs answerer tgt resource questionID now key [] = Some []"
| "answerIndices fs rs answerer tgt resource questionID now key (action # acts) =
     (let matches = filter (\<lambda>i. sameTarget fs (rs ! i) tgt action resource key) [0..<length rs] in
      if length matches > 1 then None
      else map_option ((@) (filter (\<lambda>i. answerPermit fs answerer questionID now key (rs ! i)) matches))
        (answerIndices fs rs answerer tgt resource questionID now key acts))"

definition deleteAt :: "nat \<Rightarrow> 'a list \<Rightarrow> 'a list" where
  "deleteAt i xs = take i xs @ drop (Suc i) xs"

definition deleteIndices :: "nat list \<Rightarrow> 'a list \<Rightarrow> 'a list" where
  "deleteIndices is xs = foldl (\<lambda>ys i. deleteAt i ys) xs (rev (sort is))"

definition RevokeAnswerPermits_edit :: "policy \<Rightarrow> bytes \<Rightarrow> subject \<Rightarrow> subject \<Rightarrow> bytes list \<Rightarrow> bytes \<Rightarrow> bytes \<Rightarrow> PolicyEdit edit" where
  "RevokeAnswerPermits_edit p expected answerer tgt acts resource questionID t content =
     (case t_authorize t of
        Some e \<Rightarrow> (unavailableEdit, Inl e)
      | None \<Rightarrow> (case decodeDecision p content of
          Inl e \<Rightarrow> (unavailableEdit, Inl e)
        | Inr f \<Rightarrow>
           let conflict = (policyEdit PolicyEditOutcomeConflict (revision p f) None, Inl NoWrite) in
           if revision p f \<noteq> expected then conflict
           else (case answerIndices (files p) (rules f) answerer tgt resource questionID (t_now t) (keyOnce (files p)) acts of
             None \<Rightarrow> conflict
           | Some is \<Rightarrow>
              if is = [] then conflict
              else let g = f\<lparr>f_rules := nilIfEmpty (deleteIndices is (rules f))\<rparr> in
                (policyEdit PolicyEditOutcomeApplied (revision p (currentProfile g)) None, Inr (written g)))))"

definition RevokeAnswerPermits :: "policy \<Rightarrow> onDisk \<Rightarrow> (nat \<Rightarrow> turn) \<Rightarrow> bytes option \<Rightarrow> bytes \<Rightarrow> subject \<Rightarrow> subject \<Rightarrow>
    bytes list \<Rightarrow> bytes \<Rightarrow> bytes \<Rightarrow> bool \<Rightarrow> PolicyEdit \<times> rights_error option \<times> bytes option" where
  "RevokeAnswerPermits p disk turns content expected answerer tgt acts resource questionID admission =
     (case (NormalizeDecisionSubject (files p) answerer, NormalizeDecisionSubject (files p) tgt) of
        (Inr a, Inr s) \<Rightarrow>
          if \<not> boundedDecisionString expected 128 \<or> \<not> boundedDecisionString questionID 128 \<or> length acts < 1 \<or>
             length acts > 2 \<or> \<not> boundedDecisionString resource 1024 \<or>
             \<not> (list_all (\<lambda>action. ValidDecisionQuery action resource \<and> \<not> IsMetaRule action resource) acts \<and> distinct acts)
          then (invalidEdit, None, content)
          else if \<not> admission then (unavailableEdit, Some admissionRequired, content)
          else (case regular p disk of
            Some e \<Rightarrow> (unavailableEdit, Some e, content)
          | None \<Rightarrow> settle unavailableEdit
              (change p (RevokeAnswerPermits_edit p expected a s acts resource questionID) turns unavailableEdit content))
      | _ \<Rightarrow> (invalidEdit, None, content))"

subsection \<open>Writing under a meta-rule\<close>

text \<open>The rules in force on the targets: \<open>Inl\<close> is another setter's or the holder's deny, else
  which targets to skip and the last rule found.\<close>

fun holderScan :: "identity \<Rightarrow> decisionRule list \<Rightarrow> subject \<Rightarrow> subject \<Rightarrow> bytes \<Rightarrow> instant \<Rightarrow> programKeys \<Rightarrow>
    PolicyRule option \<Rightarrow> bytes list \<Rightarrow> PolicyRule + (bytes \<times> bool) list \<times> PolicyRule option" where
  "holderScan fs rs holder tgt resource now key cur [] = Inr ([], cur)"
| "holderScan fs rs holder tgt resource now key cur (action # acts) =
     (case decidingRule fs rs tgt action resource now key of
        Some current \<Rightarrow>
          if \<not> expired current now then
            (if \<not> r_permit current then Inl (publicRule current)
             else (case holderScan fs rs holder tgt resource now key (Some (publicRule current)) acts of
               Inl c \<Rightarrow> Inl c | Inr (skips, final) \<Rightarrow> Inr ((action, \<not> setByHolder fs current holder key) # skips, final)))
          else (case holderScan fs rs holder tgt resource now key cur acts of
            Inl c \<Rightarrow> Inl c | Inr (skips, final) \<Rightarrow> Inr ((action, False) # skips, final))
      | None \<Rightarrow> (case holderScan fs rs holder tgt resource now key cur acts of
            Inl c \<Rightarrow> Inl c | Inr (skips, final) \<Rightarrow> Inr ((action, False) # skips, final)))"

text \<open>The holder's enrollment and the permits it carries, renewed to the same expiry.\<close>

definition renewEnrollment :: "identity \<Rightarrow> decisionFile \<Rightarrow> subject \<Rightarrow> decisionRule \<Rightarrow> instant \<Rightarrow> programKeys \<Rightarrow> decisionFile" where
  "renewEnrollment fs f holder meta now key =
     (let renewedMeta = meta\<lparr>r_expires := stamp (addDuration now MetaRuleLapse)\<rparr> in
      cascadeMeta fs (setRules (map (\<lambda>r. if sameTarget fs r holder MetaAnswerAction MetaScopeApps key \<and> r_permit r \<and>
          \<not> expired r now then r\<lparr>r_expires := r_expires renewedMeta\<rparr> else r) (rules f)) f) meta (Some renewedMeta) key)"

text \<open>The permits written one after another.\<close>

fun holderWrites :: "identity \<Rightarrow> decisionFile \<Rightarrow> subject \<Rightarrow> bytes \<Rightarrow> ruleChange \<Rightarrow> (bytes \<times> bool) list \<Rightarrow>
    rights_error + decisionFile" where
  "holderWrites fs f tgt resource ch [] = Inr f"
| "holderWrites fs f tgt resource ch ((action, skip) # rest) =
     (if skip then holderWrites fs f tgt resource ch rest
      else case applyDecisionRule fs f tgt action resource ch of
        Inl e \<Rightarrow> Inl e | Inr (g, _) \<Rightarrow> holderWrites fs g tgt resource ch rest)"

definition ChangeRulesUnderAnswer_edit :: "policy \<Rightarrow> subject \<Rightarrow> subject \<Rightarrow> bytes list \<Rightarrow> bytes \<Rightarrow> bytes \<Rightarrow> bytes \<Rightarrow> PolicyEdit edit" where
  "ChangeRulesUnderAnswer_edit p holder tgt acts resource why questionID t content =
     (case t_authorize t of
        Some e \<Rightarrow> (unavailableEdit, Inl e)
      | None \<Rightarrow> (case decodeDecision p content of
          Inl e \<Rightarrow> (unavailableEdit, Inl e)
        | Inr f \<Rightarrow>
           let now = t_now t; key = keyOnce (files p); fs = files p in
           if MetaAnswerAction \<notin> set (catalogue p f) \<or> \<not> list_all (\<lambda>action. action \<in> set (catalogue p f)) acts
           then (invalidEdit, Inl NoWrite)
           else (case liveMeta fs (rules f) holder now key of
             None \<Rightarrow> (policyEdit PolicyEditOutcomeForbidden [] None, Inl ErrNoMetaRule)
           | Some meta \<Rightarrow>
              (case holderScan fs (rules f) holder tgt resource now key None acts of
                 Inl blocking \<Rightarrow> (policyEdit PolicyEditOutcomeConflict (revision p f) (Some blocking), Inl NoWrite)
               | Inr (skips, cur) \<Rightarrow>
                  (case holderWrites fs (renewEnrollment fs f holder meta now key) tgt resource
                      \<lparr>ch_permit = Some True, ch_by = holder, ch_at = now, ch_ttl = MetaRuleLapse, ch_why = why,
                       ch_exact = True, ch_missing = None, ch_questionID = questionID\<rparr> skips of
                     Inl e \<Rightarrow> (unavailableEdit, Inl e)
                   | Inr g \<Rightarrow>
                      (policyEdit PolicyEditOutcomeApplied (revision p (currentProfile g))
                         (case acts of [] \<Rightarrow> cur
                          | action # _ \<Rightarrow> (case decidingRule fs (rules g) tgt action resource now key of
                              None \<Rightarrow> cur | Some r \<Rightarrow> Some (publicRule r))),
                       Inr (written g)))))))"

definition ChangeRulesUnderAnswer :: "policy \<Rightarrow> onDisk \<Rightarrow> (nat \<Rightarrow> turn) \<Rightarrow> bytes option \<Rightarrow> subject \<Rightarrow> subject \<Rightarrow>
    bytes list \<Rightarrow> bytes \<Rightarrow> bytes \<Rightarrow> bytes \<Rightarrow> bool \<Rightarrow> PolicyEdit \<times> rights_error option \<times> bytes option" where
  "ChangeRulesUnderAnswer p disk turns content holder0 target0 acts resource why questionID admission =
     (if length acts > 2 \<or> (questionID \<noteq> [] \<and> \<not> boundedDecisionString questionID 128) \<or> (acts = [] \<and> questionID \<noteq> [])
      then (invalidEdit, None, content)
      else case NormalizeDecisionSubject (files p) holder0 of
        Inl e \<Rightarrow> (invalidEdit, None, content)
      | Inr holder \<Rightarrow>
         let run = (\<lambda>tgt.
               if \<not> validWhy why \<or> \<not> admission then (invalidEdit, None, content)
               else (case regular p disk of
                 Some e \<Rightarrow> (unavailableEdit, Some e, content)
               | None \<Rightarrow> (case settle unavailableEdit
                   (change p (ChangeRulesUnderAnswer_edit p holder tgt acts resource why questionID) turns unavailableEdit content) of
                   (r, Some ErrNoMetaRule, after) \<Rightarrow> (policyEdit PolicyEditOutcomeForbidden [] None, Some ErrNoMetaRule, after)
                 | outcome \<Rightarrow> outcome))) in
         if acts = [] then run target0
         else case writableSubject (files p) target0 of
           Inl e \<Rightarrow> (invalidEdit, None, content)
         | Inr tgt \<Rightarrow>
            if account tgt = account holder \<and> sameSubjectProgram (files p) (program tgt) (program holder)
            then (policyEdit PolicyEditOutcomeForbidden [] None, Some ErrMetaTarget, content)
            else (case find (\<lambda>i. \<not> ValidDecisionQuery (acts ! i) resource \<or> acts ! i \<in> set (take i acts) \<or>
                    acts ! i = MetaAnswerAction) [0..<length acts] of
              Some i \<Rightarrow>
                if \<not> ValidDecisionQuery (acts ! i) resource \<or> acts ! i \<in> set (take i acts)
                then (invalidEdit, None, content)
                else (policyEdit PolicyEditOutcomeForbidden [] None, Some ErrMetaTarget, content)
            | None \<Rightarrow> run tgt))"

definition ChangeRuleUnderAnswer :: "policy \<Rightarrow> onDisk \<Rightarrow> (nat \<Rightarrow> turn) \<Rightarrow> bytes option \<Rightarrow> subject \<Rightarrow> subject \<Rightarrow> bytes \<Rightarrow>
    bytes \<Rightarrow> bool \<Rightarrow> bytes \<Rightarrow> bytes \<Rightarrow> bool \<Rightarrow> PolicyEdit \<times> rights_error option \<times> bytes option" where
  "ChangeRuleUnderAnswer p disk turns content holder tgt action resource permit why questionID admission =
     ChangeRulesUnderAnswer p disk turns content holder tgt (if permit then [action] else []) resource why questionID admission"

definition ChangeRuleUnder :: "policy \<Rightarrow> onDisk \<Rightarrow> (nat \<Rightarrow> turn) \<Rightarrow> bytes option \<Rightarrow> subject \<Rightarrow> subject \<Rightarrow> bytes \<Rightarrow>
    bytes \<Rightarrow> bool \<Rightarrow> bytes \<Rightarrow> bool \<Rightarrow> PolicyEdit \<times> rights_error option \<times> bytes option" where
  "ChangeRuleUnder p disk turns content holder tgt action resource permit why admission =
     ChangeRuleUnderAnswer p disk turns content holder tgt action resource permit why [] admission"

subsection \<open>Account-wide default switches\<close>

definition turnSwitch :: "bytes \<Rightarrow> bool \<Rightarrow> subject \<Rightarrow> bytes \<Rightarrow> decisionFile \<Rightarrow> decisionFile" where
  "turnSwitch name on by at f =
     f\<lparr>f_defaultSwitches := sort_key w_name (filter (\<lambda>s. w_name s \<noteq> name) (f_defaultSwitches f) @
        [\<lparr>w_name = name, w_on = on, w_setBy = by, w_setAt = at\<rparr>])\<rparr>"

definition defaultEdit :: "PolicyEditOutcome \<Rightarrow> bytes \<Rightarrow> PublicDefault option \<Rightarrow> DefaultEdit" where
  "defaultEdit out rvn cur = \<lparr>dfe_outcome = out, dfe_revision = rvn, dfe_current = cur\<rparr>"

definition SetDefault_edit :: "policy \<Rightarrow> accountDefault \<Rightarrow> bytes \<Rightarrow> bytes \<Rightarrow> bool \<Rightarrow> subject \<Rightarrow> bytes \<Rightarrow> DefaultEdit edit" where
  "SetDefault_edit p configuredDefault expected name on by at t content =
     (case t_authorize t of
        Some e \<Rightarrow> (defaultEdit PolicyEditOutcomeUnavailable [] None, Inl e)
      | None \<Rightarrow> (case decodeDecision p content of
          Inl e \<Rightarrow> (defaultEdit PolicyEditOutcomeUnavailable [] None, Inl e)
        | Inr f \<Rightarrow>
           let capture = (\<lambda>out f. defaultEdit out (revision p f) (Some (publicDefault f configuredDefault))) in
           if revision p f \<noteq> expected then (capture PolicyEditOutcomeConflict f, Inl NoWrite)
           else if switchOn f name = on then (capture PolicyEditOutcomeApplied f, Inl NoWrite)
           else let g = turnSwitch name on by at f in
             (capture PolicyEditOutcomeApplied (currentProfile g), Inr (written g))))"

definition SetDefault :: "policy \<Rightarrow> onDisk \<Rightarrow> (nat \<Rightarrow> turn) \<Rightarrow> bytes option \<Rightarrow> instant \<Rightarrow> bytes \<Rightarrow> bytes \<Rightarrow> bool \<Rightarrow> subject \<Rightarrow>
    bool \<Rightarrow> DefaultEdit \<times> rights_error option \<times> bytes option" where
  "SetDefault p disk turns content now expected name on editor admission =
     (case (NormalizeDecisionSubject (files p) editor, find (\<lambda>d. df_name d = name) (configuredDefaults p)) of
        (Inr by, Some d) \<Rightarrow>
          if \<not> boundedDecisionString expected 128 then (defaultEdit PolicyEditOutcomeInvalid [] None, None, content)
          else if \<not> admission then (defaultEdit PolicyEditOutcomeUnavailable [] None, Some admissionRequired, content)
          else (case regular p disk of
            Some e \<Rightarrow> (defaultEdit PolicyEditOutcomeUnavailable [] None, Some e, content)
          | None \<Rightarrow> settle (defaultEdit PolicyEditOutcomeUnavailable [] None)
              (change p (SetDefault_edit p d expected name on by (stamp now)) turns
                 (defaultEdit PolicyEditOutcomeUnavailable [] None) content))
      | _ \<Rightarrow> (defaultEdit PolicyEditOutcomeInvalid [] None, None, content))"

subsection \<open>Published descriptions\<close>

definition NormalizeActionDescription :: "identity \<Rightarrow> ActionDescription \<Rightarrow> rights_error + ActionDescription" where
  "NormalizeActionDescription fs d =
     (case NormalizeDecisionSubject fs (ad_featureApp d) of
        Inl e \<Rightarrow> Inl (ErrOther ''rights: invalid action description'')
      | Inr s \<Rightarrow>
         let n = d\<lparr>ad_featureApp := s, ad_appLabel := trimSpace (ad_appLabel d),
               ad_description := trimSpace (ad_description d), ad_declaredRisk := trimSpace (ad_declaredRisk d)\<rparr> in
         if validStoredDescription fs n then Inr n else Inl (ErrOther ''rights: invalid action description''))"

definition descriptionEdit :: "ActionEditOutcome \<Rightarrow> bytes \<Rightarrow> DescribedAction option \<Rightarrow> DescriptionEdit" where
  "descriptionEdit out rvn cur = \<lparr>de_outcome = out, de_revision = rvn, de_current = cur\<rparr>"

definition unavailableDescription :: DescriptionEdit where
  "unavailableDescription = descriptionEdit ActionEditOutcomeUnavailable [] None"

text \<open>The description put in place, in the place of the action's old one.\<close>

definition putDescription :: "publishedDescription \<Rightarrow> decisionFile \<Rightarrow> decisionFile" where
  "putDescription d f =
     (let ds = f_descriptions f in
      if publishedAction d \<in> publishedAction ` set ds
      then let i = length (takeWhile (\<lambda>x. publishedAction x \<noteq> publishedAction d) ds) in f\<lparr>f_descriptions := ds[i := d]\<rparr>
      else f\<lparr>f_descriptions := sort_key publishedAction (ds @ [d])\<rparr>)"

definition PublishAction_edit :: "policy \<Rightarrow> bytes \<Rightarrow> ActionDescription \<Rightarrow> subject \<Rightarrow> DescriptionEdit edit" where
  "PublishAction_edit p expected desc by t content =
     (case t_authorize t of
        Some e \<Rightarrow> (unavailableDescription, Inl e)
      | None \<Rightarrow> (case decodeDecision p content of
          Inl e \<Rightarrow> (unavailableDescription, Inl e)
        | Inr f \<Rightarrow>
           let action = ad_action desc; at = stamp (t_now t);
               capture = (\<lambda>out f. descriptionEdit out (revision p f)
                 (if action \<in> set (catalogue p f) then Some (describedAction f action) else None)) in
           if revision p f \<noteq> expected then (capture ActionEditOutcomeConflict f, Inl NoWrite)
           else if map_option p_description (find (\<lambda>d. publishedAction d = action) (f_descriptions f)) = Some desc
           then (capture ActionEditOutcomeApplied f, Inl NoWrite)
           else if action \<notin> set (catalogue p f) \<and> length (catalogue p f) \<ge> MaxDecisionActions
           then (descriptionEdit ActionEditOutcomeExhausted [] None, Inl NoWrite)
           else let f1 = (if action \<in> set (catalogue p f) then f
                          else addAction f \<lparr>a_action = action, a_by = by, a_at = at\<rparr>);
                    f2 = putDescription \<lparr>p_description = desc, p_by = by, p_at = at\<rparr> f1 in
             (capture ActionEditOutcomeApplied (currentProfile f2), Inr (written f2))))"

definition PublishAction :: "policy \<Rightarrow> onDisk \<Rightarrow> (nat \<Rightarrow> turn) \<Rightarrow> bytes option \<Rightarrow> bytes \<Rightarrow> ActionDescription \<Rightarrow> subject \<Rightarrow>
    bool \<Rightarrow> DescriptionEdit \<times> rights_error option \<times> bytes option" where
  "PublishAction p disk turns content expected desc editor admission =
     (case NormalizeActionDescription (files p) desc of
        Inl e \<Rightarrow> (descriptionEdit ActionEditOutcomeInvalid [] None, None, content)
      | Inr d \<Rightarrow>
         if \<not> boundedDecisionString expected 128 then (descriptionEdit ActionEditOutcomeInvalid [] None, None, content)
         else case NormalizeDecisionSubject (files p) editor of
           Inl e \<Rightarrow> (descriptionEdit ActionEditOutcomeInvalid [] None, None, content)
         | Inr by \<Rightarrow>
            if \<not> admission then (unavailableDescription, Some admissionRequired, content)
            else (case regular p disk of
              Some e \<Rightarrow> (unavailableDescription, Some e, content)
            | None \<Rightarrow> settle unavailableDescription
                (change p (PublishAction_edit p expected d by) turns unavailableDescription content)))"

subsection \<open>Each edit is a guarded edit\<close>

interpretation stop_answerer: guarded_edit p "StopAnswerer_edit p expected answerer alsoRevokeGrants"
    "\<lambda>t f. revision p f = expected"
  for p expected answerer alsoRevokeGrants
  by unfold_locales (auto simp: StopAnswerer_edit_def Let_def split: option.splits sum.splits if_split_asm)

interpretation revoke_answer: guarded_edit p "RevokeAnswerPermits_edit p expected answerer tgt acts resource questionID"
    "\<lambda>t f. revision p f = expected"
  for p expected answerer tgt acts resource questionID
  by unfold_locales (auto simp: RevokeAnswerPermits_edit_def Let_def split: option.splits sum.splits if_split_asm)

text \<open>A holder writes only while its own meta-rule is a live permit.\<close>

interpretation holder_write: guarded_edit p "ChangeRulesUnderAnswer_edit p holder tgt acts resource why questionID"
    "\<lambda>t f. liveMeta (files p) (rules f) holder (t_now t) (keyOnce (files p)) \<noteq> None \<and>
       (\<forall>action\<in>set acts. action \<in> set (catalogue p f))"
  for p holder tgt acts resource why questionID
  by unfold_locales
     (auto simp: ChangeRulesUnderAnswer_edit_def Let_def list_all_iff split: option.splits sum.splits if_split_asm prod.splits)

interpretation default_switch: guarded_edit p "SetDefault_edit p d expected name on editor at"
    "\<lambda>t f. revision p f = expected \<and> switchOn f name \<noteq> on"
  for p d expected name on editor at
  by unfold_locales (auto simp: SetDefault_edit_def Let_def split: option.splits sum.splits if_split_asm)

interpretation description: guarded_edit p "PublishAction_edit p expected desc editor"
    "\<lambda>t f. revision p f = expected \<and>
       (ad_action desc \<in> set (catalogue p f) \<or> length (catalogue p f) < MaxDecisionActions)"
  for p expected desc editor
  by unfold_locales (auto simp: PublishAction_edit_def Let_def split: option.splits sum.splits if_split_asm)

end
