(* ===== verification/Selector_Edits.thy ===== *)
theory Selector_Edits
  imports Answer_Edits
begin

text \<open>
  The edits of typed permissions (selector_edit.go, and the sorting and encoding of
  selector_policy.go): one edit, \<open>changeSelectors\<close>, writes, removes or undoes a whole set of
  selections, with a bundle's origin and an answer's completion, at one revision; the six
  operations prepare its argument.
\<close>

record selectorChange =
  q_selections :: "PermissionSelection list"
  q_subject :: subject
  q_permit :: "bool option"
  q_edit :: ruleEdit
  q_expansion :: "BundleExpansion option"
  q_removeOrigin :: bytes
  q_undoID :: bytes
  q_receipt :: "operatorAllowReceipt option"

definition selectorEdit :: "PolicyEditOutcome \<Rightarrow> bytes \<Rightarrow> SelectorRuleRecord list \<Rightarrow> BundleOrigin option \<Rightarrow> SelectorEdit" where
  "selectorEdit out rvn cur origin =
     \<lparr>se_outcome = out, se_revision = rvn, se_current = cur, se_bundleOrigin = origin\<rparr>"

definition refuseSelectors :: "PolicyEditOutcome \<Rightarrow> SelectorEdit" where
  "refuseSelectors out = selectorEdit out [] [] None"

definition validSelectorEdit :: "identity \<Rightarrow> bytes \<Rightarrow> ruleEdit \<Rightarrow> bool" where
  "validSelectorEdit fs expected ed \<longleftrightarrow>
     boundedDecisionString expected 128 \<and> validTTL (ed_ttl ed) \<and> validWhy (ed_why ed) \<and> validStoredSubject fs (ed_by ed)"

definition sortSelectorState :: "decisionFile \<Rightarrow> decisionFile" where
  "sortSelectorState f = f\<lparr>f_selectorRules := sort_key selectorRuleKey (f_selectorRules f),
     f_bundleOrigins := sort_key o_id (f_bundleOrigins f)\<rparr>"

definition encodeSelectorState :: "decisionFile \<Rightarrow> rights_error + bytes" where
  "encodeSelectorState f =
     (if length (marshalFile f) > MaxDecisionBytes then Inl (ErrOther ''rights: selector state byte bound'')
      else Inr (marshalFile f))"

text \<open>\<open>affected()\<close>: the records of the rules the change addresses.\<close>

definition affected :: "policy \<Rightarrow> bytes \<Rightarrow> selectorChange \<Rightarrow> decisionFile \<Rightarrow> SelectorRuleRecord list" where
  "affected p rvn ch f =
     map (publicSelectorRecord f) (filter (\<lambda>r.
       (q_removeOrigin ch \<noteq> [] \<and> l_originID r = q_removeOrigin ch \<and> sameSelectorSubject p r (q_subject ch) rvn) \<or>
       list_ex (\<lambda>s. sameSelector p r (q_subject ch) s rvn True) (q_selections ch)) (f_selectorRules f))"

definition originIdentity :: "bytes \<Rightarrow> selectorChange \<Rightarrow> BundleExpansion \<Rightarrow> instant \<Rightarrow> bytes" where
  "originIdentity rvn ch expansion now =
     ''sha256:'' @ sha256Hex (jprint (JObj [(''Revision'', JStr rvn), (''Subject'', subjectJson (q_subject ch)),
       (''Expansion'', expansionJson expansion), (''By'', subjectJson (ed_by (q_edit ch))), (''At'', JStr (stamp now))]))"

text \<open>A selection another live block covers, for an edit that preserves other setters.\<close>

definition preservedBlock :: "policy \<Rightarrow> decisionFile \<Rightarrow> bytes \<Rightarrow> subject \<Rightarrow> instant \<Rightarrow> PermissionSelection \<Rightarrow> bool" where
  "preservedBlock p f rvn s now selection \<longleftrightarrow>
     consentBlockForSelection p f rvn s selection now \<or>
     list_ex (\<lambda>r. sameSelector p r s selection rvn False \<and> \<not> selectorExpired r now \<and> \<not> l_permit r) (f_selectorRules f)"

text \<open>The setter of a selector rule and the editor are the same program.\<close>

definition setByEditor :: "policy \<Rightarrow> bytes \<Rightarrow> subject \<Rightarrow> selectorRule \<Rightarrow> bool" where
  "setByEditor p rvn by r \<longleftrightarrow> sameStoredSubject p rvn (l_setBy r) by"

text \<open>Which rules the removal of one selection deletes, and whether an undo found its own.\<close>

definition undoes :: "policy \<Rightarrow> bytes \<Rightarrow> selectorChange \<Rightarrow> instant \<Rightarrow> selectorRule \<Rightarrow> bool" where
  "undoes p rvn ch now r \<longleftrightarrow>
     l_permit r \<and> \<not> selectorExpired r now \<and> l_questionID r = q_undoID ch \<and> setByEditor p rvn (ed_by (q_edit ch)) r"

definition removesSelection :: "policy \<Rightarrow> bytes \<Rightarrow> selectorChange \<Rightarrow> instant \<Rightarrow> PermissionSelection \<Rightarrow> selectorRule \<Rightarrow> bool" where
  "removesSelection p rvn ch now s r \<longleftrightarrow>
     sameSelector p r (q_subject ch) s rvn True \<and> (q_undoID ch \<noteq> [] \<longrightarrow> undoes p rvn ch now r)"

definition writtenSelector :: "selectorChange \<Rightarrow> bool \<Rightarrow> duration \<Rightarrow> bytes \<Rightarrow> instant \<Rightarrow> PermissionSelection \<Rightarrow> selectorRule" where
  "writtenSelector ch permit ttl originID now s =
     \<lparr>l_subject = q_subject ch, l_selection = s, l_permit = permit, l_setBy = ed_by (q_edit ch), l_setAt = stamp now,
      l_why = ed_why (q_edit ch), l_expires = (if ttl > 0 then stamp (addDuration now ttl) else []),
      l_originID = originID, l_questionID = ed_questionID (q_edit ch)\<rparr>"

text \<open>Another setter's live permit covers the selection.\<close>

definition preservedPermit :: "policy \<Rightarrow> bytes \<Rightarrow> selectorChange \<Rightarrow> instant \<Rightarrow> PermissionSelection \<Rightarrow> selectorRule \<Rightarrow> bool" where
  "preservedPermit p rvn ch now s r \<longleftrightarrow>
     sameSelector p r (q_subject ch) s rvn False \<and> \<not> selectorExpired r now \<and> l_permit r \<and>
     \<not> setByEditor p rvn (ed_by (q_edit ch)) r"

definition unchangedSelector :: "policy \<Rightarrow> bytes \<Rightarrow> selectorChange \<Rightarrow> instant \<Rightarrow> PermissionSelection \<Rightarrow> selectorRule \<Rightarrow> selectorRule \<Rightarrow> bool" where
  "unchangedSelector p rvn ch now s r old \<longleftrightarrow>
     sameSelector p old (q_subject ch) s rvn False \<and> l_permit old = l_permit r \<and> \<not> selectorExpired old now \<and>
     l_why old = l_why r \<and> l_expires old = l_expires r \<and> l_originID old = l_originID r \<and> l_questionID old = l_questionID r"

text \<open>The selector rules after every selection, in order, and whether an undo removed one;
  \<open>n\<close> is the number of exact rules.\<close>

fun writeSelections :: "policy \<Rightarrow> bytes \<Rightarrow> selectorChange \<Rightarrow> duration \<Rightarrow> bytes \<Rightarrow> instant \<Rightarrow> nat \<Rightarrow>
    selectorRule list \<Rightarrow> bool \<Rightarrow> PermissionSelection list \<Rightarrow> rights_error + selectorRule list \<times> bool" where
  "writeSelections p rvn ch ttl originID now n rs removed [] = Inr (rs, removed)"
| "writeSelections p rvn ch ttl originID now n rs removed (s # ss) =
     (case q_permit ch of
        None \<Rightarrow> writeSelections p rvn ch ttl originID now n
          (filter (\<lambda>r. \<not> removesSelection p rvn ch now s r) rs)
          (removed \<or> (q_undoID ch \<noteq> [] \<and> list_ex (removesSelection p rvn ch now s) rs)) ss
      | Some permit \<Rightarrow>
         let r = writtenSelector ch permit ttl originID now s in
         if ed_preserveOtherSetter (q_edit ch) \<and> list_ex (preservedPermit p rvn ch now s) rs
         then writeSelections p rvn ch ttl originID now n rs removed ss
         else if list_ex (unchangedSelector p rvn ch now s r) rs
         then writeSelections p rvn ch ttl originID now n rs removed ss
         else let kept = filter (\<lambda>old. \<not> sameSelector p old (q_subject ch) s rvn False) rs in
           if n + length kept \<ge> MaxDecisionRules then Inl (ErrOther ''rights: combined rule capacity'')
           else writeSelections p rvn ch ttl originID now n (kept @ [r]) removed ss)"

text \<open>The completed answers with one added.\<close>

definition completeTyped :: "operatorAllowReceipt \<Rightarrow> decisionFile \<Rightarrow> rights_error + decisionFile" where
  "completeTyped rc f =
     (let kept = filter (\<lambda>i. i \<in> set (rc_retained rc)) (f_appliedTypedAnswers f) in
      if length kept + length (f_appliedOperatorAnswers f) \<ge> MaxAppliedOperatorAnswers
      then Inl (ErrOther ''rights: combined completion capacity'')
      else Inr (f\<lparr>f_appliedTypedAnswers := sort (kept @ [rc_id rc])\<rparr>))"

text \<open>The state after the change, before it is sorted; \<open>Inr None\<close> is an undo that found
  nothing of its own.\<close>

definition selectorState :: "policy \<Rightarrow> bytes \<Rightarrow> selectorChange \<Rightarrow> duration \<Rightarrow> bytes \<Rightarrow> instant \<Rightarrow> decisionFile \<Rightarrow>
    rights_error + decisionFile option" where
  "selectorState p rvn ch ttl originID now f =
     (let rs = (if q_removeOrigin ch = [] then f_selectorRules f
                else filter (\<lambda>r. \<not> (l_originID r = q_removeOrigin ch \<and> sameSelectorSubject p r (q_subject ch) rvn)) (f_selectorRules f)) in
      case writeSelections p rvn ch ttl originID now (length (rules f)) rs False (q_selections ch) of
        Inl e \<Rightarrow> Inl e
      | Inr (rs', removed) \<Rightarrow>
         if q_undoID ch \<noteq> [] \<and> \<not> removed then Inr None
         else let f1 = f\<lparr>f_selectorRules := rs'\<rparr>;
                  f2 = (case q_expansion ch of
                    None \<Rightarrow> f1
                  | Some x \<Rightarrow> if list_ex (\<lambda>r. l_originID r = originID) rs'
                      then f1\<lparr>f_bundleOrigins := f_bundleOrigins f1 @ [\<lparr>o_id = originID, o_expansion = x\<rparr>]\<rparr> else f1) in
           (case q_receipt ch of
              None \<Rightarrow> Inr (Some f2)
            | Some rc \<Rightarrow> map_sum id Some (completeTyped rc f2)))"

definition changeSelectors_edit :: "policy \<Rightarrow> bytes \<Rightarrow> selectorChange \<Rightarrow> SelectorEdit edit" where
  "changeSelectors_edit p expected ch t content =
     (case t_authorize t of
        Some e \<Rightarrow> (refuseSelectors PolicyEditOutcomeUnavailable, Inl e)
      | None \<Rightarrow> (case decodeDecision p content of
          Inl e \<Rightarrow> (refuseSelectors PolicyEditOutcomeUnavailable, Inl e)
        | Inr f \<Rightarrow>
           let rvn = revision p f; now = t_now t;
               conflict = (selectorEdit PolicyEditOutcomeConflict rvn (affected p rvn ch f) None, Inl NoWrite);
               failed = (\<lambda>e. (refuseSelectors PolicyEditOutcomeUnavailable, Inl e)) in
           if rvn \<noteq> expected \<or>
              (case q_receipt ch of None \<Rightarrow> False | Some rc \<Rightarrow> rc_id rc \<in> set (f_appliedTypedAnswers f)) then conflict
           else if \<not> list_all (\<lambda>s. k_action (ps_permission s) \<in> set (catalogue p f)) (q_selections ch)
           then (refuseSelectors PolicyEditOutcomeInvalid, Inl NoWrite)
           else (case capTTL (ed_ttl (q_edit ch)) (ed_deadline (q_edit ch)) now of
             Inl e \<Rightarrow> failed e
           | Inr ttl \<Rightarrow>
              let originID = (case q_expansion ch of None \<Rightarrow> [] | Some x \<Rightarrow> originIdentity rvn ch x now) in
              if ed_preserveOtherSetter (q_edit ch) \<and>
                 list_ex (preservedBlock p f rvn (q_subject ch) now) (q_selections ch) then conflict
              else (case selectorState p rvn ch ttl originID now f of
                Inl e \<Rightarrow> failed e
              | Inr None \<Rightarrow> conflict
              | Inr (Some f1) \<Rightarrow>
                 let g = sortSelectorState (pruneSelectorState f1 now); h = currentProfile g in
                 (case encodeSelectorState g of
                    Inl e \<Rightarrow> failed e
                  | Inr after \<Rightarrow>
                     if marshalFile f = after
                     then (selectorEdit PolicyEditOutcomeApplied rvn (affected p rvn ch g) None, Inl NoWrite)
                     else (case validateSelectorState p h of
                       Some e \<Rightarrow> failed e
                     | None \<Rightarrow> (case encodeSelectorState h of
                         Inl e \<Rightarrow> failed e
                       | Inr data \<Rightarrow>
                          (selectorEdit PolicyEditOutcomeApplied (revision p h) (affected p rvn ch h)
                             (if originID = [] then None
                              else map_option (\<lambda>o1. \<lparr>bo_id = o_id o1, bo_expansion = o_expansion o1\<rparr>)
                                (find (\<lambda>o1. o_id o1 = originID) (f_bundleOrigins h))),
                           Inr (Some data)))))))))"

definition changeSelectors :: "policy \<Rightarrow> onDisk \<Rightarrow> (nat \<Rightarrow> turn) \<Rightarrow> bytes option \<Rightarrow> bytes \<Rightarrow> selectorChange \<Rightarrow> bool \<Rightarrow>
    SelectorEdit \<times> rights_error option \<times> bytes option" where
  "changeSelectors p disk turns content expected ch admission =
     (if catalog p = None \<or> \<not> validSelectorEdit (files p) expected (q_edit ch) \<or>
         \<not> validStoredSubject (files p) (q_subject ch) \<or> length (q_selections ch) > MaxPermissionEffect
      then (refuseSelectors PolicyEditOutcomeInvalid, None, content)
      else if \<not> (list_all (\<lambda>s. ValidStoredSelection (catalog p) s \<and>
                   (q_permit ch \<noteq> None \<longrightarrow> ValidSelection (catalog p) s)) (q_selections ch) \<and>
                 ascendingSelections (q_selections ch))
      then (refuseSelectors PolicyEditOutcomeInvalid, None, content)
      else if \<not> admission then (refuseSelectors PolicyEditOutcomeUnavailable, Some admissionRequired, content)
      else case regular p disk of
        Some e \<Rightarrow> (refuseSelectors PolicyEditOutcomeUnavailable, Some e, content)
      | None \<Rightarrow> settle (refuseSelectors PolicyEditOutcomeUnavailable)
          (changeContext p (changeSelectors_edit p expected ch) turns (refuseSelectors PolicyEditOutcomeUnavailable) content))"

subsection \<open>The operations\<close>

definition plainChange :: "subject \<Rightarrow> PermissionSelection list \<Rightarrow> bool option \<Rightarrow> ruleEdit \<Rightarrow> selectorChange" where
  "plainChange s selections permit ed =
     \<lparr>q_selections = selections, q_subject = s, q_permit = permit, q_edit = ed, q_expansion = None,
      q_removeOrigin = [], q_undoID = [], q_receipt = None\<rparr>"

definition SetSelectorRule :: "policy \<Rightarrow> onDisk \<Rightarrow> (nat \<Rightarrow> turn) \<Rightarrow> bytes option \<Rightarrow> bytes \<Rightarrow> SelectorRule \<Rightarrow> ruleEdit \<Rightarrow> bool \<Rightarrow>
    SelectorEdit \<times> rights_error option \<times> bytes option" where
  "SetSelectorRule p disk turns content expected rule ed admission =
     (case writableSubject (files p) (sr_subject rule) of
        Inl e \<Rightarrow> (refuseSelectors PolicyEditOutcomeInvalid, Some e, content)
      | Inr s \<Rightarrow> (case PrepareSelection (catalog p) (sr_selection rule) of
          Inl e \<Rightarrow> (refuseSelectors (if e = ErrPermissionUnavailable then PolicyEditOutcomeUnavailable
                     else PolicyEditOutcomeInvalid), None, content)
        | Inr selection \<Rightarrow> changeSelectors p disk turns content expected
            (plainChange s [selection] (Some (sr_permit rule)) ed) admission))"

definition RemoveSelectorRule :: "policy \<Rightarrow> onDisk \<Rightarrow> (nat \<Rightarrow> turn) \<Rightarrow> bytes option \<Rightarrow> bytes \<Rightarrow> subject \<Rightarrow>
    PermissionSelection \<Rightarrow> ruleEdit \<Rightarrow> bool \<Rightarrow> SelectorEdit \<times> rights_error option \<times> bytes option" where
  "RemoveSelectorRule p disk turns content expected subj selection ed admission =
     (case writableSubject (files p) subj of
        Inl e \<Rightarrow> (refuseSelectors PolicyEditOutcomeInvalid, Some e, content)
      | Inr s \<Rightarrow>
         if catalog p = None \<or> \<not> ValidStoredSelection (catalog p) selection
         then (refuseSelectors PolicyEditOutcomeInvalid, None, content)
         else changeSelectors p disk turns content expected (plainChange s [selection] None ed) admission)"

definition ApplyBundle :: "policy \<Rightarrow> onDisk \<Rightarrow> (nat \<Rightarrow> turn) \<Rightarrow> bytes option \<Rightarrow> bytes \<Rightarrow> subject \<Rightarrow> bytes \<Rightarrow>
    ResourceSelector \<Rightarrow> ruleEdit \<Rightarrow> bool \<Rightarrow> SelectorEdit \<times> rights_error option \<times> bytes option" where
  "ApplyBundle p disk turns content expected subj ref selector ed admission =
     (case PreparePermissionEffect (files p) (catalog p) subj [] ref (Some selector) of
        Inl e \<Rightarrow> (refuseSelectors (if e = ErrPermissionUnavailable then PolicyEditOutcomeUnavailable
                   else PolicyEditOutcomeInvalid), None, content)
      | Inr effect \<Rightarrow> changeSelectors p disk turns content expected
          ((plainChange (ef_subject effect) (ef_selections effect) (Some True) ed)\<lparr>q_expansion := ef_bundle effect\<rparr>) admission)"

definition RemoveBundle :: "policy \<Rightarrow> onDisk \<Rightarrow> (nat \<Rightarrow> turn) \<Rightarrow> bytes option \<Rightarrow> bytes \<Rightarrow> subject \<Rightarrow> bytes \<Rightarrow> ruleEdit \<Rightarrow>
    bool \<Rightarrow> SelectorEdit \<times> rights_error option \<times> bytes option" where
  "RemoveBundle p disk turns content expected subj origin ed admission =
     (case writableSubject (files p) subj of
        Inl e \<Rightarrow> (refuseSelectors PolicyEditOutcomeInvalid, Some e, content)
      | Inr s \<Rightarrow>
         if \<not> boundedDecisionString origin 128 then (refuseSelectors PolicyEditOutcomeInvalid, None, content)
         else changeSelectors p disk turns content expected ((plainChange s [] None ed)\<lparr>q_removeOrigin := origin\<rparr>) admission)"

definition ApplyPermissionEffect :: "policy \<Rightarrow> onDisk \<Rightarrow> (nat \<Rightarrow> turn) \<Rightarrow> bytes option \<Rightarrow> bytes \<Rightarrow> PermissionEffect \<Rightarrow>
    ruleEdit \<Rightarrow> bytes \<Rightarrow> bytes list \<Rightarrow> bool \<Rightarrow> SelectorEdit \<times> rights_error option \<times> bytes option" where
  "ApplyPermissionEffect p disk turns content expected effect ed answer retained admission =
     (if catalog p = None \<or> \<not> ValidPermissionEffect (files p) (catalog p) effect \<or> \<not> validAnswerID answer \<or>
         length retained > MaxAppliedOperatorAnswers \<or> answer \<notin> set retained
      then (refuseSelectors PolicyEditOutcomeInvalid, None, content)
      else if \<not> (list_all validAnswerID retained \<and> distinct retained)
      then (refuseSelectors PolicyEditOutcomeInvalid, None, content)
      else changeSelectors p disk turns content expected
        ((plainChange (ef_subject effect) (ef_selections effect) (Some True)
            (ed\<lparr>ed_questionID := answer, ed_preserveOtherSetter := True\<rparr>))
           \<lparr>q_expansion := ef_bundle effect, q_receipt := Some \<lparr>rc_id = answer, rc_retained = sort retained\<rparr>\<rparr>) admission)"

definition UndoPermissionEffect :: "policy \<Rightarrow> onDisk \<Rightarrow> (nat \<Rightarrow> turn) \<Rightarrow> bytes option \<Rightarrow> bytes \<Rightarrow> PermissionEffect \<Rightarrow>
    subject \<Rightarrow> bytes \<Rightarrow> bool \<Rightarrow> SelectorEdit \<times> rights_error option \<times> bytes option" where
  "UndoPermissionEffect p disk turns content expected effect operator answer admission =
     (if catalog p = None \<or> \<not> ValidStoredPermissionEffect (files p) (catalog p) effect \<or> \<not> validAnswerID answer
      then (refuseSelectors PolicyEditOutcomeInvalid, None, content)
      else changeSelectors p disk turns content expected
        ((plainChange (ef_subject effect) (ef_selections effect) None
            \<lparr>ed_permit = None, ed_by = operator, ed_ttl = 0, ed_why = [], ed_exact = False, ed_preserveOtherSetter = False,
             ed_deadline = None, ed_questionID = []\<rparr>)\<lparr>q_undoID := answer\<rparr>) admission)"

definition AppliedPermissionEffect :: "snapshot \<Rightarrow> bytes \<Rightarrow> bool \<times> rights_error option" where
  "AppliedPermissionEffect snap answer = (case snap of
     Inl e \<Rightarrow> (False, Some e) | Inr (f, rvn) \<Rightarrow> (answer \<in> set (f_appliedTypedAnswers f), None))"

subsection \<open>The edit is a guarded edit\<close>

text \<open>An edit that preserves other setters writes only where no live block meets any selection.\<close>

definition selectionsAdmitted :: "policy \<Rightarrow> bytes \<Rightarrow> selectorChange \<Rightarrow> turn \<Rightarrow> decisionFile \<Rightarrow> bool" where
  "selectionsAdmitted p expected ch t f \<longleftrightarrow>
     revision p f = expected \<and> (\<forall>s\<in>set (q_selections ch). k_action (ps_permission s) \<in> set (catalogue p f)) \<and>
     (\<forall>rc. q_receipt ch = Some rc \<longrightarrow> rc_id rc \<notin> set (f_appliedTypedAnswers f)) \<and>
     (\<forall>d. ed_deadline (q_edit ch) = Some d \<longrightarrow> t_now t < d) \<and>
     (ed_preserveOtherSetter (q_edit ch) \<longrightarrow>
        (\<forall>s\<in>set (q_selections ch). \<not> preservedBlock p f expected (q_subject ch) (t_now t) s))"

lemma changeSelectors_writes:
  assumes "snd (changeSelectors_edit p expected ch t c) = Inr (Some next)"
  shows "t_authorize t = None \<and> (\<exists>f. decodeDecision p c = Inr f \<and> selectionsAdmitted p expected ch t f)"
  using assms capTTL_deadline unfolding changeSelectors_edit_def selectionsAdmitted_def Let_def
  by (cases "ed_deadline (q_edit ch)")
     (auto simp: list_all_iff list_ex_iff split: option.splits sum.splits if_split_asm)

interpretation selectors: guarded_edit p "changeSelectors_edit p expected ch" "selectionsAdmitted p expected ch"
  for p expected ch
  by unfold_locales (rule changeSelectors_writes)

end
