(* ===== verification/Written_State.thy ===== *)
theory Written_State
  imports Decision_Facts Selector_Edits
begin

text \<open>
  Reading back what an edit wrote. On a host without short aliases a state that an edit
  wrote decodes to exactly that state, so the outcome of \<open>change\<close> can be followed from the
  decoded state an edit found to the one a decision reads next. It also holds the concrete
  state the witnesses start from.
\<close>

subsection \<open>A written state reads back\<close>

text \<open>A host on which no path component is a short alias, and normalization gives storable
  names; a policy loaded there.\<close>

definition longNames :: "identity \<Rightarrow> bool" where
  "longNames fs \<longleftrightarrow> byteEqualNames fs \<and> (\<forall>q. \<not> hasShortNameComponent fs q) \<and>
     (\<forall>s n. NormalizeDecisionSubject fs s = Inr n \<longrightarrow> validStoredSubject fs n)"

definition ready :: "policy \<Rightarrow> bool" where
  "ready p \<longleftrightarrow> configured p \<and> longNames (files p) \<and> validStoredSubject (files p) (native p)"

lemma newPolicy_ready:
  assumes "newPolicy fs readings os seeds definitions = Inr p" and "trustedCatalog definitions" and "longNames fs"
  shows "ready p"
  using newPolicy_configured [OF assms(1,2)] assms
  by (auto simp: newPolicy_def Let_def ready_def longNames_def serviceSubject_def split: if_splits sum.splits)

lemma longNames_spelled: "longNames (files p) \<Longrightarrow> spelledFile (files p) False f"
  by (simp add: longNames_def spelledFile_def spelled_no_alias)

lemma writable_normalized: "writableSubject fs s = Inr n \<Longrightarrow> NormalizeDecisionSubject fs s = Inr n"
  by (auto simp: writableSubject_def split: sum.splits if_splits)

lemma jvalid_omitList_iff [simp]:
  "list_all (\<lambda>(k, v). validUTF8 k \<and> jvalid v) (omitList k enc xs) \<longleftrightarrow> xs = [] \<or> validUTF8 k \<and> (\<forall>x\<in>set xs. jvalid (enc x))"
  by (auto simp: omitList_def list_all_iff)

lemma jvalid_slice_iff [simp]: "jvalid (sliceJson enc s) \<longleftrightarrow> (\<forall>x\<in>set (elems s). jvalid (enc x))"
  by (cases s) (auto simp: sliceJson_def list_all_iff)

lemma jvalid_fileJson:
  "jvalid (fileJson f) \<longleftrightarrow> validUTF8 (f_profile f) \<and> (\<forall>x\<in>set (actions f). jvalid (actionJson x)) \<and>
     (\<forall>x\<in>set (rules f). jvalid (ruleJson x)) \<and> (\<forall>x\<in>set (f_appliedOperatorAnswers f). validUTF8 x) \<and>
     (\<forall>x\<in>set (f_descriptions f). jvalid (publishedJson x)) \<and> (\<forall>x\<in>set (f_selectorRules f). jvalid (selectorRuleJson x)) \<and>
     (\<forall>x\<in>set (f_bundleOrigins f). jvalid (originJson x)) \<and> (\<forall>x\<in>set (f_appliedTypedAnswers f). validUTF8 x) \<and>
     (\<forall>x\<in>set (f_defaultSwitches f). jvalid (switchJson x))"
  by (auto simp: fileJson_def key_names)

text \<open>What a read returned is text that prints and reads back; so is a written file when it
  decodes at all.\<close>

lemma decoded_text:
  assumes r: "ready p" and d: "decodeDecision p c = Inr f"
  shows "jvalid (fileJson f) \<and> wellFormed p f"
proof (cases c)
  case None
  with d r have "f = emptyState" "wellFormed p f"
    by (auto simp: decodeDecision_def ready_def configured_def wellFormed_emptyState)
  with r jvalid_file [of p f] show ?thesis by (simp add: ready_def)
next
  case (Some data)
  from decodeDecision_Some [OF d [unfolded Some]] obtain g where g: "wellFormed p g"
    and f: "f = fst (canonicalizeStored (files p) g False)" by blast
  have "f = g" using f canonicalizeStored_spelled [OF longNames_spelled, of p g] r by (simp add: ready_def)
  with g r jvalid_file [of p f] show ?thesis by (simp add: ready_def)
qed

lemma written_decodes:
  assumes r: "ready p" and j: "jvalid (fileJson g)" and d: "decodeDecision p (Some (marshalFile g)) = Inr h"
  shows "h = g"
  using d unmarshalFile_marshalFile [OF j] canonicalizeStored_spelled [OF longNames_spelled, of p g] r
  by (auto simp: decodeDecision_def ready_def split: option.split_asm if_split_asm)

lemma jvalid_writtenRule:
  "jvalid (ruleJson (writtenRule s a res b ch)) \<longleftrightarrow>
     jvalid (subjectJson s) \<and> validUTF8 a \<and> validUTF8 res \<and> jvalid (subjectJson (ch_by ch)) \<and>
     (ch_why ch \<noteq> [] \<longrightarrow> validUTF8 (ch_why ch)) \<and> (ch_questionID ch \<noteq> [] \<longrightarrow> validUTF8 (ch_questionID ch))"
  by (auto simp: ruleJson_def writtenRule_def omitStr_def key_names printable_stamp printable_validUTF8)

lemma jvalid_renewed: "jvalid (ruleJson r) \<Longrightarrow> r_expires n \<noteq> [] \<longrightarrow> validUTF8 (r_expires n) \<Longrightarrow>
    jvalid (ruleJson (renewed fs old (Some n) key r))"
  by (auto simp: renewed_def ruleJson_def omitStr_def key_names)

lemma finishEdit_fields:
  "f_actions (finishEdit fs f old r key now) = f_actions f" "f_profile (finishEdit fs f old r key now) = f_profile f"
  "f_appliedOperatorAnswers (finishEdit fs f old r key now) = f_appliedOperatorAnswers f"
  "f_descriptions (finishEdit fs f old r key now) = f_descriptions f"
  "f_appliedTypedAnswers (finishEdit fs f old r key now) = f_appliedTypedAnswers f"
  "f_defaultSwitches (finishEdit fs f old r key now) = f_defaultSwitches f"
  "set (f_selectorRules (finishEdit fs f old r key now)) \<subseteq> set (f_selectorRules f)"
  "set (f_bundleOrigins (finishEdit fs f old r key now)) \<subseteq> set (f_bundleOrigins f)"
  by (auto simp: finishEdit_def Let_def pruneKeep_def pruneSelectorState_def pruneOrigins_def split: option.splits)

lemma pruneExpired_subset:
  "set (f_bundleOrigins (pruneExpired f now)) \<subseteq> set (f_bundleOrigins f)"
  by (auto simp: pruneExpired_def pruneSelectorState_def pruneOrigins_def)

lemma apply_metaError:
  "applyDecisionRule fs f s action resource ch = Inr (g, c) \<Longrightarrow>
   (if IsMetaRule action resource then validMetaEdit action resource (ch_permit ch) (ch_ttl ch) else None) = None"
  unfolding applyDecisionRule_def Let_def
  by (cases "if IsMetaRule action resource then validMetaEdit action resource (ch_permit ch) (ch_ttl ch) else None") simp_all

lemma apply_fields:
  assumes "applyDecisionRule fs f s a res ch = Inr (g, c)"
  shows "f_actions g = f_actions f \<and> f_profile g = f_profile f \<and> f_appliedOperatorAnswers g = f_appliedOperatorAnswers f \<and>
    f_descriptions g = f_descriptions f \<and> f_appliedTypedAnswers g = f_appliedTypedAnswers f \<and>
    f_defaultSwitches g = f_defaultSwitches f \<and> set (f_selectorRules g) \<subseteq> set (f_selectorRules f) \<and>
    set (f_bundleOrigins g) \<subseteq> set (f_bundleOrigins f)"
proof -
  note fin = finishEdit_fields [of fs]
  have revoked: ?thesis if "g = pruneExpired (case old of None \<Rightarrow> setRules rs f
        | Some o1 \<Rightarrow> cascadeMeta fs (setRules rs f) o1 None (keyOnce fs)) (ch_at ch)" for old rs
    using pruneExpired_subset [of "setRules rs f" "ch_at ch"] that by (cases old) (auto simp: cascadeMeta_def)
  have replaced: ?thesis if "g = finishEdit fs (setRules rs f) old r key (ch_at ch)" for old rs r key
    using fin(7,8) [of "setRules rs f" old r key "ch_at ch"] that by (simp add: fin(1-6))
  have added: ?thesis if "g = finishEdit fs (setRules rs (pruneExpired (setRules rs' f) (ch_at ch))) old r key (ch_at ch)"
    for old r rs rs' key
  proof -
    let ?f = "setRules rs (pruneExpired (setRules rs' f) (ch_at ch))"
    have "set (f_bundleOrigins ?f) \<subseteq> set (f_bundleOrigins f)" "set (f_selectorRules ?f) \<subseteq> set (f_selectorRules f)"
      using pruneExpired_subset [of "setRules rs' f" "ch_at ch"] by auto
    then show ?thesis using that fin(7,8) [of ?f old r key "ch_at ch"] by (auto simp: fin(1-6))
  qed
  note e = apply_metaError [OF assms]
  let ?same = "\<lambda>r. sameTarget fs r s a res (keyOnce fs)"
  let ?m = "filter (\<lambda>i. ?same (rules f ! i)) [0..<length (rules f)]"
  let ?old = "if IsMetaRule a res then liveMeta fs (rules f) s (ch_at ch) (keyOnce fs) else None"
  show ?thesis
  proof (cases "c")
    case False
    with apply_unchanged(1) [of fs f s a res ch g] assms have "g = f" by simp
    then show ?thesis by simp
  next
    case True
    with assms have "applyDecisionRule fs f s a res ch = Inr (g, True)" by simp
    note a = this [unfolded applyDecisionRule_def Let_def e option.case]
    show ?thesis
    proof (cases "ch_permit ch")
      case None
      with a have "g = pruneExpired (case ?old of None \<Rightarrow> setRules (filter (\<lambda>r. \<not> ?same r) (rules f)) f
          | Some o1 \<Rightarrow> cascadeMeta fs (setRules (filter (\<lambda>r. \<not> ?same r) (rules f)) f) o1 None (keyOnce fs)) (ch_at ch)"
        by (cases "ch_missing ch") (simp_all split: if_split_asm)
      then show ?thesis by (rule revoked)
    next
      case (Some b)
      let ?r = "writtenRule s a res b ch" and ?k = "targetKey s a res"
      show ?thesis
      proof (cases "length ?m = 1")
        case True
        with a Some have "g = finishEdit fs (setRules ((rules f)[hd ?m := ?r]) f) ?old ?r ?k (ch_at ch)"
          by (simp split: if_split_asm)
        then show ?thesis by (rule replaced)
      next
        case False
        let ?f1 = "pruneExpired (setRules (filter (\<lambda>r. \<not> ?same r) (rules f)) f) (ch_at ch)"
        from False a Some have "g = finishEdit fs (setRules (rules ?f1 @ [?r]) ?f1) ?old ?r ?k (ch_at ch)"
          by (simp split: if_split_asm)
        then show ?thesis by (rule added)
      qed
    qed
  qed
qed

lemma apply_jvalid:
  assumes j: "jvalid (fileJson f)" and a: "applyDecisionRule fs f s a res ch = Inr (g, c)"
    and w: "\<And>b. ch_permit ch = Some b \<Longrightarrow> jvalid (ruleJson (writtenRule s a res b ch))"
  shows "jvalid (fileJson g)"
proof -
  have "jvalid (ruleJson x)" if x: "x \<in> set (rules g)" for x
  proof (cases c)
    case False
    with apply_unchanged(1) [of fs f s a res ch g] a have "g = f" by simp
    with x j show ?thesis by (simp add: jvalid_fileJson)
  next
    case True
    with a have a: "applyDecisionRule fs f s a res ch = Inr (g, True)" by simp
    show ?thesis
    proof (cases "ch_permit ch")
      case None
      from apply_revoked [OF a None] x j show ?thesis by (simp add: jvalid_fileJson)
    next
      case (Some b)
      let ?r = "writtenRule s a res b ch"
      from applyDecisionRule_set [OF a Some] obtain keep where
        kp: "\<forall>y. keep y \<longrightarrow> y \<in> set (rules f) \<and> \<not> sameTarget fs y s a res (keyOnce fs)" and
        g: "set (rules g) = {x \<in> renewing fs f s a res ch ?r ` insert ?r {y. keep y}.
          ruleKey x = targetKey s a res \<or> \<not> expired x (ch_at ch)}"
        by (elim exE conjE) (rule that)
      from x g have "x \<in> renewing fs f s a res ch ?r ` insert ?r {y. keep y}" by simp
      then obtain y where y: "x = renewing fs f s a res ch ?r y" "y = ?r \<or> keep y" by blast
      have "jvalid (ruleJson y)"
        using y(2)
      proof
        assume "keep y"
        with kp have "y \<in> set (rules f)" by simp
        with j show ?thesis by (simp add: jvalid_fileJson)
      qed (simp add: w [OF Some])
      moreover have "r_expires ?r \<noteq> [] \<longrightarrow> validUTF8 (r_expires ?r)"
        by (simp add: writtenRule_def printable_stamp printable_validUTF8)
      ultimately have "jvalid (ruleJson (renewed fs old (Some ?r) (keyOnce fs) y))" for old by (rule jvalid_renewed)
      with \<open>jvalid (ruleJson y)\<close> show ?thesis
        unfolding y(1) renewing_def
        by (cases "if IsMetaRule a res then liveMeta fs (rules f) s (ch_at ch) (keyOnce fs) else None") simp_all
    qed
  qed
  moreover note apply_fields [OF a] j [unfolded jvalid_fileJson]
  ultimately show ?thesis unfolding jvalid_fileJson by (simp add: subset_eq)
qed

lemma currentProfile_fields [simp]:
  "rules (currentProfile f) = rules f" "actions (currentProfile f) = actions f" "f_profile (currentProfile f) = DecisionProfile"
  "f_appliedOperatorAnswers (currentProfile f) = f_appliedOperatorAnswers f" "f_descriptions (currentProfile f) = f_descriptions f"
  "f_selectorRules (currentProfile f) = f_selectorRules f" "f_bundleOrigins (currentProfile f) = f_bundleOrigins f"
  "f_appliedTypedAnswers (currentProfile f) = f_appliedTypedAnswers f" "f_defaultSwitches (currentProfile f) = f_defaultSwitches f"
  "catalogue p (currentProfile f) = catalogue p f"
  by (simp_all add: currentProfile_def catalogue_def)

lemma jvalid_currentProfile: "jvalid (fileJson f) \<Longrightarrow> jvalid (fileJson (currentProfile f))"
  by (simp add: jvalid_fileJson) (simp add: DecisionProfile_def code_def printable_validUTF8)

text \<open>What a run that ends a change leaves, when every state the edit writes is valid text.\<close>

lemma endedBy_decodes:
  assumes r: "ready p" and e: "endedBy (checkedChange p edit) t c res after"
    and s: "snd (edit t c) = Inr content'"
    and out: "content' = c \<and> decodeDecision p c = Inr f \<or> (\<exists>g. content' = written g \<and> f = currentProfile g \<and> jvalid (fileJson g))"
  shows "decodeDecision p after = Inr f"
  using out
proof
  assume t: "content' = c \<and> decodeDecision p c = Inr f"
  have "snd (checkedChange p edit t c) = Inr content' \<or> (\<exists>x. snd (checkedChange p edit t c) = Inl x)"
    using s by (auto simp: checkedChange_def split: prod.splits sum.splits option.splits if_splits)
  with e t have "after = c" by (auto simp: endedBy_def)
  with t show ?thesis by simp
next
  assume "\<exists>g. content' = written g \<and> f = currentProfile g \<and> jvalid (fileJson g)"
  then obtain g where g: "content' = written g" "f = currentProfile g" "jvalid (fileJson g)" by blast
  with e s have "after = written g" and d: "\<exists>h. decodeDecision p (written g) = Inr h"
    by (auto simp: endedBy_def checkedChange_def written_def split: prod.splits sum.splits option.splits if_splits)
  from d obtain h where "decodeDecision p (written g) = Inr h" by blast
  with written_decodes [OF r jvalid_currentProfile [OF g(3)], of h] g(2) \<open>after = written g\<close> show ?thesis
    by (simp add: written_def)
qed

lemma endedBy_edit:
  "endedBy (checkedChange p edit) t c res after \<Longrightarrow> \<exists>content'. edit t c = (res, Inr content')"
  by (cases "edit t c") (auto simp: endedBy_def checkedChange_def split: sum.splits option.splits if_splits)

subsection \<open>Set and Revoke\<close>

abbreviation nativeChange :: "policy \<Rightarrow> instant \<Rightarrow> bool option \<Rightarrow> ruleChange" where
  "nativeChange p now permit \<equiv> \<lparr>ch_permit = permit, ch_by = native p, ch_at = now, ch_ttl = 0, ch_why = [], ch_exact = False,
     ch_missing = None, ch_questionID = []\<rparr>"

lemma jvalid_nativeRule:
  assumes "ready p" and "NormalizeDecisionSubject (files p) subj = Inr s" and "ValidDecisionQuery action resource"
  shows "jvalid (ruleJson (writtenRule s action resource b (nativeChange p now permit)))"
  using assms jvalid_subject [of "files p"]
  by (auto simp: jvalid_writtenRule ready_def longNames_def ValidDecisionQuery_def intro: bounded_validUTF8)

lemma editDecision_done:
  assumes r: "ready p" and e: "editDecision p disk turns content now subj action resource permit = (None, after)"
  obtains s c f g changed where "NormalizeDecisionSubject (files p) subj = Inr s" and "ValidDecisionQuery action resource"
    and "found turns content c" and "decodeDecision p c = Inr f" and "action \<in> set (catalogue p f)"
    and "applyDecisionRule (files p) f s action resource (nativeChange p now permit) = Inr (g, changed)"
    and "decodeDecision p after = Inr (if changed then currentProfile g else f)"
    and "refuseHolder p s action resource permit = None"
proof -
  let ?edit = "\<lambda>s. editDecision_edit p s action resource (nativeChange p now permit)"
  obtain s where s: "NormalizeDecisionSubject (files p) subj = Inr s" "ValidDecisionQuery action resource"
      "refuseHolder p s action resource permit = None"
    and ch: "snd (change p (?edit s) turns () content) = (None, after)"
    using e unfolding editDecision_def
    by (auto simp: writableSubject_Inr split: if_split_asm sum.split_asm rights_error.split_asm option.split_asm)
  from ch have "change p (?edit s) turns () content = ((), None, after)"
    by (cases "change p (?edit s) turns () content") simp
  from change_ended [OF this] obtain k c where c: "found turns content c"
    and en: "endedBy (checkedChange p (?edit s)) (turns k) c () after" by blast
  from endedBy_edit [OF en] obtain content' where o: "snd (?edit s (turns k) c) = Inr content'" by (metis snd_conv)
  then obtain f g changed where f: "decodeDecision p c = Inr f" "action \<in> set (catalogue p f)"
    "applyDecisionRule (files p) f s action resource (nativeChange p now permit) = Inr (g, changed)"
    "content' = (if changed then written g else c)"
    by (auto simp: editDecision_edit_def split: sum.split_asm if_split_asm prod.split_asm)
  have "jvalid (fileJson f)" using decoded_text [OF r f(1)] by simp
  from apply_jvalid [OF this f(3) jvalid_nativeRule [OF r s(1,2)]] have "jvalid (fileJson g)" .
  then have "decodeDecision p after = Inr (if changed then currentProfile g else f)"
    using endedBy_decodes [OF r en o] f by (cases changed) auto
  with that s c f show ?thesis by blast
qed

text \<open>What a decision reads with fresh program keys: the policy's cached readings are the file
  system's.\<close>

definition freshKeys :: "policy \<Rightarrow> bool" where
  "freshKeys p \<longleftrightarrow> (\<forall>rvn prog. storedReadings p rvn prog = programKey (files p) prog)"

lemma fresh_decisionKeys: "freshKeys p \<Longrightarrow> decisionKeys p rvn caller = keyOnce (files p)"
  by (auto simp: freshKeys_def decisionKeys_def keyOnce_def)

lemma Decide_decoded:
  assumes "NormalizeDecisionSubject (files p) subj = Inr s" and "ValidDecisionQuery action resource"
    and "decodeDecision p after = Inr f"
  shows "Decide p (uncachedRead p Stored (Inr after)) now subj action resource =
    legacyOperationDecision p f (revision p f) s (legacyRequest action resource) now"
  using assms
  by (simp add: Decide_def CheckLegacyOperation_def uncachedRead_def regular_def legacyOperationValid_def legacyRequest_def)

lemma live_from_deciding:
  assumes "\<exists>r. decidingRule fs rs s a res now key = Some r \<and> r_permit r = b \<and> \<not> expired r now"
  shows "(liveDeny fs rs s a res now key \<longleftrightarrow> \<not> b) \<and> (b \<longrightarrow> livePermit fs rs s a res now key)"
proof (cases b)
  case True
  then show ?thesis using assms decidingRule_permits [of fs rs s a res now key] by blast
next
  case False
  then show ?thesis using assms decidingRule_denies [of fs rs s a res now key] by blast
qed

subsection \<open>A concrete written state\<close>

definition writtenSample :: "instant \<Rightarrow> bytes \<Rightarrow> bool \<Rightarrow> decisionRule" where
  "writtenSample now resource permit =
     writtenRule sampleApp ''demo/read'' resource permit (nativeChange samplePolicy now (Some permit))"

definition sampleState :: "bytes \<Rightarrow> bool \<Rightarrow> decisionFile" where
  "sampleState resource permit = emptyState\<lparr>f_rules := Some [writtenSample 0 resource permit]\<rparr>"

lemma longNames_plain: "longNames plainIdentity"
  by (auto simp: longNames_def plainIdentity_byteEqual)
     (auto simp: plainIdentity_def NormalizeDecisionSubject_def validStoredSubject_def split: if_splits list.splits)

lemma sample_trusted: "trustedCatalog (Some sampleCatalog)"
  by (simp add: trustedCatalog_def sampleCatalog_def sampleKey_def validPermissionKey_def ValidActionName_def definitionProfile_def
      actionPart_def lowerDigit_def actionChar_def parseUint_def definitionText_def code_def digitsValue_def
      isDigit_def allDigits_def itoa.simps digit_def runes_Cons_ascii isControl_def char_of_def bit_0)

lemma sample_ready: "ready samplePolicy"
  by (simp add: ready_def configured_def longNames_plain sample_trusted plain_subject printable_def code_def validSeed_def
      MaxDecisionActions_def MetaAnswerAction_def printable_bounded)

lemma sample_fresh: "freshKeys samplePolicy"
  by (simp add: freshKeys_def plainIdentity_def)

lemma stamp_0: "fourDigitYear 0" by (simp add: fourDigitYear_def)

lemma sampleState_wellFormed:
  assumes "resource \<noteq> []" and "printable resource" and "length resource \<le> 100"
  shows "wellFormed samplePolicy (sampleState resource permit)"
proof -
  have v: "validRule samplePolicy (sampleState resource permit) (writtenSample 0 resource permit)"
    using assms
    by (simp add: validRule_def writtenSample_def writtenRule_def plain_subject printable_def code_def ValidDecisionQuery_def
        printable_bounded validStamp_stamp stamp_0 validWhy_def set_catalogue sampleState_def emptyState_def)
  have c: "length (catalogue samplePolicy (sampleState resource permit)) = 2"
    by (simp add: catalogue_def sampleState_def emptyState_def)
  show ?thesis
    using v c
    by (simp add: wellFormed_def refuseState_def validateSelectorState_def sampleState_def emptyState_def
        profileVersion_def validDefaultSwitches_def MaxDecisionRules_def MaxDecisionActions_def)
qed

lemma sampleState_length:
  assumes "length resource \<le> 100"
  shows "length (marshalFile (sampleState resource permit)) \<le> MaxDecisionBytes"
proof -
  have "jweight (fileJson (sampleState resource permit)) \<le> 10000"
    using assms length_stamp [OF stamp_0]
    by (simp add: fileJson_def ruleJson_def subjectJson_def sliceJson_def omitStr_def omitList_def sampleState_def emptyState_def
        writtenSample_def writtenRule_def sampleApp_def DecisionProfile_def)
  then show ?thesis using length_jprint [of "fileJson (sampleState resource permit)"]
    by (simp add: marshalFile_def MaxDecisionBytes_def)
qed

lemma sampleState_decodes:
  assumes "resource \<noteq> []" and "printable resource" and "length resource \<le> 100"
  shows "decodeDecision samplePolicy (Some (marshalFile (sampleState resource permit))) = Inr (sampleState resource permit)"
  using decodeDecision_written [OF _ sampleState_wellFormed [OF assms] longNames_spelled] sample_ready
  by (simp add: ready_def)

abbreviation calm :: "nat \<Rightarrow> turn" where
  "calm \<equiv> \<lambda>_. \<lparr>t_authorize = None, t_now = 0, t_fate = Settles\<rparr>"

lemma apply_first:
  assumes "\<not> IsMetaRule a res" and "ch_permit ch = Some b"
  shows "applyDecisionRule fs emptyState s a res ch = Inr (emptyState\<lparr>f_rules := Some [writtenRule s a res b ch]\<rparr>, True)"
  using assms
  by (simp add: applyDecisionRule_def Let_def emptyState_def pruneExpired_def pruneSelectorState_def pruneOrigins_def setRules_def
      reslice_def nilIfEmpty_def finishEdit_def pruneKeep_def MaxDecisionRules_def)

text \<open>A change that no writer outside the lock disturbs.\<close>

lemma change_settles:
  assumes "edit (turns 0) content = (r', Inr (Some next))" and "t_fate (turns 0) = Settles"
    and "length next \<le> MaxDecisionBytes" and "decodeDecision p (Some next) = Inr f"
  shows "change p edit turns r content = (r', None, Some next)"
  using assms by (simp add: change_def decisionChangeAttempts_def eval_nat_numeral checkedChange_def ChangeLimit_def)

lemma sample_set:
  assumes "resource \<noteq> []" and "printable resource" and "length resource \<le> 100"
  shows "Set samplePolicy Missing calm None 0 sampleApp ''demo/read'' resource permit =
    (None, Some (marshalFile (sampleState resource permit)))"
proof -
  have m: "\<not> IsMetaRule ''demo/read'' resource" by (simp add: IsMetaRule_def MetaAnswerAction_def)
  have e: "editDecision_edit samplePolicy sampleApp ''demo/read'' resource (nativeChange samplePolicy 0 (Some permit)) (calm 0) None =
      ((), Inr (Some (marshalFile (sampleState resource permit))))"
    using apply_first [OF m, of "nativeChange samplePolicy 0 (Some permit)" permit]
    by (simp add: editDecision_edit_def decodeDecision_def written_def currentProfile_def sampleState_def writtenSample_def)
       (simp add: set_catalogue emptyState_def)
  have settled: "change samplePolicy (editDecision_edit samplePolicy sampleApp ''demo/read'' resource
      (nativeChange samplePolicy 0 (Some permit))) calm () None = ((), None, Some (marshalFile (sampleState resource permit)))"
    by (rule change_settles) (rule e, simp_all add: sampleState_length assms sampleState_decodes)
  have "ValidDecisionQuery ''demo/read'' resource"
    using assms by (simp add: ValidDecisionQuery_def printable_bounded code_def)
  then show ?thesis using m settled by (simp add: Set_def editDecision_def refuseHolder_def regular_def)
qed

end
