(* ===== verification/Edit_Facts.thy ===== *)
theory Edit_Facts
  imports Written_State
begin

text \<open>
  What the edits promise end to end: what a decision reads after a \<open>Set\<close> or a \<open>Revoke\<close>, what
  an edit leaves alone, when a conditional edit writes at all, what a holder, a retired
  action, a stopped answerer, a revoked answer and a default switch change, and that a
  completed answer never takes effect twice.
\<close>

subsection \<open>Set and Revoke\<close>

text \<open>C11: Set, then decide: once \<open>Set\<close> returns without an error, a decision on the same
  target at the same time reads what was set. A deny is denied; a permit is permitted unless
  a live typed block covers the operation.\<close>

theorem set_then_decide:
  assumes "ready p" and "freshKeys p"
    and "Set p disk turns content now subj action resource permit = (None, after)"
  shows "\<exists>f s. decodeDecision p after = Inr f \<and> NormalizeDecisionSubject (files p) subj = Inr s \<and>
    d_outcome (Decide p (uncachedRead p Stored (Inr after)) now subj action resource) =
      (if permit \<and> \<not> typedBlockForLegacy p f (revision p f) s (legacyRequest action resource) now
       then DecisionOutcomePermitted else DecisionOutcomeDenied)"
proof -
  from editDecision_done [OF assms(1) assms(3) [unfolded Set_def]] obtain s c f g changed where
    s: "NormalizeDecisionSubject (files p) subj = Inr s" "ValidDecisionQuery action resource"
    and f: "action \<in> set (catalogue p f)"
    and a: "applyDecisionRule (files p) f s action resource (nativeChange p now (Some permit)) = Inr (g, changed)"
    and after: "decodeDecision p after = Inr (if changed then currentProfile g else f)" .
  let ?h = "if changed then currentProfile g else f"
  have i: "byteEqualNames (files p)" using assms(1) by (simp add: ready_def longNames_def)
  have "\<exists>r. decidingRule (files p) (rules ?h) s action resource now (keyOnce (files p)) = Some r \<and> r_permit r = permit \<and> \<not> expired r now"
  proof (cases changed)
    case True
    with apply_decides [OF i, of f s action resource "nativeChange p now (Some permit)" g permit now] a show ?thesis
      by (simp add: never_expires writtenRule_def)
  next
    case False
    with apply_unchanged(3) [of "files p" f s action resource "nativeChange p now (Some permit)" g permit now] a show ?thesis
      by auto
  qed
  note live = live_from_deciding [OF this]
  have "catalogue p ?h = catalogue p f" using apply_fields [OF a] by (simp add: catalogue_def)
  with f live show ?thesis
    unfolding Decide_decoded [OF s after]
    by (intro exI [of _ ?h] exI [of _ s])
       (auto simp: after s legacyOperationDecision_def decisionOf_def explained_cases fresh_decisionKeys [OF assms(2)] legacyRequest_def)
qed

theorem set_then_decide_witness:
  "\<exists>after. Set samplePolicy Missing calm None 0 sampleApp ''demo/read'' ''x'' False = (None, after) \<and>
    d_outcome (Decide samplePolicy (uncachedRead samplePolicy Stored (Inr after)) 0 sampleApp ''demo/read'' ''x'') =
      DecisionOutcomeDenied"
proof -
  have "Set samplePolicy Missing calm None 0 sampleApp ''demo/read'' ''x'' False = (None, Some (marshalFile (sampleState ''x'' False)))"
    by (rule sample_set) (simp_all add: printable_def code_def)
  with set_then_decide [OF sample_ready sample_fresh this] show ?thesis by auto
qed

text \<open>C12: Revoke, then decide: once \<open>Revoke\<close> returns without an error no rule of the program
  is left on the target, so only an account-wide default can still permit it and only a
  typed block can still deny it.\<close>

theorem revoke_then_decide:
  assumes "ready p" and "freshKeys p"
    and "Revoke p disk turns content now subj action resource = (None, after)"
  shows "\<exists>f s. decodeDecision p after = Inr f \<and> NormalizeDecisionSubject (files p) subj = Inr s \<and>
    \<not> (\<exists>r\<in>set (rules f). sameTarget (files p) r s action resource (keyOnce (files p))) \<and>
    d_outcome (Decide p (uncachedRead p Stored (Inr after)) later subj action resource) =
      (if typedBlockForLegacy p f (revision p f) s (legacyRequest action resource) later then DecisionOutcomeDenied
       else if defaultAllows p f s action resource then DecisionOutcomePermitted else DecisionOutcomeNotGranted)"
proof -
  from editDecision_done [OF assms(1) assms(3) [unfolded Revoke_def]] obtain s c f g changed where
    s: "NormalizeDecisionSubject (files p) subj = Inr s" "ValidDecisionQuery action resource"
    and f: "action \<in> set (catalogue p f)"
    and a: "applyDecisionRule (files p) f s action resource (nativeChange p now None) = Inr (g, changed)"
    and after: "decodeDecision p after = Inr (if changed then currentProfile g else f)" .
  let ?h = "if changed then currentProfile g else f"
  have none: "\<not> (\<exists>r\<in>set (rules ?h). sameTarget (files p) r s action resource (keyOnce (files p)))"
  proof (cases changed)
    case True
    with apply_revoked [of "files p" f s action resource "nativeChange p now None" g] a show ?thesis by simp
  next
    case False
    with apply_unchanged(2) [of "files p" f s action resource "nativeChange p now None" g] a show ?thesis by simp
  qed
  then have "\<not> livePermit (files p) (rules ?h) s action resource later (keyOnce (files p)) \<and>
      \<not> liveDeny (files p) (rules ?h) s action resource later (keyOnce (files p))"
    by (simp only: livePermit_def liveDeny_def) blast
  moreover have "catalogue p ?h = catalogue p f" using apply_fields [OF a] by (simp add: catalogue_def)
  ultimately show ?thesis
    using f none unfolding Decide_decoded [OF s after]
    by (intro exI [of _ ?h] exI [of _ s])
       (simp add: after s legacyOperationDecision_def decisionOf_def explained_cases fresh_decisionKeys [OF assms(2)] legacyRequest_def)
qed

theorem revoke_then_decide_witness:
  "\<exists>after. Revoke samplePolicy Missing calm None 0 sampleApp ''demo/read'' ''free'' = (None, after) \<and>
    d_outcome (Decide samplePolicy (uncachedRead samplePolicy Stored (Inr after)) 0 sampleApp ''demo/read'' ''free'') \<noteq>
      DecisionOutcomeUnavailable"
proof -
  have "Revoke samplePolicy Missing calm None 0 sampleApp ''demo/read'' ''free'' = (None, None)"
    by (simp add: Revoke_def editDecision_def ValidDecisionQuery_def printable_bounded code_def refuseHolder_def regular_def
        change_def decisionChangeAttempts_def eval_nat_numeral checkedChange_def ChangeLimit_def editDecision_edit_def
        decodeDecision_def set_catalogue emptyState_def applyDecisionRule_def validMetaEdit_def)
  with revoke_then_decide [OF sample_ready sample_fresh this, of 0] show ?thesis by (auto split: if_splits)
qed

text \<open>What a written edit does to the typed part of the state: expired selector rules lapse, and the
  origins of bundles that no rule left names.\<close>

definition lapsed :: "instant \<Rightarrow> decisionFile \<Rightarrow> decisionFile \<Rightarrow> bool" where
  "lapsed now f g \<longleftrightarrow> f_selectorRules g = filter (\<lambda>q. \<not> selectorExpired q now) (f_selectorRules f) \<and>
     f_bundleOrigins g = filter (\<lambda>o1. \<exists>q\<in>set (f_selectorRules g). l_originID q \<noteq> [] \<and> l_originID q = o_id o1) (f_bundleOrigins f)"

lemma lapsed_prune [simp]: "lapsed now f (pruneSelectorState f now)"
  unfolding lapsed_def pruneSelectorState_def pruneOrigins_def by (fastforce intro!: filter_cong simp: image_iff)

lemma lapsed_again: "lapsed now f g \<Longrightarrow> lapsed now g h \<Longrightarrow> lapsed now f h"
  by (auto simp: lapsed_def intro!: filter_cong)

lemma lapsed_cong:
  "f_selectorRules f' = f_selectorRules f \<Longrightarrow> f_bundleOrigins f' = f_bundleOrigins f \<Longrightarrow> f_selectorRules g' = f_selectorRules g \<Longrightarrow>
   f_bundleOrigins g' = f_bundleOrigins g \<Longrightarrow> lapsed now f' g' \<longleftrightarrow> lapsed now f g"
  by (simp add: lapsed_def)

lemma typed_part [simp]:
  "f_selectorRules (setRules rs f) = f_selectorRules f" "f_bundleOrigins (setRules rs f) = f_bundleOrigins f"
  "f_selectorRules (cascadeMeta fs f old next key) = f_selectorRules f"
  "f_bundleOrigins (cascadeMeta fs f old next key) = f_bundleOrigins f"
  by (simp_all add: cascadeMeta_def split: option.split)

lemma lapsed_pruneExpired: "lapsed now f (pruneExpired f now)"
  unfolding pruneExpired_def using lapsed_prune [of now "f\<lparr>f_rules := r\<rparr>" for r] by (simp add: lapsed_def)

lemma lapsed_finishEdit: "lapsed now f (finishEdit fs f old r key now)"
proof -
  have "lapsed now f (pruneKeep g key now)" if "f_selectorRules g = f_selectorRules f" "f_bundleOrigins g = f_bundleOrigins f" for g
    unfolding pruneKeep_def using lapsed_prune [of now "setRules rs g" for rs] that by (simp add: lapsed_def)
  then show ?thesis
    by (cases old) (simp_all add: finishEdit_def Let_def lapsed_def)
qed

lemma apply_lapsed:
  assumes "applyDecisionRule fs f s a res ch = Inr (g, True)"
  shows "lapsed (ch_at ch) f g"
proof -
  have pruned: "lapsed now f (pruneExpired g now)" if "f_selectorRules g = f_selectorRules f" "f_bundleOrigins g = f_bundleOrigins f"
    for g now
    using lapsed_pruneExpired [of now g] that by (simp add: lapsed_def)
  have finished: "lapsed now f (finishEdit fs g old r key now)"
    if "f_selectorRules g = f_selectorRules f" "f_bundleOrigins g = f_bundleOrigins f" for g old r key now
    using lapsed_finishEdit [of now g fs old r key] that by (simp add: lapsed_def)
  have twice: "lapsed now f (finishEdit fs (setRules rs (pruneExpired (setRules rs' f) now)) old r key now)" for rs rs' old r key now
    using lapsed_again [OF pruned [of "setRules rs' f" now]] lapsed_finishEdit [of now "setRules rs (pruneExpired (setRules rs' f) now)" fs old r key]
    by (simp add: lapsed_def)
  note a = assms [unfolded applyDecisionRule_def Let_def apply_metaError [OF assms] option.case]
  show ?thesis
  proof (cases "ch_permit ch")
    case None
    with a show ?thesis by (auto simp: pruned split: option.split_asm if_split_asm)
  next
    case (Some b)
    with a show ?thesis by (auto simp: finished twice split: if_split_asm)
  qed
qed

text \<open>C13: Setting or revoking an ordinary rule touches nothing else: unexpired rules on other
  targets stay exactly as they were and none appears; the catalogue, the published descriptions, the
  completed answers and the default switches are unchanged; the typed rules and the bundle origins
  are unchanged too, unless the edit wrote: then exactly the typed rules that have expired are gone,
  and exactly the origins no typed rule left names.\<close>

theorem edit_touches_one_target:
  assumes "ready p" and "\<not> IsMetaRule action resource"
    and "editDecision p disk turns content now subj action resource permit = (None, after)"
  shows "\<exists>s c f h. NormalizeDecisionSubject (files p) subj = Inr s \<and> found turns content c \<and>
    decodeDecision p c = Inr f \<and> decodeDecision p after = Inr h \<and>
    (\<forall>r. \<not> sameTarget (files p) r s action resource (keyOnce (files p)) \<and> \<not> expired r now \<longrightarrow>
      (r \<in> set (rules h) \<longleftrightarrow> r \<in> set (rules f))) \<and>
    f_actions h = f_actions f \<and> f_descriptions h = f_descriptions f \<and>
    f_appliedOperatorAnswers h = f_appliedOperatorAnswers f \<and> f_appliedTypedAnswers h = f_appliedTypedAnswers f \<and>
    f_defaultSwitches h = f_defaultSwitches f \<and>
    (h = f \<or>
     f_selectorRules h = filter (\<lambda>q. \<not> selectorExpired q now) (f_selectorRules f) \<and>
     f_bundleOrigins h =
       filter (\<lambda>o1. \<exists>q\<in>set (f_selectorRules h). l_originID q \<noteq> [] \<and> l_originID q = o_id o1) (f_bundleOrigins f))"
proof -
  from editDecision_done [OF assms(1,3)] obtain s c f g changed where
    s: "NormalizeDecisionSubject (files p) subj = Inr s" and c: "found turns content c" "decodeDecision p c = Inr f"
    and a: "applyDecisionRule (files p) f s action resource (nativeChange p now permit) = Inr (g, changed)"
    and after: "decodeDecision p after = Inr (if changed then currentProfile g else f)" .
  have i: "byteEqualNames (files p)" using assms(1) by (simp add: ready_def longNames_def)
  let ?h = "if changed then currentProfile g else f"
  have "g = f" if "\<not> changed"
    using apply_unchanged(1) [of "files p" f s action resource "nativeChange p now permit" g] a that by simp
  then have r: "rules ?h = rules g" by (cases changed) simp_all
  have "?h = f \<or> lapsed now f ?h"
    using apply_lapsed [of "files p" f s action resource "nativeChange p now permit" g] a by (cases changed) (simp_all add: lapsed_def)
  then show ?thesis
    using apply_frame [OF i a assms(2)] apply_fields [OF a] s c after r
    by (intro exI [of _ s] exI [of _ c] exI [of _ f] exI [of _ ?h] conjI) (auto simp: currentProfile_def lapsed_def)
qed

theorem edit_touches_one_target_witness:
  "\<exists>c f. found calm None c \<and> decodeDecision samplePolicy c = Inr f \<and>
    decodeDecision samplePolicy (Some (marshalFile (sampleState ''x'' True))) \<noteq> Inr f \<and>
    f_defaultSwitches (sampleState ''x'' True) = f_defaultSwitches f"
proof -
  have s: "editDecision samplePolicy Missing calm None 0 sampleApp ''demo/read'' ''x'' (Some True) =
      (None, Some (marshalFile (sampleState ''x'' True)))"
    unfolding Set_def [symmetric] by (rule sample_set) (simp_all add: printable_def code_def)
  have m: "\<not> IsMetaRule ''demo/read'' ''x''" by (simp add: IsMetaRule_def MetaAnswerAction_def)
  have d: "decodeDecision samplePolicy (Some (marshalFile (sampleState ''x'' True))) = Inr (sampleState ''x'' True)"
    by (rule sampleState_decodes) (simp_all add: printable_def code_def)
  from edit_touches_one_target [OF sample_ready m s] obtain c f where
    f: "found calm None c" "decodeDecision samplePolicy c = Inr f" "f_defaultSwitches (sampleState ''x'' True) = f_defaultSwitches f"
    by (auto simp: d)
  have "c = None" using f(1) by (auto simp: found_def)
  with f(2) have "f = emptyState" by (simp add: decodeDecision_def)
  moreover have "sampleState ''x'' True \<noteq> emptyState" by (simp add: sampleState_def emptyState_def)
  ultimately have "decodeDecision samplePolicy (Some (marshalFile (sampleState ''x'' True))) \<noteq> Inr f" by (simp add: d)
  with f show ?thesis by blast
qed

end
