(* ===== verification/Group_Facts.thy ===== *)
theory Group_Facts
  imports Edit_Facts
begin

text \<open>
  One or two rules at a revision: \<open>ChangeRules\<close> and \<open>ApplyFirstUseAllow\<close> write both members
  or neither, at the revision the caller saw, and a completed answer is recorded with them.
\<close>

lemma changeContext_change: "changeContext = change"
  by (intro ext) (simp add: changeContext_def change_def)

lemma settle_error: "settle u (r, None, after) = (r, None, after)"
  by (simp add: settle_def)

lemma settle_after: "settle u out = (r, e, after) \<Longrightarrow> snd (snd out) = after"
  by (auto simp: settle_def split: prod.splits option.splits if_splits)

subsection \<open>The members of a group\<close>

lemma validateGroup_spec:
  "validateGroup p base resource ed seen grp = Inr members \<Longrightarrow>
   list_all2 (\<lambda>rule m. writableSubject (files p) (pr_subject rule) = Inr (pr_subject m) \<and> pr_action m = pr_action rule \<and>
     pr_resource m = pr_resource rule \<and> pr_permit m = pr_permit rule) grp members \<and>
   distinct (map pr_action members) \<and> (\<forall>m\<in>set members. pr_action m \<notin> set seen \<and>
     ValidDecisionQuery (pr_action m) (pr_resource m) \<and> Some (pr_permit m) = ed_permit ed)"
proof (induction grp arbitrary: seen members)
  case (Cons rule rest)
  then obtain s rs where s: "writableSubject (files p) (pr_subject rule) = Inr s"
    and rs: "validateGroup p base resource ed (pr_action rule # seen) rest = Inr rs" "members = rule\<lparr>pr_subject := s\<rparr> # rs"
    and q: "ValidDecisionQuery (pr_action rule) (pr_resource rule)" "pr_action rule \<notin> set seen"
      "Some (pr_permit rule) = ed_permit ed"
    by (simp split: sum.split_asm if_split_asm rights_error.split_asm)
  from Cons.IH [OF rs(1)] s q rs(2) show ?case by (auto simp: list_all2_Cons1)
qed simp

lemma applyGroup_text:
  assumes "applyGroup fs ch f c ms = Inr (g, c')" and "jvalid (fileJson f)"
    and "\<And>rule skip b. (rule, skip) \<in> set ms \<Longrightarrow> ch_permit (ch rule) = Some b \<Longrightarrow>
      jvalid (ruleJson (writtenRule (pr_subject rule) (pr_action rule) (pr_resource rule) b (ch rule)))"
  shows "jvalid (fileJson g) \<and> f_actions g = f_actions f \<and> f_appliedOperatorAnswers g = f_appliedOperatorAnswers f"
  using assms
proof (induction ms arbitrary: f c)
  case (Cons m ms)
  obtain rule skip where m: "m = (rule, skip)" by fastforce
  show ?case
  proof (cases skip)
    case True
    with Cons.prems(1) m have "applyGroup fs ch f c ms = Inr (g, c')" by simp
    then show ?thesis by (rule Cons.IH [OF _ Cons.prems(2)]) (use Cons.prems(3) in auto)
  next
    case False
    with Cons.prems(1) m obtain f1 c1 where
      a: "applyDecisionRule fs f (pr_subject rule) (pr_action rule) (pr_resource rule) (ch rule) = Inr (f1, c1)"
      and rest: "applyGroup fs ch f1 (c \<or> c1) ms = Inr (g, c')" by (auto split: sum.split_asm)
    have "jvalid (fileJson f1)" by (rule apply_jvalid [OF Cons.prems(2) a]) (use Cons.prems(3) m in auto)
    from Cons.IH [OF rest this] Cons.prems(3) apply_fields [OF a] show ?thesis by auto
  qed
qed simp

text \<open>What the live rules on a target say.\<close>

definition settledOn :: "identity \<Rightarrow> decisionFile \<Rightarrow> instant \<Rightarrow> PolicyRule \<Rightarrow> bool" where
  "settledOn fs f now rule \<longleftrightarrow>
     (liveDeny fs (rules f) (pr_subject rule) (pr_action rule) (pr_resource rule) now (keyOnce fs) \<longleftrightarrow> \<not> pr_permit rule) \<and>
     (pr_permit rule \<longrightarrow> livePermit fs (rules f) (pr_subject rule) (pr_action rule) (pr_resource rule) now (keyOnce fs))"

lemma settled_elsewhere:
  assumes i: "byteEqualNames fs" and a: "applyDecisionRule fs f s action resource ch = Inr (g, c)"
    and m: "\<not> IsMetaRule action resource" and d: "pr_action rule \<noteq> action" and now: "ch_at ch = now"
  shows "settledOn fs g now rule = settledOn fs f now rule"
proof -
  have "x \<in> set (rules g) \<longleftrightarrow> x \<in> set (rules f)"
    if "sameTarget fs x (pr_subject rule) (pr_action rule) (pr_resource rule) (keyOnce fs)" "\<not> expired x now" for x
    by (rule apply_frame [OF i a m]) (use that d now in \<open>auto simp: sameTarget_alt\<close>)
  then show ?thesis unfolding settledOn_def livePermit_def liveDeny_def by blast
qed

lemma addDuration_expires:
  assumes f: "fourDigitYear (addDuration now ttl)" and "0 < ttl" "ttl mod millisecond = 0"
  shows "\<not> stampExpired (stamp (addDuration now ttl)) now"
proof -
  obtain n where n: "ttl = int n" "Millisecond dvd n" "0 < n"
    using assms(2,3) by (metis dvd_imp_mod_0 int_dvd_int_iff millisecond_def mod_0_imp_dvd nonneg_int_cases of_nat_0_less_iff order_less_imp_le)
  then obtain k where k: "n = Millisecond * Suc k" by (metis dvd_def gr0_implies_Suc nat_0_less_mult_iff)
  have a: "addDuration now ttl = now + n" using n by (simp add: addDuration_def nat_add_distrib)
  have "(now + n) div Millisecond * Millisecond = now div Millisecond * Millisecond + n"
    unfolding k by (metis Millisecond_def add.commute distrib_right div_mult_self2 mult.commute zero_neq_numeral)
  moreover have "now < now div Millisecond * Millisecond + Millisecond"
    by (metis Millisecond_def add.commute dividend_less_div_times zero_less_numeral)
  moreover have "Millisecond \<le> n" using k by simp
  ultimately show ?thesis using stampExpired_stamp [OF f, of now] by (simp add: a)
qed

lemma capTTL_lives:
  assumes c: "capTTL ttl deadline now = Inr ttl'" and v: "validTTL ttl"
    and y: "fourDigitYear (addDuration now MaxRuleTTL)" and d: "\<And>d. deadline = Some d \<Longrightarrow> fourDigitYear d"
  shows "ttl' = 0 \<or> 0 < ttl' \<and> \<not> stampExpired (stamp (addDuration now ttl')) now"
proof (cases "ttl' = ttl")
  case True
  with v have "addDuration now ttl' \<le> addDuration now MaxRuleTTL" by (simp add: validTTL_def addDuration_def nat_mono)
  with y have "fourDigitYear (addDuration now ttl')" by (simp add: fourDigitYear_def)
  with addDuration_expires [of now ttl'] v True show ?thesis by (auto simp: validTTL_def)
next
  case False
  with c obtain e where e: "deadline = Some e" "now < e"
    and t: "ttl' = min (int e - int now) MaxDuration - min (int e - int now) MaxDuration mod millisecond - millisecond"
      "millisecond \<le> ttl'"
    by (auto simp: capTTL_def Let_def split: option.split_asm if_split_asm)
  have m: "ttl' mod millisecond = 0" unfolding t(1) by (simp add: mod_diff_eq [symmetric] mod_diff_right_eq)
  have "0 < millisecond" by (simp add: millisecond_def Millisecond_def)
  moreover have "0 \<le> min (int e - int now) MaxDuration mod millisecond"
    by (rule pos_mod_sign) (simp add: millisecond_def Millisecond_def)
  ultimately have "0 < ttl'" "int now + ttl' \<le> int e" using t by linarith+
  then have "addDuration now ttl' \<le> e" by (simp add: addDuration_def)
  with d [OF e(1)] have "fourDigitYear (addDuration now ttl')" by (simp add: fourDigitYear_def)
  from addDuration_expires [OF this \<open>0 < ttl'\<close> m] \<open>0 < ttl'\<close> show ?thesis by simp
qed

lemma settled_here:
  assumes i: "byteEqualNames fs"
    and a: "applyDecisionRule fs f (pr_subject rule) (pr_action rule) (pr_resource rule) ch = Inr (g, c)"
    and b: "ch_permit ch = Some (pr_permit rule)" and now: "ch_at ch = now"
    and ttl: "ch_ttl ch = 0 \<or> 0 < ch_ttl ch \<and> \<not> stampExpired (stamp (addDuration now (ch_ttl ch))) now"
  shows "settledOn fs g now rule"
proof -
  have "\<exists>r. decidingRule fs (rules g) (pr_subject rule) (pr_action rule) (pr_resource rule) now (keyOnce fs) = Some r \<and>
      r_permit r = pr_permit rule \<and> \<not> expired r now"
  proof (cases c)
    case True
    with a apply_decides [OF i, of f _ _ _ ch g "pr_permit rule" now] b have
      "decidingRule fs (rules g) (pr_subject rule) (pr_action rule) (pr_resource rule) now (keyOnce fs) =
        Some (writtenRule (pr_subject rule) (pr_action rule) (pr_resource rule) (pr_permit rule) ch)" by simp
    moreover have "\<not> expired (writtenRule (pr_subject rule) (pr_action rule) (pr_resource rule) (pr_permit rule) ch) now"
      using ttl now by (auto simp: expired_def writtenRule_def stampExpired_def)
    ultimately show ?thesis by simp
  next
    case False
    with a apply_unchanged(1,3) [of fs f "pr_subject rule" "pr_action rule" "pr_resource rule" ch g] b now show ?thesis by auto
  qed
  from live_from_deciding [OF this] show ?thesis by (simp add: settledOn_def)
qed

lemma applyGroup_settles:
  assumes i: "byteEqualNames fs" and "applyGroup fs ch f c ms = Inr (g, c')"
    and "distinct (map (\<lambda>m. pr_action (fst m)) ms)"
    and "\<And>rule skip. (rule, skip) \<in> set ms \<Longrightarrow> \<not> skip \<and> \<not> IsMetaRule (pr_action rule) (pr_resource rule)"
    and ch: "\<And>rule. ch_permit (ch rule) = Some (pr_permit rule) \<and> ch_at (ch rule) = now \<and>
      (ch_ttl (ch rule) = 0 \<or> 0 < ch_ttl (ch rule) \<and> \<not> stampExpired (stamp (addDuration now (ch_ttl (ch rule)))) now)"
  shows "(\<forall>rule\<in>fst ` set ms. settledOn fs g now rule) \<and>
    (\<forall>rule. pr_action rule \<notin> (\<lambda>m. pr_action (fst m)) ` set ms \<longrightarrow> settledOn fs g now rule = settledOn fs f now rule)"
  using assms(2-4)
proof (induction ms arbitrary: f c)
  case (Cons m ms)
  obtain rule skip where m: "m = (rule, skip)" by fastforce
  with Cons.prems(3) have k: "\<not> skip" "\<not> IsMetaRule (pr_action rule) (pr_resource rule)" by auto
  with Cons.prems(1) m obtain f1 c1 where
    a: "applyDecisionRule fs f (pr_subject rule) (pr_action rule) (pr_resource rule) (ch rule) = Inr (f1, c1)"
    and rest: "applyGroup fs ch f1 (c \<or> c1) ms = Inr (g, c')" by (auto split: sum.split_asm)
  have here: "settledOn fs f1 now rule" by (rule settled_here [OF i a]) (use ch in auto)
  have else: "pr_action r \<noteq> pr_action rule \<Longrightarrow> settledOn fs f1 now r = settledOn fs f now r" for r
    by (rule settled_elsewhere [OF i a k(2)]) (use ch in auto)
  have d: "distinct (map (\<lambda>m. pr_action (fst m)) ms)" and fresh: "pr_action rule \<notin> (\<lambda>m. pr_action (fst m)) ` set ms"
    using Cons.prems(2) m by auto
  have IH: "(\<forall>r\<in>fst ` set ms. settledOn fs g now r) \<and>
    (\<forall>r. pr_action r \<notin> (\<lambda>m. pr_action (fst m)) ` set ms \<longrightarrow> settledOn fs g now r = settledOn fs f1 now r)"
    by (rule Cons.IH [OF rest d]) (use Cons.prems(3) in auto)
  from IH here fresh have head: "settledOn fs g now rule" by blast
  show ?case unfolding m using IH head else by auto
qed simp

end
