(* ===== verification/Sample_States.thy ===== *)
theory Sample_States
  imports Group_Facts
begin

text \<open>
  Concrete runs for the witnesses of the grouped edits: one member set on an empty policy, and
  one first-use answer completed there.
\<close>

definition sampleAnswer :: bytes where "sampleAnswer = ''0123456789abcdef0123456789abcdef''"

lemma sampleAnswer_valid: "validAnswerID sampleAnswer"
  by (simp add: validAnswerID_def sampleAnswer_def hexLower_def code_def)

definition sampleMember :: "bool \<Rightarrow> PolicyRule" where
  "sampleMember permit = \<lparr>pr_subject = sampleApp, pr_action = ''demo/read'', pr_resource = ''x'', pr_permit = permit\<rparr>"

definition sampleEdit :: "bool \<Rightarrow> ruleEdit" where
  "sampleEdit permit = \<lparr>ed_permit = Some permit, ed_by = native samplePolicy, ed_ttl = 0, ed_why = [], ed_exact = False,
     ed_preserveOtherSetter = False, ed_deadline = None, ed_questionID = []\<rparr>"

definition answeredState :: decisionFile where
  "answeredState = emptyState\<lparr>f_rules := Some [(writtenSample 0 ''x'' True)\<lparr>r_questionID := sampleAnswer\<rparr>],
     f_appliedOperatorAnswers := [sampleAnswer]\<rparr>"

lemma answeredState_wellFormed: "wellFormed samplePolicy answeredState"
proof -
  have "validRule samplePolicy answeredState ((writtenSample 0 ''x'' True)\<lparr>r_questionID := sampleAnswer\<rparr>)"
    using validAnswerID_bounded [OF sampleAnswer_valid]
    by (simp add: validRule_def writtenSample_def writtenRule_def plain_subject printable_def code_def ValidDecisionQuery_def
        printable_bounded validStamp_stamp stamp_0 validWhy_def set_catalogue answeredState_def emptyState_def profileVersion_def
        IsMetaRule_def MetaAnswerAction_def DecisionProfile_def previousDecisionProfile_def)
  moreover have "length (catalogue samplePolicy answeredState) = 2"
    by (simp add: catalogue_def answeredState_def emptyState_def)
  ultimately show ?thesis
    using sampleAnswer_valid
    by (simp add: wellFormed_def refuseState_def validateSelectorState_def answeredState_def emptyState_def
        profileVersion_def validDefaultSwitches_def MaxDecisionRules_def MaxDecisionActions_def MaxAppliedOperatorAnswers_def)
qed

lemma answeredState_decodes: "decodeDecision samplePolicy (Some (marshalFile answeredState)) = Inr answeredState"
  using decodeDecision_written [OF _ answeredState_wellFormed longNames_spelled] sample_ready
  by (simp add: ready_def)

lemma answeredState_length: "length (marshalFile answeredState) \<le> MaxDecisionBytes"
proof -
  have "jweight (fileJson answeredState) \<le> 10000"
    using length_stamp [OF stamp_0]
    by (simp add: fileJson_def ruleJson_def subjectJson_def sliceJson_def omitStr_def omitList_def answeredState_def emptyState_def
        writtenSample_def writtenRule_def sampleApp_def DecisionProfile_def sampleAnswer_def)
  then show ?thesis using length_jprint [of "fileJson answeredState"]
    by (simp add: marshalFile_def MaxDecisionBytes_def)
qed

lemma sample_member_valid:
  "ValidDecisionQuery ''demo/read'' ''x''" "\<not> IsMetaRule ''demo/read'' ''x''"
  "writableSubject plainIdentity \<lparr>account = ''alice'', program = ''/service''\<rparr> = Inr \<lparr>account = ''alice'', program = ''/service''\<rparr>"
  "NormalizeDecisionSubject plainIdentity \<lparr>account = ''alice'', program = ''/service''\<rparr> = Inr \<lparr>account = ''alice'', program = ''/service''\<rparr>"
  by (simp_all add: ValidDecisionQuery_def printable_bounded printable_def code_def IsMetaRule_def MetaAnswerAction_def plain_subject)

lemma plain_same: "sameSubjectProgram plainIdentity q q"
  by (simp add: plainIdentity_def)

lemma sample_validateGroup:
  assumes "q = [] \<or> permit"
  shows "validateGroup samplePolicy sampleApp ''x'' ((sampleEdit permit)\<lparr>ed_questionID := q\<rparr>) [] [sampleMember permit] = Inr [sampleMember permit]"
  by (simp add: sampleMember_def sampleEdit_def sample_member_valid refuseHolder_def validMetaEdit_def plain_same)

lemma sample_writes:
  "sampleState ''x'' permit = currentProfile (emptyState\<lparr>f_rules := Some [writtenRule sampleApp ''demo/read'' ''x'' permit
     (nativeChange samplePolicy 0 (Some permit))]\<rparr>)"
  "answeredState = currentProfile (recordReceipt \<lparr>rc_id = sampleAnswer, rc_retained = [sampleAnswer]\<rparr>
     (emptyState\<lparr>f_rules := Some [writtenRule sampleApp ''demo/read'' ''x'' True
       ((nativeChange samplePolicy 0 (Some True))\<lparr>ch_questionID := sampleAnswer\<rparr>)]\<rparr>))"
  by (simp_all add: sampleState_def answeredState_def writtenSample_def writtenRule_def currentProfile_def recordReceipt_def emptyState_def)

text \<open>The two edits on the empty policy.\<close>

lemma sample_group_edit:
  "changeRules_edit samplePolicy (revision samplePolicy emptyState) sampleApp (native samplePolicy) [sampleMember permit]
     (sampleEdit permit) None (calm 0) None =
   (policyEdit PolicyEditOutcomeApplied (revision samplePolicy (sampleState ''x'' permit))
      (currentRule samplePolicy (sampleState ''x'' permit) sampleApp ''demo/read'' ''x'' 0),
    Inr (Some (marshalFile (sampleState ''x'' permit))))"
  using apply_first [OF sample_member_valid(2), of "nativeChange samplePolicy 0 (Some permit)" permit plainIdentity sampleApp]
  unfolding changeRules_edit_def Let_def
  by (simp add: decodeDecision_def capTTL_def sampleMember_def sampleEdit_def sample_writes(1))
     (simp add: set_catalogue emptyState_def)

lemma sample_answer_edit:
  "changeRules_edit samplePolicy (revision samplePolicy emptyState) sampleApp (native samplePolicy) [sampleMember True]
     ((sampleEdit True)\<lparr>ed_questionID := sampleAnswer\<rparr>) (Some \<lparr>rc_id = sampleAnswer, rc_retained = [sampleAnswer]\<rparr>) (calm 0) None =
   (policyEdit PolicyEditOutcomeApplied (revision samplePolicy answeredState)
      (currentRule samplePolicy answeredState sampleApp ''demo/read'' ''x'' 0),
    Inr (Some (marshalFile answeredState)))"
  using apply_first [OF sample_member_valid(2), of "(nativeChange samplePolicy 0 (Some True))\<lparr>ch_questionID := sampleAnswer\<rparr>" True
      plainIdentity sampleApp]
  unfolding changeRules_edit_def Let_def
  by (simp add: decodeDecision_def capTTL_def sampleMember_def sampleEdit_def sample_writes(2))
     (simp add: set_catalogue emptyState_def)

lemma sample_group:
  "ChangeRules samplePolicy Missing calm None (revision samplePolicy emptyState) [sampleMember permit] (sampleEdit permit) True =
   (policyEdit PolicyEditOutcomeApplied (revision samplePolicy (sampleState ''x'' permit))
      (currentRule samplePolicy (sampleState ''x'' permit) sampleApp ''demo/read'' ''x'' 0),
    None, Some (marshalFile (sampleState ''x'' permit)))"
proof -
  have "change samplePolicy (changeRules_edit samplePolicy (revision samplePolicy emptyState) sampleApp (native samplePolicy)
      [sampleMember permit] (sampleEdit permit) None) calm unavailableEdit None =
    (policyEdit PolicyEditOutcomeApplied (revision samplePolicy (sampleState ''x'' permit))
      (currentRule samplePolicy (sampleState ''x'' permit) sampleApp ''demo/read'' ''x'' 0),
    None, Some (marshalFile (sampleState ''x'' permit)))"
    by (rule change_settles) (rule sample_group_edit, simp_all add: sampleState_length sampleState_decodes printable_def code_def)
  with sample_validateGroup [of "[]" permit] show ?thesis
    by (simp add: ChangeRules_def changeRules_def sampleEdit_def sampleMember_def validTTL_def validWhy_def MaxRuleTTL_def
        sample_member_valid regular_def settle_def)
qed

lemma sample_allow:
  "ApplyFirstUseAllow samplePolicy Missing calm None (revision samplePolicy emptyState) [sampleMember True] (sampleEdit True)
     sampleAnswer [sampleAnswer] True =
   (policyEdit PolicyEditOutcomeApplied (revision samplePolicy answeredState)
      (currentRule samplePolicy answeredState sampleApp ''demo/read'' ''x'' 0),
    None, Some (marshalFile answeredState))"
proof -
  have "change samplePolicy (changeRules_edit samplePolicy (revision samplePolicy emptyState) sampleApp (native samplePolicy)
      [sampleMember True] ((sampleEdit True)\<lparr>ed_questionID := sampleAnswer\<rparr>)
      (Some \<lparr>rc_id = sampleAnswer, rc_retained = [sampleAnswer]\<rparr>)) calm unavailableEdit None =
    (policyEdit PolicyEditOutcomeApplied (revision samplePolicy answeredState)
      (currentRule samplePolicy answeredState sampleApp ''demo/read'' ''x'' 0),
    None, Some (marshalFile answeredState))"
    by (rule change_settles) (rule sample_answer_edit, simp_all add: answeredState_length answeredState_decodes)
  with sample_validateGroup [of sampleAnswer True] sampleAnswer_valid validAnswerID_bounded [OF sampleAnswer_valid] show ?thesis
    by (simp add: ApplyFirstUseAllow_def changeRules_def sampleEdit_def sampleMember_def validTTL_def validWhy_def MaxRuleTTL_def
        sample_member_valid regular_def settle_def changeContext_change MaxAppliedOperatorAnswers_def)
qed

end
