(* ===== verification/Change_Facts.thy ===== *)
theory Change_Facts
  imports Sample_States
begin

text \<open>
  What \<open>ChangeRules\<close> and \<open>ApplyFirstUseAllow\<close> promise: a file that changed was changed by one
  authorised run, at the revision the caller saw, to a state that says what every member of
  the group asked; a completed answer is recorded with it and never applies twice.
\<close>

lemma list_all2_member: "list_all2 P xs ys \<Longrightarrow> y \<in> set ys \<Longrightarrow> \<exists>x\<in>set xs. P x y"
  by (induction rule: list_all2_induct) auto

lemma list_all2_covers: "list_all2 P xs ys \<Longrightarrow> x \<in> set xs \<Longrightarrow> \<exists>y\<in>set ys. P x y"
  by (induction rule: list_all2_induct) auto

subsection \<open>The run that changed the file\<close>

lemma settle_change_found:
  assumes "settle u (change p edit turns u content) = (out, err, after)" and "\<not> found turns content after"
  shows "change p edit turns u content = (out, err, after)"
proof (cases "change p edit turns u content")
  case (fields r e a)
  with assms show ?thesis using change_failed [of p edit turns u content r _ a]
    by (cases e) (auto simp: settle_def split: if_splits)
qed

lemma changeRules_ran:
  assumes "changeRules p disk turns content expected grp ed admission receipt = (out, err, after)"
    and "\<not> found turns content after"
  obtains base editor members where "admission" and "NormalizeDecisionSubject (files p) (ed_by ed) = Inr editor"
    and "writableSubject (files p) (pr_subject (hd grp)) = Inr base"
    and "validateGroup p base (pr_resource (hd grp)) ed [] grp = Inr members"
    and "grp \<noteq> []" and "validTTL (ed_ttl ed)" and "validWhy (ed_why ed)"
    and "ed_questionID ed = [] \<or> boundedDecisionString (ed_questionID ed) 128" and "ed_permit ed \<noteq> None"
    and "change p (changeRules_edit p expected base editor members ed receipt) turns unavailableEdit content = (out, err, after)"
proof -
  have nc: "after \<noteq> content" using assms(2) by (auto simp: found_def)
  have "\<exists>base editor members. admission \<and> NormalizeDecisionSubject (files p) (ed_by ed) = Inr editor \<and>
    writableSubject (files p) (pr_subject (hd grp)) = Inr base \<and>
    validateGroup p base (pr_resource (hd grp)) ed [] grp = Inr members \<and> grp \<noteq> [] \<and> validTTL (ed_ttl ed) \<and>
    validWhy (ed_why ed) \<and> (ed_questionID ed = [] \<or> boundedDecisionString (ed_questionID ed) 128) \<and> ed_permit ed \<noteq> None \<and>
    settle unavailableEdit (change p (changeRules_edit p expected base editor members ed receipt) turns unavailableEdit content) =
      (out, err, after)"
    using assms(1) nc unfolding changeRules_def
    by (auto simp: changeContext_change split: if_split_asm sum.split_asm rights_error.split_asm option.split_asm)
  then show ?thesis by (elim exE conjE) (rule that, assumption+, erule settle_change_found, rule assms(2))
qed

definition groupChange :: "ruleEdit \<Rightarrow> subject \<Rightarrow> instant \<Rightarrow> duration \<Rightarrow> PolicyRule \<Rightarrow> ruleChange" where
  "groupChange ed editor now ttl rule =
     \<lparr>ch_permit = Some (pr_permit rule), ch_by = editor, ch_at = now, ch_ttl = ttl, ch_why = ed_why ed,
      ch_exact = ed_exact ed, ch_missing = None, ch_questionID = ed_questionID ed\<rparr>"

lemma groupChange_fun:
  "(\<lambda>rule. \<lparr>ch_permit = Some (pr_permit rule), ch_by = editor, ch_at = now, ch_ttl = ttl, ch_why = ed_why ed,
     ch_exact = ed_exact ed, ch_missing = None, ch_questionID = ed_questionID ed\<rparr>) = groupChange ed editor now ttl"
  by (simp add: groupChange_def [abs_def])

definition receipted :: "operatorAllowReceipt option \<Rightarrow> decisionFile \<Rightarrow> decisionFile" where
  "receipted receipt g = (case receipt of None \<Rightarrow> g | Some rc \<Rightarrow> recordReceipt rc g)"

lemma changeRules_edit_wrote:
  assumes "changeRules_edit p expected base editor members ed receipt t c = (out, Inr (Some next))"
    and "decodeDecision p c = Inr f"
  obtains ttl ms g changed where "capTTL (ed_ttl ed) (ed_deadline ed) (t_now t) = Inr ttl"
    and "(if ed_preserveOtherSetter ed then preserveScan p f base editor (t_now t) members
          else Inr (map (\<lambda>rule. (rule, False)) members)) = Inr ms"
    and "applyGroup (files p) (groupChange ed editor (t_now t) ttl) f False ms = Inr (g, changed)"
    and "next = marshalFile (currentProfile (receipted receipt g))"
    and "out = policyEdit PolicyEditOutcomeApplied (revision p (currentProfile (receipted receipt g)))
      (currentRule p (currentProfile (receipted receipt g)) base (pr_action (hd members)) (pr_resource (hd members)) (t_now t))"
proof -
  have "\<exists>ttl ms g changed. capTTL (ed_ttl ed) (ed_deadline ed) (t_now t) = Inr ttl \<and>
    (if ed_preserveOtherSetter ed then preserveScan p f base editor (t_now t) members
          else Inr (map (\<lambda>rule. (rule, False)) members)) = Inr ms \<and>
    applyGroup (files p) (groupChange ed editor (t_now t) ttl) f False ms = Inr (g, changed) \<and>
    next = marshalFile (currentProfile (receipted receipt g)) \<and>
    out = policyEdit PolicyEditOutcomeApplied (revision p (currentProfile (receipted receipt g)))
      (currentRule p (currentProfile (receipted receipt g)) base (pr_action (hd members)) (pr_resource (hd members)) (t_now t))"
    using assms unfolding changeRules_edit_def Let_def groupChange_fun receipted_def [symmetric]
    by (fastforce split: option.split_asm sum.split_asm if_split_asm prod.split_asm)
  with that show ?thesis by blast
qed

lemma jvalid_groupRule:
  assumes "ready p" and "NormalizeDecisionSubject (files p) (ed_by ed) = Inr editor" and "validWhy (ed_why ed)"
    and "ed_questionID ed = [] \<or> boundedDecisionString (ed_questionID ed) 128"
    and "NormalizeDecisionSubject (files p) subj = Inr (pr_subject rule)" and "ValidDecisionQuery (pr_action rule) (pr_resource rule)"
  shows "jvalid (ruleJson (writtenRule (pr_subject rule) (pr_action rule) (pr_resource rule) b (groupChange ed editor now ttl rule)))"
  using assms jvalid_subject [of "files p"]
  by (auto simp: jvalid_writtenRule groupChange_def ready_def longNames_def ValidDecisionQuery_def intro: bounded_validUTF8 validWhy_UTF8)

lemma preserveScan_fst: "preserveScan p f base editor now grp = Inr ms \<Longrightarrow> map fst ms = grp"
  by (induction grp arbitrary: ms) (auto simp: Let_def split: option.split_asm if_split_asm sum.split_asm)

lemma jvalid_receipted:
  assumes "jvalid (fileJson g)" and "\<And>rc. receipt = Some rc \<Longrightarrow> validUTF8 (rc_id rc)"
  shows "jvalid (fileJson (receipted receipt g))"
  using assms by (cases receipt) (auto simp: receipted_def recordReceipt_def jvalid_fileJson)

lemma receipted_fields [simp]:
  "rules (receipted receipt g) = rules g" "actions (receipted receipt g) = actions g"
  "f_actions (receipted receipt g) = f_actions g"
  "f_appliedOperatorAnswers (receipted None g) = f_appliedOperatorAnswers g"
  by (cases receipt; simp add: receipted_def recordReceipt_def)+

text \<open>The whole of a write: where it ran, what it found, what it left.\<close>

lemma changeRules_wrote:
  assumes r: "ready p" and u: "\<And>rc. receipt = Some rc \<Longrightarrow> validUTF8 (rc_id rc)"
    and ch: "changeRules p disk turns content expected grp ed admission receipt = (out, err, after)"
    and nf: "\<not> found turns content after"
  obtains k c f g base members where "err = None" and "admission" and "pe_outcome out = PolicyEditOutcomeApplied"
    and "k < decisionChangeAttempts" and "found turns content c" and "t_authorize (turns k) = None"
    and "decodeDecision p c = Inr f" and "ruleGroupAdmitted p expected members ed receipt (turns k) f"
    and "validateGroup p base (pr_resource (hd grp)) ed [] grp = Inr members"
    and "decodeDecision p after = Inr (currentProfile (receipted receipt g))"
    and "pe_revision out = revision p (currentProfile (receipted receipt g))"
    and "\<exists>s action resource now. pe_current out = currentRule p (currentProfile (receipted receipt g)) s action resource now"
    and "f_actions g = f_actions f" and "f_appliedOperatorAnswers g = f_appliedOperatorAnswers f"
    and "\<lbrakk>\<not> ed_preserveOtherSetter ed; \<And>rule. rule \<in> set members \<Longrightarrow> \<not> IsMetaRule (pr_action rule) (pr_resource rule);
      fourDigitYear (addDuration (t_now (turns k)) MaxRuleTTL); \<And>d. ed_deadline ed = Some d \<Longrightarrow> fourDigitYear d\<rbrakk>
      \<Longrightarrow> \<forall>rule\<in>set members. settledOn (files p) g (t_now (turns k)) rule"
proof -
  from changeRules_ran [OF ch nf] obtain base editor members where
    adm: "admission" and ed: "NormalizeDecisionSubject (files p) (ed_by ed) = Inr editor"
      "validTTL (ed_ttl ed)" "validWhy (ed_why ed)" "ed_questionID ed = [] \<or> boundedDecisionString (ed_questionID ed) 128"
    and grp: "validateGroup p base (pr_resource (hd grp)) ed [] grp = Inr members"
    and run: "change p (changeRules_edit p expected base editor members ed receipt) turns unavailableEdit content = (out, err, after)" .
  from rule_group.change_guarded [OF run nf] obtain k c f nxt h where
    k: "k < decisionChangeAttempts" "err = None" "found turns content c" "t_authorize (turns k) = None"
      "decodeDecision p c = Inr f" "ruleGroupAdmitted p expected members ed receipt (turns k) f"
    and e: "changeRules_edit p expected base editor members ed receipt (turns k) c = (out, Inr (Some nxt))" "after = Some nxt"
    and h: "decodeDecision p (Some nxt) = Inr h" by (elim exE conjE) (rule that)
  let ?now = "t_now (turns k)"
  from changeRules_edit_wrote [OF e(1) k(5)] obtain ttl ms g changed where
    ttl: "capTTL (ed_ttl ed) (ed_deadline ed) ?now = Inr ttl"
    and ms: "(if ed_preserveOtherSetter ed then preserveScan p f base editor ?now members
          else Inr (map (\<lambda>rule. (rule, False)) members)) = Inr ms"
    and g: "applyGroup (files p) (groupChange ed editor ?now ttl) f False ms = Inr (g, changed)"
    and nxt: "nxt = marshalFile (currentProfile (receipted receipt g))"
    and res: "out = policyEdit PolicyEditOutcomeApplied (revision p (currentProfile (receipted receipt g)))
      (currentRule p (currentProfile (receipted receipt g)) base (pr_action (hd members)) (pr_resource (hd members)) ?now)" .
  have fst: "map fst ms = members"
    using ms preserveScan_fst [of p f base editor ?now members ms] by (auto simp: o_def split: if_splits)
  have spec: "list_all2 (\<lambda>rule m. writableSubject (files p) (pr_subject rule) = Inr (pr_subject m) \<and> pr_action m = pr_action rule \<and>
     pr_resource m = pr_resource rule \<and> pr_permit m = pr_permit rule) grp members \<and>
   distinct (map pr_action members) \<and> (\<forall>m\<in>set members. ValidDecisionQuery (pr_action m) (pr_resource m))"
    using validateGroup_spec [OF grp] by simp
  have "jvalid (fileJson f)" using decoded_text [OF r k(5)] by simp
  have kept: "jvalid (fileJson g) \<and> f_actions g = f_actions f \<and> f_appliedOperatorAnswers g = f_appliedOperatorAnswers f"
  proof (rule applyGroup_text [OF g \<open>jvalid (fileJson f)\<close>])
    fix rule skip b assume "(rule, skip) \<in> set ms"
    then have m: "rule \<in> set members" using fst by force
    from list_all2_member [OF conjunct1 [OF spec] m] obtain x :: PolicyRule where "writableSubject (files p) (pr_subject x) = Inr (pr_subject rule)"
      by blast
    with m spec ed jvalid_groupRule [OF r ed(1,3,4) writable_normalized, of "pr_subject x" rule]
    show "jvalid (ruleJson (writtenRule (pr_subject rule) (pr_action rule) (pr_resource rule) b (groupChange ed editor ?now ttl rule)))"
      by simp
  qed
  from written_decodes [OF r jvalid_currentProfile [OF jvalid_receipted], of g receipt h] kept u h nxt e(2)
  have after: "decodeDecision p after = Inr (currentProfile (receipted receipt g))" by simp
  show ?thesis
  proof (rule that [OF k(2) adm _ k(1,3,4,5,6) grp after])
    show "pe_outcome out = PolicyEditOutcomeApplied" "pe_revision out = revision p (currentProfile (receipted receipt g))"
      "\<exists>s action resource now. pe_current out = currentRule p (currentProfile (receipted receipt g)) s action resource now"
      by (auto simp: res policyEdit_def)
    show "f_actions g = f_actions f" "f_appliedOperatorAnswers g = f_appliedOperatorAnswers f" using kept by simp_all
    assume plain: "\<not> ed_preserveOtherSetter ed"
      and meta: "\<And>rule. rule \<in> set members \<Longrightarrow> \<not> IsMetaRule (pr_action rule) (pr_resource rule)"
      and year: "fourDigitYear (addDuration ?now MaxRuleTTL)" "\<And>d. ed_deadline ed = Some d \<Longrightarrow> fourDigitYear d"
    have i: "byteEqualNames (files p)" using r by (simp add: ready_def longNames_def)
    from plain ms have m: "ms = map (\<lambda>rule. (rule, False)) members" by simp
    have "(\<forall>rule\<in>fst ` set ms. settledOn (files p) g ?now rule) \<and>
      (\<forall>rule. pr_action rule \<notin> (\<lambda>m. pr_action (fst m)) ` set ms \<longrightarrow>
        settledOn (files p) g ?now rule = settledOn (files p) f ?now rule)"
      by (rule applyGroup_settles [OF i g])
         (use spec meta capTTL_lives [OF ttl ed(2) year] in \<open>auto simp: m o_def groupChange_def\<close>)
    with fst show "\<forall>rule\<in>set members. settledOn (files p) g ?now rule" by (metis set_map)
  qed
qed

text \<open>What a decision on a member reads.\<close>

lemma settled_decides:
  assumes "settledOn (files p) h now rule" and "decodeDecision p after = Inr h" and "freshKeys p"
    and "pr_action rule \<in> set (catalogue p h)" and "NormalizeDecisionSubject (files p) subj = Inr (pr_subject rule)"
    and "ValidDecisionQuery (pr_action rule) (pr_resource rule)"
  shows "d_outcome (Decide p (uncachedRead p Stored (Inr after)) now subj (pr_action rule) (pr_resource rule)) =
    (if pr_permit rule \<and> \<not> typedBlockForLegacy p h (revision p h) (pr_subject rule)
        (legacyRequest (pr_action rule) (pr_resource rule)) now
     then DecisionOutcomePermitted else DecisionOutcomeDenied)"
  using assms(1,4) unfolding Decide_decoded [OF assms(5,6,2)]
  by (auto simp: legacyOperationDecision_def decisionOf_def explained_cases fresh_decisionKeys [OF assms(3)] legacyRequest_def
      settledOn_def)

text \<open>The results an edit can have; what \<open>change\<close> returns is one of them.\<close>

lemma changeLoop_result:
  assumes "changeLoop n edit turns i r content err = (r', err', after)" and "P r" and "Q content"
    and m: "\<And>j c. t_fate (turns j) = Moves c \<Longrightarrow> Q c" and e: "\<And>k c. Q c \<Longrightarrow> P (fst (edit (turns k) c))"
  shows "P r'"
  using assms(1-3)
proof (induction n arbitrary: i r content err)
  case (Suc n)
  obtain r1 e1 c1 where s: "ChangeLimit edit (turns i) r content = (r1, e1, c1)" by (metis prod_cases3)
  have "P r1 \<and> Q c1 \<or> e1 \<noteq> Some ErrMoved \<and> P r1"
    using s Suc.prems(2,3) e [OF Suc.prems(3), of i] m [of i]
    by (auto simp: ChangeLimit_def split: fate.split_asm prod.split_asm sum.split_asm option.split_asm)
  with Suc s show ?case by (auto split: if_split_asm)
qed simp

lemma change_result:
  assumes "change p edit turns r content = (r', err', after)" and "P r" and "Q content"
    and "\<And>j c. t_fate (turns j) = Moves c \<Longrightarrow> Q c" and e: "\<And>k c. Q c \<Longrightarrow> P (fst (edit (turns k) c))"
  shows "P r'"
proof (rule changeLoop_result [where P = P and Q = Q, OF assms(1) [unfolded change_def] assms(2-4)])
  fix k c assume "Q c"
  from e [OF this, of k] show "P (fst (checkedChange p edit (turns k) c))"
    by (cases "edit (turns k) c") (auto simp: checkedChange_def split: sum.split option.split)
qed

lemma change_keeps_without_writers:
  assumes "change p edit turns r content = (r', err, after)" and "\<And>j c. t_fate (turns j) \<noteq> Moves c"
    and "\<And>k. \<nexists>next. snd (edit (turns k) content) = Inr (Some next)"
  shows "after = content"
proof (rule ccontr)
  assume "after \<noteq> content"
  with assms(2) have "\<not> found turns content after" by (auto simp: found_def)
  from change_found_or_written [OF assms(1) this] assms(2,3) show False by (auto simp: found_def)
qed

subsection \<open>Grouped rules\<close>



lemma written_group_decides:
  assumes "ready p" and "freshKeys p" and "ChangeRules p disk turns content expected grp ed admission = (out, err, after)"
    and "\<not> found turns content after" and "\<not> ed_preserveOtherSetter ed"
    and "\<forall>rule\<in>set grp. \<not> IsMetaRule (pr_action rule) (pr_resource rule)"
    and "\<forall>k<decisionChangeAttempts. fourDigitYear (addDuration (t_now (turns k)) MaxRuleTTL)"
    and "\<forall>d. ed_deadline ed = Some d \<longrightarrow> fourDigitYear d"
  shows "err = None \<and> pe_outcome out = PolicyEditOutcomeApplied \<and> (\<exists>k<decisionChangeAttempts. \<exists>h. decodeDecision p after = Inr h \<and>
    pe_revision out = revision p h \<and> (\<exists>s action resource now. pe_current out = currentRule p h s action resource now) \<and> (\<forall>rule\<in>set grp. \<exists>s.
    NormalizeDecisionSubject (files p) (pr_subject rule) = Inr s \<and>
    d_outcome (Decide p (uncachedRead p Stored (Inr after)) (t_now (turns k)) (pr_subject rule) (pr_action rule) (pr_resource rule)) =
      (if pr_permit rule \<and> \<not> typedBlockForLegacy p h (revision p h) s
          (legacyRequest (pr_action rule) (pr_resource rule)) (t_now (turns k))
       then DecisionOutcomePermitted else DecisionOutcomeDenied)))"
proof -
  from changeRules_wrote [OF assms(1) _ assms(3) [unfolded ChangeRules_def] assms(4)] obtain k c f g base members where
    w: "k < decisionChangeAttempts" "ruleGroupAdmitted p expected members ed None (turns k) f"
      "validateGroup p base (pr_resource (hd grp)) ed [] grp = Inr members"
      "decodeDecision p after = Inr (currentProfile (receipted None g))" "f_actions g = f_actions f"
      "err = None" "pe_outcome out = PolicyEditOutcomeApplied" "pe_revision out = revision p (currentProfile (receipted None g))"
      "\<exists>s action resource now. pe_current out = currentRule p (currentProfile (receipted None g)) s action resource now"
    and st: "\<lbrakk>\<not> ed_preserveOtherSetter ed; \<And>rule. rule \<in> set members \<Longrightarrow> \<not> IsMetaRule (pr_action rule) (pr_resource rule);
      fourDigitYear (addDuration (t_now (turns k)) MaxRuleTTL); \<And>d. ed_deadline ed = Some d \<Longrightarrow> fourDigitYear d\<rbrakk>
      \<Longrightarrow> \<forall>rule\<in>set members. settledOn (files p) g (t_now (turns k)) rule"
    by (metis option.distinct(1))
  note spec = validateGroup_spec [OF w(3)]
  let ?h = "currentProfile (receipted None g)"
  have meta: "\<not> IsMetaRule (pr_action m) (pr_resource m)" if "m \<in> set members" for m :: PolicyRule
    using list_all2_member [OF conjunct1 [OF spec] that] assms(6) by auto
  have "\<forall>rule\<in>set members. settledOn (files p) g (t_now (turns k)) rule"
    by (rule st) (use assms(5,7,8) meta w(1) in auto)
  then have settled: "settledOn (files p) ?h (t_now (turns k)) m" if "m \<in> set members" for m
    using that by (simp add: settledOn_def)
  have "\<exists>s. NormalizeDecisionSubject (files p) (pr_subject rule) = Inr s \<and>
      d_outcome (Decide p (uncachedRead p Stored (Inr after)) (t_now (turns k)) (pr_subject rule) (pr_action rule) (pr_resource rule)) =
      (if pr_permit rule \<and> \<not> typedBlockForLegacy p ?h (revision p ?h) s
          (legacyRequest (pr_action rule) (pr_resource rule)) (t_now (turns k))
       then DecisionOutcomePermitted else DecisionOutcomeDenied)" if "rule \<in> set grp" for rule
  proof -
    from list_all2_covers [OF conjunct1 [OF spec] that] obtain m :: PolicyRule where m: "m \<in> set members"
      "writableSubject (files p) (pr_subject rule) = Inr (pr_subject m)" "pr_action m = pr_action rule"
      "pr_resource m = pr_resource rule" "pr_permit m = pr_permit rule" by blast
    have "pr_action m \<in> set (catalogue p ?h)"
      using m(1) w(2,5) by (auto simp: ruleGroupAdmitted_def catalogue_def)
    moreover have "ValidDecisionQuery (pr_action m) (pr_resource m)" using spec m(1) by blast
    ultimately show ?thesis
      using settled_decides [OF settled [OF m(1)] w(4) assms(2) _ writable_normalized [OF m(2)]] m(3-5) writable_normalized [OF m(2)]
      by simp
  qed
  with w(1,4,6-9) show ?thesis by blast
qed

text \<open>C15: After an undisturbed grouped edit each member decides as it says: a decision on a
  member's target at the time of the write is denied for a deny, and permitted for a permit
  unless a live typed block covers the operation.\<close>

theorem grouped_rules_then_decide:
  assumes "ready p" and "freshKeys p" and "ChangeRules p disk turns content expected grp ed admission = (out, err, after)"
    and "\<not> found turns content after" and "\<not> ed_preserveOtherSetter ed"
    and "\<forall>rule\<in>set grp. \<not> IsMetaRule (pr_action rule) (pr_resource rule)"
    and "\<forall>k<decisionChangeAttempts. fourDigitYear (addDuration (t_now (turns k)) MaxRuleTTL)"
    and "\<forall>d. ed_deadline ed = Some d \<longrightarrow> fourDigitYear d"
  shows "\<exists>k<decisionChangeAttempts. \<exists>h. decodeDecision p after = Inr h \<and> (\<forall>rule\<in>set grp. \<exists>s.
    NormalizeDecisionSubject (files p) (pr_subject rule) = Inr s \<and>
    d_outcome (Decide p (uncachedRead p Stored (Inr after)) (t_now (turns k)) (pr_subject rule) (pr_action rule) (pr_resource rule)) =
      (if pr_permit rule \<and> \<not> typedBlockForLegacy p h (revision p h) s
          (legacyRequest (pr_action rule) (pr_resource rule)) (t_now (turns k))
       then DecisionOutcomePermitted else DecisionOutcomeDenied))"
  using written_group_decides [OF assms] by blast

theorem grouped_rules_then_decide_witness:
  "\<exists>out after. ChangeRules samplePolicy Missing calm None (revision samplePolicy emptyState) [sampleMember False]
      (sampleEdit False) True = (out, None, after) \<and>
    d_outcome (Decide samplePolicy (uncachedRead samplePolicy Stored (Inr after)) 0 sampleApp ''demo/read'' ''x'') =
      DecisionOutcomeDenied"
proof -
  have "\<not> found calm None (Some (marshalFile (sampleState ''x'' False)))" by (simp add: found_def)
  moreover have "\<not> IsMetaRule ''demo/read'' ''x''" by (rule sample_member_valid)
  moreover have "fourDigitYear (addDuration 0 MaxRuleTTL)" by (simp add: fourDigitYear_def addDuration_def MaxRuleTTL_def)
  ultimately have "d_outcome (Decide samplePolicy (uncachedRead samplePolicy Stored (Inr (Some (marshalFile (sampleState ''x'' False)))))
      0 sampleApp ''demo/read'' ''x'') = DecisionOutcomeDenied"
    using grouped_rules_then_decide [OF sample_ready sample_fresh sample_group [of False]]
    by (simp add: sampleEdit_def sampleMember_def)
  with sample_group [of False] show ?thesis by blast
qed

subsection \<open>A first-use answer takes effect once\<close>

lemma replay_refused:
  assumes "decodeDecision p c = Inr f" and "rc_id rc \<in> set (f_appliedOperatorAnswers f)"
  shows "pe_outcome (fst (changeRules_edit p expected base editor members ed (Some rc) t c)) \<noteq> PolicyEditOutcomeApplied \<and>
    (\<nexists>next. snd (changeRules_edit p expected base editor members ed (Some rc) t c) = Inr (Some next))"
  using assms by (auto simp: changeRules_edit_def Let_def unavailableEdit_def invalidEdit_def policyEdit_def split: option.split)

lemma changeRules_replayed:
  assumes d: "decodeDecision p content = Inr f" and a: "rc_id rc \<in> set (f_appliedOperatorAnswers f)"
    and m: "\<And>j c. t_fate (turns j) \<noteq> Moves c"
    and ch: "changeRules p disk turns content expected grp ed admission (Some rc) = (out, err, after)"
  shows "after = content \<and> pe_outcome out \<noteq> PolicyEditOutcomeApplied"
proof -
  have run: "af = content \<and> pe_outcome r \<noteq> PolicyEditOutcomeApplied"
    if "change p (changeRules_edit p expected base editor members ed (Some rc)) turns unavailableEdit content = (r, e, af)"
    for base editor members r e af
  proof
    show "af = content"
      using change_keeps_without_writers [OF that m] replay_refused [OF d a] by blast
    show "pe_outcome r \<noteq> PolicyEditOutcomeApplied"
      by (rule change_result [where P = "\<lambda>r. pe_outcome r \<noteq> PolicyEditOutcomeApplied" and Q = "\<lambda>c. c = content", OF that])
         (use m replay_refused [OF d a] in \<open>auto simp: unavailableEdit_def policyEdit_def\<close>)
  qed
  have settled: "af = content \<and> pe_outcome r \<noteq> PolicyEditOutcomeApplied"
    if s: "settle unavailableEdit (change p (changeRules_edit p expected base editor members ed (Some rc)) turns unavailableEdit content) =
      (r, e, af)" for base editor members r e af
  proof -
    obtain r0 e0 a0 where c: "change p (changeRules_edit p expected base editor members ed (Some rc)) turns unavailableEdit content =
      (r0, e0, a0)" by (metis prod_cases3)
    from s have "(r, e, af) = settle unavailableEdit (r0, e0, a0)" by (simp only: c)
    with run [OF c] show ?thesis
      by (auto simp: settle_def unavailableEdit_def policyEdit_def split: option.split_asm if_split_asm)
  qed
  show ?thesis
    using ch settled unfolding changeRules_def
    by (auto simp: changeContext_change invalidEdit_def unavailableEdit_def policyEdit_def
        split: if_split_asm sum.split_asm rights_error.split_asm option.split_asm)
qed

lemma ApplyFirstUseAllow_call:
  assumes "ApplyFirstUseAllow p disk turns content expected grp ed answer retained admission = (out, err, after)"
  shows "(after = content \<and> pe_outcome out \<noteq> PolicyEditOutcomeApplied) \<or>
    (\<exists>ed'. validAnswerID answer \<and> changeRules p disk turns content expected grp ed' admission
      (Some \<lparr>rc_id = answer, rc_retained = sort retained\<rparr>) = (out, err, after))"
  using assms unfolding ApplyFirstUseAllow_def Let_def
  by (auto simp: invalidEdit_def policyEdit_def split: if_split_asm)

text \<open>A first-use answer that changed the file is recorded in the same write: the state found
  was at the expected revision and had not completed the answer; the state left lists it, with
  exactly those earlier answers the caller still retains, and reports it as applied.\<close>

theorem first_use_allow_completes:
  assumes "ready p" and "ApplyFirstUseAllow p disk turns content expected grp ed answer retained admission = (out, err, after)"
    and "\<not> found turns content after"
  shows "\<exists>c f h. err = None \<and> pe_outcome out = PolicyEditOutcomeApplied \<and> found turns content c \<and>
    decodeDecision p c = Inr f \<and> revision p f = expected \<and> answer \<notin> set (f_appliedOperatorAnswers f) \<and>
    decodeDecision p after = Inr h \<and> pe_revision out = revision p h \<and>
    f_appliedOperatorAnswers h = sort (filter (\<lambda>i. i \<in> set retained) (f_appliedOperatorAnswers f) @ [answer]) \<and>
    AppliedFirstUseAllow (uncachedRead p Stored (Inr after)) answer = (True, None)"
proof -
  have "after \<noteq> content" using assms(3) by (auto simp: found_def)
  with ApplyFirstUseAllow_call [OF assms(2)] obtain ed' where a: "validAnswerID answer"
    and ch: "changeRules p disk turns content expected grp ed' admission (Some \<lparr>rc_id = answer, rc_retained = sort retained\<rparr>) =
      (out, err, after)" by blast
  let ?rc = "Some \<lparr>rc_id = answer, rc_retained = sort retained\<rparr>"
  have u: "\<And>rc. ?rc = Some rc \<Longrightarrow> validUTF8 (rc_id rc)"
    using bounded_validUTF8 [OF validAnswerID_bounded [OF a]] by auto
  from changeRules_wrote [OF assms(1) u ch assms(3)] obtain k c f g members where
    w: "err = None" "pe_outcome out = PolicyEditOutcomeApplied" "found turns content c" "decodeDecision p c = Inr f"
      "ruleGroupAdmitted p expected members ed' ?rc (turns k) f" "decodeDecision p after = Inr (currentProfile (receipted ?rc g))"
      "pe_revision out = revision p (currentProfile (receipted ?rc g))" "f_appliedOperatorAnswers g = f_appliedOperatorAnswers f"
    by metis
  let ?h = "currentProfile (receipted ?rc g)"
  have l: "f_appliedOperatorAnswers ?h = sort (filter (\<lambda>i. i \<in> set retained) (f_appliedOperatorAnswers f) @ [answer])"
    using w(8) by (simp add: receipted_def recordReceipt_def)
  have s: "AppliedFirstUseAllow (uncachedRead p Stored (Inr after)) answer = (True, None)"
    using l by (simp add: AppliedFirstUseAllow_def uncachedRead_def regular_def w(6))
  have "revision p f = expected" "answer \<notin> set (f_appliedOperatorAnswers f)"
    using w(5) by (simp_all add: ruleGroupAdmitted_def)
  with w l s show ?thesis by (intro exI [of _ c] exI [of _ f] exI [of _ ?h]) simp
qed

text \<open>C16: A first-use answer takes effect once: after a first application that changed the file,
  any second application of the same answer -- whatever its revision, group, edit and admission,
  as long as no writer outside the lock replaces the file -- leaves the file as it is and does
  not report Applied.\<close>

theorem first_use_applies_once:
  assumes "ready p" and "ApplyFirstUseAllow p disk turns content expected grp ed answer retained admission = (out, err, after)"
    and "\<not> found turns content after"
    and "ApplyFirstUseAllow p disk' turns' after expected' grp' ed' answer retained' admission' = (out', err', after')"
    and "\<forall>j c. t_fate (turns' j) \<noteq> Moves c"
  shows "after' = after \<and> pe_outcome out' \<noteq> PolicyEditOutcomeApplied"
proof -
  have "after \<noteq> content" using assms(3) by (auto simp: found_def)
  with ApplyFirstUseAllow_call [OF assms(2)] obtain ed1 where a: "validAnswerID answer"
    and ch: "changeRules p disk turns content expected grp ed1 admission (Some \<lparr>rc_id = answer, rc_retained = sort retained\<rparr>) =
      (out, err, after)" by blast
  have u: "\<And>rc. Some \<lparr>rc_id = answer, rc_retained = sort retained\<rparr> = Some rc \<Longrightarrow> validUTF8 (rc_id rc)"
    using bounded_validUTF8 [OF validAnswerID_bounded [OF a]] by auto
  from changeRules_wrote [OF assms(1) u ch assms(3)] obtain g where
    h: "decodeDecision p after = Inr (currentProfile (receipted (Some \<lparr>rc_id = answer, rc_retained = sort retained\<rparr>) g))"
    by metis
  then have in_h: "rc_id \<lparr>rc_id = answer, rc_retained = sort retained'\<rparr> \<in>
      set (f_appliedOperatorAnswers (currentProfile (receipted (Some \<lparr>rc_id = answer, rc_retained = sort retained\<rparr>) g)))"
    by (simp add: receipted_def recordReceipt_def)
  from ApplyFirstUseAllow_call [OF assms(4)] show ?thesis
  proof (elim disjE exE conjE)
    fix ed2
    assume "changeRules p disk' turns' after expected' grp' ed2 admission' (Some \<lparr>rc_id = answer, rc_retained = sort retained'\<rparr>) =
      (out', err', after')"
    from changeRules_replayed [OF h in_h _ this] assms(5) show ?thesis by blast
  qed simp
qed

theorem first_use_allow_completes_witness:
  "AppliedFirstUseAllow (uncachedRead samplePolicy Stored (Inr (Some (marshalFile answeredState)))) sampleAnswer = (True, None)"
proof -
  have "\<not> found calm None (Some (marshalFile answeredState))" by (simp add: found_def)
  from first_use_allow_completes [OF sample_ready sample_allow this] show ?thesis by blast
qed

theorem first_use_applies_once_witness:
  "snd (snd (ApplyFirstUseAllow samplePolicy Stored calm (Some (marshalFile answeredState)) (revision samplePolicy answeredState)
     [sampleMember True] (sampleEdit True) sampleAnswer [sampleAnswer] True)) = Some (marshalFile answeredState)"
proof -
  have "\<not> found calm None (Some (marshalFile answeredState))" by (simp add: found_def)
  from first_use_applies_once [OF sample_ready sample_allow this, of Stored calm "revision samplePolicy answeredState"
      "[sampleMember True]" "sampleEdit True" "[sampleAnswer]" True] show ?thesis
    by (cases "ApplyFirstUseAllow samplePolicy Stored calm (Some (marshalFile answeredState)) (revision samplePolicy answeredState)
      [sampleMember True] (sampleEdit True) sampleAnswer [sampleAnswer] True") simp
qed

end
