(* ===== verification/Linear.thy ===== *)
theory Linear
  imports Change_Facts
begin

text \<open>
  An operation that returns without an error is one run of its edit on a content the file really
  had: the run's result is the operation's, and what the run wrote, if anything, is the file
  afterwards. The operation properties of the answer, catalogue and selector edits start here.
\<close>

lemma currentProfile_raw [simp]: "f_actions (currentProfile f) = f_actions f" "f_rules (currentProfile f) = f_rules f"
  by (simp_all add: currentProfile_def)

text \<open>\<open>NoWrite\<close> stands for an error value each operation makes for itself, so neither the
  authorization callback nor the file store returns it.\<close>

definition foreignErrors :: "(nat \<Rightarrow> turn) \<Rightarrow> bool" where
  "foreignErrors turns \<longleftrightarrow> (\<forall>k. t_authorize (turns k) \<noteq> Some NoWrite \<and> t_fate (turns k) \<noteq> Denied NoWrite \<and>
     t_fate (turns k) \<noteq> Fails NoWrite)"

lemma validateSelectorState_errors: "validateSelectorState p f \<noteq> Some NoWrite"
  unfolding validateSelectorState_def Let_def by (simp split: option.split)

lemma decodeDecision_errors: "decodeDecision p c \<noteq> Inl NoWrite"
  using validateSelectorState_errors [of p]
  by (auto simp: decodeDecision_def refuseState_def Let_def split: option.split if_split_asm)

lemma ChangeLimit_noWrite:
  assumes "ChangeLimit edit t r content = (r', Some NoWrite, after)" and "t_fate t \<noteq> Denied NoWrite" and "t_fate t \<noteq> Fails NoWrite"
  shows "after = content \<and> edit t content = (r', Inl NoWrite)"
  using assms by (auto simp: ChangeLimit_def split: fate.split_asm prod.split_asm sum.split_asm option.split_asm)

lemma changeLoop_noWrite:
  assumes "changeLoop n edit turns i r content err = (r', Some NoWrite, after)" and "foreignErrors turns" and "err \<noteq> Some NoWrite"
  shows "\<exists>k<i + n. (after = content \<or> (\<exists>j<i + n. t_fate (turns j) = Moves after)) \<and> edit (turns k) after = (r', Inl NoWrite)"
  using assms
proof (induction n arbitrary: i r content err)
  case (Suc n)
  obtain r1 e1 c1 where s: "ChangeLimit edit (turns i) r content = (r1, e1, c1)" by (metis prod_cases3)
  show ?case
  proof (cases "e1 = Some ErrMoved")
    case False
    then have "ChangeLimit edit (turns i) r content = (r', Some NoWrite, after)" using Suc.prems(1) s by simp
    from ChangeLimit_noWrite [OF this] Suc.prems(2) show ?thesis
      by (intro exI [of _ i]) (simp add: foreignErrors_def)
  next
    case True
    then have "changeLoop n edit turns (Suc i) r1 c1 e1 = (r', Some NoWrite, after)" using Suc.prems(1) s by simp
    from Suc.IH [OF this Suc.prems(2)] True obtain k where k: "k < Suc i + n" "edit (turns k) after = (r', Inl NoWrite)"
      "after = c1 \<or> (\<exists>j<Suc i + n. t_fate (turns j) = Moves after)" by auto
    from ChangeLimit_failed [of edit "turns i" r content r1 ErrMoved c1] s True
    have "c1 = content \<or> t_fate (turns i) = Moves c1" by simp
    with k(3) have "after = content \<or> (\<exists>j<i + Suc n. t_fate (turns j) = Moves after)" by auto
    with k(1,2) show ?thesis by auto
  qed
qed simp

lemma change_noWrite:
  assumes "change p edit turns r content = (r', Some NoWrite, after)" and "foreignErrors turns"
  shows "\<exists>k<decisionChangeAttempts. found turns content after \<and> edit (turns k) after = (r', Inl NoWrite)"
proof -
  from changeLoop_noWrite [OF assms(1) [unfolded change_def] assms(2)] obtain k where
    k: "k < decisionChangeAttempts" "found turns content after" "checkedChange p edit (turns k) after = (r', Inl NoWrite)"
    by (auto simp: found_def)
  have "edit (turns k) after = (r', Inl NoWrite)"
    using k(3) decodeDecision_errors [of p] by (auto simp: checkedChange_def split: prod.split_asm sum.split_asm option.split_asm if_split_asm)
  with k show ?thesis by blast
qed

lemma settled_ran:
  assumes "settle u (change p edit turns u content) = (out, None, after)" and "foreignErrors turns"
  obtains k c where "k < decisionChangeAttempts" and "found turns content c" and "fst (edit (turns k) c) = out"
    and "snd (edit (turns k) c) = Inl NoWrite \<and> after = c \<or> endedBy (checkedChange p edit) (turns k) c out after"
proof -
  obtain r e a where ch: "change p edit turns u content = (r, e, a)" by (metis prod_cases3)
  show ?thesis
  proof (cases e)
    case None
    with assms(1) ch have "r = out" "a = after" by (simp_all add: settle_def)
    with change_ended [OF ch [unfolded None]] obtain k c where k: "k < decisionChangeAttempts" "found turns content c"
      and en: "endedBy (checkedChange p edit) (turns k) c out after" by blast
    from endedBy_edit [OF en] have "fst (edit (turns k) c) = out" by auto
    with that k en show ?thesis by blast
  next
    case (Some x)
    with assms(1) ch have "x = NoWrite" "r = out" "a = after" by (auto simp: settle_def split: if_split_asm)
    with change_noWrite [of p edit turns u content out after] ch Some assms(2) obtain k where
      "k < decisionChangeAttempts" "found turns content after" "edit (turns k) after = (out, Inl NoWrite)" by blast
    with that [of k after] show ?thesis by simp
  qed
qed

text \<open>What the file is after such a run: what was found, or the state the edit wrote.\<close>

abbreviation ranOn :: "policy \<Rightarrow> 'r edit \<Rightarrow> turn \<Rightarrow> bytes option \<Rightarrow> 'r \<Rightarrow> bytes option \<Rightarrow> bool" where
  "ranOn p edit t c out after \<equiv>
     snd (edit t c) = Inl NoWrite \<and> after = c \<or> endedBy (checkedChange p edit) t c out after"

lemma ran_unwritten: "ranOn p edit t c out after \<Longrightarrow> snd (edit t c) = Inl e \<Longrightarrow> after = c"
  using endedBy_edit [of p edit t c out after] by auto

lemma ran_written:
  assumes "ready p" and "ranOn p edit t c out after" and "snd (edit t c) = Inr (written g)" and "jvalid (fileJson g)"
  shows "decodeDecision p after = Inr (currentProfile g)"
proof -
  have "endedBy (checkedChange p edit) t c out after" using assms(2,3) by simp
  then show ?thesis by (rule endedBy_decodes [where edit = edit and t = t, OF assms(1) _ assms(3)]) (use assms(4) in blast)
qed

text \<open>The change a holder's write makes under its meta-rule.\<close>

definition holderChange :: "subject \<Rightarrow> instant \<Rightarrow> bytes \<Rightarrow> bytes \<Rightarrow> ruleChange" where
  "holderChange holder now why questionID = \<lparr>ch_permit = Some True, ch_by = holder, ch_at = now, ch_ttl = MetaRuleLapse,
     ch_why = why, ch_exact = True, ch_missing = None, ch_questionID = questionID\<rparr>"

lemma holderChange_fields [simp]:
  "ch_permit (holderChange h now why q) = Some True" "ch_by (holderChange h now why q) = h" "ch_at (holderChange h now why q) = now"
  "ch_ttl (holderChange h now why q) = MetaRuleLapse" "ch_why (holderChange h now why q) = why"
  "ch_questionID (holderChange h now why q) = q"
  by (simp_all add: holderChange_def)

context guarded_edit
begin

lemma settled_guarded:
  assumes "settle u (change p edit turns u content) = (r', err, after)" and "\<not> found turns content after"
  shows "\<exists>k<decisionChangeAttempts. \<exists>c f next.
    err = None \<and> found turns content c \<and> t_authorize (turns k) = None \<and> decodeDecision p c = Inr f \<and>
    admit (turns k) f \<and> edit (turns k) c = (r', Inr (Some next)) \<and> after = Some next \<and>
    (\<exists>g. decodeDecision p (Some next) = Inr g)"
  by (rule change_guarded [OF settle_change_found [OF assms] assms(2)])

end

end
