(* ===== verification/Sample_Enrollment.thy ===== *)
theory Sample_Enrollment
  imports Linear
begin

text \<open>
  A concrete enrollment for the witnesses of the answering edits: the holder has a live
  meta-rule, and writes one permit for another program under it.
\<close>

definition sampleMeta :: decisionRule where
  "sampleMeta = writtenRule sampleOther MetaAnswerAction MetaScopeApps True (holderChange (native samplePolicy) 0 [] [])"

definition sampleGrant :: decisionRule where
  "sampleGrant = writtenRule sampleApp ''demo/read'' ''x'' True (holderChange sampleOther 0 [] [])"

definition enrolledState :: decisionFile where "enrolledState = emptyState\<lparr>f_rules := Some [sampleMeta]\<rparr>"
definition grantedState :: decisionFile where "grantedState = emptyState\<lparr>f_rules := Some [sampleGrant, sampleMeta]\<rparr>"

lemma lapse_year: "fourDigitYear (addDuration 0 MetaRuleLapse)"
  by (simp add: fourDigitYear_def addDuration_def MetaRuleLapse_def)

lemma lapse_live: "\<not> stampExpired (stamp (addDuration 0 MetaRuleLapse)) 0"
  by (rule addDuration_expires [OF lapse_year]) (simp_all add: MetaRuleLapse_def millisecond_def Millisecond_def)

lemma sample_other_valid [simp]: "validStoredSubject plainIdentity sampleOther"
  by (simp add: sampleOther_def plain_subject printable_def code_def)

lemma sample_rules_valid:
  "actions f = [] \<Longrightarrow> validRule samplePolicy f sampleMeta" "actions f = [] \<Longrightarrow> validRule samplePolicy f sampleGrant"
  by (simp_all add: validRule_def sampleMeta_def sampleGrant_def writtenRule_def holderChange_def plain_subject printable_def code_def
      ValidDecisionQuery_def printable_bounded validStamp_stamp stamp_0 lapse_year validWhy_def MetaAnswerAction_def MetaScopeApps_def
      MetaRuleLapse_def [symmetric])

lemma sample_keys: "ruleKey sampleGrant < ruleKey sampleMeta"
  by (simp add: ruleKey_def sampleGrant_def sampleMeta_def sampleApp_def sampleOther_def less_char_def NUL_def)

lemma enrollment_wellFormed: "wellFormed samplePolicy enrolledState" "wellFormed samplePolicy grantedState"
proof -
  have a: "actions enrolledState = []" "actions grantedState = []" by (simp_all add: enrolledState_def grantedState_def emptyState_def)
  then have c: "length (catalogue samplePolicy enrolledState) = 2" "length (catalogue samplePolicy grantedState) = 2"
    by (simp_all add: catalogue_def)
  show "wellFormed samplePolicy enrolledState" "wellFormed samplePolicy grantedState"
    using c sample_rules_valid [OF a(1)] sample_rules_valid [OF a(2)] sample_keys
    by (simp_all add: wellFormed_def refuseState_def validateSelectorState_def enrolledState_def grantedState_def emptyState_def
        profileVersion_def validDefaultSwitches_def MaxDecisionRules_def MaxDecisionActions_def strictly_sorted_by_def)
qed

lemma enrollment_decodes:
  "decodeDecision samplePolicy (Some (marshalFile enrolledState)) = Inr enrolledState"
  "decodeDecision samplePolicy (Some (marshalFile grantedState)) = Inr grantedState"
  using decodeDecision_written [OF _ enrollment_wellFormed(1) longNames_spelled]
    decodeDecision_written [OF _ enrollment_wellFormed(2) longNames_spelled] sample_ready
  by (simp_all add: ready_def)

lemma granted_length: "length (marshalFile grantedState) \<le> MaxDecisionBytes"
proof -
  have "jweight (fileJson grantedState) \<le> 10000"
    using length_stamp [OF stamp_0] length_stamp [OF lapse_year]
    by (simp add: fileJson_def ruleJson_def subjectJson_def sliceJson_def omitStr_def omitList_def grantedState_def emptyState_def
        sampleGrant_def sampleMeta_def writtenRule_def holderChange_def sampleApp_def sampleOther_def DecisionProfile_def
        MetaAnswerAction_def MetaScopeApps_def)
  then show ?thesis using length_jprint [of "fileJson grantedState"]
    by (simp add: marshalFile_def MaxDecisionBytes_def)
qed

text \<open>The holder's write: nothing rules the target yet, the enrollment already ends at the renewed
  instant, and the permit is written.\<close>

lemma sample_live:
  "\<not> expired sampleMeta 0" "\<not> expired sampleGrant 0" "r_permit sampleMeta"
  "sameTarget plainIdentity sampleMeta sampleOther MetaAnswerAction MetaScopeApps (keyOnce plainIdentity)"
  "\<not> sameTarget plainIdentity sampleMeta sampleApp ''demo/read'' ''x'' (keyOnce plainIdentity)"
  using lapse_live
  by (simp_all add: expired_def sampleMeta_def sampleGrant_def writtenRule_def holderChange_def MetaRuleLapse_def [symmetric]
      sameTarget_alt plainIdentity_byteEqual MetaAnswerAction_def)
     (simp_all add: MetaRuleLapse_def)

lemma sample_liveMeta:
  "liveMeta plainIdentity [sampleMeta] sampleOther 0 (keyOnce plainIdentity) = Some sampleMeta"
proof -
  have "decidingRule plainIdentity [sampleMeta] sampleOther MetaAnswerAction MetaScopeApps 0 (keyOnce plainIdentity) = Some sampleMeta"
    unfolding decidingRule_def by (rule deciding.best_single) (use sample_live(4) in auto)
  then show ?thesis using sample_live by (simp add: liveMeta_def)
qed

lemma sample_apply_grant:
  "applyDecisionRule plainIdentity enrolledState sampleApp ''demo/read'' ''x'' (holderChange sampleOther 0 [] []) = Inr (grantedState, True)"
proof -
  have m: "\<not> IsMetaRule ''demo/read'' ''x''" by (rule sample_member_valid)
  have k: "ruleKey sampleGrant = targetKey sampleApp ''demo/read'' ''x''" by (simp add: sampleGrant_def)
  have r: "rules enrolledState = [sampleMeta]" "f_selectorRules enrolledState = []" by (simp_all add: enrolledState_def emptyState_def)
  have g: "writtenRule sampleApp ''demo/read'' ''x'' True (holderChange sampleOther 0 [] []) = sampleGrant" by (simp add: sampleGrant_def)
  have p: "pruneExpired enrolledState 0 = enrolledState"
    by (simp add: pruneExpired_def pruneSelectorState_def pruneOrigins_def enrolledState_def emptyState_def sample_live nilIfEmpty_def)
  have e: "setRules [sampleMeta] enrolledState = enrolledState" by (simp add: enrolledState_def setRules_def reslice_def emptyState_def)
  have f: "finishEdit plainIdentity (setRules [sampleMeta, sampleGrant] enrolledState) None sampleGrant
      (targetKey sampleApp ''demo/read'' ''x'') 0 = grantedState"
    using sample_keys
    by (simp add: finishEdit_def Let_def pruneKeep_def pruneSelectorState_def pruneOrigins_def setRules_def reslice_def
        enrolledState_def grantedState_def emptyState_def sample_live)
  show ?thesis
    unfolding applyDecisionRule_def Let_def
    by (simp add: m r sample_live g p e f MaxDecisionRules_def)
qed

lemma sample_holder_edit:
  "ChangeRulesUnderAnswer_edit samplePolicy sampleOther sampleApp [''demo/read''] ''x'' [] [] (calm 0) (Some (marshalFile enrolledState)) =
   (policyEdit PolicyEditOutcomeApplied (revision samplePolicy (currentProfile grantedState))
      (map_option publicRule (decidingRule plainIdentity (rules grantedState) sampleApp ''demo/read'' ''x'' 0 (keyOnce plainIdentity))),
    Inr (written grantedState))"
proof -
  have r: "rules enrolledState = [sampleMeta]" by (simp add: enrolledState_def)
  have n: "renewEnrollment plainIdentity enrolledState sampleOther sampleMeta 0 (keyOnce plainIdentity) = enrolledState"
    using sample_live by (simp add: renewEnrollment_def Let_def cascadeMeta_def enrolledState_def setRules_def reslice_def emptyState_def
        sampleMeta_def writtenRule_def holderChange_def MetaRuleLapse_def)
  have d: "decidingRule plainIdentity [sampleMeta] sampleApp ''demo/read'' ''x'' 0 (keyOnce plainIdentity) = None"
    by (simp add: decidingRule_None sample_live)
  have "decidingRule plainIdentity (rules grantedState) sampleApp ''demo/read'' ''x'' 0 (keyOnce plainIdentity) \<noteq> None"
    by (simp add: decidingRule_None grantedState_def sampleGrant_def plainIdentity_byteEqual)
  then obtain w where w: "decidingRule plainIdentity (rules grantedState) sampleApp ''demo/read'' ''x'' 0 (keyOnce plainIdentity) = Some w" by blast
  have a: "actions enrolledState = []" by (simp add: enrolledState_def emptyState_def)
  show ?thesis
    unfolding ChangeRulesUnderAnswer_edit_def Let_def holderChange_def [symmetric]
    by (simp add: enrollment_decodes r sample_liveMeta n d w a sample_apply_grant)
qed

lemma sample_holder_run:
  "ChangeRulesUnderAnswer samplePolicy Stored calm (Some (marshalFile enrolledState)) sampleOther sampleApp [''demo/read''] ''x'' [] [] True =
   (policyEdit PolicyEditOutcomeApplied (revision samplePolicy grantedState)
      (map_option publicRule (decidingRule plainIdentity (rules grantedState) sampleApp ''demo/read'' ''x'' 0 (keyOnce plainIdentity))),
    None, Some (marshalFile grantedState))"
proof -
  have c: "currentProfile grantedState = grantedState" by (simp add: currentProfile_def grantedState_def emptyState_def)
  have "change samplePolicy (ChangeRulesUnderAnswer_edit samplePolicy sampleOther sampleApp [''demo/read''] ''x'' [] []) calm unavailableEdit
      (Some (marshalFile enrolledState)) =
    (policyEdit PolicyEditOutcomeApplied (revision samplePolicy grantedState)
      (map_option publicRule (decidingRule plainIdentity (rules grantedState) sampleApp ''demo/read'' ''x'' 0 (keyOnce plainIdentity))),
    None, Some (marshalFile grantedState))"
    by (rule change_settles) (use sample_holder_edit c in \<open>simp_all add: written_def granted_length enrollment_decodes\<close>)
  then show ?thesis
    using sample_member_valid(1)
    by (simp add: ChangeRulesUnderAnswer_def validWhy_def regular_def settle_def MetaAnswerAction_def)
       (simp add: sampleApp_def sampleOther_def plainIdentity_def)
qed

lemma sample_holder_changed: "\<not> found calm (Some (marshalFile enrolledState)) (Some (marshalFile grantedState))"
proof
  assume "found calm (Some (marshalFile enrolledState)) (Some (marshalFile grantedState))"
  then have "marshalFile grantedState = marshalFile enrolledState" by (simp add: found_def)
  with enrollment_decodes have "grantedState = enrolledState" by simp
  then show False by (simp add: grantedState_def enrolledState_def emptyState_def)
qed

text \<open>The holder stopped again: the empty policy is left.\<close>

lemma emptyState_decodes: "decodeDecision samplePolicy (Some (marshalFile emptyState)) = Inr emptyState"
proof -
  have "configured samplePolicy" using sample_ready by (simp add: ready_def)
  then have "wellFormed samplePolicy emptyState" by (auto simp: configured_def intro: wellFormed_emptyState)
  from decodeDecision_written [OF _ this longNames_spelled] sample_ready show ?thesis by (simp add: ready_def)
qed

lemma emptyState_length: "length (marshalFile emptyState) \<le> MaxDecisionBytes"
proof -
  have "jweight (fileJson emptyState) \<le> 10000"
    by (simp add: fileJson_def sliceJson_def omitList_def emptyState_def DecisionProfile_def)
  then show ?thesis using length_jprint [of "fileJson emptyState"] by (simp add: marshalFile_def MaxDecisionBytes_def)
qed

lemma sample_stop_run:
  "StopAnswerer samplePolicy Stored calm (Some (marshalFile enrolledState)) (revision samplePolicy enrolledState) sampleOther False True =
   (policyEdit PolicyEditOutcomeApplied (revision samplePolicy emptyState) None, None, Some (marshalFile emptyState))"
proof -
  have st: "stopped plainIdentity sampleOther False (keyOnce plainIdentity) sampleMeta"
    using sample_live(4) by (simp add: stopped_def sampleMeta_def IsMetaRule_def)
  have "dropRules (stopped plainIdentity sampleOther False (keyOnce plainIdentity)) enrolledState = emptyState"
    using st by (simp add: dropRules_def enrolledState_def emptyState_def nilIfEmpty_def)
  moreover have "rules enrolledState = [sampleMeta]" "rules emptyState = []" "currentProfile emptyState = emptyState"
    by (simp_all add: enrolledState_def emptyState_def currentProfile_def)
  ultimately have e: "StopAnswerer_edit samplePolicy (revision samplePolicy enrolledState) sampleOther False (calm 0)
      (Some (marshalFile enrolledState)) =
    (policyEdit PolicyEditOutcomeApplied (revision samplePolicy emptyState) None, Inr (Some (marshalFile emptyState)))"
    by (simp add: StopAnswerer_edit_def Let_def enrollment_decodes written_def)
  have "change samplePolicy (StopAnswerer_edit samplePolicy (revision samplePolicy enrolledState) sampleOther False) calm unavailableEdit
      (Some (marshalFile enrolledState)) =
    (policyEdit PolicyEditOutcomeApplied (revision samplePolicy emptyState) None, None, Some (marshalFile emptyState))"
    by (rule change_settles) (rule e, simp_all add: emptyState_length emptyState_decodes)
  then show ?thesis by (simp add: StopAnswerer_def regular_def settle_def)
qed

lemma calm_foreign: "foreignErrors calm"
  by (simp add: foreignErrors_def)

end
