(* ===== verification/Answer_Facts.thy ===== *)
theory Answer_Facts
  imports Sample_Enrollment
begin

text \<open>
  What the edits around answering authority promise: what stopping an answerer removes, that a
  holder writes only under a live meta-rule of its own, and that revoking an answer removes
  only that answer's live permits.
\<close>

subsection \<open>Stopping an answerer\<close>

lemma dropRules_fields [simp]:
  "actions (dropRules P f) = actions f" "f_actions (dropRules P f) = f_actions f" "f_descriptions (dropRules P f) = f_descriptions f"
  "f_appliedOperatorAnswers (dropRules P f) = f_appliedOperatorAnswers f" "f_selectorRules (dropRules P f) = f_selectorRules f"
  "f_bundleOrigins (dropRules P f) = f_bundleOrigins f" "f_appliedTypedAnswers (dropRules P f) = f_appliedTypedAnswers f"
  "f_defaultSwitches (dropRules P f) = f_defaultSwitches f" "f_profile (dropRules P f) = f_profile f"
  by (simp_all add: dropRules_def)

lemma filter_same_length: "length (filter P xs) = length xs \<Longrightarrow> filter P xs = xs"
  by (metis filter_True length_filter_less less_irrefl)

lemma jvalid_fewer:
  assumes "jvalid (fileJson f)" and "set (rules g) \<subseteq> set (rules f)" and "set (actions g) \<subseteq> set (actions f)"
    and "set (f_descriptions g) \<subseteq> set (f_descriptions f)" and "set (f_selectorRules g) \<subseteq> set (f_selectorRules f)"
    and "set (f_bundleOrigins g) \<subseteq> set (f_bundleOrigins f)" and "f_profile g = f_profile f"
    and "f_appliedOperatorAnswers g = f_appliedOperatorAnswers f" and "f_appliedTypedAnswers g = f_appliedTypedAnswers f"
    and "f_defaultSwitches g = f_defaultSwitches f"
  shows "jvalid (fileJson g)"
  using assms unfolding jvalid_fileJson by (simp add: subset_eq)

lemma StopAnswerer_applied:
  assumes "pe_outcome (fst (StopAnswerer_edit p expected a grants t c)) = PolicyEditOutcomeApplied"
  obtains f where "t_authorize t = None" and "decodeDecision p c = Inr f" and "revision p f = expected"
    and "snd (StopAnswerer_edit p expected a grants t c) =
      (let g = dropRules (stopped (files p) a grants (keyOnce (files p))) f in
       if length (rules g) = length (rules f) then Inl NoWrite else Inr (written g))"
proof -
  have "\<exists>f. t_authorize t = None \<and> decodeDecision p c = Inr f \<and> revision p f = expected \<and>
    snd (StopAnswerer_edit p expected a grants t c) =
      (let g = dropRules (stopped (files p) a grants (keyOnce (files p))) f in
       if length (rules g) = length (rules f) then Inl NoWrite else Inr (written g))"
    using assms
    by (auto simp: StopAnswerer_edit_def Let_def unavailableEdit_def policyEdit_def split: option.splits sum.splits if_splits)
  with that show ?thesis by blast
qed

text \<open>The state left.\<close>

lemma stopped_left:
  assumes "ready p" and "foreignErrors turns"
    and "StopAnswerer p disk turns content expected answerer grants admission = (out, None, after)"
    and "pe_outcome out = PolicyEditOutcomeApplied"
  shows "\<exists>a c f h. NormalizeDecisionSubject (files p) answerer = Inr a \<and> found turns content c \<and>
    decodeDecision p c = Inr f \<and> revision p f = expected \<and> decodeDecision p after = Inr h \<and>
    rules h = filter (\<lambda>r. \<not> stopped (files p) a grants (keyOnce (files p)) r) (rules f) \<and>
    (\<forall>now. liveMeta (files p) (rules h) a now (keyOnce (files p)) = None) \<and>
    f_actions h = f_actions f \<and> f_descriptions h = f_descriptions f \<and> f_selectorRules h = f_selectorRules f \<and>
    f_bundleOrigins h = f_bundleOrigins f \<and> f_appliedOperatorAnswers h = f_appliedOperatorAnswers f \<and>
    f_appliedTypedAnswers h = f_appliedTypedAnswers f \<and> f_defaultSwitches h = f_defaultSwitches f"
proof -
  let ?edit = "\<lambda>a. StopAnswerer_edit p expected a grants"
  obtain a where a: "NormalizeDecisionSubject (files p) answerer = Inr a"
    and s: "settle unavailableEdit (change p (?edit a) turns unavailableEdit content) = (out, None, after)"
    using assms(3,4) unfolding StopAnswerer_def
    by (auto simp: invalidEdit_def policyEdit_def split: sum.split_asm if_split_asm option.split_asm)
  from settled_ran [OF s assms(2)] obtain k c where c: "found turns content c" "fst (?edit a (turns k) c) = out"
    and ran: "snd (?edit a (turns k) c) = Inl NoWrite \<and> after = c \<or> endedBy (checkedChange p (?edit a)) (turns k) c out after" .
  from StopAnswerer_applied [OF assms(4) [folded c(2)]] obtain f where f: "decodeDecision p c = Inr f" "revision p f = expected"
    and o1: "snd (?edit a (turns k) c) = (let g = dropRules (stopped (files p) a grants (keyOnce (files p))) f in
       if length (rules g) = length (rules f) then Inl NoWrite else Inr (written g))" .
  let ?P = "stopped (files p) a grants (keyOnce (files p))" and ?g = "dropRules (stopped (files p) a grants (keyOnce (files p))) f"
  have "\<exists>h. decodeDecision p after = Inr h \<and> rules h = rules ?g \<and> (h = f \<or> h = currentProfile ?g)"
  proof (cases "length (rules ?g) = length (rules f)")
    case True
    then have "rules ?g = rules f" by (simp add: filter_same_length)
    moreover have "snd (?edit a (turns k) c) = Inl NoWrite" using o1 True by (simp add: Let_def)
    with ran have "after = c" by (rule ran_unwritten)
    ultimately show ?thesis using f by auto
  next
    case False
    then have w: "snd (?edit a (turns k) c) = Inr (written ?g)" using o1 by (simp add: Let_def)
    have "jvalid (fileJson ?g)" using decoded_text [OF assms(1) f(1)] by (auto intro: jvalid_fewer)
    with assms(1) ran w have "decodeDecision p after = Inr (currentProfile ?g)" by (rule ran_written)
    then show ?thesis by simp
  qed
  then obtain h where h: "decodeDecision p after = Inr h" "rules h = rules ?g" "h = f \<or> h = currentProfile ?g" by blast
  have "liveMeta (files p) (rules h) a now (keyOnce (files p)) = None" for now
  proof -
    have "\<forall>r\<in>set (rules h). \<not> sameTarget (files p) r a MetaAnswerAction MetaScopeApps (keyOnce (files p))"
      by (auto simp: h(2) stopped_def sameTarget_alt IsMetaRule_def)
    then have "decidingRule (files p) (rules h) a MetaAnswerAction MetaScopeApps now (keyOnce (files p)) = None"
      by (simp add: decidingRule_None)
    then show ?thesis by (simp add: liveMeta_def)
  qed
  moreover from h(2,3) have "rules h = filter (\<lambda>r. \<not> ?P r) (rules f)" "f_actions h = f_actions f" "f_descriptions h = f_descriptions f"
    "f_selectorRules h = f_selectorRules f" "f_bundleOrigins h = f_bundleOrigins f" "f_defaultSwitches h = f_defaultSwitches f"
    "f_appliedOperatorAnswers h = f_appliedOperatorAnswers f" "f_appliedTypedAnswers h = f_appliedTypedAnswers f" by auto
  ultimately show ?thesis using a c(1) f h(1) by blast
qed

text \<open>C17: Stopping an answerer withdraws its authority and nothing it may not: when \<open>StopAnswerer\<close>
  reports Applied, the state left is the state found at the expected revision less the rules on the
  answerer's own meta-target, whatever their effect, and, if asked, the ordinary permits it set; no
  meta-rule is live for it at any time. Every deny that is not on that target stays, every permit
  another setter made stays, and without the flag every ordinary rule stays; nothing but the rules
  changed. A deny on the meta-target, "this program may not answer", is deleted with the rest, so
  the program is then as unenrolled as one never asked about. The operation's comment and the
  contract say that denies stay; on this target the code does otherwise, and the statement is
  about the code.\<close>

theorem stopped_answerer_has_no_authority:
  assumes "ready p" and "foreignErrors turns"
    and "StopAnswerer p disk turns content expected answerer grants admission = (out, None, after)"
    and "pe_outcome out = PolicyEditOutcomeApplied"
  shows "\<exists>a c f h. NormalizeDecisionSubject (files p) answerer = Inr a \<and> found turns content c \<and>
    decodeDecision p c = Inr f \<and> revision p f = expected \<and> decodeDecision p after = Inr h \<and>
    (\<forall>now. liveMeta (files p) (rules h) a now (keyOnce (files p)) = None) \<and>
    set (rules h) \<subseteq> set (rules f) \<and>
    (\<forall>r\<in>set (rules f). sameTarget (files p) r a MetaAnswerAction MetaScopeApps (keyOnce (files p)) \<longrightarrow> r \<notin> set (rules h)) \<and>
    (\<forall>r\<in>set (rules f). \<not> sameTarget (files p) r a MetaAnswerAction MetaScopeApps (keyOnce (files p)) \<longrightarrow>
      (r \<in> set (rules h) \<longleftrightarrow>
        \<not> (grants \<and> r_permit r \<and> \<not> IsMetaRule (r_action r) (r_resource r) \<and> setByHolder (files p) r a (keyOnce (files p))))) \<and>
    rules h = filter (\<lambda>r. r \<in> set (rules h)) (rules f) \<and>
    f_actions h = f_actions f \<and> f_descriptions h = f_descriptions f \<and> f_selectorRules h = f_selectorRules f \<and>
    f_bundleOrigins h = f_bundleOrigins f \<and> f_appliedOperatorAnswers h = f_appliedOperatorAnswers f \<and>
    f_appliedTypedAnswers h = f_appliedTypedAnswers f \<and> f_defaultSwitches h = f_defaultSwitches f"
proof -
  from stopped_left [OF assms] obtain a c f h where
    h: "rules h = filter (\<lambda>r. \<not> stopped (files p) a grants (keyOnce (files p)) r) (rules f)"
    and rest: "NormalizeDecisionSubject (files p) answerer = Inr a" "found turns content c" "decodeDecision p c = Inr f"
      "revision p f = expected" "decodeDecision p after = Inr h"
      "\<forall>now. liveMeta (files p) (rules h) a now (keyOnce (files p)) = None"
      "f_actions h = f_actions f" "f_descriptions h = f_descriptions f" "f_selectorRules h = f_selectorRules f"
      "f_bundleOrigins h = f_bundleOrigins f" "f_appliedOperatorAnswers h = f_appliedOperatorAnswers f"
      "f_appliedTypedAnswers h = f_appliedTypedAnswers f" "f_defaultSwitches h = f_defaultSwitches f" by blast
  have s: "stopped (files p) a grants (keyOnce (files p)) r \<longleftrightarrow>
      sameTarget (files p) r a MetaAnswerAction MetaScopeApps (keyOnce (files p)) \<or>
      grants \<and> r_permit r \<and> \<not> IsMetaRule (r_action r) (r_resource r) \<and> setByHolder (files p) r a (keyOnce (files p))" for r
    by (auto simp: stopped_def sameTarget_alt IsMetaRule_def)
  have "rules h = filter (\<lambda>r. r \<in> set (rules h)) (rules f)" by (simp add: h cong: filter_cong)
  with rest show ?thesis
    by (intro exI [of _ a] exI [of _ c] exI [of _ f] exI [of _ h] conjI) (simp_all add: h s)
qed

theorem stopped_answerer_has_no_authority_witness:
  "\<exists>h. decodeDecision samplePolicy (Some (marshalFile emptyState)) = Inr h \<and>
    liveMeta (files samplePolicy) (rules h) sampleOther 0 (keyOnce (files samplePolicy)) = None"
proof -
  have "pe_outcome (policyEdit PolicyEditOutcomeApplied (revision samplePolicy emptyState) None) = PolicyEditOutcomeApplied"
    by (simp add: policyEdit_def)
  from stopped_answerer_has_no_authority [OF sample_ready calm_foreign sample_stop_run this] show ?thesis by auto
qed

subsection \<open>Writing under a meta-rule\<close>

lemma ChangeRulesUnderAnswer_ran:
  assumes "ChangeRulesUnderAnswer p disk turns content holder0 target0 acts resource why questionID admission = (out, err, after)"
    and "\<not> found turns content after"
  obtains holder tgt where "NormalizeDecisionSubject (files p) holder0 = Inr holder" and "admission" and "validWhy why"
    and "questionID = [] \<or> boundedDecisionString questionID 128"
    and "acts \<noteq> [] \<longrightarrow> writableSubject (files p) target0 = Inr tgt \<and>
      \<not> (account tgt = account holder \<and> sameSubjectProgram (files p) (program tgt) (program holder)) \<and>
      (\<forall>i<length acts. ValidDecisionQuery (acts ! i) resource \<and> acts ! i \<notin> set (take i acts) \<and> acts ! i \<noteq> MetaAnswerAction)"
    and "settle unavailableEdit (change p (ChangeRulesUnderAnswer_edit p holder tgt acts resource why questionID) turns
      unavailableEdit content) = (out, err, after)"
proof -
  have nc: "after \<noteq> content" using assms(2) by (auto simp: found_def)
  have kept: "(case settle unavailableEdit (change p edit turns unavailableEdit content) of
      (r, Some ErrNoMetaRule, af) \<Rightarrow> (policyEdit PolicyEditOutcomeForbidden [] None, Some ErrNoMetaRule, af)
    | outcome \<Rightarrow> outcome) = (out, err, after) \<Longrightarrow>
      settle unavailableEdit (change p edit turns unavailableEdit content) = (out, err, after)" for edit
  proof -
    assume e: "(case settle unavailableEdit (change p edit turns unavailableEdit content) of
      (r, Some ErrNoMetaRule, af) \<Rightarrow> (policyEdit PolicyEditOutcomeForbidden [] None, Some ErrNoMetaRule, af)
    | outcome \<Rightarrow> outcome) = (out, err, after)"
    obtain r x a where c: "change p edit turns unavailableEdit content = (r, x, a)" by (metis prod_cases3)
    have "x = None"
    proof (rule ccontr)
      assume "x \<noteq> None"
      then obtain y where "x = Some y" by blast
      with c change_failed [of p edit turns unavailableEdit content r y a] have "found turns content a" by simp
      moreover have "a = after" using e by (auto simp: c settle_def split: option.split_asm if_split_asm rights_error.split_asm)
      ultimately show False using assms(2) by simp
    qed
    with e c show ?thesis by (simp add: settle_def)
  qed
  have "\<exists>holder tgt. NormalizeDecisionSubject (files p) holder0 = Inr holder \<and> admission \<and> validWhy why \<and>
    (questionID = [] \<or> boundedDecisionString questionID 128) \<and>
    (acts \<noteq> [] \<longrightarrow> writableSubject (files p) target0 = Inr tgt \<and>
      \<not> (account tgt = account holder \<and> sameSubjectProgram (files p) (program tgt) (program holder)) \<and>
      (\<forall>i<length acts. ValidDecisionQuery (acts ! i) resource \<and> acts ! i \<notin> set (take i acts) \<and> acts ! i \<noteq> MetaAnswerAction)) \<and>
    settle unavailableEdit (change p (ChangeRulesUnderAnswer_edit p holder tgt acts resource why questionID) turns
      unavailableEdit content) = (out, err, after)"
    using assms(1) nc unfolding ChangeRulesUnderAnswer_def Let_def
    by (auto simp: find_None_iff dest: kept split: if_split_asm sum.split_asm option.split_asm)
  with that show ?thesis by blast
qed

lemma ChangeRulesUnderAnswer_wrote:
  assumes "ChangeRulesUnderAnswer_edit p holder tgt acts resource why questionID t c = (out, Inr (Some next))"
    and "decodeDecision p c = Inr f"
  obtains meta skips cur g where "liveMeta (files p) (rules f) holder (t_now t) (keyOnce (files p)) = Some meta"
    and "MetaAnswerAction \<in> set (catalogue p f)" and "\<forall>action\<in>set acts. action \<in> set (catalogue p f)"
    and "holderScan (files p) (rules f) holder tgt resource (t_now t) (keyOnce (files p)) None acts = Inr (skips, cur)"
    and "holderWrites (files p) (renewEnrollment (files p) f holder meta (t_now t) (keyOnce (files p))) tgt resource
      (holderChange holder (t_now t) why questionID) skips = Inr g"
    and "next = marshalFile (currentProfile g)" and "pe_outcome out = PolicyEditOutcomeApplied"
    and "pe_revision out = revision p (currentProfile g)"
proof -
  have "\<exists>meta skips cur g. liveMeta (files p) (rules f) holder (t_now t) (keyOnce (files p)) = Some meta \<and>
    MetaAnswerAction \<in> set (catalogue p f) \<and> (\<forall>action\<in>set acts. action \<in> set (catalogue p f)) \<and>
    holderScan (files p) (rules f) holder tgt resource (t_now t) (keyOnce (files p)) None acts = Inr (skips, cur) \<and>
    holderWrites (files p) (renewEnrollment (files p) f holder meta (t_now t) (keyOnce (files p))) tgt resource
      (holderChange holder (t_now t) why questionID) skips = Inr g \<and>
    next = marshalFile (currentProfile g) \<and> pe_outcome out = PolicyEditOutcomeApplied \<and>
    pe_revision out = revision p (currentProfile g)"
    using assms unfolding ChangeRulesUnderAnswer_edit_def Let_def holderChange_def [symmetric] written_def
    by (auto simp: policyEdit_def list_all_iff split: option.split_asm sum.split_asm if_split_asm prod.split_asm)
  with that show ?thesis by blast
qed

lemma holderScan_spec:
  "holderScan fs rs holder tgt resource now key cur acts = Inr (skips, final) \<Longrightarrow>
     map fst skips = acts \<and> (\<forall>action\<in>set acts. \<not> liveDeny fs rs tgt action resource now key) \<and>
     (\<forall>(action, skip)\<in>set skips. skip \<longrightarrow> livePermit fs rs tgt action resource now key)"
proof (induction acts arbitrary: cur skips final)
  case (Cons action acts)
  let ?d = "decidingRule fs rs tgt action resource now key"
  show ?case
  proof (cases "\<exists>r. ?d = Some r \<and> \<not> expired r now")
    case True
    then obtain r where r: "?d = Some r" "\<not> expired r now" by blast
    with Cons.prems obtain skips' where rest: "r_permit r"
      "holderScan fs rs holder tgt resource now key (Some (publicRule r)) acts = Inr (skips', final)"
      "skips = (action, \<not> setByHolder fs r holder key) # skips'"
      by (auto split: if_split_asm sum.split_asm)
    with r live_from_deciding [of fs rs tgt action resource now key True] Cons.IH [OF rest(2)] show ?thesis by auto
  next
    case False
    with Cons.prems obtain skips' where rest: "holderScan fs rs holder tgt resource now key cur acts = Inr (skips', final)"
      "skips = (action, False) # skips'"
      by (auto split: option.split_asm if_split_asm sum.split_asm)
    have "\<not> liveDeny fs rs tgt action resource now key"
      using False decidingRule_denies [of fs rs tgt action resource now key] by blast
    with Cons.IH [OF rest(1)] rest(2) show ?thesis by auto
  qed
qed simp

text \<open>Renewing an enrollment extends live rules only, so it settles every target as before.\<close>

definition renewedRule :: "identity \<Rightarrow> subject \<Rightarrow> decisionRule \<Rightarrow> instant \<Rightarrow> programKeys \<Rightarrow> decisionRule \<Rightarrow> decisionRule" where
  "renewedRule fs holder meta now key r =
     (let renewedMeta = meta\<lparr>r_expires := stamp (addDuration now MetaRuleLapse)\<rparr> in
      renewed fs meta (Some renewedMeta) key
        (if sameTarget fs r holder MetaAnswerAction MetaScopeApps key \<and> r_permit r \<and> \<not> expired r now
         then r\<lparr>r_expires := r_expires renewedMeta\<rparr> else r))"

lemma renewEnrollment_fields [simp]:
  "rules (renewEnrollment fs f holder meta now key) = map (renewedRule fs holder meta now key) (rules f)"
  "f_actions (renewEnrollment fs f holder meta now key) = f_actions f"
  "f_profile (renewEnrollment fs f holder meta now key) = f_profile f"
  "f_appliedOperatorAnswers (renewEnrollment fs f holder meta now key) = f_appliedOperatorAnswers f"
  "f_descriptions (renewEnrollment fs f holder meta now key) = f_descriptions f"
  "f_selectorRules (renewEnrollment fs f holder meta now key) = f_selectorRules f"
  "f_bundleOrigins (renewEnrollment fs f holder meta now key) = f_bundleOrigins f"
  "f_appliedTypedAnswers (renewEnrollment fs f holder meta now key) = f_appliedTypedAnswers f"
  "f_defaultSwitches (renewEnrollment fs f holder meta now key) = f_defaultSwitches f"
  by (simp_all add: renewEnrollment_def Let_def cascadeMeta_rules renewedRule_def o_def)

lemma renewedRule_fields [simp]:
  "r_permit (renewedRule fs holder meta now key r) = r_permit r"
  "sameTarget fs' (renewedRule fs holder meta now key r) s a res key' = sameTarget fs' r s a res key'"
  by (simp_all add: renewedRule_def Let_def sameTarget_def)

lemma renewedRule_cases:
  "renewedRule fs holder meta now key r = r \<or>
   renewedRule fs holder meta now key r = r\<lparr>r_expires := stamp (addDuration now MetaRuleLapse)\<rparr> \<and>
     (\<not> expired r now \<or> r_expires r = r_expires meta)"
  by (auto simp: renewedRule_def Let_def renewed_def)

lemma MetaRuleLapse_lives:
  assumes "fourDigitYear (addDuration now MetaRuleLapse)"
  shows "\<not> stampExpired (stamp (addDuration now MetaRuleLapse)) now"
  by (rule addDuration_expires [OF assms]) (simp_all add: MetaRuleLapse_def millisecond_def Millisecond_def)

lemma renewedRule_expired:
  assumes "\<not> expired meta now" and "fourDigitYear (addDuration now MetaRuleLapse)"
  shows "expired (renewedRule fs holder meta now key r) now = expired r now"
  using renewedRule_cases [of fs holder meta now key r] MetaRuleLapse_lives [OF assms(2)] assms(1)
  by (auto simp: expired_def)

lemma settledOn_renewed:
  assumes "\<not> expired meta now" and "fourDigitYear (addDuration now MetaRuleLapse)"
  shows "settledOn fs (renewEnrollment fs' f holder meta now key) now rule = settledOn fs f now rule"
  by (auto simp: settledOn_def livePermit_def liveDeny_def renewedRule_expired [OF assms])

lemma jvalid_renewEnrollment:
  assumes "jvalid (fileJson f)"
  shows "jvalid (fileJson (renewEnrollment fs f holder meta now key))"
proof -
  have "jvalid (ruleJson (renewedRule fs holder meta now key r))" if "jvalid (ruleJson r)" for r
    using renewedRule_cases [of fs holder meta now key r] that
    by (auto simp: ruleJson_def omitStr_def key_names printable_stamp printable_validUTF8)
  with assms show ?thesis unfolding jvalid_fileJson by simp
qed

lemma holderWrites_settles:
  assumes i: "byteEqualNames fs" and "holderWrites fs f tgt resource ch skips = Inr g" and "distinct (map fst skips)"
    and "\<And>action. action \<in> fst ` set skips \<Longrightarrow> \<not> IsMetaRule action resource"
    and "\<And>action. (action, True) \<in> set skips \<Longrightarrow> settledOn fs f now \<lparr>pr_subject = tgt, pr_action = action, pr_resource = resource, pr_permit = True\<rparr>"
    and ch: "ch_permit ch = Some True" "ch_at ch = now" "0 < ch_ttl ch" "\<not> stampExpired (stamp (addDuration now (ch_ttl ch))) now"
  shows "(\<forall>action\<in>fst ` set skips. settledOn fs g now \<lparr>pr_subject = tgt, pr_action = action, pr_resource = resource, pr_permit = True\<rparr>) \<and>
    (\<forall>rule. pr_action rule \<notin> fst ` set skips \<longrightarrow> settledOn fs g now rule = settledOn fs f now rule)"
  using assms(2-5)
proof (induction skips arbitrary: f)
  case (Cons m skips)
  obtain action skip where m: "m = (action, skip)" by fastforce
  let ?r = "\<lparr>pr_subject = tgt, pr_action = action, pr_resource = resource, pr_permit = True\<rparr>"
  have d: "distinct (map fst skips)" and fresh: "action \<notin> fst ` set skips" using Cons.prems(2) m by auto
  obtain f1 where rest: "holderWrites fs f1 tgt resource ch skips = Inr g" and here: "settledOn fs f1 now ?r"
    and else: "\<And>r. pr_action r \<noteq> action \<Longrightarrow> settledOn fs f1 now r = settledOn fs f now r"
  proof (cases skip)
    case True
    with that [of f] Cons.prems(1,4) m show ?thesis by simp
  next
    case False
    with Cons.prems(1) m obtain f1 c1 where a: "applyDecisionRule fs f tgt action resource ch = Inr (f1, c1)"
      and rest: "holderWrites fs f1 tgt resource ch skips = Inr g" by (auto split: sum.split_asm)
    have k: "\<not> IsMetaRule action resource" using Cons.prems(3) m by auto
    have "settledOn fs f1 now ?r" by (rule settled_here [OF i, of f ?r ch f1 c1]) (use a ch in auto)
    moreover have "pr_action r \<noteq> action \<Longrightarrow> settledOn fs f1 now r = settledOn fs f now r" for r
      by (rule settled_elsewhere [OF i a k]) (use ch in auto)
    ultimately show ?thesis using that rest by blast
  qed
  have keep: "settledOn fs f1 now \<lparr>pr_subject = tgt, pr_action = b, pr_resource = resource, pr_permit = True\<rparr>"
    if "(b, True) \<in> set skips" for b
  proof -
    have "b \<noteq> action" using that fresh by force
    then show ?thesis using else Cons.prems(4) [of b] that m by simp
  qed
  have IH: "(\<forall>action\<in>fst ` set skips. settledOn fs g now \<lparr>pr_subject = tgt, pr_action = action, pr_resource = resource, pr_permit = True\<rparr>) \<and>
    (\<forall>rule. pr_action rule \<notin> fst ` set skips \<longrightarrow> settledOn fs g now rule = settledOn fs f1 now rule)"
    by (rule Cons.IH [OF rest d _ keep]) (use Cons.prems(3) in auto)
  from IH here fresh have head: "settledOn fs g now ?r" by simp
  show ?case unfolding m using IH head else by auto
qed simp

lemma holderWrites_text:
  assumes "holderWrites fs f tgt resource ch skips = Inr g" and "jvalid (fileJson f)"
    and "\<And>action b. action \<in> fst ` set skips \<Longrightarrow> ch_permit ch = Some b \<Longrightarrow> jvalid (ruleJson (writtenRule tgt action resource b ch))"
  shows "jvalid (fileJson g) \<and> f_actions g = f_actions f"
  using assms
proof (induction skips arbitrary: f)
  case (Cons m skips)
  obtain action skip where m: "m = (action, skip)" by fastforce
  show ?case
  proof (cases skip)
    case True
    with Cons.prems(1) m have "holderWrites fs f tgt resource ch skips = Inr g" by simp
    then show ?thesis by (rule Cons.IH [OF _ Cons.prems(2)]) (use Cons.prems(3) in auto)
  next
    case False
    with Cons.prems(1) m obtain f1 c1 where a: "applyDecisionRule fs f tgt action resource ch = Inr (f1, c1)"
      and rest: "holderWrites fs f1 tgt resource ch skips = Inr g" by (auto split: sum.split_asm)
    have "jvalid (fileJson f1)" by (rule apply_jvalid [OF Cons.prems(2) a]) (use Cons.prems(3) m in auto)
    from Cons.IH [OF rest this] Cons.prems(3) apply_fields [OF a] show ?thesis by auto
  qed
qed simp

lemma distinct_fresh:
  assumes "\<And>i. i < length xs \<Longrightarrow> xs ! i \<notin> set (take i xs)"
  shows "distinct xs"
  unfolding distinct_conv_nth
proof (intro allI impI)
  have less: "xs ! i \<noteq> xs ! j" if "i < j" "j < length xs" for i j
    using assms [OF that(2)] that by (auto simp: in_set_conv_nth)
  fix i j assume "i < length xs" "j < length xs" "i \<noteq> j"
  with less [of i j] less [of j i] show "xs ! i \<noteq> xs ! j" by (cases i j rule: linorder_cases) auto
qed

lemma holder_settles:
  assumes i: "byteEqualNames fs" and meta: "liveMeta fs (rules f) holder now key = Some meta"
    and scan: "holderScan fs (rules f) holder tgt resource now key None acts = Inr (skips, cur)"
    and g: "holderWrites fs (renewEnrollment fs f holder meta now key) tgt resource (holderChange holder now why questionID) skips = Inr g"
    and acts: "distinct acts" "\<And>action. action \<in> set acts \<Longrightarrow> action \<noteq> MetaAnswerAction"
    and year: "fourDigitYear (addDuration now MetaRuleLapse)" and key: "key = keyOnce fs"
  shows "\<forall>action\<in>set acts. settledOn fs g now \<lparr>pr_subject = tgt, pr_action = action, pr_resource = resource, pr_permit = True\<rparr>"
proof -
  note scanned = holderScan_spec [OF scan]
  have live: "\<not> expired meta now" using meta by (auto simp: liveMeta_def split: option.split_asm if_split_asm)
  have dist: "distinct (map fst skips)" using scanned acts(1) by simp
  have "(\<forall>action\<in>fst ` set skips. settledOn fs g now \<lparr>pr_subject = tgt, pr_action = action, pr_resource = resource, pr_permit = True\<rparr>) \<and>
    (\<forall>rule. pr_action rule \<notin> fst ` set skips \<longrightarrow>
      settledOn fs g now rule = settledOn fs (renewEnrollment fs f holder meta now key) now rule)"
  proof (rule holderWrites_settles [OF i g dist])
    show "\<not> IsMetaRule action resource" if "action \<in> fst ` set skips" for action
      using that acts(2) scanned by (metis IsMetaRule_def set_map)
    show "settledOn fs (renewEnrollment fs f holder meta now key) now
        \<lparr>pr_subject = tgt, pr_action = action, pr_resource = resource, pr_permit = True\<rparr>" if "(action, True) \<in> set skips" for action
    proof -
      from that scanned have "livePermit fs (rules f) tgt action resource now key" by auto
      moreover have "action \<in> set acts" using that scanned by force
      with scanned have "\<not> liveDeny fs (rules f) tgt action resource now key" by blast
      ultimately show ?thesis unfolding settledOn_renewed [OF live year] by (simp add: settledOn_def key)
    qed
  qed (use MetaRuleLapse_lives [OF year] in \<open>simp_all add: holderChange_def MetaRuleLapse_def\<close>)
  then show ?thesis using scanned by (metis set_map)
qed

text \<open>The whole of a holder's write.\<close>

lemma holder_wrote:
  assumes r: "ready p"
    and ch: "ChangeRulesUnderAnswer p disk turns content holder0 target0 acts resource why questionID admission = (out, err, after)"
    and nf: "\<not> found turns content after"
  obtains k c f g holder tgt meta where "k < decisionChangeAttempts" and "found turns content c" and "t_authorize (turns k) = None"
    and "admission" and "err = None" and "NormalizeDecisionSubject (files p) holder0 = Inr holder"
    and "decodeDecision p c = Inr f" and "liveMeta (files p) (rules f) holder (t_now (turns k)) (keyOnce (files p)) = Some meta"
    and "pe_outcome out = PolicyEditOutcomeApplied" and "pe_revision out = revision p (currentProfile g)"
    and "decodeDecision p after = Inr (currentProfile g)" and "f_actions g = f_actions f"
    and "\<forall>action\<in>set acts. action \<in> set (catalogue p f)"
    and "acts \<noteq> [] \<longrightarrow> writableSubject (files p) target0 = Inr tgt \<and>
      \<not> (account tgt = account holder \<and> sameSubjectProgram (files p) (program tgt) (program holder)) \<and>
      (\<forall>action\<in>set acts. ValidDecisionQuery action resource \<and> action \<noteq> MetaAnswerAction \<and>
        \<not> liveDeny (files p) (rules f) tgt action resource (t_now (turns k)) (keyOnce (files p)))"
    and "fourDigitYear (addDuration (t_now (turns k)) MetaRuleLapse) \<longrightarrow>
      (\<forall>action\<in>set acts. settledOn (files p) g (t_now (turns k)) \<lparr>pr_subject = tgt, pr_action = action, pr_resource = resource, pr_permit = True\<rparr>)"
proof -
  from ChangeRulesUnderAnswer_ran [OF ch nf] obtain holder tgt where
    h: "NormalizeDecisionSubject (files p) holder0 = Inr holder" "admission" "validWhy why"
      "questionID = [] \<or> boundedDecisionString questionID 128"
    and tgt: "acts \<noteq> [] \<longrightarrow> writableSubject (files p) target0 = Inr tgt \<and>
      \<not> (account tgt = account holder \<and> sameSubjectProgram (files p) (program tgt) (program holder)) \<and>
      (\<forall>i<length acts. ValidDecisionQuery (acts ! i) resource \<and> acts ! i \<notin> set (take i acts) \<and> acts ! i \<noteq> MetaAnswerAction)"
    and run: "settle unavailableEdit (change p (ChangeRulesUnderAnswer_edit p holder tgt acts resource why questionID) turns
      unavailableEdit content) = (out, err, after)" .
  from holder_write.settled_guarded [OF run nf] obtain k c f nxt d where
    k: "k < decisionChangeAttempts" "err = None" "found turns content c" "t_authorize (turns k) = None" "decodeDecision p c = Inr f"
    and e: "ChangeRulesUnderAnswer_edit p holder tgt acts resource why questionID (turns k) c = (out, Inr (Some nxt))"
    and a: "after = Some nxt" and d: "decodeDecision p (Some nxt) = Inr d" by (elim exE conjE) (rule that)
  let ?now = "t_now (turns k)" and ?key = "keyOnce (files p)"
  from ChangeRulesUnderAnswer_wrote [OF e k(5)] obtain meta skips cur g where
    meta: "liveMeta (files p) (rules f) holder ?now ?key = Some meta"
    and cat: "\<forall>action\<in>set acts. action \<in> set (catalogue p f)"
    and scan: "holderScan (files p) (rules f) holder tgt resource ?now ?key None acts = Inr (skips, cur)"
    and g: "holderWrites (files p) (renewEnrollment (files p) f holder meta ?now ?key) tgt resource
      (holderChange holder ?now why questionID) skips = Inr g"
    and nxt: "nxt = marshalFile (currentProfile g)" and o1: "pe_outcome out = PolicyEditOutcomeApplied"
      "pe_revision out = revision p (currentProfile g)" .
  note scanned = holderScan_spec [OF scan]
  have query: "ValidDecisionQuery action resource \<and> action \<noteq> MetaAnswerAction" if "action \<in> set acts" for action
    using tgt that by (auto simp: in_set_conv_nth)
  have "jvalid (fileJson (renewEnrollment (files p) f holder meta ?now ?key))"
    using jvalid_renewEnrollment decoded_text [OF r k(5)] by blast
  have "jvalid (fileJson g) \<and> f_actions g = f_actions (renewEnrollment (files p) f holder meta ?now ?key)"
  proof (rule holderWrites_text [OF g \<open>jvalid (fileJson (renewEnrollment (files p) f holder meta ?now ?key))\<close>])
    fix action b assume "action \<in> fst ` set skips" "ch_permit (holderChange holder ?now why questionID) = Some b"
    then have "action \<in> set acts" using scanned by (metis set_map)
    with query [OF this] tgt have "ValidDecisionQuery action resource" "validStoredSubject (files p) tgt" "validStoredSubject (files p) holder"
      using r h(1) writable_normalized [of "files p" target0 tgt] by (auto simp: ready_def longNames_def)
    then show "jvalid (ruleJson (writtenRule tgt action resource b (holderChange holder ?now why questionID)))"
      using h(3,4) by (auto simp: jvalid_writtenRule holderChange_def ValidDecisionQuery_def
        intro: bounded_validUTF8 validWhy_UTF8 jvalid_subject)
  qed
  then have kept: "jvalid (fileJson g) \<and> f_actions g = f_actions f" by simp
  from written_decodes [OF r jvalid_currentProfile, of g d] kept d nxt a
  have after: "decodeDecision p after = Inr (currentProfile g)" by simp
  show ?thesis
  proof (rule that [OF k(1,3,4) h(2) k(2) h(1) k(5) meta o1 after _ cat])
    show "f_actions g = f_actions f" using kept ..
    show "acts \<noteq> [] \<longrightarrow> writableSubject (files p) target0 = Inr tgt \<and>
      \<not> (account tgt = account holder \<and> sameSubjectProgram (files p) (program tgt) (program holder)) \<and>
      (\<forall>action\<in>set acts. ValidDecisionQuery action resource \<and> action \<noteq> MetaAnswerAction \<and>
        \<not> liveDeny (files p) (rules f) tgt action resource ?now ?key)"
      using tgt query scanned by blast
    show "fourDigitYear (addDuration ?now MetaRuleLapse) \<longrightarrow>
      (\<forall>action\<in>set acts. settledOn (files p) g ?now \<lparr>pr_subject = tgt, pr_action = action, pr_resource = resource, pr_permit = True\<rparr>)"
    proof
      assume year: "fourDigitYear (addDuration ?now MetaRuleLapse)"
      have "distinct acts"
        by (rule distinct_fresh) (use tgt in force)
      moreover have "byteEqualNames (files p)" using r by (simp add: ready_def longNames_def)
      ultimately show "\<forall>action\<in>set acts. settledOn (files p) g ?now
          \<lparr>pr_subject = tgt, pr_action = action, pr_resource = resource, pr_permit = True\<rparr>"
        using holder_settles [OF _ meta scan g _ _ year refl] query by blast
    qed
  qed
qed

text \<open>C19: A holder writes only under its own live meta-rule: a file that
  \<open>ChangeRulesUnderAnswer\<close> changed was changed by one run that was admitted, on a state in which
  the normalised holder's deciding meta-rule was an unexpired permit; it never wrote the
  meta-action, a rule about the holder itself, or over a live deny.\<close>

theorem holder_writes_only_under_meta:
  assumes "ready p"
    and "ChangeRulesUnderAnswer p disk turns content holder0 target0 acts resource why questionID admission = (out, err, after)"
    and "\<not> found turns content after"
  shows "\<exists>k<decisionChangeAttempts. \<exists>c f h holder meta. admission \<and> err = None \<and> found turns content c \<and>
    t_authorize (turns k) = None \<and> decodeDecision p c = Inr f \<and> NormalizeDecisionSubject (files p) holder0 = Inr holder \<and>
    liveMeta (files p) (rules f) holder (t_now (turns k)) (keyOnce (files p)) = Some meta \<and> MetaAnswerAction \<notin> set acts \<and>
    (acts \<noteq> [] \<longrightarrow> (\<exists>tgt. writableSubject (files p) target0 = Inr tgt \<and>
      \<not> (account tgt = account holder \<and> sameSubjectProgram (files p) (program tgt) (program holder)) \<and>
      (\<forall>action\<in>set acts. \<not> liveDeny (files p) (rules f) tgt action resource (t_now (turns k)) (keyOnce (files p))))) \<and>
    decodeDecision p after = Inr h \<and> pe_outcome out = PolicyEditOutcomeApplied \<and> pe_revision out = revision p h \<and>
    f_actions h = f_actions f"
proof -
  from holder_wrote [OF assms] obtain k c f g holder tgt meta where w: "k < decisionChangeAttempts" "found turns content c"
    "t_authorize (turns k) = None" "admission" "err = None" "NormalizeDecisionSubject (files p) holder0 = Inr holder"
    "decodeDecision p c = Inr f" "liveMeta (files p) (rules f) holder (t_now (turns k)) (keyOnce (files p)) = Some meta"
    "pe_outcome out = PolicyEditOutcomeApplied" "pe_revision out = revision p (currentProfile g)"
    "decodeDecision p after = Inr (currentProfile g)" "f_actions g = f_actions f"
    and t: "acts \<noteq> [] \<longrightarrow> writableSubject (files p) target0 = Inr tgt \<and>
      \<not> (account tgt = account holder \<and> sameSubjectProgram (files p) (program tgt) (program holder)) \<and>
      (\<forall>action\<in>set acts. ValidDecisionQuery action resource \<and> action \<noteq> MetaAnswerAction \<and>
        \<not> liveDeny (files p) (rules f) tgt action resource (t_now (turns k)) (keyOnce (files p)))" .
  have m: "MetaAnswerAction \<notin> set acts" using t by (cases "acts = []") auto
  have a: "acts \<noteq> [] \<longrightarrow> (\<exists>tgt. writableSubject (files p) target0 = Inr tgt \<and>
      \<not> (account tgt = account holder \<and> sameSubjectProgram (files p) (program tgt) (program holder)) \<and>
      (\<forall>action\<in>set acts. \<not> liveDeny (files p) (rules f) tgt action resource (t_now (turns k)) (keyOnce (files p))))"
    using t by blast
  show ?thesis
    by (rule exI [of _ k], intro conjI w(1), rule exI [of _ c], rule exI [of _ f], rule exI [of _ "currentProfile g"],
        rule exI [of _ holder], rule exI [of _ meta]) (use a m in \<open>simp add: w\<close>)
qed

text \<open>C20: What a holder permits takes effect: after such a write a decision on each action for
  the target, at the time of the write, is permitted unless a live typed block covers it.\<close>

theorem holder_permits_take_effect:
  assumes "ready p" and "freshKeys p"
    and "ChangeRulesUnderAnswer p disk turns content holder0 target0 acts resource why questionID admission = (out, err, after)"
    and "\<not> found turns content after"
    and "\<forall>k<decisionChangeAttempts. fourDigitYear (addDuration (t_now (turns k)) MetaRuleLapse)"
  shows "\<exists>k<decisionChangeAttempts. \<exists>h. decodeDecision p after = Inr h \<and> (\<forall>action\<in>set acts. \<exists>tgt.
    NormalizeDecisionSubject (files p) target0 = Inr tgt \<and>
    d_outcome (Decide p (uncachedRead p Stored (Inr after)) (t_now (turns k)) target0 action resource) =
      (if typedBlockForLegacy p h (revision p h) tgt (legacyRequest action resource) (t_now (turns k))
       then DecisionOutcomeDenied else DecisionOutcomePermitted))"
proof -
  from holder_wrote [OF assms(1,3,4)] obtain k c f g holder tgt meta where k: "k < decisionChangeAttempts" and "found turns content c"
    and "t_authorize (turns k) = None" and "admission" and "err = None" and "NormalizeDecisionSubject (files p) holder0 = Inr holder"
    and "decodeDecision p c = Inr f" and "liveMeta (files p) (rules f) holder (t_now (turns k)) (keyOnce (files p)) = Some meta"
    and "pe_outcome out = PolicyEditOutcomeApplied" and "pe_revision out = revision p (currentProfile g)"
    and after: "decodeDecision p after = Inr (currentProfile g)" and acts: "f_actions g = f_actions f"
      "\<forall>action\<in>set acts. action \<in> set (catalogue p f)"
    and t: "acts \<noteq> [] \<longrightarrow> writableSubject (files p) target0 = Inr tgt \<and>
      \<not> (account tgt = account holder \<and> sameSubjectProgram (files p) (program tgt) (program holder)) \<and>
      (\<forall>action\<in>set acts. ValidDecisionQuery action resource \<and> action \<noteq> MetaAnswerAction \<and>
        \<not> liveDeny (files p) (rules f) tgt action resource (t_now (turns k)) (keyOnce (files p)))"
    and settled: "fourDigitYear (addDuration (t_now (turns k)) MetaRuleLapse) \<longrightarrow>
      (\<forall>action\<in>set acts. settledOn (files p) g (t_now (turns k)) \<lparr>pr_subject = tgt, pr_action = action, pr_resource = resource, pr_permit = True\<rparr>)" .
  let ?h = "currentProfile g"
  have "\<exists>tgt. NormalizeDecisionSubject (files p) target0 = Inr tgt \<and>
    d_outcome (Decide p (uncachedRead p Stored (Inr after)) (t_now (turns k)) target0 action resource) =
      (if typedBlockForLegacy p ?h (revision p ?h) tgt (legacyRequest action resource) (t_now (turns k))
       then DecisionOutcomeDenied else DecisionOutcomePermitted)" if a: "action \<in> set acts" for action
  proof -
    have n: "NormalizeDecisionSubject (files p) target0 = Inr tgt" "ValidDecisionQuery action resource"
      using t a by (auto intro: writable_normalized)
    have s: "settledOn (files p) ?h (t_now (turns k)) \<lparr>pr_subject = tgt, pr_action = action, pr_resource = resource, pr_permit = True\<rparr>"
      using settled assms(5) k a by (simp add: settledOn_def)
    have "action \<in> set (catalogue p ?h)" using acts a by (simp add: catalogue_def)
    with settled_decides [OF s after assms(2)] n show ?thesis by simp
  qed
  with k after show ?thesis by blast
qed

theorem holder_writes_only_under_meta_witness:
  "\<exists>f meta. decodeDecision samplePolicy (Some (marshalFile enrolledState)) = Inr f \<and>
    liveMeta (files samplePolicy) (rules f) sampleOther 0 (keyOnce (files samplePolicy)) = Some meta \<and>
    MetaAnswerAction \<notin> set [''demo/read'']"
proof -
  from holder_writes_only_under_meta [OF sample_ready sample_holder_run sample_holder_changed] obtain c f holder meta where
    c: "found calm (Some (marshalFile enrolledState)) c" "decodeDecision samplePolicy c = Inr f"
    and h: "NormalizeDecisionSubject (files samplePolicy) sampleOther = Inr holder"
      "liveMeta (files samplePolicy) (rules f) holder 0 (keyOnce (files samplePolicy)) = Some meta" "MetaAnswerAction \<notin> set [''demo/read'']"
    by auto
  from c(1) have "c = Some (marshalFile enrolledState)" by (simp add: found_def)
  moreover have "holder = sampleOther" using h(1) by simp
  ultimately show ?thesis using c(2) h(2,3) by blast
qed

theorem holder_permits_take_effect_witness:
  "d_outcome (Decide samplePolicy (uncachedRead samplePolicy Stored (Inr (Some (marshalFile grantedState)))) 0 sampleApp ''demo/read'' ''x'') \<in>
    {DecisionOutcomePermitted, DecisionOutcomeDenied}"
proof -
  have "\<forall>k<decisionChangeAttempts. fourDigitYear (addDuration (t_now (calm k)) MetaRuleLapse)" using lapse_year by simp
  from holder_permits_take_effect [OF sample_ready sample_fresh sample_holder_run sample_holder_changed this] show ?thesis
    by (auto split: if_splits)
qed

subsection \<open>A stopped answerer writes nothing\<close>

lemma unenrolled_edit:
  assumes "decodeDecision p c = Inr f" and "\<And>now. liveMeta (files p) (rules f) holder now (keyOnce (files p)) = None"
  shows "pe_outcome (fst (ChangeRulesUnderAnswer_edit p holder tgt acts resource why questionID t c)) \<noteq> PolicyEditOutcomeApplied \<and>
    (\<nexists>next. snd (ChangeRulesUnderAnswer_edit p holder tgt acts resource why questionID t c) = Inr (Some next))"
  using assms
  by (auto simp: ChangeRulesUnderAnswer_edit_def Let_def unavailableEdit_def invalidEdit_def policyEdit_def split: option.split)

text \<open>C18: A stopped answerer writes nothing: once \<open>StopAnswerer\<close> reports Applied, any later
  \<open>ChangeRulesUnderAnswer\<close> by that answerer leaves the file as it is, as long as no writer
  outside the lock replaces it.\<close>

theorem stopped_answerer_writes_nothing:
  assumes "ready p" and "foreignErrors turns"
    and "StopAnswerer p disk turns content expected answerer grants admission = (out, None, after)"
    and "pe_outcome out = PolicyEditOutcomeApplied"
    and "ChangeRulesUnderAnswer p disk' turns' after answerer target0 acts resource why questionID admission' = (out', err', after')"
    and "\<forall>j c. t_fate (turns' j) \<noteq> Moves c"
  shows "after' = after"
proof (rule ccontr)
  assume "after' \<noteq> after"
  with assms(6) have nf: "\<not> found turns' after after'" by (auto simp: found_def)
  from stopped_left [OF assms(1-4)] obtain a c f h where a: "NormalizeDecisionSubject (files p) answerer = Inr a"
    and h: "decodeDecision p after = Inr h" "\<And>now. liveMeta (files p) (rules h) a now (keyOnce (files p)) = None" by metis
  from ChangeRulesUnderAnswer_ran [OF assms(5) nf] obtain holder tgt where
    n: "NormalizeDecisionSubject (files p) answerer = Inr holder"
    and run: "settle unavailableEdit (change p (ChangeRulesUnderAnswer_edit p holder tgt acts resource why questionID) turns'
      unavailableEdit after) = (out', err', after')" by metis
  from n a h(2) have none: "\<And>now. liveMeta (files p) (rules h) holder now (keyOnce (files p)) = None" by simp
  have "\<nexists>next. snd (ChangeRulesUnderAnswer_edit p holder tgt acts resource why questionID (turns' k) after) = Inr (Some next)" for k
    using unenrolled_edit [OF h(1) none] by blast
  with change_keeps_without_writers [OF settle_change_found [OF run nf]] assms(6) \<open>after' \<noteq> after\<close> show False by blast
qed

theorem stopped_answerer_writes_nothing_witness:
  "snd (snd (ChangeRulesUnderAnswer samplePolicy Stored calm (Some (marshalFile emptyState)) sampleOther sampleApp
     [''demo/read''] ''x'' [] [] True)) = Some (marshalFile emptyState)"
proof -
  have applied: "pe_outcome (policyEdit PolicyEditOutcomeApplied (revision samplePolicy emptyState) None) = PolicyEditOutcomeApplied"
    by (simp add: policyEdit_def)
  obtain r e a where run: "ChangeRulesUnderAnswer samplePolicy Stored calm (Some (marshalFile emptyState)) sampleOther sampleApp
      [''demo/read''] ''x'' [] [] True = (r, e, a)" by (metis prod_cases3)
  from stopped_answerer_writes_nothing [OF sample_ready calm_foreign sample_stop_run applied run] have "a = Some (marshalFile emptyState)"
    by simp
  with run show ?thesis by simp
qed

end
