(* ===== verification/Revoke_Facts.thy ===== *)
theory Revoke_Facts
  imports Answer_Facts
begin

text \<open>
  What \<open>RevokeAnswerPermits\<close> removes: deleting the collected positions, last first, is filtering
  out exactly the answer's live permits on the listed targets.
\<close>

subsection \<open>Deleting positions\<close>

lemma nths_full: "(\<And>i. i < length xs \<Longrightarrow> i \<in> A) \<Longrightarrow> nths xs A = xs"
  by (rule nths_all) auto

lemma delete_least:
  assumes "e < length xs" and "\<And>d. d \<in> D \<Longrightarrow> e < d"
  shows "deleteAt e (nths xs (- D)) = nths xs (- insert e D)"
proof -
  have x: "xs = take e xs @ xs ! e # drop (Suc e) xs" using assms(1) by (simp add: id_take_nth_drop)
  let ?I = "{j. Suc (j + e) \<notin> D}"
  have t: "nths (take e xs) A = take e xs" if "\<And>i. i < e \<Longrightarrow> i \<in> A" for A
    by (rule nths_full) (use that in auto)
  have l: "length (take e xs) = e" using assms(1) by simp
  have split: "nths xs A = nths (take e xs) A @ (if e \<in> A then [xs ! e] else []) @ nths (drop (Suc e) xs) {j. Suc (j + e) \<in> A}" for A
    by (subst x, subst nths_append, subst nths_Cons) (simp only: l mem_Collect_eq add_0 add_Suc)
  have d: "e \<notin> D" "\<And>i. i < e \<Longrightarrow> i \<notin> D" using assms(2) by (metis less_irrefl, metis less_asym)
  have "nths xs (- D) = take e xs @ xs ! e # nths (drop (Suc e) xs) ?I"
    unfolding split [of "- D"] using d t [of "- D"] by simp
  moreover have "nths xs (- insert e D) = take e xs @ nths (drop (Suc e) xs) ?I"
    unfolding split [of "- insert e D"] using d t [of "- insert e D"] by (auto simp: less_imp_neq intro!: arg_cong [where f = "nths (drop (Suc e) xs)"])
  ultimately show ?thesis using assms(1) by (simp add: deleteAt_def)
qed

lemma delete_descending:
  assumes "sorted_wrt (\<lambda>a b. b < a) ds" and "\<And>d. d \<in> set ds \<Longrightarrow> d < length xs"
  shows "foldl (\<lambda>ys i. deleteAt i ys) xs ds = nths xs (- set ds)"
  using assms
proof (induction ds rule: rev_induct)
  case Nil
  then show ?case by (simp add: nths_full)
next
  case (snoc e ds)
  then show ?case using delete_least [of e xs "set ds"] by (auto simp: sorted_wrt_append)
qed

lemma deleteIndices_nths:
  assumes "distinct is" and "\<And>i. i \<in> set is \<Longrightarrow> i < length xs"
  shows "deleteIndices is xs = nths xs (- set is)"
proof -
  have "sorted_wrt (<) (sort is)" using assms(1) by (simp add: strict_sorted_iff)
  then have "sorted_wrt (\<lambda>a b. b < a) (rev (sort is))" by (simp add: sorted_wrt_rev)
  from delete_descending [OF this, of xs] assms(2) show ?thesis by (simp add: deleteIndices_def)
qed

lemma nths_positions: "nths xs {i. i < length xs \<longrightarrow> P (xs ! i)} = filter P xs"
proof (induction xs)
  case (Cons x xs)
  have "{j. Suc j < length (x # xs) \<longrightarrow> P ((x # xs) ! Suc j)} = {i. i < length xs \<longrightarrow> P (xs ! i)}" by simp
  with Cons show ?case by (simp add: nths_Cons)
qed simp

subsection \<open>The positions an answer's permits are at\<close>

lemma answerIndices_spec:
  assumes "answerIndices fs rs answerer tgt resource questionID now key acts = Some is" and "distinct acts"
  shows "distinct is \<and> (\<forall>i. i \<in> set is \<longleftrightarrow> i < length rs \<and> answerPermit fs answerer questionID now key (rs ! i) \<and>
    (\<exists>action\<in>set acts. sameTarget fs (rs ! i) tgt action resource key))"
  using assms
proof (induction acts arbitrary: "is")
  case (Cons action acts)
  let ?here = "filter (\<lambda>i. answerPermit fs answerer questionID now key (rs ! i))
    (filter (\<lambda>i. sameTarget fs (rs ! i) tgt action resource key) [0..<length rs])"
  from Cons.prems obtain js where js: "answerIndices fs rs answerer tgt resource questionID now key acts = Some js" "is = ?here @ js"
    by (auto simp: Let_def split: if_split_asm)
  note IH = Cons.IH [OF js(1)]
  have "set ?here \<inter> set js = {}"
  proof -
    have "i \<notin> set js" if "sameTarget fs (rs ! i) tgt action resource key" for i
      using IH that Cons.prems(2) by (auto simp: sameTarget_alt)
    then show ?thesis by auto
  qed
  then have "distinct is" using IH Cons.prems(2) js(2) by simp
  moreover have "\<forall>i. i \<in> set is \<longleftrightarrow> i < length rs \<and> answerPermit fs answerer questionID now key (rs ! i) \<and>
    (\<exists>b\<in>set (action # acts). sameTarget fs (rs ! i) tgt b resource key)"
    using IH Cons.prems(2) js(2) by auto
  ultimately show ?case by blast
qed simp

definition revokedBy :: "policy \<Rightarrow> subject \<Rightarrow> subject \<Rightarrow> bytes list \<Rightarrow> bytes \<Rightarrow> bytes \<Rightarrow> instant \<Rightarrow> decisionRule \<Rightarrow> bool" where
  "revokedBy p answerer tgt acts resource questionID now r \<longleftrightarrow>
     answerPermit (files p) answerer questionID now (keyOnce (files p)) r \<and>
     (\<exists>action\<in>set acts. sameTarget (files p) r tgt action resource (keyOnce (files p)))"

lemma delete_answered:
  assumes "answerIndices (files p) rs answerer tgt resource questionID now (keyOnce (files p)) acts = Some is" and "distinct acts"
  shows "deleteIndices is rs = filter (\<lambda>r. \<not> revokedBy p answerer tgt acts resource questionID now r) rs"
proof -
  note spec = answerIndices_spec [OF assms]
  have "- set is = {i. i < length rs \<longrightarrow> \<not> revokedBy p answerer tgt acts resource questionID now (rs ! i)}"
    using spec by (auto simp: revokedBy_def)
  with deleteIndices_nths [of "is" rs] spec nths_positions [of rs] show ?thesis by simp
qed

lemma RevokeAnswerPermits_wrote:
  assumes "RevokeAnswerPermits_edit p expected a s acts resource questionID t c = (out, Inr (Some next))"
    and "decodeDecision p c = Inr f" and "distinct acts"
  obtains g where "rules g = filter (\<lambda>r. \<not> revokedBy p a s acts resource questionID (t_now t) r) (rules f)"
    and "\<exists>r\<in>set (rules f). revokedBy p a s acts resource questionID (t_now t) r"
    and "g = f\<lparr>f_rules := nilIfEmpty (rules g)\<rparr>" and "written g = Some next"
    and "out = policyEdit PolicyEditOutcomeApplied (revision p (currentProfile g)) None"
proof -
  from assms(1,2) obtain "is" where i: "answerIndices (files p) (rules f) a s resource questionID (t_now t) (keyOnce (files p)) acts = Some is"
    "is \<noteq> []" and w: "written (f\<lparr>f_rules := nilIfEmpty (deleteIndices is (rules f))\<rparr>) = Some next"
      "out = policyEdit PolicyEditOutcomeApplied (revision p (currentProfile (f\<lparr>f_rules := nilIfEmpty (deleteIndices is (rules f))\<rparr>))) None"
    by (auto simp: RevokeAnswerPermits_edit_def Let_def split: option.split_asm if_split_asm)
  from i(2) obtain j where "j \<in> set is" by (cases "is") auto
  with answerIndices_spec [OF i(1) assms(3)] have "j < length (rules f)" "revokedBy p a s acts resource questionID (t_now t) (rules f ! j)"
    by (auto simp: revokedBy_def)
  then have "\<exists>r\<in>set (rules f). revokedBy p a s acts resource questionID (t_now t) r" using nth_mem by blast
  with that [of "f\<lparr>f_rules := nilIfEmpty (deleteIndices is (rules f))\<rparr>"] w delete_answered [OF i(1) assms(3)] show ?thesis by simp
qed

text \<open>C21: Revoking an answer removes that answer's live permits and nothing else: a file that
  \<open>RevokeAnswerPermits\<close> changed holds the rules found at the expected revision less exactly the
  unexpired permits with the question's ID that the answerer set on the listed targets -- at
  least one; every deny, every other setter's rule and every other target is as it was.\<close>

theorem revoked_answer_loses_its_permits:
  assumes "ready p"
    and "RevokeAnswerPermits p disk turns content expected answerer tgt acts resource questionID admission = (out, err, after)"
    and "\<not> found turns content after"
  shows "\<exists>k<decisionChangeAttempts. \<exists>a s c f h. admission \<and> err = None \<and> pe_outcome out = PolicyEditOutcomeApplied \<and>
    NormalizeDecisionSubject (files p) answerer = Inr a \<and> NormalizeDecisionSubject (files p) tgt = Inr s \<and>
    found turns content c \<and> t_authorize (turns k) = None \<and> decodeDecision p c = Inr f \<and> revision p f = expected \<and>
    decodeDecision p after = Inr h \<and> pe_revision out = revision p h \<and>
    rules h = filter (\<lambda>r. \<not> revokedBy p a s acts resource questionID (t_now (turns k)) r) (rules f) \<and> rules h \<noteq> rules f \<and>
    f_actions h = f_actions f \<and> f_appliedOperatorAnswers h = f_appliedOperatorAnswers f \<and> f_selectorRules h = f_selectorRules f"
proof -
  have "after \<noteq> content" using assms(3) by (auto simp: found_def)
  with assms(2) obtain a s where n: "NormalizeDecisionSubject (files p) answerer = Inr a" "NormalizeDecisionSubject (files p) tgt = Inr s"
      "admission" "distinct acts"
    and run: "settle unavailableEdit (change p (RevokeAnswerPermits_edit p expected a s acts resource questionID) turns unavailableEdit content) =
      (out, err, after)"
    unfolding RevokeAnswerPermits_def by (auto split: sum.split_asm if_split_asm option.split_asm)
  from revoke_answer.settled_guarded [OF run assms(3)] obtain k c f nxt d where
    k: "k < decisionChangeAttempts" "err = None" "found turns content c" "t_authorize (turns k) = None" "decodeDecision p c = Inr f"
      "revision p f = expected"
    and e: "RevokeAnswerPermits_edit p expected a s acts resource questionID (turns k) c = (out, Inr (Some nxt))"
    and aft: "after = Some nxt" and d: "decodeDecision p (Some nxt) = Inr d" by (elim exE conjE) (rule that)
  from RevokeAnswerPermits_wrote [OF e k(5) n(4)] obtain g where
    g: "rules g = filter (\<lambda>r. \<not> revokedBy p a s acts resource questionID (t_now (turns k)) r) (rules f)"
      "\<exists>r\<in>set (rules f). revokedBy p a s acts resource questionID (t_now (turns k)) r" "g = f\<lparr>f_rules := nilIfEmpty (rules g)\<rparr>"
    and w: "written g = Some nxt" and o1: "out = policyEdit PolicyEditOutcomeApplied (revision p (currentProfile g)) None" .
  have same: "actions g = actions f" "f_actions g = f_actions f" "f_descriptions g = f_descriptions f" "f_selectorRules g = f_selectorRules f"
    "f_bundleOrigins g = f_bundleOrigins f" "f_profile g = f_profile f" "f_appliedOperatorAnswers g = f_appliedOperatorAnswers f"
    "f_appliedTypedAnswers g = f_appliedTypedAnswers f" "f_defaultSwitches g = f_defaultSwitches f"
    by (subst g(3), simp)+
  have "jvalid (fileJson f)" using decoded_text [OF assms(1) k(5)] by simp
  then have "jvalid (fileJson g)" by (rule jvalid_fewer) (use same g(1) in auto)
  from written_decodes [OF assms(1) jvalid_currentProfile [OF this], of d] d w aft
  have after: "decodeDecision p after = Inr (currentProfile g)" by (simp add: written_def)
  have "rules g \<noteq> rules f" using g(1,2) by (metis (mono_tags, lifting) filter_id_conv)
  note fewer = this
  show ?thesis
    by (rule exI [of _ k], intro conjI k(1), rule exI [of _ a], rule exI [of _ s], rule exI [of _ c], rule exI [of _ f],
        rule exI [of _ "currentProfile g"]) (use k n after o1 g(1) same fewer in \<open>simp add: policyEdit_def\<close>)
qed

subsection \<open>A concrete revocation\<close>

definition revokedState :: decisionFile where "revokedState = emptyState\<lparr>f_appliedOperatorAnswers := [sampleAnswer]\<rparr>"

lemma revokedState_decodes: "decodeDecision samplePolicy (Some (marshalFile revokedState)) = Inr revokedState"
proof -
  have "length (catalogue samplePolicy revokedState) = 2" by (simp add: catalogue_def revokedState_def emptyState_def)
  then have "wellFormed samplePolicy revokedState"
    using sampleAnswer_valid
    by (simp add: wellFormed_def refuseState_def validateSelectorState_def revokedState_def emptyState_def
        profileVersion_def validDefaultSwitches_def MaxDecisionRules_def MaxDecisionActions_def MaxAppliedOperatorAnswers_def)
  from decodeDecision_written [OF _ this longNames_spelled] sample_ready show ?thesis by (simp add: ready_def)
qed

lemma revokedState_length: "length (marshalFile revokedState) \<le> MaxDecisionBytes"
proof -
  have "jweight (fileJson revokedState) \<le> 10000"
    by (simp add: fileJson_def sliceJson_def omitList_def revokedState_def emptyState_def DecisionProfile_def sampleAnswer_def)
  then show ?thesis using length_jprint [of "fileJson revokedState"] by (simp add: marshalFile_def MaxDecisionBytes_def)
qed

lemma sample_revoke_run:
  "RevokeAnswerPermits samplePolicy Stored calm (Some (marshalFile answeredState)) (revision samplePolicy answeredState)
     (native samplePolicy) sampleApp [''demo/read''] ''x'' sampleAnswer True =
   (policyEdit PolicyEditOutcomeApplied (revision samplePolicy revokedState) None, None, Some (marshalFile revokedState))"
proof -
  let ?r = "(writtenSample 0 ''x'' True)\<lparr>r_questionID := sampleAnswer\<rparr>"
  have r: "rules answeredState = [?r]" by (simp add: answeredState_def)
  have t: "sameTarget plainIdentity ?r sampleApp ''demo/read'' ''x'' (keyOnce plainIdentity)"
    by (simp add: sameTarget_alt writtenSample_def writtenRule_def plainIdentity_byteEqual)
  have pm: "answerPermit plainIdentity (native samplePolicy) sampleAnswer 0 (keyOnce plainIdentity) ?r"
    by (simp add: answerPermit_def expired_def stampExpired_def writtenSample_def writtenRule_def setByHolder_alt plainIdentity_byteEqual)
  have g: "currentProfile (answeredState\<lparr>f_rules := nilIfEmpty (deleteIndices [0] [?r])\<rparr>) = revokedState"
    by (simp add: deleteIndices_def deleteAt_def nilIfEmpty_def currentProfile_def answeredState_def revokedState_def emptyState_def)
  have i: "answerIndices plainIdentity (rules answeredState) (native samplePolicy) sampleApp ''x'' sampleAnswer 0 (keyOnce plainIdentity)
      [''demo/read''] = Some [0]"
    using t pm by (simp add: r Let_def)
  have e: "RevokeAnswerPermits_edit samplePolicy (revision samplePolicy answeredState) (native samplePolicy) sampleApp [''demo/read''] ''x''
      sampleAnswer (calm 0) (Some (marshalFile answeredState)) =
    (policyEdit PolicyEditOutcomeApplied (revision samplePolicy revokedState) None, Inr (Some (marshalFile revokedState)))"
    using i g by (simp add: RevokeAnswerPermits_edit_def Let_def answeredState_decodes written_def r)
  have "change samplePolicy (RevokeAnswerPermits_edit samplePolicy (revision samplePolicy answeredState) (native samplePolicy) sampleApp
      [''demo/read''] ''x'' sampleAnswer) calm unavailableEdit (Some (marshalFile answeredState)) =
    (policyEdit PolicyEditOutcomeApplied (revision samplePolicy revokedState) None, None, Some (marshalFile revokedState))"
    by (rule change_settles) (rule e, simp_all add: revokedState_length revokedState_decodes)
  then show ?thesis
    using sample_member_valid validAnswerID_bounded [OF sampleAnswer_valid]
    by (simp add: RevokeAnswerPermits_def regular_def settle_def printable_bounded printable_def code_def)
qed

theorem revoked_answer_loses_its_permits_witness:
  "\<exists>h. decodeDecision samplePolicy (Some (marshalFile revokedState)) = Inr h \<and> rules h \<noteq> rules answeredState \<and>
    f_appliedOperatorAnswers h = f_appliedOperatorAnswers answeredState"
proof -
  have nf: "\<not> found calm (Some (marshalFile answeredState)) (Some (marshalFile revokedState))"
  proof
    assume "found calm (Some (marshalFile answeredState)) (Some (marshalFile revokedState))"
    then have "marshalFile revokedState = marshalFile answeredState" by (simp add: found_def)
    then have "revokedState = answeredState" using revokedState_decodes answeredState_decodes by (metis sum.inject(2))
    then show False by (simp add: revokedState_def answeredState_def emptyState_def)
  qed
  from revoked_answer_loses_its_permits [OF sample_ready sample_revoke_run nf] obtain c f h where
    c: "found calm (Some (marshalFile answeredState)) c" "decodeDecision samplePolicy c = Inr f" and
    h: "decodeDecision samplePolicy (Some (marshalFile revokedState)) = Inr h" "rules h \<noteq> rules f"
      "f_appliedOperatorAnswers h = f_appliedOperatorAnswers f" by blast
  from c(1) have "c = Some (marshalFile answeredState)" by (simp add: found_def)
  with c(2) have "f = answeredState" by (simp add: answeredState_decodes)
  with h show ?thesis by blast
qed

end
