(* ===== verification/Sample_Catalogue.thy ===== *)
theory Sample_Catalogue
  imports Revoke_Facts
begin

text \<open>
  Concrete runs of the catalogue edits for the witnesses: an action registered and retired, a
  default switched off, an action described.
\<close>

lemma sample_state:
  assumes "refuseState samplePolicy f = None" and "validateSelectorState samplePolicy f = None"
    and "jweight (fileJson f) \<le> 10000"
  shows "decodeDecision samplePolicy (Some (marshalFile f)) = Inr f \<and> length (marshalFile f) \<le> MaxDecisionBytes"
proof -
  have "wellFormed samplePolicy f" using assms(1,2) by (simp add: wellFormed_def)
  from decodeDecision_written [OF _ this longNames_spelled] sample_ready
  have "decodeDecision samplePolicy (Some (marshalFile f)) = Inr f" by (simp add: ready_def)
  moreover have "length (marshalFile f) \<le> MaxDecisionBytes"
    using length_jprint [of "fileJson f"] assms(3) by (simp add: marshalFile_def MaxDecisionBytes_def)
  ultimately show ?thesis by blast
qed

lemma sample_differs:
  assumes "decodeDecision p (Some (marshalFile f)) = Inr f" and "decodeDecision p (Some (marshalFile g)) = Inr g" and "f \<noteq> g"
  shows "\<not> found calm (Some (marshalFile f)) (Some (marshalFile g))"
proof
  assume "found calm (Some (marshalFile f)) (Some (marshalFile g))"
  then have "marshalFile g = marshalFile f" by (simp add: found_def)
  with assms show False by (metis sum.inject(2))
qed

lemma sample_operator [simp]: "validStoredSubject plainIdentity sampleOperator"
  "NormalizeDecisionSubject plainIdentity sampleOperator = Inr sampleOperator"
  by simp_all

definition extraEntry :: registeredAction where
  "extraEntry = \<lparr>a_action = ''demo/extra'', a_by = sampleOperator, a_at = stamp 0\<rparr>"

definition registeredState :: decisionFile where "registeredState = emptyState\<lparr>f_actions := Some [extraEntry]\<rparr>"

definition switchedState :: decisionFile where
  "switchedState = emptyState\<lparr>f_defaultSwitches := [\<lparr>w_name = ''reads'', w_on = False, w_setBy = sampleOperator, w_setAt = stamp 0\<rparr>]\<rparr>"

definition sampleDescription :: ActionDescription where
  "sampleDescription = \<lparr>ad_action = ''demo/read'', ad_featureApp = sampleApp, ad_appLabel = ''Demo'', ad_description = ''Reads'',
     ad_declaredRisk = ''low''\<rparr>"

definition describedState :: decisionFile where
  "describedState = emptyState\<lparr>f_descriptions := [\<lparr>p_description = sampleDescription, p_by = sampleOperator, p_at = stamp 0\<rparr>]\<rparr>"

lemma extra_valid: "ValidActionName ''demo/extra''" "ValidActionName ''demo/read''" "validDefaultName ''reads''"
  by (simp_all add: ValidActionName_def actionPart_def lowerDigit_def actionChar_def code_def validDefaultName_def)

lemma sample_trims: "trimSpace ''Demo'' = ''Demo''" "trimSpace ''Reads'' = ''Reads''" "trimSpace ''low'' = ''low''"
  by (simp_all add: trimSpace_def trimLeft.simps trimRight.simps trailingSpace_def nextRune_def code_def isSpace_def isCont_def)

lemma description_valid: "validStoredDescription plainIdentity sampleDescription"
  by (simp add: validStoredDescription_def descriptionText_def sampleDescription_def extra_valid printable_bounded printable_def code_def
      sample_trims)

lemma registered_decodes:
  "decodeDecision samplePolicy (Some (marshalFile registeredState)) = Inr registeredState \<and>
   length (marshalFile registeredState) \<le> MaxDecisionBytes"
proof (rule sample_state)
  have "length (catalogue samplePolicy registeredState) = 3"
    by (simp add: catalogue_def registeredState_def emptyState_def extraEntry_def MetaAnswerAction_def)
  then show "refuseState samplePolicy registeredState = None"
    by (simp add: refuseState_def registeredState_def emptyState_def profileVersion_def validDefaultSwitches_def MaxDecisionRules_def
        MaxDecisionActions_def validRegisteredAction_def extraEntry_def extra_valid validStamp_stamp stamp_0)
qed (use length_stamp [OF stamp_0] in \<open>simp_all add: validateSelectorState_def registeredState_def emptyState_def MaxDecisionRules_def
      profileVersion_def MaxAppliedOperatorAnswers_def fileJson_def actionJson_def subjectJson_def sliceJson_def omitList_def extraEntry_def
      sampleOperator_def DecisionProfile_def\<close>)

lemma switched_decodes:
  "decodeDecision samplePolicy (Some (marshalFile switchedState)) = Inr switchedState \<and>
   length (marshalFile switchedState) \<le> MaxDecisionBytes"
proof (rule sample_state)
  have "length (catalogue samplePolicy switchedState) = 2" by (simp add: catalogue_def switchedState_def emptyState_def)
  then show "refuseState samplePolicy switchedState = None"
    by (simp add: refuseState_def switchedState_def emptyState_def profileVersion_def validDefaultSwitches_def MaxDecisionRules_def
        MaxDecisionActions_def MaxAccountDefaults_def extra_valid validStamp_stamp stamp_0 strictly_sorted_by_def)
qed (use length_stamp [OF stamp_0] in \<open>simp_all add: validateSelectorState_def switchedState_def emptyState_def MaxDecisionRules_def
      profileVersion_def MaxAppliedOperatorAnswers_def fileJson_def switchJson_def subjectJson_def sliceJson_def omitList_def
      sampleOperator_def DecisionProfile_def\<close>)

lemma described_decodes:
  "decodeDecision samplePolicy (Some (marshalFile describedState)) = Inr describedState \<and>
   length (marshalFile describedState) \<le> MaxDecisionBytes"
proof (rule sample_state)
  have c: "length (catalogue samplePolicy describedState) = 2" by (simp add: catalogue_def describedState_def emptyState_def)
  have "validPublished samplePolicy describedState \<lparr>p_description = sampleDescription, p_by = sampleOperator, p_at = stamp 0\<rparr>"
    by (simp add: validPublished_def description_valid validStamp_stamp stamp_0 describedState_def emptyState_def)
       (simp add: sampleDescription_def)
  with c show "refuseState samplePolicy describedState = None"
    by (simp add: refuseState_def describedState_def emptyState_def profileVersion_def validDefaultSwitches_def MaxDecisionRules_def
        MaxDecisionActions_def strictly_sorted_by_def)
qed (use length_stamp [OF stamp_0] in \<open>simp_all add: validateSelectorState_def describedState_def emptyState_def MaxDecisionRules_def
      profileVersion_def MaxAppliedOperatorAnswers_def fileJson_def publishedJson_def descriptionJson_def subjectJson_def sliceJson_def
      omitList_def sampleDescription_def sampleApp_def sampleOperator_def DecisionProfile_def\<close>)

lemma sample_profiles: "currentProfile registeredState = registeredState" "currentProfile emptyState = emptyState"
  "currentProfile switchedState = switchedState" "currentProfile describedState = describedState"
  by (simp_all add: currentProfile_def registeredState_def switchedState_def describedState_def emptyState_def)

lemma emptyState_actions [simp]: "actions emptyState = []"
  by (simp add: emptyState_def)

lemma sample_change:
  assumes "edit (calm 0) content = (out, Inr (written g))" and "currentProfile g = g"
    and "decodeDecision samplePolicy (Some (marshalFile g)) = Inr g \<and> length (marshalFile g) \<le> MaxDecisionBytes"
  shows "settle u (change samplePolicy edit calm u content) = (out, None, Some (marshalFile g))"
proof -
  have "change samplePolicy edit calm u content = (out, None, Some (marshalFile g))"
    by (rule change_settles) (use assms in \<open>simp_all add: written_def\<close>)
  then show ?thesis by (simp add: settle_def)
qed

lemma sample_register:
  "\<exists>out. EditAction samplePolicy Missing calm None 0 (revision samplePolicy emptyState) ''demo/extra'' True sampleOperator True =
     (out, None, Some (marshalFile registeredState))"
proof -
  have a: "addAction emptyState \<lparr>a_action = ''demo/extra'', a_by = sampleOperator, a_at = stamp 0\<rparr> = registeredState"
    by (simp add: addAction_def setActions_def reslice_def registeredState_def extraEntry_def emptyState_def)
  have l: "length (catalogue samplePolicy emptyState) = 2" by (simp add: catalogue_def)
  obtain out where e: "EditAction_edit samplePolicy (revision samplePolicy emptyState) ''demo/extra'' True sampleOperator (stamp 0) (calm 0) None =
      (out, Inr (written registeredState))"
    using a l by (auto simp: EditAction_edit_def Let_def decodeDecision_def MaxDecisionActions_def MetaAnswerAction_def)
  from sample_change [where edit = "EditAction_edit samplePolicy (revision samplePolicy emptyState) ''demo/extra'' True sampleOperator (stamp 0)", OF e sample_profiles(1) registered_decodes] extra_valid show ?thesis
    by (auto simp: EditAction_def regular_def)
qed

lemma sample_retire:
  "\<exists>out. EditAction samplePolicy Stored calm (Some (marshalFile registeredState)) 0 (revision samplePolicy registeredState) ''demo/extra'' False
     sampleOperator True = (out, None, Some (marshalFile emptyState))"
proof -
  have a: "retireAction ''demo/extra'' registeredState = emptyState"
    by (simp add: retireAction_def pruneOrigins_def nilIfEmpty_def registeredState_def extraEntry_def emptyState_def)
  have m: "''demo/extra'' \<in> a_action ` set (actions registeredState)" by (simp add: registeredState_def extraEntry_def)
  obtain out where e: "EditAction_edit samplePolicy (revision samplePolicy registeredState) ''demo/extra'' False sampleOperator (stamp 0) (calm 0)
      (Some (marshalFile registeredState)) = (out, Inr (written emptyState))"
    using a m registered_decodes by (auto simp: EditAction_edit_def Let_def MetaAnswerAction_def)
  have "boundedDecisionString ''demo/extra'' 128" by (simp add: printable_bounded printable_def code_def)
  with sample_change [where edit = "EditAction_edit samplePolicy (revision samplePolicy registeredState) ''demo/extra'' False sampleOperator (stamp 0)", OF e sample_profiles(2)] emptyState_decodes emptyState_length show ?thesis
    by (auto simp: EditAction_def regular_def)
qed

lemma sample_switch:
  "\<exists>out. SetDefault samplePolicy Missing calm None 0 (revision samplePolicy emptyState) ''reads'' False sampleOperator True =
     (out, None, Some (marshalFile switchedState))"
proof -
  let ?d = "\<lparr>df_name = ''reads'', df_action = ''demo/read'', df_resource = ''free'', df_everyResource = False\<rparr>"
  have a: "turnSwitch ''reads'' False sampleOperator (stamp 0) emptyState = switchedState"
    by (simp add: turnSwitch_def switchedState_def emptyState_def)
  have s: "switchOn emptyState ''reads''" by (simp add: switchOn_def emptyState_def)
  obtain out where e: "SetDefault_edit samplePolicy ?d (revision samplePolicy emptyState) ''reads'' False sampleOperator (stamp 0) (calm 0) None =
      (out, Inr (written switchedState))"
    using a s by (auto simp: SetDefault_edit_def Let_def decodeDecision_def)
  have "find (\<lambda>d. df_name d = ''reads'') (configuredDefaults samplePolicy) = Some ?d" by (simp add: samplePolicy_def)
  with sample_change [where edit = "SetDefault_edit samplePolicy ?d (revision samplePolicy emptyState) ''reads'' False sampleOperator (stamp 0)", OF e sample_profiles(3) switched_decodes] show ?thesis
    by (auto simp: SetDefault_def regular_def)
qed

lemma sample_publish:
  "\<exists>out. PublishAction samplePolicy Missing calm None (revision samplePolicy emptyState) sampleDescription sampleOperator True =
     (out, None, Some (marshalFile describedState))"
proof -
  have n: "NormalizeActionDescription plainIdentity sampleDescription = Inr sampleDescription"
    using description_valid by (simp add: NormalizeActionDescription_def Let_def sampleDescription_def sample_trims)
  have p: "putDescription \<lparr>p_description = sampleDescription, p_by = sampleOperator, p_at = stamp 0\<rparr> emptyState = describedState"
    by (simp add: putDescription_def Let_def describedState_def emptyState_def)
  have c: "ad_action sampleDescription = ''demo/read''" by (simp add: sampleDescription_def)
  have f: "f_descriptions emptyState = []" by (simp add: emptyState_def)
  obtain out where e: "PublishAction_edit samplePolicy (revision samplePolicy emptyState) sampleDescription sampleOperator (calm 0) None =
      (out, Inr (written describedState))"
    using p c f by (auto simp: PublishAction_edit_def Let_def decodeDecision_def)
  from sample_change [where edit = "PublishAction_edit samplePolicy (revision samplePolicy emptyState) sampleDescription sampleOperator", OF e sample_profiles(4) described_decodes] n show ?thesis
    by (auto simp: PublishAction_def regular_def)
qed

end
