(* ===== verification/Catalogue_Facts.thy ===== *)
theory Catalogue_Facts
  imports Sample_Catalogue
begin

text \<open>
  What the edits of the catalogue and its metadata promise: retiring an action leaves nothing
  of it, registering one adds it within the bound, a default switch changes what the default
  says and nothing else, and a published description names a catalogued action.
\<close>

context guarded_edit
begin

lemma settled_written:
  assumes r: "ready p" and run: "settle u (change p edit turns u content) = (r', err, after)" and nf: "\<not> found turns content after"
    and shape: "\<And>t c f next. decodeDecision p c = Inr f \<Longrightarrow> jvalid (fileJson f) \<Longrightarrow> admit t f \<Longrightarrow> edit t c = (r', Inr (Some next)) \<Longrightarrow>
      \<exists>g. written g = Some next \<and> jvalid (fileJson g) \<and> P t f g"
  shows "\<exists>k<decisionChangeAttempts. \<exists>c f g. err = None \<and> found turns content c \<and> t_authorize (turns k) = None \<and>
    decodeDecision p c = Inr f \<and> admit (turns k) f \<and> decodeDecision p after = Inr (currentProfile g) \<and> P (turns k) f g"
proof -
  from settled_guarded [OF run nf] obtain k c f nxt d where
    k: "k < decisionChangeAttempts" "err = None" "found turns content c" "t_authorize (turns k) = None" "decodeDecision p c = Inr f"
      "admit (turns k) f" and e: "edit (turns k) c = (r', Inr (Some nxt))" "after = Some nxt"
    and d: "decodeDecision p (Some nxt) = Inr d" by blast
  have "jvalid (fileJson f)" using decoded_text [OF r k(5)] by simp
  from shape [OF k(5) this k(6) e(1)] obtain g where g: "written g = Some nxt" "jvalid (fileJson g)" "P (turns k) f g" by blast
  with written_decodes [OF r jvalid_currentProfile [OF g(2)], of d] d e(2)
  have "decodeDecision p after = Inr (currentProfile g)" by (simp add: written_def)
  with k g(3) show ?thesis by blast
qed

end

subsection \<open>The catalogue\<close>

lemma retireAction_fields [simp]:
  "rules (retireAction action f) = filter (\<lambda>r. r_action r \<noteq> action) (rules f)"
  "actions (retireAction action f) = filter (\<lambda>a. a_action a \<noteq> action) (actions f)"
  "f_descriptions (retireAction action f) = filter (\<lambda>d. publishedAction d \<noteq> action) (f_descriptions f)"
  "f_selectorRules (retireAction action f) = filter (\<lambda>r. k_action (rulePermission r) \<noteq> action) (f_selectorRules f)"
  "f_profile (retireAction action f) = f_profile f" "f_appliedOperatorAnswers (retireAction action f) = f_appliedOperatorAnswers f"
  "f_appliedTypedAnswers (retireAction action f) = f_appliedTypedAnswers f"
  "f_defaultSwitches (retireAction action f) = f_defaultSwitches f"
  by (simp_all add: retireAction_def pruneOrigins_def)

lemma EditAction_ran:
  assumes "EditAction p disk turns content now expected action register editor admission = (out, err, after)"
    and "\<not> found turns content after"
  obtains ed where "NormalizeDecisionSubject (files p) editor = Inr ed" and "register \<longrightarrow> ValidActionName action" and "admission"
    and "settle unavailableAction (change p (EditAction_edit p expected action register ed (stamp now)) turns unavailableAction content) =
      (out, err, after)"
proof -
  have "after \<noteq> content" using assms(2) by (auto simp: found_def)
  with assms(1) have "\<exists>ed. NormalizeDecisionSubject (files p) editor = Inr ed \<and> (register \<longrightarrow> ValidActionName action) \<and> admission \<and>
    settle unavailableAction (change p (EditAction_edit p expected action register ed (stamp now)) turns unavailableAction content) =
      (out, err, after)"
    unfolding EditAction_def by (auto split: sum.split_asm if_split_asm option.split_asm)
  with that show ?thesis by blast
qed

text \<open>C26: Retiring an action leaves nothing of it: a file that a retiring \<open>EditAction\<close> changed was
  at the expected revision with the action registered and not in the seed; afterwards the action
  is not catalogued and has no rule, selector rule or description, while every other rule,
  registration and description stays.\<close>

theorem retired_action_leaves_nothing:
  assumes "ready p" and "EditAction p disk turns content now expected action False editor admission = (out, err, after)"
    and "\<not> found turns content after"
  shows "\<exists>c f h. admission \<and> err = None \<and> ae_outcome out = ActionEditOutcomeApplied \<and> ae_revision out = revision p h \<and>
    found turns content c \<and> decodeDecision p c = Inr f \<and> revision p f = expected \<and> action \<notin> set (seed p) \<and>
    action \<in> a_action ` set (actions f) \<and> decodeDecision p after = Inr h \<and> action \<notin> set (catalogue p h) \<and>
    rules h = filter (\<lambda>r. r_action r \<noteq> action) (rules f) \<and>
    f_selectorRules h = filter (\<lambda>r. k_action (rulePermission r) \<noteq> action) (f_selectorRules f) \<and>
    f_descriptions h = filter (\<lambda>d. publishedAction d \<noteq> action) (f_descriptions f) \<and>
    actions h = filter (\<lambda>a. a_action a \<noteq> action) (actions f)"
proof -
  from EditAction_ran [OF assms(2,3)] obtain ed where adm: admission
    and run: "settle unavailableAction (change p (EditAction_edit p expected action False ed (stamp now)) turns unavailableAction content) =
      (out, err, after)" .
  have "\<exists>k<decisionChangeAttempts. \<exists>c f g. err = None \<and> found turns content c \<and> t_authorize (turns k) = None \<and>
    decodeDecision p c = Inr f \<and> (revision p f = expected \<and> (False \<longrightarrow> action \<notin> set (catalogue p f) \<and>
      length (catalogue p f) < MaxDecisionActions) \<and> (\<not> False \<longrightarrow> action \<notin> set (seed p) \<and> action \<in> a_action ` set (actions f))) \<and>
    decodeDecision p after = Inr (currentProfile g) \<and>
    (g = retireAction action f \<and> ae_outcome out = ActionEditOutcomeApplied \<and> ae_revision out = revision p (currentProfile g))"
  proof (rule action_entry.settled_written [OF assms(1) run assms(3)])
    fix t c f nxt
    assume f: "decodeDecision p c = Inr f" "jvalid (fileJson f)"
      and e: "EditAction_edit p expected action False ed (stamp now) t c = (out, Inr (Some nxt))"
    have "jvalid (fileJson (retireAction action f))"
      by (rule jvalid_fewer [OF f(2)]) (auto simp: retireAction_def pruneOrigins_def)
    with e f show "\<exists>g. written g = Some nxt \<and> jvalid (fileJson g) \<and>
      (g = retireAction action f \<and> ae_outcome out = ActionEditOutcomeApplied \<and> ae_revision out = revision p (currentProfile g))"
      by (auto simp: EditAction_edit_def Let_def actionEdit_def split: option.split_asm if_split_asm)
  qed
  then obtain c f where "err = None" "found turns content c" "decodeDecision p c = Inr f" "revision p f = expected"
    "action \<notin> set (seed p)" "action \<in> a_action ` set (actions f)" "decodeDecision p after = Inr (currentProfile (retireAction action f))"
    "ae_outcome out = ActionEditOutcomeApplied" "ae_revision out = revision p (currentProfile (retireAction action f))" by blast
  moreover have "action \<notin> set (catalogue p (currentProfile (retireAction action f)))"
    using \<open>action \<notin> set (seed p)\<close> by (auto simp: set_catalogue)
  ultimately show ?thesis using adm
    by - (rule exI [of _ c], rule exI [of _ f], rule exI [of _ "currentProfile (retireAction action f)"], simp)
qed

theorem retired_action_leaves_nothing_witness:
  "\<exists>h. decodeDecision samplePolicy (Some (marshalFile emptyState)) = Inr h \<and> ''demo/extra'' \<notin> set (catalogue samplePolicy h)"
proof -
  from sample_retire obtain out where run: "EditAction samplePolicy Stored calm (Some (marshalFile registeredState)) 0
    (revision samplePolicy registeredState) ''demo/extra'' False sampleOperator True = (out, None, Some (marshalFile emptyState))" by blast
  have "registeredState \<noteq> emptyState" by (simp add: registeredState_def emptyState_def)
  from sample_differs [OF conjunct1 [OF registered_decodes] emptyState_decodes this]
  have nf: "\<not> found calm (Some (marshalFile registeredState)) (Some (marshalFile emptyState))" .
  from retired_action_leaves_nothing [OF sample_ready run nf] show ?thesis by blast
qed

lemma jvalid_addAction:
  assumes "jvalid (fileJson f)" and "ValidActionName action" and "validStoredSubject fs ed"
  shows "jvalid (fileJson (addAction f \<lparr>a_action = action, a_by = ed, a_at = stamp at\<rparr>))"
  using assms ValidActionName_UTF8 [of action] jvalid_subject [of fs ed]
  by (auto simp: jvalid_fileJson addAction_def actionJson_def key_names printable_stamp printable_validUTF8)

text \<open>Registering an action adds exactly it: a file that a registering \<open>EditAction\<close> changed was
  at the expected revision with a free place in the catalogue and without the action; afterwards
  the catalogue has it besides what it had, within its bound, registered by the normalised
  editor; no rule, selector rule or description changed.\<close>

theorem registered_action_is_added:
  assumes "ready p" and "EditAction p disk turns content now expected action True editor admission = (out, err, after)"
    and "\<not> found turns content after"
  shows "\<exists>c f h ed. err = None \<and> NormalizeDecisionSubject (files p) editor = Inr ed \<and> found turns content c \<and>
    decodeDecision p c = Inr f \<and> revision p f = expected \<and> action \<notin> set (catalogue p f) \<and>
    length (catalogue p f) < MaxDecisionActions \<and> decodeDecision p after = Inr h \<and>
    set (catalogue p h) = insert action (set (catalogue p f)) \<and>
    set (actions h) = insert \<lparr>a_action = action, a_by = ed, a_at = stamp now\<rparr> (set (actions f)) \<and>
    rules h = rules f \<and> f_selectorRules h = f_selectorRules f \<and> f_descriptions h = f_descriptions f"
proof -
  from EditAction_ran [OF assms(2,3)] obtain ed where ed: "NormalizeDecisionSubject (files p) editor = Inr ed"
      "True \<longrightarrow> ValidActionName action"
    and run: "settle unavailableAction (change p (EditAction_edit p expected action True ed (stamp now)) turns unavailableAction content) =
      (out, err, after)" .
  let ?add = "\<lambda>f. addAction f \<lparr>a_action = action, a_by = ed, a_at = stamp now\<rparr>"
  have "\<exists>k<decisionChangeAttempts. \<exists>c f g. err = None \<and> found turns content c \<and> t_authorize (turns k) = None \<and>
    decodeDecision p c = Inr f \<and> (revision p f = expected \<and> (True \<longrightarrow> action \<notin> set (catalogue p f) \<and>
      length (catalogue p f) < MaxDecisionActions) \<and> (\<not> True \<longrightarrow> action \<notin> set (seed p) \<and> action \<in> a_action ` set (actions f))) \<and>
    decodeDecision p after = Inr (currentProfile g) \<and> g = ?add f"
  proof (rule action_entry.settled_written [OF assms(1) run assms(3)])
    fix t c f nxt
    assume f: "decodeDecision p c = Inr f" "jvalid (fileJson f)"
      and e: "EditAction_edit p expected action True ed (stamp now) t c = (out, Inr (Some nxt))"
    have "validStoredSubject (files p) ed" using assms(1) ed(1) by (auto simp: ready_def longNames_def)
    with jvalid_addAction [OF f(2)] ed(2) have "jvalid (fileJson (?add f))" by blast
    with e f show "\<exists>g. written g = Some nxt \<and> jvalid (fileJson g) \<and> g = ?add f"
      by (auto simp: EditAction_edit_def Let_def split: option.split_asm if_split_asm)
  qed
  then obtain c f where "err = None" "found turns content c" "decodeDecision p c = Inr f" "revision p f = expected"
    "action \<notin> set (catalogue p f)" "length (catalogue p f) < MaxDecisionActions"
    "decodeDecision p after = Inr (currentProfile (?add f))" by blast
  with ed(1) show ?thesis
    by - (rule exI [of _ c], rule exI [of _ f], rule exI [of _ "currentProfile (?add f)"], rule exI [of _ ed],
        simp add: set_catalogue addAction_def)
qed

theorem registered_action_is_added_witness:
  "\<exists>h. decodeDecision samplePolicy (Some (marshalFile registeredState)) = Inr h \<and> ''demo/extra'' \<in> set (catalogue samplePolicy h)"
proof -
  from sample_register obtain out where run: "EditAction samplePolicy Missing calm None 0 (revision samplePolicy emptyState) ''demo/extra'' True
    sampleOperator True = (out, None, Some (marshalFile registeredState))" by blast
  have "\<not> found calm None (Some (marshalFile registeredState))" by (simp add: found_def)
  from registered_action_is_added [OF sample_ready run this] show ?thesis by blast
qed

subsection \<open>Default switches\<close>

lemma switchOn_first:
  "switchOn_list ss name = (case filter (\<lambda>s. w_name s = name) ss of [] \<Rightarrow> True | s # _ \<Rightarrow> w_on s)"
  by (induction ss) auto

lemma switchOn_turned:
  "switchOn (turnSwitch name on ed at f) other = (if other = name then on else switchOn f other)"
  by (auto simp: switchOn_def turnSwitch_def switchOn_first sort_key_stable filter_filter conj_commute
      intro!: arg_cong [where f = "\<lambda>xs. case xs of [] \<Rightarrow> True | s # _ \<Rightarrow> w_on s"] filter_cong)

text \<open>A default switch changes what that default says and nothing else: a file that
  \<open>SetDefault\<close> changed was at the expected revision with the switch the other way; afterwards
  it is as asked, every other switch and every rule, selector rule, registration and
  description is as it was.\<close>

theorem default_switch_changes_only_itself:
  assumes "ready p" and "\<forall>d\<in>set (configuredDefaults p). validDefaultName (df_name d)"
    and "SetDefault p disk turns content now expected name on editor admission = (out, err, after)"
    and "\<not> found turns content after"
  shows "\<exists>c f h. err = None \<and> admission \<and> dfe_outcome out = PolicyEditOutcomeApplied \<and> found turns content c \<and>
    decodeDecision p c = Inr f \<and> revision p f = expected \<and> decodeDecision p after = Inr h \<and>
    (\<forall>other. switchOn h other = (if other = name then on else switchOn f other)) \<and> switchOn f name \<noteq> on \<and>
    rules h = rules f \<and> f_actions h = f_actions f \<and> f_selectorRules h = f_selectorRules f \<and> f_descriptions h = f_descriptions f"
proof -
  have "after \<noteq> content" using assms(4) by (auto simp: found_def)
  with assms(3) obtain d ed where d: "find (\<lambda>d. df_name d = name) (configuredDefaults p) = Some d"
      "NormalizeDecisionSubject (files p) editor = Inr ed" admission
    and run: "settle (defaultEdit PolicyEditOutcomeUnavailable [] None) (change p (SetDefault_edit p d expected name on ed (stamp now)) turns
      (defaultEdit PolicyEditOutcomeUnavailable [] None) content) = (out, err, after)"
    unfolding SetDefault_def by (auto split: sum.split_asm if_split_asm option.split_asm)
  let ?turn = "turnSwitch name on ed (stamp now)"
  have "\<exists>k<decisionChangeAttempts. \<exists>c f g. err = None \<and> found turns content c \<and> t_authorize (turns k) = None \<and>
    decodeDecision p c = Inr f \<and> (revision p f = expected \<and> switchOn f name \<noteq> on) \<and>
    decodeDecision p after = Inr (currentProfile g) \<and> (g = ?turn f \<and> dfe_outcome out = PolicyEditOutcomeApplied)"
  proof (rule default_switch.settled_written [OF assms(1) run assms(4)])
    fix t c f nxt
    assume f: "decodeDecision p c = Inr f" "jvalid (fileJson f)"
      and e: "SetDefault_edit p d expected name on ed (stamp now) t c = (out, Inr (Some nxt))"
    have "validUTF8 name" using d(1) assms(2) by (auto simp: find_Some_iff validDefaultName_def dest!: actionPart_UTF8)
    moreover have "jvalid (subjectJson ed)"
      using assms(1) d(2) jvalid_subject [of "files p" ed] by (auto simp: ready_def longNames_def)
    ultimately have "jvalid (fileJson (?turn f))"
      using f(2) by (auto simp: jvalid_fileJson turnSwitch_def switchJson_def key_names printable_stamp printable_validUTF8)
    with e f show "\<exists>g. written g = Some nxt \<and> jvalid (fileJson g) \<and> (g = ?turn f \<and> dfe_outcome out = PolicyEditOutcomeApplied)"
      by (auto simp: SetDefault_edit_def Let_def defaultEdit_def split: option.split_asm if_split_asm)
  qed
  then obtain c f where "err = None" "found turns content c" "decodeDecision p c = Inr f" "revision p f = expected" "switchOn f name \<noteq> on"
    "decodeDecision p after = Inr (currentProfile (?turn f))" "dfe_outcome out = PolicyEditOutcomeApplied" by blast
  moreover have "switchOn (currentProfile g) other = switchOn g other" for g other by (simp add: switchOn_def)
  ultimately show ?thesis using d(3) switchOn_turned [of name on ed "stamp now" f]
    by - (rule exI [of _ c], rule exI [of _ f], rule exI [of _ "currentProfile (?turn f)"], simp add: turnSwitch_def)
qed

theorem default_switch_changes_only_itself_witness:
  "\<exists>h. decodeDecision samplePolicy (Some (marshalFile switchedState)) = Inr h \<and> \<not> switchOn h ''reads'' \<and> switchOn h ''other''"
proof -
  from sample_switch obtain out where run: "SetDefault samplePolicy Missing calm None 0 (revision samplePolicy emptyState) ''reads'' False
    sampleOperator True = (out, None, Some (marshalFile switchedState))" by blast
  have d: "\<forall>d\<in>set (configuredDefaults samplePolicy). validDefaultName (df_name d)" by (simp add: samplePolicy_def extra_valid)
  have "\<not> found calm None (Some (marshalFile switchedState))" by (simp add: found_def)
  from default_switch_changes_only_itself [OF sample_ready d run this] obtain c f h where
    c: "found calm None c" "decodeDecision samplePolicy c = Inr f" and
    h: "decodeDecision samplePolicy (Some (marshalFile switchedState)) = Inr h"
      "\<forall>other. switchOn h other = (if other = ''reads'' then False else switchOn f other)" by blast
  from c have "f = emptyState" by (auto simp: found_def decodeDecision_def)
  with h show ?thesis by (simp add: switchOn_def emptyState_def)
qed

subsection \<open>Published descriptions\<close>

lemma find_update_first:
  assumes "\<exists>x\<in>set xs. key x = key d"
  shows "find (\<lambda>x. key x = k) (xs[length (takeWhile (\<lambda>x. key x \<noteq> key d) xs) := d]) =
    (if k = key d then Some d else find (\<lambda>x. key x = k) xs)"
  using assms
proof (induction xs)
  case (Cons a xs)
  show ?case
  proof (cases "key a = key d")
    case False
    with Cons.prems have "\<exists>x\<in>set xs. key x = key d" by auto
    from Cons.IH [OF this] False show ?thesis by (cases "k = key d") simp_all
  qed simp
qed simp

lemma find_filter_hd: "find P xs = (case filter P xs of [] \<Rightarrow> None | x # _ \<Rightarrow> Some x)"
  by (induction xs) auto

lemma find_put:
  "find (\<lambda>x. publishedAction x = k) (f_descriptions (putDescription d f)) =
     (if k = publishedAction d then Some d else find (\<lambda>x. publishedAction x = k) (f_descriptions f))"
proof (cases "publishedAction d \<in> publishedAction ` set (f_descriptions f)")
  case True
  then have "\<exists>x\<in>set (f_descriptions f). publishedAction x = publishedAction d" by auto
  from find_update_first [OF this] True show ?thesis by (simp add: putDescription_def Let_def)
next
  case False
  then have "filter (\<lambda>x. publishedAction x = publishedAction d) (f_descriptions f) = []"
    unfolding filter_empty_conv by (metis image_eqI)
  with False show ?thesis by (auto simp: putDescription_def Let_def find_filter_hd sort_key_stable)
qed

lemma putDescription_fields [simp]:
  "rules (putDescription d f) = rules f" "actions (putDescription d f) = actions f" "f_profile (putDescription d f) = f_profile f"
  "f_selectorRules (putDescription d f) = f_selectorRules f" "f_bundleOrigins (putDescription d f) = f_bundleOrigins f"
  "f_appliedOperatorAnswers (putDescription d f) = f_appliedOperatorAnswers f"
  "f_appliedTypedAnswers (putDescription d f) = f_appliedTypedAnswers f" "f_defaultSwitches (putDescription d f) = f_defaultSwitches f"
  by (simp_all add: putDescription_def Let_def)

lemma putDescription_set: "set (f_descriptions (putDescription d f)) \<subseteq> insert d (set (f_descriptions f))"
  using set_update_subset_insert [of "f_descriptions f"] by (auto simp: putDescription_def Let_def)

lemma jvalid_put:
  assumes "jvalid (fileJson f)" and "jvalid (publishedJson d)"
  shows "jvalid (fileJson (putDescription d f))"
  using assms putDescription_set [of d f] by (auto simp: jvalid_fileJson)

definition publishedIn :: "policy \<Rightarrow> ActionDescription \<Rightarrow> subject \<Rightarrow> bytes \<Rightarrow> decisionFile \<Rightarrow> decisionFile" where
  "publishedIn p d ed at f = putDescription \<lparr>p_description = d, p_by = ed, p_at = at\<rparr>
     (if ad_action d \<in> set (catalogue p f) then f else addAction f \<lparr>a_action = ad_action d, a_by = ed, a_at = at\<rparr>)"

lemma jvalid_publishedIn:
  assumes "jvalid (fileJson f)" and "validStoredDescription fs d" and "validStoredSubject fs ed"
  shows "jvalid (fileJson (publishedIn p d ed (stamp at) f))"
proof -
  have "ValidActionName (ad_action d)" using assms(2) by (simp add: validStoredDescription_def)
  from jvalid_addAction [OF assms(1) this assms(3)] assms(1)
  have "jvalid (fileJson (if ad_action d \<in> set (catalogue p f) then f else addAction f \<lparr>a_action = ad_action d, a_by = ed, a_at = stamp at\<rparr>))"
    by simp
  moreover have "jvalid (publishedJson \<lparr>p_description = d, p_by = ed, p_at = stamp at\<rparr>)"
    using assms(2,3) by (auto simp: publishedJson_def descriptionJson_def validStoredDescription_def descriptionText_def key_names
      printable_stamp printable_validUTF8 intro: jvalid_subject ValidActionName_UTF8 bounded_validUTF8)
  ultimately show ?thesis unfolding publishedIn_def by (rule jvalid_put)
qed

text \<open>A published description names a catalogued action: a file that \<open>PublishAction\<close> changed
  catalogues the action and describes it exactly as normalised; the action was added only where
  the catalogue had a free place, and every other description and every rule is as it was.\<close>

theorem published_action_is_described:
  assumes "ready p" and "PublishAction p disk turns content expected desc editor admission = (out, err, after)"
    and "\<not> found turns content after"
  shows "\<exists>c f h d. err = None \<and> de_outcome out = ActionEditOutcomeApplied \<and> found turns content c \<and>
    NormalizeActionDescription (files p) desc = Inr d \<and> decodeDecision p c = Inr f \<and> revision p f = expected \<and>
    decodeDecision p after = Inr h \<and> set (catalogue p h) = insert (ad_action d) (set (catalogue p f)) \<and>
    (ad_action d \<in> set (catalogue p f) \<or> length (catalogue p f) < MaxDecisionActions) \<and>
    da_description (describedAction h (ad_action d)) = Some d \<and>
    (\<forall>other. other \<noteq> ad_action d \<longrightarrow> describedAction h other = describedAction f other) \<and>
    rules h = rules f \<and> f_selectorRules h = f_selectorRules f"
proof -
  have "after \<noteq> content" using assms(3) by (auto simp: found_def)
  with assms(2) obtain d ed where d: "NormalizeActionDescription (files p) desc = Inr d" "NormalizeDecisionSubject (files p) editor = Inr ed"
    and run: "settle unavailableDescription (change p (PublishAction_edit p expected d ed) turns unavailableDescription content) =
      (out, err, after)"
    unfolding PublishAction_def by (auto split: sum.split_asm if_split_asm option.split_asm)
  have vd: "validStoredDescription (files p) d" using d(1) by (auto simp: NormalizeActionDescription_def Let_def split: sum.split_asm if_split_asm)
  have ve: "validStoredSubject (files p) ed" using assms(1) d(2) by (auto simp: ready_def longNames_def)
  have "\<exists>k<decisionChangeAttempts. \<exists>c f g. err = None \<and> found turns content c \<and> t_authorize (turns k) = None \<and>
    decodeDecision p c = Inr f \<and> (revision p f = expected \<and> (ad_action d \<in> set (catalogue p f) \<or>
      length (catalogue p f) < MaxDecisionActions)) \<and>
    decodeDecision p after = Inr (currentProfile g) \<and>
    (g = publishedIn p d ed (stamp (t_now (turns k))) f \<and> de_outcome out = ActionEditOutcomeApplied)"
  proof (rule description.settled_written [OF assms(1) run assms(3)])
    fix t c f nxt
    assume f: "decodeDecision p c = Inr f" "jvalid (fileJson f)"
      and e: "PublishAction_edit p expected d ed t c = (out, Inr (Some nxt))"
    have "written (publishedIn p d ed (stamp (t_now t)) f) = Some nxt \<and> de_outcome out = ActionEditOutcomeApplied"
      using e f(1) unfolding PublishAction_edit_def Let_def publishedIn_def
      by (auto simp: descriptionEdit_def split: option.split_asm if_split_asm)
    with jvalid_publishedIn [OF f(2) vd ve] show "\<exists>g. written g = Some nxt \<and> jvalid (fileJson g) \<and>
      (g = publishedIn p d ed (stamp (t_now t)) f \<and> de_outcome out = ActionEditOutcomeApplied)" by blast
  qed
  then obtain k c f where w: "err = None" "found turns content c" "decodeDecision p c = Inr f" "revision p f = expected"
    "ad_action d \<in> set (catalogue p f) \<or> length (catalogue p f) < MaxDecisionActions"
    "decodeDecision p after = Inr (currentProfile (publishedIn p d ed (stamp (t_now (turns k))) f))"
    "de_outcome out = ActionEditOutcomeApplied" by blast
  let ?h = "currentProfile (publishedIn p d ed (stamp (t_now (turns k))) f)"
  have descr: "find (\<lambda>x. publishedAction x = b) (f_descriptions ?h) =
    (if b = ad_action d then Some \<lparr>p_description = d, p_by = ed, p_at = stamp (t_now (turns k))\<rparr>
     else find (\<lambda>x. publishedAction x = b) (f_descriptions f))" for b
    by (simp add: publishedIn_def find_put) (simp add: publishedAction_def addAction_def)
  have "describedAction ?h b = describedAction f b" if "b \<noteq> ad_action d" for b
    using descr [of b] that by (simp add: describedAction_def Let_def)
  moreover have "da_description (describedAction ?h (ad_action d)) = Some d"
    using descr [of "ad_action d"] by (simp add: describedAction_def Let_def)
  moreover have "set (catalogue p ?h) = insert (ad_action d) (set (catalogue p f))" "rules ?h = rules f" "f_selectorRules ?h = f_selectorRules f"
    by (auto simp: publishedIn_def set_catalogue addAction_def)
  ultimately show ?thesis using w d(1)
    by - (rule exI [of _ c], rule exI [of _ f], rule exI [of _ ?h], rule exI [of _ d], simp)
qed

theorem published_action_is_described_witness:
  "\<exists>h. decodeDecision samplePolicy (Some (marshalFile describedState)) = Inr h \<and>
    da_description (describedAction h ''demo/read'') = Some sampleDescription"
proof -
  from sample_publish obtain out where run: "PublishAction samplePolicy Missing calm None (revision samplePolicy emptyState) sampleDescription
    sampleOperator True = (out, None, Some (marshalFile describedState))" by blast
  have "\<not> found calm None (Some (marshalFile describedState))" by (simp add: found_def)
  from published_action_is_described [OF sample_ready run this] obtain h d where
    h: "decodeDecision samplePolicy (Some (marshalFile describedState)) = Inr h"
      "NormalizeActionDescription (files samplePolicy) sampleDescription = Inr d" "da_description (describedAction h (ad_action d)) = Some d"
    by blast
  have "d = sampleDescription"
    using h(2) description_valid by (simp add: NormalizeActionDescription_def Let_def sampleDescription_def sample_trims)
  with h(1,3) show ?thesis by (simp add: sampleDescription_def)
qed

end
