(* ===== verification/Sample_Selectors.thy ===== *)
theory Sample_Selectors
  imports Catalogue_Facts
begin

text \<open>
  Concrete typed edits for the witnesses: a selection of a whole collection denied, permitted
  by an answer, and that answer undone.
\<close>

abbreviation sampleSelection :: PermissionSelection where "sampleSelection \<equiv> allSelection sampleKey"

definition sampleEffect :: PermissionEffect where
  "sampleEffect = \<lparr>ef_subject = sampleApp, ef_selections = [sampleSelection], ef_bundle = None\<rparr>"

definition sampleTyped :: "bool \<Rightarrow> bytes \<Rightarrow> selectorRule" where
  "sampleTyped permit question = \<lparr>l_subject = sampleApp, l_selection = sampleSelection, l_permit = permit,
     l_setBy = native samplePolicy, l_setAt = stamp 0, l_why = [], l_expires = [], l_originID = [], l_questionID = question\<rparr>"

definition typedState :: "bool \<Rightarrow> bytes \<Rightarrow> bytes list \<Rightarrow> decisionFile" where
  "typedState permit question answers = emptyState\<lparr>f_selectorRules := [sampleTyped permit question], f_appliedTypedAnswers := answers\<rparr>"

lemma sample_selection_valid:
  "SelectorDefinition (Some sampleCatalog) sampleKey = Some sampleDefinition"
  "ValidStoredSelection (Some sampleCatalog) sampleSelection" "ValidSelection (Some sampleCatalog) sampleSelection"
  "PrepareSelection (Some sampleCatalog) sampleSelection = Inr sampleSelection"
proof -
  show d: "SelectorDefinition (Some sampleCatalog) sampleKey = Some sampleDefinition"
    by (simp add: SelectorDefinition_def sampleCatalog_def)
  have p: "profileOf (Some sampleCatalog) sampleKey = Some sampleProfile"
    by (simp add: profileOf_def sampleCatalog_def sampleKey_def)
  show s: "ValidStoredSelection (Some sampleCatalog) sampleSelection"
    by (simp add: ValidStoredSelection_def d p allSelection_def sampleProfile_def)
  then show v: "ValidSelection (Some sampleCatalog) sampleSelection"
    by (simp add: ValidSelection_def d allSelection_def sampleDefinition_def)
  then show "PrepareSelection (Some sampleCatalog) sampleSelection = Inr sampleSelection"
    by (simp add: PrepareSelection_def d allSelection_def sampleDefinition_def)
qed

lemma typedState_valid:
  assumes "question = [] \<or> permit \<and> validAnswerID question" and "list_all validAnswerID answers" and "length answers \<le> 1"
  shows "validateSelectorState samplePolicy (typedState permit question answers) = None"
proof -
  have "validSelectorRule samplePolicy (typedState permit question answers) (sampleTyped permit question)"
    using assms(1) sample_selection_valid
    by (auto simp: validSelectorRule_def sampleTyped_def validStamp_stamp stamp_0 validWhy_def plain_subject printable_def code_def
        typedState_def allSelection_def set_catalogue emptyState_def sampleKey_def)
  moreover have "strictly_sorted_by id answers" using assms(3) by (cases answers) (auto simp: strictly_sorted_by_def)
  ultimately show ?thesis
    using assms(2,3)
    by (simp add: validateSelectorState_def typedState_def emptyState_def MaxDecisionRules_def MaxAppliedOperatorAnswers_def
        profileVersion_def strictly_sorted_by_def)
qed

lemma typedState_decodes:
  assumes "question = [] \<or> permit \<and> question = sampleAnswer" and "answers = [] \<or> answers = [sampleAnswer]"
  shows "decodeDecision samplePolicy (Some (marshalFile (typedState permit question answers))) = Inr (typedState permit question answers) \<and>
    length (marshalFile (typedState permit question answers)) \<le> MaxDecisionBytes"
proof (rule sample_state)
  have "length (catalogue samplePolicy (typedState permit question answers)) = 2" by (simp add: catalogue_def typedState_def emptyState_def)
  then show "refuseState samplePolicy (typedState permit question answers) = None"
    by (simp add: refuseState_def typedState_def emptyState_def profileVersion_def validDefaultSwitches_def MaxDecisionRules_def
        MaxDecisionActions_def)
  show "validateSelectorState samplePolicy (typedState permit question answers) = None"
    by (rule typedState_valid) (use assms sampleAnswer_valid in auto)
  have "length question \<le> 32" "answers \<noteq> [] \<Longrightarrow> answers = [sampleAnswer]" "length sampleAnswer = 32"
    using assms by (auto simp: sampleAnswer_def)
  then show "jweight (fileJson (typedState permit question answers)) \<le> 10000"
    using length_stamp [OF stamp_0] assms(2)
    by (auto simp: fileJson_def selectorRuleJson_def selectionJson_def selectorJson_def targetJson_def keyJson_def subjectJson_def sliceJson_def omitStr_def
        omitList_def typedState_def emptyState_def sampleTyped_def sampleApp_def sampleKey_def allSelection_def DecisionProfile_def)
qed

lemma sample_current: "currentProfile (typedState permit question answers) = typedState permit question answers"
  by (simp add: currentProfile_def typedState_def emptyState_def)

lemma sample_not_same:
  assumes "f \<noteq> g" and "decodeDecision samplePolicy (Some (marshalFile f)) = Inr f" and "decodeDecision samplePolicy (Some (marshalFile g)) = Inr g"
  shows "marshalFile f \<noteq> marshalFile g"
  using assms by (metis sum.inject(2))

lemma fresh_subject:
  "freshKeys p \<Longrightarrow> sameSelectorSubject p r s rvn = sameProgram (files p) (keyOnce (files p)) (l_subject r) s"
  by (simp add: sameSelectorSubject_def sameStoredSubject_alt fresh_decisionKeys)

text \<open>One selection written on the empty policy, with or without an answer.\<close>

lemma sample_selector_edit:
  assumes "q_selections ch = [sampleSelection]" "q_subject ch = sampleApp" "q_permit ch = Some permit" "q_expansion ch = None"
    "q_removeOrigin ch = []" "q_undoID ch = []"
    and ed: "ed_ttl (q_edit ch) = 0" "ed_by (q_edit ch) = native samplePolicy" "ed_why (q_edit ch) = []" "ed_deadline (q_edit ch) = None"
      "ed_questionID (q_edit ch) = question"
    and rc: "q_receipt ch = (if answers = [] then None else Some \<lparr>rc_id = sampleAnswer, rc_retained = [sampleAnswer]\<rparr>)"
    and ok: "question = [] \<or> permit \<and> question = sampleAnswer" "answers = [] \<or> answers = [sampleAnswer]"
  shows "\<exists>out. changeSelectors_edit samplePolicy (revision samplePolicy emptyState) ch (calm 0) None =
    (out, Inr (Some (marshalFile (typedState permit question answers))))"
proof -
  have e: "f_selectorRules emptyState = []" "rules emptyState = []" "f_bundleOrigins emptyState = []" "f_appliedTypedAnswers emptyState = []"
    "f_appliedOperatorAnswers emptyState = []"
    by (simp_all add: emptyState_def)
  have w: "writtenSelector ch permit 0 [] 0 sampleSelection = sampleTyped permit question"
    using assms by (simp add: writtenSelector_def sampleTyped_def)
  have ws: "writeSelections samplePolicy (revision samplePolicy emptyState) ch 0 [] 0 0 [] False [sampleSelection] =
    Inr ([sampleTyped permit question], False)" using assms(3) w by (simp add: Let_def MaxDecisionRules_def)
  have st: "selectorState samplePolicy (revision samplePolicy emptyState) ch 0 [] 0 emptyState = Inr (Some (typedState permit question answers))"
    using assms ws rc ok(2)
    by (auto simp: selectorState_def e Let_def completeTyped_def MaxAppliedOperatorAnswers_def typedState_def emptyState_def)
  have live: "\<not> selectorExpired (sampleTyped permit question) 0" by (simp add: selectorExpired_def stampExpired_def sampleTyped_def)
  have fin: "sortSelectorState (pruneSelectorState (typedState permit question answers) 0) = typedState permit question answers"
    using live by (simp add: sortSelectorState_def pruneSelectorState_def pruneOrigins_def typedState_def emptyState_def)
  have nb: "\<not> preservedBlock samplePolicy emptyState (revision samplePolicy emptyState) sampleApp 0 sampleSelection"
    by (simp add: preservedBlock_def e consentBlockForSelection_def legacyBlockForTyped_def list_ex_iff)
  have dec: "decodeDecision samplePolicy (Some (marshalFile (typedState permit question answers))) = Inr (typedState permit question answers)"
    "length (marshalFile (typedState permit question answers)) \<le> MaxDecisionBytes" using typedState_decodes [OF ok] by simp_all
  have "typedState permit question answers \<noteq> emptyState" by (simp add: typedState_def emptyState_def)
  from sample_not_same [OF this dec(1) emptyState_decodes]
  have ne: "marshalFile emptyState \<noteq> marshalFile (typedState permit question answers)" by simp
  have v: "validateSelectorState samplePolicy (typedState permit question answers) = None"
    by (rule typedState_valid) (use ok sampleAnswer_valid in auto)
  have cat: "k_action (ps_permission sampleSelection) \<in> set (catalogue samplePolicy emptyState)"
    by (simp add: allSelection_def sampleKey_def)
  have enc: "encodeSelectorState (typedState permit question answers) = Inr (marshalFile (typedState permit question answers))"
    using dec(2) by (simp add: encodeSelectorState_def)
  show ?thesis
    using assms(1-6) ed(1,4) rc nb cat e st fin enc ne v sample_current
    unfolding changeSelectors_edit_def Let_def
    by (simp add: decodeDecision_def capTTL_def)
qed

lemma sample_changeSelectors:
  assumes "\<exists>out. changeSelectors_edit samplePolicy expected ch (calm 0) content = (out, Inr (Some (marshalFile g)))"
    and "currentProfile g = g" and "decodeDecision samplePolicy (Some (marshalFile g)) = Inr g \<and> length (marshalFile g) \<le> MaxDecisionBytes"
    and "boundedDecisionString expected 128" and "q_selections ch = [sampleSelection]" and "q_subject ch = sampleApp"
    and "validTTL (ed_ttl (q_edit ch))" "ed_why (q_edit ch) = []" "ed_by (q_edit ch) = native samplePolicy"
  shows "\<exists>out. changeSelectors samplePolicy Stored calm content expected ch True = (out, None, Some (marshalFile g))"
proof -
  from assms(1) obtain out where e: "changeSelectors_edit samplePolicy expected ch (calm 0) content = (out, Inr (written g))"
    using assms(2) by (auto simp: written_def)
  have "validSelectorEdit plainIdentity expected (q_edit ch)"
    using assms(4,7-9) by (simp add: validSelectorEdit_def validWhy_def plain_subject printable_def code_def)
  moreover have "ascendingSelections [sampleSelection]" by (simp add: ascendingSelections_def strictly_sorted_by_def)
  ultimately show ?thesis
    using sample_change [where edit = "changeSelectors_edit samplePolicy expected ch", OF e assms(2,3)] assms(5,6) sample_selection_valid
    by (auto simp: changeSelectors_def changeContext_change regular_def MaxPermissionEffect_def)
qed

lemma validTTL_zero: "validTTL 0"
  by (simp add: validTTL_def MaxRuleTTL_def)

lemma sample_deny:
  "\<exists>out. changeSelectors samplePolicy Stored calm None (revision samplePolicy emptyState)
     (plainChange sampleApp [sampleSelection] (Some False) (sampleEdit False)) True = (out, None, Some (marshalFile (typedState False [] [])))"
proof -
  let ?ch = "plainChange sampleApp [sampleSelection] (Some False) (sampleEdit False)"
  have "\<exists>out. changeSelectors_edit samplePolicy (revision samplePolicy emptyState) ?ch (calm 0) None =
    (out, Inr (Some (marshalFile (typedState False [] []))))"
    by (rule sample_selector_edit) (simp_all add: plainChange_def sampleEdit_def)
  from sample_changeSelectors [OF this sample_current typedState_decodes] show ?thesis
    by (simp add: plainChange_def sampleEdit_def validTTL_zero)
qed

lemma sample_set_selector:
  "\<exists>out. SetSelectorRule samplePolicy Stored calm None (revision samplePolicy emptyState)
     \<lparr>sr_subject = sampleApp, sr_selection = sampleSelection, sr_permit = False\<rparr> (sampleEdit False) True =
   (out, None, Some (marshalFile (typedState False [] [])))"
  using sample_deny by (simp add: SetSelectorRule_def sample_selection_valid)

lemma sample_apply_effect:
  "\<exists>out. ApplyPermissionEffect samplePolicy Stored calm None (revision samplePolicy emptyState) sampleEffect (sampleEdit True)
     sampleAnswer [sampleAnswer] True = (out, None, Some (marshalFile (typedState True sampleAnswer [sampleAnswer])))"
proof -
  let ?ch = "(plainChange sampleApp [sampleSelection] (Some True) ((sampleEdit True)\<lparr>ed_questionID := sampleAnswer, ed_preserveOtherSetter := True\<rparr>))
    \<lparr>q_expansion := None, q_receipt := Some \<lparr>rc_id = sampleAnswer, rc_retained = [sampleAnswer]\<rparr>\<rparr>"
  have "\<exists>out. changeSelectors_edit samplePolicy (revision samplePolicy emptyState) ?ch (calm 0) None =
    (out, Inr (Some (marshalFile (typedState True sampleAnswer [sampleAnswer]))))"
    by (rule sample_selector_edit) (simp_all add: plainChange_def sampleEdit_def)
  from sample_changeSelectors [OF this sample_current typedState_decodes]
  have "\<exists>out. changeSelectors samplePolicy Stored calm None (revision samplePolicy emptyState) ?ch True =
    (out, None, Some (marshalFile (typedState True sampleAnswer [sampleAnswer])))"
    by (simp add: plainChange_def sampleEdit_def validTTL_zero)
  moreover have "ValidPermissionEffect plainIdentity (Some sampleCatalog) sampleEffect"
    using sample_selection_valid
    by (simp add: ValidPermissionEffect_def ValidStoredPermissionEffect_def sampleEffect_def MaxPermissionEffect_def ascendingSelections_def
        strictly_sorted_by_def)
  ultimately show ?thesis
    using sampleAnswer_valid by (simp add: ApplyPermissionEffect_def sampleEffect_def MaxAppliedOperatorAnswers_def)
qed

text \<open>The answer undone: its permit is gone, its completion stays.\<close>

definition undoneState :: decisionFile where "undoneState = emptyState\<lparr>f_appliedTypedAnswers := [sampleAnswer]\<rparr>"

lemma undone_decodes:
  "decodeDecision samplePolicy (Some (marshalFile undoneState)) = Inr undoneState \<and> length (marshalFile undoneState) \<le> MaxDecisionBytes"
proof (rule sample_state)
  have "length (catalogue samplePolicy undoneState) = 2" by (simp add: catalogue_def undoneState_def emptyState_def)
  then show "refuseState samplePolicy undoneState = None"
    by (simp add: refuseState_def undoneState_def emptyState_def profileVersion_def validDefaultSwitches_def MaxDecisionRules_def
        MaxDecisionActions_def)
  show "validateSelectorState samplePolicy undoneState = None"
    using sampleAnswer_valid
    by (simp add: validateSelectorState_def undoneState_def emptyState_def MaxDecisionRules_def MaxAppliedOperatorAnswers_def
        profileVersion_def strictly_sorted_by_def)
qed (simp add: fileJson_def sliceJson_def omitList_def undoneState_def emptyState_def DecisionProfile_def sampleAnswer_def)

lemma sample_undo:
  "\<exists>out. UndoPermissionEffect samplePolicy Stored calm (Some (marshalFile (typedState True sampleAnswer [sampleAnswer])))
     (revision samplePolicy (typedState True sampleAnswer [sampleAnswer])) sampleEffect (native samplePolicy) sampleAnswer True =
   (out, None, Some (marshalFile undoneState))"
proof -
  let ?f = "typedState True sampleAnswer [sampleAnswer]" and ?r = "sampleTyped True sampleAnswer"
  let ?rvn = "revision samplePolicy (typedState True sampleAnswer [sampleAnswer])"
  let ?ch = "(plainChange sampleApp [sampleSelection] None
            \<lparr>ed_permit = None, ed_by = native samplePolicy, ed_ttl = 0, ed_why = [], ed_exact = False, ed_preserveOtherSetter = False,
             ed_deadline = None, ed_questionID = []\<rparr>)\<lparr>q_undoID := sampleAnswer\<rparr>"
  have dec: "decodeDecision samplePolicy (Some (marshalFile ?f)) = Inr ?f" using typedState_decodes [of sampleAnswer True "[sampleAnswer]"] by simp
  have id: "sampleAnswer \<noteq> []" by (simp add: sampleAnswer_def)
  have rm: "removesSelection samplePolicy ?rvn ?ch 0 sampleSelection ?r"
    by (simp add: removesSelection_def undoes_def sameSelector_def plainChange_def sampleTyped_def rulePermission_def ruleKind_def
        allSelection_def fresh_subject [OF sample_fresh] setByEditor_def sameStoredSubject_alt plainIdentity_byteEqual selectorExpired_def
        stampExpired_def)
  have f: "f_selectorRules ?f = [?r]" "f_bundleOrigins ?f = []" by (simp_all add: typedState_def emptyState_def)
  have st: "selectorState samplePolicy ?rvn ?ch 0 [] 0 ?f = Inr (Some (undoneState))"
    using rm id by (simp add: selectorState_def f Let_def plainChange_def) (simp add: typedState_def undoneState_def emptyState_def)
  have fin: "sortSelectorState (pruneSelectorState undoneState 0) = undoneState" "currentProfile undoneState = undoneState"
    by (simp_all add: sortSelectorState_def pruneSelectorState_def pruneOrigins_def undoneState_def emptyState_def currentProfile_def)
  have "?f \<noteq> undoneState" by (simp add: typedState_def undoneState_def emptyState_def)
  from sample_not_same [OF this dec] undone_decodes have ne: "marshalFile ?f \<noteq> marshalFile undoneState" by simp
  have v: "validateSelectorState samplePolicy undoneState = None"
    using sampleAnswer_valid
    by (simp add: validateSelectorState_def undoneState_def emptyState_def MaxDecisionRules_def MaxAppliedOperatorAnswers_def
        profileVersion_def strictly_sorted_by_def)
  have enc: "encodeSelectorState undoneState = Inr (marshalFile undoneState)" using undone_decodes by (simp add: encodeSelectorState_def)
  have cat: "k_action (ps_permission sampleSelection) \<in> set (catalogue samplePolicy ?f)"
    by (simp add: allSelection_def sampleKey_def typedState_def emptyState_def)
  have e: "\<exists>out. changeSelectors_edit samplePolicy ?rvn ?ch (calm 0) (Some (marshalFile ?f)) = (out, Inr (Some (marshalFile undoneState)))"
    using st fin ne v enc cat unfolding changeSelectors_edit_def Let_def
    by (simp add: dec capTTL_def plainChange_def)
  from sample_changeSelectors [OF e fin(2) undone_decodes]
  have "\<exists>out. changeSelectors samplePolicy Stored calm (Some (marshalFile ?f)) ?rvn ?ch True = (out, None, Some (marshalFile undoneState))"
    by (simp add: plainChange_def validTTL_zero)
  moreover have "ValidStoredPermissionEffect plainIdentity (Some sampleCatalog) sampleEffect"
    using sample_selection_valid
    by (simp add: ValidStoredPermissionEffect_def sampleEffect_def MaxPermissionEffect_def ascendingSelections_def strictly_sorted_by_def)
  ultimately show ?thesis using sampleAnswer_valid by (simp add: UndoPermissionEffect_def sampleEffect_def)
qed

end
