(* ===== verification/Selector_Facts.thy ===== *)
theory Selector_Facts
  imports Sample_Selectors
begin

text \<open>
  What the typed edits promise: one authorised write at the expected revision that leaves the
  exact rules alone, a written selection that is in force afterwards, an answer that is
  completed once, and an undo that removes only its own permits.
\<close>

subsection \<open>Writing selections\<close>

lemma writeSelections_removes:
  assumes "writeSelections p rvn ch ttl originID now n rs removed ss = Inr (rs', removed')" and "q_permit ch = None"
  shows "set rs' \<subseteq> set rs \<and> (\<forall>r\<in>set rs - set rs'. \<exists>s\<in>set ss. removesSelection p rvn ch now s r)"
  using assms
proof (induction ss arbitrary: rs removed)
  case (Cons s ss)
  let ?rs = "filter (\<lambda>r. \<not> removesSelection p rvn ch now s r) rs"
  from Cons.prems have "writeSelections p rvn ch ttl originID now n ?rs (removed \<or> (q_undoID ch \<noteq> [] \<and>
    list_ex (removesSelection p rvn ch now s) rs)) ss = Inr (rs', removed')" by simp
  from Cons.IH [OF this Cons.prems(2)] show ?case by auto
qed simp

text \<open>A live rule with the asked permit stands for a selection.\<close>

definition standing :: "policy \<Rightarrow> bytes \<Rightarrow> subject \<Rightarrow> bool \<Rightarrow> instant \<Rightarrow> PermissionSelection \<Rightarrow> selectorRule \<Rightarrow> bool" where
  "standing p rvn s b now sel r \<longleftrightarrow> sameSelector p r s sel rvn False \<and> l_permit r = b \<and> \<not> selectorExpired r now"

lemma sameSelector_permission: "sameSelector p r s sel rvn exact \<Longrightarrow> rulePermission r = ps_permission sel"
  by (auto simp: sameSelector_def split: if_split_asm)

lemma writeSelections_stands:
  assumes "writeSelections p rvn ch ttl originID now n rs removed ss = Inr (rs', removed')" and q: "q_permit ch = Some b"
    and "\<not> ed_preserveOtherSetter (q_edit ch)" and "distinct (map ps_permission ss)"
    and new: "\<And>s. s \<in> set ss \<Longrightarrow> standing p rvn (q_subject ch) b now s (writtenSelector ch b ttl originID now s)"
  shows "(\<forall>s\<in>set ss. \<exists>r\<in>set rs'. standing p rvn (q_subject ch) b now s r) \<and>
    (\<forall>r. rulePermission r \<notin> ps_permission ` set ss \<longrightarrow> (r \<in> set rs' \<longleftrightarrow> r \<in> set rs))"
  using assms(1,4,5)
proof (induction ss arbitrary: rs removed)
  case (Cons s ss)
  let ?w = "writtenSelector ch b ttl originID now s"
  have wp: "rulePermission ?w = ps_permission s" by (simp add: writtenSelector_def rulePermission_def)
  obtain rs1 where rest: "writeSelections p rvn ch ttl originID now n rs1 removed ss = Inr (rs', removed')"
    and here: "\<exists>r\<in>set rs1. standing p rvn (q_subject ch) b now s r"
    and else: "\<And>r. rulePermission r \<noteq> ps_permission s \<Longrightarrow> r \<in> set rs1 \<longleftrightarrow> r \<in> set rs"
  proof (cases "list_ex (unchangedSelector p rvn ch now s ?w) rs")
    case True
    then have "\<exists>r\<in>set rs. standing p rvn (q_subject ch) b now s r"
      by (auto simp: list_ex_iff unchangedSelector_def standing_def writtenSelector_def)
    moreover have "writeSelections p rvn ch ttl originID now n rs removed ss = Inr (rs', removed')"
      using Cons.prems(1) q assms(3) True by (simp add: Let_def)
    ultimately show ?thesis using that by blast
  next
    case False
    let ?kept = "filter (\<lambda>old. \<not> sameSelector p old (q_subject ch) s rvn False) rs @ [?w]"
    have "writeSelections p rvn ch ttl originID now n ?kept removed ss = Inr (rs', removed')"
      using Cons.prems(1) q assms(3) False by (simp add: Let_def split: if_split_asm)
    moreover have "r \<in> set ?kept \<longleftrightarrow> r \<in> set rs" if "rulePermission r \<noteq> ps_permission s" for r
      using that wp sameSelector_permission [of p r "q_subject ch" s rvn False] by auto
    ultimately show ?thesis using that Cons.prems(3) [of s] by auto
  qed
  have dist: "distinct (map ps_permission ss)" and fresh: "ps_permission s \<notin> ps_permission ` set ss" using Cons.prems(2) by auto
  have IH: "(\<forall>s\<in>set ss. \<exists>r\<in>set rs'. standing p rvn (q_subject ch) b now s r) \<and>
    (\<forall>r. rulePermission r \<notin> ps_permission ` set ss \<longrightarrow> (r \<in> set rs' \<longleftrightarrow> r \<in> set rs1))"
    by (rule Cons.IH [OF rest dist]) (use Cons.prems(3) in auto)
  from here obtain r where r: "r \<in> set rs1" "standing p rvn (q_subject ch) b now s r" by blast
  then have "rulePermission r = ps_permission s" by (auto simp: standing_def dest: sameSelector_permission)
  with IH r fresh have "\<exists>r\<in>set rs'. standing p rvn (q_subject ch) b now s r" by auto
  with IH else show ?case by auto
qed simp

subsection \<open>The state a typed edit writes\<close>

lemma selectorState_fields:
  assumes "selectorState p rvn ch ttl originID now f = Inr (Some g)"
  shows "rules g = rules f \<and> f_actions g = f_actions f \<and> f_descriptions g = f_descriptions f \<and> f_profile g = f_profile f \<and>
    f_appliedOperatorAnswers g = f_appliedOperatorAnswers f \<and> f_defaultSwitches g = f_defaultSwitches f \<and> f_rules g = f_rules f \<and>
    f_appliedTypedAnswers g = (case q_receipt ch of None \<Rightarrow> f_appliedTypedAnswers f
      | Some rc \<Rightarrow> sort (filter (\<lambda>i. i \<in> set (rc_retained rc)) (f_appliedTypedAnswers f) @ [rc_id rc]))"
  using assms unfolding selectorState_def Let_def
  by (auto simp: completeTyped_def Let_def split: sum.split_asm if_split_asm option.split_asm)

lemma selectorState_rules:
  assumes "selectorState p rvn ch ttl originID now f = Inr (Some g)"
  obtains removed where "writeSelections p rvn ch ttl originID now (length (rules f))
      (if q_removeOrigin ch = [] then f_selectorRules f
       else filter (\<lambda>r. \<not> (l_originID r = q_removeOrigin ch \<and> sameSelectorSubject p r (q_subject ch) rvn)) (f_selectorRules f))
      False (q_selections ch) = Inr (f_selectorRules g, removed)"
proof -
  have "\<exists>removed. writeSelections p rvn ch ttl originID now (length (rules f))
      (if q_removeOrigin ch = [] then f_selectorRules f
       else filter (\<lambda>r. \<not> (l_originID r = q_removeOrigin ch \<and> sameSelectorSubject p r (q_subject ch) rvn)) (f_selectorRules f))
      False (q_selections ch) = Inr (f_selectorRules g, removed)"
    using assms unfolding selectorState_def Let_def
    by (auto simp: completeTyped_def Let_def split: sum.split_asm if_split_asm option.split_asm)
  with that show ?thesis by blast
qed

text \<open>A typed edit's state: pruned, sorted, in the current profile.\<close>

definition finishedSelectors :: "decisionFile \<Rightarrow> instant \<Rightarrow> decisionFile" where
  "finishedSelectors f now = sortSelectorState (pruneSelectorState f now)"

lemma finishedSelectors_fields [simp]:
  "set (f_selectorRules (finishedSelectors f now)) = {r \<in> set (f_selectorRules f). \<not> selectorExpired r now}"
  "rules (finishedSelectors f now) = rules f" "f_actions (finishedSelectors f now) = f_actions f"
  "f_rules (finishedSelectors f now) = f_rules f"
  "f_descriptions (finishedSelectors f now) = f_descriptions f"
  "f_appliedOperatorAnswers (finishedSelectors f now) = f_appliedOperatorAnswers f"
  "f_appliedTypedAnswers (finishedSelectors f now) = f_appliedTypedAnswers f"
  "f_defaultSwitches (finishedSelectors f now) = f_defaultSwitches f"
  by (auto simp: finishedSelectors_def sortSelectorState_def pruneSelectorState_def pruneOrigins_def)

lemma wellFormed_selectors:
  assumes "wellFormed p f" and "validateSelectorState p h = None" and "f_profile h = DecisionProfile"
    and "f_rules h = f_rules f" "f_actions h = f_actions f" "f_descriptions h = f_descriptions f"
    "f_appliedOperatorAnswers h = f_appliedOperatorAnswers f" "f_defaultSwitches h = f_defaultSwitches f"
  shows "wellFormed p h"
proof -
  have same: "rules h = rules f" "actions h = actions f" "catalogue p h = catalogue p f" using assms(4,5) by (simp_all add: catalogue_def)
  have "validRule p f r \<Longrightarrow> validRule p h r" for r
    using assms(3) same by (auto simp: validRule_def previousDecisionProfile_def DecisionProfile_def)
  moreover have "validPublished p f d = validPublished p h d" for d using same by (simp add: validPublished_def)
  moreover have "profileVersion DecisionProfile = 7" by (simp add: profileVersion_def)
  ultimately have "refuseState p h = None"
    using assms(1,3,6-8) same unfolding wellFormed_def refuseState_def Let_def
    by (auto split: if_split_asm elim!: list.pred_mono_strong)
  with assms(2) show ?thesis by (simp add: wellFormed_def)
qed

lemma changeSelectors_edit_wrote:
  assumes "changeSelectors_edit p expected ch t c = (out, Inr (Some next))" and "decodeDecision p c = Inr f"
  obtains ttl originID g where "revision p f = expected" and "capTTL (ed_ttl (q_edit ch)) (ed_deadline (q_edit ch)) (t_now t) = Inr ttl"
    and "selectorState p expected ch ttl originID (t_now t) f = Inr (Some g)"
    and "validateSelectorState p (currentProfile (finishedSelectors g (t_now t))) = None"
    and "next = marshalFile (currentProfile (finishedSelectors g (t_now t)))"
    and "se_outcome out = PolicyEditOutcomeApplied" and "se_revision out = revision p (currentProfile (finishedSelectors g (t_now t)))"
proof -
  have "\<exists>ttl originID g. revision p f = expected \<and> capTTL (ed_ttl (q_edit ch)) (ed_deadline (q_edit ch)) (t_now t) = Inr ttl \<and>
    selectorState p expected ch ttl originID (t_now t) f = Inr (Some g) \<and>
    validateSelectorState p (currentProfile (finishedSelectors g (t_now t))) = None \<and>
    next = marshalFile (currentProfile (finishedSelectors g (t_now t))) \<and>
    se_outcome out = PolicyEditOutcomeApplied \<and> se_revision out = revision p (currentProfile (finishedSelectors g (t_now t)))"
    using assms unfolding changeSelectors_edit_def Let_def finishedSelectors_def [symmetric] encodeSelectorState_def
    by (auto simp: refuseSelectors_def selectorEdit_def split: option.split_asm sum.split_asm if_split_asm) blast+
  with that show ?thesis by blast
qed

text \<open>The whole of a typed write.\<close>

lemma changeSelectors_wrote:
  assumes r: "ready p" and ch: "changeSelectors p disk turns content expected ch admission = (out, err, after)"
    and nf: "\<not> found turns content after"
  obtains k c f g ttl originID where "admission" and "err = None" and "k < decisionChangeAttempts" and "found turns content c"
    and "t_authorize (turns k) = None" and "decodeDecision p c = Inr f" and "selectionsAdmitted p expected ch (turns k) f"
    and "validTTL (ed_ttl (q_edit ch))" and "ascendingSelections (q_selections ch)"
    and "capTTL (ed_ttl (q_edit ch)) (ed_deadline (q_edit ch)) (t_now (turns k)) = Inr ttl"
    and "selectorState p expected ch ttl originID (t_now (turns k)) f = Inr (Some g)"
    and "decodeDecision p after = Inr (currentProfile (finishedSelectors g (t_now (turns k))))"
    and "se_outcome out = PolicyEditOutcomeApplied" and "se_revision out = revision p (currentProfile (finishedSelectors g (t_now (turns k))))"
proof -
  have "after \<noteq> content" using nf by (auto simp: found_def)
  with ch have adm: "admission" "validTTL (ed_ttl (q_edit ch))" "ascendingSelections (q_selections ch)"
    and run: "settle (refuseSelectors PolicyEditOutcomeUnavailable)
      (change p (changeSelectors_edit p expected ch) turns (refuseSelectors PolicyEditOutcomeUnavailable) content) = (out, err, after)"
    unfolding changeSelectors_def
    by (simp_all add: changeContext_change validSelectorEdit_def split: if_split_asm option.split_asm)
  from selectors.settled_guarded [OF run nf] obtain k c f nxt d where
    k: "err = None" "k < decisionChangeAttempts" "found turns content c" "t_authorize (turns k) = None" "decodeDecision p c = Inr f"
      "selectionsAdmitted p expected ch (turns k) f"
    and e: "changeSelectors_edit p expected ch (turns k) c = (out, Inr (Some nxt))" "after = Some nxt" by (elim exE conjE) (rule that)
  from changeSelectors_edit_wrote [OF e(1) k(5)] obtain ttl originID g where
    ttl: "capTTL (ed_ttl (q_edit ch)) (ed_deadline (q_edit ch)) (t_now (turns k)) = Inr ttl"
    and g: "selectorState p expected ch ttl originID (t_now (turns k)) f = Inr (Some g)"
    and v: "validateSelectorState p (currentProfile (finishedSelectors g (t_now (turns k)))) = None"
    and nxt: "nxt = marshalFile (currentProfile (finishedSelectors g (t_now (turns k))))"
    and o1: "se_outcome out = PolicyEditOutcomeApplied" "se_revision out = revision p (currentProfile (finishedSelectors g (t_now (turns k))))" .
  let ?h = "currentProfile (finishedSelectors g (t_now (turns k)))"
  note fields = selectorState_fields [OF g]
  have "wellFormed p ?h"
    by (rule wellFormed_selectors [of p f]) (use decoded_text [OF r k(5)] v fields in \<open>simp_all\<close>)
  with decodeDecision_written [OF _ _ longNames_spelled, of p ?h] r have "decodeDecision p (Some (marshalFile ?h)) = Inr ?h"
    by (simp add: ready_def)
  with e(2) nxt have after: "decodeDecision p after = Inr ?h" by simp
  show ?thesis by (rule that [OF adm(1) k adm(2,3) ttl g after o1])
qed

text \<open>C22: A typed edit is one authorised write at the expected revision: a file that
  \<open>changeSelectors\<close> -- and so each of the six typed operations -- changed was found there with
  every selection's action catalogued, an uncompleted answer and time left; the state left has
  the same exact rules, registrations, descriptions and default switches, and the answer, if
  any, among its completed ones. An edit that preserves other setters found no live block.\<close>

theorem typed_edit_writes_selectors_only:
  assumes "ready p" and "changeSelectors p disk turns content expected ch admission = (out, err, after)"
    and "\<not> found turns content after"
  shows "\<exists>k<decisionChangeAttempts. \<exists>c f h. admission \<and> err = None \<and> found turns content c \<and> t_authorize (turns k) = None \<and>
    decodeDecision p c = Inr f \<and> selectionsAdmitted p expected ch (turns k) f \<and> decodeDecision p after = Inr h \<and>
    se_outcome out = PolicyEditOutcomeApplied \<and> se_revision out = revision p h \<and>
    rules h = rules f \<and> f_actions h = f_actions f \<and> f_descriptions h = f_descriptions f \<and> f_defaultSwitches h = f_defaultSwitches f \<and>
    f_appliedOperatorAnswers h = f_appliedOperatorAnswers f \<and>
    (\<forall>rc. q_receipt ch = Some rc \<longrightarrow> rc_id rc \<in> set (f_appliedTypedAnswers h)) \<and>
    (\<forall>r\<in>set (f_selectorRules h). \<not> selectorExpired r (t_now (turns k)))"
proof -
  from changeSelectors_wrote [OF assms] obtain k c f g ttl originID where w: "admission" "err = None" "k < decisionChangeAttempts"
    "found turns content c" "t_authorize (turns k) = None" "decodeDecision p c = Inr f" "selectionsAdmitted p expected ch (turns k) f"
    "validTTL (ed_ttl (q_edit ch))" "ascendingSelections (q_selections ch)"
    "capTTL (ed_ttl (q_edit ch)) (ed_deadline (q_edit ch)) (t_now (turns k)) = Inr ttl"
    "selectorState p expected ch ttl originID (t_now (turns k)) f = Inr (Some g)"
    "decodeDecision p after = Inr (currentProfile (finishedSelectors g (t_now (turns k))))"
    "se_outcome out = PolicyEditOutcomeApplied" "se_revision out = revision p (currentProfile (finishedSelectors g (t_now (turns k))))" .
  note fields = selectorState_fields [OF w(11)]
  show ?thesis
    by (rule exI [of _ k], intro conjI w(3), rule exI [of _ c], rule exI [of _ f],
        rule exI [of _ "currentProfile (finishedSelectors g (t_now (turns k)))"]) (use w fields in auto)
qed

theorem typed_edit_writes_selectors_only_witness:
  "\<exists>h. decodeDecision samplePolicy (Some (marshalFile (typedState False [] []))) = Inr h \<and> rules h = rules emptyState"
proof -
  from sample_deny obtain out where run: "changeSelectors samplePolicy Stored calm None (revision samplePolicy emptyState)
     (plainChange sampleApp [sampleSelection] (Some False) (sampleEdit False)) True = (out, None, Some (marshalFile (typedState False [] [])))"
    by blast
  have "\<not> found calm None (Some (marshalFile (typedState False [] [])))" by (simp add: found_def)
  from typed_edit_writes_selectors_only [OF sample_ready run this] obtain c f h where
    c: "found calm None c" "decodeDecision samplePolicy c = Inr f" and
    h: "decodeDecision samplePolicy (Some (marshalFile (typedState False [] []))) = Inr h" "rules h = rules f" by blast
  from c have "f = emptyState" by (auto simp: found_def decodeDecision_def)
  with h show ?thesis by blast
qed

subsection \<open>A selector rule takes effect\<close>

text \<open>What the owner's profiles promise: \<open>Equal\<close> is reflexive on every permission the catalogue
  defines.\<close>

definition reflexiveTargets :: "policy \<Rightarrow> bool" where
  "reflexiveTargets p \<longleftrightarrow> (\<forall>k t. SelectorDefinition (catalog p) k \<noteq> None \<longrightarrow> sameConcrete (catalog p) k t t)"

lemma prepared_defined: "PrepareSelection c s0 = Inr s \<Longrightarrow> SelectorDefinition c (ps_permission s) \<noteq> None"
  by (auto simp: PrepareSelection_def Let_def ValidSelection_def split: option.split_asm if_split_asm sum.split_asm)

lemma standing_written:
  assumes "byteEqualNames (files p)" and "freshKeys p" and "reflexiveTargets p" and "SelectorDefinition (catalog p) (ps_permission s) \<noteq> None"
    and "ttl = 0 \<or> 0 < ttl \<and> \<not> stampExpired (stamp (addDuration now ttl)) now"
  shows "standing p rvn (q_subject ch) b now s (writtenSelector ch b ttl originID now s)"
  using assms
  by (auto simp: standing_def sameSelector_def writtenSelector_def rulePermission_def ruleKind_def ruleTarget_def fresh_subject
      reflexiveTargets_def selectorExpired_def stampExpired_def)

lemma standing_matches:
  assumes "standing p rvn s b now sel r" and "freshKeys p"
    and "s_kind (ps_selector sel) = ResourceSelectorKindAll \<or> \<not> collection \<and> target = s_target (ps_selector sel)"
  shows "typedMatches p rvn' s (ps_permission sel) target collection now r"
  using assms by (auto simp: standing_def sameSelector_def typedMatches_def fresh_subject split: if_split_asm)

text \<open>C23: A selector rule takes effect: after a \<open>SetSelectorRule\<close> that changed the file, a typed
  decision on what the selection covers, at the time of the write, is denied for a deny; for a
  permit it is permitted unless a live legacy block or another live selector deny covers it.\<close>

theorem selector_rule_takes_effect:
  assumes "ready p" and "freshKeys p" and "reflexiveTargets p"
    and "SetSelectorRule p disk turns content expected rule ed admission = (out, err, after)" and "\<not> found turns content after"
    and "\<not> ed_preserveOtherSetter ed" and "\<forall>k<decisionChangeAttempts. fourDigitYear (addDuration (t_now (turns k)) MaxRuleTTL)"
    and "\<forall>d. ed_deadline ed = Some d \<longrightarrow> fourDigitYear d"
  shows "\<exists>k<decisionChangeAttempts. \<exists>h s sel. decodeDecision p after = Inr h \<and> writableSubject (files p) (sr_subject rule) = Inr s \<and>
    PrepareSelection (catalog p) (sr_selection rule) = Inr sel \<and> (\<forall>target collection.
      s_kind (ps_selector sel) = ResourceSelectorKindAll \<or> \<not> collection \<and> target = s_target (ps_selector sel) \<longrightarrow>
      typedDecision p h (revision p h) s (ps_permission sel) target collection (t_now (turns k)) =
        (if sr_permit rule \<and> \<not> legacyBlockForTyped p h (revision p h) s (ps_permission sel) target collection (t_now (turns k)) \<and>
           \<not> (\<exists>r\<in>set (f_selectorRules h). typedMatches p (revision p h) s (ps_permission sel) target collection (t_now (turns k)) r \<and>
             \<not> l_permit r)
         then DecisionOutcomePermitted else DecisionOutcomeDenied))"
proof -
  have "after \<noteq> content" using assms(5) by (auto simp: found_def)
  with assms(4) obtain s sel where s: "writableSubject (files p) (sr_subject rule) = Inr s"
      "PrepareSelection (catalog p) (sr_selection rule) = Inr sel"
    and ch: "changeSelectors p disk turns content expected (plainChange s [sel] (Some (sr_permit rule)) ed) admission = (out, err, after)"
    by (auto simp: SetSelectorRule_def split: sum.split_asm)
  let ?ch = "plainChange s [sel] (Some (sr_permit rule)) ed"
  have q: "q_selections ?ch = [sel]" "q_permit ?ch = Some (sr_permit rule)" "q_edit ?ch = ed" "q_subject ?ch = s" "q_removeOrigin ?ch = []"
    by (simp_all add: plainChange_def)
  from changeSelectors_wrote [OF assms(1) ch assms(5)] obtain k c f g ttl originID where "admission" "err = None"
    and k: "k < decisionChangeAttempts" and "found turns content c" "t_authorize (turns k) = None" "decodeDecision p c = Inr f"
    and adm: "selectionsAdmitted p expected ?ch (turns k) f" and v: "validTTL (ed_ttl (q_edit ?ch))" "ascendingSelections (q_selections ?ch)"
    and ttl: "capTTL (ed_ttl (q_edit ?ch)) (ed_deadline (q_edit ?ch)) (t_now (turns k)) = Inr ttl"
    and g: "selectorState p expected ?ch ttl originID (t_now (turns k)) f = Inr (Some g)"
    and h: "decodeDecision p after = Inr (currentProfile (finishedSelectors g (t_now (turns k))))"
    and "se_outcome out = PolicyEditOutcomeApplied" "se_revision out = revision p (currentProfile (finishedSelectors g (t_now (turns k))))" .
  let ?now = "t_now (turns k)" and ?h = "currentProfile (finishedSelectors g (t_now (turns k)))"
  have i: "byteEqualNames (files p)" using assms(1) by (simp add: ready_def longNames_def)
  have lives: "ttl = 0 \<or> 0 < ttl \<and> \<not> stampExpired (stamp (addDuration ?now ttl)) ?now"
    by (rule capTTL_lives [OF ttl v(1)]) (use assms(7,8) k q(3) in auto)
  from selectorState_rules [OF g] obtain removed where
    w: "writeSelections p expected ?ch ttl originID ?now (length (rules f)) (f_selectorRules f) False [sel] = Inr (f_selectorRules g, removed)"
    unfolding q(1,5) by auto
  have "(\<forall>x\<in>set [sel]. \<exists>r\<in>set (f_selectorRules g). standing p expected (q_subject ?ch) (sr_permit rule) ?now x r) \<and>
    (\<forall>r. rulePermission r \<notin> ps_permission ` set [sel] \<longrightarrow> (r \<in> set (f_selectorRules g) \<longleftrightarrow> r \<in> set (f_selectorRules f)))"
    by (rule writeSelections_stands [OF w q(2)])
       (use assms(6) q(3) standing_written [OF i assms(2,3) prepared_defined [OF s(2)] lives] in auto)
  then obtain r where r: "r \<in> set (f_selectorRules g)" "standing p expected s (sr_permit rule) ?now sel r" unfolding q(4) by auto
  then have rh: "r \<in> set (f_selectorRules ?h)" "l_permit r = sr_permit rule" by (auto simp: standing_def)
  have "k_action (ps_permission sel) \<in> set (catalogue p f)" using adm q(1) by (simp add: selectionsAdmitted_def)
  then have cat: "k_action (ps_permission sel) \<in> set (catalogue p ?h)" using selectorState_fields [OF g] by (simp add: catalogue_def)
  have "typedDecision p ?h (revision p ?h) s (ps_permission sel) target collection ?now =
      (if sr_permit rule \<and> \<not> legacyBlockForTyped p ?h (revision p ?h) s (ps_permission sel) target collection ?now \<and>
         \<not> (\<exists>r\<in>set (f_selectorRules ?h). typedMatches p (revision p ?h) s (ps_permission sel) target collection ?now r \<and> \<not> l_permit r)
       then DecisionOutcomePermitted else DecisionOutcomeDenied)"
    if "s_kind (ps_selector sel) = ResourceSelectorKindAll \<or> \<not> collection \<and> target = s_target (ps_selector sel)" for target collection
  proof -
    have "typedMatches p (revision p ?h) s (ps_permission sel) target collection ?now r"
      by (rule standing_matches [OF r(2) assms(2) that])
    with rh cat show ?thesis unfolding typedDecision_def typedScan_spec by auto
  qed
  with k h s show ?thesis by blast
qed

theorem selector_rule_takes_effect_witness:
  "\<exists>h. decodeDecision samplePolicy (Some (marshalFile (typedState False [] []))) = Inr h \<and>
    typedDecision samplePolicy h (revision samplePolicy h) sampleApp sampleKey (Some ''item'') False 0 = DecisionOutcomeDenied"
proof -
  from sample_set_selector obtain out where run: "SetSelectorRule samplePolicy Stored calm None (revision samplePolicy emptyState)
     \<lparr>sr_subject = sampleApp, sr_selection = sampleSelection, sr_permit = False\<rparr> (sampleEdit False) True =
   (out, None, Some (marshalFile (typedState False [] [])))" by blast
  have r: "reflexiveTargets samplePolicy"
    by (auto simp: reflexiveTargets_def sameConcrete_def SelectorDefinition_def profileOf_def sampleCatalog_def sampleKey_def sampleProfile_def
        split: if_split_asm)
  have nf: "\<not> found calm None (Some (marshalFile (typedState False [] [])))" by (simp add: found_def)
  have y: "\<forall>k<decisionChangeAttempts. fourDigitYear (addDuration (t_now (calm k)) MaxRuleTTL)"
    by (simp add: fourDigitYear_def addDuration_def MaxRuleTTL_def)
  have "\<not> ed_preserveOtherSetter (sampleEdit False)" "\<forall>d. ed_deadline (sampleEdit False) = Some d \<longrightarrow> fourDigitYear d"
    by (simp_all add: sampleEdit_def)
  from selector_rule_takes_effect [OF sample_ready sample_fresh r run nf this(1) y this(2)] obtain h s sel where
    h: "decodeDecision samplePolicy (Some (marshalFile (typedState False [] []))) = Inr h"
    and s: "writableSubject (files samplePolicy) sampleApp = Inr s" "PrepareSelection (catalog samplePolicy) sampleSelection = Inr sel"
    and d: "\<forall>target collection. s_kind (ps_selector sel) = ResourceSelectorKindAll \<or> \<not> collection \<and> target = s_target (ps_selector sel) \<longrightarrow>
      typedDecision samplePolicy h (revision samplePolicy h) s (ps_permission sel) target collection 0 = DecisionOutcomeDenied" by auto
  have "s = sampleApp" "sel = sampleSelection" using s sample_selection_valid by simp_all
  with h d show ?thesis by (simp add: allSelection_def)
qed

subsection \<open>A typed answer takes effect once\<close>

lemma typed_replay_refused:
  assumes "decodeDecision p c = Inr f" and "q_receipt ch = Some rc" and "rc_id rc \<in> set (f_appliedTypedAnswers f)"
  shows "\<nexists>next. snd (changeSelectors_edit p expected ch t c) = Inr (Some next)"
  using changeSelectors_writes [of p expected ch t c] assms by (auto simp: selectionsAdmitted_def)

lemma changeSelectors_replayed:
  assumes d: "decodeDecision p content = Inr f" and a: "q_receipt ch = Some rc" "rc_id rc \<in> set (f_appliedTypedAnswers f)"
    and m: "\<And>j c. t_fate (turns j) \<noteq> Moves c"
    and ch: "changeSelectors p disk turns content expected ch admission = (out, err, after)"
  shows "after = content"
proof (rule ccontr)
  assume ne: "after \<noteq> content"
  with m have nf: "\<not> found turns content after" by (auto simp: found_def)
  from ch ne have "settle (refuseSelectors PolicyEditOutcomeUnavailable)
      (change p (changeSelectors_edit p expected ch) turns (refuseSelectors PolicyEditOutcomeUnavailable) content) = (out, err, after)"
    unfolding changeSelectors_def by (simp_all add: changeContext_change split: if_split_asm option.split_asm)
  from change_keeps_without_writers [OF settle_change_found [OF this nf] m] typed_replay_refused [OF d a] ne show False by blast
qed

lemma ApplyPermissionEffect_call:
  assumes "ApplyPermissionEffect p disk turns content expected effect ed answer retained admission = (out, err, after)" and "after \<noteq> content"
  obtains ch where "q_receipt ch = Some \<lparr>rc_id = answer, rc_retained = sort retained\<rparr>" and "q_selections ch = ef_selections effect"
    and "ed_preserveOtherSetter (q_edit ch)" and "q_subject ch = ef_subject effect" and "q_permit ch = Some True"
    and "changeSelectors p disk turns content expected ch admission = (out, err, after)"
proof -
  let ?ch = "(plainChange (ef_subject effect) (ef_selections effect) (Some True)
            (ed\<lparr>ed_questionID := answer, ed_preserveOtherSetter := True\<rparr>))
           \<lparr>q_expansion := ef_bundle effect, q_receipt := Some \<lparr>rc_id = answer, rc_retained = sort retained\<rparr>\<rparr>"
  have "changeSelectors p disk turns content expected ?ch admission = (out, err, after)"
    using assms unfolding ApplyPermissionEffect_def by (simp split: if_split_asm)
  from that [OF _ _ _ _ _ this] show ?thesis by (simp add: plainChange_def)
qed

text \<open>C24: A typed answer takes effect once: after an \<open>ApplyPermissionEffect\<close> that changed the
  file, the answer is reported as applied, and any second application of it -- whatever its
  revision, effect, edit and admission, as long as no writer outside the lock replaces the
  file -- leaves the file as it is.\<close>

theorem typed_answer_applies_once:
  assumes "ready p" and "ApplyPermissionEffect p disk turns content expected effect ed answer retained admission = (out, err, after)"
    and "\<not> found turns content after"
    and "ApplyPermissionEffect p disk' turns' after expected' effect' ed' answer retained' admission' = (out', err', after')"
    and "\<forall>j c. t_fate (turns' j) \<noteq> Moves c"
  shows "AppliedPermissionEffect (uncachedRead p Stored (Inr after)) answer = (True, None) \<and> after' = after"
proof -
  have "after \<noteq> content" using assms(3) by (auto simp: found_def)
  from ApplyPermissionEffect_call [OF assms(2) this] obtain ch where
    rc: "q_receipt ch = Some \<lparr>rc_id = answer, rc_retained = sort retained\<rparr>"
    and ch: "changeSelectors p disk turns content expected ch admission = (out, err, after)" by metis
  from changeSelectors_wrote [OF assms(1) ch assms(3)] obtain k g ttl originID f where
    g: "selectorState p expected ch ttl originID (t_now (turns k)) f = Inr (Some g)"
    and h: "decodeDecision p after = Inr (currentProfile (finishedSelectors g (t_now (turns k))))" by metis
  have ans: "answer \<in> set (f_appliedTypedAnswers (currentProfile (finishedSelectors g (t_now (turns k)))))"
    using selectorState_fields [OF g] rc by simp
  have "after' = after"
  proof (rule ccontr)
    assume "after' \<noteq> after"
    from ApplyPermissionEffect_call [OF assms(4) this] obtain ch' where
      rc': "q_receipt ch' = Some \<lparr>rc_id = answer, rc_retained = sort retained'\<rparr>"
      and run: "changeSelectors p disk' turns' after expected' ch' admission' = (out', err', after')" by metis
    have "rc_id \<lparr>rc_id = answer, rc_retained = sort retained'\<rparr> \<in>
        set (f_appliedTypedAnswers (currentProfile (finishedSelectors g (t_now (turns k)))))" using ans by simp
    from changeSelectors_replayed [OF h rc' this _ run] assms(5) \<open>after' \<noteq> after\<close> show False by blast
  qed
  moreover have "AppliedPermissionEffect (uncachedRead p Stored (Inr after)) answer = (True, None)"
    using ans by (simp add: AppliedPermissionEffect_def uncachedRead_def regular_def h)
  ultimately show ?thesis by blast
qed

subsection \<open>An undo removes only its own\<close>

text \<open>C25: Undoing an answer removes only what it permitted: of the selector rules found, an
  \<open>UndoPermissionEffect\<close> that changed the file dropped only expired ones and live permits that
  carry the answer's ID, were set by the operator that undoes them, and match one of the
  effect's selections; it added none and left every deny.\<close>

theorem undo_removes_only_its_own:
  assumes "ready p" and "UndoPermissionEffect p disk turns content expected effect operator answer admission = (out, err, after)"
    and "\<not> found turns content after"
  shows "\<exists>k<decisionChangeAttempts. \<exists>c f h. found turns content c \<and> decodeDecision p c = Inr f \<and> revision p f = expected \<and>
    decodeDecision p after = Inr h \<and> rules h = rules f \<and> set (f_selectorRules h) \<subseteq> set (f_selectorRules f) \<and>
    (\<forall>r\<in>set (f_selectorRules f) - set (f_selectorRules h). selectorExpired r (t_now (turns k)) \<or>
      l_permit r \<and> l_questionID r = answer \<and> setByEditor p expected operator r \<and>
      (\<exists>s\<in>set (ef_selections effect). sameSelector p r (ef_subject effect) s expected True))"
proof -
  let ?ch = "(plainChange (ef_subject effect) (ef_selections effect) None
            \<lparr>ed_permit = None, ed_by = operator, ed_ttl = 0, ed_why = [], ed_exact = False, ed_preserveOtherSetter = False,
             ed_deadline = None, ed_questionID = []\<rparr>)\<lparr>q_undoID := answer\<rparr>"
  have q: "q_selections ?ch = ef_selections effect" "q_permit ?ch = None" "ed_by (q_edit ?ch) = operator" "q_subject ?ch = ef_subject effect"
    "q_removeOrigin ?ch = []" "q_undoID ?ch = answer" by (simp_all add: plainChange_def)
  have "after \<noteq> content" using assms(3) by (auto simp: found_def)
  with assms(2) have ch: "changeSelectors p disk turns content expected ?ch admission = (out, err, after)" and id: "validAnswerID answer"
    by (simp_all add: UndoPermissionEffect_def split: if_split_asm)
  from changeSelectors_wrote [OF assms(1) ch assms(3)] obtain k c f g ttl originID where k: "k < decisionChangeAttempts"
    and c: "found turns content c" "decodeDecision p c = Inr f" "selectionsAdmitted p expected ?ch (turns k) f"
    and g: "selectorState p expected ?ch ttl originID (t_now (turns k)) f = Inr (Some g)"
    and h: "decodeDecision p after = Inr (currentProfile (finishedSelectors g (t_now (turns k))))" by metis
  let ?now = "t_now (turns k)" and ?h = "currentProfile (finishedSelectors g (t_now (turns k)))"
  from selectorState_rules [OF g] obtain removed where
    w: "writeSelections p expected ?ch ttl originID ?now (length (rules f)) (f_selectorRules f) False (ef_selections effect) =
      Inr (f_selectorRules g, removed)" unfolding q(1,5) by auto
  have ne: "answer \<noteq> []" using id by (auto simp: validAnswerID_def)
  note rem = writeSelections_removes [OF w q(2)]
  have "l_permit r \<and> l_questionID r = answer \<and> setByEditor p expected operator r \<and>
      (\<exists>s\<in>set (ef_selections effect). sameSelector p r (ef_subject effect) s expected True)"
    if "r \<in> set (f_selectorRules f) - set (f_selectorRules g)" for r
    using rem that ne q by (auto simp: removesSelection_def undoes_def)
  with k c h rem selectorState_fields [OF g] show ?thesis
    by - (rule exI [of _ k], intro conjI k, rule exI [of _ c], rule exI [of _ f], rule exI [of _ ?h], auto simp: selectionsAdmitted_def)
qed

theorem typed_answer_applies_once_witness:
  "AppliedPermissionEffect (uncachedRead samplePolicy Stored (Inr (Some (marshalFile (typedState True sampleAnswer [sampleAnswer])))))
     sampleAnswer = (True, None)"
proof -
  let ?after = "Some (marshalFile (typedState True sampleAnswer [sampleAnswer]))"
  from sample_apply_effect obtain out where run: "ApplyPermissionEffect samplePolicy Stored calm None (revision samplePolicy emptyState)
    sampleEffect (sampleEdit True) sampleAnswer [sampleAnswer] True = (out, None, ?after)" by blast
  obtain out' err' after' where again: "ApplyPermissionEffect samplePolicy Stored calm ?after [] sampleEffect (sampleEdit True)
    sampleAnswer [sampleAnswer] True = (out', err', after')" by (metis prod_cases3)
  have "\<not> found calm None ?after" by (simp add: found_def)
  from typed_answer_applies_once [OF sample_ready run this again] show ?thesis by simp
qed

theorem undo_removes_only_its_own_witness:
  "\<exists>h. decodeDecision samplePolicy (Some (marshalFile undoneState)) = Inr h \<and>
    set (f_selectorRules h) \<subseteq> set (f_selectorRules (typedState True sampleAnswer [sampleAnswer]))"
proof -
  let ?f = "typedState True sampleAnswer [sampleAnswer]"
  from sample_undo obtain out where run: "UndoPermissionEffect samplePolicy Stored calm (Some (marshalFile ?f)) (revision samplePolicy ?f)
    sampleEffect (native samplePolicy) sampleAnswer True = (out, None, Some (marshalFile undoneState))" by blast
  have dec: "decodeDecision samplePolicy (Some (marshalFile ?f)) = Inr ?f" using typedState_decodes [of sampleAnswer True "[sampleAnswer]"] by simp
  have "?f \<noteq> undoneState" by (simp add: typedState_def undoneState_def emptyState_def)
  from sample_differs [OF dec conjunct1 [OF undone_decodes] this]
  have nf: "\<not> found calm (Some (marshalFile ?f)) (Some (marshalFile undoneState))" .
  from undo_removes_only_its_own [OF sample_ready run nf] obtain c f h where
    c: "found calm (Some (marshalFile ?f)) c" "decodeDecision samplePolicy c = Inr f" and
    h: "decodeDecision samplePolicy (Some (marshalFile undoneState)) = Inr h" "set (f_selectorRules h) \<subseteq> set (f_selectorRules f)" by blast
  from c dec have "f = ?f" by (auto simp: found_def)
  with h show ?thesis by blast
qed

end
