(* ===== verification/Store_Facts.thy ===== *)
theory Store_Facts
  imports Selector_Facts
begin

text \<open>
  What the storage layer promises: one write per change, one text per state, a cache that is never
  older than two seconds, program keys at most two seconds old, and a load that never
  grants.
\<close>

subsection \<open>One write per change\<close>

text \<open>C27: A change writes once: whatever an edit does and however often the file moves under it,
  the file afterwards is what it was or what a writer outside the lock left, or else the change
  reported no error and the content is exactly what one run of the edit, on a content the file
  really had, returned with the change's result -- within the byte bound and decodable.\<close>

theorem change_commits_one_write:
  "case change p edit turns r content of (r', err, after) \<Rightarrow>
     found turns content after \<or>
     (err = None \<and> (\<exists>k<decisionChangeAttempts. \<exists>c next f. found turns content c \<and> edit (turns k) c = (r', Inr (Some next)) \<and>
       after = Some next \<and> length next \<le> MaxDecisionBytes \<and> decodeDecision p after = Inr f))"
proof (cases "change p edit turns r content")
  case (fields r' err after)
  show ?thesis
  proof (cases "found turns content after")
    case False
    from change_found_or_written [OF fields False] show ?thesis
      unfolding fields by simp (metis prod.collapse)
  qed (simp add: fields)
qed

subsection \<open>Decoded states\<close>

text \<open>C28: Whatever is decoded is in bounds and in order: at most 4096 rules, at most 64 catalogued
  actions, at most 4096 completed answers, rules and selector rules in strictly ascending key
  order (so no two with one key), each valid and naming a catalogued action.\<close>

theorem decoded_states_are_bounded:
  assumes "ready p" and "decodeDecision p c = Inr f"
  shows "length (rules f) + length (f_selectorRules f) \<le> 4096 \<and> length (catalogue p f) \<le> 64 \<and>
    length (f_appliedOperatorAnswers f) + length (f_appliedTypedAnswers f) \<le> 4096 \<and>
    sorted_wrt (<) (map ruleKey (rules f)) \<and> sorted_wrt (<) (map selectorRuleKey (f_selectorRules f)) \<and>
    (\<forall>r\<in>set (rules f). validRule p f r \<and> r_action r \<in> set (catalogue p f)) \<and>
    (\<forall>r\<in>set (f_selectorRules f). validSelectorRule p f r \<and> k_action (rulePermission r) \<in> set (catalogue p f))"
proof -
  have w: "refuseState p f = None" "validateSelectorState p f = None"
    using decoded_text [OF assms] by (simp_all add: wellFormed_def)
  note R = refuseState_None [OF w(1)] and V = validateSelectorState_None [OF w(2)]
  show ?thesis
    using R(14,17,18) V(1,3,9,10)
    by (auto simp: MaxDecisionRules_def MaxDecisionActions_def MaxAppliedOperatorAnswers_def strictly_sorted_by_def sorted_wrt_map
        list_all_iff validRule_def validSelectorRule_def rulePermission_def)
qed

theorem decoded_states_are_bounded_witness:
  "sorted_wrt (<) (map ruleKey (rules grantedState)) \<and> length (catalogue samplePolicy grantedState) \<le> 64"
  using decoded_states_are_bounded [OF sample_ready enrollment_decodes(2)] by blast

text \<open>C29: One text per state: on a host without short aliases, a content decodes to a state exactly
  when the state is well-formed and the content is its encoding; nothing else is accepted, and
  everything written reads back.\<close>

theorem one_text_per_state:
  assumes "ready p"
  shows "decodeDecision p (Some data) = Inr f \<longleftrightarrow> wellFormed p f \<and> data = marshalFile f"
proof
  assume d: "decodeDecision p (Some data) = Inr f"
  from decodeDecision_Some [OF d] obtain g where g: "wellFormed p g" "data = marshalFile g"
    and f: "f = fst (canonicalizeStored (files p) g False)" by blast
  have "f = g" using f canonicalizeStored_spelled [OF longNames_spelled, of p g] assms by (simp add: ready_def)
  with g show "wellFormed p f \<and> data = marshalFile f" by simp
next
  assume "wellFormed p f \<and> data = marshalFile f"
  with decodeDecision_written [OF _ _ longNames_spelled, of p f] assms show "decodeDecision p (Some data) = Inr f"
    by (simp add: ready_def)
qed

theorem one_text_per_state_witness:
  "wellFormed samplePolicy grantedState \<and> decodeDecision samplePolicy (Some (marshalFile grantedState)) = Inr grantedState"
  using one_text_per_state [OF sample_ready, of "marshalFile grantedState" grantedState] enrollment_decodes(2) by simp

subsection \<open>Stamps\<close>

text \<open>C30: Stamps are faithful before the year 10000: a stamp parses to its instant truncated to the
  millisecond, and stamps order as their instants do.\<close>

theorem stamps_are_faithful:
  assumes "fourDigitYear t" and "fourDigitYear u" and "t div Millisecond < u div Millisecond"
  shows "parseStamp (stamp t) = Some (t div Millisecond * Millisecond) \<and> stamp t < stamp u \<and> length (stamp t) = 24"
  using parse_stamp [OF assms(1)] stamp_less [OF assms(2,3)] length_stamp [OF assms(1)] by simp

theorem stamps_are_faithful_witness:
  "parseStamp (stamp 1) = Some 0 \<and> stamp 1 < stamp 86400000000000"
proof -
  have "fourDigitYear 1" "fourDigitYear 86400000000000" "(1::nat) div Millisecond < 86400000000000 div Millisecond"
    by (simp_all add: fourDigitYear_def Millisecond_def)
  from stamps_are_faithful [OF this] show ?thesis by (simp add: Millisecond_def)
qed

subsection \<open>The decoded-state cache\<close>

text \<open>What a policy's reads, its configuration and the replacement of its definitions before it serves do to
  its cache, in the order they run under its lock. \<open>world t\<close> is the file system at instant \<open>t\<close>: what a
  stored spelling shaped like a short alias resolves to may differ from one read to the next. One
  read is one instant: the check of the cached entry, the decoding and the new entry share it. A
  configuration that fails changes nothing.\<close>

datatype cacheEvent = Reads onDisk "rights_error + bytes option" instant
  | Configures bytes "accountDefault list" "(subject \<Rightarrow> bool) option"
  | Defines "definitionCatalog option"

fun cacheStep :: "(instant \<Rightarrow> identity) \<Rightarrow> cacheEvent \<Rightarrow> policy \<times> decodedState \<Rightarrow> policy \<times> decodedState" where
  "cacheStep world (Reads disk got now) (p, c) = (p, snd (readDecision (p\<lparr>files := world now\<rparr>) disk got c now))"
| "cacheStep world (Configures acct ds excluded) (p, c) =
     (case ConfigureDefaults p c acct ds excluded of Inl e \<Rightarrow> (p, c) | Inr (q, c') \<Rightarrow> (q, c'))"
| "cacheStep world (Defines definitions) (p, c) = (p\<lparr>catalog := definitions\<rparr>, c)"

fun readInstants :: "cacheEvent list \<Rightarrow> instant list" where
  "readInstants [] = []"
| "readInstants (Reads disk got now # es) = now # readInstants es"
| "readInstants (e # es) = readInstants es"

text \<open>A cached entry is what decoding its bytes gave at the instant it carries, one of the instants
  read so far, under definitions of the digest it carries.\<close>

definition cachedAt :: "(instant \<Rightarrow> identity) \<Rightarrow> instant set \<Rightarrow> policy \<times> decodedState \<Rightarrow> bool" where
  "cachedAt world T = (\<lambda>(p, c). dc_data c \<noteq> None \<longrightarrow> dc_read c \<in> T \<and>
     (\<exists>definitions. DefinitionDigest definitions = dc_digest c \<and>
        (let q = p\<lparr>files := world (dc_read c), catalog := definitions\<rparr> in
         decodeDecision q (dc_data c) = Inr (dc_f c) \<and> dc_revision c = revision q (dc_f c))))"

lemma policy_here [simp]: "(p\<lparr>files := fs\<rparr>)\<lparr>catalog := catalog p\<rparr> = p\<lparr>files := fs\<rparr>"
  by (cases p) simp

lemma readDecision_cachedAt:
  assumes "cachedAt world T (p, c)"
  shows "cachedAt world (insert now T) (p, snd (readDecision (p\<lparr>files := world now\<rparr>) disk got c now))"
proof -
  have k: "cachedAt world (insert now T) (p, c)" using assms by (auto simp: cachedAt_def)
  have "cachedAt world (insert now T) (p, decoded_put c data f (revision (p\<lparr>files := world now\<rparr>) f) (DefinitionDigest (catalog p)) now)"
    if "decodeDecision (p\<lparr>files := world now\<rparr>) data = Inr f" for data f
  proof (cases data)
    case None
    with k show ?thesis by (simp add: decoded_put_def)
  next
    case (Some d)
    with that show ?thesis
      by (simp add: decoded_put_def cachedAt_def Let_def) (rule exI [of _ "catalog p"], simp)
  qed
  with k show ?thesis by (auto simp: readDecision_def Let_def split: option.split sum.split)
qed

lemma cacheStep_cachedAt:
  assumes "cachedAt world T s"
  shows "cachedAt world (T \<union> set (readInstants [e])) (cacheStep world e s)"
proof (cases e)
  case (Reads disk got now)
  with readDecision_cachedAt [of world T "fst s" "snd s"] assms show ?thesis by (cases s) simp
next
  case (Configures acct ds excluded)
  have "cachedAt world T (q, c')" if "ConfigureDefaults (fst s) (snd s) acct ds excluded = Inr (q, c')" for q c'
    using that by (auto simp: ConfigureDefaults_def cachedAt_def decoded_reset_def split: if_splits)
  with assms show ?thesis by (cases s) (auto simp: Configures split: sum.split)
next
  case (Defines definitions)
  with assms show ?thesis by (cases s) (simp add: cachedAt_def Let_def)
qed

lemma readInstants_Cons: "set (readInstants (e # es)) = set (readInstants [e]) \<union> set (readInstants es)"
  by (cases e) auto

lemma cacheRun_cachedAt: "cachedAt world T s \<Longrightarrow> cachedAt world (T \<union> set (readInstants es)) (fold (cacheStep world) es s)"
proof (induction es arbitrary: s T)
  case (Cons e es)
  from Cons.IH [OF cacheStep_cachedAt [OF Cons.prems, of e]] show ?case
    by (subst readInstants_Cons) (simp only: fold_simps Un_assoc)
qed simp

text \<open>C31: A cached decision state is recent: after any run of reads, of configurations and of replaced
  definitions that starts with an empty cache, a read returns exactly what reading without a cache
  would have returned for the very bytes it found, under the present configuration, for the file
  system as it was now or at an earlier read of the run less than two seconds ago, and for
  definitions of the present digest. The answer may be stale for that long and no longer.\<close>

theorem cached_state_is_recent:
  assumes "fold (cacheStep world) es (p, decoded_reset c) = (q, c')"
  shows "\<exists>t definitions. (t = now \<or> t \<in> set (readInstants es) \<and> int now - int t < 2000000000) \<and>
    DefinitionDigest definitions = DefinitionDigest (catalog q) \<and>
    fst (readDecision (q\<lparr>files := world now\<rparr>) disk got c' now) =
      uncachedRead (q\<lparr>files := world t, catalog := definitions\<rparr>) disk got"
proof -
  have "cachedAt world {} (p, decoded_reset c)" by (simp add: cachedAt_def decoded_reset_def)
  from cacheRun_cachedAt [OF this, of es] assms have inv: "cachedAt world (set (readInstants es)) (q, c')" by simp
  have reg: "regular (q\<lparr>files := fs, catalog := d\<rparr>) disk = regular q disk" "regular (q\<lparr>files := fs\<rparr>) disk = regular q disk" for fs d
    by (simp_all add: regular_def)
  show ?thesis
  proof (cases "\<exists>data hit. regular q disk = None \<and> got = Inr data \<and> decoded_get c' data (DefinitionDigest (catalog q)) now = Some hit")
    case True
    then obtain data hit where h: "regular q disk = None" "got = Inr data"
      "decoded_get c' data (DefinitionDigest (catalog q)) now = Some hit" by blast
    then have g: "dc_data c' \<noteq> None" "dc_data c' = data" "dc_digest c' = DefinitionDigest (catalog q)" "recent (dc_read c') now"
      "hit = (dc_f c', dc_revision c')"
      by (auto simp: decoded_get_def split: if_splits)
    with inv obtain d where "dc_read c' \<in> set (readInstants es)" "DefinitionDigest d = DefinitionDigest (catalog q)"
      "decodeDecision (q\<lparr>files := world (dc_read c'), catalog := d\<rparr>) data = Inr (dc_f c')"
      "dc_revision c' = revision (q\<lparr>files := world (dc_read c'), catalog := d\<rparr>) (dc_f c')"
      by (auto simp: cachedAt_def Let_def)
    with h g show ?thesis
      by (intro exI [of _ "dc_read c'"] exI [of _ d])
         (simp add: readDecision_def uncachedRead_def reg Let_def recent_def StoredKeyReuse_def)
  next
    case False
    then show ?thesis
      by (intro exI [of _ now] exI [of _ "catalog q"])
         (auto simp: readDecision_def uncachedRead_def reg Let_def split: option.split sum.split)
  qed
qed

text \<open>A file system on which aliases appear after instant 5: the read at instant 9 is served what
  instant 5 decoded.\<close>

definition sampleWorld :: "instant \<Rightarrow> identity" where
  "sampleWorld t = (if t \<le> 5 then plainIdentity else plainIdentity\<lparr>hasShortNameComponent := (\<lambda>q. True)\<rparr>)"

definition readAtFive :: decodedState where
  "readAtFive = \<lparr>dc_data = Some (marshalFile grantedState), dc_f = grantedState, dc_revision = revision samplePolicy grantedState,
     dc_digest = DefinitionDigest (catalog samplePolicy), dc_read = 5\<rparr>"

theorem cached_state_is_recent_witness:
  "fst (readDecision (samplePolicy\<lparr>files := sampleWorld 9\<rparr>) Stored (Inr (Some (marshalFile grantedState))) readAtFive 9) =
     Inr (grantedState, revision samplePolicy grantedState) \<and>
   (\<exists>t definitions. (t = 9 \<or> t = 5) \<and> DefinitionDigest definitions = DefinitionDigest (catalog samplePolicy) \<and>
     uncachedRead (samplePolicy\<lparr>files := sampleWorld t, catalog := definitions\<rparr>) Stored (Inr (Some (marshalFile grantedState))) =
       Inr (grantedState, revision samplePolicy grantedState))"
proof -
  let ?got = "Inr (Some (marshalFile grantedState))"
  have w: "samplePolicy\<lparr>files := sampleWorld 5\<rparr> = samplePolicy" by (simp add: sampleWorld_def samplePolicy_def)
  have "fold (cacheStep sampleWorld) [Reads Stored ?got 5] (samplePolicy, decoded_reset readAtFive) = (samplePolicy, readAtFive)"
    using enrollment_decodes(2) w
    by (simp add: readDecision_def regular_def decoded_get_def decoded_put_def decoded_reset_def readAtFive_def Let_def)
  from cached_state_is_recent [OF this, of 9 Stored ?got] obtain t d where
    t: "t = 9 \<or> t \<in> set (readInstants [Reads Stored ?got 5]) \<and> int 9 - int t < 2000000000"
    "DefinitionDigest d = DefinitionDigest (catalog samplePolicy)"
    "fst (readDecision (samplePolicy\<lparr>files := sampleWorld 9\<rparr>) Stored ?got readAtFive 9) =
      uncachedRead (samplePolicy\<lparr>files := sampleWorld t, catalog := d\<rparr>) Stored ?got" by blast
  have hit: "fst (readDecision (samplePolicy\<lparr>files := sampleWorld 9\<rparr>) Stored ?got readAtFive 9) =
      Inr (grantedState, revision samplePolicy grantedState)"
    by (simp add: readDecision_def regular_def decoded_get_def readAtFive_def recent_def StoredKeyReuse_def Let_def)
  then have "uncachedRead (samplePolicy\<lparr>files := sampleWorld t, catalog := d\<rparr>) Stored ?got =
      Inr (grantedState, revision samplePolicy grantedState)" using t(3) by (simp only:)
  moreover have "t = 9 \<or> t = 5" using t(1) by (simp only: readInstants.simps list.set empty_iff insert_iff) blast
  ultimately show ?thesis using t(2) hit by blast
qed

subsection \<open>Stored program keys\<close>

fun keyRun :: "(instant \<Rightarrow> bytes \<Rightarrow> bytes) \<Rightarrow> storedKeys \<Rightarrow> (bytes \<times> bytes \<times> instant) list \<Rightarrow> bytes list" where
  "keyRun world c [] = []"
| "keyRun world c ((rvn, prog, now) # es) =
     (case storedKeys_key (world now) c rvn prog now of (key, c') \<Rightarrow> key # keyRun world c' es)"

lemma keyRun_truthful:
  "truthful world c \<Longrightarrow> list_all2 (\<lambda>(rvn, prog, now) key. \<exists>read. recent read now \<and> key = world read prog) es (keyRun world c es)"
proof (induction es arbitrary: c)
  case (Cons e es)
  obtain rvn prog now where e: "e = (rvn, prog, now)" by (cases e)
  obtain key c' where k: "storedKeys_key (world now) c rvn prog now = (key, c')" by fastforce
  from storedKeys_key_truthful [OF Cons.prems k] Cons.IH [of c'] show ?case by (simp add: e k)
qed simp

text \<open>A stored program key is never stale: over any run of lookups, each answer is the key the
  file system gave for that program at an instant less than two seconds before the lookup,
  however the files and the revisions changed meanwhile.\<close>

theorem stored_keys_are_recent:
  "list_all2 (\<lambda>(rvn, prog, now) key. \<exists>read. int now - int read < 2000000000 \<and> key = world read prog)
     es (keyRun world \<lparr>sk_revision = [], sk_keys = None\<rparr> es)"
  using keyRun_truthful [of world "\<lparr>sk_revision = [], sk_keys = None\<rparr>" es]
  by (simp add: truthful_def recent_def StoredKeyReuse_def)

subsection \<open>Merging spellings of one program\<close>

text \<open>C32: Merging never grants: where program keys are an equivalence, a target the merged rules
  permit was permitted by a live rule before, and no rule on that target, live or expired, was
  a deny; and each target is decided by one rule.\<close>

theorem merging_never_grants:
  assumes "programClasses fs (keyOnce fs)" and "livePermit fs (mergeRules fs rs) s action resource now (keyOnce fs)"
  shows "livePermit fs rs s action resource now (keyOnce fs) \<and>
    (\<forall>r\<in>set rs. sameTarget fs r s action resource (keyOnce fs) \<longrightarrow> r_permit r) \<and>
    (\<forall>x\<in>set (mergeRules fs rs). \<forall>y\<in>set (mergeRules fs rs). sameTarget fs x s action resource (keyOnce fs) \<and>
      sameTarget fs y s action resource (keyOnce fs) \<longrightarrow> x = y)"
  using mergeRules_never_grants [OF assms] merged_one [OF assms(1)] by (simp add: mergeRules_def) blast

theorem merging_never_grants_witness:
  "livePermit plainIdentity [sampleGrant] sampleApp ''demo/read'' ''x'' 0 (keyOnce plainIdentity)"
proof -
  have t: "sameTarget plainIdentity sampleGrant sampleApp ''demo/read'' ''x'' (keyOnce plainIdentity)"
    by (simp add: sampleGrant_def plainIdentity_byteEqual)
  have p: "r_permit sampleGrant" by (simp add: sampleGrant_def)
  have "livePermit plainIdentity (mergeRules plainIdentity [sampleGrant]) sampleApp ''demo/read'' ''x'' 0 (keyOnce plainIdentity)"
    using t p sample_live(2) by (simp add: livePermit_def mergeRules_def)
  from merging_never_grants [OF plain_programClasses this] show ?thesis by blast
qed

end
