(* ===== verification/Host.thy ===== *)
theory Host
  imports Store_Facts Page_Text
begin

text \<open>
  The host of package authorization (host.go, receiver.go, operator.go, selector.go,
  descriptions.go, permission.go): who may call, what each call asks of the policy, and what it
  answers. A call's evidence is read at every admission, so one call holds a sequence of them.
  The callbacks a composition configures, the peer's proof and the session's context are
  parameters; connections, slots and goroutines are not modelled.
\<close>

subsection \<open>Peers\<close>

datatype osUser = WindowsUser bytes | PosixUser int | OtherUser

text \<open>What the identity package proves of a peer: that the proof suffices, the user, the program.\<close>

record peer =
  peer_check :: "rights_error option"
  peer_user :: "rights_error + osUser"
  peer_program :: "rights_error + bytes"

definition itoaInt :: "int \<Rightarrow> bytes" where
  "itoaInt n = (if n < 0 then CHR ''-'' # itoa (nat (- n)) else itoa (nat n))"

definition SubjectFromPeer :: "peer option \<Rightarrow> rights_error + subject" where
  "SubjectFromPeer peer = (case peer of
     None \<Rightarrow> Inl (ErrOther ''rights: native subject evidence required'')
   | Some p \<Rightarrow> (case peer_check p of
       Some e \<Rightarrow> Inl e
     | None \<Rightarrow> (case peer_user p of
         Inl e \<Rightarrow> Inl e
       | Inr u \<Rightarrow>
          let acct = (case u of WindowsUser sid \<Rightarrow> sid | PosixUser uid \<Rightarrow> if uid \<ge> 0 then itoaInt uid else [] | OtherUser \<Rightarrow> []) in
          (case peer_program p of
             Inl e \<Rightarrow> Inl (ErrOther ''rights: native subject account/program unavailable'')
           | Inr prog \<Rightarrow>
               if acct = [] then Inl (ErrOther ''rights: native subject account/program unavailable'')
               else Inr \<lparr>account = acct, program = prog\<rparr>))))"

subsection \<open>Hosts and calls\<close>

text \<open>A runtime callback runs the edit of a retained answer with the recheck it is given; it is
  trusted composition, outside the repository.\<close>

type_synonym 'r callback = "subject \<Rightarrow> bytes \<Rightarrow> bytes \<Rightarrow> (nat \<Rightarrow> turn) \<Rightarrow> bytes option \<Rightarrow> 'r \<times> rights_error option \<times> bytes option"

record host =
  h_owner :: bytes
  h_policy :: policy
  h_operatorEpoch :: bytes
  h_serving :: bool
  h_closed :: bool
  h_operator :: bool
  h_enforcer :: "(peer option \<Rightarrow> bytes \<Rightarrow> bytes \<Rightarrow> bool) option"
  h_selectorEnforcer :: "(peer option \<Rightarrow> PermissionSelection \<Rightarrow> bool) option"
  h_firstUseAllow :: "PolicyEdit callback option"
  h_permissionAllow :: "SelectorEdit callback option"
  h_permissionUndo :: "SelectorEdit callback option"

text \<open>One look at the call: its context, the peer behind it, what the configured operator check
  says of that peer, and the context once more.\<close>

record evidence =
  e_ctx :: "rights_error option"
  e_peer :: "rights_error + peer option"
  e_operator :: "rights_error option"
  e_ctxAfter :: "rights_error option"

definition caller :: "evidence \<Rightarrow> rights_error + subject" where
  "caller ev = (case e_peer ev of Inl e \<Rightarrow> Inl e | Inr p \<Rightarrow> SubjectFromPeer p)"

definition peerOf :: "evidence \<Rightarrow> peer option" where
  "peerOf ev = (case e_peer ev of Inl e \<Rightarrow> None | Inr p \<Rightarrow> p)"

definition authorize :: "host \<Rightarrow> evidence \<Rightarrow> rights_error + subject" where
  "authorize h ev = (case e_ctx ev of
     Some e \<Rightarrow> Inl e
   | None \<Rightarrow> (case caller ev of
       Inl e \<Rightarrow> Inl ErrOperatorForbidden
     | Inr s \<Rightarrow>
         if account s \<noteq> h_owner h \<or> \<not> h_operator h then Inl ErrOperatorForbidden
         else (case e_operator ev of
           Some e \<Rightarrow> Inl e
         | None \<Rightarrow> (case e_ctxAfter ev of Some e \<Rightarrow> Inl e | None \<Rightarrow> Inr s))))"

text \<open>The closure handed to an edit: each run of the edit looks again.\<close>

definition rechecked :: "host \<Rightarrow> (nat \<Rightarrow> evidence) \<Rightarrow> (nat \<Rightarrow> turn) \<Rightarrow> nat \<Rightarrow> turn" where
  "rechecked h looks turns k = (turns k)\<lparr>t_authorize := (case authorize h (looks k) of Inl e \<Rightarrow> Some e | Inr s \<Rightarrow> None)\<rparr>"

subsection \<open>Refusals\<close>

definition operatorPageError :: "rights_error \<Rightarrow> PolicyPageOutcome" where
  "operatorPageError e = (if e = ErrOperatorForbidden then PolicyPageOutcomeForbidden else PolicyPageOutcomeUnavailable)"

definition operatorPolicyError :: "rights_error \<Rightarrow> PolicyEditOutcome" where
  "operatorPolicyError e =
     (if e = ErrOperatorForbidden then PolicyEditOutcomeForbidden
      else case e of ErrUnresolvedShortName s \<Rightarrow> PolicyEditOutcomeInvalid | _ \<Rightarrow> PolicyEditOutcomeUnavailable)"

definition operatorRuleError :: "rights_error \<Rightarrow> RuleReadOutcome" where
  "operatorRuleError e = (if e = ErrOperatorForbidden then RuleReadOutcomeForbidden else RuleReadOutcomeUnavailable)"

definition operatorDecisionError :: "rights_error \<Rightarrow> DecisionOutcome" where
  "operatorDecisionError e = (if e = ErrOperatorForbidden then DecisionOutcomeForbidden else DecisionOutcomeUnavailable)"

definition operatorActionError :: "rights_error \<Rightarrow> ActionEditOutcome" where
  "operatorActionError e = (if e = ErrOperatorForbidden then ActionEditOutcomeForbidden else ActionEditOutcomeUnavailable)"

subsection \<open>Configuration\<close>

definition EnableOperator :: "host \<Rightarrow> bool \<Rightarrow> rights_error + host" where
  "EnableOperator h given =
     (if h_serving h \<or> h_closed h then Inl (ErrOther ''rights: configure operator before Serve'')
      else if \<not> given then Inl (ErrOther ''rights: operator authorization required'')
      else Inr (h\<lparr>h_operator := True\<rparr>))"

definition EnableFirstUseAllow :: "host \<Rightarrow> PolicyEdit callback option \<Rightarrow> rights_error + host" where
  "EnableFirstUseAllow h apply1 =
     (if h_serving h \<or> h_closed h \<or> apply1 = None then Inl (ErrOther ''rights: configure first-use Allow before Serve'')
      else Inr (h\<lparr>h_firstUseAllow := apply1\<rparr>))"

definition EnablePermissionEffects :: "host \<Rightarrow> SelectorEdit callback option \<Rightarrow> SelectorEdit callback option \<Rightarrow> rights_error + host" where
  "EnablePermissionEffects h apply1 undo =
     (if h_serving h \<or> h_closed h \<or> apply1 = None \<or> undo = None
      then Inl (ErrOther ''rights: configure typed permission effects before Serve'')
      else Inr (h\<lparr>h_permissionAllow := apply1, h_permissionUndo := undo\<rparr>))"

definition EnableSelectorEnforcer :: "host \<Rightarrow> (peer option \<Rightarrow> PermissionSelection \<Rightarrow> bool) option \<Rightarrow> rights_error + host" where
  "EnableSelectorEnforcer h enforce =
     (if h_serving h \<or> h_closed h \<or> enforce = None \<or> \<not> HasSelectors (catalog (h_policy h))
      then Inl (ErrOther ''rights: configure typed enforcer and definitions before Serve'')
      else Inr (h\<lparr>h_selectorEnforcer := enforce\<rparr>))"

definition Available :: "host \<Rightarrow> bool" where
  "Available h \<longleftrightarrow> \<not> h_closed h"

definition OperatorAvailable :: "host \<Rightarrow> bool" where
  "OperatorAvailable h \<longleftrightarrow> h_operator h \<and> \<not> h_closed h"

definition SelectorAvailable :: "host \<Rightarrow> bool" where
  "SelectorAvailable h \<longleftrightarrow> \<not> h_closed h \<and> HasSelectors (catalog (h_policy h))"

definition SelectorOperatorAvailable :: "host \<Rightarrow> bool" where
  "SelectorOperatorAvailable h \<longleftrightarrow> SelectorAvailable h \<and> OperatorAvailable h"

subsection \<open>The operator's edits\<close>

text \<open>
  What one call meets: its evidence at entry and at a last look, the context's and the
  session's own recheck before a decision, the evidence and the turn of
  each run of an edit, the clock before the edit, the state a read returns, the file.
\<close>

record visit =
  v_entry :: evidence
  v_again :: evidence
  v_ctx :: "rights_error option"
  v_recheck :: "rights_error option"
  v_looks :: "nat \<Rightarrow> evidence"
  v_turns :: "nat \<Rightarrow> turn"
  v_now :: instant
  v_snapshot :: snapshot
  v_disk :: onDisk
  v_content :: "bytes option"

text \<open>The shape of every edit of the operator receivers: admission at entry, the policy's edit
  with the recheck, an outcome for an error.\<close>

definition operatorEdit :: "host \<Rightarrow> visit \<Rightarrow> (rights_error \<Rightarrow> 'r) \<Rightarrow>
    (subject \<Rightarrow> (nat \<Rightarrow> turn) \<Rightarrow> bytes option \<Rightarrow> 'r \<times> rights_error option \<times> bytes option) \<Rightarrow> 'r \<times> bytes option" where
  "operatorEdit h v refuse run = (case authorize h (v_entry v) of
     Inl e \<Rightarrow> (refuse e, v_content v)
   | Inr by \<Rightarrow> (case run by (rechecked h (v_looks v) (v_turns v)) (v_content v) of
       (r, None, after) \<Rightarrow> (r, after)
     | (r, Some e, after) \<Rightarrow> (refuse e, after)))"

definition refusedPolicy :: "rights_error \<Rightarrow> PolicyEdit" where
  "refusedPolicy e = policyEdit (operatorPolicyError e) [] None"

definition noEdit :: ruleEdit where
  "noEdit = \<lparr>ed_permit = None, ed_by = \<lparr>account = [], program = []\<rparr>, ed_ttl = 0, ed_why = [], ed_exact = False,
     ed_preserveOtherSetter = False, ed_deadline = None, ed_questionID = []\<rparr>"

text \<open>A \<open>ttl_ms\<close> outside the bound becomes a lifetime no edit accepts.\<close>

definition selectorTTL :: "int \<Rightarrow> duration" where
  "selectorTTL ms = (if ms < 0 \<or> ms > MaxRuleTTL div 1000000 then - 1 else ms * 1000000)"

definition receiver_edit :: "host \<Rightarrow> visit \<Rightarrow> bytes \<Rightarrow> subject \<Rightarrow> bytes \<Rightarrow> bytes \<Rightarrow> ruleEdit \<Rightarrow> PolicyEdit \<times> bytes option" where
  "receiver_edit h v expected subj action resource ed = operatorEdit h v refusedPolicy
     (\<lambda>by turns content. ChangeRule (h_policy h) (v_disk v) turns content (v_now v) expected subj action resource
        (ed\<lparr>ed_by := by\<rparr>) True)"

definition receiver_SetRule :: "host \<Rightarrow> visit \<Rightarrow> bytes \<Rightarrow> PolicyRule \<Rightarrow> PolicyEdit \<times> bytes option" where
  "receiver_SetRule h v expected rule = receiver_edit h v expected (pr_subject rule) (pr_action rule) (pr_resource rule)
     (noEdit\<lparr>ed_permit := Some (pr_permit rule)\<rparr>)"

definition receiver_RevokeRule :: "host \<Rightarrow> visit \<Rightarrow> bytes \<Rightarrow> subject \<Rightarrow> bytes \<Rightarrow> bytes \<Rightarrow> PolicyEdit \<times> bytes option" where
  "receiver_RevokeRule h v expected subj action resource = receiver_edit h v expected subj action resource noEdit"

definition receiver_SetRuleFor :: "host \<Rightarrow> visit \<Rightarrow> bytes \<Rightarrow> PolicyRule \<Rightarrow> int \<Rightarrow> bytes \<Rightarrow> PolicyEdit \<times> bytes option" where
  "receiver_SetRuleFor h v expected rule ttlMS why =
     receiver_edit h v expected (pr_subject rule) (pr_action rule) (pr_resource rule)
       (noEdit\<lparr>ed_permit := Some (pr_permit rule), ed_ttl := selectorTTL ttlMS, ed_why := why, ed_exact := True\<rparr>)"

definition receiver_SetRulesFor :: "host \<Rightarrow> visit \<Rightarrow> bytes \<Rightarrow> PolicyRule list \<Rightarrow> int \<Rightarrow> bytes \<Rightarrow> PolicyEdit \<times> bytes option" where
  "receiver_SetRulesFor h v expected grp ttlMS why =
     (if length grp < 1 \<or> length grp > 2 then (invalidEdit, v_content v)
      else operatorEdit h v refusedPolicy (\<lambda>by turns content. ChangeRules (h_policy h) (v_disk v) turns content expected grp
        (noEdit\<lparr>ed_permit := Some (pr_permit (hd grp)), ed_by := by, ed_ttl := selectorTTL ttlMS, ed_why := why,
           ed_exact := True\<rparr>) True))"

definition receiver_StopAnswerer :: "host \<Rightarrow> visit \<Rightarrow> bytes \<Rightarrow> subject \<Rightarrow> bool \<Rightarrow> PolicyEdit \<times> bytes option" where
  "receiver_StopAnswerer h v expected answerer alsoRevokeGrants = operatorEdit h v refusedPolicy
     (\<lambda>by turns content. StopAnswerer (h_policy h) (v_disk v) turns content expected answerer alsoRevokeGrants True)"

definition receiver_RevokeAnswerPermits :: "host \<Rightarrow> visit \<Rightarrow> bytes \<Rightarrow> subject \<Rightarrow> subject \<Rightarrow> bytes list \<Rightarrow> bytes \<Rightarrow> bytes \<Rightarrow>
    PolicyEdit \<times> bytes option" where
  "receiver_RevokeAnswerPermits h v expected answerer tgt acts resource questionID = operatorEdit h v refusedPolicy
     (\<lambda>by turns content. RevokeAnswerPermits (h_policy h) (v_disk v) turns content expected answerer tgt acts resource questionID True)"

definition receiver_SetDefault :: "host \<Rightarrow> visit \<Rightarrow> bytes \<Rightarrow> bytes \<Rightarrow> bool \<Rightarrow> DefaultEdit \<times> bytes option" where
  "receiver_SetDefault h v expected name on = operatorEdit h v (\<lambda>e. defaultEdit (operatorPolicyError e) [] None)
     (\<lambda>by turns content. SetDefault (h_policy h) (v_disk v) turns content (v_now v) expected name on by True)"

definition receiver_editAction :: "host \<Rightarrow> visit \<Rightarrow> bytes \<Rightarrow> bytes \<Rightarrow> bool \<Rightarrow> ActionEdit \<times> bytes option" where
  "receiver_editAction h v expected action register = operatorEdit h v (\<lambda>e. actionEdit (operatorActionError e) [] None)
     (\<lambda>by turns content. EditAction (h_policy h) (v_disk v) turns content (v_now v) expected action register by True)"

definition receiver_RegisterDescribedAction :: "host \<Rightarrow> visit \<Rightarrow> bytes \<Rightarrow> ActionDescription \<Rightarrow> DescriptionEdit \<times> bytes option" where
  "receiver_RegisterDescribedAction h v expected desc = operatorEdit h v (\<lambda>e. descriptionEdit (operatorActionError e) [] None)
     (\<lambda>by turns content. PublishAction (h_policy h) (v_disk v) turns content expected desc by True)"

definition receiver_ApplyFirstUseAllow :: "host \<Rightarrow> visit \<Rightarrow> bytes \<Rightarrow> bytes \<Rightarrow> PolicyEdit \<times> bytes option" where
  "receiver_ApplyFirstUseAllow h v expected answer = operatorEdit h v refusedPolicy (\<lambda>by turns content.
     if \<not> boundedDecisionString expected 128 \<or> \<not> boundedDecisionString answer 128 then (invalidEdit, None, content)
     else case h_firstUseAllow h of
       None \<Rightarrow> (unavailableEdit, None, content)
     | Some apply1 \<Rightarrow> apply1 by expected answer turns content)"

subsection \<open>The operator's typed edits\<close>

definition refusedSelectors :: "rights_error \<Rightarrow> SelectorEdit" where
  "refusedSelectors e = refuseSelectors (operatorPolicyError e)"

definition selector_edit :: "host \<Rightarrow> visit \<Rightarrow> subject \<Rightarrow>
    (subject \<Rightarrow> (nat \<Rightarrow> turn) \<Rightarrow> bytes option \<Rightarrow> SelectorEdit \<times> rights_error option \<times> bytes option) \<Rightarrow> SelectorEdit \<times> bytes option" where
  "selector_edit h v subj run = operatorEdit h v refusedSelectors (\<lambda>by turns content.
     if account subj \<noteq> h_owner h then (refuseSelectors PolicyEditOutcomeForbidden, None, content)
     else if \<not> SelectorAvailable h then (refuseSelectors PolicyEditOutcomeUnavailable, None, content)
     else run by turns content)"

definition selector_SetSelectorRule :: "host \<Rightarrow> visit \<Rightarrow> bytes \<Rightarrow> SelectorRule \<Rightarrow> int \<Rightarrow> bytes \<Rightarrow> SelectorEdit \<times> bytes option" where
  "selector_SetSelectorRule h v expected rule ttlMS why = selector_edit h v (sr_subject rule) (\<lambda>by turns content.
     SetSelectorRule (h_policy h) (v_disk v) turns content expected rule
       (noEdit\<lparr>ed_by := by, ed_ttl := selectorTTL ttlMS, ed_why := why\<rparr>) True)"

definition selector_RemoveSelectorRule :: "host \<Rightarrow> visit \<Rightarrow> bytes \<Rightarrow> subject \<Rightarrow> PermissionSelection \<Rightarrow> SelectorEdit \<times> bytes option" where
  "selector_RemoveSelectorRule h v expected subj selection = selector_edit h v subj (\<lambda>by turns content.
     RemoveSelectorRule (h_policy h) (v_disk v) turns content expected subj selection (noEdit\<lparr>ed_by := by\<rparr>) True)"

definition selector_ApplyBundle :: "host \<Rightarrow> visit \<Rightarrow> bytes \<Rightarrow> subject \<Rightarrow> bytes \<Rightarrow> ResourceSelector \<Rightarrow> int \<Rightarrow> bytes \<Rightarrow>
    SelectorEdit \<times> bytes option" where
  "selector_ApplyBundle h v expected subj ref selector ttlMS why = selector_edit h v subj (\<lambda>by turns content.
     ApplyBundle (h_policy h) (v_disk v) turns content expected subj ref selector
       (noEdit\<lparr>ed_by := by, ed_ttl := selectorTTL ttlMS, ed_why := why\<rparr>) True)"

definition selector_RemoveBundle :: "host \<Rightarrow> visit \<Rightarrow> bytes \<Rightarrow> subject \<Rightarrow> bytes \<Rightarrow> SelectorEdit \<times> bytes option" where
  "selector_RemoveBundle h v expected subj origin = selector_edit h v subj (\<lambda>by turns content.
     RemoveBundle (h_policy h) (v_disk v) turns content expected subj origin (noEdit\<lparr>ed_by := by\<rparr>) True)"

definition selector_permissionEffect :: "host \<Rightarrow> visit \<Rightarrow> bytes \<Rightarrow> bytes \<Rightarrow> bool \<Rightarrow> SelectorEdit \<times> bytes option" where
  "selector_permissionEffect h v expected answer undo = operatorEdit h v refusedSelectors (\<lambda>by turns content.
     if \<not> boundedDecisionString expected 128 \<or> \<not> boundedDecisionString answer 128
     then (refuseSelectors PolicyEditOutcomeInvalid, None, content)
     else case (if undo then h_permissionUndo h else h_permissionAllow h) of
       None \<Rightarrow> (refuseSelectors PolicyEditOutcomeUnavailable, None, content)
     | Some run \<Rightarrow> run by expected answer turns content)"

subsection \<open>The edits the operator interfaces name\<close>

datatype operatorCall =
    CallRegisterDescribedAction bytes ActionDescription
  | CallApplyFirstUseAllow bytes bytes
  | CallSetRule bytes PolicyRule
  | CallRevokeRule bytes subject bytes bytes
  | CallStopAnswerer bytes subject bool
  | CallRevokeAnswerPermits bytes subject subject "bytes list" bytes bytes
  | CallSetRuleFor bytes PolicyRule int bytes
  | CallSetRulesFor bytes "PolicyRule list" int bytes
  | CallRegisterAction bytes bytes
  | CallRetireAction bytes bytes
  | CallSetDefault bytes bytes bool

datatype selectorCall =
    CallSetSelectorRule bytes SelectorRule int bytes
  | CallRemoveSelectorRule bytes subject PermissionSelection
  | CallApplyBundle bytes subject bytes ResourceSelector int bytes
  | CallRemoveBundle bytes subject bytes
  | CallApplyPermissionAllow bytes bytes
  | CallUndoPermissionEffect bytes bytes

text \<open>The revision a call expects, and the file after the handler the dispatcher picks for it.\<close>

fun expectedOf :: "operatorCall \<Rightarrow> bytes" where
  "expectedOf (CallRegisterDescribedAction expected d) = expected"
| "expectedOf (CallApplyFirstUseAllow expected answer) = expected"
| "expectedOf (CallSetRule expected rule) = expected"
| "expectedOf (CallRevokeRule expected s action resource) = expected"
| "expectedOf (CallStopAnswerer expected a also) = expected"
| "expectedOf (CallRevokeAnswerPermits expected a s acts resource q) = expected"
| "expectedOf (CallSetRuleFor expected rule ttlMS why) = expected"
| "expectedOf (CallSetRulesFor expected grp ttlMS why) = expected"
| "expectedOf (CallRegisterAction expected action) = expected"
| "expectedOf (CallRetireAction expected action) = expected"
| "expectedOf (CallSetDefault expected name on) = expected"

fun fileAfter :: "host \<Rightarrow> visit \<Rightarrow> operatorCall \<Rightarrow> bytes option" where
  "fileAfter h v (CallRegisterDescribedAction expected d) = snd (receiver_RegisterDescribedAction h v expected d)"
| "fileAfter h v (CallApplyFirstUseAllow expected answer) = snd (receiver_ApplyFirstUseAllow h v expected answer)"
| "fileAfter h v (CallSetRule expected rule) = snd (receiver_SetRule h v expected rule)"
| "fileAfter h v (CallRevokeRule expected s action resource) = snd (receiver_RevokeRule h v expected s action resource)"
| "fileAfter h v (CallStopAnswerer expected a also) = snd (receiver_StopAnswerer h v expected a also)"
| "fileAfter h v (CallRevokeAnswerPermits expected a s acts resource q) =
     snd (receiver_RevokeAnswerPermits h v expected a s acts resource q)"
| "fileAfter h v (CallSetRuleFor expected rule ttlMS why) = snd (receiver_SetRuleFor h v expected rule ttlMS why)"
| "fileAfter h v (CallSetRulesFor expected grp ttlMS why) = snd (receiver_SetRulesFor h v expected grp ttlMS why)"
| "fileAfter h v (CallRegisterAction expected action) = snd (receiver_editAction h v expected action True)"
| "fileAfter h v (CallRetireAction expected action) = snd (receiver_editAction h v expected action False)"
| "fileAfter h v (CallSetDefault expected name on) = snd (receiver_SetDefault h v expected name on)"

fun expectedSelectors :: "selectorCall \<Rightarrow> bytes" where
  "expectedSelectors (CallSetSelectorRule expected rule ttlMS why) = expected"
| "expectedSelectors (CallRemoveSelectorRule expected s selection) = expected"
| "expectedSelectors (CallApplyBundle expected s ref selector ttlMS why) = expected"
| "expectedSelectors (CallRemoveBundle expected s origin) = expected"
| "expectedSelectors (CallApplyPermissionAllow expected answer) = expected"
| "expectedSelectors (CallUndoPermissionEffect expected answer) = expected"

fun fileAfterSelectors :: "host \<Rightarrow> visit \<Rightarrow> selectorCall \<Rightarrow> bytes option" where
  "fileAfterSelectors h v (CallSetSelectorRule expected rule ttlMS why) = snd (selector_SetSelectorRule h v expected rule ttlMS why)"
| "fileAfterSelectors h v (CallRemoveSelectorRule expected s selection) = snd (selector_RemoveSelectorRule h v expected s selection)"
| "fileAfterSelectors h v (CallApplyBundle expected s ref selector ttlMS why) =
     snd (selector_ApplyBundle h v expected s ref selector ttlMS why)"
| "fileAfterSelectors h v (CallRemoveBundle expected s origin) = snd (selector_RemoveBundle h v expected s origin)"
| "fileAfterSelectors h v (CallApplyPermissionAllow expected answer) = snd (selector_permissionEffect h v expected answer False)"
| "fileAfterSelectors h v (CallUndoPermissionEffect expected answer) = snd (selector_permissionEffect h v expected answer True)"

subsection \<open>Decisions\<close>

definition forbiddenDecision :: Decision where
  "forbiddenDecision = \<lparr>d_outcome = DecisionOutcomeForbidden, d_policyRevision = []\<rparr>"

text \<open>The caller's own subject, when its account is the owner's.\<close>

definition ownCaller :: "host \<Rightarrow> visit \<Rightarrow> subject option" where
  "ownCaller h v = (case caller (v_entry v) of Inl e \<Rightarrow> None | Inr s \<Rightarrow> if account s = h_owner h then Some s else None)"

definition receiver_Decide :: "host \<Rightarrow> visit \<Rightarrow> bytes \<Rightarrow> bytes \<Rightarrow> Decision" where
  "receiver_Decide h v action resource = (case ownCaller h v of
     None \<Rightarrow> forbiddenDecision
   | Some s \<Rightarrow> Decide (h_policy h) (v_snapshot v) (v_now v) s action resource)"

text \<open>A designated enforcer asks for another subject of the same owner; the session is proved
  again just before the policy decides.\<close>

definition receiver_DecideFor :: "host \<Rightarrow> visit \<Rightarrow> subject \<Rightarrow> bytes \<Rightarrow> bytes \<Rightarrow> rights_error + Decision" where
  "receiver_DecideFor h v subj action resource = (case (ownCaller h v, h_enforcer h) of
     (Some s, Some enforce) \<Rightarrow>
       if account subj \<noteq> h_owner h \<or> \<not> enforce (peerOf (v_entry v)) action resource then Inr forbiddenDecision
       else (case v_ctx v of
         Some e \<Rightarrow> Inl e
       | None \<Rightarrow> if v_recheck v \<noteq> None then Inr forbiddenDecision
           else Inr (Decide (h_policy h) (v_snapshot v) (v_now v) subj action resource))
   | _ \<Rightarrow> Inr forbiddenDecision)"

definition batchRefusal :: "BatchCheckOutcome \<Rightarrow> BatchDecision" where
  "batchRefusal out = \<lparr>bd_outcome = out, bd_revision = [], bd_collectionOutcome = None, bd_outcomes = []\<rparr>"

text \<open>A direct application names its owner's documents; each is prepared as a selection of one.\<close>

fun prepareResources :: "definitionCatalog option \<Rightarrow> ConcreteResource list \<Rightarrow> rights_error + ConcreteResource list" where
  "prepareResources c [] = Inr []"
| "prepareResources c (r # rs) = (case PrepareSelection c (oneSelection (cr_permission r) (cr_target r)) of
     Inl e \<Rightarrow> Inl e
   | Inr s \<Rightarrow> (case prepareResources c rs of
       Inl e \<Rightarrow> Inl e
     | Inr qs \<Rightarrow> Inr (\<lparr>cr_permission = ps_permission s, cr_target = s_target (ps_selector s)\<rparr> # qs)))"

definition selector_CheckBatch :: "host \<Rightarrow> visit \<Rightarrow> CheckBatchRequest \<Rightarrow> BatchDecision" where
  "selector_CheckBatch h v req = (case ownCaller h v of
     None \<Rightarrow> batchRefusal BatchCheckOutcomeForbidden
   | Some s \<Rightarrow>
      if \<not> SelectorAvailable h then batchRefusal BatchCheckOutcomeUnavailable
      else if length (cb_resources req) > MaxBatchResources then batchRefusal BatchCheckOutcomeInvalid
      else (case prepareResources (catalog (h_policy h)) (cb_resources req) of
        Inl e \<Rightarrow> batchRefusal (if e = ErrPermissionUnavailable then BatchCheckOutcomeUnavailable else BatchCheckOutcomeInvalid)
      | Inr rs \<Rightarrow>
          if v_recheck v \<noteq> None then batchRefusal BatchCheckOutcomeForbidden
          else CheckBatch (h_policy h) (v_snapshot v) (v_now v) s (req\<lparr>cb_resources := rs\<rparr>)))"

text \<open>The first target refused, by size before the enforcer is asked.\<close>

fun refuseResources :: "(PermissionSelection \<Rightarrow> bool) \<Rightarrow> ConcreteResource list \<Rightarrow> BatchCheckOutcome option" where
  "refuseResources enforce [] = None"
| "refuseResources enforce (r # rs) =
     (if length (elems (cr_target r)) > MaxTargetBytes then Some BatchCheckOutcomeInvalid
      else if \<not> enforce (oneSelection (cr_permission r) (cr_target r)) then Some BatchCheckOutcomeForbidden
      else refuseResources enforce rs)"

definition selector_CheckBatchFor :: "host \<Rightarrow> visit \<Rightarrow> subject \<Rightarrow> CheckBatchRequest \<Rightarrow> rights_error + BatchDecision" where
  "selector_CheckBatchFor h v subj req = (case (ownCaller h v, h_selectorEnforcer h) of
     (Some s, Some enforce) \<Rightarrow>
       let asks = enforce (peerOf (v_entry v)) in
       if account subj \<noteq> h_owner h then Inr (batchRefusal BatchCheckOutcomeForbidden)
       else if length (cb_resources req) > MaxBatchResources then Inr (batchRefusal BatchCheckOutcomeInvalid)
       else if \<not> SelectorAvailable h then Inr (batchRefusal BatchCheckOutcomeUnavailable)
       else if (case cb_collectionAdmission req of None \<Rightarrow> False | Some k \<Rightarrow> \<not> asks (allSelection k))
       then Inr (batchRefusal BatchCheckOutcomeForbidden)
       else (case refuseResources asks (cb_resources req) of
         Some out \<Rightarrow> Inr (batchRefusal out)
       | None \<Rightarrow> (case v_ctx v of
           Some e \<Rightarrow> Inl e
         | None \<Rightarrow> if v_recheck v \<noteq> None then Inr (batchRefusal BatchCheckOutcomeForbidden)
             else Inr (CheckBatch (h_policy h) (v_snapshot v) (v_now v) subj req)))
   | _ \<Rightarrow> Inr (batchRefusal BatchCheckOutcomeForbidden))"

definition selector_CheckLegacyOperationFor :: "host \<Rightarrow> visit \<Rightarrow> subject \<Rightarrow> LegacyOperationRequest \<Rightarrow> rights_error + Decision" where
  "selector_CheckLegacyOperationFor h v subj req = (case (ownCaller h v, h_enforcer h) of
     (Some s, Some enforce) \<Rightarrow>
       if account subj \<noteq> h_owner h \<or> \<not> enforce (peerOf (v_entry v)) (lo_legacyAction req) (lo_legacyResource req)
       then Inr forbiddenDecision
       else if (case lo_concreteOperation req of
             None \<Rightarrow> False
           | Some t \<Rightarrow> (case h_selectorEnforcer h of
               None \<Rightarrow> True
             | Some asks \<Rightarrow> \<not> asks (peerOf (v_entry v)) (oneSelection (cr_permission t) (cr_target t))))
       then Inr forbiddenDecision
       else (case v_ctx v of
         Some e \<Rightarrow> Inl e
       | None \<Rightarrow> if v_recheck v \<noteq> None then Inr forbiddenDecision
           else Inr (CheckLegacyOperation (h_policy h) (v_snapshot v) (v_now v) subj req))
   | _ \<Rightarrow> Inr forbiddenDecision)"

subsection \<open>The operator's reads\<close>

text \<open>Admission at entry and again before the answer leaves.\<close>

definition operatorRead :: "host \<Rightarrow> visit \<Rightarrow> (rights_error \<Rightarrow> 'r) \<Rightarrow> (subject \<Rightarrow> 'r + 'r) \<Rightarrow> 'r" where
  "operatorRead h v refuse answer = (case authorize h (v_entry v) of
     Inl e \<Rightarrow> refuse e
   | Inr s \<Rightarrow> (case answer s of
       Inl early \<Rightarrow> early
     | Inr r \<Rightarrow> (case authorize h (v_again v) of Inl e \<Rightarrow> refuse e | Inr s' \<Rightarrow> r)))"

definition receiver_ReadRule :: "host \<Rightarrow> visit \<Rightarrow> subject \<Rightarrow> bytes \<Rightarrow> bytes \<Rightarrow> RuleRead" where
  "receiver_ReadRule h v subj action resource = operatorRead h v (\<lambda>e. emptyRead (operatorRuleError e) [])
     (\<lambda>by. Inr (ReadRule (h_policy h) (v_snapshot v) (v_now v) subj action resource))"

definition receiver_ExplainFor :: "host \<Rightarrow> visit \<Rightarrow> subject \<Rightarrow> bytes \<Rightarrow> bytes \<Rightarrow> DecisionExplanation" where
  "receiver_ExplainFor h v subj action resource = operatorRead h v (\<lambda>e. refusedExplanation (operatorDecisionError e))
     (\<lambda>by. Inr (ExplainFor (h_policy h) (v_snapshot v) (v_now v) subj action resource))"

definition defaultsRefusal :: "PolicyPageOutcome \<Rightarrow> DefaultPage" where
  "defaultsRefusal out = \<lparr>dfp_outcome = out, dfp_revision = [], dfp_defaults = []\<rparr>"

definition receiver_ListDefaults :: "host \<Rightarrow> visit \<Rightarrow> DefaultPage" where
  "receiver_ListDefaults h v = operatorRead h v (\<lambda>e. defaultsRefusal (operatorPageError e)) (\<lambda>by.
     case DefaultsSnapshot (h_policy h) (v_snapshot v) of
       Inl e \<Rightarrow> Inl (defaultsRefusal PolicyPageOutcomeUnavailable)
     | Inr (rvn, ds) \<Rightarrow> Inr \<lparr>dfp_outcome = PolicyPageOutcomePage, dfp_revision = rvn, dfp_defaults = ds\<rparr>)"

definition emptySelectorRead :: "RuleReadOutcome \<Rightarrow> SelectorRuleRead" where
  "emptySelectorRead out = \<lparr>srd_outcome = out, srd_revision = [], srd_record = None\<rparr>"

definition selector_ReadSelectorRule :: "host \<Rightarrow> visit \<Rightarrow> subject \<Rightarrow> PermissionSelection \<Rightarrow> SelectorRuleRead" where
  "selector_ReadSelectorRule h v subj selection = (case authorize h (v_entry v) of
     Inl e \<Rightarrow> emptySelectorRead (operatorRuleError e)
   | Inr by \<Rightarrow>
      if account subj \<noteq> h_owner h then emptySelectorRead RuleReadOutcomeForbidden
      else let r = ReadSelectorRule (h_policy h) (v_snapshot v) (v_now v) subj selection in
       (case authorize h (v_again v) of
          Inl e \<Rightarrow> emptySelectorRead (operatorRuleError e)
        | Inr s \<Rightarrow> if length (EncodeSelectorRuleRead r) > 262144 then emptySelectorRead RuleReadOutcomeUnavailable else r))"

subsection \<open>Pages\<close>

text \<open>A cursor is bound to the host's epoch, the caller, the revision and the kind of page: all of
  it is a prefix, and the offset follows in its one decimal spelling.\<close>

definition subjectScope :: "subject \<Rightarrow> bytes" where
  "subjectScope s = sha256Hex (jprint (subjectJson s))"

definition cursorOffset :: "bytes \<Rightarrow> bytes \<Rightarrow> nat \<Rightarrow> nat option" where
  "cursorOffset pre cursor cnt =
     (if cursor = [] then Some 0
      else case stripPrefix pre cursor of
        None \<Rightarrow> None
      | Some word \<Rightarrow> (case atoi word of
          None \<Rightarrow> None
        | Some n \<Rightarrow> if n < 0 \<or> n > int cnt \<or> itoaInt n \<noteq> word then None else Some (nat n)))"

definition pageRange :: "bytes \<Rightarrow> int \<Rightarrow> bool" where
  "pageRange cursor limit \<longleftrightarrow> 1 \<le> limit \<and> limit \<le> 64 \<and> length cursor \<le> 256 \<and> validUTF8 cursor"

definition policyPrefix :: "host \<Rightarrow> subject \<Rightarrow> bytes \<Rightarrow> bytes" where
  "policyPrefix h s rvn = h_operatorEpoch h @ '':'' @ subjectScope s @ '':'' @ rvn @ '':''"

definition policyRuleJson :: "PolicyRule \<Rightarrow> json" where
  "policyRuleJson r = JObj [(''Subject'', subjectJson (pr_subject r)), (''Action'', JStr (pr_action r)),
     (''Resource'', JStr (pr_resource r)), (''Permit'', JBool (pr_permit r))]"

definition ruleCost :: "PolicyRule \<Rightarrow> nat" where
  "ruleCost r = length (jprint (policyRuleJson r)) + 1024"

definition catalogCost :: "bytes list \<Rightarrow> nat" where
  "catalogCost acts = 2048 + length (jprint (JArr (map JStr acts))) + 32 * length acts"

definition policyPageRefusal :: "PolicyPageOutcome \<Rightarrow> PolicyPage" where
  "policyPageRefusal out = \<lparr>pp_outcome = out, pp_revision = [], pp_catalog = [], pp_rules = [], pp_next = [], pp_complete = False\<rparr>"

text \<open>Rules while there are some, the limit allows and the bytes suffice; a first rule that does
  not fit refuses the page.\<close>

fun policyFill :: "nat \<Rightarrow> nat \<Rightarrow> PolicyRule list \<Rightarrow> PolicyRule list \<Rightarrow> PolicyRule list option" where
  "policyFill limit used page [] = Some page"
| "policyFill limit used page (r # rest) =
     (if length page \<ge> limit then Some page
      else if ruleCost r > 262144 - used \<and> page = [] then None
      else if used + ruleCost r > 262144 then Some page
      else policyFill limit (used + ruleCost r) (page @ [r]) rest)"

definition receiver_ListPolicy :: "host \<Rightarrow> visit \<Rightarrow> bytes \<Rightarrow> int \<Rightarrow> PolicyPage" where
  "receiver_ListPolicy h v cursor limit = operatorRead h v (\<lambda>e. policyPageRefusal (operatorPageError e)) (\<lambda>s.
     if \<not> pageRange cursor limit then Inl (policyPageRefusal PolicyPageOutcomeInvalid)
     else case OperatorSnapshot (h_policy h) (v_snapshot v) of
       Inl e \<Rightarrow> Inl (policyPageRefusal PolicyPageOutcomeUnavailable)
     | Inr sn \<Rightarrow>
        let pre = policyPrefix h s (sn_revision sn) in
        (case cursorOffset pre cursor (length (sn_rules sn)) of
           None \<Rightarrow> Inl (policyPageRefusal PolicyPageOutcomeGap)
         | Some offset \<Rightarrow>
            if catalogCost (sn_catalog sn) > 262144 then Inl (policyPageRefusal PolicyPageOutcomeUnavailable)
            else (case policyFill (nat limit) (catalogCost (sn_catalog sn)) [] (drop offset (sn_rules sn)) of
              None \<Rightarrow> Inl (policyPageRefusal PolicyPageOutcomeUnavailable)
            | Some page \<Rightarrow>
               let past = offset + length page; complete = (past = length (sn_rules sn)) in
               Inr \<lparr>pp_outcome = PolicyPageOutcomePage, pp_revision = sn_revision sn, pp_catalog = sn_catalog sn,
                 pp_rules = page, pp_next = (if complete then [] else pre @ itoa past), pp_complete = complete\<rparr>)))"

text \<open>The typed pages and the descriptions share one loop: append an item, take it back when the
  page no longer fits.\<close>

fun fillPage :: "('a list \<Rightarrow> bool) \<Rightarrow> nat \<Rightarrow> 'a list \<Rightarrow> 'a list \<Rightarrow> 'a list option" where
  "fillPage fits limit page [] = Some page"
| "fillPage fits limit page (x # rest) =
     (if length page \<ge> limit then Some page
      else if \<not> fits (page @ [x]) then (if page = [] then None else Some page)
      else fillPage fits limit (page @ [x]) rest)"

definition selectorPrefix :: "host \<Rightarrow> subject \<Rightarrow> bytes \<Rightarrow> bytes \<Rightarrow> bytes" where
  "selectorPrefix h s kind rvn = kind @ '':'' @ h_operatorEpoch h @ '':'' @ subjectScope s @ '':'' @ rvn @ '':''"

definition selectorOffset :: "host \<Rightarrow> subject \<Rightarrow> bytes \<Rightarrow> bytes \<Rightarrow> bytes \<Rightarrow> int \<Rightarrow> nat \<Rightarrow> PolicyPageOutcome + nat \<times> bytes" where
  "selectorOffset h s kind rvn cursor limit cnt =
     (if \<not> pageRange cursor limit then Inl PolicyPageOutcomeInvalid
      else case cursorOffset (selectorPrefix h s kind rvn) cursor cnt of
        None \<Rightarrow> Inl PolicyPageOutcomeGap
      | Some n \<Rightarrow> Inr (n, selectorPrefix h s kind rvn))"

definition definitionRefusal :: "PolicyPageOutcome \<Rightarrow> PermissionDefinitionPage" where
  "definitionRefusal out = \<lparr>pdp_outcome = out, pdp_revision = [], pdp_definitions = [], pdp_next = [], pdp_complete = False\<rparr>"

definition selector_ListPermissionDefinitions :: "host \<Rightarrow> visit \<Rightarrow> bytes \<Rightarrow> int \<Rightarrow> PermissionDefinitionPage" where
  "selector_ListPermissionDefinitions h v cursor limit = (case ownCaller h v of
     None \<Rightarrow> definitionRefusal PolicyPageOutcomeForbidden
   | Some s \<Rightarrow>
      if \<not> SelectorAvailable h then definitionRefusal PolicyPageOutcomeUnavailable
      else (case DefinitionSnapshot (h_policy h) (v_snapshot v) of
        Inl e \<Rightarrow> definitionRefusal PolicyPageOutcomeUnavailable
      | Inr (rvn, items, bundles) \<Rightarrow>
         (case selectorOffset h s ''definitions'' rvn cursor limit (length items) of
            Inl out \<Rightarrow> definitionRefusal out
          | Inr (offset, pre) \<Rightarrow>
             let blank = (\<lambda>page. \<lparr>pdp_outcome = PolicyPageOutcomePage, pdp_revision = rvn, pdp_definitions = page,
                   pdp_next = [], pdp_complete = False\<rparr>) in
             (case fillPage (\<lambda>page. length (EncodePermissionDefinitionPage (blank page)) \<le> 261632) (nat limit) [] (drop offset items) of
                None \<Rightarrow> definitionRefusal PolicyPageOutcomeUnavailable
              | Some page \<Rightarrow>
                 let past = offset + length page; complete = (past = length items) in
                 if v_recheck v \<noteq> None then definitionRefusal PolicyPageOutcomeForbidden
                 else (blank page)\<lparr>pdp_next := (if complete then [] else pre @ itoa past), pdp_complete := complete\<rparr>))))"

definition bundleRefusal :: "PolicyPageOutcome \<Rightarrow> PermissionBundlePage" where
  "bundleRefusal out = \<lparr>pbp_outcome = out, pbp_revision = [], pbp_bundles = [], pbp_next = [], pbp_complete = False\<rparr>"

definition selector_ListPermissionBundles :: "host \<Rightarrow> visit \<Rightarrow> bytes \<Rightarrow> int \<Rightarrow> PermissionBundlePage" where
  "selector_ListPermissionBundles h v cursor limit = (case ownCaller h v of
     None \<Rightarrow> bundleRefusal PolicyPageOutcomeForbidden
   | Some s \<Rightarrow>
      if \<not> SelectorAvailable h then bundleRefusal PolicyPageOutcomeUnavailable
      else (case DefinitionSnapshot (h_policy h) (v_snapshot v) of
        Inl e \<Rightarrow> bundleRefusal PolicyPageOutcomeUnavailable
      | Inr (rvn, definitions, items) \<Rightarrow>
         (case selectorOffset h s ''bundles'' rvn cursor limit (length items) of
            Inl out \<Rightarrow> bundleRefusal out
          | Inr (offset, pre) \<Rightarrow>
             let blank = (\<lambda>page. \<lparr>pbp_outcome = PolicyPageOutcomePage, pbp_revision = rvn, pbp_bundles = page,
                   pbp_next = [], pbp_complete = False\<rparr>) in
             (case fillPage (\<lambda>page. length (EncodePermissionBundlePage (blank page)) \<le> 261632) (nat limit) [] (drop offset items) of
                None \<Rightarrow> bundleRefusal PolicyPageOutcomeUnavailable
              | Some page \<Rightarrow>
                 let past = offset + length page; complete = (past = length items) in
                 if v_recheck v \<noteq> None then bundleRefusal PolicyPageOutcomeForbidden
                 else (blank page)\<lparr>pbp_next := (if complete then [] else pre @ itoa past), pbp_complete := complete\<rparr>))))"

definition selectorPageRefusal :: "PolicyPageOutcome \<Rightarrow> SelectorRulePage" where
  "selectorPageRefusal out = \<lparr>srp_outcome = out, srp_revision = [], srp_records = [], srp_next = [], srp_complete = False\<rparr>"

definition selector_ListSelectorRules :: "host \<Rightarrow> visit \<Rightarrow> bytes \<Rightarrow> int \<Rightarrow> SelectorRulePage" where
  "selector_ListSelectorRules h v cursor limit = operatorRead h v (\<lambda>e. selectorPageRefusal (operatorPageError e)) (\<lambda>s.
     if \<not> SelectorAvailable h then Inl (selectorPageRefusal PolicyPageOutcomeUnavailable)
     else case SelectorSnapshot (v_snapshot v) of
       Inl e \<Rightarrow> Inl (selectorPageRefusal PolicyPageOutcomeUnavailable)
     | Inr (rvn, items) \<Rightarrow>
        (case selectorOffset h s ''selectors'' rvn cursor limit (length items) of
           Inl out \<Rightarrow> Inl (selectorPageRefusal out)
         | Inr (offset, pre) \<Rightarrow>
            let blank = (\<lambda>page. \<lparr>srp_outcome = PolicyPageOutcomePage, srp_revision = rvn, srp_records = page,
                  srp_next = [], srp_complete = False\<rparr>) in
            (case fillPage (\<lambda>page. length (EncodeSelectorRulePage (blank page)) \<le> 261632) (nat limit) [] (drop offset items) of
               None \<Rightarrow> Inl (selectorPageRefusal PolicyPageOutcomeUnavailable)
             | Some page \<Rightarrow>
                let past = offset + length page; complete = (past = length items) in
                Inr ((blank page)\<lparr>srp_next := (if complete then [] else pre @ itoa past), srp_complete := complete\<rparr>))))"

subsection \<open>Described actions\<close>

definition descriptionRefusal :: "PolicyPageOutcome \<Rightarrow> DescriptionPage" where
  "descriptionRefusal out = \<lparr>dp_outcome = out, dp_revision = [], dp_actions = [], dp_next = [], dp_complete = False\<rparr>"

definition descriptionCaller :: "host \<Rightarrow> evidence \<Rightarrow> rights_error + subject" where
  "descriptionCaller h ev = (case caller ev of
     Inl e \<Rightarrow> Inl ErrOperatorForbidden
   | Inr s \<Rightarrow> if account s \<noteq> h_owner h then Inl ErrOperatorForbidden
       else (case e_ctx ev of Some e \<Rightarrow> Inl e | None \<Rightarrow> Inr s))"

text \<open>The page as \<open>encoding/json\<close> marshals it, by Go field names, for its size only.\<close>

definition optionalJson :: "('a \<Rightarrow> json) \<Rightarrow> 'a option \<Rightarrow> json" where
  "optionalJson f x = (case x of None \<Rightarrow> JNull | Some y \<Rightarrow> f y)"

definition wireDescriptionJson :: "ActionDescription \<Rightarrow> json" where
  "wireDescriptionJson d = JObj [(''Action'', JStr (ad_action d)), (''FeatureApp'', subjectJson (ad_featureApp d)),
     (''AppLabel'', JStr (ad_appLabel d)), (''Description'', JStr (ad_description d)), (''DeclaredRisk'', JStr (ad_declaredRisk d))]"

definition describedJson :: "DescribedAction \<Rightarrow> json" where
  "describedJson a = JObj [(''Action'', JStr (da_action a)), (''Choices'', JArr (map JStr (da_choices a))),
     (''Description'', optionalJson wireDescriptionJson (da_description a)),
     (''PublishedBy'', optionalJson subjectJson (da_publishedBy a)), (''PublishedAt'', JStr (da_publishedAt a))]"

definition descriptionPageJson :: "DescriptionPage \<Rightarrow> json" where
  "descriptionPageJson p = JObj [(''Outcome'', JStr (WireName_PolicyPageOutcome (dp_outcome p))),
     (''Revision'', JStr (dp_revision p)), (''Actions'', JArr (map describedJson (dp_actions p))),
     (''Next'', JStr (dp_next p)), (''Complete'', JBool (dp_complete p))]"

definition descriptionPrefix :: "host \<Rightarrow> subject \<Rightarrow> bytes \<Rightarrow> bytes" where
  "descriptionPrefix h s rvn = h_operatorEpoch h @ '':descriptions:'' @ subjectScope s @ '':'' @ rvn @ '':''"

definition receiver_ListActionDescriptions :: "host \<Rightarrow> visit \<Rightarrow> bytes \<Rightarrow> int \<Rightarrow> DescriptionPage" where
  "receiver_ListActionDescriptions h v cursor limit = (case descriptionCaller h (v_entry v) of
     Inl e \<Rightarrow> descriptionRefusal (operatorPageError e)
   | Inr s \<Rightarrow>
      if \<not> pageRange cursor limit then descriptionRefusal PolicyPageOutcomeInvalid
      else (case DescriptionSnapshot (h_policy h) (v_snapshot v) of
        Inl e \<Rightarrow> descriptionRefusal PolicyPageOutcomeUnavailable
      | Inr (rvn, items) \<Rightarrow>
         let pre = descriptionPrefix h s rvn in
         (case cursorOffset pre cursor (length items) of
            None \<Rightarrow> descriptionRefusal PolicyPageOutcomeGap
          | Some offset \<Rightarrow>
             let shaped = (\<lambda>page. let past = offset + length page; complete = (past = length items) in
                   \<lparr>dp_outcome = PolicyPageOutcomePage, dp_revision = rvn, dp_actions = page,
                     dp_next = (if complete then [] else pre @ itoa past), dp_complete = complete\<rparr>) in
             (case fillPage (\<lambda>page. length (jprint (descriptionPageJson (shaped page))) + 2048 + 1024 * length page \<le> 262144)
                  (nat limit) [] (drop offset items) of
                None \<Rightarrow> descriptionRefusal PolicyPageOutcomeUnavailable
              | Some page \<Rightarrow> (case descriptionCaller h (v_again v) of
                  Inl e \<Rightarrow> descriptionRefusal (operatorPageError e)
                | Inr s' \<Rightarrow> shaped page)))))"

end
