(* ===== verification/Client.thy ===== *)
theory Client
  imports Host
begin

text \<open>
  The clients of package client (authorization.go, operator.go, descriptions.go, selectors.go):
  what a client refuses to send, and what it accepts of an answer. The transport is a function
  from the arguments sent to the answer or an error; a context already ended is its error. The
  error texts are kept; time and frames are the transport's.
\<close>

subsection \<open>Validation\<close>

definition boundedOperatorString :: "bytes \<Rightarrow> nat \<Rightarrow> bool" where
  "boundedOperatorString s m \<longleftrightarrow> length s > 0 \<and> length s \<le> m \<and>
     (case runes s of None \<Rightarrow> False | Some rs \<Rightarrow> \<not> list_ex isControl rs)"

lemma boundedOperatorString_decision [simp]: "boundedOperatorString s m = boundedDecisionString s m"
  by (auto simp: boundedOperatorString_def boundedDecisionString_def list_all_iff list_ex_iff split: option.splits)

definition validPolicyRule :: "identity \<Rightarrow> PolicyRule \<Rightarrow> bool" where
  "validPolicyRule fs r \<longleftrightarrow> boundedOperatorString (account (pr_subject r)) 128 \<and> boundedOperatorString (program (pr_subject r)) 4096 \<and>
     validSubjectProgram fs (program (pr_subject r)) \<and> boundedOperatorString (pr_action r) 128 \<and> boundedOperatorString (pr_resource r) 1024"

definition validSubject :: "identity \<Rightarrow> subject \<Rightarrow> bool" where
  "validSubject fs s \<longleftrightarrow> boundedOperatorString (account s) 128 \<and> boundedOperatorString (program s) 4096 \<and>
     validSubjectProgram fs (program s)"

definition normalizeOperatorSubject :: "identity \<Rightarrow> subject \<Rightarrow> subject" where
  "normalizeOperatorSubject fs s = s\<lparr>program := normalizeSubjectProgram fs (program s)\<rparr>"

definition clientTTL :: "duration \<Rightarrow> bool" where
  "clientTTL ttl \<longleftrightarrow> 0 \<le> ttl \<and> ttl \<le> 31536000000000000 \<and> ttl mod 1000000 = 0"

definition clientWhy :: "bytes \<Rightarrow> bool" where
  "clientWhy why \<longleftrightarrow> why = [] \<or> boundedOperatorString why 256"

definition editObserved :: "PolicyEditOutcome \<Rightarrow> bool" where
  "editObserved out \<longleftrightarrow> out = PolicyEditOutcomeApplied \<or> out = PolicyEditOutcomeConflict"

definition exactRule :: "subject \<Rightarrow> bytes \<Rightarrow> bytes \<Rightarrow> PolicyRule" where
  "exactRule s action resource = \<lparr>pr_subject = s, pr_action = action, pr_resource = resource, pr_permit = False\<rparr>"

text \<open>The frame every call shares: an ended context, the arguments' check, the answer's check.\<close>

definition clientCall :: "rights_error option \<Rightarrow> bool \<Rightarrow> bytes \<Rightarrow> (rights_error + 'r) \<Rightarrow> ('r \<Rightarrow> rights_error + 'r) \<Rightarrow> rights_error + 'r" where
  "clientCall ctx sendable refusal answer check = (case ctx of
     Some e \<Rightarrow> Inl e
   | None \<Rightarrow> if \<not> sendable then Inl (ErrOther refusal) else (case answer of Inl e \<Rightarrow> Inl e | Inr r \<Rightarrow> check r))"

subsection \<open>Decisions\<close>

definition checked :: "Decision \<Rightarrow> rights_error + Decision" where
  "checked d =
     (let evaluated = (d_outcome d \<in> {DecisionOutcomePermitted, DecisionOutcomeDenied, DecisionOutcomeNotGranted,
        DecisionOutcomeUnknownAction}) in
      if evaluated \<noteq> (d_policyRevision d \<noteq> []) then Inl (ErrOther ''rights: inconsistent decision revision'') else Inr d)"

definition client_DecideContext :: "rights_error option \<Rightarrow> (bytes \<Rightarrow> bytes \<Rightarrow> rights_error + Decision) \<Rightarrow> bytes \<Rightarrow> bytes \<Rightarrow>
    rights_error + Decision" where
  "client_DecideContext ctx call action resource = clientCall ctx True [] (call action resource) checked"

definition client_DecideForContext :: "rights_error option \<Rightarrow> (subject \<Rightarrow> bytes \<Rightarrow> bytes \<Rightarrow> rights_error + Decision) \<Rightarrow> subject \<Rightarrow>
    bytes \<Rightarrow> bytes \<Rightarrow> rights_error + Decision" where
  "client_DecideForContext ctx call subj action resource = clientCall ctx True [] (call subj action resource) checked"

text \<open>A refusal of \<open>Require\<close>: the evidence's or transport's error, or the decision's own.\<close>

datatype requireError = EvidenceError rights_error | DecisionError bytes bytes

definition requireOutcome :: "Decision \<Rightarrow> requireError option" where
  "requireOutcome d = (if d_outcome d \<noteq> DecisionOutcomePermitted
     then Some (DecisionError (WireName_DecisionOutcome (d_outcome d)) (d_policyRevision d)) else None)"

definition client_Require :: "rights_error option \<Rightarrow> (subject \<Rightarrow> bytes \<Rightarrow> bytes \<Rightarrow> rights_error + Decision) \<Rightarrow> peer option \<Rightarrow>
    bytes \<Rightarrow> bytes \<Rightarrow> requireError option" where
  "client_Require ctx call pr action resource = (case SubjectFromPeer pr of
     Inl e \<Rightarrow> Some (EvidenceError e)
   | Inr s \<Rightarrow> (case client_DecideForContext ctx call s action resource of
       Inl e \<Rightarrow> Some (EvidenceError e)
     | Inr d \<Rightarrow> requireOutcome d))"

text \<open>\<open>DecisionPolicy.Require\<close> of decider.go decides in the process.\<close>

definition policy_Require :: "policy \<Rightarrow> snapshot \<Rightarrow> instant \<Rightarrow> rights_error option \<Rightarrow> peer option \<Rightarrow> bytes \<Rightarrow> bytes \<Rightarrow>
    requireError option" where
  "policy_Require p snap now ctx pr action resource = (case ctx of
     Some e \<Rightarrow> Some (EvidenceError e)
   | None \<Rightarrow> (case SubjectFromPeer pr of
       Inl e \<Rightarrow> Some (EvidenceError e)
     | Inr s \<Rightarrow> requireOutcome (Decide p snap now s action resource)))"

subsection \<open>Policy pages\<close>

definition clientRange :: "bytes \<Rightarrow> int \<Rightarrow> bool" where
  "clientRange cursor limit \<longleftrightarrow> length cursor \<le> 256 \<and> validUTF8 cursor \<and> 1 \<le> limit \<and> limit \<le> 64"

definition pageHeader :: "bytes \<Rightarrow> int \<Rightarrow> bytes \<Rightarrow> bool \<Rightarrow> bytes \<Rightarrow> nat \<Rightarrow> bool" where
  "pageHeader rvn limit nxt complete cursor cnt \<longleftrightarrow> boundedOperatorString rvn 128 \<and> int cnt \<le> limit \<and> length nxt \<le> 256 \<and>
     complete = (nxt = []) \<and> (complete \<or> (cnt \<noteq> 0 \<and> nxt \<noteq> cursor))"

definition clientKey :: "PolicyRule \<Rightarrow> bytes" where
  "clientKey r = account (pr_subject r) @ NUL # program (pr_subject r) @ NUL # pr_action r @ NUL # pr_resource r"

definition checkedPolicyPage :: "identity \<Rightarrow> bytes \<Rightarrow> int \<Rightarrow> PolicyPage \<Rightarrow> rights_error + PolicyPage" where
  "checkedPolicyPage fs cursor limit page =
     (if pp_outcome page \<noteq> PolicyPageOutcomePage then
        (if pp_revision page \<noteq> [] \<or> pp_catalog page \<noteq> [] \<or> pp_rules page \<noteq> [] \<or> pp_next page \<noteq> [] \<or> pp_complete page
         then Inl (ErrOther ''rights: malformed policy refusal'') else Inr page)
      else if length (pp_catalog page) < 1 \<or> length (pp_catalog page) > 64 \<or>
         \<not> pageHeader (pp_revision page) limit (pp_next page) (pp_complete page) cursor (length (pp_rules page))
      then Inl (ErrOther ''rights: malformed policy page'')
      else if \<not> (list_all (\<lambda>a. boundedOperatorString a 128) (pp_catalog page) \<and> sorted_wrt (<) (pp_catalog page))
      then Inl (ErrOther ''rights: invalid catalogue'')
      else if \<not> (list_all (\<lambda>r. validPolicyRule fs r \<and> pr_action r \<in> set (pp_catalog page)) (pp_rules page) \<and>
         distinct (map clientKey (pp_rules page)))
      then Inl (ErrOther ''rights: invalid policy rule'')
      else if catalogCost (pp_catalog page) + sum_list (map ruleCost (pp_rules page)) > 262144
      then Inl (ErrOther ''rights: oversized policy page'')
      else Inr page)"

definition client_ListPolicyContext :: "identity \<Rightarrow> rights_error option \<Rightarrow> (bytes \<Rightarrow> int \<Rightarrow> rights_error + PolicyPage) \<Rightarrow>
    bytes \<Rightarrow> int \<Rightarrow> rights_error + PolicyPage" where
  "client_ListPolicyContext fs ctx call cursor limit = clientCall ctx (clientRange cursor limit) ''rights: invalid policy range''
     (call cursor limit) (checkedPolicyPage fs cursor limit)"

subsection \<open>Edits of exact rules\<close>

definition ruleMatches :: "identity \<Rightarrow> PolicyRule \<Rightarrow> subject \<Rightarrow> bytes \<Rightarrow> bytes \<Rightarrow> bool" where
  "ruleMatches fs r s action resource \<longleftrightarrow> validPolicyRule fs r \<and> account (pr_subject r) = account s \<and>
     sameSubjectProgram fs (program (pr_subject r)) (program s) \<and> pr_action r = action \<and> pr_resource r = resource"

definition checkedPolicyEdit :: "identity \<Rightarrow> subject \<Rightarrow> bytes \<Rightarrow> bytes \<Rightarrow> bool option \<Rightarrow> PolicyEdit \<Rightarrow> rights_error + PolicyEdit" where
  "checkedPolicyEdit fs s action resource permit r =
     (let observed = editObserved (pe_outcome r) in
      if observed \<noteq> boundedOperatorString (pe_revision r) 128 \<or> (\<not> observed \<and> (pe_revision r \<noteq> [] \<or> pe_current r \<noteq> None))
      then Inl (ErrOther ''rights: malformed edit revision'')
      else if (case pe_current r of None \<Rightarrow> False | Some cur \<Rightarrow> \<not> ruleMatches fs cur s action resource)
      then Inl (ErrOther ''rights: mismatched current rule'')
      else if pe_outcome r = PolicyEditOutcomeApplied \<and> map_option pr_permit (pe_current r) \<noteq> permit
      then Inl (ErrOther ''rights: malformed applied state'')
      else Inr r)"

definition client_SetRuleContext :: "identity \<Rightarrow> rights_error option \<Rightarrow> (bytes \<Rightarrow> PolicyRule \<Rightarrow> rights_error + PolicyEdit) \<Rightarrow>
    bytes \<Rightarrow> PolicyRule \<Rightarrow> rights_error + PolicyEdit" where
  "client_SetRuleContext fs ctx call expected rule0 =
     (let rule = rule0\<lparr>pr_subject := normalizeOperatorSubject fs (pr_subject rule0)\<rparr> in
      clientCall ctx (boundedOperatorString expected 128 \<and> validPolicyRule fs rule) ''rights: invalid policy edit''
        (call expected rule) (checkedPolicyEdit fs (pr_subject rule) (pr_action rule) (pr_resource rule) (Some (pr_permit rule))))"

definition client_RevokeRuleContext :: "identity \<Rightarrow> rights_error option \<Rightarrow>
    (bytes \<Rightarrow> subject \<Rightarrow> bytes \<Rightarrow> bytes \<Rightarrow> rights_error + PolicyEdit) \<Rightarrow> bytes \<Rightarrow> subject \<Rightarrow> bytes \<Rightarrow> bytes \<Rightarrow> rights_error + PolicyEdit" where
  "client_RevokeRuleContext fs ctx call expected subj action resource =
     (let s = normalizeOperatorSubject fs subj in
      clientCall ctx (boundedOperatorString expected 128 \<and> validPolicyRule fs (exactRule s action resource))
        ''rights: invalid policy revoke'' (call expected s action resource) (checkedPolicyEdit fs s action resource None))"

definition client_SetRuleForContext :: "identity \<Rightarrow> rights_error option \<Rightarrow>
    (bytes \<Rightarrow> PolicyRule \<Rightarrow> int \<Rightarrow> bytes \<Rightarrow> rights_error + PolicyEdit) \<Rightarrow> bytes \<Rightarrow> PolicyRule \<Rightarrow> duration \<Rightarrow> bytes \<Rightarrow> rights_error + PolicyEdit" where
  "client_SetRuleForContext fs ctx call expected rule0 ttl why =
     (let rule = rule0\<lparr>pr_subject := normalizeOperatorSubject fs (pr_subject rule0)\<rparr> in
      clientCall ctx (boundedOperatorString expected 128 \<and> validPolicyRule fs rule \<and> clientTTL ttl \<and> clientWhy why)
        ''rights: invalid policy edit'' (call expected rule (ttl div 1000000) why)
        (checkedPolicyEdit fs (pr_subject rule) (pr_action rule) (pr_resource rule) (Some (pr_permit rule))))"

text \<open>The rules of a group: each valid, with the first one's account, program, resource and
  permit, and no action twice.\<close>

definition validRuleGroup :: "identity \<Rightarrow> PolicyRule list \<Rightarrow> bool" where
  "validRuleGroup fs grp \<longleftrightarrow> list_all (\<lambda>r. validPolicyRule fs r \<and> account (pr_subject r) = account (pr_subject (hd grp)) \<and>
       sameSubjectProgram fs (program (pr_subject r)) (program (pr_subject (hd grp))) \<and>
       pr_resource r = pr_resource (hd grp) \<and> pr_permit r = pr_permit (hd grp)) grp \<and> distinct (map pr_action grp)"

definition checkedRuleGroup :: "identity \<Rightarrow> PolicyRule list \<Rightarrow> PolicyEdit \<Rightarrow> rights_error + PolicyEdit" where
  "checkedRuleGroup fs grp r =
     (let observed = editObserved (pe_outcome r) in
      if observed \<noteq> boundedOperatorString (pe_revision r) 128 \<or> (\<not> observed \<and> (pe_revision r \<noteq> [] \<or> pe_current r \<noteq> None))
      then Inl (ErrOther ''rights: malformed grouped edit'')
      else if (case pe_current r of None \<Rightarrow> False | Some cur \<Rightarrow>
         \<not> list_ex (\<lambda>q. ruleMatches fs cur (pr_subject q) (pr_action q) (pr_resource q) \<and> pr_permit cur = pr_permit q) grp)
      then Inl (ErrOther ''rights: mismatched grouped current rule'')
      else if pe_outcome r = PolicyEditOutcomeApplied \<and> map_option pr_permit (pe_current r) \<noteq> Some (pr_permit (hd grp))
      then Inl (ErrOther ''rights: malformed grouped applied state'')
      else Inr r)"

definition client_SetRulesForContext :: "identity \<Rightarrow> rights_error option \<Rightarrow>
    (bytes \<Rightarrow> PolicyRule list \<Rightarrow> int \<Rightarrow> bytes \<Rightarrow> rights_error + PolicyEdit) \<Rightarrow> bytes \<Rightarrow> PolicyRule list \<Rightarrow> duration \<Rightarrow> bytes \<Rightarrow>
    rights_error + PolicyEdit" where
  "client_SetRulesForContext fs ctx call expected grp0 ttl why =
     (let grp = map (\<lambda>r. r\<lparr>pr_subject := normalizeOperatorSubject fs (pr_subject r)\<rparr>) grp0 in
      clientCall ctx (1 \<le> length grp \<and> length grp \<le> 2 \<and> boundedOperatorString expected 128 \<and> clientTTL ttl \<and> clientWhy why)
        ''rights: invalid grouped policy edit''
        (if \<not> validRuleGroup fs grp then Inl (ErrOther ''rights: invalid grouped policy rules'')
         else call expected grp (ttl div 1000000) why)
        (checkedRuleGroup fs grp))"

definition checkedFirstUseAllow :: "identity \<Rightarrow> PolicyEdit \<Rightarrow> rights_error + PolicyEdit" where
  "checkedFirstUseAllow fs r =
     (let observed = editObserved (pe_outcome r) in
      if observed \<noteq> boundedOperatorString (pe_revision r) 128 \<or> (\<not> observed \<and> pe_current r \<noteq> None) \<or>
         (case pe_current r of None \<Rightarrow> False | Some cur \<Rightarrow> \<not> validPolicyRule fs cur) \<or>
         (pe_outcome r = PolicyEditOutcomeApplied \<and> map_option pr_permit (pe_current r) \<noteq> Some True)
      then Inl (ErrOther ''rights: malformed first-use Allow result'') else Inr r)"

definition client_ApplyFirstUseAllowContext :: "identity \<Rightarrow> rights_error option \<Rightarrow> (bytes \<Rightarrow> bytes \<Rightarrow> rights_error + PolicyEdit) \<Rightarrow>
    bytes \<Rightarrow> bytes \<Rightarrow> rights_error + PolicyEdit" where
  "client_ApplyFirstUseAllowContext fs ctx call expected answer =
     clientCall ctx (boundedOperatorString expected 128 \<and> boundedOperatorString answer 128) ''rights: invalid first-use Allow''
       (call expected answer) (checkedFirstUseAllow fs)"

definition checkedAnswerEdit :: "PolicyEdit \<Rightarrow> rights_error + PolicyEdit" where
  "checkedAnswerEdit r =
     (let observed = editObserved (pe_outcome r) in
      if observed \<noteq> boundedOperatorString (pe_revision r) 128 \<or> pe_current r \<noteq> None \<or> (\<not> observed \<and> pe_revision r \<noteq> [])
      then Inl (ErrOther ''rights: malformed answer edit'') else Inr r)"

definition client_StopAnswererContext :: "identity \<Rightarrow> rights_error option \<Rightarrow> (bytes \<Rightarrow> subject \<Rightarrow> bool \<Rightarrow> rights_error + PolicyEdit) \<Rightarrow>
    bytes \<Rightarrow> subject \<Rightarrow> bool \<Rightarrow> rights_error + PolicyEdit" where
  "client_StopAnswererContext fs ctx call expected answerer also =
     (let a = normalizeOperatorSubject fs answerer in
      clientCall ctx (boundedOperatorString expected 128 \<and> validSubject fs a) ''rights: invalid answerer stop''
        (call expected a also) checkedAnswerEdit)"

definition client_RevokeAnswerPermitsContext :: "identity \<Rightarrow> rights_error option \<Rightarrow>
    (bytes \<Rightarrow> subject \<Rightarrow> subject \<Rightarrow> bytes list \<Rightarrow> bytes \<Rightarrow> bytes \<Rightarrow> rights_error + PolicyEdit) \<Rightarrow>
    bytes \<Rightarrow> subject \<Rightarrow> subject \<Rightarrow> bytes list \<Rightarrow> bytes \<Rightarrow> bytes \<Rightarrow> rights_error + PolicyEdit" where
  "client_RevokeAnswerPermitsContext fs ctx call expected answerer tgt acts resource questionID =
     (let a = normalizeOperatorSubject fs answerer; s = normalizeOperatorSubject fs tgt in
      clientCall ctx (boundedOperatorString expected 128 \<and> validSubject fs a \<and> validSubject fs s \<and>
          boundedOperatorString questionID 128 \<and> 1 \<le> length acts \<and> length acts \<le> 2 \<and> boundedOperatorString resource 1024)
        ''rights: invalid answer permit revoke''
        (if \<not> (list_all (\<lambda>x. boundedOperatorString x 128) acts \<and> distinct acts)
         then Inl (ErrOther ''rights: invalid answer actions'')
         else call expected a s acts resource questionID)
        checkedAnswerEdit)"

subsection \<open>Reads of the operator\<close>

definition checkedRuleRead :: "identity \<Rightarrow> subject \<Rightarrow> bytes \<Rightarrow> bytes \<Rightarrow> RuleRead \<Rightarrow> rights_error + RuleRead" where
  "checkedRuleRead fs s action resource r =
     (if rd_outcome r = RuleReadOutcomeFound \<or> rd_outcome r = RuleReadOutcomeExpired then
        (if \<not> boundedOperatorString (rd_revision r) 128 \<or>
            (case rd_record r of None \<Rightarrow> True | Some c \<Rightarrow>
               \<not> ruleMatches fs (rr_rule c) s action resource \<or> \<not> validSubject fs (rr_setBy c) \<or> \<not> validStamp (rr_setAt c) \<or>
               \<not> clientWhy (rr_why c) \<or> (rr_expires c \<noteq> [] \<and> \<not> validStamp (rr_expires c)) \<or>
               (rd_outcome r = RuleReadOutcomeExpired \<and> rr_expires c = []))
         then Inl (ErrOther ''rights: malformed rule record'') else Inr r)
      else if rd_outcome r = RuleReadOutcomeUnknown then
        (if \<not> boundedOperatorString (rd_revision r) 128 \<or> rd_record r \<noteq> None
         then Inl (ErrOther ''rights: malformed unknown rule'') else Inr r)
      else if rd_revision r \<noteq> [] \<or> rd_record r \<noteq> None then Inl (ErrOther ''rights: malformed rule refusal'') else Inr r)"

definition client_ReadRuleContext :: "identity \<Rightarrow> rights_error option \<Rightarrow> (subject \<Rightarrow> bytes \<Rightarrow> bytes \<Rightarrow> rights_error + RuleRead) \<Rightarrow>
    subject \<Rightarrow> bytes \<Rightarrow> bytes \<Rightarrow> rights_error + RuleRead" where
  "client_ReadRuleContext fs ctx call subj action resource =
     (let s = normalizeOperatorSubject fs subj in
      clientCall ctx (validPolicyRule fs (exactRule s action resource)) ''rights: invalid rule read''
        (call s action resource) (checkedRuleRead fs s action resource))"

definition decisionEvaluated :: "DecisionOutcome \<Rightarrow> bool" where
  "decisionEvaluated out \<longleftrightarrow> out = DecisionOutcomePermitted \<or> out = DecisionOutcomeDenied \<or>
     out = DecisionOutcomeNotGranted \<or> out = DecisionOutcomeUnknownAction"

definition checkedExplanation :: "DecisionExplanation \<Rightarrow> rights_error + DecisionExplanation" where
  "checkedExplanation x =
     (if \<not> decisionEvaluated (x_outcome x) then
        (if x_policyRevision x \<noteq> [] \<or> x_source x \<noteq> None \<or> x_defaultName x \<noteq> []
         then Inl (ErrOther ''rights: malformed explanation refusal'') else Inr x)
      else (case x_source x of
        None \<Rightarrow> Inl (ErrOther ''rights: malformed explanation'')
      | Some src \<Rightarrow>
          if \<not> boundedOperatorString (x_policyRevision x) 128 \<or> length (x_defaultName x) > 64 \<or>
             (src = DecisionSourceAccountDefault \<or> src = DecisionSourceDefaultExcluded) \<noteq> (x_defaultName x \<noteq> [])
          then Inl (ErrOther ''rights: malformed explanation'') else Inr x))"

definition client_ExplainForContext :: "identity \<Rightarrow> rights_error option \<Rightarrow>
    (subject \<Rightarrow> bytes \<Rightarrow> bytes \<Rightarrow> rights_error + DecisionExplanation) \<Rightarrow> subject \<Rightarrow> bytes \<Rightarrow> bytes \<Rightarrow> rights_error + DecisionExplanation" where
  "client_ExplainForContext fs ctx call subj action resource =
     clientCall ctx (validSubject fs subj \<and> boundedOperatorString action 128 \<and> boundedOperatorString resource 1024)
       ''rights: invalid explanation request'' (call subj action resource) checkedExplanation"

subsection \<open>Defaults\<close>

definition validAccountDefault :: "identity \<Rightarrow> PublicDefault \<Rightarrow> bool" where
  "validAccountDefault fs d \<longleftrightarrow>
     boundedOperatorString (pub_name d) 64 \<and> list_all actionChar (pub_name d) \<and> boundedOperatorString (pub_action d) 128 \<and>
     (if pub_everyResource d then pub_resource d = [] else boundedOperatorString (pub_resource d) 1024) \<and>
     (case pub_setBy d of None \<Rightarrow> pub_setAt d = [] | Some by \<Rightarrow> validSubject fs by \<and> validStamp (pub_setAt d))"

definition checkedDefaults :: "identity \<Rightarrow> DefaultPage \<Rightarrow> rights_error + DefaultPage" where
  "checkedDefaults fs page =
     (if dfp_outcome page \<noteq> PolicyPageOutcomePage then
        (if dfp_revision page \<noteq> [] \<or> dfp_defaults page \<noteq> [] then Inl (ErrOther ''rights: malformed defaults refusal'') else Inr page)
      else if \<not> boundedOperatorString (dfp_revision page) 128 \<or> length (dfp_defaults page) > 32
      then Inl (ErrOther ''rights: malformed defaults page'')
      else if \<not> (list_all (validAccountDefault fs) (dfp_defaults page) \<and> sorted_wrt (<) (map pub_name (dfp_defaults page)))
      then Inl (ErrOther ''rights: invalid account default'')
      else Inr page)"

definition client_ListDefaultsContext :: "identity \<Rightarrow> rights_error option \<Rightarrow> (rights_error + DefaultPage) \<Rightarrow> rights_error + DefaultPage" where
  "client_ListDefaultsContext fs ctx answer = clientCall ctx True [] answer (checkedDefaults fs)"

definition checkedDefaultEdit :: "identity \<Rightarrow> bytes \<Rightarrow> bool \<Rightarrow> DefaultEdit \<Rightarrow> rights_error + DefaultEdit" where
  "checkedDefaultEdit fs name on r =
     (let observed = editObserved (dfe_outcome r) in
      if observed \<noteq> boundedOperatorString (dfe_revision r) 128 \<or> observed \<noteq> (dfe_current r \<noteq> None)
      then Inl (ErrOther ''rights: malformed default edit'')
      else if (case dfe_current r of None \<Rightarrow> False | Some cur \<Rightarrow> \<not> validAccountDefault fs cur \<or> pub_name cur \<noteq> name \<or>
          (dfe_outcome r = PolicyEditOutcomeApplied \<and> pub_on cur \<noteq> on))
      then Inl (ErrOther ''rights: mismatched default'')
      else Inr r)"

definition client_SetDefaultContext :: "identity \<Rightarrow> rights_error option \<Rightarrow> (bytes \<Rightarrow> bytes \<Rightarrow> bool \<Rightarrow> rights_error + DefaultEdit) \<Rightarrow>
    bytes \<Rightarrow> bytes \<Rightarrow> bool \<Rightarrow> rights_error + DefaultEdit" where
  "client_SetDefaultContext fs ctx call expected name on =
     clientCall ctx (boundedOperatorString expected 128 \<and> boundedOperatorString name 64) ''rights: invalid default edit''
       (call expected name on) (checkedDefaultEdit fs name on)"

subsection \<open>Actions and their descriptions\<close>

definition checkedActionEdit :: "identity \<Rightarrow> bytes \<Rightarrow> ActionEdit \<Rightarrow> rights_error + ActionEdit" where
  "checkedActionEdit fs action r =
     (let observed = (ae_outcome r = ActionEditOutcomeApplied \<or> ae_outcome r = ActionEditOutcomeConflict \<or>
        ae_outcome r = ActionEditOutcomeUnknown) in
      if observed \<noteq> boundedOperatorString (ae_revision r) 128 \<or>
         (ae_current r \<noteq> None \<and> (ae_outcome r = ActionEditOutcomeUnknown \<or> \<not> observed))
      then Inl (ErrOther ''rights: malformed action edit'')
      else if (case ae_current r of None \<Rightarrow> False | Some c \<Rightarrow> ce_action c \<noteq> action \<or> \<not> validSubject fs (ce_registeredBy c) \<or>
          \<not> validStamp (ce_registeredAt c))
      then Inl (ErrOther ''rights: mismatched catalogue entry'')
      else Inr r)"

definition client_RegisterActionContext :: "identity \<Rightarrow> rights_error option \<Rightarrow> (bytes \<Rightarrow> bytes \<Rightarrow> rights_error + ActionEdit) \<Rightarrow>
    bytes \<Rightarrow> bytes \<Rightarrow> rights_error + ActionEdit" where
  "client_RegisterActionContext fs ctx call expected action =
     clientCall ctx (boundedOperatorString expected 128 \<and> ValidActionName action) ''rights: invalid action registration''
       (call expected action) (checkedActionEdit fs action)"

definition client_RetireActionContext :: "identity \<Rightarrow> rights_error option \<Rightarrow> (bytes \<Rightarrow> bytes \<Rightarrow> rights_error + ActionEdit) \<Rightarrow>
    bytes \<Rightarrow> bytes \<Rightarrow> rights_error + ActionEdit" where
  "client_RetireActionContext fs ctx call expected action =
     clientCall ctx (boundedOperatorString expected 128 \<and> boundedOperatorString action 128) ''rights: invalid action retirement''
       (call expected action) (checkedActionEdit fs action)"

definition trimmed :: "bytes \<Rightarrow> nat \<Rightarrow> bool" where
  "trimmed s m \<longleftrightarrow> boundedOperatorString s m \<and> trimSpace s = s"

definition validDescription :: "identity \<Rightarrow> ActionDescription \<Rightarrow> bool" where
  "validDescription fs d \<longleftrightarrow> boundedOperatorString (ad_action d) 128 \<and> validSubject fs (ad_featureApp d) \<and>
     trimmed (ad_appLabel d) 128 \<and> trimmed (ad_description d) 512 \<and> trimmed (ad_declaredRisk d) 32"

definition validDescribedAction :: "identity \<Rightarrow> DescribedAction \<Rightarrow> bool" where
  "validDescribedAction fs a \<longleftrightarrow>
     boundedOperatorString (da_action a) 128 \<and> da_choices a = [''allow'', ''block'', ''remove_rule''] \<and>
     (case da_description a of
        None \<Rightarrow> da_publishedBy a = None \<and> da_publishedAt a = []
      | Some d \<Rightarrow> validDescription fs d \<and> ad_action d = da_action a \<and>
          (case da_publishedBy a of None \<Rightarrow> False | Some by \<Rightarrow> validSubject fs by) \<and> validStamp (da_publishedAt a))"

definition checkedDescriptionPage :: "identity \<Rightarrow> bytes \<Rightarrow> int \<Rightarrow> DescriptionPage \<Rightarrow> rights_error + DescriptionPage" where
  "checkedDescriptionPage fs cursor limit page =
     (if dp_outcome page \<noteq> PolicyPageOutcomePage then
        (if dp_revision page \<noteq> [] \<or> dp_actions page \<noteq> [] \<or> dp_next page \<noteq> [] \<or> dp_complete page
         then Inl (ErrOther ''rights: malformed description refusal'') else Inr page)
      else if \<not> pageHeader (dp_revision page) limit (dp_next page) (dp_complete page) cursor (length (dp_actions page))
      then Inl (ErrOther ''rights: malformed description page'')
      else if \<not> (list_all (validDescribedAction fs) (dp_actions page) \<and> sorted_wrt (<) (map da_action (dp_actions page)))
      then Inl (ErrOther ''rights: malformed action description'')
      else if length (jprint (descriptionPageJson page)) + 2048 + 1024 * length (dp_actions page) > 262144
      then Inl (ErrOther ''rights: oversized description page'')
      else Inr page)"

definition client_ListActionDescriptionsContext :: "identity \<Rightarrow> rights_error option \<Rightarrow>
    (bytes \<Rightarrow> int \<Rightarrow> rights_error + DescriptionPage) \<Rightarrow> bytes \<Rightarrow> int \<Rightarrow> rights_error + DescriptionPage" where
  "client_ListActionDescriptionsContext fs ctx call cursor limit =
     clientCall ctx (clientRange cursor limit) ''rights: invalid description range''
       (call cursor limit) (checkedDescriptionPage fs cursor limit)"

definition checkedDescriptionEdit :: "identity \<Rightarrow> ActionDescription \<Rightarrow> DescriptionEdit \<Rightarrow> rights_error + DescriptionEdit" where
  "checkedDescriptionEdit fs d r =
     (case de_outcome r of
        ActionEditOutcomeUnknown \<Rightarrow> Inl (ErrOther ''rights: unexpected description edit outcome'')
      | out \<Rightarrow>
         if out = ActionEditOutcomeApplied \<or> out = ActionEditOutcomeConflict then
           (if \<not> boundedOperatorString (de_revision r) 128 \<or>
               (case de_current r of None \<Rightarrow> False | Some cur \<Rightarrow> \<not> validDescribedAction fs cur \<or> da_action cur \<noteq> ad_action d) \<or>
               (out = ActionEditOutcomeApplied \<and> Option.bind (de_current r) da_description \<noteq> Some d)
            then Inl (ErrOther ''rights: malformed description edit'') else Inr r)
         else if de_revision r \<noteq> [] \<or> de_current r \<noteq> None
         then Inl (ErrOther ''rights: malformed description refusal'') else Inr r)"

definition client_RegisterDescribedActionContext :: "identity \<Rightarrow> rights_error option \<Rightarrow>
    (bytes \<Rightarrow> ActionDescription \<Rightarrow> rights_error + DescriptionEdit) \<Rightarrow> bytes \<Rightarrow> ActionDescription \<Rightarrow> rights_error + DescriptionEdit" where
  "client_RegisterDescribedActionContext fs ctx call expected d0 =
     (let d = d0\<lparr>ad_featureApp := normalizeOperatorSubject fs (ad_featureApp d0), ad_appLabel := trimSpace (ad_appLabel d0),
            ad_description := trimSpace (ad_description d0), ad_declaredRisk := trimSpace (ad_declaredRisk d0)\<rparr> in
      clientCall ctx (boundedOperatorString expected 128 \<and> validDescription fs d) ''rights: invalid description edit''
        (call expected d) (checkedDescriptionEdit fs d))"

subsection \<open>Typed permissions\<close>

definition selectorRange :: "bytes \<Rightarrow> int \<Rightarrow> bool" where
  "selectorRange cursor limit \<longleftrightarrow> length cursor \<le> 256 \<and> 1 \<le> limit \<and> limit \<le> 64"

definition selectionShape :: "PermissionSelection \<Rightarrow> bool" where
  "selectionShape s \<longleftrightarrow> boundedOperatorString (k_action (ps_permission s)) 128 \<and>
     boundedOperatorString (k_resourceProfile (ps_permission s)) 128 \<and>
     (case s_kind (ps_selector s) of
        ResourceSelectorKindAll \<Rightarrow> s_target (ps_selector s) = None
      | ResourceSelectorKindOne \<Rightarrow> 0 < length (elems (s_target (ps_selector s))) \<and> length (elems (s_target (ps_selector s))) \<le> 16384)"

definition selectorPageHeader :: "PolicyPageOutcome \<Rightarrow> bytes \<Rightarrow> bytes \<Rightarrow> bool \<Rightarrow> nat \<Rightarrow> int \<Rightarrow> bool" where
  "selectorPageHeader out rvn nxt complete cnt limit =
     (if out \<noteq> PolicyPageOutcomePage then rvn = [] \<and> nxt = [] \<and> \<not> complete \<and> cnt = 0
      else boundedOperatorString rvn 128 \<and> int cnt \<le> limit \<and> length nxt \<le> 256 \<and> complete = (nxt = []) \<and> (complete \<or> cnt > 0))"

definition client_ListPermissionDefinitionsContext :: "rights_error option \<Rightarrow>
    (bytes \<Rightarrow> int \<Rightarrow> rights_error + PermissionDefinitionPage) \<Rightarrow> bytes \<Rightarrow> int \<Rightarrow> rights_error + PermissionDefinitionPage" where
  "client_ListPermissionDefinitionsContext ctx call cursor limit =
     clientCall ctx (selectorRange cursor limit) ''rights: invalid definition range'' (call cursor limit) (\<lambda>v.
       if \<not> selectorPageHeader (pdp_outcome v) (pdp_revision v) (pdp_next v) (pdp_complete v) (length (pdp_definitions v)) limit \<or>
          length (EncodePermissionDefinitionPage v) > 262144
       then Inl (ErrOther ''rights: invalid definition page'') else Inr v)"

definition client_ListPermissionBundlesContext :: "rights_error option \<Rightarrow>
    (bytes \<Rightarrow> int \<Rightarrow> rights_error + PermissionBundlePage) \<Rightarrow> bytes \<Rightarrow> int \<Rightarrow> rights_error + PermissionBundlePage" where
  "client_ListPermissionBundlesContext ctx call cursor limit =
     clientCall ctx (selectorRange cursor limit) ''rights: invalid bundle range'' (call cursor limit) (\<lambda>v.
       if \<not> selectorPageHeader (pbp_outcome v) (pbp_revision v) (pbp_next v) (pbp_complete v) (length (pbp_bundles v)) limit \<or>
          length (EncodePermissionBundlePage v) > 262144
       then Inl (ErrOther ''rights: invalid bundle page'') else Inr v)"

definition checkedBatch :: "CheckBatchRequest \<Rightarrow> BatchDecision \<Rightarrow> rights_error + BatchDecision" where
  "checkedBatch req v =
     (let bad = (case bd_outcome v of
        BatchCheckOutcomeChecked \<Rightarrow>
          \<not> boundedOperatorString (bd_revision v) 128 \<or> length (bd_outcomes v) \<noteq> length (cb_resources req) \<or>
          (bd_collectionOutcome v \<noteq> None) \<noteq> (cb_collectionAdmission req \<noteq> None) \<or>
          (cb_expectedRevision req \<noteq> [] \<and> bd_revision v \<noteq> cb_expectedRevision req) \<or>
          \<not> list_all decisionEvaluated (bd_outcomes v @ (case bd_collectionOutcome v of None \<Rightarrow> [] | Some x \<Rightarrow> [x]))
      | BatchCheckOutcomeConflict \<Rightarrow> \<not> boundedOperatorString (bd_revision v) 128 \<or> bd_outcomes v \<noteq> [] \<or> bd_collectionOutcome v \<noteq> None
      | _ \<Rightarrow> bd_revision v \<noteq> [] \<or> bd_outcomes v \<noteq> [] \<or> bd_collectionOutcome v \<noteq> None) in
      if bad then Inl (ErrOther ''rights: inconsistent batch response'') else Inr v)"

definition client_CheckBatchContext :: "rights_error option \<Rightarrow> (CheckBatchRequest \<Rightarrow> rights_error + BatchDecision) \<Rightarrow>
    CheckBatchRequest \<Rightarrow> rights_error + BatchDecision" where
  "client_CheckBatchContext ctx call req = clientCall ctx True [] (call req) (checkedBatch req)"

definition client_CheckBatchForContext :: "rights_error option \<Rightarrow> (subject \<Rightarrow> CheckBatchRequest \<Rightarrow> rights_error + BatchDecision) \<Rightarrow>
    subject \<Rightarrow> CheckBatchRequest \<Rightarrow> rights_error + BatchDecision" where
  "client_CheckBatchForContext ctx call subj req = clientCall ctx True [] (call subj req) (checkedBatch req)"

definition client_CheckLegacyOperationForContext :: "rights_error option \<Rightarrow>
    (subject \<Rightarrow> LegacyOperationRequest \<Rightarrow> rights_error + Decision) \<Rightarrow> subject \<Rightarrow> LegacyOperationRequest \<Rightarrow> rights_error + Decision" where
  "client_CheckLegacyOperationForContext ctx call subj req = clientCall ctx True [] (call subj req) checked"

definition checkedSelectorEdit :: "identity \<Rightarrow> SelectorEdit \<Rightarrow> rights_error + SelectorEdit" where
  "checkedSelectorEdit fs v =
     (let evaluated = editObserved (se_outcome v) in
      if evaluated \<noteq> boundedOperatorString (se_revision v) 128 \<or>
         (\<not> evaluated \<and> (se_current v \<noteq> [] \<or> se_bundleOrigin v \<noteq> None)) \<or> length (se_current v) > 64
      then Inl (ErrOther ''rights: inconsistent selector edit'')
      else if \<not> list_all (\<lambda>r. validSubject fs (sr_subject (srr_rule r)) \<and> validSubject fs (srr_setBy r) \<and>
          selectionShape (sr_selection (srr_rule r))) (se_current v)
      then Inl (ErrOther ''rights: invalid selector record'')
      else Inr v)"

definition client_ListSelectorRulesContext :: "identity \<Rightarrow> rights_error option \<Rightarrow> (bytes \<Rightarrow> int \<Rightarrow> rights_error + SelectorRulePage) \<Rightarrow>
    bytes \<Rightarrow> int \<Rightarrow> rights_error + SelectorRulePage" where
  "client_ListSelectorRulesContext fs ctx call cursor limit =
     clientCall ctx (selectorRange cursor limit) ''rights: invalid selector range'' (call cursor limit) (\<lambda>v.
       if \<not> selectorPageHeader (srp_outcome v) (srp_revision v) (srp_next v) (srp_complete v) (length (srp_records v)) limit \<or>
          length (EncodeSelectorRulePage v) > 262144
       then Inl (ErrOther ''rights: invalid selector page'')
       else if \<not> list_all (\<lambda>r. validSubject fs (sr_subject (srr_rule r)) \<and> selectionShape (sr_selection (srr_rule r))) (srp_records v)
       then Inl (ErrOther ''rights: invalid selector record'')
       else Inr v)"

definition client_ReadSelectorRuleContext :: "identity \<Rightarrow> rights_error option \<Rightarrow>
    (subject \<Rightarrow> PermissionSelection \<Rightarrow> rights_error + SelectorRuleRead) \<Rightarrow> subject \<Rightarrow> PermissionSelection \<Rightarrow> rights_error + SelectorRuleRead" where
  "client_ReadSelectorRuleContext fs ctx call subj selection =
     clientCall ctx (validSubject fs subj \<and> selectionShape selection) ''rights: invalid selector read'' (call subj selection) (\<lambda>v.
       let present = (srd_outcome v = RuleReadOutcomeFound \<or> srd_outcome v = RuleReadOutcomeExpired) in
       if (present \<or> srd_outcome v = RuleReadOutcomeUnknown) \<noteq> boundedOperatorString (srd_revision v) 128 \<or>
          (srd_record v \<noteq> None) \<noteq> present
       then Inl (ErrOther ''rights: inconsistent selector read'') else Inr v)"

definition client_SetSelectorRuleContext :: "identity \<Rightarrow> rights_error option \<Rightarrow>
    (bytes \<Rightarrow> SelectorRule \<Rightarrow> int \<Rightarrow> bytes \<Rightarrow> rights_error + SelectorEdit) \<Rightarrow> bytes \<Rightarrow> SelectorRule \<Rightarrow> duration \<Rightarrow> bytes \<Rightarrow>
    rights_error + SelectorEdit" where
  "client_SetSelectorRuleContext fs ctx call expected rule ttl why =
     clientCall ctx (boundedOperatorString expected 128 \<and> validSubject fs (sr_subject rule) \<and> selectionShape (sr_selection rule) \<and>
         clientTTL ttl)
       ''rights: invalid selector edit'' (call expected rule (ttl div 1000000) why) (checkedSelectorEdit fs)"

definition client_RemoveSelectorRuleContext :: "identity \<Rightarrow> rights_error option \<Rightarrow>
    (bytes \<Rightarrow> subject \<Rightarrow> PermissionSelection \<Rightarrow> rights_error + SelectorEdit) \<Rightarrow> bytes \<Rightarrow> subject \<Rightarrow> PermissionSelection \<Rightarrow>
    rights_error + SelectorEdit" where
  "client_RemoveSelectorRuleContext fs ctx call expected subj selection =
     clientCall ctx (boundedOperatorString expected 128 \<and> validSubject fs subj \<and> selectionShape selection)
       ''rights: invalid selector removal'' (call expected subj selection) (checkedSelectorEdit fs)"

definition client_ApplyBundleContext :: "identity \<Rightarrow> rights_error option \<Rightarrow>
    (bytes \<Rightarrow> subject \<Rightarrow> bytes \<Rightarrow> ResourceSelector \<Rightarrow> int \<Rightarrow> bytes \<Rightarrow> rights_error + SelectorEdit) \<Rightarrow>
    bytes \<Rightarrow> subject \<Rightarrow> bytes \<Rightarrow> ResourceSelector \<Rightarrow> duration \<Rightarrow> bytes \<Rightarrow> rights_error + SelectorEdit" where
  "client_ApplyBundleContext fs ctx call expected subj ref selector ttl why =
     clientCall ctx (boundedOperatorString expected 128 \<and> validSubject fs subj \<and> boundedOperatorString ref 128 \<and> clientTTL ttl)
       ''rights: invalid bundle edit'' (call expected subj ref selector (ttl div 1000000) why) (checkedSelectorEdit fs)"

definition client_RemoveBundleContext :: "identity \<Rightarrow> rights_error option \<Rightarrow>
    (bytes \<Rightarrow> subject \<Rightarrow> bytes \<Rightarrow> rights_error + SelectorEdit) \<Rightarrow> bytes \<Rightarrow> subject \<Rightarrow> bytes \<Rightarrow> rights_error + SelectorEdit" where
  "client_RemoveBundleContext fs ctx call expected subj origin =
     clientCall ctx (boundedOperatorString expected 128 \<and> validSubject fs subj \<and> boundedOperatorString origin 128)
       ''rights: invalid bundle removal'' (call expected subj origin) (checkedSelectorEdit fs)"

definition client_ApplyPermissionAllowContext :: "identity \<Rightarrow> rights_error option \<Rightarrow> (bytes \<Rightarrow> bytes \<Rightarrow> rights_error + SelectorEdit) \<Rightarrow>
    bytes \<Rightarrow> bytes \<Rightarrow> rights_error + SelectorEdit" where
  "client_ApplyPermissionAllowContext fs ctx call expected answer =
     clientCall ctx (boundedOperatorString expected 128 \<and> boundedOperatorString answer 128) ''rights: invalid permission effect''
       (call expected answer) (checkedSelectorEdit fs)"

definition client_UndoPermissionEffectContext :: "identity \<Rightarrow> rights_error option \<Rightarrow> (bytes \<Rightarrow> bytes \<Rightarrow> rights_error + SelectorEdit) \<Rightarrow>
    bytes \<Rightarrow> bytes \<Rightarrow> rights_error + SelectorEdit" where
  "client_UndoPermissionEffectContext fs ctx call expected answer =
     clientCall ctx (boundedOperatorString expected 128 \<and> boundedOperatorString answer 128) ''rights: invalid permission undo''
       (call expected answer) (checkedSelectorEdit fs)"

end
