(* ===== verification/Host_Facts.thy ===== *)
theory Host_Facts
  imports Client
begin

text \<open>
  What the host promises: a call of the operator interfaces writes only when the owner's operator
  was admitted at entry and again inside the run that writes, at the revision the caller saw.
  The admission of the run is the fact each \<open>guarded_edit\<close> of the policy provides.
\<close>

subsection \<open>Admitted writes\<close>

text \<open>What an edit left: a content that was found, or a decodable one written by a run that was
  authorised, on a state at the expected revision.\<close>

definition admittedWrite :: "policy \<Rightarrow> bytes \<Rightarrow> (nat \<Rightarrow> turn) \<Rightarrow> bytes option \<Rightarrow> bytes option \<Rightarrow> bool" where
  "admittedWrite p expected turns content after \<longleftrightarrow> found turns content after \<or>
     (\<exists>k<decisionChangeAttempts. \<exists>c f g. found turns content c \<and> decodeDecision p c = Inr f \<and> revision p f = expected \<and>
        t_authorize (turns k) = None \<and> decodeDecision p after = Inr g)"

lemma admitted_unchanged [simp]: "admittedWrite p expected turns content content"
  by (simp add: admittedWrite_def found_def)

context guarded_edit
begin

lemma settled_admitted:
  assumes "\<And>t f. admit t f \<Longrightarrow> revision p f = expected"
  shows "admittedWrite p expected turns content (snd (snd (settle u (change p edit turns u content))))"
proof (cases "settle u (change p edit turns u content)")
  case (fields r e after)
  show ?thesis
  proof (cases "found turns content after")
    case False
    with settled_guarded [OF fields False] assms show ?thesis
      unfolding fields admittedWrite_def by (simp; blast)
  qed (simp add: fields admittedWrite_def)
qed

end

lemma changeRules_admitted:
  "admittedWrite p expected turns content (snd (snd (changeRules p disk turns content expected grp ed admission receipt)))"
proof -
  have s: "admittedWrite p expected turns content (snd (snd (settle unavailableEdit (change p
      (changeRules_edit p expected base by members ed rc) turns unavailableEdit content))))" for base "by" members rc
    by (rule rule_group.settled_admitted) (simp add: ruleGroupAdmitted_def)
  show ?thesis by (auto simp: changeRules_def changeContext_change s split: sum.splits rights_error.splits option.splits)
qed

lemma ChangeRule_admitted:
  "admittedWrite p expected turns content (snd (snd (ChangeRule p disk turns content now expected s action resource ed admission)))"
proof -
  have s: "admittedWrite p expected turns content (snd (snd (settle unavailableEdit (change p
      (ChangeRule_edit p expected x action resource ch) turns unavailableEdit content))))" for x ch
    by (rule one_rule.settled_admitted) simp
  show ?thesis
    by (cases "ed_permit ed") (auto simp: ChangeRule_def ChangeRules_def changeRules_admitted s split: sum.splits option.splits)
qed

lemma EditAction_admitted:
  "admittedWrite p expected turns content (snd (snd (EditAction p disk turns content now expected action register by admission)))"
proof -
  have s: "admittedWrite p expected turns content (snd (snd (settle unavailableAction (change p
      (EditAction_edit p expected action reg x at) turns unavailableAction content))))" for reg x at
    by (rule action_entry.settled_admitted) simp
  show ?thesis by (auto simp: EditAction_def s split: sum.splits option.splits)
qed

lemma StopAnswerer_admitted:
  "admittedWrite p expected turns content (snd (snd (StopAnswerer p disk turns content expected a also admission)))"
proof -
  have s: "admittedWrite p expected turns content (snd (snd (settle unavailableEdit (change p
      (StopAnswerer_edit p expected x also) turns unavailableEdit content))))" for x
    by (rule stop_answerer.settled_admitted) simp
  show ?thesis by (auto simp: StopAnswerer_def s split: sum.splits option.splits)
qed

lemma RevokeAnswerPermits_admitted:
  "admittedWrite p expected turns content (snd (snd (RevokeAnswerPermits p disk turns content expected a s acts resource q admission)))"
proof -
  have s: "admittedWrite p expected turns content (snd (snd (settle unavailableEdit (change p
      (RevokeAnswerPermits_edit p expected x y acts resource q) turns unavailableEdit content))))" for x y
    by (rule revoke_answer.settled_admitted) simp
  show ?thesis by (auto simp: RevokeAnswerPermits_def s split: sum.splits option.splits)
qed

lemma SetDefault_admitted:
  "admittedWrite p expected turns content (snd (snd (SetDefault p disk turns content now expected name on by admission)))"
proof -
  have s: "admittedWrite p expected turns content (snd (snd (settle (defaultEdit PolicyEditOutcomeUnavailable [] None) (change p
      (SetDefault_edit p d expected name on x at) turns (defaultEdit PolicyEditOutcomeUnavailable [] None) content))))" for d x at
    by (rule default_switch.settled_admitted) simp
  show ?thesis by (auto simp: SetDefault_def s split: sum.splits option.splits)
qed

lemma PublishAction_admitted:
  "admittedWrite p expected turns content (snd (snd (PublishAction p disk turns content expected d by admission)))"
proof -
  have s: "admittedWrite p expected turns content (snd (snd (settle unavailableDescription (change p
      (PublishAction_edit p expected x y) turns unavailableDescription content))))" for x y
    by (rule description.settled_admitted) simp
  show ?thesis by (auto simp: PublishAction_def s split: sum.splits option.splits)
qed

lemma changeSelectors_admitted:
  "admittedWrite p expected turns content (snd (snd (changeSelectors p disk turns content expected ch admission)))"
proof -
  have s: "admittedWrite p expected turns content (snd (snd (settle (refuseSelectors PolicyEditOutcomeUnavailable) (change p
      (changeSelectors_edit p expected ch) turns (refuseSelectors PolicyEditOutcomeUnavailable) content))))"
    by (rule selectors.settled_admitted) (simp add: selectionsAdmitted_def)
  show ?thesis by (auto simp: changeSelectors_def changeContext_change s split: sum.splits option.splits)
qed

lemma selectorOperations_admitted:
  "admittedWrite p expected turns content (snd (snd (SetSelectorRule p disk turns content expected rule ed admission)))"
  "admittedWrite p expected turns content (snd (snd (RemoveSelectorRule p disk turns content expected s selection ed admission)))"
  "admittedWrite p expected turns content (snd (snd (ApplyBundle p disk turns content expected s ref selector ed admission)))"
  "admittedWrite p expected turns content (snd (snd (RemoveBundle p disk turns content expected s origin ed admission)))"
  by (auto simp: SetSelectorRule_def RemoveSelectorRule_def ApplyBundle_def RemoveBundle_def changeSelectors_admitted
      split: sum.splits option.splits)

lemma ChangeRules_admitted:
  "admittedWrite p expected turns content (snd (snd (ChangeRules p disk turns content expected grp ed admission)))"
  by (simp add: ChangeRules_def changeRules_admitted)

lemmas operations_admitted = ChangeRules_admitted ChangeRule_admitted EditAction_admitted StopAnswerer_admitted
  RevokeAnswerPermits_admitted SetDefault_admitted PublishAction_admitted selectorOperations_admitted

text \<open>A runtime callback is trusted to pass the recheck on to the edit it commits.\<close>

definition trustedCallback :: "policy \<Rightarrow> 'r callback option \<Rightarrow> bool" where
  "trustedCallback p callback \<longleftrightarrow> (\<forall>run by expected answer turns content. callback = Some run \<longrightarrow>
     admittedWrite p expected turns content (snd (snd (run by expected answer turns content))))"

definition trustedHost :: "host \<Rightarrow> bool" where
  "trustedHost h \<longleftrightarrow> trustedCallback (h_policy h) (h_firstUseAllow h) \<and> trustedCallback (h_policy h) (h_permissionAllow h) \<and>
     trustedCallback (h_policy h) (h_permissionUndo h)"

text \<open>A write of the host: admitted at entry and again by the look of the run that wrote.\<close>

definition hostWrite :: "host \<Rightarrow> visit \<Rightarrow> bytes \<Rightarrow> bytes option \<Rightarrow> bool" where
  "hostWrite h v expected after \<longleftrightarrow> found (v_turns v) (v_content v) after \<or>
     (\<exists>by k c f g again. authorize h (v_entry v) = Inr by \<and> account by = h_owner h \<and> h_operator h \<and>
        k < decisionChangeAttempts \<and> authorize h (v_looks v k) = Inr again \<and> account again = h_owner h \<and>
        found (v_turns v) (v_content v) c \<and> decodeDecision (h_policy h) c = Inr f \<and> revision (h_policy h) f = expected \<and>
        decodeDecision (h_policy h) after = Inr g)"

lemma authorize_owner: "authorize h ev = Inr s \<Longrightarrow> account s = h_owner h \<and> h_operator h"
  by (auto simp: authorize_def split: option.splits sum.splits if_split_asm)

lemma found_rechecked [simp]: "found (rechecked h looks turns) content c = found turns content c"
  by (simp add: found_def rechecked_def)

lemma rechecked_authorize: "t_authorize (rechecked h looks turns k) = None \<Longrightarrow> \<exists>s. authorize h (looks k) = Inr s"
  by (auto simp: rechecked_def split: sum.splits)

lemma operatorEdit_hostWrite:
  assumes "\<And>by turns. authorize h (v_entry v) = Inr by \<Longrightarrow>
    admittedWrite (h_policy h) expected turns (v_content v) (snd (snd (run by turns (v_content v))))"
  shows "hostWrite h v expected (snd (operatorEdit h v refuse run))"
proof (cases "authorize h (v_entry v)")
  case (Inl e)
  then show ?thesis by (simp add: operatorEdit_def hostWrite_def found_def)
next
  case (Inr s)
  let ?turns = "rechecked h (v_looks v) (v_turns v)"
  have after: "snd (operatorEdit h v refuse run) = snd (snd (run s ?turns (v_content v)))"
    by (auto simp: operatorEdit_def Inr split: prod.splits option.splits)
  show ?thesis using assms [OF Inr, of ?turns] authorize_owner [OF Inr] authorize_owner rechecked_authorize Inr
    unfolding after hostWrite_def admittedWrite_def found_rechecked by metis
qed

text \<open>The calls a runtime callback commits.\<close>

fun committedByCallback :: "operatorCall \<Rightarrow> bool" where
  "committedByCallback (CallApplyFirstUseAllow expected answer) = True"
| "committedByCallback call = False"

fun selectorsCommittedByCallback :: "selectorCall \<Rightarrow> bool" where
  "selectorsCommittedByCallback (CallApplyPermissionAllow expected answer) = True"
| "selectorsCommittedByCallback (CallUndoPermissionEffect expected answer) = True"
| "selectorsCommittedByCallback call = False"

lemma trusted_callbacks:
  "trustedHost h \<Longrightarrow> h_firstUseAllow h = Some run1 \<Longrightarrow>
     admittedWrite (h_policy h) expected turns content (snd (snd (run1 by expected answer turns content)))"
  "trustedHost h \<Longrightarrow> h_permissionAllow h = Some run2 \<Longrightarrow>
     admittedWrite (h_policy h) expected turns content (snd (snd (run2 by expected answer turns content)))"
  "trustedHost h \<Longrightarrow> h_permissionUndo h = Some run2 \<Longrightarrow>
     admittedWrite (h_policy h) expected turns content (snd (snd (run2 by expected answer turns content)))"
  by (auto simp: trustedHost_def trustedCallback_def)

lemmas operator_receivers = receiver_RegisterDescribedAction_def receiver_ApplyFirstUseAllow_def receiver_SetRule_def
  receiver_RevokeRule_def receiver_StopAnswerer_def receiver_RevokeAnswerPermits_def receiver_SetRuleFor_def receiver_SetRulesFor_def
  receiver_editAction_def receiver_SetDefault_def receiver_edit_def

lemmas selector_receivers = selector_SetSelectorRule_def selector_RemoveSelectorRule_def selector_ApplyBundle_def
  selector_RemoveBundle_def selector_permissionEffect_def selector_edit_def

lemma operator_calls_admitted:
  assumes "committedByCallback call \<Longrightarrow> trustedHost h"
  shows "hostWrite h v (expectedOf call) (fileAfter h v call)"
  using assms
  by (cases call)
     (auto simp: operator_receivers trusted_callbacks operations_admitted hostWrite_def [of h v _ "v_content v"]
        found_def split: option.splits intro!: operatorEdit_hostWrite)

lemma selector_calls_admitted:
  assumes "selectorsCommittedByCallback call \<Longrightarrow> trustedHost h"
  shows "hostWrite h v (expectedSelectors call) (fileAfterSelectors h v call)"
  using assms
  by (cases call)
     (auto simp: selector_receivers trusted_callbacks operations_admitted split: option.splits intro!: operatorEdit_hostWrite)

text \<open>Without an admission at entry nothing happens to the file.\<close>

lemma operatorEdit_refused: "authorize h (v_entry v) = Inl e \<Longrightarrow> snd (operatorEdit h v refuse run) = v_content v"
  by (simp add: operatorEdit_def)

lemma calls_refused:
  assumes "authorize h (v_entry v) = Inl e"
  shows "fileAfter h v call = v_content v" and "fileAfterSelectors h v typedCall = v_content v"
  by (cases call; simp add: operator_receivers operatorEdit_refused [OF assms] split: option.splits)
     (cases typedCall; simp add: selector_receivers operatorEdit_refused [OF assms])

text \<open>An operator call writes only where it was admitted twice: whatever an edit of the two
  operator interfaces asks, the file afterwards is what was found, or else the caller is the
  owner's account and the configured operator check admitted it at entry and again inside the run
  that wrote; that run read a state at the very revision the call expects, and what it wrote
  decodes.\<close>

theorem operator_calls_write_only_admitted:
  assumes "trustedHost h"
  shows "hostWrite h v (expectedOf call) (fileAfter h v call) \<and>
    hostWrite h v (expectedSelectors typedCall) (fileAfterSelectors h v typedCall)"
  using operator_calls_admitted [OF assms] selector_calls_admitted [OF assms] by blast

definition samplePeer :: peer where
  "samplePeer = \<lparr>peer_check = None, peer_user = Inr (WindowsUser ''alice''), peer_program = Inr ''/service''\<rparr>"

definition sampleLook :: evidence where
  "sampleLook = \<lparr>e_ctx = None, e_peer = Inr (Some samplePeer), e_operator = None, e_ctxAfter = None\<rparr>"

definition sampleHost :: host where
  "sampleHost = \<lparr>h_owner = ''alice'', h_policy = samplePolicy, h_operatorEpoch = hexEncode (replicate 16 NUL), h_serving = True,
     h_closed = False, h_operator = True, h_enforcer = None, h_selectorEnforcer = None, h_firstUseAllow = None,
     h_permissionAllow = None, h_permissionUndo = None\<rparr>"

definition sampleVisit :: "bytes option \<Rightarrow> decisionFile \<Rightarrow> visit" where
  "sampleVisit content f = \<lparr>v_entry = sampleLook, v_again = sampleLook, v_ctx = None, v_recheck = None, v_looks = (\<lambda>k. sampleLook),
     v_turns = calm, v_now = 0, v_snapshot = Inr (f, revision samplePolicy f), v_disk = Missing, v_content = content\<rparr>"

lemma sampleHost_fields [simp]:
  "h_owner sampleHost = ''alice''" "h_policy sampleHost = samplePolicy" "h_operator sampleHost" "\<not> h_closed sampleHost"
  "h_firstUseAllow sampleHost = None" "h_permissionAllow sampleHost = None" "h_permissionUndo sampleHost = None"
  by (simp_all add: sampleHost_def)

lemma sample_admitted [simp]: "authorize sampleHost sampleLook = Inr (native samplePolicy)"
  by (simp add: authorize_def caller_def sampleLook_def SubjectFromPeer_def samplePeer_def samplePolicy_def)

lemma sample_rechecked [simp]: "rechecked sampleHost (\<lambda>k. sampleLook) calm = calm"
  by (rule ext) (simp add: rechecked_def)

lemma sample_host_set:
  "snd (receiver_SetRule sampleHost (sampleVisit None f) (revision samplePolicy emptyState) (sampleMember permit)) =
     Some (marshalFile (sampleState ''x'' permit))"
proof -
  have "noEdit\<lparr>ed_permit := Some permit, ed_by := native samplePolicy\<rparr> = sampleEdit permit"
    by (simp add: noEdit_def sampleEdit_def)
  moreover have "ChangeRules samplePolicy Missing calm None (revision samplePolicy emptyState)
      [\<lparr>pr_subject = sampleApp, pr_action = ''demo/read'', pr_resource = ''x'', pr_permit = permit\<rparr>] (sampleEdit permit) True =
    (policyEdit PolicyEditOutcomeApplied (revision samplePolicy (sampleState ''x'' permit))
      (currentRule samplePolicy (sampleState ''x'' permit) sampleApp ''demo/read'' ''x'' 0),
    None, Some (marshalFile (sampleState ''x'' permit)))"
    using sample_group [of permit] by (simp add: sampleMember_def)
  ultimately show ?thesis
    by (simp add: receiver_SetRule_def receiver_edit_def operatorEdit_def sampleVisit_def ChangeRule_def sampleMember_def)
qed

lemma sample_host_write:
  "fileAfter sampleHost (sampleVisit None f) (CallSetRule (revision samplePolicy emptyState) (sampleMember True)) =
     Some (marshalFile (sampleState ''x'' True))"
  by (simp add: sample_host_set)

theorem operator_calls_write_only_admitted_witness:
  "fileAfter sampleHost (sampleVisit None emptyState) (CallSetRule (revision samplePolicy emptyState) (sampleMember True)) =
     Some (marshalFile (sampleState ''x'' True)) \<and>
   hostWrite sampleHost (sampleVisit None emptyState) (revision samplePolicy emptyState) (Some (marshalFile (sampleState ''x'' True)))"
proof -
  have "trustedHost sampleHost" by (simp add: trustedHost_def trustedCallback_def)
  from operator_calls_write_only_admitted [OF this, of "sampleVisit None emptyState" "CallSetRule (revision samplePolicy emptyState) (sampleMember True)"]
  have "hostWrite sampleHost (sampleVisit None emptyState) (revision samplePolicy emptyState)
    (fileAfter sampleHost (sampleVisit None emptyState) (CallSetRule (revision samplePolicy emptyState) (sampleMember True)))"
    by simp
  then show ?thesis unfolding sample_host_write by simp
qed

end
