(* ===== verification/Paging.thy ===== *)
theory Paging
  imports Host_Facts
begin

text \<open>
  Cursors and pages: the contract of a paged listing as a locale, and its interpretation on the
  host's policy pages as its client sees and checks them. The sizes of the JSON the host budgets
  are bounded here, so no state the policy can hold is refused for its size.
\<close>

subsection \<open>A paged listing\<close>

text \<open>Following the cursors from one, for at most so many pages.\<close>

fun walk :: "nat \<Rightarrow> (bytes \<Rightarrow> ('a list \<times> bytes \<times> bool) option) \<Rightarrow> bytes \<Rightarrow> 'a list option" where
  "walk 0 serve cursor = None"
| "walk (Suc fuel) serve cursor = (case serve cursor of
     None \<Rightarrow> None
   | Some (page, nxt, complete) \<Rightarrow> if complete then Some page else map_option (append page) (walk fuel serve nxt))"

locale paged =
  fixes fair :: bool
    and serve :: "bytes \<Rightarrow> ('a list \<times> bytes \<times> bool) option"
    and items :: "'a list"
    and cursorAt :: "nat \<Rightarrow> bytes"
  assumes serves: "fair \<Longrightarrow> n \<le> length items \<Longrightarrow>
    \<exists>k. serve (cursorAt n) = Some (take k (drop n items), if n + k = length items then [] else cursorAt (n + k), n + k = length items) \<and>
      n + k \<le> length items \<and> (n < length items \<longrightarrow> 0 < k)"
begin

lemma walk_from:
  "fair \<Longrightarrow> n \<le> length items \<Longrightarrow> length items - n < fuel \<Longrightarrow> walk fuel serve (cursorAt n) = Some (drop n items)"
proof (induction fuel arbitrary: n)
  case (Suc fuel)
  from serves [OF Suc.prems(1,2)] obtain k where
    k: "serve (cursorAt n) = Some (take k (drop n items), if n + k = length items then [] else cursorAt (n + k), n + k = length items)"
    and le: "n + k \<le> length items" and pos: "n < length items \<longrightarrow> 0 < k" by blast
  show ?case
  proof (cases "n + k = length items")
    case True
    then show ?thesis using k by simp
  next
    case False
    with le pos have "0 < k" by (cases "n < length items") auto
    with Suc.prems(3) le have "length items - (n + k) < fuel" by linarith
    from Suc.IH [OF Suc.prems(1) le this] k False show ?thesis
      by (simp add: append_take_drop_id drop_drop add.commute)
         (metis add.commute append_take_drop_id drop_drop)
  qed
qed simp

end

subsection \<open>Sizes\<close>

lemma length_commaSep_le: "\<forall>x\<in>set xs. length x \<le> m \<Longrightarrow> length (commaSep xs) \<le> length xs * (m + 1)"
  by (induction xs rule: commaSep.induct) auto

lemma ruleCost_bound:
  assumes "validPolicyRule fs r"
  shows "ruleCost r \<le> 40000"
proof -
  have s: "length (jprint (JStr s)) \<le> 6 * n + 2" if "boundedDecisionString s n" for s n
    using length_printString [of s] that by (simp add: boundedDecisionString_def)
  have k: "length (printString k) \<le> 60" if "length k \<le> 9" for k using length_printString [of k] that by simp
  from assms have b: "boundedDecisionString (account (pr_subject r)) 128" "boundedDecisionString (program (pr_subject r)) 4096"
    "boundedDecisionString (pr_action r) 128" "boundedDecisionString (pr_resource r) 1024" by (auto simp: validPolicyRule_def)
  note v = s [OF b(1)] s [OF b(2)] s [OF b(3)] s [OF b(4)]
  note ks = k [of "''Subject''"] k [of "''Action''"] k [of "''Resource''"] k [of "''Permit''"] k [of "''Account''"] k [of "''Program''"]
  show ?thesis using v ks by (simp add: ruleCost_def policyRuleJson_def subjectJson_def)
qed

lemma catalogCost_bound:
  assumes "length acts \<le> 64" and "\<forall>a\<in>set acts. boundedDecisionString a 128"
  shows "catalogCost acts \<le> 60000"
proof -
  have "\<forall>x\<in>set (map (jprint \<circ> JStr) acts). length x \<le> 770"
  proof
    fix x assume "x \<in> set (map (jprint \<circ> JStr) acts)"
    then obtain a where "a \<in> set acts" "x = printString a" by auto
    with assms(2) length_printString [of a] show "length x \<le> 770" by (auto simp: boundedDecisionString_def)
  qed
  then have "length (commaSep (map (jprint \<circ> JStr) acts)) \<le> length acts * 771"
    using length_commaSep_le [of "map (jprint \<circ> JStr) acts" 770] by simp
  with assms(1) show ?thesis by (simp add: catalogCost_def comp_def)
qed

subsection \<open>Filling a page\<close>

lemma policyFill_takes:
  "policyFill limit used page rest = Some result \<Longrightarrow> length page \<le> limit \<Longrightarrow> used \<le> 262144 \<Longrightarrow>
   \<exists>k\<le>length rest. result = page @ take k rest \<and> length result \<le> limit \<and> used + sum_list (map ruleCost (take k rest)) \<le> 262144"
proof (induction limit used page rest rule: policyFill.induct)
  case (2 limit used page r rest)
  consider "length page \<ge> limit" | "\<not> length page \<ge> limit" "used + ruleCost r > 262144"
    | "\<not> length page \<ge> limit" "used + ruleCost r \<le> 262144" by linarith
  then show ?case
  proof cases
    case 1
    with 2(2,3,4) show ?thesis by (intro exI [of _ 0]) simp
  next
    case 2
    with "2.prems" show ?thesis by (intro exI [of _ 0]) (auto split: if_splits)
  next
    case 3
    then have nf: "\<not> (ruleCost r > 262144 - used \<and> page = [])" by linarith
    with 3 "2.prems" have "policyFill limit (used + ruleCost r) (page @ [r]) rest = Some result" by simp
    from "2.IH" [OF 3(1) nf _ this] 3 obtain k where "k \<le> length rest" "result = (page @ [r]) @ take k rest"
      "length result \<le> limit" "used + ruleCost r + sum_list (map ruleCost (take k rest)) \<le> 262144" by force
    then show ?thesis by (intro exI [of _ "Suc k"]) (simp add: add.assoc)
  qed
qed auto

lemma policyFill_grows: "page \<noteq> [] \<Longrightarrow> \<exists>more1. policyFill limit used page rest = Some (page @ more1)"
proof (induction limit used page rest rule: policyFill.induct)
  case (2 limit used page r rest)
  then show ?case by (cases "length page \<ge> limit"; cases "used + ruleCost r > 262144") auto
qed simp

lemma policyFill_fits:
  assumes "\<forall>r\<in>set rest. used + ruleCost r \<le> 262144" and "0 < limit" and "used \<le> 262144"
  shows "\<exists>k\<le>length rest. policyFill limit used [] rest = Some (take k rest) \<and> k \<le> limit \<and> (rest \<noteq> [] \<longrightarrow> 0 < k) \<and>
    used + sum_list (map ruleCost (take k rest)) \<le> 262144"
proof (cases rest)
  case (Cons r rs)
  have step: "policyFill limit used [] rest = policyFill limit (used + ruleCost r) [r] rs" using assms by (auto simp: Cons)
  obtain more1 where m: "policyFill limit used [] rest = Some (r # more1)"
    using policyFill_grows [of "[r]" limit "used + ruleCost r" rs] by (auto simp: step)
  have "\<exists>k\<le>length rest. r # more1 = take k rest \<and> length (r # more1) \<le> limit \<and> used + sum_list (map ruleCost (take k rest)) \<le> 262144"
    using policyFill_takes [OF m] assms(3) by simp
  then obtain k where k: "k \<le> length rest" "r # more1 = take k rest" "length (r # more1) \<le> limit"
    "used + sum_list (map ruleCost (take k rest)) \<le> 262144" by blast
  from k(2,3) have "length (take k rest) \<le> limit" by metis
  with k(1) have "k \<le> limit" by simp
  moreover have "0 < k" using k(2) by (cases k) auto
  ultimately show ?thesis using m k by (intro exI [of _ k]) (simp add: Cons del: policyFill.simps)
qed (use assms in simp)

subsection \<open>Cursors\<close>

definition cursorText :: "bytes \<Rightarrow> nat \<Rightarrow> bytes" where
  "cursorText pre n = (if n = 0 then [] else pre @ itoa n)"

lemma stripPrefix_append [simp]: "stripPrefix pre (pre @ x) = Some x"
  by (induction pre) auto

lemma length_itoa: "n < 10 ^ Suc k \<Longrightarrow> length (itoa n) \<le> Suc k"
proof (induction k arbitrary: n)
  case 0
  then show ?case by (simp add: itoa.simps [of n])
next
  case (Suc k)
  then show ?case by (cases "n < 10") (auto simp: itoa.simps [of n] intro!: Suc.IH)
qed

lemma itoa_nonempty [simp]: "itoa n \<noteq> []"
  by (subst itoa.simps) simp

lemma itoa_inj [simp]: "itoa m = itoa n \<longleftrightarrow> m = n"
  using itoa_digits by metis

lemma cursorOffset_text:
  assumes "n \<le> cnt" and "cnt < 2 ^ 63"
  shows "cursorOffset pre (cursorText pre n) cnt = Some n"
  using assms atoi_itoa [of n] by (simp add: cursorOffset_def cursorText_def itoaInt_def)

lemma policyPrefix_fits:
  assumes "printable (h_operatorEpoch h)" and "length (h_operatorEpoch h) = 32" and "n \<le> 4096"
  shows "length (cursorText (policyPrefix h s (revision p f)) n) \<le> 256" and "validUTF8 (cursorText (policyPrefix h s (revision p f)) n)"
proof -
  have p: "printable (revision p f)" by (simp add: revision_def code_def)
  have r: "length (revision p f) \<le> 128" using revision_bounded [of p f] by (simp add: boundedDecisionString_def)
  have "length (itoa n) \<le> 4" using length_itoa [of n 3] assms(3) by simp
  then show "length (cursorText (policyPrefix h s (revision p f)) n) \<le> 256"
    using assms(2) r by (simp add: cursorText_def policyPrefix_def subjectScope_def)
  show "validUTF8 (cursorText (policyPrefix h s (revision p f)) n)"
    using assms(1) p by (intro printable_validUTF8) (simp add: cursorText_def policyPrefix_def subjectScope_def code_def)
qed

subsection \<open>The policy as a client lists it\<close>

text \<open>One page as the client hands it on: fetched from the host's \<open>ListPolicy\<close> and checked.\<close>

definition listedPage :: "host \<Rightarrow> (bytes \<Rightarrow> visit) \<Rightarrow> int \<Rightarrow> bytes \<Rightarrow> (PolicyRule list \<times> bytes \<times> bool) option" where
  "listedPage h visits limit cursor =
     (case client_ListPolicyContext (files (h_policy h)) None (\<lambda>c l. Inr (receiver_ListPolicy h (visits c) c l)) cursor limit of
        Inl e \<Rightarrow> None
      | Inr page \<Rightarrow> if pp_outcome page = PolicyPageOutcomePage then Some (pp_rules page, pp_next page, pp_complete page) else None)"

text \<open>A listing that nothing disturbs: every call comes from one admitted operator and finds the
  same decoded state; the epoch is the 32 characters \<open>Listen\<close> draws.\<close>

definition fairListing :: "host \<Rightarrow> (bytes \<Rightarrow> visit) \<Rightarrow> decisionFile \<Rightarrow> int \<Rightarrow> subject \<Rightarrow> bool" where
  "fairListing h visits f limit s \<longleftrightarrow> ready (h_policy h) \<and> (\<exists>c. decodeDecision (h_policy h) c = Inr f) \<and>
     (\<forall>c. authorize h (v_entry (visits c)) = Inr s \<and> authorize h (v_again (visits c)) = Inr s \<and>
        v_snapshot (visits c) = Inr (f, revision (h_policy h) f)) \<and>
     printable (h_operatorEpoch h) \<and> length (h_operatorEpoch h) = 32 \<and> 1 \<le> limit \<and> limit \<le> 64"

lemma decoded_public:
  assumes "ready p" and "decodeDecision p c = Inr f"
  shows "length (rules f) \<le> 4096" and "\<forall>r\<in>set (rules f). validPolicyRule (files p) (publicRule r) \<and> r_action r \<in> set (catalogue p f)"
    and "distinct (map clientKey (map publicRule (rules f)))" and "sorted_wrt (<) (catalogue p f)"
    and "catalogue p f \<noteq> []" and "length (catalogue p f) \<le> 64" and "\<forall>a\<in>set (catalogue p f). boundedDecisionString a 128"
proof -
  have w: "refuseState p f = None" using decoded_text [OF assms] by (simp add: wellFormed_def)
  note R = refuseState_None [OF w]
  have seed: "validSeed (seed p)" using assms(1) by (simp add: ready_def configured_def)
  show "length (rules f) \<le> 4096" using R(2) by (simp add: MaxDecisionRules_def)
  show "\<forall>r\<in>set (rules f). validPolicyRule (files p) (publicRule r) \<and> r_action r \<in> set (catalogue p f)"
    using R(17) by (auto simp: list_all_iff validRule_def validPolicyRule_def publicRule_def validStoredSubject_def ValidDecisionQuery_def)
  have "map clientKey (map publicRule (rules f)) = map ruleKey (rules f)"
    by (simp add: clientKey_def ruleKey_def publicRule_def)
  then show "distinct (map clientKey (map publicRule (rules f)))" using strictly_sorted_by_distinct [OF R(18)] by (simp only:)
  have "distinct (catalogue p f)" using seed strict_sorted_iff by (auto simp: validSeed_def intro: distinct_catalogue)
  then show "sorted_wrt (<) (catalogue p f)" by (simp add: strict_sorted_iff catalogue_def)
  have "set (catalogue p f) \<noteq> {}" using seed by (auto simp: set_catalogue validSeed_def)
  then show "catalogue p f \<noteq> []" by auto
  show "length (catalogue p f) \<le> 64" using R(14) by (simp add: MaxDecisionActions_def)
  show "\<forall>a\<in>set (catalogue p f). boundedDecisionString a 128"
    using catalogue_UTF8 [OF seed] R(10) by (auto simp: list_all_iff validRegisteredAction_def)
qed

lemma listedPage_serves:
  assumes fair: "fairListing h visits f limit s" and n: "n \<le> length (rules f)"
  defines "pre \<equiv> policyPrefix h s (revision (h_policy h) f)" and "items \<equiv> map publicRule (rules f)"
  shows "\<exists>k. listedPage h visits limit (cursorText pre n) =
      Some (take k (drop n items), if n + k = length items then [] else cursorText pre (n + k), n + k = length items) \<and>
    n + k \<le> length items \<and> (n < length items \<longrightarrow> 0 < k)"
proof -
  let ?p = "h_policy h" let ?cat = "catalogue ?p f" let ?cursor = "cursorText pre n"
  from fair obtain c where r: "ready ?p" "decodeDecision ?p c = Inr f" by (auto simp: fairListing_def)
  note D = decoded_public [OF r]
  have used: "catalogCost ?cat \<le> 60000" using catalogCost_bound D(6,7) by blast
  have "\<forall>x\<in>set items. ruleCost x \<le> 40000" using D(2) ruleCost_bound unfolding items_def by fastforce
  then have "\<forall>x\<in>set (drop n items). catalogCost ?cat + ruleCost x \<le> 262144" using used by (auto dest!: in_set_dropD)
  from policyFill_fits [OF this, of "nat limit"] used fair obtain k where k: "k \<le> length (drop n items)"
    "policyFill (nat limit) (catalogCost ?cat) [] (drop n items) = Some (take k (drop n items))" "k \<le> nat limit"
    "drop n items \<noteq> [] \<longrightarrow> 0 < k" "catalogCost ?cat + sum_list (map ruleCost (take k (drop n items))) \<le> 262144"
    by (auto simp: fairListing_def)
  have len: "length items \<le> 4096" using D(1) by (simp add: items_def)
  have le: "n + k \<le> length items" using k(1) n by (simp add: items_def)
  have fits: "length (cursorText pre m) \<le> 256" "validUTF8 (cursorText pre m)" if "m \<le> 4096" for m
    using policyPrefix_fits [OF _ _ that] fair by (auto simp: fairListing_def pre_def)
  have range: "pageRange ?cursor limit" "clientRange ?cursor limit" using fits [of n] n len fair
    by (auto simp: pageRange_def clientRange_def fairListing_def items_def)
  have off: "cursorOffset pre ?cursor (length items) = Some n"
    using cursorOffset_text [of n "length items" pre] n len by (simp add: items_def)
  let ?nxt = "if n + k = length items then [] else pre @ itoa (n + k)"
  let ?page = "\<lparr>pp_outcome = PolicyPageOutcomePage, pp_revision = revision ?p f, pp_catalog = ?cat, pp_rules = take k (drop n items),
      pp_next = ?nxt, pp_complete = (n + k = length items)\<rparr>"
  have served: "receiver_ListPolicy h (visits ?cursor) ?cursor limit = ?page"
    using fair range(1) off k(1,2) used unfolding fairListing_def
    by (auto simp: receiver_ListPolicy_def operatorRead_def OperatorSnapshot_def pre_def items_def Let_def min_def)
  have nxt: "n + k \<noteq> length items \<longrightarrow> ?nxt = cursorText pre (n + k) \<and> 0 < k"
    using le k(4) by (auto simp: cursorText_def)
  have header: "pageHeader (revision ?p f) limit ?nxt (n + k = length items) ?cursor k"
    using fits [of "n + k"] le len k(3) fair nxt
    by (auto simp: pageHeader_def fairListing_def cursorText_def pre_def)
  have "checkedPolicyPage (files ?p) ?cursor limit ?page = Inr ?page"
  proof -
    have "list_all (\<lambda>r. validPolicyRule (files ?p) r \<and> pr_action r \<in> set ?cat) (take k (drop n items))"
      using D(2) by (auto simp: list_all_iff items_def publicRule_def dest!: in_set_takeD in_set_dropD)
    moreover have "distinct (map clientKey (take k (drop n items)))"
      using D(3) by (simp add: items_def take_map [symmetric] drop_map [symmetric] del: map_map)
    moreover have "1 \<le> length ?cat" using D(5) by (cases ?cat) auto
    ultimately show ?thesis using D(4,5,6,7) header k(1,5) n
      by (simp add: checkedPolicyPage_def list_all_iff min_def)
  qed
  with served range(2) have "listedPage h visits limit ?cursor = Some (take k (drop n items), ?nxt, n + k = length items)"
    by (simp add: listedPage_def client_ListPolicyContext_def clientCall_def)
  moreover have "n < length items \<longrightarrow> 0 < k" using k(4) by auto
  ultimately show ?thesis using le nxt by (intro exI [of _ k]) auto
qed

interpretation policy_pages: paged "fairListing h visits f limit s" "listedPage h visits limit" "map publicRule (rules f)"
    "cursorText (policyPrefix h s (revision (h_policy h) f))"
  for h visits f limit s
  by unfold_locales (rule listedPage_serves, simp_all)

text \<open>C37: A client lists the whole policy: on a decoded state that stays as it is, following the
  host's cursors from none, with any page limit from 1 to 64, the client accepts every page, meets
  its end within as many pages as there are rules and one more, and has every rule once, in order.\<close>

theorem client_lists_whole_policy:
  assumes "fairListing h visits f limit s"
  shows "walk (Suc (length (rules f))) (listedPage h visits limit) [] = Some (map publicRule (rules f))"
  using policy_pages.walk_from [OF assms, of 0 "Suc (length (rules f))"] by (simp add: cursorText_def)

theorem client_lists_whole_policy_witness:
  "walk 2 (listedPage sampleHost (\<lambda>c. sampleVisit None (sampleState ''x'' True)) 64) [] =
     Some [publicRule (writtenSample 0 ''x'' True)]"
proof -
  have "decodeDecision samplePolicy (Some (marshalFile (sampleState ''x'' True))) = Inr (sampleState ''x'' True)"
    by (rule sampleState_decodes) (simp_all add: printable_def code_def)
  then have "fairListing sampleHost (\<lambda>c. sampleVisit None (sampleState ''x'' True)) (sampleState ''x'' True) 64 (native samplePolicy)"
    using sample_ready by (auto simp: fairListing_def sampleVisit_def) (simp_all add: sampleHost_def)
  from client_lists_whole_policy [OF this] show ?thesis by (simp add: sampleState_def numeral_2_eq_2)
qed

end
