(* ===== verification/Client_Facts.thy ===== *)
theory Client_Facts
  imports Paging
begin

text \<open>
  What a client makes of the service's answers: a resource whose owner requires a permission
  through the host is used only when the policy permits, and a conflict the grouped edit reports
  about a rule of the other effect is one its own client refuses as malformed.
\<close>

subsection \<open>Requiring a permission\<close>

lemma require_permitted:
  "client_Require ctx call pr action resource = None \<Longrightarrow>
     ctx = None \<and> (\<exists>s d. SubjectFromPeer pr = Inr s \<and> call s action resource = Inr d \<and> d_outcome d = DecisionOutcomePermitted)"
  by (auto simp: client_Require_def client_DecideForContext_def clientCall_def checked_def Let_def requireOutcome_def
      split: sum.splits option.splits if_split_asm)

lemma receiver_DecideFor_permitted:
  assumes "receiver_DecideFor h v subj action resource = Inr d" and "d_outcome d = DecisionOutcomePermitted"
  shows "ownCaller h v \<noteq> None \<and> account subj = h_owner h \<and>
    (\<exists>enforce. h_enforcer h = Some enforce \<and> enforce (peerOf (v_entry v)) action resource) \<and> v_ctx v = None \<and> v_recheck v = None \<and>
    d = Decide (h_policy h) (v_snapshot v) (v_now v) subj action resource"
  using assms by (auto simp: receiver_DecideFor_def forbiddenDecision_def split: option.splits if_split_asm)

lemma Decide_permitted:
  assumes "d_outcome (Decide p snap now subj action resource) = DecisionOutcomePermitted"
  shows "\<exists>f rvn s. snap = Inr (f, rvn) \<and> NormalizeDecisionSubject (files p) subj = Inr s \<and> action \<in> set (catalogue p f) \<and>
    \<not> typedBlockForLegacy p f rvn s (legacyRequest action resource) now \<and> \<not> ownDeny p f rvn s action resource now \<and>
    (ownPermit p f rvn s action resource now \<or> defaultAllows p f s action resource)"
  using assms unfolding Decide_def CheckLegacyOperation_def legacyOperationDecision_def decisionOf_def
  by (auto simp: explained_cases legacyRequest_def split: sum.splits if_split_asm prod.splits)

text \<open>A host whose enforcer designates its caller, and a decision it permits.\<close>

definition enforcingHost :: host where
  "enforcingHost = sampleHost\<lparr>h_enforcer := Some (\<lambda>pr action resource. True)\<rparr>"

lemma sample_peer_subject: "SubjectFromPeer (Some samplePeer) = Inr (native samplePolicy)"
  by (simp add: SubjectFromPeer_def samplePeer_def samplePolicy_def)

lemma sample_Decide:
  "Decide samplePolicy (Inr (emptyState, revision samplePolicy emptyState)) 0 (native samplePolicy) ''demo/read'' ''free'' =
     \<lparr>d_outcome = DecisionOutcomePermitted, d_policyRevision = revision samplePolicy emptyState\<rparr>"
proof -
  have "NormalizeDecisionSubject plainIdentity (native samplePolicy) = Inr (native samplePolicy)"
    by (simp add: samplePolicy_def plain_subject printable_def code_def)
  then show ?thesis
    by (simp add: Decide_def CheckLegacyOperation_def legacyOperationValid_def legacyOperationDecision_def decisionOf_def
        legacyOperationExplained_def legacyRequest_def typedBlockForLegacy_def decidingRule_def bestOf_def ValidDecisionQuery_def
        printable_bounded code_def defaultFor_def coveringDefault_def switchOn_def emptyState_def explain_def equivalenceProjection_def
        sampleLink_def set_catalogue samplePolicy_def equivalents_def sampleCatalog_def)
qed

lemma sample_DecideFor:
  "receiver_DecideFor enforcingHost (sampleVisit None emptyState) (native samplePolicy) ''demo/read'' ''free'' =
     Inr \<lparr>d_outcome = DecisionOutcomePermitted, d_policyRevision = revision samplePolicy emptyState\<rparr>"
  using sample_peer_subject sample_Decide
  by (simp add: receiver_DecideFor_def ownCaller_def caller_def sampleVisit_def sampleLook_def enforcingHost_def)

text \<open>Enforced access is permitted access: when a resource service's client lets a peer through
  \<open>Require\<close>, asking the host, then the peer's proof named a subject of the owner's account, the host
  had this service as a caller of that account and its configured enforcer designated it for this
  action and resource, the session was proved again, and on the state the host read the action is
  catalogued, no live block, typed or exact, is on the target, and a live exact permit or a default
  covers it; the in-process \<open>Require\<close> on that state agrees.\<close>

theorem enforced_access_is_permitted:
  assumes "client_Require ctx (receiver_DecideFor h v) pr action resource = None"
  shows "\<exists>subj s f rvn enforce. SubjectFromPeer pr = Inr subj \<and> account subj = h_owner h \<and> ownCaller h v \<noteq> None \<and>
    h_enforcer h = Some enforce \<and> enforce (peerOf (v_entry v)) action resource \<and> v_recheck v = None \<and>
    v_snapshot v = Inr (f, rvn) \<and> NormalizeDecisionSubject (files (h_policy h)) subj = Inr s \<and>
    action \<in> set (catalogue (h_policy h) f) \<and>
    \<not> typedBlockForLegacy (h_policy h) f rvn s (legacyRequest action resource) (v_now v) \<and>
    \<not> ownDeny (h_policy h) f rvn s action resource (v_now v) \<and>
    (ownPermit (h_policy h) f rvn s action resource (v_now v) \<or> defaultAllows (h_policy h) f s action resource) \<and>
    policy_Require (h_policy h) (v_snapshot v) (v_now v) None pr action resource = None"
proof -
  from require_permitted [OF assms] obtain s d where s: "SubjectFromPeer pr = Inr s"
    and d: "receiver_DecideFor h v s action resource = Inr d" "d_outcome d = DecisionOutcomePermitted" by blast
  note R = receiver_DecideFor_permitted [OF d]
  then have p: "d_outcome (Decide (h_policy h) (v_snapshot v) (v_now v) s action resource) = DecisionOutcomePermitted"
    using d(2) by simp
  then have "policy_Require (h_policy h) (v_snapshot v) (v_now v) None pr action resource = None"
    by (simp add: policy_Require_def s requireOutcome_def)
  with s R Decide_permitted [OF p] show ?thesis by blast
qed

theorem enforced_access_is_permitted_witness:
  "policy_Require samplePolicy (Inr (emptyState, revision samplePolicy emptyState)) 0 None (Some samplePeer) ''demo/read'' ''free'' = None"
proof -
  have "client_Require None (receiver_DecideFor enforcingHost (sampleVisit None emptyState)) (Some samplePeer) ''demo/read'' ''free'' = None"
    using sample_DecideFor sample_peer_subject
    by (simp add: client_Require_def client_DecideForContext_def clientCall_def checked_def requireOutcome_def revision_def)
  from enforced_access_is_permitted [OF this] show ?thesis by (auto simp: sampleVisit_def enforcingHost_def)
qed

subsection \<open>A conflict a client refuses\<close>

lemma sample_denied:
  "currentRule samplePolicy (sampleState ''x'' False) sampleApp ''demo/read'' ''x'' 0 = Some (sampleMember False)"
proof -
  have "sameTarget plainIdentity (writtenSample 0 ''x'' False) sampleApp ''demo/read'' ''x'' (keyOnce plainIdentity)"
    by (simp add: writtenSample_def writtenRule_def sameTarget_alt)
  then have "decidingRule plainIdentity [writtenSample 0 ''x'' False] sampleApp ''demo/read'' ''x'' 0 (keyOnce plainIdentity) =
      Some (writtenSample 0 ''x'' False)"
    unfolding decidingRule_def by (intro deciding.best_single) auto
  then show ?thesis
    by (simp add: currentRule_def sampleState_def publicRule_def writtenSample_def writtenRule_def sampleMember_def)
qed

lemma sample_conflict:
  assumes "expected \<noteq> revision samplePolicy (sampleState ''x'' False)"
  shows "changeRules_edit samplePolicy expected sampleApp (native samplePolicy) [sampleMember True] ed None (calm 0)
      (Some (marshalFile (sampleState ''x'' False))) =
    (policyEdit PolicyEditOutcomeConflict (revision samplePolicy (sampleState ''x'' False)) (Some (sampleMember False)), Inl NoWrite)"
proof -
  have d: "decodeDecision samplePolicy (Some (marshalFile (sampleState ''x'' False))) = Inr (sampleState ''x'' False)"
    by (rule sampleState_decodes) (simp_all add: printable_def code_def)
  show ?thesis using assms d sample_denied unfolding changeRules_edit_def Let_def
    by (simp add: sampleMember_def set_catalogue)
qed

text \<open>The visit of an operator whose answer is about a state that denies what is asked.\<close>

definition deniedVisit :: visit where
  "deniedVisit = sampleVisit (Some (marshalFile (sampleState ''x'' False))) (sampleState ''x'' False)"

definition sampleConflict :: PolicyEdit where
  "sampleConflict = policyEdit PolicyEditOutcomeConflict (revision samplePolicy (sampleState ''x'' False)) (Some (sampleMember False))"

lemma sample_conflict_answer:
  "ChangeRules samplePolicy Missing calm (Some (marshalFile (sampleState ''x'' False))) ''stale'' [sampleMember True]
     (noEdit\<lparr>ed_permit := Some True, ed_by := native samplePolicy, ed_exact := True\<rparr>) True =
   (sampleConflict, None, Some (marshalFile (sampleState ''x'' False)))"
proof -
  let ?ed = "noEdit\<lparr>ed_permit := Some True, ed_by := native samplePolicy, ed_exact := True\<rparr>"
  let ?edit = "changeRules_edit samplePolicy ''stale'' sampleApp (native samplePolicy) [sampleMember True] ?ed None"
  have "''stale'' \<noteq> revision samplePolicy (sampleState ''x'' False)" by (simp add: revision_def)
  note e = sample_conflict [OF this, of ?ed]
  have ch: "settle unavailableEdit (change samplePolicy ?edit calm unavailableEdit (Some (marshalFile (sampleState ''x'' False)))) =
    (sampleConflict, None, Some (marshalFile (sampleState ''x'' False)))"
    using e by (simp add: change_def decisionChangeAttempts_def numeral_eq_Suc ChangeLimit_def checkedChange_def settle_def sampleConflict_def)
  have g: "validateGroup samplePolicy sampleApp ''x'' ?ed [] [sampleMember True] = Inr [sampleMember True]"
    by (simp add: sampleMember_def sample_member_valid refuseHolder_def validMetaEdit_def plain_same noEdit_def)
  show ?thesis using ch g
    by (simp add: ChangeRules_def changeRules_def noEdit_def sampleMember_def validTTL_def validWhy_def MaxRuleTTL_def
        sample_member_valid regular_def printable_bounded code_def)
qed

lemma sample_group_conflict:
  "fst (receiver_SetRulesFor sampleHost deniedVisit ''stale'' [sampleMember True] 0 []) = sampleConflict"
proof -
  let ?ed = "noEdit\<lparr>ed_permit := Some True, ed_by := native samplePolicy, ed_ttl := 0, ed_why := [], ed_exact := True\<rparr>"
  have "?ed = noEdit\<lparr>ed_permit := Some True, ed_by := native samplePolicy, ed_exact := True\<rparr>" by (simp add: noEdit_def)
  then show ?thesis
    using sample_conflict_answer
    by (simp add: receiver_SetRulesFor_def operatorEdit_def deniedVisit_def sampleVisit_def selectorTTL_def sampleMember_def
        noEdit_def MaxRuleTTL_def)
qed

text \<open>What the service's conflict says: its own state, at another revision, and the rule that decides the
  first target of the group there.\<close>

lemma changeRules_conflict:
  assumes "fst (changeRules_edit p expected base editor members ed None t c) = policyEdit PolicyEditOutcomeConflict rvn (Some current)"
    and "\<not> ed_preserveOtherSetter ed"
  shows "\<exists>f. decodeDecision p c = Inr f \<and> rvn = revision p f \<and> rvn \<noteq> expected \<and>
    currentRule p f base (pr_action (hd members)) (pr_resource (hd members)) (t_now t) = Some current"
  using assms unfolding changeRules_edit_def Let_def policyEdit_def unavailableEdit_def invalidEdit_def
  by (auto split: option.split_asm sum.split_asm if_split_asm prod.split_asm)

lemma no_current [simp]: "pe_current invalidEdit = None" "pe_current unavailableEdit = None" "pe_current (refusedPolicy e) = None"
  by (simp_all add: invalidEdit_def unavailableEdit_def refusedPolicy_def policyEdit_def)

text \<open>A grouped edit whose answer has a current rule ran.\<close>

lemma changeRules_current:
  assumes "changeRules p disk turns content expected grp ed admission receipt = (out, err, after)" and "pe_current out \<noteq> None"
  shows "\<exists>base editor members. writableSubject (files p) (pr_subject (hd grp)) = Inr base \<and>
    validateGroup p base (pr_resource (hd grp)) ed [] grp = Inr members \<and> grp \<noteq> [] \<and>
    settle unavailableEdit (change p (changeRules_edit p expected base editor members ed receipt) turns unavailableEdit content) =
      (out, err, after)"
  using assms unfolding changeRules_def changeContext_change
  by (auto split: if_split_asm sum.split_asm rights_error.split_asm option.split_asm)

lemma receiver_SetRulesFor_conflict:
  assumes "foreignErrors (rechecked h (v_looks v) (v_turns v))"
    and "fst (receiver_SetRulesFor h v expected grp ms why) = policyEdit PolicyEditOutcomeConflict rvn (Some current)"
  shows "\<exists>base c f now. writableSubject (files (h_policy h)) (pr_subject (hd grp)) = Inr base \<and>
    found (rechecked h (v_looks v) (v_turns v)) (v_content v) c \<and> decodeDecision (h_policy h) c = Inr f \<and>
    rvn = revision (h_policy h) f \<and> rvn \<noteq> expected \<and>
    currentRule (h_policy h) f base (pr_action (hd grp)) (pr_resource (hd grp)) now = Some current"
proof -
  let ?p = "h_policy h" and ?turns = "rechecked h (v_looks v) (v_turns v)" and ?out = "policyEdit PolicyEditOutcomeConflict rvn (Some current)"
  let ?ed = "\<lambda>by. noEdit\<lparr>ed_permit := Some (pr_permit (hd grp)), ed_by := by, ed_ttl := selectorTTL ms, ed_why := why, ed_exact := True\<rparr>"
  obtain "by" after where ran: "ChangeRules ?p (v_disk v) ?turns (v_content v) expected grp (?ed by) True = (?out, None, after)"
    using assms(2) unfolding receiver_SetRulesFor_def operatorEdit_def
    by (auto simp: policyEdit_def invalidEdit_def refusedPolicy_def split: sum.split_asm prod.split_asm option.split_asm if_split_asm)
  have "pe_current ?out \<noteq> None" by (simp add: policyEdit_def)
  from changeRules_current [OF ran [unfolded ChangeRules_def] this] obtain base editor members where base: "writableSubject (files ?p) (pr_subject (hd grp)) = Inr base"
    and members: "validateGroup ?p base (pr_resource (hd grp)) (?ed by) [] grp = Inr members" "grp \<noteq> []"
    and run: "settle unavailableEdit (change ?p (changeRules_edit ?p expected base editor members (?ed by) None) ?turns unavailableEdit
      (v_content v)) = (?out, None, after)" by (elim exE conjE)
  from settled_ran [OF run assms(1)] obtain k c where c: "found ?turns (v_content v) c"
    "fst (changeRules_edit ?p expected base editor members (?ed by) None (?turns k) c) = ?out" by metis
  have "\<not> ed_preserveOtherSetter (?ed by)" by (simp add: noEdit_def)
  from changeRules_conflict [OF c(2) this] obtain f where f: "decodeDecision ?p c = Inr f" "rvn = revision ?p f" "rvn \<noteq> expected"
    "currentRule ?p f base (pr_action (hd members)) (pr_resource (hd members)) (t_now (?turns k)) = Some current" by blast
  have "pr_action (hd members) = pr_action (hd grp) \<and> pr_resource (hd members) = pr_resource (hd grp)"
    using conjunct1 [OF validateGroup_spec [OF members(1)]] members(2) by (cases grp) (auto simp: list_all2_Cons1)
  with base c(1) f show ?thesis by metis
qed

text \<open>C40: A client of the grouped edit refuses every honest conflict about the other effect. Whenever the
  service answers a grouped edit its client sends with a conflict and the current rule, that rule is
  the one that decides the group's first target in the service's state, at a revision other than the
  one expected. If it is on that target as the client compares targets and has the effect opposite
  to the one asked for, the client of the grouped edit calls the answer malformed and loses it; the
  client of the single edit, given the same answer for the same rule, hands it on.\<close>

theorem grouped_client_refuses_honest_conflict:
  assumes normalised: "grp = map (\<lambda>r. r\<lparr>pr_subject := normalizeOperatorSubject fs (pr_subject r)\<rparr>) grp0"
    and errors: "foreignErrors (rechecked h (v_looks v) (v_turns v))"
    and sent: "1 \<le> length grp" "length grp \<le> 2" "validRuleGroup fs grp" "boundedOperatorString expected 128" "clientTTL ttl" "clientWhy why"
    and answered: "fst (receiver_SetRulesFor h v expected grp (ttl div 1000000) why) =
      policyEdit PolicyEditOutcomeConflict rvn (Some current)"
    and target: "ruleMatches fs current (pr_subject (hd grp)) (pr_action (hd grp)) (pr_resource (hd grp))"
    and opposite: "pr_permit current \<noteq> pr_permit (hd grp)"
  shows "(\<exists>base c f now. writableSubject (files (h_policy h)) (pr_subject (hd grp)) = Inr base \<and>
      found (rechecked h (v_looks v) (v_turns v)) (v_content v) c \<and> decodeDecision (h_policy h) c = Inr f \<and>
      rvn = revision (h_policy h) f \<and> rvn \<noteq> expected \<and>
      currentRule (h_policy h) f base (pr_action (hd grp)) (pr_resource (hd grp)) now = Some current) \<and>
    client_SetRulesForContext fs None (\<lambda>e g ms w. Inr (fst (receiver_SetRulesFor h v e g ms w))) expected grp0 ttl why =
      Inl (ErrOther ''rights: mismatched grouped current rule'') \<and>
    client_SetRuleForContext fs None (\<lambda>e r ms w. Inr (policyEdit PolicyEditOutcomeConflict rvn (Some current)))
      expected (hd grp0) ttl why = Inr (policyEdit PolicyEditOutcomeConflict rvn (Some current))"
proof -
  let ?out = "policyEdit PolicyEditOutcomeConflict rvn (Some current)"
  note honest = receiver_SetRulesFor_conflict [OF errors answered]
  then have rvn: "boundedOperatorString rvn 128" by auto
  have h: "hd grp = (hd grp0)\<lparr>pr_subject := normalizeOperatorSubject fs (pr_subject (hd grp0))\<rparr>" "hd grp \<in> set grp"
    using sent(1) by (cases grp0; simp add: normalised)+
  have "\<not> (ruleMatches fs current (pr_subject q) (pr_action q) (pr_resource q) \<and> pr_permit current = pr_permit q)" if "q \<in> set grp" for q
    using sent(3) opposite that by (auto simp: validRuleGroup_def list_all_iff)
  then have "checkedRuleGroup fs grp ?out = Inl (ErrOther ''rights: mismatched grouped current rule'')"
    using rvn by (auto simp: checkedRuleGroup_def Let_def policyEdit_def editObserved_def list_ex_iff)
  with sent answered have "client_SetRulesForContext fs None (\<lambda>e g ms w. Inr (fst (receiver_SetRulesFor h v e g ms w))) expected grp0 ttl why =
      Inl (ErrOther ''rights: mismatched grouped current rule'')"
    by (simp add: client_SetRulesForContext_def clientCall_def normalised [symmetric] Let_def)
  moreover have "validPolicyRule fs (hd grp)" using sent(3) h(2) by (auto simp: validRuleGroup_def list_all_iff)
  with rvn target sent have "client_SetRuleForContext fs None (\<lambda>e r ms w. Inr ?out) expected (hd grp0) ttl why = Inr ?out"
    by (simp add: client_SetRuleForContext_def clientCall_def Let_def h(1) [symmetric] checkedPolicyEdit_def policyEdit_def editObserved_def)
  ultimately show ?thesis using honest by blast
qed

lemma calm_visit_foreign: "foreignErrors (rechecked sampleHost (v_looks deniedVisit) (v_turns deniedVisit))"
  using calm_foreign by (simp add: foreignErrors_def rechecked_def deniedVisit_def sampleVisit_def)

theorem grouped_client_refuses_honest_conflict_witness:
  "client_SetRulesForContext plainIdentity None (\<lambda>e g ms w. Inr (fst (receiver_SetRulesFor sampleHost deniedVisit e g ms w)))
     ''stale'' [sampleMember True] 0 [] = Inl (ErrOther ''rights: mismatched grouped current rule'') \<and>
   client_SetRuleForContext plainIdentity None (\<lambda>e r ms w. Inr sampleConflict) ''stale'' (sampleMember True) 0 [] = Inr sampleConflict"
proof -
  let ?norm = "\<lambda>r. r\<lparr>pr_subject := normalizeOperatorSubject plainIdentity (pr_subject r)\<rparr>"
  have n: "map ?norm [sampleMember True] = [sampleMember True]"
    by (simp add: sampleMember_def normalizeOperatorSubject_def plainIdentity_def)
  have v: "validPolicyRule plainIdentity (sampleMember permit)" for permit
    by (simp add: validPolicyRule_def sampleMember_def sampleApp_def plainIdentity_def printable_bounded code_def)
  have g: "validRuleGroup plainIdentity [sampleMember True]"
    using v by (simp add: validRuleGroup_def sampleMember_def plainIdentity_def)
  have s: "boundedOperatorString ''stale'' 128" by (simp add: printable_bounded code_def)
  have w: "clientTTL 0" "clientWhy []" by (simp_all add: clientTTL_def clientWhy_def)
  have m: "ruleMatches plainIdentity (sampleMember False) (pr_subject (sampleMember True)) (pr_action (sampleMember True))
      (pr_resource (sampleMember True))"
    using v [of False] by (simp add: ruleMatches_def sampleMember_def plainIdentity_def)
  have p: "pr_permit (sampleMember False) \<noteq> pr_permit (sampleMember True)" by (simp add: sampleMember_def)
  have a: "fst (receiver_SetRulesFor sampleHost deniedVisit ''stale'' [sampleMember True] (0 div 1000000) []) =
      policyEdit PolicyEditOutcomeConflict (revision samplePolicy (sampleState ''x'' False)) (Some (sampleMember False))"
    using sample_group_conflict by (simp add: sampleConflict_def)
  have hd1: "hd [sampleMember True] = sampleMember True" by simp
  from grouped_client_refuses_honest_conflict [OF n [symmetric] calm_visit_foreign _ _ g s w a, unfolded hd1, OF _ _ m p]
  show ?thesis by (simp add: sampleConflict_def)
qed


end
