(* ===== verification/Endpoint.thy ===== *)
theory Endpoint
  imports Remote_Methods Client_Facts
begin

text \<open>
  The endpoint a host serves (\<open>Host.Serve\<close> in host.go): the receivers of package authorization as
  the handlers of the four generated dispatchers, behind one \<open>ServeEndpoint\<close>. The state of the
  transport is the stored file; what else a call meets is its \<open>visit\<close>. A handler that edits runs on
  the file as it is; a handler that reads leaves it.
\<close>

subsection \<open>Receivers as handlers\<close>

definition giving :: "'r \<Rightarrow> ('s, 'r) handler" where
  "giving r s = (s, Returned r)"

definition failing :: "rights_error + 'r \<Rightarrow> ('s, 'r) handler" where
  "failing result s = (s, case result of Inl e \<Rightarrow> Failed (OtherError e) | Inr r \<Rightarrow> Returned r)"

definition editing :: "visit \<Rightarrow> (visit \<Rightarrow> 'r \<times> bytes option) \<Rightarrow> (bytes option, 'r) handler" where
  "editing v run s = (case run (v\<lparr>v_content := s\<rparr>) of (r, after) \<Rightarrow> (after, Returned r))"

definition hostAuthorization :: "host \<Rightarrow> visit \<Rightarrow> bytes option Authorization" where
  "hostAuthorization h v = \<lparr>
     Authorization_ListActionDescriptions = (\<lambda>cursor limit. giving (receiver_ListActionDescriptions h v cursor limit)),
     Authorization_Decide = (\<lambda>action resource. giving (receiver_Decide h v action resource)),
     Authorization_DecideFor = (\<lambda>subj action resource. failing (receiver_DecideFor h v subj action resource))\<rparr>"

definition hostAuthorizationOperator :: "host \<Rightarrow> visit \<Rightarrow> bytes option AuthorizationOperator" where
  "hostAuthorizationOperator h v = \<lparr>
     AuthorizationOperator_RegisterDescribedAction = (\<lambda>expectedRevision description. editing v (\<lambda>v1. receiver_RegisterDescribedAction h v1 expectedRevision description)),
     AuthorizationOperator_ApplyFirstUseAllow = (\<lambda>expectedRevision questionID. editing v (\<lambda>v1. receiver_ApplyFirstUseAllow h v1 expectedRevision questionID)),
     AuthorizationOperator_ListPolicy = (\<lambda>cursor limit. giving (receiver_ListPolicy h v cursor limit)),
     AuthorizationOperator_SetRule = (\<lambda>expectedRevision rule1. editing v (\<lambda>v1. receiver_SetRule h v1 expectedRevision rule1)),
     AuthorizationOperator_RevokeRule = (\<lambda>expectedRevision subj action resource. editing v (\<lambda>v1. receiver_RevokeRule h v1 expectedRevision subj action resource)),
     AuthorizationOperator_StopAnswerer = (\<lambda>expectedRevision answerer alsoRevokeGrants. editing v (\<lambda>v1. receiver_StopAnswerer h v1 expectedRevision answerer alsoRevokeGrants)),
     AuthorizationOperator_RevokeAnswerPermits = (\<lambda>expectedRevision answerer target acts resource questionID. editing v (\<lambda>v1. receiver_RevokeAnswerPermits h v1 expectedRevision answerer target acts resource questionID)),
     AuthorizationOperator_SetRuleFor = (\<lambda>expectedRevision rule1 ttlMs why. editing v (\<lambda>v1. receiver_SetRuleFor h v1 expectedRevision rule1 ttlMs why)),
     AuthorizationOperator_SetRulesFor = (\<lambda>expectedRevision rules1 ttlMs why. editing v (\<lambda>v1. receiver_SetRulesFor h v1 expectedRevision rules1 ttlMs why)),
     AuthorizationOperator_ReadRule = (\<lambda>subj action resource. giving (receiver_ReadRule h v subj action resource)),
     AuthorizationOperator_RegisterAction = (\<lambda>expectedRevision action. editing v (\<lambda>v1. receiver_editAction h v1 expectedRevision action True)),
     AuthorizationOperator_RetireAction = (\<lambda>expectedRevision action. editing v (\<lambda>v1. receiver_editAction h v1 expectedRevision action False)),
     AuthorizationOperator_ExplainFor = (\<lambda>subj action resource. giving (receiver_ExplainFor h v subj action resource)),
     AuthorizationOperator_ListDefaults = giving (receiver_ListDefaults h v),
     AuthorizationOperator_SetDefault = (\<lambda>expectedRevision name on1. editing v (\<lambda>v1. receiver_SetDefault h v1 expectedRevision name on1))\<rparr>"

definition hostSelectorAuthorization :: "host \<Rightarrow> visit \<Rightarrow> bytes option SelectorAuthorization" where
  "hostSelectorAuthorization h v = \<lparr>
     SelectorAuthorization_ListPermissionDefinitions = (\<lambda>cursor limit. giving (selector_ListPermissionDefinitions h v cursor limit)),
     SelectorAuthorization_ListPermissionBundles = (\<lambda>cursor limit. giving (selector_ListPermissionBundles h v cursor limit)),
     SelectorAuthorization_CheckBatch = (\<lambda>req. giving (selector_CheckBatch h v req)),
     SelectorAuthorization_CheckBatchFor = (\<lambda>subj req. failing (selector_CheckBatchFor h v subj req)),
     SelectorAuthorization_CheckLegacyOperationFor = (\<lambda>subj req. failing (selector_CheckLegacyOperationFor h v subj req))\<rparr>"

definition hostSelectorAuthorizationOperator :: "host \<Rightarrow> visit \<Rightarrow> bytes option SelectorAuthorizationOperator" where
  "hostSelectorAuthorizationOperator h v = \<lparr>
     SelectorAuthorizationOperator_ListSelectorRules = (\<lambda>cursor limit. giving (selector_ListSelectorRules h v cursor limit)),
     SelectorAuthorizationOperator_ReadSelectorRule = (\<lambda>subj sel. giving (selector_ReadSelectorRule h v subj sel)),
     SelectorAuthorizationOperator_SetSelectorRule = (\<lambda>expectedRevision rule1 ttlMs why. editing v (\<lambda>v1. selector_SetSelectorRule h v1 expectedRevision rule1 ttlMs why)),
     SelectorAuthorizationOperator_RemoveSelectorRule = (\<lambda>expectedRevision subj sel. editing v (\<lambda>v1. selector_RemoveSelectorRule h v1 expectedRevision subj sel)),
     SelectorAuthorizationOperator_ApplyBundle = (\<lambda>expectedRevision subj bundleRef sel ttlMs why. editing v (\<lambda>v1. selector_ApplyBundle h v1 expectedRevision subj bundleRef sel ttlMs why)),
     SelectorAuthorizationOperator_RemoveBundle = (\<lambda>expectedRevision subj originID. editing v (\<lambda>v1. selector_RemoveBundle h v1 expectedRevision subj originID)),
     SelectorAuthorizationOperator_ApplyPermissionAllow = (\<lambda>expectedRevision questionID. editing v (\<lambda>v1. selector_permissionEffect h v1 expectedRevision questionID False)),
     SelectorAuthorizationOperator_UndoPermissionEffect = (\<lambda>expectedRevision questionID. editing v (\<lambda>v1. selector_permissionEffect h v1 expectedRevision questionID True))\<rparr>"

subsection \<open>The endpoint\<close>

text \<open>The receivers neither report readiness nor metadata of their own.\<close>

definition dispatching :: "'h \<Rightarrow> 'h dispatcher" where
  "dispatching handler = \<lparr>Handler = handler, Ready = None, DescribeMetadata = None\<rparr>"

definition hostServices :: "host \<Rightarrow> visit \<Rightarrow> bytes option served list" where
  "hostServices h v =
     [serveAuthorization (dispatching (hostAuthorization h v)),
      serveAuthorizationOperator (dispatching (hostAuthorizationOperator h v)),
      serveSelectorAuthorization (dispatching (hostSelectorAuthorization h v)),
      serveSelectorAuthorizationOperator (dispatching (hostSelectorAuthorizationOperator h v))]"

definition hostEndpoint :: "host \<Rightarrow> visit \<Rightarrow> bytes option transport" where
  "hostEndpoint h v = ServeEndpoint ''openabstractions'' [] (hostServices h v)"

end
