(* ===== verification/Host_Description.thy ===== *)
theory Host_Description
  imports Services
begin

text \<open>
  What the endpoint of a host says of itself. It does not depend on a call, so that it is JSON the
  reader passes over, and a reply can carry it, is computed.
\<close>

text \<open>The services a host lists: ready, without guarantees and capabilities.\<close>

definition hostDescribed :: "described list" where
  "hostDescribed = map (\<lambda>contract. \<lparr>ds_contract = contract, ds_ready = True, ds_why = [], ds_guarantees = [], ds_capabilities = []\<rparr>)
     [AuthorizationContract, AuthorizationOperatorContract, SelectorAuthorizationContract, SelectorAuthorizationOperatorContract]"

lemma host_description_read: "decodeWhole skipValue (endpointText ''openabstractions'' [] hostDescribed) 1 = Inr ()"
  by code_simp

end
