(* ===== verification/Endpoint_Facts.thy ===== *)
theory Endpoint_Facts
  imports Endpoint Host_Description
begin

text \<open>
  What the endpoint of a host guarantees over frames: every frame is answered or refused, the stored
  file changes only as the operator call a frame carries changes it, and the clients get the answers
  of the receivers.
\<close>

subsection \<open>Routing\<close>

lemma legible_handlers [simp]:
  "legibleHandler (giving r)" "legibleHandler (failing result)" "legibleHandler (editing v run)"
  by (auto simp: legibleHandler_def legible_def giving_def failing_def editing_def replyError_def typed_OAServiceError_def
      ServiceErrorCodeHandlerError_def printable_validUTF8 code_def split: sum.splits prod.splits)

lemma hostAuthorization_fields [simp]:
  "Authorization_ListActionDescriptions (hostAuthorization h v) = (\<lambda>cursor limit. giving (receiver_ListActionDescriptions h v cursor limit))"
  "Authorization_Decide (hostAuthorization h v) = (\<lambda>action resource. giving (receiver_Decide h v action resource))"
  "Authorization_DecideFor (hostAuthorization h v) = (\<lambda>subj action resource. failing (receiver_DecideFor h v subj action resource))"
  by (simp_all add: hostAuthorization_def)

lemma hostAuthorizationOperator_fields [simp]:
  "AuthorizationOperator_RegisterDescribedAction (hostAuthorizationOperator h v) = (\<lambda>expectedRevision description. editing v (\<lambda>v1. receiver_RegisterDescribedAction h v1 expectedRevision description))"
  "AuthorizationOperator_ApplyFirstUseAllow (hostAuthorizationOperator h v) = (\<lambda>expectedRevision questionID. editing v (\<lambda>v1. receiver_ApplyFirstUseAllow h v1 expectedRevision questionID))"
  "AuthorizationOperator_ListPolicy (hostAuthorizationOperator h v) = (\<lambda>cursor limit. giving (receiver_ListPolicy h v cursor limit))"
  "AuthorizationOperator_SetRule (hostAuthorizationOperator h v) = (\<lambda>expectedRevision rule1. editing v (\<lambda>v1. receiver_SetRule h v1 expectedRevision rule1))"
  "AuthorizationOperator_RevokeRule (hostAuthorizationOperator h v) = (\<lambda>expectedRevision subj action resource. editing v (\<lambda>v1. receiver_RevokeRule h v1 expectedRevision subj action resource))"
  "AuthorizationOperator_StopAnswerer (hostAuthorizationOperator h v) = (\<lambda>expectedRevision answerer alsoRevokeGrants. editing v (\<lambda>v1. receiver_StopAnswerer h v1 expectedRevision answerer alsoRevokeGrants))"
  "AuthorizationOperator_RevokeAnswerPermits (hostAuthorizationOperator h v) = (\<lambda>expectedRevision answerer target acts resource questionID. editing v (\<lambda>v1. receiver_RevokeAnswerPermits h v1 expectedRevision answerer target acts resource questionID))"
  "AuthorizationOperator_SetRuleFor (hostAuthorizationOperator h v) = (\<lambda>expectedRevision rule1 ttlMs why. editing v (\<lambda>v1. receiver_SetRuleFor h v1 expectedRevision rule1 ttlMs why))"
  "AuthorizationOperator_SetRulesFor (hostAuthorizationOperator h v) = (\<lambda>expectedRevision rules1 ttlMs why. editing v (\<lambda>v1. receiver_SetRulesFor h v1 expectedRevision rules1 ttlMs why))"
  "AuthorizationOperator_ReadRule (hostAuthorizationOperator h v) = (\<lambda>subj action resource. giving (receiver_ReadRule h v subj action resource))"
  "AuthorizationOperator_RegisterAction (hostAuthorizationOperator h v) = (\<lambda>expectedRevision action. editing v (\<lambda>v1. receiver_editAction h v1 expectedRevision action True))"
  "AuthorizationOperator_RetireAction (hostAuthorizationOperator h v) = (\<lambda>expectedRevision action. editing v (\<lambda>v1. receiver_editAction h v1 expectedRevision action False))"
  "AuthorizationOperator_ExplainFor (hostAuthorizationOperator h v) = (\<lambda>subj action resource. giving (receiver_ExplainFor h v subj action resource))"
  "AuthorizationOperator_ListDefaults (hostAuthorizationOperator h v) = giving (receiver_ListDefaults h v)"
  "AuthorizationOperator_SetDefault (hostAuthorizationOperator h v) = (\<lambda>expectedRevision name on1. editing v (\<lambda>v1. receiver_SetDefault h v1 expectedRevision name on1))"
  by (simp_all add: hostAuthorizationOperator_def)

lemma hostSelectorAuthorization_fields [simp]:
  "SelectorAuthorization_ListPermissionDefinitions (hostSelectorAuthorization h v) = (\<lambda>cursor limit. giving (selector_ListPermissionDefinitions h v cursor limit))"
  "SelectorAuthorization_ListPermissionBundles (hostSelectorAuthorization h v) = (\<lambda>cursor limit. giving (selector_ListPermissionBundles h v cursor limit))"
  "SelectorAuthorization_CheckBatch (hostSelectorAuthorization h v) = (\<lambda>req. giving (selector_CheckBatch h v req))"
  "SelectorAuthorization_CheckBatchFor (hostSelectorAuthorization h v) = (\<lambda>subj req. failing (selector_CheckBatchFor h v subj req))"
  "SelectorAuthorization_CheckLegacyOperationFor (hostSelectorAuthorization h v) = (\<lambda>subj req. failing (selector_CheckLegacyOperationFor h v subj req))"
  by (simp_all add: hostSelectorAuthorization_def)

lemma hostSelectorAuthorizationOperator_fields [simp]:
  "SelectorAuthorizationOperator_ListSelectorRules (hostSelectorAuthorizationOperator h v) = (\<lambda>cursor limit. giving (selector_ListSelectorRules h v cursor limit))"
  "SelectorAuthorizationOperator_ReadSelectorRule (hostSelectorAuthorizationOperator h v) = (\<lambda>subj sel. giving (selector_ReadSelectorRule h v subj sel))"
  "SelectorAuthorizationOperator_SetSelectorRule (hostSelectorAuthorizationOperator h v) = (\<lambda>expectedRevision rule1 ttlMs why. editing v (\<lambda>v1. selector_SetSelectorRule h v1 expectedRevision rule1 ttlMs why))"
  "SelectorAuthorizationOperator_RemoveSelectorRule (hostSelectorAuthorizationOperator h v) = (\<lambda>expectedRevision subj sel. editing v (\<lambda>v1. selector_RemoveSelectorRule h v1 expectedRevision subj sel))"
  "SelectorAuthorizationOperator_ApplyBundle (hostSelectorAuthorizationOperator h v) = (\<lambda>expectedRevision subj bundleRef sel ttlMs why. editing v (\<lambda>v1. selector_ApplyBundle h v1 expectedRevision subj bundleRef sel ttlMs why))"
  "SelectorAuthorizationOperator_RemoveBundle (hostSelectorAuthorizationOperator h v) = (\<lambda>expectedRevision subj originID. editing v (\<lambda>v1. selector_RemoveBundle h v1 expectedRevision subj originID))"
  "SelectorAuthorizationOperator_ApplyPermissionAllow (hostSelectorAuthorizationOperator h v) = (\<lambda>expectedRevision questionID. editing v (\<lambda>v1. selector_permissionEffect h v1 expectedRevision questionID False))"
  "SelectorAuthorizationOperator_UndoPermissionEffect (hostSelectorAuthorizationOperator h v) = (\<lambda>expectedRevision questionID. editing v (\<lambda>v1. selector_permissionEffect h v1 expectedRevision questionID True))"
  by (simp_all add: hostSelectorAuthorizationOperator_def)

lemma host_legible:
  "legibleAuthorization (hostAuthorization h v)" "legibleAuthorizationOperator (hostAuthorizationOperator h v)"
  "legibleSelectorAuthorization (hostSelectorAuthorization h v)"
  "legibleSelectorAuthorizationOperator (hostSelectorAuthorizationOperator h v)"
  by (simp_all add: legibleAuthorization_def legibleAuthorizationOperator_def legibleSelectorAuthorization_def
      legibleSelectorAuthorizationOperator_def)

lemma Handler_dispatching [simp]: "Handler (dispatching x) = x"
  by (simp add: dispatching_def)

lemmas contract_defs = AuthorizationContract_def AuthorizationOperatorContract_def SelectorAuthorizationContract_def
  SelectorAuthorizationOperatorContract_def EndpointContract_def

lemma contracts_apart [simp]:
  "AuthorizationContract \<noteq> AuthorizationOperatorContract" "AuthorizationContract \<noteq> SelectorAuthorizationContract" "AuthorizationContract \<noteq> SelectorAuthorizationOperatorContract" "AuthorizationContract \<noteq> EndpointContract"
  "AuthorizationOperatorContract \<noteq> AuthorizationContract" "AuthorizationOperatorContract \<noteq> SelectorAuthorizationContract" "AuthorizationOperatorContract \<noteq> SelectorAuthorizationOperatorContract" "AuthorizationOperatorContract \<noteq> EndpointContract"
  "SelectorAuthorizationContract \<noteq> AuthorizationContract" "SelectorAuthorizationContract \<noteq> AuthorizationOperatorContract" "SelectorAuthorizationContract \<noteq> SelectorAuthorizationOperatorContract" "SelectorAuthorizationContract \<noteq> EndpointContract"
  "SelectorAuthorizationOperatorContract \<noteq> AuthorizationContract" "SelectorAuthorizationOperatorContract \<noteq> AuthorizationOperatorContract" "SelectorAuthorizationOperatorContract \<noteq> SelectorAuthorizationContract" "SelectorAuthorizationOperatorContract \<noteq> EndpointContract"
  "EndpointContract \<noteq> AuthorizationContract" "EndpointContract \<noteq> AuthorizationOperatorContract" "EndpointContract \<noteq> SelectorAuthorizationContract" "EndpointContract \<noteq> SelectorAuthorizationOperatorContract"
  by (simp_all add: contract_defs)

lemma hostEndpoint_routes:
  assumes "servicePayload frame = Inr w"
  shows "hostEndpoint h v frame s =
    (if frame_service w = EndpointContract then (s, DescribeEndpoint frame ''openabstractions'' [] (map sv_described (hostServices h v)))
     else if frame_service w = AuthorizationContract then AuthorizationDispatcher_ExchangeFrame (dispatching (hostAuthorization h v)) frame s
     else if frame_service w = AuthorizationOperatorContract then
       AuthorizationOperatorDispatcher_ExchangeFrame (dispatching (hostAuthorizationOperator h v)) frame s
     else if frame_service w = SelectorAuthorizationContract then
       SelectorAuthorizationDispatcher_ExchangeFrame (dispatching (hostSelectorAuthorization h v)) frame s
     else if frame_service w = SelectorAuthorizationOperatorContract then
       SelectorAuthorizationOperatorDispatcher_ExchangeFrame (dispatching (hostSelectorAuthorizationOperator h v)) frame s
     else (s, serviceReply w [] (Some (DispatchError ''unknown_service''))))"
  using assms
  by (simp add: hostEndpoint_def ServeEndpoint_def hostServices_def serveAuthorization_def serveAuthorizationOperator_def
      serveSelectorAuthorization_def serveSelectorAuthorizationOperator_def eq_commute [of _ "frame_service w"])

subsection \<open>Every frame is answered\<close>

lemma speaks_frame: "speaks decodeOAServiceFrame"
  unfolding decodeOAServiceFrame_def by (rule speaks_object wire)+

lemma servicePayload_refusal:
  assumes "servicePayload frame = Inl e"
  shows "e = DispatchError ''unknown_version'' \<or> (\<exists>word offset. e = RefusalError (Refusal word offset) \<and> word \<in> set refusals)"
proof (cases "decodeWhole decodeOAServiceFrame frame 0")
  case (Inl r)
  then obtain word offset where r: "r = Refusal word offset"
    using decodeWhole_total [OF ends_OAServiceFrame, of frame 0] by (cases r) auto
  have "told (decodeWhole decodeOAServiceFrame frame 0)" by (rule told_whole [OF speaks_frame])
  with Inl r assms show ?thesis by (auto simp: told_def worded_def servicePayload_def)
next
  case (Inr w)
  with assms show ?thesis by (auto simp: servicePayload_def split: if_split_asm)
qed

lemma host_described: "map sv_described (hostServices h v) = hostDescribed"
  by (simp add: hostServices_def hostDescribed_def serveAuthorization_def serveAuthorizationOperator_def
      serveSelectorAuthorization_def serveSelectorAuthorizationOperator_def dispatching_def describedBy_def
      AuthorizationDispatcher_DescribeService_def AuthorizationDispatcher_DescribeServiceMetadata_def
      AuthorizationOperatorDispatcher_DescribeService_def AuthorizationOperatorDispatcher_DescribeServiceMetadata_def
      SelectorAuthorizationDispatcher_DescribeService_def SelectorAuthorizationDispatcher_DescribeServiceMetadata_def
      SelectorAuthorizationOperatorDispatcher_DescribeService_def SelectorAuthorizationOperatorDispatcher_DescribeServiceMetadata_def
      describeService_def describeServiceMetadata_def)

lemma host_description_carried:
  "sendable (endpointText ''openabstractions'' [] hostDescribed) None"
  unfolding sendable_def
  by (simp, rule codes_carried [OF skips_skipNested [of "depthLimit + 1", folded skipValue_def] host_description_read]) (simp add: framed_def endpointText_def)

lemma describe_answers:
  assumes "servicePayload frame = Inr w"
  shows "answered w (DescribeEndpoint frame ''openabstractions'' [] hostDescribed)"
proof -
  have w: "typed_OAServiceFrame w" using servicePayload_typed [OF assms] by blast
  have u: "sendable [] (Some (RefusalError (Refusal ''unknown_field'' 0)))"
    by (rule refusal_sendable) (simp add: worded_def refusals_def)
  show ?thesis using assms
    by (simp add: DescribeEndpoint_def serviceReply_answers [OF w] dispatch_sendable host_description_carried u code_def)
qed

lemma hostEndpoint_answers:
  assumes "servicePayload frame = Inr w"
  shows "answered w (snd (hostEndpoint h v frame s))"
proof -
  have w: "typed_OAServiceFrame w" using servicePayload_typed [OF assms] by blast
  show ?thesis
    unfolding hostEndpoint_routes [OF assms] host_described
    using AuthorizationDispatcher_answers [OF assms, of "dispatching (hostAuthorization h v)" s]
      AuthorizationOperatorDispatcher_answers [OF assms, of "dispatching (hostAuthorizationOperator h v)" s]
      SelectorAuthorizationDispatcher_answers [OF assms, of "dispatching (hostSelectorAuthorization h v)" s]
      SelectorAuthorizationOperatorDispatcher_answers [OF assms, of "dispatching (hostSelectorAuthorizationOperator h v)" s]
    by (simp add: describe_answers [OF assms] serviceReply_answers [OF w] dispatch_sendable host_legible code_def)
qed

subsection \<open>Calling through an endpoint\<close>

context remote
begin

lemma client_served:
  assumes "typedA args" and "\<And>frame w s. servicePayload frame = Inr w \<Longrightarrow> frame_service w = service \<Longrightarrow> transport frame s = exchange d frame s"
    and "legible (snd (handler d args s))" and "\<And>v. snd (handler d args s) = Returned v \<Longrightarrow> typedR (put v)"
  shows "serviceCall service meth encA decR get transport args s = (fst (handler d args s), toldClient (snd (handler d args s)))"
  using client_over [OF assms(1,2)] client_told [OF assms(1) _ assms(3,4)] by simp

lemma client_state:
  assumes "typedA args" and "\<And>frame w s. servicePayload frame = Inr w \<Longrightarrow> frame_service w = service \<Longrightarrow> transport frame s = exchange d frame s"
  shows "fst (serviceCall service meth encA decR get transport args s) = fst (handler d args s)"
proof -
  have "fst (exchange d (encOAServiceFrame (calling args) 0) s) = fst (handler d args s)"
    using dispatch [OF request_read [OF assms(1)], of d s] arguments_read [OF assms(1)]
    by (simp add: calling_def answerCall_def invoke_def split: prod.split)
  moreover have "transport (encOAServiceFrame (calling args) 0) s = exchange d (encOAServiceFrame (calling args) 0) s"
    by (rule assms(2) [OF request_read [OF assms(1)]]) (simp add: calling_def)
  ultimately show ?thesis
    unfolding serviceCall_def Let_def calling_def [symmetric] request_read [OF assms(1)]
    by (auto split: prod.split sum.split)
qed

end

subsection \<open>What a frame does to the file\<close>

text \<open>The call of an operator interface a frame carries, if its arguments read as that call's.\<close>

definition asked :: "'a reading \<Rightarrow> ('a \<Rightarrow> 'c) \<Rightarrow> oaServiceFrame \<Rightarrow> 'c option" where
  "asked dec call w = (case decodeWhole dec (frame_arguments w) 1 of Inl e \<Rightarrow> None | Inr args \<Rightarrow> Some (call args))"

definition askedOperator :: "oaServiceFrame \<Rightarrow> operatorCall option" where
  "askedOperator w =
     (if frame_method w = ''RegisterDescribedAction'' then asked decodeOAAuthorizationOperatorRegisterDescribedActionArguments (\<lambda>args. CallRegisterDescribedAction (RegisterDescribedAction_expectedRevision args) (RegisterDescribedAction_description args)) w
      else if frame_method w = ''ApplyFirstUseAllow'' then asked decodeOAAuthorizationOperatorApplyFirstUseAllowArguments (\<lambda>args. CallApplyFirstUseAllow (ApplyFirstUseAllow_expectedRevision args) (ApplyFirstUseAllow_questionID args)) w
      else if frame_method w = ''SetRule'' then asked decodeOAAuthorizationOperatorSetRuleArguments (\<lambda>args. CallSetRule (SetRule_expectedRevision args) (SetRule_rule args)) w
      else if frame_method w = ''RevokeRule'' then asked decodeOAAuthorizationOperatorRevokeRuleArguments (\<lambda>args. CallRevokeRule (RevokeRule_expectedRevision args) (RevokeRule_subject args) (RevokeRule_action args) (RevokeRule_resource args)) w
      else if frame_method w = ''StopAnswerer'' then asked decodeOAAuthorizationOperatorStopAnswererArguments (\<lambda>args. CallStopAnswerer (StopAnswerer_expectedRevision args) (StopAnswerer_answerer args) (StopAnswerer_alsoRevokeGrants args)) w
      else if frame_method w = ''RevokeAnswerPermits'' then asked decodeOAAuthorizationOperatorRevokeAnswerPermitsArguments (\<lambda>args. CallRevokeAnswerPermits (RevokeAnswerPermits_expectedRevision args) (RevokeAnswerPermits_answerer args) (RevokeAnswerPermits_target args) (RevokeAnswerPermits_actions args) (RevokeAnswerPermits_resource args) (RevokeAnswerPermits_questionID args)) w
      else if frame_method w = ''SetRuleFor'' then asked decodeOAAuthorizationOperatorSetRuleForArguments (\<lambda>args. CallSetRuleFor (SetRuleFor_expectedRevision args) (SetRuleFor_rule args) (SetRuleFor_ttlMs args) (SetRuleFor_why args)) w
      else if frame_method w = ''SetRulesFor'' then asked decodeOAAuthorizationOperatorSetRulesForArguments (\<lambda>args. CallSetRulesFor (SetRulesFor_expectedRevision args) (SetRulesFor_rules args) (SetRulesFor_ttlMs args) (SetRulesFor_why args)) w
      else if frame_method w = ''RegisterAction'' then asked decodeOAAuthorizationOperatorRegisterActionArguments (\<lambda>args. CallRegisterAction (RegisterAction_expectedRevision args) (RegisterAction_action args)) w
      else if frame_method w = ''RetireAction'' then asked decodeOAAuthorizationOperatorRetireActionArguments (\<lambda>args. CallRetireAction (RetireAction_expectedRevision args) (RetireAction_action args)) w
      else if frame_method w = ''SetDefault'' then asked decodeOAAuthorizationOperatorSetDefaultArguments (\<lambda>args. CallSetDefault (SetDefault_expectedRevision args) (SetDefault_name args) (SetDefault_on args)) w
      else None)"

definition askedSelectors :: "oaServiceFrame \<Rightarrow> selectorCall option" where
  "askedSelectors w =
     (if frame_method w = ''SetSelectorRule'' then asked decodeOASelectorAuthorizationOperatorSetSelectorRuleArguments (\<lambda>args. CallSetSelectorRule (SetSelectorRule_expectedRevision args) (SetSelectorRule_rule args) (SetSelectorRule_ttlMs args) (SetSelectorRule_why args)) w
      else if frame_method w = ''RemoveSelectorRule'' then asked decodeOASelectorAuthorizationOperatorRemoveSelectorRuleArguments (\<lambda>args. CallRemoveSelectorRule (RemoveSelectorRule_expectedRevision args) (RemoveSelectorRule_subject args) (RemoveSelectorRule_selection args)) w
      else if frame_method w = ''ApplyBundle'' then asked decodeOASelectorAuthorizationOperatorApplyBundleArguments (\<lambda>args. CallApplyBundle (ApplyBundle_expectedRevision args) (ApplyBundle_subject args) (ApplyBundle_bundleRef args) (ApplyBundle_selector args) (ApplyBundle_ttlMs args) (ApplyBundle_why args)) w
      else if frame_method w = ''RemoveBundle'' then asked decodeOASelectorAuthorizationOperatorRemoveBundleArguments (\<lambda>args. CallRemoveBundle (RemoveBundle_expectedRevision args) (RemoveBundle_subject args) (RemoveBundle_originID args)) w
      else if frame_method w = ''ApplyPermissionAllow'' then asked decodeOASelectorAuthorizationOperatorApplyPermissionAllowArguments (\<lambda>args. CallApplyPermissionAllow (ApplyPermissionAllow_expectedRevision args) (ApplyPermissionAllow_questionID args)) w
      else if frame_method w = ''UndoPermissionEffect'' then asked decodeOASelectorAuthorizationOperatorUndoPermissionEffectArguments (\<lambda>args. CallUndoPermissionEffect (UndoPermissionEffect_expectedRevision args) (UndoPermissionEffect_questionID args)) w
      else None)"

text \<open>The file a frame leaves, in terms of the calls.\<close>

definition fileAfterFrame :: "host \<Rightarrow> visit \<Rightarrow> bytes \<Rightarrow> bytes option \<Rightarrow> bytes option" where
  "fileAfterFrame h v frame s = (case servicePayload frame of
     Inl e \<Rightarrow> s
   | Inr w \<Rightarrow>
      if frame_service w = AuthorizationOperatorContract then
        (case askedOperator w of Some call \<Rightarrow> fileAfter h (v\<lparr>v_content := s\<rparr>) call | None \<Rightarrow> s)
      else if frame_service w = SelectorAuthorizationOperatorContract then
        (case askedSelectors w of Some call \<Rightarrow> fileAfterSelectors h (v\<lparr>v_content := s\<rparr>) call | None \<Rightarrow> s)
      else s)"

lemma fst_invoke [simp]: "fst (invoke enc dec put handler s) = fst (handler s)"
  by (simp add: invoke_def split: prod.split)

lemma fst_handlers [simp]: "fst (giving r s) = s" "fst (failing result s) = s" "fst (editing v run s) = snd (run (v\<lparr>v_content := s\<rparr>))"
  by (simp_all add: giving_def failing_def editing_def split: prod.split)

lemma answerCall_state:
  "fst (answerCall dec run w s) = (case decodeWhole dec (frame_arguments w) 1 of Inl e \<Rightarrow> s | Inr args \<Rightarrow> fst (run args s))"
  by (simp add: answerCall_def split: sum.split prod.split)

text \<open>Case by case, in the order of the dispatcher: a method that edits is one of the calls, a method
  that reads is none of them.\<close>

lemma call_edits:
  assumes "\<And>args. fst (run args s) = after (call args)"
  shows "fst (answerCall dec run w s) = case_option s after (asked dec call w)"
  by (simp add: answerCall_state asked_def assms split: sum.split)

lemma method_edits:
  assumes "fst A = case_option s after X" and "fst B = case_option s after Y"
  shows "fst (if c then A else B) = case_option s after (if c then X else Y)"
  using assms by simp

lemma method_reads:
  assumes "\<And>args. fst (run args s) = s" and "c \<Longrightarrow> Y = None" and "fst B = case_option s after Y"
  shows "fst (if c then answerCall dec run w s else B) = case_option s after Y"
  using assms(2,3) by (simp add: answerCall_state assms(1) split: sum.split)

lemma no_method: "fst (unknownMethod w s) = case_option s after None"
  by (simp add: unknownMethod_def)

lemma AuthorizationOperator_frame:
  assumes "servicePayload frame = Inr w" and "frame_service w = AuthorizationOperatorContract"
  shows "fst (AuthorizationOperatorDispatcher_ExchangeFrame (dispatching (hostAuthorizationOperator h v)) frame s) =
    (case askedOperator w of Some call \<Rightarrow> fileAfter h (v\<lparr>v_content := s\<rparr>) call | None \<Rightarrow> s)"
  unfolding AuthorizationOperatorDispatcher_ExchangeFrame_def exchangeFrame_def askedOperator_def assms sum.case if_not_P [OF contracts_apart(8)]
    simp_thms if_False
  by (rule method_edits call_edits no_method method_reads
      | (simp add: invokeRegisterDescribedAction_def invokeApplyFirstUseAllow_def invokeListPolicy_def invokeSetRule_def
        invokeRevokeRule_def invokeStopAnswerer_def invokeRevokeAnswerPermits_def invokeSetRuleFor_def
        invokeSetRulesFor_def invokeReadRule_def invokeRegisterAction_def invokeRetireAction_def
        invokeExplainFor_def invokeListDefaults_def invokeSetDefault_def; fail))+

lemma SelectorAuthorizationOperator_frame:
  assumes "servicePayload frame = Inr w" and "frame_service w = SelectorAuthorizationOperatorContract"
  shows "fst (SelectorAuthorizationOperatorDispatcher_ExchangeFrame (dispatching (hostSelectorAuthorizationOperator h v)) frame s) =
    (case askedSelectors w of Some call \<Rightarrow> fileAfterSelectors h (v\<lparr>v_content := s\<rparr>) call | None \<Rightarrow> s)"
  unfolding SelectorAuthorizationOperatorDispatcher_ExchangeFrame_def exchangeFrame_def askedSelectors_def assms sum.case if_not_P [OF contracts_apart(16)]
    simp_thms if_False
  by (rule method_edits call_edits no_method method_reads
      | (simp add: invokeListSelectorRules_def invokeReadSelectorRule_def invokeSetSelectorRule_def invokeRemoveSelectorRule_def
        invokeApplyBundle_def invokeRemoveBundle_def invokeApplyPermissionAllow_def invokeUndoPermissionEffect_def; fail))+

lemma Authorization_frame:
  assumes "servicePayload frame = Inr w" and "frame_service w = AuthorizationContract"
  shows "fst (AuthorizationDispatcher_ExchangeFrame (dispatching (hostAuthorization h v)) frame s) = s"
  using assms
  by (simp add: AuthorizationDispatcher_ExchangeFrame_def exchangeFrame_def answerCall_state unknownMethod_def
      invokeListActionDescriptions_def invokeDecide_def invokeDecideFor_def
      split: sum.split)

lemma SelectorAuthorization_frame:
  assumes "servicePayload frame = Inr w" and "frame_service w = SelectorAuthorizationContract"
  shows "fst (SelectorAuthorizationDispatcher_ExchangeFrame (dispatching (hostSelectorAuthorization h v)) frame s) = s"
  using assms
  by (simp add: SelectorAuthorizationDispatcher_ExchangeFrame_def exchangeFrame_def answerCall_state unknownMethod_def
      invokeListPermissionDefinitions_def invokeListPermissionBundles_def invokeCheckBatch_def invokeCheckBatchFor_def invokeCheckLegacyOperationFor_def
      split: sum.split)

lemma hostEndpoint_file: "fst (hostEndpoint h v frame s) = fileAfterFrame h v frame s"
proof (cases "servicePayload frame")
  case (Inl e)
  then show ?thesis by (simp add: hostEndpoint_def ServeEndpoint_def fileAfterFrame_def)
next
  case (Inr w)
  then show ?thesis
    by (simp add: hostEndpoint_routes [OF Inr] fileAfterFrame_def Authorization_frame [OF Inr] AuthorizationOperator_frame [OF Inr]
        SelectorAuthorization_frame [OF Inr] SelectorAuthorizationOperator_frame [OF Inr])
qed

end
