(* ===== verification/Remote_Host.thy ===== *)
theory Remote_Host
  imports Endpoint_Facts
begin

text \<open>
  The host over frames: what it answers, what a frame can change, and what the clients of the
  services learn through it.
\<close>

subsection \<open>Answers\<close>

text \<open>C7: Every frame is answered: whatever bytes reach a host, either they are no request envelope of
  this version, and then the refusal says so in one of the words of the contract and nothing
  changes; or the host replies, to a call of any service and method, known or unknown, with any
  arguments, one reply that decodes, has the same version and belongs to the request.\<close>

theorem every_frame_is_answered:
  "case servicePayload frame of
     Inl e \<Rightarrow> hostEndpoint h v frame s = (s, Inl e) \<and>
       (e = DispatchError ''unknown_version'' \<or> (\<exists>word offset. e = RefusalError (Refusal word offset) \<and> word \<in> set refusals))
   | Inr w \<Rightarrow> answered w (snd (hostEndpoint h v frame s))"
  using servicePayload_refusal [of frame] hostEndpoint_answers [of frame]
  by (auto simp: hostEndpoint_def ServeEndpoint_def split: sum.split)

subsection \<open>What a frame can change\<close>

text \<open>C33: Frames only carry calls: what a frame does to the stored file is what the one call of the
  operator interfaces does that its service, its method and its arguments spell; a frame that spells
  none, or belongs to the other services, leaves the file.\<close>

theorem frames_carry_calls:
  "fst (hostEndpoint h v frame s) = fileAfterFrame h v frame s"
  by (rule hostEndpoint_file)

lemma askedCall_admitted:
  assumes "fileAfter h (v\<lparr>v_content := s\<rparr>) call \<noteq> s"
  shows "\<exists>by. authorize h (v_entry v) = Inr by \<and> account by = h_owner h \<and> h_operator h"
  using assms calls_refused(1) [of h "v\<lparr>v_content := s\<rparr>"] authorize_owner [of h "v_entry v"] by (cases "authorize h (v_entry v)") auto

lemma askedSelectors_admitted:
  assumes "fileAfterSelectors h (v\<lparr>v_content := s\<rparr>) call \<noteq> s"
  shows "\<exists>by. authorize h (v_entry v) = Inr by \<and> account by = h_owner h \<and> h_operator h"
  using assms calls_refused(2) [of h "v\<lparr>v_content := s\<rparr>"] authorize_owner [of h "v_entry v"] by (cases "authorize h (v_entry v)") auto

text \<open>C6: Frames write only admitted calls: when a frame leaves another file than it met, the frame is a
  call of an operator interface, the peer behind it was admitted at entry as the operator of the
  owner's account, and the call is one a configured runtime callback commits, or its write was
  admitted again inside the run that wrote, at the revision the frame expects.\<close>

theorem frames_write_only_admitted:
  "fst (hostEndpoint h v frame s) = s \<or>
   (\<exists>w by. servicePayload frame = Inr w \<and> authorize h (v_entry v) = Inr by \<and> account by = h_owner h \<and> h_operator h \<and>
     (frame_service w = AuthorizationOperatorContract \<and> (\<exists>call. askedOperator w = Some call \<and>
        (committedByCallback call \<or> hostWrite h (v\<lparr>v_content := s\<rparr>) (expectedOf call) (fst (hostEndpoint h v frame s)))) \<or>
      frame_service w = SelectorAuthorizationOperatorContract \<and> (\<exists>call. askedSelectors w = Some call \<and>
        (selectorsCommittedByCallback call \<or>
         hostWrite h (v\<lparr>v_content := s\<rparr>) (expectedSelectors call) (fst (hostEndpoint h v frame s))))))"
proof (cases "fst (hostEndpoint h v frame s) = s")
  case moved: False
  then obtain w where w: "servicePayload frame = Inr w"
    unfolding hostEndpoint_file fileAfterFrame_def by (auto split: sum.split_asm)
  note effect = hostEndpoint_file [of h v frame s] w
  show ?thesis
  proof (cases "frame_service w = AuthorizationOperatorContract")
    case True
    with moved effect obtain call where call: "askedOperator w = Some call"
      and after: "fst (hostEndpoint h v frame s) = fileAfter h (v\<lparr>v_content := s\<rparr>) call"
      by (auto simp: fileAfterFrame_def split: option.split_asm)
    have "hostWrite h (v\<lparr>v_content := s\<rparr>) (expectedOf call) (fst (hostEndpoint h v frame s))" if "\<not> committedByCallback call"
      unfolding after by (rule operator_calls_admitted) (use that in simp)
    with True w call askedCall_admitted [OF moved [unfolded after]] show ?thesis by blast
  next
    case False
    with moved effect obtain call where sv: "frame_service w = SelectorAuthorizationOperatorContract"
      and call: "askedSelectors w = Some call"
      and after: "fst (hostEndpoint h v frame s) = fileAfterSelectors h (v\<lparr>v_content := s\<rparr>) call"
      by (auto simp: fileAfterFrame_def split: option.split_asm if_split_asm)
    have "hostWrite h (v\<lparr>v_content := s\<rparr>) (expectedSelectors call) (fst (hostEndpoint h v frame s))"
      if "\<not> selectorsCommittedByCallback call"
      unfolding after by (rule selector_calls_admitted) (use that in simp)
    with sv w call askedSelectors_admitted [OF moved [unfolded after]] show ?thesis by blast
  qed
qed simp

subsection \<open>Decisions over frames\<close>

text \<open>A snapshot carries the revision of its own state.\<close>

definition revised :: "policy \<Rightarrow> snapshot \<Rightarrow> bool" where
  "revised p snap \<longleftrightarrow> (case snap of Inl e \<Rightarrow> True | Inr (f, rvn) \<Rightarrow> rvn = revision p f)"

lemma revision_UTF8: "validUTF8 (revision p f)"
  by (rule bounded_validUTF8 [OF revision_bounded])

lemma explained_revision: "x_policyRevision (legacyOperationExplained p f rvn s req now) = rvn"
  by (auto simp: legacyOperationExplained_def Let_def explain_def split: option.split prod.split defaultVerdict.split)

lemma Decide_typed: "revised p snap \<Longrightarrow> typed_Decision (Decide p snap now subj action resource)"
  by (auto simp: typed_Decision_def Decide_def CheckLegacyOperation_def legacyOperationDecision_def decisionOf_def revised_def
      explained_revision revision_UTF8 validUTF8_none split: sum.split prod.split)

lemma forbidden_typed: "typed_Decision forbiddenDecision"
  by (simp add: forbiddenDecision_def typed_Decision_def validUTF8_none)

lemma receiver_Decide_typed: "revised (h_policy h) (v_snapshot v) \<Longrightarrow> typed_Decision (receiver_Decide h v action resource)"
  by (simp add: receiver_Decide_def Decide_typed forbidden_typed split: option.split)

lemma receiver_DecideFor_typed:
  "revised (h_policy h) (v_snapshot v) \<Longrightarrow> receiver_DecideFor h v subj action resource = Inr d \<Longrightarrow> typed_Decision d"
  by (auto simp: receiver_DecideFor_def Decide_typed forbidden_typed split: option.split_asm if_split_asm)

text \<open>What a client is told of a handler of the host that failed.\<close>

definition handlerFailed :: call_error where
  "handlerFailed = ServiceError ServiceErrorCodeHandlerError ''handler failed''"

lemma told_handlers [simp]:
  "toldClient (Failed (OtherError e)) = Inl handlerFailed" "toldClient (Returned r) = Inr r"
  by (simp_all add: toldClient_def replyError_def handlerFailed_def ServiceErrorCodeHandlerError_def)

lemma legible_host [simp]: "legible (Returned r)" "legible (Failed (OtherError e))"
  using legible_handlers(2) [of "Inl e"] by (simp_all add: legible_def legibleHandler_def failing_def)

lemma authorization_transport:
  "servicePayload frame = Inr w \<Longrightarrow> frame_service w = AuthorizationContract \<Longrightarrow>
     hostEndpoint h v frame s = AuthorizationDispatcher_ExchangeFrame (dispatching (hostAuthorization h v)) frame s"
  by (simp add: hostEndpoint_routes)

lemma operator_transport:
  "servicePayload frame = Inr w \<Longrightarrow> frame_service w = AuthorizationOperatorContract \<Longrightarrow>
     hostEndpoint h v frame s = AuthorizationOperatorDispatcher_ExchangeFrame (dispatching (hostAuthorizationOperator h v)) frame s"
  by (simp add: hostEndpoint_routes)

lemma Decide_over_frames:
  assumes "validUTF8 action" and "validUTF8 resource" and "revised (h_policy h) (v_snapshot v)"
  shows "AuthorizationClient_Decide (hostEndpoint h v) action resource s = (s, Inr (receiver_Decide h v action resource))"
  unfolding AuthorizationClient_Decide_def
  by (subst Decide_call.client_served [OF _ authorization_transport])
     (simp_all add: assms giving_def typed_OAAuthorizationDecideArguments_def typed_OAAuthorizationDecideResult_def receiver_Decide_typed)

lemma DecideFor_over_frames:
  assumes "typed_Subject subj" and "validUTF8 action" and "validUTF8 resource" and "revised (h_policy h) (v_snapshot v)"
  shows "AuthorizationClient_DecideFor (hostEndpoint h v) subj action resource s =
    (s, map_sum (\<lambda>e. handlerFailed) id (receiver_DecideFor h v subj action resource))"
  unfolding AuthorizationClient_DecideFor_def
  by (subst DecideFor_call.client_served [OF _ authorization_transport])
     (auto simp: assms failing_def typed_OAAuthorizationDecideForArguments_def typed_OAAuthorizationDecideForResult_def
        receiver_DecideFor_typed [OF assms(4)] split: sum.split sum.split_asm)

text \<open>C34: Decisions cross the frames unchanged: whatever the host decides for a caller about itself or, as
  an enforcer, about another subject, the generated client that asks over frames is answered exactly
  that, refusals included, and the file is left; a failure of the handler is a failure without
  its cause.\<close>

theorem decisions_over_frames:
  assumes "typed_Subject subj" and "validUTF8 action" and "validUTF8 resource" and "revised (h_policy h) (v_snapshot v)"
  shows "AuthorizationClient_Decide (hostEndpoint h v) action resource s = (s, Inr (receiver_Decide h v action resource)) \<and>
    AuthorizationClient_DecideFor (hostEndpoint h v) subj action resource s =
      (s, map_sum (\<lambda>e. handlerFailed) id (receiver_DecideFor h v subj action resource))"
  using Decide_over_frames [OF assms(2-4)] DecideFor_over_frames [OF assms] by blast

lemma sample_revised: "revised samplePolicy (v_snapshot (sampleVisit content f))"
  by (simp add: revised_def sampleVisit_def)

lemma sample_policies [simp]: "h_policy enforcingHost = samplePolicy" "h_owner enforcingHost = ''alice''"
  by (simp_all add: enforcingHost_def)

lemma sample_native_typed: "typed_Subject (native samplePolicy)"
  by (simp add: typed_Subject_def samplePolicy_def printable_validUTF8 code_def)

theorem decisions_over_frames_witness:
  "AuthorizationClient_DecideFor (hostEndpoint enforcingHost (sampleVisit None emptyState)) (native samplePolicy) ''demo/read'' ''free'' None =
     (None, Inr \<lparr>d_outcome = DecisionOutcomePermitted, d_policyRevision = revision samplePolicy emptyState\<rparr>)"
proof -
  have "revised (h_policy enforcingHost) (v_snapshot (sampleVisit None emptyState))" by (simp add: sample_revised)
  from decisions_over_frames [OF sample_native_typed _ _ this, of "''demo/read''" "''free''" None]
  show ?thesis by (simp only: sample_DecideFor) (simp add: printable_validUTF8 code_def)
qed

text \<open>How a client calls the host: an answer over frames, its error as the caller sees it.\<close>

definition overFrames :: "'s \<times> (call_error + 'v) \<Rightarrow> rights_error + 'v" where
  "overFrames result = map_sum callError id (snd result)"

lemma overFrames_DecideFor:
  assumes "typed_Subject subj" and "validUTF8 action" and "validUTF8 resource" and "revised (h_policy h) (v_snapshot v)"
    and "overFrames (AuthorizationClient_DecideFor (hostEndpoint h v) subj action resource s) = Inr d"
  shows "receiver_DecideFor h v subj action resource = Inr d"
  using assms(5) by (auto simp: overFrames_def DecideFor_over_frames [OF assms(1-4)] map_sum_def split: sum.split_asm)

text \<open>C4: Enforced access is permitted access, over the wire: when a resource service's client lets a
  peer through \<open>Require\<close>, asking the host over frames, then the peer's proof named a subject of the
  owner's account, the host knew this service as a caller of that account and its configured enforcer
  designated it for this action and resource, the session was proved again, and on the state the
  host read the action is catalogued, no live block, typed or exact, is on the target, and a live
  exact permit or a default covers it.\<close>

theorem access_over_frames_is_permitted:
  assumes "client_Require ctx (\<lambda>subj a r. overFrames (AuthorizationClient_DecideFor (hostEndpoint h v) subj a r s)) pr action resource = None"
    and "\<forall>subj. SubjectFromPeer pr = Inr subj \<longrightarrow> typed_Subject subj" and "validUTF8 action" and "validUTF8 resource"
    and "revised (h_policy h) (v_snapshot v)"
  shows "\<exists>subj s f enforce. SubjectFromPeer pr = Inr subj \<and> account subj = h_owner h \<and> ownCaller h v \<noteq> None \<and>
    h_enforcer h = Some enforce \<and> enforce (peerOf (v_entry v)) action resource \<and> v_recheck v = None \<and>
    v_snapshot v = Inr (f, revision (h_policy h) f) \<and> NormalizeDecisionSubject (files (h_policy h)) subj = Inr s \<and>
    action \<in> set (catalogue (h_policy h) f) \<and>
    \<not> typedBlockForLegacy (h_policy h) f (revision (h_policy h) f) s (legacyRequest action resource) (v_now v) \<and>
    \<not> ownDeny (h_policy h) f (revision (h_policy h) f) s action resource (v_now v) \<and>
    (ownPermit (h_policy h) f (revision (h_policy h) f) s action resource (v_now v) \<or> defaultAllows (h_policy h) f s action resource)"
proof -
  from require_permitted [OF assms(1)] obtain subj d where subj: "SubjectFromPeer pr = Inr subj"
    and d: "overFrames (AuthorizationClient_DecideFor (hostEndpoint h v) subj action resource s) = Inr d"
      "d_outcome d = DecisionOutcomePermitted" by blast
  have typed: "typed_Subject subj" using assms(2) subj by blast
  note R = receiver_DecideFor_permitted [OF overFrames_DecideFor [OF typed assms(3-5) d(1)] d(2)]
  then have "d_outcome (Decide (h_policy h) (v_snapshot v) (v_now v) subj action resource) = DecisionOutcomePermitted"
    using d(2) by simp
  from Decide_permitted [OF this] R subj assms(5) show ?thesis by (auto simp: revised_def)
qed

theorem access_over_frames_is_permitted_witness:
  "\<exists>f. v_snapshot (sampleVisit None emptyState) = Inr (f, revision samplePolicy f) \<and> ''demo/read'' \<in> set (catalogue samplePolicy f)"
proof -
  let ?call = "\<lambda>subj a r. overFrames (AuthorizationClient_DecideFor (hostEndpoint enforcingHost (sampleVisit None emptyState)) subj a r None)"
  have p: "validUTF8 ''demo/read''" "validUTF8 ''free''" by (simp_all add: printable_validUTF8 code_def)
  have v: "revised (h_policy enforcingHost) (v_snapshot (sampleVisit None emptyState))" by (simp add: sample_revised)
  have "?call (native samplePolicy) ''demo/read'' ''free'' =
      Inr \<lparr>d_outcome = DecisionOutcomePermitted, d_policyRevision = revision samplePolicy emptyState\<rparr>"
    unfolding overFrames_def DecideFor_over_frames [OF sample_native_typed p v] sample_DecideFor by simp
  then have "client_Require None ?call (Some samplePeer) ''demo/read'' ''free'' = None"
    by (simp only: client_Require_def sample_peer_subject client_DecideForContext_def clientCall_def)
       (simp add: checked_def requireOutcome_def revision_def)
  moreover have "\<forall>subj. SubjectFromPeer (Some samplePeer) = Inr subj \<longrightarrow> typed_Subject subj"
    using sample_peer_subject sample_native_typed by simp
  ultimately show ?thesis using access_over_frames_is_permitted [OF _ _ p v] by (metis sample_policies(1))
qed

subsection \<open>Edits over frames\<close>

lemma stored_rule_typed: "jvalid (ruleJson r) \<Longrightarrow> typed_PolicyRule (publicRule r)"
  by (auto simp: ruleJson_def subjectJson_def typed_PolicyRule_def typed_Subject_def publicRule_def)

lemma currentRule_typed:
  assumes "ready p" and "decodeDecision p c = Inr f"
  shows "pred_option typed_PolicyRule (currentRule p f subj action resource now)"
proof -
  have "jvalid (ruleJson r)" if "r \<in> set (rules f)" for r using decoded_text [OF assms] that by (simp add: jvalid_fileJson)
  then show ?thesis
    by (auto simp: currentRule_def option.pred_set intro: stored_rule_typed dest!: decidingRule_spec(1))
qed

lemma SetRule_handler:
  "AuthorizationOperator_SetRule (Handler (dispatching (hostAuthorizationOperator h v))) expected rule s =
     (snd (receiver_SetRule h (v\<lparr>v_content := s\<rparr>) expected rule), Returned (fst (receiver_SetRule h (v\<lparr>v_content := s\<rparr>) expected rule)))"
  by (simp add: editing_def split: prod.split)

text \<open>C5: A rule set over frames is decided: when an operator's client sends \<open>SetRule\<close> of an ordinary rule
  over frames and this call writes the file, the client is told it was applied, with the revision of
  the state that was written; that state is readable, and a decision on the rule's own target at
  the time of the write permits exactly what the rule permits, unless a typed block stands.\<close>

theorem rule_set_over_frames_decides:
  assumes "ready (h_policy h)" and "freshKeys (h_policy h)" and "validUTF8 expected" and "typed_PolicyRule rule"
    and "\<not> IsMetaRule (pr_action rule) (pr_resource rule)"
    and "\<forall>k<decisionChangeAttempts. fourDigitYear (addDuration (t_now (v_turns v k)) MaxRuleTTL)"
    and "AuthorizationOperatorClient_SetRule (hostEndpoint h v) expected rule s = (s1, answer)" and "\<not> found (v_turns v) s s1"
  shows "\<exists>pe k g subj. answer = Inr pe \<and> pe_outcome pe = PolicyEditOutcomeApplied \<and> pe_revision pe = revision (h_policy h) g \<and>
    k < decisionChangeAttempts \<and> decodeDecision (h_policy h) s1 = Inr g \<and>
    NormalizeDecisionSubject (files (h_policy h)) (pr_subject rule) = Inr subj \<and>
    d_outcome (Decide (h_policy h) (uncachedRead (h_policy h) Stored (Inr s1)) (t_now (v_turns v k)) (pr_subject rule) (pr_action rule)
        (pr_resource rule)) =
      (if pr_permit rule \<and> \<not> typedBlockForLegacy (h_policy h) g (revision (h_policy h) g) subj
          (legacyRequest (pr_action rule) (pr_resource rule)) (t_now (v_turns v k))
       then DecisionOutcomePermitted else DecisionOutcomeDenied)"
proof -
  let ?v = "v\<lparr>v_content := s\<rparr>" and ?args = "\<lparr>SetRule_expectedRevision = expected, SetRule_rule = rule\<rparr>"
  have t: "typed_OAAuthorizationOperatorSetRuleArguments ?args"
    using assms(3,4) by (simp add: typed_OAAuthorizationOperatorSetRuleArguments_def)
  have "fst (AuthorizationOperatorClient_SetRule (hostEndpoint h v) expected rule s) = snd (receiver_SetRule h ?v expected rule)"
    unfolding AuthorizationOperatorClient_SetRule_def
    by (subst SetRule_call.client_state [OF t operator_transport]) (simp_all add: SetRule_handler del: Handler_dispatching)
  then have s1: "s1 = snd (receiver_SetRule h ?v expected rule)" using assms(7) by simp
  then obtain "by" where admitted: "authorize h (v_entry v) = Inr by" using assms(8)
    by (cases "authorize h (v_entry v)") (auto simp: receiver_SetRule_def receiver_edit_def operatorEdit_def found_def)
  let ?turns = "rechecked h (v_looks v) (v_turns v)" and ?ed = "noEdit\<lparr>ed_permit := Some (pr_permit rule), ed_by := by\<rparr>"
  obtain out err after where run: "ChangeRules (h_policy h) (v_disk v) ?turns s expected [rule] ?ed True = (out, err, after)"
    by (metis prod_cases3)
  have same: "\<lparr>pr_subject = pr_subject rule, pr_action = pr_action rule, pr_resource = pr_resource rule, pr_permit = pr_permit rule\<rparr> = rule"
    by simp
  have edited: "receiver_SetRule h ?v expected rule = (case err of None \<Rightarrow> (out, after) | Some e \<Rightarrow> (refusedPolicy e, after))"
    by (simp add: receiver_SetRule_def receiver_edit_def operatorEdit_def admitted ChangeRule_def same run split: option.split)
  then have after: "after = s1" using s1 by (simp split: option.splits)
  from written_group_decides [OF assms(1,2) run] obtain k g subj where k: "k < decisionChangeAttempts"
    and g: "decodeDecision (h_policy h) s1 = Inr g"
    and out: "err = None" "pe_outcome out = PolicyEditOutcomeApplied" "pe_revision out = revision (h_policy h) g"
      "\<exists>s a r now. pe_current out = currentRule (h_policy h) g s a r now"
    and d: "NormalizeDecisionSubject (files (h_policy h)) (pr_subject rule) = Inr subj"
      "d_outcome (Decide (h_policy h) (uncachedRead (h_policy h) Stored (Inr s1)) (t_now (v_turns v k)) (pr_subject rule) (pr_action rule)
        (pr_resource rule)) =
      (if pr_permit rule \<and> \<not> typedBlockForLegacy (h_policy h) g (revision (h_policy h) g) subj
          (legacyRequest (pr_action rule) (pr_resource rule)) (t_now (v_turns v k))
       then DecisionOutcomePermitted else DecisionOutcomeDenied)"
    using assms(5,6,8) after by (auto simp: rechecked_def noEdit_def) blast
  have "typed_PolicyEdit out"
    using currentRule_typed [OF assms(1) g] out(4) by (auto simp: typed_PolicyEdit_def out(3) revision_UTF8)
  then have "AuthorizationOperatorClient_SetRule (hostEndpoint h v) expected rule s = (s1, Inr out)"
    unfolding AuthorizationOperatorClient_SetRule_def
    by (subst SetRule_call.client_served [OF t operator_transport])
       (simp_all add: SetRule_handler edited out(1) after typed_OAAuthorizationOperatorSetRuleResult_def del: Handler_dispatching)
  then have "answer = Inr out" using assms(7) by simp
  with k g out d show ?thesis by blast
qed

theorem rule_set_over_frames_decides_witness:
  "\<exists>s1 pe. AuthorizationOperatorClient_SetRule (hostEndpoint sampleHost (sampleVisit None emptyState)) (revision samplePolicy emptyState)
      (sampleMember False) None = (s1, Inr pe) \<and> pe_outcome pe = PolicyEditOutcomeApplied \<and>
    d_outcome (Decide samplePolicy (uncachedRead samplePolicy Stored (Inr s1)) 0 sampleApp ''demo/read'' ''x'') = DecisionOutcomeDenied"
proof -
  let ?v = "sampleVisit None emptyState" and ?e = "revision samplePolicy emptyState"
  let ?args = "\<lparr>SetRule_expectedRevision = ?e, SetRule_rule = sampleMember False\<rparr>"
  have typed: "typed_PolicyRule (sampleMember False)"
    by (simp add: typed_PolicyRule_def typed_Subject_def sampleMember_def sampleApp_def printable_validUTF8 code_def)
  have t: "typed_OAAuthorizationOperatorSetRuleArguments ?args"
    using typed by (simp add: typed_OAAuthorizationOperatorSetRuleArguments_def revision_UTF8)
  obtain s1 answer where call: "AuthorizationOperatorClient_SetRule (hostEndpoint sampleHost ?v) ?e (sampleMember False) None = (s1, answer)"
    by fastforce
  have "fst (AuthorizationOperatorClient_SetRule (hostEndpoint sampleHost ?v) ?e (sampleMember False) None) =
      snd (receiver_SetRule sampleHost (?v\<lparr>v_content := None\<rparr>) ?e (sampleMember False))"
    unfolding AuthorizationOperatorClient_SetRule_def
    by (subst SetRule_call.client_state [OF t operator_transport]) (simp_all add: SetRule_handler del: Handler_dispatching)
  moreover have "?v\<lparr>v_content := None\<rparr> = ?v" by (simp add: sampleVisit_def)
  ultimately have s1: "s1 = Some (marshalFile (sampleState ''x'' False))"
    using call sample_host_set [of emptyState False] by simp
  have turns: "v_turns ?v = calm" by (simp add: sampleVisit_def)
  have "\<not> found calm None s1" by (simp add: s1 found_def)
  moreover have "\<not> IsMetaRule ''demo/read'' ''x''" by (rule sample_member_valid)
  moreover have "fourDigitYear (addDuration 0 MaxRuleTTL)" by (simp add: fourDigitYear_def addDuration_def MaxRuleTTL_def)
  ultimately show ?thesis
    using rule_set_over_frames_decides [of sampleHost, OF _ _ revision_UTF8 typed _ _ call] call sample_ready sample_fresh turns
    by (auto simp: sampleMember_def)
qed

end
