(* ===== verification/First_Messages.thy ===== *)
theory First_Messages
  imports Exact_Messages
begin

text \<open>
  The descriptor messages of the first rights service (\<open>rec.go\<close>, \<open>Request\<close> to \<open>ResponseMetadata\<close>), as
  in \<open>Exact_Messages\<close>. Every member of a response is optional, and one without any is \<open>{}\<close>.
\<close>

subsection \<open>Request\<close>

record Request =
  rq_op :: bytes
  rq_name :: bytes
  rq_rights :: "bytes list"
  rq_secret :: bytes
  rq_token :: bytes
  rq_right :: bytes
  rq_why :: bytes
  rq_app :: bytes
  rq_admin :: bytes

definition encRequest :: "Request \<Rightarrow> nat \<Rightarrow> bytes" where
  "encRequest v depth = encObject depth
     ([encMember depth ''op'' (esc (rq_op v))] @
      (if rq_name v \<noteq> [] then [encMember depth ''name'' (esc (rq_name v))] else []) @
      (if rq_rights v \<noteq> [] then [encMember depth ''rights'' (strs (rq_rights v) (depth + 1))] else []) @
      (if rq_secret v \<noteq> [] then [encMember depth ''secret'' (esc (rq_secret v))] else []) @
      (if rq_token v \<noteq> [] then [encMember depth ''token'' (esc (rq_token v))] else []) @
      (if rq_right v \<noteq> [] then [encMember depth ''right'' (esc (rq_right v))] else []) @
      (if rq_why v \<noteq> [] then [encMember depth ''why'' (esc (rq_why v))] else []) @
      (if rq_app v \<noteq> [] then [encMember depth ''app'' (esc (rq_app v))] else []) @
      (if rq_admin v \<noteq> [] then [encMember depth ''admin'' (esc (rq_admin v))] else []))"

abbreviation zero_Request :: Request where
  "zero_Request \<equiv> \<lparr>rq_op = [], rq_name = [], rq_rights = [], rq_secret = [], rq_token = [], rq_right = [], rq_why = [], rq_app = [], rq_admin = []\<rparr>"

definition decodeRequest :: "Request reading" where
  "decodeRequest = decodeRecord
     [(''op'', into reader_str (\<lambda>x v. v\<lparr>rq_op := x\<rparr>)),
      (''name'', into reader_str (\<lambda>x v. v\<lparr>rq_name := x\<rparr>)),
      (''rights'', into reader_strList (\<lambda>x v. v\<lparr>rq_rights := x\<rparr>)),
      (''secret'', into reader_str (\<lambda>x v. v\<lparr>rq_secret := x\<rparr>)),
      (''token'', into reader_str (\<lambda>x v. v\<lparr>rq_token := x\<rparr>)),
      (''right'', into reader_str (\<lambda>x v. v\<lparr>rq_right := x\<rparr>)),
      (''why'', into reader_str (\<lambda>x v. v\<lparr>rq_why := x\<rparr>)),
      (''app'', into reader_str (\<lambda>x v. v\<lparr>rq_app := x\<rparr>)),
      (''admin'', into reader_str (\<lambda>x v. v\<lparr>rq_admin := x\<rparr>))]
     [''op'']
     zero_Request"

definition typed_Request :: "Request \<Rightarrow> bool" where
  "typed_Request v \<longleftrightarrow> validUTF8 (rq_op v) \<and> validUTF8 (rq_name v) \<and> list_all validUTF8 (rq_rights v) \<and> validUTF8 (rq_secret v) \<and> validUTF8 (rq_token v) \<and> validUTF8 (rq_right v) \<and> validUTF8 (rq_why v) \<and> validUTF8 (rq_app v) \<and> validUTF8 (rq_admin v)"

interpretation Request_wire: codec decodeRequest encRequest typed_Request 2
  by (rule codec_record [OF decodeRequest_def encRequest_def [unfolded append.simps]])
     (rule wire | (simp add: typed_Request_def code_def validUTF8_none; fail))+

definition DecodeRequestAt :: "bytes \<Rightarrow> int \<Rightarrow> int \<Rightarrow> refusal + Request \<times> nat" where
  "DecodeRequestAt = decodeAt decodeRequest"

definition EncodeRequestAt :: "Request \<Rightarrow> int \<Rightarrow> refusal + bytes" where
  "EncodeRequestAt = encodeAt encRequest decodeRequest"

definition DecodeRequest :: "bytes \<Rightarrow> refusal + Request" where
  "DecodeRequest = decodeAll decodeRequest"

subsection \<open>AppMetadata\<close>

record AppMetadata =
  am_id :: bytes
  am_name :: bytes
  am_rights :: "bytes list"
  am_registered :: bytes

definition encAppMetadata :: "AppMetadata \<Rightarrow> nat \<Rightarrow> bytes" where
  "encAppMetadata v depth = encObject depth
     [encMember depth ''id'' (esc (am_id v)),
      encMember depth ''name'' (esc (am_name v)),
      encMember depth ''rights'' (strs (am_rights v) (depth + 1)),
      encMember depth ''registered'' (esc (am_registered v))]"

abbreviation zero_AppMetadata :: AppMetadata where
  "zero_AppMetadata \<equiv> \<lparr>am_id = [], am_name = [], am_rights = [], am_registered = []\<rparr>"

definition decodeAppMetadata :: "AppMetadata reading" where
  "decodeAppMetadata = decodeRecord
     [(''id'', into reader_str (\<lambda>x v. v\<lparr>am_id := x\<rparr>)),
      (''name'', into reader_str (\<lambda>x v. v\<lparr>am_name := x\<rparr>)),
      (''rights'', into reader_strList (\<lambda>x v. v\<lparr>am_rights := x\<rparr>)),
      (''registered'', into reader_str (\<lambda>x v. v\<lparr>am_registered := x\<rparr>))]
     [''id'', ''name'', ''rights'', ''registered'']
     zero_AppMetadata"

definition typed_AppMetadata :: "AppMetadata \<Rightarrow> bool" where
  "typed_AppMetadata v \<longleftrightarrow> validUTF8 (am_id v) \<and> validUTF8 (am_name v) \<and> list_all validUTF8 (am_rights v) \<and> validUTF8 (am_registered v)"

interpretation AppMetadata_wire: codec decodeAppMetadata encAppMetadata typed_AppMetadata 2
  by (rule codec_record [OF decodeAppMetadata_def encAppMetadata_def [unfolded append.simps]])
     (rule wire | (simp add: typed_AppMetadata_def code_def validUTF8_none; fail))+

definition DecodeAppMetadataAt :: "bytes \<Rightarrow> int \<Rightarrow> int \<Rightarrow> refusal + AppMetadata \<times> nat" where
  "DecodeAppMetadataAt = decodeAt decodeAppMetadata"

definition EncodeAppMetadataAt :: "AppMetadata \<Rightarrow> int \<Rightarrow> refusal + bytes" where
  "EncodeAppMetadataAt = encodeAt encAppMetadata decodeAppMetadata"

definition DecodeAppMetadata :: "bytes \<Rightarrow> refusal + AppMetadata" where
  "DecodeAppMetadata = decodeAll decodeAppMetadata"

subsection \<open>HoldMetadata\<close>

record HoldMetadata =
  hm_app :: bytes
  hm_name :: bytes
  hm_right :: bytes
  hm_why :: bytes
  hm_since :: bytes

definition encHoldMetadata :: "HoldMetadata \<Rightarrow> nat \<Rightarrow> bytes" where
  "encHoldMetadata v depth = encObject depth
     [encMember depth ''app'' (esc (hm_app v)),
      encMember depth ''name'' (esc (hm_name v)),
      encMember depth ''right'' (esc (hm_right v)),
      encMember depth ''why'' (esc (hm_why v)),
      encMember depth ''since'' (esc (hm_since v))]"

abbreviation zero_HoldMetadata :: HoldMetadata where
  "zero_HoldMetadata \<equiv> \<lparr>hm_app = [], hm_name = [], hm_right = [], hm_why = [], hm_since = []\<rparr>"

definition decodeHoldMetadata :: "HoldMetadata reading" where
  "decodeHoldMetadata = decodeRecord
     [(''app'', into reader_str (\<lambda>x v. v\<lparr>hm_app := x\<rparr>)),
      (''name'', into reader_str (\<lambda>x v. v\<lparr>hm_name := x\<rparr>)),
      (''right'', into reader_str (\<lambda>x v. v\<lparr>hm_right := x\<rparr>)),
      (''why'', into reader_str (\<lambda>x v. v\<lparr>hm_why := x\<rparr>)),
      (''since'', into reader_str (\<lambda>x v. v\<lparr>hm_since := x\<rparr>))]
     [''app'', ''name'', ''right'', ''why'', ''since'']
     zero_HoldMetadata"

definition typed_HoldMetadata :: "HoldMetadata \<Rightarrow> bool" where
  "typed_HoldMetadata v \<longleftrightarrow> validUTF8 (hm_app v) \<and> validUTF8 (hm_name v) \<and> validUTF8 (hm_right v) \<and> validUTF8 (hm_why v) \<and> validUTF8 (hm_since v)"

interpretation HoldMetadata_wire: codec decodeHoldMetadata encHoldMetadata typed_HoldMetadata 1
  by (rule codec_record [OF decodeHoldMetadata_def encHoldMetadata_def [unfolded append.simps]])
     (rule wire | (simp add: typed_HoldMetadata_def code_def validUTF8_none; fail))+

definition DecodeHoldMetadataAt :: "bytes \<Rightarrow> int \<Rightarrow> int \<Rightarrow> refusal + HoldMetadata \<times> nat" where
  "DecodeHoldMetadataAt = decodeAt decodeHoldMetadata"

definition EncodeHoldMetadataAt :: "HoldMetadata \<Rightarrow> int \<Rightarrow> refusal + bytes" where
  "EncodeHoldMetadataAt = encodeAt encHoldMetadata decodeHoldMetadata"

definition DecodeHoldMetadata :: "bytes \<Rightarrow> refusal + HoldMetadata" where
  "DecodeHoldMetadata = decodeAll decodeHoldMetadata"

subsection \<open>ResponseMetadata\<close>

record ResponseMetadata =
  rm_code :: bytes
  rm_error :: bytes
  rm_secret :: bytes
  rm_token :: bytes
  rm_expires :: bytes
  rm_app :: "AppMetadata option"
  rm_right :: bytes
  rm_apps :: "AppMetadata list"
  rm_holds :: "HoldMetadata list"

definition encResponseMetadata :: "ResponseMetadata \<Rightarrow> nat \<Rightarrow> bytes" where
  "encResponseMetadata v depth = encOpenObject depth
     ((if rm_code v \<noteq> [] then [encMember depth ''code'' (esc (rm_code v))] else []) @
      (if rm_error v \<noteq> [] then [encMember depth ''error'' (esc (rm_error v))] else []) @
      (if rm_secret v \<noteq> [] then [encMember depth ''secret'' (esc (rm_secret v))] else []) @
      (if rm_token v \<noteq> [] then [encMember depth ''token'' (esc (rm_token v))] else []) @
      (if rm_expires v \<noteq> [] then [encMember depth ''expires'' (esc (rm_expires v))] else []) @
      (case rm_app v of None \<Rightarrow> [] | Some x \<Rightarrow> [encMember depth ''app'' (encAppMetadata x (depth + 1))]) @
      (if rm_right v \<noteq> [] then [encMember depth ''right'' (esc (rm_right v))] else []) @
      (if rm_apps v \<noteq> [] then [encMember depth ''apps'' (encList encAppMetadata (rm_apps v) (depth + 1))] else []) @
      (if rm_holds v \<noteq> [] then [encMember depth ''holds'' (encList encHoldMetadata (rm_holds v) (depth + 1))] else []))"

abbreviation zero_ResponseMetadata :: ResponseMetadata where
  "zero_ResponseMetadata \<equiv> \<lparr>rm_code = [], rm_error = [], rm_secret = [], rm_token = [], rm_expires = [], rm_app = None, rm_right = [], rm_apps = [], rm_holds = []\<rparr>"

definition decodeResponseMetadata :: "ResponseMetadata reading" where
  "decodeResponseMetadata = decodeRecord
     [(''code'', into reader_str (\<lambda>x v. v\<lparr>rm_code := x\<rparr>)),
      (''error'', into reader_str (\<lambda>x v. v\<lparr>rm_error := x\<rparr>)),
      (''secret'', into reader_str (\<lambda>x v. v\<lparr>rm_secret := x\<rparr>)),
      (''token'', into reader_str (\<lambda>x v. v\<lparr>rm_token := x\<rparr>)),
      (''expires'', into reader_str (\<lambda>x v. v\<lparr>rm_expires := x\<rparr>)),
      (''app'', into decodeAppMetadata (\<lambda>x v. v\<lparr>rm_app := Some x\<rparr>)),
      (''right'', into reader_str (\<lambda>x v. v\<lparr>rm_right := x\<rparr>)),
      (''apps'', into (decodeList decodeAppMetadata) (\<lambda>x v. v\<lparr>rm_apps := x\<rparr>)),
      (''holds'', into (decodeList decodeHoldMetadata) (\<lambda>x v. v\<lparr>rm_holds := x\<rparr>))]
     []
     zero_ResponseMetadata"

definition typed_ResponseMetadata :: "ResponseMetadata \<Rightarrow> bool" where
  "typed_ResponseMetadata v \<longleftrightarrow> validUTF8 (rm_code v) \<and> validUTF8 (rm_error v) \<and> validUTF8 (rm_secret v) \<and> validUTF8 (rm_token v) \<and> validUTF8 (rm_expires v) \<and> pred_option typed_AppMetadata (rm_app v) \<and> validUTF8 (rm_right v) \<and> list_all typed_AppMetadata (rm_apps v) \<and> list_all typed_HoldMetadata (rm_holds v)"

interpretation ResponseMetadata_wire: codec decodeResponseMetadata encResponseMetadata typed_ResponseMetadata 4
  by (rule codec_open_record [OF decodeResponseMetadata_def encResponseMetadata_def [unfolded append.simps]])
     (rule wire | (simp add: typed_ResponseMetadata_def code_def validUTF8_none; fail))+

definition DecodeResponseMetadataAt :: "bytes \<Rightarrow> int \<Rightarrow> int \<Rightarrow> refusal + ResponseMetadata \<times> nat" where
  "DecodeResponseMetadataAt = decodeAt decodeResponseMetadata"

definition EncodeResponseMetadataAt :: "ResponseMetadata \<Rightarrow> int \<Rightarrow> refusal + bytes" where
  "EncodeResponseMetadataAt = encodeAt encResponseMetadata decodeResponseMetadata"

definition DecodeResponseMetadata :: "bytes \<Rightarrow> refusal + ResponseMetadata" where
  "DecodeResponseMetadata = decodeAll decodeResponseMetadata"

subsection \<open>The first service's request line\<close>

definition Encode :: "Request \<Rightarrow> bytes" where
  "Encode v = encRequest v 0 @ [newline]"

definition Decode :: "bytes \<Rightarrow> refusal + Request" where
  "Decode buf = decodeWhole decodeRequest buf 0"

end
