(* ===== verification/Message_Facts.thy ===== *)
theory Message_Facts
  imports Selector_Messages First_Messages
begin

text \<open>
  What whole messages promise, for the messages a client and the host exchange that carry lists of
  everything else: the batch request, the policy page, the page of selector rules and the page of
  descriptions. Every other message type has the same facts through its own \<open>codec\<close>.
\<close>

subsection \<open>Whole messages of a codec\<close>

text \<open>A text is read as a typed value that its own encoding gives back, or it is refused in one of the
  words of the contract.\<close>

definition readOrRefused :: "('a \<Rightarrow> bool) \<Rightarrow> ('a \<Rightarrow> nat \<Rightarrow> bytes) \<Rightarrow> (bytes \<Rightarrow> refusal + 'a) \<Rightarrow> bytes \<Rightarrow> bool" where
  "readOrRefused valid enc decode buf \<longleftrightarrow> (case decode buf of
     Inl e \<Rightarrow> (\<exists>word offset. e = Refusal word offset \<and> word \<in> set refusals)
   | Inr v \<Rightarrow> valid v \<and> decode (enc v 0) = Inr v)"

context codec
begin

lemma decodeAll_enc: "valid v \<Longrightarrow> h \<le> 64 \<Longrightarrow> decodeAll dec (enc v 0) = Inr v"
  using decodeAt_enc [of v 0 "[]" 0] by (simp add: decodeAll_def depthLimit_def delimited_def)

lemma decodeAll_read:
  assumes "h \<le> 64"
  shows "readOrRefused valid enc (decodeAll dec) buf"
proof (cases "decodeAll dec buf")
  case (Inl e)
  moreover from this obtain word offset where "e = Refusal word offset" using decodeAll_ends [of buf] by (cases e) auto
  ultimately show ?thesis using decodeAll_told [of buf] by (simp add: readOrRefused_def told_def worded_def)
next
  case (Inr v)
  with decodeAll_valid [OF Inr] decodeAll_enc assms show ?thesis by (simp add: readOrRefused_def)
qed

lemma encodeAt_read: "valid v \<Longrightarrow> h \<le> 64 \<Longrightarrow> encodeAt enc dec v 0 = Inr (enc v 0) \<and> decodeAll dec (enc v 0) = Inr v"
  using encodeAt_enc [of v 0] decodeAll_enc by simp

text \<open>A line: the text of a value and a newline.\<close>

lemma decodeWhole_line:
  assumes "valid v" and "h \<le> 64"
  shows "decodeWhole dec (enc v 0 @ [newline]) 0 = Inr v"
proof -
  let ?r = "newReader (enc v 0 @ [newline]) 0 0"
  have r: "rd_rest ?r = enc v 0 @ [newline]" "rd_depth ?r = 0" "reader_depthLimit ?r = 64"
    by (simp_all add: newReader_def reader_depthLimit_def depthLimit_def)
  have reads: "reads h dec (enc v 0) v" by (rule codes_reads [OF writes [OF assms(1)]])
  have "dec (ws ?r) = Inr (v, advance (length (enc v 0)) ?r)"
    using readsD [OF reads r(1)] ws_solid [OF r(1) reads_solid [OF reads]] r(2,3) assms(2) by (simp add: delimited_def newline_def isWs_def)
  then show ?thesis using r(1) by (simp add: decodeWhole_def ws_def newline_def isWs_def)
qed

end

subsection \<open>Messages\<close>

text \<open>C35: Decoded messages are typed: whatever bytes a decoder is given, it ends; it refuses them in a
  word of the contract, or yields a value whose every string is UTF-8 and every number within its
  width, and that value's own text decodes to it again.\<close>

theorem decoded_messages_are_typed:
  "readOrRefused typed_CheckBatchRequest encCheckBatchRequest DecodeCheckBatchRequest buf \<and>
   readOrRefused typed_PolicyPage encPolicyPage DecodePolicyPage buf \<and>
   readOrRefused typed_SelectorRulePage encSelectorRulePage DecodeSelectorRulePage buf \<and>
   readOrRefused typed_DescriptionPage encDescriptionPage DecodeDescriptionPage buf"
  unfolding DecodeCheckBatchRequest_def DecodePolicyPage_def DecodeSelectorRulePage_def DecodeDescriptionPage_def
  by (simp add: CheckBatchRequest_wire.decodeAll_read PolicyPage_wire.decodeAll_read SelectorRulePage_wire.decodeAll_read
      DescriptionPage_wire.decodeAll_read)

text \<open>C36: Messages are read back: a request or a page whose strings are UTF-8 and whose numbers are within
  their width is encoded without a panic, and its text, with a newline after it or without, decodes
  to the very value, nested lists and optional members included.\<close>

theorem messages_read_back:
  assumes "typed_CheckBatchRequest request1" and "typed_PolicyPage page" and "typed_SelectorRulePage selectors" and "typed_DescriptionPage descriptions" and "typed_Request line"
  shows "Decode (Encode line) = Inr line \<and> DecodeCheckBatchRequest (EncodeCheckBatchRequest request1) = Inr request1 \<and>
    (\<exists>text1. EncodePolicyPageAt page 0 = Inr text1 \<and> DecodePolicyPage text1 = Inr page) \<and>
    (\<exists>text1. EncodeSelectorRulePageAt selectors 0 = Inr text1 \<and> DecodeSelectorRulePage text1 = Inr selectors) \<and>
    (\<exists>text1. EncodeDescriptionPageAt descriptions 0 = Inr text1 \<and> DecodeDescriptionPage text1 = Inr descriptions)"
  unfolding Decode_def Encode_def DecodeCheckBatchRequest_def DecodePolicyPage_def DecodeSelectorRulePage_def DecodeDescriptionPage_def
    EncodeCheckBatchRequest_def EncodePolicyPageAt_def EncodeSelectorRulePageAt_def EncodeDescriptionPageAt_def
  by (simp add: CheckBatchRequest_wire.decodeAll_encode PolicyPage_wire.encodeAt_read SelectorRulePage_wire.encodeAt_read
      DescriptionPage_wire.encodeAt_read Request_wire.decodeWhole_line assms)

theorem messages_read_back_witness:
  "DecodeCheckBatchRequest (EncodeCheckBatchRequest \<lparr>cb_expectedRevision = ''r1'', cb_collectionAdmission = None,
     cb_resources = [\<lparr>cr_permission = \<lparr>k_action = ''demo/read'', k_resourceProfile = ''tree''\<rparr>, cr_target = Some [NUL]\<rparr>]\<rparr>) =
   Inr \<lparr>cb_expectedRevision = ''r1'', cb_collectionAdmission = None, cb_resources = [\<lparr>cr_permission = \<lparr>k_action = ''demo/read'', k_resourceProfile = ''tree''\<rparr>, cr_target = Some [NUL]\<rparr>]\<rparr>"
proof -
  have "typed_CheckBatchRequest \<lparr>cb_expectedRevision = ''r1'', cb_collectionAdmission = None,
      cb_resources = [\<lparr>cr_permission = \<lparr>k_action = ''demo/read'', k_resourceProfile = ''tree''\<rparr>, cr_target = Some [NUL]\<rparr>]\<rparr>"
    by (simp add: typed_CheckBatchRequest_def typed_ConcreteResource_def typed_PermissionKey_def printable_validUTF8 code_def)
  moreover have "typed_Request zero_Request" by (simp add: typed_Request_def validUTF8_none)
  ultimately show ?thesis using messages_read_back [OF _ typed_zero_PolicyPage typed_zero_SelectorRulePage typed_zero_DescriptionPage] by blast
qed

end
