(* ===== verification/Legacy_Policy.thy ===== *)
theory Legacy_Policy
  imports Store_Facts
begin

text \<open>
  The first rights service: applications registered with a secret (policy.go), the operations its
  connection answers (service.go, wire.go), and its refusal codes (errors.go). A step is one critical
  section, under the policy's lock or the file's; an operation of several sections is modelled
  section by section and as their composition. The stored file is its value, not its JSON text;
  random identifiers, the clock and the caller's evidence are arguments. Sockets, goroutines and the
  platform's wake request are not modelled.
\<close>

subsection \<open>Applications, tokens, errors\<close>

datatype legacyError =
    ErrUnknownApp
  | ErrUnknownRightName
  | ErrNotGranted
  | ErrBadSecret
  | ErrBadToken
  | LegacyError bytes

text \<open>The parts of \<open>listen.Seen\<close> the service uses.\<close>

record seen =
  seen_path :: bytes
  seen_user :: bytes

record app =
  app_id :: bytes
  app_name :: bytes
  app_rights :: "bytes list"
  app_registered :: instant
  app_seen :: seen

record registration =
  rg_app :: app
  rg_hash :: bytes

record legacyFile =
  lf_apps :: "registration list"
  lf_profile :: bytes

record grant =
  g_app :: bytes
  g_right :: bytes
  g_expires :: instant

text \<open>What \<open>cas.Read\<close> and \<open>json.Unmarshal\<close> give of the file: nothing there, an error, or a value.\<close>

type_synonym stored = "(legacyError + legacyFile) option"

record legacyPolicy =
  lp_file :: stored
  lp_tokens :: "bytes \<rightharpoonup> grant"

definition RightAwake :: bytes where "RightAwake = ''awake''"
definition AwakeAction :: bytes where "AwakeAction = ''abstraction.resource/hold''"
definition AwakeResource :: bytes where "AwakeResource = ''awake''"
definition Known :: "bytes list" where "Known = [RightAwake]"

definition Alias :: "bytes \<Rightarrow> (bytes \<times> bytes) option" where
  "Alias right = (if right = RightAwake then Some (AwakeAction, AwakeResource) else None)"

definition RightOf :: "bytes \<Rightarrow> bytes \<Rightarrow> bytes option" where
  "RightOf action resource = (if action = AwakeAction \<and> resource = AwakeResource then Some RightAwake else None)"

lemma RightOf_Alias: "Alias right = Some (action, resource) \<longleftrightarrow> RightOf action resource = Some right"
  by (auto simp: Alias_def RightOf_def)

definition tokenLife :: nat where "tokenLife = 3600000000000"

definition hashOf :: "bytes \<Rightarrow> bytes" where
  "hashOf secret = sha256Hex secret"

subsection \<open>The file\<close>

definition profiled :: legacyError where
  "profiled = LegacyError ''rights: decision profile requires LoadDecisionPolicy''"

definition noApps :: legacyFile where
  "noApps = \<lparr>lf_apps = [], lf_profile = []\<rparr>"

definition legacy_read :: "stored \<Rightarrow> legacyError + legacyFile" where
  "legacy_read stored1 = (case stored1 of
     None \<Rightarrow> Inr noApps
   | Some (Inl e) \<Rightarrow> Inl e
   | Some (Inr f) \<Rightarrow> if lf_profile f \<noteq> [] then Inl profiled else Inr f)"

text \<open>\<open>Policy.change\<close>: the edit on what is there, the applications sorted by identifier, the write.
  The store may fail instead of writing.\<close>

definition legacy_change :: "(legacyFile \<Rightarrow> 'r \<times> (legacyError + legacyFile)) \<Rightarrow> 'r \<Rightarrow> legacyError option \<Rightarrow> stored \<Rightarrow>
    'r \<times> legacyError option \<times> stored" where
  "legacy_change edit r0 fails stored1 = (case legacy_read stored1 of
     Inl e \<Rightarrow> (r0, Some e, stored1)
   | Inr f \<Rightarrow> (case edit f of
       (r, Inl e) \<Rightarrow> (r, Some e, stored1)
     | (r, Inr g) \<Rightarrow> (case fails of
         Some e \<Rightarrow> (r, Some e, stored1)
       | None \<Rightarrow> (r, None, Some (Inr (g\<lparr>lf_apps := sort_key (app_id \<circ> rg_app) (lf_apps g)\<rparr>))))))"

text \<open>An application by its identifier, else by a name only it has: the position found.\<close>

definition findApp :: "legacyFile \<Rightarrow> bytes \<Rightarrow> legacyError + nat" where
  "findApp f ref =
     (let ids = filter (\<lambda>i. app_id (rg_app (lf_apps f ! i)) = ref) [0..<length (lf_apps f)];
          named = filter (\<lambda>i. app_name (rg_app (lf_apps f ! i)) = ref) [0..<length (lf_apps f)] in
      case ids of
        i # _ \<Rightarrow> Inr i
      | [] \<Rightarrow> (case named of
          [] \<Rightarrow> Inl ErrUnknownApp
        | [i] \<Rightarrow> Inr i
        | _ \<Rightarrow> Inl (LegacyError (''rights: more than one application is called '' @ ref @ ''; use the id''))))"

definition setRights :: "legacyFile \<Rightarrow> nat \<Rightarrow> (bytes list \<Rightarrow> bytes list) \<Rightarrow> legacyFile" where
  "setRights f i h = (let r = lf_apps f ! i; a = rg_app r in
     f\<lparr>lf_apps := (lf_apps f)[i := r\<lparr>rg_app := a\<lparr>app_rights := h (app_rights a)\<rparr>\<rparr>]\<rparr>)"

subsection \<open>Operations\<close>

definition legacy_Add :: "bytes \<Rightarrow> bytes list \<Rightarrow> seen \<Rightarrow> bytes \<Rightarrow> bytes \<Rightarrow> instant \<Rightarrow> legacyError option \<Rightarrow> legacyPolicy \<Rightarrow>
    (legacyError + app \<times> bytes) \<times> legacyPolicy" where
  "legacy_Add name rights seen1 randomID secret now fails p =
     (if \<not> list_all (\<lambda>r. r \<in> set Known) rights then (Inl ErrUnknownRightName, p)
      else
       let a = \<lparr>app_id = randomID, app_name = name, app_rights = rights, app_registered = now, app_seen = seen1\<rparr>;
           r = \<lparr>rg_app = a, rg_hash = hashOf secret\<rparr> in
       (case legacy_change (\<lambda>f. ((), Inr (f\<lparr>lf_apps := lf_apps f @ [r]\<rparr>))) () fails (lp_file p) of
          (u, Some e, stored1) \<Rightarrow> (Inl e, p\<lparr>lp_file := stored1\<rparr>)
        | (u, None, stored1) \<Rightarrow> (Inr (a, secret), p\<lparr>lp_file := stored1\<rparr>)))"

text \<open>A file that cannot be read lists nothing.\<close>

definition legacy_Apps :: "legacyPolicy \<Rightarrow> app list" where
  "legacy_Apps p = (case legacy_read (lp_file p) of
     Inl e \<Rightarrow> []
   | Inr f \<Rightarrow> sort_key app_registered (map rg_app (lf_apps f)))"

definition legacy_Grant :: "bytes \<Rightarrow> bytes \<Rightarrow> legacyError option \<Rightarrow> legacyPolicy \<Rightarrow> legacyError option \<times> legacyPolicy" where
  "legacy_Grant ref right fails p =
     (if right \<notin> set Known then (Some ErrUnknownRightName, p)
      else (case legacy_change (\<lambda>f. (case findApp f ref of
               Inl e \<Rightarrow> ((), Inl e)
             | Inr i \<Rightarrow> ((), Inr (setRights f i (\<lambda>rs. if right \<in> set rs then rs else rs @ [right]))))) () fails (lp_file p) of
             (u, err, stored1) \<Rightarrow> (err, p\<lparr>lp_file := stored1\<rparr>)))"

definition purge :: "(grant \<Rightarrow> bool) \<Rightarrow> (bytes \<rightharpoonup> grant) \<Rightarrow> (bytes \<rightharpoonup> grant)" where
  "purge match tokens = (\<lambda>t. case tokens t of None \<Rightarrow> None | Some g \<Rightarrow> if match g then None else Some g)"

text \<open>\<open>Revoke\<close> and \<open>Forget\<close> are two critical sections: the change of the file under the file's lock, then
  the purge of the tokens under the policy's. The identifier is set by the edit; the tokens go
  whether or not the write succeeded.\<close>

definition legacy_Revoke_write :: "bytes \<Rightarrow> bytes \<Rightarrow> legacyError option \<Rightarrow> stored \<Rightarrow> bytes \<times> legacyError option \<times> stored" where
  "legacy_Revoke_write ref right fails =
     legacy_change (\<lambda>f. (case findApp f ref of
          Inl e \<Rightarrow> ([], Inl e)
        | Inr i \<Rightarrow> (app_id (rg_app (lf_apps f ! i)), Inr (setRights f i (filter (\<lambda>x. x \<noteq> right)))))) [] fails"

definition legacy_Revoke :: "bytes \<Rightarrow> bytes \<Rightarrow> legacyError option \<Rightarrow> legacyPolicy \<Rightarrow> (bytes \<times> legacyError option) \<times> legacyPolicy" where
  "legacy_Revoke ref right fails p =
     (case legacy_Revoke_write ref right fails (lp_file p) of
        (i, err, stored1) \<Rightarrow>
          ((i, err), p\<lparr>lp_file := stored1, lp_tokens := purge (\<lambda>g. g_app g = i \<and> g_right g = right) (lp_tokens p)\<rparr>))"

definition legacy_Forget_write :: "bytes \<Rightarrow> legacyError option \<Rightarrow> stored \<Rightarrow> bytes \<times> legacyError option \<times> stored" where
  "legacy_Forget_write ref fails =
     legacy_change (\<lambda>f. (case findApp f ref of
          Inl e \<Rightarrow> ([], Inl e)
        | Inr i \<Rightarrow> (app_id (rg_app (lf_apps f ! i)), Inr (f\<lparr>lf_apps := take i (lf_apps f) @ drop (Suc i) (lf_apps f)\<rparr>)))) [] fails"

definition legacy_Forget :: "bytes \<Rightarrow> legacyError option \<Rightarrow> legacyPolicy \<Rightarrow> (bytes \<times> legacyError option) \<times> legacyPolicy" where
  "legacy_Forget ref fails p =
     (case legacy_Forget_write ref fails (lp_file p) of
        (i, err, stored1) \<Rightarrow> ((i, err), p\<lparr>lp_file := stored1, lp_tokens := purge (\<lambda>g. g_app g = i) (lp_tokens p)\<rparr>))"

text \<open>\<open>Ask\<close> reads the file outside the policy's lock and stores the token in a later critical section;
  \<open>legacy_Ask\<close> is the two without anything between them.\<close>

definition legacy_Ask_read :: "bytes \<Rightarrow> bytes \<Rightarrow> stored \<Rightarrow> legacyError + bytes" where
  "legacy_Ask_read secret right stored1 = (case legacy_read stored1 of
     Inl e \<Rightarrow> Inl e
   | Inr f \<Rightarrow> (case find (\<lambda>r. rg_hash r = hashOf secret) (lf_apps f) of
       None \<Rightarrow> Inl ErrBadSecret
     | Some r \<Rightarrow> if right \<notin> set (app_rights (rg_app r)) then Inl ErrNotGranted else Inr (app_id (rg_app r))))"

definition legacy_Ask_store :: "bytes \<Rightarrow> bytes \<Rightarrow> bytes \<Rightarrow> instant \<Rightarrow> legacyPolicy \<Rightarrow> (bytes \<times> instant) \<times> legacyPolicy" where
  "legacy_Ask_store i right token now p =
     (let g = \<lparr>g_app = i, g_right = right, g_expires = now + tokenLife\<rparr> in
      ((token, g_expires g), p\<lparr>lp_tokens := (lp_tokens p)(token \<mapsto> g)\<rparr>))"

definition legacy_Ask :: "bytes \<Rightarrow> bytes \<Rightarrow> bytes \<Rightarrow> instant \<Rightarrow> legacyPolicy \<Rightarrow> (legacyError + bytes \<times> instant) \<times> legacyPolicy" where
  "legacy_Ask secret right token now p = (case legacy_Ask_read secret right (lp_file p) of
     Inl e \<Rightarrow> (Inl e, p)
   | Inr i \<Rightarrow> (case legacy_Ask_store i right token now p of (answer1, q) \<Rightarrow> (Inr answer1, q)))"

definition dropToken :: "bytes \<Rightarrow> legacyPolicy \<Rightarrow> legacyPolicy" where
  "dropToken token p = p\<lparr>lp_tokens := (lp_tokens p)(token := None)\<rparr>"

definition legacy_Check :: "bytes \<Rightarrow> instant \<Rightarrow> legacyPolicy \<Rightarrow> (legacyError + app \<times> bytes) \<times> legacyPolicy" where
  "legacy_Check token now p = (case lp_tokens p token of
     None \<Rightarrow> (Inl ErrBadToken, dropToken token p)
   | Some g \<Rightarrow>
      if now > g_expires g then (Inl ErrBadToken, dropToken token p)
      else (case legacy_read (lp_file p) of
        Inl e \<Rightarrow> (Inl e, p)
      | Inr f \<Rightarrow> (case find (\<lambda>r. app_id (rg_app r) = g_app g) (lf_apps f) of
          None \<Rightarrow> (Inl ErrNotGranted, dropToken token p)
        | Some r \<Rightarrow> if g_right g \<notin> set (app_rights (rg_app r)) then (Inl ErrNotGranted, dropToken token p)
            else (Inr (rg_app r, g_right g), p))))"

subsection \<open>Refusal codes\<close>

definition codeOf :: "legacyError \<Rightarrow> bytes" where
  "codeOf e = (case e of
     ErrUnknownApp \<Rightarrow> ''unknown_app''
   | ErrUnknownRightName \<Rightarrow> ''unknown_right''
   | ErrNotGranted \<Rightarrow> ''not_granted''
   | ErrBadSecret \<Rightarrow> ''bad_secret''
   | ErrBadToken \<Rightarrow> ''bad_token''
   | LegacyError t \<Rightarrow> ''internal'')"

definition errorText :: "legacyError \<Rightarrow> bytes" where
  "errorText e = (case e of
     ErrUnknownApp \<Rightarrow> ''rights: no such application''
   | ErrUnknownRightName \<Rightarrow> ''rights: no such right''
   | ErrNotGranted \<Rightarrow> ''rights: not granted''
   | ErrBadSecret \<Rightarrow> ''rights: secret not recognised''
   | ErrBadToken \<Rightarrow> ''rights: token not recognised''
   | LegacyError t \<Rightarrow> t)"

text \<open>\<open>RemoteError\<close>: a refusal as the client holds it; \<open>Unwrap\<close> gives back the error it stands for.\<close>

record remoteError =
  re_code :: bytes
  re_message :: bytes

definition unwrapRemote :: "remoteError \<Rightarrow> legacyError option" where
  "unwrapRemote e =
     (if re_code e = ''unknown_app'' then Some ErrUnknownApp
      else if re_code e = ''unknown_right'' then Some ErrUnknownRightName
      else if re_code e = ''not_granted'' then Some ErrNotGranted
      else if re_code e = ''bad_secret'' then Some ErrBadSecret
      else if re_code e = ''bad_token'' then Some ErrBadToken
      else None)"

definition remoteText :: "remoteError \<Rightarrow> bytes" where
  "remoteText e = (if re_message e \<noteq> [] then re_message e else ''rights: '' @ re_code e)"

record holdRow =
  hd_app :: bytes
  hd_name :: bytes
  hd_right :: bytes
  hd_why :: bytes
  hd_since :: instant
  hd_seen :: "seen option"
  hd_lease :: bytes

record response =
  rp_code :: bytes
  rp_error :: bytes
  rp_secret :: bytes
  rp_token :: bytes
  rp_expires :: instant
  rp_app :: "app option"
  rp_right :: bytes
  rp_apps :: "app list"
  rp_holds :: "holdRow list"

definition okResponse :: response where
  "okResponse = \<lparr>rp_code = [], rp_error = [], rp_secret = [], rp_token = [], rp_expires = 0, rp_app = None, rp_right = [],
     rp_apps = [], rp_holds = []\<rparr>"

definition refuseCode :: "bytes \<Rightarrow> bytes \<Rightarrow> response" where
  "refuseCode c text1 = okResponse\<lparr>rp_code := c, rp_error := text1\<rparr>"

definition failure :: "legacyError \<Rightarrow> response" where
  "failure e = refuseCode (codeOf e) (if errorText e = [] then ''rights: '' @ codeOf e else errorText e)"

definition responseErr :: "response \<Rightarrow> remoteError option" where
  "responseErr r = (if rp_error r = [] \<and> rp_code r = [] then None else Some \<lparr>re_code = rp_code r, re_message = rp_error r\<rparr>)"

subsection \<open>The service\<close>

record request =
  rq_op :: bytes
  rq_name :: bytes
  rq_rights :: "bytes list"
  rq_secret :: bytes
  rq_token :: bytes
  rq_right :: bytes
  rq_why :: bytes
  rq_app :: bytes
  rq_admin :: bytes

text \<open>A hold and the connection that carries it; closing a connection is what ends its hold.\<close>

record holder =
  ho_row :: holdRow
  ho_conn :: nat

record service =
  sv_policy :: legacyPolicy
  sv_admin :: bytes
  sv_holds :: "holder list"
  sv_closed :: "nat list"
  sv_leases :: bool

text \<open>What a call finds: the clock, the random token or identifier, the store's failure if any.\<close>

record surroundings =
  su_now :: instant
  su_token :: bytes
  su_fails :: "legacyError option"

definition dropHolds :: "(holder \<Rightarrow> bool) \<Rightarrow> service \<Rightarrow> service" where
  "dropHolds match s = s\<lparr>sv_closed := sv_closed s @ map ho_conn (filter match (sv_holds s))\<rparr>"

text \<open>One row of the lease book's awake resource.\<close>

record awakeHold =
  aw_lease :: bytes
  aw_program :: bytes
  aw_account :: bytes
  aw_why :: bytes
  aw_since :: instant

definition UseLeases :: "bool \<Rightarrow> service \<Rightarrow> service" where
  "UseLeases book s = s\<lparr>sv_leases := book\<rparr>"

text \<open>With a lease book the rows are the book's, named by the holds this service carries.\<close>

definition listHolds :: "awakeHold list \<Rightarrow> service \<Rightarrow> holdRow list" where
  "listHolds rows s =
     (if \<not> sv_leases s then sort_key hd_since (map ho_row (sv_holds s))
      else map (\<lambda>row.
        let h = find (\<lambda>h. hd_lease h \<noteq> [] \<and> hd_lease h = aw_lease row) (map ho_row (sv_holds s));
            name = (case h of None \<Rightarrow> [] | Some x \<Rightarrow> hd_name x) in
        \<lparr>hd_app = (case h of None \<Rightarrow> [] | Some x \<Rightarrow> hd_app x), hd_name = (if name = [] then aw_program row else name),
          hd_right = RightAwake, hd_why = aw_why row, hd_since = aw_since row,
          hd_seen = (case h of None \<Rightarrow> None | Some x \<Rightarrow> hd_seen x), hd_lease = aw_lease row\<rparr>) rows)"

definition administer :: "awakeHold list \<Rightarrow> surroundings \<Rightarrow> request \<Rightarrow> service \<Rightarrow> response \<times> service" where
  "administer rows su req s =
     (if rq_op req = ''apps'' then (okResponse\<lparr>rp_apps := legacy_Apps (sv_policy s)\<rparr>, s)
      else if rq_op req = ''grant'' then
        (case legacy_Grant (rq_app req) (rq_right req) (su_fails su) (sv_policy s) of
           (Some e, p) \<Rightarrow> (failure e, s\<lparr>sv_policy := p\<rparr>)
         | (None, p) \<Rightarrow> (okResponse, s\<lparr>sv_policy := p\<rparr>))
      else if rq_op req = ''revoke'' then
        (case legacy_Revoke (rq_app req) (rq_right req) (su_fails su) (sv_policy s) of
           ((i, Some e), p) \<Rightarrow> (failure e, s\<lparr>sv_policy := p\<rparr>)
         | ((i, None), p) \<Rightarrow> (okResponse, dropHolds (\<lambda>h. hd_app (ho_row h) = i \<and> hd_right (ho_row h) = rq_right req)
             (s\<lparr>sv_policy := p\<rparr>)))
      else if rq_op req = ''forget'' then
        (case legacy_Forget (rq_app req) (su_fails su) (sv_policy s) of
           ((i, Some e), p) \<Rightarrow> (failure e, s\<lparr>sv_policy := p\<rparr>)
         | ((i, None), p) \<Rightarrow> (okResponse, dropHolds (\<lambda>h. hd_app (ho_row h) = i) (s\<lparr>sv_policy := p\<rparr>)))
      else if rq_op req = ''holds'' then (okResponse\<lparr>rp_holds := listHolds rows s\<rparr>, s)
      else (okResponse, s))"

definition answer :: "awakeHold list \<Rightarrow> surroundings \<Rightarrow> request \<Rightarrow> service \<Rightarrow> response \<times> service" where
  "answer rows su req s =
     (if rq_op req = ''ask'' then
        (case legacy_Ask (rq_secret req) (rq_right req) (su_token su) (su_now su) (sv_policy s) of
           (Inl e, p) \<Rightarrow> (failure e, s\<lparr>sv_policy := p\<rparr>)
         | (Inr (t, expires), p) \<Rightarrow>
             (okResponse\<lparr>rp_token := t, rp_expires := expires, rp_right := rq_right req\<rparr>, s\<lparr>sv_policy := p\<rparr>))
      else if rq_op req = ''check'' then
        (case legacy_Check (rq_token req) (su_now su) (sv_policy s) of
           (Inl e, p) \<Rightarrow> (failure e, s\<lparr>sv_policy := p\<rparr>)
         | (Inr (a, right), p) \<Rightarrow> (okResponse\<lparr>rp_app := Some a, rp_right := right\<rparr>, s\<lparr>sv_policy := p\<rparr>))
      else if rq_op req \<in> {''apps'', ''grant'', ''revoke'', ''forget'', ''holds''} then
        (if hashOf (rq_admin req) \<noteq> sv_admin s then (refuseCode ''not_administrator'' ''rights: not the policy tool'', s)
         else administer rows su req s)
      else (refuseCode ''unknown_operation'' (''rights: unknown op '' @ rq_op req), s))"

definition pendingText :: bytes where
  "pendingText = ''rights: nobody answered yet; the question is waiting in '' @ [CHR 0x27] @ ''asks pending'' @ [CHR 0x27] @
     '', run again once it is answered''"

text \<open>A registration is put to a person; what \<open>Await\<close> brings back, and what the recheck says then.\<close>

datatype awaited = Answered bool bool | Overdue | AwaitFailed legacyError

definition register :: "seen \<Rightarrow> awaited \<Rightarrow> bytes option \<Rightarrow> bytes \<Rightarrow> bytes \<Rightarrow> surroundings \<Rightarrow> request \<Rightarrow> service \<Rightarrow> response \<times> service" where
  "register seen1 asked recheck randomID secret su req s =
     (case find (\<lambda>r. r \<notin> set Known) (rq_rights req) of
        Some r \<Rightarrow> (refuseCode ''unknown_right'' (errorText ErrUnknownRightName @ '': '' @ r), s)
      | None \<Rightarrow>
         if trimSpace (rq_name req) = [] then (refuseCode ''invalid_request'' ''rights: an application needs a name'', s)
         else (case asked of
           Overdue \<Rightarrow> (refuseCode ''pending'' pendingText, s)
         | AwaitFailed e \<Rightarrow> (failure e, s)
         | Answered yes kept \<Rightarrow>
             if \<not> yes then (if kept then (refuseCode ''denied_permanently'' ''rights: refused, and the person asked not to be asked again'', s)
               else (refuseCode ''denied'' ''rights: refused'', s))
             else (case recheck of
               Some e \<Rightarrow> (refuseCode ''caller_refused'' (''rights: refused, '' @ e), s)
             | None \<Rightarrow> (case legacy_Add (rq_name req) (rq_rights req) seen1 randomID secret (su_now su) (su_fails su) (sv_policy s) of
                 (Inl e, p) \<Rightarrow> (failure e, s\<lparr>sv_policy := p\<rparr>)
               | (Inr (a, sec), p) \<Rightarrow> (okResponse\<lparr>rp_secret := sec\<rparr>, s\<lparr>sv_policy := p\<rparr>)))))"

text \<open>A hold begins: the token checked, a right that can be held, the platform's request, the row.\<close>

definition hold :: "seen \<Rightarrow> nat \<Rightarrow> bytes option \<Rightarrow> bytes \<Rightarrow> surroundings \<Rightarrow> request \<Rightarrow> service \<Rightarrow> response \<times> service" where
  "hold seen1 conn platform lease su req s =
     (case legacy_Check (rq_token req) (su_now su) (sv_policy s) of
        (Inl e, p) \<Rightarrow> (failure e, s\<lparr>sv_policy := p\<rparr>)
      | (Inr (a, right), p) \<Rightarrow>
         (case Alias right of
            None \<Rightarrow> (refuseCode ''unsupported_hold'' (''rights: '' @ right @ '' is not a right that can be held''), s\<lparr>sv_policy := p\<rparr>)
          | Some (action, resource) \<Rightarrow> (case platform of
              Some e \<Rightarrow> (refuseCode ''platform_refused'' (''rights: the platform refused: '' @ e), s\<lparr>sv_policy := p\<rparr>)
            | None \<Rightarrow>
               let row = \<lparr>hd_app = app_id a, hd_name = app_name a, hd_right = right, hd_why = rq_why req, hd_since = su_now su,
                     hd_seen = Some seen1, hd_lease = (if sv_leases s then lease else [])\<rparr> in
               (okResponse\<lparr>rp_app := Some a, rp_right := right\<rparr>,
                s\<lparr>sv_policy := p, sv_holds := sv_holds s @ [\<lparr>ho_row = row, ho_conn = conn\<rparr>]\<rparr>))))"

text \<open>The connection is gone: the hold leaves the table.\<close>

definition endHold :: "nat \<Rightarrow> service \<Rightarrow> service" where
  "endHold conn s = s\<lparr>sv_holds := filter (\<lambda>h. ho_conn h \<noteq> conn) (sv_holds s)\<rparr>"

end
