(* ===== verification/Legacy_Facts.thy ===== *)
theory Legacy_Facts
  imports Legacy_Policy
begin

text \<open>
  What the first rights service promises of its tokens, in any interleaving of its critical sections:
  a token works only from an Ask by its application's secret, for an hour, until a purge for its
  right or application, and only while the file grants the right.
\<close>

lemma find_found: "find P xs = Some x \<Longrightarrow> x \<in> set xs \<and> P x"
  by (induction xs) (auto split: if_split_asm)

subsection \<open>Runs\<close>

text \<open>The critical sections of the operations, in any interleaving: a number tells the calls apart whose
  sections belong together. \<open>Rewrites\<close> is another program's write of the file.\<close>

datatype legacySection =
    Adds bytes "bytes list" seen bytes bytes instant "legacyError option"
  | Grants bytes bytes "legacyError option"
  | AskReads nat bytes bytes
  | AskStores nat bytes instant
  | RevokeWrites nat bytes bytes "legacyError option"
  | ForgetWrites nat bytes "legacyError option"
  | Purges nat
  | Checks bytes instant
  | Rewrites stored

text \<open>The policy, the calls of \<open>Ask\<close> that have read an application's grant and not stored the token yet,
  and the calls of \<open>Revoke\<close> and \<open>Forget\<close> that have changed the file and not purged the tokens yet: the
  application, and the right or every right.\<close>

record legacyRunning =
  lr_policy :: legacyPolicy
  lr_asks :: "nat \<rightharpoonup> bytes \<times> bytes"
  lr_purges :: "nat \<rightharpoonup> bytes \<times> bytes option"

definition purges :: "bytes \<times> bytes option \<Rightarrow> grant \<Rightarrow> bool" where
  "purges scope g \<longleftrightarrow> g_app g = fst scope \<and> (case snd scope of None \<Rightarrow> True | Some right \<Rightarrow> g_right g = right)"

fun legacyStep :: "legacySection \<Rightarrow> legacyRunning \<Rightarrow> legacyRunning" where
  "legacyStep (Adds name rs seen1 rid secret now fails) w =
     w\<lparr>lr_policy := snd (legacy_Add name rs seen1 rid secret now fails (lr_policy w))\<rparr>"
| "legacyStep (Grants ref right fails) w = w\<lparr>lr_policy := snd (legacy_Grant ref right fails (lr_policy w))\<rparr>"
| "legacyStep (AskReads k secret right) w =
     (if lr_asks w k \<noteq> None then w
      else case legacy_Ask_read secret right (lp_file (lr_policy w)) of
        Inl e \<Rightarrow> w
      | Inr i \<Rightarrow> w\<lparr>lr_asks := (lr_asks w)(k \<mapsto> (i, right))\<rparr>)"
| "legacyStep (AskStores k token now) w =
     (case lr_asks w k of
        None \<Rightarrow> w
      | Some (i, right) \<Rightarrow>
          w\<lparr>lr_asks := (lr_asks w)(k := None), lr_policy := snd (legacy_Ask_store i right token now (lr_policy w))\<rparr>)"
| "legacyStep (RevokeWrites k ref right fails) w =
     (if lr_purges w k \<noteq> None then w
      else case legacy_Revoke_write ref right fails (lp_file (lr_policy w)) of
        (i, err, stored1) \<Rightarrow>
          w\<lparr>lr_policy := (lr_policy w)\<lparr>lp_file := stored1\<rparr>, lr_purges := (lr_purges w)(k \<mapsto> (i, Some right))\<rparr>)"
| "legacyStep (ForgetWrites k ref fails) w =
     (if lr_purges w k \<noteq> None then w
      else case legacy_Forget_write ref fails (lp_file (lr_policy w)) of
        (i, err, stored1) \<Rightarrow>
          w\<lparr>lr_policy := (lr_policy w)\<lparr>lp_file := stored1\<rparr>, lr_purges := (lr_purges w)(k \<mapsto> (i, None))\<rparr>)"
| "legacyStep (Purges k) w =
     (case lr_purges w k of
        None \<Rightarrow> w
      | Some scope \<Rightarrow> w\<lparr>lr_purges := (lr_purges w)(k := None),
          lr_policy := (lr_policy w)\<lparr>lp_tokens := purge (purges scope) (lp_tokens (lr_policy w))\<rparr>\<rparr>)"
| "legacyStep (Checks token now) w = w\<lparr>lr_policy := snd (legacy_Check token now (lr_policy w))\<rparr>"
| "legacyStep (Rewrites stored1) w = w\<lparr>lr_policy := (lr_policy w)\<lparr>lp_file := stored1\<rparr>\<rparr>"

definition legacyRun :: "legacyRunning \<Rightarrow> legacySection list \<Rightarrow> legacyRunning" where
  "legacyRun w es = foldl (\<lambda>q e. legacyStep e q) w es"

lemma legacyRun_simps [simp]: "legacyRun w [] = w" "legacyRun w (es @ [e]) = legacyStep e (legacyRun w es)"
  by (simp_all add: legacyRun_def)

text \<open>Run one after the other, the sections of a call are the operation.\<close>

lemma sections_compose:
  "lr_asks w k = None \<Longrightarrow> lr_policy (legacyRun w [AskReads k secret right, AskStores k token now]) =
     snd (legacy_Ask secret right token now (lr_policy w))"
  "lr_purges w k = None \<Longrightarrow> lr_policy (legacyRun w [RevokeWrites k ref right fails, Purges k]) =
     snd (legacy_Revoke ref right fails (lr_policy w))"
  "lr_purges w k = None \<Longrightarrow> lr_policy (legacyRun w [ForgetWrites k ref fails, Purges k]) =
     snd (legacy_Forget ref fails (lr_policy w))"
  by (auto simp: legacyRun_def legacy_Ask_def legacy_Revoke_def legacy_Forget_def purges_def [abs_def] conj_commute
      split: sum.split prod.split)

text \<open>A section that takes a grant back: the purge of its right, or of its application.\<close>

fun takesBack :: "legacyRunning \<Rightarrow> legacySection \<Rightarrow> grant \<Rightarrow> bool" where
  "takesBack w (Purges k) g \<longleftrightarrow> (case lr_purges w k of None \<Rightarrow> False | Some scope \<Rightarrow> purges scope g)"
| "takesBack w e g \<longleftrightarrow> False"

text \<open>What a call of \<open>Ask\<close> under way has read: a file that gave the right to the secret's application.\<close>

definition askedOf :: "legacyRunning \<Rightarrow> legacySection list \<Rightarrow> nat \<Rightarrow> bytes \<Rightarrow> bytes \<Rightarrow> bool" where
  "askedOf w es k i right \<longleftrightarrow> (\<exists>pre secret mid f r. es = pre @ AskReads k secret right # mid \<and> lr_asks (legacyRun w pre) k = None \<and>
     (\<forall>token now. AskStores k token now \<notin> set mid) \<and> legacy_read (lp_file (lr_policy (legacyRun w pre))) = Inr f \<and>
     r \<in> set (lf_apps f) \<and> rg_hash r = hashOf secret \<and> app_id (rg_app r) = i \<and> right \<in> set (app_rights (rg_app r)))"

text \<open>How a token came to be: the call that stored it last, what that call had read, and no purge of
  its right or application since it was stored.\<close>

definition issued :: "legacyRunning \<Rightarrow> legacySection list \<Rightarrow> bytes \<Rightarrow> grant \<Rightarrow> bool" where
  "issued w es token g \<longleftrightarrow> (\<exists>pre k t0 post. es = pre @ AskStores k token t0 # post \<and> g_expires g = t0 + tokenLife \<and>
     askedOf w pre k (g_app g) (g_right g) \<and>
     (\<forall>mid e rest. post = mid @ e # rest \<longrightarrow> \<not> takesBack (legacyRun w (pre @ AskStores k token t0 # mid)) e g))"

lemma askedOf_later:
  assumes "askedOf w es k i right" and "\<forall>token now. e \<noteq> AskStores k token now"
  shows "askedOf w (es @ [e]) k i right"
proof -
  from assms(1) obtain pre secret mid f r where a: "es = pre @ AskReads k secret right # mid" "lr_asks (legacyRun w pre) k = None"
     "\<forall>token now. AskStores k token now \<notin> set mid" "legacy_read (lp_file (lr_policy (legacyRun w pre))) = Inr f"
     "r \<in> set (lf_apps f)" "rg_hash r = hashOf secret" "app_id (rg_app r) = i" "right \<in> set (app_rights (rg_app r))"
    unfolding askedOf_def by blast
  then have "es @ [e] = pre @ AskReads k secret right # (mid @ [e])" "\<forall>token now. AskStores k token now \<notin> set (mid @ [e])"
    using assms(2) by auto
  with a show ?thesis unfolding askedOf_def by blast
qed

lemma legacyStep_asks:
  assumes "lr_asks (legacyStep e w) k = Some (i, right)"
  shows "(lr_asks w k = Some (i, right) \<and> (\<forall>token now. e \<noteq> AskStores k token now)) \<or>
    (\<exists>secret f r. e = AskReads k secret right \<and> lr_asks w k = None \<and> legacy_read (lp_file (lr_policy w)) = Inr f \<and>
       r \<in> set (lf_apps f) \<and> rg_hash r = hashOf secret \<and> app_id (rg_app r) = i \<and> right \<in> set (app_rights (rg_app r)))"
  using assms
  by (cases e) (auto simp: legacy_Ask_read_def simp del: not_None_eq dest!: find_found split: option.split_asm sum.split_asm prod.split_asm if_split_asm)

lemma asks_asked:
  assumes "lr_asks w = Map.empty"
  shows "lr_asks (legacyRun w es) k = Some (i, right) \<Longrightarrow> askedOf w es k i right"
proof (induction es rule: rev_induct)
  case (snoc e es)
  from snoc.prems have "lr_asks (legacyStep e (legacyRun w es)) k = Some (i, right)" by simp
  from legacyStep_asks [OF this] show ?case
  proof (elim disjE exE conjE)
    assume "lr_asks (legacyRun w es) k = Some (i, right)" "\<forall>token now. e \<noteq> AskStores k token now"
    with snoc.IH askedOf_later show ?thesis by blast
  next
    fix secret f r
    assume "e = AskReads k secret right" and *: "lr_asks (legacyRun w es) k = None"
      "legacy_read (lp_file (lr_policy (legacyRun w es))) = Inr f" "r \<in> set (lf_apps f)" "rg_hash r = hashOf secret"
      "app_id (rg_app r) = i" "right \<in> set (app_rights (rg_app r))"
    then have "es @ [e] = es @ AskReads k secret right # []" "\<forall>token now. AskStores k token now \<notin> set []" by simp_all
    with * show ?thesis unfolding askedOf_def by blast
  qed
qed (simp add: assms)

lemma issued_later:
  assumes "issued w es token g" and "\<not> takesBack (legacyRun w es) e g"
  shows "issued w (es @ [e]) token g"
proof -
  from assms(1) obtain pre k t0 post where i: "es = pre @ AskStores k token t0 # post" "g_expires g = t0 + tokenLife"
    "askedOf w pre k (g_app g) (g_right g)"
    "\<And>mid e rest. post = mid @ e # rest \<Longrightarrow> \<not> takesBack (legacyRun w (pre @ AskStores k token t0 # mid)) e g"
    unfolding issued_def by blast
  have "\<not> takesBack (legacyRun w (pre @ AskStores k token t0 # mid)) x g" if s: "post @ [e] = mid @ x # rest" for mid x rest
  proof (cases rest rule: rev_cases)
    case Nil
    with s assms(2) i(1) show ?thesis by simp
  next
    case (snoc ys y)
    with s have "post = mid @ x # ys" by simp
    then show ?thesis by (rule i(4))
  qed
  moreover have "es @ [e] = pre @ AskStores k token t0 # (post @ [e])" using i(1) by simp
  ultimately show ?thesis using i(2,3) unfolding issued_def by blast
qed

lemma legacyStep_tokens:
  assumes "lp_tokens (lr_policy (legacyStep e w)) token = Some g"
  shows "(lp_tokens (lr_policy w) token = Some g \<and> \<not> takesBack w e g) \<or>
    (\<exists>k t0. e = AskStores k token t0 \<and> g_expires g = t0 + tokenLife \<and> lr_asks w k = Some (g_app g, g_right g))"
  using assms
  by (cases e)
     (auto simp: legacy_Add_def legacy_Grant_def legacy_Ask_store_def legacy_Check_def Let_def purge_def
        dropToken_def split: prod.splits option.splits sum.splits if_split_asm)

lemma tokens_issued:
  assumes "lp_tokens (lr_policy w) = Map.empty" and "lr_asks w = Map.empty"
  shows "lp_tokens (lr_policy (legacyRun w es)) token = Some g \<Longrightarrow> issued w es token g"
proof (induction es arbitrary: g rule: rev_induct)
  case (snoc e es)
  from snoc.prems have "lp_tokens (lr_policy (legacyStep e (legacyRun w es))) token = Some g" by simp
  from legacyStep_tokens [OF this] show ?case
  proof (elim disjE exE conjE)
    assume "lp_tokens (lr_policy (legacyRun w es)) token = Some g" "\<not> takesBack (legacyRun w es) e g"
    with snoc.IH issued_later show ?thesis by blast
  next
    fix k t0
    assume "e = AskStores k token t0" "g_expires g = t0 + tokenLife" "lr_asks (legacyRun w es) k = Some (g_app g, g_right g)"
    with asks_asked [OF assms(2), of es k "g_app g" "g_right g"] have "es @ [e] = es @ AskStores k token t0 # []"
      "g_expires g = t0 + tokenLife" "askedOf w es k (g_app g) (g_right g)" by simp_all
    then show ?thesis unfolding issued_def by fastforce
  qed
qed (simp add: assms)

subsection \<open>Tokens\<close>

text \<open>C38: A token is as good as its grant, in any interleaving of the critical sections of the service's
  operations, with other programs' writes of the file between them, from a start without tokens and
  calls under way: a token that checks was stored, at most an hour before, by a call of \<open>Ask\<close> with the
  secret of that application that had read a file giving it the right; no revocation of that right
  and no forgetting of that application has purged since the token was stored; and whatever happened
  between, the file gives the application that right at the check. A token stored after a purge by a
  call that had read before it survives, and works once the right is granted again.\<close>

theorem token_checks_only_while_granted:
  assumes "lp_tokens (lr_policy w) = Map.empty" and "lr_asks w = Map.empty"
    and "fst (legacy_Check token now (lr_policy (legacyRun w es))) = Inr (a, right)"
  shows "\<exists>g f. issued w es token g \<and> now \<le> g_expires g \<and> g_right g = right \<and> app_id a = g_app g \<and>
    legacy_read (lp_file (lr_policy (legacyRun w es))) = Inr f \<and> a \<in> rg_app ` set (lf_apps f) \<and> right \<in> set (app_rights a)"
proof -
  from assms(3) obtain g f r where g: "lp_tokens (lr_policy (legacyRun w es)) token = Some g" "now \<le> g_expires g"
    "legacy_read (lp_file (lr_policy (legacyRun w es))) = Inr f" "find (\<lambda>r. app_id (rg_app r) = g_app g) (lf_apps f) = Some r"
    "g_right g \<in> set (app_rights (rg_app r))" "a = rg_app r" "right = g_right g"
    by (auto simp: legacy_Check_def split: option.splits sum.splits if_split_asm)
  with tokens_issued [OF assms(1,2) g(1)] find_found [OF g(4)] show ?thesis by blast
qed

definition sampleSeen :: seen where
  "sampleSeen = \<lparr>seen_path = ''/app'', seen_user = ''alice''\<rparr>"

definition freshService :: legacyPolicy where
  "freshService = \<lparr>lp_file = None, lp_tokens = Map.empty\<rparr>"

definition freshRunning :: legacyRunning where
  "freshRunning = \<lparr>lr_policy = freshService, lr_asks = Map.empty, lr_purges = Map.empty\<rparr>"

text \<open>A call of \<open>Ask\<close> reads the grant; the right is revoked and the tokens purged; the call stores its
  token; the right is granted again.\<close>

definition revivedRun :: "legacySection list" where
  "revivedRun = [Adds ''player'' [''awake''] sampleSeen ''id'' ''secret'' 0 None, AskReads 1 ''secret'' ''awake'',
     RevokeWrites 2 ''id'' ''awake'' None, Purges 2, AskStores 1 ''token'' 5, Grants ''id'' ''awake'' None]"

lemma revoked_right_revives:
  "fst (legacy_Check ''token'' 7 (lr_policy (legacyRun freshRunning revivedRun))) =
     Inr (\<lparr>app_id = ''id'', app_name = ''player'', app_rights = [''awake''], app_registered = 0, app_seen = sampleSeen\<rparr>, ''awake'')"
  by (simp add: legacyRun_def freshRunning_def freshService_def revivedRun_def legacy_Add_def legacy_Grant_def legacy_Ask_read_def
      legacy_Ask_store_def legacy_Revoke_write_def legacy_Check_def legacy_change_def legacy_read_def noApps_def findApp_def setRights_def
      Known_def RightAwake_def tokenLife_def purge_def purges_def Let_def)

theorem token_checks_only_while_granted_witness:
  "\<exists>g. issued freshRunning revivedRun ''token'' g \<and> g_app g = ''id'' \<and> g_right g = ''awake''"
proof -
  have "lp_tokens (lr_policy freshRunning) = Map.empty" "lr_asks freshRunning = Map.empty"
    by (simp_all add: freshRunning_def freshService_def)
  from token_checks_only_while_granted [OF this revoked_right_revives] show ?thesis by auto
qed

subsection \<open>Refusals\<close>

text \<open>A refusal keeps its meaning over the wire: the code stands for the error, and every refusal
  is one.\<close>

lemma failure_unwraps:
  "\<exists>r. responseErr (failure e) = Some r \<and> unwrapRemote r = (case e of LegacyError t \<Rightarrow> None | _ \<Rightarrow> Some e)"
  by (cases e) (simp_all add: failure_def refuseCode_def responseErr_def codeOf_def okResponse_def unwrapRemote_def)

text \<open>Without the administrator's secret nothing is administered.\<close>

lemma not_administrator:
  assumes "hashOf (rq_admin req) \<noteq> sv_admin s" and "rq_op req \<noteq> ''ask''" and "rq_op req \<noteq> ''check''"
  shows "snd (answer rows su req s) = s"
  using assms by (simp add: answer_def)

end
