(* ===== verification/Legacy_Client.thy ===== *)
theory Legacy_Client
  imports Legacy_Facts
begin

text \<open>
  The client of the first rights service (client.go), the way a connection is served (service.go,
  \<open>serve\<close>) and the holder a job asks for a wake hold (registration.go). One call is one connection:
  its line carries the request there and the response back. Dialling, JSON and the read that waits
  for the end of a hold are the line's.
\<close>

subsection \<open>Serving a connection\<close>

text \<open>What one connection meets: the caller the transport proved, or its refusal; what \<open>Await\<close> and the
  recheck bring; the random identifiers; its own number; the platform's answer and the lease book; and
  the stored file as other programs left it.\<close>

record connection =
  cn_refused :: "bytes option"
  cn_seen :: seen
  cn_asked :: awaited
  cn_recheck :: "bytes option"
  cn_randomID :: bytes
  cn_secret :: bytes
  cn_number :: nat
  cn_platform :: "bytes option"
  cn_lease :: bytes
  cn_rows :: "awakeHold list"
  cn_surroundings :: surroundings
  cn_file :: stored

definition serve :: "connection \<Rightarrow> bytes + request \<Rightarrow> service \<Rightarrow> response \<times> service" where
  "serve cn frame s = (case cn_refused cn of
     Some e \<Rightarrow> (refuseCode ''caller_refused'' (''rights: refused, '' @ e), s)
   | None \<Rightarrow> (case frame of
       Inl e \<Rightarrow> (refuseCode ''invalid_request'' (''not a request: '' @ e), s)
     | Inr req \<Rightarrow>
        if rq_op req = ''register'' then
          register (cn_seen cn) (cn_asked cn) (cn_recheck cn) (cn_randomID cn) (cn_secret cn) (cn_surroundings cn) req s
        else if rq_op req = ''hold'' then
          hold (cn_seen cn) (cn_number cn) (cn_platform cn) (cn_lease cn) (cn_surroundings cn) req s
        else answer (cn_rows cn) (cn_surroundings cn) req s))"

subsection \<open>The client\<close>

text \<open>Nothing listened; the connection, the request or the reply broke; the service refused; or the
  reply to a check has no application, which the client dereferences and panics.\<close>

datatype clientError = NoService bytes | BrokenLine bytes | Refused remoteError | NilDereference

type_synonym 's line = "request \<Rightarrow> 's \<Rightarrow> 's \<times> (clientError + response)"

definition noRequest :: request where
  "noRequest = \<lparr>rq_op = [], rq_name = [], rq_rights = [], rq_secret = [], rq_token = [], rq_right = [], rq_why = [], rq_app = [],
     rq_admin = []\<rparr>"

definition client_open :: "bytes \<Rightarrow> 's line \<Rightarrow> request \<Rightarrow> 's \<Rightarrow> 's \<times> (clientError + response)" where
  "client_open admin line req s = (case line (req\<lparr>rq_admin := admin\<rparr>) s of
     (s1, Inl e) \<Rightarrow> (s1, Inl e)
   | (s1, Inr resp) \<Rightarrow> (s1, case responseErr resp of Some e \<Rightarrow> Inl (Refused e) | None \<Rightarrow> Inr resp))"

text \<open>Every operation but a hold closes its connection at once.\<close>

definition client_Do :: "bytes \<Rightarrow> 's line \<Rightarrow> request \<Rightarrow> (response \<Rightarrow> clientError + 'r) \<Rightarrow> 's \<Rightarrow> 's \<times> (clientError + 'r)" where
  "client_Do admin line req result s = (case client_open admin line req s of
     (s1, Inl e) \<Rightarrow> (s1, Inl e)
   | (s1, Inr resp) \<Rightarrow> (s1, result resp))"

definition client_Register :: "bytes \<Rightarrow> 's line \<Rightarrow> bytes \<Rightarrow> bytes list \<Rightarrow> 's \<Rightarrow> 's \<times> (clientError + bytes)" where
  "client_Register admin line name rights =
     client_Do admin line (noRequest\<lparr>rq_op := ''register'', rq_name := name, rq_rights := rights\<rparr>) (\<lambda>r. Inr (rp_secret r))"

definition client_Ask :: "bytes \<Rightarrow> 's line \<Rightarrow> bytes \<Rightarrow> bytes \<Rightarrow> 's \<Rightarrow> 's \<times> (clientError + bytes \<times> instant)" where
  "client_Ask admin line secret right =
     client_Do admin line (noRequest\<lparr>rq_op := ''ask'', rq_secret := secret, rq_right := right\<rparr>) (\<lambda>r. Inr (rp_token r, rp_expires r))"

definition client_Check :: "bytes \<Rightarrow> 's line \<Rightarrow> bytes \<Rightarrow> 's \<Rightarrow> 's \<times> (clientError + app \<times> bytes)" where
  "client_Check admin line token =
     client_Do admin line (noRequest\<lparr>rq_op := ''check'', rq_token := token\<rparr>)
       (\<lambda>r. case rp_app r of None \<Rightarrow> Inl NilDereference | Some a \<Rightarrow> Inr (a, rp_right r))"

definition client_Hold :: "bytes \<Rightarrow> 's line \<Rightarrow> bytes \<Rightarrow> bytes \<Rightarrow> 's \<Rightarrow> 's \<times> (clientError + unit)" where
  "client_Hold admin line token why =
     client_Do admin line (noRequest\<lparr>rq_op := ''hold'', rq_token := token, rq_why := why\<rparr>) (\<lambda>r. Inr ())"

definition client_Apps :: "bytes \<Rightarrow> 's line \<Rightarrow> 's \<Rightarrow> 's \<times> (clientError + app list)" where
  "client_Apps admin line = client_Do admin line (noRequest\<lparr>rq_op := ''apps''\<rparr>) (\<lambda>r. Inr (rp_apps r))"

definition client_Grant :: "bytes \<Rightarrow> 's line \<Rightarrow> bytes \<Rightarrow> bytes \<Rightarrow> 's \<Rightarrow> 's \<times> (clientError + unit)" where
  "client_Grant admin line app right =
     client_Do admin line (noRequest\<lparr>rq_op := ''grant'', rq_app := app, rq_right := right\<rparr>) (\<lambda>r. Inr ())"

definition client_Revoke :: "bytes \<Rightarrow> 's line \<Rightarrow> bytes \<Rightarrow> bytes \<Rightarrow> 's \<Rightarrow> 's \<times> (clientError + unit)" where
  "client_Revoke admin line app right =
     client_Do admin line (noRequest\<lparr>rq_op := ''revoke'', rq_app := app, rq_right := right\<rparr>) (\<lambda>r. Inr ())"

definition client_Forget :: "bytes \<Rightarrow> 's line \<Rightarrow> bytes \<Rightarrow> 's \<Rightarrow> 's \<times> (clientError + unit)" where
  "client_Forget admin line app = client_Do admin line (noRequest\<lparr>rq_op := ''forget'', rq_app := app\<rparr>) (\<lambda>r. Inr ())"

definition client_Holds :: "bytes \<Rightarrow> 's line \<Rightarrow> 's \<Rightarrow> 's \<times> (clientError + holdRow list)" where
  "client_Holds admin line = client_Do admin line (noRequest\<lparr>rq_op := ''holds''\<rparr>) (\<lambda>r. Inr (rp_holds r))"

subsection \<open>A registered application holds\<close>

text \<open>To a job a service that is not there is an absent holder, no refusal.\<close>

datatype heldError = AbsentHolder clientError | HoldRefused clientError

definition answeredJob :: "clientError \<Rightarrow> heldError" where
  "answeredJob e = (case e of NoService text1 \<Rightarrow> AbsentHolder e | _ \<Rightarrow> HoldRefused e)"

text \<open>Two connections: one asks for a token, the other holds on it.\<close>

definition registration_Hold :: "bytes \<Rightarrow> bytes \<Rightarrow> 's line \<Rightarrow> 's line \<Rightarrow> bytes \<Rightarrow> bytes \<Rightarrow> 's \<Rightarrow> 's \<times> (heldError + unit)" where
  "registration_Hold admin secret asking holding who why s = (case client_Ask admin asking secret RightAwake s of
     (s1, Inl e) \<Rightarrow> (s1, Inl (answeredJob e))
   | (s1, Inr (token, expires)) \<Rightarrow> (case client_Hold admin holding token (who @ '': '' @ why) s1 of
       (s2, Inl e) \<Rightarrow> (s2, Inl (answeredJob e))
     | (s2, Inr lease) \<Rightarrow> (s2, Inr lease)))"

subsection \<open>Holding through the service\<close>

text \<open>A line to the service itself.\<close>

definition serviceLine :: "connection \<Rightarrow> service line" where
  "serviceLine cn req s =
     (case serve cn (Inr req) (s\<lparr>sv_policy := sv_policy s\<lparr>lp_file := cn_file cn\<rparr>\<rparr>) of (resp, s1) \<Rightarrow> (s1, Inr resp))"

lemma refusals_refuse [simp]:
  "responseErr (failure e) = None \<longleftrightarrow> False" "responseErr (refuseCode c t) = None \<longleftrightarrow> c = [] \<and> t = []"
  using failure_unwraps [of e] by (auto simp: responseErr_def refuseCode_def okResponse_def)

lemma client_Do_answered:
  assumes "client_Do admin (serviceLine cn) req result s = (s1, Inr x)"
  shows "\<exists>resp. serve cn (Inr (req\<lparr>rq_admin := admin\<rparr>)) (s\<lparr>sv_policy := sv_policy s\<lparr>lp_file := cn_file cn\<rparr>\<rparr>) = (resp, s1) \<and>
    responseErr resp = None \<and> result resp = Inr x"
  using assms by (auto simp: client_Do_def client_open_def serviceLine_def split: prod.split_asm sum.split_asm option.split_asm)

lemma client_Ask_answered:
  assumes "client_Ask admin (serviceLine cn) secret right s = (s1, Inr (token, expires))"
  shows "\<exists>f r. legacy_read (cn_file cn) = Inr f \<and> r \<in> set (lf_apps f) \<and> rg_hash r = hashOf secret \<and>
    right \<in> set (app_rights (rg_app r)) \<and> sv_holds s1 = sv_holds s \<and> sv_leases s1 = sv_leases s \<and>
    lp_tokens (sv_policy s1) token =
      Some \<lparr>g_app = app_id (rg_app r), g_right = right, g_expires = su_now (cn_surroundings cn) + tokenLife\<rparr>"
  using client_Do_answered [OF assms [unfolded client_Ask_def]]
  by (auto simp: serve_def noRequest_def answer_def legacy_Ask_def legacy_Ask_read_def legacy_Ask_store_def Let_def dest!: find_found
      split: prod.split_asm sum.split_asm option.split_asm if_split_asm)

lemma client_Hold_answered:
  assumes "client_Hold admin (serviceLine cn) token why s = (s1, Inr u)"
  shows "\<exists>a. fst (legacy_Check token (su_now (cn_surroundings cn)) (sv_policy s\<lparr>lp_file := cn_file cn\<rparr>)) = Inr (a, RightAwake) \<and>
    cn_platform cn = None \<and>
    sv_holds s1 = sv_holds s @ [\<lparr>ho_row = \<lparr>hd_app = app_id a, hd_name = app_name a, hd_right = RightAwake, hd_why = why,
      hd_since = su_now (cn_surroundings cn), hd_seen = Some (cn_seen cn), hd_lease = (if sv_leases s then cn_lease cn else [])\<rparr>,
      ho_conn = cn_number cn\<rparr>]"
  using client_Do_answered [OF assms [unfolded client_Hold_def]]
  by (auto simp: serve_def noRequest_def hold_def Alias_def Let_def split: prod.split_asm sum.split_asm option.split_asm if_split_asm)

text \<open>C39: A job's hold is a granted hold: when a registered application gets a wake hold, asking for a
  token on one connection and holding on it on the next, then its secret is that of an application
  the file granted the right to when it asked, the same application still had it when the hold
  began, at most an hour later, the platform took the request, and the service's table has one
  more row: that application's, with who holds and why, on that connection.\<close>

theorem job_hold_is_granted:
  assumes "registration_Hold admin secret (serviceLine asking) (serviceLine holding) who why s = (s2, Inr u)"
  shows "\<exists>f r g q. legacy_read (cn_file asking) = Inr f \<and> r \<in> set (lf_apps f) \<and> rg_hash r = hashOf secret \<and>
    RightAwake \<in> set (app_rights (rg_app r)) \<and>
    legacy_read (cn_file holding) = Inr g \<and> q \<in> set (lf_apps g) \<and> app_id (rg_app q) = app_id (rg_app r) \<and>
    RightAwake \<in> set (app_rights (rg_app q)) \<and>
    su_now (cn_surroundings holding) \<le> su_now (cn_surroundings asking) + tokenLife \<and> cn_platform holding = None \<and>
    sv_holds s2 = sv_holds s @ [\<lparr>ho_row = \<lparr>hd_app = app_id (rg_app r), hd_name = app_name (rg_app q), hd_right = RightAwake,
      hd_why = who @ '': '' @ why, hd_since = su_now (cn_surroundings holding), hd_seen = Some (cn_seen holding),
      hd_lease = (if sv_leases s then cn_lease holding else [])\<rparr>, ho_conn = cn_number holding\<rparr>]"
proof -
  from assms obtain s1 token expires where ask: "client_Ask admin (serviceLine asking) secret RightAwake s = (s1, Inr (token, expires))"
    and hold: "client_Hold admin (serviceLine holding) token (who @ '': '' @ why) s1 = (s2, Inr u)"
    by (auto simp: registration_Hold_def split: prod.split_asm sum.split_asm)
  from client_Ask_answered [OF ask] obtain f r where f: "legacy_read (cn_file asking) = Inr f" "r \<in> set (lf_apps f)"
    "rg_hash r = hashOf secret" "RightAwake \<in> set (app_rights (rg_app r))" and kept: "sv_holds s1 = sv_holds s" "sv_leases s1 = sv_leases s"
    and token: "lp_tokens (sv_policy s1) token =
      Some \<lparr>g_app = app_id (rg_app r), g_right = RightAwake, g_expires = su_now (cn_surroundings asking) + tokenLife\<rparr>" by blast
  from client_Hold_answered [OF hold] obtain a where
    a: "fst (legacy_Check token (su_now (cn_surroundings holding)) (sv_policy s1\<lparr>lp_file := cn_file holding\<rparr>)) = Inr (a, RightAwake)"
      "cn_platform holding = None"
    and row: "sv_holds s2 = sv_holds s1 @ [\<lparr>ho_row = \<lparr>hd_app = app_id a, hd_name = app_name a,
      hd_right = RightAwake, hd_why = who @ '': '' @ why, hd_since = su_now (cn_surroundings holding), hd_seen = Some (cn_seen holding),
      hd_lease = (if sv_leases s1 then cn_lease holding else [])\<rparr>, ho_conn = cn_number holding\<rparr>]" by blast
  from a(1) obtain g q where g: "legacy_read (cn_file holding) = Inr g" "q \<in> set (lf_apps g)"
    "app_id (rg_app q) = app_id (rg_app r)" "a = rg_app q" "RightAwake \<in> set (app_rights (rg_app q))"
    "su_now (cn_surroundings holding) \<le> su_now (cn_surroundings asking) + tokenLife"
    by (auto simp: legacy_Check_def token dest!: find_found split: option.split_asm if_split_asm sum.split_asm)
  show ?thesis
    by (intro exI [of _ f] exI [of _ r] exI [of _ g] exI [of _ q] conjI) (use f a(2) row kept g in simp_all)
qed

definition sampleConnection :: "nat \<Rightarrow> connection" where
  "sampleConnection n = \<lparr>cn_refused = None, cn_seen = sampleSeen, cn_asked = Overdue, cn_recheck = None, cn_randomID = [], cn_secret = [],
     cn_number = n, cn_platform = None, cn_lease = ''lease'', cn_rows = [],
     cn_surroundings = \<lparr>su_now = n, su_token = ''token'', su_fails = None\<rparr>,
     cn_file = Some (Inr \<lparr>lf_apps = [\<lparr>rg_app = \<lparr>app_id = ''id'', app_name = ''player'', app_rights = [''awake''], app_registered = 0,
       app_seen = sampleSeen\<rparr>, rg_hash = hashOf ''secret''\<rparr>], lf_profile = []\<rparr>)\<rparr>"

theorem job_hold_is_granted_witness:
  "\<exists>s2. registration_Hold [] ''secret'' (serviceLine (sampleConnection 1)) (serviceLine (sampleConnection 2)) ''job'' ''encoding''
      \<lparr>sv_policy = freshService, sv_admin = [], sv_holds = [], sv_closed = [], sv_leases = False\<rparr> = (s2, Inr ()) \<and>
    map (\<lambda>h. (hd_app (ho_row h), hd_why (ho_row h))) (sv_holds s2) = [(''id'', ''job: encoding'')]"
proof -
  let ?s = "\<lparr>sv_policy = freshService, sv_admin = [], sv_holds = [], sv_closed = [], sv_leases = False\<rparr>"
  have run: "\<exists>s2. registration_Hold [] ''secret'' (serviceLine (sampleConnection 1)) (serviceLine (sampleConnection 2)) ''job'' ''encoding'' ?s =
      (s2, Inr ())"
    by (simp add: registration_Hold_def client_Ask_def client_Hold_def client_Do_def client_open_def serviceLine_def serve_def
        sampleConnection_def noRequest_def answer_def hold_def legacy_Ask_def legacy_Ask_read_def legacy_Ask_store_def legacy_Check_def legacy_read_def freshService_def
        RightAwake_def Alias_def okResponse_def responseErr_def tokenLife_def Let_def)
  then obtain s2 where "registration_Hold [] ''secret'' (serviceLine (sampleConnection 1)) (serviceLine (sampleConnection 2)) ''job''
    ''encoding'' ?s = (s2, Inr ())" by blast
  from this job_hold_is_granted [OF this] show ?thesis
    by (auto simp: sampleConnection_def legacy_read_def)
qed

end
