(* ===== verification/Spec2Isabelle.thy ===== *)
theory Spec2Isabelle
  imports Remote_Host Message_Facts Legacy_Client
begin

text \<open>
  The rights policy of abstraction-rights: who may do what on this machine, who may change that, and
  how both are asked over the wire. The model follows the Go sources under src/go.

  \<^bold>\<open>The program and its parts.\<close> A policy is one stored file (decision_policy.go): exact rules (a
  subject, an action, a resource, permit or deny, an expiry), typed rules over definitions
  (selector_policy.go), registered actions, descriptions, default switches and receipts of completed
  answers. A decision reads the file, or a cached decoding of it, and answers. An edit runs inside a
  locked change that is retried when the file moved. A host (authorization/) serves four interfaces
  over frames -- decisions and edits, exact and typed -- and admits every call by the peer's proof;
  the generated code of rec.go carries the calls; the clients (client/) check what they send and
  what comes back. The first rights service (service.go, policy.go) is older: applications, secrets,
  tokens, and holds of the wake request, over one JSON line.

  \<^bold>\<open>Which theory models what.\<close>
  \<^item> \<open>Prelude\<close>: lists in strict key order, shared by everything.
  \<^item> \<open>Go_Strings\<close>, \<open>Stamps\<close>, \<open>Selection\<close>, \<open>Sha256\<close>, \<open>Json_Text\<close>: Go strings as bytes with their UTF-8
    runes, millisecond stamps, the choice of the best of a list (locale \<open>preference\<close>), the digest,
    the text of JSON and base 64.
  \<^item> \<open>Wire\<close>, \<open>Wire_Text\<close>, \<open>Page_Text\<close>: the records and closed vocabularies of rec.go, and the encoders
    whose length the code measures.
  \<^item> \<open>Subjects\<close>, \<open>Rules\<close>: subjects and targets, the deciding rule, merging of spellings, expiry, meta-rules
    (decision_policy.go, meta_rules.go).
  \<^item> \<open>Definitions\<close>: permission definitions, rows, bundles, legacy equivalences and their digest
    (permission_definition.go, selector_definition.go).
  \<^item> \<open>Decision_File\<close>, \<open>Decision_State\<close>, \<open>State_Text\<close>, \<open>Written_State\<close>: the file's fields, its text, every
    check of decoding, the revision, and that a written state is read back.
  \<^item> \<open>Store\<close>: the decoded-state cache, the stored program keys, the locked change with its retries.
  \<^item> \<open>Rule_Edits\<close>, \<open>Decisions\<close>, \<open>Operator_Edits\<close>, \<open>Answer_Edits\<close>, \<open>Selector_Edits\<close>: the operations of the policy, one
    definition per method and per closure handed to \<open>change\<close>.
  \<^item> \<open>Host\<close>, \<open>Endpoint\<close>: the receivers of package authorization with their admission, refusals and paging;
    the endpoint that serves them over frames.
  \<^item> \<open>Client\<close>: what each call of package client refuses to send and accepts of an answer.
  \<^item> \<open>Reader\<close>, \<open>Refusals\<close>: the generated reader of rec.go, its primitives, loops, skipping and refusals.
  \<^item> \<open>Exact_Messages\<close>, \<open>Selector_Messages\<close>, \<open>First_Messages\<close>, \<open>Call_Messages\<close>: per message type its encoder, its decoder
    and the variants with a depth; the last one holds the arguments and results of every method.
  \<^item> \<open>Frames\<close>, \<open>Services\<close>: request and reply envelopes, \<open>DescribeEndpoint\<close> and \<open>ServeEndpoint\<close>, the four
    dispatchers with the recovery of a handler's panic, the generated clients over a transport.
  \<^item> \<open>Legacy_Policy\<close>, \<open>Legacy_Client\<close>: the first service and its client (policy.go, service.go, errors.go,
    wire.go, awake_leases.go, client.go, registration.go).
  The other theories hold facts and samples.

  \<^bold>\<open>How state and operations correspond.\<close> The stored file is its bytes; its decoded value is the record
  \<open>decisionFile\<close>, field by field as the Go struct. An edit takes the file, and for each of its runs a
  \<open>turn\<close>: the clock, the result of the authorisation callback, and the fate of the write (it succeeds,
  the file moved to another content, or it fails). A call of the host meets a \<open>visit\<close>: the evidence of
  the peer at every admission, the turns, the clock and the state a read returns. Errors are values;
  every early return is a branch. A handler of a dispatcher is a step on the state of its
  transport -- for the host, the stored file -- that returns, fails or panics. Go strings are lists of
  bytes, integers of the wire are bounded by the reader, times count nanoseconds.

  \<^bold>\<open>Interfaces.\<close> \<open>preference\<close> is an order by which a scan keeps the best of a list; its interpretation
  \<open>deciding\<close> is the order among rules. \<open>guarded_edit\<close> is an edit that checks its authorisation and what
  it admits before it writes; its facts -- one admitted write or none -- are interpreted for each of
  the policy's edits. \<open>paged\<close> is a listing that is followed by cursors. \<open>codec\<close> is a message type whose
  texts are read back, whose decoder ends, yields typed values and speaks only words of the
  contract, and which skipping agrees with; it is interpreted for every message type. \<open>remote\<close> is a
  method of a service called over frames; it is interpreted for each of the thirty-one methods on
  the dispatchers of rec.go.

  \<^bold>\<open>What the lemmas show.\<close>
  \<^item> Decisions (\<open>Decision_Facts\<close>): when a legacy or typed decision permits or denies, that blocks cross
    an equivalence both ways, that expired rules count for nothing, that consent is refused exactly where a block meets it.
  \<^item> Edits (\<open>Edit_Facts\<close>, \<open>Group_Facts\<close>, \<open>Change_Facts\<close>, \<open>Linear\<close>, \<open>Answer_Facts\<close>, \<open>Revoke_Facts\<close>, \<open>Catalogue_Facts\<close>,
    \<open>Selector_Facts\<close>): what each operation leaves, that an edit touches nothing else, that grouped edits
    are all or nothing, that an answer takes effect once, that a stopped answerer writes nothing, and
    that what was set is then decided.
  \<^item> The store (\<open>Store_Facts\<close>): one write or none, one text per state, bounds of what is decoded, faithful
    stamps, a cache that is stale for less than two seconds while the file system changes under it,
    merging that never grants.
  \<^item> The host and its clients (\<open>Host_Facts\<close>, \<open>Paging\<close>, \<open>Client_Facts\<close>): writes are admitted twice, listings
    end and are complete, enforced access is permitted access, and the grouped edit's client refuses
    every conflict about a rule of the other effect.
  \<^item> The wire (\<open>Codecs\<close>, \<open>Round_Trips\<close>, \<open>Skipping\<close>, \<open>Carried\<close>, \<open>Message_Codec\<close>, \<open>Message_Facts\<close>): the reader ends on
    any bytes and refuses in the contract's words, every typed message is read back, and what was
    read once is carried whole inside a frame.
  \<^item> Calls over frames (\<open>Frame_Facts\<close>, \<open>Remote_Methods\<close>, \<open>Host_Description\<close>, \<open>Endpoint_Facts\<close>, \<open>Remote_Host\<close>):
    every frame is answered, a frame changes the file only as the call it spells, and the client
    is told exactly what the receiver decided.
  \<^item> The first service (\<open>Legacy_Facts\<close>, \<open>Legacy_Client\<close>): a token is as good as its grant in any interleaving
    of the critical sections of the operations, and comes back with the grant when it was stored by a
    call a revocation overtook (\<open>revoked_right_revives\<close>); a job's hold is a granted hold.

  \<^bold>\<open>Bounds and fuel.\<close> A change makes \<open>decisionChangeAttempts\<close> = 4 attempts and stores at most
  \<open>MaxDecisionBytes\<close>, as the code does. Following a listing takes at most one page per rule, plus one.
  A loop of the reader has one round more than bytes to read, because a round consumes its comma;
  skipping nests at most \<open>depthLimit\<close> + 1 = 65 deep, because entering counts depth against the limit
  64. A read of the decision state is one instant: its cache check, its decoding and the new entry share
  one clock reading. \<open>Unfinished\<close>, the mark of spent fuel, is never a result (\<open>tame\<close>).

  \<^bold>\<open>Named hypotheses\<close> state the documented behaviour of what is outside: \<open>byteEqualNames\<close>, \<open>longNames\<close>,
  \<open>freshKeys\<close>, \<open>programClasses\<close> and \<open>reflexiveTargets\<close> of the identity package's path names; \<open>ready\<close> of a
  policy loaded by the code's own constructor; \<open>foreignErrors\<close> of errors that come from outside;
  \<open>trustedHost\<close> of the runtime callbacks that commit an answer with the recheck they are given;
  \<open>fairListing\<close> of a policy nobody edits while it is listed; \<open>revised\<close> of a snapshot that carries the
  revision of its own state. Each is met by the samples.

  \<^bold>\<open>Not modelled.\<close> Listening, sessions, slots, goroutines and time limits of the host, and the sockets of
  the first service: they are the operating system's and the listen package's. Requests of the first
  service run one after the other in \<open>answer\<close>; the critical sections of its policy interleave in
  \<open>Legacy_Facts\<close>. The lock and
  compare-and-swap of the stored file (package cas) are the fates of a turn. The JSON text of the
  first service's file and lines: standard library; the model starts from the value. Maps of raw values
  (\<open>rawMap\<close>, \<open>rawmap\<close>), which no message of this contract has, and the \<open>MarshalJSON\<close> and \<open>UnmarshalJSON\<close>
  methods of the vocabularies, which only an application's own encoding/json would call. The
  command line (serve.go, cmd/), the platform's wake request (awake_unix.go, awake_windows.go),
  the aliases of client/contract.go, and the bindings of other languages, which are generated from
  the same contract.
\<close>

end
